(* ===== verification/Prelude.thy ===== *)
theory Prelude
  imports
    Complex_Main
    "HOL-Library.Word"
    "HOL-Library.Multiset"
    "HOL-Library.Monad_Syntax"
    "HOL-Library.Signed_Division"
    "HOL-Library.Sublist"
begin

text \<open>
  Shared material of the development.

  \<^item> Type synonyms for the machine integers of the code, and the C++ conversions the code
    relies on: \<open>float\<close> to \<open>int\<close> truncates towards zero, \<open>int\<close> to \<open>size_t\<close> wraps.
  \<^item> \<open>exchange_sort\<close>: the pairwise exchange loop the code writes out by hand in
    \<open>CombineLayer\<close>, \<open>ResetLayerFromTmp\<close>, \<open>ResetLayerFromTmpExceptFB\<close> and \<open>SetLayers\<close>,
    with the interface \<open>layer_sort\<close> its users rely on.
  \<^item> \<open>smap\<close>: \<open>std::map<int, std::vector<T>>\<close> as a key-sorted association list.
  \<^item> The collections \<open>vop_defs\<close> (definitions that proofs unfold) and \<open>frame_rules\<close>
    (which fields an operation leaves alone).
\<close>

named_theorems vop_defs "definitions unfolded by the component proofs"
named_theorems frame_rules "fields that an operation does not change"

unbundle bit_operations_syntax

type_synonym u16 = "16 word"
type_synonym u32 = "32 word"
type_synonym u64 = "64 word"

section \<open>C++ conversions\<close>

definition trunc_rat :: "rat \<Rightarrow> int" where
  "trunc_rat r = (if 0 \<le> r then floor r else ceiling r)"

definition to_size :: "int \<Rightarrow> nat" where
  "to_size i = nat (i mod 2 ^ 64)"

definition has_bits :: "u64 \<Rightarrow> u64 \<Rightarrow> bool" where
  "has_bits w m \<longleftrightarrow> w AND m \<noteq> 0"

lemma trunc_rat_of_int [simp]: "trunc_rat (of_int i) = i"
  by (simp add: trunc_rat_def)

lemma to_size_nonneg [simp]: "0 \<le> i \<Longrightarrow> i < 2 ^ 64 \<Longrightarrow> to_size i = nat i"
  by (simp add: to_size_def)

lemma to_size_of_nat [simp]: "n < 2 ^ 64 \<Longrightarrow> to_size (int n) = n"
  by (simp add: to_size_def)

section \<open>Lists updated in place\<close>

definition swap_at :: "'a list \<Rightarrow> nat \<Rightarrow> nat \<Rightarrow> 'a list" where
  "swap_at xs i j = xs[i := xs ! j, j := xs ! i]"

definition remove_at :: "nat \<Rightarrow> 'a list \<Rightarrow> 'a list" where
  "remove_at i xs = take i xs @ drop (Suc i) xs"

definition insert_at :: "nat \<Rightarrow> 'a \<Rightarrow> 'a list \<Rightarrow> 'a list" where
  "insert_at i x xs = take i xs @ x # drop i xs"

lemma length_swap_at [simp]: "length (swap_at xs i j) = length xs"
  by (simp add: swap_at_def)

lemma mset_swap_at [simp]:
  "i < length xs \<Longrightarrow> j < length xs \<Longrightarrow> mset (swap_at xs i j) = mset xs"
  by (simp add: swap_at_def mset_swap)

lemma take_swap_at [simp]: "k \<le> i \<Longrightarrow> k \<le> j \<Longrightarrow> take k (swap_at xs i j) = take k xs"
  by (simp add: swap_at_def)

lemma nth_swap_at:
  "i < length xs \<Longrightarrow> j < length xs \<Longrightarrow> k < length xs \<Longrightarrow>
   swap_at xs i j ! k = (if k = i then xs ! j else if k = j then xs ! i else xs ! k)"
  by (auto simp: swap_at_def nth_list_update)

lemma length_remove_at [simp]: "i < length xs \<Longrightarrow> length (remove_at i xs) = length xs - 1"
  by (simp add: remove_at_def)

lemma mset_remove_at: "i < length xs \<Longrightarrow> mset xs = add_mset (xs ! i) (mset (remove_at i xs))"
  by (metis (no_types, lifting) add_mset_add_single append.assoc append_Cons append_Nil
      id_take_nth_drop mset.simps(2) mset_append remove_at_def union_mset_add_mset_right)

lemma mset_insert_at [simp]: "mset (insert_at i x xs) = add_mset x (mset xs)"
  by (metis (no_types, lifting) append_take_drop_id insert_at_def mset.simps(2) mset_append
      union_mset_add_mset_right)

lemma set_insert_at [simp]: "set (insert_at i x xs) = insert x (set xs)"
  by (metis mset_insert_at set_mset_add_mset_insert set_mset_mset)

lemma length_insert_at [simp]: "length (insert_at i x xs) = Suc (length xs)"
  by (metis mset_insert_at size_add_mset size_mset)

lemma fold_fun_upd_idem:
  assumes "\<And>x. f (f x) = f x"
  shows "fold (\<lambda>p h. h(p := f (h p))) ps h q = (if q \<in> set ps then f (h q) else h q)"
  by (induction ps arbitrary: h) (auto simp: assms)

section \<open>The exchange loop\<close>

text \<open>
  The body \<open>for j = i+1 .. n: if key[i] > key[j] then swap(i, j)\<close>, and the loop over
  \<open>i = 0 .. n-2\<close> around it.
\<close>

function esort_inner :: "('a \<Rightarrow> 'k::linorder) \<Rightarrow> nat \<Rightarrow> nat \<Rightarrow> 'a list \<Rightarrow> 'a list" where
  "esort_inner key i j xs =
     (if j < length xs
      then esort_inner key i (Suc j)
             (if key (xs ! j) < key (xs ! i) then swap_at xs i j else xs)
      else xs)"
  by pat_completeness auto
termination
  by (relation "measure (\<lambda>(key, i, j, xs). length xs - j)") auto

declare esort_inner.simps [simp del]

lemma length_esort_inner [simp]: "length (esort_inner key i j xs) = length xs"
proof (induction key i j xs rule: esort_inner.induct)
  case (1 key i j xs)
  then show ?case by (subst esort_inner.simps) auto
qed

function esort_outer :: "('a \<Rightarrow> 'k::linorder) \<Rightarrow> nat \<Rightarrow> 'a list \<Rightarrow> 'a list" where
  "esort_outer key i xs =
     (if Suc i < length xs then esort_outer key (Suc i) (esort_inner key i (Suc i) xs) else xs)"
  by pat_completeness auto
termination
  by (relation "measure (\<lambda>(key, i, xs). length xs - i)") auto

declare esort_outer.simps [simp del]

definition exchange_sort :: "('a \<Rightarrow> 'k::linorder) \<Rightarrow> 'a list \<Rightarrow> 'a list" where
  "exchange_sort key xs = esort_outer key 0 xs"

lemma esort_inner_props:
  assumes "i < j" "j \<le> length xs" "\<forall>k. i < k \<and> k < j \<longrightarrow> key (xs ! i) \<le> key (xs ! k)"
  shows "take i (esort_inner key i j xs) = take i xs
       \<and> mset (esort_inner key i j xs) = mset xs
       \<and> (\<forall>k. i < k \<and> k < length xs \<longrightarrow>
            key (esort_inner key i j xs ! i) \<le> key (esort_inner key i j xs ! k))"
  using assms
proof (induction key i j xs rule: esort_inner.induct)
  case (1 key i j xs)
  show ?case
  proof (cases "j < length xs")
    case False
    then have "esort_inner key i j xs = xs" by (simp add: esort_inner.simps [of key i j xs])
    with "1.prems" False show ?thesis by simp
  next
    case True
    let ?ys = "if key (xs ! j) < key (xs ! i) then swap_at xs i j else xs"
    have ij: "i < length xs" using "1.prems" True by simp
    have pre: "\<forall>k. i < k \<and> k < Suc j \<longrightarrow> key (?ys ! i) \<le> key (?ys ! k)"
    proof (intro allI impI)
      fix k assume k: "i < k \<and> k < Suc j"
      then have "k < length xs" using True by simp
      with k show "key (?ys ! i) \<le> key (?ys ! k)"
        using "1.prems"(1,3) True ij by (cases "k = j") (fastforce simp: nth_swap_at)+
    qed
    have "take i (esort_inner key i (Suc j) ?ys) = take i ?ys
       \<and> mset (esort_inner key i (Suc j) ?ys) = mset ?ys
       \<and> (\<forall>k. i < k \<and> k < length ?ys \<longrightarrow>
            key (esort_inner key i (Suc j) ?ys ! i) \<le> key (esort_inner key i (Suc j) ?ys ! k))"
      by (rule "1.IH"[OF True _ _ pre]) (use "1.prems" True in auto)
    moreover have "take i ?ys = take i xs" using "1.prems" by simp
    moreover have "mset ?ys = mset xs" using ij True by simp
    moreover have "length ?ys = length xs" by simp
    moreover have "esort_inner key i j xs = esort_inner key i (Suc j) ?ys"
      using True by (simp add: esort_inner.simps [of key i j xs])
    ultimately show ?thesis by presburger
  qed
qed

lemma esort_inner_start:
  assumes "Suc i < length xs"
  shows "take i (esort_inner key i (Suc i) xs) = take i xs"
    and "mset (esort_inner key i (Suc i) xs) = mset xs"
    and "\<forall>k. i < k \<and> k < length xs \<longrightarrow>
           key (esort_inner key i (Suc i) xs ! i) \<le> key (esort_inner key i (Suc i) xs ! k)"
proof -
  have "\<forall>k. i < k \<and> k < Suc i \<longrightarrow> key (xs ! i) \<le> key (xs ! k)" by auto
  from esort_inner_props [OF _ _ this] assms
  show "take i (esort_inner key i (Suc i) xs) = take i xs"
    and "mset (esort_inner key i (Suc i) xs) = mset xs"
    and "\<forall>k. i < k \<and> k < length xs \<longrightarrow>
           key (esort_inner key i (Suc i) xs ! i) \<le> key (esort_inner key i (Suc i) xs ! k)"
    by auto
qed

lemma mset_esort_outer: "mset (esort_outer key i xs) = mset xs"
proof (induction key i xs rule: esort_outer.induct)
  case (1 key i xs)
  then show ?case
    by (subst esort_outer.simps) (auto simp: esort_inner_start)
qed

definition prefix_sorted :: "('a \<Rightarrow> 'k::linorder) \<Rightarrow> nat \<Rightarrow> 'a list \<Rightarrow> bool" where
  "prefix_sorted key i xs \<longleftrightarrow>
     (\<forall>a b. a < i \<and> a < b \<and> b < length xs \<longrightarrow> key (xs ! a) \<le> key (xs ! b))"

lemma prefix_sorted_esort_inner:
  assumes "prefix_sorted key i xs" "Suc i < length xs"
  shows "prefix_sorted key (Suc i) (esort_inner key i (Suc i) xs)"
proof -
  let ?ys = "esort_inner key i (Suc i) xs"
  have p: "take i ?ys = take i xs" "mset ?ys = mset xs"
     "\<forall>k. i < k \<and> k < length xs \<longrightarrow> key (?ys ! i) \<le> key (?ys ! k)"
    using esort_inner_start [OF assms(2)] by auto
  have "mset (take i ?ys) + mset (drop i ?ys) = mset (take i xs) + mset (drop i xs)"
    using p(2) by (metis append_take_drop_id mset_append)
  then have "mset (drop i ?ys) = mset (drop i xs)" using p(1) by simp
  then have s: "set (drop i ?ys) = set (drop i xs)" by (metis set_mset_mset)
  have "key (?ys ! a) \<le> key (?ys ! b)" if ab: "a < Suc i" "a < b" "b < length xs" for a b
  proof (cases "a = i")
    case True
    with p(3) ab show ?thesis by auto
  next
    case False
    then have ai: "a < i" using ab by simp
    have ya: "?ys ! a = xs ! a" using p(1) ai by (metis nth_take)
    show ?thesis
    proof (cases "b < i")
      case True
      then have "?ys ! b = xs ! b" using p(1) by (metis nth_take)
      with ya assms(1) ai ab show ?thesis by (simp add: prefix_sorted_def)
    next
      case False
      then have "?ys ! b \<in> set (drop i ?ys)"
        using ab by (auto simp: in_set_conv_nth intro!: exI [of _ "b - i"])
      then obtain c where "c < length (drop i xs)" "drop i xs ! c = ?ys ! b"
        unfolding s by (auto simp: in_set_conv_nth)
      then have "i + c < length xs" "xs ! (i + c) = ?ys ! b" by auto
      moreover have "key (xs ! a) \<le> key (xs ! (i + c))"
        using assms(1) ai calculation(1) by (simp add: prefix_sorted_def)
      ultimately show ?thesis using ya by simp
    qed
  qed
  then show ?thesis by (simp add: prefix_sorted_def)
qed

lemma prefix_sorted_esort_outer:
  "prefix_sorted key i xs \<Longrightarrow>
   prefix_sorted key (length xs) (esort_outer key i xs)"
proof (induction key i xs rule: esort_outer.induct)
  case (1 key i xs)
  show ?case
  proof (cases "Suc i < length xs")
    case True
    with 1 prefix_sorted_esort_inner [OF "1.prems" True] show ?thesis
      by (simp add: esort_outer.simps [of key i xs])
  next
    case False
    with "1.prems" show ?thesis
      by (auto simp: esort_outer.simps [of key i xs] prefix_sorted_def)
  qed
qed

lemma mset_exchange_sort [simp]: "mset (exchange_sort key xs) = mset xs"
  by (simp add: exchange_sort_def mset_esort_outer)

lemma length_exchange_sort [simp]: "length (exchange_sort key xs) = length xs"
  by (metis mset_exchange_sort size_mset)

lemma set_exchange_sort [simp]: "set (exchange_sort key xs) = set xs"
  by (metis mset_exchange_sort set_mset_mset)

lemma distinct_exchange_sort [simp]: "distinct (exchange_sort key xs) = distinct xs"
  by (metis mset_exchange_sort mset_eq_imp_distinct_iff)

lemma sorted_exchange_sort: "sorted (map key (exchange_sort key xs))"
proof -
  have "prefix_sorted key (length xs) (exchange_sort key xs)"
    unfolding exchange_sort_def
    by (rule prefix_sorted_esort_outer) (simp add: prefix_sorted_def)
  then show ?thesis
    by (auto simp: sorted_iff_nth_mono_less prefix_sorted_def)
qed

subsection \<open>What the users of the loop rely on\<close>

text \<open>
  A \<open>layer_sort\<close> returns a permutation of its input in ascending order of the key.  With
  pairwise different keys the result is determined, so it does not matter that the exchange
  loop is not stable.
\<close>

locale layer_sort =
  fixes srt :: "'a list \<Rightarrow> 'a list" and key :: "'a \<Rightarrow> 'k::linorder"
  assumes perm: "mset (srt xs) = mset xs"
    and ordered: "sorted (map key (srt xs))"
begin

lemma set_srt: "set (srt xs) = set xs"
  by (metis perm set_mset_mset)

lemma srt_unique:
  assumes "mset ys = mset xs" "sorted (map key ys)" "inj_on key (set xs)"
  shows "srt xs = ys"
proof (rule map_inj_on)
  have "mset (map key (srt xs)) = mset (map key ys)" by (simp add: perm assms(1))
  then show "map key (srt xs) = map key ys"
    by (metis ordered assms(2) properties_for_sort)
  have "set ys = set xs" by (metis assms(1) set_mset_mset)
  then show "inj_on key (set (srt xs) \<union> set ys)" by (simp add: set_srt assms(3))
qed

lemma srt_sorted: "sorted (map key xs) \<Longrightarrow> inj_on key (set xs) \<Longrightarrow> srt xs = xs"
  by (rule srt_unique) auto

lemma srt_cong_perm: "mset xs = mset ys \<Longrightarrow> inj_on key (set xs) \<Longrightarrow> srt xs = srt ys"
  by (rule srt_unique) (auto simp: perm ordered)

end

interpretation esort: layer_sort "exchange_sort key" key for key :: "'a \<Rightarrow> 'k::linorder"
  by unfold_locales (auto simp: sorted_exchange_sort)

section \<open>Ordered maps from integers\<close>

type_synonym 'v smap = "(int \<times> 'v) list"

fun smap_set :: "int \<Rightarrow> 'v \<Rightarrow> 'v smap \<Rightarrow> 'v smap" where
  "smap_set k v [] = [(k, v)]"
| "smap_set k v ((k', v') # m) =
     (if k < k' then (k, v) # (k', v') # m
      else if k = k' then (k, v) # m
      else (k', v') # smap_set k v m)"

text \<open>\<open>m[k]\<close> of a map of vectors: an absent key reads as the empty vector.\<close>

definition smap_at :: "'a list smap \<Rightarrow> int \<Rightarrow> 'a list" where
  "smap_at m k = (case map_of m k of None \<Rightarrow> [] | Some v \<Rightarrow> v)"

text \<open>Reading through \<open>operator[]\<close> also inserts the empty vector.\<close>

definition smap_touch :: "int \<Rightarrow> 'a list smap \<Rightarrow> 'a list smap" where
  "smap_touch k m = (if k \<in> fst ` set m then m else smap_set k [] m)"

definition smap_push :: "int \<Rightarrow> 'a \<Rightarrow> 'a list smap \<Rightarrow> 'a list smap" where
  "smap_push k x m = smap_set k (smap_at m k @ [x]) m"

lemma map_of_smap_set: "sorted (map fst m) \<Longrightarrow> distinct (map fst m) \<Longrightarrow>
    map_of (smap_set k v m) = (map_of m)(k \<mapsto> v)"
proof (induction k v m rule: smap_set.induct)
  case (2 k v k' v' m)
  have "map_of m k = None" if "k < k'"
    using "2.prems" that by (force simp: map_of_eq_None_iff)
  with 2 show ?case by (auto simp: fun_upd_twist)
qed simp

lemma smap_set_last:
  "\<forall>k' \<in> fst ` set m. k' < k \<Longrightarrow> smap_set k v m = m @ [(k, v)]"
  by (induction m) auto

lemma smap_set_snoc:
  "\<forall>k' \<in> fst ` set m. k' < k \<Longrightarrow> smap_set k v (m @ [(k, v')]) = m @ [(k, v)]"
  by (induction m) auto

lemma smap_at_snoc:
  "k \<notin> fst ` set m \<Longrightarrow> smap_at (m @ [(k, v)]) k = v"
  by (simp add: smap_at_def map_add_def map_of_eq_None_iff [THEN iffD2])

lemma smap_push_snoc:
  "\<forall>k' \<in> fst ` set m. k' < k \<Longrightarrow> smap_push k x (m @ [(k, v)]) = m @ [(k, v @ [x])]"
proof -
  assume a: "\<forall>k' \<in> fst ` set m. k' < k"
  then have "k \<notin> fst ` set m" by blast
  with a show ?thesis by (simp add: smap_push_def smap_at_snoc smap_set_snoc)
qed

lemma smap_touch_snoc [simp]: "smap_touch k (m @ [(k, v)]) = m @ [(k, v)]"
  by (simp add: smap_touch_def)

end
