(* ===== verification/Sdk.thy ===== *)
theory Sdk
  imports Prelude
begin

text \<open>
  Constants the code takes from headers outside the repository (libdrm, the kernel's DRM
  interface, the Android HAL headers).  Their values are not in the repository, so they are
  the fields of a record \<open>sdk\<close> that the definitions take as an argument \<open>K\<close>; the theorems
  hold for every \<open>K\<close>, or state which facts about \<open>K\<close> they need.  \<open>sdk0\<close> is one concrete
  record, with the values those headers document; only witnesses use it.
\<close>

record sdk =
  ENOENT :: int
  EINVAL :: int
  ENOMEM :: int
  ENODEV :: int
  EAGAIN :: int
  DRM_MODE_DPMS_ON :: int
  DRM_MODE_DPMS_OFF :: int
  DRM_MODE_TYPE_PREFERRED :: u32
  DRM_MODE_CONNECTOR_VGA :: u32
  DRM_MODE_CONNECTOR_DVII :: u32
  DRM_MODE_CONNECTOR_DVID :: u32
  DRM_MODE_CONNECTOR_LVDS :: u32
  DRM_MODE_CONNECTOR_DisplayPort :: u32
  DRM_MODE_CONNECTOR_HDMIA :: u32
  DRM_MODE_CONNECTOR_TV :: u32
  DRM_MODE_CONNECTOR_eDP :: u32
  DRM_MODE_CONNECTOR_VIRTUAL :: u32
  DRM_MODE_CONNECTOR_DSI :: u32
  DRM_MODE_CONNECTOR_DPI :: u32
  HWC_DISPLAY_PRIMARY_BIT :: u32
  HWC_DISPLAY_EXTERNAL_BIT :: u32
  output_rgb :: int
  depth_24bit :: int
  DRM_MODE_PROP_RANGE :: u32
  DRM_MODE_PROP_IMMUTABLE :: u32
  DRM_MODE_PROP_ENUM :: u32
  DRM_MODE_PROP_OBJECT :: u32
  DRM_MODE_PROP_BLOB :: u32
  DRM_MODE_PROP_BITMASK :: u32
  DRM_DISPLAY_MODE_LEN :: nat
  DRM_MODE_FLAG_INTERLACE :: u32
  DRM_MODE_FLAG_SYNC_MASK :: u32
  DRM_MODE_ROTATE_0 :: u32
  DRM_MODE_ROTATE_90 :: u32
  DRM_MODE_ROTATE_270 :: u32
  DRM_MODE_REFLECT_X :: u32
  DRM_MODE_REFLECT_Y :: u32
  DRM_FORMAT_ABGR8888 :: u32
  DRM_FORMAT_BGR888 :: u32
  DRM_FORMAT_BGR565 :: u32
  DRM_FORMAT_P010 :: u32
  DRM_FORMAT_ARGB8888 :: u32
  DRM_FORMAT_XRGB8888 :: u32
  DRM_FORMAT_XBGR8888 :: u32
  DRM_FORMAT_RGB888 :: u32
  DRM_FORMAT_XBGR2101010 :: u32
  DRM_FORMAT_XRGB2101010 :: u32
  DRM_FORMAT_ABGR2101010 :: u32
  DRM_FORMAT_ARGB2101010 :: u32
  DRM_PLANE_TYPE_OVERLAY :: u32
  DRM_PLANE_TYPE_PRIMARY :: u32
  DRM_PLANE_TYPE_CURSOR :: u32
  HAL_PIXEL_FORMAT_RGBA_1010102 :: u32
  HAL_PIXEL_FORMAT_YCrCb_NV12_10 :: int
  HAL_DATASPACE_STANDARD_BT709 :: u32
  HAL_DATASPACE_RANGE_FULL :: u32

definition fourcc_code :: "nat \<Rightarrow> nat \<Rightarrow> nat \<Rightarrow> nat \<Rightarrow> u32" where
  "fourcc_code a b c d = word_of_nat (a + 256 * b + 65536 * c + 16777216 * d)"

definition sdk0 :: sdk where
  "sdk0 =
    \<lparr> ENOENT = 2, EINVAL = 22, ENOMEM = 12, ENODEV = 19, EAGAIN = 11,
      DRM_MODE_DPMS_ON = 0, DRM_MODE_DPMS_OFF = 3, DRM_MODE_TYPE_PREFERRED = 8,
      DRM_MODE_CONNECTOR_VGA = 1, DRM_MODE_CONNECTOR_DVII = 2, DRM_MODE_CONNECTOR_DVID = 3,
      DRM_MODE_CONNECTOR_LVDS = 7, DRM_MODE_CONNECTOR_DisplayPort = 10,
      DRM_MODE_CONNECTOR_HDMIA = 11, DRM_MODE_CONNECTOR_TV = 13, DRM_MODE_CONNECTOR_eDP = 14,
      DRM_MODE_CONNECTOR_VIRTUAL = 15, DRM_MODE_CONNECTOR_DSI = 16,
      DRM_MODE_CONNECTOR_DPI = 17, HWC_DISPLAY_PRIMARY_BIT = 1, HWC_DISPLAY_EXTERNAL_BIT = 2,
      output_rgb = 0, depth_24bit = 8,
      DRM_MODE_PROP_RANGE = 2, DRM_MODE_PROP_IMMUTABLE = 4, DRM_MODE_PROP_ENUM = 8,
      DRM_MODE_PROP_OBJECT = 64, DRM_MODE_PROP_BLOB = 16, DRM_MODE_PROP_BITMASK = 32,
      DRM_DISPLAY_MODE_LEN = 32,
      DRM_MODE_FLAG_INTERLACE = 16, DRM_MODE_FLAG_SYNC_MASK = 15,
      DRM_MODE_ROTATE_0 = 1, DRM_MODE_ROTATE_90 = 2, DRM_MODE_ROTATE_270 = 8,
      DRM_MODE_REFLECT_X = 16, DRM_MODE_REFLECT_Y = 32,
      DRM_FORMAT_ABGR8888 = 0x34324241, DRM_FORMAT_BGR888 = 0x34324742,
      DRM_FORMAT_BGR565 = 0x36314742, DRM_FORMAT_P010 = 0x30313050,
      DRM_FORMAT_ARGB8888 = 0x34325241, DRM_FORMAT_XRGB8888 = 0x34325258,
      DRM_FORMAT_XBGR8888 = 0x34324258, DRM_FORMAT_RGB888 = 0x34324752,
      DRM_FORMAT_XBGR2101010 = 0x30334258, DRM_FORMAT_XRGB2101010 = 0x30335258,
      DRM_FORMAT_ABGR2101010 = 0x30334241, DRM_FORMAT_ARGB2101010 = 0x30335241,
      DRM_PLANE_TYPE_OVERLAY = 0, DRM_PLANE_TYPE_PRIMARY = 1, DRM_PLANE_TYPE_CURSOR = 2,
      HAL_PIXEL_FORMAT_RGBA_1010102 = 0x2B, HAL_PIXEL_FORMAT_YCrCb_NV12_10 = 0x17,
      HAL_DATASPACE_STANDARD_BT709 = 0x10000, HAL_DATASPACE_RANGE_FULL = 0x8000000 \<rparr>"

lemmas sdk0_simps = sdk0_def

end
