(* ===== verification/Hwc_Debug.thy ===== *)
theory Hwc_Debug
  imports Sdk
begin

text \<open>
  \<open>rockchip/utils/drmdebug.cpp\<close>: the typed readers over the Android property service and the
  SoC predicates.  The service itself (\<open>property_get\<close> of libcutils) is not in the
  repository: it is the argument \<open>pget\<close>, which maps a key and a default to the value found.
  A C string pointer that may be \<open>NULL\<close> is a \<open>string option\<close>.
\<close>

type_synonym property_get = "string \<Rightarrow> string \<Rightarrow> string"

section \<open>The C library's \<open>atoi\<close>\<close>

text \<open>White space, one optional sign, then decimal digits up to the first other character.\<close>

definition is_space :: "char \<Rightarrow> bool" where
  "is_space c \<longleftrightarrow> of_char c \<in> {9, 10, 11, 12, 13, 32 :: nat}"

definition is_digit :: "char \<Rightarrow> bool" where
  "is_digit c \<longleftrightarrow> 48 \<le> (of_char c :: nat) \<and> of_char c \<le> (57 :: nat)"

fun digits_value :: "int \<Rightarrow> string \<Rightarrow> int" where
  "digits_value acc [] = acc"
| "digits_value acc (c # cs) =
     (if is_digit c then digits_value (10 * acc + (of_char c - 48)) cs else acc)"

definition atoi :: "string \<Rightarrow> int" where
  "atoi s =
     (case dropWhile is_space s of
        [] \<Rightarrow> 0
      | c # cs \<Rightarrow>
          if c = CHR ''-'' then - digits_value 0 cs
          else if c = CHR ''+'' then digits_value 0 cs
          else digits_value 0 (c # cs))"

text \<open>\<open>getline(ss, name, ',')\<close>: no empty name after a trailing separator.\<close>

function getlines :: "string \<Rightarrow> string list" where
  "getlines [] = []"
| "getlines (c # cs) =
     takeWhile (\<lambda>x. x \<noteq> CHR '','') (c # cs) #
     getlines (List.drop 1 (dropWhile (\<lambda>x. x \<noteq> CHR '','') (c # cs)))"
  by pat_completeness auto
termination
proof (relation "measure length")
  fix c :: char and cs
  have "length (dropWhile (\<lambda>x. x \<noteq> CHR '','') (c # cs)) \<le> length (c # cs)"
    by (rule length_dropWhile_le)
  then have "length (List.drop 1 (dropWhile (\<lambda>x. x \<noteq> CHR '','') (c # cs))) < length (c # cs)"
    by (simp only: length_drop) simp
  then show "(List.drop 1 (dropWhile (\<lambda>x. x \<noteq> CHR '','') (c # cs)), c # cs) \<in> measure length"
    by (simp only: in_measure)
qed simp

section \<open>Typed property readers\<close>

definition hwc_get_int_property ::
  "property_get \<Rightarrow> string option \<Rightarrow> string option \<Rightarrow> int" where
  "hwc_get_int_property pget pcProperty default_value =
     (case (pcProperty, default_value) of
        (Some k, Some d) \<Rightarrow> atoi (pget k d)
      | _ \<Rightarrow> -1)"

definition hwc_get_bool_property ::
  "property_get \<Rightarrow> string option \<Rightarrow> string option \<Rightarrow> bool" where
  "hwc_get_bool_property pget pcProperty default_value =
     (case (pcProperty, default_value) of
        (Some k, Some d) \<Rightarrow> pget k d = ''true''
      | _ \<Rightarrow> False)"

text \<open>The out-parameter of the string reader is \<open>None\<close> when it is not written.\<close>

definition hwc_get_string_property ::
  "property_get \<Rightarrow> string option \<Rightarrow> string option \<Rightarrow> int \<times> string option" where
  "hwc_get_string_property pget pcProperty default_value =
     (case (pcProperty, default_value) of
        (Some k, Some d) \<Rightarrow> (0, Some (pget k d))
      | _ \<Rightarrow> (-1, None))"

section \<open>SoC and driver version predicates\<close>

definition isRK356x :: "u32 \<Rightarrow> bool" where
  "isRK356x soc_id \<longleftrightarrow> soc_id \<in> {0x3566, 0x3566a, 0x3568, 0x3568a}"
definition isRK3566 :: "u32 \<Rightarrow> bool" where
  "isRK3566 soc_id \<longleftrightarrow> soc_id \<in> {0x3566, 0x3566a}"
definition isRK3399 :: "u32 \<Rightarrow> bool" where "isRK3399 soc_id \<longleftrightarrow> soc_id = 0x3399"
definition isRK3326 :: "u32 \<Rightarrow> bool" where "isRK3326 soc_id \<longleftrightarrow> soc_id = 0x3326"
definition isRK3588 :: "u32 \<Rightarrow> bool" where "isRK3588 soc_id \<longleftrightarrow> soc_id = 0x3588"
definition isRK3528 :: "u32 \<Rightarrow> bool" where "isRK3528 soc_id \<longleftrightarrow> soc_id = 0x3528"
definition isRK3562 :: "u32 \<Rightarrow> bool" where "isRK3562 soc_id \<longleftrightarrow> soc_id = 0x3562"
definition isRK3576 :: "u32 \<Rightarrow> bool" where "isRK3576 soc_id \<longleftrightarrow> soc_id = 0x3576"

lemmas soc_defs =
  isRK356x_def isRK3566_def isRK3399_def isRK3326_def isRK3588_def isRK3528_def
  isRK3562_def isRK3576_def

lemma soc_3588 [simp]:
  "isRK3588 0x3588" "\<not> isRK356x 0x3588" "\<not> isRK3399 0x3588" "\<not> isRK3528 0x3588"
  "\<not> isRK3562 0x3588" "\<not> isRK3576 0x3588" "\<not> isRK3326 0x3588"
  by (simp_all add: soc_defs)

lemma isRK3566_imp: "isRK3566 s \<Longrightarrow> isRK356x s"
  by (auto simp: soc_defs)

section \<open>Lemmas on \<open>atoi\<close>\<close>

fun digits_of :: "nat \<Rightarrow> string" where
  "digits_of n =
     (if n < 10 then [char_of (48 + n)] else digits_of (n div 10) @ [char_of (48 + n mod 10)])"

declare digits_of.simps [simp del]

lemma is_digit_char_of: "d < 10 \<Longrightarrow> is_digit (char_of (48 + d :: nat))"
  by (simp add: is_digit_def)

lemma of_char_int: "(of_char c :: int) = int (of_char c)"
  by (metis of_nat_of_char)

lemma digits_value_append:
  "\<forall>c \<in> set cs. is_digit c \<Longrightarrow> digits_value acc (cs @ ds) = digits_value (digits_value acc cs) ds"
  by (induction cs arbitrary: acc) auto

lemma digits_of_digits: "c \<in> set (digits_of n) \<Longrightarrow> is_digit c"
proof (induction n rule: digits_of.induct)
  case (1 n)
  then show ?case
    by (subst (asm) digits_of.simps) (auto simp: is_digit_char_of split: if_splits)
qed

lemma digits_value_digits_of: "digits_value 0 (digits_of n) = int n"
proof (induction n rule: digits_of.induct)
  case (1 n)
  have dv: "digits_value a [char_of (48 + d)] = 10 * a + int d" if "d < 10" for a d
    using that is_digit_char_of [OF that] by (simp add: of_char_int)
  show ?case
  proof (cases "n < 10")
    case True
    then show ?thesis by (subst digits_of.simps) (simp only: if_True dv)
  next
    case False
    then have "digits_value 0 (digits_of n) = 10 * int (n div 10) + int (n mod 10)"
      using 1 digits_of_digits
      by (subst digits_of.simps) (simp add: digits_value_append dv del: digits_value.simps)
    then show ?thesis by presburger
  qed
qed

lemma digits_of_hd: "\<exists>c cs. digits_of n = c # cs \<and> is_digit c"
proof (cases "digits_of n")
  case Nil
  then show ?thesis by (subst (asm) digits_of.simps) (simp split: if_splits)
next
  case (Cons c cs)
  then show ?thesis using digits_of_digits [of c n] by auto
qed

lemma digit_no_space: "is_digit c \<Longrightarrow> \<not> is_space c \<and> c \<noteq> CHR ''-'' \<and> c \<noteq> CHR ''+''"
  by (auto simp: is_digit_def is_space_def)

lemma atoi_digits_of: "atoi (digits_of n) = int n"
proof -
  obtain c cs where c: "digits_of n = c # cs" "is_digit c" using digits_of_hd by blast
  then have "atoi (digits_of n) = digits_value 0 (digits_of n)"
    using digit_no_space [OF c(2)] by (simp add: atoi_def)
  then show ?thesis by (simp add: digits_value_digits_of)
qed

lemma atoi_minus_digits_of: "atoi (CHR ''-'' # digits_of n) = - int n"
  by (simp add: atoi_def is_space_def digits_value_digits_of)

end
