(* ===== verification/Drm_Property.thy ===== *)
theory Drm_Property
  imports Sdk
begin

text \<open>
  \<open>drm/drmproperty.cpp\<close>: a DRM object property as the kernel reports it, and the readers the
  planes use on it.  A result tuple \<open>(int, value)\<close> of the code is a pair; a C string pointer
  that may be \<open>NULL\<close> is a \<open>string option\<close>.  The kernel's answer (\<open>drmModePropertyPtr\<close>) is the
  record \<open>prop_res\<close>, its counted arrays as lists.
\<close>

datatype DrmPropertyType =
    DRM_PROPERTY_TYPE_INT
  | DRM_PROPERTY_TYPE_ENUM
  | DRM_PROPERTY_TYPE_OBJECT
  | DRM_PROPERTY_TYPE_BLOB
  | DRM_PROPERTY_TYPE_BITMASK
  | DRM_PROPERTY_TYPE_INVALID

record prop_res =
  pr_prop_id :: u32
  pr_flags :: u32
  pr_name :: string
  pr_values :: "u64 list"
  pr_enums :: "(u64 \<times> string) list"
  pr_blob_ids :: "u32 list"

record DrmProperty =
  prop_id :: u32
  prop_type :: DrmPropertyType
  prop_flags :: u32
  prop_name :: string
  prop_value :: u64
  prop_values :: "u64 list"
  prop_enums :: "(u64 \<times> string) list"
  prop_blob_ids :: "u32 list"
  feature_name :: "string option"

definition DrmProperty_default :: DrmProperty where
  "DrmProperty_default =
     \<lparr> prop_id = 0, prop_type = DRM_PROPERTY_TYPE_INVALID, prop_flags = 0, prop_name = [],
       prop_value = 0, prop_values = [], prop_enums = [], prop_blob_ids = [],
       feature_name = None \<rparr>"

text \<open>\<open>Init\<close> appends to the three vectors; the flag tests run in the code's order.\<close>

definition prop_Init :: "sdk \<Rightarrow> prop_res \<Rightarrow> u64 \<Rightarrow> DrmProperty \<Rightarrow> DrmProperty" where
  "prop_Init K p v s =
     s\<lparr> prop_id := pr_prop_id p, prop_flags := pr_flags p, prop_name := pr_name p,
        prop_value := v,
        prop_values := prop_values s @ pr_values p,
        prop_enums := prop_enums s @ pr_enums p,
        prop_blob_ids := prop_blob_ids s @ pr_blob_ids p,
        prop_type :=
          (if pr_flags p AND DRM_MODE_PROP_RANGE K \<noteq> 0 then DRM_PROPERTY_TYPE_INT
           else if pr_flags p AND DRM_MODE_PROP_ENUM K \<noteq> 0 then DRM_PROPERTY_TYPE_ENUM
           else if pr_flags p AND DRM_MODE_PROP_OBJECT K \<noteq> 0 then DRM_PROPERTY_TYPE_OBJECT
           else if pr_flags p AND DRM_MODE_PROP_BLOB K \<noteq> 0 then DRM_PROPERTY_TYPE_BLOB
           else if pr_flags p AND DRM_MODE_PROP_BITMASK K \<noteq> 0 then DRM_PROPERTY_TYPE_BITMASK
           else prop_type s),
        feature_name := None \<rparr>"

definition set_feature :: "string option \<Rightarrow> DrmProperty \<Rightarrow> DrmProperty" where
  "set_feature f s = s\<lparr>feature_name := f\<rparr>"

text \<open>
  \<open>strncmp(enum_name, name, strlen(name)) == 0\<close> holds exactly when \<open>name\<close> is a prefix of the
  enum's name; the loop takes the first enum for which it does.
\<close>

fun find_enum :: "string \<Rightarrow> (u64 \<times> string) list \<Rightarrow> u64 option" where
  "find_enum name [] = None"
| "find_enum name ((v, n) # es) = (if prefix name n then Some v else find_enum name es)"

definition bit_1LL :: "u64 \<Rightarrow> u64" where
  "bit_1LL v = push_bit (unat v) 1"

definition bit_as_int :: "u64 \<Rightarrow> int" where
  "bit_as_int v = sint (ucast (bit_1LL v) :: u32)"

definition prop_value_of :: "sdk \<Rightarrow> DrmProperty \<Rightarrow> int \<times> u64" where
  "prop_value_of K s =
     (if prop_type s = DRM_PROPERTY_TYPE_BLOB then (0, prop_value s)
      else if prop_values s = [] then (- ENOENT K, 0)
      else (case prop_type s of
          DRM_PROPERTY_TYPE_INT \<Rightarrow> (0, prop_value s)
        | DRM_PROPERTY_TYPE_ENUM \<Rightarrow>
            (if length (prop_enums s) \<le> unat (prop_value s) then (- ENOENT K, 0)
             else (0, fst (prop_enums s ! unat (prop_value s))))
        | DRM_PROPERTY_TYPE_OBJECT \<Rightarrow> (0, prop_value s)
        | DRM_PROPERTY_TYPE_BITMASK \<Rightarrow>
            (case feature_name s of
               None \<Rightarrow> (- EINVAL K, 0)
             | Some f \<Rightarrow>
                 (if f \<noteq> [] then
                    (case find_enum f (prop_enums s) of
                       Some v \<Rightarrow> (0, prop_value s AND bit_1LL v)
                     | None \<Rightarrow> (- EINVAL K, 0))
                  else (0, 0xff)))
        | _ \<Rightarrow> (- EINVAL K, 0)))"

definition prop_bitmask :: "sdk \<Rightarrow> DrmProperty \<Rightarrow> string option \<Rightarrow> int \<times> bool" where
  "prop_bitmask K s name =
     (if prop_type s \<noteq> DRM_PROPERTY_TYPE_BITMASK then (0, False)
      else if prop_values s = [] then (- ENOENT K, False)
      else (case name of
          None \<Rightarrow> (- ENOENT K, False)
        | Some n \<Rightarrow>
            (if n \<noteq> [] then
               (case find_enum n (prop_enums s) of
                  Some v \<Rightarrow> (bit_as_int v, True)
                | None \<Rightarrow> (0, False))
             else (0, False))))"

definition prop_value_bitmask :: "sdk \<Rightarrow> DrmProperty \<Rightarrow> string option \<Rightarrow> int \<times> bool" where
  "prop_value_bitmask K s name =
     (if prop_type s \<noteq> DRM_PROPERTY_TYPE_BITMASK then (0, False)
      else if prop_values s = [] then (- ENOENT K, False)
      else (case name of
          None \<Rightarrow> (- ENOENT K, False)
        | Some n \<Rightarrow>
            (if n \<noteq> [] then
               (case find_enum n (prop_enums s) of
                  Some v \<Rightarrow> (bit_as_int v, 0 < (prop_value s AND bit_1LL v))
                | None \<Rightarrow> (0, False))
             else (0, False))))"

definition is_immutable :: "sdk \<Rightarrow> DrmProperty \<Rightarrow> bool" where
  "is_immutable K s \<longleftrightarrow> prop_id s \<noteq> 0 \<and> prop_flags s AND DRM_MODE_PROP_IMMUTABLE K \<noteq> 0"

definition is_range :: "sdk \<Rightarrow> DrmProperty \<Rightarrow> bool" where
  "is_range K s \<longleftrightarrow> prop_id s \<noteq> 0 \<and> prop_flags s AND DRM_MODE_PROP_RANGE K \<noteq> 0"

definition range_min :: "sdk \<Rightarrow> DrmProperty \<Rightarrow> int \<times> u64" where
  "range_min K s =
     (if \<not> is_range K s then (- EINVAL K, 0)
      else if length (prop_values s) < 1 then (- ENOENT K, 0)
      else (0, prop_values s ! 0))"

definition range_max :: "sdk \<Rightarrow> DrmProperty \<Rightarrow> int \<times> u64" where
  "range_max K s =
     (if \<not> is_range K s then (- EINVAL K, 0)
      else if length (prop_values s) < 2 then (- ENOENT K, 0)
      else (0, prop_values s ! 1))"

fun GetEnumValueWithName_loop ::
  "sdk \<Rightarrow> (u64 \<times> string) list \<Rightarrow> string \<Rightarrow> u64 \<times> int" where
  "GetEnumValueWithName_loop K [] name = (-1, - EINVAL K)"
| "GetEnumValueWithName_loop K ((v, n) # es) name =
     (if n = name then (v, 0) else GetEnumValueWithName_loop K es name)"

definition GetEnumValueWithName :: "sdk \<Rightarrow> DrmProperty \<Rightarrow> string \<Rightarrow> u64 \<times> int" where
  "GetEnumValueWithName K s name = GetEnumValueWithName_loop K (prop_enums s) name"

section \<open>Lemmas\<close>

lemma word_pos_iff: "(0 < (w :: 'a::len word)) = (w \<noteq> 0)"
  by (simp add: word_neq_0_conv)

lemma find_enum_Some:
  "find_enum name es = Some v \<Longrightarrow> \<exists>n. (v, n) \<in> set es \<and> prefix name n"
  by (induction name es rule: find_enum.induct) (auto split: if_splits)

lemma find_enum_None: "find_enum name es = None \<longleftrightarrow> (\<forall>(v, n) \<in> set es. \<not> prefix name n)"
  by (induction name es rule: find_enum.induct) auto

text \<open>
  Where no enum name extends another one, looking an enum up by its full name finds it.
\<close>

lemma find_enum_exact:
  assumes "(v, name) \<in> set es"
    and "\<forall>(v', n) \<in> set es. prefix name n \<longrightarrow> v' = v"
  shows "find_enum name es = Some v"
  using assms by (induction es) auto

lemma GetEnumValueWithName_loop_Some:
  "distinct (map snd es) \<Longrightarrow> (v, n) \<in> set es \<Longrightarrow> GetEnumValueWithName_loop K es n = (v, 0)"
  by (induction es) (auto simp: rev_image_eqI)

lemma GetEnumValueWithName_loop_miss:
  "n \<notin> snd ` set es \<Longrightarrow> GetEnumValueWithName_loop K es n = (-1, - EINVAL K)"
  by (induction es) auto

lemma value_bitmask_agrees:
  assumes "prop_type s = DRM_PROPERTY_TYPE_BITMASK" "prop_values s \<noteq> []" "n \<noteq> []"
  shows "snd (prop_value_bitmask K s (Some n)) \<longleftrightarrow>
         fst (prop_value_of K (set_feature (Some n) s)) = 0 \<and>
         snd (prop_value_of K (set_feature (Some n) s)) \<noteq> 0"
  using assms
  by (auto simp: prop_value_bitmask_def prop_value_of_def set_feature_def word_pos_iff
      split: option.splits)

end
