(* ===== verification/Drm_Mode.thy ===== *)
theory Drm_Mode
  imports Sdk
begin

text \<open>
  \<open>drm/drmmode.cpp\<close>: a display mode, its comparisons and the tests for the two display modes
  the plane policy treats specially.  \<open>mode_info\<close> is libdrm's \<open>drmModeModeInfo\<close>, whose timing
  fields are 16 bits wide; \<open>DrmMode\<close> keeps them in 32 bits.  A \<open>float\<close> is a rational; the
  quotient of \<open>v_refresh()\<close> is \<open>None\<close> where the divisor is zero (an infinity or NaN in C++).
\<close>

record mode_info =
  mi_clock :: u32
  mi_hdisplay :: u16
  mi_hsync_start :: u16
  mi_hsync_end :: u16
  mi_htotal :: u16
  mi_hskew :: u16
  mi_vdisplay :: u16
  mi_vsync_start :: u16
  mi_vsync_end :: u16
  mi_vtotal :: u16
  mi_vscan :: u16
  mi_vrefresh :: u32
  mi_flags :: u32
  mi_type :: u32
  mi_name :: string

record DrmMode =
  mode_id :: u32
  clock :: u32
  h_display :: u32
  h_sync_start :: u32
  h_sync_end :: u32
  h_total :: u32
  h_skew :: u32
  v_display :: u32
  v_sync_start :: u32
  v_sync_end :: u32
  v_total :: u32
  v_scan :: u32
  vrefresh_field :: u32
  mode_flags :: u32
  mode_type :: u32
  interlaced :: bool
  mode_name :: string

definition DrmMode_of :: "sdk \<Rightarrow> mode_info \<Rightarrow> DrmMode" where
  "DrmMode_of K m =
     \<lparr> mode_id = 0, clock = mi_clock m,
       h_display = ucast (mi_hdisplay m), h_sync_start = ucast (mi_hsync_start m),
       h_sync_end = ucast (mi_hsync_end m), h_total = ucast (mi_htotal m),
       h_skew = ucast (mi_hskew m),
       v_display = ucast (mi_vdisplay m), v_sync_start = ucast (mi_vsync_start m),
       v_sync_end = ucast (mi_vsync_end m), v_total = ucast (mi_vtotal m),
       v_scan = ucast (mi_vscan m), vrefresh_field = mi_vrefresh m,
       mode_flags = mi_flags m, mode_type = mi_type m,
       interlaced = (mi_flags m AND DRM_MODE_FLAG_INTERLACE K \<noteq> 0),
       mode_name = mi_name m \<rparr>"

definition mode_eq_info :: "DrmMode \<Rightarrow> mode_info \<Rightarrow> bool" where
  "mode_eq_info s m \<longleftrightarrow>
     clock s = mi_clock m \<and> h_display s = ucast (mi_hdisplay m) \<and>
     h_sync_start s = ucast (mi_hsync_start m) \<and> h_sync_end s = ucast (mi_hsync_end m) \<and>
     h_total s = ucast (mi_htotal m) \<and> h_skew s = ucast (mi_hskew m) \<and>
     v_display s = ucast (mi_vdisplay m) \<and> v_sync_start s = ucast (mi_vsync_start m) \<and>
     v_sync_end s = ucast (mi_vsync_end m) \<and> v_total s = ucast (mi_vtotal m) \<and>
     v_scan s = ucast (mi_vscan m) \<and> mode_flags s = mi_flags m \<and> mode_type s = mi_type m"

definition mode_eq :: "DrmMode \<Rightarrow> DrmMode \<Rightarrow> bool" where
  "mode_eq s m \<longleftrightarrow>
     clock s = clock m \<and> h_display s = h_display m \<and>
     h_sync_start s = h_sync_start m \<and> h_sync_end s = h_sync_end m \<and>
     h_total s = h_total m \<and> h_skew s = h_skew m \<and>
     v_display s = v_display m \<and> v_sync_start s = v_sync_start m \<and>
     v_sync_end s = v_sync_end m \<and> v_total s = v_total m \<and>
     v_scan s = v_scan m \<and> mode_flags s = mode_flags m \<and> mode_type s = mode_type m"

definition mode_equal :: "DrmMode \<Rightarrow> DrmMode \<Rightarrow> bool" where
  "mode_equal s m \<longleftrightarrow>
     clock s = clock m \<and> h_display s = h_display m \<and>
     h_sync_start s = h_sync_start m \<and> h_sync_end s = h_sync_end m \<and>
     h_total s = h_total m \<and>
     v_display s = v_display m \<and> v_sync_start s = v_sync_start m \<and>
     v_sync_end s = v_sync_end m \<and> v_total s = v_total m \<and> mode_flags s = mode_flags m"

definition equal_no_flag_and_type :: "DrmMode \<Rightarrow> DrmMode \<Rightarrow> bool" where
  "equal_no_flag_and_type s m \<longleftrightarrow>
     clock s = clock m \<and> h_display s = h_display m \<and>
     h_sync_start s = h_sync_start m \<and> h_sync_end s = h_sync_end m \<and>
     h_total s = h_total m \<and>
     v_display s = v_display m \<and> v_sync_start s = v_sync_start m \<and>
     v_sync_end s = v_sync_end m \<and> v_total s = v_total m"

definition equal_size :: "DrmMode \<Rightarrow> u32 \<Rightarrow> u32 \<Rightarrow> u32 \<Rightarrow> bool \<Rightarrow> bool" where
  "equal_size s width height vrefresh ilaced \<longleftrightarrow>
     h_display s = width \<and> v_display s = height \<and> interlaced s = ilaced \<and>
     vrefresh_field s = vrefresh"

definition DRM_MODE_FLAG_420_MASK :: u32 where
  "DRM_MODE_FLAG_420_MASK = push_bit 23 3"

text \<open>
  \<open>DRM_MODE_FLAG_SYNC_MASK K\<close> stands for the four sync polarity bits the code joins
  (\<open>PHSYNC | NHSYNC | PVSYNC | NVSYNC\<close>).
\<close>

definition equal_timing ::
  "sdk \<Rightarrow> DrmMode \<Rightarrow> u32 \<Rightarrow> u32 \<Rightarrow> u32 \<Rightarrow> u32 \<Rightarrow> u32 \<Rightarrow> u32 \<Rightarrow> u32 \<Rightarrow> u32 \<Rightarrow> u32 \<Rightarrow> u32 \<Rightarrow> bool"
where
  "equal_timing K s width height hsync_start hsync_end htotal vsync_start vsync_end vtotal
      flags clk =
     (if h_display s = width \<and> v_display s = height \<and>
         hsync_start = h_sync_start s \<and> hsync_end = h_sync_end s \<and>
         vsync_start = v_sync_start s \<and> vsync_end = v_sync_end s \<and>
         htotal = h_total s \<and> vtotal = v_total s \<and> flags = mode_flags s \<and>
         clk = clock s
      then True
      else if h_display s = width \<and> v_display s = height \<and>
         hsync_start = h_sync_start s \<and> hsync_end = h_sync_end s \<and>
         vsync_start = v_sync_start s \<and> vsync_end = v_sync_end s \<and>
         htotal = h_total s \<and> vtotal = v_total s \<and> clk = clock s
      then (let flags_temp = DRM_MODE_FLAG_SYNC_MASK K OR DRM_MODE_FLAG_INTERLACE K OR
                             DRM_MODE_FLAG_420_MASK
            in flags AND flags_temp = mode_flags s AND flags_temp)
      else False)"

definition equal_flag_clk ::
  "DrmMode \<Rightarrow> u32 \<Rightarrow> u32 \<Rightarrow> u32 \<Rightarrow> u32 \<Rightarrow> u32 \<Rightarrow> bool \<Rightarrow> bool" where
  "equal_flag_clk s width height vrefresh flag clk ilaced \<longleftrightarrow>
     h_display s = width \<and> v_display s = height \<and> interlaced s = ilaced \<and>
     vrefresh_field s = vrefresh \<and> mode_flags s = flag \<and> clock s = clk"

definition ToDrmModeModeInfo :: "sdk \<Rightarrow> DrmMode \<Rightarrow> mode_info" where
  "ToDrmModeModeInfo K s =
     \<lparr> mi_clock = clock s, mi_hdisplay = ucast (h_display s),
       mi_hsync_start = ucast (h_sync_start s), mi_hsync_end = ucast (h_sync_end s),
       mi_htotal = ucast (h_total s), mi_hskew = ucast (h_skew s),
       mi_vdisplay = ucast (v_display s), mi_vsync_start = ucast (v_sync_start s),
       mi_vsync_end = ucast (v_sync_end s), mi_vtotal = ucast (v_total s),
       mi_vscan = ucast (v_scan s), mi_vrefresh = vrefresh_field s, mi_flags = mode_flags s,
       mi_type = mode_type s, mi_name = take (DRM_DISPLAY_MODE_LEN K) (mode_name s) \<rparr>"

definition v_refresh :: "DrmMode \<Rightarrow> rat option" where
  "v_refresh s =
     (if vrefresh_field s \<noteq> 0 then Some (of_nat (unat (vrefresh_field s)))
      else if v_total s * h_total s = 0 then None
      else Some (of_nat (unat (clock s)) / of_nat (unat (v_total s * h_total s)) * 1000))"

definition is_8k_mode :: "DrmMode \<Rightarrow> bool" where
  "is_8k_mode s \<longleftrightarrow> 4096 < h_display s"

text \<open>
  Without a divisor the quotient is an infinity when the clock is not zero, and that is
  greater than 90; with a zero clock it is NaN, and the comparison is false.
\<close>

definition is_4k120p_mode :: "DrmMode \<Rightarrow> bool" where
  "is_4k120p_mode s \<longleftrightarrow>
     (case v_refresh s of Some r \<Rightarrow> 90 < r | None \<Rightarrow> clock s \<noteq> 0) \<and> 2160 \<le> h_display s"

lemmas mode_defs =
  mode_eq_def mode_equal_def equal_no_flag_and_type_def mode_eq_info_def DrmMode_of_def
  ToDrmModeModeInfo_def

section \<open>Lemmas\<close>

lemma ucast_u16_u32_u16 [simp]: "ucast (ucast (x :: u16) :: u32) = x"
  by (rule bit_word_eqI) (simp add: bit_simps)

lemma ToDrmModeModeInfo_of:
  "length (mi_name m) \<le> DRM_DISPLAY_MODE_LEN K \<Longrightarrow> ToDrmModeModeInfo K (DrmMode_of K m) = m"
  by (simp add: mode_defs)

lemma mode_eq_equiv: "equivp mode_eq"
  by (auto simp: equivp_def fun_eq_iff mode_eq_def)

lemma mode_eq_imp_equal: "mode_eq s m \<Longrightarrow> mode_equal s m"
  by (simp add: mode_defs)

lemma mode_equal_imp_no_flag: "mode_equal s m \<Longrightarrow> equal_no_flag_and_type s m"
  by (simp add: mode_defs)

lemma mode_eq_info_of: "mode_eq_info (DrmMode_of K m) m'\<longleftrightarrow> mode_eq (DrmMode_of K m) (DrmMode_of K m')"
  by (simp add: mode_defs)

end
