(* ===== verification/Drm_Plane.thy ===== *)
theory Drm_Plane
  imports Drm_Property Hwc_Debug
begin

text \<open>
  \<open>drm/drmplane.cpp\<close> and the plane enumerations of \<open>include/drmplane.h\<close>: one hardware plane
  (a window of the video output processor), how \<open>Init\<close> reads its capabilities from the
  kernel's properties, and the predicates the matching asks.

  The members that only hold a property handle for the commit are kept in the list
  \<open>plane_props\<close> under the member's name.  The other members are fields; \<open>Init\<close> does not write
  all of them on every path, so it takes the object before it as its argument.
  \<open>scale_min\<close> is \<open>None\<close> where the quotient \<open>1/(scale_rate*1.0)\<close> is infinite.
\<close>

section \<open>Window masks\<close>

text \<open>The enumerators \<open>CLUSTERc_WINw\<close>, \<open>ESMARTe_WINw\<close> \<dots> of each SoC, by index.\<close>

definition PLANE_RK3588_CLUSTER_WIN :: "nat \<Rightarrow> nat \<Rightarrow> u64" where
  "PLANE_RK3588_CLUSTER_WIN c w = push_bit (2 * c + w) 1"
definition PLANE_RK3588_ESMART_WIN :: "nat \<Rightarrow> nat \<Rightarrow> u64" where
  "PLANE_RK3588_ESMART_WIN e w = push_bit (8 + 4 * e + w) 1"
definition PLANE_RK3588_ALL_CLUSTER_MASK :: u64 where "PLANE_RK3588_ALL_CLUSTER_MASK = 0xff"
definition PLANE_RK3588_ALL_ESMART_MASK :: u64 where "PLANE_RK3588_ALL_ESMART_MASK = 0xffff00"

definition PLANE_RK3576_CLUSTER_WIN :: "nat \<Rightarrow> nat \<Rightarrow> u64" where
  "PLANE_RK3576_CLUSTER_WIN c w = push_bit (2 * c + w) 1"
definition PLANE_RK3576_ESMART_WIN :: "nat \<Rightarrow> nat \<Rightarrow> u64" where
  "PLANE_RK3576_ESMART_WIN e w = push_bit (4 + 4 * e + w) 1"
definition PLANE_RK3576_ALL_CLUSTER_MASK :: u64 where "PLANE_RK3576_ALL_CLUSTER_MASK = 0xf"
definition PLANE_RK3576_ALL_ESMART_MASK :: u64 where "PLANE_RK3576_ALL_ESMART_MASK = 0xffff0"

definition PLANE_RK356x_CLUSTER_WIN :: "nat \<Rightarrow> nat \<Rightarrow> u64" where
  "PLANE_RK356x_CLUSTER_WIN c w = push_bit (2 * c + w) 1"
definition PLANE_RK356x_ESMART_WIN :: "nat \<Rightarrow> nat \<Rightarrow> u64" where
  "PLANE_RK356x_ESMART_WIN e w = push_bit (4 + 4 * e + w) 1"
definition PLANE_RK356x_SMART_WIN :: "nat \<Rightarrow> nat \<Rightarrow> u64" where
  "PLANE_RK356x_SMART_WIN e w = push_bit (12 + 4 * e + w) 1"
definition DRM_PLANE_TYPE_ALL_CLUSTER_MASK :: u64 where "DRM_PLANE_TYPE_ALL_CLUSTER_MASK = 0xf"
definition DRM_PLANE_TYPE_SMART0_MASK :: u64 where "DRM_PLANE_TYPE_SMART0_MASK = 0xf000"
definition DRM_PLANE_TYPE_SMART1_MASK :: u64 where "DRM_PLANE_TYPE_SMART1_MASK = 0xf0000"

definition PLANE_RK3528_ESMART_WIN :: "nat \<Rightarrow> nat \<Rightarrow> u64" where
  "PLANE_RK3528_ESMART_WIN e w = push_bit (4 + 4 * e + w) 1"
definition PLANE_RK3528_CLUSTER0_WIN :: "nat \<Rightarrow> u64" where
  "PLANE_RK3528_CLUSTER0_WIN w = push_bit (20 + w) 1"
definition PLANE_RK3528_ALL_CLUSTER_MASK :: u64 where
  "PLANE_RK3528_ALL_CLUSTER_MASK = PLANE_RK3528_CLUSTER0_WIN 0 OR PLANE_RK3528_CLUSTER0_WIN 1"

definition PLANE_RK3562_ESMART_WIN :: "nat \<Rightarrow> nat \<Rightarrow> u64" where
  "PLANE_RK3562_ESMART_WIN e w = push_bit (4 * e + w) 1"

definition VOP0_WIN :: "nat \<Rightarrow> u64" where "VOP0_WIN w = push_bit w 1"
definition VOP0_WIN2 :: "nat \<Rightarrow> u64" where "VOP0_WIN2 w = push_bit (2 + w) 1"
definition VOP0_WIN3 :: "nat \<Rightarrow> u64" where "VOP0_WIN3 w = push_bit (6 + w) 1"
definition VOP1_WIN :: "nat \<Rightarrow> u64" where "VOP1_WIN w = push_bit (10 + w) 1"
definition VOP1_WIN2 :: "nat \<Rightarrow> u64" where "VOP1_WIN2 w = push_bit (12 + w) 1"
definition VOP1_WIN3 :: "nat \<Rightarrow> u64" where "VOP1_WIN3 w = push_bit (16 + w) 1"
definition VOP0_MASK :: u64 where
  "VOP0_MASK = VOP0_WIN 0 OR VOP0_WIN 1 OR push_bit 2 0xf OR push_bit 6 0xf"
definition VOP1_MASK :: u64 where
  "VOP1_MASK = VOP1_WIN 0 OR VOP1_WIN 1 OR push_bit 12 0xf OR push_bit 16 0xf"

definition PLANE_Unknown :: u64 where "PLANE_Unknown = 0xffffffff"

lemmas mask_defs =
  PLANE_RK3588_CLUSTER_WIN_def PLANE_RK3588_ESMART_WIN_def PLANE_RK3588_ALL_CLUSTER_MASK_def
  PLANE_RK3588_ALL_ESMART_MASK_def PLANE_RK3576_CLUSTER_WIN_def PLANE_RK3576_ESMART_WIN_def
  PLANE_RK3576_ALL_CLUSTER_MASK_def PLANE_RK3576_ALL_ESMART_MASK_def
  PLANE_RK356x_CLUSTER_WIN_def PLANE_RK356x_ESMART_WIN_def PLANE_RK356x_SMART_WIN_def
  DRM_PLANE_TYPE_ALL_CLUSTER_MASK_def DRM_PLANE_TYPE_SMART0_MASK_def
  DRM_PLANE_TYPE_SMART1_MASK_def PLANE_RK3528_ESMART_WIN_def PLANE_RK3528_CLUSTER0_WIN_def
  PLANE_RK3528_ALL_CLUSTER_MASK_def PLANE_RK3562_ESMART_WIN_def VOP0_WIN_def VOP0_WIN2_def
  VOP0_WIN3_def VOP1_WIN_def VOP1_WIN2_def VOP1_WIN3_def VOP0_MASK_def VOP1_MASK_def
  PLANE_Unknown_def

section \<open>The tables of plane names\<close>

definition plane_type_names_rk3588 :: "(u64 \<times> string) list" where
  "plane_type_names_rk3588 =
     [(PLANE_RK3588_CLUSTER_WIN 0 0, ''Cluster0-win0''),
      (PLANE_RK3588_CLUSTER_WIN 0 1, ''Cluster0-win1''),
      (PLANE_RK3588_CLUSTER_WIN 1 0, ''Cluster1-win0''),
      (PLANE_RK3588_CLUSTER_WIN 1 1, ''Cluster1-win1''),
      (PLANE_RK3588_CLUSTER_WIN 2 0, ''Cluster2-win0''),
      (PLANE_RK3588_CLUSTER_WIN 2 1, ''Cluster2-win1''),
      (PLANE_RK3588_CLUSTER_WIN 3 0, ''Cluster3-win0''),
      (PLANE_RK3588_CLUSTER_WIN 3 1, ''Cluster3-win1''),
      (PLANE_RK3588_ESMART_WIN 0 0, ''Esmart0-win0''),
      (PLANE_RK3588_ESMART_WIN 0 1, ''Esmart0-win1''),
      (PLANE_RK3588_ESMART_WIN 0 2, ''Esmart0-win2''),
      (PLANE_RK3588_ESMART_WIN 0 3, ''Esmart0-win3''),
      (PLANE_RK3588_ESMART_WIN 1 0, ''Esmart1-win0''),
      (PLANE_RK3588_ESMART_WIN 1 1, ''Esmart1-win1''),
      (PLANE_RK3588_ESMART_WIN 1 2, ''Esmart1-win2''),
      (PLANE_RK3588_ESMART_WIN 1 3, ''Esmart1-win3''),
      (PLANE_RK3588_ESMART_WIN 2 0, ''Esmart2-win0''),
      (PLANE_RK3588_ESMART_WIN 2 1, ''Esmart2-win1''),
      (PLANE_RK3588_ESMART_WIN 2 2, ''Esmart2-win2''),
      (PLANE_RK3588_ESMART_WIN 2 3, ''Esmart2-win3''),
      (PLANE_RK3588_ESMART_WIN 3 0, ''Esmart3-win0''),
      (PLANE_RK3588_ESMART_WIN 3 1, ''Esmart3-win1''),
      (PLANE_RK3588_ESMART_WIN 3 2, ''Esmart3-win2''),
      (PLANE_RK3588_ESMART_WIN 3 3, ''Esmart3-win3''),
      (PLANE_Unknown, ''unknown'')]"

definition plane_type_names_rk3576 :: "(u64 \<times> string) list" where
  "plane_type_names_rk3576 =
     [(PLANE_RK3576_CLUSTER_WIN 0 0, ''Cluster0-win0''),
      (PLANE_RK3576_CLUSTER_WIN 0 1, ''Cluster0-win1''),
      (PLANE_RK3576_CLUSTER_WIN 1 0, ''Cluster1-win0''),
      (PLANE_RK3576_CLUSTER_WIN 1 1, ''Cluster1-win1''),
      (PLANE_RK3576_ESMART_WIN 0 0, ''Esmart0-win0''),
      (PLANE_RK3576_ESMART_WIN 0 1, ''Esmart0-win1''),
      (PLANE_RK3576_ESMART_WIN 0 2, ''Esmart0-win2''),
      (PLANE_RK3576_ESMART_WIN 0 3, ''Esmart0-win3''),
      (PLANE_RK3576_ESMART_WIN 1 0, ''Esmart1-win0''),
      (PLANE_RK3576_ESMART_WIN 1 1, ''Esmart1-win1''),
      (PLANE_RK3576_ESMART_WIN 1 2, ''Esmart1-win2''),
      (PLANE_RK3576_ESMART_WIN 1 3, ''Esmart1-win3''),
      (PLANE_RK3576_ESMART_WIN 2 0, ''Esmart2-win0''),
      (PLANE_RK3576_ESMART_WIN 2 1, ''Esmart2-win1''),
      (PLANE_RK3576_ESMART_WIN 2 2, ''Esmart2-win2''),
      (PLANE_RK3576_ESMART_WIN 2 3, ''Esmart2-win3''),
      (PLANE_RK3576_ESMART_WIN 3 0, ''Esmart3-win0''),
      (PLANE_RK3576_ESMART_WIN 3 1, ''Esmart3-win1''),
      (PLANE_RK3576_ESMART_WIN 3 2, ''Esmart3-win2''),
      (PLANE_RK3576_ESMART_WIN 3 3, ''Esmart3-win3''),
      (PLANE_Unknown, ''unknown'')]"

definition plane_type_names_rk356x :: "(u64 \<times> string) list" where
  "plane_type_names_rk356x =
     [(PLANE_RK356x_CLUSTER_WIN 0 0, ''Cluster0-win0''),
      (PLANE_RK356x_CLUSTER_WIN 0 1, ''Cluster0-win1''),
      (PLANE_RK356x_CLUSTER_WIN 1 0, ''Cluster1-win0''),
      (PLANE_RK356x_CLUSTER_WIN 1 1, ''Cluster1-win1''),
      (PLANE_RK356x_ESMART_WIN 0 0, ''Esmart0-win0''),
      (PLANE_RK356x_ESMART_WIN 0 1, ''Esmart0-win1''),
      (PLANE_RK356x_ESMART_WIN 0 2, ''Esmart0-win2''),
      (PLANE_RK356x_ESMART_WIN 0 3, ''Esmart0-win3''),
      (PLANE_RK356x_ESMART_WIN 1 0, ''Esmart1-win0''),
      (PLANE_RK356x_ESMART_WIN 1 1, ''Esmart1-win1''),
      (PLANE_RK356x_ESMART_WIN 1 2, ''Esmart1-win2''),
      (PLANE_RK356x_ESMART_WIN 1 3, ''Esmart1-win3''),
      (PLANE_RK356x_SMART_WIN 0 0, ''Smart0-win0''),
      (PLANE_RK356x_SMART_WIN 0 1, ''Smart0-win1''),
      (PLANE_RK356x_SMART_WIN 0 2, ''Smart0-win2''),
      (PLANE_RK356x_SMART_WIN 0 3, ''Smart0-win3''),
      (PLANE_RK356x_SMART_WIN 1 0, ''Smart1-win0''),
      (PLANE_RK356x_SMART_WIN 1 1, ''Smart1-win1''),
      (PLANE_RK356x_SMART_WIN 1 2, ''Smart1-win2''),
      (PLANE_RK356x_SMART_WIN 1 3, ''Smart1-win3''),
      (PLANE_Unknown, ''unknown'')]"

definition plane_type_names_rk3528 :: "(u64 \<times> string) list" where
  "plane_type_names_rk3528 =
     [(PLANE_RK3528_CLUSTER0_WIN 0, ''Cluster0-win0''),
      (PLANE_RK3528_CLUSTER0_WIN 1, ''Cluster0-win1''),
      (PLANE_RK3528_ESMART_WIN 0 0, ''Esmart0-win0''),
      (PLANE_RK3528_ESMART_WIN 0 1, ''Esmart0-win1''),
      (PLANE_RK3528_ESMART_WIN 0 2, ''Esmart0-win2''),
      (PLANE_RK3528_ESMART_WIN 0 3, ''Esmart0-win3''),
      (PLANE_RK3528_ESMART_WIN 1 0, ''Esmart1-win0''),
      (PLANE_RK3528_ESMART_WIN 1 1, ''Esmart1-win1''),
      (PLANE_RK3528_ESMART_WIN 1 2, ''Esmart1-win2''),
      (PLANE_RK3528_ESMART_WIN 1 3, ''Esmart1-win3''),
      (PLANE_RK3528_ESMART_WIN 2 0, ''Esmart2-win0''),
      (PLANE_RK3528_ESMART_WIN 2 1, ''Esmart2-win1''),
      (PLANE_RK3528_ESMART_WIN 2 2, ''Esmart2-win2''),
      (PLANE_RK3528_ESMART_WIN 2 3, ''Esmart2-win3''),
      (PLANE_RK3528_ESMART_WIN 3 0, ''Esmart3-win0''),
      (PLANE_RK3528_ESMART_WIN 3 1, ''Esmart3-win1''),
      (PLANE_RK3528_ESMART_WIN 3 2, ''Esmart3-win2''),
      (PLANE_RK3528_ESMART_WIN 3 3, ''Esmart3-win3''),
      (PLANE_Unknown, ''unknown'')]"

definition plane_type_names_rk3562 :: "(u64 \<times> string) list" where
  "plane_type_names_rk3562 =
     [(PLANE_RK3562_ESMART_WIN 0 0, ''Esmart0-win0''),
      (PLANE_RK3562_ESMART_WIN 0 1, ''Esmart0-win1''),
      (PLANE_RK3562_ESMART_WIN 0 2, ''Esmart0-win2''),
      (PLANE_RK3562_ESMART_WIN 0 3, ''Esmart0-win3''),
      (PLANE_RK3562_ESMART_WIN 1 0, ''Esmart1-win0''),
      (PLANE_RK3562_ESMART_WIN 1 1, ''Esmart1-win1''),
      (PLANE_RK3562_ESMART_WIN 1 2, ''Esmart1-win2''),
      (PLANE_RK3562_ESMART_WIN 1 3, ''Esmart1-win3''),
      (PLANE_RK3562_ESMART_WIN 2 0, ''Esmart2-win0''),
      (PLANE_RK3562_ESMART_WIN 2 1, ''Esmart2-win1''),
      (PLANE_RK3562_ESMART_WIN 2 2, ''Esmart2-win2''),
      (PLANE_RK3562_ESMART_WIN 2 3, ''Esmart2-win3''),
      (PLANE_RK3562_ESMART_WIN 3 0, ''Esmart3-win0''),
      (PLANE_RK3562_ESMART_WIN 3 1, ''Esmart3-win1''),
      (PLANE_RK3562_ESMART_WIN 3 2, ''Esmart3-win2''),
      (PLANE_RK3562_ESMART_WIN 3 3, ''Esmart3-win3''),
      (PLANE_Unknown, ''unknown'')]"

definition plane_type_names_rk3326 :: "(u64 \<times> string) list" where
  "plane_type_names_rk3326 =
     [(VOP0_WIN 0, ''VOP0-win0-0''),
      (VOP0_WIN 1, ''VOP0-win1-0''),
      (VOP0_WIN2 0, ''VOP0-win2-0''),
      (VOP0_WIN2 1, ''VOP0-win2-1''),
      (VOP0_WIN2 2, ''VOP0-win2-2''),
      (VOP0_WIN2 3, ''VOP0-win2-3''),
      (VOP1_WIN 1, ''VOP1-win1-0''),
      (PLANE_Unknown, ''unknown'')]"

text \<open>A row of the RK3399 table: type, on the big VOP, DRM plane type, scales, area 0, name.\<close>

type_synonym row3399 = "u64 \<times> bool \<times> u32 \<times> bool \<times> bool \<times> string"

definition plane_type_names_rk3399 :: "sdk \<Rightarrow> row3399 list" where
  "plane_type_names_rk3399 K =
     [(VOP0_WIN 0, True, DRM_PLANE_TYPE_PRIMARY K, True, True, ''VOP0-win0-0''),
      (VOP0_WIN 1, True, DRM_PLANE_TYPE_OVERLAY K, True, True, ''VOP0-win1-0''),
      (VOP0_WIN2 0, True, DRM_PLANE_TYPE_CURSOR K, False, True, ''VOP0-win2-0''),
      (VOP0_WIN2 1, True, DRM_PLANE_TYPE_OVERLAY K, False, False, ''VOP0-win2-1''),
      (VOP0_WIN2 2, True, DRM_PLANE_TYPE_OVERLAY K, False, False, ''VOP0-win2-2''),
      (VOP0_WIN2 3, True, DRM_PLANE_TYPE_OVERLAY K, False, False, ''VOP0-win2-3''),
      (VOP0_WIN3 0, True, DRM_PLANE_TYPE_OVERLAY K, False, True, ''VOP0-win3-0''),
      (VOP0_WIN3 1, True, DRM_PLANE_TYPE_OVERLAY K, False, False, ''VOP0-win3-1''),
      (VOP0_WIN3 2, True, DRM_PLANE_TYPE_OVERLAY K, False, False, ''VOP0-win3-2''),
      (VOP0_WIN3 3, True, DRM_PLANE_TYPE_OVERLAY K, False, False, ''VOP0-win3-3''),
      (VOP1_WIN 0, False, DRM_PLANE_TYPE_OVERLAY K, True, True, ''VOP1-win0-0''),
      (VOP1_WIN2 0, False, DRM_PLANE_TYPE_PRIMARY K, False, True, ''VOP1-win2-0''),
      (VOP1_WIN2 1, False, DRM_PLANE_TYPE_OVERLAY K, False, False, ''VOP1-win2-1''),
      (VOP1_WIN2 2, False, DRM_PLANE_TYPE_OVERLAY K, False, False, ''VOP1-win2-2''),
      (VOP1_WIN2 3, False, DRM_PLANE_TYPE_OVERLAY K, False, False, ''VOP1-win2-3''),
      (PLANE_Unknown, False, 0, False, False, ''unknown'')]"

section \<open>A plane\<close>

record DrmPlane =
  plane_id :: u32
  possible_crtc_mask :: u32
  current_crtc_bit :: u32
  plane_type :: u32
  plane_props :: "(string \<times> DrmProperty) list"
  bReserved :: bool
  b_use :: bool
  b_yuv :: bool
  b_scale :: bool
  b_alpha :: bool
  b_hdr2sdr :: bool
  b_sdr2hdr :: bool
  b_afbdc :: bool
  win_type :: u64
  plane_name :: string
  rotate_bits :: u32
  input_w_max :: int
  input_h_max :: int
  output_w_max :: int
  output_h_max :: int
  scale_min :: "rat option"
  scale_max :: rat
  support_format_list :: "u32 list"
  soc_id :: u32

definition DRM_PLANE_ROTATION_0 :: u32 where "DRM_PLANE_ROTATION_0 = push_bit 0 1"
definition DRM_PLANE_ROTATION_90 :: u32 where "DRM_PLANE_ROTATION_90 = push_bit 1 1"
definition DRM_PLANE_ROTATION_270 :: u32 where "DRM_PLANE_ROTATION_270 = push_bit 2 1"
definition DRM_PLANE_ROTATION_X_MIRROR :: u32 where "DRM_PLANE_ROTATION_X_MIRROR = push_bit 3 1"
definition DRM_PLANE_ROTATION_Y_MIRROR :: u32 where "DRM_PLANE_ROTATION_Y_MIRROR = push_bit 4 1"

lemmas rotation_defs =
  DRM_PLANE_ROTATION_0_def DRM_PLANE_ROTATION_90_def DRM_PLANE_ROTATION_270_def
  DRM_PLANE_ROTATION_X_MIRROR_def DRM_PLANE_ROTATION_Y_MIRROR_def

definition plane_rotation_type_names :: "(u32 \<times> string) list" where
  "plane_rotation_type_names =
     [(DRM_PLANE_ROTATION_0, ''rotate-0''), (DRM_PLANE_ROTATION_90, ''rotate-90''),
      (DRM_PLANE_ROTATION_270, ''rotate-270''), (DRM_PLANE_ROTATION_X_MIRROR, ''reflect-x''),
      (DRM_PLANE_ROTATION_Y_MIRROR, ''reflect-y''), (0xff, ''unknown'')]"

text \<open>The property a member holds; a member that was never written is default constructed.\<close>

definition plane_prop :: "DrmPlane \<Rightarrow> string \<Rightarrow> DrmProperty" where
  "plane_prop s m = (case map_of (plane_props s) m of None \<Rightarrow> DrmProperty_default | Some p \<Rightarrow> p)"

section \<open>Naming the window\<close>

text \<open>The loop over a name table: the first row whose name the \<open>NAME\<close> property knows.\<close>

fun find_name_row :: "sdk \<Rightarrow> DrmProperty \<Rightarrow> (u64 \<times> string) list \<Rightarrow> (u64 \<times> string) option" where
  "find_name_row K p [] = None"
| "find_name_row K p ((ty, n) # rows) =
     (if snd (prop_bitmask K p (Some n)) then Some (ty, n) else find_name_row K p rows)"

text \<open>
  \<open>match\<close> of the RK3399 table.  The table is a local array, so its \<open>matched\<close> flags are clear
  at every call, and the loop stops at the first match: the flag never takes effect.
\<close>

definition match_3399 :: "row3399 \<Rightarrow> bool \<Rightarrow> u32 \<Rightarrow> bool \<Rightarrow> int \<Rightarrow> int \<Rightarrow> bool" where
  "match_3399 row vop_big ty isScale i share_id =
     (case row of (_, is_vop_big, plane_ty, scales, isArea0, _) \<Rightarrow>
        vop_big = is_vop_big \<and> ty = plane_ty \<and> isScale = scales \<and> (i = share_id) = isArea0)"

fun find_row_3399 :: "row3399 list \<Rightarrow> bool \<Rightarrow> u32 \<Rightarrow> bool \<Rightarrow> int \<Rightarrow> int \<Rightarrow> (u64 \<times> string) option" where
  "find_row_3399 [] vop_big ty isScale i share_id = None"
| "find_row_3399 (row # rows) vop_big ty isScale i share_id =
     (if match_3399 row vop_big ty isScale i share_id
      then Some (fst row, snd (snd (snd (snd (snd row)))))
      else find_row_3399 rows vop_big ty isScale i share_id)"

text \<open>A CRTC as \<open>mark_type_by_name\<close> sees it: its pipe and whether it supports AFBC.\<close>

fun crtc_mask_big :: "(nat \<times> bool) list \<Rightarrow> u32 \<Rightarrow> u32" where
  "crtc_mask_big [] m = m"
| "crtc_mask_big ((pipe, afbc) # cs) m = crtc_mask_big cs (if afbc then push_bit pipe 1 else m)"

definition set_win :: "(u64 \<times> string) option \<Rightarrow> DrmPlane \<Rightarrow> DrmPlane" where
  "set_win r s =
     (case r of None \<Rightarrow> s | Some (ty, n) \<Rightarrow> s\<lparr>win_type := ty, plane_name := n\<rparr>)"

definition mark_rk3399 :: "sdk \<Rightarrow> (nat \<times> bool) list \<Rightarrow> DrmPlane \<Rightarrow> DrmPlane" where
  "mark_rk3399 K crtcs s =
     (let np = plane_prop s ''name_property'';
          rows = plane_type_names_rk3399 K;
          named = (if prop_id np \<noteq> 0
                   then find_name_row K np
                          (List.map (\<lambda>row. (fst row, snd (snd (snd (snd (snd row)))))) rows)
                   else None)
      in case named of
           Some r \<Rightarrow> set_win (Some r) s
         | None \<Rightarrow>
            (let shareid = sint (ucast (snd (prop_value_of K (plane_prop s ''share_id_property'')))
                             :: u32);
                 vop_big = (possible_crtc_mask s = crtc_mask_big crtcs 0)
             in case find_row_3399 rows vop_big (plane_type s) (b_scale s)
                       (sint (plane_id s)) shareid of
                  Some r \<Rightarrow> set_win (Some r) s
                | None \<Rightarrow> set_win (Some (PLANE_Unknown, ''unknown'')) s))"

definition mark_type_by_name :: "sdk \<Rightarrow> (nat \<times> bool) list \<Rightarrow> DrmPlane \<Rightarrow> DrmPlane" where
  "mark_type_by_name K crtcs s =
     (let np = plane_prop s ''name_property'' in
      if isRK3588 (soc_id s) then set_win (find_name_row K np plane_type_names_rk3588) s
      else if isRK3576 (soc_id s) then set_win (find_name_row K np plane_type_names_rk3576) s
      else if isRK356x (soc_id s) then set_win (find_name_row K np plane_type_names_rk356x) s
      else if isRK3399 (soc_id s) then mark_rk3399 K crtcs s
      else if isRK3528 (soc_id s) then set_win (find_name_row K np plane_type_names_rk3528) s
      else if isRK3326 (soc_id s) then set_win (find_name_row K np plane_type_names_rk3326) s
      else if isRK3562 (soc_id s) then set_win (find_name_row K np plane_type_names_rk3562) s
      else s)"

section \<open>\<open>Init\<close>\<close>

text \<open>
  \<open>drm_->GetPlaneProperty(*this, name, &member)\<close> is the argument \<open>gp\<close>: the return code and,
  when that is zero, the property written to the member.
\<close>

type_synonym plane_property_reader = "string \<Rightarrow> int \<times> DrmProperty"

definition fetch :: "plane_property_reader \<Rightarrow> string \<Rightarrow> string \<Rightarrow> DrmPlane \<Rightarrow> int \<times> DrmPlane" where
  "fetch gp name m s =
     (case gp name of (ret, p) \<Rightarrow>
        if ret = 0 then (0, s\<lparr>plane_props := (m, p) # plane_props s\<rparr>) else (ret, s))"

definition try_fetch :: "plane_property_reader \<Rightarrow> string \<Rightarrow> string \<Rightarrow> DrmPlane \<Rightarrow> DrmPlane" where
  "try_fetch gp name m s = snd (fetch gp name m s)"

text \<open>The ten properties without which \<open>Init\<close> returns the error.\<close>

fun fetch_all :: "plane_property_reader \<Rightarrow> (string \<times> string) list \<Rightarrow> DrmPlane \<Rightarrow> int \<times> DrmPlane" where
  "fetch_all gp [] s = (0, s)"
| "fetch_all gp ((name, m) # rest) s =
     (case fetch gp name m s of (ret, s') \<Rightarrow>
        if ret \<noteq> 0 then (ret, s') else fetch_all gp rest s')"

definition required_props :: "(string \<times> string) list" where
  "required_props =
     [(''CRTC_ID'', ''crtc_property''), (''FB_ID'', ''fb_property''),
      (''CRTC_X'', ''crtc_x_property''), (''CRTC_Y'', ''crtc_y_property''),
      (''CRTC_W'', ''crtc_w_property''), (''CRTC_H'', ''crtc_h_property''),
      (''SRC_X'', ''src_x_property''), (''SRC_Y'', ''src_y_property''),
      (''SRC_W'', ''src_w_property''), (''SRC_H'', ''src_h_property'')]"

definition init_features :: "sdk \<Rightarrow> DrmPlane \<Rightarrow> DrmPlane" where
  "init_features K s =
     (let fp = plane_prop s ''feature_property'';
          s1 = s\<lparr> b_scale := snd (prop_value_bitmask K fp (Some ''scale'')),
                  b_alpha := snd (prop_value_bitmask K fp (Some ''alpha'')),
                  b_hdr2sdr := snd (prop_value_bitmask K fp (Some ''hdr2sdr'')),
                  b_sdr2hdr := snd (prop_value_bitmask K fp (Some ''sdr2hdr'')),
                  b_afbdc := snd (prop_value_bitmask K fp (Some ''afbdc'')) \<rparr>;
          soc = soc_id s;
          s2 = (if isRK356x soc \<or> isRK3588 soc \<or> isRK3528 soc \<or> isRK3562 soc \<or> isRK3576 soc
                then s1\<lparr> b_alpha := True, b_hdr2sdr := True, b_sdr2hdr := True \<rparr> else s1)
      in if isRK3399 soc then s2\<lparr> b_alpha := True \<rparr> else s2)"

fun rotation_loop :: "sdk \<Rightarrow> DrmProperty \<Rightarrow> (u32 \<times> string) list \<Rightarrow> u32 \<Rightarrow> u32" where
  "rotation_loop K p [] r = r"
| "rotation_loop K p ((ty, n) # rows) r =
     (case prop_bitmask K p (Some n) of (v, found) \<Rightarrow>
        rotation_loop K p rows (if found then r OR word_of_int v else r))"

definition init_rotation :: "sdk \<Rightarrow> plane_property_reader \<Rightarrow> DrmPlane \<Rightarrow> DrmPlane" where
  "init_rotation K gp s =
     (let s0 = s\<lparr> rotate_bits := DRM_PLANE_ROTATION_0 \<rparr> in
      case fetch gp ''rotation'' ''rotation_property'' s0 of (ret, s1) \<Rightarrow>
        if ret \<noteq> 0 then s1
        else s1\<lparr> rotate_bits :=
               rotation_loop K (plane_prop s1 ''rotation_property'') plane_rotation_type_names
                 (rotate_bits s1) \<rparr>)"

definition u64_to_int :: "u64 \<Rightarrow> int" where
  "u64_to_int v = sint (ucast v :: u32)"

text \<open>Reading one size limit: the upper end of the range property, when there is one.\<close>

definition init_limit ::
  "sdk \<Rightarrow> plane_property_reader \<Rightarrow> string \<Rightarrow> string \<Rightarrow> (int \<Rightarrow> DrmPlane \<Rightarrow> DrmPlane) \<Rightarrow> DrmPlane \<Rightarrow> DrmPlane"
where
  "init_limit K gp name m put s =
     (case fetch gp name m s of (ret, s1) \<Rightarrow>
        if ret \<noteq> 0 then s1
        else (case range_max K (plane_prop s1 m) of (ret2, v) \<Rightarrow>
                if ret2 = 0 then put (u64_to_int v) s1 else s1))"

definition init_scale :: "sdk \<Rightarrow> plane_property_reader \<Rightarrow> DrmPlane \<Rightarrow> DrmPlane" where
  "init_scale K gp s =
     (case fetch gp ''SCALE_RATE'' ''scale_rate_property'' s of (ret, s1) \<Rightarrow>
        if ret \<noteq> 0 then s1
        else
         (let p = plane_prop s1 ''scale_rate_property'';
              s2 = (case range_max K p of (r, v) \<Rightarrow>
                      if r = 0
                      then s1\<lparr> scale_min := if v = 0 then None else Some (1 / of_nat (unat v)) \<rparr>
                      else s1);
              s3 = (case range_min K p of (r, v) \<Rightarrow>
                      if r = 0 then s2\<lparr> scale_max := of_nat (unat v) \<rparr> else s2)
          in if isRK356x (soc_id s3) \<and>
                win_type s3 AND (DRM_PLANE_TYPE_SMART0_MASK OR DRM_PLANE_TYPE_SMART1_MASK) \<noteq> 0
             then s3\<lparr> b_scale := False, scale_min := Some 1, scale_max := 1 \<rparr> else s3))"

definition AddLocalPlaneInfo :: "u32 \<Rightarrow> DrmPlane \<Rightarrow> DrmPlane" where
  "AddLocalPlaneInfo drm_version s =
     (if isRK3399 (soc_id s) \<and> drm_version = 2 then
        (let s1 = (if win_type s AND VOP0_MASK \<noteq> 0
                   then s\<lparr> input_w_max := 4096, input_h_max := 8192,
                           output_w_max := 4096, output_h_max := 8192 \<rparr>
                   else if win_type s AND VOP1_MASK \<noteq> 0
                   then s\<lparr> input_w_max := 4096, input_h_max := 8192,
                           output_w_max := 2560, output_h_max := 8192 \<rparr>
                   else s);
             s2 = (if win_type s AND (VOP1_WIN 0 OR VOP0_WIN 0 OR VOP0_WIN 1) \<noteq> 0
                   then s1\<lparr> scale_max := 8, scale_min := Some (1 / 8), b_scale := True \<rparr>
                   else s1\<lparr> scale_max := 1, scale_min := Some 1, b_scale := False \<rparr>)
         in if win_type s AND VOP1_MASK \<noteq> 0 then s2\<lparr> b_afbdc := False \<rparr> else s2)
      else s)"

definition init_type :: "sdk \<Rightarrow> plane_property_reader \<Rightarrow> DrmPlane \<Rightarrow> int \<times> DrmPlane" where
  "init_type K gp s =
     (case gp ''type'' of (ret, p) \<Rightarrow>
        if ret \<noteq> 0 then (ret, s)
        else (case prop_value_of K p of (ret2, ty) \<Rightarrow>
          if ret2 \<noteq> 0 then (ret2, s)
          else if ty \<in> {ucast (DRM_PLANE_TYPE_OVERLAY K), ucast (DRM_PLANE_TYPE_PRIMARY K),
                         ucast (DRM_PLANE_TYPE_CURSOR K)}
          then (0, s\<lparr> plane_type := ucast ty \<rparr>)
          else (- EINVAL K, s)))"

definition init_zpos :: "plane_property_reader \<Rightarrow> DrmPlane \<Rightarrow> DrmPlane" where
  "init_zpos gp s =
     (case fetch gp ''ZPOS'' ''zpos_property'' s of (ret, s1) \<Rightarrow>
        if ret \<noteq> 0 then try_fetch gp ''zpos'' ''zpos_property'' s1 else s1)"

definition fetch_or ::
  "plane_property_reader \<Rightarrow> string \<Rightarrow> string \<Rightarrow> string \<Rightarrow> string \<Rightarrow> DrmPlane \<Rightarrow> DrmPlane" where
  "fetch_or gp name m name' m' s =
     (case fetch gp name m s of (ret, s1) \<Rightarrow>
        if ret \<noteq> 0 then try_fetch gp name' m' s1 else s1)"

definition init_name :: "sdk \<Rightarrow> (nat \<times> bool) list \<Rightarrow> plane_property_reader \<Rightarrow> DrmPlane \<Rightarrow> DrmPlane" where
  "init_name K crtcs gp s =
     (case fetch gp ''NAME'' ''name_property'' s of (ret, s1) \<Rightarrow>
        if ret \<noteq> 0
        then (if isRK3399 (soc_id s1) then mark_type_by_name K crtcs s1 else s1)
        else mark_type_by_name K crtcs s1)"

definition init_tail :: "plane_property_reader \<Rightarrow> u32 \<Rightarrow> DrmPlane \<Rightarrow> DrmPlane" where
  "init_tail gp drm_version s =
     (let s1 = try_fetch gp ''ASYNC_COMMIT'' ''async_commit_property'' s;
          s2 = (if drm_version = 4
                then try_fetch gp ''COLOR_RANGE'' ''kernel6_1_color_range''
                       (try_fetch gp ''COLOR_ENCODING'' ''kernel6_1_color_encoding'' s1)
                else try_fetch gp ''COLOR_SPACE'' ''colorspace_property'' s1);
          s3 = try_fetch gp ''DCI_DATA'' ''dci_data'' s2
      in AddLocalPlaneInfo drm_version s3)"

text \<open>\<open>formats\<close> are the formats of the kernel's plane resource, \<open>crtcs\<close> the device's CRTCs.\<close>

definition plane_Init ::
  "sdk \<Rightarrow> u32 \<Rightarrow> (nat \<times> bool) list \<Rightarrow> plane_property_reader \<Rightarrow> u32 list \<Rightarrow> DrmPlane \<Rightarrow> int \<times> DrmPlane"
where
  "plane_Init K drm_version crtcs gp formats s =
     (case init_type K gp s of (ret, s1) \<Rightarrow>
      if ret \<noteq> 0 then (ret, s1)
      else (case fetch_all gp required_props s1 of (ret, s2) \<Rightarrow>
      if ret \<noteq> 0 then (ret, s2)
      else
       (let s3 = init_zpos gp (try_fetch gp ''EOTF'' ''eotf_property'' s2);
            s4 = try_fetch gp ''FEATURE'' ''feature_property''
                   (try_fetch gp ''SHARE_ID'' ''share_id_property''
                     (try_fetch gp ''SHARE_FLAGS'' ''area_id_property'' s3));
            s5 = (init_features K s4)\<lparr> support_format_list := remdups formats \<rparr>;
            s6 = fetch_or gp ''pixel blend mode'' ''blend_mode_property''
                   ''BLEND_MODE'' ''blend_mode_property_vop1_kernel4_19''
                   (fetch_or gp ''alpha'' ''alpha_property''
                      ''GLOBAL_ALPHA'' ''alpha_property_vop1_kernel4_19'' s5);
            s7 = init_name K crtcs gp (init_rotation K gp s6);
            s8 = init_limit K gp ''OUTPUT_HEIGHT'' ''output_h_property'' (\<lambda>v. output_h_max_update (\<lambda>_. v))
                  (init_limit K gp ''OUTPUT_WIDTH'' ''output_w_property'' (\<lambda>v. output_w_max_update (\<lambda>_. v))
                    (init_limit K gp ''INPUT_HEIGHT'' ''input_h_property'' (\<lambda>v. input_h_max_update (\<lambda>_. v))
                      (init_limit K gp ''INPUT_WIDTH'' ''input_w_property'' (\<lambda>v. input_w_max_update (\<lambda>_. v)) s7)))
        in (0, init_tail gp drm_version (init_scale K gp s8)))))"

section \<open>The predicates of the matching\<close>

definition GetCrtcSupported :: "nat \<Rightarrow> DrmPlane \<Rightarrow> bool" where
  "GetCrtcSupported pipe s \<longleftrightarrow> push_bit pipe 1 AND possible_crtc_mask s \<noteq> 0"

definition get_rotate :: "DrmPlane \<Rightarrow> bool" where
  "get_rotate s \<longleftrightarrow> rotate_bits s AND DRM_PLANE_ROTATION_90 \<noteq> 0
                  \<or> rotate_bits s AND DRM_PLANE_ROTATION_270 \<noteq> 0"

definition above_min :: "DrmPlane \<Rightarrow> rat \<Rightarrow> bool" where
  "above_min s r \<longleftrightarrow> (case scale_min s of Some m \<Rightarrow> m \<le> r | None \<Rightarrow> False)"

definition strictly_above_min :: "DrmPlane \<Rightarrow> rat \<Rightarrow> bool" where
  "strictly_above_min s r \<longleftrightarrow> (case scale_min s of Some m \<Rightarrow> m < r | None \<Rightarrow> False)"

definition is_support_scale :: "DrmPlane \<Rightarrow> rat \<Rightarrow> bool" where
  "is_support_scale s scale_rate =
     (if isRK3588 (soc_id s) then
        (if has_bits (win_type s) PLANE_RK3588_ALL_CLUSTER_MASK
         then above_min s scale_rate \<and> scale_rate \<le> scale_max s
         else if has_bits (win_type s) PLANE_RK3588_ALL_ESMART_MASK
         then strictly_above_min s scale_rate \<and> scale_rate \<le> scale_max s
         else scale_rate = 1)
      else if b_scale s then above_min s scale_rate \<and> scale_rate \<le> scale_max s
      else scale_rate = 1)"

definition is_support_input :: "DrmPlane \<Rightarrow> int \<Rightarrow> int \<Rightarrow> bool" where
  "is_support_input s w h \<longleftrightarrow>
     (w \<le> input_w_max s \<and> 4 \<le> w) \<and> (h \<le> input_h_max s \<and> 4 \<le> h)"

definition is_support_output :: "DrmPlane \<Rightarrow> int \<Rightarrow> int \<Rightarrow> bool" where
  "is_support_output s w h \<longleftrightarrow>
     (w \<le> output_w_max s \<and> 4 \<le> w) \<and> (h \<le> output_h_max s \<and> 4 \<le> h)"

definition has_format :: "DrmPlane \<Rightarrow> u32 \<Rightarrow> bool" where
  "has_format s format \<longleftrightarrow> format \<in> set (support_format_list s)"

definition is_support_format :: "sdk \<Rightarrow> DrmPlane \<Rightarrow> u32 \<Rightarrow> bool \<Rightarrow> bool \<Rightarrow> bool" where
  "is_support_format K s format afbcd rfbcd =
     (if isRK3588 (soc_id s) then
        (if has_bits (win_type s) PLANE_RK3588_ALL_CLUSTER_MASK then
           (if afbcd then has_format s format
            else format \<in> {DRM_FORMAT_ABGR8888 K, DRM_FORMAT_BGR888 K, DRM_FORMAT_BGR565 K})
         else if has_bits (win_type s) PLANE_RK3588_ALL_ESMART_MASK \<and> \<not> afbcd
         then has_format s format else False)
      else if isRK3528 (soc_id s) then
        (if has_bits (win_type s) PLANE_RK3528_ALL_CLUSTER_MASK then
           (if format = HAL_PIXEL_FORMAT_RGBA_1010102 K \<and> \<not> afbcd then True
            else has_format s format)
         else if \<not> has_bits (win_type s) PLANE_RK3528_ALL_CLUSTER_MASK \<and> \<not> afbcd
         then has_format s format else False)
      else if isRK3562 (soc_id s) then (if \<not> afbcd then has_format s format else False)
      else if isRK356x (soc_id s) then
        (if has_bits (win_type s) DRM_PLANE_TYPE_ALL_CLUSTER_MASK \<and> afbcd
         then has_format s format
         else if \<not> has_bits (win_type s) DRM_PLANE_TYPE_ALL_CLUSTER_MASK \<and> \<not> afbcd
         then has_format s format else False)
      else if isRK3399 (soc_id s) then
        (if afbcd \<and> b_afbdc s then has_format s format
         else if \<not> afbcd then
           (if has_bits (win_type s) (VOP0_WIN 0 OR VOP0_WIN 1 OR VOP1_WIN 0)
               \<and> format = DRM_FORMAT_P010 K
            then True else has_format s format)
         else False)
      else if isRK3326 (soc_id s) then
        (if afbcd \<and> \<not> b_afbdc s then False else has_format s format)
      else if isRK3576 (soc_id s) then
        (if has_bits (win_type s) PLANE_RK3576_ALL_CLUSTER_MASK then
           (if afbcd then
              (if format \<in> {DRM_FORMAT_ABGR8888 K, DRM_FORMAT_ARGB8888 K, DRM_FORMAT_XRGB8888 K,
                   DRM_FORMAT_XBGR8888 K, DRM_FORMAT_BGR888 K, DRM_FORMAT_RGB888 K,
                   DRM_FORMAT_XBGR2101010 K, DRM_FORMAT_XRGB2101010 K, DRM_FORMAT_ABGR2101010 K,
                   DRM_FORMAT_ARGB2101010 K}
               then has_format s format else False)
            else has_format s format)
         else if has_bits (win_type s) PLANE_RK3576_ALL_ESMART_MASK \<and> \<not> afbcd \<and> \<not> rfbcd
         then has_format s format else False)
      else False)"

definition is_support_transform :: "DrmPlane \<Rightarrow> u32 \<Rightarrow> bool" where
  "is_support_transform s transform \<longleftrightarrow> transform AND rotate_bits s = transform"

definition is_support_scale_8k :: "DrmPlane \<Rightarrow> rat \<Rightarrow> bool" where
  "is_support_scale_8k s scale_rate =
     (if b_scale s then
        (if has_bits (win_type s) PLANE_RK3588_ALL_CLUSTER_MASK
         then 9 / 10 \<le> scale_rate \<and> scale_rate \<le> 11 / 10
         else above_min s scale_rate \<and> scale_rate \<le> scale_max s)
      else scale_rate = 1)"

definition is_support_input_8k :: "DrmPlane \<Rightarrow> int \<Rightarrow> int \<Rightarrow> bool" where
  "is_support_input_8k s w h \<longleftrightarrow> (w \<le> 8096 \<and> 4 \<le> w) \<and> (h \<le> 4320 \<and> 4 \<le> h)"

definition is_support_output_8k :: "DrmPlane \<Rightarrow> int \<Rightarrow> int \<Rightarrow> bool" where
  "is_support_output_8k s w h \<longleftrightarrow> (w \<le> 8096 \<and> 4 \<le> w) \<and> (h \<le> 4320 \<and> 4 \<le> h)"

definition is_support_transform_8k :: "DrmPlane \<Rightarrow> u32 \<Rightarrow> bool" where
  "is_support_transform_8k s transform \<longleftrightarrow> transform AND DRM_PLANE_ROTATION_0 = transform"

section \<open>Lemmas\<close>

lemma bitmask_found:
  "snd (prop_bitmask K p (Some n)) \<longleftrightarrow>
     prop_type p = DRM_PROPERTY_TYPE_BITMASK \<and> prop_values p \<noteq> [] \<and> n \<noteq> [] \<and>
     (\<exists>(v, m) \<in> set (prop_enums p). prefix n m)"
  using find_enum_None [of n "prop_enums p"]
  by (auto simp: prop_bitmask_def split: option.splits)

text \<open>A table can be searched by name when no name extends another one.\<close>

definition prefix_free :: "(u64 \<times> string) list \<Rightarrow> bool" where
  "prefix_free rows \<longleftrightarrow>
     (\<forall>r \<in> set rows. snd r \<noteq> [] \<and> (\<forall>r' \<in> set rows. prefix (snd r) (snd r') \<longrightarrow> r = r'))"

definition one_bit :: "u64 \<Rightarrow> bool" where
  "one_bit w \<longleftrightarrow> w \<noteq> 0 \<and> w AND (w - 1) = 0"

lemma prefix_free_Cons: "prefix_free (r # rows) \<Longrightarrow> prefix_free rows"
  by (auto simp: prefix_free_def)

lemma find_name_row_exact:
  assumes "prefix_free rows" "(ty, n) \<in> set rows"
    and "prop_type p = DRM_PROPERTY_TYPE_BITMASK" "prop_values p \<noteq> []"
    and "map snd (prop_enums p) = [n]"
  shows "find_name_row K p rows = Some (ty, n)"
  using assms(1,2)
proof (induction rows)
  case (Cons r rows)
  obtain ty' n' where r: "r = (ty', n')" by fastforce
  have e: "\<exists>v. prop_enums p = [(v, n)]"
    using assms(5) by (cases "prop_enums p") (auto simp: prod_eq_iff)
  show ?case
  proof (cases "prefix n' n")
    case True
    then have "r = (ty, n)" using Cons.prems r by (force simp: prefix_free_def)
    with r e assms(3,4) Cons.prems show ?thesis
      by (auto simp: bitmask_found prefix_free_def)
  next
    case False
    with Cons.prems have "(ty, n) \<in> set rows" using r by auto
    with Cons.IH [OF prefix_free_Cons [OF Cons.prems(1)]] False r e assms(3,4)
    show ?thesis by (auto simp: bitmask_found)
  qed
qed simp

text \<open>The table of a SoC whose planes carry a \<open>NAME\<close> property, in the order the SoC is tested.\<close>

definition rk3399_names :: "sdk \<Rightarrow> (u64 \<times> string) list" where
  "rk3399_names K = List.map (\<lambda>row. (fst row, snd (snd (snd (snd (snd row)))))) (plane_type_names_rk3399 K)"

definition name_table :: "sdk \<Rightarrow> u32 \<Rightarrow> (u64 \<times> string) list" where
  "name_table K soc =
     (if isRK3588 soc then plane_type_names_rk3588
      else if isRK3576 soc then plane_type_names_rk3576
      else if isRK356x soc then plane_type_names_rk356x
      else if isRK3399 soc then rk3399_names K
      else if isRK3528 soc then plane_type_names_rk3528
      else if isRK3326 soc then plane_type_names_rk3326
      else if isRK3562 soc then plane_type_names_rk3562
      else [])"

lemmas table_defs =
  plane_type_names_rk3588_def plane_type_names_rk3576_def plane_type_names_rk356x_def
  plane_type_names_rk3528_def plane_type_names_rk3326_def plane_type_names_rk3562_def

lemma tables_prefix_free:
  "prefix_free plane_type_names_rk3588" "prefix_free plane_type_names_rk3576"
  "prefix_free plane_type_names_rk356x" "prefix_free plane_type_names_rk3528"
  "prefix_free plane_type_names_rk3326" "prefix_free plane_type_names_rk3562"
  by (simp_all add: prefix_free_def table_defs)

lemma rk3399_prefix_free: "prefix_free (rk3399_names K)"
  by (simp add: prefix_free_def rk3399_names_def plane_type_names_rk3399_def)

lemma name_table_prefix_free: "prefix_free (name_table K soc)"
  by (simp add: name_table_def tables_prefix_free rk3399_prefix_free) (simp add: prefix_free_def)

text \<open>
  C22: The window a plane is identified as.  On every SoC with a name table, the RK3399 included, a
  plane whose \<open>NAME\<close> property is a bitmask with a value and lists exactly one name of that table gets
  that row's window type and that name: the prefix comparison of \<open>bitmask\<close> never confuses two windows.
  On the RK3399, where the attributes of the plane are used when there is no such property, the
  property must have an id that is not \<open>0\<close>.
\<close>

theorem mark_type_by_name_exact:
  assumes "(ty, n) \<in> set (name_table K (soc_id s))"
    and "prop_type (plane_prop s ''name_property'') = DRM_PROPERTY_TYPE_BITMASK"
    and "prop_values (plane_prop s ''name_property'') \<noteq> []"
    and "map snd (prop_enums (plane_prop s ''name_property'')) = [n]"
    and "isRK3399 (soc_id s) \<longrightarrow> prop_id (plane_prop s ''name_property'') \<noteq> 0"
  shows "win_type (mark_type_by_name K crtcs s) = ty
       \<and> plane_name (mark_type_by_name K crtcs s) = n"
proof -
  have f: "find_name_row K (plane_prop s ''name_property'') (name_table K (soc_id s)) = Some (ty, n)"
    by (rule find_name_row_exact [OF name_table_prefix_free assms(1-4)])
  have "mark_type_by_name K crtcs s = set_win (Some (ty, n)) s"
  proof (cases "isRK3399 (soc_id s) \<and> \<not> isRK3588 (soc_id s) \<and> \<not> isRK3576 (soc_id s) \<and> \<not> isRK356x (soc_id s)")
    case True
    with f assms(5) show ?thesis
      by (simp add: mark_type_by_name_def name_table_def rk3399_names_def mark_rk3399_def Let_def)
  next
    case False
    with f assms(1) show ?thesis
      by (auto simp: mark_type_by_name_def name_table_def Let_def split: if_splits)
  qed
  then show ?thesis by (simp add: set_win_def)
qed

definition plane0 :: DrmPlane where
  "plane0 =
     \<lparr> plane_id = 71, possible_crtc_mask = 15, current_crtc_bit = 0, plane_type = 0,
       plane_props =
         [(''name_property'', DrmProperty_default
             \<lparr> prop_id := 9, prop_type := DRM_PROPERTY_TYPE_BITMASK, prop_values := [1],
               prop_enums := [(0, ''Esmart2-win3'')] \<rparr>)],
       bReserved = False, b_use = False, b_yuv = False, b_scale = True, b_alpha = True,
       b_hdr2sdr = True, b_sdr2hdr = True, b_afbdc = False, win_type = 0, plane_name = [],
       rotate_bits = 1, input_w_max = 4096, input_h_max = 4320, output_w_max = 4096,
       output_h_max = 4320, scale_min = Some (1 / 8), scale_max = 8,
       support_format_list = [0x34324241], soc_id = 0x3588 \<rparr>"

lemma mark_type_by_name_exact_witness:
  "win_type (mark_type_by_name sdk0 [] plane0) = PLANE_RK3588_ESMART_WIN 2 3
   \<and> plane_name (mark_type_by_name sdk0 [] plane0) = ''Esmart2-win3''"
  by (rule mark_type_by_name_exact)
    (simp_all add: plane0_def name_table_def soc_defs plane_type_names_rk3588_def
       plane_prop_def)

text \<open>
  On an RK3399 whose planes have no \<open>NAME\<close> property the windows \<open>win2-2\<close>, \<open>win2-3\<close>,
  \<open>win3-1\<close>, \<open>win3-2\<close> and \<open>win3-3\<close> of the big VOP, and \<open>win2-2\<close>, \<open>win2-3\<close> of the little
  one, are never identified: every such plane is taken for the first row with the same
  attributes, because the \<open>matched\<close> flags live in a table that is local to the call.
\<close>

lemma rk3399_rows_unreachable:
  assumes "prop_id (plane_prop s ''name_property'') = 0"
  shows "plane_name (mark_rk3399 K crtcs s) \<notin>
           {''VOP0-win2-2'', ''VOP0-win2-3'', ''VOP0-win3-1'', ''VOP0-win3-2'', ''VOP0-win3-3'',
            ''VOP1-win2-2'', ''VOP1-win2-3''}"
  using assms
  by (simp add: mark_rk3399_def Let_def plane_type_names_rk3399_def match_3399_def set_win_def)

lemma rk3399_rows_unreachable_witness:
  "plane_name (mark_rk3399 sdk0 [] (plane0\<lparr> plane_props := [] \<rparr>)) \<notin>
           {''VOP0-win2-2'', ''VOP0-win2-3'', ''VOP0-win3-1'', ''VOP0-win3-2'', ''VOP0-win3-3'',
            ''VOP1-win2-2'', ''VOP1-win2-3''}"
  by (rule rk3399_rows_unreachable) (simp add: plane0_def plane_prop_def DrmProperty_default_def)

end
