(* ===== verification/Plane_Group.thy ===== *)
theory Plane_Group
  imports Drm_Plane
begin

text \<open>
  \<open>PlaneGroup\<close> of \<open>include/drmplane.h\<close>: the windows that share one hardware channel, with the
  CRTC and the display the group currently serves.  On some SoCs a group can migrate from one
  CRTC to another; \<open>next_crtc\<close> is where it goes once the old CRTC has disabled it.
\<close>

record PlaneGroup =
  gReserved :: bool
  gUse :: bool
  g_zpos :: u32
  possible_crtcs :: u32
  share_id :: u64
  g_win_type :: u64
  possible_display :: int
  planes :: "DrmPlane list"
  current_crtc :: u32
  next_possible_display :: int
  next_crtc :: u32

definition acquire :: "u32 \<Rightarrow> PlaneGroup \<Rightarrow> bool" where
  "acquire crtc_mask s =
     (if gReserved s then False
      else if possible_crtcs s AND crtc_mask = 0 then False
      else if current_crtc s AND crtc_mask = 0 then False
      else True)"

definition acquire_display :: "u32 \<Rightarrow> int \<Rightarrow> PlaneGroup \<Rightarrow> bool" where
  "acquire_display crtc_mask dispaly s =
     (if gReserved s then False
      else if possible_crtcs s AND crtc_mask = 0 then False
      else if current_crtc s AND crtc_mask = 0 then False
      else if possible_display s \<noteq> dispaly then False
      else True)"

definition set_current_crtc :: "u32 \<Rightarrow> PlaneGroup \<Rightarrow> bool \<times> PlaneGroup" where
  "set_current_crtc crtc_mask s =
     (if possible_crtcs s AND crtc_mask = 0 then (False, s)
      else (True, s\<lparr> current_crtc := crtc_mask, next_crtc := crtc_mask \<rparr>))"

definition set_current_crtc_display :: "u32 \<Rightarrow> int \<Rightarrow> PlaneGroup \<Rightarrow> bool \<times> PlaneGroup" where
  "set_current_crtc_display crtc_mask display s =
     (True, s\<lparr> current_crtc := crtc_mask, possible_display := display,
               next_crtc := crtc_mask, next_possible_display := display \<rparr>)"

definition set_next_crtc :: "u32 \<Rightarrow> int \<Rightarrow> PlaneGroup \<Rightarrow> bool \<times> PlaneGroup" where
  "set_next_crtc crtc_mask display s =
     (let s1 = s\<lparr> next_crtc := crtc_mask, next_possible_display := display \<rparr>
      in (True,
          if current_crtc s1 = 0 \<or> next_crtc s1 = current_crtc s1
          then s1\<lparr> current_crtc := crtc_mask, possible_display := next_possible_display s1 \<rparr>
          else s1))"

definition is_will_disable :: "PlaneGroup \<Rightarrow> bool" where
  "is_will_disable s \<longleftrightarrow> next_crtc s \<noteq> current_crtc s"

definition complete_disable :: "PlaneGroup \<Rightarrow> PlaneGroup" where
  "complete_disable s =
     s\<lparr> current_crtc := next_crtc s, possible_display := next_possible_display s \<rparr>"

definition group_reset :: "PlaneGroup \<Rightarrow> PlaneGroup" where
  "group_reset s =
     s\<lparr> current_crtc := 0, possible_display := -1, next_crtc := 0, next_possible_display := -1 \<rparr>"

lemmas group_op_defs =
  set_current_crtc_def set_current_crtc_display_def set_next_crtc_def complete_disable_def
  group_reset_def Let_def

section \<open>The life of a group\<close>

text \<open>
  A step of a group: its CRTC is set at once, a migration is requested, the old CRTC reports
  the group disabled, or the device resets it.  The masks the device passes have one bit,
  \<open>1 << pipe\<close> with \<open>pipe < 32\<close>.
\<close>

inductive group_step :: "PlaneGroup \<Rightarrow> PlaneGroup \<Rightarrow> bool" where
  set_current: "p < 32 \<Longrightarrow> group_step s (snd (set_current_crtc (push_bit p 1) s))"
| set_current_display:
    "p < 32 \<Longrightarrow> group_step s (snd (set_current_crtc_display (push_bit p 1) d s))"
| set_next: "p < 32 \<Longrightarrow> group_step s (snd (set_next_crtc (push_bit p 1) d s))"
| completed: "is_will_disable s \<Longrightarrow> group_step s (complete_disable s)"
| reset: "group_step s (group_reset s)"

inductive_cases group_stepE: "group_step s t"

definition group_inv :: "PlaneGroup \<Rightarrow> bool" where
  "group_inv s \<longleftrightarrow>
     (current_crtc s = 0 \<and> next_crtc s = 0 \<or>
      (\<exists>p q. p < 32 \<and> q < 32 \<and> current_crtc s = push_bit p 1 \<and> next_crtc s = push_bit q 1))"

lemma push_bit_1_neq_0: "p < 32 \<Longrightarrow> (push_bit p 1 :: u32) \<noteq> 0"
  by (simp add: bit_eq_iff exI [of _ p] bit_simps)

lemma group_inv_step: "group_step s t \<Longrightarrow> group_inv s \<Longrightarrow> group_inv t"
  by (erule group_stepE) (auto simp: group_inv_def group_op_defs push_bit_1_neq_0)

lemma group_inv_steps: "group_step\<^sup>*\<^sup>* s t \<Longrightarrow> group_inv s \<Longrightarrow> group_inv t"
  by (induction rule: rtranclp_induct) (auto intro: group_inv_step)

lemma push_bit_and_one_bit:
  "p < 32 \<Longrightarrow> q < 32 \<Longrightarrow> (push_bit p 1 :: u32) AND push_bit q 1 \<noteq> 0 \<Longrightarrow> p = q"
  by (rule ccontr) (auto simp: bit_eq_iff bit_simps)

lemma acquire_current: "acquire m s \<Longrightarrow> current_crtc s AND m \<noteq> 0"
  by (simp add: acquire_def split: if_splits)

text \<open>
  C25: A plane group belongs to one CRTC at a time: however it was assigned, migrated,
  disabled and reset, two different CRTCs cannot both acquire it.
\<close>

theorem group_acquired_by_one_crtc:
  assumes "group_step\<^sup>*\<^sup>* (group_reset s) t" "p < 32" "q < 32"
    and "acquire (push_bit p 1) t" "acquire (push_bit q 1) t"
  shows "p = q"
proof -
  have "group_inv t"
    by (rule group_inv_steps [OF assms(1)]) (simp add: group_inv_def group_reset_def)
  moreover have "current_crtc t AND push_bit p 1 \<noteq> 0" "current_crtc t AND push_bit q 1 \<noteq> 0"
    using assms(4,5) by (auto dest: acquire_current)
  ultimately show ?thesis
    using assms(2,3) push_bit_and_one_bit
    unfolding group_inv_def by (metis and_zero_eq bit.conj_zero_left)
qed

definition group0 :: PlaneGroup where
  "group0 =
     \<lparr> gReserved = False, gUse = False, g_zpos = 0, possible_crtcs = 15, share_id = 1,
       g_win_type = 3, possible_display = -1, planes = [], current_crtc = 0,
       next_possible_display = -1, next_crtc = 0 \<rparr>"

lemma group_acquired_by_one_crtc_witness:
  "(2::nat) = 2 \<and> acquire (push_bit 2 1) (snd (set_next_crtc (push_bit 2 1) 0 (group_reset group0)))"
proof
  let ?t = "snd (set_next_crtc (push_bit 2 1) 0 (group_reset group0))"
  show a: "acquire (push_bit 2 1) ?t"
    by (simp add: acquire_def group_op_defs group0_def)
  have s: "group_step\<^sup>*\<^sup>* (group_reset group0) ?t"
    by (rule r_into_rtranclp, rule set_next) simp
  show "(2::nat) = 2" by (rule group_acquired_by_one_crtc [OF s _ _ a a]) simp_all
qed

text \<open>
  A migration hands a group over in order.  After \<open>set_next_crtc\<close> the group is either at
  its new CRTC already (it was free, or it was there), or it stays with the old one and is
  marked for disabling, until \<open>complete_disable\<close> moves it to the requested CRTC and display.
\<close>

lemma group_migration:
  "let t = snd (set_next_crtc m d s); u = complete_disable t in
     (if current_crtc s = 0 \<or> current_crtc s = m
      then current_crtc t = m \<and> possible_display t = d \<and> \<not> is_will_disable t
      else current_crtc t = current_crtc s \<and> possible_display t = possible_display s \<and>
           is_will_disable t)
     \<and> current_crtc u = m \<and> possible_display u = d \<and> \<not> is_will_disable u"
  by (auto simp: group_op_defs is_will_disable_def)

end
