(* ===== verification/Drm_Layer.thy ===== *)
theory Drm_Layer
  imports Sdk
begin

text \<open>
  \<open>DrmHwcLayer\<close> of \<open>include/drmlayer.h\<close>: the fields the plane policy reads or writes, and, as
  one nested record \<open>layer_buf\<close>, the description of the buffer behind the layer with the copy
  \<open>storeLayerInfo_\<close> that is kept while another buffer stands in for it.  The HDR parser and
  picture quality members, which the policy only hands on, are left out.  A \<open>float\<close> is a
  rational; the buffer handle is a number, \<open>0\<close> for \<open>NULL\<close>.
\<close>

datatype DrmHwcBlending = kNone | kPreMult | kCoverage

datatype Composition = Invalid | Client | Device | SolidColor | Cursor | Sideband

record hwc_rect =
  left :: int
  top :: int
  right :: int
  bottom :: int

record hwc_frect =
  fleft :: rat
  ftop :: rat
  fright :: rat
  fbottom :: rat

datatype v4l2_colorspace =
    V4L2_COLORSPACE_DEFAULT
  | V4L2_COLORSPACE_SMPTE170M
  | V4L2_COLORSPACE_REC709
  | V4L2_COLORSPACE_JPEG
  | V4L2_COLORSPACE_SRGB
  | V4L2_COLORSPACE_BT2020

datatype drm_color_encoding = DRM_COLOR_YCBCR_BT601 | DRM_COLOR_YCBCR_BT709 | DRM_COLOR_YCBCR_BT2020

datatype drm_color_range = DRM_COLOR_YCBCR_LIMITED_RANGE | DRM_COLOR_YCBCR_FULL_RANGE

text \<open>The union \<open>drm_colorspace\<close>; a kernel version reads one member only.\<close>

datatype drm_colorspace =
    colorspace_kernel_510 v4l2_colorspace
  | colorspace_kernel_6_1 drm_color_encoding drm_color_range

text \<open>\<open>DrmLayerInfoStore\<close>; its flag \<open>valid_\<close> is the \<open>option\<close> around it.\<close>

record DrmLayerInfoStore =
  st_sf_handle :: nat
  st_transform :: u32
  st_source_crop :: hwc_frect
  st_display_frame :: hwc_rect
  st_iFd :: int
  st_iFormat :: int
  st_iWidth :: int
  st_iHeight :: int
  st_iStride :: int
  st_iHeightStride :: int
  st_iByteStride :: int
  st_iSize :: int
  st_iUsage :: u64
  st_uFourccFormat :: u32
  st_uModifier :: u64
  st_uBufferId :: u64
  st_uGemHandle :: u32
  st_eDataSpace :: u32
  st_sLayerName :: string
  st_uByteStridePlanes :: "u32 list"
  st_bAfbcd :: bool
  st_bRfbcd :: bool

text \<open>
  \<open>pRgaBuffer_\<close> points to a \<open>DrmBuffer\<close> and \<open>pBufferInfo_\<close> to the cached information on the
  layer's own buffer; \<open>acquire_fence\<close> is its file descriptor, \<open>-1\<close> for \<open>NO_FENCE\<close>.
\<close>

record layer_buf =
  display_frame_sf :: hwc_rect
  iFd :: int
  iHeightStride :: int
  iByteStride :: int
  iUsage :: u64
  uModifier :: u64
  uBufferId :: u64
  uGemHandle :: u32
  uByteStridePlanes :: "u32 list"
  bYuv10bit :: bool
  bMetadataHdr :: bool
  iSkipLine :: int
  uColorSpace :: drm_colorspace
  uEOTF :: u16
  acquire_fence :: int
  pBufferInfo :: "nat option"
  bUseRga :: bool
  pRgaBuffer :: "nat option"
  storeLayerInfo :: "DrmLayerInfoStore option"

record DrmHwcLayer =
  sf_handle :: nat
  transform :: u32
  blending :: DrmHwcBlending
  sf_composition :: Composition
  alpha :: u16
  source_crop :: hwc_frect
  display_frame :: hwc_rect
  uId :: u32
  iZpos :: int
  iDrmZpos :: int
  bFbTarget :: bool
  bAfbcd :: bool
  bRfbcd :: bool
  bYuv :: bool
  bScale :: bool
  bHdr :: bool
  bSkipLayer :: bool
  fHScaleMul :: rat
  fVScaleMul :: rat
  iFormat :: int
  iWidth :: int
  iHeight :: int
  iStride :: int
  iSize :: int
  uFourccFormat :: u32
  sLayerName :: string
  bMatch :: bool
  bUse :: bool
  bGlesCompose :: bool
  iBestPlaneType :: int
  eDataSpace :: u32
  bSidebandStreamLayer :: bool
  bAccelerateLayer :: bool
  buf :: layer_buf

text \<open>The size of the source crop and of the display frame, as the matching computes them.\<close>

definition input_w :: "DrmHwcLayer \<Rightarrow> int" where
  "input_w l = trunc_rat (fright (source_crop l) - fleft (source_crop l))"
definition input_h :: "DrmHwcLayer \<Rightarrow> int" where
  "input_h l = trunc_rat (fbottom (source_crop l) - ftop (source_crop l))"
definition output_w :: "DrmHwcLayer \<Rightarrow> int" where
  "output_w l = right (display_frame l) - left (display_frame l)"
definition output_h :: "DrmHwcLayer \<Rightarrow> int" where
  "output_h l = bottom (display_frame l) - top (display_frame l)"

section \<open>Layers in the store\<close>

text \<open>
  The vectors of the policy hold pointers to layers that other components own, and the same
  layer is reached through several of them.  A pointer is a number, and the store maps it to
  the layer.
\<close>

type_synonym lptr = nat
type_synonym heap = "lptr \<Rightarrow> DrmHwcLayer"

definition upd :: "lptr \<Rightarrow> (DrmHwcLayer \<Rightarrow> DrmHwcLayer) \<Rightarrow> heap \<Rightarrow> heap" where
  "upd p f h = h(p := f (h p))"

lemma upd_apply [simp]: "upd p f h q = (if q = p then f (h p) else h q)"
  by (simp add: upd_def)

text \<open>
  The policy changes four fields of a layer and leaves the rest alone; \<open>same_layer\<close> says so of
  one layer and \<open>heap_frame\<close> of the store.
\<close>

definition same_layer :: "DrmHwcLayer \<Rightarrow> DrmHwcLayer \<Rightarrow> bool" where
  "same_layer l l' \<longleftrightarrow>
     l' = l\<lparr> bMatch := bMatch l', bAfbcd := bAfbcd l', iDrmZpos := iDrmZpos l' \<rparr>
     \<and> (\<not> bFbTarget l \<longrightarrow> bAfbcd l' = bAfbcd l)"

definition heap_frame :: "heap \<Rightarrow> heap \<Rightarrow> bool" where
  "heap_frame h h' \<longleftrightarrow> (\<forall>p. same_layer (h p) (h' p))"

lemma same_layer_refl [simp]: "same_layer l l"
  by (simp add: same_layer_def)

lemma same_layer_fields:
  assumes "same_layer l l'"
  shows "sf_handle l' = sf_handle l" "transform l' = transform l" "blending l' = blending l"
    "sf_composition l' = sf_composition l" "alpha l' = alpha l"
    "source_crop l' = source_crop l" "display_frame l' = display_frame l"
    "uId l' = uId l" "iZpos l' = iZpos l" "bFbTarget l' = bFbTarget l" "bYuv l' = bYuv l"
    "bScale l' = bScale l" "bHdr l' = bHdr l" "bSkipLayer l' = bSkipLayer l"
    "fHScaleMul l' = fHScaleMul l" "fVScaleMul l' = fVScaleMul l" "iFormat l' = iFormat l"
    "iStride l' = iStride l" "iSize l' = iSize l" "uFourccFormat l' = uFourccFormat l"
    "bUse l' = bUse l" "bGlesCompose l' = bGlesCompose l"
    "iBestPlaneType l' = iBestPlaneType l" "bSidebandStreamLayer l' = bSidebandStreamLayer l"
    "bAccelerateLayer l' = bAccelerateLayer l" "iWidth l' = iWidth l" "iHeight l' = iHeight l"
    "eDataSpace l' = eDataSpace l" "sLayerName l' = sLayerName l" "bRfbcd l' = bRfbcd l"
    "buf l' = buf l"
proof -
  let ?l = "l\<lparr> bMatch := bMatch l', bAfbcd := bAfbcd l', iDrmZpos := iDrmZpos l' \<rparr>"
  have l: "l' = ?l" using assms by (simp add: same_layer_def)
  show "sf_handle l' = sf_handle l" "transform l' = transform l" "blending l' = blending l"
    "sf_composition l' = sf_composition l" "alpha l' = alpha l"
    "source_crop l' = source_crop l" "display_frame l' = display_frame l"
    "uId l' = uId l" "iZpos l' = iZpos l" "bFbTarget l' = bFbTarget l" "bYuv l' = bYuv l"
    "bScale l' = bScale l" "bHdr l' = bHdr l" "bSkipLayer l' = bSkipLayer l"
    "fHScaleMul l' = fHScaleMul l" "fVScaleMul l' = fVScaleMul l" "iFormat l' = iFormat l"
    "iStride l' = iStride l" "iSize l' = iSize l" "uFourccFormat l' = uFourccFormat l"
    "bUse l' = bUse l" "bGlesCompose l' = bGlesCompose l"
    "iBestPlaneType l' = iBestPlaneType l" "bSidebandStreamLayer l' = bSidebandStreamLayer l"
    "bAccelerateLayer l' = bAccelerateLayer l" "iWidth l' = iWidth l" "iHeight l' = iHeight l"
    "eDataSpace l' = eDataSpace l" "sLayerName l' = sLayerName l" "bRfbcd l' = bRfbcd l"
    "buf l' = buf l"
    by (subst l, simp)+
qed

lemma same_layer_trans: "same_layer l l' \<Longrightarrow> same_layer l' l'' \<Longrightarrow> same_layer l l''"
  unfolding same_layer_def
  by (cases l; cases l'; cases l'') simp

lemma heap_frame_refl [simp, frame_rules]: "heap_frame h h"
  by (simp add: heap_frame_def)

lemma heap_frame_trans: "heap_frame h h' \<Longrightarrow> heap_frame h' h'' \<Longrightarrow> heap_frame h h''"
  by (meson heap_frame_def same_layer_trans)

lemma heap_frame_upd [frame_rules]: "same_layer (h p) (f (h p)) \<Longrightarrow> heap_frame h (upd p f h)"
  by (simp add: heap_frame_def)

lemma heap_frameD: "heap_frame h h' \<Longrightarrow> same_layer (h p) (h' p)"
  by (simp add: heap_frame_def)

lemmas heap_frame_fields = same_layer_fields [OF heap_frameD]

end
