(* ===== verification/Vop_State.thy ===== *)
theory Vop_State
  imports Drm_Layer Plane_Group Drm_Mode
begin

text \<open>
  The state of the RK3588 policy (\<open>include/rockchip/platform/drmvop3588.h\<close>): the request,
  support and state contexts of \<open>Vop3588::ctx\<close>, and around them the objects the methods reach
  through pointers: the layers (\<open>heap\<close>), the plane groups with their planes (\<open>gheap\<close>), the
  composition being built, and the system properties it set.

  What the policy only reads during a call is the record \<open>env\<close>: the CRTC, the connector of
  its display, the device's list of all plane groups and the property service.
\<close>

section \<open>Contexts\<close>

datatype ComposeMode =
    HWC_OVERLAY_POLICY
  | HWC_MIX_SKIP_POLICY
  | HWC_MIX_VIDEO_POLICY
  | HWC_MIX_UP_POLICY
  | HWC_MIX_DOWN_POLICY
  | HWC_MIX_POLICY
  | HWC_SIDEBAND_POLICY
  | HWC_GLES_SIDEBAND_POLICY
  | HWC_GLES_POLICY
  | HWC_RGA_OVERLAY_POLICY
  | HWC_SR_OVERLAY_POLICY
  | HWC_ACCELERATE_POLICY
  | HWC_SPLIT_MODE_POLICY
  | HWC_3D_POLICY
  | HWC_DEBUG_POLICY

record req_ctx =
  frame_no :: u64
  iSkipCnt :: int
  bSidebandStreamMode :: bool
  accelerate_app_exist :: bool
  iAfbcdCnt :: int
  iAfbcdScaleCnt :: int
  iAfbcdYuvCnt :: int
  iAfcbdLargeYuvCnt :: int
  iAfbcdRotateCnt :: int
  iAfbcdHdrCnt :: int
  iCnt :: int
  iScaleCnt :: int
  iYuvCnt :: int
  iLargeYuvCnt :: int
  iRotateCnt :: int
  iHdrCnt :: int

record sup_ctx =
  sAfbcdCnt :: int
  sAfbcdScaleCnt :: int
  sAfbcdYuvCnt :: int
  sAfbcdRotateCnt :: int
  sAfbcdHdrCnt :: int
  sCnt :: int
  sScaleCnt :: int
  sYuvCnt :: int
  sRotateCnt :: int
  sHdrCnt :: int
  arrayReservedPlaneName :: string

text \<open>
  The members \<open>bClu0\<dots>\<close>, \<open>bClu1\<dots>\<close>, \<open>bClu2\<dots>\<close>, \<open>bClu3\<dots>\<close> are one record per cluster.
\<close>

record cluster =
  TwoWinMode :: bool
  Used :: bool
  UsedZ :: int
  UsedDstXOffset :: int
  UsedFormat :: u32
  UsedAfbc :: bool

record sta_ctx =
  clu :: "nat \<Rightarrow> cluster"
  bMultiAreaEnable :: bool
  bMultiAreaScaleEnable :: bool
  bRgaPolicyEnable :: bool
  fbUseAfbc :: bool
  iVopMaxOverlay4KPlane :: int
  accelerate_app_name :: string
  last_accelerate_status :: bool
  bDisableFBAfbcd :: bool
  bUseSwPq :: bool
  iSocId :: u32
  iDisplayId :: int
  setHwcPolicy :: "ComposeMode list"
  b8kMode :: bool
  b4k120pMode :: bool
  fScreenRefresh :: "rat option"
  iDisplayWidth :: int
  iDisplayHeight :: int
  bIsCropSplit :: bool
  bIsCropSplitPrimary :: bool

text \<open>The set \<open>setHwcPolicy\<close> as a list without repetitions.\<close>

definition policy_insert :: "ComposeMode \<Rightarrow> sta_ctx \<Rightarrow> sta_ctx" where
  "policy_insert m s = s\<lparr> setHwcPolicy := List.insert m (setHwcPolicy s) \<rparr>"

definition policy_count :: "ComposeMode \<Rightarrow> sta_ctx \<Rightarrow> bool" where
  "policy_count m s \<longleftrightarrow> m \<in> set (setHwcPolicy s)"

section \<open>Compositions\<close>

text \<open>A plane is named by its group and its place in the group.\<close>

type_synonym gptr = nat
type_synonym pptr = "gptr \<times> nat"
type_synonym gheap = "gptr \<Rightarrow> PlaneGroup"

datatype cp_type = kDisable | kLayer

record comp_plane =
  cp_type :: cp_type
  cp_plane :: pptr
  cp_source :: int
  cp_zpos :: int

definition plane_at :: "gheap \<Rightarrow> pptr \<Rightarrow> DrmPlane" where
  "plane_at gs p = planes (gs (fst p)) ! snd p"

definition set_use :: "bool \<Rightarrow> pptr \<Rightarrow> gheap \<Rightarrow> gheap" where
  "set_use b p gs =
     (let g = gs (fst p) in
      gs(fst p := g\<lparr> planes := (planes g)[snd p := (planes g ! snd p)\<lparr> b_use := b \<rparr>] \<rparr>))"

section \<open>Environment and state\<close>

record connector =
  conn_connected :: bool
  conn_crop_split :: bool
  conn_split_primary :: bool
  conn_mode :: DrmMode

record env =
  pget :: "string \<Rightarrow> string \<Rightarrow> string"
  pipe :: nat
  crtc_display :: int
  crtc_hdr :: bool
  crtc_soc_id :: u32
  conn :: "connector option"
  all_plane_groups :: "gptr list"

record vop =
  request :: req_ctx
  support :: sup_ctx
  st :: sta_ctx
  heap :: heap
  gheap :: gheap
  comp :: "comp_plane list"
  props_set :: "(string \<times> string) list"

definition crtc_bit :: "env \<Rightarrow> u32" where
  "crtc_bit E = push_bit (pipe E) 1"

section \<open>What the policies leave alone\<close>

text \<open>Two versions of a group, or of the store, that differ in the use flags only.\<close>

definition same_plane :: "DrmPlane \<Rightarrow> DrmPlane \<Rightarrow> bool" where
  "same_plane p p' \<longleftrightarrow> p' = p\<lparr> b_use := b_use p' \<rparr>"

definition same_group :: "PlaneGroup \<Rightarrow> PlaneGroup \<Rightarrow> bool" where
  "same_group g g' \<longleftrightarrow>
     g' = g\<lparr> gUse := gUse g', planes := planes g' \<rparr> \<and>
     list_all2 same_plane (planes g) (planes g')"

definition gheap_frame :: "gheap \<Rightarrow> gheap \<Rightarrow> bool" where
  "gheap_frame gs gs' \<longleftrightarrow> (\<forall>g. same_group (gs g) (gs' g))"

lemma same_plane_refl [simp]: "same_plane p p"
  by (simp add: same_plane_def)

lemma same_plane_trans: "same_plane p q \<Longrightarrow> same_plane q r \<Longrightarrow> same_plane p r"
  unfolding same_plane_def by (cases p; cases q; cases r) simp

lemma same_group_refl [simp]: "same_group g g"
  by (simp add: same_group_def list_all2_refl)

lemma same_planes_trans:
  "list_all2 same_plane ps qs \<Longrightarrow> list_all2 same_plane qs rs \<Longrightarrow> list_all2 same_plane ps rs"
  by (rule list_all2_trans [of same_plane same_plane same_plane]) (auto intro: same_plane_trans)

lemma same_group_trans: "same_group g g' \<Longrightarrow> same_group g' g'' \<Longrightarrow> same_group g g''"
proof -
  assume a: "same_group g g'" and b: "same_group g' g''"
  have "list_all2 same_plane (planes g) (planes g'')"
    using a b same_planes_trans unfolding same_group_def by blast
  moreover have "g'' = g\<lparr> gUse := gUse g'', planes := planes g'' \<rparr>"
    using a b unfolding same_group_def by (cases g; cases g'; cases g'') simp
  ultimately show ?thesis by (simp add: same_group_def)
qed

lemma gheap_frame_refl [simp, frame_rules]: "gheap_frame gs gs"
  by (simp add: gheap_frame_def)

lemma gheap_frame_trans: "gheap_frame a b \<Longrightarrow> gheap_frame b c \<Longrightarrow> gheap_frame a c"
  by (meson gheap_frame_def same_group_trans)

lemma same_plane_fields:
  assumes "same_plane p q"
  shows "plane_id q = plane_id p" "possible_crtc_mask q = possible_crtc_mask p"
    "win_type q = win_type p" "plane_props q = plane_props p"
    "input_w_max q = input_w_max p" "input_h_max q = input_h_max p"
    "output_w_max q = output_w_max p" "output_h_max q = output_h_max p"
    "scale_min q = scale_min p" "scale_max q = scale_max p" "soc_id q = soc_id p"
    "support_format_list q = support_format_list p" "rotate_bits q = rotate_bits p"
    "b_scale q = b_scale p" "b_afbdc q = b_afbdc p" "b_yuv q = b_yuv p"
    "b_hdr2sdr q = b_hdr2sdr p" "plane_name q = plane_name p"
proof -
  have q: "q = p\<lparr> b_use := b_use q \<rparr>" using assms by (simp add: same_plane_def)
  show "plane_id q = plane_id p" "possible_crtc_mask q = possible_crtc_mask p"
    "win_type q = win_type p" "plane_props q = plane_props p"
    "input_w_max q = input_w_max p" "input_h_max q = input_h_max p"
    "output_w_max q = output_w_max p" "output_h_max q = output_h_max p"
    "scale_min q = scale_min p" "scale_max q = scale_max p" "soc_id q = soc_id p"
    "support_format_list q = support_format_list p" "rotate_bits q = rotate_bits p"
    "b_scale q = b_scale p" "b_afbdc q = b_afbdc p" "b_yuv q = b_yuv p"
    "b_hdr2sdr q = b_hdr2sdr p" "plane_name q = plane_name p"
    by (subst q, simp)+
qed

lemma same_group_fields:
  assumes "same_group g g'"
  shows "gReserved g' = gReserved g" "possible_crtcs g' = possible_crtcs g"
    "g_win_type g' = g_win_type g" "current_crtc g' = current_crtc g"
    "length (planes g') = length (planes g)" "share_id g' = share_id g"
proof -
  have g: "g' = g\<lparr> gUse := gUse g', planes := planes g' \<rparr>"
    and l: "list_all2 same_plane (planes g) (planes g')"
    using assms by (auto simp: same_group_def)
  show "gReserved g' = gReserved g" "possible_crtcs g' = possible_crtcs g"
    "g_win_type g' = g_win_type g" "current_crtc g' = current_crtc g"
    "share_id g' = share_id g"
    by (subst g, simp)+
  show "length (planes g') = length (planes g)" using l by (simp add: list_all2_lengthD)
qed

lemma same_group_plane:
  "same_group g g' \<Longrightarrow> k < length (planes g) \<Longrightarrow> same_plane (planes g ! k) (planes g' ! k)"
  by (auto simp: same_group_def list_all2_conv_all_nth)

lemma gheap_frameD: "gheap_frame gs gs' \<Longrightarrow> same_group (gs g) (gs' g)"
  by (simp add: gheap_frame_def)

lemma gheap_frame_set_use: "gheap_frame gs (set_use b p gs)"
proof -
  have "same_plane (planes (gs (fst p)) ! i) (planes (set_use b p gs (fst p)) ! i)"
    if "i < length (planes (gs (fst p)))" for i
    using that by (cases "i = snd p") (simp_all add: set_use_def Let_def same_plane_def)
  then have "same_group (gs (fst p)) (set_use b p gs (fst p))"
    by (simp add: same_group_def set_use_def Let_def list_all2_conv_all_nth)
  then show ?thesis by (simp add: gheap_frame_def set_use_def Let_def)
qed

lemma gheap_frame_gUse: "gheap_frame gs (gs(g := gs g\<lparr> gUse := b \<rparr>))"
  by (simp add: gheap_frame_def same_group_def list_all2_refl)

text \<open>The frame of a policy: what it may not touch in the state.\<close>

definition frame :: "vop \<Rightarrow> vop \<Rightarrow> bool" where
  "frame s s' \<longleftrightarrow>
     heap_frame (heap s) (heap s') \<and> gheap_frame (gheap s) (gheap s') \<and>
     request s' = request s \<and> support s' = support s \<and>
     setHwcPolicy (st s') = setHwcPolicy (st s) \<and>
     b8kMode (st s') = b8kMode (st s) \<and> b4k120pMode (st s') = b4k120pMode (st s) \<and>
     iDisplayWidth (st s') = iDisplayWidth (st s) \<and>
     iDisplayHeight (st s') = iDisplayHeight (st s) \<and>
     bMultiAreaEnable (st s') = bMultiAreaEnable (st s) \<and>
     bMultiAreaScaleEnable (st s') = bMultiAreaScaleEnable (st s) \<and>
     bUseSwPq (st s') = bUseSwPq (st s)"

lemma frame_refl [simp, frame_rules]: "frame s s"
  by (simp add: frame_def)

lemma frame_trans [trans]: "frame s t \<Longrightarrow> frame t u \<Longrightarrow> frame s u"
proof -
  assume a: "frame s t" and b: "frame t u"
  have "heap_frame (heap s) (heap u)" "gheap_frame (gheap s) (gheap u)"
    using a b heap_frame_trans gheap_frame_trans unfolding frame_def by blast+
  with a b show ?thesis by (simp add: frame_def)
qed

end
