(* ===== verification/Vop_Combine.thy ===== *)
theory Vop_Combine
  imports Vop_State
begin

text \<open>
  \<open>CombineLayer\<close> of \<open>platform/rk3588/drmvop3588.cpp\<close>: consecutive layers that one channel can
  show in different windows are put in one group.  The code's index arithmetic is kept; the
  theorems relate it to the greedy partition it computes, and show that it hangs on a layer
  that is not in use.
\<close>

section \<open>Rectangles and combinable layers\<close>

definition HasLayer :: "heap \<Rightarrow> lptr list \<Rightarrow> lptr \<Rightarrow> bool" where
  "HasLayer h layer_vector l \<longleftrightarrow> (\<exists>q \<in> set layer_vector. uId (h q) = uId (h l))"

definition IsXIntersect :: "hwc_rect \<Rightarrow> hwc_rect \<Rightarrow> bool" where
  "IsXIntersect rec1 rec2 =
     (if top rec2 = top rec1 then True
      else if top rec2 < top rec1 then (if top rec1 < bottom rec2 then True else False)
      else (if top rec2 < bottom rec1 then True else False))"

definition IsRec1IntersectRec2 :: "hwc_rect \<Rightarrow> hwc_rect \<Rightarrow> bool" where
  "IsRec1IntersectRec2 rec1 rec2 =
     (let iMaxLeft = (if left rec2 < left rec1 then left rec1 else left rec2);
          iMaxTop = (if top rec2 < top rec1 then top rec1 else top rec2);
          iMinRight = (if right rec1 \<le> right rec2 then right rec1 else right rec2);
          iMinBottom = (if bottom rec1 \<le> bottom rec2 then bottom rec1 else bottom rec2)
      in if iMinRight < iMaxLeft \<or> iMinBottom < iMaxTop then False else True)"

definition IsLayerCombine :: "sdk \<Rightarrow> sta_ctx \<Rightarrow> DrmHwcLayer \<Rightarrow> DrmHwcLayer \<Rightarrow> bool" where
  "IsLayerCombine K c layer_one layer_two =
     (if \<not> bMultiAreaEnable c then False
      else if b8kMode c then False
      else if HAL_PIXEL_FORMAT_YCrCb_NV12_10 K \<le> iFormat layer_one
            \<or> HAL_PIXEL_FORMAT_YCrCb_NV12_10 K \<le> iFormat layer_two
            \<or> iFormat layer_one \<noteq> iFormat layer_two
            \<or> bAfbcd layer_one \<noteq> bAfbcd layer_two
            \<or> alpha layer_one \<noteq> alpha layer_two
            \<or> ((bScale layer_one \<or> bScale layer_two) \<and> \<not> bMultiAreaScaleEnable c)
            \<or> IsRec1IntersectRec2 (display_frame layer_one) (display_frame layer_two)
            \<or> IsXIntersect (display_frame layer_one) (display_frame layer_two)
      then False else True)"

section \<open>The loops\<close>

type_synonym layer_map = "lptr list smap"

text \<open>
  One pass of the loop over \<open>k\<close> compares \<open>layers[j]\<close> with \<open>layers[j-1-k]\<close>; the state is
  \<open>is_combine\<close>, \<open>zpos\<close> and the map.
\<close>

definition combine_two ::
  "sdk \<Rightarrow> sta_ctx \<Rightarrow> heap \<Rightarrow> lptr \<Rightarrow> lptr \<Rightarrow> bool \<times> int \<times> layer_map \<Rightarrow> bool \<times> layer_map"
where
  "combine_two K c h layer_one layer_two s =
     (case s of (is_combine, zpos, m) \<Rightarrow>
       let one = HasLayer h (smap_at m zpos) layer_one;
           two = HasLayer h (smap_at m zpos) layer_two
       in if \<not> IsLayerCombine K c (h layer_one) (h layer_two) then (is_combine, m)
          else if \<not> one \<and> \<not> two then
            (True, smap_push zpos layer_two (smap_push zpos layer_one m))
          else if \<not> two then
            (if \<forall>q \<in> set (smap_at m zpos). uId (h q) = uId (h layer_one)
                   \<or> IsLayerCombine K c (h q) (h layer_two)
             then (True, smap_push zpos layer_two m) else (False, m))
          else if \<not> one then
            (if \<forall>q \<in> set (smap_at m zpos). uId (h q) = uId (h layer_two)
                   \<or> IsLayerCombine K c (h q) (h layer_one)
             then (True, smap_push zpos layer_one m) else (False, m))
          else (is_combine, m))"

function combine_k ::
  "sdk \<Rightarrow> sta_ctx \<Rightarrow> heap \<Rightarrow> lptr list \<Rightarrow> nat \<Rightarrow> nat \<Rightarrow> nat \<Rightarrow> bool \<times> int \<times> layer_map
   \<Rightarrow> bool \<times> int \<times> layer_map"
where
  "combine_k K c h layers j sort_cnt k (is_combine, zpos, m0) =
     (if k \<le> sort_cnt then
        (let layer_one = layers ! j; layer_two = layers ! (j - 1 - k);
             m = smap_touch zpos m0;
             one = HasLayer h (smap_at m zpos) layer_one;
             two = HasLayer h (smap_at m zpos) layer_two
         in if one \<and> two then combine_k K c h layers j sort_cnt (Suc k) (is_combine, zpos, m)
            else
             (let (ic, m') = combine_two K c h layer_one layer_two (is_combine, zpos, m)
              in if \<not> ic then
                   (if \<not> one then (False, zpos + 1, smap_push (zpos + 1) layer_one m')
                    else (False, zpos, m'))
                 else combine_k K c h layers j sort_cnt (Suc k) (ic, zpos, m')))
      else (is_combine, zpos, m0))"
  by pat_completeness auto
termination
  by (relation "measure (\<lambda>(K, c, h, layers, j, sort_cnt, k, s). Suc sort_cnt - k)") auto

declare combine_k.simps [simp del]

function combine_j ::
  "sdk \<Rightarrow> sta_ctx \<Rightarrow> heap \<Rightarrow> lptr list \<Rightarrow> nat \<Rightarrow> nat \<Rightarrow> bool \<times> int \<times> layer_map
   \<Rightarrow> nat \<times> bool \<times> int \<times> layer_map"
where
  "combine_j K c h layers j sort_cnt (is_combine, zpos, m) =
     (if j < length layers then
        (let (ic, z', m') = combine_k K c h layers j sort_cnt 0 (False, zpos, m)
         in if \<not> ic then (Suc sort_cnt, ic, z', m')
            else combine_j K c h layers (Suc j) (Suc sort_cnt) (ic, z', m'))
      else (sort_cnt, is_combine, zpos, m))"
  by pat_completeness auto
termination
  by (relation "measure (\<lambda>(K, c, h, layers, j, sort_cnt, s). length layers - j)") auto

declare combine_j.simps [simp del]

text \<open>The loop over \<open>i\<close> does not advance on a layer that is not in use.\<close>

partial_function (option) combine_i ::
  "sdk \<Rightarrow> sta_ctx \<Rightarrow> heap \<Rightarrow> lptr list \<Rightarrow> nat \<Rightarrow> bool \<times> int \<times> layer_map \<Rightarrow> layer_map option"
where
  "combine_i K c h layers i s =
     (if i < length layers then
        (if \<not> bUse (h (layers ! i)) then combine_i K c h layers i s
         else
          (case s of (is_combine, zpos, m) \<Rightarrow>
             let m1 = (if i = 0 then smap_push zpos (layers ! 0) m else m);
                 (sort_cnt, ic, z', m') = combine_j K c h layers (Suc i) 0 (is_combine, zpos, m1)
             in combine_i K c h layers (if sort_cnt \<noteq> 0 then i + sort_cnt else Suc i)
                  (ic, if ic then z' + 1 else z', m')))
      else Some (snd (snd s)))"

declare combine_i.simps [code]

definition layer_top :: "heap \<Rightarrow> lptr \<Rightarrow> int" where
  "layer_top h q = top (display_frame (h q))"

definition sort_groups :: "heap \<Rightarrow> layer_map \<Rightarrow> layer_map" where
  "sort_groups h m =
     List.map (\<lambda>(z, g). (z, if 1 < length g then exchange_sort (layer_top h) g else g)) m"

definition CombineLayer ::
  "sdk \<Rightarrow> sta_ctx \<Rightarrow> heap \<Rightarrow> lptr list \<Rightarrow> nat \<Rightarrow> (int \<times> layer_map) option"
where
  "CombineLayer K c h layers iPlaneSize = do {
     m \<leftarrow> combine_i K c h layers 0 (False, 0, []);
     let m' = sort_groups h m;
     Some (if iPlaneSize < length m' then -1 else 0, m')
   }"

section \<open>Lemmas\<close>

lemma IsXIntersect_sym: "IsXIntersect a b = IsXIntersect b a"
  by (simp add: IsXIntersect_def)

lemma IsRec1IntersectRec2_sym: "IsRec1IntersectRec2 a b = IsRec1IntersectRec2 b a"
  by (auto simp: IsRec1IntersectRec2_def Let_def)

lemma IsLayerCombine_sym: "IsLayerCombine K c a b = IsLayerCombine K c b a"
  using IsXIntersect_sym [of "display_frame a" "display_frame b"]
    IsRec1IntersectRec2_sym [of "display_frame a" "display_frame b"]
  by (auto simp: IsLayerCombine_def)

text \<open>
  The greedy partition: a layer joins the group before it when it can be combined with every
  layer of that group, and starts a new group otherwise.
\<close>

fun greedy :: "('a \<Rightarrow> 'a \<Rightarrow> bool) \<Rightarrow> 'a list \<Rightarrow> 'a list \<Rightarrow> 'a list list" where
  "greedy C g [] = [g]"
| "greedy C g (x # xs) =
     (if \<forall>y \<in> set g. C x y then greedy C (g @ [x]) xs else g # greedy C [x] xs)"

lemma concat_greedy [simp]: "concat (greedy C g xs) = g @ xs"
  by (induction C g xs rule: greedy.induct) auto

lemma greedy_nonempty: "g \<noteq> [] \<Longrightarrow> [] \<notin> set (greedy C g xs)"
  by (induction C g xs rule: greedy.induct) auto

lemma greedy_combinable:
  assumes "\<And>x y. C x y = C y x"
    and "pairwise C (set g)"
  shows "\<forall>G \<in> set (greedy C g xs). pairwise C (set G)"
  using assms(2)
proof (induction xs arbitrary: g)
  case (Cons x xs)
  show ?case
  proof (cases "\<forall>y \<in> set g. C x y")
    case True
    with Cons.prems assms(1) have "pairwise C (set (g @ [x]))"
      by (simp add: pairwise_insert)
    with True Cons.IH [of "g @ [x]"] show ?thesis by simp
  next
    case False
    with Cons.prems Cons.IH [of "[x]"] show ?thesis by auto
  qed
qed simp

section \<open>\<open>CombineLayer\<close> computes the greedy partition\<close>

text \<open>
  The loop over \<open>k\<close>, entered with the current group \<open>g\<close> last in the map, \<open>g\<close> being the
  \<open>sort_cnt + 1\<close> layers before \<open>layers[j]\<close>.
\<close>

definition below :: "int \<Rightarrow> layer_map \<Rightarrow> bool" where
  "below z m \<longleftrightarrow> (\<forall>k \<in> fst ` set m. k < z)"

lemma smap_at_below [simp]: "below z m \<Longrightarrow> smap_at (m @ [(z, g)]) z = g"
  by (rule smap_at_snoc) (auto simp: below_def)

lemma smap_push_below [simp]:
  "below z m \<Longrightarrow> smap_push z x (m @ [(z, g)]) = m @ [(z, g @ [x])]"
  by (rule smap_push_snoc) (auto simp: below_def)

lemma smap_push_new:
  assumes "below z m"
  shows "smap_push z x m = m @ [(z, [x])]"
proof -
  have "smap_at m z = []"
  proof -
    have "z \<notin> fst ` set m" using assms by (auto simp: below_def)
    then have "map_of m z = None" by (simp add: map_of_eq_None_iff)
    then show ?thesis by (simp add: smap_at_def)
  qed
  moreover have "smap_set z [x] m = m @ [(z, [x])]"
    by (rule smap_set_last) (use assms in \<open>auto simp: below_def\<close>)
  ultimately show ?thesis by (simp add: smap_push_def)
qed

lemma below_next [simp]: "below z m \<Longrightarrow> below (z + 1) (m @ [(z, g)])"
  by (force simp: below_def)

lemma combine_k_all_in:
  assumes "below z m" "\<forall>k' \<ge> k. k' \<le> sc \<longrightarrow> HasLayer h g (layers ! (j - 1 - k'))"
    and "HasLayer h g (layers ! j)"
  shows "combine_k K c h layers j sc k (ic, z, m @ [(z, g)]) = (ic, z, m @ [(z, g)])"
  using assms
proof (induction "Suc sc - k" arbitrary: k)
  case (Suc n)
  then have k: "k \<le> sc" and n: "n = Suc sc - Suc k" by auto
  have "combine_k K c h layers j sc (Suc k) (ic, z, m @ [(z, g)]) = (ic, z, m @ [(z, g)])"
    by (rule Suc.hyps(1) [OF n]) (use Suc.prems in auto)
  with k Suc.prems show ?case
    by (simp add: combine_k.simps [of K c h layers j sc k] Let_def)
qed (simp add: combine_k.simps)

abbreviation joins :: "sdk \<Rightarrow> sta_ctx \<Rightarrow> heap \<Rightarrow> lptr \<Rightarrow> lptr \<Rightarrow> bool" where
  "joins K c h x y \<equiv> IsLayerCombine K c (h x) (h y)"

definition distinct_layers :: "heap \<Rightarrow> lptr list \<Rightarrow> bool" where
  "distinct_layers h layers \<longleftrightarrow> distinct (List.map (\<lambda>p. uId (h p)) layers)"

lemma distinct_layers_distinct: "distinct_layers h layers \<Longrightarrow> distinct layers"
  by (simp add: distinct_layers_def distinct_map)

lemma distinct_layers_inj: "distinct_layers h layers \<Longrightarrow> inj_on (\<lambda>p. uId (h p)) (set layers)"
  by (simp add: distinct_layers_def distinct_map)

lemma HasLayer_iff:
  "distinct_layers h layers \<Longrightarrow> set g \<subseteq> set layers \<Longrightarrow> x \<in> set layers \<Longrightarrow>
   HasLayer h g x \<longleftrightarrow> x \<in> set g"
  using distinct_layers_inj [of h layers] by (force simp: HasLayer_def inj_on_def)

lemma segment_mem:
  "j < length layers \<Longrightarrow> i \<le> a \<Longrightarrow> a < j \<Longrightarrow> layers ! a \<in> set (take (j - i) (drop i layers))"
proof -
  assume a: "j < length layers" "i \<le> a" "a < j"
  then have "take (j - i) (drop i layers) ! (a - i) = layers ! a" by simp
  with a show ?thesis
    by (metis (no_types, lifting) diff_less_mono length_drop length_take less_imp_le_nat
        less_or_eq_imp_le min.absorb2 nth_mem order.strict_trans diff_le_mono)
qed

lemma combine_k_group:
  assumes d: "distinct_layers h layers"
    and j: "j < length layers" and i: "i < j" and g: "g = take (j - i) (drop i layers)"
    and z: "below z m" and sc: "sc = j - 1 - i"
  shows "combine_k K c h layers j sc 0 (False, z, m @ [(z, g)]) =
    (if \<forall>y \<in> set g. joins K c h (layers ! j) y
     then (True, z, m @ [(z, g @ [layers ! j])])
     else (False, z + 1, (m @ [(z, g)]) @ [(z + 1, [layers ! j])]))"
proof -
  let ?x = "layers ! j" and ?y = "layers ! (j - 1)"
  have sub: "set g \<subseteq> set layers" unfolding g by (meson in_set_dropD in_set_takeD subsetI)
  have mem: "layers ! (j - 1 - k) \<in> set g" if "k \<le> sc" for k
    unfolding g by (rule segment_mem) (use that i j sc in auto)
  have gn: "g ! a = layers ! (i + a)" if "a < j - i" for a using that j by (simp add: g)
  have lg: "length g = j - i" using j i by (simp add: g)
  have "?x \<notin> set g"
    using distinct_layers_distinct [OF d] j gn lg
    by (auto simp: in_set_conv_nth nth_eq_iff_index_eq)
  then have nx: "\<not> HasLayer h g ?x" using HasLayer_iff [OF d sub] j by simp
  have y: "?y \<in> set g" using mem [of 0] by simp
  then have hy: "HasLayer h g ?y" by (auto simp: HasLayer_def)
  have yx: "HasLayer h (g @ [?x]) ?x" by (auto simp: HasLayer_def)
  have uy: "uId (h q) = uId (h ?y) \<longleftrightarrow> q = ?y" if "q \<in> set g" for q
    using distinct_layers_inj [OF d] that y sub by (auto simp: inj_on_def)
  have all: "(\<forall>q \<in> set g. uId (h q) = uId (h ?y) \<or> joins K c h q ?x) \<and> joins K c h ?x ?y
      \<longleftrightarrow> (\<forall>q \<in> set g. joins K c h ?x q)"
    using uy y IsLayerCombine_sym [of K c "h ?x"] by auto
  have rest: "combine_k K c h layers j sc (Suc 0) (True, z, m @ [(z, g @ [?x])])
      = (True, z, m @ [(z, g @ [?x])])"
    by (rule combine_k_all_in [OF z _ yx]) (use mem in \<open>auto simp: HasLayer_def\<close>)
  have two: "combine_two K c h ?x ?y (False, z, m @ [(z, g)]) =
      (if \<forall>q \<in> set g. joins K c h ?x q then (True, m @ [(z, g @ [?x])])
       else (False, m @ [(z, g)]))"
    using all nx hy z by (auto simp: combine_two_def)
  have new: "smap_push (z + 1) ?x (m @ [(z, g)]) = (m @ [(z, g)]) @ [(z + 1, [?x])]"
    by (rule smap_push_new) (simp add: z)
  show ?thesis
    using nx hy z rest two new
    by (simp add: combine_k.simps [of K c h layers j sc 0] Let_def)
qed

text \<open>The loop over \<open>j\<close> extends the group until the first layer that does not fit.\<close>

lemma combine_j_group:
  assumes d: "distinct_layers h layers"
    and "j \<le> length layers" "i < j" "below z m" "sc = j - 1 - i"
    and "j = length layers \<longrightarrow> ic0 = (i + 1 < j)"
  shows "\<exists>n ic. combine_j K c h layers j sc (ic0, z, m @ [(z, take (j - i) (drop i layers))]) =
      (if ic then (length layers - 1 - i, True, z, m @ [(z, drop i layers)])
       else if i + 1 = length layers then (0, False, z, m @ [(z, drop i layers)])
       else (n - i, False, z + 1, (m @ [(z, take (n - i) (drop i layers))])
                   @ [(z + 1, [layers ! n])]))
    \<and> (ic \<longrightarrow> i + 1 < length layers)
    \<and> (if ic \<or> i + 1 = length layers
       then greedy (joins K c h) (take (j - i) (drop i layers)) (drop j layers) = [drop i layers]
       else j \<le> n \<and> n < length layers \<and>
            greedy (joins K c h) (take (j - i) (drop i layers)) (drop j layers) =
              take (n - i) (drop i layers) # greedy (joins K c h) [layers ! n] (drop (Suc n) layers))"
  using assms(2-)
proof (induction "length layers - j" arbitrary: j sc ic0)
  case 0
  then have j: "j = length layers" by simp
  then show ?case
    using "0.prems" by (intro exI [of _ 0] exI [of _ "i + 1 < j"])
      (auto simp: combine_j.simps)
next
  case (Suc k)
  let ?g = "take (j - i) (drop i layers)" and ?x = "layers ! j"
  have j: "j < length layers" using Suc.hyps(2) by simp
  have gx: "?g @ [?x] = take (Suc j - i) (drop i layers)"
    using j Suc.prems(2) by (simp add: Suc_diff_le take_Suc_conv_app_nth)
  have dx: "drop j layers = ?x # drop (Suc j) layers" by (simp add: Cons_nth_drop_Suc j)
  note k1 = combine_k_group [OF d j Suc.prems(2) refl Suc.prems(3,4), of K c]
  show ?case
  proof (cases "\<forall>y \<in> set ?g. joins K c h ?x y")
    case True
    then have st: "combine_j K c h layers j sc (ic0, z, m @ [(z, ?g)]) =
        combine_j K c h layers (Suc j) (Suc sc) (True, z, m @ [(z, take (Suc j - i) (drop i layers))])"
      using k1 j by (subst combine_j.simps) (simp add: gx)
    have gr: "greedy (joins K c h) ?g (drop j layers) =
        greedy (joins K c h) (take (Suc j - i) (drop i layers)) (drop (Suc j) layers)"
      using True by (simp add: dx gx)
    have pr: "k = length layers - Suc j" "Suc j \<le> length layers" "i < Suc j"
        "Suc sc = Suc j - 1 - i" "Suc j = length layers \<longrightarrow> True = (i + 1 < Suc j)"
      using Suc.hyps(2) Suc.prems j by auto
    obtain n ic where
      ih: "combine_j K c h layers (Suc j) (Suc sc)
             (True, z, m @ [(z, take (Suc j - i) (drop i layers))]) =
        (if ic then (length layers - 1 - i, True, z, m @ [(z, drop i layers)])
         else if i + 1 = length layers then (0, False, z, m @ [(z, drop i layers)])
         else (n - i, False, z + 1, (m @ [(z, take (n - i) (drop i layers))])
                   @ [(z + 1, [layers ! n])]))"
      and ih2: "ic \<longrightarrow> i + 1 < length layers"
      and ih3: "if ic \<or> i + 1 = length layers
         then greedy (joins K c h) (take (Suc j - i) (drop i layers)) (drop (Suc j) layers)
              = [drop i layers]
         else Suc j \<le> n \<and> n < length layers \<and>
              greedy (joins K c h) (take (Suc j - i) (drop i layers)) (drop (Suc j) layers) =
              take (n - i) (drop i layers)
                # greedy (joins K c h) [layers ! n] (drop (Suc n) layers)"
      using Suc.hyps(1) [OF pr(1-3) Suc.prems(3) pr(4,5)] by blast
    show ?thesis
      unfolding st gr
      by (intro exI [of _ n] exI [of _ ic]) (use ih ih2 ih3 in \<open>auto split: if_splits\<close>)
  next
    case False
    then have st: "combine_j K c h layers j sc (ic0, z, m @ [(z, ?g)]) =
        (Suc sc, False, z + 1, (m @ [(z, ?g)]) @ [(z + 1, [?x])])"
      using k1 [unfolded if_not_P [OF False]] j by (subst combine_j.simps) simp
    have "Suc sc = j - i" using Suc.prems by simp
    moreover have "greedy (joins K c h) ?g (drop j layers)
        = ?g # greedy (joins K c h) [?x] (drop (Suc j) layers)"
      unfolding dx greedy.simps if_not_P [OF False] ..
    ultimately show ?thesis
      unfolding st by (intro exI [of _ j] exI [of _ False]) (use j Suc.prems in auto)
  qed
qed

lemma combine_i_end: "length layers \<le> i \<Longrightarrow> combine_i K c h layers i (ic, z, m) = Some m"
  by (simp add: combine_i.simps)

text \<open>On the last layer the loop over \<open>j\<close> is empty, and the map is left as it is.\<close>

lemma combine_i_last:
  "0 < i \<Longrightarrow> Suc i = length layers \<Longrightarrow> bUse (h (layers ! i)) \<Longrightarrow>
   combine_i K c h layers i (ic, z, m) = Some m"
  by (simp add: combine_i.simps [of K c h layers i] combine_j.simps combine_i_end)

lemma combine_i_step:
  assumes "i < length layers" "bUse (h (layers ! i))"
    and "combine_j K c h layers (Suc i) 0
           (ic, z, if i = 0 then smap_push z (layers ! 0) m else m) = (sc, ic', z', m')"
  shows "combine_i K c h layers i (ic, z, m) =
    combine_i K c h layers (if sc \<noteq> 0 then i + sc else Suc i)
      (ic', if ic' then z' + 1 else z', m')"
  using assms by (simp add: combine_i.simps [of K c h layers i] Let_def)

lemma combine_i_groups:
  assumes d: "distinct_layers h layers" and u: "\<forall>p \<in> set layers. bUse (h p)"
    and "i < length layers" "below z m"
    and "m0 = (if i = 0 then m else m @ [(z, [layers ! i])])"
    and "i = 0 \<longrightarrow> \<not> ic0" "Suc i = length layers \<longrightarrow> \<not> ic0"
  shows "\<exists>m'. combine_i K c h layers i (ic0, z, m0) = Some m' \<and>
     List.map snd m' = List.map snd m @
       greedy (joins K c h) [layers ! i] (drop (Suc i) layers)"
  using assms(3-)
proof (induction "length layers - i" arbitrary: i z m m0 ic0 rule: less_induct)
  case less
  note i = less.prems(1)
  have use: "bUse (h (layers ! i))" using u i by simp
  let ?m1 = "if i = 0 then smap_push z (layers ! 0) m0 else m0"
  have tk: "take (Suc i - i) (drop i layers) = [layers ! i]"
    using i by (simp add: take_Suc_conv_app_nth)
  have m1: "?m1 = m @ [(z, take (Suc i - i) (drop i layers))]"
    unfolding tk using less.prems(2,3) by (simp add: smap_push_new)
  have "\<exists>n ic. combine_j K c h layers (Suc i) 0
        (ic0, z, m @ [(z, take (Suc i - i) (drop i layers))]) =
      (if ic then (length layers - 1 - i, True, z, m @ [(z, drop i layers)])
       else if i + 1 = length layers then (0, False, z, m @ [(z, drop i layers)])
       else (n - i, False, z + 1, (m @ [(z, take (n - i) (drop i layers))])
                   @ [(z + 1, [layers ! n])]))
    \<and> (ic \<longrightarrow> i + 1 < length layers)
    \<and> (if ic \<or> i + 1 = length layers
       then greedy (joins K c h) (take (Suc i - i) (drop i layers)) (drop (Suc i) layers)
            = [drop i layers]
       else Suc i \<le> n \<and> n < length layers \<and>
            greedy (joins K c h) (take (Suc i - i) (drop i layers)) (drop (Suc i) layers) =
              take (n - i) (drop i layers) # greedy (joins K c h) [layers ! n] (drop (Suc n) layers))"
    by (rule combine_j_group [OF d]) (use less.prems i in auto)
  then obtain n ic where
    cj: "combine_j K c h layers (Suc i) 0 (ic0, z, ?m1) =
      (if ic then (length layers - 1 - i, True, z, m @ [(z, drop i layers)])
       else if i + 1 = length layers then (0, False, z, m @ [(z, drop i layers)])
       else (n - i, False, z + 1, (m @ [(z, take (n - i) (drop i layers))])
                   @ [(z + 1, [layers ! n])]))"
    and ic: "ic \<longrightarrow> i + 1 < length layers"
    and gr: "if ic \<or> i + 1 = length layers
       then greedy (joins K c h) [layers ! i] (drop (Suc i) layers) = [drop i layers]
       else Suc i \<le> n \<and> n < length layers \<and>
            greedy (joins K c h) [layers ! i] (drop (Suc i) layers) =
              take (n - i) (drop i layers) # greedy (joins K c h) [layers ! n] (drop (Suc n) layers)"
    unfolding m1 tk by blast
  consider (all) "ic" | (one) "\<not> ic" "i + 1 = length layers"
    | (stop) "\<not> ic" "i + 1 \<noteq> length layers" by blast
  then show ?case
  proof cases
    case all
    with ic have l: "i + (length layers - 1 - i) = length layers - 1" "0 < length layers - 1"
        "length layers - 1 - i \<noteq> 0" by auto
    have "combine_i K c h layers i (ic0, z, m0) =
        combine_i K c h layers (length layers - 1) (True, z + 1, m @ [(z, drop i layers)])"
      using combine_i_step [where h = h and layers = layers and i = i, OF i use cj [unfolded if_P [OF all]]]
      unfolding if_P [OF l(3)] l(1) by simp
    also have "\<dots> = Some (m @ [(z, drop i layers)])"
      by (rule combine_i_last) (use l u in auto)
    finally show ?thesis using gr all by auto
  next
    case one
    have "combine_i K c h layers i (ic0, z, m0) =
        combine_i K c h layers (Suc i) (False, z, m @ [(z, drop i layers)])"
      using combine_i_step [where h = h and layers = layers and i = i, OF i use] cj one by simp
    with one gr show ?thesis by (simp add: combine_i_end)
  next
    case stop
    with gr have n: "Suc i \<le> n" "n < length layers" by auto
    have st: "combine_i K c h layers i (ic0, z, m0) =
        combine_i K c h layers n (False, z + 1, (m @ [(z, take (n - i) (drop i layers))])
           @ [(z + 1, [layers ! n])])"
      using combine_i_step [where h = h and layers = layers and i = i, OF i use] cj stop n by simp
    have "\<exists>m'. combine_i K c h layers n (False, z + 1, (m @ [(z, take (n - i) (drop i layers))])
           @ [(z + 1, [layers ! n])]) = Some m' \<and>
        List.map snd m' = List.map snd (m @ [(z, take (n - i) (drop i layers))]) @
          greedy (joins K c h) [layers ! n] (drop (Suc n) layers)"
      by (rule less.hyps) (use n less.prems in auto)
    with st gr stop show ?thesis by auto
  qed
qed

text \<open>A layer the loop over \<open>i\<close> stops at must be in use for the loop to end.\<close>

lemma combine_i_unused:
  "combine_i K c h layers i s = Some r \<Longrightarrow> i < length layers \<longrightarrow> bUse (h (layers ! i))"
  by (rule combine_i.raw_induct
        [where P = "\<lambda>K c h layers i s r. i < length layers \<longrightarrow> bUse (h (layers ! i))"])
    (auto split: if_splits)

definition sort_group :: "heap \<Rightarrow> lptr list \<Rightarrow> lptr list" where
  "sort_group h g = (if 1 < length g then exchange_sort (layer_top h) g else g)"

lemma mset_sort_group [simp]: "mset (sort_group h g) = mset g"
  by (simp add: sort_group_def esort.perm)

lemma set_sort_group [simp]: "set (sort_group h g) = set g"
  by (metis mset_sort_group set_mset_mset)

lemma sorted_sort_group: "sorted (List.map (layer_top h) (sort_group h g))"
proof (cases "1 < length g")
  case False
  then show ?thesis by (cases g) (auto simp: sort_group_def)
qed (simp add: sort_group_def esort.ordered)

lemma snd_sort_groups: "List.map snd (sort_groups h m) = List.map (sort_group h) (List.map snd m)"
  by (simp add: sort_groups_def sort_group_def case_prod_beta)

lemma CombineLayer_groups:
  assumes "distinct_layers h layers" "\<forall>p \<in> set layers. bUse (h p)" "layers \<noteq> []"
  shows "\<exists>m. CombineLayer K c h layers n = Some (if n < length m then -1 else 0, m) \<and>
     List.map snd m =
       List.map (sort_group h) (greedy (joins K c h) [hd layers] (tl layers))"
proof -
  have "\<exists>m'. combine_i K c h layers 0 (False, 0, []) = Some m' \<and>
     List.map snd m' = List.map snd ([] :: layer_map) @
       greedy (joins K c h) [layers ! 0] (drop (Suc 0) layers)"
    by (rule combine_i_groups [OF assms(1,2)]) (use assms(3) in \<open>auto simp: below_def\<close>)
  then obtain m' where "combine_i K c h layers 0 (False, 0, []) = Some m'"
    "List.map snd m' = greedy (joins K c h) [layers ! 0] (drop (Suc 0) layers)" by auto
  with assms(3) show ?thesis
    by (intro exI [of _ "sort_groups h m'"])
      (simp add: CombineLayer_def snd_sort_groups hd_conv_nth drop_Suc)
qed

lemma CombineLayer_empty: "CombineLayer K c h [] n = Some (0, [])"
  by (simp add: CombineLayer_def combine_i_end sort_groups_def)

lemma CombineLayer_total:
  assumes "distinct_layers h layers" "\<forall>p \<in> set layers. bUse (h p)"
  shows "\<exists>r m. CombineLayer K c h layers n = Some (r, m) \<and>
     mset (concat (List.map snd m)) = mset layers \<and> [] \<notin> snd ` set m"
proof (cases "layers = []")
  case True
  then show ?thesis by (simp add: CombineLayer_empty)
next
  case False
  let ?G = "greedy (joins K c h) [hd layers] (tl layers)"
  obtain m where m: "CombineLayer K c h layers n = Some (if n < length m then -1 else 0, m)"
    "List.map snd m = List.map (sort_group h) ?G"
    using CombineLayer_groups [OF assms False, of K c n] by blast
  have sg: "mset (concat (List.map (sort_group h) gs)) = mset (concat gs)" for gs
    by (induction gs) simp_all
  have "mset (concat (List.map snd m)) = mset layers"
    unfolding m(2) sg using False by simp
  moreover have "[] \<notin> snd ` set m"
  proof
    assume "[] \<in> snd ` set m"
    then have "[] \<in> set (List.map (sort_group h) ?G)" using m(2) by (metis list.set_map)
    then have "[] \<in> set ?G" by (auto dest: arg_cong [of _ _ set])
    then show False using greedy_nonempty [of "[hd layers]"] by blast
  qed
  ultimately show ?thesis using m(1) by blast
qed

section \<open>Properties\<close>

text \<open>
  C17: \<open>CombineLayer\<close> computes the greedy partition of the layers in z-order: a layer joins the
  group before it exactly when it can be combined with every layer of that group; each group is
  then ordered by the top edge.  It reports \<open>-1\<close> exactly when there are more groups than
  planes.
\<close>

theorem CombineLayer_greedy:
  assumes "distinct_layers h layers" "\<forall>p \<in> set layers. bUse (h p)" "layers \<noteq> []"
  shows "\<exists>m. CombineLayer K c h layers n = Some (if n < length m then -1 else 0, m) \<and>
     List.map snd m =
       List.map (sort_group h)
         (greedy (\<lambda>x y. IsLayerCombine K c (h x) (h y)) [hd layers] (tl layers))"
  by (rule CombineLayer_groups [OF assms])

definition rect :: "int \<Rightarrow> int \<Rightarrow> int \<Rightarrow> int \<Rightarrow> hwc_rect" where
  "rect l t r b = \<lparr> left = l, top = t, right = r, bottom = b \<rparr>"

definition buf0 :: layer_buf where
  "buf0 =
     \<lparr> display_frame_sf = rect 0 0 100 100, iFd = 7, iHeightStride = 100, iByteStride = 512,
       iUsage = 0, uModifier = 0, uBufferId = 1, uGemHandle = 1, uByteStridePlanes = [],
       bYuv10bit = False, bMetadataHdr = False, iSkipLine = 0,
       uColorSpace = colorspace_kernel_510 V4L2_COLORSPACE_DEFAULT, uEOTF = 0,
       acquire_fence = -1, pBufferInfo = Some 0, bUseRga = False, pRgaBuffer = None,
       storeLayerInfo = None \<rparr>"

definition layer0 :: DrmHwcLayer where
  "layer0 =
     \<lparr> sf_handle = 1, transform = 1, blending = kNone, sf_composition = Device, alpha = 255,
       source_crop = \<lparr> fleft = 0, ftop = 0, fright = 100, fbottom = 100 \<rparr>,
       display_frame = rect 0 0 100 100, uId = 0, iZpos = 0, iDrmZpos = 0, bFbTarget = False,
       bAfbcd = False, bRfbcd = False, bYuv = False, bScale = False, bHdr = False,
       bSkipLayer = False, fHScaleMul = 1, fVScaleMul = 1, iFormat = 1, iWidth = 100,
       iHeight = 100, iStride = 128, iSize = 40000, uFourccFormat = 0x34324241,
       sLayerName = ''app'', bMatch = False, bUse = True, bGlesCompose = False,
       iBestPlaneType = 0, eDataSpace = 0, bSidebandStreamLayer = False,
       bAccelerateLayer = False, buf = buf0 \<rparr>"

definition sta0 :: sta_ctx where
  "sta0 =
     \<lparr> clu = (\<lambda>_. \<lparr> TwoWinMode = False, Used = False, UsedZ = -1, UsedDstXOffset = 0,
                   UsedFormat = 0, UsedAfbc = False \<rparr>),
       bMultiAreaEnable = False, bMultiAreaScaleEnable = False, bRgaPolicyEnable = False,
       fbUseAfbc = False, iVopMaxOverlay4KPlane = 0, accelerate_app_name = ''pen'',
       last_accelerate_status = False, bDisableFBAfbcd = False, bUseSwPq = False,
       iSocId = 0x3588, iDisplayId = 0, setHwcPolicy = [], b8kMode = False,
       b4k120pMode = False, fScreenRefresh = Some 60, iDisplayWidth = 1920,
       iDisplayHeight = 1080, bIsCropSplit = False, bIsCropSplitPrimary = False \<rparr>"

text \<open>Four layers: two bands one above the other, one beside the second, and a lower band.\<close>

definition bands :: heap where
  "bands p = layer0\<lparr> uId := of_nat p, iZpos := int p, iDrmZpos := int p, display_frame :=
     (if p = 0 then rect 0 200 100 300 else if p = 1 then rect 0 0 100 100
      else if p = 2 then rect 200 200 300 300 else rect 0 400 100 500) \<rparr>"

lemma CombineLayer_greedy_witness:
  "\<exists>m. CombineLayer sdk0 (sta0\<lparr>bMultiAreaEnable := True\<rparr>) bands [0, 1, 2, 3] 4
         = Some (if 4 < length m then -1 else 0, m) \<and>
       List.map snd m = [[1, 0], [2, 3]]"
proof -
  have "distinct_layers bands [0, 1, 2, 3]" by (simp add: distinct_layers_def bands_def layer0_def)
  moreover have "\<forall>p \<in> set [0, 1, 2, 3]. bUse (bands p)" by (simp add: bands_def layer0_def)
  moreover have "List.map (sort_group bands)
      (greedy (\<lambda>x y. IsLayerCombine sdk0 (sta0\<lparr>bMultiAreaEnable := True\<rparr>) (bands x) (bands y))
         [hd [0, 1, 2, 3]] (tl [0, 1, 2, 3])) = [[1, 0], [2, 3]]"
    by (simp add: IsLayerCombine_def bands_def layer0_def sta0_def sdk0_def rect_def
        IsXIntersect_def IsRec1IntersectRec2_def Let_def sort_group_def exchange_sort_def
        esort_outer.simps esort_inner.simps layer_top_def swap_at_def)
  ultimately show ?thesis
    using CombineLayer_greedy [of bands "[0, 1, 2, 3]" sdk0 "sta0\<lparr>bMultiAreaEnable := True\<rparr>" 4]
    by simp
qed

text \<open>
  C18: What the hardware needs of a group.  The groups are a partition of the layers, and in a
  group the windows come from top to bottom: a window ends where the next one begins or before
  it, and no two windows touch.
\<close>

theorem CombineLayer_windows:
  assumes "distinct_layers h layers" "\<forall>p \<in> set layers. bUse (h p)" "layers \<noteq> []"
  shows "\<exists>r m. CombineLayer K c h layers n = Some (r, m) \<and>
     mset (concat (List.map snd m)) = mset layers \<and>
     (\<forall>g \<in> snd ` set m. \<forall>a b. a < b \<and> b < length g \<longrightarrow>
        bottom (display_frame (h (g ! a))) \<le> top (display_frame (h (g ! b))) \<and>
        \<not> IsRec1IntersectRec2 (display_frame (h (g ! a))) (display_frame (h (g ! b))))"
proof -
  let ?G = "greedy (joins K c h) [hd layers] (tl layers)"
  obtain m where m: "CombineLayer K c h layers n = Some (if n < length m then -1 else 0, m)"
    "List.map snd m = List.map (sort_group h) ?G"
    using CombineLayer_groups [OF assms, of K c n] by blast
  have perm: "mset (concat (List.map snd m)) = mset layers"
    using CombineLayer_total [OF assms(1,2), of K c n] m(1) by auto
  have "distinct (concat (List.map snd m))"
    using perm distinct_layers_distinct [OF assms(1)] by (metis mset_eq_imp_distinct_iff)
  then have dg: "distinct g" if "g \<in> snd ` set m" for g
    using that by (metis distinct_concat_iff list.set_map)
  have "bottom (display_frame (h (g ! a))) \<le> top (display_frame (h (g ! b))) \<and>
        \<not> IsRec1IntersectRec2 (display_frame (h (g ! a))) (display_frame (h (g ! b)))"
    if g: "g \<in> snd ` set m" and ab: "a < b" "b < length g" for g a b
  proof -
    from g m(2) obtain G where G: "G \<in> set ?G" "g = sort_group h G"
      by (metis (no_types, lifting) image_iff list.set_map)
    have "pairwise (joins K c h) (set G)"
      using greedy_combinable [of "joins K c h" "[hd layers]" "tl layers"] G(1)
        IsLayerCombine_sym by (auto simp: pairwise_def)
    moreover have "g ! a \<in> set G" "g ! b \<in> set G"
      using ab G(2) by (metis nth_mem set_sort_group order.strict_trans)+
    moreover have "g ! a \<noteq> g ! b" using dg [OF g] ab by (simp add: nth_eq_iff_index_eq)
    ultimately have j: "joins K c h (g ! a) (g ! b)" by (simp add: pairwise_def)
    moreover have "top (display_frame (h (g ! a))) \<le> top (display_frame (h (g ! b)))"
      using sorted_sort_group [of h G] ab G(2)
      by (simp add: sorted_iff_nth_mono_less layer_top_def)
    ultimately show ?thesis
      by (auto simp: IsLayerCombine_def IsXIntersect_def split: if_splits)
  qed
  with m(1) perm show ?thesis by blast
qed

lemma CombineLayer_windows_witness:
  "\<exists>r m. CombineLayer sdk0 (sta0\<lparr>bMultiAreaEnable := True\<rparr>) bands [0, 1, 2, 3] 4 = Some (r, m) \<and>
     mset (concat (List.map snd m)) = {#0, 1, 2, 3#}"
  using CombineLayer_windows
    [of bands "[0, 1, 2, 3]" sdk0 "sta0\<lparr>bMultiAreaEnable := True\<rparr>" 4]
  by (simp add: distinct_layers_def bands_def layer0_def) blast

text \<open>
  C19: \<open>CombineLayer\<close> never returns when the first layer is not in use: the loop skips such a
  layer with \<open>continue\<close> and without advancing its index.
\<close>

theorem CombineLayer_hangs:
  assumes "layers \<noteq> []" "\<not> bUse (h (hd layers))"
  shows "CombineLayer K c h layers n = None"
proof -
  have "combine_i K c h layers 0 (False, 0, []) \<noteq> Some r" for r
    using combine_i_unused [of K c h layers 0] assms by (auto simp: hd_conv_nth)
  then have "combine_i K c h layers 0 (False, 0, []) = None"
    by (cases "combine_i K c h layers 0 (False, 0, [])") auto
  then show ?thesis by (simp add: CombineLayer_def)
qed

lemma CombineLayer_hangs_witness:
  "CombineLayer sdk0 sta0 (\<lambda>p. layer0\<lparr>bUse := False\<rparr>) [0, 1] 4 = None"
  by (rule CombineLayer_hangs) (simp_all add: layer0_def)

text \<open>
  C20: The two rectangle tests.  \<open>IsRec1IntersectRec2\<close> holds exactly when the closed rectangles
  share a point, and \<open>IsXIntersect\<close>, on rectangles of positive height, exactly when the open
  vertical extents overlap (not the horizontal ones, as its name says).
\<close>

theorem rect_tests_correct:
  assumes "top a < bottom a" "top b < bottom b" "left a \<le> right a" "left b \<le> right b"
  shows "(IsRec1IntersectRec2 a b \<longleftrightarrow>
            (\<exists>x y. left a \<le> x \<and> x \<le> right a \<and> top a \<le> y \<and> y \<le> bottom a \<and>
                   left b \<le> x \<and> x \<le> right b \<and> top b \<le> y \<and> y \<le> bottom b))
       \<and> (IsXIntersect a b \<longleftrightarrow> top a < bottom b \<and> top b < bottom a)"
proof
  show "IsXIntersect a b \<longleftrightarrow> top a < bottom b \<and> top b < bottom a"
    using assms by (auto simp: IsXIntersect_def)
  show "IsRec1IntersectRec2 a b \<longleftrightarrow>
          (\<exists>x y. left a \<le> x \<and> x \<le> right a \<and> top a \<le> y \<and> y \<le> bottom a \<and>
                 left b \<le> x \<and> x \<le> right b \<and> top b \<le> y \<and> y \<le> bottom b)" (is "_ = ?R")
  proof
    assume "IsRec1IntersectRec2 a b"
    with assms show ?R
      by (intro exI [of _ "max (left a) (left b)"] exI [of _ "max (top a) (top b)"])
        (auto simp: IsRec1IntersectRec2_def Let_def split: if_splits)
  qed (auto simp: IsRec1IntersectRec2_def Let_def)
qed

lemma rect_tests_correct_witness:
  "IsXIntersect (rect 0 0 10 10) (rect 20 5 30 15)
   \<and> \<not> IsRec1IntersectRec2 (rect 0 0 10 10) (rect 20 5 30 15)"
  using rect_tests_correct [of "rect 0 0 10 10" "rect 20 5 30 15"]
  by (auto simp: rect_def)

end
