(* ===== verification/Vop_Match.thy ===== *)
theory Vop_Match
  imports Vop_Combine
begin

text \<open>
  \<open>MatchPlane\<close>, \<open>MatchPlanes\<close> and \<open>MatchBestPlanes\<close> of \<open>platform/rk3588/drmvop3588.cpp\<close>:
  looking for a plane group that can show a group of layers.  The four copies of the cluster
  code are one definition over the cluster's index, and the body of the innermost loop is
  split along its blocks; every \<open>continue\<close> is a \<open>False\<close> result.  \<open>eotf\<close> is never assigned in
  the code, so its comparison with \<open>TRADITIONAL_GAMMA_SDR\<close> is left out.
\<close>

section \<open>One plane for one layer\<close>

definition win0 :: "nat \<Rightarrow> u64" where "win0 c = PLANE_RK3588_CLUSTER_WIN c 0"
definition win1 :: "nat \<Rightarrow> u64" where "win1 c = PLANE_RK3588_CLUSTER_WIN c 1"

definition init_cluster :: "DrmPlane \<Rightarrow> sta_ctx \<Rightarrow> sta_ctx" where
  "init_cluster p c = c\<lparr> clu := (\<lambda>i.
     if i < 4 \<and> has_bits (win_type p) (win0 i)
     then (clu c i)\<lparr> Used := False, UsedZ := -1, TwoWinMode := True, UsedDstXOffset := 0 \<rparr>
     else clu c i) \<rparr>"

definition keep_continuous :: "DrmPlane \<Rightarrow> DrmHwcLayer \<Rightarrow> int \<Rightarrow> sta_ctx \<Rightarrow> sta_ctx" where
  "keep_continuous p l zpos c = c\<lparr> clu := (\<lambda>i.
     let u = clu c i in
     if i < 4 \<and> Used u \<and> has_bits (win_type p) (win1 i) \<and>
        ((zpos - UsedZ u \<noteq> 1 \<and> zpos \<noteq> UsedZ u) \<or>
         UsedFormat u \<noteq> uFourccFormat l \<or> UsedAfbc u \<noteq> bAfbcd l)
     then u\<lparr> TwoWinMode := False \<rparr> else u) \<rparr>"

definition disable_two_win :: "nat \<Rightarrow> sta_ctx \<Rightarrow> sta_ctx" where
  "disable_two_win i c = c\<lparr> clu := (clu c)(i := (clu c i)\<lparr> TwoWinMode := False \<rparr>) \<rparr>"

fun win1_limits :: "DrmPlane \<Rightarrow> DrmHwcLayer \<Rightarrow> nat list \<Rightarrow> sta_ctx \<Rightarrow> bool \<times> sta_ctx" where
  "win1_limits p l [] c = (True, c)"
| "win1_limits p l (i # is) c =
     (if has_bits (win_type p) (win1 i) then
        (if \<not> TwoWinMode (clu c i) then (False, c)
         else if UsedDstXOffset (clu c i) smod 2 \<noteq> left (display_frame l) smod 2
         then (False, disable_two_win i c)
         else if 2048 < input_w l \<or> 2048 < output_w l then (False, disable_two_win i c)
         else win1_limits p l is c)
      else win1_limits p l is c)"

definition swpq_afbc :: "lptr \<Rightarrow> vop \<Rightarrow> vop" where
  "swpq_afbc lp s =
     (if bUseSwPq (st s) \<and> bFbTarget (heap s lp)
      then s\<lparr> heap := upd lp (bAfbcd_update (\<lambda>_. False)) (heap s) \<rparr> else s)"

definition no_afbc_for_fb_target :: "env \<Rightarrow> int" where
  "no_afbc_for_fb_target E = hwc_get_int_property (pget E)
     (Some ''vendor.gralloc.no_afbc_for_fb_target_layer'') (Some ''0'')"

definition match_format :: "sdk \<Rightarrow> env \<Rightarrow> lptr \<Rightarrow> DrmPlane \<Rightarrow> vop \<Rightarrow> bool \<times> vop" where
  "match_format K E lp p s =
     (let l = heap s lp in
      if is_support_format K p (uFourccFormat l) (bAfbcd l) False then (True, s)
      else if bFbTarget l \<and> \<not> bUseSwPq (st s) \<and> no_afbc_for_fb_target E = 0 \<and>
              is_support_format K p (uFourccFormat l) (\<not> bAfbcd l) False
      then (True, s\<lparr> heap := upd lp (bAfbcd_update (\<lambda>b. \<not> b)) (heap s) \<rparr>)
      else (False, s))"

definition center_scale :: "sta_ctx \<Rightarrow> DrmHwcLayer \<Rightarrow> bool" where
  "center_scale c l \<longleftrightarrow>
     iDisplayWidth c - (output_w l + 2 * left (display_frame l)) < 2 \<and>
     iDisplayHeight c - (output_h l + 2 * top (display_frame l)) < 2"

definition size_ok :: "sta_ctx \<Rightarrow> DrmHwcLayer \<Rightarrow> DrmPlane \<Rightarrow> bool" where
  "size_ok c l p \<longleftrightarrow>
     (if b8kMode c then is_support_input_8k p (input_w l) (input_h l)
      else is_support_input p (input_w l) (input_h l)) \<and>
     (if b8kMode c then is_support_output_8k p (output_w l) (output_h l)
      else is_support_output p (output_w l) (output_h l))"

definition scale_ok :: "sta_ctx \<Rightarrow> DrmHwcLayer \<Rightarrow> DrmPlane \<Rightarrow> bool" where
  "scale_ok c l p =
     (let b8kInputScaleMode = (b8kMode c \<and> 4096 < input_w l);
          b4kInputScaleMode = (b8kMode c \<and> 3840 \<le> input_w l \<and> input_w l \<le> 4096);
          bCenterScale = center_scale c l
      in (if b8kInputScaleMode then
            bCenterScale \<and> is_support_scale_8k p (fHScaleMul l) \<and>
            is_support_scale_8k p (fVScaleMul l)
          else if b4kInputScaleMode then
            is_support_scale p (fHScaleMul l) \<and> is_support_scale p (fVScaleMul l) \<and>
            (fHScaleMul l \<le> 1 \<and> fVScaleMul l \<le> 1 \<or>
             bCenterScale \<and> fHScaleMul l < 11 / 10 \<and> fVScaleMul l < 11 / 10)
          else is_support_scale p (fHScaleMul l) \<and> is_support_scale p (fVScaleMul l)) \<and>
         \<not> (b4k120pMode c \<and> 3840 \<le> input_w l \<and> (1 < fHScaleMul l \<or> 1 < fVScaleMul l)))"

definition next_alpha :: "DrmHwcLayer \<Rightarrow> u64 \<Rightarrow> u64" where
  "next_alpha l a = (if blending l = kPreMult then ucast (alpha l) else a)"

definition alpha_ok :: "u64 \<Rightarrow> DrmPlane \<Rightarrow> bool" where
  "alpha_ok a p \<longleftrightarrow> a = 0xFF \<or> prop_id (plane_prop p ''alpha_property'') \<noteq> 0"

definition hdr_ok :: "env \<Rightarrow> DrmHwcLayer \<Rightarrow> bool" where
  "hdr_ok E l \<longleftrightarrow> \<not> bHdr l \<or> crtc_hdr E"

definition transform_ok :: "sdk \<Rightarrow> sta_ctx \<Rightarrow> DrmHwcLayer \<Rightarrow> DrmPlane \<Rightarrow> bool" where
  "transform_ok K c l p =
     (if bSidebandStreamLayer l then True
      else if (if b8kMode c then is_support_transform_8k p (transform l)
               else is_support_transform p (transform l)) then
        (if has_bits (win_type p) PLANE_RK3588_ALL_CLUSTER_MASK \<and> \<not> bAfbcd l \<and>
            transform l \<noteq> DRM_MODE_ROTATE_0 K then False
         else if transform l AND
                 (DRM_MODE_REFLECT_X K OR DRM_MODE_ROTATE_90 K OR DRM_MODE_ROTATE_270 K) \<noteq> 0 \<and>
                 iStride l smod 64 \<noteq> 0 then False
         else if transform l AND (DRM_MODE_ROTATE_90 K OR DRM_MODE_ROTATE_270 K) \<noteq> 0 \<and>
                 2048 < input_h l then False
         else True)
      else False)"

text \<open>The \<open>else if\<close> chain over \<open>CLUSTER0_WIN0\<close> to \<open>CLUSTER3_WIN0\<close>.\<close>

definition after_match :: "sdk \<Rightarrow> DrmPlane \<Rightarrow> DrmHwcLayer \<Rightarrow> int \<Rightarrow> sta_ctx \<Rightarrow> sta_ctx" where
  "after_match K p l zpos c =
     (case List.find (\<lambda>i. has_bits (win_type p) (win0 i)) [0, 1, 2, 3] of
        None \<Rightarrow> c
      | Some i \<Rightarrow>
          c\<lparr> clu := (clu c)(i := (clu c i)\<lparr> Used := True, UsedZ := zpos,
               UsedDstXOffset := left (display_frame l), UsedFormat := uFourccFormat l,
               UsedAfbc := bAfbcd l,
               TwoWinMode := \<not> (2048 < input_w l \<or> 2048 < output_w l \<or>
                 transform l AND (DRM_MODE_ROTATE_90 K OR DRM_MODE_ROTATE_270 K) \<noteq> 0 \<or>
                 b8kMode c) \<rparr>) \<rparr>)"

definition commit_match :: "sdk \<Rightarrow> int \<Rightarrow> lptr \<Rightarrow> pptr \<Rightarrow> vop \<Rightarrow> vop" where
  "commit_match K zpos lp pp s =
     (let l = heap s lp; p = plane_at (gheap s) pp in
      s\<lparr> comp := comp s @ [\<lparr> cp_type = kLayer, cp_plane = pp, cp_source = iDrmZpos l,
                            cp_zpos = zpos \<rparr>],
         heap := upd lp (bMatch_update (\<lambda>_. True)) (heap s),
         gheap := set_use True pp (gheap s),
         st := after_match K p l zpos (st s) \<rparr>)"

definition try_plane ::
  "sdk \<Rightarrow> env \<Rightarrow> int \<Rightarrow> lptr \<Rightarrow> pptr \<Rightarrow> u64 \<times> vop \<Rightarrow> bool \<times> u64 \<times> vop" where
  "try_plane K E zpos lp pp as =
     (case as of (a, s) \<Rightarrow>
      let p = plane_at (gheap s) pp in
      if b_use p \<or> \<not> GetCrtcSupported (pipe E) p then (False, a, s)
      else
       (let l = heap s lp;
            (ok, c) = win1_limits p l [0, 1, 2, 3]
                        (keep_continuous p l zpos (init_cluster p (st s)));
            s1 = s\<lparr> st := c \<rparr>
        in if \<not> ok then (False, a, s1)
           else
            (let (fok, s2) = match_format K E lp p (swpq_afbc lp s1);
                 l2 = heap s2 lp;
                 a2 = next_alpha l2 a
             in if \<not> fok then (False, a, s2)
                else if \<not> (size_ok (st s2) l2 p \<and> scale_ok (st s2) l2 p) then (False, a, s2)
                else if \<not> (alpha_ok a2 p \<and> hdr_ok E l2 \<and> transform_ok K (st s2) l2 p)
                then (False, a2, s2)
                else (True, a2, commit_match K zpos lp pp s2))))"

section \<open>The loops over planes, layers and groups\<close>

fun try_planes ::
  "sdk \<Rightarrow> env \<Rightarrow> int \<Rightarrow> lptr \<Rightarrow> pptr list \<Rightarrow> u64 \<times> vop \<Rightarrow> bool \<times> u64 \<times> vop" where
  "try_planes K E zpos lp [] as = (False, as)"
| "try_planes K E zpos lp (pp # pps) as =
     (case try_plane K E zpos lp pp as of (m, as') \<Rightarrow>
        if m then (True, as') else try_planes K E zpos lp pps as')"

definition group_planes :: "gptr \<Rightarrow> vop \<Rightarrow> pptr list" where
  "group_planes g s = List.map (Pair g) [0..<length (planes (gheap s g))]"

definition best_type_mismatch :: "bool \<Rightarrow> PlaneGroup \<Rightarrow> DrmHwcLayer \<Rightarrow> bool" where
  "best_type_mismatch match_best g l \<longleftrightarrow>
     (match_best \<or> 0 < iBestPlaneType l) \<and>
     g_win_type g AND word_of_int (iBestPlaneType l) = 0"

fun match_layers ::
  "sdk \<Rightarrow> env \<Rightarrow> bool \<Rightarrow> int \<Rightarrow> gptr \<Rightarrow> lptr list \<Rightarrow> nat \<times> u64 \<times> vop \<Rightarrow> nat \<times> u64 \<times> vop" where
  "match_layers K E match_best zpos g [] r = r"
| "match_layers K E match_best zpos g (lp # lps) (cnt, a, s) =
     (let s0 = s\<lparr> heap := upd lp (bMatch_update (\<lambda>_. False)) (heap s) \<rparr> in
      if best_type_mismatch match_best (gheap s0 g) (heap s0 lp)
      then match_layers K E match_best zpos g lps (cnt, a, s0)
      else (case try_planes K E zpos lp (group_planes g s0) (a, s0) of (m, as') \<Rightarrow>
              match_layers K E match_best zpos g lps (if m then Suc cnt else cnt, as')))"

definition group_open :: "env \<Rightarrow> nat \<Rightarrow> PlaneGroup \<Rightarrow> bool" where
  "group_open E layer_size g \<longleftrightarrow>
     \<not> gUse g \<and> \<not> gReserved g \<and> crtc_bit E AND current_crtc g \<noteq> 0 \<and>
     layer_size \<le> length (planes g)"

fun match_groups ::
  "sdk \<Rightarrow> env \<Rightarrow> bool \<Rightarrow> int \<Rightarrow> lptr list \<Rightarrow> gptr list \<Rightarrow> u64 \<times> vop \<Rightarrow> int \<times> vop" where
  "match_groups K E match_best zpos lps [] (a, s) = (-1, s)"
| "match_groups K E match_best zpos lps (g # gs) (a, s) =
     (if group_open E (length lps) (gheap s g) then
        (case match_layers K E match_best zpos g lps (0, a, s) of (cnt, a', s') \<Rightarrow>
           if cnt = length lps
           then (0, s'\<lparr> gheap := (gheap s')(g := gheap s' g\<lparr> gUse := True \<rparr>) \<rparr>)
           else match_groups K E match_best zpos lps gs (a', s'))
      else match_groups K E match_best zpos lps gs (a, s))"

definition MatchPlane ::
  "sdk \<Rightarrow> env \<Rightarrow> gptr list \<Rightarrow> lptr list \<Rightarrow> int \<Rightarrow> bool \<Rightarrow> vop \<Rightarrow> int \<times> vop" where
  "MatchPlane K E plane_groups lps zpos match_best s =
     match_groups K E match_best zpos lps plane_groups (0xFF, s)"

section \<open>All layers\<close>

definition reset_group :: "PlaneGroup \<Rightarrow> PlaneGroup" where
  "reset_group g = g\<lparr> planes := List.map (b_use_update (\<lambda>_. False)) (planes g), gUse := False \<rparr>"

definition ResetPlaneGroups :: "gptr list \<Rightarrow> vop \<Rightarrow> vop" where
  "ResetPlaneGroups plane_groups s =
     s\<lparr> gheap := fold (\<lambda>g gs. gs(g := reset_group (gs g))) plane_groups (gheap s) \<rparr>"

definition reset_layer :: "bool \<Rightarrow> DrmHwcLayer \<Rightarrow> DrmHwcLayer" where
  "reset_layer fb_afbc l =
     (if bFbTarget l then l\<lparr> bMatch := False, bAfbcd := fb_afbc \<rparr> else l\<lparr> bMatch := False \<rparr>)"

definition ResetLayer :: "lptr list \<Rightarrow> vop \<Rightarrow> vop" where
  "ResetLayer layers s =
     s\<lparr> heap := fold (\<lambda>p. upd p (reset_layer (fbUseAfbc (st s)))) layers (heap s) \<rparr>"

definition reset_all :: "lptr list \<Rightarrow> gptr list \<Rightarrow> vop \<Rightarrow> vop" where
  "reset_all layers plane_groups s = ResetPlaneGroups plane_groups (ResetLayer layers s)"

fun match_best_map ::
  "sdk \<Rightarrow> env \<Rightarrow> lptr list \<Rightarrow> gptr list \<Rightarrow> int \<Rightarrow> layer_map \<Rightarrow> vop \<Rightarrow> int \<times> vop" where
  "match_best_map K E layers plane_groups zpos [] s = (0, s)"
| "match_best_map K E layers plane_groups zpos ((z, lps) # m) s =
     (case MatchPlane K E plane_groups lps zpos True s of (ret, s1) \<Rightarrow>
        if ret \<noteq> 0 then (ret, reset_all layers plane_groups s1)
        else match_best_map K E layers plane_groups (zpos + 1) m s1)"

definition MatchBestPlanes ::
  "sdk \<Rightarrow> env \<Rightarrow> lptr list \<Rightarrow> gptr list \<Rightarrow> vop \<Rightarrow> (int \<times> vop) option" where
  "MatchBestPlanes K E layers plane_groups s0 = do {
     let s = (reset_all layers plane_groups s0)\<lparr> comp := [] \<rparr>;
     (r, m) \<leftarrow> CombineLayer K (st s) (heap s) layers (length plane_groups);
     Some (match_best_map K E layers plane_groups 0 m s)
   }"

definition group_size :: "heap \<Rightarrow> lptr list \<Rightarrow> int" where
  "group_size h lps = sum_list (List.map (\<lambda>p. if 0 < iSize (h p) then iSize (h p) else 0) lps)"

definition fail_match :: "lptr list \<Rightarrow> gptr list \<Rightarrow> vop \<Rightarrow> vop" where
  "fail_match layers plane_groups s = (reset_all layers plane_groups s)\<lparr> comp := [] \<rparr>"

fun match_map ::
  "sdk \<Rightarrow> env \<Rightarrow> lptr list \<Rightarrow> gptr list \<Rightarrow> int \<Rightarrow> int \<Rightarrow> layer_map \<Rightarrow> vop \<Rightarrow> int \<times> vop" where
  "match_map K E layers plane_groups zpos total_size [] s = (0, s)"
| "match_map K E layers plane_groups zpos total_size ((z, lps) # m) s =
     (case MatchPlane K E plane_groups lps zpos False s of (ret, s1) \<Rightarrow>
        if ret \<noteq> 0 then (ret, fail_match layers plane_groups s1)
        else if 0 < iVopMaxOverlay4KPlane (st s1) then
          (let total' = total_size + group_size (heap s1) lps in
           if 4096 * 2160 * 4 * iVopMaxOverlay4KPlane (st s1) < total'
           then (-1, fail_match layers plane_groups s1)
           else match_map K E layers plane_groups (zpos + 1) total' m s1)
        else match_map K E layers plane_groups (zpos + 1) total_size m s1)"

definition accelerate_status :: "lptr list \<Rightarrow> vop \<Rightarrow> vop" where
  "accelerate_status layers s =
     (if iDisplayId (st s) = 0 then
        (let is_accelerate_matched = (accelerate_app_exist (request s) \<and>
               (\<exists>p \<in> set layers. bAccelerateLayer (heap s p) \<and> bMatch (heap s p)))
         in if last_accelerate_status (st s) \<noteq> is_accelerate_matched
            then s\<lparr> st := (st s)\<lparr> last_accelerate_status := is_accelerate_matched \<rparr>,
                    props_set := props_set s @ [(''vendor.hwc.accelerate_matched'',
                      if is_accelerate_matched then ''1'' else ''0'')] \<rparr>
            else s)
      else s)"

definition MatchPlanes ::
  "sdk \<Rightarrow> env \<Rightarrow> lptr list \<Rightarrow> gptr list \<Rightarrow> vop \<Rightarrow> (int \<times> vop) option" where
  "MatchPlanes K E layers plane_groups s0 = do {
     let s = (reset_all layers plane_groups s0)\<lparr> comp := [] \<rparr>;
     (r, m) \<leftarrow> CombineLayer K (st s) (heap s) layers (length plane_groups);
     let (ret, s1) = match_map K E layers plane_groups 0 0 m s;
     Some (ret, if ret = 0 then accelerate_status layers s1 else s1)
   }"

section \<open>Usable planes and plane groups\<close>

text \<open>
  The \<open>HasGetNo\<dots>UsablePlanes\<close> functions copy the first plane of each free group when it is
  free, reachable and lacks the feature.  Copying from an empty group is undefined behaviour;
  a group is created with its first plane.
\<close>

definition has_usable_plane ::
  "(DrmPlane \<Rightarrow> bool) \<Rightarrow> env \<Rightarrow> gptr list \<Rightarrow> vop \<Rightarrow> bool" where
  "has_usable_plane lacks E plane_groups s \<longleftrightarrow>
     (\<exists>g \<in> set plane_groups. \<not> gUse (gheap s g) \<and>
        (\<exists>p \<in> set (take 1 (planes (gheap s g))).
           \<not> b_use p \<and> GetCrtcSupported (pipe E) p \<and> lacks p))"

definition HasGetNoAfbcUsablePlanes :: "env \<Rightarrow> gptr list \<Rightarrow> vop \<Rightarrow> bool" where
  "HasGetNoAfbcUsablePlanes = has_usable_plane (\<lambda>p. \<not> b_afbdc p)"
definition HasGetNoYuvUsablePlanes :: "env \<Rightarrow> gptr list \<Rightarrow> vop \<Rightarrow> bool" where
  "HasGetNoYuvUsablePlanes = has_usable_plane (\<lambda>p. \<not> b_yuv p)"
definition HasGetNoScaleUsablePlanes :: "env \<Rightarrow> gptr list \<Rightarrow> vop \<Rightarrow> bool" where
  "HasGetNoScaleUsablePlanes = has_usable_plane (\<lambda>p. \<not> b_scale p)"
definition HasGetNoAlphaUsablePlanes :: "env \<Rightarrow> gptr list \<Rightarrow> vop \<Rightarrow> bool" where
  "HasGetNoAlphaUsablePlanes =
     has_usable_plane (\<lambda>p. prop_id (plane_prop p ''alpha_property'') = 0)"
definition HasGetNoEotfUsablePlanes :: "env \<Rightarrow> gptr list \<Rightarrow> vop \<Rightarrow> bool" where
  "HasGetNoEotfUsablePlanes = has_usable_plane (\<lambda>p. \<not> b_hdr2sdr p)"

definition HasPlanesWithSize :: "env \<Rightarrow> int \<Rightarrow> gptr list \<Rightarrow> vop \<Rightarrow> bool" where
  "HasPlanesWithSize E layer_size plane_groups s \<longleftrightarrow>
     (\<exists>g \<in> set plane_groups. crtc_bit E AND possible_crtcs (gheap s g) \<noteq> 0 \<and>
        \<not> gUse (gheap s g) \<and> length (planes (gheap s g)) = to_size layer_size)"

definition GetPlaneGroups :: "env \<Rightarrow> vop \<Rightarrow> int \<times> gptr list" where
  "GetPlaneGroups E s =
     (let out = [g \<leftarrow> all_plane_groups E. acquire (crtc_bit E) (gheap s g)]
      in (if 0 < length out then 0 else -1, out))"

section \<open>What matching changes\<close>

text \<open>
  \<open>grows s s'\<close>: from \<open>s\<close> to \<open>s'\<close> the policy frame holds, no layer is renumbered, the
  composition is extended at its end, and no plane is released.
\<close>

definition grows :: "vop \<Rightarrow> vop \<Rightarrow> bool" where
  "grows s s' \<longleftrightarrow>
     frame s s' \<and> (\<forall>p. iDrmZpos (heap s' p) = iDrmZpos (heap s p)) \<and>
     prefix (comp s) (comp s') \<and>
     (\<forall>pp. snd pp < length (planes (gheap s (fst pp))) \<longrightarrow>
        b_use (plane_at (gheap s) pp) \<longrightarrow> b_use (plane_at (gheap s') pp))"

lemma grows_refl [simp, frame_rules]: "grows s s"
  by (simp add: grows_def)

lemma frame_length: "frame s s' \<Longrightarrow> length (planes (gheap s' g)) = length (planes (gheap s g))"
  by (auto simp: frame_def dest: gheap_frameD same_group_fields)

lemma grows_trans [trans]: "grows s t \<Longrightarrow> grows t u \<Longrightarrow> grows s u"
proof -
  assume a: "grows s t" and b: "grows t u"
  have "frame s u" using a b frame_trans unfolding grows_def by blast
  moreover have "prefix (comp s) (comp u)"
    using a b prefix_order.trans unfolding grows_def by blast
  moreover have "b_use (plane_at (gheap u) pp)"
    if "snd pp < length (planes (gheap s (fst pp)))" "b_use (plane_at (gheap s) pp)" for pp
  proof -
    have "b_use (plane_at (gheap t) pp)" using a that unfolding grows_def by blast
    moreover have "snd pp < length (planes (gheap t (fst pp)))"
      using a that frame_length [of s t] by (simp add: grows_def)
    ultimately show ?thesis using b unfolding grows_def by blast
  qed
  ultimately show ?thesis using a b by (simp add: grows_def)
qed

lemma grows_frame [simp]: "grows s t \<Longrightarrow> frame s t"
  by (simp add: grows_def)

lemma grows_heap:
  "same_layer (heap s lp) (f (heap s lp)) \<Longrightarrow> iDrmZpos (f (heap s lp)) = iDrmZpos (heap s lp) \<Longrightarrow>
   grows s (s\<lparr> heap := upd lp f (heap s) \<rparr>)"
  by (simp add: grows_def frame_def heap_frame_upd)

lemma grows_gUse: "grows s (s\<lparr> gheap := (gheap s)(g := gheap s g\<lparr> gUse := True \<rparr>) \<rparr>)"
  by (simp add: grows_def frame_def gheap_frame_gUse plane_at_def)

text \<open>Only the cluster part of the state context is touched.\<close>

definition clu_only :: "sta_ctx \<Rightarrow> sta_ctx \<Rightarrow> bool" where
  "clu_only c c' \<longleftrightarrow> c' = c\<lparr> clu := clu c' \<rparr>"

lemma clu_only_refl [simp]: "clu_only c c"
  by (simp add: clu_only_def)

lemma clu_only_trans: "clu_only c d \<Longrightarrow> clu_only d e \<Longrightarrow> clu_only c e"
  unfolding clu_only_def by (cases c; cases d; cases e) simp

lemma clu_only_ops [simp]:
  "clu_only c (init_cluster p c)" "clu_only c (keep_continuous p l z c)"
  "clu_only c (disable_two_win i c)" "clu_only c (after_match K p l z c)"
  by (simp_all add: clu_only_def init_cluster_def keep_continuous_def disable_two_win_def
      after_match_def split: option.split)

lemma clu_only_win1_limits: "clu_only c (snd (win1_limits p l is c))"
  by (induction p l "is" c rule: win1_limits.induct) auto

lemma clu_only_fields:
  assumes "clu_only c c'"
  shows "setHwcPolicy c' = setHwcPolicy c" "b8kMode c' = b8kMode c"
    "b4k120pMode c' = b4k120pMode c" "iDisplayWidth c' = iDisplayWidth c"
    "iDisplayHeight c' = iDisplayHeight c" "bMultiAreaEnable c' = bMultiAreaEnable c"
    "bMultiAreaScaleEnable c' = bMultiAreaScaleEnable c" "bUseSwPq c' = bUseSwPq c"
    "iVopMaxOverlay4KPlane c' = iVopMaxOverlay4KPlane c" "fbUseAfbc c' = fbUseAfbc c"
    "iDisplayId c' = iDisplayId c" "last_accelerate_status c' = last_accelerate_status c"
proof -
  have c: "c' = c\<lparr> clu := clu c' \<rparr>" using assms by (simp add: clu_only_def)
  show "setHwcPolicy c' = setHwcPolicy c" "b8kMode c' = b8kMode c"
    "b4k120pMode c' = b4k120pMode c" "iDisplayWidth c' = iDisplayWidth c"
    "iDisplayHeight c' = iDisplayHeight c" "bMultiAreaEnable c' = bMultiAreaEnable c"
    "bMultiAreaScaleEnable c' = bMultiAreaScaleEnable c" "bUseSwPq c' = bUseSwPq c"
    "iVopMaxOverlay4KPlane c' = iVopMaxOverlay4KPlane c" "fbUseAfbc c' = fbUseAfbc c"
    "iDisplayId c' = iDisplayId c" "last_accelerate_status c' = last_accelerate_status c"
    by (subst c, simp)+
qed

lemma grows_clu: "clu_only (st s) c \<Longrightarrow> grows s (s\<lparr> st := c \<rparr>)"
  by (simp add: grows_def frame_def clu_only_fields)

lemma grows_swpq: "grows s (swpq_afbc lp s)"
  by (auto simp: swpq_afbc_def same_layer_def intro!: grows_heap)

lemma grows_format: "grows s (snd (match_format K E lp p s))"
  by (auto simp: match_format_def Let_def same_layer_def intro!: grows_heap)

lemma plane_at_set_use:
  "snd pp < length (planes (gs (fst pp))) \<Longrightarrow> snd qq < length (planes (gs (fst qq))) \<Longrightarrow>
   plane_at (set_use b qq gs) pp =
     (if pp = qq then (plane_at gs pp)\<lparr> b_use := b \<rparr> else plane_at gs pp)"
  by (auto simp: plane_at_def set_use_def Let_def nth_list_update prod_eq_iff)

lemma planes_set_use [simp]: "length (planes (set_use b qq gs g)) = length (planes (gs g))"
  by (simp add: set_use_def Let_def)

lemma grows_commit:
  assumes "snd pp < length (planes (gheap s (fst pp)))"
  shows "grows s (commit_match K z lp pp s)"
proof -
  have "clu_only (st s) (after_match K (plane_at (gheap s) pp) (heap s lp) z (st s))" by simp
  with assms show ?thesis
    by (simp add: commit_match_def Let_def grows_def frame_def gheap_frame_set_use
        heap_frame_upd same_layer_def clu_only_fields plane_at_set_use)
qed

section \<open>One step of the matching\<close>

text \<open>
  What a plane must satisfy for a layer, as far as it does not depend on the window's
  neighbours: sizes, scaling, HDR, pixel format and rotation.  The FB target may change between
  compressed and not, so for it the last two hold for one of the two; the mark it ends with need
  not be the one it was matched with, when it was tried again later.
\<close>

definition fits :: "sdk \<Rightarrow> env \<Rightarrow> sta_ctx \<Rightarrow> DrmHwcLayer \<Rightarrow> DrmPlane \<Rightarrow> bool" where
  "fits K E c l p \<longleftrightarrow>
     size_ok c l p \<and> scale_ok c l p \<and> hdr_ok E l \<and>
     (\<exists>a. (bFbTarget l \<or> a = bAfbcd l) \<and> is_support_format K p (uFourccFormat l) a False \<and>
        transform_ok K c (l\<lparr> bAfbcd := a \<rparr>) p)"

text \<open>A plane the CRTC can use.\<close>

definition usable :: "env \<Rightarrow> gptr list \<Rightarrow> gheap \<Rightarrow> pptr \<Rightarrow> bool" where
  "usable E plane_groups gs pp \<longleftrightarrow>
     fst pp \<in> set plane_groups \<and> snd pp < length (planes (gs (fst pp))) \<and>
     \<not> gReserved (gs (fst pp)) \<and> crtc_bit E AND current_crtc (gs (fst pp)) \<noteq> 0 \<and>
     GetCrtcSupported (pipe E) (plane_at gs pp)"

lemma frame_plane:
  "frame s s' \<Longrightarrow> snd pp < length (planes (gheap s (fst pp))) \<Longrightarrow>
   same_plane (plane_at (gheap s) pp) (plane_at (gheap s') pp)"
  by (auto simp: frame_def plane_at_def dest: gheap_frameD same_group_plane)

lemma usable_frame: "frame s s' \<Longrightarrow> usable E pgs (gheap s) pp \<Longrightarrow> usable E pgs (gheap s') pp"
proof -
  assume f: "frame s s'" and u: "usable E pgs (gheap s) pp"
  have "same_group (gheap s (fst pp)) (gheap s' (fst pp))"
    using f by (auto simp: frame_def dest: gheap_frameD)
  moreover have "same_plane (plane_at (gheap s) pp) (plane_at (gheap s') pp)"
    using f u by (auto simp: usable_def intro: frame_plane)
  ultimately show ?thesis
    using u by (simp add: usable_def same_group_fields GetCrtcSupported_def same_plane_fields)
qed

lemma checks_cong:
  assumes "same_plane p p'"
  shows "is_support_scale p' = is_support_scale p"
    "is_support_scale_8k p' = is_support_scale_8k p"
    "is_support_input p' = is_support_input p" "is_support_output p' = is_support_output p"
    "is_support_input_8k p' = is_support_input_8k p"
    "is_support_output_8k p' = is_support_output_8k p"
    "is_support_transform p' = is_support_transform p"
    "is_support_transform_8k p' = is_support_transform_8k p"
    "is_support_format K p' = is_support_format K p"
  by (intro ext, simp only: is_support_scale_def is_support_scale_8k_def above_min_def
      strictly_above_min_def is_support_input_def is_support_output_def
      is_support_input_8k_def is_support_output_8k_def is_support_transform_def
      is_support_transform_8k_def is_support_format_def has_format_def
      same_plane_fields [OF assms])+

lemma sizes_cong:
  assumes "same_layer l l'"
  shows "input_w l' = input_w l" "input_h l' = input_h l" "output_w l' = output_w l"
    "output_h l' = output_h l"
  by (simp_all only: input_w_def input_h_def output_w_def output_h_def
      same_layer_fields [OF assms])

lemma fits_cong:
  assumes l: "same_layer l l'" and p: "same_plane p p'"
    and c: "b8kMode c' = b8kMode c" "b4k120pMode c' = b4k120pMode c"
    "iDisplayWidth c' = iDisplayWidth c" "iDisplayHeight c' = iDisplayHeight c"
    and f: "fits K E c l p"
  shows "fits K E c' l' p'"
proof -
  note lf = same_layer_fields [OF l] sizes_cong [OF l] and pf = same_plane_fields [OF p]
  have nf: "bFbTarget l \<or> bAfbcd l' = bAfbcd l" using l by (auto simp: same_layer_def)
  have sz: "size_ok c' l' p' = size_ok c l p"
    by (simp only: size_ok_def checks_cong [OF p] lf c)
  have sl: "scale_ok c' l' p' = scale_ok c l p"
    by (simp only: scale_ok_def center_scale_def Let_def checks_cong [OF p] lf c)
  have lu: "bSidebandStreamLayer (l'\<lparr> bAfbcd := a \<rparr>) = bSidebandStreamLayer (l\<lparr> bAfbcd := a \<rparr>)"
    "transform (l'\<lparr> bAfbcd := a \<rparr>) = transform (l\<lparr> bAfbcd := a \<rparr>)" "iStride (l'\<lparr> bAfbcd := a \<rparr>) = iStride (l\<lparr> bAfbcd := a \<rparr>)"
    "input_h (l'\<lparr> bAfbcd := a \<rparr>) = input_h (l\<lparr> bAfbcd := a \<rparr>)" "bAfbcd (l'\<lparr> bAfbcd := a \<rparr>) = bAfbcd (l\<lparr> bAfbcd := a \<rparr>)" for a
    using lf by (simp_all add: input_h_def)
  have tr: "transform_ok K c' (l'\<lparr> bAfbcd := a \<rparr>) p' = transform_ok K c (l\<lparr> bAfbcd := a \<rparr>) p" for a
    by (simp only: transform_ok_def checks_cong [OF p] lu pf c)
  have hd: "hdr_ok E l' = hdr_ok E l" by (simp only: hdr_ok_def lf)
  show ?thesis
    using f nf tr unfolding fits_def sz sl hd checks_cong [OF p] lf by auto
qed

lemma fits_frame:
  "frame s s' \<Longrightarrow> snd pp < length (planes (gheap s (fst pp))) \<Longrightarrow>
   fits K E (st s) (heap s q) (plane_at (gheap s) pp) \<Longrightarrow>
   fits K E (st s') (heap s' q) (plane_at (gheap s') pp)"
  by (rule fits_cong [OF _ frame_plane]) (auto simp: frame_def dest: heap_frameD)

section \<open>The composition stays sound\<close>

definition entry_ok ::
  "sdk \<Rightarrow> env \<Rightarrow> gptr list \<Rightarrow> lptr list \<Rightarrow> vop \<Rightarrow> comp_plane \<Rightarrow> bool" where
  "entry_ok K E plane_groups layers s e \<longleftrightarrow>
     cp_type e = kLayer \<and> usable E plane_groups (gheap s) (cp_plane e) \<and>
     b_use (plane_at (gheap s) (cp_plane e)) \<and>
     (\<exists>q \<in> set layers. cp_source e = iDrmZpos (heap s q) \<and>
        fits K E (st s) (heap s q) (plane_at (gheap s) (cp_plane e)))"

definition comp_ok :: "sdk \<Rightarrow> env \<Rightarrow> gptr list \<Rightarrow> lptr list \<Rightarrow> vop \<Rightarrow> bool" where
  "comp_ok K E plane_groups layers s \<longleftrightarrow>
     distinct (List.map cp_plane (comp s)) \<and>
     (\<forall>e \<in> set (comp s). entry_ok K E plane_groups layers s e)"

lemma entry_ok_grows:
  assumes g: "grows s s'" and e: "entry_ok K E pgs layers s e"
  shows "entry_ok K E pgs layers s' e"
proof -
  have f: "frame s s'" using g by simp
  have l: "snd (cp_plane e) < length (planes (gheap s (fst (cp_plane e))))"
    using e by (simp add: entry_ok_def usable_def)
  have "b_use (plane_at (gheap s') (cp_plane e))"
    using g l e unfolding grows_def entry_ok_def by blast
  then show ?thesis
    using e g usable_frame [OF f] fits_frame [OF f l]
    by (auto simp: entry_ok_def grows_def)
qed

lemma comp_ok_grows:
  "grows s s' \<Longrightarrow> comp s' = comp s \<Longrightarrow> comp_ok K E pgs layers s \<Longrightarrow> comp_ok K E pgs layers s'"
  by (simp add: comp_ok_def entry_ok_grows)

text \<open>The outcome of trying planes for the layer \<open>lp\<close>.\<close>

definition tried ::
  "sdk \<Rightarrow> env \<Rightarrow> gptr list \<Rightarrow> lptr list \<Rightarrow> int \<Rightarrow> lptr \<Rightarrow> bool \<Rightarrow> vop \<Rightarrow> vop \<Rightarrow> bool" where
  "tried K E pgs layers zpos lp m s s' \<longleftrightarrow>
     grows s s' \<and> comp_ok K E pgs layers s' \<and>
     (\<forall>q. q \<noteq> lp \<longrightarrow> bMatch (heap s' q) = bMatch (heap s q)) \<and>
     (if m then bMatch (heap s' lp) \<and>
        (\<exists>pp. comp s' = comp s @ [\<lparr> cp_type = kLayer, cp_plane = pp,
                cp_source = iDrmZpos (heap s lp), cp_zpos = zpos \<rparr>])
      else comp s' = comp s \<and> bMatch (heap s' lp) = bMatch (heap s lp))"

lemma tried_fail:
  assumes "grows s s'" "comp s' = comp s" "\<forall>q. bMatch (heap s' q) = bMatch (heap s q)"
    and "comp_ok K E pgs layers s"
  shows "tried K E pgs layers zpos lp False s s'"
  using assms comp_ok_grows by (simp add: tried_def)

lemma tried_trans:
  assumes "tried K E pgs layers z lp False s t" "tried K E pgs layers z lp m t u"
  shows "tried K E pgs layers z lp m s u"
  using assms grows_trans [of s t u] by (auto simp: tried_def grows_def)

lemma comp_same [simp]:
  "comp (swpq_afbc lp s) = comp s" "gheap (swpq_afbc lp s) = gheap s"
  "st (swpq_afbc lp s) = st s" "bMatch (heap (swpq_afbc lp s) q) = bMatch (heap s q)"
  by (simp_all add: swpq_afbc_def)

lemma match_format_same:
  assumes "match_format K E lp p s = (b, s')"
  shows "grows s s'" "comp s' = comp s" "gheap s' = gheap s" "st s' = st s"
    "bMatch (heap s' q) = bMatch (heap s q)"
    "b \<Longrightarrow> is_support_format K p (uFourccFormat (heap s' lp)) (bAfbcd (heap s' lp)) False"
  using assms grows_format [of s K E lp p]
  by (auto simp: match_format_def Let_def split: if_splits)

lemma commit_tried:
  assumes l: "snd pp < length (planes (gheap s (fst pp)))"
    and u: "usable E pgs (gheap s) pp" and fr: "\<not> b_use (plane_at (gheap s) pp)"
    and ok: "comp_ok K E pgs layers s" and lp: "lp \<in> set layers"
    and fit: "fits K E (st s) (heap s lp) (plane_at (gheap s) pp)"
  shows "tried K E pgs layers zpos lp True s (commit_match K zpos lp pp s)"
proof -
  let ?t = "commit_match K zpos lp pp s"
  let ?e = "\<lparr> cp_type = kLayer, cp_plane = pp, cp_source = iDrmZpos (heap s lp),
              cp_zpos = zpos \<rparr>"
  have g: "grows s ?t" by (rule grows_commit [OF l])
  have c: "comp ?t = comp s @ [?e]" by (simp add: commit_match_def Let_def)
  have use: "b_use (plane_at (gheap ?t) pp)"
    using l by (simp add: commit_match_def Let_def plane_at_set_use)
  have "entry_ok K E pgs layers ?t ?e"
    using usable_frame [OF grows_frame [OF g] u] use lp fits_frame [OF grows_frame [OF g] l fit] g
    by (auto simp: entry_ok_def grows_def)
  moreover have "pp \<notin> cp_plane ` set (comp s)"
    using ok fr by (auto simp: comp_ok_def entry_ok_def)
  ultimately have "comp_ok K E pgs layers ?t"
    using ok entry_ok_grows [OF g] by (auto simp: comp_ok_def c)
  with g c show ?thesis by (auto simp: tried_def commit_match_def Let_def)
qed

lemma try_plane_tried:
  assumes t: "try_plane K E zpos lp pp (a, s) = (m, a', s')"
    and l: "snd pp < length (planes (gheap s (fst pp)))" and g: "fst pp \<in> set pgs"
    and r: "\<not> gReserved (gheap s (fst pp))" "crtc_bit E AND current_crtc (gheap s (fst pp)) \<noteq> 0"
    and lp: "lp \<in> set layers" and ok: "comp_ok K E pgs layers s"
  shows "tried K E pgs layers zpos lp m s s'"
proof (cases "b_use (plane_at (gheap s) pp) \<or> \<not> GetCrtcSupported (pipe E) (plane_at (gheap s) pp)")
  case True
  with t ok show ?thesis by (auto simp: try_plane_def Let_def intro!: tried_fail)
next
  case False
  let ?p = "plane_at (gheap s) pp"
  obtain wok c where w: "win1_limits ?p (heap s lp) [0, 1, 2, 3]
      (keep_continuous ?p (heap s lp) zpos (init_cluster ?p (st s))) = (wok, c)" by fastforce
  have cl: "clu_only (st s) c"
    using clu_only_win1_limits [of "keep_continuous ?p (heap s lp) zpos (init_cluster ?p (st s))"]
      w by (metis clu_only_ops(1,2) clu_only_trans snd_conv)
  obtain fok s2 where f: "match_format K E lp ?p (swpq_afbc lp (s\<lparr> st := c \<rparr>)) = (fok, s2)"
    by fastforce
  note fs = match_format_same [OF f]
  have g2: "grows s s2"
    by (rule grows_trans [OF grows_clu [OF cl]], rule grows_trans [OF grows_swpq fs(1)])
  have c2: "comp s2 = comp s" "gheap s2 = gheap s" "\<forall>q. bMatch (heap s2 q) = bMatch (heap s q)"
    using fs(2,3,5) by auto
  have ok2: "comp_ok K E pgs layers s2" by (rule comp_ok_grows [OF g2 c2(1) ok])
  have z: "iDrmZpos (heap s2 lp) = iDrmZpos (heap s lp)" using g2 by (simp add: grows_def)
  have eq: "(m, a', s') =
      (if \<not> wok then (False, a, s\<lparr> st := c \<rparr>)
       else if \<not> fok then (False, a, s2)
       else if \<not> (size_ok (st s2) (heap s2 lp) ?p \<and> scale_ok (st s2) (heap s2 lp) ?p)
       then (False, a, s2)
       else if \<not> (alpha_ok (next_alpha (heap s2 lp) a) ?p \<and> hdr_ok E (heap s2 lp) \<and>
                  transform_ok K (st s2) (heap s2 lp) ?p)
       then (False, next_alpha (heap s2 lp) a, s2)
       else (True, next_alpha (heap s2 lp) a, commit_match K zpos lp pp s2))"
    unfolding t [symmetric] try_plane_def Let_def prod.case w f if_not_P [OF False] ..
  show ?thesis
  proof (cases m)
    case False
    then have "s' = s\<lparr> st := c \<rparr> \<or> s' = s2" using eq by (auto split: if_splits)
    then have "grows s s'" "comp s' = comp s" "\<forall>q. bMatch (heap s' q) = bMatch (heap s q)"
      using g2 c2 grows_clu [OF cl] by fastforce+
    with False ok show ?thesis by (simp add: tried_fail)
  next
    case True
    then have s': "s' = commit_match K zpos lp pp s2" and fok: "fok"
      and chk: "size_ok (st s2) (heap s2 lp) ?p" "scale_ok (st s2) (heap s2 lp) ?p"
        "hdr_ok E (heap s2 lp)" "transform_ok K (st s2) (heap s2 lp) ?p"
      using eq by (auto split: if_splits)
    have u: "usable E pgs (gheap s2) pp"
      using \<open>\<not> (_ \<or> _)\<close> l g r by (simp add: usable_def c2)
    have "fits K E (st s2) (heap s2 lp) (plane_at (gheap s2) pp)"
      using chk fs(6) [OF fok] by (auto simp: fits_def c2 intro!: exI [of _ "bAfbcd (heap s2 lp)"])
    then have "tried K E pgs layers zpos lp True s2 s'"
      unfolding s' using l False \<open>\<not> (_ \<or> _)\<close> u ok2 lp by (intro commit_tried) (auto simp: c2)
    with True g2 c2 z show ?thesis
      using grows_trans [OF g2] by (auto simp: tried_def)
  qed
qed

definition group_ready :: "env \<Rightarrow> gptr list \<Rightarrow> vop \<Rightarrow> gptr \<Rightarrow> bool" where
  "group_ready E pgs s g \<longleftrightarrow>
     g \<in> set pgs \<and> \<not> gReserved (gheap s g) \<and> crtc_bit E AND current_crtc (gheap s g) \<noteq> 0"

lemma group_ready_frame: "frame s s' \<Longrightarrow> group_ready E pgs s g \<Longrightarrow> group_ready E pgs s' g"
  using same_group_fields [of "gheap s g" "gheap s' g"]
  by (auto simp: group_ready_def frame_def dest: gheap_frameD [of _ _ g])

lemma tried_grows: "tried K E pgs layers z lp m s s' \<Longrightarrow> grows s s'"
  by (simp add: tried_def)

lemma tried_comp_ok: "tried K E pgs layers z lp m s s' \<Longrightarrow> comp_ok K E pgs layers s'"
  by (simp add: tried_def)

lemma try_planes_tried:
  assumes "try_planes K E zpos lp pps (a, s) = (m, a', s')"
    and "\<forall>pp \<in> set pps. fst pp = g \<and> snd pp < length (planes (gheap s g))"
    and "group_ready E pgs s g" and lp: "lp \<in> set layers" and "comp_ok K E pgs layers s"
  shows "tried K E pgs layers zpos lp m s s'"
  using assms(1,2,3,5)
proof (induction pps arbitrary: a s)
  case Nil
  then show ?case by (auto intro!: tried_fail)
next
  case (Cons pp pps)
  obtain m1 a1 s1 where t: "try_plane K E zpos lp pp (a, s) = (m1, a1, s1)"
    by (metis prod_cases3)
  have t1: "tried K E pgs layers zpos lp m1 s s1"
    by (rule try_plane_tried [OF t]) (use Cons.prems lp in \<open>auto simp: group_ready_def\<close>)
  show ?case
  proof (cases m1)
    case True
    with Cons.prems(1) t t1 show ?thesis by simp
  next
    case False
    note f = grows_frame [OF tried_grows [OF t1]]
    have "tried K E pgs layers zpos lp m s1 s'"
    proof (rule Cons.IH)
      show "try_planes K E zpos lp pps (a1, s1) = (m, a', s')" using Cons.prems(1) t False by simp
      show "\<forall>pp \<in> set pps. fst pp = g \<and> snd pp < length (planes (gheap s1 g))"
        using Cons.prems(2) frame_length [OF f] by simp
    qed (use Cons.prems(3) group_ready_frame [OF f] tried_comp_ok [OF t1] in auto)
    with t1 False show ?thesis by (simp add: tried_trans)
  qed
qed

text \<open>The outcome of trying the group \<open>lps\<close> of layers, in one or several plane groups.\<close>

definition entries_for :: "lptr list \<Rightarrow> int \<Rightarrow> vop \<Rightarrow> comp_plane list \<Rightarrow> bool" where
  "entries_for lps zpos s es \<longleftrightarrow>
     (\<forall>e \<in> set es. cp_zpos e = zpos \<and> cp_source e \<in> (\<lambda>p. iDrmZpos (heap s p)) ` set lps)"

definition placed :: "lptr \<Rightarrow> int \<Rightarrow> vop \<Rightarrow> bool" where
  "placed p zpos s \<longleftrightarrow>
     bMatch (heap s p) \<and>
     (\<exists>e \<in> set (comp s). cp_source e = iDrmZpos (heap s p) \<and> cp_zpos e = zpos)"

definition worked ::
  "sdk \<Rightarrow> env \<Rightarrow> gptr list \<Rightarrow> lptr list \<Rightarrow> int \<Rightarrow> lptr list \<Rightarrow> vop \<Rightarrow> vop \<Rightarrow> bool" where
  "worked K E pgs layers zpos lps s s' \<longleftrightarrow>
     grows s s' \<and> comp_ok K E pgs layers s' \<and>
     (\<forall>q. q \<notin> set lps \<longrightarrow> bMatch (heap s' q) = bMatch (heap s q)) \<and>
     (\<exists>es. comp s' = comp s @ es \<and> entries_for lps zpos s es)"

lemma entries_for_grows: "grows s t \<Longrightarrow> entries_for lps z t es = entries_for lps z s es"
  by (simp add: entries_for_def grows_def)

lemma worked_trans:
  assumes a: "worked K E pgs layers z lps s t" and b: "worked K E pgs layers z lps t u"
  shows "worked K E pgs layers z lps s u"
proof -
  obtain es fs where "comp t = comp s @ es" "entries_for lps z s es"
    "comp u = comp t @ fs" "entries_for lps z t fs"
    using a b by (auto simp: worked_def)
  then have "comp u = comp s @ (es @ fs)" "entries_for lps z s (es @ fs)"
    using a entries_for_grows [of s t] by (auto simp: worked_def entries_for_def)
  moreover have "grows s u" using a b grows_trans unfolding worked_def by blast
  ultimately show ?thesis using a b by (auto simp: worked_def)
qed

lemma worked_mono: "worked K E pgs layers z lps s t \<Longrightarrow> set lps \<subseteq> set lps' \<Longrightarrow>
    worked K E pgs layers z lps' s t"
  unfolding worked_def entries_for_def by blast

lemma placed_grows:
  "grows s t \<Longrightarrow> bMatch (heap t p) \<Longrightarrow> placed p z s \<Longrightarrow> placed p z t"
  using set_mono_prefix [of "comp s" "comp t"] by (auto simp: placed_def grows_def)

lemma worked_refl: "comp_ok K E pgs layers s \<Longrightarrow> worked K E pgs layers z lps s s"
  by (simp add: worked_def entries_for_def)

lemma tried_worked: "tried K E pgs layers z lp m s s' \<Longrightarrow> worked K E pgs layers z [lp] s s'"
  by (auto simp: tried_def worked_def entries_for_def split: if_splits)

lemma tried_placed: "tried K E pgs layers z lp True s s' \<Longrightarrow> placed lp z s'"
  by (auto simp: tried_def placed_def grows_def)

lemma unmatch_worked:
  assumes "comp_ok K E pgs layers s"
  shows "worked K E pgs layers z [lp] s
           (s\<lparr> heap := upd lp (bMatch_update (\<lambda>_. False)) (heap s) \<rparr>)" (is "worked _ _ _ _ _ _ _ ?t")
proof -
  have g: "grows s ?t" by (rule grows_heap) (simp_all add: same_layer_def)
  have "comp_ok K E pgs layers ?t" by (rule comp_ok_grows [OF g _ assms]) simp
  with g show ?thesis by (simp add: worked_def entries_for_def)
qed

lemma match_layers_worked:
  assumes "match_layers K E mb zpos g lps (cnt, a, s) = (cnt', a', s')"
    and "group_ready E pgs s g" and "set lps \<subseteq> set layers" and "comp_ok K E pgs layers s"
  shows "worked K E pgs layers zpos lps s s' \<and> cnt' \<le> cnt + length lps \<and>
     (distinct lps \<and> cnt' = cnt + length lps \<longrightarrow> (\<forall>p \<in> set lps. placed p zpos s'))"
  using assms
proof (induction lps arbitrary: cnt a s)
  case Nil
  then show ?case by (simp add: worked_refl)
next
  case (Cons lp lps)
  let ?s0 = "s\<lparr> heap := upd lp (bMatch_update (\<lambda>_. False)) (heap s) \<rparr>"
  have w0: "worked K E pgs layers zpos [lp] s ?s0" using Cons.prems(4) by (rule unmatch_worked)
  obtain m a1 s1 where m: "worked K E pgs layers zpos [lp] ?s0 s1" "m \<longrightarrow> placed lp zpos s1"
      "match_layers K E mb zpos g lps (if m then Suc cnt else cnt, a1, s1) = (cnt', a', s')"
  proof (cases "best_type_mismatch mb (gheap ?s0 g) (heap ?s0 lp)")
    case True
    with Cons.prems(1) w0 show ?thesis
      by (intro that [of ?s0 False a]) (simp_all add: worked_refl worked_def [of _ _ _ _ _ _ s])
  next
    case False
    obtain m a1 s1 where t: "try_planes K E zpos lp (group_planes g ?s0) (a, ?s0) = (m, a1, s1)"
      by (metis prod_cases3)
    have "tried K E pgs layers zpos lp m ?s0 s1"
      by (rule try_planes_tried [OF t, of g])
        (use Cons.prems w0 in \<open>auto simp: group_planes_def group_ready_def worked_def\<close>)
    then show ?thesis
      using False Cons.prems(1) t tried_placed tried_worked
      by (intro that [of s1 m a1]) (auto simp: Let_def split: if_splits)
  qed
  have w1: "worked K E pgs layers zpos [lp] s s1" by (rule worked_trans [OF w0 m(1)])
  have ih: "worked K E pgs layers zpos lps s1 s' \<and>
      cnt' \<le> (if m then Suc cnt else cnt) + length lps \<and>
      (distinct lps \<and> cnt' = (if m then Suc cnt else cnt) + length lps \<longrightarrow>
        (\<forall>p \<in> set lps. placed p zpos s'))"
    by (rule Cons.IH [OF m(3)])
      (use Cons.prems w1 group_ready_frame [of s s1] in \<open>auto simp: worked_def\<close>)
  have "worked K E pgs layers zpos (lp # lps) s s'"
    by (rule worked_trans [OF worked_mono [OF w1] worked_mono]) (use ih in auto)
  moreover have "placed lp zpos s'" if "distinct (lp # lps)" "cnt' = cnt + length (lp # lps)"
  proof -
    have "m" using ih that(2) by (auto split: if_splits)
    then have "placed lp zpos s1" using m(2) by simp
    moreover have "bMatch (heap s' lp) = bMatch (heap s1 lp)" "grows s1 s'"
      using ih that(1) by (auto simp: worked_def)
    ultimately show ?thesis using placed_grows by (auto simp: placed_def)
  qed
  ultimately show ?case using ih by (auto split: if_splits)
qed

lemma match_groups_worked:
  assumes "match_groups K E mb zpos lps gs (a, s) = (ret, s')"
    and "set gs \<subseteq> set pgs" and "set lps \<subseteq> set layers" and "comp_ok K E pgs layers s"
  shows "worked K E pgs layers zpos lps s s' \<and> ret \<in> {0, -1} \<and>
     (distinct lps \<and> ret = 0 \<longrightarrow> (\<forall>p \<in> set lps. placed p zpos s'))"
  using assms
proof (induction gs arbitrary: a s)
  case Nil
  then show ?case by (simp add: worked_refl)
next
  case (Cons g gs)
  show ?case
  proof (cases "group_open E (length lps) (gheap s g)")
    case False
    then have m: "match_groups K E mb zpos lps gs (a, s) = (ret, s')" using Cons.prems(1) by simp
    have "set gs \<subseteq> set pgs" using Cons.prems(2) by simp
    from Cons.IH [OF m this Cons.prems(3,4)] show ?thesis .
  next
    case True
    obtain cnt a1 s1 where m: "match_layers K E mb zpos g lps (0, a, s) = (cnt, a1, s1)"
      by (metis prod_cases3)
    have w: "worked K E pgs layers zpos lps s s1 \<and> cnt \<le> 0 + length lps \<and>
        (distinct lps \<and> cnt = 0 + length lps \<longrightarrow> (\<forall>p \<in> set lps. placed p zpos s1))"
      by (rule match_layers_worked [OF m])
        (use Cons.prems True in \<open>auto simp: group_ready_def group_open_def\<close>)
    show ?thesis
    proof (cases "cnt = length lps")
      case full: True
      let ?t = "s1\<lparr> gheap := (gheap s1)(g := gheap s1 g\<lparr> gUse := True \<rparr>) \<rparr>"
      have r: "ret = 0" "s' = ?t" using Cons.prems(1) True m full by auto
      have g: "grows s1 ?t" by (rule grows_gUse)
      have "comp_ok K E pgs layers ?t"
        by (rule comp_ok_grows [OF g]) (use w in \<open>auto simp: worked_def\<close>)
      then have "worked K E pgs layers zpos lps s1 ?t"
        using g by (simp add: worked_def entries_for_def)
      then have "worked K E pgs layers zpos lps s ?t" using w worked_trans by blast
      moreover have "\<forall>p. placed p zpos ?t = placed p zpos s1" by (simp add: placed_def)
      ultimately show ?thesis using w r full by simp
    next
      case part: False
      have "worked K E pgs layers zpos lps s1 s' \<and> ret \<in> {0, -1} \<and>
         (distinct lps \<and> ret = 0 \<longrightarrow> (\<forall>p \<in> set lps. placed p zpos s'))"
        by (rule Cons.IH) (use Cons.prems True m part w in \<open>auto simp: worked_def\<close>)
      with w show ?thesis using worked_trans by blast
    qed
  qed
qed

section \<open>Reset\<close>

lemma reset_layer_idem: "reset_layer b (reset_layer b l) = reset_layer b l"
  by (simp add: reset_layer_def)

lemma reset_group_idem: "reset_group (reset_group g) = reset_group g"
  by (simp add: reset_group_def)

lemma reset_all_simps [simp]:
  "heap (reset_all layers pgs s) q =
     (if q \<in> set layers then reset_layer (fbUseAfbc (st s)) (heap s q) else heap s q)"
  "gheap (reset_all layers pgs s) g =
     (if g \<in> set pgs then reset_group (gheap s g) else gheap s g)"
  "request (reset_all layers pgs s) = request s" "support (reset_all layers pgs s) = support s"
  "st (reset_all layers pgs s) = st s" "comp (reset_all layers pgs s) = comp s"
  using fold_fun_upd_idem
      [of "reset_layer (fbUseAfbc (st s))" layers "heap s" q, OF reset_layer_idem]
    fold_fun_upd_idem [of reset_group pgs "gheap s" g, OF reset_group_idem]
  by (simp_all add: reset_all_def ResetPlaneGroups_def ResetLayer_def upd_def [abs_def])

lemma same_layer_reset: "same_layer l (reset_layer b l)"
  by (simp add: same_layer_def reset_layer_def)

lemma same_group_reset: "same_group g (reset_group g)"
  by (simp add: same_group_def reset_group_def list_all2_conv_all_nth same_plane_def)

lemma frame_reset_all: "frame s (reset_all layers pgs s)"
  by (simp add: frame_def heap_frame_def gheap_frame_def same_layer_reset same_group_reset)

lemma frame_comp: "frame s t \<Longrightarrow> frame s (t\<lparr> comp := c \<rparr>)"
  by (simp add: frame_def)

lemma frame_fail_match: "frame s (fail_match layers pgs s)"
  unfolding fail_match_def by (intro frame_comp frame_reset_all)

text \<open>What a failed match leaves: nothing is matched, every plane is free.\<close>

definition released :: "lptr list \<Rightarrow> gptr list \<Rightarrow> vop \<Rightarrow> bool" where
  "released layers plane_groups s \<longleftrightarrow>
     comp s = [] \<and> (\<forall>p \<in> set layers. \<not> bMatch (heap s p)) \<and>
     (\<forall>g \<in> set plane_groups. \<not> gUse (gheap s g) \<and>
        (\<forall>p \<in> set (planes (gheap s g)). \<not> b_use p))"

lemma released_fail_match: "released layers pgs (fail_match layers pgs s)"
  by (auto simp: released_def fail_match_def reset_layer_def reset_group_def)

lemma released_start: "released layers pgs ((reset_all layers pgs s)\<lparr> comp := [] \<rparr>)"
  using released_fail_match by (simp add: fail_match_def)

section \<open>\<open>MatchPlanes\<close>\<close>

text \<open>Every entry belongs to a layer of the group its \<open>zpos\<close> names.\<close>

definition entry_in :: "int \<Rightarrow> layer_map \<Rightarrow> vop \<Rightarrow> comp_plane \<Rightarrow> bool" where
  "entry_in z m s e \<longleftrightarrow>
     (\<exists>k < length m. cp_zpos e = z + int k \<and>
        cp_source e \<in> (\<lambda>p. iDrmZpos (heap s p)) ` set (snd (m ! k)))"

definition mapped ::
  "sdk \<Rightarrow> env \<Rightarrow> gptr list \<Rightarrow> lptr list \<Rightarrow> int \<Rightarrow> layer_map \<Rightarrow> vop \<Rightarrow> vop \<Rightarrow> bool" where
  "mapped K E pgs layers z m s s' \<longleftrightarrow>
     grows s s' \<and> comp_ok K E pgs layers s' \<and>
     (\<forall>q. q \<notin> set (concat (List.map snd m)) \<longrightarrow> bMatch (heap s' q) = bMatch (heap s q)) \<and>
     (\<forall>k < length m. \<forall>p \<in> set (snd (m ! k)). placed p (z + int k) s') \<and>
     (\<exists>es. comp s' = comp s @ es \<and> sorted (List.map cp_zpos es) \<and>
        (\<forall>e \<in> set es. entry_in z m s e))"

lemma mapped_Cons:
  assumes w: "worked K E pgs layers z lps s t" and p: "\<forall>p \<in> set lps. placed p z t"
    and m: "mapped K E pgs layers (z + 1) m t u"
    and d: "distinct (concat (List.map snd ((k0, lps) # m)))"
  shows "mapped K E pgs layers z ((k0, lps) # m) s u"
proof -
  obtain es where es: "comp t = comp s @ es" "entries_for lps z s es"
    using w by (auto simp: worked_def)
  obtain fs where fs: "comp u = comp t @ fs" "sorted (List.map cp_zpos fs)"
    "\<forall>e \<in> set fs. entry_in (z + 1) m t e"
    using m by (auto simp: mapped_def)
  have gst: "grows s t" and gtu: "grows t u" using w m by (auto simp: worked_def mapped_def)
  have ez: "cp_zpos e = z" "entry_in z ((k0, lps) # m) s e" if "e \<in> set es" for e
    using es(2) that by (auto simp: entries_for_def entry_in_def intro: exI [of _ 0])
  have fz: "z + 1 \<le> cp_zpos e" "entry_in z ((k0, lps) # m) s e" if "e \<in> set fs" for e
  proof -
    from fs(3) that obtain k where "k < length m" "cp_zpos e = (z + 1) + int k"
      "cp_source e \<in> (\<lambda>p. iDrmZpos (heap t p)) ` set (snd (m ! k))"
      by (auto simp: entry_in_def)
    then show "z + 1 \<le> cp_zpos e" "entry_in z ((k0, lps) # m) s e"
      using gst by (auto simp: entry_in_def grows_def intro!: exI [of _ "Suc k"])
  qed
  have "sorted (List.map cp_zpos (es @ fs))"
    using fs(2) ez(1) fz(1) by (fastforce simp: sorted_append sorted_wrt_map
        intro: sorted_wrt_true [THEN sorted_wrt_mono_rel [rotated]])
  moreover have "comp u = comp s @ (es @ fs)" using es fs by simp
  moreover have "\<forall>e \<in> set (es @ fs). entry_in z ((k0, lps) # m) s e" using ez fz by auto
  moreover have "placed p (z + int k) u"
    if "k < length ((k0, lps) # m)" "p \<in> set (snd (((k0, lps) # m) ! k))" for k p
  proof (cases k)
    case 0
    then have pl: "p \<in> set lps" "placed p z t" using that p by auto
    then have "p \<notin> set (concat (List.map snd m))" using d by auto
    then have "bMatch (heap u p)" using m pl(2) by (simp add: mapped_def placed_def)
    with placed_grows [OF gtu _ pl(2)] 0 show ?thesis by simp
  next
    case (Suc k')
    then show ?thesis using that m by (auto simp: mapped_def algebra_simps)
  qed
  moreover have "grows s u" by (rule grows_trans [OF gst gtu])
  ultimately show ?thesis using w m by (auto simp: mapped_def worked_def)
qed

lemma MatchPlane_worked:
  assumes "MatchPlane K E pgs lps z mb s = (ret, s')" "set lps \<subseteq> set layers"
    and "comp_ok K E pgs layers s"
  shows "worked K E pgs layers z lps s s' \<and> ret \<in> {0, -1} \<and>
     (distinct lps \<and> ret = 0 \<longrightarrow> (\<forall>p \<in> set lps. placed p z s'))"
  using match_groups_worked [OF assms(1) [unfolded MatchPlane_def] order_refl assms(2,3)] .

subsection \<open>What the loops over the map rely on\<close>

text \<open>
  \<open>MatchPlanes\<close> and \<open>MatchBestPlanes\<close> run the same loop over two ways of matching one group of
  layers.  The contract of such a matcher: it works on its own layers only, keeps the
  composition sound, returns \<open>0\<close> or \<open>-1\<close>, and with \<open>0\<close> has placed every layer of the group.
\<close>

definition marks_outside :: "lptr list \<Rightarrow> vop \<Rightarrow> vop \<Rightarrow> bool" where
  "marks_outside layers s t \<longleftrightarrow>
     (\<forall>q. q \<notin> set layers \<longrightarrow> bMatch (heap t q) = bMatch (heap s q))"

lemma marks_outside_trans:
  "marks_outside layers s t \<Longrightarrow> marks_outside layers t u \<Longrightarrow> marks_outside layers s u"
  by (simp add: marks_outside_def)

lemma marks_outside_reset:
  "marks_outside layers s (reset_all layers pgs s)"
  "marks_outside layers s (fail_match layers pgs s)"
  "marks_outside layers s ((reset_all layers pgs s)\<lparr> comp := c \<rparr>)"
  by (simp_all add: marks_outside_def fail_match_def)

locale group_matcher =
  fixes K :: sdk and E :: env and pgs :: "gptr list" and layers :: "lptr list"
    and M :: "lptr list \<Rightarrow> int \<Rightarrow> vop \<Rightarrow> int \<times> vop"
  assumes works: "M lps z s = (ret, t) \<Longrightarrow> set lps \<subseteq> set layers \<Longrightarrow> comp_ok K E pgs layers s \<Longrightarrow>
      worked K E pgs layers z lps s t"
    and returns: "M lps z s = (ret, t) \<Longrightarrow> set lps \<subseteq> set layers \<Longrightarrow> comp_ok K E pgs layers s \<Longrightarrow>
      ret \<in> {0, -1}"
    and places: "M lps z s = (0, t) \<Longrightarrow> set lps \<subseteq> set layers \<Longrightarrow> comp_ok K E pgs layers s \<Longrightarrow>
      distinct lps \<Longrightarrow> p \<in> set lps \<Longrightarrow> placed p z t"
begin

lemma step_frame:
  "M lps z s = (ret, t) \<Longrightarrow> set lps \<subseteq> set layers \<Longrightarrow> comp_ok K E pgs layers s \<Longrightarrow> frame s t"
  using works by (auto simp: worked_def)

lemma step_marks:
  assumes "M lps z s = (ret, t)" "set lps \<subseteq> set layers" "comp_ok K E pgs layers s"
  shows "marks_outside layers s t" "marks_outside layers s (fail_match layers pgs t)"
proof -
  show a: "marks_outside layers s t"
    using works [OF assms] assms(2) by (auto simp: worked_def marks_outside_def)
  show "marks_outside layers s (fail_match layers pgs t)"
    by (rule marks_outside_trans [OF a marks_outside_reset(2)])
qed

lemma step_comp_ok:
  "M lps z s = (ret, t) \<Longrightarrow> set lps \<subseteq> set layers \<Longrightarrow> comp_ok K E pgs layers s \<Longrightarrow>
   comp_ok K E pgs layers t"
  using works by (auto simp: worked_def)

lemma step_mapped:
  assumes "M lps z s = (0, t)" "comp_ok K E pgs layers s"
    and "set (concat (List.map snd ((k0, lps) # m))) \<subseteq> set layers"
    and "distinct (concat (List.map snd ((k0, lps) # m)))"
    and "mapped K E pgs layers (z + 1) m t u"
  shows "mapped K E pgs layers z ((k0, lps) # m) s u"
  by (rule mapped_Cons [OF works [OF assms(1)] _ assms(5,4)])
    (use assms places [OF assms(1)] in auto)

lemma step_fail:
  assumes "M lps z s = (ret, t)" "set lps \<subseteq> set layers" "comp_ok K E pgs layers s"
  shows "frame s (fail_match layers pgs t)" "released layers pgs (fail_match layers pgs t)"
    "frame s (reset_all layers pgs t)"
  using frame_trans [OF step_frame [OF assms] frame_fail_match]
    frame_trans [OF step_frame [OF assms] frame_reset_all] released_fail_match by blast+

end

interpretation any: group_matcher K E pgs layers "\<lambda>lps z s. MatchPlane K E pgs lps z False s"
  for K E pgs layers
  by unfold_locales (use MatchPlane_worked in blast)+

interpretation best: group_matcher K E pgs layers "\<lambda>lps z s. MatchPlane K E pgs lps z True s"
  for K E pgs layers
  by unfold_locales (use MatchPlane_worked in blast)+

lemma match_map_mapped:
  assumes "match_map K E layers pgs z tot m s = (ret, s')"
    and "set (concat (List.map snd m)) \<subseteq> set layers" "distinct (concat (List.map snd m))"
    and "comp_ok K E pgs layers s"
  shows "(ret = 0 \<and> mapped K E pgs layers z m s s') \<or>
         (ret = -1 \<and> frame s s' \<and> released layers pgs s' \<and> marks_outside layers s s')"
  using assms
proof (induction m arbitrary: z tot s)
  case Nil
  then show ?case by (simp add: mapped_def)
next
  case (Cons zl m)
  obtain k0 lps where zl: "zl = (k0, lps)" by fastforce
  obtain r s1 where m: "MatchPlane K E pgs lps z False s = (r, s1)" by fastforce
  have sub: "set lps \<subseteq> set layers" using Cons.prems(2) zl by auto
  note ok = Cons.prems(4)
  show ?case
  proof (cases "(ret, s') = (-1, fail_match layers pgs s1)")
    case True
    with any.step_fail [OF m sub ok] any.step_marks [OF m sub ok] show ?thesis by simp
  next
    case False
    then have r0: "r = 0" and
      nx: "\<exists>tot'. match_map K E layers pgs (z + 1) tot' m s1 = (ret, s')"
      using Cons.prems(1) m zl any.returns [OF m sub ok] by (auto simp: Let_def split: if_splits)
    from nx obtain tot' where nx': "match_map K E layers pgs (z + 1) tot' m s1 = (ret, s')" ..
    have "(ret = 0 \<and> mapped K E pgs layers (z + 1) m s1 s') \<or>
         (ret = -1 \<and> frame s1 s' \<and> released layers pgs s' \<and> marks_outside layers s1 s')"
      by (rule Cons.IH [OF nx']) (use Cons.prems zl any.step_comp_ok [OF m sub ok] in auto)
    then show ?thesis
    proof
      assume "ret = 0 \<and> mapped K E pgs layers (z + 1) m s1 s'"
      with any.step_mapped [OF m [unfolded r0] ok Cons.prems(2,3) [unfolded zl]] zl
      show ?thesis by simp
    next
      assume "ret = -1 \<and> frame s1 s' \<and> released layers pgs s' \<and> marks_outside layers s1 s'"
      with frame_trans [OF any.step_frame [OF m sub ok]] any.step_marks(1) [OF m sub ok]
      show ?thesis using marks_outside_trans by blast
    qed
  qed
qed

lemma match_best_map_mapped:
  assumes "match_best_map K E layers pgs z m s = (ret, s')"
    and "set (concat (List.map snd m)) \<subseteq> set layers" "distinct (concat (List.map snd m))"
    and "comp_ok K E pgs layers s"
  shows "(ret = 0 \<and> mapped K E pgs layers z m s s') \<or> (ret = -1 \<and> frame s s')"
  using assms
proof (induction m arbitrary: z s)
  case Nil
  then show ?case by (simp add: mapped_def)
next
  case (Cons zl m)
  obtain k0 lps where zl: "zl = (k0, lps)" by fastforce
  obtain r s1 where m: "MatchPlane K E pgs lps z True s = (r, s1)" by fastforce
  have sub: "set lps \<subseteq> set layers" using Cons.prems(2) zl by auto
  note ok = Cons.prems(4)
  show ?case
  proof (cases "r = 0")
    case False
    with Cons.prems(1) m zl best.returns [OF m sub ok] best.step_fail(3) [OF m sub ok]
    show ?thesis by auto
  next
    case True
    then have nx: "match_best_map K E layers pgs (z + 1) m s1 = (ret, s')"
      using Cons.prems(1) m zl by simp
    have "(ret = 0 \<and> mapped K E pgs layers (z + 1) m s1 s') \<or> (ret = -1 \<and> frame s1 s')"
      by (rule Cons.IH [OF nx]) (use Cons.prems zl best.step_comp_ok [OF m sub ok] in auto)
    then show ?thesis
      using best.step_mapped [OF m [unfolded True] ok Cons.prems(2,3) [unfolded zl]] zl
        frame_trans [OF best.step_frame [OF m sub ok]] by auto
  qed
qed

lemma concat_index_order:
  assumes "distinct (concat Gs)" "i < j" "j < length (concat Gs)"
    and "k < length Gs" "k' < length Gs"
    and "concat Gs ! i \<in> set (Gs ! k)" "concat Gs ! j \<in> set (Gs ! k')"
  shows "k \<le> k'"
proof (rule ccontr)
  assume "\<not> k \<le> k'"
  then have lt: "k' < k" by simp
  let ?A = "concat (take k Gs)" and ?B = "concat (drop k Gs)"
  have AB: "concat Gs = ?A @ ?B" by (metis append_take_drop_id concat_append)
  have "Gs ! k' \<in> set (take k Gs)" using lt assms(5) by (auto simp: in_set_conv_nth)
  then have "concat Gs ! j \<in> set ?A" using assms(7) by auto
  moreover have "Gs ! k \<in> set (drop k Gs)"
    using assms(4) by (metis Cons_nth_drop_Suc list.set_intros(1))
  then have "concat Gs ! i \<in> set ?B" using assms(6) by auto
  moreover have "j < length ?A"
  proof (rule ccontr)
    assume "\<not> j < length ?A"
    then have "concat Gs ! j = ?B ! (j - length ?A)" "j - length ?A < length ?B"
      using AB assms(3) by (auto simp: nth_append)
    then have "concat Gs ! j \<in> set ?B" using nth_mem by metis
    with calculation(1) assms(1) AB show False
      by (metis disjoint_iff distinct_append)
  qed
  then have "concat Gs ! i = ?A ! i" using AB assms(2) by (simp add: nth_append)
  then have "concat Gs ! i \<in> set ?A"
    using \<open>j < length ?A\<close> assms(2) by (metis nth_mem order.strict_trans)
  ultimately show False using assms(1) AB by (metis disjoint_iff distinct_append)
qed

text \<open>
  The layers a policy works on: pairwise different identifiers, all in use.
\<close>

definition ready :: "lptr list \<Rightarrow> vop \<Rightarrow> bool" where
  "ready layers s \<longleftrightarrow> distinct_layers (heap s) layers \<and> (\<forall>p \<in> set layers. bUse (heap s p))"

text \<open>
  What a successful match gives: a sound composition in which every layer is placed, in
  ascending \<open>zpos\<close>, and in the order of the layers when these are numbered apart.
\<close>

definition matched ::
  "sdk \<Rightarrow> env \<Rightarrow> gptr list \<Rightarrow> lptr list \<Rightarrow> vop \<Rightarrow> bool" where
  "matched K E pgs layers s \<longleftrightarrow>
     comp_ok K E pgs layers s \<and>
     (\<forall>p \<in> set layers. bMatch (heap s p) \<and>
        (\<exists>e \<in> set (comp s). cp_source e = iDrmZpos (heap s p))) \<and>
     sorted (List.map cp_zpos (comp s)) \<and>
     (inj_on (\<lambda>p. iDrmZpos (heap s p)) (set layers) \<longrightarrow>
        (\<forall>i j. i < j \<and> j < length layers \<longrightarrow> (\<forall>e \<in> set (comp s). \<forall>e' \<in> set (comp s).
           cp_source e = iDrmZpos (heap s (layers ! i)) \<longrightarrow>
           cp_source e' = iDrmZpos (heap s (layers ! j)) \<longrightarrow> cp_zpos e \<le> cp_zpos e')))"

lemma frame_layer: "frame s s' \<Longrightarrow> same_layer (heap s p) (heap s' p)"
  by (simp add: frame_def heap_frameD)

lemmas frame_fields = same_layer_fields [OF frame_layer]

lemma ready_frame: "frame s s' \<Longrightarrow> ready layers s \<Longrightarrow> ready layers s'"
  by (simp add: ready_def distinct_layers_def frame_fields [of s s'])

lemma mapped_matched:
  assumes m: "mapped K E pgs layers 0 m s s'" and c: "comp s = []"
    and g: "List.map snd m = List.map (sort_group h) Gs" "concat Gs = layers"
    and d: "distinct layers"
  shows "matched K E pgs layers s'"
proof -
  have sg: "set (snd (m ! k)) = set (Gs ! k)" "k < length Gs" if "k < length m" for k
    using that g(1) by (metis length_map nth_map set_sort_group)+
  have lm: "length m = length Gs" using g(1) by (metis length_map)
  have z: "iDrmZpos (heap s' p) = iDrmZpos (heap s p)" for p
    using m by (simp add: mapped_def grows_def)
  have pl: "bMatch (heap s' p) \<and> (\<exists>e \<in> set (comp s'). cp_source e = iDrmZpos (heap s' p))"
    if "p \<in> set layers" for p
  proof -
    from that g(2) obtain G where "G \<in> set Gs" "p \<in> set G" by auto
    then obtain k where k: "k < length Gs" "p \<in> set (Gs ! k)" by (metis in_set_conv_nth)
    then have "placed p (0 + int k) s'" using m sg lm by (auto simp: mapped_def)
    then show ?thesis by (auto simp: placed_def)
  qed
  have ei: "entry_in 0 m s e" if "e \<in> set (comp s')" for e
    using m c that by (auto simp: mapped_def)
  have ord: "cp_zpos e \<le> cp_zpos e'"
    if inj: "inj_on (\<lambda>p. iDrmZpos (heap s' p)) (set layers)"
      and ij: "i < j" "j < length layers" and e: "e \<in> set (comp s')" "e' \<in> set (comp s')"
      and src: "cp_source e = iDrmZpos (heap s' (layers ! i))"
        "cp_source e' = iDrmZpos (heap s' (layers ! j))" for i j e e'
  proof -
    have key: "\<exists>k < length Gs. cp_zpos x = int k \<and> layers ! a \<in> set (Gs ! k)"
      if x: "x \<in> set (comp s')" and a: "a < length layers"
        and sx: "cp_source x = iDrmZpos (heap s' (layers ! a))" for x a
    proof -
      from ei [OF x] obtain k q where k: "k < length m" "cp_zpos x = int k"
        and q: "q \<in> set (Gs ! k)" "cp_source x = iDrmZpos (heap s q)"
        using sg by (auto simp: entry_in_def)
      have "q \<in> set layers" using q(1) k(1) lm g(2) by (metis UN_I nth_mem set_concat)
      then have "q = layers ! a" using inj sx q(2) a by (simp add: z inj_on_def)
      with k q lm show ?thesis by auto
    qed
    obtain k where k: "k < length Gs" "cp_zpos e = int k" "layers ! i \<in> set (Gs ! k)"
      using key [OF e(1) _ src(1)] ij by auto
    obtain k' where k': "k' < length Gs" "cp_zpos e' = int k'" "layers ! j \<in> set (Gs ! k')"
      using key [OF e(2) ij(2) src(2)] by auto
    have "k \<le> k'" by (rule concat_index_order [of Gs i j]) (use d g(2) ij k k' in auto)
    with k k' show ?thesis by simp
  qed
  have "sorted (List.map cp_zpos (comp s'))" using m c by (auto simp: mapped_def)
  moreover have "comp_ok K E pgs layers s'" using m by (simp add: mapped_def)
  ultimately show ?thesis using pl ord unfolding matched_def by blast
qed

lemma grows_accelerate:
  "grows s (accelerate_status layers s)" "comp (accelerate_status layers s) = comp s"
  "heap (accelerate_status layers s) = heap s"
  by (simp_all add: accelerate_status_def Let_def grows_def frame_def)

lemma matched_accelerate:
  "matched K E pgs layers s \<Longrightarrow> matched K E pgs layers (accelerate_status layers' s)"
  using comp_ok_grows [OF grows_accelerate(1,2)]
  by (simp add: matched_def grows_accelerate)

text \<open>Both start from the greedy partition of the layers, on a cleared state.\<close>

lemma match_start:
  assumes r: "ready layers s" and t: "t = (reset_all layers pgs s)\<lparr> comp := [] \<rparr>"
  shows "\<exists>n m Gs. CombineLayer K (st t) (heap t) layers (length pgs) = Some (n, m) \<and>
     List.map snd m = List.map (sort_group (heap t)) Gs \<and> concat Gs = layers \<and>
     distinct layers \<and> set (concat (List.map snd m)) \<subseteq> set layers \<and>
     distinct (concat (List.map snd m)) \<and> comp_ok K E pgs layers t \<and> frame s t \<and>
     (\<forall>p. iDrmZpos (heap t p) = iDrmZpos (heap s p))"
proof -
  have f: "frame s t" unfolding t by (intro frame_comp frame_reset_all)
  have rs: "distinct_layers (heap t) layers" "\<forall>p \<in> set layers. bUse (heap t p)"
    using ready_frame [OF f r] by (auto simp: ready_def)
  obtain n m where C: "CombineLayer K (st t) (heap t) layers (length pgs) = Some (n, m)"
    and perm: "mset (concat (List.map snd m)) = mset layers"
    using CombineLayer_total [OF rs, of K "st t" "length pgs"] by blast
  have dl: "distinct layers" using rs distinct_layers_distinct by blast
  have sub: "set (concat (List.map snd m)) \<subseteq> set layers" "distinct (concat (List.map snd m))"
    using perm dl by (metis order_refl set_mset_mset, metis mset_eq_imp_distinct_iff)
  have "\<exists>Gs. List.map snd m = List.map (sort_group (heap t)) Gs \<and> concat Gs = layers"
  proof (cases "layers = []")
    case True
    with C show ?thesis by (intro exI [of _ "[]"]) (auto simp: CombineLayer_empty)
  next
    case False
    with CombineLayer_groups [OF rs False, of K "st t" "length pgs"] C show ?thesis
      by (intro exI [of _ "greedy (joins K (st t) (heap t)) [hd layers] (tl layers)"]) auto
  qed
  moreover have "comp_ok K E pgs layers t" by (simp add: comp_ok_def t)
  moreover have "\<forall>p. iDrmZpos (heap t p) = iDrmZpos (heap s p)"
    by (simp add: t reset_layer_def)
  ultimately show ?thesis using C sub dl f by blast
qed

lemma mapped_zpos:
  "mapped K E pgs layers z m t u \<Longrightarrow> iDrmZpos (heap u p) = iDrmZpos (heap t p)"
  by (simp add: mapped_def grows_def)

lemma mapped_marks:
  "mapped K E pgs layers z m t u \<Longrightarrow> set (concat (List.map snd m)) \<subseteq> set layers \<Longrightarrow>
   marks_outside layers t u"
  unfolding mapped_def marks_outside_def by (metis subsetD)

lemma MatchPlanes_cases:
  assumes r: "ready layers s"
  shows "\<exists>ret s'. MatchPlanes K E layers pgs s = Some (ret, s') \<and> frame s s' \<and>
     marks_outside layers s s' \<and>
     (ret = 0 \<and> matched K E pgs layers s' \<and> (\<forall>p. iDrmZpos (heap s' p) = iDrmZpos (heap s p)) \<or>
      ret = -1 \<and> released layers pgs s')"
proof -
  define t where "t = (reset_all layers pgs s)\<lparr> comp := [] \<rparr>"
  obtain n m Gs where C: "CombineLayer K (st t) (heap t) layers (length pgs) = Some (n, m)"
    and Gs: "List.map snd m = List.map (sort_group (heap t)) Gs" "concat Gs = layers"
    and dl: "distinct layers"
    and sub: "set (concat (List.map snd m)) \<subseteq> set layers" "distinct (concat (List.map snd m))"
    and ok: "comp_ok K E pgs layers t" and f: "frame s t"
    and z: "\<forall>p. iDrmZpos (heap t p) = iDrmZpos (heap s p)"
    using match_start [OF r t_def] by metis
  have mo: "marks_outside layers s t" unfolding t_def by (rule marks_outside_reset)
  obtain ret s1 where M: "match_map K E layers pgs 0 0 m t = (ret, s1)" by fastforce
  have res: "MatchPlanes K E layers pgs s =
      Some (ret, if ret = 0 then accelerate_status layers s1 else s1)"
    using C M by (simp add: MatchPlanes_def Let_def t_def)
  from match_map_mapped [OF M sub ok] show ?thesis
  proof
    assume a: "ret = 0 \<and> mapped K E pgs layers 0 m t s1"
    let ?u = "accelerate_status layers s1"
    have g: "grows t s1" using a by (simp add: mapped_def)
    have "matched K E pgs layers s1"
      by (rule mapped_matched [OF _ _ Gs dl, of K E pgs t]) (use a in \<open>auto simp: t_def\<close>)
    then have mt: "matched K E pgs layers ?u" by (rule matched_accelerate)
    have fr: "frame s ?u"
      using frame_trans [OF f grows_frame [OF grows_trans [OF g grows_accelerate(1)]]] .
    have zz: "\<forall>p. iDrmZpos (heap ?u p) = iDrmZpos (heap s p)"
      using z mapped_zpos a by (metis grows_accelerate(3))
    have "marks_outside layers s s1"
      using marks_outside_trans [OF mo mapped_marks] a sub(1) by blast
    then have "marks_outside layers s ?u" by (simp add: marks_outside_def grows_accelerate(3))
    with mt fr zz res a show ?thesis by (intro exI conjI disjI1) auto
  next
    assume a: "ret = -1 \<and> frame t s1 \<and> released layers pgs s1 \<and> marks_outside layers t s1"
    then have "MatchPlanes K E layers pgs s = Some (-1, s1)" using res by simp
    with a frame_trans [OF f] marks_outside_trans [OF mo] show ?thesis
      by (intro exI conjI disjI2) auto
  qed
qed

lemma MatchBestPlanes_cases:
  assumes r: "ready layers s"
  shows "\<exists>ret s'. MatchBestPlanes K E layers pgs s = Some (ret, s') \<and> frame s s' \<and>
     (ret = 0 \<and> matched K E pgs layers s' \<or> ret = -1)"
proof -
  define t where "t = (reset_all layers pgs s)\<lparr> comp := [] \<rparr>"
  obtain n m Gs where C: "CombineLayer K (st t) (heap t) layers (length pgs) = Some (n, m)"
    and Gs: "List.map snd m = List.map (sort_group (heap t)) Gs" "concat Gs = layers"
    and dl: "distinct layers"
    and sub: "set (concat (List.map snd m)) \<subseteq> set layers" "distinct (concat (List.map snd m))"
    and ok: "comp_ok K E pgs layers t" and f: "frame s t"
    using match_start [OF r t_def] by metis
  obtain ret s1 where M: "match_best_map K E layers pgs 0 m t = (ret, s1)" by fastforce
  have res: "MatchBestPlanes K E layers pgs s = Some (ret, s1)"
    using C M by (simp add: MatchBestPlanes_def Let_def t_def)
  from match_best_map_mapped [OF M sub ok] show ?thesis
  proof
    assume a: "ret = 0 \<and> mapped K E pgs layers 0 m t s1"
    then have "matched K E pgs layers s1"
      by (intro mapped_matched [OF _ _ Gs dl, of K E pgs t]) (auto simp: t_def)
    moreover have "frame s s1" using a f frame_trans by (auto simp: mapped_def)
    ultimately show ?thesis using res a by blast
  next
    assume a: "ret = -1 \<and> frame t s1"
    with frame_trans [OF f] res show ?thesis by blast
  qed
qed

end
