(* ===== verification/Vop_Match_Props.thy ===== *)
theory Vop_Match_Props
  imports Vop_Match
begin

text \<open>
  The properties of \<open>MatchPlanes\<close>, and a small concrete configuration on which they and the
  properties of the policies are exercised: two plane groups of two windows, a CRTC on pipe 0
  in a 1080p mode, and the layers \<open>bands\<close>.
\<close>

section \<open>A concrete configuration\<close>

definition mode0 :: DrmMode where
  "mode0 = \<lparr> mode_id = 1, clock = 148500, h_display = 1920, h_sync_start = 2008,
     h_sync_end = 2052, h_total = 2200, h_skew = 0, v_display = 1080, v_sync_start = 1084,
     v_sync_end = 1089, v_total = 1125, v_scan = 0, vrefresh_field = 60, mode_flags = 5,
     mode_type = 0, interlaced = False, mode_name = ''1080p'' \<rparr>"

definition env0 :: env where
  "env0 =
     \<lparr> pget = (\<lambda>k d. d), pipe = 0, crtc_display = 0, crtc_hdr = False, crtc_soc_id = 0x3588,
       conn = Some \<lparr> conn_connected = True, conn_crop_split = False,
                     conn_split_primary = False, conn_mode = mode0 \<rparr>,
       all_plane_groups = [0, 1] \<rparr>"

definition esmart :: "nat \<Rightarrow> nat \<Rightarrow> DrmPlane" where
  "esmart e w =
     plane0\<lparr> plane_id := of_nat (16 * e + w), win_type := PLANE_RK3588_ESMART_WIN e w \<rparr>"

text \<open>Two groups of two windows each; the second window of the first group is too small.\<close>

definition window :: "pptr \<Rightarrow> DrmPlane" where
  "window pp = (if pp = (0, 1) then (esmart 0 1)\<lparr> input_w_max := 50 \<rparr>
                else esmart (fst pp) (snd pp))"

definition groups_using :: "pptr set \<Rightarrow> gheap" where
  "groups_using U g =
     group0\<lparr> share_id := of_nat g, g_win_type := push_bit (8 + 4 * g) 0xf, current_crtc := 1,
             next_crtc := 1,
             planes := [(window (g, 0))\<lparr> b_use := (g, 0) \<in> U \<rparr>,
                        (window (g, 1))\<lparr> b_use := (g, 1) \<in> U \<rparr>] \<rparr>"

definition vop0 :: vop where
  "vop0 =
     \<lparr> request = \<lparr> frame_no = 0, iSkipCnt = 0, bSidebandStreamMode = False,
         accelerate_app_exist = False, iAfbcdCnt = 0, iAfbcdScaleCnt = 0, iAfbcdYuvCnt = 0,
         iAfcbdLargeYuvCnt = 0, iAfbcdRotateCnt = 0, iAfbcdHdrCnt = 0, iCnt = 0, iScaleCnt = 0,
         iYuvCnt = 0, iLargeYuvCnt = 0, iRotateCnt = 0, iHdrCnt = 0 \<rparr>,
       support = \<lparr> sAfbcdCnt = 0, sAfbcdScaleCnt = 0, sAfbcdYuvCnt = 0, sAfbcdRotateCnt = 0,
         sAfbcdHdrCnt = 0, sCnt = 0, sScaleCnt = 0, sYuvCnt = 0, sRotateCnt = 0, sHdrCnt = 0,
         arrayReservedPlaneName = [] \<rparr>,
       st = sta0, heap = bands, gheap = groups_using {}, comp = [], props_set = [] \<rparr>"

text \<open>The configuration with the layers \<open>M\<close> matched and the planes \<open>U\<close> in use.\<close>

definition scene :: "lptr set \<Rightarrow> pptr set \<Rightarrow> comp_plane list \<Rightarrow> vop" where
  "scene M U C =
     vop0\<lparr> heap := (\<lambda>p. (bands p)\<lparr> bMatch := p \<in> M \<rparr>), gheap := groups_using U, comp := C \<rparr>"

section \<open>Matching on windows outside the clusters\<close>

definition plain_window :: "DrmPlane \<Rightarrow> bool" where
  "plain_window p \<longleftrightarrow> win_type p AND PLANE_RK3588_ALL_CLUSTER_MASK = 0"

definition accepts ::
  "sdk \<Rightarrow> env \<Rightarrow> sta_ctx \<Rightarrow> u64 \<Rightarrow> DrmHwcLayer \<Rightarrow> DrmPlane \<Rightarrow> bool" where
  "accepts K E c a l p \<longleftrightarrow>
     size_ok c l p \<and> scale_ok c l p \<and> alpha_ok (next_alpha l a) p \<and> hdr_ok E l \<and>
     transform_ok K c l p"

lemma plain_no_cluster:
  assumes "plain_window p" "i < 4"
  shows "\<not> has_bits (win_type p) (win0 i)" "\<not> has_bits (win_type p) (win1 i)"
proof -
  have "win_type p AND win0 i = (win_type p AND PLANE_RK3588_ALL_CLUSTER_MASK) AND win0 i"
       "win_type p AND win1 i = (win_type p AND PLANE_RK3588_ALL_CLUSTER_MASK) AND win1 i"
    using assms(2)
    by (auto simp: win0_def win1_def mask_defs less_Suc_eq numeral_eq_Suc and.assoc)
  then show "\<not> has_bits (win_type p) (win0 i)" "\<not> has_bits (win_type p) (win1 i)"
    using assms(1) by (auto simp: has_bits_def plain_window_def)
qed

lemma plain_window_st:
  assumes "plain_window p"
  shows "win1_limits p l [0, 1, 2, 3] (keep_continuous p l z (init_cluster p c)) = (True, c)"
    "after_match K p l z c = c"
proof -
  note n = plain_no_cluster [OF assms]
  have "init_cluster p c = c" using n by (simp add: init_cluster_def cong: conj_cong)
  moreover have "keep_continuous p l z c = c"
    using n by (simp add: keep_continuous_def Let_def cong: conj_cong)
  moreover have "win1_limits p l [0, 1, 2, 3] c = (True, c)"
    using n(2) [of 0] n(2) [of 1] n(2) [of 2] n(2) [of 3] by simp
  ultimately show "win1_limits p l [0, 1, 2, 3] (keep_continuous p l z (init_cluster p c))
      = (True, c)" by simp
  show "after_match K p l z c = c"
    using n(1) [of 0] n(1) [of 1] n(1) [of 2] n(1) [of 3] by (simp add: after_match_def)
qed

lemma try_plane_used:
  "b_use (plane_at (gheap s) pp) \<Longrightarrow> try_plane K E z lp pp (a, s) = (False, a, s)"
  by (simp add: try_plane_def Let_def)

lemma try_plane_plain:
  assumes "\<not> b_use (plane_at (gheap s) pp)" "GetCrtcSupported (pipe E) (plane_at (gheap s) pp)"
    "plain_window (plane_at (gheap s) pp)" "\<not> bUseSwPq (st s)"
    "is_support_format K (plane_at (gheap s) pp) (uFourccFormat (heap s lp))
       (bAfbcd (heap s lp)) False"
    "next_alpha (heap s lp) a = a"
  shows "try_plane K E z lp pp (a, s) =
     (if accepts K E (st s) a (heap s lp) (plane_at (gheap s) pp)
      then (True, a, commit_match K z lp pp s) else (False, a, s))"
  using assms plain_window_st [OF assms(3)]
  by (auto simp: try_plane_def Let_def match_format_def swpq_afbc_def accepts_def)

section \<open>The configuration evaluated\<close>

definition all_windows :: "pptr set" where "all_windows = {(0, 0), (0, 1), (1, 0), (1, 1)}"

lemma vop0_scene: "vop0 = scene {} {} []"
  by (simp add: scene_def vop0_def bands_def layer0_def fun_eq_iff)

lemma scene_simps [simp]:
  "st (scene M U C) = sta0" "heap (scene M U C) p = (bands p)\<lparr> bMatch := p \<in> M \<rparr>"
  "gheap (scene M U C) = groups_using U" "comp (scene M U C) = C"
  by (simp_all add: scene_def vop0_def)

lemma scene_unmatch:
  "(scene M U C)\<lparr> heap := upd lp (bMatch_update (\<lambda>_. False)) (heap (scene M U C)) \<rparr> =
   scene (M - {lp}) U C"
  by (simp add: scene_def fun_eq_iff upd_def)

lemma plane_at_scene:
  "k < 2 \<Longrightarrow> plane_at (groups_using U) (g, k) = (window (g, k))\<lparr> b_use := (g, k) \<in> U \<rparr>"
  by (auto simp: plane_at_def groups_using_def less_Suc_eq numeral_2_eq_2)

lemma set_use_scene:
  "k < 2 \<Longrightarrow> set_use True (g, k) (groups_using U) = groups_using (insert (g, k) U)"
  by (auto simp: set_use_def Let_def groups_using_def fun_eq_iff less_Suc_eq numeral_2_eq_2)

lemma plain_windows:
  "pp \<in> all_windows \<Longrightarrow>
   plain_window (window pp\<lparr> b_use := u \<rparr>) \<and> GetCrtcSupported 0 (window pp\<lparr> b_use := u \<rparr>) \<and>
   is_support_format sdk0 (window pp\<lparr> b_use := u \<rparr>) 0x34324241 False False"
  by (auto simp: all_windows_def plain_window_def window_def esmart_def plane0_def mask_defs
      GetCrtcSupported_def is_support_format_def isRK3588_def has_bits_def has_format_def)

lemma accepts_windows:
  "pp \<in> all_windows \<Longrightarrow> lp < 4 \<Longrightarrow>
   accepts sdk0 env0 sta0 255 ((bands lp)\<lparr> bMatch := m \<rparr>) (window pp\<lparr> b_use := u \<rparr>) =
   (pp \<noteq> (0, 1))"
  by (auto simp: all_windows_def window_def esmart_def plane0_def mask_defs isRK3588_def
      has_bits_def accepts_def size_ok_def scale_ok_def is_support_input_def
      is_support_output_def input_w_def input_h_def output_w_def output_h_def center_scale_def
      is_support_scale_def above_min_def strictly_above_min_def next_alpha_def alpha_ok_def
      hdr_ok_def transform_ok_def is_support_transform_def trunc_rat_def bands_def layer0_def
      sta0_def sdk0_def env0_def rect_def)

lemma band_fields [simp]:
  "uFourccFormat (bands p) = 0x34324241" "bAfbcd (bands p) = False"
  "iDrmZpos (bands p) = int p" "blending (bands p) = kNone" "iBestPlaneType (bands p) = 0"
  "iSize (bands p) = 40000" "bUse (bands p)" "uId (bands p) = of_nat p"
  by (simp_all add: bands_def layer0_def)

lemma try_plane_scene:
  assumes pp: "pp \<in> all_windows" and lp: "lp < 4"
  shows "try_plane sdk0 env0 z lp pp (255, scene M U C) =
    (if pp \<in> U \<or> pp = (0, 1) then (False, 255, scene M U C)
     else (True, 255, scene (insert lp M) (insert pp U)
             (C @ [\<lparr> cp_type = kLayer, cp_plane = pp, cp_source = int lp, cp_zpos = z \<rparr>])))"
proof -
  have at: "plane_at (groups_using U) pp = window pp\<lparr> b_use := pp \<in> U \<rparr>"
    using pp plane_at_scene [of "snd pp" U "fst pp"] by (auto simp: all_windows_def)
  have us: "set_use True pp (groups_using U) = groups_using (insert pp U)"
    using pp set_use_scene [of "snd pp" "fst pp" U] by (auto simp: all_windows_def)
  note w = plain_windows [OF pp, of "pp \<in> U"]
  have pl: "plain_window (window pp\<lparr> b_use := pp \<in> U \<rparr>)" using w by simp
  show ?thesis
  proof (cases "pp \<in> U")
    case True
    then show ?thesis by (simp add: try_plane_used at)
  next
    case False
    have c: "commit_match sdk0 z lp pp (scene M U C) = scene (insert lp M) (insert pp U)
        (C @ [\<lparr> cp_type = kLayer, cp_plane = pp, cp_source = int lp, cp_zpos = z \<rparr>])"
      using plain_window_st(2) [OF pl]
      by (simp add: commit_match_def Let_def at us)
        (simp add: scene_def fun_eq_iff upd_def vop0_def)
    show ?thesis
      using try_plane_plain [of "scene M U C" pp env0 sdk0 lp 255 z] w False
        accepts_windows [OF pp lp]
      by (simp add: at c env0_def next_alpha_def sta0_def)
  qed
qed

lemma group_open_scene: "g < 2 \<Longrightarrow> n \<le> 2 \<Longrightarrow> group_open env0 n (groups_using U g)"
  by (simp add: group_open_def crtc_bit_def env0_def groups_using_def group0_def)

lemma group_planes_scene: "group_planes g (scene M U C) = [(g, 0), (g, 1)]"
  by (simp add: group_planes_def groups_using_def upt_rec)

lemma best_scene: "\<not> best_type_mismatch False g (bands p\<lparr> bMatch := m \<rparr>)"
  by (simp add: best_type_mismatch_def)

lemmas scene_eval =
  group_open_scene scene_unmatch best_scene group_planes_scene try_plane_scene Let_def
  all_windows_def

lemma ready_scene:
  "set ps \<subseteq> {0, 1, 2, 3} \<Longrightarrow> distinct ps \<Longrightarrow> ready ps (scene M U C)"
proof -
  assume s: "set ps \<subseteq> {0, 1, 2, 3}" and d: "distinct ps"
  have "inj_on (of_nat :: nat \<Rightarrow> u32) {0, 1, 2, 3}" by (simp add: inj_on_def)
  then have "inj_on (of_nat :: nat \<Rightarrow> u32) (set ps)" using s by (rule inj_on_subset)
  with d show ?thesis by (simp add: ready_def distinct_layers_def distinct_map)
qed

lemma reset_vop0: "(reset_all ps gs vop0)\<lparr> comp := [] \<rparr> = scene {} {} []"
proof -
  have "heap (reset_all ps gs vop0) = heap vop0"
    by (rule ext) (simp add: reset_layer_def vop0_def bands_def layer0_def)
  moreover have "gheap (reset_all ps gs vop0) = gheap vop0"
    by (rule ext) (simp add: reset_group_def vop0_def groups_using_def group0_def window_def
        esmart_def plane0_def)
  moreover have "props_set (reset_all ps gs vop0) = props_set vop0"
    by (simp add: reset_all_def ResetLayer_def ResetPlaneGroups_def)
  ultimately have "reset_all ps gs vop0 = vop0" by simp
  moreover have "vop0\<lparr> comp := [] \<rparr> = vop0" by (simp add: vop0_def)
  ultimately show ?thesis using vop0_scene by simp
qed

lemma CombineLayer_single:
  "bUse (h p) \<Longrightarrow> \<exists>n z. CombineLayer K c h [p] k = Some (n, [(z, [p])])"
  using CombineLayer_groups [of h "[p]" K c k]
  by (auto simp: distinct_layers_def sort_group_def)

section \<open>Properties\<close>

text \<open>
  C3: For layers that are all in use and have distinct numbers, \<open>MatchPlanes\<close> returns \<open>0\<close> or \<open>-1\<close>, and
  what it leaves is safe to commit: no plane is assigned twice, and every entry takes a plane of
  the given groups that is not reserved, belongs to this CRTC, can reach it and is marked in use,
  for a layer of the vector whose input and output size, scaling and HDR that plane can show, and whose pixel
  format and rotation as well, compressed or not as the layer is; for an FB target, whose compression
  the match may change, these two hold with or without compression.
\<close>

theorem MatchPlanes_safe:
  assumes "ready layers s"
  shows "\<exists>ret s'. MatchPlanes K E layers pgs s = Some (ret, s') \<and> ret \<in> {0, -1} \<and>
    distinct (List.map cp_plane (comp s')) \<and>
    (\<forall>e \<in> set (comp s').
       let g = gheap s' (fst (cp_plane e)); p = plane_at (gheap s') (cp_plane e) in
       fst (cp_plane e) \<in> set pgs \<and> snd (cp_plane e) < length (planes g) \<and>
       \<not> gReserved g \<and> crtc_bit E AND current_crtc g \<noteq> 0 \<and>
       GetCrtcSupported (pipe E) p \<and> b_use p \<and>
       (\<exists>q \<in> set layers. cp_source e = iDrmZpos (heap s' q) \<and> fits K E (st s') (heap s' q) p))"
proof -
  obtain ret s' where r: "MatchPlanes K E layers pgs s = Some (ret, s')"
    "ret = 0 \<and> matched K E pgs layers s' \<or> ret = -1 \<and> released layers pgs s'"
    using MatchPlanes_cases [OF assms, of K E pgs] by blast
  then have "comp_ok K E pgs layers s'" by (auto simp: matched_def released_def comp_ok_def)
  with r show ?thesis
    unfolding comp_ok_def entry_ok_def usable_def Let_def by blast
qed

lemma MatchPlanes_safe_witness:
  "\<exists>ret s'. MatchPlanes sdk0 env0 [0, 1] [0, 1] vop0 = Some (ret, s') \<and> ret \<in> {0, -1} \<and>
    distinct (List.map cp_plane (comp s'))"
proof -
  have "ready [0, 1] vop0" by (simp add: vop0_scene ready_scene)
  from MatchPlanes_safe [OF this, of sdk0 env0 "[0, 1]"] show ?thesis by blast
qed

text \<open>
  C15: A successful \<open>MatchPlanes\<close> places every layer: each one is marked matched and is the source
  of an entry.  The entries come in ascending \<open>zpos\<close>, and a layer below another one in the
  list is never shown above it.
\<close>

theorem MatchPlanes_complete:
  assumes "ready layers s" "MatchPlanes K E layers pgs s = Some (0, s')"
    and "inj_on (\<lambda>p. iDrmZpos (heap s p)) (set layers)"
  shows "(\<forall>p \<in> set layers. bMatch (heap s' p) \<and>
           (\<exists>e \<in> set (comp s'). cp_source e = iDrmZpos (heap s p)))
    \<and> sorted (List.map cp_zpos (comp s'))
    \<and> (\<forall>i j e e'. i < j \<and> j < length layers \<and> e \<in> set (comp s') \<and> e' \<in> set (comp s') \<and>
         cp_source e = iDrmZpos (heap s (layers ! i)) \<and>
         cp_source e' = iDrmZpos (heap s (layers ! j)) \<longrightarrow> cp_zpos e \<le> cp_zpos e')"
proof -
  have m: "matched K E pgs layers s'" and z: "\<And>p. iDrmZpos (heap s' p) = iDrmZpos (heap s p)"
    using MatchPlanes_cases [OF assms(1), of K E pgs] assms(2) by auto
  show ?thesis using m assms(3) unfolding matched_def z by blast
qed

lemma MatchPlanes_scene:
  "\<exists>s'. MatchPlanes sdk0 env0 [0] [0, 1] vop0 = Some (0, s')"
proof -
  obtain n z where C: "CombineLayer sdk0 sta0 (heap (scene {} {} [])) [0] (Suc (Suc 0))
      = Some (n, [(z, [0])])"
    using CombineLayer_single [of "heap (scene {} {} [])" 0 sdk0 sta0] by fastforce
  have M: "MatchPlane sdk0 env0 [0, 1] [0] 0 False (scene {} {} []) =
      (0, (scene {0} {(0, 0)} [\<lparr> cp_type = kLayer, cp_plane = (0, 0), cp_source = 0,
             cp_zpos = 0 \<rparr>])
            \<lparr> gheap := (groups_using {(0, 0)})(0 := groups_using {(0, 0)} 0\<lparr> gUse := True \<rparr>) \<rparr>)"
    by (simp add: MatchPlane_def scene_eval)
  have "match_map sdk0 env0 [0] [0, 1] 0 0 [(z, [0])] (scene {} {} []) =
      (0, snd (MatchPlane sdk0 env0 [0, 1] [0] 0 False (scene {} {} [])))"
    unfolding match_map.simps M by (simp add: sta0_def)
  then show ?thesis using C by (simp add: MatchPlanes_def reset_vop0)
qed

lemma MatchPlanes_complete_witness:
  "\<exists>s' e. MatchPlanes sdk0 env0 [0] [0, 1] vop0 = Some (0, s') \<and> bMatch (heap s' 0) \<and>
     e \<in> set (comp s') \<and> cp_source e = 0"
proof -
  obtain s' where s': "MatchPlanes sdk0 env0 [0] [0, 1] vop0 = Some (0, s')"
    using MatchPlanes_scene by blast
  have "ready [0] vop0" by (simp add: vop0_scene ready_scene)
  from MatchPlanes_complete [OF this s'] s' show ?thesis by (auto simp: vop0_scene)
qed

text \<open>What a match writes: the layers it is given, the planes of the groups it is given.\<close>

definition touches :: "lptr set \<Rightarrow> gptr set \<Rightarrow> vop \<Rightarrow> vop \<Rightarrow> bool" where
  "touches L G s s' \<longleftrightarrow>
     fbUseAfbc (st s') = fbUseAfbc (st s) \<and> heap_frame (heap s) (heap s') \<and> gheap_frame (gheap s) (gheap s') \<and>
     (\<forall>q. iDrmZpos (heap s' q) = iDrmZpos (heap s q)) \<and>
     (\<forall>q. q \<notin> L \<longrightarrow> heap s' q = heap s q) \<and> (\<forall>g. g \<notin> G \<longrightarrow> gheap s' g = gheap s g)"

lemma touches_refl: "touches L G s s"
  by (simp add: touches_def)

lemma touches_trans: "touches L G s t \<Longrightarrow> touches L G t u \<Longrightarrow> touches L G s u"
  using heap_frame_trans gheap_frame_trans by (auto simp: touches_def)

lemma touches_mono: "touches L G s t \<Longrightarrow> L \<subseteq> L' \<Longrightarrow> G \<subseteq> G' \<Longrightarrow> touches L' G' s t"
  by (auto simp: touches_def)

lemma touches_st: "clu_only (st s) c \<Longrightarrow> touches L G s (s\<lparr> st := c \<rparr>)"
  by (simp add: touches_def clu_only_fields)

lemma touches_heap:
  "same_layer (heap s p) l \<Longrightarrow> iDrmZpos l = iDrmZpos (heap s p) \<Longrightarrow> p \<in> L \<Longrightarrow>
   touches L G s (s\<lparr> heap := upd p (\<lambda>_. l) (heap s) \<rparr>)"
  by (auto simp: touches_def upd_def heap_frame_def)

lemma touches_swpq: "lp \<in> L \<Longrightarrow> touches L G s (swpq_afbc lp s)"
  by (auto simp: swpq_afbc_def touches_def upd_def heap_frame_def same_layer_def)

lemma touches_format: "lp \<in> L \<Longrightarrow> touches L G s (snd (match_format K E lp p s))"
  by (auto simp: match_format_def Let_def touches_def upd_def heap_frame_def same_layer_def)

lemma touches_commit:
  assumes "lp \<in> L" "fst pp \<in> G"
  shows "touches L G s (commit_match K z lp pp s)"
proof -
  let ?u = "commit_match K z lp pp s"
  have "clu_only (st s) (after_match K (plane_at (gheap s) pp) (heap s lp) z (st s))" by simp
  then have "fbUseAfbc (st ?u) = fbUseAfbc (st s)" by (simp add: commit_match_def Let_def clu_only_fields)
  moreover have h: "heap ?u = upd lp (bMatch_update (\<lambda>_. True)) (heap s)" "gheap ?u = set_use True pp (gheap s)"
    by (simp_all add: commit_match_def Let_def)
  have "heap_frame (heap s) (heap ?u)" unfolding h by (simp add: heap_frame_upd same_layer_def)
  moreover have "gheap_frame (gheap s) (gheap ?u)" unfolding h by (rule gheap_frame_set_use)
  moreover have "iDrmZpos (heap ?u q) = iDrmZpos (heap s q)" "q \<notin> L \<Longrightarrow> heap ?u q = heap s q" for q
    using assms(1) by (auto simp: h upd_def)
  moreover have "g \<notin> G \<Longrightarrow> gheap ?u g = gheap s g" for g
    using assms(2) by (auto simp: h set_use_def Let_def)
  ultimately show ?thesis by (simp add: touches_def)
qed

lemma touches_try_plane:
  assumes "try_plane K E z lp pp (a, s) = (m, a', s')" "lp \<in> L" "fst pp \<in> G"
  shows "touches L G s s'"
proof -
  let ?p = "plane_at (gheap s) pp" and ?l = "heap s lp"
  obtain ok c where w: "win1_limits ?p ?l [0, 1, 2, 3] (keep_continuous ?p ?l z (init_cluster ?p (st s))) = (ok, c)"
    by fastforce
  let ?s1 = "s\<lparr> st := c \<rparr>"
  obtain fok s2 where f: "match_format K E lp ?p (swpq_afbc lp ?s1) = (fok, s2)" by fastforce
  have "clu_only (st s) c"
    using clu_only_win1_limits [of "keep_continuous ?p ?l z (init_cluster ?p (st s))" ?p ?l "[0, 1, 2, 3]"]
      clu_only_trans [OF clu_only_ops(1) clu_only_ops(2)] clu_only_trans w by (metis snd_conv)
  then have 1: "touches L G s ?s1" by (rule touches_st)
  have 2: "touches L G s s2"
    using touches_trans [OF 1 touches_trans [OF touches_swpq [OF assms(2)] touches_format [OF assms(2)]]] f by (metis snd_conv)
  have 3: "touches L G s (commit_match K z lp pp s2)"
    using touches_trans [OF 2 touches_commit [OF assms(2,3)]] .
  have "s' \<in> {s, ?s1, s2, commit_match K z lp pp s2}"
    using assms(1) w f by (auto simp: try_plane_def Let_def split: if_splits)
  with 1 2 3 touches_refl show ?thesis by blast
qed

lemma touches_try_planes:
  "try_planes K E z lp pps (a, s) = (m, a', s') \<Longrightarrow> lp \<in> L \<Longrightarrow>
   \<forall>pp \<in> set pps. fst pp \<in> G \<Longrightarrow> touches L G s s'"
proof (induction pps arbitrary: a s)
  case (Cons pp pps)
  obtain m1 a1 s1 where t: "try_plane K E z lp pp (a, s) = (m1, a1, s1)" by (metis prod_cases3)
  have 1: "touches L G s s1" using touches_try_plane [OF t Cons.prems(2)] Cons.prems(3) by simp
  show ?case
  proof (cases m1)
    case True
    with Cons.prems(1) t 1 show ?thesis by simp
  next
    case False
    with Cons.prems(1) t have "try_planes K E z lp pps (a1, s1) = (m, a', s')" by simp
    from touches_trans [OF 1 Cons.IH [OF this Cons.prems(2)]] Cons.prems(3)
    show ?thesis by simp
  qed
qed (simp add: touches_refl)

lemma touches_match_layers:
  "match_layers K E mb z g lps (cnt, a, s) = (cnt', a', s') \<Longrightarrow> set lps \<subseteq> L \<Longrightarrow> g \<in> G \<Longrightarrow> touches L G s s'"
proof (induction lps arbitrary: cnt a s)
  case (Cons lp lps)
  let ?s0 = "s\<lparr> heap := upd lp (bMatch_update (\<lambda>_. False)) (heap s) \<rparr>"
  have 0: "touches L G s ?s0"
    using Cons.prems(2) by (auto simp: touches_def upd_def heap_frame_def same_layer_def)
  obtain m a1 s1 where t: "try_planes K E z lp (group_planes g ?s0) (a, ?s0) = (m, a1, s1)" by (metis prod_cases3)
  have 1: "touches L G ?s0 s1"
    by (rule touches_try_planes [OF t]) (use Cons.prems(2,3) in \<open>auto simp: group_planes_def\<close>)
  show ?case
  proof (cases "best_type_mismatch mb (gheap ?s0 g) (heap ?s0 lp)")
    case True
    with Cons.prems(1) have "match_layers K E mb z g lps (cnt, a, ?s0) = (cnt', a', s')" by (simp add: Let_def)
    from touches_trans [OF 0 Cons.IH [OF this]] Cons.prems(2,3) show ?thesis by simp
  next
    case False
    with Cons.prems(1) t have "match_layers K E mb z g lps (if m then Suc cnt else cnt, a1, s1) = (cnt', a', s')"
      by (simp add: Let_def)
    from touches_trans [OF touches_trans [OF 0 1] Cons.IH [OF this]] Cons.prems(2,3) show ?thesis by simp
  qed
qed (simp add: touches_refl)

lemma touches_match_groups:
  "match_groups K E mb z lps gs (a, s) = (ret, s') \<Longrightarrow> set lps \<subseteq> L \<Longrightarrow> set gs \<subseteq> G \<Longrightarrow> touches L G s s'"
proof (induction gs arbitrary: a s)
  case (Cons g gs)
  show ?case
  proof (cases "group_open E (length lps) (gheap s g)")
    case True
    obtain cnt a1 s1 where m: "match_layers K E mb z g lps (0, a, s) = (cnt, a1, s1)" by (metis prod_cases3)
    have 1: "touches L G s s1" by (rule touches_match_layers [OF m Cons.prems(2)]) (use Cons.prems(3) in simp)
    show ?thesis
    proof (cases "cnt = length lps")
      case c: True
      have "touches L G s1 (s1\<lparr> gheap := (gheap s1)(g := gheap s1 g\<lparr> gUse := True \<rparr>) \<rparr>)"
        using Cons.prems(3)
        by (auto simp: touches_def gheap_frame_def same_group_def list_all2_conv_all_nth same_plane_def)
      with touches_trans [OF 1] Cons.prems(1) True m c show ?thesis by simp
    next
      case False
      with Cons.prems(1) True m have "match_groups K E mb z lps gs (a1, s1) = (ret, s')" by simp
      from touches_trans [OF 1 Cons.IH [OF this]] Cons.prems(2,3) show ?thesis by simp
    qed
  next
    case False
    with Cons.prems(1) have "match_groups K E mb z lps gs (a, s) = (ret, s')" by simp
    from Cons.IH [OF this] Cons.prems(2,3) show ?thesis by simp
  qed
qed (simp add: touches_refl)

text \<open>A failure is the reset of a state the match has touched.\<close>

lemma match_map_fails:
  "match_map K E layers pgs z tot m s = (ret, s') \<Longrightarrow> ret \<noteq> 0 \<Longrightarrow> set (concat (List.map snd m)) \<subseteq> set layers \<Longrightarrow>
   \<exists>s1. touches (set layers) (set pgs) s s1 \<and> s' = fail_match layers pgs s1"
proof (induction m arbitrary: z tot s)
  case (Cons zl m)
  obtain k lps where zl: "zl = (k, lps)" by fastforce
  obtain r s1 where p: "MatchPlane K E pgs lps z False s = (r, s1)" by fastforce
  have 1: "touches (set layers) (set pgs) s s1"
    by (rule touches_match_groups [OF p [unfolded MatchPlane_def]]) (use Cons.prems(3) zl in auto)
  show ?case
  proof (cases "s' = fail_match layers pgs s1")
    case True
    with 1 show ?thesis by blast
  next
    case False
    with Cons.prems(1) p zl obtain z' tot' where "match_map K E layers pgs z' tot' m s1 = (ret, s')"
      by (auto simp: Let_def split: if_splits)
    from Cons.IH [OF this Cons.prems(2)] Cons.prems(3) obtain s2 where
      "touches (set layers) (set pgs) s1 s2" "s' = fail_match layers pgs s2" by auto
    with touches_trans [OF 1] show ?thesis by blast
  qed
qed simp

lemma reset_layer_touched:
  assumes "same_layer l l'" "iDrmZpos l' = iDrmZpos l"
  shows "reset_layer b l' = reset_layer b l"
proof -
  have l: "l' = l\<lparr> bMatch := bMatch l', bAfbcd := bAfbcd l', iDrmZpos := iDrmZpos l' \<rparr>"
    and f: "\<not> bFbTarget l \<longrightarrow> bAfbcd l' = bAfbcd l" using assms(1) by (auto simp: same_layer_def)
  have "bFbTarget l' = bFbTarget l" by (subst l) simp
  with f assms(2) show ?thesis
    by (subst l, subst (2) l) (auto simp: reset_layer_def intro!: DrmHwcLayer.equality)
qed

lemma reset_group_touched:
  assumes "same_group g g'"
  shows "reset_group g' = reset_group g"
proof -
  have g: "g' = g\<lparr> gUse := gUse g', planes := planes g' \<rparr>" and p: "list_all2 same_plane (planes g) (planes g')"
    using assms by (auto simp: same_group_def)
  have "List.map (b_use_update (\<lambda>_. False)) (planes g') = List.map (b_use_update (\<lambda>_. False)) (planes g)"
    using p
  proof (induction rule: list_all2_induct)
    case (Cons x xs y ys)
    from Cons.hyps(1) have y: "y = x\<lparr> b_use := b_use y \<rparr>" by (simp add: same_plane_def)
    have "y\<lparr> b_use := False \<rparr> = x\<lparr> b_use := False \<rparr>" by (subst y) simp
    with Cons.IH show ?case by simp
  qed simp
  then show ?thesis by (subst g) (simp add: reset_group_def)
qed

text \<open>
  C16: A failed \<open>MatchPlanes\<close>, for layers that are in use and have distinct numbers, leaves nothing of
  the match behind.  The result is \<open>-1\<close> and the composition is empty.  Of each layer of the vector the
  mark of a match is cleared and, if it is an FB target, its compression mark is the one the state
  keeps for the FB target, whatever it was before or was made by the match; everything else is as it
  was, the place in the display too, and so is every layer outside the vector.  Of each group that
  was given all planes and the group are free and everything else is as it was, and the other groups
  are untouched.
\<close>

theorem MatchPlanes_failure:
  assumes "ready layers s" "MatchPlanes K E layers pgs s = Some (ret, s')" "ret \<noteq> 0"
  shows "ret = -1 \<and> comp s' = [] \<and>
    (\<forall>p. heap s' p =
       (if p \<in> set layers
        then (heap s p)\<lparr> bMatch := False,
               bAfbcd := (if bFbTarget (heap s p) then fbUseAfbc (st s) else bAfbcd (heap s p)) \<rparr>
        else heap s p)) \<and>
    (\<forall>g. gheap s' g =
       (if g \<in> set pgs
        then (gheap s g)\<lparr> planes := List.map (\<lambda>p. p\<lparr> b_use := False \<rparr>) (planes (gheap s g)), gUse := False \<rparr>
        else gheap s g))"
proof -
  define t where "t = (reset_all layers pgs s)\<lparr> comp := [] \<rparr>"
  obtain n m where C: "CombineLayer K (st t) (heap t) layers (length pgs) = Some (n, m)"
    and sub: "set (concat (List.map snd m)) \<subseteq> set layers" using match_start [OF assms(1) t_def] by metis
  obtain r s1 where M: "match_map K E layers pgs 0 0 m t = (r, s1)" by fastforce
  have "ret = r" "s' = s1" using assms(2,3) C M by (auto simp: MatchPlanes_def Let_def t_def split: if_splits)
  with match_map_fails [OF M _ sub] assms(3) obtain s2 where
    u: "touches (set layers) (set pgs) t s2" "s' = fail_match layers pgs s2" by blast
  have rl: "reset_layer (fbUseAfbc (st s2)) (heap s2 p) = reset_layer (fbUseAfbc (st s)) (heap s p)"
    if "p \<in> set layers" for p
  proof -
    have "same_layer (heap t p) (heap s2 p)" "iDrmZpos (heap s2 p) = iDrmZpos (heap t p)"
      "fbUseAfbc (st s2) = fbUseAfbc (st s)" using u(1) by (simp_all add: touches_def heap_frame_def t_def)
    with reset_layer_touched that show ?thesis by (simp add: t_def reset_layer_idem)
  qed
  have rg: "reset_group (gheap s2 g) = reset_group (gheap s g)" if "g \<in> set pgs" for g
  proof -
    have "same_group (gheap t g) (gheap s2 g)" using u(1) by (simp add: touches_def gheap_frame_def)
    from reset_group_touched [OF this] that show ?thesis by (simp add: t_def reset_group_idem)
  qed
  have o: "p \<notin> set layers \<Longrightarrow> heap s2 p = heap s p" "g \<notin> set pgs \<Longrightarrow> gheap s2 g = gheap s g" for p g
    using u(1) by (simp_all add: touches_def t_def)
  have "\<forall>p. heap s' p = (if p \<in> set layers then reset_layer (fbUseAfbc (st s)) (heap s p) else heap s p)"
    using rl o(1) by (simp add: u(2) fail_match_def)
  moreover have "\<forall>g. gheap s' g = (if g \<in> set pgs then reset_group (gheap s g) else gheap s g)"
    using rg o(2) by (simp add: u(2) fail_match_def)
  moreover have "comp s' = []" by (simp add: u(2) fail_match_def)
  moreover have "ret = -1" using MatchPlanes_cases [OF assms(1), of K E pgs] assms(2,3) by auto
  ultimately show ?thesis by (simp add: reset_layer_def reset_group_def)
qed

lemma MatchPlanes_failure_witness:
  "MatchPlanes sdk0 env0 [0] [] vop0 = Some (-1, fail_match [0] [] (scene {} {} [])) \<and>
   comp (fail_match [0] [] (scene {} {} [])) = []"
proof -
  obtain n z where C: "CombineLayer sdk0 sta0 (heap (scene {} {} [])) [0] 0
      = Some (n, [(z, [0])])"
    using CombineLayer_single [of "heap (scene {} {} [])" 0 sdk0 sta0] by fastforce
  then have res: "MatchPlanes sdk0 env0 [0] [] vop0 =
      Some (-1, fail_match [0] [] (scene {} {} []))"
    by (simp add: MatchPlanes_def reset_vop0 MatchPlane_def)
  have "ready [0] vop0" by (simp add: vop0_scene ready_scene)
  from MatchPlanes_failure [OF this res] res show ?thesis by simp
qed

text \<open>
  A group of layers that fits a plane group only in part leaves its entries and its planes
  behind when the next plane group is tried: \<open>MatchPlane\<close> reports success with one layer on
  two planes.  Here the layers 1 and 0 of one group are matched with the groups 0 and 1, and
  layer 1 ends on the first window of both.
\<close>

lemma MatchPlane_partial_leak:
  "\<exists>s'. MatchPlane sdk0 env0 [0, 1] [1, 0] 0 False vop0 = (0, s') \<and>
     List.map (\<lambda>e. (cp_plane e, cp_source e)) (comp s') =
       [((0, 0), 1), ((1, 0), 1), ((1, 1), 0)] \<and>
     b_use (plane_at (gheap s') (0, 0)) \<and> \<not> gUse (gheap s' 0)"
  by (simp add: MatchPlane_def vop0_scene scene_eval plane_at_scene)
    (simp add: groups_using_def plane_at_def group0_def)

end
