(* ===== verification/Vop_Lists.thy ===== *)
theory Vop_Lists
  imports Vop_Match
begin

text \<open>
  The vector operations of the policies (\<open>platform/rk3588/drmvop3588.cpp\<close>): setting the FB
  targets aside, taking a range of layers out and putting the FB targets in its place, and
  putting everything back in z-order.  Sorting an empty vector runs the iterator
  \<open>end() - 1\<close>, which is undefined behaviour, and is \<open>None\<close> here.
\<close>

definition is_fb :: "heap \<Rightarrow> lptr \<Rightarrow> bool" where
  "is_fb h p \<longleftrightarrow> bFbTarget (h p)"

text \<open>Numbering \<open>iDrmZpos\<close> along a vector.\<close>

fun number :: "int \<Rightarrow> lptr list \<Rightarrow> heap \<Rightarrow> heap" where
  "number zpos [] h = h"
| "number zpos (p # ps) h = number (zpos + 1) ps (upd p (iDrmZpos_update (\<lambda>_. zpos)) h)"

definition sort_layers :: "heap \<Rightarrow> lptr list \<Rightarrow> lptr list option" where
  "sort_layers h layers =
     (if layers = [] then None else Some (exchange_sort (\<lambda>p. iZpos (h p)) layers))"

definition ResetLayerFromTmpExceptFB ::
  "lptr list \<Rightarrow> lptr list \<Rightarrow> heap \<Rightarrow> (lptr list \<times> lptr list) option" where
  "ResetLayerFromTmpExceptFB layers tmp_layers h =
     (let layers1 = [p \<leftarrow> layers. \<not> is_fb h p];
          tmp1 = tmp_layers @ [p \<leftarrow> layers. is_fb h p];
          layers2 = layers1 @ [p \<leftarrow> tmp1. \<not> is_fb h p];
          tmp2 = [p \<leftarrow> tmp1. is_fb h p]
      in do { ls \<leftarrow> sort_layers h layers2; Some (ls, tmp2) })"

definition ResetLayerFromTmp ::
  "lptr list \<Rightarrow> lptr list \<Rightarrow> heap \<Rightarrow> lptr list option" where
  "ResetLayerFromTmp layers tmp_layers h = sort_layers h (layers @ tmp_layers)"

definition MoveFbToTmp ::
  "lptr list \<Rightarrow> lptr list \<Rightarrow> vop \<Rightarrow> lptr list \<times> lptr list \<times> vop" where
  "MoveFbToTmp layers tmp_layers s =
     (let layers1 = [p \<leftarrow> layers. \<not> is_fb (heap s) p];
          tmp1 = tmp_layers @ [p \<leftarrow> layers. is_fb (heap s) p]
      in (layers1, tmp1, s\<lparr> heap := number 0 tmp1 (number 0 layers1 (heap s)) \<rparr>))"

text \<open>
  \<open>interval\<close> is computed in \<open>size_t\<close> and stored in an \<open>int\<close>; for vectors shorter than
  \<open>2 ^ 31\<close> that is the integer difference.  In the last comparison \<open>layers.size() - 1\<close> stays
  unsigned.
\<close>

definition output_valid :: "int \<Rightarrow> int \<Rightarrow> lptr list \<Rightarrow> bool" where
  "output_valid iFirst iLast layers \<longleftrightarrow>
     (let interval = int (length layers) - 1 - iLast in
      \<not> (iFirst < 0 \<or> iLast < 0 \<or> iLast < iFirst \<or> interval < 0 \<or>
         to_size (int (length layers) - 1) < nat iLast))"

definition OutputMatchLayer ::
  "int \<Rightarrow> int \<Rightarrow> lptr list \<Rightarrow> lptr list \<Rightarrow> vop \<Rightarrow> lptr list \<times> lptr list \<times> vop" where
  "OutputMatchLayer iFirst iLast layers tmp_layers s =
     (if \<not> output_valid iFirst iLast layers then (layers, tmp_layers, s)
      else
       (let f = nat iFirst; l = nat iLast;
            tmp1 = tmp_layers @ take (Suc l - f) (drop f layers);
            layers1 = take f layers @ drop (Suc l) layers;
            fbs = [p \<leftarrow> tmp1. is_fb (heap s) p];
            layers2 = take f layers1 @ fbs @ drop f layers1;
            tmp2 = [p \<leftarrow> tmp1. \<not> is_fb (heap s) p]
        in (layers2, tmp2, s\<lparr> heap := number 0 layers2 (heap s) \<rparr>)))"

section \<open>Lemmas\<close>

lemma same_layer_zpos: "same_layer l (l\<lparr> iDrmZpos := z \<rparr>)"
  by (simp add: same_layer_def)

lemma heap_frame_number: "heap_frame h (number z ps h)"
proof (induction ps arbitrary: z h)
  case (Cons p ps)
  have "heap_frame h (upd p (iDrmZpos_update (\<lambda>_. z)) h)"
    by (rule heap_frame_upd) (simp add: same_layer_zpos)
  then show ?case unfolding number.simps using Cons.IH by (rule heap_frame_trans)
qed simp

lemma bMatch_number [simp]: "bMatch (number z ps h q) = bMatch (h q)"
proof (induction ps arbitrary: z h)
  case (Cons p ps)
  show ?case unfolding number.simps Cons.IH by simp
qed simp

lemma number_notin: "q \<notin> set ps \<Longrightarrow> number z ps h q = h q"
proof (induction ps arbitrary: z h)
  case (Cons p ps)
  then have "number (z + 1) ps (upd p (iDrmZpos_update (\<lambda>_. z)) h) q
      = upd p (iDrmZpos_update (\<lambda>_. z)) h q" by simp
  with Cons.prems show ?case by simp
qed simp

lemma iDrmZpos_number:
  "distinct ps \<Longrightarrow> i < length ps \<Longrightarrow> iDrmZpos (number z ps h (ps ! i)) = z + int i"
proof (induction ps arbitrary: z h i)
  case (Cons p ps)
  let ?h = "upd p (iDrmZpos_update (\<lambda>_. z)) h"
  show ?case
  proof (cases i)
    case 0
    have "number (z + 1) ps ?h p = ?h p" by (rule number_notin) (use Cons.prems in simp)
    with 0 show ?thesis by simp
  next
    case (Suc j)
    have "iDrmZpos (number (z + 1) ps ?h (ps ! j)) = z + 1 + int j"
      by (rule Cons.IH) (use Cons.prems Suc in auto)
    with Suc show ?thesis by simp
  qed
qed simp

lemma numbered_inj:
  assumes "distinct ps"
  shows "inj_on (\<lambda>p. iDrmZpos (number z ps h p)) (set ps)"
proof (rule inj_onI)
  fix p q assume "p \<in> set ps" "q \<in> set ps"
    "iDrmZpos (number z ps h p) = iDrmZpos (number z ps h q)"
  moreover from this obtain i j where "i < length ps" "p = ps ! i" "j < length ps" "q = ps ! j"
    by (auto simp: in_set_conv_nth)
  ultimately show "p = q" using iDrmZpos_number [OF assms] by simp
qed

lemma frame_number: "frame s (s\<lparr> heap := number z ps (heap s) \<rparr>)"
  by (simp add: frame_def heap_frame_number)

lemma is_fb_frame: "heap_frame h h' \<Longrightarrow> is_fb h' = is_fb h"
  by (rule ext) (simp add: is_fb_def heap_frame_fields)

lemma mset_filter_split: "mset (filter (\<lambda>p. \<not> P p) xs) + mset (filter P xs) = mset xs"
  by (induction xs) auto

lemma output_valid_bounds:
  "output_valid f l layers \<Longrightarrow> 0 \<le> f \<and> f \<le> l \<and> nat l < length layers"
  by (auto simp: output_valid_def Let_def)

text \<open>The range that leaves and the two pieces that stay make up the vector.\<close>

lemma mset_range:
  assumes "f \<le> l" "l < length xs"
  shows "mset (take (Suc l - f) (drop f xs)) + mset (take f xs @ drop (Suc l) xs) = mset xs"
proof -
  have "xs = take f xs @ take (Suc l - f) (drop f xs) @ drop (Suc l) xs"
    using assms by (metis (no_types, lifting) append_take_drop_id drop_drop le_SucI
        le_add_diff_inverse2)
  then have "mset xs = mset (take f xs @ take (Suc l - f) (drop f xs) @ drop (Suc l) xs)"
    by simp
  then show ?thesis by simp
qed

lemma mset_Output:
  assumes "OutputMatchLayer f l layers tmp s = (layers', tmp', s')"
  shows "mset layers' + mset tmp' = mset layers + mset tmp"
proof (cases "output_valid f l layers")
  case False
  with assms show ?thesis by (simp add: OutputMatchLayer_def)
next
  case True
  let ?f = "nat f" and ?l = "nat l"
  let ?tmp1 = "tmp @ take (Suc ?l - ?f) (drop ?f layers)"
  let ?layers1 = "take ?f layers @ drop (Suc ?l) layers"
  have fl: "?f \<le> ?l" "?l < length layers" using output_valid_bounds [OF True] by auto
  have r: "layers' = take ?f ?layers1 @ [p \<leftarrow> ?tmp1. is_fb (heap s) p] @ drop ?f ?layers1"
    "tmp' = [p \<leftarrow> ?tmp1. \<not> is_fb (heap s) p]"
    using assms True by (auto simp: OutputMatchLayer_def Let_def)
  have "mset layers' = mset ?layers1 + mset [p \<leftarrow> ?tmp1. is_fb (heap s) p]"
  proof -
    have "mset ?layers1 = mset (take ?f ?layers1) + mset (drop ?f ?layers1)"
      by (metis append_take_drop_id mset_append)
    then show ?thesis unfolding r by (simp add: union_ac)
  qed
  moreover have "mset [p \<leftarrow> ?tmp1. is_fb (heap s) p] + mset tmp' = mset ?tmp1"
    unfolding r(2) using mset_filter_split [of "is_fb (heap s)" ?tmp1]
    by (simp only: union_commute)
  ultimately have "mset layers' + mset tmp' = mset ?layers1 + mset ?tmp1"
    by (simp only: union_assoc)
  also have "\<dots> = mset layers + mset tmp" using mset_range [OF fl] by (simp add: union_ac)
  finally show ?thesis .
qed

lemma Output_frame:
  assumes "OutputMatchLayer f l layers tmp s = (layers', tmp', s')"
  shows "frame s s'" "bMatch (heap s' p) = bMatch (heap s p)"
  using assms frame_number by (auto simp: OutputMatchLayer_def Let_def split: if_splits)

text \<open>With the FB targets set aside, a valid range brings all of them into the vector.\<close>

lemma Output_valid:
  assumes "OutputMatchLayer f l layers tmp s = (layers', tmp', s')" "output_valid f l layers"
    and "\<forall>p \<in> set layers. \<not> is_fb (heap s) p" "\<forall>p \<in> set tmp. is_fb (heap s) p"
  shows "layers' = take (nat f) layers @ tmp @ drop (Suc (nat l)) layers"
    "tmp' = take (Suc (nat l) - nat f) (drop (nat f) layers)"
    "heap s' = number 0 layers' (heap s)"
proof -
  have fl: "nat f \<le> nat l" "nat l < length layers" using output_valid_bounds [OF assms(2)] by auto
  have rng: "filter (is_fb (heap s)) (take n (drop m layers)) = []"
    "filter (\<lambda>p. \<not> is_fb (heap s) p) (take n (drop m layers)) = take n (drop m layers)" for n m
    using assms(3) by (auto simp: filter_empty_conv filter_id_conv dest: in_set_takeD in_set_dropD)
  have tm: "filter (is_fb (heap s)) tmp = tmp" "filter (\<lambda>p. \<not> is_fb (heap s) p) tmp = []"
    using assms(4) by (auto simp: filter_empty_conv filter_id_conv)
  show "layers' = take (nat f) layers @ tmp @ drop (Suc (nat l)) layers"
    "tmp' = take (Suc (nat l) - nat f) (drop (nat f) layers)"
    "heap s' = number 0 layers' (heap s)"
    using assms(1,2) fl by (auto simp: OutputMatchLayer_def Let_def rng tm min_def)
qed

lemma Output_invalid:
  "OutputMatchLayer f l layers tmp s = (layers', tmp', s') \<Longrightarrow> \<not> output_valid f l layers \<Longrightarrow>
   layers' = layers \<and> tmp' = tmp \<and> s' = s"
  by (simp add: OutputMatchLayer_def)

lemma MoveFb_parts:
  assumes "MoveFbToTmp layers [] s = (layers', tmp', s')"
  shows "layers' = [p \<leftarrow> layers. \<not> is_fb (heap s) p]" "tmp' = [p \<leftarrow> layers. is_fb (heap s) p]"
    "mset layers' + mset tmp' = mset layers" "frame s s'"
    "bMatch (heap s' p) = bMatch (heap s p)"
proof -
  have r: "layers' = [p \<leftarrow> layers. \<not> is_fb (heap s) p]" "tmp' = [p \<leftarrow> layers. is_fb (heap s) p]"
    "s' = s\<lparr> heap := number 0 tmp' (number 0 layers' (heap s)) \<rparr>"
    using assms by (auto simp: MoveFbToTmp_def Let_def)
  show "layers' = [p \<leftarrow> layers. \<not> is_fb (heap s) p]" "tmp' = [p \<leftarrow> layers. is_fb (heap s) p]"
    by (fact r)+
  show "mset layers' + mset tmp' = mset layers" unfolding r(1,2) by (rule mset_filter_split)
  show "bMatch (heap s' p) = bMatch (heap s p)" unfolding r(3) by simp
  show "frame s s'" unfolding r(3)
    using heap_frame_trans [OF heap_frame_number heap_frame_number] by (simp add: frame_def)
qed

lemma sort_layers_Some:
  "layers \<noteq> [] \<Longrightarrow> \<exists>ls. sort_layers h layers = Some ls \<and> mset ls = mset layers \<and>
     sorted (List.map (\<lambda>p. iZpos (h p)) ls)"
  by (simp add: sort_layers_def esort.perm esort.ordered)

lemma ResetLayerFromTmp_Some:
  "layers @ tmp \<noteq> [] \<Longrightarrow> \<exists>ls. ResetLayerFromTmp layers tmp h = Some ls \<and>
     mset ls = mset layers + mset tmp \<and> sorted (List.map (\<lambda>p. iZpos (h p)) ls)"
  using sort_layers_Some [of "layers @ tmp" h] by (simp add: ResetLayerFromTmp_def)

lemma ExceptFB_Some:
  assumes "\<exists>p \<in> set (layers @ tmp). \<not> is_fb h p"
  shows "\<exists>ls tp. ResetLayerFromTmpExceptFB layers tmp h = Some (ls, tp) \<and>
     mset ls + mset tp = mset layers + mset tmp \<and>
     (\<forall>p \<in> set ls. \<not> is_fb h p) \<and> (\<forall>p \<in> set tp. is_fb h p) \<and>
     sorted (List.map (\<lambda>p. iZpos (h p)) ls)"
proof -
  let ?tmp1 = "tmp @ [p \<leftarrow> layers. is_fb h p]"
  let ?l2 = "[p \<leftarrow> layers. \<not> is_fb h p] @ [p \<leftarrow> ?tmp1. \<not> is_fb h p]"
  have ne: "?l2 \<noteq> []" using assms by (auto simp: filter_empty_conv)
  obtain ls where ls: "sort_layers h ?l2 = Some ls" "mset ls = mset ?l2"
    "sorted (List.map (\<lambda>p. iZpos (h p)) ls)"
    using sort_layers_Some [OF ne] by blast
  have "set ls = set ?l2" using ls(2) by (metis set_mset_mset)
  moreover have "mset ls + mset [p \<leftarrow> ?tmp1. is_fb h p] = mset layers + mset tmp"
    unfolding ls(2)
    using mset_filter_split [of "is_fb h" layers] mset_filter_split [of "is_fb h" ?tmp1]
    by (simp add: union_ac)
  ultimately show ?thesis
    using ls by (auto simp: ResetLayerFromTmpExceptFB_def Let_def)
qed

end
