(* ===== verification/Vop_Policy.thy ===== *)
theory Vop_Policy
  imports Vop_Lists
begin

text \<open>
  The policies of \<open>platform/rk3588/drmvop3588.cpp\<close>.  Each tries to place layers on planes,
  some of them several times with a growing range of layers left to the GPU and the FB target
  in their place.  A policy takes the vector of layers and returns its code, the vector and the
  state; \<open>None\<close> is a run that does not return or hits undefined behaviour, and the theorems
  show that there is none on layers that are in use.

  What the policies share is their contract, the locale \<open>hwc_policy\<close>; every policy is an
  interpretation of it.
\<close>

section \<open>One attempt, and the loops that widen the range\<close>

definition start_policy ::
  "lptr list \<Rightarrow> gptr list \<Rightarrow> vop \<Rightarrow> lptr list \<times> lptr list \<times> vop" where
  "start_policy layers plane_groups s =
     MoveFbToTmp layers [] (ResetPlaneGroups plane_groups (ResetLayer layers s))"

type_synonym run = "int \<times> lptr list \<times> lptr list \<times> vop"

text \<open>\<open>OutputMatchLayer(first, second, \<dots>)\<close> followed by \<open>MatchPlanes\<close>.\<close>

definition attempt ::
  "sdk \<Rightarrow> env \<Rightarrow> gptr list \<Rightarrow> int \<Rightarrow> int \<Rightarrow> lptr list \<Rightarrow> lptr list \<Rightarrow> vop \<Rightarrow> run option" where
  "attempt K E pgs first second layers tmp s = do {
     let (ly, tp, s1) = OutputMatchLayer first second layers tmp s;
     (ret, s2) \<leftarrow> MatchPlanes K E ly pgs s1;
     Some (ret, ly, tp, s2)
   }"

definition restore :: "run \<Rightarrow> run option" where
  "restore r = (case r of (ret, ly, tp, s) \<Rightarrow> do {
     (ly', tp') \<leftarrow> ResetLayerFromTmpExceptFB ly tp (heap s);
     Some (ret, ly', tp', s)
   })"

text \<open>
  An attempt that, when it fails, is followed by \<open>ResetLayerFromTmpExceptFB\<close>: the body of
  every retry loop, and the first attempt of the policies that retry.
\<close>

definition attempt_restore ::
  "sdk \<Rightarrow> env \<Rightarrow> gptr list \<Rightarrow> int \<Rightarrow> int \<Rightarrow> lptr list \<Rightarrow> lptr list \<Rightarrow> vop \<Rightarrow> run option" where
  "attempt_restore K E pgs first second layers tmp s = do {
     r \<leftarrow> attempt K E pgs first second layers tmp s;
     (if fst r = 0 then Some r else restore r)
   }"

text \<open>\<open>for(; first >= low; --first)\<close>, with the result of the attempt before it.\<close>

partial_function (option) retry_down ::
  "sdk \<Rightarrow> env \<Rightarrow> gptr list \<Rightarrow> int \<Rightarrow> int \<Rightarrow> int \<Rightarrow> run \<Rightarrow> run option" where
  "retry_down K E pgs low first second r =
     (case r of (ret, ly, tp, s) \<Rightarrow>
        if low \<le> first then do {
          r' \<leftarrow> attempt_restore K E pgs first second ly tp s;
          (if fst r' = 0 then Some r' else retry_down K E pgs low (first - 1) second r')
        }
        else Some r)"

text \<open>\<open>for(; second < layers.size(); second++)\<close>.\<close>

partial_function (option) retry_up ::
  "sdk \<Rightarrow> env \<Rightarrow> gptr list \<Rightarrow> int \<Rightarrow> int \<Rightarrow> run \<Rightarrow> run option" where
  "retry_up K E pgs first second r =
     (case r of (ret, ly, tp, s) \<Rightarrow>
        if second < int (length ly) then do {
          r' \<leftarrow> attempt_restore K E pgs first second ly tp s;
          (if fst r' = 0 then Some r' else retry_up K E pgs first (second + 1) r')
        }
        else Some r)"

text \<open>The common end: the layers as they are after a success, all of them back otherwise.\<close>

definition finish :: "run \<Rightarrow> (int \<times> lptr list \<times> vop) option" where
  "finish r = (case r of (ret, ly, tp, s) \<Rightarrow>
     if ret = 0 then Some (0, ly, s)
     else do { ly' \<leftarrow> ResetLayerFromTmp ly tp (heap s); Some (ret, ly', s) })"

section \<open>The policies\<close>

type_synonym policy = "lptr list \<Rightarrow> vop \<Rightarrow> (int \<times> lptr list \<times> vop) option"

definition TryOverlayPolicy :: "sdk \<Rightarrow> env \<Rightarrow> gptr list \<Rightarrow> policy" where
  "TryOverlayPolicy K E pgs layers s = do {
     let (ly, tp, s1) = start_policy layers pgs s;
     (ret, s2) \<leftarrow> MatchPlanes K E ly pgs s1;
     finish (if ret = 0 then 0 else -1, ly, tp, s2)
   }"

text \<open>The last layer the loop sees decides; \<open>break\<close> in the accelerate policy makes it the first.\<close>

definition sideband_index :: "vop \<Rightarrow> lptr list \<Rightarrow> int" where
  "sideband_index s layers =
     fold (\<lambda>p i. if bSidebandStreamLayer (heap s p) then iDrmZpos (heap s p) else i) layers (-1)"

definition accelerate_index :: "vop \<Rightarrow> lptr list \<Rightarrow> int" where
  "accelerate_index s layers =
     (case List.find (\<lambda>p. bAccelerateLayer (heap s p)) layers of
        None \<Rightarrow> -1 | Some p \<Rightarrow> iDrmZpos (heap s p))"

definition TryGlesSidebandPolicy :: "sdk \<Rightarrow> env \<Rightarrow> gptr list \<Rightarrow> policy" where
  "TryGlesSidebandPolicy K E pgs layers s = do {
     let (ly, tp, s1) = start_policy layers pgs s;
     let sideband = sideband_index s1 ly;
     (if sideband \<noteq> 0 then finish (-1, ly, tp, s1)
      else do {
        let (first, second) =
          (if 1 \<le> to_size (int (length ly) - 1)
           then (sideband + 1, int (length ly) - 1) else (-1, -1));
        r \<leftarrow> attempt K E pgs first second ly tp s1;
        finish r
      })
   }"

definition TryAcceleratePolicy :: "sdk \<Rightarrow> env \<Rightarrow> gptr list \<Rightarrow> policy" where
  "TryAcceleratePolicy K E pgs layers s = do {
     let (ly, tp, s1) = start_policy layers pgs s;
     let accelerate = accelerate_index s1 ly;
     let (first, second) =
       (if 2 \<le> length ly
        then (accelerate - 2, if length ly = 2 then accelerate - 2 else accelerate - 1)
        else (-1, -1));
     r \<leftarrow> attempt_restore K E pgs first second ly tp s1;
     r' \<leftarrow> (if fst r = 0 then Some r else retry_down K E pgs 0 (first - 1) second r);
     finish r'
   }"

definition TryMixSidebandPolicy :: "sdk \<Rightarrow> env \<Rightarrow> gptr list \<Rightarrow> policy" where
  "TryMixSidebandPolicy K E pgs layers s = do {
     let (ly, tp, s1) = start_policy layers pgs s;
     let sideband = sideband_index s1 ly;
     let (first, second) =
       (if 2 \<le> length ly then (sideband + 1, sideband + 1) else (-1, -1));
     r \<leftarrow> attempt_restore K E pgs first second ly tp s1;
     r' \<leftarrow> (if fst r = 0 then Some r else retry_up K E pgs first (second + 1) r);
     finish r'
   }"

text \<open>First and last index of a layer that must be composed by the GPU.\<close>

fun skip_indices :: "heap \<Rightarrow> int \<Rightarrow> lptr list \<Rightarrow> int \<times> int \<Rightarrow> int \<times> int" where
  "skip_indices h i [] fl = fl"
| "skip_indices h i (p # ps) (first, second) =
     (if \<not> bSkipLayer (h p) \<and> \<not> bGlesCompose (h p)
      then skip_indices h (i + 1) ps (first, second)
      else skip_indices h (i + 1) ps (if first = -1 then i else first, i))"

definition TryMixSkipPolicy :: "sdk \<Rightarrow> env \<Rightarrow> gptr list \<Rightarrow> policy" where
  "TryMixSkipPolicy K E pgs layers s = do {
     let (ly, tp, s1) = start_policy layers pgs s;
     let (first, second) = skip_indices (heap s1) 0 ly (-1, -1);
     (if first = -1 then finish (-1, ly, tp, s1)
      else do {
        r \<leftarrow> attempt_restore K E pgs first second ly tp s1;
        r1 \<leftarrow> (if fst r = 0 then Some r else retry_up K E pgs first (second + 1) r);
        r2 \<leftarrow> (if fst r1 = 0 then Some r1
               else retry_down K E pgs 0 (first - 1) (int (length (fst (snd r1))) - 1) r1);
        finish r2
      })
   }"

text \<open>
  The common start of the video and the up policy.  \<open>layers.size() - 2 <= 0\<close> is unsigned, so
  it holds for two layers only.
\<close>

definition upper_range :: "lptr list \<Rightarrow> int \<times> int" where
  "upper_range ly =
     ((if int (length ly) < 4
       then (if to_size (int (length ly) - 2) \<le> 0 then 1 else int (length ly) - 2)
       else 3),
      int (length ly) - 1)"

definition upper_policy :: "sdk \<Rightarrow> env \<Rightarrow> gptr list \<Rightarrow> policy" where
  "upper_policy K E pgs layers s = do {
     let (ly, tp, s1) = start_policy layers pgs s;
     let (first, second) = upper_range ly;
     r \<leftarrow> attempt_restore K E pgs first second ly tp s1;
     r' \<leftarrow> (if fst r = 0 then Some r else retry_down K E pgs 1 (first - 1) second r);
     finish r'
   }"

definition TryMixVideoPolicy :: "sdk \<Rightarrow> env \<Rightarrow> gptr list \<Rightarrow> policy" where
  "TryMixVideoPolicy K E pgs layers s = upper_policy K E pgs layers s"

text \<open>The up policy also counts planes, but only for a log message.\<close>

definition TryMixUpPolicy :: "sdk \<Rightarrow> env \<Rightarrow> gptr list \<Rightarrow> policy" where
  "TryMixUpPolicy K E pgs layers s = upper_policy K E pgs layers s"

definition TryMixDownPolicy :: "sdk \<Rightarrow> env \<Rightarrow> gptr list \<Rightarrow> policy" where
  "TryMixDownPolicy K E pgs layers s = do {
     let (ly, tp, s1) = start_policy layers pgs s;
     r \<leftarrow> attempt_restore K E pgs 0 0 ly tp s1;
     r' \<leftarrow> (if fst r = 0 then Some r else retry_up K E pgs 0 1 r);
     finish r'
   }"

text \<open>The ladder of the mix policy.\<close>

definition else_try ::
  "(int \<times> lptr list \<times> vop) option \<Rightarrow> bool \<Rightarrow> policy \<Rightarrow> (int \<times> lptr list \<times> vop) option" where
  "else_try r enabled pol = do {
     (ret, ly, s) \<leftarrow> r;
     (if ret = 0 \<or> \<not> enabled then Some (ret, ly, s) else pol ly s)
   }"

definition TryMixPolicy :: "sdk \<Rightarrow> env \<Rightarrow> gptr list \<Rightarrow> policy" where
  "TryMixPolicy K E pgs layers s =
     (let has = (\<lambda>m. policy_count m (st s)) in
      if has HWC_SIDEBAND_POLICY then TryMixSidebandPolicy K E pgs layers s
      else
       (let r1 = else_try (Some (-1, layers, s)) (has HWC_ACCELERATE_POLICY)
                   (TryAcceleratePolicy K E pgs)
        in if has HWC_MIX_SKIP_POLICY
           then else_try r1 True (TryMixSkipPolicy K E pgs)
           else
            (let r2 = else_try r1 (has HWC_MIX_VIDEO_POLICY) (TryMixVideoPolicy K E pgs);
                 r3 = else_try r2 (has HWC_MIX_UP_POLICY) (TryMixUpPolicy K E pgs);
                 r4 = else_try r3 (has HWC_MIX_DOWN_POLICY) (TryMixDownPolicy K E pgs);
                 r5 = else_try r4 (has HWC_MIX_DOWN_POLICY) (TryMixDownPolicy K E pgs)
             in do { (ret, ly, s') \<leftarrow> r5; Some (if ret = 0 then 0 else -1, ly, s') })))"

definition over_scaled :: "DrmHwcLayer \<Rightarrow> bool" where
  "over_scaled l \<longleftrightarrow>
     4 < fHScaleMul l \<or> fHScaleMul l < 1 / 4 \<or> 4 < fVScaleMul l \<or> fVScaleMul l < 1 / 4"

text \<open>The AFBC decision for the one FB target.\<close>

definition gles_afbc :: "env \<Rightarrow> lptr list \<Rightarrow> vop \<Rightarrow> vop" where
  "gles_afbc E fb_target s =
     (if length fb_target = 1 then
        (let fb = fb_target ! 0 in
         if 0 < sAfbcdCnt (support s) then
           (let disable = (0 < no_afbc_for_fb_target E \<or> over_scaled (heap s fb))
            in s\<lparr> st := (st s)\<lparr> bDisableFBAfbcd := disable \<rparr>,
                 heap := upd fb (bAfbcd_update (\<lambda>_. \<not> disable)) (heap s) \<rparr>)
         else s\<lparr> heap := upd fb (bAfbcd_update (\<lambda>_. False)) (heap s) \<rparr>)
      else s)"

definition TryGLESPolicy :: "sdk \<Rightarrow> env \<Rightarrow> gptr list \<Rightarrow> policy" where
  "TryGLESPolicy K E pgs layers s = do {
     let (ly, fb_target, s1) = start_policy layers pgs s;
     let s2 = gles_afbc E fb_target s1;
     (ret, s3) \<leftarrow> MatchPlanes K E fb_target pgs s2;
     ly' \<leftarrow> ResetLayerFromTmp ly fb_target (heap s3);
     Some (if ret = 0 then 0 else -1, ly', s3)
   }"

end
