(* ===== verification/Vop_Contract.thy ===== *)
theory Vop_Contract
  imports Vop_Policy
begin

text \<open>
  The contract every policy keeps, and the proof that each policy of \<open>Vop_Policy\<close> keeps it.

  On layers in use a policy returns.  With \<open>0\<close> there is a set \<open>M\<close> of layers that \<open>MatchPlanes\<close>
  has placed on planes; exactly these are marked matched, and \<open>M\<close> contains every layer of
  the application, or else the FB targets, which show the layers the GPU composes.  With
  another code, which is \<open>-1\<close>, all layers are back in the vector, in z-order, none is marked
  and every plane is free.
\<close>

section \<open>Outcomes\<close>

definition free_groups :: "gptr list \<Rightarrow> vop \<Rightarrow> bool" where
  "free_groups pgs s \<longleftrightarrow>
     (\<forall>g \<in> set pgs. \<not> gUse (gheap s g) \<and> (\<forall>p \<in> set (planes (gheap s g)). \<not> b_use p))"

definition success ::
  "sdk \<Rightarrow> env \<Rightarrow> gptr list \<Rightarrow> lptr list \<Rightarrow> lptr list \<Rightarrow> vop \<Rightarrow> bool" where
  "success K E pgs L L' s \<longleftrightarrow>
     mset L' \<subseteq># mset L \<and>
     (\<exists>M. set M \<subseteq> set L' \<and> matched K E pgs M s \<and>
        (\<forall>p \<in> set L. bMatch (heap s p) \<longleftrightarrow> p \<in> set M) \<and>
        ((\<forall>p \<in> set L. \<not> is_fb (heap s) p \<longrightarrow> p \<in> set M) \<or>
         (\<forall>p \<in> set L. is_fb (heap s) p \<longrightarrow> p \<in> set M)))"

definition cleared :: "gptr list \<Rightarrow> lptr list \<Rightarrow> vop \<Rightarrow> vop \<Rightarrow> bool" where
  "cleared pgs L s s' \<longleftrightarrow>
     (\<forall>p \<in> set L. \<not> bMatch (heap s' p)) \<and> free_groups pgs s' \<and>
     (comp s' = [] \<or> comp s' = comp s)"

definition failure :: "gptr list \<Rightarrow> lptr list \<Rightarrow> lptr list \<Rightarrow> vop \<Rightarrow> vop \<Rightarrow> bool" where
  "failure pgs L L' s s' \<longleftrightarrow>
     mset L' = mset L \<and>
     (L' = L \<and> s' = s \<or>
      sorted (List.map (\<lambda>p. iZpos (heap s' p)) L') \<and> cleared pgs L s s')"

definition outcome ::
  "sdk \<Rightarrow> env \<Rightarrow> gptr list \<Rightarrow> lptr list \<Rightarrow> vop \<Rightarrow> int \<times> lptr list \<times> vop \<Rightarrow> bool" where
  "outcome K E pgs L s r \<longleftrightarrow>
     (case r of (ret, L', s') \<Rightarrow>
        frame s s' \<and>
        (if ret = 0 then success K E pgs L L' s' else ret = -1 \<and> failure pgs L L' s s'))"

lemma cleared_trans:
  "set L = set L' \<Longrightarrow> cleared pgs L s t \<Longrightarrow> cleared pgs L' t u \<Longrightarrow> cleared pgs L s u"
  by (auto simp: cleared_def)

lemma failure_trans:
  assumes "failure pgs L L' s t" "failure pgs L' L'' t u"
  shows "failure pgs L L'' s u"
proof -
  have m: "mset L' = mset L" "mset L'' = mset L" using assms by (auto simp: failure_def)
  then have L: "set L = set L'" by (metis set_mset_mset)
  consider "L'' = L'" "u = t"
    | "sorted (List.map (\<lambda>p. iZpos (heap u p)) L'')" "cleared pgs L' t u"
    using assms(2) unfolding failure_def by blast
  then show ?thesis
  proof cases
    case 1
    with assms(1) show ?thesis by simp
  next
    case 2
    have "cleared pgs L s u"
      using assms(1) 2(2) L cleared_trans [OF L _ 2(2)] unfolding failure_def
      by (metis cleared_def)
    with 2(1) m show ?thesis unfolding failure_def by blast
  qed
qed

lemma success_mset: "mset L = mset L' \<Longrightarrow> success K E pgs L M s = success K E pgs L' M s"
  using mset_eq_setD [of L L'] by (simp add: success_def)

lemma ready_mset:
  assumes "ready L s" "mset L' = mset L"
  shows "ready L' s"
proof -
  have "mset (List.map (\<lambda>p. uId (heap s p)) L') = mset (List.map (\<lambda>p. uId (heap s p)) L)"
    using assms(2) by simp
  then have "distinct (List.map (\<lambda>p. uId (heap s p)) L')"
    using assms(1) mset_eq_imp_distinct_iff
    unfolding ready_def distinct_layers_def by blast
  moreover have "set L' = set L" using assms(2) by (metis set_mset_mset)
  ultimately show ?thesis using assms(1) by (simp add: ready_def distinct_layers_def)
qed

lemma outcome_chain:
  assumes "outcome K E pgs L s (ret, L', t)" "ret \<noteq> 0" "outcome K E pgs L' t r"
  shows "outcome K E pgs L s r"
proof -
  have f: "failure pgs L L' s t" "frame s t" using assms(1,2) by (auto simp: outcome_def)
  have st: "mset L = mset L'" using f(1) by (simp add: failure_def)
  show ?thesis
    using assms(3) f failure_trans [OF f(1)] frame_trans [OF f(2)] success_mset [OF st]
    by (auto simp: outcome_def split: if_splits)
qed

section \<open>The contract\<close>

locale hwc_policy =
  fixes K :: sdk and E :: env and pgs :: "gptr list" and pol :: policy
  assumes contract: "ready L s \<Longrightarrow> L \<noteq> [] \<Longrightarrow> \<exists>r. pol L s = Some r \<and> outcome K E pgs L s r"
begin

lemma total: "ready L s \<Longrightarrow> L \<noteq> [] \<Longrightarrow> pol L s \<noteq> None"
  using contract [of L s] by auto

lemma sound:
  assumes "ready L s" "L \<noteq> []" "pol L s = Some (0, L', s')"
  shows "frame s s'" "success K E pgs L L' s'"
  using contract [OF assms(1,2)] assms(3) by (auto simp: outcome_def)

lemma undone:
  assumes "ready L s" "L \<noteq> []" "pol L s = Some (ret, L', s')" "ret \<noteq> 0"
  shows "frame s s'" "ret = -1" "failure pgs L L' s s'" "ready L' s'" "L' \<noteq> []"
proof -
  show f: "frame s s'" "ret = -1" "failure pgs L L' s s'"
    using contract [OF assms(1,2)] assms(3,4) by (auto simp: outcome_def)
  have "mset L' = mset L" using f(3) by (simp add: failure_def)
  then show "ready L' s'" "L' \<noteq> []"
    using ready_mset [OF ready_frame [OF f(1) assms(1)]] assms(2) by auto
qed

text \<open>The next rung of a ladder of policies.\<close>

lemma else_try_outcome:
  assumes "ready L s" "L \<noteq> []" "\<exists>x. r = Some x \<and> outcome K E pgs L s x"
  shows "\<exists>y. else_try r enabled pol = Some y \<and> outcome K E pgs L s y"
proof -
  obtain ret L' t where r: "r = Some (ret, L', t)" "outcome K E pgs L s (ret, L', t)"
    using assms(3) by auto
  show ?thesis
  proof (cases "ret = 0 \<or> \<not> enabled")
    case True
    with r show ?thesis by (simp add: else_try_def)
  next
    case False
    then have f: "frame s t" "failure pgs L L' s t" "ret \<noteq> 0"
      using r(2) by (auto simp: outcome_def)
    have m: "mset L' = mset L" using f(2) by (simp add: failure_def)
    have "ready L' t" "L' \<noteq> []"
      using ready_mset [OF ready_frame [OF f(1) assms(1)] m] m assms(2) by auto
    then obtain y where "pol L' t = Some y" "outcome K E pgs L' t y" using contract by blast
    with False r outcome_chain [OF r(2) f(3)] show ?thesis by (auto simp: else_try_def)
  qed
qed

end

section \<open>The state between two attempts\<close>

text \<open>
  \<open>parted\<close>: the layers of \<open>L\<close> are split into those without an FB target and the FB targets,
  nothing is marked or in use, and the frame of the policy holds.
\<close>

definition parted ::
  "gptr list \<Rightarrow> lptr list \<Rightarrow> vop \<Rightarrow> lptr list \<Rightarrow> lptr list \<Rightarrow> vop \<Rightarrow> bool" where
  "parted pgs L s0 ly tp s \<longleftrightarrow>
     frame s0 s \<and> mset ly + mset tp = mset L \<and>
     (\<forall>p \<in> set ly. \<not> is_fb (heap s) p) \<and> (\<forall>p \<in> set tp. is_fb (heap s) p) \<and>
     cleared pgs L s0 s"

lemma parted_length:
  assumes "parted pgs L s0 ly tp s"
  shows "length ly = length [p \<leftarrow> L. \<not> is_fb (heap s0) p]"
proof -
  have fb: "is_fb (heap s) = is_fb (heap s0)"
    using assms is_fb_frame by (auto simp: parted_def frame_def)
  have f: "[p \<leftarrow> ly. \<not> is_fb (heap s0) p] = ly" "[p \<leftarrow> tp. \<not> is_fb (heap s0) p] = []"
    using assms fb by (auto simp: parted_def filter_id_conv filter_empty_conv)
  have "mset [p \<leftarrow> L. \<not> is_fb (heap s0) p] =
      filter_mset (\<lambda>p. \<not> is_fb (heap s0) p) (mset ly + mset tp)"
    using assms by (simp add: parted_def)
  also have "\<dots> = mset [p \<leftarrow> ly. \<not> is_fb (heap s0) p] + mset [p \<leftarrow> tp. \<not> is_fb (heap s0) p]"
    by simp
  finally have "mset [p \<leftarrow> L. \<not> is_fb (heap s0) p] = mset ly" unfolding f by simp
  then show ?thesis by (metis size_mset)
qed

lemma ready_part:
  assumes "ready L s" "mset ly + mset tp = mset L"
  shows "ready ly s"
proof -
  have "ready (ly @ tp) s" by (rule ready_mset [OF assms(1)]) (simp add: assms(2))
  then show ?thesis by (auto simp: ready_def distinct_layers_def)
qed

lemma set_part: "mset ly + mset tp = mset L \<Longrightarrow> set L = set ly \<union> set tp"
  by (metis set_mset_mset set_mset_union)

lemma start_parted:
  assumes "start_policy L pgs s = (ly, tp, s1)"
  shows "parted pgs L s ly tp s1"
proof -
  let ?t = "reset_all L pgs s"
  have m: "MoveFbToTmp L [] ?t = (ly, tp, s1)"
    using assms by (simp add: start_policy_def reset_all_def)
  note p = MoveFb_parts [OF m]
  have fb: "is_fb (heap s1) = is_fb (heap ?t)"
    using p(4) is_fb_frame by (auto simp: frame_def)
  have "gheap s1 = gheap ?t" "comp s1 = comp s"
    using m by (auto simp: MoveFbToTmp_def Let_def)
  then have "free_groups pgs s1" "comp s1 = comp s"
    by (auto simp: free_groups_def reset_group_def)
  moreover have "\<forall>p \<in> set L. \<not> bMatch (heap s1 p)" by (simp add: p(5) reset_layer_def)
  moreover have "\<forall>p \<in> set ly. \<not> is_fb (heap s1) p" "\<forall>p \<in> set tp. is_fb (heap s1) p"
    unfolding p(1,2) fb by auto
  ultimately show ?thesis
    using frame_trans [OF frame_reset_all p(4)] p(3) by (simp add: parted_def cleared_def)
qed

text \<open>What an attempt on parted layers gives.\<close>

lemma attempt_cases:
  assumes r: "ready L s0" and p: "parted pgs L s0 ly tp s"
  shows "\<exists>ret ly' tp' s'. attempt K E pgs f l ly tp s = Some (ret, ly', tp', s') \<and>
     frame s0 s' \<and> mset ly' + mset tp' = mset L \<and>
     (ret = 0 \<and> success K E pgs L ly' s' \<or>
      ret = -1 \<and> cleared pgs L s0 s' \<and> (\<exists>q \<in> set L. \<not> is_fb (heap s') q))"
proof -
  obtain ly' tp' s1 where o: "OutputMatchLayer f l ly tp s = (ly', tp', s1)"
    by (metis prod_cases3)
  have fs: "frame s0 s1" using p Output_frame(1) [OF o] frame_trans by (auto simp: parted_def)
  have m: "mset ly' + mset tp' = mset L" using mset_Output [OF o] p by (simp add: parted_def)
  have sL: "set L = set ly' \<union> set tp'" by (rule set_part [OF m])
  have rdy: "ready ly' s1" by (rule ready_part [OF ready_frame [OF fs r] m])
  have um: "\<not> bMatch (heap s1 q)" if "q \<in> set L" for q
    using p Output_frame(2) [OF o] that by (auto simp: parted_def cleared_def)
  obtain ret s2 where mp: "MatchPlanes K E ly' pgs s1 = Some (ret, s2)" "frame s1 s2"
    "marks_outside ly' s1 s2"
    "ret = 0 \<and> matched K E pgs ly' s2 \<or> ret = -1 \<and> released ly' pgs s2"
    using MatchPlanes_cases [OF rdy, of K E pgs] by blast
  have f2: "frame s0 s2" by (rule frame_trans [OF fs mp(2)])
  have fb: "is_fb (heap s2) = is_fb (heap s1)" "is_fb (heap s2) = is_fb (heap s)"
    using mp(2) f2 p is_fb_frame unfolding parted_def frame_def by metis+
  have att: "attempt K E pgs f l ly tp s = Some (ret, ly', tp', s2)"
    by (simp add: attempt_def o mp(1) Let_def)
  have cover: "(\<forall>q \<in> set L. \<not> is_fb (heap s2) q \<longrightarrow> q \<in> set ly') \<or>
      (\<forall>q \<in> set L. is_fb (heap s2) q \<longrightarrow> q \<in> set ly') \<and> ly \<noteq> []"
  proof (cases "output_valid f l ly")
    case False
    with Output_invalid [OF o] p fb(2) set_part [of ly tp L] show ?thesis
      by (auto simp: parted_def)
  next
    case True
    have "set tp \<subseteq> set ly'" using Output_valid(1) [OF o True] p by (auto simp: parted_def)
    moreover have "ly \<noteq> []" using output_valid_bounds [OF True] by auto
    ultimately show ?thesis using p fb(2) set_part [of ly tp L] by (auto simp: parted_def)
  qed
  from mp(4) show ?thesis
  proof
    assume a: "ret = 0 \<and> matched K E pgs ly' s2"
    have "bMatch (heap s2 q) \<longleftrightarrow> q \<in> set ly'" if "q \<in> set L" for q
      using a um [OF that] mp(3) by (auto simp: matched_def marks_outside_def)
    moreover have "mset ly' \<subseteq># mset L" unfolding m [symmetric] by simp
    ultimately have "success K E pgs L ly' s2"
      using a cover sL unfolding success_def by blast
    with att a f2 m show ?thesis by blast
  next
    assume a: "ret = -1 \<and> released ly' pgs s2"
    have "\<not> bMatch (heap s2 q)" if "q \<in> set L" for q
      using a um [OF that] mp(3) by (auto simp: released_def marks_outside_def)
    with a have c: "cleared pgs L s0 s2"
      by (auto simp: cleared_def released_def free_groups_def)
    have "\<exists>q \<in> set L. \<not> is_fb (heap s2) q"
    proof (cases "ly = []")
      case False
      then have "hd ly \<in> set ly" by simp
      with p fb(2) set_part [of ly tp L] show ?thesis by (auto simp: parted_def)
    next
      case True
      have "\<not> output_valid f l ly" using output_valid_bounds [of f l ly] True by auto
      then have "ly' = []" "s1 = s" using Output_invalid [OF o] True by auto
      then have "ret = 0" using mp(1) by (simp add: MatchPlanes_def CombineLayer_empty)
      with a show ?thesis by simp
    qed
    with att a f2 m c show ?thesis by blast
  qed
qed

lemma attempt_restore_cases:
  assumes r: "ready L s0" and p: "parted pgs L s0 ly tp s"
  shows "\<exists>ret ly' tp' s'. attempt_restore K E pgs f l ly tp s = Some (ret, ly', tp', s') \<and>
     frame s0 s' \<and>
     (ret = 0 \<and> success K E pgs L ly' s' \<or> ret = -1 \<and> parted pgs L s0 ly' tp' s')"
proof -
  obtain ret ly' tp' s' where a: "attempt K E pgs f l ly tp s = Some (ret, ly', tp', s')"
    "frame s0 s'" "mset ly' + mset tp' = mset L"
    "ret = 0 \<and> success K E pgs L ly' s' \<or>
      ret = -1 \<and> cleared pgs L s0 s' \<and> (\<exists>q \<in> set L. \<not> is_fb (heap s') q)"
    using attempt_cases [OF assms, of K E f l] by blast
  from a(4) show ?thesis
  proof
    assume "ret = 0 \<and> success K E pgs L ly' s'"
    with a show ?thesis by (simp add: attempt_restore_def)
  next
    assume c: "ret = -1 \<and> cleared pgs L s0 s' \<and> (\<exists>q \<in> set L. \<not> is_fb (heap s') q)"
    then have "\<exists>q \<in> set (ly' @ tp'). \<not> is_fb (heap s') q" using set_part [OF a(3)] by auto
    from ExceptFB_Some [OF this] obtain l2 t2 where
      "ResetLayerFromTmpExceptFB ly' tp' (heap s') = Some (l2, t2)"
      "mset l2 + mset t2 = mset ly' + mset tp'"
      "\<forall>p \<in> set l2. \<not> is_fb (heap s') p" "\<forall>p \<in> set t2. is_fb (heap s') p" by blast
    with a c show ?thesis by (auto simp: attempt_restore_def restore_def parted_def)
  qed
qed

text \<open>The result of a policy before \<open>finish\<close>.\<close>

definition run_ok ::
  "sdk \<Rightarrow> env \<Rightarrow> gptr list \<Rightarrow> lptr list \<Rightarrow> vop \<Rightarrow> run \<Rightarrow> bool" where
  "run_ok K E pgs L s0 r \<longleftrightarrow>
     (case r of (ret, ly, tp, s) \<Rightarrow>
        frame s0 s \<and>
        (ret = 0 \<and> success K E pgs L ly s \<or> ret = -1 \<and> parted pgs L s0 ly tp s))"

lemma attempt_restore_run:
  assumes "ready L s0" "parted pgs L s0 ly tp s"
  shows "\<exists>r. attempt_restore K E pgs f l ly tp s = Some r \<and> run_ok K E pgs L s0 r"
  using attempt_restore_cases [OF assms, of K E f l] by (auto simp: run_ok_def)

lemma run_ok_nonzero:
  "run_ok K E pgs L s0 (ret, ly, tp, s) \<Longrightarrow> ret \<noteq> 0 \<Longrightarrow> ret = -1 \<and> parted pgs L s0 ly tp s"
  by (auto simp: run_ok_def)

lemma retry_down_run:
  assumes "ready L s0" "run_ok K E pgs L s0 r" "fst r \<noteq> 0"
  shows "\<exists>r'. retry_down K E pgs low first second r = Some r' \<and> run_ok K E pgs L s0 r'"
  using assms(2,3)
proof (induction "nat (first - low + 1)" arbitrary: first r)
  case 0
  then show ?case by (cases r) (simp add: retry_down.simps)
next
  case (Suc n)
  obtain ret ly tp s where r: "r = (ret, ly, tp, s)" by (metis prod_cases4)
  have p: "parted pgs L s0 ly tp s" using run_ok_nonzero Suc.prems r by fastforce
  obtain r1 where r1: "attempt_restore K E pgs first second ly tp s = Some r1"
    "run_ok K E pgs L s0 r1" using attempt_restore_run [OF assms(1) p] by blast
  have low: "low \<le> first" "n = nat (first - 1 - low + 1)" using Suc.hyps(2) by auto
  show ?case
  proof (cases "fst r1 = 0")
    case True
    with r r1 low show ?thesis by (simp add: retry_down.simps [of K E pgs low first])
  next
    case False
    from Suc.hyps(1) [OF low(2) r1(2) False] r r1 low False show ?thesis
      by (simp add: retry_down.simps [of K E pgs low first])
  qed
qed

lemma retry_up_run:
  assumes "ready L s0" "run_ok K E pgs L s0 r" "fst r \<noteq> 0"
  shows "\<exists>r'. retry_up K E pgs first second r = Some r' \<and> run_ok K E pgs L s0 r'"
  using assms(2,3)
proof (induction "nat (int (length [p \<leftarrow> L. \<not> is_fb (heap s0) p]) - second)"
       arbitrary: second r)
  case 0
  obtain ret ly tp s where r: "r = (ret, ly, tp, s)" by (metis prod_cases4)
  have p: "parted pgs L s0 ly tp s" using run_ok_nonzero "0.prems" r by fastforce
  then show ?case using "0.hyps" "0.prems" r parted_length [OF p] by (simp add: retry_up.simps)
next
  case (Suc n)
  obtain ret ly tp s where r: "r = (ret, ly, tp, s)" by (metis prod_cases4)
  have p: "parted pgs L s0 ly tp s" using run_ok_nonzero Suc.prems r by fastforce
  obtain r1 where r1: "attempt_restore K E pgs first second ly tp s = Some r1"
    "run_ok K E pgs L s0 r1" using attempt_restore_run [OF assms(1) p] by blast
  have up: "second < int (length ly)"
    "n = nat (int (length [p \<leftarrow> L. \<not> is_fb (heap s0) p]) - (second + 1))"
    using Suc.hyps(2) parted_length [OF p] by auto
  show ?case
  proof (cases "fst r1 = 0")
    case True
    with r r1 up show ?thesis by (simp add: retry_up.simps [of K E pgs first second])
  next
    case False
    from Suc.hyps(1) [OF up(2) r1(2) False] r r1 up False show ?thesis
      by (simp add: retry_up.simps [of K E pgs first second])
  qed
qed

lemma finish_outcome:
  assumes "ready L s0" "L \<noteq> []" "run_ok K E pgs L s0 r"
  shows "\<exists>x. finish r = Some x \<and> outcome K E pgs L s0 x"
proof -
  obtain ret ly tp s where r: "r = (ret, ly, tp, s)" by (metis prod_cases4)
  show ?thesis
  proof (cases "ret = 0")
    case True
    with assms(3) r show ?thesis by (simp add: finish_def outcome_def run_ok_def)
  next
    case False
    then have p: "ret = -1" "parted pgs L s0 ly tp s" "frame s0 s"
      using assms(3) r by (auto simp: run_ok_def)
    have "ly @ tp \<noteq> []" using p(2) assms(2) by (auto simp: parted_def)
    from ResetLayerFromTmp_Some [OF this, of "heap s"] obtain l2 where
      "ResetLayerFromTmp ly tp (heap s) = Some l2" "mset l2 = mset ly + mset tp"
      "sorted (List.map (\<lambda>p. iZpos (heap s p)) l2)" by blast
    with p r show ?thesis by (auto simp: finish_def outcome_def failure_def parted_def)
  qed
qed

lemma parted_run: "parted pgs L s0 ly tp s \<Longrightarrow> run_ok K E pgs L s0 (-1, ly, tp, s)"
  by (simp add: run_ok_def parted_def)

lemma ready_parted: "ready L s0 \<Longrightarrow> parted pgs L s0 ly tp s \<Longrightarrow> ready L s"
  by (auto simp: parted_def intro: ready_frame)

section \<open>Every policy keeps the contract\<close>

lemma TryOverlayPolicy_outcome:
  assumes "ready L s" "L \<noteq> []"
  shows "\<exists>r. TryOverlayPolicy K E pgs L s = Some r \<and> outcome K E pgs L s r"
proof -
  obtain ly tp s1 where st: "start_policy L pgs s = (ly, tp, s1)" by (metis prod_cases3)
  note p = start_parted [OF st]
  have inv: "\<not> output_valid (-1) (-1) ly" by (simp add: output_valid_def Let_def)
  have at: "attempt K E pgs (-1) (-1) ly tp s1 =
      do { (ret, s2) \<leftarrow> MatchPlanes K E ly pgs s1; Some (ret, ly, tp, s2) }"
    by (simp add: attempt_def OutputMatchLayer_def inv)
  obtain ret ly' tp' s2 where a: "attempt K E pgs (-1) (-1) ly tp s1 = Some (ret, ly', tp', s2)"
    "frame s s2" "mset ly' + mset tp' = mset L"
    "ret = 0 \<and> success K E pgs L ly' s2 \<or> ret = -1 \<and> cleared pgs L s s2"
    using attempt_cases [OF assms(1) p, of K E "-1" "-1"] by blast
  from a(1) at have mp: "MatchPlanes K E ly pgs s1 = Some (ret, s2)" "ly' = ly" "tp' = tp"
    by (auto simp: Option.bind_eq_Some_conv split: prod.splits)
  have "ly @ tp \<noteq> []" using a(3) mp(2,3) assms(2) by auto
  from ResetLayerFromTmp_Some [OF this, of "heap s2"] obtain l2 where
    "ResetLayerFromTmp ly tp (heap s2) = Some l2" "mset l2 = mset ly + mset tp"
    "sorted (List.map (\<lambda>p. iZpos (heap s2 p)) l2)" by blast
  with st mp a show ?thesis
    by (auto simp: TryOverlayPolicy_def finish_def outcome_def failure_def Let_def)
qed

text \<open>Parted layers stay parted when nothing but the result code is added.\<close>

lemma attempt_finish:
  assumes "ready L s0" "L \<noteq> []" "parted pgs L s0 ly tp s"
  shows "\<exists>x. (do { r \<leftarrow> attempt K E pgs f l ly tp s; finish r }) = Some x \<and>
     outcome K E pgs L s0 x"
proof -
  obtain ret ly' tp' s' where a: "attempt K E pgs f l ly tp s = Some (ret, ly', tp', s')"
    "frame s0 s'" "mset ly' + mset tp' = mset L"
    "ret = 0 \<and> success K E pgs L ly' s' \<or> ret = -1 \<and> cleared pgs L s0 s'"
    using attempt_cases [OF assms(1,3), of K E f l] by blast
  have "ly' @ tp' \<noteq> []" using a(3) assms(2) by auto
  from ResetLayerFromTmp_Some [OF this, of "heap s'"] obtain l2 where
    "ResetLayerFromTmp ly' tp' (heap s') = Some l2" "mset l2 = mset ly' + mset tp'"
    "sorted (List.map (\<lambda>p. iZpos (heap s' p)) l2)" by blast
  with a show ?thesis by (auto simp: finish_def outcome_def failure_def)
qed

lemma TryGlesSidebandPolicy_outcome:
  assumes "ready L s" "L \<noteq> []"
  shows "\<exists>r. TryGlesSidebandPolicy K E pgs L s = Some r \<and> outcome K E pgs L s r"
proof -
  obtain ly tp s1 where st: "start_policy L pgs s = (ly, tp, s1)" by (metis prod_cases3)
  note p = start_parted [OF st]
  show ?thesis
    using finish_outcome [OF assms parted_run [OF p], of K E] attempt_finish [OF assms p, of K E]
    by (simp add: TryGlesSidebandPolicy_def st Let_def)
qed

text \<open>First attempt, retry loop, end.\<close>

lemma attempt_retry_finish:
  assumes "ready L s0" "L \<noteq> []" "parted pgs L s0 ly tp s"
    and "\<And>r. run_ok K E pgs L s0 r \<Longrightarrow> fst r \<noteq> 0 \<Longrightarrow>
           \<exists>r'. loop r = Some r' \<and> run_ok K E pgs L s0 r'"
  shows "\<exists>x. (do { r \<leftarrow> attempt_restore K E pgs f l ly tp s;
               r' \<leftarrow> (if fst r = 0 then Some r else loop r); finish r' }) = Some x \<and>
     outcome K E pgs L s0 x"
proof -
  obtain r where r: "attempt_restore K E pgs f l ly tp s = Some r" "run_ok K E pgs L s0 r"
    using attempt_restore_run [OF assms(1,3)] by blast
  obtain r' where r': "(if fst r = 0 then Some r else loop r) = Some r'" "run_ok K E pgs L s0 r'"
    using r(2) assms(4) [OF r(2)] by (cases "fst r = 0") auto
  from finish_outcome [OF assms(1,2) r'(2)] r r' show ?thesis by simp
qed

lemma TryAcceleratePolicy_outcome:
  assumes "ready L s" "L \<noteq> []"
  shows "\<exists>r. TryAcceleratePolicy K E pgs L s = Some r \<and> outcome K E pgs L s r"
proof -
  obtain ly tp s1 where st: "start_policy L pgs s = (ly, tp, s1)" by (metis prod_cases3)
  show ?thesis
    using attempt_retry_finish [OF assms start_parted [OF st] retry_down_run [OF assms(1)]]
    by (simp add: TryAcceleratePolicy_def st Let_def)
qed

lemma TryMixSidebandPolicy_outcome:
  assumes "ready L s" "L \<noteq> []"
  shows "\<exists>r. TryMixSidebandPolicy K E pgs L s = Some r \<and> outcome K E pgs L s r"
proof -
  obtain ly tp s1 where st: "start_policy L pgs s = (ly, tp, s1)" by (metis prod_cases3)
  show ?thesis
    using attempt_retry_finish [OF assms start_parted [OF st] retry_up_run [OF assms(1)]]
    by (simp add: TryMixSidebandPolicy_def st Let_def)
qed

lemma upper_policy_outcome:
  assumes "ready L s" "L \<noteq> []"
  shows "\<exists>r. upper_policy K E pgs L s = Some r \<and> outcome K E pgs L s r"
proof -
  obtain ly tp s1 where st: "start_policy L pgs s = (ly, tp, s1)" by (metis prod_cases3)
  show ?thesis
    using attempt_retry_finish [OF assms start_parted [OF st] retry_down_run [OF assms(1)]]
    by (simp add: upper_policy_def upper_range_def st Let_def)
qed

lemma TryMixDownPolicy_outcome:
  assumes "ready L s" "L \<noteq> []"
  shows "\<exists>r. TryMixDownPolicy K E pgs L s = Some r \<and> outcome K E pgs L s r"
proof -
  obtain ly tp s1 where st: "start_policy L pgs s = (ly, tp, s1)" by (metis prod_cases3)
  show ?thesis
    using attempt_retry_finish [OF assms start_parted [OF st] retry_up_run [OF assms(1)]]
    by (simp add: TryMixDownPolicy_def st Let_def)
qed

lemma TryMixSkipPolicy_outcome:
  assumes "ready L s" "L \<noteq> []"
  shows "\<exists>r. TryMixSkipPolicy K E pgs L s = Some r \<and> outcome K E pgs L s r"
proof -
  obtain ly tp s1 where st: "start_policy L pgs s = (ly, tp, s1)" by (metis prod_cases3)
  note p = start_parted [OF st]
  obtain first second where fs: "skip_indices (heap s1) 0 ly (-1, -1) = (first, second)"
    by fastforce
  obtain r where r: "attempt_restore K E pgs first second ly tp s1 = Some r"
    "run_ok K E pgs L s r" using attempt_restore_run [OF assms(1) p] by blast
  obtain r1 where r1: "(if fst r = 0 then Some r else retry_up K E pgs first (second + 1) r)
      = Some r1" "run_ok K E pgs L s r1"
    using r(2) retry_up_run [OF assms(1) r(2), where first = first and second = "second + 1"]
    by (cases "fst r = 0") fastforce+
  obtain r2 where r2: "(if fst r1 = 0 then Some r1
      else retry_down K E pgs 0 (first - 1) (int (length (fst (snd r1))) - 1) r1) = Some r2"
      "run_ok K E pgs L s r2"
    using r1(2) retry_down_run [OF assms(1) r1(2), where low = 0 and first = "first - 1" and
      second = "int (length (fst (snd r1))) - 1"]
    by (cases "fst r1 = 0") fastforce+
  show ?thesis
    using finish_outcome [OF assms parted_run [OF p], of K E] finish_outcome [OF assms r2(2)]
      r r1(1) r2(1) by (simp add: TryMixSkipPolicy_def st fs Let_def)
qed

lemma gles_afbc_frame:
  assumes "\<forall>p \<in> set fb_target. is_fb (heap s) p"
  shows "frame s (gles_afbc E fb_target s)" "bMatch (heap (gles_afbc E fb_target s) q)
    = bMatch (heap s q)"
proof -
  have fb: "length fb_target = 1 \<Longrightarrow> bFbTarget (heap s (fb_target ! 0))"
    using assms by (cases fb_target) (auto simp: is_fb_def)
  show "frame s (gles_afbc E fb_target s)"
    by (auto simp: gles_afbc_def Let_def frame_def same_layer_def fb intro!: heap_frame_upd)
  show "bMatch (heap (gles_afbc E fb_target s) q) = bMatch (heap s q)"
    by (simp add: gles_afbc_def Let_def)
qed

text \<open>The policy of the GPU always has all layers back, and clears what it could not match.\<close>

lemma TryGLESPolicy_cases:
  assumes r: "ready L s" and ne: "L \<noteq> []"
  shows "\<exists>ret L' s'. TryGLESPolicy K E pgs L s = Some (ret, L', s') \<and> frame s s' \<and>
     mset L' = mset L \<and> sorted (List.map (\<lambda>p. iZpos (heap s' p)) L') \<and>
     (ret = 0 \<and> success K E pgs L L' s' \<or> ret = -1 \<and> cleared pgs L s s')"
proof -
  obtain ly fb s1 where st: "start_policy L pgs s = (ly, fb, s1)" by (metis prod_cases3)
  note p = start_parted [OF st]
  let ?s2 = "gles_afbc E fb s1"
  have fbs: "\<forall>p \<in> set fb. is_fb (heap s1) p" and m: "mset fb + mset ly = mset L"
    and f1: "frame s s1" using p by (auto simp: parted_def union_commute)
  have f2: "frame s ?s2" by (rule frame_trans [OF f1 gles_afbc_frame(1) [OF fbs]])
  have rdy: "ready fb ?s2" by (rule ready_part [OF ready_frame [OF f2 r] m])
  have um: "\<not> bMatch (heap ?s2 q)" if "q \<in> set L" for q
    using p that gles_afbc_frame(2) [OF fbs] by (auto simp: parted_def cleared_def)
  obtain ret s3 where mp: "MatchPlanes K E fb pgs ?s2 = Some (ret, s3)" "frame ?s2 s3"
    "marks_outside fb ?s2 s3"
    "ret = 0 \<and> matched K E pgs fb s3 \<or> ret = -1 \<and> released fb pgs s3"
    using MatchPlanes_cases [OF rdy, of K E pgs] by blast
  have f3: "frame s s3" by (rule frame_trans [OF f2 mp(2)])
  have fbeq: "is_fb (heap s3) = is_fb (heap s1)"
    using f1 f3 is_fb_frame unfolding frame_def by metis
  have "ly @ fb \<noteq> []" using m ne by auto
  from ResetLayerFromTmp_Some [OF this, of "heap s3"] obtain l2 where
    l2: "ResetLayerFromTmp ly fb (heap s3) = Some l2" "mset l2 = mset ly + mset fb"
    "sorted (List.map (\<lambda>p. iZpos (heap s3 p)) l2)" by blast
  have ml: "mset l2 = mset L" using l2(2) m by (simp add: union_commute)
  then have sl: "set l2 = set L" by (metis set_mset_mset)
  have sL: "set L = set fb \<union> set ly" by (rule set_part [OF m])
  have res: "TryGLESPolicy K E pgs L s = Some (if ret = 0 then 0 else -1, l2, s3)"
    by (simp add: TryGLESPolicy_def st Let_def mp(1) l2(1))
  from mp(4) show ?thesis
  proof
    assume a: "ret = 0 \<and> matched K E pgs fb s3"
    have mk: "bMatch (heap s3 q) \<longleftrightarrow> q \<in> set fb" if "q \<in> set L" for q
      using a um [OF that] mp(3) by (auto simp: matched_def marks_outside_def)
    have cv: "\<forall>q \<in> set L. is_fb (heap s3) q \<longrightarrow> q \<in> set fb"
      using p sL fbeq by (auto simp: parted_def)
    have "success K E pgs L l2 s3"
      unfolding success_def by (rule conjI, use ml in simp, intro exI [of _ fb] conjI)
        (use a mk cv sl sL in auto)
    with res a f3 ml l2(3) show ?thesis by simp
  next
    assume a: "ret = -1 \<and> released fb pgs s3"
    have "\<not> bMatch (heap s3 q)" if "q \<in> set L" for q
      using a um [OF that] mp(3) by (auto simp: released_def marks_outside_def)
    with a have "cleared pgs L s s3" by (auto simp: cleared_def released_def free_groups_def)
    with res a f3 ml l2(3) show ?thesis by simp
  qed
qed

lemma TryGLESPolicy_outcome:
  assumes "ready L s" "L \<noteq> []"
  shows "\<exists>r. TryGLESPolicy K E pgs L s = Some r \<and> outcome K E pgs L s r"
proof -
  obtain ret L' s' where t: "TryGLESPolicy K E pgs L s = Some (ret, L', s')" "frame s s'"
    "mset L' = mset L" "sorted (List.map (\<lambda>p. iZpos (heap s' p)) L')"
    "ret = 0 \<and> success K E pgs L L' s' \<or> ret = -1 \<and> cleared pgs L s s'"
    using TryGLESPolicy_cases [OF assms, of K E pgs] by blast
  then have "outcome K E pgs L s (ret, L', s')" by (auto simp: outcome_def failure_def)
  with t(1) show ?thesis by blast
qed

interpretation overlay: hwc_policy K E pgs "TryOverlayPolicy K E pgs" for K E pgs
  by unfold_locales (rule TryOverlayPolicy_outcome)

interpretation gles_sideband: hwc_policy K E pgs "TryGlesSidebandPolicy K E pgs" for K E pgs
  by unfold_locales (rule TryGlesSidebandPolicy_outcome)

interpretation accelerate: hwc_policy K E pgs "TryAcceleratePolicy K E pgs" for K E pgs
  by unfold_locales (rule TryAcceleratePolicy_outcome)

interpretation mix_sideband: hwc_policy K E pgs "TryMixSidebandPolicy K E pgs" for K E pgs
  by unfold_locales (rule TryMixSidebandPolicy_outcome)

interpretation mix_skip: hwc_policy K E pgs "TryMixSkipPolicy K E pgs" for K E pgs
  by unfold_locales (rule TryMixSkipPolicy_outcome)

interpretation mix_video: hwc_policy K E pgs "TryMixVideoPolicy K E pgs" for K E pgs
  by unfold_locales (unfold TryMixVideoPolicy_def, rule upper_policy_outcome)

interpretation mix_up: hwc_policy K E pgs "TryMixUpPolicy K E pgs" for K E pgs
  by unfold_locales (unfold TryMixUpPolicy_def, rule upper_policy_outcome)

interpretation mix_down: hwc_policy K E pgs "TryMixDownPolicy K E pgs" for K E pgs
  by unfold_locales (rule TryMixDownPolicy_outcome)

interpretation gles: hwc_policy K E pgs "TryGLESPolicy K E pgs" for K E pgs
  by unfold_locales (rule TryGLESPolicy_outcome)

text \<open>The mix policy is a ladder of the others, and keeps the contract because they do.\<close>

lemma outcome_start: "outcome K E pgs L s (-1, L, s)"
  by (simp add: outcome_def failure_def)

lemma TryMixPolicy_outcome:
  assumes "ready L s" "L \<noteq> []"
  shows "\<exists>r. TryMixPolicy K E pgs L s = Some r \<and> outcome K E pgs L s r"
proof -
  let ?has = "\<lambda>m. policy_count m (st s)"
  define r1 where "r1 = else_try (Some (-1, L, s)) (?has HWC_ACCELERATE_POLICY)
      (TryAcceleratePolicy K E pgs)"
  define r2 where "r2 = else_try r1 (?has HWC_MIX_VIDEO_POLICY) (TryMixVideoPolicy K E pgs)"
  define r3 where "r3 = else_try r2 (?has HWC_MIX_UP_POLICY) (TryMixUpPolicy K E pgs)"
  define r4 where "r4 = else_try r3 (?has HWC_MIX_DOWN_POLICY) (TryMixDownPolicy K E pgs)"
  define r5 where "r5 = else_try r4 (?has HWC_MIX_DOWN_POLICY) (TryMixDownPolicy K E pgs)"
  have 1: "\<exists>x. r1 = Some x \<and> outcome K E pgs L s x"
    unfolding r1_def by (rule accelerate.else_try_outcome [OF assms]) (use outcome_start in blast)
  have 2: "\<exists>x. r2 = Some x \<and> outcome K E pgs L s x"
    unfolding r2_def by (rule mix_video.else_try_outcome [OF assms 1])
  have 3: "\<exists>x. r3 = Some x \<and> outcome K E pgs L s x"
    unfolding r3_def by (rule mix_up.else_try_outcome [OF assms 2])
  have 4: "\<exists>x. r4 = Some x \<and> outcome K E pgs L s x"
    unfolding r4_def by (rule mix_down.else_try_outcome [OF assms 3])
  have 5: "\<exists>x. r5 = Some x \<and> outcome K E pgs L s x"
    unfolding r5_def by (rule mix_down.else_try_outcome [OF assms 4])
  have eq: "TryMixPolicy K E pgs L s =
      (if ?has HWC_SIDEBAND_POLICY then TryMixSidebandPolicy K E pgs L s
       else if ?has HWC_MIX_SKIP_POLICY then else_try r1 True (TryMixSkipPolicy K E pgs)
       else do { (ret, ly, s') \<leftarrow> r5; Some (if ret = 0 then 0 else -1, ly, s') })"
    by (simp add: TryMixPolicy_def r1_def r2_def r3_def r4_def r5_def Let_def)
  obtain ret ly t where "r5 = Some (ret, ly, t)" "outcome K E pgs L s (ret, ly, t)"
    using 5 by auto
  then show ?thesis
    unfolding eq using mix_sideband.contract [OF assms] mix_skip.else_try_outcome [OF assms 1]
    by (auto simp: outcome_def)
qed

interpretation mix: hwc_policy K E pgs "TryMixPolicy K E pgs" for K E pgs
  by unfold_locales (rule TryMixPolicy_outcome)

end
