(* ===== verification/Vop_Context.thy ===== *)
theory Vop_Context
  imports Vop_Match
begin

text \<open>
  Preparing a frame (\<open>platform/rk3588/drmvop3588.cpp\<close>): which layers must be composed by the
  GPU, what the layers request, what the planes support, what the display mode forbids, and
  which policies are worth trying.
\<close>

section \<open>Start-up\<close>

definition vop_Init :: "env \<Rightarrow> sta_ctx \<Rightarrow> sta_ctx" where
  "vop_Init E c =
     c\<lparr> bMultiAreaEnable := hwc_get_bool_property (pget E) (Some ''vendor.hwc.multi_area_enable'')
          (Some ''true''),
        bMultiAreaScaleEnable := hwc_get_bool_property (pget E)
          (Some ''vendor.hwc.multi_area_scale_mode'') (Some ''true''),
        bRgaPolicyEnable := 0 < hwc_get_int_property (pget E)
          (Some ''vendor.hwc.enable_rga_policy'') (Some ''1''),
        iVopMaxOverlay4KPlane := hwc_get_int_property (pget E)
          (Some ''vendor.hwc.vop_max_overlay_4k_plane'') (Some ''0''),
        accelerate_app_name := the (snd (hwc_get_string_property (pget E)
          (Some ''vendor.hwc.accelerate_app_name'') (Some ''rk_handwrite_sf''))) \<rparr>"

section \<open>Layers for the GPU\<close>

definition CheckGLESLayer :: "sdk \<Rightarrow> DrmHwcLayer \<Rightarrow> bool" where
  "CheckGLESLayer K l =
     (if input_w l < 4 \<or> input_h l < 4 \<or> output_w l < 4 \<or> output_h l < 4 then True
      else if transform l = 0xFFFFFFFF then True
      else if bYuv l \<and> eDataSpace l AND HAL_DATASPACE_STANDARD_BT709 K \<noteq> 0 \<and>
              eDataSpace l AND HAL_DATASPACE_RANGE_FULL K \<noteq> 0 \<and> \<not> bSidebandStreamLayer l
      then True
      else (case sf_composition l of
              SolidColor \<Rightarrow> True
            | Client \<Rightarrow> (if bYuv l \<and> sf_handle l \<noteq> 0 then False else True)
            | _ \<Rightarrow> False))"

section \<open>What the layers request\<close>

definition reset_request :: "req_ctx \<Rightarrow> req_ctx" where
  "reset_request r =
     r\<lparr> frame_no := frame_no r + 1,
        iAfbcdCnt := 0, iAfbcdScaleCnt := 0, iAfbcdYuvCnt := 0, iAfcbdLargeYuvCnt := 0,
        iAfbcdRotateCnt := 0, iAfbcdHdrCnt := 0,
        iScaleCnt := 0, iYuvCnt := 0, iLargeYuvCnt := 0, iSkipCnt := 0, iRotateCnt := 0,
        iHdrCnt := 0, bSidebandStreamMode := False, accelerate_app_exist := False \<rparr>"

definition inc_if :: "bool \<Rightarrow> int \<Rightarrow> int" where
  "inc_if b n = (if b then n + 1 else n)"

definition count_afbcd :: "sdk \<Rightarrow> DrmHwcLayer \<Rightarrow> req_ctx \<Rightarrow> req_ctx" where
  "count_afbcd K l r =
     r\<lparr> iAfbcdCnt := iAfbcdCnt r + 1,
        iAfbcdScaleCnt := inc_if (bScale l) (iAfbcdScaleCnt r),
        iAfbcdYuvCnt := inc_if (bYuv l) (iAfbcdYuvCnt r),
        iAfcbdLargeYuvCnt := inc_if (bYuv l \<and> (2048 < iWidth l \<or> bHdr l \<or> 2048 < output_w l))
                               (iAfcbdLargeYuvCnt r),
        iAfbcdRotateCnt := inc_if (transform l \<noteq> DRM_MODE_ROTATE_0 K) (iAfbcdRotateCnt r),
        iAfbcdHdrCnt := inc_if (bHdr l) (iAfbcdHdrCnt r) \<rparr>"

definition count_linear :: "sdk \<Rightarrow> DrmHwcLayer \<Rightarrow> req_ctx \<Rightarrow> req_ctx" where
  "count_linear K l r =
     r\<lparr> iCnt := iCnt r + 1,
        iScaleCnt := inc_if (bScale l) (iScaleCnt r),
        iYuvCnt := inc_if (bYuv l) (iYuvCnt r),
        iLargeYuvCnt := inc_if (bYuv l \<and> 2048 < iWidth l) (iLargeYuvCnt r),
        iRotateCnt := inc_if (transform l \<noteq> DRM_MODE_ROTATE_0 K) (iRotateCnt r),
        iHdrCnt := inc_if (bHdr l) (iHdrCnt r) \<rparr>"

definition request_layer :: "sdk \<Rightarrow> string \<Rightarrow> lptr \<Rightarrow> req_ctx \<times> heap \<Rightarrow> req_ctx \<times> heap" where
  "request_layer K app p rh =
     (case rh of (r, h0) \<Rightarrow>
       let h = upd p (\<lambda>l. l\<lparr> bGlesCompose := CheckGLESLayer K l \<rparr>) h0;
           l = h p
       in if bFbTarget l then (r, h)
          else if bSkipLayer l \<or> bGlesCompose l then (r\<lparr> iSkipCnt := iSkipCnt r + 1 \<rparr>, h)
          else
           (let acc = sublist app (sLayerName l);
                h' = (if acc then upd p (bAccelerateLayer_update (\<lambda>_. True)) h else h);
                r1 = (if acc then r\<lparr> accelerate_app_exist := True \<rparr> else r);
                r2 = (if bSidebandStreamLayer l then r1\<lparr> bSidebandStreamMode := True \<rparr> else r1)
            in (if bAfbcd l then count_afbcd K l r2 else count_linear K l r2, h')))"

definition InitRequestContext :: "sdk \<Rightarrow> lptr list \<Rightarrow> vop \<Rightarrow> vop" where
  "InitRequestContext K layers s =
     (case fold (request_layer K (accelerate_app_name (st s))) layers
             (reset_request (request s), heap s) of
        (r, h) \<Rightarrow> s\<lparr> request := r, heap := h \<rparr>)"

section \<open>What the planes support\<close>

fun reserve_by_name :: "string \<Rightarrow> DrmPlane list \<Rightarrow> bool \<Rightarrow> bool" where
  "reserve_by_name name [] b = b"
| "reserve_by_name name (p # ps) b =
     (if plane_name p = name then True else reserve_by_name name ps False)"

definition reserve_groups :: "string \<Rightarrow> gptr list \<Rightarrow> gheap \<Rightarrow> gheap" where
  "reserve_groups name groups gs =
     fold (\<lambda>g gs. gs(g := gs g\<lparr> gReserved := reserve_by_name name (planes (gs g))
                                              (gReserved (gs g)) \<rparr>)) groups gs"

definition UpdateResevedPlane :: "env \<Rightarrow> vop \<Rightarrow> vop" where
  "UpdateResevedPlane E s =
     (let name = the (snd (hwc_get_string_property (pget E)
                   (Some ''vendor.hwc.reserved_plane_name'') (Some ''NULL'')));
          old = arrayReservedPlaneName (support s)
      in if length old = 0 \<or> name \<noteq> old then
           s\<lparr> support := (support s)\<lparr> arrayReservedPlaneName := name \<rparr>,
              gheap := (if name \<noteq> ''NULL''
                        then fold (\<lambda>n. reserve_groups n (all_plane_groups E)) (getlines name)
                               (gheap s)
                        else gheap s) \<rparr>
         else s)"

definition reset_support :: "sup_ctx \<Rightarrow> sup_ctx" where
  "reset_support u =
     u\<lparr> sAfbcdCnt := 0, sAfbcdScaleCnt := 0, sAfbcdYuvCnt := 0, sAfbcdRotateCnt := 0,
        sAfbcdHdrCnt := 0, sCnt := 0, sScaleCnt := 0, sYuvCnt := 0, sRotateCnt := 0,
        sHdrCnt := 0 \<rparr>"

definition support_plane :: "DrmPlane \<Rightarrow> sup_ctx \<Rightarrow> sup_ctx" where
  "support_plane p u =
     (if b_afbdc p then
        u\<lparr> sAfbcdCnt := sAfbcdCnt u + 1,
           sAfbcdScaleCnt := inc_if (b_scale p) (sAfbcdScaleCnt u),
           sAfbcdYuvCnt := inc_if (b_yuv p) (sAfbcdYuvCnt u),
           sAfbcdRotateCnt := inc_if (get_rotate p) (sAfbcdRotateCnt u),
           sAfbcdHdrCnt := inc_if (b_hdr2sdr p) (sAfbcdHdrCnt u) \<rparr>
      else
        u\<lparr> sCnt := sCnt u + 1,
           sScaleCnt := inc_if (b_scale p) (sScaleCnt u),
           sYuvCnt := inc_if (b_yuv p) (sYuvCnt u),
           sRotateCnt := inc_if (get_rotate p) (sRotateCnt u),
           sHdrCnt := inc_if (b_hdr2sdr p) (sHdrCnt u) \<rparr>)"

definition support_group :: "gheap \<Rightarrow> gptr \<Rightarrow> sup_ctx \<Rightarrow> sup_ctx" where
  "support_group gs g u =
     (if gReserved (gs g) then u else fold support_plane (planes (gs g)) u)"

definition InitSupportContext :: "env \<Rightarrow> gptr list \<Rightarrow> vop \<Rightarrow> vop" where
  "InitSupportContext E plane_groups s =
     (let s1 = UpdateResevedPlane E (s\<lparr> support := reset_support (support s) \<rparr>)
      in s1\<lparr> support := fold (support_group (gheap s1)) plane_groups (support s1) \<rparr>)"

section \<open>What the display mode forbids\<close>

definition reserved_8k :: "DrmPlane \<Rightarrow> bool" where
  "reserved_8k p \<longleftrightarrow>
     has_bits (win_type p) 0xc \<or> has_bits (win_type p) 0xc0 \<or>
     has_bits (win_type p) 0xf000 \<or> has_bits (win_type p) 0xf00000"

definition reserve_8k :: "PlaneGroup \<Rightarrow> PlaneGroup" where
  "reserve_8k g = (if \<exists>p \<in> set (planes g). reserved_8k p then g\<lparr> gReserved := True \<rparr> else g)"

definition unreserve :: "PlaneGroup \<Rightarrow> PlaneGroup" where
  "unreserve g = (if planes g \<noteq> [] then g\<lparr> gReserved := False \<rparr> else g)"

definition disable_fb_afbc :: "DrmHwcLayer \<Rightarrow> DrmHwcLayer" where
  "disable_fb_afbc l = (if bFbTarget l then l\<lparr> bAfbcd := False \<rparr> else l)"

definition init_display :: "lptr list \<Rightarrow> gptr list \<Rightarrow> connector \<Rightarrow> vop \<Rightarrow> vop" where
  "init_display layers plane_groups cn s =
     (let m = conn_mode cn;
          s1 = s\<lparr> st := (st s)\<lparr> bIsCropSplit := conn_crop_split cn,
                    bIsCropSplitPrimary := conn_split_primary cn,
                    fScreenRefresh := v_refresh m,
                    iDisplayWidth := int (unat (h_display m)),
                    iDisplayHeight := int (unat (v_display m)),
                    b8kMode := is_8k_mode m, b4k120pMode := is_4k120p_mode m \<rparr> \<rparr>
      in if is_8k_mode m then
           s1\<lparr> gheap := fold (\<lambda>g gs. gs(g := reserve_8k (gs g))) plane_groups (gheap s1),
               heap := fold (\<lambda>p. upd p disable_fb_afbc) layers (heap s1) \<rparr>
         else s1\<lparr> gheap := fold (\<lambda>g gs. gs(g := unreserve (gs g))) plane_groups (gheap s1) \<rparr>)"

definition init_fb_afbc :: "lptr list \<Rightarrow> vop \<Rightarrow> vop" where
  "init_fb_afbc layers s0 =
     (let s = s0\<lparr> st := (st s0)\<lparr> bDisableFBAfbcd := False \<rparr> \<rparr> in
      case List.find (\<lambda>p. bFbTarget (heap s p)) layers of
        None \<Rightarrow> s
      | Some p \<Rightarrow>
         (let l = heap s p;
              disable = (sAfbcdCnt (support s) = 0 \<or>
                         0 < iAfcbdLargeYuvCnt (request s) \<and> sAfbcdYuvCnt (support s) \<le> 2 \<or>
                         4 < fHScaleMul l \<or> fHScaleMul l < 1 / 4 \<or>
                         4 < fVScaleMul l \<or> fVScaleMul l < 1 / 4);
              h = (if disable then upd p (bAfbcd_update (\<lambda>_. False)) (heap s) else heap s)
          in s\<lparr> heap := h,
                st := (st s)\<lparr> bDisableFBAfbcd := disable, fbUseAfbc := bAfbcd (h p) \<rparr> \<rparr>))"

definition InitStateContext :: "env \<Rightarrow> lptr list \<Rightarrow> gptr list \<Rightarrow> vop \<Rightarrow> vop" where
  "InitStateContext E layers plane_groups s =
     (let s1 = s\<lparr> st := (st s)\<lparr>
            iVopMaxOverlay4KPlane := hwc_get_int_property (pget E)
              (Some ''vendor.hwc.vop_max_overlay_4k_plane'') (Some ''0''),
            bRgaPolicyEnable := 0 < hwc_get_int_property (pget E)
              (Some ''vendor.hwc.enable_rga_policy'') (Some ''1''),
            bUseSwPq := False, iDisplayId := crtc_display E \<rparr> \<rparr>;
          s2 = (case conn E of
                  Some cn \<Rightarrow> if conn_connected cn then init_display layers plane_groups cn s1 else s1
                | None \<Rightarrow> s1)
      in init_fb_afbc layers s2)"

section \<open>Which policies to try\<close>

definition overlay_possible :: "req_ctx \<Rightarrow> sup_ctx \<Rightarrow> bool" where
  "overlay_possible r u \<longleftrightarrow>
     iAfbcdCnt r \<le> sAfbcdCnt u \<and> iScaleCnt r \<le> sScaleCnt u \<and> iYuvCnt r \<le> sYuvCnt u \<and>
     iRotateCnt r \<le> sRotateCnt u \<and> iSkipCnt r = 0"

definition TryOverlay :: "vop \<Rightarrow> bool \<times> vop" where
  "TryOverlay s =
     (if overlay_possible (request s) (support s)
      then (True, s\<lparr> st := policy_insert HWC_OVERLAY_POLICY (st s) \<rparr>) else (False, s))"

definition insert_if :: "bool \<Rightarrow> ComposeMode \<Rightarrow> sta_ctx \<Rightarrow> sta_ctx" where
  "insert_if b m c = (if b then policy_insert m c else c)"

definition TryMix :: "vop \<Rightarrow> vop" where
  "TryMix s =
     (let r = request s; u = support s;
          c1 = policy_insert HWC_MIX_UP_POLICY (policy_insert HWC_MIX_POLICY (st s));
          yuv = (0 < sYuvCnt u \<or> 0 < sAfbcdYuvCnt u);
          c2 = insert_if yuv HWC_MIX_VIDEO_POLICY (insert_if yuv HWC_RGA_OVERLAY_POLICY c1);
          c3 = insert_if (0 < iSkipCnt r) HWC_MIX_SKIP_POLICY c2;
          c4 = insert_if (bSidebandStreamMode r) HWC_SIDEBAND_POLICY c3
      in s\<lparr> st := insert_if (accelerate_app_exist r) HWC_ACCELERATE_POLICY c4 \<rparr>)"

definition compose_policy :: "env \<Rightarrow> int" where
  "compose_policy E =
     hwc_get_int_property (pget E) (Some ''vendor.hwc.compose_policy'') (Some ''0'')"

definition InitContext :: "sdk \<Rightarrow> env \<Rightarrow> lptr list \<Rightarrow> gptr list \<Rightarrow> bool \<Rightarrow> vop \<Rightarrow> vop" where
  "InitContext K E layers plane_groups gles_policy s0 =
     (let s1 = s0\<lparr> st := (st s0)\<lparr> setHwcPolicy := [], iSocId := crtc_soc_id E \<rparr> \<rparr>;
          s2 = InitStateContext E layers plane_groups
                 (InitSupportContext E plane_groups (InitRequestContext K layers s1));
          s3 = s2\<lparr> st := insert_if (bIsCropSplit (st s2)) HWC_SPLIT_MODE_POLICY (st s2) \<rparr>;
          iMode = compose_policy E
      in if (iMode \<noteq> 1 \<or> gles_policy) \<and> iMode \<noteq> 2 then
           s3\<lparr> st := insert_if (accelerate_app_exist (request s3)) HWC_ACCELERATE_POLICY
                (insert_if (bSidebandStreamMode (request s3)) HWC_GLES_SIDEBAND_POLICY
                  (policy_insert HWC_GLES_POLICY (st s3))) \<rparr>
         else
          (let (ok, s4) = TryOverlay s3 in if ok then s4 else TryMix s4))"

end
