(* ===== verification/Vop_Context_Props.thy ===== *)
theory Vop_Context_Props
  imports Vop_Context Vop_Match_Props
begin

text \<open>
  What the contexts prepared for a frame hold: the counters count the layers they name, the
  set of policies has exactly one of the three main policies, and which plane groups are
  reserved afterwards.
\<close>

section \<open>The request counters\<close>

text \<open>A layer the preparation has gone over: two marks may differ, nothing else.\<close>

definition marked_layer :: "DrmHwcLayer \<Rightarrow> DrmHwcLayer \<Rightarrow> bool" where
  "marked_layer l l' \<longleftrightarrow>
     l' = l\<lparr> bGlesCompose := bGlesCompose l', bAccelerateLayer := bAccelerateLayer l' \<rparr>"

lemma marked_layer_refl [simp]: "marked_layer l l"
  by (simp add: marked_layer_def)

lemma marked_layer_marks [simp]:
  "marked_layer l (l'\<lparr> bGlesCompose := b \<rparr>) = marked_layer l l'"
  "marked_layer l (l'\<lparr> bAccelerateLayer := b \<rparr>) = marked_layer l l'"
  by (cases l; cases l'; simp add: marked_layer_def)+

lemma marked_layer_fields:
  assumes "marked_layer l l'"
  shows "bFbTarget l' = bFbTarget l" "bSkipLayer l' = bSkipLayer l" "bAfbcd l' = bAfbcd l"
    "bScale l' = bScale l" "bYuv l' = bYuv l" "transform l' = transform l" "bHdr l' = bHdr l"
    "bUse l' = bUse l" "uId l' = uId l" "iZpos l' = iZpos l" "iDrmZpos l' = iDrmZpos l"
    "CheckGLESLayer K l' = CheckGLESLayer K l"
    "bSidebandStreamLayer l' = bSidebandStreamLayer l"
proof -
  have l: "l' = l\<lparr> bGlesCompose := bGlesCompose l', bAccelerateLayer := bAccelerateLayer l' \<rparr>"
    using assms by (simp add: marked_layer_def)
  show "bFbTarget l' = bFbTarget l" "bSkipLayer l' = bSkipLayer l" "bAfbcd l' = bAfbcd l"
    "bScale l' = bScale l" "bYuv l' = bYuv l" "transform l' = transform l" "bHdr l' = bHdr l"
    "bUse l' = bUse l" "uId l' = uId l" "iZpos l' = iZpos l" "iDrmZpos l' = iDrmZpos l"
    "bSidebandStreamLayer l' = bSidebandStreamLayer l"
    by (subst l, simp)+
  show "CheckGLESLayer K l' = CheckGLESLayer K l"
    by (subst l, cases l) (simp only: CheckGLESLayer_def input_w_def input_h_def output_w_def
        output_h_def DrmHwcLayer.select_convs DrmHwcLayer.update_convs)
qed

definition marked_heap :: "heap \<Rightarrow> heap \<Rightarrow> bool" where
  "marked_heap h h' \<longleftrightarrow> (\<forall>p. marked_layer (h p) (h' p))"

lemma marked_heap_refl [simp]: "marked_heap h h"
  by (simp add: marked_heap_def)

text \<open>The layers that need the GPU, and those that a plane could show.\<close>

definition for_gpu :: "sdk \<Rightarrow> DrmHwcLayer \<Rightarrow> bool" where
  "for_gpu K l \<longleftrightarrow> \<not> bFbTarget l \<and> (bSkipLayer l \<or> CheckGLESLayer K l)"

definition for_plane :: "sdk \<Rightarrow> DrmHwcLayer \<Rightarrow> bool" where
  "for_plane K l \<longleftrightarrow> \<not> bFbTarget l \<and> \<not> bSkipLayer l \<and> \<not> CheckGLESLayer K l"

definition plane_cnt :: "sdk \<Rightarrow> heap \<Rightarrow> (DrmHwcLayer \<Rightarrow> bool) \<Rightarrow> lptr list \<Rightarrow> int" where
  "plane_cnt K h P layers = int (length [p \<leftarrow> layers. for_plane K (h p) \<and> P (h p)])"

lemma plane_cnt_simps [simp]:
  "plane_cnt K h P [] = 0"
  "plane_cnt K h P (p # ps) = of_bool (for_plane K (h p) \<and> P (h p)) + plane_cnt K h P ps"
  by (simp_all add: plane_cnt_def)

lemma request_layer_step:
  assumes "marked_heap h0 h" "request_layer K app p (r, h) = (r', h')"
  shows "marked_heap h0 h'"
    "iSkipCnt r' = iSkipCnt r + of_bool (for_gpu K (h0 p))"
    "iAfbcdCnt r' = iAfbcdCnt r + of_bool (for_plane K (h0 p) \<and> bAfbcd (h0 p))"
    "iCnt r' = iCnt r + of_bool (for_plane K (h0 p) \<and> \<not> bAfbcd (h0 p))"
    "iScaleCnt r' = iScaleCnt r + of_bool (for_plane K (h0 p) \<and> \<not> bAfbcd (h0 p) \<and> bScale (h0 p))"
    "iYuvCnt r' = iYuvCnt r + of_bool (for_plane K (h0 p) \<and> \<not> bAfbcd (h0 p) \<and> bYuv (h0 p))"
    "iRotateCnt r' = iRotateCnt r +
       of_bool (for_plane K (h0 p) \<and> \<not> bAfbcd (h0 p) \<and> transform (h0 p) \<noteq> DRM_MODE_ROTATE_0 K)"
proof -
  have m: "marked_layer (h0 p) (h p)" using assms(1) by (simp add: marked_heap_def)
  note f = marked_layer_fields [OF m]
  note s = assms(2) [symmetric]
  show "marked_heap h0 h'"
    using assms by (auto simp: request_layer_def Let_def marked_heap_def split: if_splits)
  show "iSkipCnt r' = iSkipCnt r + of_bool (for_gpu K (h0 p))"
    "iAfbcdCnt r' = iAfbcdCnt r + of_bool (for_plane K (h0 p) \<and> bAfbcd (h0 p))"
    "iCnt r' = iCnt r + of_bool (for_plane K (h0 p) \<and> \<not> bAfbcd (h0 p))"
    "iScaleCnt r' = iScaleCnt r + of_bool (for_plane K (h0 p) \<and> \<not> bAfbcd (h0 p) \<and> bScale (h0 p))"
    "iYuvCnt r' = iYuvCnt r + of_bool (for_plane K (h0 p) \<and> \<not> bAfbcd (h0 p) \<and> bYuv (h0 p))"
    "iRotateCnt r' = iRotateCnt r +
       of_bool (for_plane K (h0 p) \<and> \<not> bAfbcd (h0 p) \<and> transform (h0 p) \<noteq> DRM_MODE_ROTATE_0 K)"
    using s by (auto simp: request_layer_def Let_def count_afbcd_def count_linear_def inc_if_def
        for_plane_def for_gpu_def f split: if_splits)
qed

lemma request_layers_fold:
  assumes "marked_heap h0 h" "fold (request_layer K app) ps (r, h) = (r', h')"
  shows "marked_heap h0 h' \<and>
    iSkipCnt r' = iSkipCnt r + int (length [p \<leftarrow> ps. for_gpu K (h0 p)]) \<and>
    iAfbcdCnt r' = iAfbcdCnt r + plane_cnt K h0 bAfbcd ps \<and>
    iCnt r' = iCnt r + plane_cnt K h0 (\<lambda>l. \<not> bAfbcd l) ps \<and>
    iScaleCnt r' = iScaleCnt r + plane_cnt K h0 (\<lambda>l. \<not> bAfbcd l \<and> bScale l) ps \<and>
    iYuvCnt r' = iYuvCnt r + plane_cnt K h0 (\<lambda>l. \<not> bAfbcd l \<and> bYuv l) ps \<and>
    iRotateCnt r' = iRotateCnt r +
      plane_cnt K h0 (\<lambda>l. \<not> bAfbcd l \<and> transform l \<noteq> DRM_MODE_ROTATE_0 K) ps"
  using assms
proof (induction ps arbitrary: r h)
  case Nil
  then show ?case by simp
next
  case (Cons p ps)
  obtain r1 h1 where s: "request_layer K app p (r, h) = (r1, h1)" by fastforce
  note st = request_layer_step [OF Cons.prems(1) s]
  show ?case using Cons.IH [OF st(1), of r1] Cons.prems(2) s st(2-) by simp
qed

lemma InitRequestContext_marks:
  "marked_heap (heap s) (heap (InitRequestContext K layers s))"
proof -
  obtain r h where f: "fold (request_layer K (accelerate_app_name (st s))) layers
      (reset_request (request s), heap s) = (r, h)" by fastforce
  then show ?thesis using request_layers_fold [OF marked_heap_refl f]
    by (simp add: InitRequestContext_def)
qed

section \<open>What the preparation leaves alone\<close>

lemma InitRequestContext_same [simp]:
  "st (InitRequestContext K layers s) = st s" "support (InitRequestContext K layers s) = support s"
  "gheap (InitRequestContext K layers s) = gheap s" "comp (InitRequestContext K layers s) = comp s"
  by (simp_all add: InitRequestContext_def split: prod.split)

lemma UpdateResevedPlane_same [simp]:
  "st (UpdateResevedPlane E s) = st s" "request (UpdateResevedPlane E s) = request s"
  "heap (UpdateResevedPlane E s) = heap s" "comp (UpdateResevedPlane E s) = comp s"
  by (simp_all add: UpdateResevedPlane_def Let_def)

lemma InitSupportContext_same [simp]:
  "st (InitSupportContext E pgs s) = st s" "request (InitSupportContext E pgs s) = request s"
  "heap (InitSupportContext E pgs s) = heap s" "comp (InitSupportContext E pgs s) = comp s"
  "gheap (InitSupportContext E pgs s) = gheap (UpdateResevedPlane E (s\<lparr> support := reset_support (support s) \<rparr>))"
  by (simp_all add: InitSupportContext_def Let_def)

lemma init_fb_afbc_same [simp]:
  "request (init_fb_afbc layers s) = request s" "support (init_fb_afbc layers s) = support s"
  "gheap (init_fb_afbc layers s) = gheap s" "comp (init_fb_afbc layers s) = comp s"
  "setHwcPolicy (st (init_fb_afbc layers s)) = setHwcPolicy (st s)"
  "bIsCropSplit (st (init_fb_afbc layers s)) = bIsCropSplit (st s)"
  by (simp_all add: init_fb_afbc_def Let_def split: option.split)

lemma init_display_same [simp]:
  "request (init_display layers pgs cn s) = request s"
  "support (init_display layers pgs cn s) = support s" "comp (init_display layers pgs cn s) = comp s"
  "setHwcPolicy (st (init_display layers pgs cn s)) = setHwcPolicy (st s)"
  by (simp_all add: init_display_def Let_def)

lemma InitStateContext_same [simp]:
  "request (InitStateContext E layers pgs s) = request s"
  "support (InitStateContext E layers pgs s) = support s"
  "comp (InitStateContext E layers pgs s) = comp s"
  "setHwcPolicy (st (InitStateContext E layers pgs s)) = setHwcPolicy (st s)"
  by (simp_all add: InitStateContext_def Let_def split: option.split)

lemma insert_policy_same [simp]:
  "setHwcPolicy (insert_if b m c) = (if b then List.insert m (setHwcPolicy c) else setHwcPolicy c)"
  "bIsCropSplit (insert_if b m c) = bIsCropSplit c"
  "setHwcPolicy (policy_insert m c) = List.insert m (setHwcPolicy c)"
  "bIsCropSplit (policy_insert m c) = bIsCropSplit c"
  by (simp_all add: insert_if_def policy_insert_def)

lemma TryMix_same [simp]:
  "request (TryMix s) = request s" "support (TryMix s) = support s" "heap (TryMix s) = heap s"
  "gheap (TryMix s) = gheap s" "comp (TryMix s) = comp s"
  "bIsCropSplit (st (TryMix s)) = bIsCropSplit (st s)"
  by (simp_all add: TryMix_def Let_def)

text \<open>The state in which the choice of the policies starts.\<close>

definition context_state :: "sdk \<Rightarrow> env \<Rightarrow> lptr list \<Rightarrow> gptr list \<Rightarrow> vop \<Rightarrow> vop" where
  "context_state K E layers pgs s =
     InitStateContext E layers pgs (InitSupportContext E pgs (InitRequestContext K layers
       (s\<lparr> st := (st s)\<lparr> setHwcPolicy := [], iSocId := crtc_soc_id E \<rparr> \<rparr>)))"

lemma context_state_policies: "setHwcPolicy (st (context_state K E layers pgs s)) = []"
  by (simp add: context_state_def)

lemma InitContext_same [simp]:
  "request (InitContext K E layers pgs gles s) = request (context_state K E layers pgs s)"
  "support (InitContext K E layers pgs gles s) = support (context_state K E layers pgs s)"
  "heap (InitContext K E layers pgs gles s) = heap (context_state K E layers pgs s)"
  "gheap (InitContext K E layers pgs gles s) = gheap (context_state K E layers pgs s)"
  "comp (InitContext K E layers pgs gles s) = comp (context_state K E layers pgs s)"
  "bIsCropSplit (st (InitContext K E layers pgs gles s)) =
     bIsCropSplit (st (context_state K E layers pgs s))"
  by (auto simp: InitContext_def context_state_def Let_def TryOverlay_def split: prod.split)

text \<open>The store changes in the marks, and in the AFBC flag of FB targets.\<close>

definition prepared_layer :: "DrmHwcLayer \<Rightarrow> DrmHwcLayer \<Rightarrow> bool" where
  "prepared_layer l l' \<longleftrightarrow>
     (\<exists>m. marked_layer l m \<and> l' = m\<lparr> bAfbcd := bAfbcd l' \<rparr> \<and>
          (\<not> bFbTarget l \<longrightarrow> bAfbcd l' = bAfbcd l))"

lemma prepared_marked: "marked_layer l l' \<Longrightarrow> prepared_layer l l'"
  unfolding prepared_layer_def by (rule exI [of _ l']) (simp add: marked_layer_fields)

lemma prepared_afbcd:
  assumes "prepared_layer l l'" "bFbTarget l"
  shows "prepared_layer l (l'\<lparr> bAfbcd := b \<rparr>)"
proof -
  obtain m where m: "marked_layer l m" "l' = m\<lparr> bAfbcd := bAfbcd l' \<rparr>"
    using assms(1) by (auto simp: prepared_layer_def)
  have "l'\<lparr> bAfbcd := b \<rparr> = m\<lparr> bAfbcd := b \<rparr>" by (subst m(2)) simp
  with m(1) assms(2) show ?thesis by (auto simp: prepared_layer_def)
qed

lemma prepared_fields:
  assumes "prepared_layer l l'"
  shows "bFbTarget l' = bFbTarget l" "bUse l' = bUse l" "uId l' = uId l" "iZpos l' = iZpos l"
proof -
  obtain m where m: "marked_layer l m" "l' = m\<lparr> bAfbcd := bAfbcd l' \<rparr>"
    using assms(1) by (auto simp: prepared_layer_def)
  show "bFbTarget l' = bFbTarget l" "bUse l' = bUse l" "uId l' = uId l" "iZpos l' = iZpos l"
    by (subst m(2), simp add: marked_layer_fields [OF m(1)])+
qed

lemma prepared_disable:
  "(\<And>q. prepared_layer (h0 q) (h q)) \<Longrightarrow>
   prepared_layer (h0 q) (fold (\<lambda>p. upd p disable_fb_afbc) ps h q)"
proof (induction ps arbitrary: h)
  case (Cons p ps)
  have "prepared_layer (h0 q) (upd p disable_fb_afbc h q)" for q
    using Cons.prems [of q] Cons.prems [of p] prepared_fields(1) [OF Cons.prems [of p]]
    by (simp add: disable_fb_afbc_def prepared_afbcd)
  then show ?case using Cons.IH by simp
qed simp

lemma context_state_layers:
  "prepared_layer (heap s p) (heap (context_state K E layers pgs s) p)"
proof -
  let ?s1 = "s\<lparr> st := (st s)\<lparr> setHwcPolicy := [], iSocId := crtc_soc_id E \<rparr> \<rparr>"
  let ?s2 = "InitSupportContext E pgs (InitRequestContext K layers ?s1)"
  have 2: "prepared_layer (heap s q) (heap (InitRequestContext K layers ?s1) q)" for q
    using InitRequestContext_marks [of ?s1 K layers]
    by (simp add: marked_heap_def prepared_marked)
  have d: "prepared_layer (heap s q) (heap (init_display layers pgs cn t) q)"
    if "\<And>q. prepared_layer (heap s q) (heap t q)" for cn t q
    using that prepared_disable [of "heap s" "heap t"] by (simp add: init_display_def Let_def)
  have f: "prepared_layer (heap s q) (heap (init_fb_afbc layers t) q)"
    if t: "\<And>q. prepared_layer (heap s q) (heap t q)" for t q
    using t prepared_afbcd [OF t] prepared_fields(1) [OF t]
    by (auto simp: init_fb_afbc_def Let_def find_Some_iff split: option.split)
  show ?thesis unfolding context_state_def InitStateContext_def Let_def
    by (rule f) (auto simp: 2 intro!: d split: option.split)
qed

lemma ready_InitContext:
  assumes "ready layers s"
  shows "ready layers (InitContext K E layers pgs gles s)"
proof -
  note f = prepared_fields [OF context_state_layers [of s _ K E layers pgs]]
  show ?thesis using assms by (simp add: ready_def distinct_layers_def f)
qed

section \<open>Properties\<close>

lemma layer_partition:
  "int (length [p \<leftarrow> ps. for_gpu K (h p)]) + plane_cnt K h bAfbcd ps +
     plane_cnt K h (\<lambda>l. \<not> bAfbcd l) ps = int (length [p \<leftarrow> ps. \<not> bFbTarget (h p)])"
  by (induction ps) (auto simp: for_gpu_def for_plane_def)

text \<open>
  \<open>InitRequestContext\<close> counts exactly: \<open>iSkipCnt\<close> the layers that must go to the GPU (skip flag
  or \<open>CheckGLESLayer\<close>), the AFBC and the linear counters the layers a plane could show with
  the named feature.  Each layer of the application is counted in exactly one of \<open>iSkipCnt\<close>,
  \<open>iAfbcdCnt\<close> and \<open>iCnt\<close>, where \<open>iCnt\<close>, which the function does not reset, keeps the sum of all
  earlier frames.
\<close>

lemma request_counts:
  "let r = request (InitRequestContext K layers s); h = heap s in
     iSkipCnt r = int (length [p \<leftarrow> layers. for_gpu K (h p)])
   \<and> iAfbcdCnt r = plane_cnt K h bAfbcd layers
   \<and> iScaleCnt r = plane_cnt K h (\<lambda>l. \<not> bAfbcd l \<and> bScale l) layers
   \<and> iYuvCnt r = plane_cnt K h (\<lambda>l. \<not> bAfbcd l \<and> bYuv l) layers
   \<and> iRotateCnt r = plane_cnt K h (\<lambda>l. \<not> bAfbcd l \<and> transform l \<noteq> DRM_MODE_ROTATE_0 K) layers
   \<and> iSkipCnt r + iAfbcdCnt r + (iCnt r - iCnt (request s)) =
       int (length [p \<leftarrow> layers. \<not> bFbTarget (h p)])"
proof -
  obtain r h where f: "fold (request_layer K (accelerate_app_name (st s))) layers
      (reset_request (request s), heap s) = (r, h)" by fastforce
  have r: "request (InitRequestContext K layers s) = r" by (simp add: InitRequestContext_def f)
  note c = request_layers_fold [OF marked_heap_refl f]
  show ?thesis unfolding r Let_def
    using c layer_partition [of K "heap s" layers] by (simp add: reset_request_def)
qed

text \<open>
  \<open>InitContext\<close> puts exactly one of the three main policies into the set: GLES when the GPU is
  forced, else overlay when the counters of the planes cover those of the layers, else mix.
  The skip, up, video and RGA policies come with mix only, the sideband policy of the GPU
  with GLES only, and the down policy that \<open>TryMixPolicy\<close> asks for twice is never put in.
\<close>

lemma main_policy_choice:
  "let s' = InitContext K E layers pgs gles s; has = (\<lambda>m. policy_count m (st s'));
       r = request s'; u = support s';
       forced = (\<not> (compose_policy E = 1 \<and> \<not> gles) \<and> compose_policy E \<noteq> 2);
       fits = overlay_possible r u;
       mix = (\<not> forced \<and> \<not> fits)
   in has HWC_GLES_POLICY = forced \<and> has HWC_OVERLAY_POLICY = (\<not> forced \<and> fits)
    \<and> has HWC_MIX_POLICY = mix \<and> has HWC_MIX_UP_POLICY = mix
    \<and> has HWC_MIX_VIDEO_POLICY = (mix \<and> (0 < sYuvCnt u \<or> 0 < sAfbcdYuvCnt u))
    \<and> has HWC_RGA_OVERLAY_POLICY = has HWC_MIX_VIDEO_POLICY
    \<and> has HWC_MIX_SKIP_POLICY = (mix \<and> 0 < iSkipCnt r)
    \<and> has HWC_SIDEBAND_POLICY = (mix \<and> bSidebandStreamMode r)
    \<and> has HWC_GLES_SIDEBAND_POLICY = (forced \<and> bSidebandStreamMode r)
    \<and> has HWC_SPLIT_MODE_POLICY = bIsCropSplit (st s')
    \<and> \<not> has HWC_MIX_DOWN_POLICY"
proof -
  define c where "c = context_state K E layers pgs s"
  have c: "setHwcPolicy (st c) = []" by (simp add: c_def context_state_policies)
  let ?c = "c\<lparr> st := insert_if (bIsCropSplit (st c)) HWC_SPLIT_MODE_POLICY (st c) \<rparr>"
  have i: "InitContext K E layers pgs gles s =
      (if (compose_policy E \<noteq> 1 \<or> gles) \<and> compose_policy E \<noteq> 2 then
         ?c\<lparr> st := insert_if (accelerate_app_exist (request c)) HWC_ACCELERATE_POLICY
           (insert_if (bSidebandStreamMode (request c)) HWC_GLES_SIDEBAND_POLICY
             (policy_insert HWC_GLES_POLICY (st ?c))) \<rparr>
       else if overlay_possible (request c) (support c)
       then ?c\<lparr> st := policy_insert HWC_OVERLAY_POLICY (st ?c) \<rparr> else TryMix ?c)"
    by (simp add: InitContext_def context_state_def c_def Let_def TryOverlay_def)
  show ?thesis
    unfolding i Let_def by (simp add: policy_count_def c TryMix_def Let_def de_Morgan_conj)
qed

lemma reserve_idem [simp]:
  "reserve_8k (reserve_8k g) = reserve_8k g" "unreserve (unreserve g) = unreserve g"
  by (simp_all add: reserve_8k_def unreserve_def)

lemma init_display_groups:
  "gheap (init_display layers pgs cn s) g =
     (if g \<notin> set pgs then gheap s g
      else if is_8k_mode (conn_mode cn) then reserve_8k (gheap s g) else unreserve (gheap s g))"
  by (simp add: init_display_def Let_def fold_fun_upd_idem)

text \<open>
  On a connected display \<open>InitStateContext\<close> decides the reservations anew.  In an 8K mode every
  group with a window of cluster 1 or 3, or Esmart 1 or 3, is reserved and the others keep
  their flag; in any other mode the flag of every group that has planes is cleared.  Groups
  of other displays keep theirs.
\<close>

lemma state_reservations:
  assumes "conn E = Some cn" "conn_connected cn"
  shows "gReserved (gheap (InitStateContext E layers pgs s) g) =
    (if g \<notin> set pgs then gReserved (gheap s g)
     else if is_8k_mode (conn_mode cn)
     then gReserved (gheap s g) \<or> (\<exists>p \<in> set (planes (gheap s g)). reserved_8k p)
     else gReserved (gheap s g) \<and> planes (gheap s g) = [])"
  using assms
  by (simp add: InitStateContext_def Let_def init_display_groups)
    (simp add: reserve_8k_def unreserve_def)

definition conn_8k :: connector where
  "conn_8k = \<lparr> conn_connected = True, conn_crop_split = False, conn_split_primary = False,
     conn_mode = mode0\<lparr> h_display := 7680 \<rparr> \<rparr>"

lemma state_reservations_witness:
  "gReserved (gheap (InitStateContext (env0\<lparr> conn := Some conn_8k \<rparr>) [] [0, 1] vop0) 1) \<and>
   \<not> gReserved (gheap (InitStateContext (env0\<lparr> conn := Some conn_8k \<rparr>) [] [0, 1] vop0) 0)"
proof -
  have c: "conn (env0\<lparr> conn := Some conn_8k \<rparr>) = Some conn_8k" "conn_connected conn_8k"
    by (simp_all add: conn_8k_def)
  show ?thesis unfolding state_reservations [OF c]
    by (simp add: conn_8k_def mode0_def is_8k_mode_def vop0_def groups_using_def group0_def
        window_def esmart_def plane0_def reserved_8k_def has_bits_def mask_defs)
qed

lemma reserve_by_name_iff:
  "reserve_by_name n ps b = (if ps = [] then b else n \<in> plane_name ` set ps)"
proof -
  have "reserve_by_name n ps False \<longleftrightarrow> n \<in> plane_name ` set ps" for ps
    by (induction ps) auto
  then show ?thesis by (cases ps) auto
qed

lemma reserve_groups_apply:
  "reserve_groups n groups gs g =
     (if g \<in> set groups
      then gs g\<lparr> gReserved := reserve_by_name n (planes (gs g)) (gReserved (gs g)) \<rparr> else gs g)"
  unfolding reserve_groups_def by (subst fold_fun_upd_idem) (simp_all add: reserve_by_name_iff)

lemma planes_reserve_groups [simp]: "planes (reserve_groups n groups gs g) = planes (gs g)"
  by (simp add: reserve_groups_apply)

lemma planes_reserve_fold [simp]:
  "planes (fold (\<lambda>n. reserve_groups n groups) ns gs g) = planes (gs g)"
  by (induction ns arbitrary: gs) auto

text \<open>
  \<open>UpdateResevedPlane\<close> takes a list of names, but each name clears the flag the names before
  it have set: after a new list only the groups that hold a window of the last name are
  reserved.
\<close>

lemma last_name_reserves:
  assumes "snd (hwc_get_string_property (pget E) (Some ''vendor.hwc.reserved_plane_name'')
             (Some ''NULL'')) = Some name"
    and "name \<noteq> ''NULL''" "name \<noteq> arrayReservedPlaneName (support s)"
    and "getlines name = ns @ [n]"
    and "g \<in> set (all_plane_groups E)" "planes (gheap s g) \<noteq> []"
  shows "gReserved (gheap (UpdateResevedPlane E s) g) \<longleftrightarrow>
    n \<in> plane_name ` set (planes (gheap s g))"
  using assms
  by (simp add: UpdateResevedPlane_def Let_def reserve_groups_apply reserve_by_name_iff)

definition env_two_names :: env where
  "env_two_names = env0\<lparr> pget := \<lambda>k d. ''A,B'' \<rparr>"

lemma last_name_reserves_witness:
  "\<not> gReserved (gheap (UpdateResevedPlane env_two_names
      (vop0\<lparr> gheap := \<lambda>g. group0\<lparr> planes := [plane0\<lparr> plane_name := ''A'' \<rparr>] \<rparr> \<rparr>)) 0)"
proof -
  have n: "snd (hwc_get_string_property (pget env_two_names)
      (Some ''vendor.hwc.reserved_plane_name'') (Some ''NULL'')) = Some ''A,B''"
    by (simp add: env_two_names_def hwc_get_string_property_def)
  have g: "getlines ''A,B'' = [''A''] @ [''B'']" by simp
  show ?thesis
    by (subst last_name_reserves [OF n _ _ g])
      (simp_all add: env_two_names_def env0_def vop0_def)
qed

text \<open>
  The property \<open>vendor.hwc.reserved_plane_name\<close> has no effect on a connected display outside
  8K modes: after \<open>InitContext\<close> none of its groups that have planes is reserved, although the
  support counters were taken without the reserved ones.
\<close>

lemma reserved_plane_undone:
  assumes "conn E = Some cn" "conn_connected cn" "\<not> is_8k_mode (conn_mode cn)"
    and "g \<in> set pgs" "planes (gheap s g) \<noteq> []"
  shows "\<not> gReserved (gheap (InitContext K E layers pgs gles s) g)"
proof -
  have "planes (gheap (UpdateResevedPlane E t) g) = planes (gheap t g)" for t
    by (simp add: UpdateResevedPlane_def Let_def)
  then show ?thesis
    using assms
    by (simp add: context_state_def InitStateContext_def Let_def init_display_groups)
      (simp add: unreserve_def)
qed

lemma reserved_plane_undone_witness:
  "\<not> gReserved (gheap (InitContext sdk0 env0 [0, 1] [0, 1] False vop0) 1)"
proof -
  have c: "conn env0 = Some \<lparr> conn_connected = True, conn_crop_split = False,
      conn_split_primary = False, conn_mode = mode0 \<rparr>" by (simp add: env0_def)
  show ?thesis
    by (rule reserved_plane_undone [OF c])
      (simp_all add: mode0_def is_8k_mode_def vop0_def groups_using_def)
qed

end
