(* ===== verification/Formats.thy ===== *)
theory Formats
  imports Sdk
begin

text \<open>
  Constants of headers outside the repository that the layer and the RGA code use: pixel formats
  of the HAL and of DRM, data spaces, buffer modifiers and transfer functions.  They are the
  record \<open>formats\<close>; \<open>formats0\<close> is an instance with distinct values, which witnesses use.  The RGA
  surface formats are in the repository (\<open>include/rockchip/utils/rgaformats.h\<close>) and are
  definitions.
\<close>

record formats =
  DRM_FORMAT_NV12 :: u32
  DRM_FORMAT_NV12_10 :: u32
  DRM_FORMAT_NV21 :: u32
  DRM_FORMAT_NV16 :: u32
  DRM_FORMAT_NV61 :: u32
  DRM_FORMAT_YUV420 :: u32
  DRM_FORMAT_YVU420 :: u32
  DRM_FORMAT_YUV422 :: u32
  DRM_FORMAT_YVU422 :: u32
  DRM_FORMAT_YUV444 :: u32
  DRM_FORMAT_YVU444 :: u32
  DRM_FORMAT_UYVY :: u32
  DRM_FORMAT_VYUY :: u32
  DRM_FORMAT_YUYV :: u32
  DRM_FORMAT_YVYU :: u32
  DRM_FORMAT_YUV420_8BIT :: u32
  DRM_FORMAT_YUV420_10BIT :: u32
  DRM_FORMAT_NV24 :: u32
  DRM_FORMAT_NV42 :: u32
  DRM_FORMAT_NV15 :: u32
  DRM_FORMAT_NV20 :: u32
  DRM_FORMAT_NV30 :: u32
  DRM_FORMAT_Y210 :: u32
  DRM_FORMAT_VUY888 :: u32
  DRM_FORMAT_VUY101010 :: u32
  HAL_PIXEL_FORMAT_RGBA_8888 :: int
  HAL_PIXEL_FORMAT_RGBX_8888 :: int
  HAL_PIXEL_FORMAT_RGB_888 :: int
  HAL_PIXEL_FORMAT_RGB_565 :: int
  HAL_PIXEL_FORMAT_BGRA_8888 :: int
  HAL_PIXEL_FORMAT_BGR_888 :: int
  HAL_PIXEL_FORMAT_YCrCb_420_SP :: int
  HAL_PIXEL_FORMAT_YCbCr_422_SP :: int
  HAL_PIXEL_FORMAT_YCrCb_NV12 :: int
  HAL_PIXEL_FORMAT_YCrCb_NV12_VIDEO :: int
  HAL_PIXEL_FORMAT_YCbCr_422_SP_10 :: int
  HAL_PIXEL_FORMAT_YCrCb_420_SP_10 :: int
  HAL_PIXEL_FORMAT_YCBCR_420_888 :: int
  HAL_PIXEL_FORMAT_YCBCR_422_I :: int
  HAL_PIXEL_FORMAT_YUV420_8BIT_I :: int
  HAL_PIXEL_FORMAT_YUV420_10BIT_I :: int
  HAL_PIXEL_FORMAT_Y210 :: int
  HAL_DATASPACE_STANDARD_MASK :: u32
  HAL_DATASPACE_TRANSFER_MASK :: u32
  HAL_DATASPACE_RANGE_MASK :: u32
  HAL_DATASPACE_STANDARD_BT601_625 :: u32
  HAL_DATASPACE_STANDARD_BT601_625_UNADJUSTED :: u32
  HAL_DATASPACE_STANDARD_BT601_525 :: u32
  HAL_DATASPACE_STANDARD_BT601_525_UNADJUSTED :: u32
  HAL_DATASPACE_STANDARD_BT2020 :: u32
  HAL_DATASPACE_STANDARD_BT2020_CONSTANT_LUMINANCE :: u32
  HAL_DATASPACE_TRANSFER_ST2084 :: u32
  HAL_DATASPACE_TRANSFER_HLG :: u32
  TRADITIONAL_GAMMA_SDR :: u16
  SMPTE_ST2084 :: u16
  HLG :: u16
  DRM_FORMAT_MOD_VENDOR_ARM :: u64
  AFBC_FORMAT_MOD_BLOCK_SIZE_16x16 :: u64
  AFBC_FORMAT_MOD_BLOCK_SIZE_32x8 :: u64
  MALI_GRALLOC_USAGE_NO_AFBC :: u64
  GRALLOC_USAGE_HW_COMPOSER :: u64
  GRALLOC_USAGE_PRIVATE_1 :: u64

definition fcc :: "string \<Rightarrow> u32" where
  "fcc s = fourcc_code (of_char (s ! 0)) (of_char (s ! 1)) (of_char (s ! 2)) (of_char (s ! 3))"

definition formats0 :: formats where
  "formats0 =
    \<lparr> DRM_FORMAT_NV12 = fcc ''NV12'', DRM_FORMAT_NV12_10 = fcc ''NA12'',
      DRM_FORMAT_NV21 = fcc ''NV21'', DRM_FORMAT_NV16 = fcc ''NV16'',
      DRM_FORMAT_NV61 = fcc ''NV61'', DRM_FORMAT_YUV420 = fcc ''YU12'',
      DRM_FORMAT_YVU420 = fcc ''YV12'', DRM_FORMAT_YUV422 = fcc ''YU16'',
      DRM_FORMAT_YVU422 = fcc ''YV16'', DRM_FORMAT_YUV444 = fcc ''YU24'',
      DRM_FORMAT_YVU444 = fcc ''YV24'', DRM_FORMAT_UYVY = fcc ''UYVY'',
      DRM_FORMAT_VYUY = fcc ''VYUY'', DRM_FORMAT_YUYV = fcc ''YUYV'',
      DRM_FORMAT_YVYU = fcc ''YVYU'', DRM_FORMAT_YUV420_8BIT = fcc ''YU08'',
      DRM_FORMAT_YUV420_10BIT = fcc ''YU10'', DRM_FORMAT_NV24 = fcc ''NV24'',
      DRM_FORMAT_NV42 = fcc ''NV42'', DRM_FORMAT_NV15 = fcc ''NV15'',
      DRM_FORMAT_NV20 = fcc ''NV20'', DRM_FORMAT_NV30 = fcc ''NV30'',
      DRM_FORMAT_Y210 = fcc ''Y210'', DRM_FORMAT_VUY888 = fcc ''VU24'',
      DRM_FORMAT_VUY101010 = fcc ''VU30'',
      HAL_PIXEL_FORMAT_RGBA_8888 = 1, HAL_PIXEL_FORMAT_RGBX_8888 = 2,
      HAL_PIXEL_FORMAT_RGB_888 = 3, HAL_PIXEL_FORMAT_RGB_565 = 4,
      HAL_PIXEL_FORMAT_BGRA_8888 = 5, HAL_PIXEL_FORMAT_BGR_888 = 29,
      HAL_PIXEL_FORMAT_YCrCb_420_SP = 0x11, HAL_PIXEL_FORMAT_YCbCr_422_SP = 0x10,
      HAL_PIXEL_FORMAT_YCrCb_NV12 = 0x15, HAL_PIXEL_FORMAT_YCrCb_NV12_VIDEO = 0x16,
      HAL_PIXEL_FORMAT_YCbCr_422_SP_10 = 0x18, HAL_PIXEL_FORMAT_YCrCb_420_SP_10 = 0x19,
      HAL_PIXEL_FORMAT_YCBCR_420_888 = 0x23, HAL_PIXEL_FORMAT_YCBCR_422_I = 0x14,
      HAL_PIXEL_FORMAT_YUV420_8BIT_I = 0x1A, HAL_PIXEL_FORMAT_YUV420_10BIT_I = 0x1B,
      HAL_PIXEL_FORMAT_Y210 = 0x1C,
      HAL_DATASPACE_STANDARD_MASK = 0x3F0000, HAL_DATASPACE_TRANSFER_MASK = 0x7C00000,
      HAL_DATASPACE_RANGE_MASK = 0x38000000,
      HAL_DATASPACE_STANDARD_BT601_625 = 0x20000,
      HAL_DATASPACE_STANDARD_BT601_625_UNADJUSTED = 0x30000,
      HAL_DATASPACE_STANDARD_BT601_525 = 0x40000,
      HAL_DATASPACE_STANDARD_BT601_525_UNADJUSTED = 0x50000,
      HAL_DATASPACE_STANDARD_BT2020 = 0x60000,
      HAL_DATASPACE_STANDARD_BT2020_CONSTANT_LUMINANCE = 0x70000,
      HAL_DATASPACE_TRANSFER_ST2084 = 0x1C00000, HAL_DATASPACE_TRANSFER_HLG = 0x2000000,
      TRADITIONAL_GAMMA_SDR = 0, SMPTE_ST2084 = 2, HLG = 3,
      DRM_FORMAT_MOD_VENDOR_ARM = 8, AFBC_FORMAT_MOD_BLOCK_SIZE_16x16 = 1,
      AFBC_FORMAT_MOD_BLOCK_SIZE_32x8 = 2, MALI_GRALLOC_USAGE_NO_AFBC = 0x20000000,
      GRALLOC_USAGE_HW_COMPOSER = 0x800, GRALLOC_USAGE_PRIVATE_1 = 0x20000000 \<rparr>"

section \<open>Integer arithmetic of C\<close>

text \<open>\<open>ALIGN\<close> and \<open>ALIGN_DOWN\<close> with a power of two, on an \<open>int\<close> in two's complement.\<close>

definition align_down :: "int \<Rightarrow> int \<Rightarrow> int" where
  "align_down value base = value - value mod base"

definition align_up :: "int \<Rightarrow> int \<Rightarrow> int" where
  "align_up value base = align_down (value + (base - 1)) base"

text \<open>Division of C: towards zero.\<close>

definition cdiv :: "int \<Rightarrow> int \<Rightarrow> int" where
  "cdiv a b = sgn a * sgn b * (\<bar>a\<bar> div \<bar>b\<bar>)"

lemma align_down_bounds: "0 < b \<Longrightarrow> align_down v b \<le> v \<and> v < align_down v b + b"
  by (simp add: align_down_def)

lemma align_down_mod [simp]: "align_down v b mod b = 0"
  by (simp add: align_down_def)

lemma align_down_0 [simp]: "align_down 0 b = 0"
  by (simp add: align_down_def)

lemma align_up_bounds:
  assumes "0 < b"
  shows "v \<le> align_up v b" "align_up v b < v + b"
  using align_down_bounds [OF assms, of "v + (b - 1)"] by (auto simp: align_up_def)

section \<open>Buffer modifiers\<close>

definition fourcc_mod_get_vendor :: "u64 \<Rightarrow> u64" where
  "fourcc_mod_get_vendor modifier = drop_bit 56 modifier AND 0xff"

definition fourcc_mod_is_vendor :: "u64 \<Rightarrow> u64 \<Rightarrow> bool" where
  "fourcc_mod_is_vendor modifier vendor \<longleftrightarrow> fourcc_mod_get_vendor modifier = vendor"

definition DRM_FORMAT_MOD_VENDOR_ROCKCHIP :: u64 where
  "DRM_FORMAT_MOD_VENDOR_ROCKCHIP = 0x0b"

definition IS_ROCKCHIP_RFBC_MOD :: "u64 \<Rightarrow> bool" where
  "IS_ROCKCHIP_RFBC_MOD val \<longleftrightarrow>
     fourcc_mod_is_vendor val DRM_FORMAT_MOD_VENDOR_ROCKCHIP \<and>
     drop_bit 52 val AND 0xf = 0x1"

end
