(* ===== verification/Float_Round.thy ===== *)
theory Float_Round
  imports Prelude "HOL-Library.Log_Nat"
begin

text \<open>
  The rounding of C++ \<open>float\<close> and \<open>double\<close> arithmetic, for the code whose result depends on it: a
  number is rounded to \<open>p\<close> significant bits (\<open>24\<close> for \<open>float\<close>, \<open>53\<close> for \<open>double\<close>), to the nearest
  one and to the even one in the middle.  The exponent is unbounded: overflow and subnormal
  numbers are outside the model, and the numbers this is used for are \<open>0\<close> or between \<open>2 ^ -10\<close>
  and \<open>2 ^ 32\<close>.  The lemmas bound the error of one rounding and say which numbers are exact.
\<close>

definition round_even :: "rat \<Rightarrow> int" where
  "round_even x =
     (let f = floor x; r = x - of_int f
      in if r < 1 / 2 \<or> (r = 1 / 2 \<and> even f) then f else f + 1)"

text \<open>The exponent of a positive number: \<open>e\<close> with \<open>2 ^ e \<le> x < 2 ^ (e + 1)\<close>.\<close>

definition binade :: "rat \<Rightarrow> int" where
  "binade x =
     (let (n, d) = quotient_of x; e = bitlen n - bitlen d
      in if x < 2 powi e then e - 1 else e)"

definition round_bits :: "nat \<Rightarrow> rat \<Rightarrow> rat" where
  "round_bits p x =
     (if x = 0 then 0
      else let u = 2 powi (binade \<bar>x\<bar> - int p + 1) in of_int (round_even (x / u)) * u)"

abbreviation float32 :: "rat \<Rightarrow> rat" where
  "float32 \<equiv> round_bits 24"

abbreviation float64 :: "rat \<Rightarrow> rat" where
  "float64 \<equiv> round_bits 53"

section \<open>One rounding\<close>

lemma round_even_of_int [simp]: "round_even (of_int n) = n"
  by (simp add: round_even_def)

lemma round_even_error: "\<bar>of_int (round_even x) - x\<bar> \<le> 1 / 2"
proof -
  have "of_int (floor x) \<le> x" "x < of_int (floor x) + 1" by linarith+
  then show ?thesis by (auto simp: round_even_def Let_def abs_le_iff)
qed

lemma round_even_nonneg: "0 \<le> x \<Longrightarrow> 0 \<le> round_even x"
  by (simp add: round_even_def Let_def)

lemma pow2_bitlen:
  assumes "0 < n"
  shows "2 powi (bitlen n - 1) \<le> (of_int n :: rat)" "(of_int n :: rat) < 2 powi (bitlen n)"
proof -
  have b: "2 ^ nat (bitlen n - 1) \<le> n" "n < 2 ^ nat (bitlen n)" using bitlen_bounds [OF assms] by auto
  have g: "0 < bitlen n" using assms by (metis bitlen_eq_zero_iff bitlen_nonneg less_le not_less)
  have p: "(2::rat) powi e = of_int (2 ^ nat e)" if "0 \<le> e" for e
    using that by (simp add: power_int_def)
  show "2 powi (bitlen n - 1) \<le> (of_int n :: rat)"
    using g b(1) by (subst p) (linarith, simp only: of_int_le_iff)
  show "(of_int n :: rat) < 2 powi (bitlen n)"
    using g b(2) by (subst p) (linarith, simp only: of_int_less_iff)
qed

lemma binade_bounds:
  assumes "0 < x"
  shows "2 powi binade x \<le> x" "x < 2 powi (binade x + 1)"
proof -
  obtain n d where q: "quotient_of x = (n, d)" by force
  have d: "0 < d" and x: "x = of_int n / of_int d"
    using quotient_of_denom_pos [OF q] quotient_of_div [OF q] by auto
  have n: "0 < n" using assms d by (simp add: x zero_less_divide_iff)
  note N = pow2_bitlen [OF n] and D = pow2_bitlen [OF d]
  have d': "0 < (of_int d :: rat)" using d by simp
  have up: "x < 2 powi (bitlen n - bitlen d + 1)"
  proof -
    have "x < 2 powi bitlen n / of_int d" unfolding x using N(2) d' by (simp add: divide_strict_right_mono)
    also have "\<dots> \<le> 2 powi bitlen n / 2 powi (bitlen d - 1)"
      using D(1) d' by (intro divide_left_mono mult_pos_pos) simp_all
    also have "\<dots> = 2 powi (bitlen n - bitlen d + 1)"
      by (simp add: diff_diff_eq2 diff_add_eq flip: power_int_diff)
    finally show ?thesis .
  qed
  have low: "2 powi (bitlen n - bitlen d - 1) \<le> x"
  proof -
    have "2 powi (bitlen n - bitlen d - 1) = (2 powi (bitlen n - 1)) / (2 powi bitlen d :: rat)"
      by (simp flip: power_int_diff add: algebra_simps)
    also have "\<dots> \<le> of_int n / 2 powi bitlen d" using N(1) by (simp add: divide_right_mono)
    also have "\<dots> \<le> x" unfolding x using D(2) d' n by (intro divide_left_mono) simp_all
    finally show ?thesis .
  qed
  show "2 powi binade x \<le> x" "x < 2 powi (binade x + 1)"
    using up low by (auto simp: binade_def q Let_def)
qed

lemma round_bits_0 [simp]: "round_bits p 0 = 0"
  by (simp add: round_bits_def)

lemma round_bits_nonneg: "0 \<le> x \<Longrightarrow> 0 \<le> round_bits p x"
  by (simp add: round_bits_def Let_def round_even_nonneg)

lemma round_bits_error: "\<bar>round_bits p x - x\<bar> \<le> \<bar>x\<bar> / 2 ^ p"
proof (cases "x = 0")
  case False
  define u :: rat where "u = 2 powi (binade \<bar>x\<bar> - int p + 1)"
  have u: "0 < u" by (simp add: u_def)
  have "u = 2 * (2 powi binade \<bar>x\<bar> / 2 powi int p)"
    by (simp add: u_def power_int_add power_int_diff)
  then have h: "u / 2 \<le> \<bar>x\<bar> / 2 ^ p"
    using binade_bounds(1) [of "\<bar>x\<bar>"] False by (simp add: divide_right_mono)
  have "round_bits p x - x = (of_int (round_even (x / u)) - x / u) * u"
    using False u by (simp only: round_bits_def Let_def if_False flip: u_def) (simp add: algebra_simps)
  then have "\<bar>round_bits p x - x\<bar> = \<bar>of_int (round_even (x / u)) - x / u\<bar> * u"
    using u by (simp add: abs_mult)
  also have "\<dots> \<le> (1 / 2) * u" using round_even_error u by (intro mult_right_mono) simp_all
  finally have "\<bar>round_bits p x - x\<bar> \<le> u / 2" by simp
  then show ?thesis using h by (rule order_trans)
qed simp

text \<open>A number of at most \<open>p\<close> bits is exact.\<close>

lemma round_bits_exact:
  assumes "x * 2 ^ k = of_int n" "\<bar>n\<bar> < 2 ^ p"
  shows "round_bits p x = x"
proof (cases "x = 0")
  case False
  define b where "b = binade \<bar>x\<bar>"
  have "2 powi b \<le> \<bar>x\<bar>" using binade_bounds(1) [of "\<bar>x\<bar>"] False by (simp add: b_def)
  also have "\<bar>x\<bar> = \<bar>of_int n\<bar> / 2 ^ k" by (simp add: assms(1) [symmetric] abs_mult)
  also have "\<dots> < 2 ^ p / 2 ^ k"
  proof -
    have "(of_int \<bar>n\<bar> :: rat) < of_int (2 ^ p)" using assms(2) by (simp only: of_int_less_iff)
    then show ?thesis by (simp add: divide_strict_right_mono)
  qed
  also have "\<dots> = 2 powi (int p - int k)" by (simp add: power_int_diff)
  finally have lt: "b < int p - int k"
    by (meson linorder_not_less one_le_numeral power_int_increasing)
  define j where "j = nat (int p - 1 - b - int k)"
  have j: "int j = int p - 1 - b - int k" using lt by (simp add: j_def)
  have "b - int p + 1 = - (int j + int k)" using j by simp
  then have u: "2 powi (b - int p + 1) = 1 / (2 ^ j * 2 ^ k :: rat)"
    by (simp only: power_int_minus inverse_eq_divide) (simp add: power_int_add)
  have "x / (1 / (2 ^ j * 2 ^ k)) = of_int (n * 2 ^ j)"
    using assms(1) by (simp add: algebra_simps)
  then have "of_int (round_even (x / (1 / (2 ^ j * 2 ^ k)))) * (1 / (2 ^ j * 2 ^ k)) = x"
    using assms(1) by (simp only: round_even_of_int) (simp add: field_simps)
  then show ?thesis
    using False by (simp add: round_bits_def Let_def u flip: b_def)
qed simp

lemma round_bits_int: "\<bar>n\<bar> < 2 ^ p \<Longrightarrow> round_bits p (of_int n) = of_int n"
  by (rule round_bits_exact [where k = 0]) simp_all

end
