(* ===== verification/Layer_Info.thy ===== *)
theory Layer_Info
  imports Drm_Layer Formats Hwc_Debug Float_Round
begin

text \<open>
  \<open>rockchip/common/drmlayer.cpp\<close>: what the HAL derives from the data SurfaceFlinger sets on a
  layer (\<open>Init\<close> and the predicates it calls), the setters for blending, transform and display
  frame, and the pair \<open>UpdateAndStoreInfoFromDrmBuffer\<close>, \<open>ResetInfoFromStore\<close> that puts another
  buffer in the place of the layer's own and takes it out again.

  The scale factors of \<open>IsScale\<close> are quotients, not rounded; the arithmetic of display frames, which
  is truncated to pixels, is rounded as \<open>float\<close> and \<open>double\<close> are (\<open>Float_Round\<close>).  For an empty display frame the code gets an infinity or NaN; such
  a layer is outside the model, and \<open>Init\<close> is \<open>None\<close>.
\<close>

text \<open>
  What the code asks of the system: the property service, the SoC and the kernel, the parsed
  value of \<open>vendor.video.skipline\<close>.
\<close>

record layer_env =
  le_pget :: property_get
  le_soc :: u32
  le_kernel_6_1 :: bool
  le_skipline :: int

section \<open>Formats\<close>

definition IsYuvFormat :: "sdk \<Rightarrow> formats \<Rightarrow> int \<Rightarrow> u32 \<Rightarrow> bool" where
  "IsYuvFormat K F format fourcc_format \<longleftrightarrow>
     fourcc_format \<in> {DRM_FORMAT_NV12 F, DRM_FORMAT_NV12_10 F, DRM_FORMAT_NV21 F,
        DRM_FORMAT_NV16 F, DRM_FORMAT_NV61 F, DRM_FORMAT_YUV420 F, DRM_FORMAT_YVU420 F,
        DRM_FORMAT_YUV422 F, DRM_FORMAT_YVU422 F, DRM_FORMAT_YUV444 F, DRM_FORMAT_YVU444 F,
        DRM_FORMAT_UYVY F, DRM_FORMAT_VYUY F, DRM_FORMAT_YUYV F, DRM_FORMAT_YVYU F,
        DRM_FORMAT_YUV420_8BIT F, DRM_FORMAT_YUV420_10BIT F, DRM_FORMAT_NV24 F,
        DRM_FORMAT_NV42 F, DRM_FORMAT_NV15 F, DRM_FORMAT_NV20 F, DRM_FORMAT_NV30 F,
        DRM_FORMAT_Y210 F, DRM_FORMAT_VUY888 F, DRM_FORMAT_VUY101010 F}
     \<or> format \<in> {HAL_PIXEL_FORMAT_YCrCb_NV12 F, HAL_PIXEL_FORMAT_YCrCb_NV12_10 K,
        HAL_PIXEL_FORMAT_YCrCb_NV12_VIDEO F, HAL_PIXEL_FORMAT_YCbCr_422_SP_10 F,
        HAL_PIXEL_FORMAT_YCrCb_420_SP_10 F, HAL_PIXEL_FORMAT_YCBCR_422_I F,
        HAL_PIXEL_FORMAT_YUV420_8BIT_I F, HAL_PIXEL_FORMAT_YUV420_10BIT_I F,
        HAL_PIXEL_FORMAT_Y210 F}"

definition Is10bitYuv :: "sdk \<Rightarrow> formats \<Rightarrow> int \<Rightarrow> u32 \<Rightarrow> bool" where
  "Is10bitYuv K F format fourcc_format \<longleftrightarrow>
     fourcc_format \<in> {DRM_FORMAT_NV12_10 F, DRM_FORMAT_YUV420_10BIT F,
        DRM_FORMAT_VUY101010 F, DRM_FORMAT_Y210 F, DRM_FORMAT_NV30 F, DRM_FORMAT_NV20 F,
        DRM_FORMAT_NV15 F}
     \<or> format \<in> {HAL_PIXEL_FORMAT_YCrCb_NV12_10 K, HAL_PIXEL_FORMAT_YCbCr_422_SP_10 F,
        HAL_PIXEL_FORMAT_YCrCb_420_SP_10 F, HAL_PIXEL_FORMAT_YUV420_10BIT_I F}"

definition IsAfbcModifier :: "formats \<Rightarrow> layer_env \<Rightarrow> bool \<Rightarrow> u64 \<Rightarrow> bool" where
  "IsAfbcModifier F e fb_target modifier =
     (if fb_target then
        hwc_get_int_property (le_pget e)
          (Some ''vendor.gralloc.no_afbc_for_fb_target_layer'') (Some ''0'') = 0
      else if isRK3576 (le_soc e) then
        (if fourcc_mod_is_vendor modifier (DRM_FORMAT_MOD_VENDOR_ARM F)
         then modifier AND AFBC_FORMAT_MOD_BLOCK_SIZE_32x8 F \<noteq> 0 else False)
      else AFBC_FORMAT_MOD_BLOCK_SIZE_16x16 F = modifier AND AFBC_FORMAT_MOD_BLOCK_SIZE_16x16 F)"

definition IsRfbcModifier :: "u64 \<Rightarrow> bool" where
  "IsRfbcModifier modifier = IS_ROCKCHIP_RFBC_MOD modifier"

section \<open>Scaling\<close>

text \<open>\<open>DrmHwcTransform\<close>: the two rotations that swap width and height.\<close>

definition kRotate90 :: u32 where "kRotate90 = push_bit 1 1"
definition kRotate270 :: u32 where "kRotate270 = push_bit 3 1"

text \<open>\<open>IsScale\<close>, with the two factors it writes.\<close>

definition IsScale ::
  "bool \<Rightarrow> hwc_frect \<Rightarrow> hwc_rect \<Rightarrow> u32 \<Rightarrow> (bool \<times> rat \<times> rat) option" where
  "IsScale yuv crop frame tr =
     (let src_w = trunc_rat (fright crop - fleft crop);
          src_h = trunc_rat (fbottom crop - ftop crop);
          dst_w = right frame - left frame;
          dst_h = bottom frame - top frame
      in if dst_w = 0 \<or> dst_h = 0 then None
         else
          (let (h, v) =
             (if tr = kRotate90 \<or> tr = kRotate270 then
                (let src_h' = (if yuv then align_down src_h 8 else src_h);
                     src_w' = (if yuv then align_down src_w 2 else src_w)
                 in (of_int src_h' / of_int dst_w, of_int src_w' / of_int dst_h))
              else (of_int src_w / of_int dst_w, of_int src_h / of_int dst_h))
           in Some (h \<noteq> 1 \<or> v \<noteq> 1, h, v)))"

text \<open>\<open>3840 / 1600\<close> is an integer division.\<close>

definition GetSkipLine :: "sdk \<Rightarrow> layer_env \<Rightarrow> DrmHwcLayer \<Rightarrow> int" where
  "GetSkipLine K e l =
     (let skip0 = 0;
          skip1 =
            (if bYuv l \<and> 3840 \<le> iWidth l then
               (let a = (if 1 < fHScaleMul l \<or> 1 < fVScaleMul l then 2 else skip0)
                in if iFormat l = HAL_PIXEL_FORMAT_YCrCb_NV12_10 K \<and>
                      of_int (cdiv 3840 1600) \<le> fHScaleMul l then 3 else a)
             else skip0);
          skip2 =
            (if bYuv l then
               (if le_skipline e = 2 then 2 else if le_skipline e = 3 then 3 else skip1)
             else skip1)
      in if 0 \<le> skip2 then skip2 else 0)"

section \<open>Colour\<close>

definition IsSkipLayer :: "DrmHwcLayer \<Rightarrow> bool" where
  "IsSkipLayer l = (if bSidebandStreamLayer l then False else sf_handle l = 0)"

definition IsHdr :: "formats \<Rightarrow> u32 \<Rightarrow> bool" where
  "IsHdr F dataspace \<longleftrightarrow>
     dataspace AND HAL_DATASPACE_TRANSFER_ST2084 F = HAL_DATASPACE_TRANSFER_ST2084 F \<or>
     dataspace AND HAL_DATASPACE_TRANSFER_HLG F = HAL_DATASPACE_TRANSFER_HLG F"

text \<open>Without \<open>USE_VIVID_HDR\<close>, the default, no layer has HDR metadata.\<close>

definition IsMetadataHdr :: "u64 \<Rightarrow> bool" where
  "IsMetadataHdr usage = False"

definition colour_range :: "sdk \<Rightarrow> formats \<Rightarrow> u32 \<Rightarrow> drm_color_range" where
  "colour_range K F dataspace =
     (if dataspace AND HAL_DATASPACE_RANGE_MASK F = HAL_DATASPACE_RANGE_FULL K
      then DRM_COLOR_YCBCR_FULL_RANGE else DRM_COLOR_YCBCR_LIMITED_RANGE)"

definition GetColorSpace ::
  "sdk \<Rightarrow> formats \<Rightarrow> layer_env \<Rightarrow> bool \<Rightarrow> u32 \<Rightarrow> drm_colorspace" where
  "GetColorSpace K F e yuv dataspace =
     (let std = dataspace AND HAL_DATASPACE_STANDARD_MASK F;
          range = colour_range K F dataspace;
          full = (range = DRM_COLOR_YCBCR_FULL_RANGE)
      in if HAL_DATASPACE_STANDARD_BT601_625 F = std \<or>
            HAL_DATASPACE_STANDARD_BT601_625_UNADJUSTED F = std \<or>
            HAL_DATASPACE_STANDARD_BT601_525 F = std \<or>
            HAL_DATASPACE_STANDARD_BT601_525_UNADJUSTED F = std
         then
           (if le_kernel_6_1 e then colorspace_kernel_6_1 DRM_COLOR_YCBCR_BT601 range
            else colorspace_kernel_510
              (if full then V4L2_COLORSPACE_JPEG else V4L2_COLORSPACE_SMPTE170M))
         else if HAL_DATASPACE_STANDARD_BT709 K = std
         then
           (if le_kernel_6_1 e then colorspace_kernel_6_1 DRM_COLOR_YCBCR_BT709 range
            else colorspace_kernel_510
              (if full then V4L2_COLORSPACE_SRGB else V4L2_COLORSPACE_REC709))
         else if HAL_DATASPACE_STANDARD_BT2020 F = std \<or>
                 HAL_DATASPACE_STANDARD_BT2020_CONSTANT_LUMINANCE F = std
         then
           (if le_kernel_6_1 e then colorspace_kernel_6_1 DRM_COLOR_YCBCR_BT2020 range
            else colorspace_kernel_510 V4L2_COLORSPACE_BT2020)
         else if le_kernel_6_1 e then
           (if yuv
            then colorspace_kernel_6_1 DRM_COLOR_YCBCR_BT601 DRM_COLOR_YCBCR_LIMITED_RANGE
            else colorspace_kernel_6_1 DRM_COLOR_YCBCR_BT709 DRM_COLOR_YCBCR_FULL_RANGE)
         else colorspace_kernel_510 V4L2_COLORSPACE_DEFAULT)"

definition GetEOTF :: "formats \<Rightarrow> bool \<Rightarrow> u32 \<Rightarrow> u16" where
  "GetEOTF F yuv dataspace =
     (let tf = dataspace AND HAL_DATASPACE_TRANSFER_MASK F in
      if yuv then
        (if tf = HAL_DATASPACE_TRANSFER_ST2084 F then SMPTE_ST2084 F
         else if tf = HAL_DATASPACE_TRANSFER_HLG F then HLG F
         else TRADITIONAL_GAMMA_SDR F)
      else TRADITIONAL_GAMMA_SDR F)"

section \<open>\<open>Init\<close>\<close>

definition layer_Init ::
  "sdk \<Rightarrow> formats \<Rightarrow> layer_env \<Rightarrow> DrmHwcLayer \<Rightarrow> DrmHwcLayer option" where
  "layer_Init K F e l =
     (let yuv = IsYuvFormat K F (iFormat l) (uFourccFormat l) in
      case IsScale yuv (source_crop l) (display_frame l) (transform l) of
        None \<Rightarrow> None
      | Some (sc, h, v) \<Rightarrow>
         (let l1 = l\<lparr> bYuv := yuv, bScale := sc, fHScaleMul := h, fVScaleMul := v \<rparr>
          in Some (l1\<lparr>
               bAfbcd := IsAfbcModifier F e (bFbTarget l) (uModifier (buf l)),
               bRfbcd := IsRfbcModifier (uModifier (buf l)),
               bSkipLayer := IsSkipLayer l,
               bHdr := IsHdr F (eDataSpace l),
               buf := (buf l)\<lparr>
                 bYuv10bit := Is10bitYuv K F (iFormat l) (uFourccFormat l),
                 iSkipLine := GetSkipLine K e l1,
                 bMetadataHdr := IsMetadataHdr (iUsage (buf l)),
                 uColorSpace := GetColorSpace K F e yuv (eDataSpace l),
                 uEOTF := GetEOTF F yuv (eDataSpace l) \<rparr> \<rparr>)))"

text \<open>A layer as \<open>Init\<close> leaves it.\<close>

definition initialised :: "sdk \<Rightarrow> formats \<Rightarrow> layer_env \<Rightarrow> DrmHwcLayer \<Rightarrow> bool" where
  "initialised K F e l \<longleftrightarrow> layer_Init K F e l = Some l"

section \<open>Setters\<close>

datatype BlendMode = BlendNone | Premultiplied | Coverage | BlendOther

definition SetBlend :: "BlendMode \<Rightarrow> DrmHwcLayer \<Rightarrow> DrmHwcLayer" where
  "SetBlend b l =
     l\<lparr> blending := (case b of
          BlendNone \<Rightarrow> kNone | Premultiplied \<Rightarrow> kPreMult | Coverage \<Rightarrow> kCoverage
        | BlendOther \<Rightarrow> kNone) \<rparr>"

definition SetSourceCrop :: "hwc_frect \<Rightarrow> DrmHwcLayer \<Rightarrow> DrmHwcLayer" where
  "SetSourceCrop crop l = l\<lparr> source_crop := crop \<rparr>"

text \<open>\<open>HWC2::Transform\<close>; the last constructor is any other value.\<close>

datatype sf_transform =
    T_None | T_FlipH | T_FlipV | T_Rotate90 | T_Rotate180 | T_Rotate270
  | T_FlipHRotate90 | T_FlipVRotate90 | T_other

definition transform_bits :: "sdk \<Rightarrow> sf_transform \<Rightarrow> u32" where
  "transform_bits K t =
     (case t of
        T_None \<Rightarrow> DRM_MODE_ROTATE_0 K
      | T_FlipH \<Rightarrow> DRM_MODE_ROTATE_0 K OR DRM_MODE_REFLECT_X K
      | T_FlipV \<Rightarrow> DRM_MODE_ROTATE_0 K OR DRM_MODE_REFLECT_Y K
      | T_Rotate90 \<Rightarrow> DRM_MODE_ROTATE_90 K
      | T_Rotate180 \<Rightarrow> DRM_MODE_ROTATE_0 K OR DRM_MODE_REFLECT_X K OR DRM_MODE_REFLECT_Y K
      | T_Rotate270 \<Rightarrow> DRM_MODE_ROTATE_270 K
      | T_FlipHRotate90 \<Rightarrow> DRM_MODE_ROTATE_0 K OR DRM_MODE_REFLECT_X K OR DRM_MODE_ROTATE_90 K
      | T_FlipVRotate90 \<Rightarrow> DRM_MODE_ROTATE_0 K OR DRM_MODE_REFLECT_Y K OR DRM_MODE_ROTATE_90 K
      | T_other \<Rightarrow> -1)"

definition SetTransform :: "sdk \<Rightarrow> sf_transform \<Rightarrow> DrmHwcLayer \<Rightarrow> DrmHwcLayer" where
  "SetTransform K t l = l\<lparr> transform := transform_bits K t \<rparr>"

definition TransformToString :: "sdk \<Rightarrow> u32 \<Rightarrow> string" where
  "TransformToString K tr =
     (if tr = DRM_MODE_ROTATE_0 K then ''None''
      else if tr = DRM_MODE_ROTATE_0 K OR DRM_MODE_REFLECT_X K then ''FlipH''
      else if tr = DRM_MODE_ROTATE_0 K OR DRM_MODE_REFLECT_Y K then ''FlipV''
      else if tr = DRM_MODE_ROTATE_90 K then ''Rotate90''
      else if tr = DRM_MODE_ROTATE_0 K OR DRM_MODE_REFLECT_X K OR DRM_MODE_REFLECT_Y K
      then ''Rotate180''
      else if tr = DRM_MODE_ROTATE_270 K then ''Rotate270''
      else if tr = DRM_MODE_ROTATE_0 K OR DRM_MODE_REFLECT_X K OR DRM_MODE_ROTATE_90 K
      then ''FlipHRotate90''
      else if tr = DRM_MODE_ROTATE_0 K OR DRM_MODE_REFLECT_Y K OR DRM_MODE_ROTATE_90 K
      then ''FlipVRotate90''
      else ''Unknown'')"

definition BlendingToString :: "DrmHwcBlending \<Rightarrow> string" where
  "BlendingToString b =
     (case b of kNone \<Rightarrow> ''NONE'' | kPreMult \<Rightarrow> ''PREMULT'' | kCoverage \<Rightarrow> ''COVERAGE'')"

section \<open>Display frame and overscan\<close>

text \<open>The members of \<open>hwc2_drm_display_t\<close> (\<open>include/rockchip/drmtype.h\<close>) that matter here.\<close>

record hwc2_drm_display =
  bStandardSwitchResolution :: bool
  framebuffer_width :: int
  framebuffer_height :: int
  rel_xoffset :: int
  rel_yoffset :: int
  rel_xres :: int
  rel_yres :: int
  overscan_value :: string

text \<open>An \<open>int\<close> times a \<open>float\<close>, truncated.\<close>

definition part_of :: "int \<Rightarrow> rat \<Rightarrow> int" where
  "part_of d scale = trunc_rat (float32 (float32 (of_int d) * scale))"

lemma part_of_1: "\<bar>d\<bar> < 2 ^ 24 \<Longrightarrow> part_of d 1 = d"
  by (simp add: part_of_def round_bits_int)

definition frame_scale :: "int \<Rightarrow> int \<Rightarrow> rat" where
  "frame_scale res fb = float32 (float32 (of_int res) / float32 (of_int fb))"

lemma frame_scale_same: "n \<noteq> 0 \<Longrightarrow> \<bar>n\<bar> < 2 ^ 24 \<Longrightarrow> frame_scale n n = 1"
  using round_bits_int [of 1 24] by (simp add: frame_scale_def round_bits_int)

text \<open>Without a frame buffer size the factors are not numbers: \<open>None\<close>.\<close>

definition SetDisplayFrame ::
  "hwc_rect \<Rightarrow> hwc2_drm_display \<Rightarrow> DrmHwcLayer \<Rightarrow> DrmHwcLayer option" where
  "SetDisplayFrame frame ctx l =
     (let same = bStandardSwitchResolution ctx;
          x_scale = (if same then 1 else frame_scale (rel_xres ctx) (framebuffer_width ctx));
          y_scale = (if same then 1 else frame_scale (rel_yres ctx) (framebuffer_height ctx));
          put = (\<lambda>v scale offset. part_of v scale + offset)
      in if \<not> same \<and> (framebuffer_width ctx = 0 \<or> framebuffer_height ctx = 0) then None
         else Some (l\<lparr>
           buf := (buf l)\<lparr> display_frame_sf := frame \<rparr>,
           display_frame :=
             \<lparr> left = put (left frame) x_scale (rel_xoffset ctx),
               top = put (top frame) y_scale (rel_yoffset ctx),
               right = put (right frame) x_scale (rel_xoffset ctx),
               bottom = put (bottom frame) y_scale (rel_yoffset ctx) \<rparr> \<rparr>))"

text \<open>
  \<open>sscanf(s, "overscan %d,%d,%d,%d", \<dots>)\<close>: the numbers read before the first mismatch, at most
  four.  \<open>%d\<close> skips white space and needs a digit after an optional sign.
\<close>

definition scan_int :: "string \<Rightarrow> (int \<times> string) option" where
  "scan_int s =
     (let t = dropWhile is_space s;
          (neg, u) = (case t of
             CHR ''-'' # r \<Rightarrow> (True, r) | CHR ''+'' # r \<Rightarrow> (False, r) | _ \<Rightarrow> (False, t))
      in case u of
           [] \<Rightarrow> None
         | c # cs \<Rightarrow>
             if is_digit c
             then Some (if neg then - digits_value 0 u else digits_value 0 u, dropWhile is_digit u)
             else None)"

fun scan_ints :: "nat \<Rightarrow> string \<Rightarrow> int list" where
  "scan_ints 0 s = []"
| "scan_ints (Suc n) s =
     (case scan_int s of
        None \<Rightarrow> []
      | Some (v, r) \<Rightarrow>
          v # (case r of CHR '','' # r' \<Rightarrow> scan_ints n r' | _ \<Rightarrow> []))"

definition scan_overscan :: "string \<Rightarrow> int list" where
  "scan_overscan s =
     (if take 8 s = ''overscan'' then scan_ints 4 (dropWhile is_space (drop 8 s)) else [])"

text \<open>The margin at position \<open>i\<close>: \<open>100\<close> when it was not read, then limited to \<open>60..100\<close>.\<close>

definition margin :: "int list \<Rightarrow> nat \<Rightarrow> int" where
  "margin ms i =
     (let m = (if i < length ms then ms ! i else 100);
          m1 = (if m < 60 then 60 else m)
      in if 100 < m1 then 100 else m1)"

text \<open>
  The arithmetic is rounded step by step as the code's types say: the scales are \<open>float\<close>, the factor
  \<open>1.0 - lscale - rscale\<close> and its product are \<open>double\<close>, and a product of an \<open>int\<close> with a scale is
  \<open>float\<close>, as is the \<open>int\<close> in it.
\<close>

definition margin_scale :: "int list \<Rightarrow> nat \<Rightarrow> rat" where
  "margin_scale ms i =
     (let margin_f = float32 (float32 (of_int (100 - margin ms i)) / 2)
      in float32 (margin_f / 100))"

definition shrink_start :: "int \<Rightarrow> int \<Rightarrow> rat \<Rightarrow> rat \<Rightarrow> int" where
  "shrink_start start res lo hi =
     trunc_rat (float64 (of_int start * float64 (float64 (1 - lo) - hi))) + part_of res lo"

definition shrink_size :: "int \<Rightarrow> rat \<Rightarrow> rat \<Rightarrow> int" where
  "shrink_size d lo hi = d - (part_of d lo + part_of d hi)"

definition ModifyDisplayFrameForOverscan ::
  "hwc2_drm_display \<Rightarrow> DrmHwcLayer \<Rightarrow> DrmHwcLayer option" where
  "ModifyDisplayFrameForOverscan ctx l =
     (let ms = scan_overscan (overscan_value ctx);
          lscale = margin_scale ms 0; tscale = margin_scale ms 1;
          rscale = margin_scale ms 2; bscale = margin_scale ms 3;
          f = display_frame l;
          dst_w = right f - left f; dst_h = bottom f - top f;
          x = shrink_start (left f) (rel_xres ctx) lscale rscale;
          y = shrink_start (top f) (rel_yres ctx) tscale bscale;
          f' = \<lparr> left = x, top = y, right = x + shrink_size dst_w lscale rscale,
                 bottom = y + shrink_size dst_h tscale bscale \<rparr>
      in case IsScale (bYuv l) (source_crop l) f' (transform l) of
           None \<Rightarrow> None
         | Some (sc, h, v) \<Rightarrow>
             Some (l\<lparr> display_frame := f', bScale := sc, fHScaleMul := h, fVScaleMul := v \<rparr>))"

section \<open>Another buffer in the layer's place\<close>

text \<open>
  The description of the buffer that comes in.  For an empty display frame, where the code computes
  an infinity or NaN and goes on, taking it in is \<open>None\<close>, as \<open>Init\<close> is.
\<close>

record buffer_info =
  in_handle :: nat
  in_fd :: int
  in_format :: int
  in_w :: int
  in_h :: int
  in_stride :: int
  in_h_stride :: int
  in_byte_stride :: int
  in_size :: int
  in_usage :: u64
  in_fourcc :: u32
  in_modifier :: u64
  in_byte_stride_planes :: "u32 list"
  in_name :: string
  in_buffer_id :: u64
  in_gemhandle :: u32

definition store_of :: "DrmHwcLayer \<Rightarrow> DrmLayerInfoStore" where
  "store_of l =
     \<lparr> st_sf_handle = sf_handle l, st_transform = transform l, st_source_crop = source_crop l,
       st_display_frame = display_frame l, st_iFd = iFd (buf l), st_iFormat = iFormat l,
       st_iWidth = iWidth l, st_iHeight = iHeight l, st_iStride = iStride l,
       st_iHeightStride = iHeightStride (buf l), st_iByteStride = iByteStride (buf l),
       st_iSize = iSize l, st_iUsage = iUsage (buf l), st_uFourccFormat = uFourccFormat l,
       st_uModifier = uModifier (buf l), st_uBufferId = uBufferId (buf l),
       st_uGemHandle = uGemHandle (buf l), st_eDataSpace = eDataSpace l,
       st_sLayerName = sLayerName l, st_uByteStridePlanes = uByteStridePlanes (buf l),
       st_bAfbcd = bAfbcd l, st_bRfbcd = bRfbcd l \<rparr>"

definition take_buffer :: "buffer_info \<Rightarrow> hwc_frect \<Rightarrow> u32 \<Rightarrow> DrmHwcLayer \<Rightarrow> DrmHwcLayer" where
  "take_buffer b crop tr l =
     l\<lparr> sf_handle := in_handle b, iFormat := in_format b, iWidth := in_w b, iHeight := in_h b,
        iStride := in_stride b, iSize := in_size b, uFourccFormat := in_fourcc b,
        sLayerName := in_name b, source_crop := crop, transform := tr,
        buf := (buf l)\<lparr> iFd := in_fd b, iHeightStride := in_h_stride b,
          iByteStride := in_byte_stride b, iUsage := in_usage b, uModifier := in_modifier b,
          uBufferId := in_buffer_id b, uGemHandle := in_gemhandle b,
          uByteStridePlanes := in_byte_stride_planes b \<rparr> \<rparr>"

definition UpdateAndStoreInfoFromDrmBuffer ::
  "sdk \<Rightarrow> formats \<Rightarrow> layer_env \<Rightarrow> buffer_info \<Rightarrow> hwc_frect \<Rightarrow> u32 \<Rightarrow> DrmHwcLayer \<Rightarrow>
   DrmHwcLayer option" where
  "UpdateAndStoreInfoFromDrmBuffer K F e b crop replace_transform l =
     layer_Init K F e
       (take_buffer b crop replace_transform
          (l\<lparr> buf := (buf l)\<lparr> storeLayerInfo := Some (store_of l) \<rparr> \<rparr>))"

definition from_store :: "DrmLayerInfoStore \<Rightarrow> DrmHwcLayer \<Rightarrow> DrmHwcLayer" where
  "from_store t l =
     l\<lparr> sf_handle := st_sf_handle t, transform := st_transform t,
        source_crop := st_source_crop t, iFormat := st_iFormat t, iWidth := st_iWidth t,
        iHeight := st_iHeight t, iStride := st_iStride t, iSize := st_iSize t,
        uFourccFormat := st_uFourccFormat t, sLayerName := st_sLayerName t,
        eDataSpace := st_eDataSpace t,
        buf := (buf l)\<lparr> iFd := st_iFd t, iHeightStride := st_iHeightStride t,
          iByteStride := st_iByteStride t, iUsage := st_iUsage t, uModifier := st_uModifier t,
          uBufferId := st_uBufferId t, uGemHandle := st_uGemHandle t,
          uByteStridePlanes := st_uByteStridePlanes t \<rparr> \<rparr>"

definition ResetInfoFromStore ::
  "sdk \<Rightarrow> formats \<Rightarrow> layer_env \<Rightarrow> DrmHwcLayer \<Rightarrow> DrmHwcLayer option" where
  "ResetInfoFromStore K F e l =
     (case storeLayerInfo (buf l) of
        None \<Rightarrow> Some l
      | Some t \<Rightarrow>
         (case layer_Init K F e (from_store t l) of
            None \<Rightarrow> None
          | Some l' \<Rightarrow> Some (l'\<lparr> buf := (buf l')\<lparr> storeLayerInfo := None \<rparr> \<rparr>)))"

end
