(* ===== verification/Layer_Props.thy ===== *)
theory Layer_Props
  imports Layer_Info Vop_Combine
begin

text \<open>
  What \<open>Layer_Info\<close> promises: \<open>Init\<close> is a function of the data it reads and idempotent, taking
  another buffer in and out again restores the layer, the transform names agree with the
  transform bits, overscan moves a frame as the margins say, to within three pixels.  One theorem shows where \<open>IsScale\<close>
  misses two of the rotations.
\<close>

section \<open>\<open>Init\<close>\<close>

lemma layer_Init_Some:
  "layer_Init K F e l = Some l' \<longleftrightarrow>
     (\<exists>sc h v. IsScale (IsYuvFormat K F (iFormat l) (uFourccFormat l)) (source_crop l)
         (display_frame l) (transform l) = Some (sc, h, v) \<and>
       l' = (let yuv = IsYuvFormat K F (iFormat l) (uFourccFormat l);
                 l1 = l\<lparr> bYuv := yuv, bScale := sc, fHScaleMul := h, fVScaleMul := v \<rparr>
             in l1\<lparr>
               bAfbcd := IsAfbcModifier F e (bFbTarget l) (uModifier (buf l)),
               bRfbcd := IsRfbcModifier (uModifier (buf l)),
               bSkipLayer := IsSkipLayer l,
               bHdr := IsHdr F (eDataSpace l),
               buf := (buf l)\<lparr>
                 bYuv10bit := Is10bitYuv K F (iFormat l) (uFourccFormat l),
                 iSkipLine := GetSkipLine K e l1,
                 bMetadataHdr := IsMetadataHdr (iUsage (buf l)),
                 uColorSpace := GetColorSpace K F e yuv (eDataSpace l),
                 uEOTF := GetEOTF F yuv (eDataSpace l) \<rparr> \<rparr>))"
  by (auto simp: layer_Init_def Let_def split: option.splits)

text \<open>The data \<open>Init\<close> reads; it leaves them alone.\<close>

definition inputs ::
  "DrmHwcLayer \<Rightarrow> int \<times> u32 \<times> hwc_frect \<times> hwc_rect \<times> u32 \<times> bool \<times> bool \<times> nat \<times> int \<times> u32 \<times> u64 \<times> u64"
where
  "inputs l = (iFormat l, uFourccFormat l, source_crop l, display_frame l, transform l,
     bFbTarget l, bSidebandStreamLayer l, sf_handle l, iWidth l, eDataSpace l,
     uModifier (buf l), iUsage (buf l))"

lemma layer_Init_inputs: "layer_Init K F e l = Some l' \<Longrightarrow> inputs l' = inputs l"
  by (auto simp: layer_Init_Some inputs_def Let_def)

lemma GetSkipLine_cong:
  "bYuv l = bYuv l' \<Longrightarrow> iWidth l = iWidth l' \<Longrightarrow> fHScaleMul l = fHScaleMul l' \<Longrightarrow>
   fVScaleMul l = fVScaleMul l' \<Longrightarrow> iFormat l = iFormat l' \<Longrightarrow>
   GetSkipLine K e l = GetSkipLine K e l'"
  by (simp add: GetSkipLine_def Let_def)

lemma IsSkipLayer_cong:
  "sf_handle l = sf_handle l' \<Longrightarrow> bSidebandStreamLayer l = bSidebandStreamLayer l' \<Longrightarrow>
   IsSkipLayer l = IsSkipLayer l'"
  by (simp add: IsSkipLayer_def)

text \<open>
  The derived fields of two layers with the same data are the same, so a layer built from
  another one by writing data and running \<open>Init\<close> does not remember what was there before.
\<close>

definition with_derived :: "DrmHwcLayer \<Rightarrow> DrmHwcLayer \<Rightarrow> DrmHwcLayer" where
  "with_derived d l =
     l\<lparr> bYuv := bYuv d, bScale := bScale d, fHScaleMul := fHScaleMul d,
        fVScaleMul := fVScaleMul d, bAfbcd := bAfbcd d, bRfbcd := bRfbcd d,
        bSkipLayer := bSkipLayer d, bHdr := bHdr d,
        buf := (buf l)\<lparr> bYuv10bit := bYuv10bit (buf d), iSkipLine := iSkipLine (buf d),
          bMetadataHdr := bMetadataHdr (buf d), uColorSpace := uColorSpace (buf d),
          uEOTF := uEOTF (buf d) \<rparr> \<rparr>"

lemma layer_Init_depends:
  assumes "inputs l = inputs m" "layer_Init K F e m = Some d"
  shows "layer_Init K F e l = Some (with_derived d l)"
proof -
  have i: "iFormat l = iFormat m" "uFourccFormat l = uFourccFormat m"
    "source_crop l = source_crop m" "display_frame l = display_frame m"
    "transform l = transform m" "bFbTarget l = bFbTarget m"
    "bSidebandStreamLayer l = bSidebandStreamLayer m" "sf_handle l = sf_handle m"
    "iWidth l = iWidth m" "eDataSpace l = eDataSpace m"
    "uModifier (buf l) = uModifier (buf m)" "iUsage (buf l) = iUsage (buf m)"
    using assms(1) by (simp_all add: inputs_def)
  obtain sc h v where s: "IsScale (IsYuvFormat K F (iFormat m) (uFourccFormat m))
      (source_crop m) (display_frame m) (transform m) = Some (sc, h, v)"
    using assms(2) by (auto simp: layer_Init_Some)
  have g: "GetSkipLine K e (l\<lparr> bYuv := y, bScale := sc, fHScaleMul := h, fVScaleMul := v \<rparr>)
      = GetSkipLine K e (m\<lparr> bYuv := y, bScale := sc, fHScaleMul := h, fVScaleMul := v \<rparr>)" for y
    by (rule GetSkipLine_cong) (simp_all add: i)
  have k: "IsSkipLayer l = IsSkipLayer m" by (rule IsSkipLayer_cong) (simp_all add: i)
  show ?thesis
    using assms(2) by (auto simp: layer_Init_def s i g k Let_def with_derived_def)
qed

lemma with_derived_self [simp]: "with_derived l l = l"
  by (simp add: with_derived_def)

text \<open>
  Running \<open>Init\<close> again on a layer it has initialised changes nothing.
\<close>

lemma layer_Init_idempotent:
  "layer_Init K F e l = Some l' \<Longrightarrow> layer_Init K F e l' = Some l'"
  using layer_Init_depends [OF layer_Init_inputs] with_derived_self by metis

definition layer_rgb :: DrmHwcLayer where
  "layer_rgb = layer0\<lparr> bSkipLayer := False \<rparr>"

definition layer_env0 :: layer_env where
  "layer_env0 = \<lparr> le_pget = (\<lambda>k d. d), le_soc = 0x3588, le_kernel_6_1 = False, le_skipline = 0 \<rparr>"

lemma trunc_rat_numeral [simp]: "trunc_rat (numeral n) = numeral n" "trunc_rat 0 = 0" "trunc_rat 1 = 1"
  using trunc_rat_of_int [of "numeral n"] trunc_rat_of_int [of 0] trunc_rat_of_int [of 1] by simp_all

lemma not_yuv_rgb: "\<not> IsYuvFormat sdk0 formats0 1 0x34324241"
  by (simp add: IsYuvFormat_def formats0_def sdk0_def fcc_def fourcc_code_def)

lemma not_10bit_rgb: "\<not> Is10bitYuv sdk0 formats0 1 0x34324241"
  by (simp add: Is10bitYuv_def formats0_def sdk0_def fcc_def fourcc_code_def)

lemma layer0_scale:
  "IsScale yuv (source_crop layer0) (display_frame layer0) (transform layer0) = Some (False, 1, 1)"
  by (simp add: IsScale_def layer0_def rect_def kRotate90_def kRotate270_def Let_def)

lemma initialised_layer0: "initialised sdk0 formats0 layer_env0 layer0"
proof -
  have "IsAfbcModifier formats0 layer_env0 False 0 = False"
    "IsRfbcModifier 0 = False" "IsHdr formats0 0 = False"
    "GetColorSpace sdk0 formats0 layer_env0 False 0 = colorspace_kernel_510 V4L2_COLORSPACE_DEFAULT"
    "GetEOTF formats0 False 0 = 0"
    by (simp_all add: IsAfbcModifier_def layer_env0_def formats0_def IsRfbcModifier_def
        IS_ROCKCHIP_RFBC_MOD_def fourcc_mod_is_vendor_def fourcc_mod_get_vendor_def IsHdr_def
        DRM_FORMAT_MOD_VENDOR_ROCKCHIP_def GetColorSpace_def colour_range_def sdk0_def GetEOTF_def
        soc_defs)
  then show ?thesis
    unfolding initialised_def layer_Init_def layer0_scale Let_def
    by (simp add: layer0_def buf0_def not_yuv_rgb not_10bit_rgb IsSkipLayer_def
        GetSkipLine_def IsMetadataHdr_def)
qed

lemma layer_Init_idempotent_witness:
  "layer_Init sdk0 formats0 layer_env0 layer0 = Some layer0"
  using layer_Init_idempotent [OF initialised_layer0 [unfolded initialised_def]] .

section \<open>Another buffer in the layer's place\<close>

text \<open>What the policies write between storing and resetting.\<close>

definition set_marks ::
  "bool \<Rightarrow> int \<Rightarrow> int \<Rightarrow> bool \<Rightarrow> nat option \<Rightarrow> int \<Rightarrow> DrmHwcLayer \<Rightarrow> DrmHwcLayer" where
  "set_marks m z t u r fence l =
     l\<lparr> bMatch := m, iDrmZpos := z, iBestPlaneType := t,
        buf := (buf l)\<lparr> bUseRga := u, pRgaBuffer := r, acquire_fence := fence \<rparr> \<rparr>"

lemma Update_stores:
  assumes "UpdateAndStoreInfoFromDrmBuffer K F e b crop tr l = Some l1"
  shows "storeLayerInfo (buf l1) = Some (store_of l)"
  using assms by (auto simp: UpdateAndStoreInfoFromDrmBuffer_def layer_Init_Some Let_def
      take_buffer_def)

lemma restored_fields:
  "with_derived l (from_store (store_of l) (set_marks m z t u r fence
      (with_derived d (take_buffer b crop tr (l\<lparr> buf := (buf l)\<lparr> storeLayerInfo := x \<rparr> \<rparr>)))))
   = set_marks m z t u r fence (l\<lparr> buf := (buf l)\<lparr> storeLayerInfo := x \<rparr> \<rparr>)"
  by (rule DrmHwcLayer.equality)
    (simp_all add: with_derived_def from_store_def store_of_def set_marks_def take_buffer_def)

lemma with_derived_twice [simp]: "with_derived d (with_derived d' l) = with_derived d l"
  by (simp add: with_derived_def)

lemma stored_then_reset:
  assumes "initialised K F e l" "UpdateAndStoreInfoFromDrmBuffer K F e b crop tr l = Some l1"
  shows "ResetInfoFromStore K F e (set_marks m z t u r fence (with_derived d l1)) =
    Some (set_marks m z t u r fence (l\<lparr> buf := (buf l)\<lparr> storeLayerInfo := None \<rparr> \<rparr>))"
proof -
  let ?in = "take_buffer b crop tr (l\<lparr> buf := (buf l)\<lparr> storeLayerInfo := Some (store_of l) \<rparr> \<rparr>)"
  have "layer_Init K F e ?in = Some l1" using assms(2) by (simp add: UpdateAndStoreInfoFromDrmBuffer_def)
  then have "l1 = with_derived l1 ?in"
    using layer_Init_depends [OF refl, of K F e ?in l1] by simp
  then have l1: "with_derived d l1 = with_derived d ?in" by (metis with_derived_twice)
  let ?res = "from_store (store_of l) (set_marks m z t u r fence (with_derived d ?in))"
  have "inputs ?res = inputs l"
    by (simp add: inputs_def from_store_def store_of_def set_marks_def with_derived_def
        take_buffer_def)
  from layer_Init_depends [OF this assms(1) [unfolded initialised_def]]
  have "layer_Init K F e ?res = Some (set_marks m z t u r fence
      (l\<lparr> buf := (buf l)\<lparr> storeLayerInfo := Some (store_of l) \<rparr> \<rparr>))"
    by (simp only: restored_fields)
  moreover have "storeLayerInfo (buf (set_marks m z t u r fence (with_derived d ?in)))
      = Some (store_of l)"
    by (simp add: set_marks_def with_derived_def take_buffer_def)
  ultimately show ?thesis unfolding ResetInfoFromStore_def l1 by (simp add: set_marks_def)
qed

text \<open>What the reset leaves behind on any layer: what \<open>Init\<close> makes of the layer's own data.\<close>

abbreviation store_emptied :: "DrmHwcLayer \<Rightarrow> DrmHwcLayer" where
  "store_emptied l \<equiv> l\<lparr> buf := (buf l)\<lparr> storeLayerInfo := None \<rparr> \<rparr>"

lemma layer_Init_total:
  "layer_Init K F e l \<noteq> None \<longleftrightarrow>
     right (display_frame l) \<noteq> left (display_frame l) \<and> bottom (display_frame l) \<noteq> top (display_frame l)"
  by (auto simp: layer_Init_def IsScale_def Let_def)

lemma restored_derived:
  "from_store (store_of l) (set_marks m z t u r fence
      (with_derived d (take_buffer b crop tr (l\<lparr> buf := (buf l)\<lparr> storeLayerInfo := x \<rparr> \<rparr>))))
   = set_marks m z t u r fence (with_derived d (l\<lparr> buf := (buf l)\<lparr> storeLayerInfo := x \<rparr> \<rparr>))"
  by (rule DrmHwcLayer.equality)
    (simp_all add: with_derived_def from_store_def store_of_def set_marks_def take_buffer_def)

lemma reset_is_Init:
  assumes "UpdateAndStoreInfoFromDrmBuffer K F e b crop tr l = Some l1"
  shows "ResetInfoFromStore K F e (set_marks m z t u r fence l1) =
    layer_Init K F e (set_marks m z t u r fence (store_emptied l))"
    "layer_Init K F e l \<noteq> None"
proof -
  let ?st = "l\<lparr> buf := (buf l)\<lparr> storeLayerInfo := Some (store_of l) \<rparr> \<rparr>"
  let ?in = "take_buffer b crop tr ?st"
  have i: "layer_Init K F e ?in = Some l1" using assms by (simp add: UpdateAndStoreInfoFromDrmBuffer_def)
  then have l1: "l1 = with_derived l1 ?in" using layer_Init_depends [OF refl, of K F e ?in l1] by simp
  have "layer_Init K F e ?in \<noteq> None" using i by simp
  then show n: "layer_Init K F e l \<noteq> None" unfolding layer_Init_total by (simp add: take_buffer_def)
  then obtain d where d: "layer_Init K F e l = Some d" by blast
  let ?res = "from_store (store_of l) (set_marks m z t u r fence l1)"
  have res: "?res = set_marks m z t u r fence (with_derived l1 ?st)"
    by (subst l1) (rule restored_derived)
  have "inputs ?res = inputs l" "inputs (set_marks m z t u r fence (store_emptied l)) = inputs l"
    unfolding res by (simp_all add: inputs_def set_marks_def with_derived_def)
  note I = this [THEN layer_Init_depends, OF d]
  have "storeLayerInfo (buf (set_marks m z t u r fence l1)) = Some (store_of l)"
    using Update_stores [OF assms] by (simp add: set_marks_def)
  then show "ResetInfoFromStore K F e (set_marks m z t u r fence l1) =
      layer_Init K F e (set_marks m z t u r fence (store_emptied l))"
    by (simp add: ResetInfoFromStore_def I(2)) (simp only: res I(1) [unfolded res]
        option.case option.inject, simp add: set_marks_def with_derived_def)
qed

text \<open>Overscan after \<open>Init\<close>: of the derived fields only the number of lines to skip can be stale.\<close>

lemma initialised_fields:
  assumes "initialised K F e l"
  shows "bYuv l = IsYuvFormat K F (iFormat l) (uFourccFormat l)"
    "bAfbcd l = IsAfbcModifier F e (bFbTarget l) (uModifier (buf l))"
    "bRfbcd l = IsRfbcModifier (uModifier (buf l))"
    "bSkipLayer l = IsSkipLayer l" "bHdr l = IsHdr F (eDataSpace l)"
    "bYuv10bit (buf l) = Is10bitYuv K F (iFormat l) (uFourccFormat l)"
    "bMetadataHdr (buf l) = IsMetadataHdr (iUsage (buf l))"
    "uColorSpace (buf l) = GetColorSpace K F e (bYuv l) (eDataSpace l)"
    "uEOTF (buf l) = GetEOTF F (bYuv l) (eDataSpace l)"
proof -
  obtain sc h v where l: "l = (let yuv = IsYuvFormat K F (iFormat l) (uFourccFormat l);
                 l1 = l\<lparr> bYuv := yuv, bScale := sc, fHScaleMul := h, fVScaleMul := v \<rparr>
             in l1\<lparr>
               bAfbcd := IsAfbcModifier F e (bFbTarget l) (uModifier (buf l)),
               bRfbcd := IsRfbcModifier (uModifier (buf l)),
               bSkipLayer := IsSkipLayer l,
               bHdr := IsHdr F (eDataSpace l),
               buf := (buf l)\<lparr>
                 bYuv10bit := Is10bitYuv K F (iFormat l) (uFourccFormat l),
                 iSkipLine := GetSkipLine K e l1,
                 bMetadataHdr := IsMetadataHdr (iUsage (buf l)),
                 uColorSpace := GetColorSpace K F e yuv (eDataSpace l),
                 uEOTF := GetEOTF F yuv (eDataSpace l) \<rparr> \<rparr>)"
    using assms unfolding initialised_def layer_Init_Some by blast
  show y: "bYuv l = IsYuvFormat K F (iFormat l) (uFourccFormat l)"
    using arg_cong [OF l, of bYuv] by (simp add: Let_def)
  show "bAfbcd l = IsAfbcModifier F e (bFbTarget l) (uModifier (buf l))"
    using arg_cong [OF l, of bAfbcd] by (simp add: Let_def)
  show "bRfbcd l = IsRfbcModifier (uModifier (buf l))"
    using arg_cong [OF l, of bRfbcd] by (simp add: Let_def)
  show "bSkipLayer l = IsSkipLayer l" using arg_cong [OF l, of bSkipLayer] by (simp add: Let_def)
  show "bHdr l = IsHdr F (eDataSpace l)" using arg_cong [OF l, of bHdr] by (simp add: Let_def)
  show "bYuv10bit (buf l) = Is10bitYuv K F (iFormat l) (uFourccFormat l)"
    using arg_cong [OF l, of "\<lambda>l. bYuv10bit (buf l)"] by (simp add: Let_def)
  show "bMetadataHdr (buf l) = IsMetadataHdr (iUsage (buf l))"
    using arg_cong [OF l, of "\<lambda>l. bMetadataHdr (buf l)"] by (simp add: Let_def)
  show "uColorSpace (buf l) = GetColorSpace K F e (bYuv l) (eDataSpace l)"
    using arg_cong [OF l, of "\<lambda>l. uColorSpace (buf l)"] y by (simp add: Let_def)
  show "uEOTF (buf l) = GetEOTF F (bYuv l) (eDataSpace l)"
    using arg_cong [OF l, of "\<lambda>l. uEOTF (buf l)"] y by (simp add: Let_def)
qed

lemma Init_after_overscan:
  assumes "initialised K F e l0" "ModifyDisplayFrameForOverscan cx l0 = Some l"
  shows "layer_Init K F e l = Some (l\<lparr> buf := (buf l)\<lparr> iSkipLine := GetSkipLine K e l \<rparr> \<rparr>)"
proof -
  obtain f' sc h v where l: "l = l0\<lparr> display_frame := f', bScale := sc, fHScaleMul := h, fVScaleMul := v \<rparr>"
    and sc: "IsScale (bYuv l0) (source_crop l0) f' (transform l0) = Some (sc, h, v)"
    using assms(2) by (auto simp: ModifyDisplayFrameForOverscan_def Let_def split: option.splits)
  note i = initialised_fields [OF assms(1)]
  have sk: "IsSkipLayer (l0\<lparr> display_frame := f', bScale := sc, fHScaleMul := h,
      fVScaleMul := v \<rparr>) = bSkipLayer l0"
    unfolding i(4) by (rule IsSkipLayer_cong) simp_all
  have "layer_Init K F e l \<noteq> None" using sc by (simp add: layer_Init_def l i(1) Let_def)
  then obtain d where d: "layer_Init K F e l = Some d" by blast
  then have "d = with_derived d l" using layer_Init_depends [OF refl d] by simp
  moreover have "with_derived d l = l\<lparr> buf := (buf l)\<lparr> iSkipLine := GetSkipLine K e l \<rparr> \<rparr>"
  proof -
    have g: "GetSkipLine K e (l\<lparr> bYuv := bYuv l, bScale := sc, fHScaleMul := h, fVScaleMul := v \<rparr>) = GetSkipLine K e l"
      by (rule GetSkipLine_cong) (simp_all add: l)
    show ?thesis
      using d sc by (auto simp: layer_Init_Some with_derived_def Let_def l i [symmetric] sk)
  qed
  ultimately show ?thesis using d by simp
qed

text \<open>
  C26: Putting a buffer in the place of the layer's own and taking it out again: whatever matching
  marks, RGA marks and fence were set in between, the reset returns, and the layer is exactly
  what \<open>Init\<close> makes of the layer before, with these marks and an empty store.  So a layer that is
  as \<open>Init\<close> left it (\<open>initialised\<close>) is restored in every field.  A layer whose display frame
  overscan moved after \<open>Init\<close>, as \<open>ModifyHwcLayerDisplayFrame\<close> does, is restored except that
  the number of lines to skip is computed again, from the moved frame.  (Where the display frame
  is empty the code divides by zero; then taking the buffer in is \<open>None\<close>.)
\<close>

theorem buffer_round_trip:
  fixes l :: DrmHwcLayer and m u :: bool and z t fence :: int and r :: "nat option"
  assumes "UpdateAndStoreInfoFromDrmBuffer K F e b crop tr l = Some l1"
  defines "back \<equiv> ResetInfoFromStore K F e (set_marks m z t u r fence l1)"
    and "own \<equiv> set_marks m z t u r fence (l\<lparr> buf := (buf l)\<lparr> storeLayerInfo := None \<rparr> \<rparr>)"
  shows "back \<noteq> None \<and> back = layer_Init K F e own \<and>
    (initialised K F e l \<longrightarrow> back = Some own) \<and>
    (\<forall>cx l0. initialised K F e l0 \<and> ModifyDisplayFrameForOverscan cx l0 = Some l \<longrightarrow>
       back = Some (own\<lparr> buf := (buf own)\<lparr> iSkipLine := GetSkipLine K e l \<rparr> \<rparr>))"
proof -
  have in_own: "inputs own = inputs l" by (simp add: own_def inputs_def set_marks_def)
  have b: "back = layer_Init K F e own" using reset_is_Init(1) [OF assms(1)] by (simp add: back_def own_def)
  obtain d where d: "layer_Init K F e l = Some d" using reset_is_Init(2) [OF assms(1)] by blast
  have own: "back = Some (with_derived d own)" using layer_Init_depends [OF in_own d] b by simp
  moreover have "with_derived l own = own"
    by (simp add: own_def with_derived_def set_marks_def)
  then have "initialised K F e l \<longrightarrow> back = Some own" using own d by (auto simp: initialised_def)
  moreover have "back = Some (own\<lparr> buf := (buf own)\<lparr> iSkipLine := GetSkipLine K e l \<rparr> \<rparr>)"
    if "initialised K F e l0" "ModifyDisplayFrameForOverscan cx l0 = Some l" for cx l0
    using own d Init_after_overscan [OF that] by (auto simp: own_def with_derived_def set_marks_def)
  ultimately show ?thesis using b by blast
qed

definition buffer_info0 :: buffer_info where
  "buffer_info0 =
     \<lparr> in_handle = 9, in_fd = 30, in_format = 0x15, in_w = 50, in_h = 50, in_stride = 64,
       in_h_stride = 50, in_byte_stride = 64, in_size = 5000, in_usage = 0,
       in_fourcc = fcc ''NV12'', in_modifier = 0, in_byte_stride_planes = [64, 64],
       in_name = ''RGA-SurfaceView'', in_buffer_id = 5, in_gemhandle = 6 \<rparr>"

definition crop50 :: hwc_frect where
  "crop50 = \<lparr> fleft = 0, ftop = 0, fright = 50, fbottom = 50 \<rparr>"

lemma Update_total:
  assumes "right (display_frame l) \<noteq> left (display_frame l)"
    and "bottom (display_frame l) \<noteq> top (display_frame l)"
  shows "\<exists>l1. UpdateAndStoreInfoFromDrmBuffer K F e b crop tr l = Some l1"
  using assms by (simp add: UpdateAndStoreInfoFromDrmBuffer_def layer_Init_def IsScale_def Let_def
      take_buffer_def)

lemma buffer_round_trip_witness:
  "\<exists>l1. UpdateAndStoreInfoFromDrmBuffer sdk0 formats0 layer_env0 buffer_info0 crop50 1 layer0
      = Some l1 \<and> iWidth l1 = 50 \<and>
    ResetInfoFromStore sdk0 formats0 layer_env0 (set_marks True 3 0 True (Some 2) (-1) l1) =
      Some (set_marks True 3 0 True (Some 2) (-1) layer0)"
proof -
  obtain l1 where u: "UpdateAndStoreInfoFromDrmBuffer sdk0 formats0 layer_env0 buffer_info0
      crop50 1 layer0 = Some l1"
    using Update_total [of layer0 sdk0 formats0 layer_env0 buffer_info0 crop50 1]
    by (auto simp: layer0_def rect_def)
  then have "iWidth l1 = 50"
    by (auto simp: UpdateAndStoreInfoFromDrmBuffer_def layer_Init_Some Let_def take_buffer_def
        buffer_info0_def)
  moreover have "layer0\<lparr> buf := (buf layer0)\<lparr> storeLayerInfo := None \<rparr> \<rparr> = layer0"
    by (simp add: layer0_def buf0_def)
  moreover from buffer_round_trip [OF u, where m = True and z = 3 and t = 0 and u = True and
      r = "Some 2" and fence = "-1"] initialised_layer0
  have "ResetInfoFromStore sdk0 formats0 layer_env0 (set_marks True 3 0 True (Some 2) (-1) l1) =
      Some (set_marks True 3 0 True (Some 2) (-1) (store_emptied layer0))" by blast
  ultimately show ?thesis using u by simp
qed

section \<open>Transforms\<close>

text \<open>The values of \<open>drm_mode.h\<close>.\<close>

definition uapi_transforms :: "sdk \<Rightarrow> bool" where
  "uapi_transforms K \<longleftrightarrow>
     DRM_MODE_ROTATE_0 K = 1 \<and> DRM_MODE_ROTATE_90 K = 2 \<and> DRM_MODE_ROTATE_270 K = 8 \<and>
     DRM_MODE_REFLECT_X K = 16 \<and> DRM_MODE_REFLECT_Y K = 32"

definition transform_name :: "sf_transform \<Rightarrow> string" where
  "transform_name t =
     (case t of
        T_None \<Rightarrow> ''None'' | T_FlipH \<Rightarrow> ''FlipH'' | T_FlipV \<Rightarrow> ''FlipV''
      | T_Rotate90 \<Rightarrow> ''Rotate90'' | T_Rotate180 \<Rightarrow> ''Rotate180'' | T_Rotate270 \<Rightarrow> ''Rotate270''
      | T_FlipHRotate90 \<Rightarrow> ''FlipHRotate90'' | T_FlipVRotate90 \<Rightarrow> ''FlipVRotate90''
      | T_other \<Rightarrow> ''Unknown'')"

text \<open>
  The eight transforms of SurfaceFlinger are encoded injectively: the name printed for the
  bits \<open>SetTransform\<close> writes is the name of the transform it was given, and any other value
  prints as unknown.
\<close>

lemma transform_names:
  assumes "uapi_transforms K"
  shows "TransformToString K (transform (SetTransform K t l)) = transform_name t"
  using assms
  by (cases t) (simp_all add: uapi_transforms_def SetTransform_def transform_bits_def
      TransformToString_def transform_name_def)

lemma transform_names_witness:
  "TransformToString sdk0 (transform (SetTransform sdk0 T_FlipVRotate90 layer0)) = ''FlipVRotate90''"
  using transform_names [of sdk0 T_FlipVRotate90 layer0]
  by (simp add: uapi_transforms_def sdk0_def transform_name_def)

text \<open>
  \<open>IsScale\<close> swaps width and height for a plain rotation by 90 degrees only.  For the two
  mirrored rotations it computes the factors as if the layer were not rotated, so a layer
  rotated without scaling is reported as scaled, with the factors \<open>w / h\<close> and \<open>h / w\<close>.
\<close>

lemma mirrored_rotation_scale:
  assumes "uapi_transforms K" "t = T_FlipHRotate90 \<or> t = T_FlipVRotate90"
    and "0 < w" "0 < h" "w \<noteq> h"
  shows "IsScale False \<lparr> fleft = 0, ftop = 0, fright = of_int w, fbottom = of_int h \<rparr> (rect 0 0 h w)
           (transform_bits K T_Rotate90) = Some (False, 1, 1)
    \<and> IsScale False \<lparr> fleft = 0, ftop = 0, fright = of_int w, fbottom = of_int h \<rparr> (rect 0 0 h w)
           (transform_bits K t) = Some (True, of_int w / of_int h, of_int h / of_int w)"
  using assms
  by (auto simp: IsScale_def rect_def transform_bits_def uapi_transforms_def kRotate90_def
      kRotate270_def Let_def)

lemma mirrored_rotation_scale_witness:
  "IsScale False \<lparr> fleft = 0, ftop = 0, fright = 1920, fbottom = 1080 \<rparr> (rect 0 0 1080 1920)
     (transform_bits sdk0 T_FlipHRotate90) = Some (True, 1920 / 1080, 1080 / 1920)"
  using mirrored_rotation_scale [of sdk0 T_FlipHRotate90 1920 1080]
  by (simp add: uapi_transforms_def sdk0_def)

section \<open>Overscan\<close>

lemma trunc_nonneg:
  assumes "0 \<le> x"
  shows "of_int (trunc_rat x) \<le> x" "x < of_int (trunc_rat x) + 1" "0 \<le> trunc_rat x"
  using assms by (simp_all add: trunc_rat_def) linarith

lemma margin_bounds: "60 \<le> margin ms i \<and> margin ms i \<le> 100"
  by (simp add: margin_def Let_def)

lemma near_iff: "\<bar>x - y\<bar> \<le> d \<longleftrightarrow> x \<le> y + d \<and> y \<le> x + (d :: rat)"
  by (auto simp: abs_le_iff)

lemma near_less: "\<bar>x - y\<bar> < d \<longleftrightarrow> x < y + d \<and> y < x + (d :: rat)"
  by (auto simp: abs_less_iff)

text \<open>The scale a margin stands for, and where a coordinate goes, in exact arithmetic.\<close>

definition exact_scale :: "int list \<Rightarrow> nat \<Rightarrow> rat" where
  "exact_scale ms i = of_int (100 - margin ms i) / 200"

definition scan_image :: "int \<Rightarrow> rat \<Rightarrow> rat \<Rightarrow> int \<Rightarrow> rat" where
  "scan_image res lo hi c = of_int c * (1 - lo - hi) + of_int res * lo"

lemma exact_scale_bounds:
  "0 \<le> exact_scale ms i" "exact_scale ms i \<le> 1 / 5"
  "margin ms i \<noteq> 100 \<Longrightarrow> 1 / 200 \<le> exact_scale ms i" "margin ms i = 100 \<Longrightarrow> exact_scale ms i = 0"
  using margin_bounds [of ms i] by (simp_all add: exact_scale_def)

lemma margin_scale_error: "\<bar>margin_scale ms i - exact_scale ms i\<bar> \<le> exact_scale ms i / 2 ^ 24"
proof -
  define k where "k = 100 - margin ms i"
  have k: "\<bar>k\<bar> < 2 ^ 24" using margin_bounds [of ms i] by (simp add: k_def)
  have h: "float32 (of_int k / 2) = of_int k / 2"
    by (rule round_bits_exact [where k = 1 and n = k]) (use k in simp_all)
  have "margin_scale ms i = float32 (exact_scale ms i)"
    by (simp add: margin_scale_def exact_scale_def round_bits_int [OF k] h flip: k_def)
  then show ?thesis
    using round_bits_error [of 24 "exact_scale ms i"] exact_scale_bounds(1) [of ms i] by simp
qed

lemma margin_scale_near: "\<bar>margin_scale ms i - exact_scale ms i\<bar> \<le> (1 / 5) / 2 ^ 24"
  by (rule order_trans [OF margin_scale_error]) (use exact_scale_bounds(2) [of ms i] in simp)

lemma margin_scale_bounds: "0 \<le> margin_scale ms i" "margin_scale ms i \<le> 1 / 4"
proof -
  show "0 \<le> margin_scale ms i"
    using margin_bounds [of ms i] by (auto simp: margin_scale_def intro!: round_bits_nonneg divide_nonneg_pos)
  show "margin_scale ms i \<le> 1 / 4"
    using margin_scale_error [of ms i] exact_scale_bounds(2) [of ms i] unfolding near_iff by simp
qed

lemma no_margin [simp]: "margin ms i = 100 \<Longrightarrow> margin_scale ms i = 0"
  by (simp add: margin_scale_def)

text \<open>The part of a length that a margin takes, before it is truncated.\<close>

lemma part_error:
  assumes "0 \<le> d" "d \<le> 16384"
  shows "\<bar>float32 (of_int d * margin_scale ms i) - of_int d * exact_scale ms i\<bar> \<le> 1 / 1000"
    "0 \<le> float32 (of_int d * margin_scale ms i)"
proof -
  let ?d = "of_int d :: rat" and ?m = "margin_scale ms i" and ?x = "exact_scale ms i"
  have d: "0 \<le> ?d" "?d \<le> 16384" using assms by simp_all
  note m = margin_scale_bounds [of ms i]
  show "0 \<le> float32 (?d * ?m)" using d m by (intro round_bits_nonneg) simp
  have dm: "0 \<le> ?d * ?m" "?d * ?m \<le> 16384 * (1 / 4)" using d m by (simp, intro mult_mono) simp_all
  have "?d * \<bar>?m - ?x\<bar> \<le> 16384 * ((1 / 5) / 2 ^ 24)"
    using d margin_scale_near [of ms i] by (intro mult_mono) simp_all
  moreover have "\<bar>?d * ?m - ?d * ?x\<bar> = ?d * \<bar>?m - ?x\<bar>"
    using d by (simp add: abs_mult flip: right_diff_distrib)
  ultimately have "\<bar>?d * ?m - ?d * ?x\<bar> \<le> 1 / 4000" by simp
  moreover have "\<bar>float32 (?d * ?m) - ?d * ?m\<bar> \<le> 1 / 4000"
    using round_bits_error [of 24 "?d * ?m"] dm unfolding near_iff by simp
  ultimately show "\<bar>float32 (?d * ?m) - ?d * ?x\<bar> \<le> 1 / 1000" unfolding near_iff by simp
qed

lemma part_of_bounds:
  assumes "0 \<le> d" "d \<le> 16384"
  shows "of_int (part_of d (margin_scale ms i)) \<le> of_int d * exact_scale ms i + 1 / 1000"
    "of_int d * exact_scale ms i - 1 / 1000 - 1 < of_int (part_of d (margin_scale ms i))"
    "0 \<le> part_of d (margin_scale ms i)"
proof -
  have "float32 (of_int d) = (of_int d :: rat)" using assms by (intro round_bits_int) simp
  then have p: "part_of d (margin_scale ms i) = trunc_rat (float32 (of_int d * margin_scale ms i))"
    by (simp add: part_of_def)
  note P = part_error [OF assms, of ms i]
  note T = trunc_nonneg [OF P(2)]
  show "of_int (part_of d (margin_scale ms i)) \<le> of_int d * exact_scale ms i + 1 / 1000"
    "of_int d * exact_scale ms i - 1 / 1000 - 1 < of_int (part_of d (margin_scale ms i))"
    "0 \<le> part_of d (margin_scale ms i)"
    using P(1) T unfolding p abs_le_iff by linarith+
qed

lemma scaled_start:
  fixes s :: int and ms :: "int list" and i j :: nat
  assumes "0 \<le> s" "s \<le> 16384"
  defines "S \<equiv> float64 (of_int s * float64 (float64 (1 - margin_scale ms i) - margin_scale ms j))"
  shows "\<bar>S - of_int s * (1 - exact_scale ms i - exact_scale ms j)\<bar> \<le> 1 / 500" "0 \<le> S"
proof -
  let ?s = "of_int s :: rat" and ?l = "margin_scale ms i" and ?h = "margin_scale ms j"
  let ?w = "1 - exact_scale ms i - exact_scale ms j"
  define a where "a = float64 (1 - ?l)"
  define w where "w = float64 (a - ?h)"
  have s: "0 \<le> ?s" "?s \<le> 16384" using assms by simp_all
  note l = margin_scale_bounds [of ms i] and h = margin_scale_bounds [of ms j]
  have a: "\<bar>a - (1 - ?l)\<bar> \<le> 1 / 2 ^ 53"
    unfolding a_def by (rule order_trans [OF round_bits_error]) (use l in simp)
  then have a1: "0 \<le> a - ?h" "a - ?h \<le> 2" using l h unfolding near_iff by simp_all
  have w: "\<bar>w - (a - ?h)\<bar> \<le> 2 / 2 ^ 53"
    unfolding w_def by (rule order_trans [OF round_bits_error]) (use a1 in simp)
  have w0: "0 \<le> w" using a1 by (simp add: w_def round_bits_nonneg)
  note near = margin_scale_near [of ms i] margin_scale_near [of ms j]
  have dw: "\<bar>w - ?w\<bar> \<le> 1 / 2 ^ 24" using a w near unfolding near_iff by simp
  have sw: "0 \<le> ?s * w" "?s * w \<le> 16384 * 3"
  proof -
    have "w \<le> 3" using w a1 unfolding near_iff by simp
    then show "0 \<le> ?s * w" "?s * w \<le> 16384 * 3" using s w0 by (simp, intro mult_mono) simp_all
  qed
  have "?s * \<bar>w - ?w\<bar> \<le> 16384 * (1 / 2 ^ 24)" using s dw by (intro mult_mono) simp_all
  moreover have "\<bar>?s * w - ?s * ?w\<bar> = ?s * \<bar>w - ?w\<bar>"
    using s by (simp add: abs_mult flip: right_diff_distrib)
  ultimately have "\<bar>?s * w - ?s * ?w\<bar> \<le> 1 / 1000" by simp
  moreover have "\<bar>S - ?s * w\<bar> \<le> 1 / 1000"
    using round_bits_error [of 53 "?s * w"] sw unfolding near_iff
    by (simp add: S_def w_def a_def)
  ultimately show "\<bar>S - ?s * ?w\<bar> \<le> 1 / 500" unfolding near_iff by simp
  show "0 \<le> S" using sw(1) by (simp add: S_def w_def a_def round_bits_nonneg)
qed

text \<open>One axis: where the interval \<open>s..e\<close> of the screen \<open>0..res\<close> goes.\<close>

lemma shrink_axis:
  fixes s e res :: int and ms :: "int list" and i j :: nat
  assumes s: "0 \<le> s" "s < e" "e \<le> res" and res: "400 \<le> res" "res \<le> 16384"
  defines "s' \<equiv> shrink_start s res (margin_scale ms i) (margin_scale ms j)"
    and "d' \<equiv> shrink_size (e - s) (margin_scale ms i) (margin_scale ms j)"
    and "img \<equiv> scan_image res (exact_scale ms i) (exact_scale ms j)"
  shows "0 \<le> s'" "0 < d'" "\<bar>of_int s' - img s\<bar> < 5 / 2" "\<bar>of_int (s' + d') - img e\<bar> < 5 / 2"
    "s' + d' \<le> res + (if margin ms j = 100 \<and> margin ms i \<noteq> 100 then 1 else 0)"
    "margin ms i = 100 \<Longrightarrow> margin ms j = 100 \<Longrightarrow> s' = s \<and> s' + d' = e"
proof -
  let ?i = "exact_scale ms i" and ?j = "exact_scale ms j"
  let ?S = "float64 (of_int s * float64 (float64 (1 - margin_scale ms i) - margin_scale ms j))"
  let ?a = "trunc_rat ?S" and ?b = "part_of res (margin_scale ms i)"
  let ?p = "part_of (e - s) (margin_scale ms i)" and ?q = "part_of (e - s) (margin_scale ms j)"
  have r: "(1 :: rat) \<le> of_int e - of_int s" "(of_int e :: rat) \<le> of_int res" "(400 :: rat) \<le> of_int res"
    using s res by (simp_all flip: of_int_diff)
  note E = exact_scale_bounds [of ms i] exact_scale_bounds [of ms j]
  have "0 \<le> s" "s \<le> 16384" using s res by simp_all
  note S = scaled_start [OF this, of ms i j]
  note A = trunc_nonneg [OF S(2)]
  have d: "0 \<le> e - s" "e - s \<le> 16384" using s res by simp_all
  have "0 \<le> res" using res by simp
  note B = part_of_bounds [OF this res(2), of ms i]
  note P = part_of_bounds [OF d, of ms i, unfolded of_int_diff]
    and Q = part_of_bounds [OF d, of ms j, unfolded of_int_diff]
  have sd: "s' = ?a + ?b" "d' = (e - s) - (?p + ?q)" by (simp_all add: s'_def d'_def shrink_start_def shrink_size_def)
  have S1: "?S \<le> img s - of_int res * ?i + 1 / 500" "img s - of_int res * ?i - 1 / 500 \<le> ?S"
    using S(1) unfolding near_iff by (simp_all add: img_def scan_image_def)
  have split_e: "img e = img s + (of_int e - of_int s) - (of_int e - of_int s) * ?i - (of_int e - of_int s) * ?j"
    by (simp add: img_def scan_image_def algebra_simps)
  show n: "0 \<le> s'" using A(3) B(3) sd by simp
  have "1 * (3 / 5) \<le> (of_int e - of_int s) * (1 - ?i - ?j)" using r E by (intro mult_mono) linarith+
  then have "(of_int 0 :: rat) < of_int d'"
    unfolding sd of_int_diff of_int_add using P(1) Q(1) by (simp add: algebra_simps)
  then show m: "0 < d'" by (simp only: of_int_less_iff)
  show "\<bar>of_int s' - img s\<bar> < 5 / 2"
    unfolding sd of_int_add near_less using S1 A(1,2) B(1,2) by linarith
  show "\<bar>of_int (s' + d') - img e\<bar> < 5 / 2"
    unfolding sd of_int_add of_int_diff split_e near_less
    using S1 A(1,2) B(1,2) P(1,2) Q(1,2) by linarith
  show same: "s' = s \<and> s' + d' = e" if "margin ms i = 100" "margin ms j = 100"
  proof -
    have "float64 1 = 1" "float64 (of_int s) = (of_int s :: rat)"
      using round_bits_int [of 1 53] round_bits_int [of s 53] s res by simp_all
    then show ?thesis using that by (simp add: sd part_of_def)
  qed
  have le: "img e \<le> of_int res - of_int res * ?j"
  proof -
    have "of_int e * (1 - ?i - ?j) \<le> of_int res * (1 - ?i - ?j)"
      using r E by (intro mult_right_mono) linarith+
    then show ?thesis by (simp add: img_def scan_image_def algebra_simps)
  qed
  show "s' + d' \<le> res + (if margin ms j = 100 \<and> margin ms i \<noteq> 100 then 1 else 0)"
  proof (cases "margin ms j = 100")
    case False
    then have "400 * (1 / 200) \<le> of_int res * ?j" using r E(7) by (intro mult_mono) simp_all
    then have "of_int (s' + d') < (of_int (res + 1) :: rat)"
      unfolding sd of_int_add of_int_diff of_int_1 using le split_e S1 A(1) B(1) P(2) Q(2) by linarith
    then show ?thesis using False by (simp only: of_int_less_iff) simp
  next
    case True
    then have q: "?q = 0" "?j = 0" using E(8) by (simp_all add: part_of_def)
    have "of_int (s' + d') < (of_int (res + 2) :: rat)"
      unfolding sd of_int_add of_int_diff of_int_numeral q(1) of_int_0
      using le split_e S1 A(1) B(1) P(2) unfolding q(2) by simp
    then have "s' + d' < res + 2" by (simp only: of_int_less_iff)
    then show ?thesis using True same s by auto
  qed
qed

definition on_screen :: "hwc2_drm_display \<Rightarrow> hwc_rect \<Rightarrow> bool" where
  "on_screen cx f \<longleftrightarrow>
     0 \<le> left f \<and> left f < right f \<and> right f \<le> rel_xres cx \<and>
     0 \<le> top f \<and> top f < bottom f \<and> bottom f \<le> rel_yres cx"

text \<open>
  C27: Overscan shrinks a layer as the four margins say, to within three pixels, and can put it one
  pixel beyond the screen.  Take a screen of \<open>400\<close> to \<open>16384\<close> pixels in each direction and a
  display frame that is not empty and lies on it, and any property string.  The function returns,
  the new frame is not empty and does not begin left of or above the screen, and each of its four
  edges lies less than \<open>5/2\<close> pixels from the exact image \<open>c (1 - lo - hi) + res lo\<close> of the old edge,
  where \<open>lo\<close> and \<open>hi\<close> are the margins' scales \<open>(100 - margin) / 200\<close>.  Its right edge lies on the
  screen when the right margin is below \<open>100\<close> or both are \<open>100\<close>, and otherwise at most one pixel
  beyond it; the same holds of the bottom edge.  Where no margin can be read the frame is unchanged.
  The arithmetic is the code's, \<open>float\<close> and \<open>double\<close> rounded to \<open>24\<close> and \<open>53\<close> bits.
\<close>

theorem overscan_near_screen:
  fixes cx :: hwc2_drm_display and l :: DrmHwcLayer
  assumes "on_screen cx (display_frame l)" "400 \<le> rel_xres cx" "rel_xres cx \<le> 16384"
    "400 \<le> rel_yres cx" "rel_yres cx \<le> 16384"
  defines "ms \<equiv> scan_overscan (overscan_value cx)" and "f \<equiv> display_frame l"
  defines "imx \<equiv> scan_image (rel_xres cx) (exact_scale ms 0) (exact_scale ms 2)"
    and "imy \<equiv> scan_image (rel_yres cx) (exact_scale ms 1) (exact_scale ms 3)"
  shows "\<exists>l' f'. ModifyDisplayFrameForOverscan cx l = Some l' \<and> f' = display_frame l' \<and>
    0 \<le> left f' \<and> left f' < right f' \<and> 0 \<le> top f' \<and> top f' < bottom f' \<and>
    \<bar>of_int (left f') - imx (left f)\<bar> < 5 / 2 \<and> \<bar>of_int (right f') - imx (right f)\<bar> < 5 / 2 \<and>
    \<bar>of_int (top f') - imy (top f)\<bar> < 5 / 2 \<and> \<bar>of_int (bottom f') - imy (bottom f)\<bar> < 5 / 2 \<and>
    right f' \<le> rel_xres cx + (if margin ms 2 = 100 \<and> margin ms 0 \<noteq> 100 then 1 else 0) \<and>
    bottom f' \<le> rel_yres cx + (if margin ms 3 = 100 \<and> margin ms 1 \<noteq> 100 then 1 else 0) \<and>
    (ms = [] \<longrightarrow> f' = f)"
proof -
  have o: "0 \<le> left f" "left f < right f" "right f \<le> rel_xres cx"
    "0 \<le> top f" "top f < bottom f" "bottom f \<le> rel_yres cx"
    using assms(1) by (simp_all add: on_screen_def f_def)
  note x = shrink_axis [OF o(1-3) assms(2,3), of ms 0 2, folded imx_def]
    and y = shrink_axis [OF o(4-6) assms(4,5), of ms 1 3, folded imy_def]
  have none: "margin [] i = 100" for i by (simp add: margin_def)
  define sx where "sx = shrink_start (left f) (rel_xres cx) (margin_scale ms 0) (margin_scale ms 2)"
  define sy where "sy = shrink_start (top f) (rel_yres cx) (margin_scale ms 1) (margin_scale ms 3)"
  define f' where "f' = \<lparr> left = sx,
    top = sy, right = sx + shrink_size (right f - left f) (margin_scale ms 0) (margin_scale ms 2),
    bottom = sy + shrink_size (bottom f - top f) (margin_scale ms 1) (margin_scale ms 3) \<rparr>"
  have edges: "0 \<le> left f'" "left f' < right f'" "0 \<le> top f'" "top f' < bottom f'"
    using x(1,2) y(1,2) by (simp_all add: f'_def sx_def sy_def)
  obtain b h v where "IsScale (bYuv l) (source_crop l) f' (transform l) = Some (b, h, v)"
    using edges(2,4) by (cases "IsScale (bYuv l) (source_crop l) f' (transform l)")
      (auto simp: IsScale_def Let_def split: if_splits)
  moreover have "ModifyDisplayFrameForOverscan cx l =
      (case IsScale (bYuv l) (source_crop l) f' (transform l) of
         None \<Rightarrow> None
       | Some (sc, h, v) \<Rightarrow>
           Some (l\<lparr> display_frame := f', bScale := sc, fHScaleMul := h, fVScaleMul := v \<rparr>))"
    by (simp only: ModifyDisplayFrameForOverscan_def Let_def f'_def sx_def sy_def f_def ms_def)
  ultimately have "\<exists>l'. ModifyDisplayFrameForOverscan cx l = Some l' \<and> f' = display_frame l'" by simp
  then obtain l' where l': "ModifyDisplayFrameForOverscan cx l = Some l'" "f' = display_frame l'"
    by blast
  have "ms = [] \<longrightarrow> f' = f" using x(6) y(6) none by (auto simp: f'_def sx_def sy_def)
  moreover have "\<bar>of_int (left f') - imx (left f)\<bar> < 5 / 2" "\<bar>of_int (right f') - imx (right f)\<bar> < 5 / 2"
    "\<bar>of_int (top f') - imy (top f)\<bar> < 5 / 2" "\<bar>of_int (bottom f') - imy (bottom f)\<bar> < 5 / 2"
    "right f' \<le> rel_xres cx + (if margin ms 2 = 100 \<and> margin ms 0 \<noteq> 100 then 1 else 0)"
    "bottom f' \<le> rel_yres cx + (if margin ms 3 = 100 \<and> margin ms 1 \<noteq> 100 then 1 else 0)"
    using x(3-5) y(3-5) by (simp_all only: f'_def hwc_rect.simps sx_def sy_def)
  ultimately show ?thesis using edges l' by blast
qed

definition display_hd :: hwc2_drm_display where
  "display_hd =
     \<lparr> bStandardSwitchResolution = False, framebuffer_width = 1920, framebuffer_height = 1080,
       rel_xoffset = 0, rel_yoffset = 0, rel_xres = 1920, rel_yres = 1080,
       overscan_value = ''overscan 90,80,90,20'' \<rparr>"

lemma scan_hd: "scan_overscan (overscan_value display_hd) = [90, 80, 90, 20]"
  by (simp add: display_hd_def scan_overscan_def numeral_nat scan_int_def is_space_def is_digit_def)

lemma overscan_near_screen_witness:
  "\<exists>l'. ModifyDisplayFrameForOverscan display_hd layer0 = Some l' \<and>
     0 \<le> left (display_frame l') \<and> right (display_frame l') \<le> 1920 \<and>
     \<bar>of_int (left (display_frame l')) - 96\<bar> < (5 / 2 :: rat)"
proof -
  have "on_screen display_hd (display_frame layer0)"
    by (simp add: on_screen_def display_hd_def layer0_def rect_def)
  from overscan_near_screen [OF this] obtain l' where
    l': "ModifyDisplayFrameForOverscan display_hd layer0 = Some l'" "0 \<le> left (display_frame l')"
    "\<bar>of_int (left (display_frame l')) -
       scan_image (rel_xres display_hd) (exact_scale [90, 80, 90, 20] 0) (exact_scale [90, 80, 90, 20] 2)
         (left (display_frame layer0))\<bar> < 5 / 2"
    "right (display_frame l') \<le> rel_xres display_hd + (if margin [90, 80, 90, 20] 2 = 100 \<and>
       margin [90, 80, 90, 20] 0 \<noteq> 100 then 1 else 0)"
    unfolding scan_hd by (auto simp: display_hd_def)
  then show ?thesis
    by (auto simp: scan_image_def exact_scale_def margin_def layer0_def rect_def display_hd_def)
qed

text \<open>The pixel beyond the screen: on a screen of \<open>1600\<close> pixels, with the margins \<open>61\<close> and \<open>100\<close>.\<close>

lemma overscan_leaves_screen:
  "shrink_start 400 1600 (margin_scale [61, 100, 100, 100] 0) (margin_scale [61, 100, 100, 100] 2) = 634"
  "shrink_size (1600 - 400) (margin_scale [61, 100, 100, 100] 0) (margin_scale [61, 100, 100, 100] 2) = 967"
  by code_simp+

end
