(* ===== verification/Buffer_Queue.thy ===== *)
theory Buffer_Queue
  imports Formats
begin

text \<open>
  The buffers the HAL allocates itself (\<open>rockchip/common/drmbuffer.cpp\<close>), the queue that
  recycles them (\<open>rockchip/common/drmbufferqueue.cpp\<close>), and the cached import of a buffer into
  the 2D engine (\<open>RgaHandle\<close> of \<open>resources/resourcescache.cpp\<close>).

  A \<open>shared_ptr\<close> is the number of the object it points to.  The vendor allocator, the import
  into the 2D engine and the wait on a fence are outside the repository: they are the functions
  of the record \<open>buffer_world\<close>.
\<close>

text \<open>What gralloc reports of an allocated buffer; \<open>ga_gem\<close> is \<open>None\<close> if the kernel has no handle.\<close>

record gralloc_buffer =
  ga_handle :: nat
  ga_fd :: int
  ga_width :: int
  ga_height :: int
  ga_format :: int
  ga_stride :: int
  ga_height_stride :: int
  ga_byte_stride :: int
  ga_size :: int
  ga_fourcc :: u32
  ga_modifier :: u64
  ga_buffer_id :: u64
  ga_byte_stride_planes :: "u32 list"
  ga_gem :: "u32 option"

text \<open>
  \<open>new GraphicBuffer\<close>, asked for the number of the object, width, height, format, usage and name;
  \<open>importbuffer_fd\<close> (\<open>0\<close> is a failure); \<open>sync_wait\<close>.
\<close>

record buffer_world =
  bw_alloc :: "nat \<Rightarrow> int \<Rightarrow> int \<Rightarrow> int \<Rightarrow> u64 \<Rightarrow> string \<Rightarrow> gralloc_buffer option"
  bw_import :: "int \<Rightarrow> int \<Rightarrow> u32"
  bw_sync_wait :: "int \<Rightarrow> int"

section \<open>Buffers\<close>

record DrmBuffer =
  db_parent :: int
  db_fd :: int
  db_width :: int
  db_height :: int
  db_format :: int
  db_stride :: int
  db_height_stride :: int
  db_byte_stride :: int
  db_size :: int
  db_usage :: u64
  db_fourcc :: u32
  db_modifier :: u64
  db_buffer_id :: u64
  db_gem :: u32
  db_byte_stride_planes :: "u32 list"
  db_rga_handle :: u32
  db_handle :: nat
  db_finish_fence :: int
  db_release_fence :: int
  db_init :: bool
  db_name :: string

definition DrmBuffer_new ::
  "formats \<Rightarrow> int \<Rightarrow> int \<Rightarrow> int \<Rightarrow> u64 \<Rightarrow> string \<Rightarrow> int \<Rightarrow> DrmBuffer" where
  "DrmBuffer_new F w h format usage name parent_id =
     \<lparr> db_parent = parent_id, db_fd = -1, db_width = w, db_height = h, db_format = format,
       db_stride = -1, db_height_stride = 0, db_byte_stride = -1, db_size = 0,
       db_usage = GRALLOC_USAGE_HW_COMPOSER F OR GRALLOC_USAGE_PRIVATE_1 F OR usage,
       db_fourcc = 0, db_modifier = 0, db_buffer_id = 0, db_gem = 0,
       db_byte_stride_planes = [], db_rga_handle = 0, db_handle = 0, db_finish_fence = -1,
       db_release_fence = -1, db_init = False, db_name = name \<rparr>"

text \<open>\<open>n\<close> is the number of the object.\<close>

definition DrmBuffer_Init :: "buffer_world \<Rightarrow> nat \<Rightarrow> DrmBuffer \<Rightarrow> int \<times> DrmBuffer" where
  "DrmBuffer_Init W n b =
     (if db_init b then (0, b)
      else if db_width b \<le> 0 \<or> db_height b \<le> 0 \<or> db_format b \<le> 0 then (-1, b)
      else
       (case bw_alloc W n (db_width b) (db_height b) (db_format b) (db_usage b) (db_name b) of
          None \<Rightarrow> (-1, b)
        | Some a \<Rightarrow>
           (let b1 = b\<lparr> db_handle := ga_handle a, db_fd := ga_fd a, db_width := ga_width a,
                  db_height := ga_height a, db_stride := ga_stride a,
                  db_height_stride := ga_height_stride a, db_byte_stride := ga_byte_stride a,
                  db_size := ga_size a, db_format := ga_format a, db_fourcc := ga_fourcc a,
                  db_modifier := ga_modifier a, db_buffer_id := ga_buffer_id a,
                  db_byte_stride_planes := ga_byte_stride_planes a \<rparr>
            in case ga_gem a of
                 None \<Rightarrow> (-1, b1)
               | Some gem \<Rightarrow> (0, b1\<lparr> db_gem := gem, db_init := True \<rparr>))))"

definition SetParentId :: "int \<Rightarrow> DrmBuffer \<Rightarrow> DrmBuffer" where
  "SetParentId parent_id b = b\<lparr> db_parent := parent_id \<rparr>"

definition GetRgaHandle :: "buffer_world \<Rightarrow> DrmBuffer \<Rightarrow> u32 \<times> DrmBuffer" where
  "GetRgaHandle W b =
     (if 0 < db_rga_handle b then (db_rga_handle b, b)
      else
       (let h = bw_import W (db_fd b) (db_size b); b1 = b\<lparr> db_rga_handle := h \<rparr>
        in if h = 0 then (0, b1) else (h, b1)))"

text \<open>A file descriptor that is not positive is no fence (\<open>utils/autofd.h\<close>).\<close>

definition SetFinishFence :: "buffer_world \<Rightarrow> int \<Rightarrow> DrmBuffer \<Rightarrow> int \<times> DrmBuffer" where
  "SetFinishFence W fence b =
     (if 0 < db_finish_fence b then
        (let ret = bw_sync_wait W (db_finish_fence b); b1 = b\<lparr> db_finish_fence := -1 \<rparr>
         in if ret \<noteq> 0 then (-1, b1) else (0, b1\<lparr> db_finish_fence := fence \<rparr>))
      else (0, b\<lparr> db_finish_fence := fence \<rparr>))"

definition WaitFinishFence :: "buffer_world \<Rightarrow> DrmBuffer \<Rightarrow> int \<times> DrmBuffer" where
  "WaitFinishFence W b =
     (if 0 < db_finish_fence b
      then (bw_sync_wait W (db_finish_fence b), b\<lparr> db_finish_fence := -1 \<rparr>) else (0, b))"

definition SetReleaseFence :: "int \<Rightarrow> DrmBuffer \<Rightarrow> int \<times> DrmBuffer" where
  "SetReleaseFence fence b = (0, b\<lparr> db_release_fence := fence \<rparr>)"

definition WaitReleaseFence :: "buffer_world \<Rightarrow> DrmBuffer \<Rightarrow> int \<times> DrmBuffer" where
  "WaitReleaseFence W b =
     (if 0 < db_release_fence b
      then (bw_sync_wait W (db_release_fence b), b\<lparr> db_release_fence := -1 \<rparr>) else (0, b))"

section \<open>The layout of a buffer as a kernel frame buffer\<close>

definition DrmFormatToPlaneNum :: "formats \<Rightarrow> u32 \<Rightarrow> nat" where
  "DrmFormatToPlaneNum F drm_format =
     (if drm_format \<in> {DRM_FORMAT_NV12 F, DRM_FORMAT_NV21 F, DRM_FORMAT_NV24 F,
           DRM_FORMAT_NV42 F, DRM_FORMAT_NV16 F, DRM_FORMAT_NV61 F, DRM_FORMAT_NV12_10 F,
           DRM_FORMAT_NV15 F, DRM_FORMAT_NV30 F}
      then 2 else 1)"

definition IsAfbc :: "formats \<Rightarrow> DrmBuffer \<Rightarrow> bool" where
  "IsAfbc F b \<longleftrightarrow> fourcc_mod_is_vendor (db_modifier b) (DRM_FORMAT_MOD_VENDOR_ARM F)"

definition IsRfbc :: "DrmBuffer \<Rightarrow> bool" where
  "IsRfbc b \<longleftrightarrow> IS_ROCKCHIP_RFBC_MOD (db_modifier b)"

text \<open>
  The arrays \<open>GetFbId\<close> hands to the kernel.  More than four plane strides would write past the
  array: \<open>None\<close>.
\<close>

record fb_layout =
  fb_pitches :: "u32 list"
  fb_offsets :: "u32 list"
  fb_handles :: "u32 list"
  fb_modifiers :: "u64 list"

definition fb_layout_of :: "formats \<Rightarrow> DrmBuffer \<Rightarrow> fb_layout option" where
  "fb_layout_of F b =
     (let nv24 = (db_fourcc b = DRM_FORMAT_NV24 F \<or> db_fourcc b = DRM_FORMAT_NV42 F);
          two = (DrmFormatToPlaneNum F (db_fourcc b) = 2);
          bs = word_of_int (db_byte_stride b); hs = word_of_int (db_height_stride b);
          planes = db_byte_stride_planes b;
          pitches =
            (if nv24 then
               (if planes \<noteq> [] then planes @ replicate (4 - length planes) 0
                else [bs, bs * 2, 0, 0])
             else if two then [bs, bs, 0, 0] else [bs, 0, 0, 0])
      in if nv24 \<and> 4 < length planes then None
         else Some
           \<lparr> fb_pitches = pitches,
             fb_offsets =
               (if two then [0, (if nv24 then pitches ! 0 else pitches ! 1) * hs, 0, 0]
                else [0, 0, 0, 0]),
             fb_handles = (if two then [db_gem b, db_gem b, 0, 0] else [db_gem b, 0, 0, 0]),
             fb_modifiers =
               (if two then [db_modifier b, db_modifier b, 0, 0] else [db_modifier b, 0, 0, 0])
           \<rparr>)"

section \<open>The queue\<close>

text \<open>\<open>bufs\<close> holds the objects, \<open>n_bufs\<close> the number of the next one (\<open>getUniqueId\<close>).\<close>

record DrmBufferQueue =
  bufs :: "nat \<Rightarrow> DrmBuffer"
  n_bufs :: nat
  bufferQueue :: "nat list"
  currentBuffer :: "nat option"
  iMaxBufferSize :: nat

definition set_buf :: "nat \<Rightarrow> DrmBuffer \<Rightarrow> DrmBufferQueue \<Rightarrow> DrmBufferQueue" where
  "set_buf n b q = q\<lparr> bufs := (bufs q)(n := b) \<rparr>"

definition NeedsReallocation :: "int \<Rightarrow> int \<Rightarrow> int \<Rightarrow> DrmBuffer \<Rightarrow> bool" where
  "NeedsReallocation w h format b =
     (if db_width b \<noteq> w \<or> db_height b \<noteq> h \<or> db_format b \<noteq> format then True else False)"

definition FrontDrmBuffer :: "DrmBufferQueue \<Rightarrow> nat option \<times> DrmBufferQueue" where
  "FrontDrmBuffer q =
     (case bufferQueue q of
        [] \<Rightarrow> (None, q)
      | n # ns \<Rightarrow> (Some n, q\<lparr> currentBuffer := Some n \<rparr>))"

definition BackDrmBuffer :: "DrmBufferQueue \<Rightarrow> nat option \<times> DrmBufferQueue" where
  "BackDrmBuffer q =
     (if bufferQueue q \<noteq> []
      then (Some (last (bufferQueue q)), q\<lparr> currentBuffer := Some (last (bufferQueue q)) \<rparr>)
      else (None, q))"

text \<open>\<open>make_shared<DrmBuffer>(\<dots>)\<close> into \<open>currentBuffer_\<close>, and its \<open>Init\<close>.\<close>

definition new_current ::
  "buffer_world \<Rightarrow> formats \<Rightarrow> int \<Rightarrow> int \<Rightarrow> int \<Rightarrow> u64 \<Rightarrow> string \<Rightarrow> int \<Rightarrow> DrmBufferQueue \<Rightarrow>
   nat option \<times> DrmBufferQueue" where
  "new_current W F w h format usage name parent_id q =
     (let n = n_bufs q;
          (ret, b) = DrmBuffer_Init W n (DrmBuffer_new F w h format usage name parent_id);
          q1 = (set_buf n b q)\<lparr> n_bufs := n + 1, currentBuffer := Some n \<rparr>
      in (if ret \<noteq> 0 then None else Some n, q1))"

definition DequeueDrmBuffer ::
  "buffer_world \<Rightarrow> formats \<Rightarrow> int \<Rightarrow> int \<Rightarrow> int \<Rightarrow> u64 \<Rightarrow> string \<Rightarrow> int \<Rightarrow> DrmBufferQueue \<Rightarrow>
   (nat option \<times> DrmBufferQueue) option" where
  "DequeueDrmBuffer W F w h format usage name parent_id q =
     (if length (bufferQueue q) = iMaxBufferSize q then
        (case bufferQueue q of
           [] \<Rightarrow> None
         | n # ns \<Rightarrow>
            (let q1 = q\<lparr> currentBuffer := Some n, bufferQueue := ns \<rparr>
             in if NeedsReallocation w h format (bufs q1 n)
                then Some (new_current W F w h format usage name parent_id q1)
                else
                 (let b1 = snd (WaitReleaseFence W (bufs q1 n));
                      b2 = SetParentId parent_id (snd (WaitFinishFence W b1))
                  in Some (Some n, set_buf n b2 q1))))
      else Some (new_current W F w h format usage name parent_id q))"

text \<open>
  The error message reads \<open>currentBuffer_->GetFd()\<close> without a test: with no current buffer the
  program crashes, which is \<open>None\<close>.
\<close>

definition QueueBuffer :: "nat \<Rightarrow> DrmBufferQueue \<Rightarrow> (int \<times> DrmBufferQueue) option" where
  "QueueBuffer buffer q =
     (case currentBuffer q of
        None \<Rightarrow> None
      | Some c \<Rightarrow>
          if buffer = c then Some (0, q\<lparr> bufferQueue := bufferQueue q @ [c] \<rparr>)
          else Some (-1, q))"

section \<open>The cached import of a layer's buffer\<close>

record RgaHandle =
  rh_handle :: u32
  rh_buffer_id :: u64
  rh_size :: int
  rh_fd :: int

definition RgaHandle_GetRgaHandle ::
  "buffer_world \<Rightarrow> int \<Rightarrow> int \<Rightarrow> u64 \<Rightarrow> RgaHandle \<Rightarrow> u32 \<times> RgaHandle" where
  "RgaHandle_GetRgaHandle W fd sz buffer_id r =
     (if 0 < rh_handle r \<and> buffer_id = rh_buffer_id r \<and> sz = rh_size r then (rh_handle r, r)
      else
       (let h = bw_import W fd sz;
            r1 = \<lparr> rh_handle = h, rh_buffer_id = buffer_id, rh_size = sz, rh_fd = fd \<rparr>
        in (if h = 0 then 0 else h, r1)))"

end
