(* ===== verification/Rga_Formats.thy ===== *)
theory Rga_Formats
  imports Formats
begin

text \<open>
  \<open>rockchip/utils/rgautils.cpp\<close> and the enum of \<open>include/rockchip/utils/rgaformats.h\<close>: the pixel
  formats of the 2D engine, the translation of Android formats into them, and the formats each
  generation of the engine can read.
\<close>

section \<open>RGA surface formats\<close>

text \<open>An enumerator is its place in the list shifted left by eight.\<close>

datatype HWC_Rga_SURF_FORMAT =
    RK_FORMAT_RGBA_8888
  | RK_FORMAT_RGBX_8888
  | RK_FORMAT_RGB_888
  | RK_FORMAT_BGRA_8888
  | RK_FORMAT_RGB_565
  | RK_FORMAT_RGBA_5551
  | RK_FORMAT_RGBA_4444
  | RK_FORMAT_BGR_888
  | RK_FORMAT_YCbCr_422_SP
  | RK_FORMAT_YCbCr_422_P
  | RK_FORMAT_YCbCr_420_SP
  | RK_FORMAT_YCbCr_420_P
  | RK_FORMAT_YCrCb_422_SP
  | RK_FORMAT_YCrCb_422_P
  | RK_FORMAT_YCrCb_420_SP
  | RK_FORMAT_YCrCb_420_P
  | RK_FORMAT_BPP1
  | RK_FORMAT_BPP2
  | RK_FORMAT_BPP4
  | RK_FORMAT_BPP8
  | RK_FORMAT_Y4
  | RK_FORMAT_YCbCr_400
  | RK_FORMAT_BGRX_8888
  | RK_FORMAT_YVYU_422
  | RK_FORMAT_YVYU_420
  | RK_FORMAT_VYUY_422
  | RK_FORMAT_VYUY_420
  | RK_FORMAT_YUYV_422
  | RK_FORMAT_YUYV_420
  | RK_FORMAT_UYVY_422
  | RK_FORMAT_UYVY_420
  | RK_FORMAT_YCbCr_420_SP_10B
  | RK_FORMAT_YCrCb_420_SP_10B
  | RK_FORMAT_YCbCr_422_SP_10B
  | RK_FORMAT_YCrCb_422_SP_10B
  | RK_FORMAT_BGR_565
  | RK_FORMAT_BGRA_5551
  | RK_FORMAT_BGRA_4444
  | RK_FORMAT_ARGB_8888
  | RK_FORMAT_XRGB_8888
  | RK_FORMAT_ARGB_5551
  | RK_FORMAT_ARGB_4444
  | RK_FORMAT_ABGR_8888
  | RK_FORMAT_XBGR_8888
  | RK_FORMAT_ABGR_5551
  | RK_FORMAT_ABGR_4444
  | RK_FORMAT_RGBA2BPP
  | RK_FORMAT_A8
  | RK_FORMAT_YCbCr_444_SP
  | RK_FORMAT_YCrCb_444_SP
  | RK_FORMAT_Y8
  | RK_FORMAT_UNKNOWN

fun rga_code :: "HWC_Rga_SURF_FORMAT \<Rightarrow> int" where
  "rga_code RK_FORMAT_RGBA_8888 = 0 * 256"
| "rga_code RK_FORMAT_RGBX_8888 = 1 * 256"
| "rga_code RK_FORMAT_RGB_888 = 2 * 256"
| "rga_code RK_FORMAT_BGRA_8888 = 3 * 256"
| "rga_code RK_FORMAT_RGB_565 = 4 * 256"
| "rga_code RK_FORMAT_RGBA_5551 = 5 * 256"
| "rga_code RK_FORMAT_RGBA_4444 = 6 * 256"
| "rga_code RK_FORMAT_BGR_888 = 7 * 256"
| "rga_code RK_FORMAT_YCbCr_422_SP = 8 * 256"
| "rga_code RK_FORMAT_YCbCr_422_P = 9 * 256"
| "rga_code RK_FORMAT_YCbCr_420_SP = 10 * 256"
| "rga_code RK_FORMAT_YCbCr_420_P = 11 * 256"
| "rga_code RK_FORMAT_YCrCb_422_SP = 12 * 256"
| "rga_code RK_FORMAT_YCrCb_422_P = 13 * 256"
| "rga_code RK_FORMAT_YCrCb_420_SP = 14 * 256"
| "rga_code RK_FORMAT_YCrCb_420_P = 15 * 256"
| "rga_code RK_FORMAT_BPP1 = 16 * 256"
| "rga_code RK_FORMAT_BPP2 = 17 * 256"
| "rga_code RK_FORMAT_BPP4 = 18 * 256"
| "rga_code RK_FORMAT_BPP8 = 19 * 256"
| "rga_code RK_FORMAT_Y4 = 20 * 256"
| "rga_code RK_FORMAT_YCbCr_400 = 21 * 256"
| "rga_code RK_FORMAT_BGRX_8888 = 22 * 256"
| "rga_code RK_FORMAT_YVYU_422 = 24 * 256"
| "rga_code RK_FORMAT_YVYU_420 = 25 * 256"
| "rga_code RK_FORMAT_VYUY_422 = 26 * 256"
| "rga_code RK_FORMAT_VYUY_420 = 27 * 256"
| "rga_code RK_FORMAT_YUYV_422 = 28 * 256"
| "rga_code RK_FORMAT_YUYV_420 = 29 * 256"
| "rga_code RK_FORMAT_UYVY_422 = 30 * 256"
| "rga_code RK_FORMAT_UYVY_420 = 31 * 256"
| "rga_code RK_FORMAT_YCbCr_420_SP_10B = 32 * 256"
| "rga_code RK_FORMAT_YCrCb_420_SP_10B = 33 * 256"
| "rga_code RK_FORMAT_YCbCr_422_SP_10B = 34 * 256"
| "rga_code RK_FORMAT_YCrCb_422_SP_10B = 35 * 256"
| "rga_code RK_FORMAT_BGR_565 = 36 * 256"
| "rga_code RK_FORMAT_BGRA_5551 = 37 * 256"
| "rga_code RK_FORMAT_BGRA_4444 = 38 * 256"
| "rga_code RK_FORMAT_ARGB_8888 = 40 * 256"
| "rga_code RK_FORMAT_XRGB_8888 = 41 * 256"
| "rga_code RK_FORMAT_ARGB_5551 = 42 * 256"
| "rga_code RK_FORMAT_ARGB_4444 = 43 * 256"
| "rga_code RK_FORMAT_ABGR_8888 = 44 * 256"
| "rga_code RK_FORMAT_XBGR_8888 = 45 * 256"
| "rga_code RK_FORMAT_ABGR_5551 = 46 * 256"
| "rga_code RK_FORMAT_ABGR_4444 = 47 * 256"
| "rga_code RK_FORMAT_RGBA2BPP = 48 * 256"
| "rga_code RK_FORMAT_A8 = 49 * 256"
| "rga_code RK_FORMAT_YCbCr_444_SP = 50 * 256"
| "rga_code RK_FORMAT_YCrCb_444_SP = 51 * 256"
| "rga_code RK_FORMAT_Y8 = 52 * 256"
| "rga_code RK_FORMAT_UNKNOWN = 256 * 256"

section \<open>Translation\<close>

definition HwcGetRgaCompatibleFormat :: "int \<Rightarrow> int" where
  "HwcGetRgaCompatibleFormat format =
     (if format = 0 then format
      else if format div 256 \<noteq> 0 then format
      else format * 256)"

definition HwcGetRgaFormatFromAndroid :: "sdk \<Rightarrow> formats \<Rightarrow> int \<Rightarrow> int" where
  "HwcGetRgaFormatFromAndroid K F format =
     (if format = HAL_PIXEL_FORMAT_RGB_565 F then rga_code RK_FORMAT_RGB_565
      else if format = HAL_PIXEL_FORMAT_RGB_888 F then rga_code RK_FORMAT_RGB_888
      else if format = HAL_PIXEL_FORMAT_RGBA_8888 F then rga_code RK_FORMAT_RGBA_8888
      else if format = HAL_PIXEL_FORMAT_RGBX_8888 F then rga_code RK_FORMAT_RGBX_8888
      else if format = HAL_PIXEL_FORMAT_BGRA_8888 F then rga_code RK_FORMAT_BGRA_8888
      else if format = HAL_PIXEL_FORMAT_YCrCb_420_SP F then rga_code RK_FORMAT_YCrCb_420_SP
      else if format = HAL_PIXEL_FORMAT_YCrCb_NV12 F then rga_code RK_FORMAT_YCbCr_420_SP
      else if format = HAL_PIXEL_FORMAT_YCrCb_NV12_VIDEO F then rga_code RK_FORMAT_YCbCr_420_SP
      else if format = HAL_PIXEL_FORMAT_YCrCb_NV12_10 K then rga_code RK_FORMAT_YCbCr_420_SP_10B
      else if format = HAL_PIXEL_FORMAT_YCbCr_422_SP F then rga_code RK_FORMAT_YCbCr_422_SP
      else if format = HAL_PIXEL_FORMAT_BGR_888 F then rga_code RK_FORMAT_BGR_888
      else -1)"

text \<open>
  \<open>format & 0xFF\<close> and \<open>format & 0xFF00\<close> on an \<open>int\<close> in two's complement are the remainder by
  256 and the remainder by 256 of the quotient.
\<close>

definition HwcGetRgaFormat :: "sdk \<Rightarrow> formats \<Rightarrow> int \<Rightarrow> int" where
  "HwcGetRgaFormat K F format0 =
     (let format = (if format0 mod 256 \<noteq> 0 then HwcGetRgaFormatFromAndroid K F format0
                    else format0)
      in if format0 mod 256 \<noteq> 0 \<and> format < 0 then -1
         else if format div 256 mod 256 \<noteq> 0 \<or> format = 0 then format
         else
          (let format' = HwcGetRgaCompatibleFormat format
           in if format' div 256 mod 256 \<noteq> 0 \<or> format' = 0 then format' else -1))"

definition rk3588_rga3_support_formats :: "int set" where
  "rk3588_rga3_support_formats = rga_code ` set
     [RK_FORMAT_RGBA_8888, RK_FORMAT_BGRA_8888, RK_FORMAT_ARGB_8888, RK_FORMAT_ABGR_8888,
      RK_FORMAT_RGBX_8888, RK_FORMAT_BGRX_8888, RK_FORMAT_XRGB_8888, RK_FORMAT_XBGR_8888,
      RK_FORMAT_RGB_888, RK_FORMAT_BGR_888, RK_FORMAT_RGB_565, RK_FORMAT_BGR_565,
      RK_FORMAT_YCbCr_420_SP, RK_FORMAT_YCrCb_420_SP, RK_FORMAT_YCbCr_422_SP,
      RK_FORMAT_YCrCb_422_SP, RK_FORMAT_YUYV_422, RK_FORMAT_YVYU_422, RK_FORMAT_UYVY_422,
      RK_FORMAT_VYUY_422, RK_FORMAT_YCbCr_420_SP_10B, RK_FORMAT_YCrCb_420_SP_10B,
      RK_FORMAT_YCbCr_422_SP_10B, RK_FORMAT_YCrCb_422_SP_10B]"

definition rk3588_rga2_support_formats :: "int set" where
  "rk3588_rga2_support_formats = rga_code ` set
     [RK_FORMAT_RGBA_8888, RK_FORMAT_BGRA_8888, RK_FORMAT_ARGB_8888, RK_FORMAT_ABGR_8888,
      RK_FORMAT_RGBX_8888, RK_FORMAT_BGRX_8888, RK_FORMAT_XRGB_8888, RK_FORMAT_XBGR_8888,
      RK_FORMAT_RGBA_4444, RK_FORMAT_BGRA_4444, RK_FORMAT_ARGB_4444, RK_FORMAT_ABGR_4444,
      RK_FORMAT_RGBA_5551, RK_FORMAT_BGRA_5551, RK_FORMAT_ARGB_5551, RK_FORMAT_ABGR_5551,
      RK_FORMAT_RGB_888, RK_FORMAT_BGR_888, RK_FORMAT_RGB_565, RK_FORMAT_BGR_565,
      RK_FORMAT_YCbCr_420_SP, RK_FORMAT_YCrCb_420_SP, RK_FORMAT_YCbCr_422_SP,
      RK_FORMAT_YCrCb_422_SP, RK_FORMAT_YCbCr_420_P, RK_FORMAT_YCrCb_420_P,
      RK_FORMAT_YCbCr_422_P, RK_FORMAT_YCrCb_422_P, RK_FORMAT_YUYV_422, RK_FORMAT_YVYU_422,
      RK_FORMAT_UYVY_422, RK_FORMAT_VYUY_422, RK_FORMAT_YCbCr_400, RK_FORMAT_YCbCr_420_SP_10B,
      RK_FORMAT_YCrCb_420_SP_10B, RK_FORMAT_YCbCr_422_SP_10B, RK_FORMAT_YCrCb_422_SP_10B]"

definition rk3576_rga2_support_formats :: "int set" where
  "rk3576_rga2_support_formats = rga_code ` set
     [RK_FORMAT_RGBA_8888, RK_FORMAT_BGRA_8888, RK_FORMAT_ARGB_8888, RK_FORMAT_ABGR_8888,
      RK_FORMAT_RGBX_8888, RK_FORMAT_BGRX_8888, RK_FORMAT_XRGB_8888, RK_FORMAT_XBGR_8888,
      RK_FORMAT_RGBA_4444, RK_FORMAT_BGRA_4444, RK_FORMAT_ARGB_4444, RK_FORMAT_ABGR_4444,
      RK_FORMAT_RGBA_5551, RK_FORMAT_BGRA_5551, RK_FORMAT_ARGB_5551, RK_FORMAT_ABGR_5551,
      RK_FORMAT_RGB_888, RK_FORMAT_BGR_888, RK_FORMAT_RGB_565, RK_FORMAT_BGR_565,
      RK_FORMAT_YCbCr_420_SP, RK_FORMAT_YCrCb_420_SP, RK_FORMAT_YCbCr_422_SP,
      RK_FORMAT_YCrCb_422_SP, RK_FORMAT_YCbCr_444_SP, RK_FORMAT_YCrCb_444_SP,
      RK_FORMAT_YCbCr_420_P, RK_FORMAT_YCrCb_420_P, RK_FORMAT_YCbCr_422_P, RK_FORMAT_YCrCb_422_P,
      RK_FORMAT_YUYV_422, RK_FORMAT_YVYU_422, RK_FORMAT_UYVY_422, RK_FORMAT_VYUY_422,
      RK_FORMAT_YCbCr_400, RK_FORMAT_YCbCr_420_SP_10B, RK_FORMAT_YCrCb_420_SP_10B,
      RK_FORMAT_YCbCr_422_SP_10B, RK_FORMAT_YCrCb_422_SP_10B]"

definition UnifyAndroidFormatForRK3588 :: "sdk \<Rightarrow> formats \<Rightarrow> int \<Rightarrow> int" where
  "UnifyAndroidFormatForRK3588 K F format =
     (if format = HAL_PIXEL_FORMAT_YUV420_8BIT_I F then HAL_PIXEL_FORMAT_YCrCb_NV12 F
      else if format = HAL_PIXEL_FORMAT_YUV420_10BIT_I F then HAL_PIXEL_FORMAT_YCrCb_NV12_10 K
      else if format = HAL_PIXEL_FORMAT_YCBCR_420_888 F then HAL_PIXEL_FORMAT_YCrCb_NV12 F
      else format)"

text \<open>The RFBC formats of \<open>3rd/hal/drmhwc2_hal_format.h\<close>, \<open>0x200\<close> to \<open>0x205\<close>.\<close>

definition UnifyAndroidFormatForRK3576 :: "sdk \<Rightarrow> formats \<Rightarrow> int \<Rightarrow> int" where
  "UnifyAndroidFormatForRK3576 K F format =
     (if format = HAL_PIXEL_FORMAT_YUV420_8BIT_I F then HAL_PIXEL_FORMAT_YCrCb_NV12 F
      else if format = HAL_PIXEL_FORMAT_YUV420_10BIT_I F then HAL_PIXEL_FORMAT_YCrCb_NV12_10 K
      else if format = HAL_PIXEL_FORMAT_YCBCR_420_888 F then HAL_PIXEL_FORMAT_YCrCb_NV12 F
      else if format = 0x200 then HAL_PIXEL_FORMAT_YCrCb_NV12 F
      else if format = 0x201 then HAL_PIXEL_FORMAT_YCrCb_NV12_10 K
      else if format = 0x202 then rga_code RK_FORMAT_YCbCr_422_SP
      else if format = 0x203 then rga_code RK_FORMAT_YCbCr_422_SP_10B
      else if format = 0x204 then rga_code RK_FORMAT_YCbCr_444_SP
      else format)"

section \<open>Support\<close>

definition isRK3588RGA3SupportFormat :: "sdk \<Rightarrow> formats \<Rightarrow> int \<Rightarrow> bool" where
  "isRK3588RGA3SupportFormat K F format \<longleftrightarrow>
     HwcGetRgaFormat K F (UnifyAndroidFormatForRK3588 K F format) \<in> rk3588_rga3_support_formats"

definition isRK3588RGA2SupportFormat :: "sdk \<Rightarrow> formats \<Rightarrow> int \<Rightarrow> bool" where
  "isRK3588RGA2SupportFormat K F format \<longleftrightarrow>
     HwcGetRgaFormat K F (UnifyAndroidFormatForRK3588 K F format) \<in> rk3588_rga2_support_formats"

definition isRK3576RGA2SupportFormat :: "sdk \<Rightarrow> formats \<Rightarrow> int \<Rightarrow> bool" where
  "isRK3576RGA2SupportFormat K F format \<longleftrightarrow>
     HwcGetRgaFormat K F (UnifyAndroidFormatForRK3576 K F format) \<in> rk3576_rga2_support_formats"

section \<open>Lemmas\<close>

lemma rga_code_low: "rga_code c mod 256 = 0"
  by (cases c) simp_all

text \<open>The Android formats the translation knows.\<close>

definition android_formats :: "sdk \<Rightarrow> formats \<Rightarrow> int set" where
  "android_formats K F =
     {HAL_PIXEL_FORMAT_RGB_565 F, HAL_PIXEL_FORMAT_RGB_888 F, HAL_PIXEL_FORMAT_RGBA_8888 F,
      HAL_PIXEL_FORMAT_RGBX_8888 F, HAL_PIXEL_FORMAT_BGRA_8888 F,
      HAL_PIXEL_FORMAT_YCrCb_420_SP F, HAL_PIXEL_FORMAT_YCrCb_NV12 F,
      HAL_PIXEL_FORMAT_YCrCb_NV12_VIDEO F, HAL_PIXEL_FORMAT_YCrCb_NV12_10 K,
      HAL_PIXEL_FORMAT_YCbCr_422_SP F, HAL_PIXEL_FORMAT_BGR_888 F}"

lemma FromAndroid_code:
  "HwcGetRgaFormatFromAndroid K F f =
     (if f \<in> android_formats K F then HwcGetRgaFormatFromAndroid K F f else -1)"
  by (simp add: HwcGetRgaFormatFromAndroid_def android_formats_def)

lemma FromAndroid_supported:
  assumes "f \<in> android_formats K F"
  shows "HwcGetRgaFormatFromAndroid K F f \<in> rk3588_rga3_support_formats"
proof -
  have "rga_code ` {RK_FORMAT_RGB_565, RK_FORMAT_RGB_888, RK_FORMAT_RGBA_8888,
      RK_FORMAT_RGBX_8888, RK_FORMAT_BGRA_8888, RK_FORMAT_YCrCb_420_SP, RK_FORMAT_YCbCr_420_SP,
      RK_FORMAT_YCbCr_420_SP_10B, RK_FORMAT_YCbCr_422_SP, RK_FORMAT_BGR_888}
    \<subseteq> rk3588_rga3_support_formats"
    unfolding rk3588_rga3_support_formats_def by (intro image_mono) simp
  moreover have "HwcGetRgaFormatFromAndroid K F f \<in>
    {rga_code RK_FORMAT_RGB_565, rga_code RK_FORMAT_RGB_888, rga_code RK_FORMAT_RGBA_8888,
     rga_code RK_FORMAT_RGBX_8888, rga_code RK_FORMAT_BGRA_8888, rga_code RK_FORMAT_YCrCb_420_SP,
     rga_code RK_FORMAT_YCbCr_420_SP, rga_code RK_FORMAT_YCbCr_420_SP_10B,
     rga_code RK_FORMAT_YCbCr_422_SP, rga_code RK_FORMAT_BGR_888}"
    using assms unfolding android_formats_def HwcGetRgaFormatFromAndroid_def
    by (simp del: rga_code.simps) blast
  ultimately show ?thesis by (simp only: image_insert image_empty) blast
qed

lemma rga3_codes: "f \<in> rk3588_rga3_support_formats \<Longrightarrow> f = 0 \<or> f div 256 mod 256 \<noteq> 0"
  unfolding rk3588_rga3_support_formats_def by auto

lemma rga3_nonneg: "f \<in> rk3588_rga3_support_formats \<Longrightarrow> 0 \<le> f"
  unfolding rk3588_rga3_support_formats_def by auto

text \<open>
  Which formats the RGA policies accept: an Android format (one with a low byte, so not an RGA
  code already) is readable for the RGA3 cores exactly when, after the compressed and flexible
  4:2:0 formats are replaced by their linear ones, it is one of the eleven formats of the
  translation table; and whatever RGA3 reads, RGA2 reads.
\<close>

lemma rga3_android_formats:
  assumes "UnifyAndroidFormatForRK3588 K F f mod 256 \<noteq> 0"
  shows "isRK3588RGA3SupportFormat K F f =
      (UnifyAndroidFormatForRK3588 K F f \<in> android_formats K F) \<and>
    Collect (isRK3588RGA3SupportFormat K F) \<subseteq> Collect (isRK3588RGA2SupportFormat K F)"
proof
  let ?u = "UnifyAndroidFormatForRK3588 K F f"
  let ?a = "HwcGetRgaFormatFromAndroid K F ?u"
  show "isRK3588RGA3SupportFormat K F f = (?u \<in> android_formats K F)"
  proof (cases "?u \<in> android_formats K F")
    case True
    note s = FromAndroid_supported [OF True]
    have "HwcGetRgaFormat K F ?u = ?a"
      using assms rga3_codes [OF s] rga3_nonneg [OF s] by (auto simp: HwcGetRgaFormat_def Let_def)
    with s True show ?thesis by (simp add: isRK3588RGA3SupportFormat_def)
  next
    case False
    then have "?a = -1" using FromAndroid_code [of K F ?u] by simp
    then have "HwcGetRgaFormat K F ?u = -1" using assms by (simp add: HwcGetRgaFormat_def)
    with False show ?thesis using rga3_nonneg [of "-1"] by (auto simp: isRK3588RGA3SupportFormat_def)
  qed
  have "rk3588_rga3_support_formats \<subseteq> rk3588_rga2_support_formats"
    unfolding rk3588_rga3_support_formats_def rk3588_rga2_support_formats_def
    by (intro image_mono) simp
  then show "Collect (isRK3588RGA3SupportFormat K F) \<subseteq> Collect (isRK3588RGA2SupportFormat K F)"
    by (auto simp: isRK3588RGA3SupportFormat_def isRK3588RGA2SupportFormat_def)
qed

lemma rga3_android_formats_witness:
  "isRK3588RGA3SupportFormat sdk0 formats0 0x1B \<and> \<not> isRK3588RGA3SupportFormat sdk0 formats0 0x14"
  using rga3_android_formats [of sdk0 formats0 "0x1B"] rga3_android_formats [of sdk0 formats0 "0x14"]
  by (simp add: UnifyAndroidFormatForRK3588_def android_formats_def formats0_def sdk0_def)

end
