(* ===== verification/Buffer_Queue_Props.thy ===== *)
theory Buffer_Queue_Props
  imports Buffer_Queue Rga_Formats
begin

text \<open>
  The buffer queue as its client sees it.  The client takes a buffer out, has the 2D engine write
  to it, and puts it back; \<open>frame_queue\<close> is what it relies on, and the locale's lemma says
  which buffers the queue holds after any number of such cycles.
\<close>

section \<open>The interface\<close>

text \<open>\<open>n\<close> cycles of taking a buffer out and putting it back, with the buffers handed out.\<close>

primrec cycles ::
  "('q \<Rightarrow> ('b option \<times> 'q) option) \<Rightarrow> ('b \<Rightarrow> 'q \<Rightarrow> (int \<times> 'q) option) \<Rightarrow> nat \<Rightarrow> 'q \<Rightarrow>
   ('b list \<times> 'q) option" where
  "cycles deq enq 0 q = Some ([], q)"
| "cycles deq enq (Suc n) q =
     (case deq q of
        Some (Some b, q1) \<Rightarrow>
          (case enq b q1 of
             None \<Rightarrow> None
           | Some (ret, q2) \<Rightarrow>
               map_option (\<lambda>(bs, q3). (b # bs, q3)) (cycles deq enq n q2))
      | _ \<Rightarrow> None)"

locale frame_queue =
  fixes deq :: "'q \<Rightarrow> ('b option \<times> 'q) option"
    and enq :: "'b \<Rightarrow> 'q \<Rightarrow> (int \<times> 'q) option"
    and items :: "'q \<Rightarrow> 'b list" and held :: "'q \<Rightarrow> 'b option" and cap :: "'q \<Rightarrow> nat"
    and ok :: "'q \<Rightarrow> bool"
  assumes deq_laws: "ok q \<Longrightarrow> \<exists>r q'. deq q = Some (r, q') \<and> ok q' \<and> cap q' = cap q \<and>
      items q' = (if length (items q) = cap q then tl (items q) else items q) \<and>
      (\<forall>b. r = Some b \<longrightarrow> held q' = Some b \<and> b \<notin> set (items q'))"
    and enq_laws: "ok q \<Longrightarrow> held q = Some b \<Longrightarrow> b \<notin> set (items q) \<Longrightarrow> length (items q) < cap q \<Longrightarrow>
      \<exists>q'. enq b q = Some (0, q') \<and> ok q' \<and> cap q' = cap q \<and> items q' = items q @ [b]"
    and bounded: "ok q \<Longrightarrow> length (items q) \<le> cap q \<and> 0 < cap q"
begin

lemma deq_room: "ok q \<Longrightarrow> deq q = Some (r, q') \<Longrightarrow> length (items q') < cap q'"
  using deq_laws [of q] bounded [of q] by auto

lemma one_cycle:
  assumes "ok q" "deq q = Some (Some b, q1)"
  shows "\<exists>q2. enq b q1 = Some (0, q2) \<and> ok q2 \<and> cap q2 = cap q \<and>
    items q2 = drop (Suc (length (items q)) - cap q) (items q @ [b])"
proof -
  have d: "ok q1" "cap q1 = cap q" "held q1 = Some b" "b \<notin> set (items q1)"
    "items q1 = (if length (items q) = cap q then tl (items q) else items q)"
    using deq_laws [OF assms(1)] assms(2) by auto
  obtain q2 where "enq b q1 = Some (0, q2)" "ok q2" "cap q2 = cap q1" "items q2 = items q1 @ [b]"
    using enq_laws [OF d(1,3,4) deq_room [OF assms]] by blast
  moreover have "items q1 @ [b] = drop (Suc (length (items q)) - cap q) (items q @ [b])"
    using bounded [OF assms(1)] d(5) by (cases "length (items q) = cap q") (auto simp: drop_Suc)
  ultimately show ?thesis using d(2) by auto
qed

text \<open>The queue holds the last \<open>cap\<close> of what it held and what was handed out since.\<close>

lemma cycles_window:
  "ok q \<Longrightarrow> cycles deq enq n q = Some (bs, q') \<Longrightarrow>
   length bs = n \<and> ok q' \<and> cap q' = cap q \<and>
   items q' = drop (length (items q) + n - cap q) (items q @ bs)"
proof (induction n arbitrary: q bs)
  case 0
  then show ?case using bounded [of q] by simp
next
  case (Suc n)
  obtain b q1 where d: "deq q = Some (Some b, q1)"
    using Suc.prems(2) by (auto split: option.splits)
  obtain q2 where e: "enq b q1 = Some (0, q2)" "ok q2" "cap q2 = cap q"
    "items q2 = drop (Suc (length (items q)) - cap q) (items q @ [b])"
    using one_cycle [OF Suc.prems(1) d] by blast
  obtain cs where c: "cycles deq enq n q2 = Some (cs, q')" "bs = b # cs"
    using Suc.prems(2) d e(1) by auto
  note h = Suc.IH [OF e(2) c(1)]
  have le: "length (items q) \<le> cap q" "0 < cap q" using bounded [OF Suc.prems(1)] by simp_all
  let ?k = "Suc (length (items q)) - cap q"
  have i2: "items q2 @ cs = drop ?k (items q @ bs)" using e(4) c(2) le by simp
  have a: "length (items q2) = Suc (length (items q)) - ?k" using e(4) by simp
  have "items q' = drop (length (items q2) + n - cap q2) (items q2 @ cs)" using h by blast
  also have "\<dots> = drop (length (items q2) + n - cap q2 + ?k) (items q @ bs)"
    unfolding i2 by (rule drop_drop)
  also have "length (items q2) + n - cap q2 + ?k = length (items q) + Suc n - cap q"
    unfolding a e(3) using le by (cases "length (items q) = cap q") auto
  finally have "items q' = drop (length (items q) + Suc n - cap q) (items q @ bs)" .
  then show ?case using h c(2) e(3) by simp
qed

end

section \<open>The queue of the code provides it\<close>

definition queue_ok :: "DrmBufferQueue \<Rightarrow> bool" where
  "queue_ok q \<longleftrightarrow>
     distinct (bufferQueue q) \<and> (\<forall>n \<in> set (bufferQueue q). n < n_bufs q) \<and>
     (\<forall>n. currentBuffer q = Some n \<longrightarrow> n < n_bufs q) \<and>
     length (bufferQueue q) \<le> iMaxBufferSize q \<and> 0 < iMaxBufferSize q"

lemma new_current_parts:
  assumes "new_current W F w h f u nm pid q = (r, q')"
  shows "bufferQueue q' = bufferQueue q" "iMaxBufferSize q' = iMaxBufferSize q"
    "n_bufs q' = Suc (n_bufs q)" "currentBuffer q' = Some (n_bufs q)"
    "r = Some b \<Longrightarrow> b = n_bufs q"
  using assms by (auto simp: new_current_def set_buf_def Let_def split: prod.splits if_splits)

lemma Dequeue_laws:
  assumes ok: "queue_ok q"
  shows "\<exists>r q'. DequeueDrmBuffer W F w h f u nm pid q = Some (r, q') \<and> queue_ok q' \<and>
    iMaxBufferSize q' = iMaxBufferSize q \<and>
    bufferQueue q' = (if length (bufferQueue q) = iMaxBufferSize q then tl (bufferQueue q)
                      else bufferQueue q) \<and>
    (\<forall>b. r = Some b \<longrightarrow> currentBuffer q' = Some b \<and> b \<notin> set (bufferQueue q'))"
proof (cases "length (bufferQueue q) = iMaxBufferSize q")
  case False
  obtain r q' where n: "new_current W F w h f u nm pid q = (r, q')" by fastforce
  note p = new_current_parts [OF n]
  have "n_bufs q \<notin> set (bufferQueue q)" using ok by (auto simp: queue_ok_def)
  with False n p ok show ?thesis
    by (auto simp: DequeueDrmBuffer_def queue_ok_def less_Suc_eq)
next
  case True
  then obtain n ns where q: "bufferQueue q = n # ns"
    using ok by (cases "bufferQueue q") (auto simp: queue_ok_def)
  let ?q1 = "q\<lparr> currentBuffer := Some n, bufferQueue := ns \<rparr>"
  show ?thesis
  proof (cases "NeedsReallocation w h f (bufs ?q1 n)")
    case re: True
    obtain r q' where c: "new_current W F w h f u nm pid ?q1 = (r, q')" by fastforce
    note p = new_current_parts [OF c]
    have "n_bufs q \<notin> set ns" using ok q by (auto simp: queue_ok_def)
    with True re c p q ok show ?thesis
      by (auto simp: DequeueDrmBuffer_def queue_ok_def less_Suc_eq)
  next
    case False
    with True q ok show ?thesis
      by (auto simp: DequeueDrmBuffer_def queue_ok_def set_buf_def Let_def)
  qed
qed

interpretation dq: frame_queue "DequeueDrmBuffer W F w h f u nm pid" QueueBuffer bufferQueue
  currentBuffer iMaxBufferSize queue_ok for W F w h f u nm pid
proof
  fix q b
  show "queue_ok q \<Longrightarrow> \<exists>r q'. DequeueDrmBuffer W F w h f u nm pid q = Some (r, q') \<and> queue_ok q' \<and>
      iMaxBufferSize q' = iMaxBufferSize q \<and>
      bufferQueue q' = (if length (bufferQueue q) = iMaxBufferSize q then tl (bufferQueue q)
                        else bufferQueue q) \<and>
      (\<forall>b. r = Some b \<longrightarrow> currentBuffer q' = Some b \<and> b \<notin> set (bufferQueue q'))"
    by (rule Dequeue_laws)
  show "queue_ok q \<Longrightarrow> currentBuffer q = Some b \<Longrightarrow> b \<notin> set (bufferQueue q) \<Longrightarrow>
      length (bufferQueue q) < iMaxBufferSize q \<Longrightarrow>
      \<exists>q'. QueueBuffer b q = Some (0, q') \<and> queue_ok q' \<and> iMaxBufferSize q' = iMaxBufferSize q \<and>
        bufferQueue q' = bufferQueue q @ [b]"
    by (auto simp: QueueBuffer_def queue_ok_def)
  show "queue_ok q \<Longrightarrow> length (bufferQueue q) \<le> iMaxBufferSize q \<and> 0 < iMaxBufferSize q"
    by (simp add: queue_ok_def)
qed

section \<open>Properties\<close>

text \<open>
  C36: What \<open>DequeueDrmBuffer\<close> hands out.  It always returns and keeps the queue well formed.  When
  the queue is full and its oldest buffer has the wanted size and format, that buffer comes
  back, with no fence left to wait for; otherwise a new one is created, and the result is
  \<open>NULL\<close> exactly when its \<open>Init\<close> fails.  The oldest buffer of a full queue leaves it in every
  case, also when the new one cannot be created.
\<close>

theorem dequeue_spec:
  assumes "queue_ok q"
  shows "\<exists>r q'. DequeueDrmBuffer W F w h f u nm pid q = Some (r, q') \<and> queue_ok q' \<and>
    (let full = (length (bufferQueue q) = iMaxBufferSize q); old = hd (bufferQueue q);
         reuse = (full \<and> \<not> NeedsReallocation w h f (bufs q old));
         init = fst (DrmBuffer_Init W (n_bufs q) (DrmBuffer_new F w h f u nm pid))
     in bufferQueue q' = (if full then tl (bufferQueue q) else bufferQueue q) \<and>
        r = (if reuse then Some old else if init = 0 then Some (n_bufs q) else None) \<and>
        n_bufs q' = (if reuse then n_bufs q else n_bufs q + 1) \<and>
        (reuse \<longrightarrow> db_finish_fence (bufs q' old) \<le> 0 \<and> db_release_fence (bufs q' old) \<le> 0 \<and>
           db_parent (bufs q' old) = pid))"
proof -
  let ?full = "length (bufferQueue q) = iMaxBufferSize q" and ?old = "hd (bufferQueue q)"
  let ?new = "new_current W F w h f u nm pid"
  obtain r q' where d: "DequeueDrmBuffer W F w h f u nm pid q = Some (r, q')" "queue_ok q'"
    using Dequeue_laws [OF assms, of W F w h f u nm pid] by blast
  have n: "fst (?new p) = (if fst (DrmBuffer_Init W (n_bufs p) (DrmBuffer_new F w h f u nm pid)) = 0
        then Some (n_bufs p) else None) \<and>
      bufferQueue (snd (?new p)) = bufferQueue p \<and> n_bufs (snd (?new p)) = n_bufs p + 1" for p
    by (simp add: new_current_def set_buf_def Let_def split: prod.split)
  show ?thesis
  proof (cases ?full)
    case False
    with d n [of q] show ?thesis by (auto simp: DequeueDrmBuffer_def Let_def)
  next
    case True
    then obtain x ns where x: "bufferQueue q = x # ns"
      using assms by (cases "bufferQueue q") (auto simp: queue_ok_def)
    let ?q1 = "q\<lparr> currentBuffer := Some ?old, bufferQueue := tl (bufferQueue q) \<rparr>"
    let ?b = "SetParentId pid (snd (WaitFinishFence W (snd (WaitReleaseFence W (bufs q ?old)))))"
    have eq: "DequeueDrmBuffer W F w h f u nm pid q =
        (if NeedsReallocation w h f (bufs q ?old) then Some (?new ?q1)
         else Some (Some ?old, set_buf ?old ?b ?q1))"
      using True by (simp add: DequeueDrmBuffer_def x Let_def)
    show ?thesis
    proof (cases "NeedsReallocation w h f (bufs q ?old)")
      case re: True
      with d n [of ?q1] eq True show ?thesis by (auto simp: Let_def)
    next
      case False
      have "db_finish_fence ?b \<le> 0" "db_release_fence ?b \<le> 0" "db_parent ?b = pid"
        by (simp_all add: WaitReleaseFence_def WaitFinishFence_def SetParentId_def)
      with d eq True False show ?thesis by (auto simp: Let_def set_buf_def)
    qed
  qed
qed

definition buffer_world0 :: buffer_world where
  "buffer_world0 =
     \<lparr> bw_alloc = (\<lambda>n w h f u nm. Some
         \<lparr> ga_handle = n + 1, ga_fd = int n + 40, ga_width = w, ga_height = h, ga_format = f,
           ga_stride = w, ga_height_stride = h, ga_byte_stride = w, ga_size = w * h * 2,
           ga_fourcc = fcc ''NV12'', ga_modifier = 0, ga_buffer_id = of_nat n + 1000,
           ga_byte_stride_planes = [], ga_gem = Some (of_nat n + 1) \<rparr>),
       bw_import = (\<lambda>fd sz. if 0 < fd \<and> 0 < sz then 77 else 0),
       bw_sync_wait = (\<lambda>fd. 0) \<rparr>"

definition queue0 :: DrmBufferQueue where
  "queue0 =
     \<lparr> bufs = (\<lambda>n. DrmBuffer_new formats0 0 0 0 0 [] 0), n_bufs = 0, bufferQueue = [],
       currentBuffer = None, iMaxBufferSize = 6 \<rparr>"

lemma queue_ok_queue0: "queue_ok queue0"
  by (simp add: queue_ok_def queue0_def)

lemma dequeue_spec_witness:
  "\<exists>q'. DequeueDrmBuffer buffer_world0 formats0 1920 1080 0x15 0 ''RGA'' 0 queue0 = Some (Some 0, q')
     \<and> queue_ok q'"
  using dequeue_spec [OF queue_ok_queue0, of buffer_world0 formats0 1920 1080 "0x15" 0 "''RGA''" 0]
  by (auto simp: queue0_def Let_def DrmBuffer_Init_def DrmBuffer_new_def buffer_world0_def)

text \<open>
  C37: A client that puts every buffer back cycles through them: after any number of cycles of
  \<open>DequeueDrmBuffer\<close> and \<open>QueueBuffer\<close> the queue is the window of the last \<open>iMaxBufferSize_\<close> of the
  buffers it held and those handed out since, in order; so a buffer is handed out again only
  after \<open>iMaxBufferSize_ - 1\<close> others.
\<close>

theorem dequeue_cycles:
  assumes "queue_ok q"
    and "cycles (DequeueDrmBuffer W F w h f u nm pid) QueueBuffer n q = Some (bs, q')"
  shows "length bs = n \<and> queue_ok q' \<and>
    bufferQueue q' = drop (length (bufferQueue q) + n - iMaxBufferSize q) (bufferQueue q @ bs)"
  using dq.cycles_window [OF assms] by blast

lemma dequeue_cycles_witness:
  "\<exists>q'. cycles (DequeueDrmBuffer buffer_world0 formats0 1920 1080 0x15 0 ''RGA'' 0) QueueBuffer 2 queue0
     = Some ([0, 1], q') \<and> bufferQueue q' = [0, 1]"
proof -
  obtain q' where c: "cycles (DequeueDrmBuffer buffer_world0 formats0 1920 1080 0x15 0 ''RGA'' 0)
      QueueBuffer 2 queue0 = Some ([0, 1], q')"
    by (simp add: numeral_2_eq_2 queue0_def DequeueDrmBuffer_def new_current_def set_buf_def
        DrmBuffer_Init_def DrmBuffer_new_def buffer_world0_def QueueBuffer_def)
  from dequeue_cycles [OF queue_ok_queue0 c] c show ?thesis by (simp add: queue0_def)
qed

text \<open>
  The layout of a buffer as a kernel frame buffer.  Unless gralloc reports more than four plane
  strides for \<open>NV24\<close> or \<open>NV42\<close>, which overruns the arrays of \<open>GetFbId\<close>, all arrays have four
  entries, the planes share the memory handle and the modifier, and the second plane starts
  where the first one, of its pitch times the height stride, ends.
\<close>

lemma fb_layout_planes:
  assumes "length (db_byte_stride_planes b) \<le> 4"
  shows "\<exists>l. fb_layout_of F b = Some l \<and> length (fb_pitches l) = 4 \<and> length (fb_offsets l) = 4 \<and>
    fb_handles l = db_gem b # (if DrmFormatToPlaneNum F (db_fourcc b) = 2 then [db_gem b] else [0]) @
      [0, 0] \<and>
    fb_offsets l ! 0 = 0 \<and>
    fb_offsets l ! 1 = (if DrmFormatToPlaneNum F (db_fourcc b) = 2
      then fb_pitches l ! 0 * word_of_int (db_height_stride b) else 0)"
  using assms by (auto simp: fb_layout_of_def Let_def)

lemma fb_layout_planes_witness:
  "\<exists>l. fb_layout_of formats0 ((DrmBuffer_new formats0 64 32 0x15 0 [] 0)\<lparr> db_fourcc := fcc ''NV12'',
       db_byte_stride := 64, db_height_stride := 32 \<rparr>) = Some l \<and> fb_offsets l ! 1 = 2048"
proof -
  let ?b = "(DrmBuffer_new formats0 64 32 0x15 0 [] 0)\<lparr> db_fourcc := fcc ''NV12'',
       db_byte_stride := 64, db_height_stride := 32 \<rparr>"
  have "length (db_byte_stride_planes ?b) \<le> 4" by (simp add: DrmBuffer_new_def)
  from fb_layout_planes [OF this, of formats0] obtain l where l: "fb_layout_of formats0 ?b = Some l"
    by blast
  then have "fb_offsets l ! 1 = 2048"
    by (simp add: fb_layout_of_def Let_def DrmFormatToPlaneNum_def formats0_def fcc_def
        fourcc_code_def DrmBuffer_new_def) (auto simp: fb_layout.defs)
  with l show ?thesis by blast
qed

end
