(* ===== verification/Vop_Rga.thy ===== *)
theory Vop_Rga
  imports Vop_Contract Layer_Info Buffer_Queue Rga_Formats
begin

text \<open>
  The two policies that use the 2D engine (\<open>platform/rk3588/drmvop3588.cpp\<close>): \<open>TryRgaOverlayPolicy\<close>
  scales or rotates one video layer into a buffer of the HAL's own and places that buffer
  instead, \<open>TrySplitPolicy\<close> does the same for the displays of a video wall.  Both look for the
  layer, describe the blit, let an ordinary policy match the planes with the destination buffer
  in the layer's place, and only then start the blit; on any failure the layer must get its own
  buffer back.

  The 2D engine's library and the kernel are the functions of \<open>rga_env\<close>.
\<close>

section \<open>State and environment\<close>

record rga_buffer =
  rb_handle :: u32
  rb_width :: int
  rb_height :: int
  rb_format :: int
  rb_wstride :: int
  rb_hstride :: int
  rb_fbc :: bool

record im_rect =
  ir_x :: int
  ir_y :: int
  ir_width :: int
  ir_height :: int

text \<open>
  \<open>imcheck_composite\<close>; \<open>improcess\<close>, with the release fence when it succeeds; \<open>dup\<close>; \<open>fcntl\<close> on a
  file descriptor; the option of the resource manager; the transform of a split display.
\<close>

record rga_env =
  rg_buffers :: buffer_world
  rg_layer :: layer_env
  rg_check :: "rga_buffer \<Rightarrow> rga_buffer \<Rightarrow> im_rect \<Rightarrow> im_rect \<Rightarrow> u32 \<Rightarrow> bool"
  rg_process :: "rga_buffer \<Rightarrow> rga_buffer \<Rightarrow> im_rect \<Rightarrow> im_rect \<Rightarrow> int \<Rightarrow> u32 \<Rightarrow> int option"
  rg_dup :: "int \<Rightarrow> int"
  rg_fd_open :: "int \<Rightarrow> bool"
  rg_acquire_enabled :: bool
  rg_split_transform :: sf_transform
  IM_HAL_TRANSFORM_FLIP_H :: u32
  IM_HAL_TRANSFORM_FLIP_V :: u32
  IM_HAL_TRANSFORM_ROT_90 :: u32
  IM_HAL_TRANSFORM_ROT_180 :: u32
  IM_HAL_TRANSFORM_ROT_270 :: u32
  IM_ASYNC :: u32

text \<open>
  The queue is a member of \<open>Vop3588\<close>; \<open>rg_infos\<close> are the import caches the layers point to; the two
  numbers are the function-local statics \<open>last_buffer_id\<close>.
\<close>

record rga_state =
  rg_queue :: DrmBufferQueue
  rg_infos :: "nat \<Rightarrow> RgaHandle"
  last_split_id :: u64
  last_rga_id :: u64

text \<open>The local variables of the policies: what the search for a layer leaves for the blit.\<close>

record rga_job =
  rga_layer_ready :: bool
  use_laster_rga_layer :: bool
  dst_buffer :: "nat option"
  j_src :: rga_buffer
  j_dst :: rga_buffer
  src_rect :: im_rect
  dst_rect :: im_rect
  usage :: u32

definition rga_buffer_zero :: rga_buffer where
  "rga_buffer_zero =
     \<lparr> rb_handle = 0, rb_width = 0, rb_height = 0, rb_format = 0, rb_wstride = 0,
       rb_hstride = 0, rb_fbc = False \<rparr>"

definition im_rect_zero :: im_rect where
  "im_rect_zero = \<lparr> ir_x = 0, ir_y = 0, ir_width = 0, ir_height = 0 \<rparr>"

definition job_start :: rga_job where
  "job_start =
     \<lparr> rga_layer_ready = False, use_laster_rga_layer = False, dst_buffer = None,
       j_src = rga_buffer_zero, j_dst = rga_buffer_zero, src_rect = im_rect_zero,
       dst_rect = im_rect_zero, usage = 0 \<rparr>"

section \<open>The blit of a layer\<close>

definition NeedUseRgaPolicy :: "sdk \<Rightarrow> formats \<Rightarrow> env \<Rightarrow> DrmHwcLayer \<Rightarrow> bool" where
  "NeedUseRgaPolicy K F E l =
     (if \<not> bYuv l then False
      else if 8176 < iWidth l then False
      else if sf_composition l = Client then False
      else if transform l = DRM_MODE_ROTATE_0 K \<and> fHScaleMul l \<le> 2 \<and> fVScaleMul l \<le> 2 then False
      else if (\<exists>cn. conn E = Some cn \<and> h_display (conn_mode cn) \<le> 3840) \<and>
              cdiv (7680 * 4320) 2 < iWidth l * iHeight l then False
      else if \<not> isRK3588RGA3SupportFormat K F (iFormat l) then False
      else True)"

definition rga_scale_max :: "DrmHwcLayer \<Rightarrow> bool" where
  "rga_scale_max l \<longleftrightarrow>
     fHScaleMul l < 1 / 8 \<or> 8 < fHScaleMul l \<or> fVScaleMul l < 1 / 8 \<or> 8 < fVScaleMul l"

definition src_rect_of :: "DrmHwcLayer \<Rightarrow> im_rect" where
  "src_rect_of l =
     \<lparr> ir_x = align_down (trunc_rat (fleft (source_crop l))) 2,
       ir_y = align_down (trunc_rat (ftop (source_crop l))) 2,
       ir_width = align_down (input_w l) 2,
       ir_height = align_down (input_h l) 2 \<rparr>"

text \<open>
  In two-stage scaling the engine scales by four.  An axis that is scaled by four or less keeps
  the size that was in the rectangle before.
\<close>

definition scaled_size :: "rat \<Rightarrow> int \<Rightarrow> int \<Rightarrow> int" where
  "scaled_size mul src old =
     (if 4 < mul then align_down (cdiv src 4) 2
      else if mul < 1 / 4 then align_down (src * 4) 2
      else old)"

definition dst_rect_of :: "sdk \<Rightarrow> DrmHwcLayer \<Rightarrow> im_rect \<Rightarrow> im_rect" where
  "dst_rect_of K l old =
     (if rga_scale_max l then
        (let rotated = (transform l AND DRM_MODE_ROTATE_90 K = DRM_MODE_ROTATE_90 K \<or>
                        transform l AND DRM_MODE_ROTATE_270 K = DRM_MODE_ROTATE_270 K);
             w = (if rotated then input_h l else input_w l);
             h = (if rotated then input_w l else input_h l)
         in \<lparr> ir_x = 0, ir_y = 0, ir_width = scaled_size (fHScaleMul l) w (ir_width old),
              ir_height = scaled_size (fVScaleMul l) h (ir_height old) \<rparr>)
      else
        \<lparr> ir_x = 0, ir_y = 0, ir_width = align_down (output_w l) 2,
          ir_height = align_down (output_h l) 2 \<rparr>)"

definition rga_usage :: "sdk \<Rightarrow> rga_env \<Rightarrow> u32 \<Rightarrow> u32" where
  "rga_usage K R tr =
     (let r0 = DRM_MODE_ROTATE_0 K; x = DRM_MODE_REFLECT_X K; y = DRM_MODE_REFLECT_Y K;
          r90 = DRM_MODE_ROTATE_90 K
      in if tr = r0 then 0
         else if tr = r0 OR x then IM_HAL_TRANSFORM_FLIP_H R
         else if tr = r0 OR y then IM_HAL_TRANSFORM_FLIP_V R
         else if tr = r90 then IM_HAL_TRANSFORM_ROT_90 R
         else if tr = r0 OR x OR y then IM_HAL_TRANSFORM_ROT_180 R
         else if tr = DRM_MODE_ROTATE_270 K then IM_HAL_TRANSFORM_ROT_270 R
         else if tr = r0 OR y OR r90 then IM_HAL_TRANSFORM_ROT_90 R OR IM_HAL_TRANSFORM_FLIP_H R
         else if tr = r0 OR x OR r90 then IM_HAL_TRANSFORM_ROT_90 R OR IM_HAL_TRANSFORM_FLIP_V R
         else 0)"

text \<open>The import of the layer's own buffer; without cached information there is none.\<close>

definition src_import :: "rga_env \<Rightarrow> DrmHwcLayer \<Rightarrow> rga_state \<Rightarrow> u32 \<times> rga_state" where
  "src_import R l g =
     (case pBufferInfo (buf l) of
        None \<Rightarrow> (0, g)
      | Some i \<Rightarrow>
         (let (h, r) = RgaHandle_GetRgaHandle (rg_buffers R) (iFd (buf l)) (iSize l)
                         (uBufferId (buf l)) (rg_infos g i)
          in (h, g\<lparr> rg_infos := (rg_infos g)(i := r) \<rparr>)))"

definition dst_import :: "rga_env \<Rightarrow> nat \<Rightarrow> rga_state \<Rightarrow> u32 \<times> rga_state" where
  "dst_import R d g =
     (let (h, b) = GetRgaHandle (rg_buffers R) (bufs (rg_queue g) d)
      in (h, g\<lparr> rg_queue := set_buf d b (rg_queue g) \<rparr>))"

definition info_of :: "DrmBuffer \<Rightarrow> buffer_info" where
  "info_of b =
     \<lparr> in_handle = db_handle b, in_fd = db_fd b, in_format = db_format b, in_w = db_width b,
       in_h = db_height b, in_stride = db_stride b, in_h_stride = db_height_stride b,
       in_byte_stride = db_byte_stride b, in_size = db_size b, in_usage = db_usage b,
       in_fourcc = db_fourcc b, in_modifier = db_modifier b,
       in_byte_stride_planes = db_byte_stride_planes b, in_name = db_name b,
       in_buffer_id = db_buffer_id b, in_gemhandle = db_gem b \<rparr>"

definition crop_of :: "int \<Rightarrow> int \<Rightarrow> int \<Rightarrow> int \<Rightarrow> hwc_frect" where
  "crop_of l t r b = \<lparr> fleft = of_int l, ftop = of_int t, fright = of_int r, fbottom = of_int b \<rparr>"

definition mark_rga :: "int option \<Rightarrow> nat \<Rightarrow> DrmHwcLayer \<Rightarrow> DrmHwcLayer" where
  "mark_rga plane d l =
     l\<lparr> iBestPlaneType := (case plane of None \<Rightarrow> iBestPlaneType l | Some t \<Rightarrow> t),
        buf := (buf l)\<lparr> pRgaBuffer := Some d, bUseRga := True \<rparr> \<rparr>"

text \<open>Where the two policies differ in describing the blit.\<close>

record blit_kind =
  bk_src_stride :: "DrmHwcLayer \<Rightarrow> int"
  bk_dst_format :: "int \<Rightarrow> int"
  bk_flags :: u32
  bk_plane :: "int option"

text \<open>
  A step of the search over the layers: whether it stops, and the new state.  \<open>None\<close> is an empty
  display frame, for which \<open>Init\<close> has no factors.
\<close>

type_synonym search = "(bool \<times> rga_job \<times> heap \<times> rga_state) option"

definition blit_setup ::
  "sdk \<Rightarrow> formats \<Rightarrow> rga_env \<Rightarrow> blit_kind \<Rightarrow> lptr \<Rightarrow> nat \<Rightarrow> rga_job \<Rightarrow> heap \<Rightarrow> rga_state \<Rightarrow> search"
where
  "blit_setup K F R k p d j h g =
     (let l = h p; (src_handle, g1) = src_import R l g in
      if src_handle = 0 then Some (False, j, h, g1)
      else
       (let j1 = j\<lparr>
              j_src := \<lparr> rb_handle = src_handle, rb_width = iWidth l, rb_height = iHeight l,
                rb_format = UnifyAndroidFormatForRK3588 K F (iFormat l),
                rb_wstride = bk_src_stride k l, rb_hstride = iHeightStride (buf l),
                rb_fbc = bAfbcd l \<rparr>,
              src_rect := src_rect_of l \<rparr>;
            (dst_handle, g2) = dst_import R d g1
        in if dst_handle = 0 then Some (False, j1, h, g2)
           else
            (let b = bufs (rg_queue g2) d;
                 j2 = j1\<lparr>
                   j_dst := \<lparr> rb_handle = dst_handle, rb_width = db_width b,
                     rb_height = db_height b, rb_format = bk_dst_format k (db_format b),
                     rb_wstride = (if db_fourcc b = DRM_FORMAT_NV15 F then db_byte_stride b
                                   else db_stride b),
                     rb_hstride = db_height_stride b, rb_fbc = False \<rparr>,
                   dst_rect := dst_rect_of K l (dst_rect j1),
                   usage := rga_usage K R (transform l) \<rparr>;
                 dr = dst_rect j2
             in if \<not> rg_check R (j_src j2) (j_dst j2) (src_rect j2) dr (usage j2 OR bk_flags k)
                then Some (True, j2, h, g2)
                else
                 (case UpdateAndStoreInfoFromDrmBuffer K F (rg_layer R) (info_of b)
                         (crop_of (ir_x dr) (ir_y dr) (ir_x dr + ir_width dr) (ir_y dr + ir_height dr))
                         (DRM_MODE_ROTATE_0 K) l of
                    None \<Rightarrow> None
                  | Some l' \<Rightarrow>
                     Some (True, j2\<lparr> rga_layer_ready := True \<rparr>,
                           h(p := mark_rga (bk_plane k) d l'), g2)))))"

text \<open>The other branch: the buffer the engine wrote for the frame before.\<close>

definition use_last_buffer ::
  "sdk \<Rightarrow> formats \<Rightarrow> rga_env \<Rightarrow> int option \<Rightarrow> lptr \<Rightarrow> rga_job \<Rightarrow> heap \<Rightarrow> rga_state \<Rightarrow> search" where
  "use_last_buffer K F R plane p j h g =
     (let (r, q) = BackDrmBuffer (rg_queue g); g1 = g\<lparr> rg_queue := q \<rparr>; l = h p in
      case r of
        None \<Rightarrow> Some (True, j\<lparr> dst_buffer := None \<rparr>, h, g1)
      | Some d \<Rightarrow>
         (case UpdateAndStoreInfoFromDrmBuffer K F (rg_layer R) (info_of (bufs q d))
                 (crop_of 0 0 (align_down (output_w l) 2) (align_down (output_h l) 2))
                 (DRM_MODE_ROTATE_0 K) l of
            None \<Rightarrow> None
          | Some l' \<Rightarrow>
             Some (True, j\<lparr> dst_buffer := Some d, use_laster_rga_layer := True \<rparr>,
                   h(p := mark_rga plane d l'), g1)))"

text \<open>The loop \<open>for(auto &drmLayer : layers)\<close>.\<close>

fun search_layers ::
  "(lptr \<Rightarrow> rga_job \<Rightarrow> heap \<Rightarrow> rga_state \<Rightarrow> search) \<Rightarrow> lptr list \<Rightarrow> rga_job \<Rightarrow> heap \<Rightarrow> rga_state \<Rightarrow>
   (rga_job \<times> heap \<times> rga_state) option" where
  "search_layers step [] j h g = Some (j, h, g)"
| "search_layers step (p # ps) j h g =
     (case step p j h g of
        None \<Rightarrow> None
      | Some (stop, j', h', g') \<Rightarrow>
          if stop then Some (j', h', g') else search_layers step ps j' h' g')"

section \<open>After the search\<close>

type_synonym rga_result = "(int \<times> lptr list \<times> vop \<times> rga_state) option"
type_synonym rga_policy = "lptr list \<Rightarrow> vop \<times> rga_state \<Rightarrow> rga_result"

text \<open>The layer gets its own buffer back.\<close>

definition give_back ::
  "sdk \<Rightarrow> formats \<Rightarrow> rga_env \<Rightarrow> nat option \<Rightarrow> lptr \<Rightarrow> heap \<times> DrmBufferQueue \<Rightarrow>
   (heap \<times> DrmBufferQueue) option" where
  "give_back K F R dst p hq =
     (case hq of (h, q) \<Rightarrow>
      case dst of
        None \<Rightarrow> None
      | Some d \<Rightarrow> do {
          (_, q') \<leftarrow> QueueBuffer d q;
          l \<leftarrow> ResetInfoFromStore K F (rg_layer R) (h p);
          Some (h(p := l\<lparr> buf := (buf l)\<lparr> bUseRga := False \<rparr> \<rparr>), q')
        })"

fun give_back_all ::
  "sdk \<Rightarrow> formats \<Rightarrow> rga_env \<Rightarrow> nat option \<Rightarrow> lptr list \<Rightarrow> heap \<times> DrmBufferQueue \<Rightarrow>
   (heap \<times> DrmBufferQueue) option" where
  "give_back_all K F R dst [] hq = Some hq"
| "give_back_all K F R dst (p # ps) hq =
     (if bUseRga (buf (fst hq p))
      then do { hq' \<leftarrow> give_back K F R dst p hq; give_back_all K F R dst ps hq' }
      else give_back_all K F R dst ps hq)"

text \<open>\<open>AcquireFence(fd)\<close> keeps the descriptor if it is open.\<close>

definition AcquireFence_new :: "rga_env \<Rightarrow> int \<Rightarrow> int" where
  "AcquireFence_new R fd = (if rg_fd_open R fd then fd else -1)"

definition fence_valid :: "rga_env \<Rightarrow> int \<Rightarrow> bool" where
  "fence_valid R fd \<longleftrightarrow> fd \<noteq> -1 \<and> rg_fd_open R fd"

text \<open>
  The blit after a match.  \<open>acq\<close> computes the fence the engine waits for; \<open>remember\<close> writes
  \<open>last_buffer_id\<close>.  Without a layer that uses the engine the planes stay as matched.
\<close>

definition commit_blit ::
  "sdk \<Rightarrow> formats \<Rightarrow> rga_env \<Rightarrow> u32 \<Rightarrow> (DrmHwcLayer \<Rightarrow> int) \<Rightarrow> (u64 \<Rightarrow> rga_state \<Rightarrow> rga_state) \<Rightarrow>
   rga_job \<Rightarrow> lptr list \<Rightarrow> vop \<Rightarrow> rga_state \<Rightarrow> rga_result" where
  "commit_blit K F R flags acq remember j layers s g =
     (case List.find (\<lambda>p. bUseRga (buf (heap s p))) layers of
        None \<Rightarrow> do { ly \<leftarrow> ResetLayerFromTmp layers [] (heap s); Some (0, ly, s, g) }
      | Some p \<Rightarrow>
         (let l = heap s p in
          case rg_process R (j_src j) (j_dst j) (src_rect j) (dst_rect j) (acq l)
                 (usage j OR flags) of
            None \<Rightarrow> do {
              (h, q) \<leftarrow> give_back K F R (dst_buffer j) p (heap s, rg_queue g);
              ly \<leftarrow> ResetLayerFromTmp layers [] h;
              Some (-1, ly, s\<lparr> heap := h \<rparr>, g\<lparr> rg_queue := q \<rparr>)
            }
          | Some releaseFence \<Rightarrow>
             (case dst_buffer j of
                None \<Rightarrow> None
              | Some d \<Rightarrow> do {
                  let b = snd (SetFinishFence (rg_buffers R) (rg_dup R releaseFence)
                                 (bufs (rg_queue g) d));
                  (_, q) \<leftarrow> QueueBuffer d (set_buf d b (rg_queue g));
                  Some (0, layers,
                    s\<lparr> heap := upd p (\<lambda>l. l\<lparr> buf := (buf l)\<lparr> pRgaBuffer := Some d,
                         acquire_fence := AcquireFence_new R releaseFence \<rparr> \<rparr>) (heap s) \<rparr>,
                    remember (uBufferId (buf l)) (g\<lparr> rg_queue := q \<rparr>))
                })))"

text \<open>
  The common end of both policies: match the planes with \<open>pol\<close>, then blit, or undo.  The branch
  for the last buffer does not give the layer its own buffer back when the match fails.
\<close>

definition match_and_blit ::
  "sdk \<Rightarrow> formats \<Rightarrow> rga_env \<Rightarrow> u32 \<Rightarrow> (DrmHwcLayer \<Rightarrow> int) \<Rightarrow> (u64 \<Rightarrow> rga_state \<Rightarrow> rga_state) \<Rightarrow>
   policy \<Rightarrow> rga_job \<Rightarrow> lptr list \<Rightarrow> vop \<Rightarrow> rga_state \<Rightarrow> rga_result" where
  "match_and_blit K F R flags acq remember pol j layers s g =
     (if rga_layer_ready j then do {
        (ret, ly, s1) \<leftarrow> pol layers s;
        (if ret = 0 then commit_blit K F R flags acq remember j ly s1 g
         else do {
           (h, q) \<leftarrow> give_back_all K F R (dst_buffer j) ly (heap s1, rg_queue g);
           ly' \<leftarrow> ResetLayerFromTmp ly [] h;
           Some (-1, ly', s1\<lparr> heap := h \<rparr>, g\<lparr> rg_queue := q \<rparr>)
         })
      }
      else if use_laster_rga_layer j then do {
        (ret, ly, s1) \<leftarrow> pol layers s;
        (if ret = 0 then Some (ret, ly, s1, g)
         else do { ly' \<leftarrow> ResetLayerFromTmp ly [] (heap s1); Some (-1, ly', s1, g) })
      }
      else do { ly \<leftarrow> ResetLayerFromTmp layers [] (heap s); Some (-1, ly, s, g) })"

section \<open>The RGA overlay policy\<close>

definition is_yuv_10bit :: "sdk \<Rightarrow> formats \<Rightarrow> DrmHwcLayer \<Rightarrow> bool" where
  "is_yuv_10bit K F l \<longleftrightarrow>
     iFormat l = HAL_PIXEL_FORMAT_YUV420_10BIT_I F \<or> iFormat l = HAL_PIXEL_FORMAT_YCrCb_NV12_10 K"

text \<open>\<open>1ULL << 56\<close>, \<open>57\<close>, \<open>60\<close>.\<close>

definition RK_GRALLOC_USAGE_WITHIN_4G :: u64 where
  "RK_GRALLOC_USAGE_WITHIN_4G = push_bit 56 1"
definition RK_GRALLOC_USAGE_STRIDE_ALIGN_16 :: u64 where
  "RK_GRALLOC_USAGE_STRIDE_ALIGN_16 = push_bit 57 1"
definition RK_GRALLOC_USAGE_STRIDE_ALIGN_64 :: u64 where
  "RK_GRALLOC_USAGE_STRIDE_ALIGN_64 = push_bit 60 1"

definition rga_dequeue ::
  "sdk \<Rightarrow> formats \<Rightarrow> rga_env \<Rightarrow> sta_ctx \<Rightarrow> DrmHwcLayer \<Rightarrow> DrmBufferQueue \<Rightarrow>
   (nat option \<times> DrmBufferQueue) option" where
  "rga_dequeue K F R c l q =
     (if is_yuv_10bit K F l then
        DequeueDrmBuffer (rg_buffers R) F (align_up (iDisplayWidth c) 2) (iDisplayHeight c)
          (HAL_PIXEL_FORMAT_YCrCb_NV12_10 K)
          (RK_GRALLOC_USAGE_STRIDE_ALIGN_64 OR MALI_GRALLOC_USAGE_NO_AFBC F OR
           RK_GRALLOC_USAGE_WITHIN_4G) ''RGA-SurfaceView'' 0 q
      else
        DequeueDrmBuffer (rg_buffers R) F (iDisplayWidth c) (iDisplayHeight c)
          (HAL_PIXEL_FORMAT_YCrCb_NV12 F)
          (RK_GRALLOC_USAGE_STRIDE_ALIGN_16 OR MALI_GRALLOC_USAGE_NO_AFBC F OR
           RK_GRALLOC_USAGE_WITHIN_4G) ''RGA-SurfaceView'' 0 q)"

definition rga_kind :: "sdk \<Rightarrow> formats \<Rightarrow> rga_env \<Rightarrow> blit_kind" where
  "rga_kind K F R =
     \<lparr> bk_src_stride = (\<lambda>l. if uFourccFormat l = DRM_FORMAT_NV15 F then iByteStride (buf l)
                            else iStride l),
       bk_dst_format = (\<lambda>f.
         if f = HAL_PIXEL_FORMAT_YUV420_8BIT_I F then HAL_PIXEL_FORMAT_YCrCb_NV12 F
         else if f = HAL_PIXEL_FORMAT_YUV420_10BIT_I F then HAL_PIXEL_FORMAT_YCrCb_NV12_10 K
         else f),
       bk_flags = IM_ASYNC R,
       bk_plane = Some (uint PLANE_RK3588_ALL_ESMART_MASK) \<rparr>"

definition rga_layer ::
  "sdk \<Rightarrow> formats \<Rightarrow> rga_env \<Rightarrow> env \<Rightarrow> sta_ctx \<Rightarrow> lptr \<Rightarrow> rga_job \<Rightarrow> heap \<Rightarrow> rga_state \<Rightarrow> search"
where
  "rga_layer K F R E c p j h g =
     (let l = h p in
      if \<not> NeedUseRgaPolicy K F E l then Some (False, j, h, g)
      else if last_rga_id g \<noteq> uBufferId (buf l) then
        (if \<not> isRK3588RGA3SupportFormat K F (iFormat l) then Some (False, j, h, g)
         else
          (case rga_dequeue K F R c l (rg_queue g) of
             None \<Rightarrow> None
           | Some (r, q) \<Rightarrow>
              (let g1 = g\<lparr> rg_queue := q \<rparr>; j1 = j\<lparr> dst_buffer := r \<rparr> in
               case r of
                 None \<Rightarrow> Some (False, j1, h, g1)
               | Some d \<Rightarrow> blit_setup K F R (rga_kind K F R) p d j1 h g1)))
      else use_last_buffer K F R (Some (uint PLANE_RK3588_ALL_ESMART_MASK)) p j h g)"

definition rga_match :: "sdk \<Rightarrow> env \<Rightarrow> gptr list \<Rightarrow> policy" where
  "rga_match K E pgs layers s =
     (if 0 < iSkipCnt (request s) then TryMixSkipPolicy K E pgs layers s
      else else_try (TryOverlayPolicy K E pgs layers s) True (TryMixVideoPolicy K E pgs))"

definition TryRgaOverlayPolicy ::
  "sdk \<Rightarrow> formats \<Rightarrow> rga_env \<Rightarrow> env \<Rightarrow> gptr list \<Rightarrow> rga_policy" where
  "TryRgaOverlayPolicy K F R E pgs layers sg =
     (case sg of (s, g) \<Rightarrow>
        if \<not> bRgaPolicyEnable (st s) then Some (-1, layers, s, g)
        else
         (let s1 = ResetPlaneGroups pgs (ResetLayer layers s) in
          case search_layers (rga_layer K F R E (st s1)) layers job_start (heap s1) g of
            None \<Rightarrow> None
          | Some (j, h, g1) \<Rightarrow>
             match_and_blit K F R (IM_ASYNC R) (\<lambda>l. 0) (\<lambda>i g. g\<lparr> last_rga_id := i \<rparr>)
               (rga_match K E pgs) j layers (s1\<lparr> heap := h \<rparr>) g1))"

section \<open>The split policy\<close>

definition split_transform ::
  "sdk \<Rightarrow> rga_env \<Rightarrow> env \<Rightarrow> bool \<Rightarrow> lptr \<Rightarrow> heap \<Rightarrow> heap" where
  "split_transform K R E primary p h =
     (if primary \<and> bFbTarget (h p) \<and> 0 < iFd (buf (h p)) \<and>
         (\<exists>cn. conn E = Some cn \<and> conn_connected cn)
      then upd p (SetTransform K
             (case rg_split_transform R of T_other \<Rightarrow> T_None | t \<Rightarrow> t)) h
      else h)"

definition split_kind :: "sdk \<Rightarrow> formats \<Rightarrow> blit_kind" where
  "split_kind K F =
     \<lparr> bk_src_stride = iStride, bk_dst_format = UnifyAndroidFormatForRK3588 K F, bk_flags = 0,
       bk_plane = None \<rparr>"

definition split_layer ::
  "sdk \<Rightarrow> formats \<Rightarrow> rga_env \<Rightarrow> sta_ctx \<Rightarrow> lptr \<Rightarrow> rga_job \<Rightarrow> heap \<Rightarrow> rga_state \<Rightarrow> search" where
  "split_layer K F R c p j h g =
     (let l = h p in
      if bIsCropSplitPrimary c \<and> \<not> bFbTarget l then Some (False, j, h, g)
      else if last_split_id g \<noteq> uBufferId (buf l) then
        (case DequeueDrmBuffer (rg_buffers R) F (iDisplayWidth c) (iDisplayHeight c)
                (HAL_PIXEL_FORMAT_RGB_888 F) (MALI_GRALLOC_USAGE_NO_AFBC F) ''SplitModeView'' 0
                (rg_queue g) of
           None \<Rightarrow> None
         | Some (r, q) \<Rightarrow>
            (let g1 = g\<lparr> rg_queue := q \<rparr>; j1 = j\<lparr> dst_buffer := r \<rparr> in
             case r of
               None \<Rightarrow> Some (False, j1, h, g1)
             | Some d \<Rightarrow> blit_setup K F R (split_kind K F) p d j1 h g1))
      else use_last_buffer K F R None p j h g)"

definition split_match :: "sdk \<Rightarrow> env \<Rightarrow> gptr list \<Rightarrow> bool \<Rightarrow> policy" where
  "split_match K E pgs primary =
     (if primary then TryGLESPolicy K E pgs else TryOverlayPolicy K E pgs)"

definition split_acquire :: "rga_env \<Rightarrow> DrmHwcLayer \<Rightarrow> int" where
  "split_acquire R l =
     (if fence_valid R (acquire_fence (buf l)) \<and> rg_acquire_enabled R
      then rg_dup R (acquire_fence (buf l)) else -1)"

definition TrySplitPolicy ::
  "sdk \<Rightarrow> formats \<Rightarrow> rga_env \<Rightarrow> env \<Rightarrow> gptr list \<Rightarrow> rga_policy" where
  "TrySplitPolicy K F R E pgs layers sg =
     (case sg of (s, g) \<Rightarrow>
      let primary = bIsCropSplitPrimary (st s);
          s0 = s\<lparr> heap := fold (split_transform K R E primary) layers (heap s) \<rparr>
      in case split_match K E pgs primary layers s0 of
           None \<Rightarrow> None
         | Some (ret, ly, s1) \<Rightarrow>
             if ret = 0 then Some (0, ly, s1, g)
             else
              (let s2 = ResetPlaneGroups pgs (ResetLayer ly s1) in
               case search_layers (split_layer K F R (st s2)) ly job_start (heap s2) g of
                 None \<Rightarrow> None
               | Some (j, h, g1) \<Rightarrow>
                  match_and_blit K F R 0 (split_acquire R) (\<lambda>i g. g\<lparr> last_split_id := i \<rparr>)
                    (split_match K E pgs primary) j ly (s2\<lparr> heap := h \<rparr>) g1))"

end
