(* ===== verification/Vop_Rga_Props.thy ===== *)
theory Vop_Rga_Props
  imports Vop_Rga Layer_Props Buffer_Queue_Props
begin

text \<open>
  What the policies with the 2D engine keep of the contract.  \<open>lent\<close> relates a layer to the same
  layer with a buffer of the queue in its place; \<open>blit_search\<close> is the interface between the loop
  over the layers and its step, \<open>blit_policy\<close> the interface between the two policies and the
  ordinary policy they match with.
\<close>

section \<open>Layers and state\<close>

definition frame_ok :: "DrmHwcLayer \<Rightarrow> bool" where
  "frame_ok l \<longleftrightarrow>
     right (display_frame l) \<noteq> left (display_frame l) \<and>
     bottom (display_frame l) \<noteq> top (display_frame l)"

text \<open>What identifies a layer for the policies; nothing changes it.\<close>

definition ident :: "DrmHwcLayer \<Rightarrow> u32 \<times> bool \<times> int \<times> bool \<times> hwc_rect" where
  "ident l = (uId l, bUse l, iZpos l, bFbTarget l, display_frame l)"

definition keeps :: "vop \<Rightarrow> vop \<Rightarrow> bool" where
  "keeps s s' \<longleftrightarrow>
     (\<forall>p. ident (heap s' p) = ident (heap s p)) \<and> gheap_frame (gheap s) (gheap s') \<and>
     request s' = request s \<and> support s' = support s \<and>
     setHwcPolicy (st s') = setHwcPolicy (st s)"

lemma keeps_refl [simp]: "keeps s s"
  by (simp add: keeps_def)

lemma keeps_trans: "keeps s t \<Longrightarrow> keeps t u \<Longrightarrow> keeps s u"
  using gheap_frame_trans by (auto simp: keeps_def)

lemma frame_keeps: "frame s s' \<Longrightarrow> keeps s s'"
  by (simp add: frame_def keeps_def ident_def heap_frame_fields)

lemma keeps_ready: "keeps s s' \<Longrightarrow> ready L s' = ready L s"
  by (simp add: keeps_def ready_def distinct_layers_def ident_def)

lemma keeps_fb: "keeps s s' \<Longrightarrow> is_fb (heap s') = is_fb (heap s)"
  by (rule ext) (simp add: keeps_def ident_def is_fb_def)

lemma keeps_heap: "(\<And>p. ident (h p) = ident (heap s p)) \<Longrightarrow> keeps s (s\<lparr> heap := h \<rparr>)"
  by (simp add: keeps_def)

lemma ready_sub:
  assumes "ready L s" "mset L' \<subseteq># mset L"
  shows "ready L' s"
proof -
  obtain M where M: "mset L = mset L' + M" using assms(2) by (auto simp: mset_subset_eq_exists_conv)
  obtain R where "mset R = M" using ex_mset by blast
  with M have "mset L' + mset R = mset L" by simp
  from ready_part [OF assms(1) this] show ?thesis .
qed

section \<open>A layer with another buffer\<close>

definition lent ::
  "sdk \<Rightarrow> formats \<Rightarrow> rga_env \<Rightarrow> DrmBuffer \<Rightarrow> nat \<Rightarrow> DrmHwcLayer \<Rightarrow> DrmHwcLayer \<Rightarrow> bool" where
  "lent K F R b d l l' \<longleftrightarrow>
     (\<exists>crop l1 plane. UpdateAndStoreInfoFromDrmBuffer K F (rg_layer R) (info_of b) crop
         (DRM_MODE_ROTATE_0 K) l = Some l1 \<and> l' = mark_rga plane d l1)"

lemma Update_fields:
  assumes "UpdateAndStoreInfoFromDrmBuffer K F e b crop tr l = Some l1"
  shows "ident l1 = ident l" "bMatch l1 = bMatch l" "iDrmZpos l1 = iDrmZpos l"
    "uBufferId (buf l1) = in_buffer_id b" "bUseRga (buf l1) = bUseRga (buf l)"
    "acquire_fence (buf l1) = acquire_fence (buf l)" "sf_composition l1 = sf_composition l"
    "bGlesCompose l1 = bGlesCompose l" "iBestPlaneType l1 = iBestPlaneType l"
  using assms by (auto simp: UpdateAndStoreInfoFromDrmBuffer_def layer_Init_Some Let_def
      take_buffer_def ident_def)

lemma lent_fields:
  assumes "lent K F R b d l l'"
  shows "ident l' = ident l" "bMatch l' = bMatch l" "bUseRga (buf l')"
    "uBufferId (buf l') = db_buffer_id b" "pRgaBuffer (buf l') = Some d"
    "acquire_fence (buf l') = acquire_fence (buf l)"
  using assms Update_fields unfolding lent_def
  by (auto simp: mark_rga_def ident_def info_of_def)

lemma lent_total:
  assumes "frame_ok l"
  shows "\<exists>l1. UpdateAndStoreInfoFromDrmBuffer K F e b crop tr l = Some l1"
  using assms Update_total by (simp add: frame_ok_def)

text \<open>Whatever the matching wrote since, the layer gets its own buffer back.\<close>

lemma lent_back:
  assumes l: "lent K F R b d l l'" and i: "initialised K F (rg_layer R) l"
    and s: "same_layer l' l''"
  shows "ResetInfoFromStore K F (rg_layer R) l'' =
    Some (set_marks (bMatch l'') (iDrmZpos l'') (iBestPlaneType l') True (Some d)
            (acquire_fence (buf l)) (l\<lparr> buf := (buf l)\<lparr> storeLayerInfo := None \<rparr> \<rparr>))"
proof -
  obtain crop l1 plane where u: "UpdateAndStoreInfoFromDrmBuffer K F (rg_layer R) (info_of b) crop
      (DRM_MODE_ROTATE_0 K) l = Some l1" and l': "l' = mark_rga plane d l1"
    using l unfolding lent_def by blast
  have a: "acquire_fence (buf l1) = acquire_fence (buf l)" using Update_fields [OF u] by simp
  have "l'' = l'\<lparr> bMatch := bMatch l'', bAfbcd := bAfbcd l'', iDrmZpos := iDrmZpos l'' \<rparr>"
    using s by (simp add: same_layer_def)
  also have "\<dots> = set_marks (bMatch l'') (iDrmZpos l'') (iBestPlaneType l') True (Some d)
      (acquire_fence (buf l)) (with_derived (l1\<lparr> bAfbcd := bAfbcd l'' \<rparr>) l1)"
    unfolding l' by (rule DrmHwcLayer.equality)
      (simp_all add: mark_rga_def set_marks_def with_derived_def a)
  finally show ?thesis using stored_then_reset [OF i u] by metis
qed

lemma Reset_fields:
  assumes "ResetInfoFromStore K F e l = Some l'"
  shows "ident l' = ident l" "bMatch l' = bMatch l" "iDrmZpos l' = iDrmZpos l"
  using assms by (auto simp: ResetInfoFromStore_def layer_Init_Some Let_def from_store_def
      ident_def split: option.splits)

lemma Reset_total:
  assumes "frame_ok l"
  shows "\<exists>l'. ResetInfoFromStore K F e l = Some l'"
  using assms by (simp add: ResetInfoFromStore_def layer_Init_def IsScale_def Let_def
      from_store_def frame_ok_def split: option.splits)

section \<open>The search for a layer\<close>

definition idle :: "rga_job \<Rightarrow> bool" where
  "idle j \<longleftrightarrow> \<not> rga_layer_ready j \<and> \<not> use_laster_rga_layer j"

definition same_ids :: "rga_state \<Rightarrow> rga_state \<Rightarrow> bool" where
  "same_ids g g' \<longleftrightarrow> last_rga_id g' = last_rga_id g \<and> last_split_id g' = last_split_id g"

text \<open>The buffer is the one a policy blitted last.\<close>

definition known :: "rga_state \<Rightarrow> DrmHwcLayer \<Rightarrow> bool" where
  "known g l \<longleftrightarrow> uBufferId (buf l) = last_rga_id g \<or> uBufferId (buf l) = last_split_id g"

lemma known_same: "same_ids g g' \<Longrightarrow> known g' l = known g l"
  by (simp add: known_def same_ids_def)

type_synonym last_id = "rga_state \<Rightarrow> u64"

text \<open>
  One layer \<open>p\<close> has got buffer \<open>d\<close>.  \<open>i\<close> is the id the policy remembers.  A new buffer is not in the queue, and there is room for it.
\<close>

definition chosen ::
  "sdk \<Rightarrow> formats \<Rightarrow> rga_env \<Rightarrow> u64 \<Rightarrow> (DrmHwcLayer \<Rightarrow> bool) \<Rightarrow> lptr \<Rightarrow> nat \<Rightarrow> rga_job \<Rightarrow> heap \<Rightarrow> heap \<Rightarrow>
   rga_state \<Rightarrow> bool" where
  "chosen K F R i want p d j h h' g \<longleftrightarrow>
     want (h p) \<and> rga_layer_ready j \<noteq> use_laster_rga_layer j \<and> dst_buffer j = Some d \<and>
     currentBuffer (rg_queue g) = Some d \<and>
     (\<exists>l'. lent K F R (bufs (rg_queue g) d) d (h p) l' \<and> h' = h(p := l')) \<and>
     (use_laster_rga_layer j \<longrightarrow> uBufferId (buf (h p)) = i \<and> bufferQueue (rg_queue g) \<noteq> []) \<and>
     (rga_layer_ready j \<longrightarrow> d \<notin> set (bufferQueue (rg_queue g)) \<and>
        length (bufferQueue (rg_queue g)) < iMaxBufferSize (rg_queue g))"

definition step_result ::
  "sdk \<Rightarrow> formats \<Rightarrow> rga_env \<Rightarrow> last_id \<Rightarrow> (DrmHwcLayer \<Rightarrow> bool) \<Rightarrow> lptr \<Rightarrow> heap \<Rightarrow> rga_state \<Rightarrow>
   bool \<times> rga_job \<times> heap \<times> rga_state \<Rightarrow> bool" where
  "step_result K F R lid want p h g r \<longleftrightarrow>
     (case r of (stop, j', h', g') \<Rightarrow>
        queue_ok (rg_queue g') \<and> same_ids g g' \<and> (bufferQueue (rg_queue g) = [] \<longrightarrow> bufferQueue (rg_queue g') = []) \<and>
        (idle j' \<and> h' = h \<or> stop \<and> (\<exists>d. chosen K F R (lid g) want p d j' h h' g')))"

definition searched ::
  "sdk \<Rightarrow> formats \<Rightarrow> rga_env \<Rightarrow> last_id \<Rightarrow> (DrmHwcLayer \<Rightarrow> bool) \<Rightarrow> lptr list \<Rightarrow> heap \<Rightarrow> rga_state \<Rightarrow>
   rga_job \<times> heap \<times> rga_state \<Rightarrow> bool" where
  "searched K F R lid want L h g r \<longleftrightarrow>
     (case r of (j', h', g') \<Rightarrow>
        queue_ok (rg_queue g') \<and> same_ids g g' \<and> (bufferQueue (rg_queue g) = [] \<longrightarrow> bufferQueue (rg_queue g') = []) \<and>
        (idle j' \<and> h' = h \<or> (\<exists>p \<in> set L. \<exists>d. chosen K F R (lid g) want p d j' h h' g')))"

locale blit_search =
  fixes K :: sdk and F :: formats and R :: rga_env and lid :: last_id and want :: "DrmHwcLayer \<Rightarrow> bool"
    and step :: "lptr \<Rightarrow> rga_job \<Rightarrow> heap \<Rightarrow> rga_state \<Rightarrow> search"
  assumes lid: "same_ids g g' \<Longrightarrow> lid g' = lid g"
    and step: "queue_ok (rg_queue g) \<Longrightarrow> idle j \<Longrightarrow> frame_ok (h p) \<Longrightarrow>
      \<exists>r. step p j h g = Some r \<and> step_result K F R lid want p h g r"
begin

lemma search:
  "queue_ok (rg_queue g) \<Longrightarrow> idle j \<Longrightarrow> \<forall>p \<in> set L. frame_ok (h p) \<Longrightarrow>
   \<exists>r. search_layers step L j h g = Some r \<and> searched K F R lid want L h g r"
proof (induction L arbitrary: j g)
  case Nil
  then show ?case by (simp add: searched_def same_ids_def)
next
  case (Cons p ps)
  obtain stop j' h' g' where s: "step p j h g = Some (stop, j', h', g')"
    "step_result K F R lid want p h g (stop, j', h', g')"
    using step [of g j h p] Cons.prems by auto
  note r = s(2) [unfolded step_result_def, simplified]
  show ?case
  proof (cases "stop")
    case True
    with s r show ?thesis by (auto simp: searched_def)
  next
    case False
    with r have i: "idle j'" "h' = h" "queue_ok (rg_queue g')" "same_ids g g'" by auto
    have ps: "\<forall>p \<in> set ps. frame_ok (h p)" using Cons.prems(3) by simp
    obtain q where "search_layers step ps j' h g' = Some q" "searched K F R lid want ps h g' q"
      using Cons.IH [OF i(3,1) ps] by blast
    with s i False r lid [OF i(4)] show ?thesis
      by (auto simp: searched_def same_ids_def)
  qed
qed

end

lemma queue_ok_set_buf [simp]: "queue_ok (set_buf d b q) = queue_ok q"
  by (simp add: queue_ok_def set_buf_def)

lemma set_buf_parts [simp]:
  "bufferQueue (set_buf d b q) = bufferQueue q" "iMaxBufferSize (set_buf d b q) = iMaxBufferSize q"
  "currentBuffer (set_buf d b q) = currentBuffer q" "n_bufs (set_buf d b q) = n_bufs q"
  "bufs (set_buf d b q) = (bufs q)(d := b)"
  by (simp_all add: set_buf_def)

lemma src_import_parts:
  "src_import R l g = (h, g') \<Longrightarrow> rg_queue g' = rg_queue g \<and> same_ids g g'"
  by (auto simp: src_import_def same_ids_def split: option.splits prod.splits)

lemma dst_import_parts:
  "dst_import R d g = (h, g') \<Longrightarrow> same_ids g g' \<and> (\<exists>b. rg_queue g' = set_buf d b (rg_queue g))"
  by (auto simp: dst_import_def same_ids_def split: prod.splits)

lemma blit_setup_result:
  assumes q: "queue_ok (rg_queue g)" and c: "currentBuffer (rg_queue g) = Some d"
    and j: "idle j" "dst_buffer j = Some d" and f: "frame_ok (h p)" and w: "want (h p)"
    and room: "d \<notin> set (bufferQueue (rg_queue g))"
      "length (bufferQueue (rg_queue g)) < iMaxBufferSize (rg_queue g)"
  shows "\<exists>r. blit_setup K F R k p d j h g = Some r \<and> step_result K F R lid want p h g r"
proof -
  obtain sh g1 where s: "src_import R (h p) g = (sh, g1)" by fastforce
  obtain dh g2 where d: "dst_import R d g1 = (dh, g2)" by fastforce
  have s': "rg_queue g1 = rg_queue g" "same_ids g g1" using src_import_parts [OF s] by auto
  obtain b where b: "same_ids g g2" "rg_queue g2 = set_buf d b (rg_queue g)"
    using dst_import_parts [OF d] s' by (auto simp: same_ids_def)
  have l: "\<exists>l1. UpdateAndStoreInfoFromDrmBuffer K F (rg_layer R) (info_of b) crop
      (DRM_MODE_ROTATE_0 K) (h p) = Some l1" for crop
    by (rule lent_total [OF f])
  have ix: "idle (j\<lparr> j_src := x, src_rect := y \<rparr>)"
    "idle (j\<lparr> j_src := x, src_rect := y, j_dst := z, dst_rect := v, usage := u \<rparr>)" for x y z v u
    using j(1) by (simp_all add: idle_def)
  show ?thesis
  proof (cases "sh = 0 \<or> dh = 0")
    case True
    with s d s' b q j(1) ix show ?thesis
      by (auto simp: blit_setup_def step_result_def Let_def)
  next
    case False
    let ?j = "j\<lparr> j_src := \<lparr> rb_handle = sh, rb_width = iWidth (h p), rb_height = iHeight (h p),
          rb_format = UnifyAndroidFormatForRK3588 K F (iFormat (h p)),
          rb_wstride = bk_src_stride k (h p), rb_hstride = iHeightStride (buf (h p)),
          rb_fbc = bAfbcd (h p) \<rparr>,
        src_rect := src_rect_of (h p),
        j_dst := \<lparr> rb_handle = dh, rb_width = db_width b, rb_height = db_height b,
          rb_format = bk_dst_format k (db_format b),
          rb_wstride = (if db_fourcc b = DRM_FORMAT_NV15 F then db_byte_stride b else db_stride b),
          rb_hstride = db_height_stride b, rb_fbc = False \<rparr>,
        dst_rect := dst_rect_of K (h p) (dst_rect j), usage := rga_usage K R (transform (h p)) \<rparr>"
    let ?r = "dst_rect_of K (h p) (dst_rect j)"
    let ?ok = "rg_check R (j_src ?j) (j_dst ?j) (src_rect ?j) ?r (usage ?j OR bk_flags k)"
    obtain l1 where l1: "UpdateAndStoreInfoFromDrmBuffer K F (rg_layer R) (info_of b)
        (crop_of (ir_x ?r) (ir_y ?r) (ir_x ?r + ir_width ?r) (ir_y ?r + ir_height ?r))
        (DRM_MODE_ROTATE_0 K) (h p) = Some l1" using l by blast
    have e: "blit_setup K F R k p d j h g =
        (if \<not> ?ok then Some (True, ?j, h, g2)
         else Some (True, ?j\<lparr> rga_layer_ready := True \<rparr>, h(p := mark_rga (bk_plane k) d l1), g2))"
      using False b(2) l1 by (simp add: blit_setup_def s d Let_def)
    have le: "lent K F R (bufs (rg_queue g2) d) d (h p) (mark_rga (bk_plane k) d l1)"
      using l1 b(2) unfolding lent_def by auto
    show ?thesis
    proof (cases ?ok)
      case False
      with e ix b q show ?thesis by (auto simp: step_result_def)
    next
      case True
      have "chosen K F R (lid g) want p d (?j\<lparr> rga_layer_ready := True \<rparr>) h
          (h(p := mark_rga (bk_plane k) d l1)) g2"
        using le w j c b room by (auto simp: chosen_def idle_def)
      with True e b q show ?thesis by (auto simp: step_result_def)
    qed
  qed
qed

lemma use_last_result:
  assumes q: "queue_ok (rg_queue g)" and j: "idle j" and f: "frame_ok (h p)" and w: "want (h p)"
    and kn: "uBufferId (buf (h p)) = lid g"
  shows "\<exists>r. use_last_buffer K F R plane p j h g = Some r \<and> step_result K F R lid want p h g r"
proof (cases "bufferQueue (rg_queue g) = []")
  case True
  with q j show ?thesis
    by (auto simp: use_last_buffer_def BackDrmBuffer_def step_result_def same_ids_def idle_def)
next
  case False
  let ?d = "last (bufferQueue (rg_queue g))"
  obtain l1 where l1: "UpdateAndStoreInfoFromDrmBuffer K F (rg_layer R)
      (info_of (bufs (rg_queue g) ?d))
      (crop_of 0 0 (align_down (output_w (h p)) 2) (align_down (output_h (h p)) 2))
      (DRM_MODE_ROTATE_0 K) (h p) = Some l1" using lent_total [OF f] by blast
  have "lent K F R (bufs (rg_queue g) ?d) ?d (h p) (mark_rga plane ?d l1)"
    using l1 unfolding lent_def by auto
  moreover have "queue_ok (rg_queue g\<lparr> currentBuffer := Some ?d \<rparr>)"
    using q False by (auto simp: queue_ok_def)
  ultimately show ?thesis
    using False j w l1 kn
    by (auto simp: use_last_buffer_def BackDrmBuffer_def step_result_def same_ids_def idle_def
        chosen_def Let_def)
qed

lemma dequeued:
  assumes "queue_ok q"
  shows "\<exists>r q'. DequeueDrmBuffer W F w h f u nm pid q = Some (r, q') \<and> queue_ok q' \<and>
    (\<forall>d. r = Some d \<longrightarrow> currentBuffer q' = Some d \<and> d \<notin> set (bufferQueue q') \<and>
       length (bufferQueue q') < iMaxBufferSize q') \<and> (bufferQueue q = [] \<longrightarrow> bufferQueue q' = [])"
  using Dequeue_laws [OF assms, of W F w h f u nm pid] dq.deq_room [OF assms, of W F w h f u nm pid]
  by (fastforce split: if_splits)

lemma rga_dequeued:
  assumes "queue_ok q"
  shows "\<exists>r q'. rga_dequeue K F R c l q = Some (r, q') \<and> queue_ok q' \<and>
    (\<forall>d. r = Some d \<longrightarrow> currentBuffer q' = Some d \<and> d \<notin> set (bufferQueue q') \<and>
       length (bufferQueue q') < iMaxBufferSize q') \<and> (bufferQueue q = [] \<longrightarrow> bufferQueue q' = [])"
  unfolding rga_dequeue_def using dequeued [OF assms] by (cases "is_yuv_10bit K F l") simp_all

text \<open>A step that takes a buffer out first.\<close>

lemma dequeue_setup_result:
  assumes d: "deq = Some (r, q')" "queue_ok q'"
      "\<forall>d. r = Some d \<longrightarrow> currentBuffer q' = Some d \<and> d \<notin> set (bufferQueue q') \<and>
         length (bufferQueue q') < iMaxBufferSize q'" "bufferQueue (rg_queue g) = [] \<longrightarrow> bufferQueue q' = []"
    and j: "idle j" and f: "frame_ok (h p)" and w: "want (h p)"
    and lid: "lid (g\<lparr> rg_queue := q' \<rparr>) = lid g"
  shows "\<exists>x. (case deq of None \<Rightarrow> None
      | Some (r, q) \<Rightarrow>
         (let g1 = g\<lparr> rg_queue := q \<rparr>; j1 = j\<lparr> dst_buffer := r \<rparr> in
          case r of None \<Rightarrow> Some (False, j1, h, g1)
          | Some d \<Rightarrow> blit_setup K F R k p d j1 h g1)) = Some x \<and> step_result K F R lid want p h g x"
proof (cases r)
  case None
  with d j show ?thesis by (auto simp: step_result_def same_ids_def idle_def)
next
  case (Some n)
  let ?g = "g\<lparr> rg_queue := q' \<rparr>" and ?j = "j\<lparr> dst_buffer := Some n \<rparr>"
  have "idle ?j" using j by (simp add: idle_def)
  then obtain x where x: "blit_setup K F R k p n ?j h ?g = Some x"
    "step_result K F R lid want p h ?g x"
    using blit_setup_result [where g = ?g and d = n and j = ?j and h = h and p = p and want = want and lid = lid and K = K and F = F and R = R and k = k] d f w Some by auto
  have "step_result K F R lid want p h g x"
    using x(2) d(4) lid by (auto simp: step_result_def same_ids_def)
  with d(1) Some x(1) show ?thesis by (simp add: Let_def)
qed

lemma rga_layer_step:
  assumes "queue_ok (rg_queue g)" "idle j" "frame_ok (h p)"
  shows "\<exists>r. rga_layer K F R E c p j h g = Some r \<and>
    step_result K F R last_rga_id (NeedUseRgaPolicy K F E) p h g r"
proof -
  have stay: "step_result K F R last_rga_id (NeedUseRgaPolicy K F E) p h g (False, j, h, g)"
    using assms by (simp add: step_result_def same_ids_def)
  show ?thesis
  proof (cases "NeedUseRgaPolicy K F E (h p)")
    case False
    with stay show ?thesis by (simp add: rga_layer_def)
  next
    case True
    then have s: "isRK3588RGA3SupportFormat K F (iFormat (h p))"
      by (simp add: NeedUseRgaPolicy_def split: if_splits)
    obtain r q' where d: "rga_dequeue K F R c (h p) (rg_queue g) = Some (r, q')" "queue_ok q'"
      "\<forall>d. r = Some d \<longrightarrow> currentBuffer q' = Some d \<and> d \<notin> set (bufferQueue q') \<and>
         length (bufferQueue q') < iMaxBufferSize q'" "bufferQueue (rg_queue g) = [] \<longrightarrow> bufferQueue q' = []"
      using rga_dequeued [OF assms(1), of K F R c "h p"] by blast
    show ?thesis
      using True s dequeue_setup_result [where h = h and p = p and want = "NeedUseRgaPolicy K F E" and lid = last_rga_id and g = g,
            OF d assms(2,3) True]
        use_last_result [where h = h and p = p and want = "NeedUseRgaPolicy K F E" and g = g and lid = last_rga_id,
          OF assms True]
      by (cases "last_rga_id g = uBufferId (buf (h p))") (simp_all add: rga_layer_def Let_def)
  qed
qed

lemma split_layer_step:
  assumes "queue_ok (rg_queue g)" "idle j" "frame_ok (h p)"
  shows "\<exists>r. split_layer K F R c p j h g = Some r \<and>
    step_result K F R last_split_id (\<lambda>l. bIsCropSplitPrimary c \<longrightarrow> bFbTarget l) p h g r"
    (is "\<exists>r. _ \<and> step_result K F R last_split_id ?want p h g r")
proof -
  have stay: "step_result K F R last_split_id ?want p h g (False, j, h, g)"
    using assms by (simp add: step_result_def same_ids_def)
  let ?d = "DequeueDrmBuffer (rg_buffers R) F (iDisplayWidth c) (iDisplayHeight c)
      (HAL_PIXEL_FORMAT_RGB_888 F) (MALI_GRALLOC_USAGE_NO_AFBC F) ''SplitModeView'' 0 (rg_queue g)"
  show ?thesis
  proof (cases "?want (h p)")
    case False
    with stay show ?thesis by (simp add: split_layer_def)
  next
    case True
    obtain r q' where d: "?d = Some (r, q')" "queue_ok q'"
      "\<forall>d. r = Some d \<longrightarrow> currentBuffer q' = Some d \<and> d \<notin> set (bufferQueue q') \<and>
         length (bufferQueue q') < iMaxBufferSize q'" "bufferQueue (rg_queue g) = [] \<longrightarrow> bufferQueue q' = []"
      using dequeued [OF assms(1)] by blast
    have nt: "(bIsCropSplitPrimary c \<and> \<not> bFbTarget (h p)) = False" using True by simp
    note r1 = dequeue_setup_result [where h = h and p = p and want = ?want and lid = last_split_id and g = g, OF d assms(2,3) True]
      and r2 = use_last_result [where h = h and p = p and want = ?want and lid = last_split_id, OF assms True]
    show ?thesis
    proof (cases "last_split_id g = uBufferId (buf (h p))")
      case True
      then show ?thesis
        using r2 by (simp only: split_layer_def Let_def nt if_False if_True simp_thms)
    next
      case False
      moreover have "last_split_id (g\<lparr> rg_queue := q' \<rparr>) = last_split_id g" by simp
      ultimately show ?thesis using r1
        by (simp only: split_layer_def Let_def nt if_False if_True simp_thms not_False_eq_True)
    qed
  qed
qed

interpretation rga_search: blit_search K F R last_rga_id "NeedUseRgaPolicy K F E" "rga_layer K F R E c"
  for K F R E c
  by unfold_locales (simp add: same_ids_def, rule rga_layer_step)

interpretation split_search: blit_search K F R last_split_id "\<lambda>l. bIsCropSplitPrimary c \<longrightarrow> bFbTarget l"
  "split_layer K F R c" for K F R c
  by unfold_locales (simp add: same_ids_def, rule split_layer_step)

section \<open>After the search\<close>

text \<open>No blit fails.\<close>

definition reliable :: "rga_env \<Rightarrow> bool" where
  "reliable R \<longleftrightarrow> (\<forall>a b c d e f. rg_process R a b c d e f \<noteq> None)"

definition undone :: "gptr list \<Rightarrow> lptr list \<Rightarrow> lptr list \<Rightarrow> vop \<Rightarrow> vop \<Rightarrow> bool" where
  "undone pgs L ly s s' \<longleftrightarrow>
     mset ly = mset L \<and> sorted (List.map (\<lambda>p. iZpos (heap s' p)) ly) \<and> cleared pgs L s s'"

text \<open>
  What is left of the contract: a success is one, a failure is undone unless a blit failed, and
  then still some of the layers are there.
\<close>

definition rung ::
  "sdk \<Rightarrow> rga_env \<Rightarrow> env \<Rightarrow> gptr list \<Rightarrow> lptr list \<Rightarrow> vop \<Rightarrow> int \<times> lptr list \<times> vop \<Rightarrow> bool" where
  "rung K R E pgs L s r \<longleftrightarrow>
     (case r of (ret, ly, s') \<Rightarrow>
        keeps s s' \<and>
        (if ret = 0 then success K E pgs L ly s'
         else ret = -1 \<and> ly \<noteq> [] \<and> mset ly \<subseteq># mset L \<and> (reliable R \<longrightarrow> undone pgs L ly s s')))"

lemma sizes_buf [simp]:
  "input_w (l\<lparr> buf := b \<rparr>) = input_w l" "input_h (l\<lparr> buf := b \<rparr>) = input_h l"
  "output_w (l\<lparr> buf := b \<rparr>) = output_w l" "output_h (l\<lparr> buf := b \<rparr>) = output_h l"
  by (simp_all add: input_w_def input_h_def output_w_def output_h_def)

lemma buf_fields:
  "bHdr (l\<lparr> buf := b \<rparr>) = bHdr l"
  "display_frame (l\<lparr> buf := b \<rparr>) = display_frame l"
  "fHScaleMul (l\<lparr> buf := b \<rparr>) = fHScaleMul l"
  "fVScaleMul (l\<lparr> buf := b \<rparr>) = fVScaleMul l"
  "bSidebandStreamLayer (l\<lparr> buf := b \<rparr>) = bSidebandStreamLayer l"
  "transform (l\<lparr> buf := b \<rparr>) = transform l"
  "bAfbcd (l\<lparr> buf := b \<rparr>) = bAfbcd l"
  "iStride (l\<lparr> buf := b \<rparr>) = iStride l"
  "bFbTarget (l\<lparr> buf := b \<rparr>) = bFbTarget l"
  "uFourccFormat (l\<lparr> buf := b \<rparr>) = uFourccFormat l"
  by simp_all

lemma checks_buf:
  "size_ok c (l\<lparr> buf := b \<rparr>) p = size_ok c l p" "hdr_ok E (l\<lparr> buf := b \<rparr>) = hdr_ok E l"
  "scale_ok c (l\<lparr> buf := b \<rparr>) p = scale_ok c l p"
  "transform_ok K c (l\<lparr> buf := b \<rparr>) p = transform_ok K c l p"
  by (simp_all only: size_ok_def hdr_ok_def scale_ok_def center_scale_def transform_ok_def
      sizes_buf buf_fields)

lemma fits_buf [simp]: "fits K E c (l\<lparr> buf := b \<rparr>) p = fits K E c l p"
proof -
  have "l\<lparr> buf := b, bAfbcd := a \<rparr> = (l\<lparr> bAfbcd := a \<rparr>)\<lparr> buf := b \<rparr>" for a by simp
  then show ?thesis by (simp only: fits_def checks_buf buf_fields)
qed

lemma success_heap:
  assumes s: "success K E pgs L ly s"
    and h: "\<And>q. \<exists>b. h q = (heap s q)\<lparr> buf := b \<rparr>"
  shows "success K E pgs L ly (s\<lparr> heap := h \<rparr>)"
proof -
  have f: "bMatch (h q) = bMatch (heap s q)" "iDrmZpos (h q) = iDrmZpos (heap s q)"
    "is_fb h q = is_fb (heap s) q" "fits K E c (h q) p = fits K E c (heap s q) p" for q c p
    using h [of q] by (auto simp: is_fb_def)
  show ?thesis
    using s by (simp add: success_def matched_def comp_ok_def entry_ok_def f)
qed

lemma success_perm: "mset ly = mset ly' \<Longrightarrow> success K E pgs L ly s = success K E pgs L ly' s"
  using mset_eq_setD [of ly ly'] by (simp add: success_def)

lemma success_nonempty:
  assumes "success K E pgs L ly s" "\<exists>p \<in> set L. is_fb (heap s) p" "\<exists>p \<in> set L. \<not> is_fb (heap s) p"
  shows "ly \<noteq> []"
  using assms unfolding success_def by (metis subset_empty empty_iff set_empty)

lemma sorted_reset:
  "ly \<noteq> [] \<Longrightarrow> \<exists>ly'. ResetLayerFromTmp ly [] h = Some ly' \<and> mset ly' = mset ly \<and>
     sorted (List.map (\<lambda>p. iZpos (h p)) ly')"
  using ResetLayerFromTmp_Some [of ly "[]" h] by simp

lemma mset_sub_nonempty: "mset ly \<subseteq># mset L \<Longrightarrow> set ly \<subseteq> set L"
  by (metis set_mset_mono set_mset_mset)

text \<open>Undoing the one lent layer.\<close>

lemma give_back_one:
  assumes c: "currentBuffer q = Some d" and f: "frame_ok (h p)"
  shows "\<exists>l. ResetInfoFromStore K F (rg_layer R) (h p) = Some l \<and>
    give_back K F R (Some d) p (h, q) =
      Some (h(p := l\<lparr> buf := (buf l)\<lparr> bUseRga := False \<rparr> \<rparr>),
            q\<lparr> bufferQueue := bufferQueue q @ [d] \<rparr>)"
  using Reset_total [OF f, of K F "rg_layer R"] c by (auto simp: give_back_def QueueBuffer_def)

lemma give_back_all_none:
  "\<forall>q \<in> set ly. \<not> bUseRga (buf (h q)) \<Longrightarrow> give_back_all K F R dst ly (h, q') = Some (h, q')"
  by (induction ly) auto

lemma give_back_all_one:
  assumes "distinct ly" "p \<in> set ly" "bUseRga (buf (h p))"
    and "\<forall>q \<in> set ly. q \<noteq> p \<longrightarrow> \<not> bUseRga (buf (h q))"
  shows "give_back_all K F R dst ly (h, q) = give_back K F R dst p (h, q)"
  using assms
proof (induction ly)
  case (Cons x ly)
  show ?case
  proof (cases "x = p")
    case True
    then have ly: "\<forall>q \<in> set ly. \<not> bUseRga (buf (h q))" using Cons.prems by auto
    have "give_back_all K F R dst ly hq = Some hq"
      if "give_back K F R dst p (h, q) = Some hq" for hq
    proof -
      obtain h' q' where hq: "hq = (h', q')" by fastforce
      have "h' y = h y" if "y \<noteq> p" for y
        using \<open>give_back K F R dst p (h, q) = Some hq\<close> hq that
        by (auto simp: give_back_def Option.bind_eq_Some_conv split: option.splits prod.splits)
      then have "\<forall>y \<in> set ly. \<not> bUseRga (buf (h' y))" using ly Cons.prems(1) True by force
      from give_back_all_none [OF this] show ?thesis unfolding hq .
    qed
    then show ?thesis using Cons.prems(3) True
      by (cases "give_back K F R dst p (h, q)") auto
  next
    case False
    with Cons show ?thesis by auto
  qed
qed simp

text \<open>What the search leaves for the blit, seen from the queue.\<close>

definition in_hand :: "nat \<Rightarrow> rga_job \<Rightarrow> DrmBufferQueue \<Rightarrow> bool" where
  "in_hand d j q \<longleftrightarrow>
     queue_ok q \<and> dst_buffer j = Some d \<and> currentBuffer q = Some d \<and>
     d \<notin> set (bufferQueue q) \<and> length (bufferQueue q) < iMaxBufferSize q"

lemma in_hand_put:
  assumes "in_hand d j q"
  shows "\<exists>q'. QueueBuffer d (set_buf d b q) = Some (0, q') \<and> queue_ok q'"
    "\<exists>q'. QueueBuffer d q = Some (0, q') \<and> queue_ok q'"
  using assms by (auto simp: in_hand_def QueueBuffer_def queue_ok_def)

lemma give_back_hand:
  assumes "in_hand d j q" "frame_ok (h p)"
  shows "\<exists>l q'. ResetInfoFromStore K F (rg_layer R) (h p) = Some l \<and> queue_ok q' \<and>
    give_back K F R (dst_buffer j) p (h, q) =
      Some (h(p := l\<lparr> buf := (buf l)\<lparr> bUseRga := False \<rparr> \<rparr>), q')"
proof -
  have c: "currentBuffer q = Some d" "dst_buffer j = Some d" using assms(1) by (auto simp: in_hand_def)
  have "queue_ok (q\<lparr> bufferQueue := bufferQueue q @ [d] \<rparr>)"
    using in_hand_put(2) [OF assms(1)] c by (simp add: QueueBuffer_def)
  with give_back_one [where h = h and p = p, OF c(1) assms(2), of K F R] show ?thesis
    unfolding c(2) by blast
qed

lemma given_back_ident:
  "ResetInfoFromStore K F e (h p) = Some l \<Longrightarrow>
   ident ((h(p := l\<lparr> buf := (buf l)\<lparr> bUseRga := False \<rparr> \<rparr>)) q) = ident (h q)"
  by (auto dest: Reset_fields(1) simp: ident_def)

lemma given_back_match:
  "ResetInfoFromStore K F e (h p) = Some l \<Longrightarrow>
   bMatch ((h(p := l\<lparr> buf := (buf l)\<lparr> bUseRga := False \<rparr> \<rparr>)) q) = bMatch (h q)"
  by (auto dest: Reset_fields(2))

lemma keeps_more:
  "keeps s0 s \<Longrightarrow> (\<And>q. ident (h q) = ident (heap s q)) \<Longrightarrow> keeps s0 (s\<lparr> heap := h \<rparr>)"
  using keeps_heap keeps_trans by blast

lemma cleared_heap:
  "cleared pgs L s0 s \<Longrightarrow> (\<And>q. bMatch (h q) = bMatch (heap s q)) \<Longrightarrow>
   cleared pgs L s0 (s\<lparr> heap := h \<rparr>)"
  by (simp add: cleared_def free_groups_def)

section \<open>The policies that blit\<close>

definition own :: "lptr list \<Rightarrow> vop \<Rightarrow> bool" where
  "own L s \<longleftrightarrow> (\<forall>p \<in> set L. \<not> bUseRga (buf (heap s p)))"

text \<open>With \<open>clean\<close>, every layer has its own buffer back after a failure.\<close>

definition fits_rung ::
  "bool \<Rightarrow> sdk \<Rightarrow> rga_env \<Rightarrow> env \<Rightarrow> gptr list \<Rightarrow> lptr list \<Rightarrow> vop \<Rightarrow> rga_result \<Rightarrow> bool" where
  "fits_rung clean K R E pgs L s r \<longleftrightarrow>
     (\<exists>ret ly s' g'. r = Some (ret, ly, s', g') \<and> rung K R E pgs L s (ret, ly, s') \<and>
        queue_ok (rg_queue g') \<and> (clean \<and> ret \<noteq> 0 \<longrightarrow> own L s'))"

lemma commit_rung:
  assumes ok: "success K E pgs L ly s" and ne: "ly \<noteq> []" and k: "keeps s0 s"
    and d: "in_hand d j (rg_queue g)" and f: "\<forall>p \<in> set L. frame_ok (heap s p)"
    and one: "\<forall>q \<in> set L. q \<noteq> p0 \<longrightarrow> \<not> bUseRga (buf (heap s q))"
    and rem: "\<And>i g. rg_queue (remember i g) = rg_queue g"
  shows "fits_rung clean K R E pgs L s0 (commit_blit K F R flags acq remember j ly s g)"
proof (cases "List.find (\<lambda>p. bUseRga (buf (heap s p))) ly")
  case None
  obtain ly' where r: "ResetLayerFromTmp ly [] (heap s) = Some ly'" "mset ly' = mset ly"
    using sorted_reset [OF ne] by blast
  have "success K E pgs L ly' s" using ok r(2) success_perm by blast
  with None r k d show ?thesis
    by (auto simp: commit_blit_def fits_rung_def rung_def in_hand_def)
next
  case (Some p)
  have ly: "mset ly \<subseteq># mset L" "p \<in> set ly"
    using ok Some by (auto simp: success_def find_Some_iff)
  then have fp: "frame_ok (heap s p)" and pL: "p \<in> set L" using f mset_sub_nonempty by blast+
  have "bUseRga (buf (heap s p))" using Some by (auto simp: find_Some_iff)
  then have p0: "p0 = p" using one pL by metis
  have dst: "dst_buffer j = Some d" using d by (simp add: in_hand_def)
  show ?thesis
  proof (cases "rg_process R (j_src j) (j_dst j) (src_rect j) (dst_rect j)
      (acq (heap s p)) (usage j OR flags)")
    case None
    obtain l q' where g: "ResetInfoFromStore K F (rg_layer R) (heap s p) = Some l" "queue_ok q'"
      "give_back K F R (dst_buffer j) p (heap s, rg_queue g) =
        Some ((heap s)(p := l\<lparr> buf := (buf l)\<lparr> bUseRga := False \<rparr> \<rparr>), q')"
      using give_back_hand [where h = "heap s" and p = p, OF d fp] by blast
    let ?h = "(heap s)(p := l\<lparr> buf := (buf l)\<lparr> bUseRga := False \<rparr> \<rparr>)"
    obtain ly' where r: "ResetLayerFromTmp ly [] ?h = Some ly'" "mset ly' = mset ly"
      using sorted_reset [OF ne] by blast
    have "keeps s0 (s\<lparr> heap := ?h \<rparr>)" by (rule keeps_more [OF k given_back_ident [where h = "heap s" and p = p, OF g(1)]])
    moreover have "ly' \<noteq> []" using r(2) ne by auto
    moreover have "own L (s\<lparr> heap := ?h \<rparr>)" using one by (simp add: own_def p0)
    moreover have "\<not> reliable R" using None unfolding reliable_def by blast
    ultimately show ?thesis
      using Some None g r ly(1) by (auto simp: commit_blit_def fits_rung_def rung_def)
  next
    case (Some fence)
    let ?b = "snd (SetFinishFence (rg_buffers R) (rg_dup R fence) (bufs (rg_queue g) d))"
    obtain q' where q: "QueueBuffer d (set_buf d ?b (rg_queue g)) = Some (0, q')" "queue_ok q'"
      using in_hand_put(1) [OF d] by blast
    let ?h = "upd p (\<lambda>l. l\<lparr> buf := (buf l)\<lparr> pRgaBuffer := Some d,
      acquire_fence := AcquireFence_new R fence \<rparr> \<rparr>) (heap s)"
    have "keeps s0 (s\<lparr> heap := ?h \<rparr>)" by (rule keeps_more [OF k]) (simp add: ident_def upd_def)
    moreover have "success K E pgs L ly (s\<lparr> heap := ?h \<rparr>)"
    proof (rule success_heap [OF ok])
      show "\<exists>b. ?h q = (heap s q)\<lparr> buf := b \<rparr>" for q
        by (cases "q = p") (auto simp: upd_def intro: exI [of _ "buf (heap s q)"])
    qed
    ultimately show ?thesis
      using \<open>List.find _ ly = Some p\<close> Some q dst
      by (simp add: commit_blit_def fits_rung_def rung_def rem Let_def)
  qed
qed

text \<open>The failure branch of the match.\<close>

lemma undo_rung:
  assumes k: "keeps s0 s" and c: "cleared pgs L s0 s" and m: "mset ly = mset L" "ly \<noteq> []"
    and d: "in_hand d j (rg_queue g)" and p: "p \<in> set ly" "frame_ok (heap s p)"
    and one: "distinct ly" "bUseRga (buf (heap s p))"
      "\<forall>q \<in> set ly. q \<noteq> p \<longrightarrow> \<not> bUseRga (buf (heap s q))"
    and sl: "set ly = set L"
  shows "fits_rung clean K R E pgs L s0
    (do { (h, q) \<leftarrow> give_back_all K F R (dst_buffer j) ly (heap s, rg_queue g);
          ly' \<leftarrow> ResetLayerFromTmp ly [] h;
          Some (-1, ly', s\<lparr> heap := h \<rparr>, g\<lparr> rg_queue := q \<rparr>) })"
proof -
  obtain l q' where b: "ResetInfoFromStore K F (rg_layer R) (heap s p) = Some l" "queue_ok q'"
    "give_back K F R (dst_buffer j) p (heap s, rg_queue g) =
      Some ((heap s)(p := l\<lparr> buf := (buf l)\<lparr> bUseRga := False \<rparr> \<rparr>), q')"
    using give_back_hand [where h = "heap s" and p = p, OF d p(2)] by blast
  let ?h = "(heap s)(p := l\<lparr> buf := (buf l)\<lparr> bUseRga := False \<rparr> \<rparr>)"
  obtain ly' where r: "ResetLayerFromTmp ly [] ?h = Some ly'" "mset ly' = mset ly"
    "sorted (List.map (\<lambda>p. iZpos (?h p)) ly')"
    using sorted_reset [OF m(2)] by blast
  have "keeps s0 (s\<lparr> heap := ?h \<rparr>)" by (rule keeps_more [OF k given_back_ident [where h = "heap s" and p = p, OF b(1)]])
  moreover have "cleared pgs L s0 (s\<lparr> heap := ?h \<rparr>)"
    by (rule cleared_heap [OF c given_back_match [where h = "heap s" and p = p, OF b(1)]])
  moreover have "own L (s\<lparr> heap := ?h \<rparr>)" using one(3) sl by (simp add: own_def)
  moreover have "ly' \<noteq> []" using r(2) m(2) by auto
  ultimately show ?thesis
    using b r m give_back_all_one [OF one(1) p(1) one(2,3), of K F R "dst_buffer j" "rg_queue g"]
    by (simp add: fits_rung_def rung_def undone_def)
qed

lemma unmarked_rung:
  assumes k: "keeps s0 s" and c: "cleared pgs L s0 s" and m: "mset ly = mset L" "ly \<noteq> []"
    and q: "queue_ok (rg_queue g)" and o: "clean \<longrightarrow> own L s"
  shows "fits_rung clean K R E pgs L s0
    (do { ly' \<leftarrow> ResetLayerFromTmp ly [] (heap s); Some (-1, ly', s, g) })"
proof -
  obtain ly' where r: "ResetLayerFromTmp ly [] (heap s) = Some ly'" "mset ly' = mset ly"
    "sorted (List.map (\<lambda>p. iZpos (heap s p)) ly')"
    using sorted_reset [OF m(2)] by blast
  moreover have "ly' \<noteq> []" using r(2) m(2) by auto
  ultimately show ?thesis
    using k c m q o by (simp add: fits_rung_def rung_def undone_def)
qed

text \<open>The lent heap, as the policy sees it.\<close>

lemma lent_heap:
  assumes "lent K F R b d (h p) l'"
  shows "ident ((h(p := l')) q) = ident (h q)" "bMatch ((h(p := l')) q) = bMatch (h q)"
    "bUseRga (buf ((h(p := l')) p))" "q \<noteq> p \<Longrightarrow> buf ((h(p := l')) q) = buf (h q)"
  using lent_fields [OF assms] by auto

locale blit_policy = hwc_policy K E pgs pol
  for K :: sdk and E :: env and pgs :: "gptr list" and pol :: policy +
  fixes F :: formats and R :: rga_env and flags :: u32 and acq :: "DrmHwcLayer \<Rightarrow> int"
    and remember :: "u64 \<Rightarrow> rga_state \<Rightarrow> rga_state"
  assumes remember: "rg_queue (remember i g) = rg_queue g"
begin

lemma policy_back:
  assumes r: "ready L t" "L \<noteq> []" and k: "keeps s0 t" and c: "cleared pgs L s0 t"
    and b: "pol L t = Some (ret, ly, t')" "ret \<noteq> 0"
  shows "keeps s0 t'" "cleared pgs L s0 t'" "mset ly = mset L" "ly \<noteq> []"
proof -
  note u = undone [OF r b]
  show "keeps s0 t'" using keeps_trans [OF k frame_keeps [OF u(1)]] .
  show "mset ly = mset L" "ly \<noteq> []" using u(3,5) by (auto simp: failure_def)
  show "cleared pgs L s0 t'"
    using u(3) c cleared_trans [OF refl c] unfolding failure_def by auto
qed

lemma blit:
  assumes r: "ready L s" "L \<noteq> []" and k: "keeps s0 s" and c: "cleared pgs L s0 s"
    and f: "\<forall>p \<in> set L. frame_ok (heap s p)"
    and own: "own L s" and clean: "clean \<longrightarrow> bufferQueue (rg_queue g0) = [] \<or> (\<forall>p \<in> set L. uBufferId (buf (heap s p)) \<noteq> lid g0)"
    and mixed: "\<exists>p \<in> set L. is_fb (heap s) p" "\<exists>p \<in> set L. \<not> is_fb (heap s) p"
    and S: "searched K F R lid want L (heap s) g0 (j, h, g)"
  shows "fits_rung clean K R E pgs L s0
    (match_and_blit K F R flags acq remember pol j L (s\<lparr> heap := h \<rparr>) g)"
proof -
  have q: "queue_ok (rg_queue g)" using S by (simp add: searched_def)
  let ?t = "s\<lparr> heap := h \<rparr>"
  consider (idle) "idle j" "h = heap s"
    | (lent) p d where "p \<in> set L" "chosen K F R (lid g0) want p d j (heap s) h g"
    using S by (auto simp: searched_def)
  then show ?thesis
  proof cases
    case idle
    then have t: "?t = s" by simp
    have "\<not> rga_layer_ready j" "\<not> use_laster_rga_layer j" using idle(1) by (simp_all add: idle_def)
    moreover have "clean \<longrightarrow> own L s" using own by simp
    ultimately show ?thesis
      unfolding t using unmarked_rung [OF k c refl r(2) q, of clean K R E]
      by (simp only: match_and_blit_def if_False)
  next
    case lent
    obtain l' where l': "lent K F R (bufs (rg_queue g) d) d (heap s p) l'"
      "h = (heap s)(p := l')" using lent(2) by (auto simp: chosen_def)
    note lh = lent_heap [where h = "heap s" and p = p, OF l'(1)]
    have k1: "keeps s ?t" by (rule keeps_heap) (simp only: l'(2) lh)
    have k2: "keeps s0 ?t" by (rule keeps_trans [OF k k1])
    have c2: "cleared pgs L s0 ?t"
      by (rule cleared_heap [OF c]) (simp only: l'(2) lh)
    have r2: "ready L ?t" using keeps_ready [OF k1] r(1) by simp
    obtain ret ly t' where b: "pol L ?t = Some (ret, ly, t')" "outcome K E pgs L ?t (ret, ly, t')"
      using contract [OF r2 r(2)] by auto
    have fr: "frame ?t t'" using b(2) by (simp add: outcome_def)
    have k3: "keeps s0 t'" by (rule keeps_trans [OF k2 frame_keeps [OF fr]])
    have ft: "\<forall>q \<in> set L. frame_ok (heap t' q)"
      using f keeps_trans [OF k1 frame_keeps [OF fr]]
      by (auto simp: keeps_def ident_def frame_ok_def)
    have bt: "buf (heap t' q) = buf (h q)" for q
      using fr heap_frame_fields by (auto simp: frame_def)
    have use: "bUseRga (buf (heap t' p))" "q \<in> set L \<Longrightarrow> q \<noteq> p \<Longrightarrow> \<not> bUseRga (buf (heap t' q))"
      for q using own lh by (simp_all add: own_def bt l'(2))
    have ne: "ret = 0 \<Longrightarrow> success K E pgs L ly t' \<and> ly \<noteq> []"
    proof -
      assume "ret = 0"
      then have s: "success K E pgs L ly t'" using b(2) by (simp add: outcome_def)
      have "is_fb (heap t') = is_fb (heap s)"
        using keeps_fb [OF keeps_trans [OF k1 frame_keeps [OF fr]]] .
      then show ?thesis using s success_nonempty [OF s] mixed by auto
    qed
    have bk: "ret \<noteq> 0 \<Longrightarrow> keeps s0 t' \<and> cleared pgs L s0 t' \<and> mset ly = mset L \<and> ly \<noteq> []"
      using policy_back [OF r2 r(2) k2 c2 b(1)] by blast
    show ?thesis
    proof (cases "rga_layer_ready j")
      case False
      then have u: "use_laster_rga_layer j" using lent(2) by (simp add: chosen_def)
      show ?thesis
      proof (cases "ret = 0")
        case True
        with False u b(1) k3 ne q show ?thesis
          by (simp add: match_and_blit_def fits_rung_def rung_def)
      next
        case ret: False
        have "\<not> clean"
          using S clean lent(2) u lent(1) by (auto simp: searched_def chosen_def)
        with unmarked_rung [OF _ _ _ _ q] bk [OF ret] False u b(1) ret show ?thesis
          by (simp add: match_and_blit_def)
      qed
    next
      case True
      then have d: "in_hand d j (rg_queue g)" using lent(2) q by (simp add: chosen_def in_hand_def)
      show ?thesis
      proof (cases "ret = 0")
        case r0: True
        have "fits_rung clean K R E pgs L s0 (commit_blit K F R flags acq remember j ly t' g)"
          using commit_rung [where ly = ly and ?p0.0 = p and remember = remember, OF _ _ k3 d ft _ remember] ne [OF r0] use(2) by blast
        with True b(1) r0 show ?thesis by (simp add: match_and_blit_def)
      next
        case ret: False
        then have m: "mset ly = mset L" "ly \<noteq> []" using bk by auto
        then have sl: "set ly = set L" by (metis set_mset_mset)
        have di: "distinct ly"
          using r(1) m(1) mset_eq_imp_distinct_iff [of ly L]
          by (auto simp: ready_def distinct_layers_def distinct_map)
        have "fits_rung clean K R E pgs L s0
          (do { (h, q) \<leftarrow> give_back_all K F R (dst_buffer j) ly (heap t', rg_queue g);
                ly' \<leftarrow> ResetLayerFromTmp ly [] h;
                Some (-1, ly', t'\<lparr> heap := h \<rparr>, g\<lparr> rg_queue := q \<rparr>) })"
          by (rule undo_rung [OF _ _ m d _ _ di use(1)])
            (use bk [OF ret] lent(1) ft sl use(2) in auto)
        with True b(1) ret show ?thesis by (simp add: match_and_blit_def)
      qed
    qed
  qed
qed

end

end
