(* ===== verification/Vop_Rga_Policies.thy ===== *)
theory Vop_Rga_Policies
  imports Vop_Rga_Props Vop_Match_Props
begin

text \<open>
  \<open>TryRgaOverlayPolicy\<close> and \<open>TrySplitPolicy\<close>: both are an instance of \<open>blit_policy\<close>, so they return,
  what they report as a success is a sound composition, and after a failure the planes are free
  and every layer is back, unless a blit failed.
\<close>

section \<open>The policies they match with\<close>

interpretation rga_pol: hwc_policy K E pgs "rga_match K E pgs" for K E pgs
proof
  fix L s
  assume r: "ready L s" "L \<noteq> []"
  show "\<exists>r. rga_match K E pgs L s = Some r \<and> outcome K E pgs L s r"
    using mix_skip.contract [OF r] mix_video.else_try_outcome [OF r overlay.contract [OF r]]
    by (cases "0 < iSkipCnt (request s)") (simp_all add: rga_match_def)
qed

interpretation split_pol: hwc_policy K E pgs "split_match K E pgs primary" for K E pgs primary
proof
  fix L s
  assume r: "ready L s" "L \<noteq> []"
  show "\<exists>r. split_match K E pgs primary L s = Some r \<and> outcome K E pgs L s r"
    using gles.contract [OF r] overlay.contract [OF r] by (simp add: split_match_def)
qed

interpretation rga_blit: blit_policy K E pgs "rga_match K E pgs" F R flags acq
  "\<lambda>i g. g\<lparr> last_rga_id := i \<rparr>" for K E pgs F R flags acq
  by unfold_locales simp

interpretation split_blit: blit_policy K E pgs "split_match K E pgs primary" F R flags acq
  "\<lambda>i g. g\<lparr> last_split_id := i \<rparr>" for K E pgs primary F R flags acq
  by unfold_locales simp

section \<open>What they start from\<close>

definition blit_ready :: "lptr list \<Rightarrow> vop \<Rightarrow> rga_state \<Rightarrow> bool" where
  "blit_ready L s g \<longleftrightarrow>
     ready L s \<and> queue_ok (rg_queue g) \<and> own L s \<and>
     (\<forall>p \<in> set L. frame_ok (heap s p)) \<and>
     (\<exists>p \<in> set L. is_fb (heap s) p) \<and> (\<exists>p \<in> set L. \<not> is_fb (heap s) p)"

text \<open>No layer shows the buffer that was blitted last.\<close>

definition foreign :: "lptr list \<Rightarrow> vop \<Rightarrow> rga_state \<Rightarrow> bool" where
  "foreign L s g \<longleftrightarrow> (\<forall>p \<in> set L. \<not> known g (heap s p))"

lemma blit_ready_nonempty: "blit_ready L s g \<Longrightarrow> L \<noteq> []"
  by (auto simp: blit_ready_def)

text \<open>The split policy has no buffer it could use again for one of the layers.\<close>

definition split_fresh :: "lptr list \<Rightarrow> vop \<Rightarrow> rga_state \<Rightarrow> bool" where
  "split_fresh L s g \<longleftrightarrow>
     bufferQueue (rg_queue g) = [] \<or> (\<forall>p \<in> set L. uBufferId (buf (heap s p)) \<noteq> last_split_id g)"

lemma foreign_split_fresh: "foreign L s g \<Longrightarrow> split_fresh L s g"
  by (simp add: foreign_def known_def split_fresh_def)

lemma fits_rung_weaker:
  "fits_rung c K R E pgs L s r \<Longrightarrow> (c' \<Longrightarrow> c) \<Longrightarrow> fits_rung c' K R E pgs L s r"
  unfolding fits_rung_def by blast

text \<open>What a policy leaves of a layer, with its buffer.\<close>

definition same_buf :: "vop \<Rightarrow> vop \<Rightarrow> bool" where
  "same_buf s s' \<longleftrightarrow> keeps s s' \<and> (\<forall>p. buf (heap s' p) = buf (heap s p))"

lemma same_buf_frame: "frame s s' \<Longrightarrow> same_buf s s'"
  by (simp add: same_buf_def frame_keeps) (simp add: frame_def heap_frame_fields)

lemma same_buf_trans: "same_buf s t \<Longrightarrow> same_buf t u \<Longrightarrow> same_buf s u"
  using keeps_trans by (auto simp: same_buf_def)

lemma blit_ready_keeps:
  assumes "blit_ready L s g" "same_buf s s'" "mset L' = mset L"
  shows "blit_ready L' s' g" "foreign L s g \<Longrightarrow> foreign L' s' g" "split_fresh L s g \<Longrightarrow> split_fresh L' s' g"
proof -
  have sl: "set L' = set L" using assms(3) by (metis set_mset_mset)
  have k: "keeps s s'" and b: "buf (heap s' p) = buf (heap s p)" for p
    using assms(2) by (auto simp: same_buf_def)
  have i: "ident (heap s' p) = ident (heap s p)" for p using k by (simp add: keeps_def)
  have "ready L' s'"
    using assms(1) keeps_ready [OF k] ready_mset [OF _ assms(3)] by (simp add: blit_ready_def)
  moreover have "frame_ok (heap s' p) = frame_ok (heap s p)" for p
    using i [of p] by (simp add: ident_def frame_ok_def)
  ultimately show "blit_ready L' s' g"
    using assms(1) by (simp add: blit_ready_def own_def sl b keeps_fb [OF k])
  show "foreign L s g \<Longrightarrow> foreign L' s' g" by (simp add: foreign_def sl known_def b)
  show "split_fresh L s g \<Longrightarrow> split_fresh L' s' g" by (simp add: split_fresh_def sl b)
qed

lemma cleared_reset: "cleared pgs L s (reset_all L pgs s)"
  by (simp add: cleared_def free_groups_def reset_layer_def reset_group_def)

lemma cleared_reset_from:
  "cleared pgs L s0 s \<or> comp s = comp s0 \<Longrightarrow> cleared pgs L s0 (reset_all L pgs s)"
  by (auto simp: cleared_def free_groups_def reset_layer_def reset_group_def)

lemma rung_mset:
  assumes "mset L' = mset L" "rung K R E pgs L' s r"
  shows "rung K R E pgs L s r"
proof -
  have sl: "set L' = set L" using assms(1) by (metis set_mset_mset)
  show ?thesis
    using assms success_mset [OF assms(1)]
    by (auto simp: rung_def undone_def cleared_def sl split: prod.splits if_splits)
qed

lemma fits_rung_mset:
  assumes "mset L' = mset L" "fits_rung clean K R E pgs L' s r"
  shows "fits_rung clean K R E pgs L s r"
proof -
  have sl: "set L' = set L" using assms(1) by (metis set_mset_mset)
  show ?thesis
    using assms(2) rung_mset [OF assms(1)] unfolding fits_rung_def own_def sl by blast
qed

section \<open>The RGA policy\<close>

lemma TryRgaOverlay_rung:
  assumes b: "blit_ready L s g" and e: "bRgaPolicyEnable (st s)"
  shows "fits_rung (foreign L s g) K R E pgs L s (TryRgaOverlayPolicy K F R E pgs L (s, g))"
proof -
  let ?s = "reset_all L pgs s"
  have sb: "same_buf s ?s" by (rule same_buf_frame [OF frame_reset_all])
  have b1: "blit_ready L ?s g" "foreign L s g \<Longrightarrow> foreign L ?s g"
    using blit_ready_keeps [OF b sb refl] by auto
  have f: "\<forall>p \<in> set L. frame_ok (heap ?s p)" using b1(1) by (simp add: blit_ready_def)
  obtain j h g1 where S: "search_layers (rga_layer K F R E (st ?s)) L job_start (heap ?s) g =
      Some (j, h, g1)" "searched K F R last_rga_id (NeedUseRgaPolicy K F E) L (heap ?s) g (j, h, g1)"
    using rga_search.search [where g = g and j = job_start and L = L and h = "heap ?s" and K = K and F = F and
        R = R and E = E and c = "st ?s"] b1(1) f
    by (auto simp: blit_ready_def idle_def job_start_def)
  have "fits_rung (foreign L s g) K R E pgs L s
    (match_and_blit K F R (IM_ASYNC R) (\<lambda>l. 0) (\<lambda>i g. g\<lparr> last_rga_id := i \<rparr>)
       (rga_match K E pgs) j L (?s\<lparr> heap := h \<rparr>) g1)"
    by (rule rga_blit.blit [OF _ blit_ready_nonempty [OF b] _ cleared_reset f _ _ _ _ S(2)])
      (use b1 sb in \<open>auto simp: blit_ready_def same_buf_def foreign_def known_def\<close>)
  with e S(1) show ?thesis by (simp add: TryRgaOverlayPolicy_def reset_all_def Let_def)
qed

section \<open>The split policy\<close>

lemma split_transform_keeps:
  "same_buf s (s\<lparr> heap := fold (split_transform K R E primary) L (heap s) \<rparr>)"
proof -
  have "\<forall>h. ident (fold (split_transform K R E primary) L h p) = ident (h p) \<and>
      buf (fold (split_transform K R E primary) L h p) = buf (h p)" for p
  proof (induction L)
    case (Cons x L)
    have "ident (split_transform K R E primary x h p) = ident (h p) \<and>
        buf (split_transform K R E primary x h p) = buf (h p)" for h
      by (simp add: split_transform_def SetTransform_def ident_def)
    with Cons show ?case by simp
  qed simp
  then show ?thesis by (simp add: same_buf_def keeps_def)
qed

lemma TrySplit_rung:
  assumes b: "blit_ready L s g"
  shows "fits_rung (split_fresh L s g) K R E pgs L s (TrySplitPolicy K F R E pgs L (s, g))"
proof -
  let ?pr = "bIsCropSplitPrimary (st s)"
  let ?s0 = "s\<lparr> heap := fold (split_transform K R E ?pr) L (heap s) \<rparr>"
  have sb0: "same_buf s ?s0" by (rule split_transform_keeps)
  have b0: "blit_ready L ?s0 g" using blit_ready_keeps [OF b sb0 refl] by simp
  note ne = blit_ready_nonempty [OF b]
  obtain ret ly s1 where m: "split_match K E pgs ?pr L ?s0 = Some (ret, ly, s1)"
    "outcome K E pgs L ?s0 (ret, ly, s1)"
  proof -
    have "ready L ?s0" using b0 by (simp add: blit_ready_def)
    from split_pol.contract [OF this ne, of K E pgs ?pr] that show ?thesis by auto
  qed
  have sb1: "same_buf s s1"
    using m(2) same_buf_trans [OF sb0 same_buf_frame] by (simp add: outcome_def)
  show ?thesis
  proof (cases "ret = 0")
    case True
    with m b sb1 show ?thesis
      by (simp add: TrySplitPolicy_def fits_rung_def rung_def outcome_def same_buf_def
          blit_ready_def)
  next
    case False
    then have fl: "failure pgs L ly ?s0 s1" using m(2) by (simp add: outcome_def)
    then have ml: "mset ly = mset L" by (simp add: failure_def)
    let ?s2 = "reset_all ly pgs s1"
    have sb2: "same_buf s ?s2"
      by (rule same_buf_trans [OF sb1 same_buf_frame [OF frame_reset_all]])
    note b2 = blit_ready_keeps [OF b sb2 ml]
    have f: "\<forall>p \<in> set ly. frame_ok (heap ?s2 p)" using b2(1) by (simp add: blit_ready_def)
    have "comp s1 = [] \<or> comp s1 = comp s" using fl by (auto simp: failure_def cleared_def)
    then have c2: "cleared pgs ly s ?s2"
      by (auto simp: cleared_def free_groups_def reset_layer_def reset_group_def)
    obtain j h g1 where S: "search_layers (split_layer K F R (st ?s2)) ly job_start (heap ?s2) g =
        Some (j, h, g1)"
      "searched K F R last_split_id (\<lambda>l. bIsCropSplitPrimary (st ?s2) \<longrightarrow> bFbTarget l) ly (heap ?s2) g (j, h, g1)"
      using split_search.search [where g = g and j = job_start and L = ly and h = "heap ?s2" and
          K = K and F = F and R = R and c = "st ?s2"] b2(1) f
      by (auto simp: blit_ready_def idle_def job_start_def)
    have "fits_rung (split_fresh L s g) K R E pgs ly s
      (match_and_blit K F R 0 (split_acquire R) (\<lambda>i g. g\<lparr> last_split_id := i \<rparr>)
         (split_match K E pgs ?pr) j ly (?s2\<lparr> heap := h \<rparr>) g1)"
      by (rule split_blit.blit [OF _ blit_ready_nonempty [OF b2(1)] _ c2 f _ _ _ _ S(2)])
        (use b2 sb2 in \<open>auto simp: blit_ready_def same_buf_def split_fresh_def\<close>)
    with False m(1) S(1) fits_rung_mset [OF ml] show ?thesis
      by (simp add: TrySplitPolicy_def reset_all_def Let_def)
  qed
qed

section \<open>What the next frame compares with\<close>

text \<open>The blit changes nothing of the state but the queue and the remembered id.\<close>

definition blit_result :: "(u64 \<Rightarrow> rga_state \<Rightarrow> rga_state) \<Rightarrow> rga_state \<Rightarrow> rga_state \<Rightarrow> bool" where
  "blit_result remember g g' \<longleftrightarrow>
     (\<exists>q. g' = g\<lparr> rg_queue := q \<rparr>) \<or>
     (\<exists>d q. currentBuffer q = Some d \<and>
        g' = remember (db_buffer_id (bufs q d)) (g\<lparr> rg_queue := q \<rparr>))"

lemma remembered_queue: "blit_result remember g (g\<lparr> rg_queue := q \<rparr>)"
  unfolding blit_result_def by blast

lemma remembered_same: "blit_result remember g g"
  using remembered_queue [where g = g and q = "rg_queue g"] by simp

lemma SetFinishFence_id: "db_buffer_id (snd (SetFinishFence W fd b)) = db_buffer_id b"
  by (simp add: SetFinishFence_def Let_def)

lemma commit_remembered:
  assumes d: "dst_buffer j = Some d" "currentBuffer (rg_queue g) = Some d"
    and u: "\<forall>p \<in> set ly. bUseRga (buf (heap s p)) \<longrightarrow>
              uBufferId (buf (heap s p)) = db_buffer_id (bufs (rg_queue g) d)"
    and c: "commit_blit K F R flags acq remember j ly s g = Some (ret, ly', s', g')"
  shows "blit_result remember g g'"
proof (cases "List.find (\<lambda>p. bUseRga (buf (heap s p))) ly")
  case None
  with c remembered_same show ?thesis
    by (auto simp: commit_blit_def Option.bind_eq_Some_conv)
next
  case (Some p)
  then have up: "uBufferId (buf (heap s p)) = db_buffer_id (bufs (rg_queue g) d)"
    using u by (auto simp: find_Some_iff)
  show ?thesis
  proof (cases "rg_process R (j_src j) (j_dst j) (src_rect j) (dst_rect j)
      (acq (heap s p)) (usage j OR flags)")
    case None
    with Some c remembered_queue show ?thesis
      by (auto simp: commit_blit_def Option.bind_eq_Some_conv)
  next
    case (Some fence)
    let ?b = "snd (SetFinishFence (rg_buffers R) (rg_dup R fence) (bufs (rg_queue g) d))"
    let ?q = "(set_buf d ?b (rg_queue g))\<lparr> bufferQueue := bufferQueue (rg_queue g) @ [d] \<rparr>"
    have "g' = remember (uBufferId (buf (heap s p))) (g\<lparr> rg_queue := ?q \<rparr>)"
      using c d Some \<open>List.find _ ly = Some p\<close>
      by (simp add: commit_blit_def Let_def QueueBuffer_def)
    then have g': "g' = remember (db_buffer_id (bufs (rg_queue g) d)) (g\<lparr> rg_queue := ?q \<rparr>)"
      by (simp only: up)
    have "currentBuffer ?q = Some d"
      "db_buffer_id (bufs ?q d) = db_buffer_id (bufs (rg_queue g) d)"
      using d(2) by (simp_all add: SetFinishFence_id)
    with g' show ?thesis unfolding blit_result_def by metis
  qed
qed

context blit_policy
begin

lemma blit_remembered:
  assumes r: "ready L s" "L \<noteq> []" and own: "own L s"
    and S: "searched K F R lid want L (heap s) g0 (j, h, g)"
    and b: "match_and_blit K F R flags acq remember pol j L (s\<lparr> heap := h \<rparr>) g =
      Some (ret, ly, s', g')"
  shows "blit_result remember g g'"
proof (cases "rga_layer_ready j")
  case False
  with b remembered_same show ?thesis
    by (auto simp: match_and_blit_def Option.bind_eq_Some_conv split: if_splits)
next
  case True
  let ?t = "s\<lparr> heap := h \<rparr>"
  obtain p d where pd: "p \<in> set L" "chosen K F R (lid g0) want p d j (heap s) h g"
    using S True by (auto simp: searched_def idle_def)
  obtain l' where l': "lent K F R (bufs (rg_queue g) d) d (heap s p) l'" "h = (heap s)(p := l')"
    using pd(2) by (auto simp: chosen_def)
  note lh = lent_heap [where h = "heap s" and p = p, OF l'(1)]
  have "keeps s ?t" by (rule keeps_heap) (simp only: l'(2) lh)
  then have r2: "ready L ?t" using keeps_ready r(1) by blast
  obtain ret1 ly1 t1 where m: "pol L ?t = Some (ret1, ly1, t1)" "outcome K E pgs L ?t (ret1, ly1, t1)"
    using contract [OF r2 r(2)] by auto
  have bt: "buf (heap t1 q) = buf (h q)" for q
    using m(2) heap_frame_fields by (auto simp: outcome_def frame_def)
  show ?thesis
  proof (cases "ret1 = 0")
    case False
    with b m(1) True remembered_queue show ?thesis
      by (auto simp: match_and_blit_def Option.bind_eq_Some_conv)
  next
    case r0: True
    then have "set ly1 \<subseteq> set L" using m(2) mset_sub_nonempty by (auto simp: outcome_def success_def)
    then have u: "\<forall>q \<in> set ly1. bUseRga (buf (heap t1 q)) \<longrightarrow>
        uBufferId (buf (heap t1 q)) = db_buffer_id (bufs (rg_queue g) d)"
      using own lent_fields(4) [OF l'(1)] by (auto simp: bt l'(2) own_def)
    have "commit_blit K F R flags acq remember j ly1 t1 g = Some (ret, ly, s', g')"
      using b m(1) True r0 by (simp add: match_and_blit_def)
    from commit_remembered [OF _ _ u this] pd(2) show ?thesis by (simp add: chosen_def)
  qed
qed

end

lemma TryRgaOverlay_remembers:
  assumes b: "blit_ready L s g"
    and t: "TryRgaOverlayPolicy K F R E pgs L (s, g) = Some (ret, ly, s', g')"
  shows "last_rga_id g' = last_rga_id g \<or>
    (\<exists>d. currentBuffer (rg_queue g') = Some d \<and>
         last_rga_id g' = db_buffer_id (bufs (rg_queue g') d))"
proof (cases "bRgaPolicyEnable (st s)")
  case False
  with t show ?thesis by (simp add: TryRgaOverlayPolicy_def)
next
  case True
  let ?s = "reset_all L pgs s"
  have sb: "same_buf s ?s" by (rule same_buf_frame [OF frame_reset_all])
  have b1: "blit_ready L ?s g" using blit_ready_keeps [OF b sb refl] by auto
  obtain j h g1 where S: "search_layers (rga_layer K F R E (st ?s)) L job_start (heap ?s) g =
      Some (j, h, g1)" "searched K F R last_rga_id (NeedUseRgaPolicy K F E) L (heap ?s) g (j, h, g1)"
    using rga_search.search [where g = g and j = job_start and L = L and h = "heap ?s" and K = K and
        F = F and R = R and E = E and c = "st ?s"] b1
    by (auto simp: blit_ready_def idle_def job_start_def)
  have "match_and_blit K F R (IM_ASYNC R) (\<lambda>l. 0) (\<lambda>i g. g\<lparr> last_rga_id := i \<rparr>)
      (rga_match K E pgs) j L (?s\<lparr> heap := h \<rparr>) g1 = Some (ret, ly, s', g')"
    using t True S(1) by (simp add: TryRgaOverlayPolicy_def reset_all_def Let_def)
  from rga_blit.blit_remembered [OF _ blit_ready_nonempty [OF b1] _ S(2) this] b1
  have "blit_result (\<lambda>i g. g\<lparr> last_rga_id := i \<rparr>) g1 g'" by (simp add: blit_ready_def)
  moreover have "last_rga_id g1 = last_rga_id g" using S(2) by (simp add: searched_def same_ids_def)
  ultimately show ?thesis by (auto simp: blit_result_def)
qed

section \<open>Properties\<close>

definition rga_env0 :: rga_env where
  "rga_env0 =
     \<lparr> rg_buffers = buffer_world0, rg_layer = layer_env0, rg_check = (\<lambda>a b c d u. True),
       rg_process = (\<lambda>a b c d f u. None), rg_dup = (\<lambda>fd. fd + 100), rg_fd_open = (\<lambda>fd. 0 \<le> fd),
       rg_acquire_enabled = True, rg_split_transform = T_None, IM_HAL_TRANSFORM_FLIP_H = 1,
       IM_HAL_TRANSFORM_FLIP_V = 2, IM_HAL_TRANSFORM_ROT_90 = 4, IM_HAL_TRANSFORM_ROT_180 = 8,
       IM_HAL_TRANSFORM_ROT_270 = 16, IM_ASYNC = 0x80000 \<rparr>"

definition rga_state0 :: rga_state where
  "rga_state0 =
     \<lparr> rg_queue = queue0, rg_infos = (\<lambda>i. \<lparr> rh_handle = 0, rh_buffer_id = 0, rh_size = 0, rh_fd = 0 \<rparr>),
       last_split_id = 0, last_rga_id = 0 \<rparr>"

text \<open>Two layers of an application and the FB target; the RGA policy is on.\<close>

definition vop_rga :: vop where
  "vop_rga =
     vop0\<lparr> heap := bands(3 := (bands 3)\<lparr> bFbTarget := True \<rparr>),
           st := sta0\<lparr> bRgaPolicyEnable := True \<rparr> \<rparr>"

lemma blit_ready_vop_rga: "blit_ready [0, 1, 3] vop_rga rga_state0"
proof -
  have "ready [0, 1, 3] vop_rga"
    using ready_scene [of "[0, 1, 3]" "{}" "{}" "[]"]
    by (simp add: vop_rga_def ready_def distinct_layers_def scene_def)
  then show ?thesis
    by (simp add: blit_ready_def rga_state0_def queue_ok_queue0 own_def frame_ok_def is_fb_def
        vop_rga_def bands_def layer0_def buf0_def rect_def)
qed

lemma foreign_vop_rga: "foreign [0, 1, 3] vop_rga rga_state0"
  by (simp add: foreign_def known_def vop_rga_def rga_state0_def bands_def layer0_def buf0_def)

text \<open>
  C28: \<open>TryRgaOverlayPolicy\<close> returns.  Switched off it changes nothing.  Otherwise \<open>0\<close> means a sound
  composition of layers of the vector, the layer in the blit with the queue's buffer; \<open>-1\<close> means,
  unless a blit failed, that all layers are back in z-order with no plane in use.  The layers'
  identity and the queue's form are kept, and after a failure every layer has its own buffer,
  if none shows the buffer that was blitted last.
\<close>

theorem RgaOverlay_contract:
  assumes "blit_ready L s g"
  shows "if bRgaPolicyEnable (st s)
    then fits_rung (foreign L s g) K R E pgs L s (TryRgaOverlayPolicy K F R E pgs L (s, g))
    else TryRgaOverlayPolicy K F R E pgs L (s, g) = Some (-1, L, s, g)"
  using TryRgaOverlay_rung [OF assms] by (simp add: TryRgaOverlayPolicy_def)

lemma RgaOverlay_contract_witness:
  "fits_rung True sdk0 rga_env0 env0 [0, 1] [0, 1, 3] vop_rga
     (TryRgaOverlayPolicy sdk0 formats0 rga_env0 env0 [0, 1] [0, 1, 3] (vop_rga, rga_state0))"
  using RgaOverlay_contract [OF blit_ready_vop_rga, of sdk0 rga_env0 env0 "[0, 1]" formats0]
    foreign_vop_rga by (simp add: vop_rga_def)

text \<open>
  C29: The same contract holds for \<open>TrySplitPolicy\<close>, on the primary and on the secondary display of
  a video wall; its first attempt without a blit included.
\<close>

theorem Split_contract:
  assumes "blit_ready L s g"
  shows "fits_rung (foreign L s g) K R E pgs L s (TrySplitPolicy K F R E pgs L (s, g))"
  using fits_rung_weaker [OF TrySplit_rung [OF assms] foreign_split_fresh] .

lemma Split_contract_witness:
  "fits_rung True sdk0 rga_env0 env0 [0, 1] [0, 1, 3] vop_rga
     (TrySplitPolicy sdk0 formats0 rga_env0 env0 [0, 1] [0, 1, 3] (vop_rga, rga_state0))"
  using Split_contract [OF blit_ready_vop_rga, of sdk0 rga_env0 env0 "[0, 1]" formats0]
    foreign_vop_rga by simp

lemma set_marks_use:
  "(set_marks m z t u r f l)\<lparr> buf := (buf (set_marks m z t u r f l))\<lparr> bUseRga := v \<rparr> \<rparr> =
   set_marks m z t v r f l"
  by (rule DrmHwcLayer.equality) (simp_all add: set_marks_def)

text \<open>
  Undoing the loan of a buffer gives a layer back everything that describes its own buffer,
  with no mark of the 2D engine, and returns the buffer to the queue.  What does not come back
  is the plane type: a layer of the RGA policy keeps the mask of the ESMART planes.
\<close>

lemma lent_layer_returned:
  assumes "initialised K F (rg_layer R) (h p)"
    and "UpdateAndStoreInfoFromDrmBuffer K F (rg_layer R) (info_of b) crop (DRM_MODE_ROTATE_0 K) (h p)
      = Some l1"
    and "same_layer (mark_rga plane d l1) (h' p)" and "currentBuffer q = Some d"
  shows "give_back K F R (Some d) p (h', q) =
    Some (h'(p := set_marks (bMatch (h' p)) (iDrmZpos (h' p))
                    (case plane of None \<Rightarrow> iBestPlaneType (h p) | Some t \<Rightarrow> t)
                    False (Some d) (acquire_fence (buf (h p)))
                    ((h p)\<lparr> buf := (buf (h p))\<lparr> storeLayerInfo := None \<rparr> \<rparr>)),
          q\<lparr> bufferQueue := bufferQueue q @ [d] \<rparr>)"
proof -
  have "lent K F R b d (h p) (mark_rga plane d l1)" using assms(2) unfolding lent_def by blast
  note bk = lent_back [OF this assms(1,3)]
  have t: "iBestPlaneType (mark_rga plane d l1) =
      (case plane of None \<Rightarrow> iBestPlaneType (h p) | Some t \<Rightarrow> t)"
    using Update_fields [OF assms(2)] by (simp add: mark_rga_def split: option.split)
  show ?thesis
    by (simp only: give_back_def QueueBuffer_def bk assms(4) set_marks_use t option.case
        prod.case simp_thms if_True Option.bind.simps)
qed

lemma lent_layer_returned_witness:
  "\<exists>l1. let h = (\<lambda>p. layer0); h' = h(0 := mark_rga (Some 0xffff00) 2 l1);
        q = queue0\<lparr> currentBuffer := Some 2 \<rparr>
    in give_back sdk0 formats0 rga_env0 (Some 2) 0 (h', q) =
       Some (h'(0 := set_marks False 0 0xffff00 False (Some 2) (-1) layer0),
             q\<lparr> bufferQueue := [2] \<rparr>)"
proof -
  let ?b = "DrmBuffer_new formats0 50 50 0x15 0 [] 0"
  obtain l1 where u: "UpdateAndStoreInfoFromDrmBuffer sdk0 formats0 (rg_layer rga_env0) (info_of ?b)
      crop50 (DRM_MODE_ROTATE_0 sdk0) layer0 = Some l1"
  proof -
    have "frame_ok layer0" by (simp add: frame_ok_def layer0_def rect_def)
    from lent_total [OF this] that show ?thesis by blast
  qed
  have i: "initialised sdk0 formats0 (rg_layer rga_env0) ((\<lambda>p::nat. layer0) 0)"
    by (simp add: rga_env0_def initialised_layer0)
  have l: "layer0\<lparr> buf := (buf layer0)\<lparr> storeLayerInfo := None \<rparr> \<rparr> = layer0"
    by (simp add: layer0_def buf0_def)
  have m: "bMatch l1 = False" "iDrmZpos l1 = 0" "acquire_fence (buf layer0) = -1"
    using Update_fields [OF u] by (simp_all add: layer0_def buf0_def)
  let ?h' = "(\<lambda>p::nat. layer0)(0 := mark_rga (Some 0xffff00) 2 l1)"
  have "same_layer (mark_rga (Some 0xffff00) 2 l1) (?h' 0)" by simp
  from lent_layer_returned [where h = "\<lambda>p. layer0" and p = 0 and h' = ?h', OF i _ this, of ?b crop50 "queue0\<lparr> currentBuffer := Some 2 \<rparr>"] u
  show ?thesis
    unfolding Let_def
    by (intro exI [of _ l1]) (simp add: l m mark_rga_def queue0_def)
qed

text \<open>
  What \<open>TryRgaOverlayPolicy\<close> remembers to recognise an unchanged frame is the id of the buffer
  it blitted into, not of the layer's own: the later test against the id of a layer can only
  succeed for a layer that shows the queue's buffer.
\<close>

lemma rga_remembers_destination:
  assumes "blit_ready L s g"
    and "TryRgaOverlayPolicy K F R E pgs L (s, g) = Some (ret, ly, s', g')"
  shows "last_rga_id g' = last_rga_id g \<or>
    (\<exists>d. currentBuffer (rg_queue g') = Some d \<and>
         last_rga_id g' = db_buffer_id (bufs (rg_queue g') d))"
  using TryRgaOverlay_remembers [OF assms] .

lemma rga_remembers_destination_witness:
  "\<exists>ret ly s' g'. TryRgaOverlayPolicy sdk0 formats0 rga_env0 env0 [0, 1] [0, 1, 3]
       (vop_rga, rga_state0) = Some (ret, ly, s', g') \<and>
     (last_rga_id g' = 0 \<or> (\<exists>d. currentBuffer (rg_queue g') = Some d \<and>
        last_rga_id g' = db_buffer_id (bufs (rg_queue g') d)))"
proof -
  have "bRgaPolicyEnable (st vop_rga)" by (simp add: vop_rga_def)
  from TryRgaOverlay_rung [OF blit_ready_vop_rga this, of sdk0 rga_env0 env0 "[0, 1]" formats0]
  obtain ret ly s' g' where t: "TryRgaOverlayPolicy sdk0 formats0 rga_env0 env0 [0, 1] [0, 1, 3]
       (vop_rga, rga_state0) = Some (ret, ly, s', g')" by (auto simp: fits_rung_def)
  show ?thesis
    using t rga_remembers_destination [OF blit_ready_vop_rga t] by (simp add: rga_state0_def)
qed

text \<open>
  When the engine refuses the blit after the planes were matched, the policy reports \<open>-1\<close> with
  the planes still in use, the composition still there and only the matched layers in the
  vector; the layers left to the GPU, or the FB target, are lost to the policies tried next.
\<close>

lemma failed_blit_leaves_match:
  assumes "List.find (\<lambda>p. bUseRga (buf (heap s p))) ly = Some p" "frame_ok (heap s p)"
    and "dst_buffer j = Some d" "currentBuffer (rg_queue g) = Some d"
    and "rg_process R (j_src j) (j_dst j) (src_rect j) (dst_rect j) (acq (heap s p))
           (usage j OR flags) = None"
  shows "\<exists>ly' s' g'. commit_blit K F R flags acq remember j ly s g = Some (-1, ly', s', g') \<and>
    mset ly' = mset ly \<and> gheap s' = gheap s \<and> comp s' = comp s \<and>
    (\<forall>q. bMatch (heap s' q) = bMatch (heap s q)) \<and> \<not> bUseRga (buf (heap s' p)) \<and>
    bufferQueue (rg_queue g') = bufferQueue (rg_queue g) @ [d]"
proof -
  obtain l where l: "ResetInfoFromStore K F (rg_layer R) (heap s p) = Some l"
    "give_back K F R (Some d) p (heap s, rg_queue g) =
      Some ((heap s)(p := l\<lparr> buf := (buf l)\<lparr> bUseRga := False \<rparr> \<rparr>),
            (rg_queue g)\<lparr> bufferQueue := bufferQueue (rg_queue g) @ [d] \<rparr>)"
    using give_back_one [where h = "heap s" and p = p, OF assms(4,2)] by blast
  let ?h = "(heap s)(p := l\<lparr> buf := (buf l)\<lparr> bUseRga := False \<rparr> \<rparr>)"
  have "ly \<noteq> []" using assms(1) by auto
  then obtain ly' where "ResetLayerFromTmp ly [] ?h = Some ly'" "mset ly' = mset ly"
    using sorted_reset by blast
  then show ?thesis
    using assms(1,3,5) l given_back_match [where h = "heap s" and p = p, OF l(1)]
    by (simp add: commit_blit_def)
qed

lemma failed_blit_leaves_match_witness:
  "let s = (scene {0} {(0, 0)} [])\<lparr> heap := (\<lambda>p. layer0\<lparr> buf := buf0\<lparr> bUseRga := True \<rparr> \<rparr>) \<rparr>;
       g = rga_state0\<lparr> rg_queue := queue0\<lparr> currentBuffer := Some 2 \<rparr> \<rparr>
   in \<exists>s' g'. commit_blit sdk0 formats0 rga_env0 0 (\<lambda>l. 0) (\<lambda>i g. g) (job_start\<lparr> dst_buffer := Some 2 \<rparr>)
         [0] s g = Some (-1, [0], s', g') \<and> gheap s' = groups_using {(0, 0)} \<and>
         bufferQueue (rg_queue g') = [2]"
proof -
  let ?s = "(scene {0} {(0, 0)} [])\<lparr> heap := (\<lambda>p. layer0\<lparr> buf := buf0\<lparr> bUseRga := True \<rparr> \<rparr>) \<rparr>"
  let ?g = "rga_state0\<lparr> rg_queue := queue0\<lparr> currentBuffer := Some 2 \<rparr> \<rparr>"
  have "\<exists>ly' s' g'. commit_blit sdk0 formats0 rga_env0 0 (\<lambda>l. 0) (\<lambda>i g. g)
      (job_start\<lparr> dst_buffer := Some 2 \<rparr>) [0] ?s ?g = Some (-1, ly', s', g') \<and>
    mset ly' = mset [0] \<and> gheap s' = gheap ?s \<and> comp s' = comp ?s \<and>
    (\<forall>q. bMatch (heap s' q) = bMatch (heap ?s q)) \<and> \<not> bUseRga (buf (heap s' 0)) \<and>
    bufferQueue (rg_queue g') = bufferQueue (rg_queue ?g) @ [2]"
    by (rule failed_blit_leaves_match)
      (simp_all add: frame_ok_def layer0_def rect_def rga_env0_def rga_state0_def)
  then show ?thesis by (auto simp: Let_def rga_state0_def queue0_def)
qed

end
