(* ===== verification/Hwc_Planner.thy ===== *)
theory Hwc_Planner
  imports Vop_Rga Vop_Context
begin

text \<open>
  The top of the policy: \<open>Vop3588::TryHwcPolicy\<close> tries the policies one after the other, and
  \<open>Planner::TryHwcPolicy\<close> (\<open>platform/common/platform.cpp\<close>) asks the stages that support the SoC.
\<close>

section \<open>The ladder\<close>

definition lift_policy :: "policy \<Rightarrow> rga_policy" where
  "lift_policy pol L sg =
     (case sg of (s, g) \<Rightarrow> do { (ret, ly, s') \<leftarrow> pol L s; Some (ret, ly, s', g) })"

text \<open>
  \<open>if(ctx.state.setHwcPolicy.count(mode))\<close> with the policy, the \<open>return 0\<close>, and what follows a
  failure.
\<close>

definition next_policy ::
  "ComposeMode \<Rightarrow> rga_policy \<Rightarrow> (vop \<Rightarrow> vop) \<Rightarrow> rga_result \<Rightarrow> rga_result" where
  "next_policy mode pol on_fail r = do {
     (ret, ly, s, g) \<leftarrow> r;
     (if ret = 0 \<or> \<not> policy_count mode (st s) then Some (ret, ly, s, g)
      else do {
        (ret', ly', s', g') \<leftarrow> pol ly (s, g);
        (if ret' = 0 then Some (0, ly', s', g') else Some (-1, ly', on_fail s', g'))
      })
   }"

definition allow_gles :: "vop \<Rightarrow> vop" where
  "allow_gles s = s\<lparr> st := policy_insert HWC_GLES_POLICY (st s) \<rparr>"

definition TryHwcPolicy ::
  "sdk \<Rightarrow> formats \<Rightarrow> rga_env \<Rightarrow> env \<Rightarrow> gptr list \<Rightarrow> bool \<Rightarrow> rga_policy" where
  "TryHwcPolicy K F R E pgs gles_policy layers sg =
     (case sg of (s, g) \<Rightarrow>
        if pgs = [] then Some (-1, layers, s, g)
        else
         (let r0 = Some (-1, layers, InitContext K E layers pgs gles_policy s, g);
              r1 = next_policy HWC_SPLIT_MODE_POLICY (TrySplitPolicy K F R E pgs) (\<lambda>s. s) r0;
              r2 = next_policy HWC_OVERLAY_POLICY (lift_policy (TryOverlayPolicy K E pgs)) TryMix r1;
              r3 = next_policy HWC_RGA_OVERLAY_POLICY (TryRgaOverlayPolicy K F R E pgs) (\<lambda>s. s) r2;
              r4 = next_policy HWC_MIX_POLICY (lift_policy (TryMixPolicy K E pgs)) allow_gles r3;
              r5 = next_policy HWC_GLES_SIDEBAND_POLICY
                     (lift_policy (TryGlesSidebandPolicy K E pgs)) (\<lambda>s. s) r4
          in next_policy HWC_GLES_POLICY (lift_policy (TryGLESPolicy K E pgs)) (\<lambda>s. s) r5))"

section \<open>The planner\<close>

definition SupportPlatform :: "u32 \<Rightarrow> bool" where
  "SupportPlatform soc \<longleftrightarrow> soc = 0x3588"

text \<open>
  \<open>CreateInstance\<close> adds the one stage there is for the SoC of the device.  The composition of a call
  starts empty, and a failed call returns an empty one; the loop over the stages ends at the
  first failure.
\<close>

definition planner_stages :: "u32 \<Rightarrow> nat" where
  "planner_stages soc = (if soc = 0x3588 then 1 else 0)"

fun planner_loop ::
  "sdk \<Rightarrow> formats \<Rightarrow> rga_env \<Rightarrow> env \<Rightarrow> gptr list \<Rightarrow> bool \<Rightarrow> nat \<Rightarrow> int \<Rightarrow> lptr list \<Rightarrow>
   vop \<times> rga_state \<Rightarrow> rga_result" where
  "planner_loop K F R E pgs gles 0 ret layers (s, g) = Some (ret, layers, s, g)"
| "planner_loop K F R E pgs gles (Suc n) ret layers (s, g) =
     (if SupportPlatform (crtc_soc_id E) then
        (case TryHwcPolicy K F R E pgs gles layers (s, g) of
           None \<Rightarrow> None
         | Some (ret', ly, s', g') \<Rightarrow>
             if ret' \<noteq> 0 then Some (ret', ly, s'\<lparr> comp := [] \<rparr>, g')
             else planner_loop K F R E pgs gles n ret' ly (s', g'))
      else planner_loop K F R E pgs gles n ret layers (s, g))"

definition Planner_TryHwcPolicy ::
  "sdk \<Rightarrow> formats \<Rightarrow> rga_env \<Rightarrow> env \<Rightarrow> u32 \<Rightarrow> gptr list \<Rightarrow> bool \<Rightarrow> rga_policy" where
  "Planner_TryHwcPolicy K F R E device_soc pgs gles layers sg =
     (case sg of (s, g) \<Rightarrow>
        planner_loop K F R E pgs gles (planner_stages device_soc) (-1) layers
          (s\<lparr> comp := [] \<rparr>, g))"

end
