(* ===== verification/Hwc_Planner_Props.thy ===== *)
theory Hwc_Planner_Props
  imports Hwc_Planner Vop_Rga_Policies Vop_Context_Props
begin

text \<open>
  The ladder of policies: it always returns, what it returns with \<open>0\<close> is sound, and with \<open>-1\<close> the
  policy of the GPU itself has failed.  The locale \<open>ladder_rung\<close> is the interface of one rung, with
  what holds before it and after its failure; every rung is an interpretation.
\<close>

section \<open>One rung\<close>

text \<open>
  A success, for the layers that were still in the vector; \<open>I\<close> is what identifies the layers of
  the frame.
\<close>

type_synonym identities = "lptr \<Rightarrow> u32 \<times> bool \<times> int \<times> bool \<times> hwc_rect"

definition identity :: "vop \<Rightarrow> identities" where
  "identity s = (\<lambda>p. ident (heap s p))"

definition won ::
  "identities \<Rightarrow> sdk \<Rightarrow> rga_env \<Rightarrow> env \<Rightarrow> gptr list \<Rightarrow> lptr list \<Rightarrow> lptr list \<Rightarrow> vop \<Rightarrow> bool" where
  "won I K R E pgs L ly s \<longleftrightarrow> identity s = I \<and>
     (\<exists>L0. mset L0 \<subseteq># mset L \<and> (reliable R \<longrightarrow> mset L0 = mset L) \<and> success K E pgs L0 ly s)"

type_synonym level = "lptr list \<Rightarrow> vop \<Rightarrow> rga_state \<Rightarrow> bool"

definition reached ::
  "identities \<Rightarrow> sdk \<Rightarrow> rga_env \<Rightarrow> env \<Rightarrow> gptr list \<Rightarrow> lptr list \<Rightarrow> level \<Rightarrow> rga_result \<Rightarrow> bool" where
  "reached I K R E pgs L P r \<longleftrightarrow>
     (\<exists>ret ly s g. r = Some (ret, ly, s, g) \<and>
        (if ret = 0 then won I K R E pgs L ly s else ret = -1 \<and> P ly s g))"

locale ladder_rung =
  fixes I :: identities and K :: sdk and R :: rga_env and E :: env and pgs :: "gptr list" and L :: "lptr list"
    and mode :: ComposeMode and pol :: rga_policy and on_fail :: "vop \<Rightarrow> vop"
    and P :: level and Q :: level
  assumes tries: "P ly s g \<Longrightarrow> policy_count mode (st s) \<Longrightarrow>
      \<exists>ret ly' s' g'. pol ly (s, g) = Some (ret, ly', s', g') \<and>
        (if ret = 0 then won I K R E pgs L ly' s' else Q ly' (on_fail s') g')"
    and skip: "P ly s g \<Longrightarrow> \<not> policy_count mode (st s) \<Longrightarrow> Q ly s g"
begin

lemma climb:
  assumes "reached I K R E pgs L P r"
  shows "reached I K R E pgs L Q (next_policy mode pol on_fail r)"
proof -
  obtain ret ly s g where r: "r = Some (ret, ly, s, g)"
    "if ret = 0 then won I K R E pgs L ly s else ret = -1 \<and> P ly s g"
    using assms by (auto simp: reached_def)
  show ?thesis
  proof (cases "ret = 0 \<or> \<not> policy_count mode (st s)")
    case True
    with r skip show ?thesis by (auto simp: next_policy_def reached_def split: if_splits)
  next
    case False
    then have "P ly s g" "policy_count mode (st s)" using r(2) by auto
    from tries [OF this] obtain ret' ly' s' g' where "pol ly (s, g) = Some (ret', ly', s', g')"
      "if ret' = 0 then won I K R E pgs L ly' s' else Q ly' (on_fail s') g'"
      by blast
    with False r(1) show ?thesis by (cases "ret' = 0") (simp_all add: next_policy_def reached_def)
  qed
qed

end

section \<open>What holds between the rungs\<close>

definition wants :: "ComposeMode list \<Rightarrow> vop \<Rightarrow> bool" where
  "wants ms s \<longleftrightarrow> (\<exists>m \<in> set ms. policy_count m (st s))"

text \<open>All layers are there, with their own buffers.\<close>

definition whole :: "identities \<Rightarrow> lptr list \<Rightarrow> level" where
  "whole I L ly s g \<longleftrightarrow> identity s = I \<and> blit_ready ly s g \<and> mset ly = mset L"

text \<open>Some are, and all unless a blit failed.\<close>

definition partial :: "identities \<Rightarrow> rga_env \<Rightarrow> lptr list \<Rightarrow> level" where
  "partial I R L ly s g \<longleftrightarrow>
     identity s = I \<and> ready ly s \<and> ly \<noteq> [] \<and> mset ly \<subseteq># mset L \<and>
     (reliable R \<longrightarrow> mset ly = mset L)"

definition gles_failed :: "identities \<Rightarrow> rga_env \<Rightarrow> gptr list \<Rightarrow> lptr list \<Rightarrow> level" where
  "gles_failed I R pgs L ly s g \<longleftrightarrow>
     partial I R L ly s g \<and> free_groups pgs s \<and> (\<forall>p \<in> set ly. \<not> bMatch (heap s p))"

lemma whole_partial: "whole I L ly s g \<Longrightarrow> partial I R L ly s g"
  using blit_ready_nonempty by (auto simp: whole_def partial_def blit_ready_def)

lemma identity_keeps: "keeps s s' \<Longrightarrow> identity s' = identity s"
  by (simp add: keeps_def identity_def)

lemmas identity_frame = identity_keeps [OF frame_keeps]

lemma won_full: "identity s = I \<Longrightarrow> mset ly0 = mset L \<Longrightarrow> success K E pgs ly0 ly s \<Longrightarrow> won I K R E pgs L ly s"
  unfolding won_def by (intro conjI exI [of _ ly0]) simp_all

lemma partial_st [simp]:
  "partial I R L ly (s\<lparr> st := c \<rparr>) g = partial I R L ly s g"
  by (simp add: partial_def ready_def identity_def)

lemma whole_st [simp]: "whole I L ly (s\<lparr> st := c \<rparr>) g = whole I L ly s g"
  by (simp add: whole_def blit_ready_def ready_def own_def identity_def)

lemma wants_keeps: "setHwcPolicy (st s') = setHwcPolicy (st s) \<Longrightarrow> wants ms s' = wants ms s"
  by (simp add: wants_def policy_count_def)

text \<open>An ordinary policy, tried on what is left.\<close>

lemma ordinary_rung:
  assumes p: "partial I R L ly s g"
    and pol: "\<exists>r. pol ly s = Some r \<and> outcome K E pgs ly s r"
  shows "\<exists>ret ly' s'. lift_policy pol ly (s, g) = Some (ret, ly', s', g) \<and> frame s s' \<and>
    (if ret = 0 then won I K R E pgs L ly' s'
     else partial I R L ly' s' g \<and> mset ly' = mset ly)"
proof -
  obtain ret ly' s' where o: "pol ly s = Some (ret, ly', s')" "outcome K E pgs ly s (ret, ly', s')"
    using pol by auto
  have f: "frame s s'" using o(2) by (simp add: outcome_def)
  have i: "identity s' = I" using identity_frame [OF f] p by (simp add: partial_def)
  show ?thesis
  proof (cases "ret = 0")
    case True
    with o(2) have "success K E pgs ly ly' s'" by (simp add: outcome_def)
    then have "won I K R E pgs L ly' s'" using p i unfolding won_def partial_def by blast
    with o(1) f True show ?thesis by (simp add: lift_policy_def)
  next
    case False
    then have m: "mset ly' = mset ly" using o(2) by (simp add: outcome_def failure_def)
    then have "partial I R L ly' s' g"
      using p i ready_mset [OF ready_frame [OF f] m] by (auto simp: partial_def)
    with o(1) f False m show ?thesis by (simp add: lift_policy_def)
  qed
qed

lemma ordinary_whole:
  assumes "whole I L ly s g" "frame s s'" "mset ly' = mset ly"
  shows "whole I L ly' s' g"
  using assms blit_ready_keeps(1) [OF _ same_buf_frame [OF assms(2)] assms(3)]
    identity_frame [OF assms(2)]
  by (simp add: whole_def)

text \<open>A policy with the 2D engine, tried while everything is in place.\<close>

lemma blit_rung:
  assumes w: "whole I L ly s g" and r: "fits_rung clean K R E pgs ly s r"
  shows "\<exists>ret ly' s' g'. r = Some (ret, ly', s', g') \<and>
    setHwcPolicy (st s') = setHwcPolicy (st s) \<and>
    (if ret = 0 then won I K R E pgs L ly' s'
     else partial I R L ly' s' g' \<and> (reliable R \<and> clean \<longrightarrow> whole I L ly' s' g'))"
proof -
  obtain ret ly' s' g' where f: "r = Some (ret, ly', s', g')" "rung K R E pgs ly s (ret, ly', s')"
    "queue_ok (rg_queue g')" "clean \<and> ret \<noteq> 0 \<longrightarrow> own ly s'"
    using r by (auto simp: fits_rung_def)
  have k: "keeps s s'" and m: "mset ly = mset L" and b: "blit_ready ly s g"
    using f(2) w by (simp_all add: rung_def whole_def)
  have i: "identity s' = I" using identity_keeps [OF k] w by (simp add: whole_def)
  show ?thesis
  proof (cases "ret = 0")
    case True
    then have "success K E pgs ly ly' s'" using f(2) by (simp add: rung_def)
    with won_full [OF i m] f(1) k True show ?thesis by (simp add: keeps_def)
  next
    case False
    then have u: "ly' \<noteq> []" "mset ly' \<subseteq># mset ly" "reliable R \<longrightarrow> undone pgs ly ly' s s'"
      using f(2) by (auto simp: rung_def)
    have rd: "ready ly' s'"
      using ready_sub [OF _ u(2)] keeps_ready [OF k] b by (simp add: blit_ready_def)
    have p: "partial I R L ly' s' g'" using rd u m i by (simp add: partial_def undone_def)
    have "whole I L ly' s' g'" if "reliable R \<and> clean"
    proof -
      have ml: "mset ly' = mset ly" using u(3) that by (simp add: undone_def)
      then have sl: "set ly' = set ly" by (metis set_mset_mset)
      have "frame_ok (heap s' p) = frame_ok (heap s p)" for p
        using k by (simp add: keeps_def ident_def frame_ok_def)
      then show ?thesis
        using b rd f(3,4) that False ml m i keeps_fb [OF k]
        by (simp add: whole_def blit_ready_def own_def sl)
    qed
    with p f(1) k False show ?thesis by (simp add: keeps_def)
  qed
qed

section \<open>The rungs\<close>

definition start_level :: "identities \<Rightarrow> rga_env \<Rightarrow> lptr list \<Rightarrow> level" where
  "start_level I R L ly s g \<longleftrightarrow>
     whole I L ly s g \<and>
     (\<not> policy_count HWC_SPLIT_MODE_POLICY (st s) \<or> reliable R \<and> split_fresh ly s g) \<and>
     wants [HWC_OVERLAY_POLICY, HWC_MIX_POLICY, HWC_GLES_POLICY] s"

definition whole_wants :: "identities \<Rightarrow> lptr list \<Rightarrow> ComposeMode list \<Rightarrow> level" where
  "whole_wants I L ms ly s g \<longleftrightarrow> whole I L ly s g \<and> wants ms s"

definition partial_wants :: "identities \<Rightarrow> rga_env \<Rightarrow> lptr list \<Rightarrow> ComposeMode list \<Rightarrow> level" where
  "partial_wants I R L ms ly s g \<longleftrightarrow> partial I R L ly s g \<and> wants ms s"

lemma frame_policies: "frame s s' \<Longrightarrow> setHwcPolicy (st s') = setHwcPolicy (st s)"
  by (simp add: frame_def)

lemma TryMix_wants: "wants [HWC_MIX_POLICY, HWC_GLES_POLICY] (TryMix s)"
  by (simp add: wants_def policy_count_def TryMix_def Let_def)

lemma TryMix_level [simp]:
  "whole I L ly (TryMix s) g = whole I L ly s g"
  by (simp add: TryMix_def Let_def)

interpretation split_rung: ladder_rung I K R E pgs L HWC_SPLIT_MODE_POLICY
  "TrySplitPolicy K F R E pgs" "\<lambda>s. s" "start_level I R L"
  "whole_wants I L [HWC_OVERLAY_POLICY, HWC_MIX_POLICY, HWC_GLES_POLICY]" for I K R E pgs L F
proof
  fix ly s g
  assume p: "start_level I R L ly s g"
  then have w: "whole I L ly s g" by (simp_all add: start_level_def)
  have b: "blit_ready ly s g" using w by (simp add: whole_def)
  show "\<not> policy_count HWC_SPLIT_MODE_POLICY (st s) \<Longrightarrow>
      whole_wants I L [HWC_OVERLAY_POLICY, HWC_MIX_POLICY, HWC_GLES_POLICY] ly s g"
    using p by (simp add: start_level_def whole_wants_def)
  assume "policy_count HWC_SPLIT_MODE_POLICY (st s)"
  then have "reliable R" "split_fresh ly s g" using p by (simp_all add: start_level_def)
  with blit_rung [OF w TrySplit_rung [OF b, of K R E pgs F]] p wants_keeps
  show "\<exists>ret ly' s' g'. TrySplitPolicy K F R E pgs ly (s, g) = Some (ret, ly', s', g') \<and>
      (if ret = 0 then won I K R E pgs L ly' s'
       else whole_wants I L [HWC_OVERLAY_POLICY, HWC_MIX_POLICY, HWC_GLES_POLICY] ly' s' g')"
    unfolding whole_wants_def start_level_def by metis
qed

interpretation overlay_rung: ladder_rung I K R E pgs L HWC_OVERLAY_POLICY
  "lift_policy (TryOverlayPolicy K E pgs)" TryMix
  "whole_wants I L [HWC_OVERLAY_POLICY, HWC_MIX_POLICY, HWC_GLES_POLICY]"
  "whole_wants I L [HWC_MIX_POLICY, HWC_GLES_POLICY]" for I K R E pgs L
proof
  fix ly s g
  assume p: "whole_wants I L [HWC_OVERLAY_POLICY, HWC_MIX_POLICY, HWC_GLES_POLICY] ly s g"
  then have w: "whole I L ly s g" by (simp add: whole_wants_def)
  show "\<not> policy_count HWC_OVERLAY_POLICY (st s) \<Longrightarrow>
      whole_wants I L [HWC_MIX_POLICY, HWC_GLES_POLICY] ly s g"
    using p by (simp add: whole_wants_def wants_def)
  have r: "ready ly s" "ly \<noteq> []"
    using whole_partial [OF w, of "R"] by (simp_all add: partial_def)
  obtain ret ly' s' where o: "lift_policy (TryOverlayPolicy K E pgs) ly (s, g) = Some (ret, ly', s', g)"
    "frame s s'" "if ret = 0 then won I K R E pgs L ly' s'
       else partial I R L ly' s' g \<and> mset ly' = mset ly"
    using ordinary_rung [where pol = "TryOverlayPolicy K E pgs", OF whole_partial [OF w] overlay.contract [OF r]] by blast
  then show "\<exists>ret ly' s' g'. lift_policy (TryOverlayPolicy K E pgs) ly (s, g) =
        Some (ret, ly', s', g') \<and>
      (if ret = 0 then won I K R E pgs L ly' s'
       else whole_wants I L [HWC_MIX_POLICY, HWC_GLES_POLICY] ly' (TryMix s') g')"
    using ordinary_whole [OF w o(2)] TryMix_wants by (auto simp: whole_wants_def)
qed

interpretation rga_rung: ladder_rung I K R E pgs L HWC_RGA_OVERLAY_POLICY
  "TryRgaOverlayPolicy K F R E pgs" "\<lambda>s. s" "whole_wants I L ms" "partial_wants I R L ms"
  for I K R E pgs L F ms
proof
  fix ly s g
  assume p: "whole_wants I L ms ly s g"
  then have w: "whole I L ly s g" by (simp add: whole_wants_def)
  then have b: "blit_ready ly s g" by (simp add: whole_def)
  show "\<not> policy_count HWC_RGA_OVERLAY_POLICY (st s) \<Longrightarrow> partial_wants I R L ms ly s g"
    using p whole_partial by (auto simp: whole_wants_def partial_wants_def)
  show "\<exists>ret ly' s' g'. TryRgaOverlayPolicy K F R E pgs ly (s, g) = Some (ret, ly', s', g') \<and>
      (if ret = 0 then won I K R E pgs L ly' s' else partial_wants I R L ms ly' s' g')"
  proof (cases "bRgaPolicyEnable (st s)")
    case False
    with p w whole_partial show ?thesis
      by (auto simp: TryRgaOverlayPolicy_def whole_wants_def partial_wants_def)
  next
    case True
    from blit_rung [OF w TryRgaOverlay_rung [OF b True, of K R E pgs F]] p wants_keeps
    show ?thesis unfolding whole_wants_def partial_wants_def by metis
  qed
qed

text \<open>The ordinary policies on what is left.\<close>

lemma ordinary_step:
  assumes p: "partial_wants I R L ms ly s g"
    and pol: "\<And>ly s. ready ly s \<Longrightarrow> ly \<noteq> [] \<Longrightarrow> \<exists>r. pol ly s = Some r \<and> outcome K E pgs ly s r"
  shows "\<exists>ret ly' s' g'. lift_policy pol ly (s, g) = Some (ret, ly', s', g') \<and>
    (if ret = 0 then won I K R E pgs L ly' s' else partial_wants I R L ms ly' s' g')"
proof -
  have r: "partial I R L ly s g" "ready ly s" "ly \<noteq> []"
    using p by (simp_all add: partial_wants_def partial_def)
  obtain ret ly' s' where o: "lift_policy pol ly (s, g) = Some (ret, ly', s', g)" "frame s s'"
    "if ret = 0 then won I K R E pgs L ly' s' else partial I R L ly' s' g \<and> mset ly' = mset ly"
    using ordinary_rung [where pol = pol, OF r(1) pol [OF r(2,3)]] by blast
  have "wants ms s'"
    using p wants_keeps [OF frame_policies [OF o(2)]] by (simp add: partial_wants_def)
  with o(1,3) show ?thesis by (cases "ret = 0") (simp_all add: partial_wants_def)
qed

interpretation mix_rung: ladder_rung I K R E pgs L HWC_MIX_POLICY
  "lift_policy (TryMixPolicy K E pgs)" allow_gles
  "partial_wants I R L [HWC_MIX_POLICY, HWC_GLES_POLICY]" "partial_wants I R L [HWC_GLES_POLICY]"
  for I K R E pgs L
proof
  fix ly s g
  assume p: "partial_wants I R L [HWC_MIX_POLICY, HWC_GLES_POLICY] ly s g"
  show "\<not> policy_count HWC_MIX_POLICY (st s) \<Longrightarrow> partial_wants I R L [HWC_GLES_POLICY] ly s g"
    using p by (simp add: partial_wants_def wants_def)
  have "partial_wants I R L [HWC_GLES_POLICY] ly' (allow_gles s') g'"
    if "partial_wants I R L ms ly' s' g'" for ly' s' g' ms
    using that by (simp add: partial_wants_def wants_def allow_gles_def policy_count_def)
  with ordinary_step [OF p mix.contract]
  show "\<exists>ret ly' s' g'. lift_policy (TryMixPolicy K E pgs) ly (s, g) = Some (ret, ly', s', g') \<and>
      (if ret = 0 then won I K R E pgs L ly' s'
       else partial_wants I R L [HWC_GLES_POLICY] ly' (allow_gles s') g')" by metis
qed

interpretation gles_sideband_rung: ladder_rung I K R E pgs L HWC_GLES_SIDEBAND_POLICY
  "lift_policy (TryGlesSidebandPolicy K E pgs)" "\<lambda>s. s" "partial_wants I R L ms"
  "partial_wants I R L ms" for I K R E pgs L ms
  by unfold_locales (rule ordinary_step [OF _ gles_sideband.contract], assumption, assumption)

interpretation gles_rung: ladder_rung I K R E pgs L HWC_GLES_POLICY
  "lift_policy (TryGLESPolicy K E pgs)" "\<lambda>s. s" "partial_wants I R L [HWC_GLES_POLICY]"
  "gles_failed I R pgs L" for I K R E pgs L
proof
  fix ly s g
  assume p: "partial_wants I R L [HWC_GLES_POLICY] ly s g"
  show "\<not> policy_count HWC_GLES_POLICY (st s) \<Longrightarrow> gles_failed I R pgs L ly s g"
    using p by (simp add: partial_wants_def wants_def)
  have r: "partial I R L ly s g" "ready ly s" "ly \<noteq> []"
    using p by (simp_all add: partial_wants_def partial_def)
  obtain ret ly' s' where c: "TryGLESPolicy K E pgs ly s = Some (ret, ly', s')" "frame s s'"
    "mset ly' = mset ly" "ret = 0 \<and> success K E pgs ly ly' s' \<or> ret = -1 \<and> cleared pgs ly s s'"
    using TryGLESPolicy_cases [OF r(2,3), of K E pgs] by blast
  have sl: "set ly' = set ly" using c(3) by (metis set_mset_mset)
  have "partial I R L ly' s' g"
    using r c(3) identity_frame [OF c(2)] ready_mset [OF ready_frame [OF c(2)] c(3)] by (auto simp: partial_def)
  moreover have "won I K R E pgs L ly' s'" if "success K E pgs ly ly' s'"
    using that r(1) identity_frame [OF c(2)] unfolding won_def partial_def by blast
  ultimately show "\<exists>ret ly' s' g'. lift_policy (TryGLESPolicy K E pgs) ly (s, g) =
        Some (ret, ly', s', g') \<and>
      (if ret = 0 then won I K R E pgs L ly' s' else gles_failed I R pgs L ly' s' g')"
    using c(1,4) by (auto simp: lift_policy_def gles_failed_def cleared_def sl)
qed

section \<open>The ladder\<close>

lemma marked_same:
  assumes "marked_layer l l'"
  shows "ident l' = ident l" "buf l' = buf l"
proof -
  have l: "l' = l\<lparr> bGlesCompose := bGlesCompose l', bAccelerateLayer := bAccelerateLayer l' \<rparr>"
    using assms by (simp add: marked_layer_def)
  show "ident l' = ident l" "buf l' = buf l" by (subst l, simp add: ident_def)+
qed

lemma prepared_same:
  assumes "prepared_layer l l'"
  shows "ident l' = ident l" "buf l' = buf l"
proof -
  obtain m where m: "marked_layer l m" "l' = m\<lparr> bAfbcd := bAfbcd l' \<rparr>"
    using assms by (auto simp: prepared_layer_def)
  have "ident (m\<lparr> bAfbcd := b \<rparr>) = ident m" for b by (simp add: ident_def)
  then show "ident l' = ident l" using m(2) marked_same(1) [OF m(1)] by metis
  show "buf l' = buf l" by (subst m(2)) (simp add: marked_same [OF m(1)])
qed

lemma InitContext_ready:
  assumes "blit_ready L s g"
  shows "blit_ready L (InitContext K E L pgs gles s) g"
    "split_fresh L s g \<Longrightarrow> split_fresh L (InitContext K E L pgs gles s) g"
proof -
  let ?s = "InitContext K E L pgs gles s"
  have p: "prepared_layer (heap s q) (heap ?s q)" for q by (simp add: context_state_layers)
  have i: "ident (heap ?s q) = ident (heap s q)" and b: "buf (heap ?s q) = buf (heap s q)" for q
    using prepared_same [OF p] by auto
  have "frame_ok (heap ?s q) = frame_ok (heap s q)" "is_fb (heap ?s) q = is_fb (heap s) q" for q
    using i [of q] by (simp_all only: ident_def frame_ok_def is_fb_def prod.inject)
  then show "blit_ready L ?s g"
    using assms ready_InitContext unfolding blit_ready_def own_def b by blast
  show "split_fresh L s g \<Longrightarrow> split_fresh L ?s g" unfolding split_fresh_def b .
qed

lemma InitContext_wants:
  "wants [HWC_OVERLAY_POLICY, HWC_MIX_POLICY, HWC_GLES_POLICY] (InitContext K E L pgs gles s)"
  by (simp add: wants_def policy_count_def InitContext_def Let_def TryOverlay_def TryMix_def)

text \<open>The split policy is on for this frame.\<close>

definition splits :: "sdk \<Rightarrow> env \<Rightarrow> lptr list \<Rightarrow> gptr list \<Rightarrow> bool \<Rightarrow> vop \<Rightarrow> bool" where
  "splits K E L pgs gles s \<longleftrightarrow> policy_count HWC_SPLIT_MODE_POLICY (st (InitContext K E L pgs gles s))"

lemma ladder_result:
  assumes b: "blit_ready L s g" and ne: "pgs \<noteq> []"
    and r: "splits K E L pgs gles s \<longrightarrow> reliable R \<and> split_fresh L s g"
  shows "reached (identity s) K R E pgs L (gles_failed (identity s) R pgs L)
    (TryHwcPolicy K F R E pgs gles L (s, g))"
proof -
  let ?I = "identity s"
  have "prepared_layer (heap s q) (heap (InitContext K E L pgs gles s) q)" for q
    by (simp add: context_state_layers)
  then have i: "identity (InitContext K E L pgs gles s) = ?I"
    using prepared_same(1) by (auto simp: identity_def)
  have "reached ?I K R E pgs L (start_level ?I R L) (Some (-1, L, InitContext K E L pgs gles s, g))"
    using InitContext_ready [OF b] r i InitContext_wants
    by (auto simp: reached_def start_level_def whole_def splits_def)
  from gles_rung.climb [OF gles_sideband_rung.climb [OF mix_rung.climb [OF rga_rung.climb
    [OF overlay_rung.climb [OF split_rung.climb [OF this]]]]]]
  show ?thesis using ne by (simp add: TryHwcPolicy_def Let_def)
qed

text \<open>A layer that is on a plane.\<close>

definition shown :: "vop \<Rightarrow> lptr \<Rightarrow> bool" where
  "shown s p \<longleftrightarrow> bMatch (heap s p) \<and> (\<exists>e \<in> set (comp s). cp_source e = iDrmZpos (heap s p))"

lemma won_fb:
  assumes "won (identity s) K R E pgs L ly s'"
  shows "is_fb (heap s') = is_fb (heap s)"
proof -
  have "ident (heap s' p) = ident (heap s p)" for p
    using assms unfolding won_def identity_def by metis
  then show ?thesis by (auto simp: ident_def is_fb_def fun_eq_iff)
qed

lemma won_entries:
  assumes "won I K R E pgs L ly s"
  shows "distinct (List.map cp_plane (comp s))"
    "\<forall>e \<in> set (comp s). usable E pgs (gheap s) (cp_plane e) \<and>
       (\<exists>q \<in> set L. cp_source e = iDrmZpos (heap s q) \<and>
          fits K E (st s) (heap s q) (plane_at (gheap s) (cp_plane e)))"
    "reliable R \<longrightarrow> (\<forall>p \<in> set L. \<not> is_fb (heap s) p \<longrightarrow> shown s p) \<or>
       (\<forall>p \<in> set L. is_fb (heap s) p \<longrightarrow> shown s p)"
proof -
  obtain L0 M where w: "mset L0 \<subseteq># mset L" "reliable R \<longrightarrow> mset L0 = mset L"
    "mset ly \<subseteq># mset L0" "set M \<subseteq> set ly" "matched K E pgs M s"
    "(\<forall>p \<in> set L0. \<not> is_fb (heap s) p \<longrightarrow> p \<in> set M) \<or>
     (\<forall>p \<in> set L0. is_fb (heap s) p \<longrightarrow> p \<in> set M)"
    using assms by (auto simp: won_def success_def)
  have M: "set M \<subseteq> set L" using w(1,3,4) mset_sub_nonempty by blast
  have c: "comp_ok K E pgs M s" using w(5) by (simp add: matched_def)
  show "distinct (List.map cp_plane (comp s))" using c by (simp add: comp_ok_def)
  show "\<forall>e \<in> set (comp s). usable E pgs (gheap s) (cp_plane e) \<and>
      (\<exists>q \<in> set L. cp_source e = iDrmZpos (heap s q) \<and>
         fits K E (st s) (heap s q) (plane_at (gheap s) (cp_plane e)))"
    using c M unfolding comp_ok_def entry_ok_def by blast
  have sh: "\<forall>p \<in> set M. shown s p" using w(5) by (simp add: matched_def shown_def)
  have "reliable R \<longrightarrow> set L0 = set L" using w(2) by (metis set_mset_mset)
  with sh w(6) show "reliable R \<longrightarrow> (\<forall>p \<in> set L. \<not> is_fb (heap s) p \<longrightarrow> shown s p) \<or>
      (\<forall>p \<in> set L. is_fb (heap s) p \<longrightarrow> shown s p)" by blast
qed

section \<open>Properties\<close>

text \<open>
  C1: A frame has an FB target and at least one application layer, all in use, with distinct numbers,
  non-empty display frames and no mark of the 2D engine; the buffer queue is well formed and there is
  a plane group.  On a display of a video wall, where the split policy is on, moreover no blit fails
  and that policy has no buffer to use again: its queue is empty, as before the first blit, or no
  layer has the id the policy remembers.  Then \<open>TryHwcPolicy\<close> returns \<open>0\<close> or \<open>-1\<close>, whichever
  policies it goes through.  With \<open>0\<close> no plane is used twice, and every entry of the composition is
  for a layer of the frame, on a plane of the display, not reserved, that the CRTC can use, and that
  passes for this layer the code's tests: input and output size, scaling, HDR, pixel format and
  rotation; for an FB target, whose compression the code may change, the last two with or without
  compression.  If no blit fails, either all application layers are on planes or all FB targets are,
  which show the layers left to the GPU.
\<close>

theorem TryHwcPolicy_sound:
  assumes "blit_ready L s g" "pgs \<noteq> []" "splits K E L pgs gles s \<longrightarrow> reliable R \<and> split_fresh L s g"
  shows "\<exists>ret ly s' g'. TryHwcPolicy K F R E pgs gles L (s, g) = Some (ret, ly, s', g') \<and>
    ret \<in> {0, -1} \<and>
    (ret = 0 \<longrightarrow> distinct (List.map cp_plane (comp s')) \<and>
      (\<forall>e \<in> set (comp s'). usable E pgs (gheap s') (cp_plane e) \<and>
         (\<exists>q \<in> set L. cp_source e = iDrmZpos (heap s' q) \<and>
            fits K E (st s') (heap s' q) (plane_at (gheap s') (cp_plane e)))) \<and>
      (reliable R \<longrightarrow> (\<forall>p \<in> set L. \<not> is_fb (heap s) p \<longrightarrow> shown s' p) \<or>
         (\<forall>p \<in> set L. is_fb (heap s) p \<longrightarrow> shown s' p)))"
proof -
  obtain ret ly s' g' where r: "TryHwcPolicy K F R E pgs gles L (s, g) = Some (ret, ly, s', g')"
    "if ret = 0 then won (identity s) K R E pgs L ly s'
     else ret = -1 \<and> gles_failed (identity s) R pgs L ly s' g'"
    using ladder_result [OF assms, where F = F] by (auto simp: reached_def)
  show ?thesis
  proof (cases "ret = 0")
    case True
    with r(2) have w: "won (identity s) K R E pgs L ly s'" by simp
    then have fb: "is_fb (heap s') = is_fb (heap s)" using won_fb by blast
    from won_entries [OF w] r(1) True show ?thesis unfolding fb by blast
  next
    case False
    with r show ?thesis by simp
  qed
qed

text \<open>An engine that never fails.\<close>

definition rga_env1 :: rga_env where
  "rga_env1 = rga_env0\<lparr> rg_process := (\<lambda>a b c d f u. Some 3) \<rparr>"

lemma reliable_rga_env1: "reliable rga_env1"
  by (simp add: reliable_def rga_env1_def)

text \<open>A frame whose FB target has the buffer id \<open>0\<close>, like the ids the policies start with.\<close>

definition vop_frame :: vop where
  "vop_frame = vop_rga\<lparr> heap := (heap vop_rga)(3 := (heap vop_rga 3)\<lparr> buf := buf0\<lparr> uBufferId := 0 \<rparr> \<rparr>) \<rparr>"

lemma blit_ready_vop_frame: "blit_ready [0, 1, 3] vop_frame rga_state0"
  using blit_ready_vop_rga
  by (simp add: vop_frame_def vop_rga_def blit_ready_def ready_def distinct_layers_def own_def frame_ok_def is_fb_def buf0_def)

lemma split_fresh_vop_frame: "split_fresh L s rga_state0"
  by (simp add: split_fresh_def rga_state0_def queue0_def)

lemma known_vop_frame: "known rga_state0 (heap vop_frame 3)"
  by (simp add: known_def rga_state0_def vop_frame_def)

lemma TryHwcPolicy_sound_witness:
  "known rga_state0 (heap vop_frame 3) \<and> (\<exists>ret ly s' g'. TryHwcPolicy sdk0 formats0 rga_env1 env0 [0, 1] False [0, 1, 3]
       (vop_frame, rga_state0) = Some (ret, ly, s', g') \<and> ret \<in> {0, -1} \<and>
     (ret = 0 \<longrightarrow> distinct (List.map cp_plane (comp s'))))"
proof -
  have ne: "[0, 1::nat] \<noteq> []" by simp
  have sp: "splits sdk0 env0 [0, 1, 3] [0, 1] False vop_frame \<longrightarrow>
      reliable rga_env1 \<and> split_fresh [0, 1, 3] vop_frame rga_state0"
    using reliable_rga_env1 split_fresh_vop_frame by blast
  from TryHwcPolicy_sound [OF blit_ready_vop_frame ne sp, where F = formats0] known_vop_frame
  show ?thesis by blast
qed

text \<open>
  C2: For the same frames (an FB target and a layer of the application, distinct, in use, not empty
  and without a mark of the 2D engine; a well-formed queue; a plane group; with the split policy on,
  no blit that fails and no buffer to use again) \<open>TryHwcPolicy\<close> gives up only when the policy of the GPU
  has failed too: a result other than \<open>0\<close> is \<open>-1\<close>, the layers are in the vector, all of them if no
  blit fails and otherwise at least one, none of them is marked as matched and no plane of the
  groups is in use.  So a caller that falls back to the GPU for everything starts from a clean state.
\<close>

theorem TryHwcPolicy_gives_up_last:
  assumes "blit_ready L s g" "pgs \<noteq> []" "splits K E L pgs gles s \<longrightarrow> reliable R \<and> split_fresh L s g"
    and "TryHwcPolicy K F R E pgs gles L (s, g) = Some (ret, ly, s', g')" "ret \<noteq> 0"
  shows "ret = -1 \<and> ready ly s' \<and> ly \<noteq> [] \<and> mset ly \<subseteq># mset L \<and> (reliable R \<longrightarrow> mset ly = mset L) \<and>
    free_groups pgs s' \<and> (\<forall>p \<in> set ly. \<not> bMatch (heap s' p))"
  using ladder_result [OF assms(1-3), where F = F] assms(4,5)
  by (simp add: reached_def gles_failed_def partial_def)

text \<open>A CRTC that no plane group is attached to.\<close>

lemma TryHwcPolicy_gives_up_last_witness:
  "\<exists>ly s' g'. TryHwcPolicy sdk0 formats0 rga_env1 (env0\<lparr> pipe := 32 \<rparr>) [0, 1] False [0, 1, 3]
       (vop_frame, rga_state0) = Some (-1, ly, s', g') \<and> mset ly = mset [0, 1, 3] \<and>
     free_groups [0, 1] s'"
proof -
  let ?E = "env0\<lparr> pipe := 32 \<rparr>"
  have ne: "[0, 1::nat] \<noteq> []" by simp
  have sp: "splits sdk0 ?E [0, 1, 3] [0, 1] False vop_frame \<longrightarrow>
      reliable rga_env1 \<and> split_fresh [0, 1, 3] vop_frame rga_state0"
    using reliable_rga_env1 split_fresh_vop_frame by blast
  note h = blit_ready_vop_frame ne sp
  obtain ret ly s' g' where r: "TryHwcPolicy sdk0 formats0 rga_env1 ?E [0, 1] False [0, 1, 3]
       (vop_frame, rga_state0) = Some (ret, ly, s', g')"
    "if ret = 0 then won (identity vop_frame) sdk0 rga_env1 ?E [0, 1] [0, 1, 3] ly s'
     else ret = -1 \<and> gles_failed (identity vop_frame) rga_env1 [0, 1] [0, 1, 3] ly s' g'"
    using ladder_result [OF h, where F = formats0]
    by (auto simp: reached_def)
  have "\<not> won (identity vop_frame) sdk0 rga_env1 ?E [0, 1] [0, 1, 3] ly s'"
  proof
    assume w: "won (identity vop_frame) sdk0 rga_env1 ?E [0, 1] [0, 1, 3] ly s'"
    have z: "push_bit 32 (1::32 word) = 0" by code_simp
    have "crtc_bit ?E = push_bit 32 1" by (simp add: crtc_bit_def)
    then have "\<not> usable ?E [0, 1] (gheap s') pp" for pp unfolding usable_def z by simp
    then have "comp s' = []" using won_entries(2) [OF w] by (cases "comp s'") auto
    then have ns: "\<not> shown s' p" for p by (simp add: shown_def)
    have fb: "is_fb (heap s') p = (p = 3)" if "p \<in> {0, 1, 3}" for p
      using that unfolding won_fb [OF w] by (auto simp: is_fb_def vop_frame_def vop_rga_def bands_def layer0_def)
    show False using won_entries(3) [OF w] reliable_rga_env1 ns fb by auto
  qed
  then have "ret \<noteq> 0" using r(2) by auto
  from TryHwcPolicy_gives_up_last [OF h r(1) this] r(1) reliable_rga_env1 show ?thesis by blast
qed

text \<open>
  \<open>Planner::TryHwcPolicy\<close> has a stage for the RK3588 only.  On any other SoC, of the device or of
  the CRTC, it reports \<open>-1\<close> with an empty composition and touches no layer and no plane.  On the
  RK3588 the result is that of \<open>Vop3588::TryHwcPolicy\<close> started with an empty composition, and a
  failure hands out an empty one.
\<close>

lemma Planner_stages:
  "Planner_TryHwcPolicy K F R E device_soc pgs gles L (s, g) =
    (if device_soc = 0x3588 \<and> crtc_soc_id E = 0x3588 then
       (case TryHwcPolicy K F R E pgs gles L (s\<lparr> comp := [] \<rparr>, g) of
          None \<Rightarrow> None
        | Some (ret, ly, s', g') \<Rightarrow>
            Some (ret, ly, if ret = 0 then s' else s'\<lparr> comp := [] \<rparr>, g'))
     else Some (-1, L, s\<lparr> comp := [] \<rparr>, g))"
  by (auto simp: Planner_TryHwcPolicy_def planner_stages_def SupportPlatform_def
      split: option.split prod.split)

end
