(* ===== verification/Display_Pipe.thy ===== *)
theory Display_Pipe
  imports Drm_Mode Plane_Group
begin

text \<open>
  The display routing of \<open>drm/drmdevice.cpp\<close>: the state of CRTCs, encoders and connectors
  (\<open>drm/drmcrtc.cpp\<close>, \<open>drm/drmencoder.cpp\<close>, \<open>include/drmconnector.h\<close>), the queries on it and
  the calls into libdrm.

  Objects live in stores addressed by pointers.  What construction and \<open>Init\<close> fix for good (the
  identifiers, the possible encoders and CRTCs, property ids) is the record \<open>topo\<close>; what the
  operations change is the record \<open>pipe\<close>.  The kernel is the record \<open>world\<close>: every call is
  answered by a function of the time of the call, so nothing is assumed about its answers.
  \<open>commits\<close> keeps the requests the kernel accepted, \<open>blobs\<close> the mode every mode blob was created
  with, \<open>reports\<close> the last text written to \<open>vendor.hwc.device.display-<n>\<close>.
\<close>

type_synonym cptr = nat
type_synonym eptr = nat
type_synonym nptr = nat

section \<open>The objects\<close>

datatype drmModeConnection =
  DRM_MODE_CONNECTED | DRM_MODE_DISCONNECTED | DRM_MODE_UNKNOWNCONNECTION

record crtc_info =
  ci_id :: u32
  ci_pipe :: nat
  ci_plane_mask :: u64
  ci_mode_prop :: u32
  ci_active_prop :: u32
  ci_width_prop :: u32
  ci_output_width :: u64
  ci_output_dclk :: u64
  ci_kernel_mode :: DrmMode
  ci_variable_rr :: DrmProperty
  ci_min_rr :: DrmProperty
  ci_max_rr :: DrmProperty

record conn_info =
  ni_id :: u32
  ni_type :: u32
  ni_type_id :: u32
  ni_possible_encoders :: "eptr list"
  ni_crtc_prop :: u32
  ni_color_format_prop :: u32
  ni_color_depth_prop :: u32

record topo =
  dev_crtcs :: "cptr list"
  dev_connectors :: "nptr list"
  ci :: "cptr \<Rightarrow> crtc_info"
  ei_possible_crtcs :: "eptr \<Rightarrow> cptr list"
  ni :: "nptr \<Rightarrow> conn_info"
  device_soc :: u32

record DrmCrtc =
  k_display :: int
  sync_kernel_mode :: bool

record DrmEncoder =
  e_crtc :: "cptr option"
  e_display :: int

record DrmConnector =
  n_display :: int
  n_priority :: int
  n_possible_displays :: u32
  n_state :: drmModeConnection
  n_hotplug_state :: drmModeConnection
  n_plug :: bool
  n_encoder :: "eptr option"
  n_active :: DrmMode
  n_current :: DrmMode
  n_best :: DrmMode
  n_modes :: "DrmMode list"
  n_raw_modes :: "DrmMode list"
  n_preferred :: u32
  n_mode_ready :: bool
  n_color_caps :: DrmProperty
  n_horizontal_split :: bool
  mKernelCrtcId :: int
  mirror_mode :: bool
  mirror_primary :: bool
  mirror_primary_id :: int
  connected_mirror_display_id_set :: "int list"

datatype conn_report = Report u32 u32 "u32 option" string

record assign_plane_group_3588 =
  display_type :: int
  drm_type_mask :: u64
  have_assigin :: bool

type_synonym request = "(u32 \<times> u32 \<times> u64) list"

record world =
  w_alloc :: "nat \<Rightarrow> bool"
  w_add :: "nat \<Rightarrow> bool"
  w_commit :: "nat \<Rightarrow> request \<Rightarrow> int"
  w_blob :: "nat \<Rightarrow> mode_info \<Rightarrow> int \<times> u32"

record pipe =
  now :: nat
  commits :: "request list"
  blobs :: "u32 \<Rightarrow> mode_info option"
  crtc :: "cptr \<Rightarrow> DrmCrtc"
  enc :: "eptr \<Rightarrow> DrmEncoder"
  conn :: "nptr \<Rightarrow> DrmConnector"
  groups :: "PlaneGroup list"
  assign_mask :: "assign_plane_group_3588 list"
  reports :: "int \<Rightarrow> conn_report option"

section \<open>Methods of the objects\<close>

definition upd_crtc :: "cptr \<Rightarrow> (DrmCrtc \<Rightarrow> DrmCrtc) \<Rightarrow> pipe \<Rightarrow> pipe" where
  "upd_crtc k f s = s\<lparr> crtc := (crtc s)(k := f (crtc s k)) \<rparr>"

definition upd_conn :: "nptr \<Rightarrow> (DrmConnector \<Rightarrow> DrmConnector) \<Rightarrow> pipe \<Rightarrow> pipe" where
  "upd_conn n f s = s\<lparr> conn := (conn s)(n := f (conn s n)) \<rparr>"

definition crtc_can_bind :: "int \<Rightarrow> DrmCrtc \<Rightarrow> bool" where
  "crtc_can_bind display k \<longleftrightarrow> k_display k = -1 \<or> k_display k = display"

definition crtc_set_display :: "int \<Rightarrow> DrmCrtc \<Rightarrow> DrmCrtc" where
  "crtc_set_display display k = k\<lparr> k_display := display \<rparr>"

definition has_sync_kernel_mode :: "DrmCrtc \<Rightarrow> DrmCrtc" where
  "has_sync_kernel_mode k = k\<lparr> sync_kernel_mode := False \<rparr>"

definition encoder_can_bind :: "int \<Rightarrow> DrmEncoder \<Rightarrow> bool" where
  "encoder_can_bind display e \<longleftrightarrow> e_display e = -1 \<or> e_display e = display"

definition encoder_set_crtc :: "eptr \<Rightarrow> cptr option \<Rightarrow> pipe \<Rightarrow> pipe" where
  "encoder_set_crtc e k s =
     s\<lparr> enc := (enc s)(e := (enc s e)\<lparr> e_crtc := k,
          e_display := (case k of None \<Rightarrow> -1 | Some k' \<Rightarrow> k_display (crtc s k')) \<rparr>) \<rparr>"

definition set_encoder :: "eptr option \<Rightarrow> DrmConnector \<Rightarrow> DrmConnector" where
  "set_encoder e n = n\<lparr> n_encoder := e \<rparr>"

definition set_active_mode :: "DrmMode \<Rightarrow> DrmConnector \<Rightarrow> DrmConnector" where
  "set_active_mode m n = n\<lparr> n_active := m \<rparr>"

definition reset_kernel_crtc_id :: "DrmConnector \<Rightarrow> DrmConnector" where
  "reset_kernel_crtc_id n = n\<lparr> mKernelCrtcId := 0 \<rparr>"

text \<open>\<open>std::set<int>\<close> as a sorted list without duplicates.\<close>

definition set_insert :: "int \<Rightarrow> int list \<Rightarrow> int list" where
  "set_insert d ds = (if d \<in> set ds then ds else insort d ds)"

definition enable_connector_mirror_mode :: "int \<Rightarrow> int \<Rightarrow> DrmConnector \<Rightarrow> DrmConnector" where
  "enable_connector_mirror_mode primary_display_id mirror_display_id n =
     (let n1 = n\<lparr> mirror_mode := True, mirror_primary := False,
                  mirror_primary_id := primary_display_id \<rparr>
      in if primary_display_id = n_display n
         then n1\<lparr> mirror_primary := True,
                  connected_mirror_display_id_set :=
                    set_insert mirror_display_id (connected_mirror_display_id_set n) \<rparr>
         else n1\<lparr> mirror_primary := False, connected_mirror_display_id_set := [] \<rparr>)"

definition disable_connector_mirror_mode :: "int \<Rightarrow> DrmConnector \<Rightarrow> DrmConnector" where
  "disable_connector_mirror_mode display_id n =
     (if mirror_primary n then
        (let ds = removeAll display_id (connected_mirror_display_id_set n);
             n1 = n\<lparr> connected_mirror_display_id_set := ds \<rparr>
         in if ds = [] then n1\<lparr> mirror_mode := False, mirror_primary := False \<rparr> else n1)
      else n\<lparr> mirror_mode := False \<rparr>)"

definition is_connector_mirror_primary :: "DrmConnector \<Rightarrow> bool" where
  "is_connector_mirror_primary n \<longleftrightarrow> mirror_mode n \<and> mirror_primary n"

definition get_connector_mirror_primary_id :: "DrmConnector \<Rightarrow> int" where
  "get_connector_mirror_primary_id n = (if mirror_mode n then mirror_primary_id n else -1)"

definition is_last_mirror_display_id :: "int \<Rightarrow> DrmConnector \<Rightarrow> bool" where
  "is_last_mirror_display_id display_id n \<longleftrightarrow>
     (if length (connected_mirror_display_id_set n) \<noteq> 1 then False
      else display_id \<in> set (connected_mirror_display_id_set n))"

definition RK_IF_FORMAT_YCBCR_HQ :: int where
  "RK_IF_FORMAT_YCBCR_HQ = 4"

definition IS_CF_SUPPORT :: "u64 \<Rightarrow> int \<Rightarrow> bool" where
  "IS_CF_SUPPORT caps fmt \<longleftrightarrow> push_bit (nat fmt) 1 AND caps \<noteq> 0"

definition FilterColorFormatWithCaps :: "sdk \<Rightarrow> DrmConnector \<Rightarrow> int \<Rightarrow> int" where
  "FilterColorFormatWithCaps K n inFormat =
     (if 0 < prop_id (n_color_caps n) then
        (case prop_value_of K (n_color_caps n) of (ret, caps) \<Rightarrow>
           if ret = 0 then (if IS_CF_SUPPORT caps inFormat then inFormat else RK_IF_FORMAT_YCBCR_HQ)
           else inFormat)
      else inFormat)"

section \<open>Look-up by display\<close>

definition DRM_CONNECTOR_SPLIT_MODE_MASK :: int where
  "DRM_CONNECTOR_SPLIT_MODE_MASK = 0xf0"

definition GetConnectorForDisplay :: "topo \<Rightarrow> int \<Rightarrow> pipe \<Rightarrow> nptr option" where
  "GetConnectorForDisplay T display s =
     find (\<lambda>n. n_display (conn s n) = display AND NOT DRM_CONNECTOR_SPLIT_MODE_MASK) (dev_connectors T)"

definition GetCrtcForDisplay :: "topo \<Rightarrow> int \<Rightarrow> pipe \<Rightarrow> cptr option" where
  "GetCrtcForDisplay T display s =
     find (\<lambda>k. k_display (crtc s k) = display AND NOT DRM_CONNECTOR_SPLIT_MODE_MASK) (dev_crtcs T)"

text \<open>The CRTC a connector is routed to: \<open>conn->encoder()->crtc()\<close>, each pointer checked.\<close>

definition routed :: "pipe \<Rightarrow> nptr \<Rightarrow> cptr option" where
  "routed s n = (case n_encoder (conn s n) of None \<Rightarrow> None | Some e \<Rightarrow> e_crtc (enc s e))"

definition CheckConnectorState :: "sdk \<Rightarrow> nptr option \<Rightarrow> bool \<Rightarrow> pipe \<Rightarrow> int" where
  "CheckConnectorState K no all s =
     (case no of
        None \<Rightarrow> - EINVAL K
      | Some n \<Rightarrow>
          if n_state (conn s n) \<noteq> DRM_MODE_CONNECTED then - EINVAL K
          else if \<not> all then 0
          else if n_encoder (conn s n) = None then - EINVAL K
          else if routed s n = None then - EINVAL K
          else if mode_id (n_current (conn s n)) = 0 then - EINVAL K
          else 0)"

text \<open>
  \<open>mode.h_display() * mode.v_display()\<close> is a product of 32 bits, widened by the third factor.
  The conversion of \<open>v_refresh()\<close> to an integer is undefined (\<open>None\<close>) where the quotient is.
\<close>

definition req_dclk :: "DrmMode \<Rightarrow> u64 option" where
  "req_dclk m =
     (case v_refresh m of None \<Rightarrow> None
      | Some r \<Rightarrow> Some (ucast (h_display m * v_display m) * word_of_int (trunc_rat r)))"

definition CheckCrtcOutputCapability :: "crtc_info \<Rightarrow> DrmMode \<Rightarrow> int option" where
  "CheckCrtcOutputCapability k mode =
     (if mode_id mode = 0 then Some (-1)
      else if ci_width_prop k = 0 then Some 0
      else if ci_output_width k < ucast (h_display mode) then Some (-1)
      else (case req_dclk mode of None \<Rightarrow> None
            | Some d \<Rightarrow> Some (if ci_output_dclk k < d then -1 else 0)))"

section \<open>Calls into libdrm\<close>

definition tick :: "pipe \<Rightarrow> pipe" where
  "tick s = s\<lparr> now := Suc (now s) \<rparr>"

definition atomic_alloc :: "world \<Rightarrow> pipe \<Rightarrow> bool \<times> pipe" where
  "atomic_alloc W s = (w_alloc W (now s), tick s)"

definition atomic_add ::
  "world \<Rightarrow> u32 \<Rightarrow> u32 \<Rightarrow> u64 \<Rightarrow> request \<times> pipe \<Rightarrow> bool \<times> request \<times> pipe" where
  "atomic_add W obj prop v ps =
     (case ps of (pset, s) \<Rightarrow>
        if w_add W (now s) then (True, pset @ [(obj, prop, v)], tick s) else (False, pset, tick s))"

text \<open>The macro of \<open>drmdevice.h\<close>: a failure is only logged.\<close>

definition DRM_ATOMIC_ADD_PROP ::
  "world \<Rightarrow> u32 \<Rightarrow> u32 \<Rightarrow> u64 \<Rightarrow> request \<times> pipe \<Rightarrow> request \<times> pipe" where
  "DRM_ATOMIC_ADD_PROP W obj prop v ps = (if prop \<noteq> 0 then snd (atomic_add W obj prop v ps) else ps)"

definition atomic_commit :: "world \<Rightarrow> request \<times> pipe \<Rightarrow> int \<times> pipe" where
  "atomic_commit W ps =
     (case ps of (pset, s) \<Rightarrow>
        let ret = w_commit W (now s) pset
        in (ret, tick (if ret < 0 then s else s\<lparr> commits := commits s @ [pset] \<rparr>)))"

definition CreatePropertyBlob :: "world \<Rightarrow> mode_info \<Rightarrow> pipe \<Rightarrow> int \<times> u32 \<times> pipe" where
  "CreatePropertyBlob W m s =
     (case w_blob W (now s) m of (ret, blob_id) \<Rightarrow>
        if ret \<noteq> 0 then (ret, 0, tick s)
        else (0, blob_id, tick (s\<lparr> blobs := (blobs s)(blob_id \<mapsto> m) \<rparr>)))"

definition DestroyPropertyBlob :: "u32 \<Rightarrow> pipe \<Rightarrow> pipe" where
  "DestroyPropertyBlob blob_id s = (if blob_id = 0 then s else tick s)"

definition report :: "int \<Rightarrow> conn_report \<Rightarrow> pipe \<Rightarrow> pipe" where
  "report display_id r s = s\<lparr> reports := (reports s)(display_id \<mapsto> r) \<rparr>"

definition conn_report_of :: "topo \<Rightarrow> nptr \<Rightarrow> cptr option \<Rightarrow> string \<Rightarrow> conn_report" where
  "conn_report_of T n k txt =
     Report (ni_type (ni T n)) (ni_type_id (ni T n)) (map_option (\<lambda>k. ci_id (ci T k)) k) txt"

end
