(* ===== verification/Assign_Plane.thy ===== *)
theory Assign_Plane
  imports Display_Pipe
begin

text \<open>
  \<open>platform/rk3588/drmhwc3588.cpp\<close> and \<open>HwcPlatform::TryAssignPlane\<close>: which display gets which
  plane groups.  When a connected CRTC reports a plane mask the masks decide; otherwise a table
  hands one cluster and one smart window to each display that asks.  The table is a global of
  the code and lives in the state.
\<close>

section \<open>The table\<close>

definition PLANE_RK3588_ALL_CLUSTER_OF :: "nat \<Rightarrow> u64" where
  "PLANE_RK3588_ALL_CLUSTER_OF i = push_bit (2 * i) 0x3"

definition PLANE_RK3588_ALL_ESMART_OF :: "nat \<Rightarrow> u64" where
  "PLANE_RK3588_ALL_ESMART_OF i = push_bit (4 * i) 0xf00"

definition assign_mask_default_3588 :: "assign_plane_group_3588 list" where
  "assign_mask_default_3588 =
     map (\<lambda>i. \<lparr> display_type = -1,
                drm_type_mask = PLANE_RK3588_ALL_CLUSTER_OF i OR PLANE_RK3588_ALL_ESMART_OF i,
                have_assigin = False \<rparr>) [0, 1, 2, 3]"

text \<open>The first row of the display, and the first row nobody has.\<close>

definition row_of_display :: "int \<Rightarrow> assign_plane_group_3588 list \<Rightarrow> u64" where
  "row_of_display display_id rows =
     (case find (\<lambda>r. display_id = display_type r) rows of None \<Rightarrow> 0 | Some r \<Rightarrow> drm_type_mask r)"

fun take_row ::
  "int \<Rightarrow> assign_plane_group_3588 list \<Rightarrow> u64 \<times> assign_plane_group_3588 list" where
  "take_row display_id [] = (0, [])"
| "take_row display_id (r # rows) =
     (if \<not> have_assigin r
      then (drm_type_mask r, r\<lparr> display_type := display_id, have_assigin := True \<rparr> # rows)
      else (case take_row display_id rows of (m, rows') \<Rightarrow> (m, r # rows')))"

definition choose_row ::
  "int \<Rightarrow> assign_plane_group_3588 list \<Rightarrow> u64 \<times> assign_plane_group_3588 list" where
  "choose_row display_id rows =
     (let m = row_of_display display_id rows
      in if m = 0 then take_row display_id rows else (m, rows))"

section \<open>The two ways to assign\<close>

definition crtc_mask :: "topo \<Rightarrow> cptr \<Rightarrow> u32" where
  "crtc_mask T k = push_bit (ci_pipe (ci T k)) 1"

definition give_group :: "u64 \<Rightarrow> u32 \<Rightarrow> int \<Rightarrow> PlaneGroup \<Rightarrow> PlaneGroup" where
  "give_group plane_mask cbit display g =
     (if plane_mask AND g_win_type g = g_win_type g
      then snd (set_current_crtc_display cbit display g) else g)"

text \<open>In split mode the cluster windows serve the left half, the smart windows the right half.\<close>

definition give_split_group :: "u64 \<Rightarrow> u32 \<Rightarrow> int \<Rightarrow> PlaneGroup \<Rightarrow> PlaneGroup" where
  "give_split_group plane_mask cbit display g =
     (if plane_mask AND g_win_type g = g_win_type g then
        (if has_bits (g_win_type g) PLANE_RK3588_ALL_CLUSTER_MASK
         then snd (set_current_crtc_display cbit display g)
         else if has_bits (g_win_type g) PLANE_RK3588_ALL_ESMART_MASK
         then snd (set_current_crtc_display cbit (display + DRM_CONNECTOR_SPLIT_MODE_MASK) g)
         else g)
      else g)"

definition active_crtc :: "topo \<Rightarrow> pipe \<Rightarrow> nptr \<Rightarrow> cptr option" where
  "active_crtc T s n =
     (if n_state (conn s n) \<noteq> DRM_MODE_CONNECTED then None
      else GetCrtcForDisplay T (n_display (conn s n)) s)"

fun assignByHWC_loop :: "topo \<Rightarrow> nptr list \<Rightarrow> pipe \<Rightarrow> pipe" where
  "assignByHWC_loop T [] s = s"
| "assignByHWC_loop T (n # ns) s =
     (case active_crtc T s n of
        None \<Rightarrow> assignByHWC_loop T ns s
      | Some k \<Rightarrow>
         (case choose_row (n_display (conn s n)) (assign_mask s) of (m, rows) \<Rightarrow>
            assignByHWC_loop T ns
              (s\<lparr> assign_mask := rows,
                 groups := map (give_group m (crtc_mask T k) (n_display (conn s n))) (groups s) \<rparr>)))"

definition assignPlaneByHWC :: "topo \<Rightarrow> pipe \<Rightarrow> int \<times> pipe" where
  "assignPlaneByHWC T s = (0, assignByHWC_loop T (dev_connectors T) s)"

definition give_by_mask :: "topo \<Rightarrow> pipe \<Rightarrow> nptr \<Rightarrow> PlaneGroup \<Rightarrow> PlaneGroup" where
  "give_by_mask T s n g =
     (case active_crtc T s n of
        None \<Rightarrow> g
      | Some k \<Rightarrow>
         (let m = ci_plane_mask (ci T k); d = n_display (conn s n)
          in if n_horizontal_split (conn s n) then give_split_group m (crtc_mask T k) d g
             else give_group m (crtc_mask T k) (d AND 0xf) g))"

fun assignByMask_loop :: "topo \<Rightarrow> nptr list \<Rightarrow> pipe \<Rightarrow> pipe" where
  "assignByMask_loop T [] s = s"
| "assignByMask_loop T (n # ns) s =
     assignByMask_loop T ns (s\<lparr> groups := map (give_by_mask T s n) (groups s) \<rparr>)"

definition assignPlaneByPlaneMask :: "topo \<Rightarrow> pipe \<Rightarrow> int \<times> pipe" where
  "assignPlaneByPlaneMask T s = (0, assignByMask_loop T (dev_connectors T) s)"

definition exist_plane_mask :: "topo \<Rightarrow> pipe \<Rightarrow> bool" where
  "exist_plane_mask T s \<longleftrightarrow>
     (\<exists>n \<in> set (dev_connectors T).
        case active_crtc T s n of None \<Rightarrow> False | Some k \<Rightarrow> 0 < ci_plane_mask (ci T k))"

definition Hwc3588_TryAssignPlane :: "topo \<Rightarrow> pipe \<Rightarrow> int \<times> pipe" where
  "Hwc3588_TryAssignPlane T s =
     (if exist_plane_mask T s then assignPlaneByPlaneMask T s else assignPlaneByHWC T s)"

section \<open>The platform\<close>

definition Hwc3588_SupportPlatform :: "u32 \<Rightarrow> bool" where
  "Hwc3588_SupportPlatform soc \<longleftrightarrow> soc = 0x3588"

text \<open>
  \<open>HwcPlatform::CreateInstance\<close> (\<open>platform.cpp\<close>) adds the one stage the repository has, \<open>Hwc3588\<close>, and
  only where the SoC id is \<open>0x3588\<close>; for every other SoC it adds none, and \<open>TryAssignPlane\<close> returns
  the -1 it starts with.
\<close>

definition TryAssignPlane :: "topo \<Rightarrow> pipe \<Rightarrow> int \<times> pipe" where
  "TryAssignPlane T s =
     (if device_soc T = 0x3588 \<and> Hwc3588_SupportPlatform (device_soc T)
      then Hwc3588_TryAssignPlane T s else (-1, s))"

section \<open>What assigning leaves alone\<close>

definition routing_same :: "pipe \<Rightarrow> pipe \<Rightarrow> bool" where
  "routing_same s t \<longleftrightarrow>
     crtc t = crtc s \<and> enc t = enc s \<and> conn t = conn s \<and> commits t = commits s \<and>
     blobs t = blobs s \<and> reports t = reports s \<and> now t = now s"

lemma assignByHWC_loop_frame: "routing_same s (assignByHWC_loop T ns s)"
  by (induction T ns s rule: assignByHWC_loop.induct)
     (auto simp: routing_same_def split: option.split prod.split)

lemma assignByMask_loop_frame:
  "routing_same s (assignByMask_loop T ns s) \<and> assign_mask (assignByMask_loop T ns s) = assign_mask s"
  by (induction T ns s rule: assignByMask_loop.induct) (auto simp: routing_same_def)

lemma TryAssignPlane_frame [frame_rules]: "routing_same s (snd (TryAssignPlane T s))"
  using assignByHWC_loop_frame [of s T "dev_connectors T"]
    assignByMask_loop_frame [of s T "dev_connectors T"]
  by (simp add: TryAssignPlane_def Hwc3588_TryAssignPlane_def assignPlaneByHWC_def
      assignPlaneByPlaneMask_def routing_same_def)

end
