(* ===== verification/Pipe_Release.thy ===== *)
theory Pipe_Release
  imports Assign_Plane
begin

text \<open>
  Taking a connector off its CRTC (\<open>drm/drmdevice.cpp\<close>): disabling the planes of a CRTC,
  \<open>ReleaseConnectorAndCrtc\<close>, and \<open>ReleaseDpyRes\<close> with its two cases.  An operation returns the
  code's result and the state; \<open>None\<close> is undefined behaviour: when adding a plane to the
  caller's request fails, \<open>DisableAllPlaneForCrtc\<close> frees that request and the caller goes on
  using it.
\<close>

section \<open>Disabling planes\<close>

fun disable_planes :: "world \<Rightarrow> DrmPlane list \<Rightarrow> request \<times> pipe \<Rightarrow> bool \<times> request \<times> pipe" where
  "disable_planes W [] ps = (True, ps)"
| "disable_planes W (p # rest) ps =
     (case atomic_add W (plane_id p) (prop_id (plane_prop p ''crtc_property'')) 0 ps of
        (False, ps1) \<Rightarrow> (False, ps1)
      | (True, ps1) \<Rightarrow>
         (case atomic_add W (plane_id p) (prop_id (plane_prop p ''fb_property'')) 0 ps1 of
            (False, ps2) \<Rightarrow> (False, ps2)
          | (True, ps2) \<Rightarrow> disable_planes W rest ps2))"

definition planes_of_crtc :: "topo \<Rightarrow> cptr \<Rightarrow> PlaneGroup list \<Rightarrow> DrmPlane list" where
  "planes_of_crtc T k gs = concat (map planes (filter (acquire (crtc_mask T k)) gs))"

definition add_plane_disables ::
  "topo \<Rightarrow> world \<Rightarrow> cptr \<Rightarrow> request \<times> pipe \<Rightarrow> bool \<times> request \<times> pipe" where
  "add_plane_disables T W k ps = disable_planes W (planes_of_crtc T k (groups (snd ps))) ps"

text \<open>\<open>DisableAllPlaneForCrtc\<close> with \<open>commit == false\<close>: the caller's request, or it is freed.\<close>

definition DisableAllPlane_into ::
  "topo \<Rightarrow> world \<Rightarrow> cptr \<Rightarrow> request \<times> pipe \<Rightarrow> (request \<times> pipe) option" where
  "DisableAllPlane_into T W k ps =
     (case add_plane_disables T W k ps of (ok, ps') \<Rightarrow> if ok then Some ps' else None)"

text \<open>... and with \<open>commit == true\<close>, a request of its own.\<close>

definition DisableAllPlane_commit :: "sdk \<Rightarrow> topo \<Rightarrow> world \<Rightarrow> cptr \<Rightarrow> pipe \<Rightarrow> int \<times> pipe" where
  "DisableAllPlane_commit K T W k s =
     (case atomic_alloc W s of (ok, s1) \<Rightarrow>
        if \<not> ok then (- ENOMEM K, s1)
        else (case add_plane_disables T W k ([], s1) of (ok2, ps) \<Rightarrow>
          if \<not> ok2 then (1, snd ps)
          else (case atomic_commit W ps of (ret, s2) \<Rightarrow> if ret < 0 then (ret, s2) else (0, s2))))"

section \<open>Releasing\<close>

definition add_crtc_off ::
  "topo \<Rightarrow> world \<Rightarrow> cptr \<Rightarrow> request \<times> pipe \<Rightarrow> request \<times> pipe" where
  "add_crtc_off T W k ps =
     DRM_ATOMIC_ADD_PROP W (ci_id (ci T k)) (ci_active_prop (ci T k)) 0
       (DRM_ATOMIC_ADD_PROP W (ci_id (ci T k)) (ci_mode_prop (ci T k)) 0 ps)"

definition add_conn_crtc ::
  "topo \<Rightarrow> world \<Rightarrow> nptr \<Rightarrow> u64 \<Rightarrow> request \<times> pipe \<Rightarrow> request \<times> pipe" where
  "add_conn_crtc T W n v ps = DRM_ATOMIC_ADD_PROP W (ni_id (ni T n)) (ni_crtc_prop (ni T n)) v ps"

definition unroute :: "nptr \<Rightarrow> cptr \<Rightarrow> pipe \<Rightarrow> pipe" where
  "unroute n k s =
     upd_conn n reset_kernel_crtc_id (upd_conn n (set_encoder None) (upd_crtc k (crtc_set_display (-1)) s))"

definition ReleaseConnectorAndCrtc ::
  "sdk \<Rightarrow> topo \<Rightarrow> world \<Rightarrow> int \<Rightarrow> nptr option \<Rightarrow> cptr \<Rightarrow> pipe \<Rightarrow> (int \<times> pipe) option" where
  "ReleaseConnectorAndCrtc K T W display_id no k s =
     (case no of
        None \<Rightarrow> Some (- EINVAL K, s)
      | Some n \<Rightarrow>
         (case atomic_alloc W s of (ok, s1) \<Rightarrow>
            if \<not> ok then Some (- ENOMEM K, s1)
            else do {
              ps1 \<leftarrow> DisableAllPlane_into T W k ([], s1);
              (let (ret, s2) = atomic_commit W (add_crtc_off T W k (add_conn_crtc T W n 0 ps1))
               in if ret < 0 then Some (ret, s2)
                  else Some (0, report display_id (conn_report_of T n (Some k) ''release'')
                                  (unroute n k s2)))
            }))"

definition ReleaseDpyResByNormal ::
  "sdk \<Rightarrow> topo \<Rightarrow> world \<Rightarrow> int \<Rightarrow> nptr \<Rightarrow> cptr \<Rightarrow> pipe \<Rightarrow> (int \<times> pipe) option" where
  "ReleaseDpyResByNormal K T W display_id n k s =
     (case atomic_alloc W s of (ok, s1) \<Rightarrow>
        if \<not> ok then Some (- ENOMEM K, s1)
        else do {
          ps1 \<leftarrow> DisableAllPlane_into T W k (add_conn_crtc T W n 0 ([], s1));
          (let (ret, s2) = atomic_commit W (add_crtc_off T W k ps1)
           in if ret < 0 then Some (ret, s2)
              else (let s3 = report display_id (conn_report_of T n (Some k) ''disconnected'')
                               (unroute n k s2)
                    in Some (0, s3\<lparr> groups :=
                         map (\<lambda>g. if acquire (crtc_mask T k) g then group_reset g else g)
                           (groups s3) \<rparr>)))
        })"

text \<open>
  The external end of a mirror: when its primary has been unplugged and this is the last
  external display, the CRTC is shut down with it.  \<open>release_crtc\<close> of the code is set and never
  read: the CRTC keeps its display number.
\<close>

definition mirror_primary_of :: "topo \<Rightarrow> nptr \<Rightarrow> pipe \<Rightarrow> nptr option" where
  "mirror_primary_of T n s =
     (if is_connector_mirror_primary (conn s n) then None
      else (let d = get_connector_mirror_primary_id (conn s n)
            in if 0 \<le> d then GetConnectorForDisplay T d s else None))"

definition last_of_unplugged :: "int \<Rightarrow> nptr option \<Rightarrow> pipe \<Rightarrow> bool" where
  "last_of_unplugged display_id po s =
     (case po of None \<Rightarrow> False
      | Some p \<Rightarrow> n_hotplug_state (conn s p) = DRM_MODE_DISCONNECTED \<and>
                 is_last_mirror_display_id display_id (conn s p))"

definition leave_mirror :: "int \<Rightarrow> nptr \<Rightarrow> nptr option \<Rightarrow> pipe \<Rightarrow> pipe" where
  "leave_mirror display_id n po s =
     (let s1 = upd_conn n (disable_connector_mirror_mode display_id) s
      in if is_connector_mirror_primary (conn s1 n) then s1
         else (let s2 = upd_conn n (set_encoder None) s1
               in case po of None \<Rightarrow> s2
                  | Some p \<Rightarrow> upd_conn p (disable_connector_mirror_mode display_id) s2))"

definition ReleaseDpyResByMirror ::
  "sdk \<Rightarrow> topo \<Rightarrow> world \<Rightarrow> int \<Rightarrow> nptr \<Rightarrow> cptr \<Rightarrow> pipe \<Rightarrow> (int \<times> pipe) option" where
  "ReleaseDpyResByMirror K T W display_id n k s =
     (case atomic_alloc W s of (ok, s1) \<Rightarrow>
        if \<not> ok then Some (- ENOMEM K, s1)
        else
         (let ps1 = add_conn_crtc T W n 0 ([], s1);
              po = mirror_primary_of T n s
          in do {
            ps2 \<leftarrow> (if last_of_unplugged display_id po s
                   then map_option (add_crtc_off T W k) (DisableAllPlane_into T W k ps1)
                   else Some ps1);
            (let (ret, s2) = atomic_commit W ps2
             in if ret < 0 then Some (ret, s2)
                else Some (0, leave_mirror display_id n po
                       (report display_id (conn_report_of T n None ''disconnected'')
                         (upd_conn n reset_kernel_crtc_id s2))))
          }))"

definition finish_assign :: "topo \<Rightarrow> pipe \<Rightarrow> int \<times> pipe" where
  "finish_assign T s = (case TryAssignPlane T s of (ret, s') \<Rightarrow> if ret \<noteq> 0 then (ret, s') else (0, s'))"

definition ReleaseDpyRes ::
  "sdk \<Rightarrow> topo \<Rightarrow> world \<Rightarrow> int \<Rightarrow> pipe \<Rightarrow> (int \<times> pipe) option" where
  "ReleaseDpyRes K T W display_id s =
     (case GetConnectorForDisplay T display_id s of
        None \<Rightarrow> Some (- EINVAL K, s)
      | Some n \<Rightarrow> do {
          (ret, s1) \<leftarrow>
            (case routed s n of
               None \<Rightarrow> Some (0, s)
             | Some k \<Rightarrow>
                 if mirror_mode (conn s n) then ReleaseDpyResByMirror K T W display_id n k s
                 else ReleaseDpyResByNormal K T W display_id n k s);
          (if ret \<noteq> 0 then Some (ret, s1) else Some (finish_assign T s1))
        })"

end
