(* ===== verification/Pipe_Bind.thy ===== *)
theory Pipe_Bind
  imports Pipe_Release
begin

text \<open>
  Routing a connector to a CRTC (\<open>drm/drmdevice.cpp\<close>): \<open>FindAvailableCrtc\<close> with its four
  attempts, the mode a CRTC is able to output (\<open>DrmConnector::GetSuitableMode\<close>),
  \<open>BindConnectorAndCrtc\<close> and \<open>BindDpyRes\<close>.  The nested loop over the encoders of the connector
  and the CRTCs of each encoder is one loop over the pairs in that order; each attempt is the
  body of that loop.
\<close>

definition DrmMode_default :: DrmMode where
  "DrmMode_default =
     \<lparr> mode_id = 0, clock = 0, h_display = 0, h_sync_start = 0, h_sync_end = 0, h_total = 0,
       h_skew = 0, v_display = 0, v_sync_start = 0, v_sync_end = 0, v_total = 0, v_scan = 0,
       vrefresh_field = 0, mode_flags = 0, mode_type = 0, interlaced = False, mode_name = [] \<rparr>"

section \<open>A mode the CRTC can output\<close>

definition fits_output :: "u64 \<Rightarrow> u64 \<Rightarrow> DrmMode \<Rightarrow> bool option" where
  "fits_output max_width dclk m =
     (if max_width < ucast (h_display m) then Some False
      else map_option (\<lambda>d. d \<le> dclk) (req_dclk m))"

fun first_fitting :: "(DrmMode \<Rightarrow> bool) \<Rightarrow> u64 \<Rightarrow> u64 \<Rightarrow> DrmMode list \<Rightarrow> DrmMode option option" where
  "first_fitting P w d [] = Some None"
| "first_fitting P w d (m # ms) =
     (if \<not> P m then first_fitting P w d ms
      else (case fits_output w d m of
              None \<Rightarrow> None
            | Some True \<Rightarrow> Some (Some m)
            | Some False \<Rightarrow> first_fitting P w d ms))"

definition is_preferred :: "sdk \<Rightarrow> DrmMode \<Rightarrow> bool" where
  "is_preferred K m \<longleftrightarrow> mode_type m AND DRM_MODE_TYPE_PREFERRED K \<noteq> 0"

fun first_of_passes ::
  "u64 \<Rightarrow> u64 \<Rightarrow> ((DrmMode \<Rightarrow> bool) \<times> DrmMode list) list \<Rightarrow> DrmMode option option" where
  "first_of_passes w d [] = Some None"
| "first_of_passes w d ((P, ms) # passes) =
     (case first_fitting P w d ms of
        None \<Rightarrow> None
      | Some (Some m) \<Rightarrow> Some (Some m)
      | Some None \<Rightarrow> first_of_passes w d passes)"

definition suitable_passes :: "sdk \<Rightarrow> DrmConnector \<Rightarrow> ((DrmMode \<Rightarrow> bool) \<times> DrmMode list) list" where
  "suitable_passes K n =
     [(is_preferred K, n_modes n), (\<lambda>_. True, n_modes n),
      (is_preferred K, n_raw_modes n), (\<lambda>_. True, n_raw_modes n)]"

definition GetSuitableMode :: "sdk \<Rightarrow> u64 \<Rightarrow> u64 \<Rightarrow> DrmConnector \<Rightarrow> DrmConnector option" where
  "GetSuitableMode K max_width dclk n =
     (case first_of_passes max_width dclk (suitable_passes K n) of
        None \<Rightarrow> None
      | Some None \<Rightarrow> Some (n\<lparr> n_best := DrmMode_default \<rparr>)
      | Some (Some m) \<Rightarrow> Some (n\<lparr> n_best := m, n_current := m \<rparr>))"

section \<open>Finding a CRTC\<close>

text \<open>A CRTC the kernel lit for this connector, and that is not the one chosen, is released first.\<close>

definition CheckKernelCrtcNeedRelease ::
  "sdk \<Rightarrow> topo \<Rightarrow> world \<Rightarrow> int \<Rightarrow> nptr \<Rightarrow> cptr \<Rightarrow> pipe \<Rightarrow> (int \<times> pipe) option" where
  "CheckKernelCrtcNeedRelease K T W display_id n k s =
     (let kid = mKernelCrtcId (conn s n) in
      if kid \<le> 0 \<or> word_of_int kid = ci_id (ci T k) then Some (0, s)
      else (case find (\<lambda>c. ci_id (ci T c) = word_of_int kid) (dev_crtcs T) of
              None \<Rightarrow> Some (0, s)
            | Some c \<Rightarrow> do {
                (ret, s') \<leftarrow>
                  (if mirror_mode (conn s n) then ReleaseDpyResByMirror K T W display_id n c s
                   else ReleaseDpyResByNormal K T W display_id n c s);
                Some (if ret \<noteq> 0 then -1 else ret, s')
              }))"

definition attach :: "nptr \<Rightarrow> eptr \<Rightarrow> cptr \<Rightarrow> pipe \<Rightarrow> pipe" where
  "attach n e k s =
     upd_conn n (set_encoder (Some e))
       (encoder_set_crtc e (Some k) (upd_crtc k (crtc_set_display (n_display (conn s n))) s))"

definition lacks_capability :: "bool \<Rightarrow> crtc_info \<Rightarrow> DrmMode \<Rightarrow> bool option" where
  "lacks_capability check k m =
     (if check then map_option (\<lambda>r. r \<noteq> 0) (CheckCrtcOutputCapability k m) else Some False)"

text \<open>
  What the attempts share: the capability check, the kernel's CRTC, the release of the present
  owner (the result of which the code drops), and taking the CRTC.
\<close>

definition try_take ::
  "sdk \<Rightarrow> topo \<Rightarrow> world \<Rightarrow> int \<Rightarrow> nptr \<Rightarrow> DrmMode \<Rightarrow> bool \<Rightarrow> (int \<times> nptr option) option \<Rightarrow>
   eptr \<Rightarrow> cptr \<Rightarrow> pipe \<Rightarrow> (bool \<times> pipe) option" where
  "try_take K T W d n m chk victim e k s = do {
     bad \<leftarrow> lacks_capability chk (ci T k) m;
     (if bad then Some (False, s)
      else do {
        (r, s1) \<leftarrow> CheckKernelCrtcNeedRelease K T W d n k s;
        (if r \<noteq> 0 then Some (False, s1)
         else do {
           s2 \<leftarrow> (case victim of
                   None \<Rightarrow> Some s1
                 | Some (td, tn) \<Rightarrow> map_option snd (ReleaseConnectorAndCrtc K T W td tn k s1));
           Some (True, attach n e k s2)
         })
      })
   }"

definition take_free ::
  "sdk \<Rightarrow> topo \<Rightarrow> world \<Rightarrow> int \<Rightarrow> nptr \<Rightarrow> DrmMode \<Rightarrow> bool \<Rightarrow> eptr \<Rightarrow> cptr \<Rightarrow> pipe \<Rightarrow> (bool \<times> pipe) option"
where
  "take_free K T W d n m chk e k s =
     (if crtc_can_bind (n_display (conn s n)) (crtc s k) then try_take K T W d n m chk None e k s
      else Some (False, s))"

text \<open>A CRTC without a display, or whose display is gone or unplugged.\<close>

definition take_idle ::
  "sdk \<Rightarrow> topo \<Rightarrow> world \<Rightarrow> int \<Rightarrow> nptr \<Rightarrow> DrmMode \<Rightarrow> bool \<Rightarrow> eptr \<Rightarrow> cptr \<Rightarrow> pipe \<Rightarrow> (bool \<times> pipe) option"
where
  "take_idle K T W d n m chk e k s =
     (let td = k_display (crtc s k);
          tn = (if 0 \<le> td then GetConnectorForDisplay T td s else None);
          ret = (if 0 \<le> td then CheckConnectorState K tn False s else -1)
      in if ret \<noteq> 0
         then try_take K T W d n m chk (if tn = None then None else Some (td, tn)) e k s
         else Some (False, s))"

definition share_as_mirror ::
  "sdk \<Rightarrow> topo \<Rightarrow> world \<Rightarrow> int \<Rightarrow> nptr \<Rightarrow> DrmMode \<Rightarrow> eptr \<Rightarrow> cptr \<Rightarrow> pipe \<Rightarrow> (bool \<times> pipe) option"
where
  "share_as_mirror K T W d n m e k s =
     (let pd = k_display (crtc s k) in
      if pd < 0 \<or> pd = d then Some (False, s)
      else do {
        r \<leftarrow> CheckCrtcOutputCapability (ci T k) m;
        (if r \<noteq> 0 then Some (False, s)
         else (case GetConnectorForDisplay T pd s of
             None \<Rightarrow> Some (False, s)
           | Some p \<Rightarrow>
               if CheckConnectorState K (Some p) False s \<noteq> 0 then Some (False, s)
               else (let mirror = n_active (conn s p); current = n_current (conn s n) in
                 if mode_id mirror \<noteq> 0 \<and> mode_id current \<noteq> 0 \<and> equal_no_flag_and_type current mirror
                 then do {
                   (kr, s1) \<leftarrow> CheckKernelCrtcNeedRelease K T W d n k s;
                   (if kr \<noteq> 0 then Some (False, s1)
                    else Some (True,
                      upd_conn n (set_encoder (Some e)) (encoder_set_crtc e (Some k)
                        (upd_conn n (enable_connector_mirror_mode pd d)
                          (upd_conn p (enable_connector_mirror_mode pd d) s1)))))
                 }
                 else Some (False, s))))
      })"

text \<open>
  With a priority the CRTC is taken from a display that is gone, unplugged or of a lower
  priority (a greater number); without one it is taken from anybody.
\<close>

definition take_competing ::
  "sdk \<Rightarrow> topo \<Rightarrow> world \<Rightarrow> int \<Rightarrow> nptr \<Rightarrow> DrmMode \<Rightarrow> eptr \<Rightarrow> cptr \<Rightarrow> pipe \<Rightarrow> (bool \<times> pipe) option"
where
  "take_competing K T W d n m e k s =
     (let td = k_display (crtc s k); tn = GetConnectorForDisplay T td s;
          wins = (if 0 < n_priority (conn s n)
                  then CheckConnectorState K tn False s \<noteq> 0 \<or>
                       (case tn of None \<Rightarrow> False
                        | Some t \<Rightarrow> n_priority (conn s n) < n_priority (conn s t))
                  else True)
      in if wins then try_take K T W d n m False (Some (td, tn)) e k s else Some (False, s))"

fun crtc_loop ::
  "(eptr \<Rightarrow> cptr \<Rightarrow> pipe \<Rightarrow> (bool \<times> pipe) option) \<Rightarrow> (eptr \<times> cptr) list \<Rightarrow> pipe \<Rightarrow>
   (cptr option \<times> pipe) option" where
  "crtc_loop body [] s = Some (None, s)"
| "crtc_loop body ((e, k) # rest) s = do {
     (found, s1) \<leftarrow> body e k s;
     (if found then Some (Some k, s1) else crtc_loop body rest s1)
   }"

definition possible_routes :: "topo \<Rightarrow> nptr \<Rightarrow> (eptr \<times> cptr) list" where
  "possible_routes T n =
     concat (map (\<lambda>e. map (Pair e) (ei_possible_crtcs T e)) (ni_possible_encoders (ni T n)))"

definition FindAvailableCrtcByFirst ::
  "sdk \<Rightarrow> topo \<Rightarrow> world \<Rightarrow> int \<Rightarrow> nptr \<Rightarrow> bool \<Rightarrow> pipe \<Rightarrow> (cptr option \<times> pipe) option" where
  "FindAvailableCrtcByFirst K T W d n chk s0 =
     (let s = upd_conn n (set_encoder None) s0; m = n_current (conn s n) in do {
        (found, s1) \<leftarrow> crtc_loop (take_free K T W d n m chk) (possible_routes T n) s;
        (if found \<noteq> None then Some (found, s1)
         else crtc_loop (take_idle K T W d n m chk) (possible_routes T n) s1)
      })"

definition FindAvailableCrtcByMirror ::
  "sdk \<Rightarrow> topo \<Rightarrow> world \<Rightarrow> int \<Rightarrow> nptr \<Rightarrow> pipe \<Rightarrow> (cptr option \<times> pipe) option" where
  "FindAvailableCrtcByMirror K T W d n s =
     (if FilterColorFormatWithCaps K (conn s n) (output_rgb K) \<noteq> output_rgb K then Some (None, s)
      else crtc_loop (share_as_mirror K T W d n (n_current (conn s n))) (possible_routes T n) s)"

definition FindAvailableCrtcByCompete ::
  "sdk \<Rightarrow> topo \<Rightarrow> world \<Rightarrow> int \<Rightarrow> nptr \<Rightarrow> pipe \<Rightarrow> (cptr option \<times> pipe) option" where
  "FindAvailableCrtcByCompete K T W d n s =
     crtc_loop (take_competing K T W d n (n_current (conn s n))) (possible_routes T n) s"

text \<open>The next attempt runs when the one before found nothing.\<close>

definition or_else ::
  "(cptr option \<times> pipe) option \<Rightarrow> (pipe \<Rightarrow> (cptr option \<times> pipe) option) \<Rightarrow>
   (cptr option \<times> pipe) option" where
  "or_else r f = do { (found, s) \<leftarrow> r; (if found \<noteq> None then Some (found, s) else f s) }"

definition FindAvailableCrtc ::
  "sdk \<Rightarrow> topo \<Rightarrow> world \<Rightarrow> int \<Rightarrow> nptr \<Rightarrow> pipe \<Rightarrow> (cptr option \<times> pipe) option" where
  "FindAvailableCrtc K T W d n s =
     or_else (or_else (or_else (or_else
       (FindAvailableCrtcByFirst K T W d n True s)
       (FindAvailableCrtcByMirror K T W d n))
       (FindAvailableCrtcByFirst K T W d n False))
       (FindAvailableCrtcByCompete K T W d n))
       (\<lambda>s. Some (None, report d (conn_report_of T n None ''connected-no-crtc'') s))"

section \<open>Binding\<close>

definition sync_with_kernel_mode :: "sdk \<Rightarrow> topo \<Rightarrow> world \<Rightarrow> nptr \<Rightarrow> cptr \<Rightarrow> pipe \<Rightarrow> pipe" where
  "sync_with_kernel_mode K T W n k s =
     (if sync_kernel_mode (crtc s k) \<and>
         \<not> equal_no_flag_and_type (n_current (conn s n)) (ci_kernel_mode (ci T k))
      then (case DisableAllPlane_commit K T W k s of (ret, s1) \<Rightarrow>
              if ret \<noteq> 0 then s1 else upd_crtc k has_sync_kernel_mode s1)
      else s)"

definition fall_back_to_suitable :: "sdk \<Rightarrow> topo \<Rightarrow> nptr \<Rightarrow> cptr \<Rightarrow> pipe \<Rightarrow> pipe option" where
  "fall_back_to_suitable K T n k s =
     (if ci_width_prop (ci T k) = 0 then Some s
      else do {
        r \<leftarrow> CheckCrtcOutputCapability (ci T k) (n_current (conn s n));
        (if r \<noteq> 0
         then map_option (\<lambda>c. upd_conn n (\<lambda>_. c) s)
                (GetSuitableMode K (ci_output_width (ci T k)) (ci_output_dclk (ci T k)) (conn s n))
         else Some s)
      })"

definition add_output_rgb ::
  "sdk \<Rightarrow> topo \<Rightarrow> world \<Rightarrow> nptr \<Rightarrow> request \<times> pipe \<Rightarrow> request \<times> pipe" where
  "add_output_rgb K T W n ps =
     snd (atomic_add W (ni_id (ni T n)) (ni_color_depth_prop (ni T n)) (word_of_int (depth_24bit K))
       (snd (atomic_add W (ni_id (ni T n)) (ni_color_format_prop (ni T n))
          (word_of_int (output_rgb K)) ps)))"

text \<open>The external end of a mirror, and its primary, are forced to RGB; the primary must exist.\<close>

definition add_mirror_format ::
  "sdk \<Rightarrow> topo \<Rightarrow> world \<Rightarrow> nptr \<Rightarrow> request \<times> pipe \<Rightarrow> (request \<times> pipe) option" where
  "add_mirror_format K T W n ps =
     (let s = snd ps in
      if mirror_mode (conn s n) \<and> \<not> is_connector_mirror_primary (conn s n) then
        (let ps1 = add_output_rgb K T W n ps; pid = get_connector_mirror_primary_id (conn s n)
         in if pid < 0 then Some ps1
            else (case GetConnectorForDisplay T pid s of
                    None \<Rightarrow> None
                  | Some p \<Rightarrow>
                      Some (if FilterColorFormatWithCaps K (conn s p) (output_rgb K) = output_rgb K
                            then add_output_rgb K T W p ps1 else ps1)))
      else Some ps)"

definition add_crtc_on ::
  "topo \<Rightarrow> world \<Rightarrow> nptr \<Rightarrow> cptr \<Rightarrow> u32 \<Rightarrow> request \<times> pipe \<Rightarrow> request \<times> pipe" where
  "add_crtc_on T W n k blob ps =
     DRM_ATOMIC_ADD_PROP W (ci_id (ci T k)) (ci_active_prop (ci T k)) 1
       (DRM_ATOMIC_ADD_PROP W (ci_id (ci T k)) (ci_mode_prop (ci T k)) (ucast blob)
         (add_conn_crtc T W n (ucast (ci_id (ci T k))) ps))"

definition bound_report :: "topo \<Rightarrow> nptr \<Rightarrow> cptr \<Rightarrow> DrmConnector \<Rightarrow> conn_report" where
  "bound_report T n k c =
     conn_report_of T n (Some k)
       (if mirror_mode c \<and> \<not> is_connector_mirror_primary c then ''connected:mirror''
        else ''connected'')"

definition BindConnectorAndCrtc ::
  "sdk \<Rightarrow> topo \<Rightarrow> world \<Rightarrow> int \<Rightarrow> nptr \<Rightarrow> cptr \<Rightarrow> pipe \<Rightarrow> (int \<times> pipe) option" where
  "BindConnectorAndCrtc K T W d n k s =
     (if mode_id (n_current (conn s n)) = 0 then Some (- EINVAL K, s)
      else do {
        s1 \<leftarrow> fall_back_to_suitable K T n k (sync_with_kernel_mode K T W n k s);
        (case atomic_alloc W s1 of (ok, s2) \<Rightarrow>
           if \<not> ok then Some (- ENOMEM K, s2)
           else (case CreatePropertyBlob W (ToDrmModeModeInfo K (n_current (conn s2 n))) s2 of
             (_, blob, s3) \<Rightarrow> do {
               ps \<leftarrow> add_mirror_format K T W n (add_crtc_on T W n k blob ([], s3));
               (let (ret, s4) = atomic_commit W ps
                in if ret < 0 then Some (ret, s4)
                   else (let s5 = DestroyPropertyBlob blob s4;
                             s6 = upd_conn n reset_kernel_crtc_id
                                    (upd_conn n (set_active_mode (n_current (conn s5 n))) s5)
                         in Some (0, report d (bound_report T n k (conn s6 n)) s6)))
             }))
      })"

definition BindDpyRes :: "sdk \<Rightarrow> topo \<Rightarrow> world \<Rightarrow> int \<Rightarrow> pipe \<Rightarrow> (int \<times> pipe) option" where
  "BindDpyRes K T W display_id s =
     (let no = GetConnectorForDisplay T display_id s; ret = CheckConnectorState K no False s in
      if ret \<noteq> 0 then Some (ret, s)
      else (case no of
          None \<Rightarrow> None
        | Some n \<Rightarrow> do {
            (found, s1) \<leftarrow> FindAvailableCrtc K T W display_id n s;
            (case found of
               None \<Rightarrow> Some (-1, s1)
             | Some k \<Rightarrow> do {
                 (ret2, s2) \<leftarrow> BindConnectorAndCrtc K T W display_id n k s1;
                 (if ret2 \<noteq> 0 then Some (ret2, s2) else Some (finish_assign T s2))
               })
          }))"

end
