(* ===== verification/Pipe_Mode.thy ===== *)
theory Pipe_Mode
  imports Pipe_Bind
begin

text \<open>
  Changing the mode and the power of a routed display (\<open>drm/drmdevice.cpp\<close>):
  \<open>UpdateDisplayMode\<close> with its normal and mirror cases, \<open>UpdateVrrRefreshRate\<close>,
  \<open>SetPowerMode\<close> and the four operations behind it.  A \<open>NULL\<close> pointer the code follows is
  \<open>None\<close>.
\<close>

section \<open>Mode\<close>

definition mode_unchanged :: "pipe \<Rightarrow> nptr \<Rightarrow> bool" where
  "mode_unchanged s n \<longleftrightarrow> mode_eq (n_current (conn s n)) (n_active (conn s n))"

definition adopt_mode :: "nptr \<Rightarrow> pipe \<Rightarrow> pipe" where
  "adopt_mode n s =
     upd_conn n reset_kernel_crtc_id (upd_conn n (set_active_mode (n_current (conn s n))) s)"

text \<open>The commit of the new mode on the CRTC the connector has.\<close>

definition commit_mode ::
  "sdk \<Rightarrow> topo \<Rightarrow> world \<Rightarrow> nptr \<Rightarrow> cptr \<Rightarrow> pipe \<Rightarrow> int \<times> pipe" where
  "commit_mode K T W n k s =
     (case atomic_alloc W s of (ok, s1) \<Rightarrow>
        if \<not> ok then (- ENOMEM K, s1)
        else (case CreatePropertyBlob W (ToDrmModeModeInfo K (n_current (conn s1 n))) s1 of
          (bret, blob, s2) \<Rightarrow>
            if bret \<noteq> 0 then (bret, s2)
            else (case atomic_commit W (add_crtc_on T W n k blob ([], s2)) of (ret, s3) \<Rightarrow>
              if ret < 0 then (ret, s3)
              else (0, adopt_mode n (DestroyPropertyBlob blob s3)))))"

text \<open>
  When the CRTC cannot output the mode the display is released and bound again, possibly to
  another CRTC; what the code writes after the \<open>return\<close> of that branch is not reached.
\<close>

definition UpdateDisplayModeNormal ::
  "sdk \<Rightarrow> topo \<Rightarrow> world \<Rightarrow> int \<Rightarrow> pipe \<Rightarrow> (int \<times> pipe) option" where
  "UpdateDisplayModeNormal K T W display_id s =
     (case GetConnectorForDisplay T display_id s of
        None \<Rightarrow> None
      | Some n \<Rightarrow>
         (case routed s n of
            None \<Rightarrow> None
          | Some k \<Rightarrow>
             (case DisableAllPlane_commit K T W k s of (dret, s1) \<Rightarrow>
                if dret \<noteq> 0 then Some (dret, s1)
                else do {
                  r \<leftarrow> (if 0 < ci_width_prop (ci T k)
                       then CheckCrtcOutputCapability (ci T k) (n_current (conn s1 n)) else Some 0);
                  (if r = 0 then Some (commit_mode K T W n k s1)
                   else do {
                     (ret, s2) \<leftarrow> ReleaseDpyRes K T W display_id s1;
                     (if ret \<noteq> 0 then Some (-1, s2)
                      else do {
                        (ret2, s3) \<leftarrow> BindDpyRes K T W display_id s2;
                        (if ret2 \<noteq> 0 then Some (-1, s3) else Some (0, adopt_mode n s3))
                      })
                   })
                })))"

text \<open>The external displays of a mirror leave it; those that were routed are collected.\<close>

fun release_mirrors ::
  "sdk \<Rightarrow> topo \<Rightarrow> world \<Rightarrow> int list \<Rightarrow> int list \<Rightarrow> pipe \<Rightarrow> (int \<times> int list \<times> pipe) option" where
  "release_mirrors K T W [] change s = Some (0, change, s)"
| "release_mirrors K T W (d # ds) change s =
     (case GetConnectorForDisplay T d s of
        None \<Rightarrow> release_mirrors K T W ds change s
      | Some m \<Rightarrow>
         (case routed s m of
            None \<Rightarrow> release_mirrors K T W ds change s
          | Some k \<Rightarrow> do {
              (ret, s1) \<leftarrow> ReleaseDpyResByMirror K T W d m k s;
              (if ret \<noteq> 0 then Some (-1, change, s1)
               else release_mirrors K T W ds (change @ [d]) s1)
            }))"

fun rebind_mirrors ::
  "sdk \<Rightarrow> topo \<Rightarrow> world \<Rightarrow> int list \<Rightarrow> pipe \<Rightarrow> (int \<times> pipe) option" where
  "rebind_mirrors K T W [] s = Some (0, s)"
| "rebind_mirrors K T W (d # ds) s =
     (if GetConnectorForDisplay T d s = None then rebind_mirrors K T W ds s
      else do {
        (ret, s1) \<leftarrow> BindDpyRes K T W d s;
        (if ret \<noteq> 0 then Some (-1, s1) else rebind_mirrors K T W ds s1)
      })"

definition UpdateDisplayModeMirror ::
  "sdk \<Rightarrow> topo \<Rightarrow> world \<Rightarrow> int \<Rightarrow> pipe \<Rightarrow> (int \<times> pipe) option" where
  "UpdateDisplayModeMirror K T W display_id s =
     (case GetConnectorForDisplay T display_id s of
        None \<Rightarrow> None
      | Some n \<Rightarrow>
         if is_connector_mirror_primary (conn s n) then do {
           (ret, change, s1) \<leftarrow>
             release_mirrors K T W (connected_mirror_display_id_set (conn s n)) [] s;
           (if ret \<noteq> 0 then Some (-1, s1)
            else do {
              (ret2, s2) \<leftarrow> UpdateDisplayModeNormal K T W display_id s1;
              (if ret2 \<noteq> 0 then Some (-1, s2) else rebind_mirrors K T W change s2)
            })
         }
         else (case routed s n of
             None \<Rightarrow> Some (-1, s)
           | Some k \<Rightarrow> do {
               (ret, s1) \<leftarrow> ReleaseDpyResByMirror K T W display_id n k s;
               (if ret \<noteq> 0 then Some (-1, s1)
                else do {
                  (ret2, s2) \<leftarrow> BindDpyRes K T W display_id s1;
                  Some (if ret2 \<noteq> 0 then -1 else 0, s2)
                })
             }))"

definition UpdateDisplayMode ::
  "sdk \<Rightarrow> topo \<Rightarrow> world \<Rightarrow> int \<Rightarrow> pipe \<Rightarrow> (int \<times> pipe) option" where
  "UpdateDisplayMode K T W display_id s =
     (case GetConnectorForDisplay T display_id s of
        None \<Rightarrow> Some (0, s)
      | Some n \<Rightarrow>
         if n_state (conn s n) \<noteq> DRM_MODE_CONNECTED \<or> mode_id (n_current (conn s n)) = 0 \<or>
            routed s n = None \<or> mode_unchanged s n
         then Some (0, s)
         else if mirror_mode (conn s n) then UpdateDisplayModeMirror K T W display_id s
         else UpdateDisplayModeNormal K T W display_id s)"

text \<open>
  \<open>refresh_rate\<close> is an \<open>int\<close> compared with 64-bit limits: the comparison converts it to
  unsigned, so a negative rate is above every limit; the clamped value returns to \<open>int\<close>.
\<close>

definition clamp_refresh :: "sdk \<Rightarrow> crtc_info \<Rightarrow> int \<Rightarrow> int" where
  "clamp_refresh K k rate =
     (let lo = snd (prop_value_of K (ci_min_rr k)); hi = snd (prop_value_of K (ci_max_rr k));
          r1 = (if (word_of_int rate :: u64) < lo then sint (ucast lo :: u32) else rate)
      in if hi < (word_of_int r1 :: u64) then sint (ucast hi :: u32) else r1)"

definition UpdateVrrRefreshRate ::
  "sdk \<Rightarrow> topo \<Rightarrow> world \<Rightarrow> int \<Rightarrow> int \<Rightarrow> pipe \<Rightarrow> int \<times> pipe" where
  "UpdateVrrRefreshRate K T W display_id refresh_rate s =
     (let no = GetConnectorForDisplay T display_id s; ret = CheckConnectorState K no False s in
      if ret \<noteq> 0 then (ret, s)
      else (case Option.bind no (routed s) of
          None \<Rightarrow> (0, s)
        | Some k \<Rightarrow>
            if prop_id (ci_variable_rr (ci T k)) = 0 then (0, s)
            else (case atomic_alloc W s of (ok, s1) \<Rightarrow>
              if \<not> ok then (- ENOMEM K, s1)
              else (case atomic_add W (ci_id (ci T k)) (prop_id (ci_variable_rr (ci T k)))
                       (word_of_int (clamp_refresh K (ci T k) refresh_rate)) ([], s1) of
                (ok2, ps) \<Rightarrow>
                  if \<not> ok2 then (- EINVAL K, snd ps)
                  else (case atomic_commit W ps of (ret2, s2) \<Rightarrow>
                    if ret2 < 0 then (ret2, s2) else (0, s2))))))"

section \<open>Power\<close>

definition request_mode_of :: "DrmConnector \<Rightarrow> DrmMode" where
  "request_mode_of c = (if 0 < mode_id (n_active c) then n_active c else n_current c)"

definition DoPowerOnNormal ::
  "sdk \<Rightarrow> topo \<Rightarrow> world \<Rightarrow> int \<Rightarrow> nptr \<Rightarrow> pipe \<Rightarrow> int \<times> pipe" where
  "DoPowerOnNormal K T W d n s =
     (case routed s n of
        None \<Rightarrow> (-1, s)
      | Some k \<Rightarrow>
         (case atomic_alloc W s of (ok, s1) \<Rightarrow>
            if \<not> ok then (- ENOMEM K, s1)
            else (case CreatePropertyBlob W (ToDrmModeModeInfo K (request_mode_of (conn s1 n))) s1 of
              (_, blob, s2) \<Rightarrow>
                (case atomic_commit W (add_crtc_on T W n k blob ([], s2)) of (ret, s3) \<Rightarrow>
                   if ret < 0 then (ret, s3)
                   else (0, report d (conn_report_of T n (Some k) ''connected'')
                              (DestroyPropertyBlob blob s3))))))"

text \<open>The externals still routed to the CRTC join the request; a display without connector is \<open>None\<close>.\<close>

fun add_mirror_conns ::
  "topo \<Rightarrow> world \<Rightarrow> cptr \<Rightarrow> int list \<Rightarrow> request \<times> pipe \<Rightarrow> (request \<times> pipe) option" where
  "add_mirror_conns T W k [] ps = Some ps"
| "add_mirror_conns T W k (d # ds) ps =
     (case GetConnectorForDisplay T d (snd ps) of
        None \<Rightarrow> None
      | Some m \<Rightarrow>
          add_mirror_conns T W k ds
            (if routed (snd ps) m = Some k
             then add_conn_crtc T W m (ucast (ci_id (ci T k))) ps else ps))"

fun report_mirrors :: "topo \<Rightarrow> cptr \<Rightarrow> int list \<Rightarrow> pipe \<Rightarrow> pipe option" where
  "report_mirrors T k [] s = Some s"
| "report_mirrors T k (d # ds) s =
     (case GetConnectorForDisplay T d s of
        None \<Rightarrow> None
      | Some m \<Rightarrow>
          report_mirrors T k ds (report d (conn_report_of T m (Some k) ''connected:mirror'') s))"

definition DoPowerOnMirror ::
  "sdk \<Rightarrow> topo \<Rightarrow> world \<Rightarrow> int \<Rightarrow> nptr \<Rightarrow> pipe \<Rightarrow> (int \<times> pipe) option" where
  "DoPowerOnMirror K T W d n s =
     (case routed s n of
        None \<Rightarrow> Some (-1, s)
      | Some k \<Rightarrow>
         if \<not> is_connector_mirror_primary (conn s n) then Some (-1, s)
         else (case atomic_alloc W s of (ok, s1) \<Rightarrow>
            if \<not> ok then Some (- ENOMEM K, s1)
            else (case CreatePropertyBlob W (ToDrmModeModeInfo K (n_current (conn s1 n))) s1 of
              (_, blob, s2) \<Rightarrow> do {
                ps \<leftarrow> add_mirror_conns T W k (connected_mirror_display_id_set (conn s n))
                       (add_crtc_on T W n k blob ([], s2));
                (let (ret, s3) = atomic_commit W ps
                 in if ret < 0 then Some (ret, s3)
                    else (let s4 = DestroyPropertyBlob blob s3;
                              s5 = upd_conn n (set_active_mode (n_current (conn s4 n))) s4;
                              s6 = report d (conn_report_of T n (Some k) ''connected'') s5
                          in map_option (Pair 0)
                               (report_mirrors T k (connected_mirror_display_id_set (conn s n)) s6)))
              })))"

definition DoPowerOn :: "sdk \<Rightarrow> topo \<Rightarrow> world \<Rightarrow> int \<Rightarrow> pipe \<Rightarrow> (int \<times> pipe) option" where
  "DoPowerOn K T W d s =
     (let no = GetConnectorForDisplay T d s; ret = CheckConnectorState K no True s in
      if ret \<noteq> 0 then Some (ret, s)
      else (case no of
          None \<Rightarrow> None
        | Some n \<Rightarrow> if mirror_mode (conn s n) then DoPowerOnMirror K T W d n s
                    else Some (DoPowerOnNormal K T W d n s)))"

text \<open>Both ways to power off end with the CRTC of the display and its planes shut down.\<close>

definition power_off_crtc ::
  "sdk \<Rightarrow> topo \<Rightarrow> world \<Rightarrow> int \<Rightarrow> nptr \<Rightarrow> cptr \<Rightarrow> pipe \<Rightarrow> (int \<times> pipe) option" where
  "power_off_crtc K T W d n k s =
     (case atomic_alloc W s of (ok, s1) \<Rightarrow>
        if \<not> ok then Some (- ENOMEM K, s1)
        else do {
          ps \<leftarrow> DisableAllPlane_into T W k (add_conn_crtc T W n 0 ([], s1));
          (let (ret, s2) = atomic_commit W (add_crtc_off T W k ps)
           in if ret < 0 then Some (ret, s2)
              else Some (0, report d (conn_report_of T n (Some k) ''off'') s2))
        })"

definition DoPowerOffNormal ::
  "sdk \<Rightarrow> topo \<Rightarrow> world \<Rightarrow> int \<Rightarrow> nptr \<Rightarrow> pipe \<Rightarrow> (int \<times> pipe) option" where
  "DoPowerOffNormal K T W d n s =
     (case routed s n of None \<Rightarrow> Some (-1, s) | Some k \<Rightarrow> power_off_crtc K T W d n k s)"

fun power_off_mirrors ::
  "sdk \<Rightarrow> topo \<Rightarrow> world \<Rightarrow> cptr \<Rightarrow> int list \<Rightarrow> pipe \<Rightarrow> (int \<times> pipe) option" where
  "power_off_mirrors K T W k [] s = Some (0, s)"
| "power_off_mirrors K T W k (d # ds) s =
     (case GetConnectorForDisplay T d s of
        None \<Rightarrow> None
      | Some m \<Rightarrow>
          if routed s m \<noteq> Some k then power_off_mirrors K T W k ds s
          else (case atomic_alloc W s of (ok, s1) \<Rightarrow>
            if \<not> ok then Some (- ENOMEM K, s1)
            else (case atomic_commit W (add_conn_crtc T W m 0 ([], s1)) of (ret, s2) \<Rightarrow>
              if ret < 0 then Some (ret, s2)
              else power_off_mirrors K T W k ds
                     (report d (conn_report_of T m (Some k) ''mirror:off'') s2))))"

definition DoPowerOffMirror ::
  "sdk \<Rightarrow> topo \<Rightarrow> world \<Rightarrow> int \<Rightarrow> nptr \<Rightarrow> pipe \<Rightarrow> (int \<times> pipe) option" where
  "DoPowerOffMirror K T W d n s =
     (if \<not> is_connector_mirror_primary (conn s n) then Some (-1, s)
      else (case routed s n of
          None \<Rightarrow> Some (-1, s)
        | Some k \<Rightarrow> do {
            (ret, s1) \<leftarrow> power_off_mirrors K T W k (connected_mirror_display_id_set (conn s n)) s;
            (if ret \<noteq> 0 then Some (ret, s1) else power_off_crtc K T W d n k s1)
          }))"

definition DoPowerOff :: "sdk \<Rightarrow> topo \<Rightarrow> world \<Rightarrow> int \<Rightarrow> pipe \<Rightarrow> (int \<times> pipe) option" where
  "DoPowerOff K T W d s =
     (let no = GetConnectorForDisplay T d s; ret = CheckConnectorState K no True s in
      if ret \<noteq> 0 then Some (ret, s)
      else (case no of
          None \<Rightarrow> None
        | Some n \<Rightarrow> if mirror_mode (conn s n) then DoPowerOffMirror K T W d n s
                    else DoPowerOffNormal K T W d n s))"

definition SetPowerMode_device ::
  "sdk \<Rightarrow> topo \<Rightarrow> world \<Rightarrow> int \<Rightarrow> int \<Rightarrow> pipe \<Rightarrow> (int \<times> pipe) option" where
  "SetPowerMode_device K T W d power_mode s =
     (if power_mode = DRM_MODE_DPMS_ON K then DoPowerOn K T W d s
      else if power_mode = DRM_MODE_DPMS_OFF K then DoPowerOff K T W d s
      else Some (-1, s))"

end
