(* ===== verification/Pipe_Routing.thy ===== *)
theory Pipe_Routing
  imports Pipe_Mode
begin

text \<open>
  The abstract routing: which display number every CRTC carries, which CRTC every encoder feeds,
  which encoder every connector uses, and the mirror flags.  \<open>abs_routing\<close> reads it off the
  state, \<open>route_step\<close> is what an operation may do to it, and \<open>routing_ok\<close> is its invariant.
\<close>

section \<open>The abstract state\<close>

record routing =
  owner :: "cptr \<Rightarrow> int"
  feeds :: "eptr \<Rightarrow> cptr option"
  r_display :: "nptr \<Rightarrow> int"
  uses :: "nptr \<Rightarrow> eptr option"
  mirrors :: "nptr \<Rightarrow> bool"
  first :: "nptr \<Rightarrow> bool"
  r_primary_id :: "nptr \<Rightarrow> int"
  r_members :: "nptr \<Rightarrow> int list"

definition abs_routing :: "pipe \<Rightarrow> routing" where
  "abs_routing s =
     \<lparr> owner = (\<lambda>k. k_display (crtc s k)), feeds = (\<lambda>e. e_crtc (enc s e)),
       r_display = (\<lambda>n. n_display (conn s n)), uses = (\<lambda>n. n_encoder (conn s n)),
       mirrors = (\<lambda>n. mirror_mode (conn s n)), first = (\<lambda>n. mirror_primary (conn s n)),
       r_primary_id = (\<lambda>n. mirror_primary_id (conn s n)),
       r_members = (\<lambda>n. connected_mirror_display_id_set (conn s n)) \<rparr>"

definition plain :: "int \<Rightarrow> int" where
  "plain d = d AND NOT DRM_CONNECTOR_SPLIT_MODE_MASK"

definition r_routed :: "routing \<Rightarrow> nptr \<Rightarrow> cptr option" where
  "r_routed r n = (case uses r n of None \<Rightarrow> None | Some e \<Rightarrow> feeds r e)"

definition external_end :: "routing \<Rightarrow> nptr \<Rightarrow> bool" where
  "external_end r n \<longleftrightarrow> mirrors r n \<and> \<not> first r n"

definition primary_end :: "routing \<Rightarrow> nptr \<Rightarrow> bool" where
  "primary_end r n \<longleftrightarrow> mirrors r n \<and> first r n"

section \<open>Its steps\<close>

definition a_unroute :: "nptr \<Rightarrow> cptr \<Rightarrow> routing \<Rightarrow> routing" where
  "a_unroute n k r = r\<lparr> owner := (owner r)(k := -1), uses := (uses r)(n := None) \<rparr>"

definition a_attach :: "nptr \<Rightarrow> eptr \<Rightarrow> cptr \<Rightarrow> routing \<Rightarrow> routing" where
  "a_attach n e k r =
     r\<lparr> owner := (owner r)(k := r_display r n), feeds := (feeds r)(e := Some k),
        uses := (uses r)(n := Some e) \<rparr>"

definition a_share :: "nptr \<Rightarrow> nptr \<Rightarrow> eptr \<Rightarrow> cptr \<Rightarrow> int \<Rightarrow> routing \<Rightarrow> routing" where
  "a_share n p e k d r =
     r\<lparr> feeds := (feeds r)(e := Some k), uses := (uses r)(n := Some e),
        mirrors := (mirrors r)(p := True, n := True),
        first := (first r)(p := True, n := False),
        r_primary_id := (r_primary_id r)(p := r_display r p, n := r_display r p),
        r_members := (r_members r)(p := set_insert d (r_members r p), n := []) \<rparr>"

definition a_disable :: "int \<Rightarrow> nptr \<Rightarrow> routing \<Rightarrow> routing" where
  "a_disable d n r =
     (if first r n then
        (let ds = removeAll d (r_members r n); r1 = r\<lparr> r_members := (r_members r)(n := ds) \<rparr>
         in if ds = []
            then r1\<lparr> mirrors := (mirrors r)(n := False), first := (first r)(n := False) \<rparr> else r1)
      else r\<lparr> mirrors := (mirrors r)(n := False) \<rparr>)"

definition a_leave :: "int \<Rightarrow> nptr \<Rightarrow> nptr \<Rightarrow> routing \<Rightarrow> routing" where
  "a_leave d n p r =
     a_disable d p (r\<lparr> uses := (uses r)(n := None), mirrors := (mirrors r)(n := False) \<rparr>)"

inductive route_step :: "topo \<Rightarrow> routing \<Rightarrow> routing \<Rightarrow> bool" for T where
  take: "n \<in> set (dev_connectors T) \<Longrightarrow> uses r n = None \<Longrightarrow> (e, k) \<in> set (possible_routes T n) \<Longrightarrow>
    owner r k = -1 \<Longrightarrow> route_step T r (a_attach n e k r)"
| take_over: "n \<in> set (dev_connectors T) \<Longrightarrow> uses r n = None \<Longrightarrow>
    (e, k) \<in> set (possible_routes T n) \<Longrightarrow> v \<in> set (dev_connectors T) \<Longrightarrow> owner r k = r_display r v \<Longrightarrow>
    r_routed r v = Some k \<Longrightarrow> \<not> mirrors r v \<Longrightarrow> route_step T r (a_attach n e k (a_unroute v k r))"
| share: "n \<in> set (dev_connectors T) \<Longrightarrow> uses r n = None \<Longrightarrow>
    (e, k) \<in> set (possible_routes T n) \<Longrightarrow> p \<in> set (dev_connectors T) \<Longrightarrow> owner r k = r_display r p \<Longrightarrow>
    r_routed r p = Some k \<Longrightarrow> \<not> external_end r p \<Longrightarrow> plain d = r_display r n \<Longrightarrow>
    route_step T r (a_share n p e k d r)"
| release: "n \<in> set (dev_connectors T) \<Longrightarrow> \<not> mirrors r n \<Longrightarrow> r_routed r n = Some k \<Longrightarrow>
    route_step T r (a_unroute n k r)"
| leave: "n \<in> set (dev_connectors T) \<Longrightarrow> external_end r n \<Longrightarrow> p \<in> set (dev_connectors T) \<Longrightarrow>
    r_display r p = r_primary_id r n \<Longrightarrow> primary_end r p \<Longrightarrow> plain d = r_display r n \<Longrightarrow>
    route_step T r (a_leave d n p r)"

inductive_cases route_stepE: "route_step T r r'"

section \<open>Its invariant\<close>

text \<open>
  The device: connectors and encoders are told apart, an encoder serves one connector, and the
  CRTCs of an encoder are CRTCs of the device.
\<close>

definition topo_ok :: "topo \<Rightarrow> bool" where
  "topo_ok T \<longleftrightarrow>
     (\<forall>n \<in> set (dev_connectors T). \<forall>m \<in> set (dev_connectors T). n \<noteq> m \<longrightarrow>
        set (ni_possible_encoders (ni T n)) \<inter> set (ni_possible_encoders (ni T m)) = {}) \<and>
     (\<forall>n \<in> set (dev_connectors T). \<forall>(e, k) \<in> set (possible_routes T n). k \<in> set (dev_crtcs T))"

definition displays_ok :: "topo \<Rightarrow> routing \<Rightarrow> bool" where
  "displays_ok T r \<longleftrightarrow>
     inj_on (r_display r) (set (dev_connectors T)) \<and>
     (\<forall>n \<in> set (dev_connectors T). 0 \<le> r_display r n \<and> plain (r_display r n) = r_display r n)"

definition encoders_ok :: "topo \<Rightarrow> routing \<Rightarrow> bool" where
  "encoders_ok T r \<longleftrightarrow>
     (\<forall>n \<in> set (dev_connectors T). \<forall>e. uses r n = Some e \<longrightarrow>
        (\<exists>k. (e, k) \<in> set (possible_routes T n) \<and> feeds r e = Some k))"

definition owners_ok :: "topo \<Rightarrow> routing \<Rightarrow> bool" where
  "owners_ok T r \<longleftrightarrow>
     (\<forall>n \<in> set (dev_connectors T). \<forall>k. \<not> external_end r n \<longrightarrow> r_routed r n = Some k \<longrightarrow>
        owner r k = r_display r n) \<and>
     (\<forall>k \<in> set (dev_crtcs T). owner r k \<noteq> -1 \<longrightarrow>
        (\<exists>n \<in> set (dev_connectors T). r_display r n = owner r k \<and> \<not> external_end r n \<and>
             r_routed r n = Some k))"

definition mirrors_ok :: "topo \<Rightarrow> routing \<Rightarrow> bool" where
  "mirrors_ok T r \<longleftrightarrow>
     (\<forall>n \<in> set (dev_connectors T).
        (uses r n = None \<longrightarrow> \<not> mirrors r n) \<and> (primary_end r n \<longrightarrow> r_members r n \<noteq> []) \<and>
        (\<forall>d \<in> set (r_members r n). plain d \<noteq> r_display r n) \<and>
        (external_end r n \<longrightarrow>
          (\<exists>p \<in> set (dev_connectors T). r_display r p = r_primary_id r n \<and> primary_end r p \<and>
             r_routed r p = r_routed r n \<and> (\<exists>d \<in> set (r_members r p). plain d = r_display r n))))"

definition routing_ok :: "topo \<Rightarrow> routing \<Rightarrow> bool" where
  "routing_ok T r \<longleftrightarrow> displays_ok T r \<and> encoders_ok T r \<and> owners_ok T r \<and> mirrors_ok T r"

lemmas routing_defs =
  a_unroute_def a_attach_def a_share_def external_end_def primary_end_def r_routed_def

lemma possible_routes_iff:
  "(e, k) \<in> set (possible_routes T n) \<longleftrightarrow>
   e \<in> set (ni_possible_encoders (ni T n)) \<and> k \<in> set (ei_possible_crtcs T e)"
  by (auto simp: possible_routes_def)

lemma routes_disjoint:
  "topo_ok T \<Longrightarrow> n \<in> set (dev_connectors T) \<Longrightarrow> m \<in> set (dev_connectors T) \<Longrightarrow>
   (e, k) \<in> set (possible_routes T n) \<Longrightarrow> (e, j) \<in> set (possible_routes T m) \<Longrightarrow> n = m"
  unfolding topo_ok_def possible_routes_iff by blast

lemma route_crtc:
  "topo_ok T \<Longrightarrow> n \<in> set (dev_connectors T) \<Longrightarrow> (e, k) \<in> set (possible_routes T n) \<Longrightarrow>
   k \<in> set (dev_crtcs T)"
  unfolding topo_ok_def by blast

section \<open>Every step keeps the invariant\<close>

lemma routing_okD:
  assumes "routing_ok T r"
  shows "displays_ok T r" "encoders_ok T r" "owners_ok T r" "mirrors_ok T r"
  using assms by (simp_all add: routing_ok_def)

lemma same_display:
  "displays_ok T r \<Longrightarrow> n \<in> set (dev_connectors T) \<Longrightarrow> m \<in> set (dev_connectors T) \<Longrightarrow>
   r_display r n = r_display r m \<Longrightarrow> n = m"
  unfolding displays_ok_def inj_on_def by blast

lemma owner_unique:
  assumes "routing_ok T r" "n \<in> set (dev_connectors T)" "m \<in> set (dev_connectors T)"
    and "\<not> external_end r n" "\<not> external_end r m" "r_routed r n = Some k" "r_routed r m = Some k"
  shows "n = m"
proof -
  have "owner r k = r_display r n" "owner r k = r_display r m"
    using assms unfolding routing_ok_def owners_ok_def by blast+
  then show ?thesis using assms same_display [of T r n m] by (simp add: routing_ok_def)
qed

lemma unowned_unrouted:
  assumes "routing_ok T r" "n \<in> set (dev_connectors T)" "\<not> external_end r n" "owner r k = -1"
  shows "r_routed r n \<noteq> Some k"
proof
  assume "r_routed r n = Some k"
  then have "r_display r n = -1"
    using assms unfolding routing_ok_def owners_ok_def by metis
  then show False using assms unfolding routing_ok_def displays_ok_def by force
qed

lemma unbound_owns_nothing:
  assumes "routing_ok T r" "n \<in> set (dev_connectors T)" "uses r n = None" "k \<in> set (dev_crtcs T)"
  shows "owner r k \<noteq> r_display r n"
proof
  assume o: "owner r k = r_display r n"
  then have "owner r k \<noteq> -1"
    using assms unfolding routing_ok_def displays_ok_def by force
  then obtain m where m: "m \<in> set (dev_connectors T)" "r_display r m = owner r k"
      "r_routed r m = Some k"
    using assms unfolding routing_ok_def owners_ok_def by blast
  then have "m = n" using o assms same_display [of T r m n] by (simp add: routing_ok_def)
  then show False using m assms(3) by (simp add: r_routed_def)
qed

text \<open>What a step does to the derived notions.\<close>

lemma unroute_simps [simp]:
  "owner (a_unroute n k r) j = (if j = k then -1 else owner r j)"
  "r_display (a_unroute n k r) = r_display r"
  "uses (a_unroute n k r) m = (if m = n then None else uses r m)"
  "feeds (a_unroute n k r) = feeds r"
  "mirrors (a_unroute n k r) = mirrors r" "first (a_unroute n k r) = first r"
  "r_primary_id (a_unroute n k r) = r_primary_id r" "r_members (a_unroute n k r) = r_members r"
  "r_routed (a_unroute n k r) m = (if m = n then None else r_routed r m)"
  "external_end (a_unroute n k r) m = external_end r m"
  "primary_end (a_unroute n k r) m = primary_end r m"
  by (auto simp: routing_defs split: option.splits)

lemma attach_simps [simp]:
  "owner (a_attach n e k r) j = (if j = k then r_display r n else owner r j)"
  "r_display (a_attach n e k r) = r_display r"
  "uses (a_attach n e k r) m = (if m = n then Some e else uses r m)"
  "feeds (a_attach n e k r) f = (if f = e then Some k else feeds r f)"
  "mirrors (a_attach n e k r) = mirrors r" "first (a_attach n e k r) = first r"
  "r_primary_id (a_attach n e k r) = r_primary_id r" "r_members (a_attach n e k r) = r_members r"
  "external_end (a_attach n e k r) m = external_end r m"
  "primary_end (a_attach n e k r) m = primary_end r m"
  by (simp_all add: routing_defs)

lemma owners_okI:
  assumes "\<And>n k. n \<in> set (dev_connectors T) \<Longrightarrow> \<not> external_end r n \<Longrightarrow> r_routed r n = Some k \<Longrightarrow>
      owner r k = r_display r n"
    and "\<And>k. k \<in> set (dev_crtcs T) \<Longrightarrow> owner r k \<noteq> -1 \<Longrightarrow>
      \<exists>n \<in> set (dev_connectors T). r_display r n = owner r k \<and> \<not> external_end r n \<and>
             r_routed r n = Some k"
  shows "owners_ok T r"
  using assms by (simp add: owners_ok_def)

lemma owner_of:
  "routing_ok T r \<Longrightarrow> n \<in> set (dev_connectors T) \<Longrightarrow> \<not> external_end r n \<Longrightarrow>
   r_routed r n = Some k \<Longrightarrow> owner r k = r_display r n"
  by (simp add: routing_ok_def owners_ok_def)

lemma owned_by:
  assumes "routing_ok T r" "k \<in> set (dev_crtcs T)" "owner r k \<noteq> -1"
  obtains n where "n \<in> set (dev_connectors T)" "r_display r n = owner r k" "\<not> external_end r n"
    "r_routed r n = Some k"
  using assms unfolding routing_ok_def owners_ok_def by blast

lemma mirrors_okI:
  assumes "\<And>n. n \<in> set (dev_connectors T) \<Longrightarrow> uses r n = None \<Longrightarrow> \<not> mirrors r n"
    and "\<And>n. n \<in> set (dev_connectors T) \<Longrightarrow> primary_end r n \<Longrightarrow> r_members r n \<noteq> []"
    and "\<And>n d. n \<in> set (dev_connectors T) \<Longrightarrow> d \<in> set (r_members r n) \<Longrightarrow> plain d \<noteq> r_display r n"
    and "\<And>n. n \<in> set (dev_connectors T) \<Longrightarrow> external_end r n \<Longrightarrow>
      \<exists>p \<in> set (dev_connectors T). \<exists>d. r_display r p = r_primary_id r n \<and> primary_end r p \<and>
        r_routed r p = r_routed r n \<and> d \<in> set (r_members r p) \<and> plain d = r_display r n"
  shows "mirrors_ok T r"
  using assms unfolding mirrors_ok_def by blast

lemma mirrors_okD:
  assumes "routing_ok T r" "n \<in> set (dev_connectors T)"
  shows "uses r n = None \<Longrightarrow> \<not> mirrors r n"
    and "primary_end r n \<Longrightarrow> r_members r n \<noteq> []"
    and "d \<in> set (r_members r n) \<Longrightarrow> plain d \<noteq> r_display r n"
    and "external_end r n \<Longrightarrow>
      \<exists>p \<in> set (dev_connectors T). \<exists>d. r_display r p = r_primary_id r n \<and> primary_end r p \<and>
        r_routed r p = r_routed r n \<and> d \<in> set (r_members r p) \<and> plain d = r_display r n"
  using assms unfolding routing_ok_def mirrors_ok_def by blast+

lemma unroute_ok:
  assumes ok: "routing_ok T r" and n: "n \<in> set (dev_connectors T)" "\<not> mirrors r n"
    and k: "r_routed r n = Some k"
  shows "routing_ok T (a_unroute n k r)"
proof -
  have other: "r_routed r m \<noteq> Some k"
    if "m \<in> set (dev_connectors T)" "m \<noteq> n" "\<not> external_end r m" for m
    using owner_unique [OF ok n(1), of m k] that n k by (auto simp: external_end_def)
  have "displays_ok T (a_unroute n k r)" "encoders_ok T (a_unroute n k r)"
    using routing_okD(1,2) [OF ok] by (simp_all add: displays_ok_def encoders_ok_def)
  moreover have "owners_ok T (a_unroute n k r)"
  proof (rule owners_okI)
    fix m j assume "m \<in> set (dev_connectors T)" "\<not> external_end (a_unroute n k r) m"
      "r_routed (a_unroute n k r) m = Some j"
    then show "owner (a_unroute n k r) j = r_display (a_unroute n k r) m"
      using owner_of [OF ok, of m j] other [of m] by (auto split: if_splits)
  next
    fix j assume j: "j \<in> set (dev_crtcs T)" "owner (a_unroute n k r) j \<noteq> -1"
    then obtain m where "m \<in> set (dev_connectors T)" "r_display r m = owner r j"
        "\<not> external_end r m" "r_routed r m = Some j" "j \<noteq> k"
      using owned_by [OF ok, of j] by (auto split: if_splits)
    then show "\<exists>m \<in> set (dev_connectors T). r_display (a_unroute n k r) m = owner (a_unroute n k r) j \<and>
        \<not> external_end (a_unroute n k r) m \<and> r_routed (a_unroute n k r) m = Some j"
      using k by (intro bexI [of _ m]) auto
  qed
  moreover have "mirrors_ok T (a_unroute n k r)"
  proof (rule mirrors_okI)
    fix m assume m: "m \<in> set (dev_connectors T)"
    show "uses (a_unroute n k r) m = None \<Longrightarrow> \<not> mirrors (a_unroute n k r) m"
      "primary_end (a_unroute n k r) m \<Longrightarrow> r_members (a_unroute n k r) m \<noteq> []"
      "d \<in> set (r_members (a_unroute n k r) m) \<Longrightarrow> plain d \<noteq> r_display (a_unroute n k r) m" for d
      using mirrors_okD(1-3) [OF ok m] n by (auto split: if_splits)
    assume x: "external_end (a_unroute n k r) m"
    then obtain p d where p: "p \<in> set (dev_connectors T)" "r_display r p = r_primary_id r m"
        "primary_end r p" "r_routed r p = r_routed r m"
        "d \<in> set (r_members r p)" "plain d = r_display r m"
      using mirrors_okD(4) [OF ok m] by auto
    moreover from this x have "p \<noteq> n" "m \<noteq> n" using n by (auto simp: primary_end_def external_end_def)
    ultimately show "\<exists>p \<in> set (dev_connectors T). \<exists>d.
          r_display (a_unroute n k r) p = r_primary_id (a_unroute n k r) m \<and>
          primary_end (a_unroute n k r) p \<and> r_routed (a_unroute n k r) p = r_routed (a_unroute n k r) m \<and>
          d \<in> set (r_members (a_unroute n k r) p) \<and> plain d = r_display (a_unroute n k r) m"
      by (intro bexI [of _ p] exI [of _ d]) auto
  qed
  ultimately show ?thesis by (simp add: routing_ok_def)
qed

lemma other_encoder:
  assumes "topo_ok T" "routing_ok T r" "n \<in> set (dev_connectors T)" "m \<in> set (dev_connectors T)"
    and "m \<noteq> n" "(e, k) \<in> set (possible_routes T n)"
  shows "uses r m \<noteq> Some e"
proof
  assume "uses r m = Some e"
  then obtain j where "(e, j) \<in> set (possible_routes T m)"
    using assms(2,4) unfolding routing_ok_def encoders_ok_def by blast
  then show False using routes_disjoint [OF assms(1,3,4,6)] assms(5) by blast
qed

lemma rerouted_other:
  assumes "topo_ok T" "routing_ok T r" "n \<in> set (dev_connectors T)" "m \<in> set (dev_connectors T)"
    and "m \<noteq> n" "(e, k) \<in> set (possible_routes T n)"
    and "uses r' m = uses r m" "\<And>f. f \<noteq> e \<Longrightarrow> feeds r' f = feeds r f"
  shows "r_routed r' m = r_routed r m"
  using other_encoder [OF assms(1-6)] assms(7,8) by (auto simp: r_routed_def split: option.splits)

lemma attach_ok:
  assumes T: "topo_ok T" and ok: "routing_ok T r" and n: "n \<in> set (dev_connectors T)"
    and u: "uses r n = None" and e: "(e, k) \<in> set (possible_routes T n)" and k: "owner r k = -1"
  shows "routing_ok T (a_attach n e k r)"
proof -
  let ?r = "a_attach n e k r"
  have ne: "\<not> mirrors r n" using mirrors_okD(1) [OF ok n] u .
  have at_n: "r_routed ?r n = Some k" by (simp add: r_routed_def)
  have other: "r_routed ?r m = r_routed r m" if "m \<in> set (dev_connectors T)" "m \<noteq> n" for m
    by (rule rerouted_other [OF T ok n that e]) (use that in simp_all)
  have "displays_ok T ?r" using routing_okD(1) [OF ok] by (simp add: displays_ok_def)
  moreover have "encoders_ok T ?r"
    using routing_okD(2) [OF ok] other_encoder [OF T ok n] e unfolding encoders_ok_def
    by (auto split: if_splits)
  moreover have "owners_ok T ?r"
  proof (rule owners_okI)
    fix m j assume "m \<in> set (dev_connectors T)" "\<not> external_end ?r m" "r_routed ?r m = Some j"
    then show "owner ?r j = r_display ?r m"
      using owner_of [OF ok, of m j] other [of m] at_n unowned_unrouted [OF ok, of m k] k
      by (cases "m = n") auto
  next
    fix j assume j: "j \<in> set (dev_crtcs T)" "owner ?r j \<noteq> -1"
    show "\<exists>m \<in> set (dev_connectors T). r_display ?r m = owner ?r j \<and> \<not> external_end ?r m \<and>
        r_routed ?r m = Some j"
    proof (cases "j = k")
      case True
      then show ?thesis using n ne at_n by (intro bexI [of _ n]) (auto simp: external_end_def)
    next
      case False
      with j obtain m where "m \<in> set (dev_connectors T)" "r_display r m = owner r j"
          "\<not> external_end r m" "r_routed r m = Some j"
        using owned_by [OF ok, of j] by auto
      moreover from this have "m \<noteq> n" using u by (auto simp: r_routed_def)
      ultimately show ?thesis using False other [of m] by (intro bexI [of _ m]) auto
    qed
  qed
  moreover have "mirrors_ok T ?r"
  proof (rule mirrors_okI)
    fix m assume m: "m \<in> set (dev_connectors T)"
    show "uses ?r m = None \<Longrightarrow> \<not> mirrors ?r m"
      "primary_end ?r m \<Longrightarrow> r_members ?r m \<noteq> []"
      "d \<in> set (r_members ?r m) \<Longrightarrow> plain d \<noteq> r_display ?r m" for d
      using mirrors_okD(1-3) [OF ok m] by (auto split: if_splits)
    assume x: "external_end ?r m"
    then obtain p d where p: "p \<in> set (dev_connectors T)" "r_display r p = r_primary_id r m"
        "primary_end r p" "r_routed r p = r_routed r m"
        "d \<in> set (r_members r p)" "plain d = r_display r m"
      using mirrors_okD(4) [OF ok m] by auto
    moreover from this x ne have "p \<noteq> n" "m \<noteq> n" by (auto simp: primary_end_def external_end_def)
    ultimately show "\<exists>p \<in> set (dev_connectors T). \<exists>d.
          r_display ?r p = r_primary_id ?r m \<and> primary_end ?r p \<and> r_routed ?r p = r_routed ?r m \<and>
          d \<in> set (r_members ?r p) \<and> plain d = r_display ?r m"
      using other m by (intro bexI [of _ p] exI [of _ d]) auto
  qed
  ultimately show ?thesis by (simp add: routing_ok_def)
qed

lemma set_set_insert [simp]: "set (set_insert d ds) = insert d (set ds)"
  by (auto simp: set_insert_def set_insort_key)

lemma set_insert_not_Nil [simp]: "set_insert d ds \<noteq> []"
  by (metis insert_not_empty list.set(1) set_set_insert)

lemma share_simps [simp]:
  "owner (a_share n p e k d r) = owner r"
  "r_display (a_share n p e k d r) = r_display r"
  "uses (a_share n p e k d r) m = (if m = n then Some e else uses r m)"
  "feeds (a_share n p e k d r) f = (if f = e then Some k else feeds r f)"
  by (simp_all add: routing_defs)

lemma share_flags:
  "p \<noteq> n \<Longrightarrow> external_end (a_share n p e k d r) m =
     (if m = n then True else if m = p then False else external_end r m)"
  "p \<noteq> n \<Longrightarrow> primary_end (a_share n p e k d r) m =
     (if m = n then False else if m = p then True else primary_end r m)"
  "p \<noteq> n \<Longrightarrow> mirrors (a_share n p e k d r) m = (if m = n \<or> m = p then True else mirrors r m)"
  "p \<noteq> n \<Longrightarrow> r_primary_id (a_share n p e k d r) m =
     (if m = n \<or> m = p then r_display r p else r_primary_id r m)"
  "p \<noteq> n \<Longrightarrow> r_members (a_share n p e k d r) m =
     (if m = n then [] else if m = p then set_insert d (r_members r p) else r_members r m)"
  by (auto simp: routing_defs)

lemma share_ok:
  assumes T: "topo_ok T" and ok: "routing_ok T r" and n: "n \<in> set (dev_connectors T)"
    and u: "uses r n = None" and e: "(e, k) \<in> set (possible_routes T n)"
    and p: "p \<in> set (dev_connectors T)" "r_routed r p = Some k" "\<not> external_end r p"
    and d: "plain d = r_display r n"
  shows "routing_ok T (a_share n p e k d r)"
proof -
  let ?r = "a_share n p e k d r"
  have pn: "p \<noteq> n" using p(2) u by (auto simp: r_routed_def)
  note fl = share_flags [OF pn]
  have ne: "\<not> mirrors r n" using mirrors_okD(1) [OF ok n] u .
  have at_n: "r_routed ?r n = Some k" by (simp add: r_routed_def)
  have other: "r_routed ?r m = r_routed r m" if "m \<in> set (dev_connectors T)" "m \<noteq> n" for m
    by (rule rerouted_other [OF T ok n that e]) (use that in simp_all)
  have dp: "plain d \<noteq> r_display r p"
    using same_display [OF routing_okD(1) [OF ok] n p(1)] d pn by auto
  have "displays_ok T ?r" using routing_okD(1) [OF ok] by (simp add: displays_ok_def)
  moreover have "encoders_ok T ?r"
    using routing_okD(2) [OF ok] other_encoder [OF T ok n] e unfolding encoders_ok_def
    by (auto split: if_splits)
  moreover have "owners_ok T ?r"
  proof (rule owners_okI)
    fix m j assume "m \<in> set (dev_connectors T)" "\<not> external_end ?r m" "r_routed ?r m = Some j"
    then show "owner ?r j = r_display ?r m"
      using owner_of [OF ok, of m j] other [of m] p by (auto simp: fl split: if_splits)
  next
    fix j assume j: "j \<in> set (dev_crtcs T)" "owner ?r j \<noteq> -1"
    then obtain m where "m \<in> set (dev_connectors T)" "r_display r m = owner r j"
        "\<not> external_end r m" "r_routed r m = Some j"
      using owned_by [OF ok, of j] by auto
    moreover from this have "m \<noteq> n" using u by (auto simp: r_routed_def)
    ultimately show "\<exists>m \<in> set (dev_connectors T). r_display ?r m = owner ?r j \<and>
        \<not> external_end ?r m \<and> r_routed ?r m = Some j"
      using other [of m] by (intro bexI [of _ m]) (auto simp: fl)
  qed
  moreover have "mirrors_ok T ?r"
  proof (rule mirrors_okI)
    fix m assume m: "m \<in> set (dev_connectors T)"
    show "uses ?r m = None \<Longrightarrow> \<not> mirrors ?r m"
      using mirrors_okD(1) [OF ok m] p by (auto simp: fl r_routed_def split: if_splits)
    show "primary_end ?r m \<Longrightarrow> r_members ?r m \<noteq> []"
      using mirrors_okD(2) [OF ok m] by (auto simp: fl split: if_splits)
    show "c \<in> set (r_members ?r m) \<Longrightarrow> plain c \<noteq> r_display ?r m" for c
      using mirrors_okD(3) [OF ok m] dp by (auto simp: fl split: if_splits)
    assume x: "external_end ?r m"
    show "\<exists>q \<in> set (dev_connectors T). \<exists>c.
          r_display ?r q = r_primary_id ?r m \<and> primary_end ?r q \<and> r_routed ?r q = r_routed ?r m \<and>
          c \<in> set (r_members ?r q) \<and> plain c = r_display ?r m"
    proof (cases "m = n")
      case True
      then show ?thesis using p d at_n other [OF p(1)] pn
        by (intro bexI [of _ p] exI [of _ d]) (auto simp: fl)
    next
      case False
      with x have xm: "external_end r m" "m \<noteq> p" by (auto simp: fl split: if_splits)
      then obtain q c where "q \<in> set (dev_connectors T)" "r_display r q = r_primary_id r m"
          "primary_end r q" "r_routed r q = r_routed r m"
          "c \<in> set (r_members r q)" "plain c = r_display r m"
        using mirrors_okD(4) [OF ok m] by auto
      moreover from this ne have "q \<noteq> n" by (auto simp: primary_end_def)
      ultimately show ?thesis using other m False xm
        by (intro bexI [of _ q] exI [of _ c]) (auto simp: fl)
    qed
  qed
  ultimately show ?thesis by (simp add: routing_ok_def)
qed

lemma leave_simps [simp]:
  "owner (a_leave d n p r) = owner r" "feeds (a_leave d n p r) = feeds r"
  "r_display (a_leave d n p r) = r_display r" "r_primary_id (a_leave d n p r) = r_primary_id r"
  "uses (a_leave d n p r) m = (if m = n then None else uses r m)"
  by (simp_all add: a_leave_def a_disable_def Let_def)

lemma leave_routed [simp]: "r_routed (a_leave d n p r) m = (if m = n then None else r_routed r m)"
  by (simp add: r_routed_def split: option.split)

lemma leave_flags:
  assumes "primary_end r p" "external_end r n"
  shows "external_end (a_leave d n p r) m = (m \<noteq> n \<and> external_end r m)"
    and "primary_end (a_leave d n p r) m =
      (primary_end r m \<and> (m = p \<longrightarrow> removeAll d (r_members r p) \<noteq> []))"
    and "r_members (a_leave d n p r) m =
      (if m = p then removeAll d (r_members r p) else r_members r m)"
    and "mirrors (a_leave d n p r) m =
      (m \<noteq> n \<and> mirrors r m \<and> (m = p \<longrightarrow> removeAll d (r_members r p) \<noteq> []))"
  using assms
  by (auto simp: a_leave_def a_disable_def Let_def external_end_def primary_end_def)

lemma leave_ok:
  assumes ok: "routing_ok T r" and n: "n \<in> set (dev_connectors T)" "external_end r n"
    and p: "p \<in> set (dev_connectors T)" "primary_end r p"
    and d: "plain d = r_display r n"
  shows "routing_ok T (a_leave d n p r)"
proof -
  let ?r = "a_leave d n p r"
  note fl = leave_flags [OF p(2) n(2)]
  have "displays_ok T ?r" "encoders_ok T ?r"
    using routing_okD(1,2) [OF ok] by (simp_all add: displays_ok_def encoders_ok_def)
  moreover have "owners_ok T ?r"
  proof (rule owners_okI)
    fix m j assume "m \<in> set (dev_connectors T)" "\<not> external_end ?r m" "r_routed ?r m = Some j"
    then show "owner ?r j = r_display ?r m"
      using owner_of [OF ok, of m j] by (auto simp: fl split: if_splits)
  next
    fix j assume j: "j \<in> set (dev_crtcs T)" "owner ?r j \<noteq> -1"
    then obtain m where "m \<in> set (dev_connectors T)" "r_display r m = owner r j"
        "\<not> external_end r m" "r_routed r m = Some j"
      using owned_by [OF ok, of j] by auto
    then show "\<exists>m \<in> set (dev_connectors T). r_display ?r m = owner ?r j \<and>
        \<not> external_end ?r m \<and> r_routed ?r m = Some j"
      using n by (intro bexI [of _ m]) (auto simp: fl)
  qed
  moreover have "mirrors_ok T ?r"
  proof (rule mirrors_okI)
    fix m assume m: "m \<in> set (dev_connectors T)"
    show "uses ?r m = None \<Longrightarrow> \<not> mirrors ?r m"
      "primary_end ?r m \<Longrightarrow> r_members ?r m \<noteq> []"
      "c \<in> set (r_members ?r m) \<Longrightarrow> plain c \<noteq> r_display ?r m" for c
      using mirrors_okD(1-3) [OF ok m] by (auto simp: fl split: if_splits)
    assume "external_end ?r m"
    then have x: "external_end r m" "m \<noteq> n" by (simp_all add: fl)
    then obtain q c where q: "q \<in> set (dev_connectors T)" "r_display r q = r_primary_id r m"
        "primary_end r q" "r_routed r q = r_routed r m"
        "c \<in> set (r_members r q)" "plain c = r_display r m"
      using mirrors_okD(4) [OF ok m] by auto
    have "c \<noteq> d" using q(6) d same_display [OF routing_okD(1) [OF ok] m n(1)] x(2) by auto
    then have "c \<in> set (r_members ?r q)" using q(5) by (auto simp: fl)
    moreover from this have "primary_end ?r q" using q(3) by (auto simp: fl)
    moreover have "q \<noteq> n" using q(3) n(2) by (auto simp: primary_end_def external_end_def)
    ultimately show "\<exists>q \<in> set (dev_connectors T). \<exists>c.
          r_display ?r q = r_primary_id ?r m \<and> primary_end ?r q \<and> r_routed ?r q = r_routed ?r m \<and>
          c \<in> set (r_members ?r q) \<and> plain c = r_display ?r m"
      using q x by (intro bexI [of _ q] exI [of _ c]) auto
  qed
  ultimately show ?thesis by (simp add: routing_ok_def)
qed

theorem route_step_ok:
  assumes "route_step T r r'" "topo_ok T" "routing_ok T r"
  shows "routing_ok T r'"
  using assms(1)
proof cases
  case (take n e k)
  then show ?thesis using attach_ok [OF assms(2,3)] by simp
next
  case (take_over n e k v)
  have "routing_ok T (a_unroute v k r)"
    by (rule unroute_ok [OF assms(3)]) (use take_over in simp_all)
  then show ?thesis
    unfolding take_over(1)
    by (rule attach_ok [OF assms(2)]) (use take_over in simp_all)
next
  case (share n e k p d)
  show ?thesis unfolding share(1)
    by (rule share_ok [OF assms(2,3)]) (use share in simp_all)
next
  case (release n k)
  then show ?thesis using unroute_ok [OF assms(3)] by simp
next
  case (leave n p d)
  then show ?thesis using leave_ok [OF assms(3)] by simp
qed

end
