(* ===== verification/Pipe_Refine.thy ===== *)
theory Pipe_Refine
  imports Pipe_Routing
begin

text \<open>
  The operations on displays refine the abstract routing.  \<open>obliging\<close> is a kernel that refuses
  nothing, \<open>settled\<close> a state in which no connector still has the CRTC the boot loader gave it.
  Under both an unsuccessful attempt to find a CRTC leaves the state alone, so the search makes
  at most one step.
\<close>

definition obliging :: "world \<Rightarrow> bool" where
  "obliging W \<longleftrightarrow> (\<forall>t. w_alloc W t) \<and> (\<forall>t. w_add W t) \<and> (\<forall>t q. 0 \<le> w_commit W t q)"

definition settled :: "topo \<Rightarrow> pipe \<Rightarrow> bool" where
  "settled T s \<longleftrightarrow> (\<forall>n \<in> set (dev_connectors T). mKernelCrtcId (conn s n) \<le> 0)"

definition same_objects :: "pipe \<Rightarrow> pipe \<Rightarrow> bool" where
  "same_objects s t \<longleftrightarrow> crtc t = crtc s \<and> enc t = enc s \<and> conn t = conn s"

lemma same_objects_refl [simp]: "same_objects s s"
  by (simp add: same_objects_def)

lemma same_objects_trans: "same_objects s t \<Longrightarrow> same_objects t u \<Longrightarrow> same_objects s u"
  by (simp add: same_objects_def)

lemma same_objects_abs: "same_objects s t \<Longrightarrow> abs_routing t = abs_routing s"
  by (simp add: same_objects_def abs_routing_def)

lemma same_objects_settled: "same_objects s t \<Longrightarrow> settled T t = settled T s"
  by (simp add: same_objects_def settled_def)

section \<open>The calls into libdrm leave the objects alone\<close>

lemma calls_same [simp]:
  "same_objects s (tick t) = same_objects s t"
  "same_objects s (snd (atomic_alloc W t)) = same_objects s t"
  "same_objects s (snd (snd (atomic_add W obj prop v ps))) = same_objects s (snd ps)"
  "same_objects s (snd (DRM_ATOMIC_ADD_PROP W obj prop v ps)) = same_objects s (snd ps)"
  "same_objects s (snd (atomic_commit W ps)) = same_objects s (snd ps)"
  "same_objects s (snd (snd (CreatePropertyBlob W m t))) = same_objects s t"
  "same_objects s (DestroyPropertyBlob b t) = same_objects s t"
  "same_objects s (report d r t) = same_objects s t"
  "same_objects s (t\<lparr>groups := g\<rparr>) = same_objects s t"
  by (simp_all add: same_objects_def tick_def atomic_alloc_def atomic_add_def Let_def
      DRM_ATOMIC_ADD_PROP_def atomic_commit_def CreatePropertyBlob_def DestroyPropertyBlob_def
      report_def split: prod.splits)

lemma add_same [simp]:
  "same_objects s (snd (add_conn_crtc T W n v ps)) = same_objects s (snd ps)"
  "same_objects s (snd (add_crtc_off T W k ps)) = same_objects s (snd ps)"
  "same_objects s (snd (add_crtc_on T W n k b ps)) = same_objects s (snd ps)"
  "same_objects s (snd (add_output_rgb K T W n ps)) = same_objects s (snd ps)"
  by (simp_all add: add_conn_crtc_def add_crtc_off_def add_crtc_on_def add_output_rgb_def)

text \<open>The same facts for a result that has been taken apart.\<close>

lemma calls_sameD:
  "atomic_alloc W t = (ok, u) \<Longrightarrow> same_objects s u = same_objects s t"
  "atomic_add W obj prop v ps = (ok, qs) \<Longrightarrow> same_objects s (snd qs) = same_objects s (snd ps)"
  "atomic_commit W ps = (ret, u) \<Longrightarrow> same_objects s u = same_objects s (snd ps)"
  "CreatePropertyBlob W m t = (ret, b, u) \<Longrightarrow> same_objects s u = same_objects s t"
  using calls_same(2) [of s W t] calls_same(3) [of s W "obj" "prop" v ps] calls_same(5) [of s W ps]
    calls_same(6) [of s W m t]
  by (simp_all only: snd_conv)

lemma finish_assign_same [simp]: "same_objects s (snd (finish_assign T t)) = same_objects s t"
proof (cases "TryAssignPlane T t")
  case (Pair ret u)
  then show ?thesis
    using TryAssignPlane_frame [of t T]
    by (simp add: finish_assign_def same_objects_def routing_same_def)
qed

lemma disable_planes_same:
  "same_objects s (snd (snd (disable_planes W ps rs))) = same_objects s (snd rs)"
  by (induction W ps rs rule: disable_planes.induct)
     (auto split: bool.splits prod.splits dest!: calls_sameD(2) [where s = s])

lemma disable_planes_ok: "obliging W \<Longrightarrow> fst (disable_planes W ps rs)"
  by (induction W ps rs rule: disable_planes.induct)
     (auto simp: obliging_def atomic_add_def split: prod.splits bool.splits)

lemma add_plane_disables_same:
  "add_plane_disables T W k ps = (ok, qs) \<Longrightarrow> same_objects s (snd qs) = same_objects s (snd ps)"
  using disable_planes_same [of s W "planes_of_crtc T k (groups (snd ps))" ps]
  by (simp add: add_plane_disables_def)

lemma DisableAllPlane_into_same:
  assumes "obliging W"
  obtains ps' where "DisableAllPlane_into T W k ps = Some ps'"
    "\<And>s. same_objects s (snd ps') = same_objects s (snd ps)"
proof -
  obtain ok qs where Pair: "add_plane_disables T W k ps = (ok, qs)"
    by (metis surj_pair)
  then have "ok"
    using disable_planes_ok [OF assms, of "planes_of_crtc T k (groups (snd ps))" ps]
    by (simp add: add_plane_disables_def)
  then show thesis
    using that [of qs] Pair add_plane_disables_same [OF Pair] by (simp add: DisableAllPlane_into_def)
qed

lemma DisableAllPlane_commit_same [simp]:
  "same_objects s (snd (DisableAllPlane_commit K T W k t)) = same_objects s t"
  by (auto simp: DisableAllPlane_commit_def split: prod.splits
      dest!: calls_sameD(1,3) [where s = s] add_plane_disables_same [where s = s])

section \<open>The updates of the objects are the abstract ones\<close>

lemma abs_upd [simp]:
  "abs_routing (upd_conn n reset_kernel_crtc_id s) = abs_routing s"
  "abs_routing (upd_conn n (set_active_mode m) s) = abs_routing s"
  "abs_routing (upd_crtc k has_sync_kernel_mode s) = abs_routing s"
  by (simp_all add: abs_routing_def upd_conn_def upd_crtc_def reset_kernel_crtc_id_def
      set_active_mode_def has_sync_kernel_mode_def fun_eq_iff)

lemma abs_unroute: "abs_routing (unroute n k s) = a_unroute n k (abs_routing s)"
  by (simp add: abs_routing_def unroute_def upd_conn_def upd_crtc_def reset_kernel_crtc_id_def
      set_encoder_def crtc_set_display_def a_unroute_def fun_eq_iff)

lemma abs_attach: "abs_routing (attach n e k s) = a_attach n e k (abs_routing s)"
  by (simp add: abs_routing_def attach_def upd_conn_def upd_crtc_def encoder_set_crtc_def
      set_encoder_def crtc_set_display_def a_attach_def fun_eq_iff)

lemma abs_share:
  assumes "p \<noteq> n" "n_display (conn s p) = pd" "n_display (conn s n) \<noteq> pd"
  shows "abs_routing (upd_conn n (set_encoder (Some e)) (encoder_set_crtc e (Some k)
           (upd_conn n (enable_connector_mirror_mode pd d)
             (upd_conn p (enable_connector_mirror_mode pd d) s)))) =
         a_share n p e k d (abs_routing s)"
  using assms
  by (auto simp: abs_routing_def upd_conn_def encoder_set_crtc_def set_encoder_def Let_def
      enable_connector_mirror_mode_def a_share_def fun_eq_iff)

lemma abs_disable:
  "abs_routing (upd_conn n (disable_connector_mirror_mode d) s) = a_disable d n (abs_routing s)"
  by (auto simp: abs_routing_def upd_conn_def disable_connector_mirror_mode_def Let_def
      a_disable_def fun_eq_iff)

lemma abs_set_encoder_None:
  "abs_routing (upd_conn n (set_encoder None) s) = (abs_routing s)\<lparr>uses := (uses (abs_routing s))(n := None)\<rparr>"
  by (simp add: abs_routing_def upd_conn_def set_encoder_def fun_eq_iff)

lemma abs_leave_external:
  assumes "external_end (abs_routing s) n" "p \<noteq> n"
  shows "abs_routing (leave_mirror d n (Some p) s) = a_leave d n p (abs_routing s)"
proof -
  have f: "mirror_mode (conn s n)" "\<not> mirror_primary (conn s n)"
    using assms(1) by (simp_all add: external_end_def abs_routing_def)
  then have "\<not> is_connector_mirror_primary
      (conn (upd_conn n (disable_connector_mirror_mode d) s) n)"
    by (simp add: is_connector_mirror_primary_def upd_conn_def disable_connector_mirror_mode_def)
  moreover have "(a_disable d n (abs_routing s))\<lparr>uses := (uses (a_disable d n (abs_routing s)))(n := None)\<rparr> =
      (abs_routing s)\<lparr>uses := (uses (abs_routing s))(n := None),
         mirrors := (mirrors (abs_routing s))(n := False)\<rparr>"
    using f by (simp add: a_disable_def abs_routing_def)
  ultimately show ?thesis
    by (simp add: leave_mirror_def Let_def abs_disable abs_set_encoder_None a_leave_def)
qed

lemma abs_leave_primary:
  assumes "primary_end (abs_routing s) n" "removeAll d (r_members (abs_routing s) n) = r_members (abs_routing s) n"
    and "r_members (abs_routing s) n \<noteq> []"
  shows "abs_routing (leave_mirror d n po s) = abs_routing s"
proof -
  have f: "mirror_mode (conn s n)" "mirror_primary (conn s n)"
      "removeAll d (connected_mirror_display_id_set (conn s n)) = connected_mirror_display_id_set (conn s n)"
      "connected_mirror_display_id_set (conn s n) \<noteq> []"
    using assms by (simp_all add: primary_end_def abs_routing_def)
  then have "is_connector_mirror_primary (conn (upd_conn n (disable_connector_mirror_mode d) s) n)"
    by (simp add: is_connector_mirror_primary_def upd_conn_def disable_connector_mirror_mode_def Let_def)
  moreover have "a_disable d n (abs_routing s) = abs_routing s"
    using f by (simp add: a_disable_def abs_routing_def Let_def fun_upd_idem)
  ultimately show ?thesis by (simp add: leave_mirror_def Let_def abs_disable)
qed

lemma settled_upd [simp]:
  "settled T s \<Longrightarrow> settled T (unroute n k s)"
  "settled T (attach n e k s) = settled T s"
  "settled T s \<Longrightarrow> settled T (leave_mirror d n po s)"
  "settled T s \<Longrightarrow> settled T (upd_conn n reset_kernel_crtc_id s)"
  "settled T (upd_conn n (set_active_mode m) s) = settled T s"
  "settled T (upd_conn n (enable_connector_mirror_mode pd d) s) = settled T s"
  "settled T (upd_conn n (set_encoder x) s) = settled T s"
  "settled T (encoder_set_crtc e y s) = settled T s"
  "settled T (upd_crtc k f s) = settled T s"
  by (auto simp: settled_def unroute_def attach_def leave_mirror_def upd_conn_def upd_crtc_def Let_def
      reset_kernel_crtc_id_def set_encoder_def encoder_set_crtc_def disable_connector_mirror_mode_def
      enable_connector_mirror_mode_def set_active_mode_def split: option.splits)

lemma same_objects_unroute: "same_objects s t \<Longrightarrow> same_objects (unroute n k s) (unroute n k t)"
  by (simp add: same_objects_def unroute_def upd_conn_def upd_crtc_def)

lemma same_objects_upd_conn: "same_objects s t \<Longrightarrow> same_objects (upd_conn n f s) (upd_conn n f t)"
  by (simp add: same_objects_def upd_conn_def)

lemma same_objects_leave:
  "same_objects s t \<Longrightarrow> same_objects (leave_mirror d n po s) (leave_mirror d n po t)"
  by (auto simp: same_objects_def leave_mirror_def Let_def upd_conn_def split: option.split)

section \<open>Releasing\<close>

lemma obligingD:
  "obliging W \<Longrightarrow> fst (atomic_alloc W s)"
  "obliging W \<Longrightarrow> 0 \<le> fst (atomic_commit W ps)"
  by (simp_all add: obliging_def atomic_alloc_def atomic_commit_def Let_def split: prod.splits)

lemma atomic_alloc_obliging: "obliging W \<Longrightarrow> atomic_alloc W s = (True, tick s)"
  by (simp add: obliging_def atomic_alloc_def)

lemma atomic_commit_obliging:
  assumes "obliging W"
  obtains ret t where "atomic_commit W ps = (ret, t)" "0 \<le> ret" "\<And>s. same_objects s t = same_objects s (snd ps)"
  using obligingD(2) [OF assms, of ps] calls_sameD(3) [of W ps]
  by (cases "atomic_commit W ps") auto

lemma ReleaseConnectorAndCrtc_obliging:
  assumes W: "obliging W"
  obtains t where "ReleaseConnectorAndCrtc K T W d (Some n) k s = Some (0, t)"
    "same_objects (unroute n k s) t"
proof -
  obtain ps where ps: "DisableAllPlane_into T W k ([], tick s) = Some ps"
      "\<And>u. same_objects u (snd ps) = same_objects u (tick s)"
    using DisableAllPlane_into_same [OF W, of T k "([], tick s)"] by auto
  obtain ret t where c: "atomic_commit W (add_crtc_off T W k (add_conn_crtc T W n 0 ps)) = (ret, t)"
      "0 \<le> ret" "\<And>u. same_objects u t = same_objects u s"
    using atomic_commit_obliging [OF W, of "add_crtc_off T W k (add_conn_crtc T W n 0 ps)"] ps(2)
    by auto
  have "same_objects s t" using c(3) by simp
  then show thesis
    using that [of "report d (conn_report_of T n (Some k) ''release'') (unroute n k t)"] ps c
      same_objects_unroute [of s t n k]
    by (simp add: ReleaseConnectorAndCrtc_def atomic_alloc_obliging [OF W])
qed

lemma ReleaseDpyResByNormal_obliging:
  assumes W: "obliging W"
  obtains t where "ReleaseDpyResByNormal K T W d n k s = Some (0, t)"
    "same_objects (unroute n k s) t"
proof -
  obtain ps where ps: "DisableAllPlane_into T W k (add_conn_crtc T W n 0 ([], tick s)) = Some ps"
      "\<And>u. same_objects u (snd ps) = same_objects u (tick s)"
    using DisableAllPlane_into_same [OF W, of T k "add_conn_crtc T W n 0 ([], tick s)"] by auto
  obtain ret t where c: "atomic_commit W (add_crtc_off T W k ps) = (ret, t)"
      "0 \<le> ret" "\<And>u. same_objects u t = same_objects u s"
    using atomic_commit_obliging [OF W, of "add_crtc_off T W k ps"] ps(2) by auto
  define t' where "t' = report d (conn_report_of T n (Some k) ''disconnected'') (unroute n k t)"
  define g where "g = map (\<lambda>g. if acquire (crtc_mask T k) g then group_reset g else g) (groups t')"
  have "ReleaseDpyResByNormal K T W d n k s = Some (0, t'\<lparr>groups := g\<rparr>)"
    using ps(1) c(1,2)
    by (simp add: ReleaseDpyResByNormal_def atomic_alloc_obliging [OF W] Let_def t'_def g_def)
  moreover have "same_objects (unroute n k s) (t'\<lparr>groups := g\<rparr>)"
    using same_objects_unroute [of s t n k] c(3) by (simp add: t'_def)
  ultimately show thesis by (rule that)
qed

lemma ReleaseDpyResByMirror_obliging:
  assumes W: "obliging W"
  obtains t where "ReleaseDpyResByMirror K T W d n k s = Some (0, t)"
    "same_objects (leave_mirror d n (mirror_primary_of T n s) (upd_conn n reset_kernel_crtc_id s)) t"
proof -
  define q where "q = add_conn_crtc T W n 0 ([], tick s)"
  define po where "po = mirror_primary_of T n s"
  obtain ps where ps: "(if last_of_unplugged d po s
        then map_option (add_crtc_off T W k) (DisableAllPlane_into T W k q) else Some q) = Some ps"
      "\<And>u. same_objects u (snd ps) = same_objects u s"
  proof (cases "last_of_unplugged d po s")
    case True
    obtain ps' where "DisableAllPlane_into T W k q = Some ps'"
        "\<And>u. same_objects u (snd ps') = same_objects u s"
      using DisableAllPlane_into_same [OF W, of T k q] by (auto simp: q_def)
    then show thesis using that [of "add_crtc_off T W k ps'"] True by simp
  next
    case False
    then show thesis using that [of q] by (simp add: q_def)
  qed
  obtain ret t where c: "atomic_commit W ps = (ret, t)" "0 \<le> ret"
      "\<And>u. same_objects u t = same_objects u s"
    using atomic_commit_obliging [OF W, of ps] ps(2) by auto
  have "same_objects (leave_mirror d n po (upd_conn n reset_kernel_crtc_id s))
      (leave_mirror d n po (report d (conn_report_of T n None ''disconnected'')
         (upd_conn n reset_kernel_crtc_id t)))"
    using c(3) by (intro same_objects_leave) (simp add: same_objects_upd_conn)
  moreover have "ReleaseDpyResByMirror K T W d n k s =
      Some (0, leave_mirror d n po (report d (conn_report_of T n None ''disconnected'')
         (upd_conn n reset_kernel_crtc_id t)))"
    using ps(1) c
    by (cases "last_of_unplugged d po s")
       (auto simp: ReleaseDpyResByMirror_def atomic_alloc_obliging [OF W] Let_def
        q_def [symmetric] po_def [symmetric])
  ultimately show thesis using that po_def by simp
qed

section \<open>The search makes at most one step\<close>

lemma GetConnectorForDisplay_Some:
  "GetConnectorForDisplay T d s = Some n \<Longrightarrow>
   n \<in> set (dev_connectors T) \<and> r_display (abs_routing s) n = plain d"
  by (auto simp: GetConnectorForDisplay_def find_Some_iff abs_routing_def plain_def)

lemma GetConnectorForDisplay_of:
  assumes "displays_ok T (abs_routing s)" "n \<in> set (dev_connectors T)"
  shows "GetConnectorForDisplay T (r_display (abs_routing s) n) s = Some n"
proof -
  have "GetConnectorForDisplay T (r_display (abs_routing s) n) s \<noteq> None"
    using assms
    by (auto simp: GetConnectorForDisplay_def find_None_iff displays_ok_def plain_def abs_routing_def)
  then obtain m where m: "GetConnectorForDisplay T (r_display (abs_routing s) n) s = Some m" by auto
  then have "r_display (abs_routing s) m = r_display (abs_routing s) n" "m \<in> set (dev_connectors T)"
    using GetConnectorForDisplay_Some [OF m] assms by (auto simp: displays_ok_def)
  then show ?thesis using same_display [OF assms(1) _ assms(2)] m by simp
qed

lemma GetConnectorForDisplay_neg:
  assumes "displays_ok T (abs_routing s)"
  shows "GetConnectorForDisplay T (-1) s = None"
proof (cases "GetConnectorForDisplay T (-1) s")
  case (Some n)
  then have "0 \<le> plain (-1)"
    using GetConnectorForDisplay_Some [OF Some] assms by (auto simp: displays_ok_def)
  then show ?thesis by (simp add: plain_def DRM_CONNECTOR_SPLIT_MODE_MASK_def)
qed simp

lemma CheckKernel_settled:
  "settled T s \<Longrightarrow> n \<in> set (dev_connectors T) \<Longrightarrow>
   CheckKernelCrtcNeedRelease K T W d n k s = Some (0, s)"
  by (simp add: CheckKernelCrtcNeedRelease_def settled_def)

text \<open>
  A search may take its CRTC from the primary of a mirror; the other displays of the mirror are not
  told (\<open>tear_step\<close>).  It does so only where \<open>n\<close> may evict the primary: a display that is not
  connected, or, when two displays compete, one that has to give way.  \<open>spares_mirrors\<close> excludes
  it by what the code tests before it takes.
\<close>

inductive tear_step :: "topo \<Rightarrow> routing \<Rightarrow> routing \<Rightarrow> bool" for T where
  tear: "n \<in> set (dev_connectors T) \<Longrightarrow> uses r n = None \<Longrightarrow>
    (e, k) \<in> set (possible_routes T n) \<Longrightarrow> v \<in> set (dev_connectors T) \<Longrightarrow> owner r k = r_display r v \<Longrightarrow>
    r_routed r v = Some k \<Longrightarrow> primary_end r v \<Longrightarrow> tear_step T r (a_attach n e k (a_unroute v k r))"

definition may_evict :: "nptr \<Rightarrow> nptr \<Rightarrow> pipe \<Rightarrow> bool" where
  "may_evict n v s \<longleftrightarrow>
     n_state (conn s v) \<noteq> DRM_MODE_CONNECTED \<or> n_priority (conn s n) \<le> 0 \<or>
     n_priority (conn s n) < n_priority (conn s v)"

definition spares_mirrors :: "topo \<Rightarrow> nptr \<Rightarrow> pipe \<Rightarrow> bool" where
  "spares_mirrors T n s \<longleftrightarrow>
     (\<forall>v \<in> set (dev_connectors T). mirror_mode (conn s v) \<longrightarrow> mirror_primary (conn s v) \<longrightarrow> \<not> may_evict n v s)"

definition modes_kept :: "pipe \<Rightarrow> pipe \<Rightarrow> bool" where
  "modes_kept s t \<longleftrightarrow>
     (\<forall>n. n_current (conn t n) = n_current (conn s n) \<and> n_modes (conn t n) = n_modes (conn s n) \<and>
          n_raw_modes (conn t n) = n_raw_modes (conn s n))"

text \<open>What the rest of binding relies on; \<open>k\<close> is the CRTC the search returned.\<close>

definition ready_to_commit :: "topo \<Rightarrow> nptr \<Rightarrow> cptr \<Rightarrow> pipe \<Rightarrow> bool" where
  "ready_to_commit T n k t \<longleftrightarrow>
     routed t n = Some k \<and>
     (mirror_mode (conn t n) \<longrightarrow> GetConnectorForDisplay T (mirror_primary_id (conn t n)) t \<noteq> None)"

definition found_ok :: "topo \<Rightarrow> nptr \<Rightarrow> cptr \<Rightarrow> pipe \<Rightarrow> pipe \<Rightarrow> bool" where
  "found_ok T n k s t \<longleftrightarrow>
     settled T t \<and> modes_kept s t \<and> ready_to_commit T n k t \<and>
     (\<exists>e. (e, k) \<in> set (possible_routes T n)) \<and>
     (route_step T (abs_routing s) (abs_routing t) \<or>
      tear_step T (abs_routing s) (abs_routing t) \<and> \<not> spares_mirrors T n s)"

lemma crtc_loop_rule:
  assumes "crtc_loop body ps s = Some (found, t)"
    and "\<And>e k b u. (e, k) \<in> set ps \<Longrightarrow> body e k s = Some (b, u) \<Longrightarrow> if b then Q k u else u = s"
  shows "if found = None then t = s else Q (the found) t"
  using assms
proof (induction ps)
  case (Cons ek rest)
  obtain e k where ek: "ek = (e, k)" by (cases ek)
  then obtain b u where b: "body e k s = Some (b, u)"
    using Cons.prems(1) by (auto split: bind_splits)
  show ?case
  proof (cases b)
    case True
    then show ?thesis using Cons.prems(2) [of e k b u] b Cons.prems(1) ek by auto
  next
    case False
    then have "u = s" using Cons.prems(2) [of e k b u] b ek by auto
    show ?thesis
    proof (rule Cons.IH)
      show "crtc_loop body rest s = Some (found, t)"
        using Cons.prems(1) b False ek \<open>u = s\<close> by simp
      show "if b' then Q k' u' else u' = s"
        if "(e', k') \<in> set rest" "body e' k' s = Some (b', u')" for e' k' b' u'
        by (rule Cons.prems(2) [of e' k']) (use that in simp_all)
    qed
  qed
qed auto

text \<open>A connected display that has no CRTC, in a routing that is in order.\<close>

definition bindable :: "topo \<Rightarrow> world \<Rightarrow> int \<Rightarrow> nptr \<Rightarrow> pipe \<Rightarrow> bool" where
  "bindable T W d n s \<longleftrightarrow>
     obliging W \<and> topo_ok T \<and> routing_ok T (abs_routing s) \<and> settled T s \<and>
     n \<in> set (dev_connectors T) \<and> n_encoder (conn s n) = None \<and> plain d = n_display (conn s n)"

lemma abs_simps [simp]:
  "owner (abs_routing s) k = k_display (crtc s k)"
  "r_display (abs_routing s) n = n_display (conn s n)"
  "uses (abs_routing s) n = n_encoder (conn s n)"
  "mirrors (abs_routing s) n = mirror_mode (conn s n)"
  "r_members (abs_routing s) n = connected_mirror_display_id_set (conn s n)"
  "r_primary_id (abs_routing s) n = mirror_primary_id (conn s n)"
  "r_routed (abs_routing s) n = routed s n"
  by (simp_all add: abs_routing_def r_routed_def routed_def split: option.split)

lemma bindable_not_own:
  assumes "bindable T W d n s" "(e, k) \<in> set (possible_routes T n)"
  shows "k_display (crtc s k) \<noteq> n_display (conn s n)"
  using assms unbound_owns_nothing [of T "abs_routing s" n k] route_crtc [of T n e k]
  by (auto simp: bindable_def)

lemma modes_kept_attach: "modes_kept s u \<Longrightarrow> modes_kept s (attach n e k u)"
  by (auto simp: modes_kept_def attach_def upd_conn_def encoder_set_crtc_def upd_crtc_def set_encoder_def)

lemma modes_kept_refl [simp]: "modes_kept s s"
  by (simp add: modes_kept_def)

lemma modes_kept_unroute: "same_objects (unroute v k s) u \<Longrightarrow> modes_kept s u"
  by (auto simp: modes_kept_def same_objects_def unroute_def upd_conn_def upd_crtc_def
      set_encoder_def reset_kernel_crtc_id_def)

lemma attach_ready:
  "\<not> mirror_mode (conn s n) \<Longrightarrow> mirror_mode (conn u n) = mirror_mode (conn s n) \<Longrightarrow>
   ready_to_commit T n k (attach n e k u)"
  by (simp add: ready_to_commit_def attach_def upd_conn_def encoder_set_crtc_def upd_crtc_def
      set_encoder_def routed_def)

lemma unbound_no_mirror: "bindable T W d n s \<Longrightarrow> \<not> mirror_mode (conn s n)"
  using mirrors_okD(1) [of T "abs_routing s" n] by (auto simp: bindable_def)

lemma attach_found:
  assumes b: "bindable T W d n s" and e: "(e, k) \<in> set (possible_routes T n)"
    and k: "k_display (crtc s k) = -1"
  shows "found_ok T n k s (attach n e k s)"
  using b e attach_ready [OF unbound_no_mirror [OF b] refl, of T k e]
  unfolding found_ok_def bindable_def abs_attach
  by (auto intro!: route_step.take simp: k modes_kept_attach)

text \<open>The victim is the display that owns the CRTC; afterwards it has none.\<close>

lemma take_over_found:
  assumes b: "bindable T W d n s" and e: "(e, k) \<in> set (possible_routes T n)"
    and k: "k_display (crtc s k) \<noteq> -1"
    and v: "GetConnectorForDisplay T (k_display (crtc s k)) s = Some v"
    and ev: "may_evict n v s"
    and u: "same_objects (unroute v k s) u"
  shows "found_ok T n k s (attach n e k u)"
proof -
  have ok: "routing_ok T (abs_routing s)" using b by (simp add: bindable_def)
  obtain w where w: "w \<in> set (dev_connectors T)" "n_display (conn s w) = k_display (crtc s k)"
      "\<not> external_end (abs_routing s) w" "routed s w = Some k"
    using owned_by [OF ok, of k] route_crtc [of T n e k] b e k by (auto simp: bindable_def)
  then have "v = w"
    using GetConnectorForDisplay_of [of T s w] ok v by (simp add: routing_ok_def)
  note w = w [folded this]
  have vn: "v \<noteq> n" using w b by (auto simp: bindable_def routed_def)
  have a: "abs_routing (attach n e k u) = a_attach n e k (a_unroute v k (abs_routing s))"
    using same_objects_abs [OF u] by (simp add: abs_attach abs_unroute)
  have "settled T (attach n e k u)"
    using b same_objects_settled [OF u] by (simp add: bindable_def)
  moreover have "modes_kept s (attach n e k u)"
    using modes_kept_unroute [OF u] by (rule modes_kept_attach)
  moreover have "ready_to_commit T n k (attach n e k u)"
    using u by (intro attach_ready [OF unbound_no_mirror [OF b]])
      (simp add: same_objects_def unroute_def upd_conn_def upd_crtc_def set_encoder_def
        reset_kernel_crtc_id_def)
  moreover have "route_step T (abs_routing s) (abs_routing (attach n e k u)) \<or>
    tear_step T (abs_routing s) (abs_routing (attach n e k u)) \<and> \<not> spares_mirrors T n s"
  proof (cases "mirror_mode (conn s v)")
    case False
    then show ?thesis unfolding a using b e w by (auto intro!: route_step.take_over simp: bindable_def)
  next
    case True
    then have p: "mirror_primary (conn s v)" "primary_end (abs_routing s) v"
      using w(3) by (simp_all add: external_end_def primary_end_def abs_routing_def)
    then have "\<not> spares_mirrors T n s" using True w(1) ev by (auto simp: spares_mirrors_def)
    moreover have "tear_step T (abs_routing s) (abs_routing (attach n e k u))"
      unfolding a using b e w p(2) by (intro tear_step.tear) (auto simp: bindable_def)
    ultimately show ?thesis by blast
  qed
  ultimately show ?thesis using e by (auto simp: found_ok_def)
qed

lemma ReleaseConnectorAndCrtc_None [simp]:
  "ReleaseConnectorAndCrtc K T W d None k s = Some (- EINVAL K, s)"
  by (simp add: ReleaseConnectorAndCrtc_def)

text \<open>The victim the attempts pass: nobody, a number without connector, or the owner.\<close>

lemma try_take_found:
  assumes b: "bindable T W d n s" and e: "(e, k) \<in> set (possible_routes T n)"
    and r: "try_take K T W d n m chk victim e k s = Some (found, t)"
    and v: "victim = None \<and> k_display (crtc s k) = -1 \<or>
            victim = Some (k_display (crtc s k), GetConnectorForDisplay T (k_display (crtc s k)) s)"
    and ev: "\<And>w. GetConnectorForDisplay T (k_display (crtc s k)) s = Some w \<Longrightarrow> victim \<noteq> None \<Longrightarrow> may_evict n w s"
  shows "if found then found_ok T n k s t else t = s"
proof -
  have ck: "CheckKernelCrtcNeedRelease K T W d n k s = Some (0, s)"
    using b by (intro CheckKernel_settled) (simp_all add: bindable_def)
  have dis: "displays_ok T (abs_routing s)" using b by (simp add: bindable_def routing_ok_def)
  obtain bad where bad: "lacks_capability chk (ci T k) m = Some bad"
    using r by (auto simp: try_take_def split: bind_splits)
  show ?thesis
  proof (cases bad)
    case True
    then show ?thesis using r bad by (simp add: try_take_def)
  next
    case False
    consider (free) "k_display (crtc s k) = -1"
        "victim = None \<or> victim = Some (-1, None)"
      | (owned) w where "k_display (crtc s k) \<noteq> -1"
        "GetConnectorForDisplay T (k_display (crtc s k)) s = Some w"
        "victim = Some (k_display (crtc s k), Some w)"
    proof (cases "k_display (crtc s k) = -1")
      case True
      then show thesis using v that(1) GetConnectorForDisplay_neg [OF dis] by auto
    next
      case False
      then obtain w where "w \<in> set (dev_connectors T)" "n_display (conn s w) = k_display (crtc s k)"
        using owned_by [of T "abs_routing s" k] route_crtc [of T n e k] b e
        by (auto simp: bindable_def)
      then show thesis
        using v that(2) [of w] False GetConnectorForDisplay_of [OF dis, of w] by auto
    qed
    then show ?thesis
    proof cases
      case free
      then show ?thesis
        using r bad False ck attach_found [OF b e] by (auto simp: try_take_def)
    next
      case (owned w)
      obtain u where "ReleaseConnectorAndCrtc K T W (k_display (crtc s k)) (Some w) k s = Some (0, u)"
          "same_objects (unroute w k s) u"
        using ReleaseConnectorAndCrtc_obliging [of W K T "k_display (crtc s k)" w k s] b
        by (auto simp: bindable_def)
      then show ?thesis
        using r bad False ck take_over_found [OF b e owned(1,2) ev] owned(2,3)
        by (auto simp: try_take_def)
    qed
  qed
qed

lemma take_free_found:
  assumes "bindable T W d n s" "(e, k) \<in> set (possible_routes T n)"
    and "take_free K T W d n m chk e k s = Some (b, t)"
  shows "if b then found_ok T n k s t else t = s"
  using assms try_take_found [OF assms(1,2), of K m chk None b t] bindable_not_own [OF assms(1,2)]
  by (auto simp: take_free_def crtc_can_bind_def split: if_splits)

lemma owned_display_nonneg:
  assumes "bindable T W d n s" "(e, k) \<in> set (possible_routes T n)" "k_display (crtc s k) \<noteq> -1"
  shows "0 \<le> k_display (crtc s k)"
    and "GetConnectorForDisplay T (k_display (crtc s k)) s \<noteq> None"
proof -
  have ok: "routing_ok T (abs_routing s)" using assms(1) by (simp add: bindable_def)
  then obtain w where w: "w \<in> set (dev_connectors T)" "n_display (conn s w) = k_display (crtc s k)"
    using owned_by [of T "abs_routing s" k] route_crtc [of T n e k] assms by (auto simp: bindable_def)
  moreover have "displays_ok T (abs_routing s)" using ok by (simp add: routing_ok_def)
  ultimately show "0 \<le> k_display (crtc s k)" "GetConnectorForDisplay T (k_display (crtc s k)) s \<noteq> None"
    using GetConnectorForDisplay_of [of T s w] by (auto simp: displays_ok_def)
qed

lemma take_idle_found:
  assumes "bindable T W d n s" "(e, k) \<in> set (possible_routes T n)"
    and "take_idle K T W d n m chk e k s = Some (b, t)"
  shows "if b then found_ok T n k s t else t = s"
proof (cases "k_display (crtc s k) = -1")
  case True
  then show ?thesis
    using assms try_take_found [OF assms(1,2), of K m chk None b t]
    by (auto simp: take_idle_def Let_def split: if_splits)
next
  case False
  note nn = owned_display_nonneg [OF assms(1,2) False]
  then show ?thesis
    using assms try_take_found [OF assms(1,2), of K m chk _ b t]
    by (auto simp: take_idle_def Let_def may_evict_def CheckConnectorState_def split: if_splits)
qed

lemma take_competing_found:
  assumes "bindable T W d n s" "(e, k) \<in> set (possible_routes T n)"
    and "take_competing K T W d n m e k s = Some (b, t)"
  shows "if b then found_ok T n k s t else t = s"
proof (cases "\<exists>w. GetConnectorForDisplay T (k_display (crtc s k)) s = Some w \<and> \<not> may_evict n w s")
  case True
  then obtain w where w: "GetConnectorForDisplay T (k_display (crtc s k)) s = Some w" "\<not> may_evict n w s"
    by blast
  then have "n_state (conn s w) = DRM_MODE_CONNECTED" "0 < n_priority (conn s n)"
      "\<not> n_priority (conn s n) < n_priority (conn s w)"
    by (simp_all add: may_evict_def)
  then show ?thesis using assms(3) w(1) by (simp add: take_competing_def Let_def CheckConnectorState_def)
next
  case False
  then show ?thesis
    using assms try_take_found [OF assms(1,2), of K m False
        "Some (k_display (crtc s k), GetConnectorForDisplay T (k_display (crtc s k)) s)" b t]
    by (auto simp: take_competing_def Let_def split: if_splits)
qed

lemma share_found:
  assumes b: "bindable T W d n s" and e: "(e, k) \<in> set (possible_routes T n)"
    and r: "share_as_mirror K T W d n m e k s = Some (found, t)"
  shows "if found then found_ok T n k s t else t = s"
proof -
  have ck: "CheckKernelCrtcNeedRelease K T W d n k s = Some (0, s)"
    using b by (intro CheckKernel_settled) (simp_all add: bindable_def)
  have ok: "routing_ok T (abs_routing s)" using b by (simp add: bindable_def)
  let ?pd = "k_display (crtc s k)"
  show ?thesis
  proof (cases found)
    case False
    then show ?thesis
      using r ck by (auto simp: share_as_mirror_def Let_def split: if_splits bind_splits option.splits)
  next
    case True
    then obtain p where p: "GetConnectorForDisplay T ?pd s = Some p" "0 \<le> ?pd"
        and t: "t = upd_conn n (set_encoder (Some e)) (encoder_set_crtc e (Some k)
                     (upd_conn n (enable_connector_mirror_mode ?pd d)
                       (upd_conn p (enable_connector_mirror_mode ?pd d) s)))"
      using r ck by (auto simp: share_as_mirror_def Let_def split: if_splits bind_splits option.splits)
    obtain w where w: "w \<in> set (dev_connectors T)" "n_display (conn s w) = ?pd"
        "\<not> external_end (abs_routing s) w" "routed s w = Some k"
      using owned_by [OF ok, of k] route_crtc [of T n e k] b e p(2) by (auto simp: bindable_def)
    then have "p = w"
      using GetConnectorForDisplay_of [of T s w] ok p(1) by (simp add: routing_ok_def)
    note w = w [folded this]
    have pn: "p \<noteq> n" using w b by (auto simp: bindable_def routed_def)
    have "abs_routing t = a_share n p e k d (abs_routing s)"
      unfolding t using bindable_not_own [OF b e] w pn by (intro abs_share) auto
    moreover have "settled T t" using b unfolding t by (simp add: bindable_def)
    moreover have "modes_kept s t"
      unfolding t by (simp add: modes_kept_def upd_conn_def encoder_set_crtc_def set_encoder_def
          enable_connector_mirror_mode_def Let_def)
    moreover have "ready_to_commit T n k t"
    proof -
      have "n_display (conn t m) = n_display (conn s m)" for m
        unfolding t by (simp add: upd_conn_def encoder_set_crtc_def set_encoder_def
            enable_connector_mirror_mode_def Let_def)
      then have "GetConnectorForDisplay T ?pd t = Some p"
        using p by (simp add: GetConnectorForDisplay_def)
      moreover have "mirror_primary_id (conn t n) = ?pd" "routed t n = Some k"
        unfolding t by (simp_all add: upd_conn_def encoder_set_crtc_def set_encoder_def
            enable_connector_mirror_mode_def Let_def routed_def)
      ultimately show ?thesis by (simp add: ready_to_commit_def)
    qed
    ultimately show ?thesis
      using True b e w unfolding found_ok_def
      by (auto intro!: route_step.share simp: bindable_def)
  qed
qed

lemma set_encoder_None_idle:
  "n_encoder (conn s n) = None \<Longrightarrow> upd_conn n (set_encoder None) s = s"
  by (simp add: upd_conn_def set_encoder_def fun_upd_idem)

lemma FindByFirst_search:
  assumes b: "bindable T W d n s" and r: "FindAvailableCrtcByFirst K T W d n chk s = Some (f, t)"
  shows "if f = None then t = s else found_ok T n (the f) s t"
proof -
  have id: "upd_conn n (set_encoder None) s = s"
    using b by (intro set_encoder_None_idle) (simp add: bindable_def)
  let ?m = "n_current (conn s n)"
  obtain f1 s1 where 1: "crtc_loop (take_free K T W d n ?m chk) (possible_routes T n) s = Some (f1, s1)"
    using r by (auto simp: FindAvailableCrtcByFirst_def id Let_def split: bind_splits)
  have free: "if f1 = None then s1 = s else found_ok T n (the f1) s s1"
    by (rule crtc_loop_rule [OF 1]) (rule take_free_found [OF b])
  show ?thesis
  proof (cases "f1 = None")
    case False
    then show ?thesis using r 1 free by (auto simp: FindAvailableCrtcByFirst_def id Let_def)
  next
    case True
    then have "crtc_loop (take_idle K T W d n ?m chk) (possible_routes T n) s = Some (f, t)"
      using r 1 free by (auto simp: FindAvailableCrtcByFirst_def id Let_def)
    then show ?thesis by (rule crtc_loop_rule) (rule take_idle_found [OF b])
  qed
qed

lemma FindByMirror_search:
  assumes b: "bindable T W d n s" and r: "FindAvailableCrtcByMirror K T W d n s = Some (f, t)"
  shows "if f = None then t = s else found_ok T n (the f) s t"
proof (cases "FilterColorFormatWithCaps K (conn s n) (output_rgb K) = output_rgb K")
  case True
  then have "crtc_loop (share_as_mirror K T W d n (n_current (conn s n))) (possible_routes T n) s = Some (f, t)"
    using r by (simp add: FindAvailableCrtcByMirror_def)
  then show ?thesis by (rule crtc_loop_rule) (rule share_found [OF b])
qed (use r in \<open>simp add: FindAvailableCrtcByMirror_def\<close>)

lemma FindByCompete_search:
  assumes b: "bindable T W d n s" and r: "FindAvailableCrtcByCompete K T W d n s = Some (f, t)"
  shows "if f = None then t = s else found_ok T n (the f) s t"
  by (rule crtc_loop_rule [OF r [unfolded FindAvailableCrtcByCompete_def]])
     (rule take_competing_found [OF b])

text \<open>An attempt finds nothing and changes nothing, or finds a CRTC in one step.\<close>

definition search_answer :: "topo \<Rightarrow> nptr \<Rightarrow> pipe \<Rightarrow> (cptr option \<times> pipe) option \<Rightarrow> bool" where
  "search_answer T n s r \<longleftrightarrow> (\<forall>f t. r = Some (f, t) \<longrightarrow> (if f = None then t = s else found_ok T n (the f) s t))"

lemma or_else_answer: "search_answer T n s r \<Longrightarrow> search_answer T n s (g s) \<Longrightarrow> search_answer T n s (or_else r g)"
  by (auto simp: search_answer_def or_else_def split: bind_splits if_splits)

lemma FindAvailableCrtc_search:
  assumes b: "bindable T W d n s" and r: "FindAvailableCrtc K T W d n s = Some (f, t)"
  shows "if f = None then same_objects s t else found_ok T n (the f) s t"
proof -
  have "search_answer T n s (FindAvailableCrtcByFirst K T W d n c s)"
      "search_answer T n s (FindAvailableCrtcByMirror K T W d n s)"
      "search_answer T n s (FindAvailableCrtcByCompete K T W d n s)" for c
    using FindByFirst_search [OF b] FindByMirror_search [OF b] FindByCompete_search [OF b]
    by (auto simp: search_answer_def)
  note a = this
  define four where "four = or_else (or_else (or_else (FindAvailableCrtcByFirst K T W d n True s)
          (FindAvailableCrtcByMirror K T W d n)) (FindAvailableCrtcByFirst K T W d n False))
          (FindAvailableCrtcByCompete K T W d n)"
  have four: "search_answer T n s four" unfolding four_def by (intro or_else_answer a)
  have r': "or_else four (\<lambda>s. Some (None, report d (conn_report_of T n None ''connected-no-crtc'') s)) =
      Some (f, t)"
    using r by (simp add: FindAvailableCrtc_def four_def)
  then obtain f1 t1 where "four = Some (f1, t1)" by (cases four) (auto simp: or_else_def)
  then show ?thesis
    using r' four by (auto simp: or_else_def search_answer_def split: if_splits)
qed

section \<open>Binding and releasing a display\<close>

lemma GetSuitableMode_routing:
  "GetSuitableMode K w d c = Some c' \<Longrightarrow>
   n_display c' = n_display c \<and> n_encoder c' = n_encoder c \<and> mirror_mode c' = mirror_mode c \<and>
   mirror_primary c' = mirror_primary c \<and> mirror_primary_id c' = mirror_primary_id c \<and>
   connected_mirror_display_id_set c' = connected_mirror_display_id_set c \<and>
   mKernelCrtcId c' = mKernelCrtcId c"
  by (auto simp: GetSuitableMode_def split: option.splits)

lemma abs_upd_conn_same:
  assumes "n_display (f c) = n_display c" "n_encoder (f c) = n_encoder c"
    "mirror_mode (f c) = mirror_mode c" "mirror_primary (f c) = mirror_primary c"
    "mirror_primary_id (f c) = mirror_primary_id c"
    "connected_mirror_display_id_set (f c) = connected_mirror_display_id_set c"
    "c = conn s n"
  shows "abs_routing (upd_conn n f s) = abs_routing s"
  using assms by (simp add: abs_routing_def upd_conn_def fun_eq_iff)

text \<open>What binding does after the search: modes and flags, but neither routes nor kernel CRTCs.\<close>

definition quiet :: "topo \<Rightarrow> pipe \<Rightarrow> pipe \<Rightarrow> bool" where
  "quiet T s t \<longleftrightarrow> abs_routing t = abs_routing s \<and> (settled T s \<longrightarrow> settled T t)"

lemma quietI: "same_objects s t \<Longrightarrow> quiet T s t"
  by (simp add: quiet_def same_objects_abs same_objects_settled)

lemma quiet_trans: "quiet T s t \<Longrightarrow> quiet T t u \<Longrightarrow> quiet T s u"
  by (simp add: quiet_def)

lemma sync_quiet: "quiet T s (sync_with_kernel_mode K T W n k s)"
proof -
  obtain ret s1 where d: "DisableAllPlane_commit K T W k s = (ret, s1)" by (metis surj_pair)
  then have "quiet T s s1"
    using DisableAllPlane_commit_same [of s K T W k s] by (intro quietI) simp
  then show ?thesis by (simp add: sync_with_kernel_mode_def d quiet_def)
qed

lemma fall_back_quiet: "fall_back_to_suitable K T n k s = Some t \<Longrightarrow> quiet T s t"
  using GetSuitableMode_routing [of K _ _ "conn s n"]
  by (auto simp: fall_back_to_suitable_def quiet_def settled_def abs_routing_def upd_conn_def
      fun_eq_iff split: if_splits bind_splits)

lemma add_mirror_format_same:
  "add_mirror_format K T W n ps = Some qs \<Longrightarrow> same_objects s (snd qs) = same_objects s (snd ps)"
  by (auto simp: add_mirror_format_def Let_def split: if_splits option.splits)

lemma BindConnectorAndCrtc_quiet:
  assumes "BindConnectorAndCrtc K T W d n k s = Some (ret, t)"
  shows "quiet T s t"
proof (cases "mode_id (n_current (conn s n)) = 0")
  case True
  then show ?thesis using assms by (simp add: BindConnectorAndCrtc_def quiet_def)
next
  case False
  then obtain s1 where 1: "fall_back_to_suitable K T n k (sync_with_kernel_mode K T W n k s) = Some s1"
    using assms by (auto simp: BindConnectorAndCrtc_def split: bind_splits)
  have q1: "quiet T s s1" by (rule quiet_trans [OF sync_quiet fall_back_quiet [OF 1]])
  obtain ok s2 where 2: "atomic_alloc W s1 = (ok, s2)" by (metis surj_pair)
  then have s2: "same_objects s1 s2" using calls_sameD(1) [OF 2, of s1] by simp
  show ?thesis
  proof (cases ok)
    case False
    then show ?thesis
      using assms \<open>mode_id _ \<noteq> 0\<close> 1 2 quiet_trans [OF q1 quietI [OF s2]]
      by (simp add: BindConnectorAndCrtc_def)
  next
    case True
    obtain br b s3 where 3: "CreatePropertyBlob W (ToDrmModeModeInfo K (n_current (conn s2 n))) s2 = (br, b, s3)"
      by (metis surj_pair)
    then have s3: "same_objects s1 s3" using calls_sameD(4) [OF 3, of s1] s2 by simp
    obtain ps where 4: "add_mirror_format K T W n (add_crtc_on T W n k b ([], s3)) = Some ps"
      using assms \<open>mode_id _ \<noteq> 0\<close> 1 2 3 True by (auto simp: BindConnectorAndCrtc_def split: bind_splits)
    obtain r s4 where 5: "atomic_commit W ps = (r, s4)" by (metis surj_pair)
    have s4: "same_objects s1 s4"
      using calls_sameD(3) [OF 5, of s1] add_mirror_format_same [OF 4, of s1] s3 by simp
    then have q4: "quiet T s s4" by (rule quiet_trans [OF q1 quietI])
    have d: "same_objects s4 (DestroyPropertyBlob b s4)" by simp
    have "quiet T s4 (upd_conn n reset_kernel_crtc_id
            (upd_conn n (set_active_mode m) (DestroyPropertyBlob b s4)))" for m
      using quietI [OF d, of T] by (simp add: quiet_def)
    moreover have "quiet T u (report x y u)" for u x y by (rule quietI) simp
    ultimately have "quiet T s4 (report x y (upd_conn n reset_kernel_crtc_id
            (upd_conn n (set_active_mode m) (DestroyPropertyBlob b s4))))" for x y m
      by (rule quiet_trans)
    then show ?thesis
      using assms \<open>mode_id _ \<noteq> 0\<close> 1 2 3 4 5 True q4 quiet_trans [OF q4]
      by (auto simp: BindConnectorAndCrtc_def Let_def split: if_splits)
  qed
qed

lemma same_objects_sym: "same_objects s t \<Longrightarrow> same_objects t s"
  by (simp add: same_objects_def)

lemma finish_assign_quiet: "finish_assign T s = (ret, t) \<Longrightarrow> quiet T s t"
  using finish_assign_same [of s T s] by (intro quietI) simp

lemma BindDpyRes_found:
  assumes W: "obliging W" and T: "topo_ok T" and ok: "routing_ok T (abs_routing s)"
    and st: "settled T s"
    and u: "\<And>n. GetConnectorForDisplay T d s = Some n \<Longrightarrow> n_encoder (conn s n) = None"
    and r: "BindDpyRes K T W d s = Some (ret, t)"
  shows "settled T t \<and> (abs_routing t = abs_routing s \<or>
     route_step T (abs_routing s) (abs_routing t) \<or>
     tear_step T (abs_routing s) (abs_routing t) \<and>
       (\<exists>n. GetConnectorForDisplay T d s = Some n \<and> \<not> spares_mirrors T n s))"
proof (cases "CheckConnectorState K (GetConnectorForDisplay T d s) False s = 0")
  case False
  then show ?thesis using r st by (simp add: BindDpyRes_def)
next
  case True
  then obtain n where n: "GetConnectorForDisplay T d s = Some n"
    using r by (auto simp: BindDpyRes_def split: option.splits)
  have b: "bindable T W d n s"
    using W T ok st u [OF n] GetConnectorForDisplay_Some [OF n] by (simp add: bindable_def)
  obtain f s1 where f: "FindAvailableCrtc K T W d n s = Some (f, s1)"
    using r True n by (auto simp: BindDpyRes_def split: bind_splits)
  note search = FindAvailableCrtc_search [OF b f]
  show ?thesis
  proof (cases f)
    case None
    then show ?thesis
      using r True n f search st same_objects_abs same_objects_settled by (auto simp: BindDpyRes_def)
  next
    case (Some k)
    then obtain ret2 s2 where bc: "BindConnectorAndCrtc K T W d n k s1 = Some (ret2, s2)"
      using r True n f by (auto simp: BindDpyRes_def split: bind_splits)
    have "quiet T s1 t"
      using r True n f Some bc BindConnectorAndCrtc_quiet [OF bc]
      by (auto simp: BindDpyRes_def split: if_splits intro: quiet_trans finish_assign_quiet)
    then show ?thesis
      using search Some by (auto simp: n found_ok_def quiet_def)
  qed
qed

end
