(* ===== verification/Pipe_Props.thy ===== *)
theory Pipe_Props
  imports Pipe_Refine
begin

text \<open>
  What the display routing guarantees: every operation is at most one abstract step, so no two
  displays own a CRTC and the look-up by display number finds the CRTC a display is routed to;
  what a successful bind has committed to the kernel; and the situations in which the code
  loses track of a CRTC.
\<close>

section \<open>Releasing and power refine the routing\<close>

lemma ReleaseDpyRes_found:
  assumes W: "obliging W" and ok: "routing_ok T (abs_routing s)" and st: "settled T s"
    and r: "ReleaseDpyRes K T W d s = Some (ret, t)"
  shows "settled T t \<and>
     (abs_routing t = abs_routing s \<or> route_step T (abs_routing s) (abs_routing t))"
proof (cases "GetConnectorForDisplay T d s")
  case None
  then show ?thesis using r st by (simp add: ReleaseDpyRes_def)
next
  case (Some n)
  note n = GetConnectorForDisplay_Some [OF Some]
  have dis: "displays_ok T (abs_routing s)" using ok by (simp add: routing_ok_def)
  have fin: "settled T t \<and> abs_routing t = abs_routing u" if "settled T u" "t = snd (finish_assign T u)" for u
    using that same_objects_abs [of u t] same_objects_settled [of u t T] by simp
  show ?thesis
  proof (cases "routed s n")
    case None
    then show ?thesis using r Some fin [of s] st by (auto simp: ReleaseDpyRes_def)
  next
    case (Some k)
    show ?thesis
    proof (cases "mirror_mode (conn s n)")
      case False
      obtain u where u: "ReleaseDpyResByNormal K T W d n k s = Some (0, u)"
          "same_objects (unroute n k s) u"
        by (rule ReleaseDpyResByNormal_obliging [OF W])
      have "abs_routing u = a_unroute n k (abs_routing s)" "settled T u"
        using same_objects_abs [OF u(2)] same_objects_settled [OF u(2)] st
        by (simp_all add: abs_unroute)
      moreover have "route_step T (abs_routing s) (a_unroute n k (abs_routing s))"
        using n False Some by (intro route_step.release) simp_all
      moreover have "t = snd (finish_assign T u)"
        using r u(1) False Some \<open>GetConnectorForDisplay T d s = Some n\<close> by (simp add: ReleaseDpyRes_def)
      ultimately show ?thesis using fin [of u] by simp
    next
      case True
      let ?po = "mirror_primary_of T n s"
      let ?s = "upd_conn n reset_kernel_crtc_id s"
      obtain u where u: "ReleaseDpyResByMirror K T W d n k s = Some (0, u)"
          "same_objects (leave_mirror d n ?po ?s) u"
        by (rule ReleaseDpyResByMirror_obliging [OF W])
      have t: "t = snd (finish_assign T u)"
        using r u(1) True Some \<open>GetConnectorForDisplay T d s = Some n\<close> by (simp add: ReleaseDpyRes_def)
      have au: "abs_routing u = abs_routing (leave_mirror d n ?po ?s)" "settled T u"
        using same_objects_abs [OF u(2)] same_objects_settled [OF u(2)] st by simp_all
      have "abs_routing u = abs_routing s \<or> route_step T (abs_routing s) (abs_routing u)"
      proof (cases "mirror_primary (conn s n)")
        case primary: True
        then have p: "primary_end (abs_routing s) n" using True by (simp add: primary_end_def abs_routing_def)
        have "plain d = n_display (conn s n)" using n by simp
        then have "d \<notin> set (connected_mirror_display_id_set (conn s n))"
          using mirrors_okD(3) [OF ok, of n d] n by auto
        then have "abs_routing (leave_mirror d n ?po ?s) = abs_routing ?s"
          using p mirrors_okD(2) [OF ok, of n] n by (intro abs_leave_primary) simp_all
        then show ?thesis using au by simp
      next
        case False
        then have x: "external_end (abs_routing s) n"
          using True by (simp add: external_end_def abs_routing_def)
        then obtain p where p: "p \<in> set (dev_connectors T)" "n_display (conn s p) = mirror_primary_id (conn s n)"
            "primary_end (abs_routing s) p"
          using mirrors_okD(4) [OF ok, of n] n by auto
        have "0 \<le> mirror_primary_id (conn s n)" using dis p(1,2) unfolding displays_ok_def by fastforce
        then have "?po = Some p"
          using False True p GetConnectorForDisplay_of [OF dis p(1)]
          by (simp add: mirror_primary_of_def is_connector_mirror_primary_def
              get_connector_mirror_primary_id_def)
        moreover have "p \<noteq> n" using p x by (auto simp: primary_end_def external_end_def)
        ultimately have "abs_routing u = a_leave d n p (abs_routing s)"
          using abs_leave_external [of ?s n p d] x au by simp
        then show ?thesis using n x p by (auto intro!: route_step.leave)
      qed
      then show ?thesis using fin [OF au(2) t] by auto
    qed
  qed
qed

lemma report_mirrors_quiet: "report_mirrors T k ds s = Some t \<Longrightarrow> same_objects s t"
  by (induction T k ds s rule: report_mirrors.induct) (auto split: option.splits simp: same_objects_def report_def)

lemma add_mirror_conns_same:
  "add_mirror_conns T W k ds ps = Some qs \<Longrightarrow> same_objects s (snd qs) = same_objects s (snd ps)"
  by (induction T W k ds ps rule: add_mirror_conns.induct) (auto split: option.splits if_splits)

lemma DisableAllPlane_intoD:
  "DisableAllPlane_into T W k ps = Some qs \<Longrightarrow> same_objects s (snd qs) = same_objects s (snd ps)"
  by (auto simp: DisableAllPlane_into_def split: prod.splits if_splits
      dest!: add_plane_disables_same [where s = s])

lemma report_quiet: "quiet T s (report d r t) = quiet T s t"
  by (simp add: quiet_def abs_routing_def report_def settled_def)

lemma power_off_crtc_quiet: "power_off_crtc K T W d n k s = Some (ret, t) \<Longrightarrow> quiet T s t"
  by (rule quietI)
     (auto simp: power_off_crtc_def Let_def split: prod.splits if_splits bind_splits
       dest!: calls_sameD(1,3) [where s = s] DisableAllPlane_intoD [where s = s])

lemma power_off_mirrors_quiet: "power_off_mirrors K T W k ds s = Some (ret, t) \<Longrightarrow> same_objects s t"
proof (induction ds arbitrary: s)
  case (Cons d ds)
  then obtain m where m: "GetConnectorForDisplay T d s = Some m" by (auto split: option.splits)
  show ?case
  proof (cases "routed s m = Some k")
    case False
    then show ?thesis using Cons m by simp
  next
    case True
    obtain ok s1 r s2 where c: "atomic_alloc W s = (ok, s1)"
        "atomic_commit W (add_conn_crtc T W m 0 ([], s1)) = (r, s2)"
      by (metis surj_pair)
    have 1: "same_objects s s1" "same_objects s s2"
      using calls_sameD(1) [OF c(1), of s] calls_sameD(3) [OF c(2), of s] by simp_all
    consider "t = s1" | "t = s2"
      | "power_off_mirrors K T W k ds
           (report d (conn_report_of T m (Some k) ''mirror:off'') s2) = Some (ret, t)"
      using Cons.prems m True c by (auto split: if_splits)
    then show ?thesis
    proof cases
      case 3
      have "same_objects s (report d (conn_report_of T m (Some k) ''mirror:off'') s2)"
        using 1 by simp
      then show ?thesis by (rule same_objects_trans [OF _ Cons.IH [OF 3]])
    qed (use 1 in simp_all)
  qed
qed simp

lemma DoPowerOnNormal_quiet: "DoPowerOnNormal K T W d n s = (ret, t) \<Longrightarrow> quiet T s t"
  by (rule quietI)
     (auto simp: DoPowerOnNormal_def split: prod.splits if_splits option.splits
       dest!: calls_sameD(1,3,4) [where s = s])

lemma DoPowerOnMirror_quiet:
  assumes "DoPowerOnMirror K T W d n s = Some (ret, t)" shows "quiet T s t"
proof -
  obtain ok s1 br b s2 where c: "atomic_alloc W s = (ok, s1)"
      "CreatePropertyBlob W (ToDrmModeModeInfo K (n_current (conn s1 n))) s1 = (br, b, s2)"
    by (metis surj_pair)
  have 1: "same_objects s s1" "same_objects s s2"
    using calls_sameD(1) [OF c(1), of s] calls_sameD(4) [OF c(2), of s] by simp_all
  have 2: "same_objects s (snd ps)"
    if "add_mirror_conns T W k ds (add_crtc_on T W n k b ([], s2)) = Some ps" for k ds ps
    using add_mirror_conns_same [OF that, of s] 1 by simp
  have 3: "same_objects s s3"
    if "add_mirror_conns T W k ds (add_crtc_on T W n k b ([], s2)) = Some ps"
      "atomic_commit W ps = (r, s3)" for k ds ps r s3
    using calls_sameD(3) [OF that(2), of s] 2 [OF that(1)] by simp
  have 4: "quiet T s u"
    if "report_mirrors T k ds (report x y (upd_conn n (set_active_mode m) (DestroyPropertyBlob b s3))) = Some u"
      "same_objects s s3" for k ds x y m s3 u
  proof -
    have "quiet T s (DestroyPropertyBlob b s3)" using that(2) by (intro quietI) simp
    then have "quiet T s (upd_conn n (set_active_mode m) (DestroyPropertyBlob b s3))"
      by (simp add: quiet_def)
    then have "quiet T s (report x y (upd_conn n (set_active_mode m) (DestroyPropertyBlob b s3)))"
      by (simp add: report_quiet)
    then show ?thesis by (rule quiet_trans [OF _ quietI [OF report_mirrors_quiet [OF that(1)]]])
  qed
  show ?thesis
    using assms c 1 3 4 quietI [OF 1(1), of T] quietI [OF 1(2), of T] quietI [OF same_objects_refl, of T s]
    by (auto simp: DoPowerOnMirror_def Let_def split: option.splits if_splits bind_splits prod.splits
        intro: quietI)
qed

lemma SetPowerMode_quiet:
  assumes "SetPowerMode_device K T W d mode s = Some (ret, t)"
  shows "quiet T s t"
proof -
  have r: "quiet T s s" by (rule quietI) simp
  have on: "quiet T s t" if "DoPowerOn K T W d s = Some (ret, t)"
    using that r DoPowerOnNormal_quiet DoPowerOnMirror_quiet
    by (auto simp: DoPowerOn_def Let_def split: if_splits option.splits)
  have off: "quiet T s t" if o: "DoPowerOffMirror K T W d n s = Some (ret, t)" for n
    using o r
    by (auto simp: DoPowerOffMirror_def split: if_splits option.splits bind_splits
        dest!: power_off_crtc_quiet power_off_mirrors_quiet
        intro: quiet_trans [OF quietI] quietI)
  have "quiet T s t" if "DoPowerOff K T W d s = Some (ret, t)"
    using that r off power_off_crtc_quiet
    by (auto simp: DoPowerOff_def DoPowerOffNormal_def Let_def split: if_splits option.splits)
  then show ?thesis using assms on r by (auto simp: SetPowerMode_device_def split: if_splits)
qed

section \<open>Runs of the device\<close>

text \<open>
  What the HAL does to the displays of a device: the kernel reports a plug event and new modes,
  a display without CRTC is bound where \<open>G\<close> allows it, a display is released, its power is
  switched.  In \<open>safe_step\<close> a bind must find no mirror primary it may take the CRTC from; in
  \<open>any_step\<close> every bind is allowed.
\<close>

definition plug_event ::
  "drmModeConnection \<Rightarrow> drmModeConnection \<Rightarrow> bool \<Rightarrow> DrmMode list \<Rightarrow> DrmMode list \<Rightarrow> DrmMode \<Rightarrow>
   DrmConnector \<Rightarrow> DrmConnector" where
  "plug_event st h b ms rs m c =
     c\<lparr> n_state := st, n_hotplug_state := h, n_plug := b, n_modes := ms, n_raw_modes := rs,
        n_current := m \<rparr>"

inductive pipe_step ::
  "(nptr \<Rightarrow> pipe \<Rightarrow> bool) \<Rightarrow> sdk \<Rightarrow> topo \<Rightarrow> world \<Rightarrow> pipe \<Rightarrow> pipe \<Rightarrow> bool" for G K T W where
  plug: "pipe_step G K T W s (upd_conn n (plug_event st h b ms rs m) s)"
| bind: "(\<And>n. GetConnectorForDisplay T d s = Some n \<Longrightarrow> n_encoder (conn s n) = None \<and> G n s) \<Longrightarrow>
    BindDpyRes K T W d s = Some (ret, t) \<Longrightarrow> pipe_step G K T W s t"
| unbind: "ReleaseDpyRes K T W d s = Some (ret, t) \<Longrightarrow> pipe_step G K T W s t"
| power: "SetPowerMode_device K T W d mode s = Some (ret, t) \<Longrightarrow> pipe_step G K T W s t"

inductive_cases pipe_stepE: "pipe_step G K T W s t"

abbreviation safe_step :: "sdk \<Rightarrow> topo \<Rightarrow> world \<Rightarrow> pipe \<Rightarrow> pipe \<Rightarrow> bool" where
  "safe_step K T \<equiv> pipe_step (spares_mirrors T) K T"

abbreviation any_step :: "sdk \<Rightarrow> topo \<Rightarrow> world \<Rightarrow> pipe \<Rightarrow> pipe \<Rightarrow> bool" where
  "any_step \<equiv> pipe_step (\<lambda>_ _. True)"

lemma plug_quiet: "quiet T s (upd_conn n (plug_event st h b ms rs m) s)"
  by (simp add: quiet_def abs_routing_def settled_def upd_conn_def plug_event_def fun_eq_iff)

lemma pipe_step_refines:
  assumes "obliging W" "topo_ok T" "routing_ok T (abs_routing s)" "settled T s" "pipe_step G K T W s t"
  shows "settled T t \<and>
    (abs_routing t = abs_routing s \<or> route_step T (abs_routing s) (abs_routing t) \<or>
     tear_step T (abs_routing s) (abs_routing t) \<and>
       (\<exists>n \<in> set (dev_connectors T). G n s \<and> n_encoder (conn s n) = None \<and> \<not> spares_mirrors T n s))"
  using assms(5)
proof cases
  case (plug n st h b ms rs m)
  then show ?thesis using plug_quiet [of T s n] assms(4) by (simp add: quiet_def)
next
  case (bind d ret)
  then have "\<And>n. GetConnectorForDisplay T d s = Some n \<Longrightarrow> n_encoder (conn s n) = None" by blast
  from BindDpyRes_found [OF assms(1-4) this bind(2)]
  show ?thesis using bind(1) GetConnectorForDisplay_Some by blast
next
  case (unbind d ret)
  then show ?thesis using ReleaseDpyRes_found [OF assms(1,3,4)] by blast
next
  case (power d mode ret)
  then show ?thesis using SetPowerMode_quiet assms(4) by (fastforce simp: quiet_def)
qed

lemma safe_step_refines:
  assumes "obliging W" "topo_ok T" "routing_ok T (abs_routing s)" "settled T s" "safe_step K T W s t"
  shows "settled T t \<and> (abs_routing t = abs_routing s \<or> route_step T (abs_routing s) (abs_routing t))"
  using pipe_step_refines [OF assms] by blast

text \<open>The device before any display has been lit: no routes, no mirrors, nothing from the boot loader.\<close>

definition dark :: "topo \<Rightarrow> pipe \<Rightarrow> bool" where
  "dark T s \<longleftrightarrow>
     displays_ok T (abs_routing s) \<and> settled T s \<and>
     (\<forall>n \<in> set (dev_connectors T). n_encoder (conn s n) = None \<and> \<not> mirror_mode (conn s n) \<and>
        connected_mirror_display_id_set (conn s n) = []) \<and>
     (\<forall>k \<in> set (dev_crtcs T). k_display (crtc s k) = -1)"

lemma dark_ok: "dark T s \<Longrightarrow> routing_ok T (abs_routing s)"
  by (simp add: dark_def routing_ok_def encoders_ok_def owners_ok_def mirrors_ok_def routed_def
      external_end_def primary_end_def)

lemma run_invariant:
  assumes "obliging W" "topo_ok T" "dark T s0" "(safe_step K T W)\<^sup>*\<^sup>* s0 s"
  shows "routing_ok T (abs_routing s) \<and> settled T s"
  using assms(4)
proof (induction rule: rtranclp_induct)
  case base
  then show ?case using assms(3) dark_ok by (simp add: dark_def)
next
  case (step s t)
  then show ?case
    using safe_step_refines [OF assms(1,2) _ _ step(2)] route_step_ok [OF _ assms(2)] by metis
qed

lemma GetCrtcForDisplay_routed:
  assumes T: "topo_ok T" and ok: "routing_ok T (abs_routing s)"
    and n: "n \<in> set (dev_connectors T)" "\<not> external_end (abs_routing s) n" "routed s n = Some k"
  shows "GetCrtcForDisplay T (n_display (conn s n)) s = Some k"
proof -
  have dis: "displays_ok T (abs_routing s)" using ok by (simp add: routing_ok_def)
  have pl: "plain (n_display (conn s n)) = n_display (conn s n)" "0 \<le> n_display (conn s n)"
    using dis n(1) by (simp_all add: displays_ok_def)
  have k: "k_display (crtc s k) = n_display (conn s n)"
    using owner_of [OF ok n(1,2)] n(3) by simp
  obtain e where "n_encoder (conn s n) = Some e" "(e, k) \<in> set (possible_routes T n)"
    using ok n(1,3) unfolding routing_ok_def encoders_ok_def
    by (auto simp: routed_def abs_routing_def split: option.splits)
  then have kin: "k \<in> set (dev_crtcs T)" using route_crtc [OF T n(1)] by simp
  have uniq: "j = k" if j: "j \<in> set (dev_crtcs T)" "k_display (crtc s j) = n_display (conn s n)" for j
  proof -
    obtain m where "m \<in> set (dev_connectors T)" "n_display (conn s m) = k_display (crtc s j)"
        "routed s m = Some j"
      using owned_by [OF ok, of j] j pl(2) by auto
    then show ?thesis using same_display [OF dis, of m n] n j by simp
  qed
  show ?thesis
  proof (cases "GetCrtcForDisplay T (n_display (conn s n)) s")
    case None
    then show ?thesis using kin k pl by (auto simp: GetCrtcForDisplay_def find_None_iff plain_def)
  next
    case (Some j)
    then show ?thesis using uniq [of j] pl by (auto simp: GetCrtcForDisplay_def find_Some_iff plain_def)
  qed
qed

end
