(* ===== verification/Pipe_Live.thy ===== *)
theory Pipe_Live
  imports Pipe_Props
begin

text \<open>
  Binding succeeds: with a kernel that refuses nothing, modes whose pixel rate is defined and a
  CRTC that can be had, \<open>BindDpyRes\<close> returns 0, routes the display and has lit it.  Every attempt
  of the search returns (\<open>crtc_loop_total\<close>), and the attempt without the capability check finds
  a free CRTC when there is one.
\<close>

section \<open>The search returns\<close>

text \<open>The modes of the connector have a pixel rate (\<open>v_refresh\<close> does not divide by zero).\<close>

definition clocked :: "DrmConnector \<Rightarrow> bool" where
  "clocked c \<longleftrightarrow>
     (\<forall>m \<in> {n_current c} \<union> set (n_modes c) \<union> set (n_raw_modes c). req_dclk m \<noteq> None)"

lemma capability_total: "req_dclk m \<noteq> None \<Longrightarrow> \<exists>r. CheckCrtcOutputCapability k m = Some r"
  by (auto simp: CheckCrtcOutputCapability_def)

text \<open>The body of a search answers: it returns, and when it says no it has changed nothing.\<close>

definition answers :: "pipe \<Rightarrow> (bool \<times> pipe) option \<Rightarrow> bool" where
  "answers s r \<longleftrightarrow> (case r of None \<Rightarrow> False | Some (f, t) \<Rightarrow> f \<or> t = s)"

lemma crtc_loop_total:
  assumes "\<And>e k. answers s (body e k s)"
  shows "\<exists>f t. crtc_loop body ps s = Some (f, t)"
  using assms
proof (induction ps)
  case (Cons ek ps)
  obtain e k where ek: "ek = (e, k)" by (cases ek)
  obtain b u where "body e k s = Some (b, u)" "\<not> b \<longrightarrow> u = s"
    using Cons.prems [of e k] by (auto simp: answers_def split: option.splits)
  moreover have "\<exists>f t. crtc_loop body ps s = Some (f, t)" using Cons by simp
  ultimately show ?case using ek by (cases b) auto
qed simp

lemma crtc_loop_hits:
  assumes a: "\<And>e k. answers s (body e k s)"
    and "(e, k) \<in> set ps" and hit: "\<forall>b u. body e k s = Some (b, u) \<longrightarrow> b"
  shows "\<exists>j t. crtc_loop body ps s = Some (Some j, t)"
  using assms(2)
proof (induction ps)
  case (Cons ek ps)
  obtain e' k' where ek: "ek = (e', k')" by (cases ek)
  obtain b u where b: "body e' k' s = Some (b, u)" "\<not> b \<longrightarrow> u = s"
    using a [of e' k'] by (auto simp: answers_def split: option.splits)
  show ?case
  proof (cases b)
    case False
    then have "(e, k) \<in> set ps" using Cons.prems hit b ek by auto
    then have "\<exists>j t. crtc_loop body ps s = Some (Some j, t)" by (rule Cons.IH)
    then show ?thesis using b False ek by simp
  qed (use b ek in simp)
qed simp

lemma ReleaseConnectorAndCrtc_total:
  assumes "obliging W"
  shows "\<exists>r t. ReleaseConnectorAndCrtc K T W d no k s = Some (r, t)"
proof (cases no)
  case (Some n)
  then show ?thesis using ReleaseConnectorAndCrtc_obliging [OF assms, of K T d n k s] by metis
qed simp

lemma try_take_total:
  assumes b: "bindable T W d n s" and m: "req_dclk m \<noteq> None"
  shows "answers s (try_take K T W d n m chk victim e k s)"
    and "\<not> chk \<Longrightarrow> try_take K T W d n m chk victim e k s = Some (f, t) \<Longrightarrow> f"
proof -
  have ck: "CheckKernelCrtcNeedRelease K T W d n k s = Some (0, s)"
    using b by (intro CheckKernel_settled) (simp_all add: bindable_def)
  obtain bad where bad: "lacks_capability chk (ci T k) m = Some bad" "\<not> chk \<longrightarrow> \<not> bad"
    using capability_total [OF m, of "ci T k"] by (cases chk) (auto simp: lacks_capability_def)
  obtain u where "(case victim of None \<Rightarrow> Some s
      | Some (td, tn) \<Rightarrow> map_option snd (ReleaseConnectorAndCrtc K T W td tn k s)) = Some u"
  proof (cases victim)
    case (Some v)
    obtain td tn where v: "v = (td, tn)" by (cases v)
    obtain r u where "ReleaseConnectorAndCrtc K T W td tn k s = Some (r, u)"
      using ReleaseConnectorAndCrtc_total b unfolding bindable_def by metis
    then show ?thesis using that Some v by simp
  qed (use that in simp)
  then have r: "try_take K T W d n m chk victim e k s =
      Some (if bad then (False, s) else (True, attach n e k u))"
    using ck bad by (simp add: try_take_def)
  show "answers s (try_take K T W d n m chk victim e k s)" by (simp add: r answers_def)
  show "f" if "\<not> chk" "try_take K T W d n m chk victim e k s = Some (f, t)"
    using that bad r by auto
qed

lemma answers_no [simp]: "answers s (Some (False, s))"
  by (simp add: answers_def)

lemma bodies_total:
  assumes b: "bindable T W d n s" and m: "req_dclk m \<noteq> None"
  shows "answers s (take_free K T W d n m chk e k s)"
    and "answers s (take_idle K T W d n m chk e k s)"
    and "answers s (take_competing K T W d n m e k s)"
  using try_take_total(1) [OF b m, of K]
  by (simp_all add: take_free_def take_idle_def take_competing_def Let_def)

lemma share_total:
  assumes b: "bindable T W d n s" and m: "req_dclk m \<noteq> None"
  shows "answers s (share_as_mirror K T W d n m e k s)"
proof -
  have ck: "CheckKernelCrtcNeedRelease K T W d n k s = Some (0, s)"
    using b by (intro CheckKernel_settled) (simp_all add: bindable_def)
  obtain r where "CheckCrtcOutputCapability (ci T k) m = Some r" using capability_total [OF m] by auto
  then show ?thesis
    using ck by (auto simp: share_as_mirror_def Let_def answers_def split: option.split)
qed

section \<open>The search finds\<close>

text \<open>A CRTC that can be had: one nobody owns, or any when the display need not give way.\<close>

definition can_have :: "topo \<Rightarrow> nptr \<Rightarrow> pipe \<Rightarrow> bool" where
  "can_have T n s \<longleftrightarrow>
     (\<exists>(e, k) \<in> set (possible_routes T n). k_display (crtc s k) = -1) \<or>
     possible_routes T n \<noteq> [] \<and> n_priority (conn s n) \<le> 0"

definition lightable :: "topo \<Rightarrow> world \<Rightarrow> int \<Rightarrow> nptr \<Rightarrow> pipe \<Rightarrow> bool" where
  "lightable T W d n s \<longleftrightarrow>
     bindable T W d n s \<and> mode_id (n_current (conn s n)) \<noteq> 0 \<and> clocked (conn s n) \<and> can_have T n s"

lemma ByFirst_total:
  assumes b: "bindable T W d n s" and m: "req_dclk (n_current (conn s n)) \<noteq> None"
  shows "\<exists>f t. FindAvailableCrtcByFirst K T W d n chk s = Some (f, t)"
    and "(e, k) \<in> set (possible_routes T n) \<Longrightarrow> k_display (crtc s k) = -1 \<Longrightarrow>
      \<exists>j t. FindAvailableCrtcByFirst K T W d n False s = Some (Some j, t)"
proof -
  have id: "upd_conn n (set_encoder None) s = s"
    using b by (intro set_encoder_None_idle) (simp add: bindable_def)
  let ?m = "n_current (conn s n)"
  obtain f t where 1: "crtc_loop (take_free K T W d n ?m chk) (possible_routes T n) s = Some (f, t)"
    using crtc_loop_total [where body = "take_free K T W d n ?m chk", OF bodies_total(1) [OF b m]] by blast
  have "if f = None then t = s else found_ok T n (the f) s t"
    by (rule crtc_loop_rule [OF 1]) (rule take_free_found [OF b])
  moreover have "\<exists>f t. crtc_loop (take_idle K T W d n ?m chk) (possible_routes T n) s = Some (f, t)"
    by (rule crtc_loop_total) (rule bodies_total(2) [OF b m])
  ultimately show "\<exists>f t. FindAvailableCrtcByFirst K T W d n chk s = Some (f, t)"
    using 1 by (auto simp: FindAvailableCrtcByFirst_def id Let_def)
  assume e: "(e, k) \<in> set (possible_routes T n)" "k_display (crtc s k) = -1"
  have "\<exists>j t. crtc_loop (take_free K T W d n ?m False) (possible_routes T n) s = Some (Some j, t)"
  proof (rule crtc_loop_hits [OF _ e(1)])
    show "answers s (take_free K T W d n ?m False e k s)" for e k by (rule bodies_total(1) [OF b m])
    show "\<forall>f u. take_free K T W d n ?m False e k s = Some (f, u) \<longrightarrow> f"
      using e(2) try_take_total(2) [OF b m, of False K None e k]
      by (auto simp: take_free_def crtc_can_bind_def)
  qed
  then show "\<exists>j t. FindAvailableCrtcByFirst K T W d n False s = Some (Some j, t)"
    by (auto simp: FindAvailableCrtcByFirst_def id Let_def)
qed

lemma ByMirror_total:
  assumes b: "bindable T W d n s" and m: "req_dclk (n_current (conn s n)) \<noteq> None"
  shows "\<exists>f t. FindAvailableCrtcByMirror K T W d n s = Some (f, t)"
  using crtc_loop_total [where body = "share_as_mirror K T W d n (n_current (conn s n))",
      OF share_total [OF b m]]
  by (simp add: FindAvailableCrtcByMirror_def)

lemma ByCompete_total:
  assumes b: "bindable T W d n s" and m: "req_dclk (n_current (conn s n)) \<noteq> None"
  shows "\<exists>f t. FindAvailableCrtcByCompete K T W d n s = Some (f, t)"
    and "possible_routes T n \<noteq> [] \<Longrightarrow> n_priority (conn s n) \<le> 0 \<Longrightarrow>
      \<exists>j t. FindAvailableCrtcByCompete K T W d n s = Some (Some j, t)"
proof -
  note tot = bodies_total(3) [OF b m]
  show "\<exists>f t. FindAvailableCrtcByCompete K T W d n s = Some (f, t)"
    unfolding FindAvailableCrtcByCompete_def by (rule crtc_loop_total) (rule tot)
  assume p: "possible_routes T n \<noteq> []" "n_priority (conn s n) \<le> 0"
  then obtain e k where e: "(e, k) \<in> set (possible_routes T n)" by (cases "possible_routes T n") auto
  have "\<forall>f u. take_competing K T W d n (n_current (conn s n)) e k s = Some (f, u) \<longrightarrow> f"
    using p(2) try_take_total(2) [OF b m, of False K
        "Some (k_display (crtc s k), GetConnectorForDisplay T (k_display (crtc s k)) s)" e k]
    by (auto simp: take_competing_def Let_def)
  then show "\<exists>j t. FindAvailableCrtcByCompete K T W d n s = Some (Some j, t)"
    unfolding FindAvailableCrtcByCompete_def by (intro crtc_loop_hits [OF _ e]) (rule tot)
qed

lemma or_else_hits:
  "search_answer T n s r \<Longrightarrow> r \<noteq> None \<Longrightarrow> g s \<noteq> None \<Longrightarrow>
   or_else r g \<noteq> None \<and> ((\<exists>j t. g s = Some (Some j, t)) \<or> (\<exists>j t. r = Some (Some j, t)) \<longrightarrow>
     (\<exists>j t. or_else r g = Some (Some j, t)))"
  by (force simp: search_answer_def or_else_def)

lemma FindAvailableCrtc_finds:
  assumes "lightable T W d n s"
  shows "\<exists>k t. FindAvailableCrtc K T W d n s = Some (Some k, t)"
proof -
  have b: "bindable T W d n s" and m: "req_dclk (n_current (conn s n)) \<noteq> None" and h: "can_have T n s"
    using assms by (simp_all add: lightable_def clocked_def)
  let ?F = "\<lambda>c. FindAvailableCrtcByFirst K T W d n c"
  let ?M = "FindAvailableCrtcByMirror K T W d n"
  let ?C = "FindAvailableCrtcByCompete K T W d n"
  have a: "search_answer T n s (?F c s)" "search_answer T n s (?M s)" "search_answer T n s (?C s)" for c
    using FindByFirst_search [OF b] FindByMirror_search [OF b] FindByCompete_search [OF b]
    by (auto simp: search_answer_def)
  have tot: "?F c s \<noteq> None" "?M s \<noteq> None" "?C s \<noteq> None" for c
    using ByFirst_total(1) [OF b m, of K c] ByMirror_total [OF b m, of K] ByCompete_total(1) [OF b m, of K]
    by auto
  have hit: "(\<exists>j t. ?F False s = Some (Some j, t)) \<or> (\<exists>j t. ?C s = Some (Some j, t))"
    using h ByFirst_total(2) [OF b m] ByCompete_total(2) [OF b m] unfolding can_have_def by blast
  let ?r1 = "or_else (?F True s) ?M" and ?r2 = "or_else (or_else (?F True s) ?M) (?F False)"
  have 1: "search_answer T n s ?r1" "?r1 \<noteq> None"
    using or_else_answer [OF a(1) [of True], of ?M] a(2) or_else_hits [OF a(1) tot(1), of ?M True] tot(2)
    by blast+
  have 2: "search_answer T n s ?r2" "?r2 \<noteq> None"
      "(\<exists>j t. ?F False s = Some (Some j, t)) \<longrightarrow> (\<exists>j t. ?r2 = Some (Some j, t))"
    using or_else_answer [OF 1(1), of "?F False"] a(1) or_else_hits [OF 1, of "?F False"] tot(1)
    by blast+
  have "\<exists>j t. or_else ?r2 ?C = Some (Some j, t)"
    using or_else_hits [OF 2(1,2), of ?C] tot(3) hit 2(3) by blast
  then obtain j t where "or_else ?r2 ?C = Some (Some j, t)" by blast
  then show ?thesis unfolding FindAvailableCrtc_def by (subst or_else_def) simp
qed

section \<open>The commit lights the display\<close>

lemma ADD_PROP_obliging:
  "obliging W \<Longrightarrow> p \<noteq> 0 \<Longrightarrow> DRM_ATOMIC_ADD_PROP W ob p v ps = (fst ps @ [(ob, p, v)], tick (snd ps))"
  by (cases ps) (simp add: DRM_ATOMIC_ADD_PROP_def atomic_add_def obliging_def)

lemma atomic_add_obliging:
  "obliging W \<Longrightarrow> atomic_add W ob p v ps = (True, fst ps @ [(ob, p, v)], tick (snd ps))"
  by (cases ps) (simp add: atomic_add_def obliging_def)

text \<open>The properties the request is made of exist, and the kernel takes mode blobs.\<close>

definition has_props :: "topo \<Rightarrow> nptr \<Rightarrow> cptr \<Rightarrow> bool" where
  "has_props T n k \<longleftrightarrow>
     ni_crtc_prop (ni T n) \<noteq> 0 \<and> ci_mode_prop (ci T k) \<noteq> 0 \<and> ci_active_prop (ci T k) \<noteq> 0"

definition takes_blobs :: "world \<Rightarrow> bool" where
  "takes_blobs W \<longleftrightarrow> (\<forall>t m. fst (w_blob W t m) = 0)"

definition on_request :: "topo \<Rightarrow> nptr \<Rightarrow> cptr \<Rightarrow> u32 \<Rightarrow> request" where
  "on_request T n k b =
     [(ni_id (ni T n), ni_crtc_prop (ni T n), ucast (ci_id (ci T k))),
      (ci_id (ci T k), ci_mode_prop (ci T k), ucast b), (ci_id (ci T k), ci_active_prop (ci T k), 1)]"

text \<open>The last request the kernel took puts the connector on the CRTC, on, with its active mode.\<close>

definition lit :: "sdk \<Rightarrow> topo \<Rightarrow> nptr \<Rightarrow> cptr \<Rightarrow> pipe \<Rightarrow> bool" where
  "lit K T n k t \<longleftrightarrow>
     commits t \<noteq> [] \<and>
     (\<exists>b. set (on_request T n k b) \<subseteq> set (last (commits t)) \<and>
          blobs t b = Some (ToDrmModeModeInfo K (n_active (conn t n))))"

lemma add_crtc_on_obliging:
  assumes "obliging W" "has_props T n k"
  shows "add_crtc_on T W n k b ([], s) = (on_request T n k b, tick (tick (tick s)))"
  using assms
  by (simp add: add_crtc_on_def add_conn_crtc_def ADD_PROP_obliging on_request_def has_props_def)

text \<open>Only the clock and the accepted requests tell such states apart.\<close>

definition same_view :: "pipe \<Rightarrow> pipe \<Rightarrow> bool" where
  "same_view s t \<longleftrightarrow> commits t = commits s \<and> blobs t = blobs s \<and> conn t = conn s \<and> enc t = enc s"

lemma same_view_simps [simp]:
  "same_view s s"
  "same_view s (tick t) = same_view s t"
  "same_view s (snd (snd (atomic_add W ob p v ps))) = same_view s (snd ps)"
  "same_view s (snd (add_output_rgb K T W n ps)) = same_view s (snd ps)"
  by (simp_all add: same_view_def tick_def atomic_add_def add_output_rgb_def split: prod.split)

lemma request_grows [simp]:
  "set (fst ps) \<subseteq> set (fst (snd (atomic_add W ob p v ps)))"
  by (auto simp: atomic_add_def split: prod.split)

lemma output_rgb_grows: "set (fst ps) \<subseteq> set (fst (add_output_rgb K T W n ps))"
  unfolding add_output_rgb_def by (rule subset_trans [OF request_grows request_grows])

lemma add_mirror_format_obliging:
  assumes "mirror_mode (conn (snd ps) n) \<Longrightarrow>
      GetConnectorForDisplay T (mirror_primary_id (conn (snd ps) n)) (snd ps) \<noteq> None"
  obtains qs where "add_mirror_format K T W n ps = Some qs" "set (fst ps) \<subseteq> set (fst qs)"
    "same_view (snd ps) (snd qs)"
proof -
  let ?c = "conn (snd ps) n" and ?q = "add_output_rgb K T W n ps"
  consider (no) "add_mirror_format K T W n ps = Some ps" | (one) "add_mirror_format K T W n ps = Some ?q"
    | (two) m where "add_mirror_format K T W n ps = Some (add_output_rgb K T W m ?q)"
  proof (cases "mirror_mode ?c \<and> \<not> is_connector_mirror_primary ?c")
    case True
    then obtain m where m: "GetConnectorForDisplay T (get_connector_mirror_primary_id ?c) (snd ps) = Some m"
      using assms by (auto simp: get_connector_mirror_primary_id_def)
    show thesis
      using one two [of m] True m
      by (cases "get_connector_mirror_primary_id ?c < 0";
          cases "FilterColorFormatWithCaps K (conn (snd ps) m) (output_rgb K) = output_rgb K")
         (simp_all add: add_mirror_format_def Let_def)
  next
    case False
    then show thesis by (intro no) (auto simp: add_mirror_format_def Let_def)
  qed
  then show thesis
  proof cases
    case two
    then show thesis
      using that [OF two] output_rgb_grows [of ps K T W n] output_rgb_grows [of ?q K T W m] by simp
  qed (use that [OF _ order_refl] that [OF _ output_rgb_grows] in simp_all)
qed

lemma GetConnectorForDisplay_cong:
  "(\<And>m. n_display (conn t m) = n_display (conn s m)) \<Longrightarrow>
   GetConnectorForDisplay T d t = GetConnectorForDisplay T d s"
  by (simp add: GetConnectorForDisplay_def)

lemma ready_cong:
  assumes "ready_to_commit T n k s" "abs_routing t = abs_routing s"
  shows "ready_to_commit T n k t"
proof -
  have eq: "routed t n = routed s n" "mirror_mode (conn t n) = mirror_mode (conn s n)"
      "mirror_primary_id (conn t n) = mirror_primary_id (conn s n)"
      "n_display (conn t m) = n_display (conn s m)" for m
    using abs_simps(7) [of t n] abs_simps(4) [of t n] abs_simps(6) [of t n] abs_simps(2) [of t m] assms(2)
    by simp_all
  show ?thesis
    using assms(1) GetConnectorForDisplay_cong [of t s T, OF eq(4)] by (simp add: ready_to_commit_def eq)
qed

text \<open>The mode at hand and the mode to fall back to both have a pixel rate.\<close>

lemma first_fitting_total:
  "(\<forall>m \<in> set ms. req_dclk m \<noteq> None) \<Longrightarrow> first_fitting P w d ms \<noteq> None"
  by (induction ms) (auto simp: fits_output_def split: option.split bool.split)

lemma first_of_passes_total:
  "(\<And>P ms m. (P, ms) \<in> set ps \<Longrightarrow> m \<in> set ms \<Longrightarrow> req_dclk m \<noteq> None) \<Longrightarrow> first_of_passes w d ps \<noteq> None"
proof (induction ps)
  case (Cons Pm ps)
  obtain P ms where Pm: "Pm = (P, ms)" by (cases Pm)
  have "first_fitting P w d ms \<noteq> None" using Cons.prems Pm by (intro first_fitting_total) auto
  moreover have "first_of_passes w d ps \<noteq> None" using Cons by fastforce
  ultimately show ?case using Pm by (auto split: option.split)
qed simp

lemma GetSuitableMode_total:
  assumes "clocked c" shows "GetSuitableMode K w d c \<noteq> None"
proof -
  have "first_of_passes w d (suitable_passes K c) \<noteq> None"
    using assms by (intro first_of_passes_total) (auto simp: suitable_passes_def clocked_def)
  then show ?thesis by (auto simp: GetSuitableMode_def split: option.split)
qed

lemma fall_back_total:
  assumes "clocked (conn s n)"
  shows "\<exists>t. fall_back_to_suitable K T n k s = Some t"
proof -
  obtain r where "CheckCrtcOutputCapability (ci T k) (n_current (conn s n)) = Some r"
    using assms capability_total [of "n_current (conn s n)" "ci T k"] by (auto simp: clocked_def)
  then show ?thesis
    using GetSuitableMode_total [OF assms] by (auto simp: fall_back_to_suitable_def)
qed

lemma sync_conn: "conn (sync_with_kernel_mode K T W n k s) = conn s"
  using DisableAllPlane_commit_same [of s K T W k s]
  by (auto simp: sync_with_kernel_mode_def same_objects_def upd_crtc_def split: prod.split)

lemma commit_obliging:
  assumes "obliging W"
  shows "\<exists>r t. atomic_commit W ps = (r, t) \<and> 0 \<le> r \<and> commits t = commits (snd ps) @ [fst ps] \<and>
     blobs t = blobs (snd ps) \<and> conn t = conn (snd ps) \<and> enc t = enc (snd ps)"
  using assms by (cases ps) (simp add: atomic_commit_def obliging_def Let_def not_less tick_def)

lemma create_blob:
  assumes "takes_blobs W"
  obtains b t where "CreatePropertyBlob W m s = (0, b, t)" "blobs t b = Some m"
    "conn t = conn s" "enc t = enc s" "commits t = commits s"
proof (cases "w_blob W (now s) m")
  case (Pair r b)
  moreover from this have "r = 0" using assms unfolding takes_blobs_def by (metis fst_conv)
  ultimately show thesis
    using that [of b "tick (s\<lparr>blobs := (blobs s)(b \<mapsto> m)\<rparr>)"] by (simp add: CreatePropertyBlob_def tick_def)
qed

lemma ready_mirror:
  "ready_to_commit T n k s \<Longrightarrow> mirror_mode (conn s n) \<Longrightarrow>
   GetConnectorForDisplay T (mirror_primary_id (conn s n)) s \<noteq> None"
  by (simp add: ready_to_commit_def)

lemma BindConnectorAndCrtc_lights:
  assumes W: "obliging W" "takes_blobs W" and m: "mode_id (n_current (conn s n)) \<noteq> 0" "clocked (conn s n)"
    and r: "ready_to_commit T n k s" and p: "has_props T n k"
  shows "\<exists>t. BindConnectorAndCrtc K T W d n k s = Some (0, t) \<and> lit K T n k t"
proof -
  let ?s0 = "sync_with_kernel_mode K T W n k s"
  obtain s1 where 1: "fall_back_to_suitable K T n k ?s0 = Some s1"
    using fall_back_total [of ?s0 n K T k] m(2) by (auto simp: sync_conn)
  have "quiet T s s1" by (rule quiet_trans [OF sync_quiet fall_back_quiet [OF 1]])
  then have r1: "ready_to_commit T n k s1" using ready_cong [OF r] by (simp add: quiet_def)
  let ?s2 = "tick s1" and ?m = "ToDrmModeModeInfo K (n_current (conn s1 n))"
  obtain b s3 where 3: "CreatePropertyBlob W ?m ?s2 = (0, b, s3)" "blobs s3 b = Some ?m"
      "conn s3 = conn ?s2" "enc s3 = enc ?s2"
    by (rule create_blob [OF W(2)])
  define ps where "ps = (on_request T n k b, tick (tick (tick s3)))"
  have on: "add_crtc_on T W n k b ([], s3) = ps"
    by (simp add: add_crtc_on_obliging [OF W(1) p] ps_def)
  have conn: "conn (snd ps) = conn s1" by (simp add: ps_def 3 tick_def)
  obtain qs where q: "add_mirror_format K T W n ps = Some qs" "set (on_request T n k b) \<subseteq> set (fst qs)"
      "same_view (snd ps) (snd qs)"
  proof (rule add_mirror_format_obliging [of ps n T K W])
    assume "mirror_mode (conn (snd ps) n)"
    then show "GetConnectorForDisplay T (mirror_primary_id (conn (snd ps) n)) (snd ps) \<noteq> None"
      using ready_mirror [OF r1] conn GetConnectorForDisplay_cong [of "snd ps" s1 T] by simp
  qed (use that in \<open>simp add: ps_def\<close>)
  obtain c s4 where 4: "atomic_commit W qs = (c, s4)" "0 \<le> c" "commits s4 = commits (snd qs) @ [fst qs]"
      "blobs s4 = blobs (snd qs)" "conn s4 = conn (snd qs)"
    using commit_obliging [OF W(1), of qs] by blast
  define s6 where "s6 = upd_conn n reset_kernel_crtc_id
      (upd_conn n (set_active_mode (n_current (conn s4 n))) (DestroyPropertyBlob b s4))"
  have D: "conn (DestroyPropertyBlob b s4) = conn s4" "blobs (DestroyPropertyBlob b s4) = blobs s4"
      "commits (DestroyPropertyBlob b s4) = commits s4"
    by (simp_all add: DestroyPropertyBlob_def tick_def)
  have "n_active (conn s6 n) = n_current (conn s1 n)"
    using q(3) conn 4(5)
    by (simp add: s6_def upd_conn_def reset_kernel_crtc_id_def set_active_mode_def D same_view_def)
  moreover have "blobs s6 b = Some ?m"
    using q(3) 3(2) 4(4) by (simp add: s6_def upd_conn_def D same_view_def ps_def tick_def)
  moreover have "commits s6 = commits (snd qs) @ [fst qs]" using 4(3) by (simp add: s6_def upd_conn_def D)
  ultimately have "lit K T n k (report d x s6)" for x
    using q(2) by (auto simp: lit_def report_def)
  moreover have "BindConnectorAndCrtc K T W d n k s = Some (0, report d (bound_report T n k (conn s6 n)) s6)"
    using m(1) 1 3 q(1) 4(1,2)
    by (simp add: BindConnectorAndCrtc_def atomic_alloc_obliging [OF W(1)] on Let_def tick_def D
        s6_def [symmetric])
  ultimately show ?thesis by blast
qed

section \<open>The whole bind\<close>

text \<open>Connected, and on a device whose planes the platform assigns.\<close>

definition bind_ready :: "topo \<Rightarrow> world \<Rightarrow> int \<Rightarrow> nptr \<Rightarrow> pipe \<Rightarrow> bool" where
  "bind_ready T W d n s \<longleftrightarrow>
     lightable T W d n s \<and> takes_blobs W \<and> n_state (conn s n) = DRM_MODE_CONNECTED \<and>
     device_soc T = 0x3588 \<and> (\<forall>k \<in> set (dev_crtcs T). has_props T n k)"

lemma finish_assign_3588:
  assumes "device_soc T = 0x3588"
  shows "\<exists>t. finish_assign T s = (0, t) \<and> routing_same s t"
  using TryAssignPlane_frame [of s T] assms
  by (auto simp: finish_assign_def TryAssignPlane_def Hwc3588_SupportPlatform_def
      Hwc3588_TryAssignPlane_def assignPlaneByPlaneMask_def assignPlaneByHWC_def)

lemma routed_crtc:
  assumes "topo_ok T" "routing_ok T (abs_routing s)" "n \<in> set (dev_connectors T)" "routed s n = Some k"
  shows "k \<in> set (dev_crtcs T)"
proof -
  obtain e where "n_encoder (conn s n) = Some e" "(e, k) \<in> set (possible_routes T n)"
    using assms(2-4) unfolding routing_ok_def encoders_ok_def
    by (auto simp: routed_def abs_routing_def split: option.splits)
  then show ?thesis using route_crtc [OF assms(1,3)] by simp
qed

lemma own_connector:
  assumes "displays_ok T (abs_routing s)" "n \<in> set (dev_connectors T)" "plain d = n_display (conn s n)"
  shows "GetConnectorForDisplay T d s = Some n"
proof -
  have "plain d = plain (n_display (conn s n))" using assms by (simp add: displays_ok_def)
  then have "GetConnectorForDisplay T d s = GetConnectorForDisplay T (n_display (conn s n)) s"
    by (simp add: GetConnectorForDisplay_def plain_def)
  then show ?thesis using GetConnectorForDisplay_of [OF assms(1,2)] by simp
qed

theorem BindDpyRes_lights:
  assumes b: "bind_ready T W d n s"
  shows "\<exists>k t. BindDpyRes K T W d s = Some (0, t) \<and> k \<in> set (dev_crtcs T) \<and> routed t n = Some k \<and>
     lit K T n k t"
proof -
  have l: "bindable T W d n s" "obliging W" "displays_ok T (abs_routing s)" "n \<in> set (dev_connectors T)"
      "topo_ok T" "plain d = n_display (conn s n)"
    using b by (auto simp: bind_ready_def lightable_def bindable_def routing_ok_def)
  have n: "GetConnectorForDisplay T d s = Some n" by (rule own_connector) (use l in simp_all)
  have c: "CheckConnectorState K (Some n) False s = 0"
    using b by (simp add: CheckConnectorState_def bind_ready_def)
  obtain k s1 where f: "FindAvailableCrtc K T W d n s = Some (Some k, s1)"
    using FindAvailableCrtc_finds [of T W d n s K] b by (auto simp: bind_ready_def)
  have ok: "found_ok T n k s s1" using FindAvailableCrtc_search [OF l(1) f] by simp
  then have k: "k \<in> set (dev_crtcs T)"
    using route_crtc [OF l(5,4)] by (auto simp: found_ok_def)
  have "\<exists>t. BindConnectorAndCrtc K T W d n k s1 = Some (0, t) \<and> lit K T n k t"
    by (rule BindConnectorAndCrtc_lights)
       (use b ok k l in \<open>auto simp: bind_ready_def lightable_def found_ok_def modes_kept_def clocked_def\<close>)
  then obtain s2 where 2: "BindConnectorAndCrtc K T W d n k s1 = Some (0, s2)" "lit K T n k s2" by blast
  obtain t where t: "finish_assign T s2 = (0, t)" "routing_same s2 t"
    using finish_assign_3588 [of T s2] b by (auto simp: bind_ready_def)
  have "ready_to_commit T n k s2"
    using ok BindConnectorAndCrtc_quiet [OF 2(1)] ready_cong by (auto simp: found_ok_def quiet_def)
  moreover have "conn t = conn s2" "enc t = enc s2" "commits t = commits s2" "blobs t = blobs s2"
    using t(2) by (simp_all add: routing_same_def)
  moreover from this(1,2) have "routed t n = routed s2 n" by (simp add: routed_def split: option.split)
  ultimately have "routed t n = Some k" "lit K T n k t"
    using 2(2) by (simp_all add: ready_to_commit_def lit_def)
  then show ?thesis using n c f 2(1) t(1) k by (simp add: BindDpyRes_def)
qed

end
