(* ===== verification/Pipe_Claims.thy ===== *)
theory Pipe_Claims
  imports Pipe_Live
begin

text \<open>
  The properties of the display routing, with a device of two displays and two CRTCs for the
  witnesses.
\<close>

section \<open>A device of two displays\<close>

definition T2 :: topo where
  "T2 =
     \<lparr> dev_crtcs = [0, 1], dev_connectors = [0, 1],
       ci = (\<lambda>k. \<lparr> ci_id = if k = 0 then 50 else 51, ci_pipe = k, ci_plane_mask = 0, ci_mode_prop = 21,
              ci_active_prop = 22, ci_width_prop = 0, ci_output_width = 0, ci_output_dclk = 0,
              ci_kernel_mode = DrmMode_default, ci_variable_rr = DrmProperty_default,
              ci_min_rr = DrmProperty_default, ci_max_rr = DrmProperty_default \<rparr>),
       ei_possible_crtcs = (\<lambda>e. [0, 1]),
       ni = (\<lambda>n. \<lparr> ni_id = if n = 0 then 100 else 101, ni_type = 11, ni_type_id = 1,
              ni_possible_encoders = [n], ni_crtc_prop = 20, ni_color_format_prop = 23,
              ni_color_depth_prop = 24 \<rparr>),
       device_soc = 0x3588 \<rparr>"

definition W_yes :: world where
  "W_yes = \<lparr> w_alloc = (\<lambda>_. True), w_add = (\<lambda>_. True), w_commit = (\<lambda>_ _. 0), w_blob = (\<lambda>_ _. (0, 7)) \<rparr>"

definition mode_1080 :: DrmMode where
  "mode_1080 = DrmMode_default\<lparr> mode_id := 1, clock := 148500, h_display := 1920, v_display := 1080,
     h_total := 2200, v_total := 1125, vrefresh_field := 60 \<rparr>"

definition conn_dark :: "nat \<Rightarrow> DrmConnector" where
  "conn_dark n =
     \<lparr> n_display = int n, n_priority = 0, n_possible_displays = 1, n_state = DRM_MODE_CONNECTED,
       n_hotplug_state = DRM_MODE_CONNECTED, n_plug = False, n_encoder = None,
       n_active = DrmMode_default, n_current = mode_1080, n_best = mode_1080, n_modes = [mode_1080],
       n_raw_modes = [], n_preferred = 1, n_mode_ready = True, n_color_caps = DrmProperty_default,
       n_horizontal_split = False, mKernelCrtcId = 0, mirror_mode = False, mirror_primary = False,
       mirror_primary_id = -1, connected_mirror_display_id_set = [] \<rparr>"

definition s_dark :: pipe where
  "s_dark =
     \<lparr> now = 0, commits = [], blobs = (\<lambda>_. None),
       crtc = (\<lambda>k. \<lparr> k_display = -1, sync_kernel_mode = True \<rparr>),
       enc = (\<lambda>e. \<lparr> e_crtc = None, e_display = -1 \<rparr>), conn = conn_dark,
       groups = [], assign_mask = assign_mask_default_3588, reports = (\<lambda>_. None) \<rparr>"

lemma W_yes_obliging: "obliging W_yes"
  by (simp add: obliging_def W_yes_def)

lemma T2_ok: "topo_ok T2"
  by code_simp

lemma plain_small: "plain 0 = 0" "plain 1 = 1"
  by code_simp+

lemma s_dark_dark: "dark T2 s_dark"
  by (simp add: dark_def displays_ok_def settled_def T2_def s_dark_def conn_dark_def plain_small)

section \<open>Binding lights the display\<close>

text \<open>C4: Binding lights a display of an RK3588.  The hypotheses: the kernel refuses no request and
  takes mode blobs; the SoC is RK3588, for which alone the repository has a stage that assigns planes
  (on any other SoC a bind ends with \<open>-1\<close>); no two connectors share an encoder and the encoders'
  CRTCs are the device's (\<open>topo_ok\<close>); the properties the request writes exist; the routing is in
  order (\<open>routing_ok\<close>, which the runs of \<open>crtc_of_one_display\<close> establish) and no connector is left
  on a CRTC by the boot loader (\<open>settled\<close>); the modes of the display have a pixel clock that can be
  computed (\<open>clocked\<close>).  Then binding a connected display that has a mode and no CRTC yet, while a
  CRTC can be had (one is free, or the display has no priority to give way by), returns 0; the
  display is then routed to a CRTC of the device, and the last request the kernel took puts the
  connector on that CRTC, switched on, with the blob of the mode the connector has become active
  with.\<close>

theorem bind_lights:
  assumes "obliging W" "takes_blobs W" "topo_ok T" "device_soc T = 0x3588"
    and "\<forall>k \<in> set (dev_crtcs T). has_props T n k"
    and "routing_ok T (abs_routing s)" "settled T s"
    and "n \<in> set (dev_connectors T)" "n_encoder (conn s n) = None"
    and "n_state (conn s n) = DRM_MODE_CONNECTED" "mode_id (n_current (conn s n)) \<noteq> 0"
    and "clocked (conn s n)" "can_have T n s"
  shows "\<exists>k t. BindDpyRes K T W (n_display (conn s n)) s = Some (0, t) \<and> k \<in> set (dev_crtcs T) \<and>
     routed t n = Some k \<and> lit K T n k t"
proof (rule BindDpyRes_lights)
  have "plain (n_display (conn s n)) = n_display (conn s n)"
    using assms(6,8) by (simp add: routing_ok_def displays_ok_def)
  then show "bind_ready T W (n_display (conn s n)) n s"
    using assms by (simp add: bind_ready_def lightable_def bindable_def)
qed

lemma W_yes_blobs: "takes_blobs W_yes"
  by (simp add: takes_blobs_def W_yes_def)

lemma T2_props: "\<forall>k \<in> set (dev_crtcs T2). has_props T2 n k" "device_soc T2 = 0x3588"
    "set (dev_connectors T2) = {0, 1}"
  by (auto simp: T2_def has_props_def)

lemma s_dark_facts:
  "routing_ok T2 (abs_routing s_dark)" "settled T2 s_dark"
  "n_display (conn s_dark n) = int n" "n_encoder (conn s_dark n) = None"
  "n_state (conn s_dark n) = DRM_MODE_CONNECTED" "mode_id (n_current (conn s_dark n)) \<noteq> 0"
  using dark_ok [OF s_dark_dark] s_dark_dark
  by (simp_all add: dark_def s_dark_def conn_dark_def mode_1080_def)

lemma s_dark_clocked: "clocked (conn s_dark 0)"
  by code_simp

lemma s_dark_free: "can_have T2 0 s_dark"
  by (simp add: can_have_def possible_routes_def T2_def s_dark_def conn_dark_def)

theorem bind_lights_witness:
  "\<exists>k t. BindDpyRes sdk0 T2 W_yes (n_display (conn s_dark 0)) s_dark = Some (0, t) \<and>
     k \<in> set (dev_crtcs T2) \<and> routed t 0 = Some k \<and> lit sdk0 T2 0 k t"
  by (rule bind_lights [OF W_yes_obliging W_yes_blobs T2_ok])
     (use T2_props s_dark_facts s_dark_clocked s_dark_free in simp_all)

section \<open>One display per CRTC\<close>









end
