(* ===== verification/Pipe_Limits.thy ===== *)
theory Pipe_Limits
  imports Pipe_Claims
begin

text \<open>
  The edges of the display routing: the limits of the variable refresh rate, the table that hands
  out planes, and the two ways in which a display loses its CRTC without being told.
\<close>

section \<open>The variable refresh rate\<close>

lemma of_neg_int:
  assumes "- (2 ^ 31) \<le> i" "i < 0"
  shows "uint (word_of_int i :: u64) = i + 2 ^ 64"
proof -
  have "i mod 2 ^ 64 = (i + 2 ^ 64) mod 2 ^ 64" by simp
  also have "\<dots> = i + 2 ^ 64" using assms by (intro mod_pos_pos_trivial) simp_all
  finally show ?thesis by (simp add: uint_word_of_int)
qed

lemma of_nonneg_int:
  assumes "0 \<le> i" "i < 2 ^ 31"
  shows "uint (word_of_int i :: u64) = i"
  using assms by (simp add: uint_word_of_int)

lemma sint_low:
  fixes w :: u64
  assumes "uint w < 2 ^ 31"
  shows "sint (ucast w :: u32) = uint w"
proof -
  have "uint (ucast w :: u32) = uint w"
    using assms by (simp add: unsigned_ucast_eq take_bit_int_eq_self)
  moreover have "0 \<le> uint w" by simp
  ultimately show ?thesis using assms order_trans [of "- 2147483648" 0 "uint w"]
    by (simp add: sint_uint signed_take_bit_int_eq_self_iff)
qed

text \<open>C39: With limits \<open>lo <= hi\<close> below 2^31 the requested refresh rate ends between them: a rate in
  range is kept, a smaller one becomes \<open>lo\<close>, a greater one \<open>hi\<close>, and so does a negative one, which
  the comparison with the 64-bit limits reads as huge.\<close>

theorem refresh_rate_clamped:
  assumes "snd (prop_value_of K (ci_min_rr k)) = lo" "snd (prop_value_of K (ci_max_rr k)) = hi"
    and "lo \<le> hi" "uint hi < 2 ^ 31" "- (2 ^ 31) \<le> rate" "rate < 2 ^ 31"
  shows "clamp_refresh K k rate = (if rate < 0 then uint hi else max (uint lo) (min (uint hi) rate))"
proof -
  have lh: "uint lo \<le> uint hi" "uint lo < 2 ^ 31" using assms(3,4) by (simp_all add: word_le_def)
  have lo: "sint (ucast lo :: u32) = uint lo" "sint (ucast hi :: u32) = uint hi"
    using sint_low lh assms(4) by simp_all
  have l: "(word_of_int (uint lo) :: u64) = lo" by simp
  show ?thesis
  proof (cases "rate < 0")
    case True
    then have "uint (word_of_int rate :: u64) = rate + 2 ^ 64" by (rule of_neg_int [OF assms(5)])
    then show ?thesis
      using True lh assms by (simp add: clamp_refresh_def Let_def word_less_def lo)
  next
    case False
    then have "uint (word_of_int rate :: u64) = rate" using assms by (intro of_nonneg_int) simp_all
    then show ?thesis
      using False lh assms by (auto simp: clamp_refresh_def Let_def word_less_def lo l max_def min_def)
  qed
qed

definition vrr_limit :: "u64 \<Rightarrow> DrmProperty" where
  "vrr_limit v =
     DrmProperty_default\<lparr> prop_type := DRM_PROPERTY_TYPE_INT, prop_value := v, prop_values := [v] \<rparr>"

definition vrr_crtc :: crtc_info where
  "vrr_crtc = (ci T2 0)\<lparr> ci_min_rr := vrr_limit 48, ci_max_rr := vrr_limit 60 \<rparr>"

theorem refresh_rate_clamped_witness:
  "clamp_refresh sdk0 vrr_crtc 50 = 50 \<and> clamp_refresh sdk0 vrr_crtc (- 1) = 60"
  using refresh_rate_clamped [of sdk0 vrr_crtc 48 60 50] refresh_rate_clamped [of sdk0 vrr_crtc 48 60 "- 1"]
  by (simp add: vrr_crtc_def vrr_limit_def prop_value_of_def)

section \<open>The table of planes\<close>

text \<open>The first displays to ask, at most four, hold the first rows.\<close>

definition rows_held :: "int list \<Rightarrow> assign_plane_group_3588 list" where
  "rows_held ds =
     map2 (\<lambda>d r. r\<lparr> display_type := d, have_assigin := True \<rparr>) (take 4 ds) assign_mask_default_3588 @
     drop (length ds) assign_mask_default_3588"

lemma take_row_skip:
  "(\<forall>r \<in> set rs. have_assigin r) \<Longrightarrow>
   take_row d (rs @ rs') = (fst (take_row d rs'), rs @ snd (take_row d rs'))"
  by (induction rs) (auto split: prod.split)

lemma row_of_stranger:
  "(\<forall>r \<in> set rs. display_type r \<noteq> d) \<Longrightarrow> row_of_display d rs = 0"
  by (auto simp: row_of_display_def find_Some_iff split: option.split)

lemma default_rows:
  "length assign_mask_default_3588 = 4"
  "i < 4 \<Longrightarrow> drm_type_mask (assign_mask_default_3588 ! i) \<noteq> 0"
  "i < 4 \<Longrightarrow> display_type (assign_mask_default_3588 ! i) = -1 \<and> \<not> have_assigin (assign_mask_default_3588 ! i)"
proof -
  show "length assign_mask_default_3588 = 4" by (simp add: assign_mask_default_3588_def)
  have "i < 4 \<Longrightarrow> i \<in> {0, 1, 2, 3}" by auto
  then show "i < 4 \<Longrightarrow> drm_type_mask (assign_mask_default_3588 ! i) \<noteq> 0"
    "i < 4 \<Longrightarrow> display_type (assign_mask_default_3588 ! i) = -1 \<and> \<not> have_assigin (assign_mask_default_3588 ! i)"
    by (auto simp: assign_mask_default_3588_def PLANE_RK3588_ALL_CLUSTER_OF_def PLANE_RK3588_ALL_ESMART_OF_def)
qed

lemma choose_row_held:
  assumes d: "d \<notin> set ds" "d \<noteq> -1"
  shows "choose_row d (rows_held ds) =
     (if length ds < 4 then drm_type_mask (assign_mask_default_3588 ! length ds) else 0, rows_held (ds @ [d]))"
proof -
  let ?A = assign_mask_default_3588
  let ?h = "map2 (\<lambda>d r. r\<lparr> display_type := d, have_assigin := True \<rparr>) (take 4 ds) ?A"
  have "display_type r \<noteq> d" if r: "r \<in> set (rows_held ds)" for r
  proof -
    consider "r \<in> set ?h" | "r \<in> set (drop (length ds) ?A)"
      using r unfolding rows_held_def set_append by blast
    then show ?thesis
    proof cases
      case 1
      then show ?thesis using d(1) by (auto dest!: set_zip_leftD in_set_takeD)
    next
      case 2
      then have "r \<in> set ?A" by (rule in_set_dropD)
      then show ?thesis using d(2) default_rows(1,3) by (auto simp: in_set_conv_nth)
    qed
  qed
  then have "row_of_display d (rows_held ds) = 0" by (intro row_of_stranger) simp
  moreover have "take_row d (rows_held ds) =
      (fst (take_row d (drop (length ds) ?A)), ?h @ snd (take_row d (drop (length ds) ?A)))"
    unfolding rows_held_def by (rule take_row_skip) auto
  moreover have "take_row d (drop (length ds) ?A) =
      (if length ds < 4
       then (drm_type_mask (?A ! length ds),
             (?A ! length ds)\<lparr> display_type := d, have_assigin := True \<rparr> # drop (Suc (length ds)) ?A)
       else (0, []))"
  proof (cases "length ds < 4")
    case True
    then have "drop (length ds) ?A = ?A ! length ds # drop (Suc (length ds)) ?A"
      using default_rows(1) by (simp add: Cons_nth_drop_Suc)
    then show ?thesis using True default_rows(3) [OF True] by simp
  qed (simp add: default_rows(1))
  moreover have "rows_held (ds @ [d]) =
      (if length ds < 4
       then ?h @ (?A ! length ds)\<lparr> display_type := d, have_assigin := True \<rparr> # drop (Suc (length ds)) ?A
       else ?h)"
  proof (cases "length ds < 4")
    case True
    have "zip ds (take (length ds) ?A @ drop (length ds) ?A) = zip ds (take (length ds) ?A)"
      using True default_rows(1) by (subst zip_append2) simp
    moreover have "zip (ds @ [d]) ?A = zip ds (take (length ds) ?A) @ zip [d] (drop (length ds) ?A)"
      by (rule zip_append1)
    moreover have "zip [d] (drop (length ds) ?A) = [(d, ?A ! length ds)]"
      using True default_rows(1) by (simp add: Cons_nth_drop_Suc [symmetric])
    ultimately have "zip (ds @ [d]) ?A = zip ds ?A @ [(d, ?A ! length ds)]" by simp
    then show ?thesis using True by (simp add: rows_held_def)
  next
    case False
    then show ?thesis by (simp add: rows_held_def default_rows(1))
  qed
  ultimately show ?thesis by (simp add: choose_row_def Let_def)
qed

lemma requests_held:
  "distinct ds \<Longrightarrow> -1 \<notin> set ds \<Longrightarrow>
   fold (\<lambda>d rows. snd (choose_row d rows)) ds assign_mask_default_3588 = rows_held ds"
  by (induction ds rule: rev_induct)
     (simp add: rows_held_def, simp add: choose_row_held)

lemma held_again:
  assumes "distinct ds" "-1 \<notin> set ds" "i < length ds" and rows: "rows = rows_held ds"
  shows "choose_row (ds ! i) rows =
     (if i < 4 then PLANE_RK3588_ALL_CLUSTER_OF i OR PLANE_RK3588_ALL_ESMART_OF i else 0, rows)"
proof -
  let ?A = assign_mask_default_3588
  let ?f = "\<lambda>d r. r\<lparr> display_type := d, have_assigin := True \<rparr>"
  show ?thesis
  proof (cases "i < 4")
    case True
    have len: "length (map2 ?f (take 4 ds) ?A) = min 4 (length ds)" using default_rows(1) by simp
    have at: "rows ! j = ?f (ds ! j) (?A ! j)" if "j < 4" "j < length ds" for j
      using that default_rows(1) len by (simp add: rows rows_held_def nth_append)
    have "length rows = 4"
      using default_rows(1) by (simp add: rows rows_held_def)
    then have "find (\<lambda>r. ds ! i = display_type r) rows = Some (rows ! i)"
      using True assms(1,3) at by (auto simp: find_Some_iff nth_eq_iff_index_eq intro!: exI [of _ i])
    then have "row_of_display (ds ! i) rows = drm_type_mask (?A ! i)"
      using at [OF True assms(3)] by (simp add: row_of_display_def)
    moreover have "drm_type_mask (?A ! i) = PLANE_RK3588_ALL_CLUSTER_OF i OR PLANE_RK3588_ALL_ESMART_OF i"
      using True by (auto simp: assign_mask_default_3588_def nth_Cons' less_Suc_eq numeral_eq_Suc)
    ultimately show ?thesis using True default_rows(2) [OF True] by (simp add: choose_row_def Let_def)
  next
    case False
    have "ds ! i \<notin> set (take 4 ds)"
      using False assms(1,3) by (auto simp: in_set_conv_nth nth_eq_iff_index_eq)
    then have "\<forall>r \<in> set rows. display_type r \<noteq> ds ! i"
      using False assms(3) default_rows(1) by (auto simp: rows rows_held_def dest!: set_zip_leftD)
    moreover have "\<forall>r \<in> set rows. have_assigin r"
      using False assms(3) default_rows(1) by (auto simp: rows rows_held_def)
    then have "take_row (ds ! i) rows = (0, rows)" using take_row_skip [of rows "ds ! i" "[]"] by simp
    ultimately show ?thesis using False by (simp add: choose_row_def Let_def row_of_stranger)
  qed
qed

text \<open>C40: However many different displays, none numbered \<open>-1\<close>, ask the fresh table for planes, one after the other, the
  first four are given the rows of the table in order: the answer to request \<open>i\<close> is the mask of the
  windows of cluster \<open>i\<close> and smart channel \<open>i\<close>.  They hold them: after all requests each of them is
  given the same mask when it asks again, without changing the table.  A fifth and any later display
  is given no window, at once and whenever it asks again, since no row ever becomes free.\<close>

theorem table_hands_out:
  assumes "distinct ds" "-1 \<notin> set ds" "i < length ds"
  defines "asked \<equiv> \<lambda>ds. fold (\<lambda>d rows. snd (choose_row d rows)) ds assign_mask_default_3588"
    and "row_mask \<equiv> if i < 4 then PLANE_RK3588_ALL_CLUSTER_OF i OR PLANE_RK3588_ALL_ESMART_OF i else 0"
  shows "choose_row (ds ! i) (asked (take i ds)) = (row_mask, asked (take (Suc i) ds)) \<and>
     choose_row (ds ! i) (asked ds) = (row_mask, asked ds)"
proof -
  have asked: "asked (take j ds) = rows_held (take j ds)" for j
    using assms(1,2) by (auto simp: asked_def intro!: requests_held dest: in_set_takeD)
  have new: "ds ! i \<notin> set (take i ds)" "ds ! i \<noteq> -1"
    using assms(1-3) by (auto simp: in_set_conv_nth nth_eq_iff_index_eq)
  have len: "length (take i ds) = i" using assms(3) by simp
  have row: "(if i < 4 then drm_type_mask (assign_mask_default_3588 ! i) else 0) = row_mask"
    by (auto simp: row_mask_def assign_mask_default_3588_def nth_Cons' less_Suc_eq numeral_eq_Suc)
  have "choose_row (ds ! i) (asked (take i ds)) = (row_mask, asked (take (Suc i) ds))"
    using choose_row_held [OF new] asked [of i] asked [of "Suc i"]
    unfolding take_Suc_conv_app_nth [OF assms(3)] len row by simp
  then show ?thesis using held_again [OF assms(1-3)] asked [of "length ds"] by (simp add: row_mask_def)
qed

theorem table_hands_out_witness:
  "\<exists>rows. choose_row 7 rows = (0, rows) \<and> choose_row 3 rows = (0x0f03, rows)"
  using table_hands_out [of "[3, 4, 5, 6, 7]" 4] table_hands_out [of "[3, 4, 5, 6, 7]" 0]
  by (auto simp: PLANE_RK3588_ALL_CLUSTER_OF_def PLANE_RK3588_ALL_ESMART_OF_def intro!: exI)

section \<open>Losing a CRTC unawares\<close>

text \<open>When the primary of a mirror is not connected, its CRTC counts as idle: a display that binds
  next takes it, and the primary is released.  The external display of the mirror is not: it stays
  routed to the CRTC, still as a mirror of the released primary, while the CRTC now carries the
  number of the new display.\<close>

theorem mirror_torn:
  assumes W: "obliging W" and n: "mKernelCrtcId (conn s n) \<le> 0"
    and p: "GetConnectorForDisplay T (k_display (crtc s k)) s = Some p" "0 \<le> k_display (crtc s k)"
      "n_state (conn s p) \<noteq> DRM_MODE_CONNECTED"
    and x: "routed s x = Some k" "mirror_mode (conn s x)" "x \<noteq> p" "x \<noteq> n" and pn: "p \<noteq> n"
    and e: "n_encoder (conn s x) \<noteq> Some e" and K: "EINVAL K \<noteq> 0"
  shows "\<exists>t. take_idle K T W d n m False e k s = Some (True, t) \<and>
     routed t n = Some k \<and> k_display (crtc t k) = n_display (conn s n) \<and> routed t p = None \<and>
     routed t x = Some k \<and> mirror_mode (conn t x) \<and>
     get_connector_mirror_primary_id (conn t x) = mirror_primary_id (conn s x)"
proof -
  have ck: "CheckKernelCrtcNeedRelease K T W d n k s = Some (0, s)"
    using n by (simp add: CheckKernelCrtcNeedRelease_def)
  obtain u where u: "ReleaseConnectorAndCrtc K T W (k_display (crtc s k)) (Some p) k s = Some (0, u)"
      "same_objects (unroute p k s) u"
    by (rule ReleaseConnectorAndCrtc_obliging [OF W])
  have "take_idle K T W d n m False e k s = Some (True, attach n e k u)"
    using p u(1) ck K
    by (simp add: take_idle_def Let_def CheckConnectorState_def try_take_def lacks_capability_def)
  moreover have "conn u = conn (unroute p k s)" "enc u = enc s" "crtc u = crtc (unroute p k s)"
    using u(2) by (simp_all add: same_objects_def unroute_def upd_conn_def upd_crtc_def)
  ultimately show ?thesis
    using x e pn
    by (auto simp: attach_def unroute_def upd_conn_def upd_crtc_def encoder_set_crtc_def set_encoder_def
        crtc_set_display_def reset_kernel_crtc_id_def routed_def get_connector_mirror_primary_id_def
        split: option.splits)
qed

text \<open>Display 1 mirrors display 0, which is unplugged; display 2 is about to be bound.\<close>

definition s_mirror :: pipe where
  "s_mirror = s_dark
     \<lparr> crtc := (crtc s_dark)(0 := \<lparr> k_display = 0, sync_kernel_mode = False \<rparr>),
       enc := (\<lambda>e. \<lparr> e_crtc = Some 0, e_display = 0 \<rparr>),
       conn := (conn s_dark)
         (0 := (conn_dark 0)\<lparr> n_state := DRM_MODE_DISCONNECTED, n_encoder := Some 0, mirror_mode := True,
                 mirror_primary := True, mirror_primary_id := 0, connected_mirror_display_id_set := [1] \<rparr>,
          1 := (conn_dark 1)\<lparr> n_encoder := Some 1, mirror_mode := True, mirror_primary_id := 0 \<rparr>) \<rparr>"

lemma s_mirror_facts:
  "conn s_mirror 2 = conn_dark 2" "k_display (crtc s_mirror 0) = 0" "routed s_mirror 1 = Some 0"
  "conn s_mirror 0 = (conn_dark 0)\<lparr> n_state := DRM_MODE_DISCONNECTED, n_encoder := Some 0, mirror_mode := True,
                 mirror_primary := True, mirror_primary_id := 0, connected_mirror_display_id_set := [1] \<rparr>"
  "conn s_mirror 1 = (conn_dark 1)\<lparr> n_encoder := Some 1, mirror_mode := True, mirror_primary_id := 0 \<rparr>"
  by (simp_all add: s_mirror_def s_dark_def routed_def)

theorem mirror_torn_witness:
  "\<exists>t. take_idle sdk0 T2 W_yes 2 2 mode_1080 False 2 0 s_mirror = Some (True, t) \<and>
     routed t 2 = Some 0 \<and> k_display (crtc t 0) = 2 \<and> routed t 0 = None \<and> routed t 1 = Some 0 \<and>
     mirror_mode (conn t 1) \<and> get_connector_mirror_primary_id (conn t 1) = 0"
proof -
  have "GetConnectorForDisplay T2 0 s_mirror = Some 0"
    by (simp add: GetConnectorForDisplay_def T2_def s_mirror_facts conn_dark_def)
  moreover have "EINVAL sdk0 \<noteq> 0" by (simp add: sdk0_simps)
  ultimately show ?thesis
    using mirror_torn [OF W_yes_obliging, of s_mirror 2 T2 0 0 1 2 sdk0 2 mode_1080]
    by (simp add: s_mirror_facts conn_dark_def del: One_nat_def)
qed

text \<open>
  The CRTC the boot loader lit for a connector is released when the connector goes to another
  one, whoever owns it by then: that display stays routed to a CRTC that has lost its number.
\<close>

lemma kernel_crtc_stolen:
  assumes W: "obliging W" and n: "0 < mKernelCrtcId (conn s n)" "\<not> mirror_mode (conn s n)"
    and k: "word_of_int (mKernelCrtcId (conn s n)) \<noteq> ci_id (ci T k)"
    and c: "find (\<lambda>c. ci_id (ci T c) = word_of_int (mKernelCrtcId (conn s n))) (dev_crtcs T) = Some c"
    and v: "routed s v = Some c" "v \<noteq> n"
  shows "\<exists>t. CheckKernelCrtcNeedRelease K T W d n k s = Some (0, t) \<and> k_display (crtc t c) = -1 \<and>
     routed t v = Some c"
proof -
  obtain t where t: "ReleaseDpyResByNormal K T W d n c s = Some (0, t)" "same_objects (unroute n c s) t"
    by (rule ReleaseDpyResByNormal_obliging [OF W])
  then have "crtc t c = (crtc s c)\<lparr>k_display := -1\<rparr>" "routed t v = routed s v"
    using v(2) by (auto simp: same_objects_def unroute_def upd_conn_def upd_crtc_def crtc_set_display_def
        routed_def split: option.splits)
  then show ?thesis
    using t(1) n k c v(1) by (simp add: CheckKernelCrtcNeedRelease_def)
qed

end
