(* ===== verification/Hwc_Layer.thy ===== *)
theory Hwc_Layer
  imports Layer_Info
begin

text \<open>
  \<open>DrmHwcTwo::HwcLayer\<close> (\<open>include/drmhwctwo.h\<close>, \<open>drmhwctwo.cpp\<close>): what SurfaceFlinger sets on a
  layer, the cache of buffer descriptions behind it, and the \<open>DrmHwcLayer\<close> the policy gets to see.

  The descriptions (\<open>LayerInfoCache\<close>) are shared by the cache of the layer and the layers handed to
  the policy; they live in a store, and a \<open>shared_ptr\<close> is a number.  What the vendor allocator says
  of a buffer handle is the record \<open>gralloc\<close>; \<open>0\<close> is the \<open>NULL\<close> handle.  A stream time
  (\<open>systemTime\<close>) is an argument.
\<close>

section \<open>The allocator\<close>

record handle_info =
  gi_buffer_id :: u64
  gi_fd :: int
  gi_width :: int
  gi_height :: int
  gi_stride :: int
  gi_size :: int
  gi_height_stride :: int
  gi_byte_stride :: int
  gi_format :: int
  gi_usage :: u64
  gi_fourcc :: u32
  gi_modifier :: u64
  gi_planes :: "u32 list"
  gi_name :: string
  gi_pq_offset :: int
  gi_hdr_offset :: int

record sideband_info =
  vt_tunnel_id :: int
  vt_crop :: hwc_rect
  vt_format :: int
  vt_usage :: u64
  vt_data_space :: u32
  vt_compress_mode :: int

text \<open>\<open>gr_sideband\<close> reads the data of a stream handle as \<open>vt_sideband_data_t\<close>.\<close>

record gralloc =
  gr_info :: "nat \<Rightarrow> handle_info"
  gr_import :: "nat \<Rightarrow> nat option"
  gr_dup :: "int \<Rightarrow> int"
  gr_fd_valid :: "int \<Rightarrow> bool"
  gr_fourcc_from_hal :: "int \<Rightarrow> u32"
  gr_sideband :: "nat \<Rightarrow> sideband_info"

section \<open>Descriptions of buffers\<close>

record LayerInfoCache =
  lc_fd :: int
  lc_buffer :: nat
  lc_format :: int
  lc_width :: int
  lc_height :: int
  lc_stride :: int
  lc_height_stride :: int
  lc_size :: int
  lc_byte_stride :: int
  lc_planes :: "u32 list"
  lc_usage :: u64
  lc_fourcc :: u32
  lc_modifier :: u64
  lc_buffer_id :: u64
  lc_name :: string
  lc_metadata :: bool
  lc_fb_cached :: bool

record caches =
  next_info :: nat
  info_at :: "nat \<Rightarrow> LayerInfoCache"

definition NeedCacheBufferHandle :: "gralloc \<Rightarrow> nat \<Rightarrow> bool" where
  "NeedCacheBufferHandle G h \<longleftrightarrow> 0 < gi_pq_offset (gr_info G h) \<or> 0 < gi_hdr_offset (gr_info G h)"

text \<open>The handle of its own a description with metadata keeps; \<open>0\<close> when there is none.\<close>

definition CacheBufferHandle :: "gralloc \<Rightarrow> nat \<Rightarrow> nat" where
  "CacheBufferHandle G h =
     (if NeedCacheBufferHandle G h then (case gr_import G h of None \<Rightarrow> 0 | Some h' \<Rightarrow> h') else 0)"

definition used_handle :: "gralloc \<Rightarrow> nat \<Rightarrow> nat" where
  "used_handle G h =
     (if NeedCacheBufferHandle G h then (case gr_import G h of None \<Rightarrow> h | Some h' \<Rightarrow> h') else h)"

text \<open>The attributes are read from the handle that is used from then on.\<close>

definition describe :: "gralloc \<Rightarrow> nat \<Rightarrow> u64 \<Rightarrow> LayerInfoCache" where
  "describe G h buffer_id =
     (let i = gr_info G (used_handle G h) in
      \<lparr> lc_fd = gr_dup G (gi_fd i), lc_buffer = CacheBufferHandle G h, lc_format = gi_format i,
        lc_width = gi_width i, lc_height = gi_height i, lc_stride = gi_stride i,
        lc_height_stride = gi_height_stride i, lc_size = gi_size i, lc_byte_stride = gi_byte_stride i,
        lc_planes = gi_planes i, lc_usage = gi_usage i, lc_fourcc = gi_fourcc i,
        lc_modifier = gi_modifier i, lc_buffer_id = buffer_id, lc_name = gi_name i,
        lc_metadata = NeedCacheBufferHandle G h, lc_fb_cached = True \<rparr>)"

definition new_info :: "LayerInfoCache \<Rightarrow> caches \<Rightarrow> nat \<times> caches" where
  "new_info i c = (next_info c, c\<lparr> next_info := Suc (next_info c), info_at := (info_at c)(next_info c := i) \<rparr>)"

section \<open>Layers\<close>

record hwc2_layer_state =
  ls_buffer :: nat
  ls_sideband :: nat
  sf_type :: Composition
  validated_type :: Composition
  hwc3_sf_type :: int
  ls_alpha :: rat
  ls_blending :: BlendMode
  ls_transform :: sf_transform
  ls_dataspace :: u32
  ls_display_frame :: hwc_rect
  ls_source_crop :: hwc_frect
  ls_cursor :: "int \<times> int"
  ls_color :: "nat \<times> nat \<times> nat \<times> nat"
  ls_z_order :: u32

record hwc_layer =
  hl_id :: u32
  hl_buffer :: nat
  bSideband2 :: bool
  bSideband2Valid :: bool
  sidebandStreamHandle :: nat
  mSidebandInfo :: sideband_info
  mCurrentState :: hwc2_layer_state
  mDrawingState :: hwc2_layer_state
  hl_acquire_fence :: int
  release_fences :: "int \<times> int"
  bHasCache :: bool
  bUseSlotCache :: bool
  uCacheSlot :: int
  bufferInfoMap :: "(u64 \<times> nat) list"
  layer_name :: string
  is_afbc :: bool
  hl_info :: "nat option"
  uFrameCnt :: nat
  uLastFrameCnt :: nat
  lastTimeRecod :: int
  last_buffer_id_timestamp :: int
  hl_last_buffer_id :: u64
  bUpdate :: bool
  mFps :: "rat option"
  mSvepFps :: "rat option"

text \<open>
  The constructor; \<open>mem\<close> holds what the members without an initial value find in memory.
\<close>

definition new_layer_state :: "hwc2_layer_state \<Rightarrow> hwc2_layer_state" where
  "new_layer_state mem =
     mem\<lparr> ls_buffer := 0, ls_sideband := 0, sf_type := Invalid, validated_type := Invalid,
          hwc3_sf_type := 0, ls_alpha := 1, ls_blending := BlendNone, ls_transform := T_None,
          ls_dataspace := 0, ls_z_order := 0 \<rparr>"

definition zero_sideband :: sideband_info where
  "zero_sideband =
     \<lparr> vt_tunnel_id = 0, vt_crop = \<lparr> left = 0, top = 0, right = 0, bottom = 0 \<rparr>, vt_format = 0,
       vt_usage = 0, vt_data_space = 0, vt_compress_mode = 0 \<rparr>"

definition new_layer :: "hwc_layer \<Rightarrow> u32 \<Rightarrow> hwc_layer" where
  "new_layer mem layer_id =
     mem\<lparr> hl_id := layer_id, hl_buffer := 0, bSideband2 := False, bSideband2Valid := False,
          sidebandStreamHandle := 0, mSidebandInfo := zero_sideband,
          mCurrentState := new_layer_state (mCurrentState mem),
          mDrawingState := new_layer_state (mDrawingState mem),
          hl_acquire_fence := -1, release_fences := (-1, -1), bHasCache := False,
          bUseSlotCache := False, uCacheSlot := -1, bufferInfoMap := [], layer_name := ''UnSet'',
          hl_info := None, uFrameCnt := 0, uLastFrameCnt := 0, lastTimeRecod := 0,
          hl_last_buffer_id := 0, mFps := Some 0, mSvepFps := Some 30 \<rparr>"

definition upd_cur :: "(hwc2_layer_state \<Rightarrow> hwc2_layer_state) \<Rightarrow> hwc_layer \<Rightarrow> hwc_layer" where
  "upd_cur f l = l\<lparr> mCurrentState := f (mCurrentState l) \<rparr>"

text \<open>\<open>operator=\<close> of the state copies every member but \<open>hwc3_sf_type_\<close>.\<close>

definition assign_state :: "hwc2_layer_state \<Rightarrow> hwc2_layer_state \<Rightarrow> hwc2_layer_state" where
  "assign_state d s = s\<lparr> hwc3_sf_type := hwc3_sf_type d \<rparr>"

definition accept_type_change :: "hwc_layer \<Rightarrow> hwc_layer" where
  "accept_type_change l =
     (let c = (mCurrentState l)\<lparr> sf_type := validated_type (mCurrentState l) \<rparr>
      in l\<lparr> mCurrentState := c, mDrawingState := assign_state (mDrawingState l) c \<rparr>)"

definition set_validated_type :: "Composition \<Rightarrow> hwc_layer \<Rightarrow> hwc_layer" where
  "set_validated_type t = upd_cur (\<lambda>c. c\<lparr> validated_type := t \<rparr>)"

definition type_changed :: "hwc_layer \<Rightarrow> bool" where
  "type_changed l \<longleftrightarrow>
     sf_type (mCurrentState l) \<noteq> validated_type (mCurrentState l) \<or>
     validated_type (mDrawingState l) \<noteq> validated_type (mCurrentState l)"

text \<open>The fences of the last two frames, oldest first.\<close>

definition set_release_fence :: "int \<Rightarrow> hwc_layer \<Rightarrow> hwc_layer" where
  "set_release_fence rf l = l\<lparr> release_fences := (snd (release_fences l), rf) \<rparr>"

definition release_fence :: "hwc_layer \<Rightarrow> int" where
  "release_fence l = fst (release_fences l)"

definition back_release_fence :: "hwc_layer \<Rightarrow> int" where
  "back_release_fence l = snd (release_fences l)"

text \<open>\<open>clear\<close>; freeing the imported stream is not modelled.\<close>

definition clear_layer :: "hwc_layer \<Rightarrow> hwc_layer" where
  "clear_layer l =
     (let l1 = l\<lparr> hl_buffer := 0 \<rparr>
      in if \<not> bSideband2 l \<and> sidebandStreamHandle l \<noteq> 0 then l1\<lparr> sidebandStreamHandle := 0 \<rparr> else l1)"

section \<open>Frame rate\<close>

text \<open>
  Frames per second since the last record, \<open>None\<close> where the quotient is not a number.  300 ms and
  one second are in nanoseconds.
\<close>

definition fps_of :: "nat \<Rightarrow> int \<Rightarrow> rat option" where
  "fps_of frames elapsed =
     (if elapsed = 0 then None else Some (of_nat frames * 1000000000 / of_int elapsed))"

definition MAX_NUM_FRAME_TIMESTAMP_CNT :: nat where
  "MAX_NUM_FRAME_TIMESTAMP_CNT = 20"

definition calculateFPS :: "int \<Rightarrow> u64 \<Rightarrow> hwc_layer \<Rightarrow> hwc_layer" where
  "calculateFPS current_time buffer_id l =
     (if hl_last_buffer_id l = buffer_id then l
      else
       (let l1 = l\<lparr> uFrameCnt := Suc (uFrameCnt l), bUpdate := True, hl_last_buffer_id := buffer_id \<rparr>;
            frames = uFrameCnt l1 - uLastFrameCnt l1;
            fps = fps_of frames (current_time - lastTimeRecod l1);
            l2 = (if 300000000 < current_time - last_buffer_id_timestamp l1
                  then l1\<lparr> mFps := fps, uLastFrameCnt := uFrameCnt l1, lastTimeRecod := current_time \<rparr>
                  else if MAX_NUM_FRAME_TIMESTAMP_CNT < frames
                  then l1\<lparr> mFps := fps, mSvepFps := fps, uLastFrameCnt := uFrameCnt l1,
                           lastTimeRecod := current_time \<rparr>
                  else l1)
        in l2\<lparr> last_buffer_id_timestamp := current_time \<rparr>))"

section \<open>The cache of descriptions\<close>

definition gralloc_is_yuv_format :: "sdk \<Rightarrow> formats \<Rightarrow> int \<Rightarrow> u32 \<Rightarrow> bool" where
  "gralloc_is_yuv_format K F format fourcc_format \<longleftrightarrow>
     fourcc_format \<in> {DRM_FORMAT_NV12 F, DRM_FORMAT_NV12_10 F, DRM_FORMAT_NV21 F,
        DRM_FORMAT_NV16 F, DRM_FORMAT_NV61 F, DRM_FORMAT_YUV420 F, DRM_FORMAT_YVU420 F,
        DRM_FORMAT_YUV422 F, DRM_FORMAT_YVU422 F, DRM_FORMAT_YUV444 F, DRM_FORMAT_YVU444 F,
        DRM_FORMAT_UYVY F, DRM_FORMAT_VYUY F, DRM_FORMAT_YUYV F, DRM_FORMAT_YVYU F,
        DRM_FORMAT_YUV420_8BIT F, DRM_FORMAT_YUV420_10BIT F}
     \<or> format \<in> {HAL_PIXEL_FORMAT_YCrCb_NV12 F, HAL_PIXEL_FORMAT_YCrCb_NV12_10 K,
        HAL_PIXEL_FORMAT_YCrCb_NV12_VIDEO F, HAL_PIXEL_FORMAT_YCbCr_422_SP_10 F,
        HAL_PIXEL_FORMAT_YCrCb_420_SP_10 F, HAL_PIXEL_FORMAT_YCBCR_422_I F,
        HAL_PIXEL_FORMAT_YUV420_8BIT_I F, HAL_PIXEL_FORMAT_YUV420_10BIT_I F,
        HAL_PIXEL_FORMAT_Y210 F}"

text \<open>The map of descriptions, without duplicate keys.\<close>

definition cache_put :: "u64 \<Rightarrow> nat \<Rightarrow> (u64 \<times> nat) list \<Rightarrow> (u64 \<times> nat) list" where
  "cache_put k i m = (k, i) # filter (\<lambda>e. fst e \<noteq> k) m"

definition set_buffer :: "nat \<Rightarrow> hwc_layer \<Rightarrow> hwc_layer" where
  "set_buffer h l = upd_cur (\<lambda>c. c\<lparr> ls_buffer := h \<rparr>) (l\<lparr> hl_buffer := h \<rparr>)"

text \<open>A description found in the cache: its own handle is preferred.\<close>

definition hit_info :: "nat \<Rightarrow> caches \<Rightarrow> hwc_layer \<Rightarrow> hwc_layer" where
  "hit_info i c l =
     (let l1 = l\<lparr> hl_info := Some i \<rparr>
      in if lc_buffer (info_at c i) \<noteq> 0 then set_buffer (lc_buffer (info_at c i)) l1 else l1)"

text \<open>A new description under a key; the layer uses its handle and takes its name.\<close>

definition miss_info ::
  "gralloc \<Rightarrow> nat \<Rightarrow> u64 \<Rightarrow> (nat \<Rightarrow> hwc_layer \<Rightarrow> hwc_layer) \<Rightarrow> caches \<times> hwc_layer \<Rightarrow> caches \<times> hwc_layer"
where
  "miss_info G h buffer_id keep cl =
     (case cl of (c, l) \<Rightarrow>
        (case new_info (describe G h buffer_id) c of (i, c') \<Rightarrow>
           (c', (set_buffer (used_handle G h) (keep i l))
                  \<lparr> hl_info := Some i, layer_name := lc_name (info_at c' i) \<rparr>)))"

definition CacheBufferInfoBySlot ::
  "gralloc \<Rightarrow> int \<Rightarrow> nat \<Rightarrow> bool \<Rightarrow> int \<Rightarrow> caches \<times> hwc_layer \<Rightarrow> caches \<times> hwc_layer" where
  "CacheBufferInfoBySlot G t h use_cache slot cl =
     (case cl of (c, l0) \<Rightarrow>
       (let l = set_buffer h l0; key = (word_of_int slot :: u64);
            found = (if use_cache then map_of (bufferInfoMap l) key else None);
            (c', l') = (case found of
                Some i \<Rightarrow> (c, hit_info i c l)
              | None \<Rightarrow> miss_info G h (gi_buffer_id (gr_info G (used_handle G h)))
                          (\<lambda>i l. l\<lparr> bufferInfoMap := cache_put key i (bufferInfoMap l) \<rparr>) (c, l));
            i = (case hl_info l' of None \<Rightarrow> 0 | Some i \<Rightarrow> i)
        in (c', calculateFPS t (lc_buffer_id (info_at c' i)) l')))"

definition MAX_NUM_BUFFER_SLOTS :: nat where
  "MAX_NUM_BUFFER_SLOTS = 32"

text \<open>
  The cache by buffer id empties itself: once a cached buffer has been seen again, or when it has
  grown beyond its limit, the next new buffer starts it afresh.
\<close>

definition trim_cache :: "hwc_layer \<Rightarrow> hwc_layer" where
  "trim_cache l =
     (let l1 = (if bHasCache l then l\<lparr> bufferInfoMap := [], bHasCache := False \<rparr> else l)
      in if MAX_NUM_BUFFER_SLOTS < length (bufferInfoMap l1)
         then l1\<lparr> bufferInfoMap := [] \<rparr> else l1)"

definition CacheBufferInfo ::
  "gralloc \<Rightarrow> int \<Rightarrow> nat \<Rightarrow> caches \<times> hwc_layer \<Rightarrow> caches \<times> hwc_layer" where
  "CacheBufferInfo G t h cl =
     (case cl of (c, l0) \<Rightarrow>
       (let l = set_buffer h l0; key = gi_buffer_id (gr_info G h);
            (c', l') = (case map_of (bufferInfoMap l) key of
                Some i \<Rightarrow> (c, hit_info i c (l\<lparr> bHasCache := True \<rparr>))
              | None \<Rightarrow> miss_info G h key
                          (\<lambda>i l. l\<lparr> bufferInfoMap := cache_put key i (bufferInfoMap l) \<rparr>) (c, trim_cache l))
        in (c', calculateFPS t key l')))"

text \<open>Without a cache only the count of frames is kept, not the rate.\<close>

definition count_frame :: "u64 \<Rightarrow> hwc_layer \<Rightarrow> hwc_layer" where
  "count_frame buffer_id l =
     (if hl_last_buffer_id l = buffer_id then l
      else l\<lparr> uFrameCnt := Suc (uFrameCnt l), hl_last_buffer_id := buffer_id \<rparr>)"

definition NoCacheBufferInfo ::
  "gralloc \<Rightarrow> nat \<Rightarrow> caches \<times> hwc_layer \<Rightarrow> caches \<times> hwc_layer" where
  "NoCacheBufferInfo G h cl =
     (case cl of (c, l0) \<Rightarrow>
       (let l = set_buffer h (l0\<lparr> bufferInfoMap := [], bHasCache := False \<rparr>);
            key = gi_buffer_id (gr_info G h);
            (i, c') = new_info ((describe G h key)\<lparr> lc_planes := [] \<rparr>) c
        in (c', count_frame key ((set_buffer (used_handle G h) l)
                  \<lparr> hl_info := Some i, layer_name := lc_name (info_at c' i) \<rparr>))))"

definition set_output_buffer ::
  "gralloc \<Rightarrow> nat \<Rightarrow> caches \<times> hwc_layer \<Rightarrow> caches \<times> hwc_layer" where
  "set_output_buffer G h cl =
     (case cl of (c, l0) \<Rightarrow>
       (let key = gi_buffer_id (gr_info G h); g = gr_info G h;
            (i, c') = new_info
              \<lparr> lc_fd = gr_dup G (gi_fd g), lc_buffer = 0, lc_format = gi_format g, lc_width = gi_width g,
                lc_height = gi_height g, lc_stride = gi_stride g, lc_height_stride = gi_height_stride g,
                lc_size = gi_size g, lc_byte_stride = gi_byte_stride g, lc_planes = [],
                lc_usage = gi_usage g, lc_fourcc = gi_fourcc g, lc_modifier = gi_modifier g,
                lc_buffer_id = key, lc_name = gi_name g, lc_metadata = False, lc_fb_cached = False \<rparr> c
        in (c', count_frame key ((set_buffer h l0)
                  \<lparr> hl_info := Some i, layer_name := lc_name (info_at c' i) \<rparr>))))"

section \<open>Setters\<close>

text \<open>\<open>new AcquireFence(fd)\<close>: a descriptor the kernel does not know is no fence.\<close>

definition acquire_fence_of :: "gralloc \<Rightarrow> int \<Rightarrow> int" where
  "acquire_fence_of G fd = (if gr_fd_valid G fd then fd else -1)"

datatype hwc2_error =
  E_None | BadConfig | BadDisplay | BadLayer | BadParameter | HasChanges | NoResources | Unsupported

definition SetLayerBlendMode :: "BlendMode \<Rightarrow> hwc_layer \<Rightarrow> hwc2_error \<times> hwc_layer" where
  "SetLayerBlendMode b l = (E_None, upd_cur (\<lambda>c. c\<lparr> ls_blending := b \<rparr>) l)"

definition SetLayerColor :: "nat \<times> nat \<times> nat \<times> nat \<Rightarrow> hwc_layer \<Rightarrow> hwc2_error \<times> hwc_layer" where
  "SetLayerColor x l = (E_None, upd_cur (\<lambda>c. c\<lparr> ls_color := x \<rparr>) l)"

definition HWC3_COMPOSITION_DISPLAY_DECORATION :: int where
  "HWC3_COMPOSITION_DISPLAY_DECORATION = 6"

text \<open>The values of the enumeration; one outside it counts as \<open>Invalid\<close>.\<close>

definition composition_of :: "int \<Rightarrow> Composition" where
  "composition_of t =
     (if t = 1 then Client else if t = 2 then Device else if t = 3 then SolidColor
      else if t = 4 then Cursor else if t = 5 then Sideband else Invalid)"

text \<open>\<open>sdk34\<close>: built for Android 14 or later.\<close>

definition SetLayerCompositionType :: "bool \<Rightarrow> int \<Rightarrow> hwc_layer \<Rightarrow> hwc2_error \<times> hwc_layer" where
  "SetLayerCompositionType sdk34 type l =
     (let l1 = (if sdk34 then upd_cur (\<lambda>c. c\<lparr> hwc3_sf_type := type \<rparr>) l else l)
      in if sdk34 \<and> type = HWC3_COMPOSITION_DISPLAY_DECORATION then (Unsupported, l1)
         else (E_None, upd_cur (\<lambda>c. c\<lparr> sf_type := composition_of type \<rparr>) l1))"

definition SetLayerDataspace :: "u32 \<Rightarrow> hwc_layer \<Rightarrow> hwc2_error \<times> hwc_layer" where
  "SetLayerDataspace d l = (E_None, upd_cur (\<lambda>c. c\<lparr> ls_dataspace := d \<rparr>) l)"

definition SetLayerDisplayFrame :: "hwc_rect \<Rightarrow> hwc_layer \<Rightarrow> hwc2_error \<times> hwc_layer" where
  "SetLayerDisplayFrame f l = (E_None, upd_cur (\<lambda>c. c\<lparr> ls_display_frame := f \<rparr>) l)"

definition SetLayerPlaneAlpha :: "rat \<Rightarrow> hwc_layer \<Rightarrow> hwc2_error \<times> hwc_layer" where
  "SetLayerPlaneAlpha a l = (E_None, upd_cur (\<lambda>c. c\<lparr> ls_alpha := a \<rparr>) l)"

definition SetLayerSourceCrop :: "hwc_frect \<Rightarrow> hwc_layer \<Rightarrow> hwc2_error \<times> hwc_layer" where
  "SetLayerSourceCrop f l = (E_None, upd_cur (\<lambda>c. c\<lparr> ls_source_crop := f \<rparr>) l)"

definition SetLayerTransform :: "sf_transform \<Rightarrow> hwc_layer \<Rightarrow> hwc2_error \<times> hwc_layer" where
  "SetLayerTransform x l = (E_None, upd_cur (\<lambda>c. c\<lparr> ls_transform := x \<rparr>) l)"

definition SetLayerZOrder :: "u32 \<Rightarrow> hwc_layer \<Rightarrow> hwc2_error \<times> hwc_layer" where
  "SetLayerZOrder z l = (E_None, upd_cur (\<lambda>c. c\<lparr> ls_z_order := z \<rparr>) l)"

definition SetCursorPosition :: "int \<Rightarrow> int \<Rightarrow> hwc_layer \<Rightarrow> hwc2_error \<times> hwc_layer" where
  "SetCursorPosition x y l = (E_None, upd_cur (\<lambda>c. c\<lparr> ls_cursor := (x, y) \<rparr>) l)"

text \<open>The slot and the flag hidden in a fence below \<open>-1\<close>.\<close>

definition RK_DECODING_CALCULATION :: "int \<Rightarrow> nat \<Rightarrow> int" where
  "RK_DECODING_CALCULATION value shift = drop_bit shift (- value) AND 0xff"

definition RK_BUFFER_SLOT_SHIFT :: nat where "RK_BUFFER_SLOT_SHIFT = 8"
definition RK_BUFFER_CACHE_SHIFT :: nat where "RK_BUFFER_CACHE_SHIFT = 16"
definition RK_BUFFER_USE_CACHE_FLAG :: int where "RK_BUFFER_USE_CACHE_FLAG = 1"

text \<open>
  A video above \<open>limit\<close> pixels is not cached.  The format is that of the new buffer, the size that
  of the buffer the layer had before.
\<close>

definition need_cache :: "sdk \<Rightarrow> formats \<Rightarrow> gralloc \<Rightarrow> int \<Rightarrow> nat \<Rightarrow> hwc_layer \<Rightarrow> bool" where
  "need_cache K F G limit h l =
     (let i = gr_info G h; old = gr_info G (hl_buffer l) in
      \<not> (0 < limit \<and> gralloc_is_yuv_format K F (gi_format i) (gi_fourcc i) \<and>
         limit < gi_width old * gi_height old))"

definition SetLayerBuffer ::
  "sdk \<Rightarrow> formats \<Rightarrow> gralloc \<Rightarrow> int \<Rightarrow> int \<Rightarrow> nat \<Rightarrow> int \<Rightarrow> caches \<times> hwc_layer \<Rightarrow> caches \<times> hwc_layer" where
  "SetLayerBuffer K F G limit t h fence cl =
     (case cl of (c, l) \<Rightarrow>
        if sf_type (mCurrentState l) = Sideband \<or> h = 0 then (c, l)
        else
         (let l1 = l\<lparr> bSideband2 := False, bSideband2Valid := False, sidebandStreamHandle := 0 \<rparr>
          in if fence < -1 then
               (c, l1\<lparr> bUseSlotCache :=
                        RK_DECODING_CALCULATION fence RK_BUFFER_CACHE_SHIFT = RK_BUFFER_USE_CACHE_FLAG,
                      uCacheSlot := RK_DECODING_CALCULATION fence RK_BUFFER_SLOT_SHIFT \<rparr>)
             else
              (let (c', l2) =
                 (if \<not> need_cache K F G limit h l1 then NoCacheBufferInfo G h (c, l1)
                  else if 0 \<le> uCacheSlot l1
                  then CacheBufferInfoBySlot G t h (bUseSlotCache l1) (uCacheSlot l1) (c, l1)
                  else CacheBufferInfo G t h (c, l1))
               in (c', l2\<lparr> hl_acquire_fence := acquire_fence_of G fence, bUseSlotCache := False, uCacheSlot := -1 \<rparr>))))"

text \<open>
  A stream handle of the older kind.  The layer keeps an imported copy; freeing the old one is not
  modelled.  The handle a failed import leaves behind is undefined: \<open>None\<close>.
\<close>

definition describe_stream :: "gralloc \<Rightarrow> nat \<Rightarrow> LayerInfoCache" where
  "describe_stream G h =
     (let i = gr_info G h in
      \<lparr> lc_fd = gr_dup G (gi_fd i), lc_buffer = 0, lc_format = gi_format i,
        lc_width = gi_width i, lc_height = gi_height i, lc_stride = gi_stride i,
        lc_height_stride = gi_height_stride i, lc_size = 0, lc_byte_stride = gi_byte_stride i,
        lc_planes = [], lc_usage = gi_usage i, lc_fourcc = gi_fourcc i,
        lc_modifier = gi_modifier i, lc_buffer_id = gi_buffer_id i, lc_name = gi_name i,
        lc_metadata = False, lc_fb_cached = False \<rparr>)"

definition take_stream :: "gralloc \<Rightarrow> nat \<Rightarrow> hwc_layer \<Rightarrow> hwc_layer option" where
  "take_stream G stream l =
     (if stream = sidebandStreamHandle l then Some l
      else if stream = 0 then Some (l\<lparr> sidebandStreamHandle := 0 \<rparr>)
      else map_option (\<lambda>h. upd_cur (\<lambda>c. c\<lparr> ls_sideband := h \<rparr>) (l\<lparr> sidebandStreamHandle := h \<rparr>))
             (gr_import G stream))"

definition setSidebandStream ::
  "gralloc \<Rightarrow> nat \<Rightarrow> caches \<times> hwc_layer \<Rightarrow> (caches \<times> hwc_layer) option" where
  "setSidebandStream G stream cl =
     (case cl of (c, l) \<Rightarrow>
        map_option (\<lambda>l1.
            (let h = sidebandStreamHandle l1;
                 (i, c') = new_info (describe_stream G h) c
             in (c', l1\<lparr> bufferInfoMap := [(gi_buffer_id (gr_info G h), i)], hl_info := Some i,
                         layer_name := lc_name (info_at c' i) \<rparr>)))
          (take_stream G stream l))"

text \<open>
  \<open>stream2\<close>: the device runs in the mode of stream version 2, where the handle carries the
  description of a video tunnel and tunnel \<open>0\<close> is none.
\<close>

definition SetLayerSidebandStream ::
  "gralloc \<Rightarrow> bool \<Rightarrow> nat \<Rightarrow> caches \<times> hwc_layer \<Rightarrow> (hwc2_error \<times> caches \<times> hwc_layer) option" where
  "SetLayerSidebandStream G stream2 stream cl =
     (case cl of (c, l) \<Rightarrow>
        if stream2 then
          (let sbi = gr_sideband G stream;
               l1 = (if stream = 0 then l
                     else
                      (let l2 = (if vt_tunnel_id sbi \<noteq> vt_tunnel_id (mSidebandInfo l)
                                 then l\<lparr> bSideband2Valid := True, mSidebandInfo := sbi \<rparr> else l)
                       in l2\<lparr> sidebandStreamHandle := (if vt_tunnel_id sbi \<noteq> 0 then stream else 0) \<rparr>))
           in Some (E_None, c, l1\<lparr> bSideband2 := True \<rparr>))
        else map_option (\<lambda>r. (E_None, r)) (setSidebandStream G stream cl))"

text \<open>\<open>SetClientTarget\<close>, which the display calls on its client layer.\<close>

definition SetClientTarget_layer ::
  "gralloc \<Rightarrow> int \<Rightarrow> nat \<Rightarrow> int \<Rightarrow> u32 \<Rightarrow> caches \<times> hwc_layer \<Rightarrow> caches \<times> hwc_layer" where
  "SetClientTarget_layer G t h fence dataspace cl =
     (if h = 0 then cl
      else (case CacheBufferInfo G t h cl of (c, l) \<Rightarrow>
        (c, snd (SetLayerDataspace dataspace (l\<lparr> hl_acquire_fence := acquire_fence_of G fence \<rparr>)))))"

section \<open>What the policy gets to see\<close>

definition fill_buffer :: "LayerInfoCache \<Rightarrow> DrmHwcLayer \<Rightarrow> DrmHwcLayer" where
  "fill_buffer i d =
     d\<lparr> iWidth := lc_width i, iHeight := lc_height i, iStride := lc_stride i, iFormat := lc_format i,
        uFourccFormat := lc_fourcc i, sLayerName := lc_name i,
        buf := (buf d)\<lparr> iFd := lc_fd i, iUsage := lc_usage i, iHeightStride := lc_height_stride i,
          iByteStride := lc_byte_stride i, uModifier := lc_modifier i \<rparr> \<rparr>"

definition fill_nothing :: "DrmHwcLayer \<Rightarrow> DrmHwcLayer" where
  "fill_nothing d =
     d\<lparr> iWidth := -1, iHeight := -1, iStride := -1, iFormat := -1, uFourccFormat := 0x20202020,
        sLayerName := [],
        buf := (buf d)\<lparr> iFd := -1, iUsage := 0, iHeightStride := -1, uModifier := 0, uGemHandle := 0 \<rparr> \<rparr>"

definition frect_of :: "hwc_rect \<Rightarrow> hwc_frect" where
  "frect_of r = \<lparr> fleft = of_int (left r), ftop = of_int (top r), fright = of_int (right r),
                 fbottom = of_int (bottom r) \<rparr>"

definition place_layer ::
  "sdk \<Rightarrow> hwc2_drm_display \<Rightarrow> hwc_frect \<Rightarrow> hwc2_layer_state \<Rightarrow> DrmHwcLayer \<Rightarrow> DrmHwcLayer option" where
  "place_layer K ctx crop st d =
     map_option (\<lambda>d'. SetTransform K (ls_transform st) (SetSourceCrop crop d'))
       (SetDisplayFrame (ls_display_frame st) ctx d)"

text \<open>The frame of a video tunnel, whose buffer comes later.\<close>

definition fill_tunnel ::
  "formats \<Rightarrow> layer_env \<Rightarrow> gralloc \<Rightarrow> sideband_info \<Rightarrow> DrmHwcLayer \<Rightarrow> DrmHwcLayer" where
  "fill_tunnel F e G sb d =
     (let cr = vt_crop sb in
      d\<lparr> iWidth := right cr - left cr, iHeight := bottom cr - top cr,
         iStride := right cr - left cr, iFormat := vt_format sb,
         uFourccFormat := gr_fourcc_from_hal G (vt_format sb),
         sLayerName := ''SidebandStream-2.0'', eDataSpace := vt_data_space sb,
         buf := (buf d)\<lparr> iFd := -1, iUsage := vt_usage sb, iHeightStride := bottom cr - top cr,
           uModifier :=
             (if 0 < vt_compress_mode sb
              then (if le_soc e = 0x3576 then AFBC_FORMAT_MOD_BLOCK_SIZE_32x8 F
                    else AFBC_FORMAT_MOD_BLOCK_SIZE_16x16 F)
              else 0),
           uGemHandle := 0 \<rparr> \<rparr>)"

definition PopulateSidebandLayer ::
  "sdk \<Rightarrow> formats \<Rightarrow> layer_env \<Rightarrow> gralloc \<Rightarrow> hwc2_drm_display \<Rightarrow> caches \<Rightarrow> hwc_layer \<Rightarrow> DrmHwcLayer \<Rightarrow>
   DrmHwcLayer option" where
  "PopulateSidebandLayer K F e G ctx c l d =
     (let st = mCurrentState l; sb = mSidebandInfo l in
      Option.bind
       (if bSideband2 l then
          (if bSideband2Valid l then
             map_option (fill_tunnel F e G sb)
               (place_layer K ctx (frect_of (vt_crop sb)) st
                  (d\<lparr> bSidebandStreamLayer := True, sf_handle := 0 \<rparr>))
           else Some (fill_nothing d))
        else
          (case hl_info l of
             None \<Rightarrow> None
           | Some i \<Rightarrow>
               map_option (if ls_sideband st \<noteq> 0 then fill_buffer (info_at c i) else fill_nothing)
                 (place_layer K ctx
                    \<lparr> fleft = 0, ftop = 0, fright = of_int (lc_width (info_at c i)),
                       fbottom = of_int (lc_height (info_at c i)) \<rparr> st
                    (d\<lparr> bSidebandStreamLayer := True, sf_handle := ls_sideband st \<rparr>))))
       (layer_Init K F e))"

definition PopulateNormalLayer ::
  "sdk \<Rightarrow> formats \<Rightarrow> layer_env \<Rightarrow> hwc2_drm_display \<Rightarrow> caches \<Rightarrow> hwc_layer \<Rightarrow> DrmHwcLayer \<Rightarrow>
   DrmHwcLayer option" where
  "PopulateNormalLayer K F e ctx c l d =
     Option.bind
       (map_option (\<lambda>d'.
           (case (if hl_buffer l \<noteq> 0 then hl_info l else None) of
              Some i \<Rightarrow>
                (let inf = info_at c i; d1 = fill_buffer inf d' in
                 d1\<lparr> sf_handle := hl_buffer l, iSize := lc_size inf,
                     buf := (buf d1)\<lparr> uBufferId := lc_buffer_id inf, uByteStridePlanes := lc_planes inf,
                       pBufferInfo := Some i \<rparr> \<rparr>)
            | None \<Rightarrow>
                (let d1 = fill_nothing d' in
                 d1\<lparr> iSize := -1,
                     buf := (buf d1)\<lparr> uByteStridePlanes := [], pBufferInfo := None \<rparr> \<rparr>)))
         (place_layer K ctx (ls_source_crop (mCurrentState l)) (mCurrentState l) d))
       (layer_Init K F e)"

text \<open>\<open>static_cast<uint16_t>(255.0f * alpha + 0.5f)\<close>.\<close>

definition alpha16 :: "rat \<Rightarrow> u16" where
  "alpha16 a = word_of_int (trunc_rat (255 * a + 1 / 2))"

definition PopulateDrmLayer ::
  "sdk \<Rightarrow> formats \<Rightarrow> layer_env \<Rightarrow> gralloc \<Rightarrow> hwc2_drm_display \<Rightarrow> caches \<Rightarrow> int \<Rightarrow> hwc_layer \<Rightarrow>
   DrmHwcLayer \<Rightarrow> DrmHwcLayer option" where
  "PopulateDrmLayer K F e G ctx c layer_id l d0 =
     (let st = mCurrentState l;
          d = SetBlend (ls_blending st) (d0\<lparr>
                uId := word_of_int layer_id, iZpos := sint (ls_z_order st), bFbTarget := False,
                bSkipLayer := False, bUse := True, eDataSpace := ls_dataspace st,
                alpha := alpha16 (ls_alpha st), sf_composition := sf_type st, iBestPlaneType := 0,
                bSidebandStreamLayer := False, bMatch := False,
                buf := (buf d0)\<lparr> acquire_fence := hl_acquire_fence l \<rparr> \<rparr>)
      in if sidebandStreamHandle l \<noteq> 0 then PopulateSidebandLayer K F e G ctx c l d
         else PopulateNormalLayer K F e ctx c l d)"

text \<open>The layer of the FB target; when validating it has no buffer yet and is sized by its crop.\<close>

definition fb_start :: "int \<Rightarrow> hwc_layer \<Rightarrow> bool \<Rightarrow> DrmHwcLayer \<Rightarrow> DrmHwcLayer" where
  "fb_start layer_id l validate d0 =
     (let st = mCurrentState l;
          d1 = d0\<lparr> uId := word_of_int layer_id, bFbTarget := True, bUse := True, bSkipLayer := False,
                   blending := kPreMult, iZpos := sint (ls_z_order st), alpha := alpha16 (ls_alpha st),
                   iBestPlaneType := 0 \<rparr>
      in if \<not> validate
         then d1\<lparr> sf_handle := hl_buffer l, buf := (buf d1)\<lparr> acquire_fence := hl_acquire_fence l \<rparr> \<rparr>
         else d1\<lparr> bMatch := False \<rparr>)"

definition fb_fill :: "sdk \<Rightarrow> caches \<Rightarrow> hwc_layer \<Rightarrow> bool \<Rightarrow> DrmHwcLayer \<Rightarrow> DrmHwcLayer" where
  "fb_fill K c l validate d =
     (case (if hl_buffer l \<noteq> 0 \<and> \<not> validate then hl_info l else None) of
        Some i \<Rightarrow>
          (let inf = info_at c i; d1 = fill_buffer inf d in
           d1\<lparr> iSize := lc_size inf,
               buf := (buf d1)\<lparr> uBufferId := lc_buffer_id inf, pBufferInfo := Some i \<rparr> \<rparr>)
      | None \<Rightarrow>
          (let cr = ls_source_crop (mCurrentState l);
               w = fright cr - fleft cr; h = fbottom cr - ftop cr; d1 = fill_nothing d in
           d1\<lparr> iWidth := trunc_rat w, iHeight := trunc_rat h, iStride := trunc_rat w,
               iSize := trunc_rat (w * h * 4), uFourccFormat := DRM_FORMAT_ABGR8888 K,
               sLayerName := ''FramebufferSurface'',
               buf := (buf d1)\<lparr> pBufferInfo := None \<rparr> \<rparr>))"

definition PopulateFB ::
  "sdk \<Rightarrow> formats \<Rightarrow> layer_env \<Rightarrow> hwc2_drm_display \<Rightarrow> caches \<Rightarrow> int \<Rightarrow> hwc_layer \<Rightarrow> bool \<Rightarrow>
   DrmHwcLayer \<Rightarrow> DrmHwcLayer option" where
  "PopulateFB K F e ctx c layer_id l validate d0 =
     Option.bind
       (map_option (fb_fill K c l validate)
         (place_layer K ctx (ls_source_crop (mCurrentState l)) (mCurrentState l)
           (fb_start layer_id l validate d0)))
       (layer_Init K F e)"

end
