(* ===== verification/Hwc_Display.thy ===== *)
theory Hwc_Display
  imports Hwc_Layer Hwc_Planner Display_Pipe
begin

text \<open>
  \<open>DrmHwcTwo::HwcDisplay\<close> (\<open>include/drmhwctwo.h\<close>, \<open>drmhwctwo.cpp\<close>): the layers of a display, the
  validation of a frame and the queries SurfaceFlinger makes after it.

  \<open>std::map\<close> of layers is an association list ordered by key.  The connector and the CRTC are
  looked up in the routing state \<open>pipe\<close>.  The vector of layers the policy works on lies in its
  store at the addresses \<open>0 ..< n\<close>.  \<open>None\<close> stands for undefined behaviour.
\<close>

section \<open>State\<close>

record hwc_display =
  hd_handle :: int
  hd_virtual :: bool
  hd_connector :: "nptr option"
  hd_crtc :: "cptr option"
  sf_modes :: "DrmMode list"
  layer_idx :: u32
  hd_layers :: "(u64 \<times> hwc_layer) list"
  client_layer :: hwc_layer
  output_layer :: hwc_layer
  drm_hwc_layers :: "DrmHwcLayer list"
  composition_planes :: "comp_plane list"
  color_mode :: int
  init_success :: bool
  force_disconneted :: bool
  validate_success :: bool
  ctx :: hwc2_drm_display
  ctx_vrefresh :: int
  ctx_dclk :: u32
  static_screen_opt :: bool
  static_screen_timer :: bool
  force_gles :: bool
  d_retire_fence :: "int \<times> int"
  hd_frame_no :: u32
  bVrrDisplay :: bool
  bActiveModeChange :: bool
  split_dummy :: u64

definition emplace :: "u64 \<Rightarrow> 'a \<Rightarrow> (u64 \<times> 'a) list \<Rightarrow> (u64 \<times> 'a) list" where
  "emplace k v m = (if k \<in> fst ` set m then m else insort_key fst (k, v) m)"

definition upd_layer :: "u64 \<Rightarrow> (hwc_layer \<Rightarrow> hwc_layer) \<Rightarrow> hwc_display \<Rightarrow> hwc_display" where
  "upd_layer k f d =
     d\<lparr> hd_layers := List.map (\<lambda>(i, l). (i, if i = k then f l else l)) (hd_layers d) \<rparr>"

definition each_layer :: "(hwc_layer \<Rightarrow> hwc_layer) \<Rightarrow> hwc_display \<Rightarrow> hwc_display" where
  "each_layer f d = d\<lparr> hd_layers := List.map (\<lambda>(i, l). (i, f l)) (hd_layers d) \<rparr>"

definition has_layer :: "u64 \<Rightarrow> hwc_display \<Rightarrow> bool" where
  "has_layer k d \<longleftrightarrow> k \<in> fst ` set (hd_layers d)"

text \<open>The hook every call on a layer goes through.\<close>

definition LayerHook ::
  "(hwc_layer \<Rightarrow> hwc2_error \<times> hwc_layer) \<Rightarrow> u64 \<Rightarrow> hwc_display \<Rightarrow> hwc2_error \<times> hwc_display" where
  "LayerHook func layer_handle d =
     (case map_of (hd_layers d) layer_handle of
        None \<Rightarrow> (BadLayer, d)
      | Some l \<Rightarrow> (fst (func l), upd_layer layer_handle (\<lambda>l. snd (func l)) d))"

section \<open>Layers\<close>

definition CreateLayer :: "hwc_layer \<Rightarrow> hwc_display \<Rightarrow> hwc2_error \<times> u64 \<times> hwc_display" where
  "CreateLayer mem d =
     (E_None, ucast (layer_idx d),
      d\<lparr> hd_layers := emplace (ucast (layer_idx d)) (new_layer mem (layer_idx d)) (hd_layers d),
         layer_idx := layer_idx d + 1 \<rparr>)"

definition DestroyLayer :: "u64 \<Rightarrow> hwc_display \<Rightarrow> hwc2_error \<times> hwc_display" where
  "DestroyLayer layer d =
     (if has_layer layer d
      then (E_None, d\<lparr> hd_layers := filter (\<lambda>e. fst e \<noteq> layer) (hd_layers d) \<rparr>)
      else (BadLayer, d))"

definition AcceptDisplayChanges :: "hwc_display \<Rightarrow> hwc2_error \<times> hwc_display" where
  "AcceptDisplayChanges d = (E_None, each_layer accept_type_change d)"

section \<open>Queries\<close>

definition changed_layers :: "hwc_display \<Rightarrow> (u64 \<times> Composition) list" where
  "changed_layers d =
     List.map (\<lambda>(i, l). (i, validated_type (mCurrentState l)))
       (filter (\<lambda>(i, l). type_changed l) (hd_layers d))"

text \<open>
  The two arrays are \<open>None\<close> when the caller passes \<open>NULL\<close>; the result has what is written to them.
\<close>

definition GetChangedCompositionTypes ::
  "nat \<Rightarrow> bool \<Rightarrow> bool \<Rightarrow> hwc_display \<Rightarrow> hwc2_error \<times> nat \<times> u64 list \<times> Composition list" where
  "GetChangedCompositionTypes num_elements layers types d =
     (let ch = changed_layers d in
      (E_None,
       if \<not> layers \<and> \<not> types then length ch else num_elements,
       if layers then take num_elements (List.map fst ch) else [],
       if types then take num_elements (List.map snd ch) else []))"

definition GetClientTargetSupport ::
  "u32 \<times> u32 \<Rightarrow> u32 \<times> u32 \<Rightarrow> u32 \<Rightarrow> u32 \<Rightarrow> u32 \<Rightarrow> u32 \<Rightarrow> hwc2_error" where
  "GetClientTargetSupport mn mx STANDARD_UNSPECIFIED width height dataspace =
     (if width < fst mn \<or> height < snd mn then Unsupported
      else if fst mx < width \<or> snd mx < height then Unsupported
      else if dataspace \<noteq> 0 \<and> dataspace \<noteq> STANDARD_UNSPECIFIED then Unsupported
      else E_None)"

text \<open>
  \<open>sdk\<close>: the property of Rockchip's system is set and the SoC has AFBC.  The first component is what
  is written to \<open>display_requests\<close>, the last what is written to the arrays when both are given.
\<close>

definition first_client :: "hwc_display \<Rightarrow> u32" where
  "first_client d =
     (case find (\<lambda>(i, l). validated_type (mCurrentState l) = Client) (hd_layers d) of
        None \<Rightarrow> 0 | Some (i, l) \<Rightarrow> ucast i)"

definition HWC2_DISPLAY_REQUEST_FLIP_CLIENT_TARGET :: int where
  "HWC2_DISPLAY_REQUEST_FLIP_CLIENT_TARGET = 1"

definition GetDisplayRequests ::
  "bool \<Rightarrow> nat \<Rightarrow> bool \<Rightarrow> bool \<Rightarrow> hwc_display \<Rightarrow>
   hwc2_error \<times> int option \<times> nat \<times> (u32 \<times> int) list" where
  "GetDisplayRequests sdk num_elements layers layer_requests d =
     (let both = layers \<and> layer_requests in
      if \<not> sdk then
        (if both then (E_None, Some 0, num_elements, []) else (E_None, None, 0, []))
      else
       (let id = first_client d;
            flip = 0 < id \<and> validate_success d \<and> \<not> is_afbc (client_layer d);
            dr = (if flip then HWC2_DISPLAY_REQUEST_FLIP_CLIENT_TARGET else 0)
        in if both then (E_None, Some dr, num_elements, [(id, 0)])
           else (E_None, Some dr, if flip then 1 else 0, [])))"

definition release_fence_fd :: "gralloc \<Rightarrow> hwc_layer \<Rightarrow> int" where
  "release_fence_fd G l =
     (if gr_fd_valid G (release_fence l) then gr_dup G (release_fence l) else -1)"

definition GetReleaseFences ::
  "gralloc \<Rightarrow> nat \<Rightarrow> bool \<Rightarrow> hwc_display \<Rightarrow> hwc2_error \<times> nat \<times> (u64 \<times> int) list" where
  "GetReleaseFences G num_elements arrays d =
     (let fs = List.map (\<lambda>(i, l). (i, release_fence_fd G l)) (hd_layers d) in
      if \<not> arrays then (E_None, length fs, [])
      else if num_elements < length fs then (E_None, num_elements, take num_elements fs)
      else (E_None, length fs, fs))"

section \<open>Setters\<close>

definition SetColorMode :: "int \<Rightarrow> hwc_display \<Rightarrow> hwc2_error \<times> hwc_display" where
  "SetColorMode mode d = (if mode \<noteq> 0 then (BadParameter, d) else (E_None, d\<lparr> color_mode := mode \<rparr>))"

definition SetColorTransform :: "int \<Rightarrow> hwc_display \<Rightarrow> hwc2_error \<times> hwc_display" where
  "SetColorTransform hint d = (E_None, d\<lparr> force_gles := 0 < hint \<rparr>)"

definition SetClientTarget ::
  "gralloc \<Rightarrow> int \<Rightarrow> nat \<Rightarrow> int \<Rightarrow> u32 \<Rightarrow> caches \<times> hwc_display \<Rightarrow> hwc2_error \<times> caches \<times> hwc_display" where
  "SetClientTarget G t target fence dataspace cd =
     (case cd of (c, d) \<Rightarrow>
       (case SetClientTarget_layer G t target fence dataspace (c, client_layer d) of
          (c', l) \<Rightarrow> (E_None, c', d\<lparr> client_layer := l \<rparr>)))"

definition SetOutputBuffer ::
  "gralloc \<Rightarrow> nat \<Rightarrow> int \<Rightarrow> caches \<times> hwc_display \<Rightarrow> hwc2_error \<times> caches \<times> hwc_display" where
  "SetOutputBuffer G h fence cd =
     (case cd of (c, d) \<Rightarrow>
       (case set_output_buffer G h (c, output_layer d) of
          (c', l) \<Rightarrow>
            (E_None, c', d\<lparr> output_layer :=
               (if 0 < fence then set_release_fence (acquire_fence_of G (gr_dup G fence)) l else l) \<rparr>)))"

text \<open>The display is taken away and given back; the display compositor is not modelled.\<close>

definition ResetDisplay :: "hwc_display \<Rightarrow> int \<times> hwc_display" where
  "ResetDisplay d = (0, if hd_virtual d then d else d\<lparr> init_success := False \<rparr>)"

definition DisconnectDisplay :: "hwc_display \<Rightarrow> int \<times> hwc_display" where
  "DisconnectDisplay d = (0, if hd_virtual d then d else d\<lparr> force_disconneted := True \<rparr>)"

definition ConnectDisplay :: "hwc_display \<Rightarrow> int \<times> hwc_display" where
  "ConnectDisplay d = (0, if hd_virtual d then d else d\<lparr> force_disconneted := False \<rparr>)"

section \<open>Validation\<close>

definition CheckDisplayState :: "topo \<Rightarrow> pipe \<Rightarrow> hwc_display \<Rightarrow> hwc2_error \<times> hwc_display" where
  "CheckDisplayState T p d =
     (if \<not> init_success d then (BadDisplay, d)
      else
       (let d1 = d\<lparr> hd_connector := GetConnectorForDisplay T (hd_handle d) p \<rparr>
        in case hd_connector d1 of
             None \<Rightarrow> (BadDisplay, d1)
           | Some n \<Rightarrow>
               if n_state (pipe.conn p n) \<noteq> DRM_MODE_CONNECTED \<and>
                  \<not> is_connector_mirror_primary (pipe.conn p n)
               then (NoResources, d1)
               else
                (let d2 = d1\<lparr> hd_crtc := GetCrtcForDisplay T (hd_handle d) p \<rparr>
                 in if hd_crtc d2 = None then (BadDisplay, d2)
                    else if hd_layers d2 = [] then (BadLayer, d2)
                    else (E_None, d2))))"

text \<open>
  \<open>std::sort\<close> by depth; layers of equal depth are kept in the order of their ids, where the
  library leaves their order open.  \<open>fresh\<close> is a \<open>DrmHwcLayer\<close> as its constructor leaves it.
\<close>

definition InitDrmHwcLayer ::
  "sdk \<Rightarrow> formats \<Rightarrow> layer_env \<Rightarrow> gralloc \<Rightarrow> DrmHwcLayer \<Rightarrow> caches \<Rightarrow> hwc_display \<Rightarrow> DrmHwcLayer list option"
where
  "InitDrmHwcLayer K F e G fresh c d =
     Option.bind
       (those (List.map (\<lambda>(i, l). PopulateDrmLayer K F e G (ctx d) c (uint i) l fresh) (hd_layers d)))
       (\<lambda>ls. map_option (\<lambda>fb. sort_key iZpos ls @ [fb])
               (PopulateFB K F e (ctx d) c 0 (client_layer d) True fresh))"

text \<open>\<open>mode\<close> is the current mode of the connector, when there is a connector.\<close>

definition ModifyHwcLayerDisplayFrame ::
  "layer_env \<Rightarrow> DrmMode option \<Rightarrow> bool \<Rightarrow> hwc2_drm_display \<Rightarrow> DrmHwcLayer list \<Rightarrow> DrmHwcLayer list option"
where
  "ModifyHwcLayerDisplayFrame e mode only_fb_scale cx ls =
     (if le_soc e = 0x3588 \<or> le_soc e = 0x3576 \<or>
         (case mode of None \<Rightarrow> False | Some m \<Rightarrow> 0 < mode_id m \<and> interlaced m)
      then those (List.map (\<lambda>l. if only_fb_scale \<and> \<not> bFbTarget l then Some l
                               else ModifyDisplayFrameForOverscan cx l) ls)
      else Some ls)"

text \<open>The groups of the CRTC and the display that are not about to migrate.\<close>

definition groups_of_display :: "env \<Rightarrow> int \<Rightarrow> gheap \<Rightarrow> gptr list" where
  "groups_of_display E handle gs =
     filter (\<lambda>g. acquire_display (crtc_bit E) handle (gs g) \<and> \<not> is_will_disable (gs g))
       (all_plane_groups E)"

definition store_layers :: "DrmHwcLayer list \<Rightarrow> heap \<Rightarrow> heap" where
  "store_layers ls h = (\<lambda>p. if p < length ls then ls ! p else h p)"

text \<open>
  What the policy decided for one layer goes back to where it came from.  A layer that is not in
  the map would be written through the end iterator.
\<close>

definition settle_layer :: "DrmHwcLayer \<Rightarrow> hwc_display \<Rightarrow> hwc_display option" where
  "settle_layer l d =
     (if bFbTarget l then Some (d\<lparr> client_layer := (client_layer d)\<lparr> is_afbc := bAfbcd l \<rparr> \<rparr>)
      else if \<not> has_layer (ucast (uId l)) d then None
      else Some (upd_layer (ucast (uId l)) (set_validated_type (if bMatch l then Device else Client)) d))"

primrec settle_layers :: "DrmHwcLayer list \<Rightarrow> hwc_display \<Rightarrow> hwc_display option" where
  "settle_layers [] d = Some d"
| "settle_layers (l # ls) d = Option.bind (settle_layer l d) (settle_layers ls)"

definition ValidatePlanes ::
  "sdk \<Rightarrow> formats \<Rightarrow> gralloc \<Rightarrow> rga_env \<Rightarrow> env \<Rightarrow> u32 \<Rightarrow> DrmMode option \<Rightarrow> DrmHwcLayer \<Rightarrow> caches \<Rightarrow>
   vop \<times> rga_state \<Rightarrow> hwc_display \<Rightarrow> (hwc2_error \<times> (vop \<times> rga_state) \<times> hwc_display) option"
where
  "ValidatePlanes K F G R E soc mode fresh c sg d = do {
     ls0 \<leftarrow> InitDrmHwcLayer K F (rg_layer R) G fresh c d;
     ls \<leftarrow> ModifyHwcLayerDisplayFrame (rg_layer R) mode False (ctx d) ls0;
     let layers = [0..<length ls];
     let s1 = (fst sg)\<lparr> heap := store_layers ls (heap (fst sg)) \<rparr>;
     let pgs = groups_of_display E (hd_handle d) (gheap s1);
     (ret, ly, s2, g2) \<leftarrow> Planner_TryHwcPolicy K F R E soc pgs
         (static_screen_opt d \<or> force_gles d) layers (s1, snd sg);
     let d1 = d\<lparr> drm_hwc_layers := List.map (heap s2) layers, composition_planes := comp s2 \<rparr>;
     (if ret \<noteq> 0 then Some (BadConfig, (s2, g2), d1)
      else map_option (\<lambda>d2. (E_None, (s2, g2), d2)) (settle_layers (drm_hwc_layers d1) d1))
   }"

text \<open>
  \<open>ValidateDisplay\<close> from \<open>*num_types = 0\<close> on.  \<open>start\<close> is the type every layer has before the
  policy runs: \<open>Client\<close>, on the RK3528 \<open>Device\<close>.  The HDR mode, the timer of the static screen
  and the self refresh, which it updates in between, are not part of this state.
\<close>

definition only_device :: "hwc_layer \<Rightarrow> hwc_layer" where
  "only_device l =
     (if validated_type (mCurrentState l) \<noteq> Device then set_validated_type Client l else l)"

definition counted_change :: "hwc_layer \<Rightarrow> bool" where
  "counted_change l \<longleftrightarrow>
     type_changed l \<and> hwc3_sf_type (mCurrentState l) \<noteq> HWC3_COMPOSITION_DISPLAY_DECORATION"

definition num_changes :: "hwc_display \<Rightarrow> nat" where
  "num_changes d = length (filter (\<lambda>(i, l). counted_change l) (hd_layers d))"

definition ValidateDisplay_frame ::
  "sdk \<Rightarrow> formats \<Rightarrow> gralloc \<Rightarrow> rga_env \<Rightarrow> env \<Rightarrow> topo \<Rightarrow> pipe \<Rightarrow> DrmHwcLayer \<Rightarrow> caches \<Rightarrow>
   vop \<times> rga_state \<Rightarrow> hwc_display \<Rightarrow>
   (hwc2_error \<times> nat \<times> nat \<times> (vop \<times> rga_state) \<times> hwc_display) option"
where
  "ValidateDisplay_frame K F G R E T p fresh c sg d0 =
     (let start = (if le_soc (rg_layer R) = 0x3528 then Device else Client) in
      case CheckDisplayState T p (each_layer (set_validated_type start) d0) of
        (ret, d1) \<Rightarrow>
          if ret \<noteq> E_None
          then Some (E_None, 0, 0, sg, d1\<lparr> composition_planes := [], validate_success := False \<rparr>)
          else do {
            (ret', sg', d2) \<leftarrow> ValidatePlanes K F G R E (device_soc T)
                (map_option (\<lambda>n. n_current (pipe.conn p n)) (hd_connector d1)) fresh c sg d1;
            (if ret' \<noteq> E_None then Some (BadConfig, 0, 0, sg', d2\<lparr> validate_success := False \<rparr>)
             else
              (let d3 = each_layer only_device d2; n = num_changes d3
               in Some (if n = 0 then E_None else HasChanges, n,
                        if is_afbc (client_layer d3) then 0 else 1, sg',
                        d3\<lparr> validate_success := True \<rparr>)))
          })"

text \<open>
  The calls with which \<open>ValidateDisplay\<close> leaves before: a display that is not initialised or was
  disconnected.  \<open>split\<close>: its connector is the primary of a split screen; \<open>num_types\<close> is
  incremented from what the caller had in it.
\<close>

definition ValidateDisplay_skip :: "bool \<Rightarrow> nat \<Rightarrow> hwc_display \<Rightarrow> hwc2_error \<times> nat \<times> hwc_display" where
  "ValidateDisplay_skip split num_types d =
     (let d1 = each_layer (if split then set_validated_type Client
                           else (\<lambda>l. set_validated_type (sf_type (mCurrentState l)) l)) d;
          n = (if split then num_types + length (filter (\<lambda>(i, l). type_changed l) (hd_layers d1))
               else num_types)
      in (if n = 0 then E_None else HasChanges, n, d1\<lparr> validate_success := False \<rparr>))"

section \<open>Fences\<close>

text \<open>
  \<open>sync_merge(name, a, b)\<close>, which is not more than \<open>0\<close> when it fails.
\<close>

definition merge_fence ::
  "gralloc \<Rightarrow> (int \<Rightarrow> int \<Rightarrow> int) \<Rightarrow> hwc_layer \<Rightarrow> int \<Rightarrow> int" where
  "merge_fence G sync_merge l fd =
     (let rf = back_release_fence l in
      if validated_type (mCurrentState l) \<noteq> Device \<or> \<not> gr_fd_valid G rf then fd
      else if 0 < fd then (let m = sync_merge rf fd in if 0 < m then m else fd)
      else gr_dup G rf)"

definition AddFenceToRetireFence ::
  "gralloc \<Rightarrow> (int \<Rightarrow> int \<Rightarrow> int) \<Rightarrow> int \<Rightarrow> hwc_display \<Rightarrow> hwc_display" where
  "AddFenceToRetireFence G sync_merge fd d =
     (let rf = back_release_fence (client_layer d);
          fd0 = (if gr_fd_valid G rf then gr_dup G rf else -1);
          fd1 = (if fd < 0 then fold (\<lambda>(i, l). merge_fence G sync_merge l) (hd_layers d) fd0 else fd)
      in d\<lparr> d_retire_fence := (snd (d_retire_fence d), acquire_fence_of G fd1) \<rparr>)"

end
