(* ===== verification/Hwc_Display_Props.thy ===== *)
theory Hwc_Display_Props
  imports Hwc_Display Hwc_Planner_Props Layer_Props
begin

text \<open>
  What the layers of a display obey (\<open>Hwc_Display\<close>): the map of layers under the calls that change
  it, the types a validation settles and how SurfaceFlinger gets to know them, and the fences of a
  frame.
\<close>

section \<open>The map of layers\<close>

text \<open>
  Keys ascend and were all handed out by \<open>CreateLayer\<close>, which starts with \<open>1\<close>.
\<close>

definition layers_ok :: "hwc_display \<Rightarrow> bool" where
  "layers_ok d \<longleftrightarrow>
     sorted (List.map fst (hd_layers d)) \<and> distinct (List.map fst (hd_layers d)) \<and>
     (\<forall>k \<in> fst ` set (hd_layers d). 0 < k \<and> k < ucast (layer_idx d))"

definition layer_map :: "hwc_display \<Rightarrow> u64 \<Rightarrow> hwc_layer option" where
  "layer_map d = map_of (hd_layers d)"

lemma has_layer_map: "has_layer k d \<longleftrightarrow> layer_map d k \<noteq> None"
  by (simp add: has_layer_def layer_map_def map_of_eq_None_iff)

lemma map_of_upd:
  "map_of (List.map (\<lambda>(i, l). (i, if i = k then f l else l)) m) j =
   (if j = k then map_option f (map_of m j) else map_of m j)"
  by (induction m) auto

lemma map_of_each: "map_of (List.map (\<lambda>(i, l). (i, f l)) m) j = map_option f (map_of m j)"
  by (induction m) auto

lemma fst_upd [simp]: "List.map fst (List.map (\<lambda>(i, l). (i, f i l)) m) = List.map fst m"
  by (induction m) auto

lemma fst_upd_set [simp]: "fst ` (\<lambda>(i, l). (i, f i l)) ` A = fst ` A"
  by force

lemma upd_layer_map [simp]:
  "layer_map (upd_layer k f d) = (layer_map d)(k := map_option f (layer_map d k))"
  by (rule ext) (simp add: layer_map_def upd_layer_def map_of_upd)

lemma each_layer_map: "layer_map (each_layer f d) k = map_option f (layer_map d k)"
  by (simp add: layer_map_def each_layer_def map_of_each)

lemma keys_upd_layer [simp]: "List.map fst (hd_layers (upd_layer k f d)) = List.map fst (hd_layers d)"
  by (auto simp: upd_layer_def)

lemma keys_each_layer [simp]: "List.map fst (hd_layers (each_layer f d)) = List.map fst (hd_layers d)"
  by (auto simp: each_layer_def)

lemma layer_idx_upd [simp]: "layer_idx (upd_layer k f d) = layer_idx d"
  by (simp add: upd_layer_def)

lemma layer_idx_each [simp]: "layer_idx (each_layer f d) = layer_idx d"
  by (simp add: each_layer_def)

lemma keys_set: "fst ` set m = set (List.map fst m)"
  by simp

lemma layers_ok_keys:
  "List.map fst (hd_layers d') = List.map fst (hd_layers d) \<Longrightarrow> layer_idx d' = layer_idx d \<Longrightarrow>
   layers_ok d' = layers_ok d"
  by (simp add: layers_ok_def keys_set del: set_map)

lemma map_of_insort:
  "k \<notin> fst ` set m \<Longrightarrow> map_of (insort_key fst (k, v) m) = (map_of m)(k \<mapsto> v)"
  by (induction m) (auto simp: fun_eq_iff)

lemma map_fst_insort: "List.map fst (insort_key fst (k, v) m) = insort k (List.map fst m)"
  by (induction m) auto

lemma map_of_filter_neq:
  "map_of (filter (\<lambda>e. fst e \<noteq> k) m) j = (if j = k then None else map_of m j)"
  by (induction m) auto

lemma unat_u32_small: "unat (i :: u32) < 2 ^ 64"
  by (rule less_trans [OF unsigned_less]) simp

lemma ucast_u64_less: "(i::u32) < j \<Longrightarrow> (ucast i :: u64) < ucast j"
  using unat_u32_small [of i] unat_u32_small [of j]
  by (simp add: word_less_nat_alt unsigned_ucast_eq take_bit_nat_eq_self)

lemma ucast_u64_Suc: "(i::u32) + 1 \<noteq> 0 \<Longrightarrow> (ucast i :: u64) < ucast (i + 1)"
  by (rule ucast_u64_less) (simp add: word_less_nat_alt unatSuc add.commute)

lemma CreateLayer_map:
  assumes "layers_ok d" "0 < layer_idx d" "layer_idx d + 1 \<noteq> 0"
  shows "case CreateLayer mem d of (err, k, d') \<Rightarrow>
      err = E_None \<and> layer_map d k = None \<and> layers_ok d' \<and> 0 < layer_idx d' \<and>
      layer_map d' = (layer_map d)(k \<mapsto> new_layer mem (layer_idx d))"
proof -
  let ?k = "ucast (layer_idx d) :: u64"
  have new: "?k \<notin> fst ` set (hd_layers d)" using assms(1) by (auto simp: layers_ok_def)
  have pos: "0 < ?k" using ucast_u64_less [OF assms(2)] by simp
  have next_id: "?k < ucast (layer_idx d + 1)" by (rule ucast_u64_Suc [OF assms(3)])
  have nz: "0 < layer_idx d + 1" using assms(3) by (simp add: word_neq_0_conv)
  have ord: "sorted (insort ?k (List.map fst (hd_layers d)))" "distinct (insort ?k (List.map fst (hd_layers d)))"
    using assms(1) new by (simp_all add: layers_ok_def sorted_insort distinct_insort)
  have less: "x < ucast (layer_idx d + 1)" if "x < ?k" for x :: u64
    using that next_id by (rule less_trans)
  show ?thesis
    using new ord pos next_id nz assms(1) less
    by (simp add: CreateLayer_def emplace_def layers_ok_def layer_map_def map_of_insort map_fst_insort
        keys_set set_insort_key map_of_eq_None_iff del: set_map)
qed

lemma DestroyLayer_map:
  assumes "layers_ok d"
  shows "case DestroyLayer k d of (err, d') \<Rightarrow>
      err = (if has_layer k d then E_None else BadLayer) \<and> layers_ok d' \<and>
      layer_map d' = (layer_map d)(k := None)"
  using assms
  by (auto simp: DestroyLayer_def layers_ok_def layer_map_def map_of_filter_neq fun_eq_iff has_layer_def
      map_of_eq_None_iff sorted_filter distinct_map_filter)

lemma LayerHook_map:
  assumes "layers_ok d"
  shows "case LayerHook f k d of (err, d') \<Rightarrow>
      (case layer_map d k of
         None \<Rightarrow> err = BadLayer \<and> d' = d
       | Some l \<Rightarrow> err = fst (f l) \<and> layers_ok d' \<and> layer_map d' = (layer_map d)(k \<mapsto> snd (f l)))"
  using assms layers_ok_keys [OF keys_upd_layer, of k "\<lambda>l. snd (f l)" d]
  by (auto simp: LayerHook_def layer_map_def [symmetric] upd_layer_def [symmetric]
      simp del: upd_layer_def split: option.split)

text \<open>
  C14: The layers of a display behave as a finite map.  \<open>CreateLayer\<close> adds a layer under an id that is
  in use for no other, until the 32-bit counter of ids wraps; \<open>DestroyLayer\<close> removes exactly the
  layer it names and answers \<open>BadLayer\<close> for an unknown id; a call through \<open>LayerHook\<close> changes only
  the layer it is made on.  All three keep the order of the keys and the ids above those in use.
\<close>

theorem layers_are_a_map:
  assumes "layers_ok d" "0 < layer_idx d" "layer_idx d + 1 \<noteq> 0"
  shows "(case CreateLayer mem d of (err, k, d') \<Rightarrow>
      err = E_None \<and> layer_map d k = None \<and> layers_ok d' \<and> 0 < layer_idx d' \<and>
      layer_map d' = (layer_map d)(k \<mapsto> new_layer mem (layer_idx d))) \<and>
    (case DestroyLayer k d of (err, d') \<Rightarrow>
      err = (if has_layer k d then E_None else BadLayer) \<and> layers_ok d' \<and>
      layer_map d' = (layer_map d)(k := None)) \<and>
    (case LayerHook f k d of (err, d') \<Rightarrow>
      (case layer_map d k of
         None \<Rightarrow> err = BadLayer \<and> d' = d
       | Some l \<Rightarrow> err = fst (f l) \<and> layers_ok d' \<and> layer_map d' = (layer_map d)(k \<mapsto> snd (f l))))"
  by (intro conjI CreateLayer_map [OF assms] DestroyLayer_map [OF assms(1)] LayerHook_map [OF assms(1)])

section \<open>Types\<close>

lemma filter_map_none: "(\<And>x. x \<in> set xs \<Longrightarrow> \<not> P (f x)) \<Longrightarrow> filter P (List.map f xs) = []"
  by (induction xs) auto

lemma type_changed_accept [simp]: "\<not> type_changed (accept_type_change l)"
  by (simp add: type_changed_def accept_type_change_def assign_state_def Let_def)

lemma changed_none: "(\<forall>(i, l) \<in> set (hd_layers d). \<not> type_changed l) \<Longrightarrow> changed_layers d = []"
  by (auto simp: changed_layers_def filter_empty_conv)

text \<open>
  C31: The dialogue about composition types settles.  Once SurfaceFlinger has called
  \<open>AcceptDisplayChanges\<close>, \<open>GetChangedCompositionTypes\<close> reports no layer, and it reports none either
  when a later frame is validated to the same types, as long as SurfaceFlinger sets no other type
  in between, whatever else it sets.
\<close>

theorem accept_settles:
  assumes "\<forall>k. rel_option (\<lambda>l l'.
        sf_type (mCurrentState l') = sf_type (mCurrentState l) \<and>
        validated_type (mCurrentState l') = validated_type (mCurrentState l) \<and>
        validated_type (mDrawingState l') = validated_type (mDrawingState l))
      (layer_map (snd (AcceptDisplayChanges d)) k) (layer_map d' k)"
    and "distinct (List.map fst (hd_layers d'))"
  shows "changed_layers (snd (AcceptDisplayChanges d)) = [] \<and> changed_layers d' = [] \<and>
    num_changes d' = 0 \<and> fst (snd (GetChangedCompositionTypes n False False d')) = 0"
proof -
  have un: "\<not> type_changed l'" if l': "(k, l') \<in> set (hd_layers d')" for k l'
  proof -
    have m: "layer_map d' k = Some l'" using l' assms(2) by (simp add: layer_map_def)
    have r: "rel_option (\<lambda>l l'.
        sf_type (mCurrentState l') = sf_type (mCurrentState l) \<and>
        validated_type (mCurrentState l') = validated_type (mCurrentState l) \<and>
        validated_type (mDrawingState l') = validated_type (mDrawingState l))
      (layer_map (snd (AcceptDisplayChanges d)) k) (Some l')" using assms(1) [rule_format, of k] unfolding m .
    have acc: "layer_map (snd (AcceptDisplayChanges d)) k = map_option accept_type_change (layer_map d k)"
      by (simp add: AcceptDisplayChanges_def each_layer_map)
    from r obtain l where l: "layer_map d k = Some l" by (auto simp: acc option_rel_Some2)
    have "\<not> type_changed (accept_type_change l)" by simp
    then show ?thesis using r by (simp add: acc l type_changed_def)
  qed
  then have c: "changed_layers d' = []" by (intro changed_none) auto
  have "num_changes d' = 0" using un by (auto simp: num_changes_def counted_change_def filter_empty_conv)
  moreover have "changed_layers (snd (AcceptDisplayChanges d)) = []"
    by (rule changed_none) (auto simp: AcceptDisplayChanges_def each_layer_def)
  ultimately show ?thesis using c by (simp add: GetChangedCompositionTypes_def)
qed

section \<open>The layers the policy sees\<close>

text \<open>What a layer is filled in with does not touch what identifies it.\<close>

definition marks :: "DrmHwcLayer \<Rightarrow> u32 \<times> bool \<times> bool \<times> bool" where
  "marks l = (uId l, bUse l, bFbTarget l, bUseRga (buf l))"

lemma marks_place: "place_layer K cx cr ls d = Some d' \<Longrightarrow> marks d' = marks d"
  by (auto simp: place_layer_def SetDisplayFrame_def SetTransform_def SetSourceCrop_def marks_def Let_def
      split: if_splits)

lemma marks_fill: "marks (fill_buffer i d) = marks d" "marks (fill_nothing d) = marks d"
  by (simp_all add: fill_buffer_def fill_nothing_def marks_def)

lemma marks_Init: "layer_Init K F e d = Some d' \<Longrightarrow> marks d' = marks d"
  by (auto simp: layer_Init_def marks_def Let_def split: option.splits)

lemma marks_overscan: "ModifyDisplayFrameForOverscan cx d = Some d' \<Longrightarrow> marks d' = marks d"
  by (auto simp: ModifyDisplayFrameForOverscan_def marks_def Let_def split: option.splits)

lemma marks_via:
  assumes "Option.bind (map_option f x) (layer_Init K F e) = Some d'"
    and "\<And>a. x = Some a \<Longrightarrow> marks (f a) = m"
  shows "marks d' = m"
proof (cases x)
  case None
  with assms(1) show ?thesis by simp
next
  case (Some a)
  with assms(1) have "layer_Init K F e (f a) = Some d'" by simp
  from marks_Init [OF this] assms(2) [OF Some] show ?thesis by simp
qed

lemma marks_sub [simp]:
  "marks (d\<lparr> sf_handle := a, iSize := b, buf := q \<rparr>) = (uId d, bUse d, bFbTarget d, bUseRga q)"
  "marks (d\<lparr> iSize := b, buf := q \<rparr>) = (uId d, bUse d, bFbTarget d, bUseRga q)"
  by (simp_all add: marks_def)

lemma marks_buf [simp]:
  "(uId (fill_buffer i d), bUse (fill_buffer i d), bFbTarget (fill_buffer i d), bUseRga (buf (fill_buffer i d))) = marks d"
  "(uId (fill_nothing d), bUse (fill_nothing d), bFbTarget (fill_nothing d), bUseRga (buf (fill_nothing d))) = marks d"
  using marks_fill [unfolded marks_def] by (simp_all add: marks_def)

lemma marks_Normal:
  assumes "PopulateNormalLayer K F e cx c l d = Some d'"
  shows "marks d' = marks d"
proof (rule marks_via [OF assms [unfolded PopulateNormalLayer_def]])
  fix a
  assume "place_layer K cx (ls_source_crop (mCurrentState l)) (mCurrentState l) d = Some a"
  then have "marks a = marks d" by (rule marks_place)
  then show "marks (case if hl_buffer l \<noteq> 0 then hl_info l else None of
         None \<Rightarrow> (let d1 = fill_nothing a in
           d1\<lparr> iSize := -1, buf := (buf d1)\<lparr> uByteStridePlanes := [], pBufferInfo := None \<rparr> \<rparr>)
       | Some i \<Rightarrow> (let inf = info_at c i; d1 = fill_buffer inf a in
           d1\<lparr> sf_handle := hl_buffer l, iSize := lc_size inf,
               buf := (buf d1)\<lparr> uBufferId := lc_buffer_id inf, uByteStridePlanes := lc_planes inf,
                 pBufferInfo := Some i \<rparr> \<rparr>)) = marks d"
    by (cases "if hl_buffer l \<noteq> 0 then hl_info l else None") (simp_all add: Let_def)
qed

lemma marks_stream:
  "marks (fill_tunnel F e G sb d) = marks d"
  "marks (d\<lparr> bSidebandStreamLayer := True, sf_handle := h \<rparr>) = marks d"
  by (simp_all add: marks_def fill_tunnel_def Let_def)

lemma marks_Sideband:
  assumes "PopulateSidebandLayer K F e G cx c l d = Some d'"
  shows "marks d' = marks d"
proof (cases "bSideband2 l")
  case True
  show ?thesis
  proof (cases "bSideband2Valid l")
    case True
    show ?thesis
    proof (rule marks_via)
      show "Option.bind (map_option (fill_tunnel F e G (mSidebandInfo l))
          (place_layer K cx (frect_of (vt_crop (mSidebandInfo l))) (mCurrentState l)
             (d\<lparr> bSidebandStreamLayer := True, sf_handle := 0 \<rparr>))) (layer_Init K F e) = Some d'"
        using assms True \<open>bSideband2 l\<close> by (simp add: PopulateSidebandLayer_def Let_def)
    next
      fix a
      assume "place_layer K cx (frect_of (vt_crop (mSidebandInfo l))) (mCurrentState l)
          (d\<lparr> bSidebandStreamLayer := True, sf_handle := 0 \<rparr>) = Some a"
      then have "marks a = marks d" using marks_place marks_stream(2) by metis
      then show "marks (fill_tunnel F e G (mSidebandInfo l) a) = marks d" by (simp add: marks_stream)
    qed
  next
    case False
    with True assms have "layer_Init K F e (fill_nothing d) = Some d'"
      by (simp add: PopulateSidebandLayer_def Let_def)
    then show ?thesis using marks_Init marks_fill(2) by metis
  qed
next
  case False
  then obtain i where i: "hl_info l = Some i"
    using assms by (cases "hl_info l") (simp_all add: PopulateSidebandLayer_def Let_def)
  show ?thesis
  proof (rule marks_via)
    show "Option.bind (map_option
        (if ls_sideband (mCurrentState l) \<noteq> 0 then fill_buffer (info_at c i) else fill_nothing)
        (place_layer K cx \<lparr> fleft = 0, ftop = 0, fright = of_int (lc_width (info_at c i)),
             fbottom = of_int (lc_height (info_at c i)) \<rparr> (mCurrentState l)
           (d\<lparr> bSidebandStreamLayer := True, sf_handle := ls_sideband (mCurrentState l) \<rparr>)))
        (layer_Init K F e) = Some d'"
      using assms False i by (simp add: PopulateSidebandLayer_def Let_def)
  next
    fix a
    assume "place_layer K cx \<lparr> fleft = 0, ftop = 0, fright = of_int (lc_width (info_at c i)),
             fbottom = of_int (lc_height (info_at c i)) \<rparr> (mCurrentState l)
           (d\<lparr> bSidebandStreamLayer := True, sf_handle := ls_sideband (mCurrentState l) \<rparr>) = Some a"
    then have "marks a = marks d" using marks_place marks_stream(2) by metis
    then show "marks ((if ls_sideband (mCurrentState l) \<noteq> 0 then fill_buffer (info_at c i)
        else fill_nothing) a) = marks d" by (simp add: marks_fill)
  qed
qed

lemma marks_DrmLayer:
  assumes "PopulateDrmLayer K F e G cx c i l d = Some d'"
  shows "marks d' = (word_of_int i, True, False, bUseRga (buf d))"
proof -
  have "marks d' = marks (SetBlend (ls_blending (mCurrentState l)) (d\<lparr>
                uId := word_of_int i, iZpos := sint (ls_z_order (mCurrentState l)), bFbTarget := False,
                bSkipLayer := False, bUse := True, eDataSpace := ls_dataspace (mCurrentState l),
                alpha := alpha16 (ls_alpha (mCurrentState l)), sf_composition := sf_type (mCurrentState l),
                iBestPlaneType := 0, bSidebandStreamLayer := False, bMatch := False,
                buf := (buf d)\<lparr> acquire_fence := hl_acquire_fence l \<rparr> \<rparr>))"
    using assms marks_Sideband marks_Normal unfolding PopulateDrmLayer_def Let_def
    by (auto split: if_splits)
  then show ?thesis by (simp add: marks_def SetBlend_def)
qed

lemma marks_FB:
  assumes "PopulateFB K F e cx c i l v d = Some d'"
  shows "marks d' = (word_of_int i, True, True, bUseRga (buf d))"
proof (rule marks_via [OF assms [unfolded PopulateFB_def]])
  fix a
  assume "place_layer K cx (ls_source_crop (mCurrentState l)) (mCurrentState l) (fb_start i l v d) = Some a"
  then have "marks a = marks (fb_start i l v d)" by (rule marks_place)
  also have "\<dots> = (word_of_int i, True, True, bUseRga (buf d))"
    by (simp add: fb_start_def Let_def marks_def)
  finally show "marks (fb_fill K c l v a) = (word_of_int i, True, True, bUseRga (buf d))"
    by (cases "if hl_buffer l \<noteq> 0 \<and> \<not> v then hl_info l else None")
      (simp_all add: fb_fill_def Let_def marks_def fill_buffer_def fill_nothing_def)
qed

lemma those_map:
  "those (List.map f xs) = Some ys \<Longrightarrow> list_all2 (\<lambda>x y. f x = Some y) xs ys"
  by (induction xs arbitrary: ys) (auto split: option.splits)

lemma list_all2_marks:
  "list_all2 P xs ys \<Longrightarrow> (\<And>x y. P x y \<Longrightarrow> g y = h x) \<Longrightarrow> List.map g ys = List.map h xs"
  by (induction rule: list_all2_induct) auto

text \<open>The marks of the layers of a frame: those of the application, then the FB target.\<close>

lemma frame_marks:
  assumes "InitDrmHwcLayer K F e G fresh c d = Some ls0"
    and "ModifyHwcLayerDisplayFrame e mode only cx ls0 = Some ls" and "\<not> bUseRga (buf fresh)"
  shows "\<exists>ms. List.map marks ls = ms @ [(0, True, True, False)] \<and>
    mset ms = mset (List.map (\<lambda>(i, l). (ucast i, True, False, False)) (hd_layers d))"
proof -
  obtain l1 fb where l1: "those (List.map (\<lambda>(i, l). PopulateDrmLayer K F e G (ctx d) c (uint i) l fresh)
        (hd_layers d)) = Some l1"
    and fb: "PopulateFB K F e (ctx d) c 0 (client_layer d) True fresh = Some fb"
    and ls0: "ls0 = sort_key iZpos l1 @ [fb]"
    using assms(1) by (auto simp: InitDrmHwcLayer_def bind_eq_Some_conv)
  have "List.map marks l1 = List.map (\<lambda>(i, l). (ucast i, True, False, False)) (hd_layers d)"
    by (rule list_all2_marks [OF those_map [OF l1]]) (auto dest: marks_DrmLayer simp: assms(3))
  moreover have "marks fb = (0, True, True, False)" using marks_FB [OF fb] assms(3) by simp
  moreover have "List.map marks ls = List.map marks ls0"
  proof (cases "List.map marks ls = List.map marks ls0")
    case False
    then have t: "those (List.map (\<lambda>l. if only \<and> \<not> bFbTarget l then Some l
                               else ModifyDisplayFrameForOverscan cx l) ls0) = Some ls"
      using assms(2) by (auto simp: ModifyHwcLayerDisplayFrame_def split: if_splits)
    show ?thesis
      by (rule list_all2_marks [OF those_map [OF t]]) (auto dest: marks_overscan split: if_splits)
  qed
  moreover have "mset (List.map marks (sort_key iZpos l1)) = mset (List.map marks l1)" by simp
  ultimately show ?thesis
    by (intro exI [of _ "List.map marks (sort_key iZpos l1)"] conjI) (simp_all only: ls0, simp)
qed

definition id_of :: "u64 \<Rightarrow> u32" where
  "id_of k = ucast k"

text \<open>Ids fit into 32 bits and none is \<open>0\<close>, the id of the FB target.\<close>

lemma layer_key_back: "k < ucast (i::u32) \<Longrightarrow> (ucast (ucast k :: u32) :: u64) = k"
proof -
  assume "k < ucast i"
  then have "unat k < 2 ^ 32"
    using unsigned_less [of i, where 'a = nat] unat_u32_small [of i]
    by (simp add: word_less_nat_alt unsigned_ucast_eq take_bit_nat_eq_self)
  then have "unat (ucast (ucast k :: u32) :: u64) = unat k"
    using unat_u32_small [of "ucast k"] by (simp add: unsigned_ucast_eq unsigned_take_bit_eq take_bit_nat_eq_self)
  then show ?thesis by (simp add: word_unat_eq_iff)
qed

lemma ucast_u64_inject: "(ucast (a::u32) :: u64) = ucast b \<longleftrightarrow> a = b"
  by (metis layer_key_back ucast_u64_less linorder_neqE order_less_irrefl)

lemma frame_ids:
  fixes ms :: "(u32 \<times> bool \<times> bool \<times> bool) list"
  assumes "layers_ok d"
    and "mset ms = mset (List.map (\<lambda>(i, l). (ucast i, True, False, False)) (hd_layers d))"
  shows "distinct (List.map fst ms)" "0 \<notin> fst ` set ms"
    "\<forall>x \<in> set ms. has_layer (ucast (fst x)) d \<and> snd x = (True, False, False)"
    "\<forall>k. has_layer k d \<longrightarrow> (\<exists>x \<in> set ms. ucast (fst x) = k)"
proof -
  let ?f = "\<lambda>k :: u64. ucast k :: u32"
  have same: "ucast (?f k) = k" if "k \<in> fst ` set (hd_layers d)" for k
    using assms(1) that layer_key_back by (auto simp: layers_ok_def)
  have "inj_on ?f (set (List.map fst (hd_layers d)))"
    by (rule inj_on_inverseI [of _ ucast]) (use same in simp)
  then have "distinct (List.map ?f (List.map fst (hd_layers d)))"
    using assms(1) by (simp only: distinct_map layers_ok_def simp_thms)
  moreover have "mset (List.map fst ms) = mset (List.map ?f (List.map fst (hd_layers d)))"
    using arg_cong [OF assms(2), of "image_mset fst"] by (simp add: case_prod_beta multiset.map_comp o_def)
  ultimately show "distinct (List.map fst ms)" using mset_eq_imp_distinct_iff by blast
  have st: "set ms = (\<lambda>(i, l). (?f i, True, False, False)) ` set (hd_layers d)"
    using arg_cong [OF assms(2), of set_mset] by simp
  show "0 \<notin> fst ` set ms"
  proof
    assume "0 \<in> fst ` set ms"
    then obtain k where "k \<in> fst ` set (hd_layers d)" "?f k = 0" unfolding st by force
    then have "k = 0" using same [of k] by simp
    with \<open>k \<in> _\<close> show False using assms(1) by (auto simp: layers_ok_def)
  qed
  show "\<forall>x \<in> set ms. has_layer (ucast (fst x)) d \<and> snd x = (True, False, False)"
    unfolding st has_layer_def using same by force
  show "\<forall>k. has_layer k d \<longrightarrow> (\<exists>x \<in> set ms. ucast (fst x) = k)"
    unfolding st has_layer_def using same by force
qed

section \<open>Settling the types\<close>

lemma settle_layer_other:
  assumes "settle_layer l d = Some d'"
  shows "List.map fst (hd_layers d') = List.map fst (hd_layers d)" "layer_idx d' = layer_idx d"
    "bFbTarget l \<or> ucast (uId l) \<noteq> k \<Longrightarrow> layer_map d' k = layer_map d k"
    "composition_planes d' = composition_planes d" "drm_hwc_layers d' = drm_hwc_layers d"
  using assms by (auto simp: settle_layer_def layer_map_def upd_layer_def map_of_upd split: if_splits)

lemma settle_layers_frame:
  assumes "settle_layers ls d = Some d'"
  shows "List.map fst (hd_layers d') = List.map fst (hd_layers d) \<and> layer_idx d' = layer_idx d \<and>
    composition_planes d' = composition_planes d \<and> drm_hwc_layers d' = drm_hwc_layers d"
  using assms
proof (induction ls arbitrary: d)
  case (Cons l ls)
  then obtain d1 where "settle_layer l d = Some d1" "settle_layers ls d1 = Some d'"
    by (auto simp: bind_eq_Some_conv)
  from Cons.IH [OF this(2)] settle_layer_other(1,2,4,5) [OF this(1)] show ?case by simp
qed simp

lemma settle_layers_outside:
  assumes "settle_layers ls d = Some d'" "\<forall>l \<in> set ls. bFbTarget l \<or> ucast (uId l) \<noteq> k"
  shows "layer_map d' k = layer_map d k"
  using assms
proof (induction ls arbitrary: d)
  case (Cons l ls)
  then obtain d1 where "settle_layer l d = Some d1" "settle_layers ls d1 = Some d'"
    by (auto simp: bind_eq_Some_conv)
  from Cons.IH [OF this(2)] settle_layer_other(3) [OF this(1), of k] Cons.prems(2) show ?case by simp
qed simp

lemma settle_layers_total:
  assumes "\<forall>l \<in> set ls. bFbTarget l \<or> has_layer (ucast (uId l)) d"
  shows "\<exists>d'. settle_layers ls d = Some d'"
  using assms
proof (induction ls arbitrary: d)
  case (Cons l ls)
  then obtain d1 where d1: "settle_layer l d = Some d1" by (cases "bFbTarget l") (auto simp: settle_layer_def)
  have "has_layer k d1 = has_layer k d" for k
    using settle_layer_other(1) [OF d1] unfolding has_layer_def keys_set by simp
  with Cons d1 show ?case by simp
qed simp

lemma settle_layers_sets:
  assumes "settle_layers ls d = Some d'" "l \<in> set ls" "\<not> bFbTarget l"
    and "distinct (List.map uId (filter (\<lambda>l. \<not> bFbTarget l) ls))"
  shows "layer_map d' (ucast (uId l)) =
    map_option (set_validated_type (if bMatch l then Device else Client)) (layer_map d (ucast (uId l)))"
  using assms
proof (induction ls arbitrary: d)
  case (Cons x ls)
  then obtain d1 where d1: "settle_layer x d = Some d1" "settle_layers ls d1 = Some d'"
    by (auto simp: bind_eq_Some_conv)
  have u: "ucast (uId y) = (ucast (uId l) :: u64) \<longleftrightarrow> uId y = uId l" for y
    by (rule ucast_u64_inject)
  show ?case
  proof (cases "l = x")
    case True
    then have "\<forall>y \<in> set ls. bFbTarget y \<or> ucast (uId y) \<noteq> (ucast (uId l) :: u64)"
      using Cons.prems(3,4) unfolding u by (auto simp: image_iff)
    from settle_layers_outside [OF d1(2) this] d1(1) True Cons.prems(3)
    show ?thesis by (auto simp: settle_layer_def split: if_splits)
  next
    case False
    then have l: "l \<in> set ls" using Cons.prems(2) by simp
    then have "bFbTarget x \<or> ucast (uId x) \<noteq> (ucast (uId l) :: u64)"
      using Cons.prems(3,4) unfolding u by force
    with settle_layer_other(3) [OF d1(1)] Cons.IH [OF d1(2) l Cons.prems(3)] Cons.prems(4)
    show ?thesis by (simp split: if_splits)
  qed
qed simp

section \<open>A frame through the policy\<close>

lemma map_store [simp]: "List.map (\<lambda>p. f (store_layers ls h p)) [0..<length ls] = List.map f ls"
  by (rule nth_equalityI) (simp_all add: store_layers_def)

lemma store_nth: "p < length ls \<Longrightarrow> store_layers ls h p = ls ! p"
  by (simp add: store_layers_def)

text \<open>
  The layers of a frame as the policy needs them: ids apart and not \<open>0\<close>, the FB target last.
\<close>

definition frame_layers :: "hwc_display \<Rightarrow> DrmHwcLayer list \<Rightarrow> bool" where
  "frame_layers d ls \<longleftrightarrow>
     distinct (List.map uId ls) \<and> (\<forall>l \<in> set ls. bUse l \<and> \<not> bUseRga (buf l)) \<and>
     (\<exists>fb \<in> set ls. bFbTarget fb) \<and>
     (\<forall>l \<in> set ls. \<not> bFbTarget l \<longrightarrow> has_layer (ucast (uId l)) d) \<and>
     (\<forall>k. has_layer k d \<longrightarrow> (\<exists>l \<in> set ls. \<not> bFbTarget l \<and> ucast (uId l) = k))"

lemma frame_layers_marks:
  assumes "layers_ok d" and m: "List.map marks ls = ms @ [(0, True, True, False)]"
    and e: "mset ms = mset (List.map (\<lambda>(i, l). (ucast i, True, False, False)) (hd_layers d))"
  shows "frame_layers d ls"
proof -
  note i = frame_ids [OF assms(1) e]
  have mem: "marks l \<in> set ms \<or> marks l = (0, True, True, False)" if "l \<in> set ls" for l
    using that m by (metis (no_types, lifting) Un_insert_right append_Nil2 imageI insert_iff list.set(1)
        list.set(2) list.set_map set_append)
  have ids: "List.map uId ls = List.map fst ms @ [0]"
    using arg_cong [OF m, of "List.map fst"] by (simp add: marks_def o_def)
  have "distinct (List.map uId ls)" unfolding ids using i(1,2) by simp
  moreover have "\<forall>l \<in> set ls. bUse l \<and> \<not> bUseRga (buf l)"
    using mem i(3) by (fastforce simp: marks_def)
  moreover have "\<exists>fb \<in> set ls. bFbTarget fb"
  proof -
    have "(0, True, True, False) \<in> marks ` set ls" unfolding list.set_map [symmetric] m by simp
    then show ?thesis by (auto simp: marks_def)
  qed
  moreover have "\<forall>l \<in> set ls. \<not> bFbTarget l \<longrightarrow> has_layer (ucast (uId l)) d"
    using mem i(3) by (fastforce simp: marks_def)
  moreover have "\<exists>l \<in> set ls. \<not> bFbTarget l \<and> ucast (uId l) = k" if "has_layer k d" for k
  proof -
    from i(4) that obtain x where x: "x \<in> set ms" "ucast (fst x) = k" by blast
    then have "x \<in> marks ` set ls" unfolding list.set_map [symmetric] m by simp
    then obtain l where "l \<in> set ls" "marks l = x" by blast
    then show ?thesis using x i(3) by (intro bexI [of _ l]) (auto simp: marks_def)
  qed
  ultimately show ?thesis unfolding frame_layers_def by blast
qed

lemma frame_blit_ready:
  assumes fl: "frame_layers d ls" and ne: "hd_layers d \<noteq> []"
    and "\<forall>l \<in> set ls. frame_ok l" "queue_ok (rg_queue g)"
    and h: "heap s = store_layers ls h0"
  shows "blit_ready [0..<length ls] s g"
proof -
  have at: "P (heap s p)" if "p \<in> set [0..<length ls]" "\<forall>l \<in> set ls. P l" for p P
    using that by (simp add: h store_nth)
  have ex: "\<exists>p \<in> set [0..<length ls]. P (heap s p)" if l: "l \<in> set ls" "P l" for l P
  proof -
    from l(1) obtain p where "p < length ls" "ls ! p = l" by (auto simp: in_set_conv_nth)
    with l(2) show ?thesis by (intro bexI [of _ p]) (simp_all add: h store_nth)
  qed
  obtain k where "has_layer k d" using ne by (cases "hd_layers d") (auto simp: has_layer_def)
  then obtain l where l: "l \<in> set ls" "\<not> bFbTarget l" using fl by (auto simp: frame_layers_def)
  obtain fb where fb: "fb \<in> set ls" "bFbTarget fb" using fl by (auto simp: frame_layers_def)
  have "distinct_layers (heap s) [0..<length ls]"
    using fl by (simp add: distinct_layers_def h frame_layers_def)
  moreover have "\<forall>p \<in> set [0..<length ls]. bUse (heap s p)"
    using fl at [where P = bUse] by (simp add: frame_layers_def)
  moreover have "own [0..<length ls] s"
    using fl at [where P = "\<lambda>l. \<not> bUseRga (buf l)"] by (simp add: frame_layers_def own_def)
  moreover have "\<forall>p \<in> set [0..<length ls]. frame_ok (heap s p)"
    using assms(3) at [where P = frame_ok] by simp
  ultimately show "blit_ready [0..<length ls] s g"
    using ex [of l "\<lambda>l. \<not> bFbTarget l"] ex [of fb bFbTarget] l fb assms(4)
    unfolding blit_ready_def ready_def is_fb_def by blast
qed

text \<open>
  On a display of a video wall no blit fails, and the split policy has no buffer to use again: its
  queue is empty or no layer has the buffer id it remembers.
\<close>

definition wall_ok ::
  "sdk \<Rightarrow> rga_env \<Rightarrow> env \<Rightarrow> hwc_display \<Rightarrow> DrmHwcLayer list \<Rightarrow> vop \<Rightarrow> rga_state \<Rightarrow> bool" where
  "wall_ok K R E d ls s g \<longleftrightarrow>
     (splits K E [0..<length ls] (groups_of_display E (hd_handle d) (gheap s)) (static_screen_opt d \<or> force_gles d)
        (s\<lparr> heap := store_layers ls (heap s), comp := [] \<rparr>) \<longrightarrow>
      reliable R \<and> (bufferQueue (rg_queue g) = [] \<or> (\<forall>l \<in> set ls. uBufferId (buf l) \<noteq> last_split_id g)))"

text \<open>The planner either gives up or hands out a frame that is shown.\<close>

lemma planner_result:
  assumes "blit_ready L (s\<lparr> comp := [] \<rparr>) g"
    "splits K E L pgs gles (s\<lparr> comp := [] \<rparr>) \<longrightarrow> reliable R \<and> split_fresh L (s\<lparr> comp := [] \<rparr>) g"
  shows "\<exists>ret ly s' g'. Planner_TryHwcPolicy K F R E soc pgs gles L (s, g) = Some (ret, ly, s', g') \<and>
    (ret = 0 \<longrightarrow> won (identity s) K R E pgs L ly s')"
proof (cases "soc = 0x3588 \<and> crtc_soc_id E = 0x3588 \<and> pgs \<noteq> []")
  case True
  have i: "identity (s\<lparr> comp := [] \<rparr>) = identity s" by (simp add: identity_def)
  from ladder_result [OF assms(1) _ assms(2), where F = F] True
  show ?thesis unfolding i by (auto simp: reached_def Planner_stages split: if_splits)
next
  case False
  then show ?thesis by (auto simp: Planner_stages TryHwcPolicy_def)
qed

lemma won_shown:
  assumes "won I K R E pgs L ly s" "reliable R" "p \<in> set L" "bMatch (heap s p)"
  shows "shown s p"
proof -
  obtain L0 M where w: "mset L0 = mset L" "matched K E pgs M s" "\<forall>p \<in> set L0. bMatch (heap s p) \<longleftrightarrow> p \<in> set M"
    using assms(1,2) by (auto simp: won_def success_def)
  from w(1) have "set L0 = set L" by (metis set_mset_mset)
  with w assms(3,4) show ?thesis by (simp add: matched_def shown_def)
qed

definition on_plane :: "hwc_display \<Rightarrow> DrmHwcLayer \<Rightarrow> bool" where
  "on_plane d q \<longleftrightarrow> (\<exists>e \<in> set (composition_planes d). cp_source e = iDrmZpos q)"

text \<open>The two ways \<open>ValidatePlanes\<close> ends.\<close>

lemma ValidatePlanes_run:
  fixes s :: vop and E :: env
  assumes d: "layers_ok d" "hd_layers d \<noteq> []"
    and ls: "InitDrmHwcLayer K F (rg_layer R) G fresh c d = Some ls0"
      "ModifyHwcLayerDisplayFrame (rg_layer R) mode False (ctx d) ls0 = Some ls"
    and fr: "\<not> bUseRga (buf fresh)" "\<forall>l \<in> set ls. frame_ok l"
    and g: "queue_ok (rg_queue g)" "wall_ok K R E d ls s g"
  defines "s1 \<equiv> s\<lparr> heap := store_layers ls (heap s) \<rparr>" and "L \<equiv> [0..<length ls]"
    and "pgs \<equiv> groups_of_display E (hd_handle d) (gheap s)"
  shows "\<exists>s' g' d'.
    frame_layers d ls \<and> List.map fst (hd_layers d') = List.map fst (hd_layers d) \<and> layer_idx d' = layer_idx d \<and>
    drm_hwc_layers d' = List.map (heap s') L \<and> composition_planes d' = comp s' \<and>
    (ValidatePlanes K F G R E soc mode fresh c (s, g) d = Some (BadConfig, (s', g'), d') \<and>
       layer_map d' = layer_map d \<or>
     ValidatePlanes K F G R E soc mode fresh c (s, g) d = Some (E_None, (s', g'), d') \<and>
       (\<exists>ly. won (identity s1) K R E pgs L ly s') \<and>
       settle_layers (List.map (heap s') L)
         (d\<lparr> drm_hwc_layers := List.map (heap s') L, composition_planes := comp s' \<rparr>) = Some d' \<and>
       (\<forall>p < length ls. uId (heap s' p) = uId (ls ! p) \<and> bFbTarget (heap s' p) = bFbTarget (ls ! p)))"
proof -
  obtain ms where ms: "List.map marks ls = ms @ [(0, True, True, False)]"
    "mset ms = mset (List.map (\<lambda>(i, l). (ucast i, True, False, False)) (hd_layers d))"
    using frame_marks [OF ls fr(1)] by blast
  have fl: "frame_layers d ls" by (rule frame_layers_marks [OF d(1) ms])
  have br: "blit_ready L (s1\<lparr> comp := [] \<rparr>) g"
    unfolding L_def s1_def by (rule frame_blit_ready [OF fl d(2) fr(2) g(1)]) simp
  have sp: "splits K E L pgs (static_screen_opt d \<or> force_gles d) (s1\<lparr> comp := [] \<rparr>) \<longrightarrow>
      reliable R \<and> split_fresh L (s1\<lparr> comp := [] \<rparr>) g"
    using g(2) by (auto simp: wall_ok_def L_def s1_def pgs_def split_fresh_def store_nth)
  obtain ret ly s' g' where r: "Planner_TryHwcPolicy K F R E soc pgs (static_screen_opt d \<or> force_gles d) L
        (s1, g) = Some (ret, ly, s', g')" "ret = 0 \<longrightarrow> won (identity s1) K R E pgs L ly s'"
    using planner_result [OF br sp, of F soc] by blast
  let ?qs = "List.map (heap s') L"
  let ?d1 = "d\<lparr> drm_hwc_layers := ?qs, composition_planes := comp s' \<rparr>"
  have v: "ValidatePlanes K F G R E soc mode fresh c (s, g) d =
      (if ret \<noteq> 0 then Some (BadConfig, (s', g'), ?d1)
       else map_option (\<lambda>d2. (E_None, (s', g'), d2)) (settle_layers ?qs ?d1))"
    using r(1) by (simp add: ValidatePlanes_def ls Let_def s1_def L_def pgs_def)
  show ?thesis
  proof (cases "ret = 0")
    case False
    with v fl show ?thesis
      by (intro exI [of _ s'] exI [of _ g'] exI [of _ ?d1]) (simp add: layer_map_def)
  next
    case True
    then have w: "won (identity s1) K R E pgs L ly s'" using r(2) by simp
    have "ident (heap s' p) = ident (heap s1 p)" for p
      using w unfolding won_def identity_def by metis
    then have idn: "uId (heap s' p) = uId (ls ! p)" "bFbTarget (heap s' p) = bFbTarget (ls ! p)"
      if "p < length ls" for p using that by (simp_all add: ident_def store_nth s1_def)
    have hm: "has_layer k ?d1 = has_layer k d" for k by (simp add: has_layer_def)
    have in_d: "bFbTarget q \<or> has_layer (ucast (uId q)) ?d1" if q: "q \<in> set ?qs" for q
    proof -
      from q obtain p where p: "p < length ls" "q = heap s' p" by (auto simp: L_def)
      have "\<not> bFbTarget (ls ! p) \<longrightarrow> has_layer (ucast (uId (ls ! p))) d"
        using fl p(1) by (simp add: frame_layers_def)
      then show ?thesis unfolding hm p(2) idn [OF p(1)] by blast
    qed
    then have "\<forall>q \<in> set ?qs. bFbTarget q \<or> has_layer (ucast (uId q)) ?d1" by blast
    from settle_layers_total [OF this] obtain d' where d': "settle_layers ?qs ?d1 = Some d'" by blast
    with settle_layers_frame [OF d'] v True w idn fl show ?thesis
      by (intro exI [of _ s'] exI [of _ g'] exI [of _ d']) auto
  qed
qed

text \<open>
  C7: What the policy decided for a frame reaches the right layers.  Let a display have at least one
  layer and its layer map be well formed (ids distinct, below the counter and not \<open>0\<close>), let building
  the layers of the frame return, every display frame be non-empty after the overscan, the buffer
  queue be well formed and, on a display of a video wall, no blit fail and the split policy have no
  buffer to use again.  Then \<open>ValidatePlanes\<close> returns.  On success every layer is \<open>Device\<close> if its
  \<open>DrmHwcLayer\<close> was matched and \<open>Client\<close> otherwise, nothing else of it has changed, and no plane is
  used twice; and if no blit of the 2D engine fails, every matched layer is in the composition, and
  either all layers of the application are matched or an FB target is, which shows the \<open>Client\<close>
  layers.  Otherwise \<open>BadConfig\<close> is reported and no type has been touched.
\<close>

theorem validated_frame_is_shown:
  assumes d: "layers_ok d" "hd_layers d \<noteq> []"
    and ls: "InitDrmHwcLayer K F (rg_layer R) G fresh c d = Some ls0"
      "ModifyHwcLayerDisplayFrame (rg_layer R) mode False (ctx d) ls0 = Some ls"
    and fr: "\<not> bUseRga (buf fresh)" "\<forall>l \<in> set ls. frame_ok l"
    and g: "queue_ok (rg_queue g)" "wall_ok K R E d ls s g"
  shows "\<exists>err s' g' d'. ValidatePlanes K F G R E soc mode fresh c (s, g) d = Some (err, (s', g'), d') \<and>
    (if err = E_None then
       (\<forall>k l. layer_map d k = Some l \<longrightarrow> (\<exists>q \<in> set (drm_hwc_layers d'). \<not> bFbTarget q \<and>
          ucast (uId q) = k \<and> (reliable R \<and> bMatch q \<longrightarrow> on_plane d' q) \<and>
          layer_map d' k = Some (set_validated_type (if bMatch q then Device else Client) l))) \<and>
       distinct (List.map cp_plane (composition_planes d')) \<and>
       (reliable R \<longrightarrow>
        (\<forall>q \<in> set (drm_hwc_layers d'). \<not> bFbTarget q \<longrightarrow> bMatch q) \<or>
        (\<exists>q \<in> set (drm_hwc_layers d'). bFbTarget q \<and> bMatch q \<and> on_plane d' q))
     else err = BadConfig \<and> layer_map d' = layer_map d)"
proof -
  let ?L = "[0..<length ls]"
  let ?s1 = "s\<lparr> heap := store_layers ls (heap s) \<rparr>"
  let ?pgs = "groups_of_display E (hd_handle d) (gheap s)"
  obtain s' g' d' where run: "frame_layers d ls" "drm_hwc_layers d' = List.map (heap s') ?L"
    "composition_planes d' = comp s'"
    "ValidatePlanes K F G R E soc mode fresh c (s, g) d = Some (BadConfig, (s', g'), d') \<and>
       layer_map d' = layer_map d \<or>
     ValidatePlanes K F G R E soc mode fresh c (s, g) d = Some (E_None, (s', g'), d') \<and>
       (\<exists>ly. won (identity ?s1) K R E ?pgs ?L ly s') \<and>
       settle_layers (List.map (heap s') ?L)
         (d\<lparr> drm_hwc_layers := List.map (heap s') ?L, composition_planes := comp s' \<rparr>) = Some d' \<and>
       (\<forall>p < length ls. uId (heap s' p) = uId (ls ! p) \<and> bFbTarget (heap s' p) = bFbTarget (ls ! p))"
    using ValidatePlanes_run [OF assms, where soc = soc] by blast
  note fl = run(1) and fields = run(2,3)
  let ?qs = "List.map (heap s') ?L"
  let ?d1 = "d\<lparr> drm_hwc_layers := ?qs, composition_planes := comp s' \<rparr>"
  from run(4) show ?thesis
  proof (elim disjE conjE exE)
    assume "ValidatePlanes K F G R E soc mode fresh c (s, g) d = Some (BadConfig, (s', g'), d')"
      "layer_map d' = layer_map d"
    then show ?thesis by simp
  next
    fix ly
    assume v: "ValidatePlanes K F G R E soc mode fresh c (s, g) d = Some (E_None, (s', g'), d')"
      and w: "won (identity ?s1) K R E ?pgs ?L ly s'" and d': "settle_layers ?qs ?d1 = Some d'"
      and idn: "\<forall>p < length ls. uId (heap s' p) = uId (ls ! p) \<and> bFbTarget (heap s' p) = bFbTarget (ls ! p)"
    have "List.map uId ?qs = List.map uId ls"
      by (rule nth_equalityI) (simp_all add: idn)
    then have dq: "distinct (List.map uId (filter (\<lambda>l. \<not> bFbTarget l) ?qs))"
      using fl by (metis distinct_map_filter frame_layers_def)
    have shownq: "on_plane d' (heap s' p)" if "p < length ls" "bMatch (heap s' p)" "reliable R" for p
      using won_shown [OF w that(3), of p] that by (auto simp: shown_def on_plane_def fields)
    have types: "\<exists>q \<in> set (drm_hwc_layers d'). \<not> bFbTarget q \<and> ucast (uId q) = k \<and>
        (reliable R \<and> bMatch q \<longrightarrow> on_plane d' q) \<and>
        layer_map d' k = Some (set_validated_type (if bMatch q then Device else Client) l)"
      if k: "layer_map d k = Some l" for k l
    proof -
      have "has_layer k d" using k by (simp add: has_layer_map)
      then obtain x where "x \<in> set ls" "\<not> bFbTarget x" "ucast (uId x) = k"
        using fl by (auto simp: frame_layers_def)
      then obtain p where p: "p < length ls" "\<not> bFbTarget (heap s' p)" "ucast (uId (heap s' p)) = k"
        using idn by (auto simp: in_set_conv_nth)
      from settle_layers_sets [OF d' _ p(2) dq] p k shownq [OF p(1)]
      show ?thesis by (intro bexI [of _ "heap s' p"]) (simp_all add: fields layer_map_def)
    qed
    have fb: "(\<forall>p \<in> set ?L. \<not> is_fb (heap ?s1) p \<longrightarrow> shown s' p) \<or>
        (\<forall>p \<in> set ?L. is_fb (heap ?s1) p \<longrightarrow> shown s' p)" if "reliable R"
      using won_entries(3) [OF w] that unfolding won_fb [OF w] by simp
    obtain p0 where p0: "p0 < length ls" "bFbTarget (ls ! p0)"
      using fl by (auto simp: frame_layers_def in_set_conv_nth)
    have "(\<forall>q \<in> set ?qs. \<not> bFbTarget q \<longrightarrow> bMatch q) \<or>
        (\<exists>q \<in> set ?qs. bFbTarget q \<and> bMatch q \<and> on_plane d' q)" if R: "reliable R"
      using fb [OF R]
    proof
      assume "\<forall>p \<in> set ?L. \<not> is_fb (heap ?s1) p \<longrightarrow> shown s' p"
      then show ?thesis using idn by (auto simp: is_fb_def store_nth shown_def)
    next
      assume "\<forall>p \<in> set ?L. is_fb (heap ?s1) p \<longrightarrow> shown s' p"
      then have "bMatch (heap s' p0)" using p0 by (simp add: is_fb_def store_nth shown_def)
      then show ?thesis using p0 idn shownq [OF p0(1) _ R] by auto
    qed
    with types won_entries(1) [OF w] v show ?thesis by (simp add: fields)
  qed
qed

text \<open>A display with one layer of an application.\<close>

definition layer_state0 :: hwc2_layer_state where
  "layer_state0 =
     \<lparr> ls_buffer = 0, ls_sideband = 0, sf_type = Device, validated_type = Invalid, hwc3_sf_type = 0,
       ls_alpha = 1, ls_blending = BlendNone, ls_transform = T_None, ls_dataspace = 0,
       ls_display_frame = \<lparr> left = 0, top = 0, right = 100, bottom = 100 \<rparr>,
       ls_source_crop = \<lparr> fleft = 0, ftop = 0, fright = 100, fbottom = 100 \<rparr>, ls_cursor = (0, 0),
       ls_color = (0, 0, 0, 0), ls_z_order = 0 \<rparr>"

definition hwc_layer0 :: hwc_layer where
  "hwc_layer0 =
     \<lparr> hl_id = 1, hl_buffer = 0, bSideband2 = False, bSideband2Valid = False,
       sidebandStreamHandle = 0, mSidebandInfo = zero_sideband, mCurrentState = layer_state0,
       mDrawingState = layer_state0, hl_acquire_fence = -1, release_fences = (-1, -1),
       bHasCache = False, bUseSlotCache = False, uCacheSlot = -1, bufferInfoMap = [],
       layer_name = ''app'', is_afbc = False, hl_info = None, uFrameCnt = 0, uLastFrameCnt = 0,
       lastTimeRecod = 0, last_buffer_id_timestamp = 0, hl_last_buffer_id = 0, bUpdate = False,
       mFps = Some 0, mSvepFps = Some 30 \<rparr>"

definition handle_info0 :: handle_info where
  "handle_info0 =
     \<lparr> gi_buffer_id = 7, gi_fd = 5, gi_width = 100, gi_height = 100, gi_stride = 128, gi_size = 51200,
       gi_height_stride = 100, gi_byte_stride = 512, gi_format = 1, gi_usage = 0,
       gi_fourcc = 0x34324241, gi_modifier = 0, gi_planes = [512], gi_name = ''app'',
       gi_pq_offset = 0, gi_hdr_offset = 0 \<rparr>"

definition gralloc0 :: gralloc where
  "gralloc0 =
     \<lparr> gr_info = (\<lambda>h. handle_info0\<lparr> gi_buffer_id := of_nat h \<rparr>), gr_import = (\<lambda>h. None),
       gr_dup = (\<lambda>fd. fd), gr_fd_valid = (\<lambda>fd. 0 \<le> fd), gr_fourcc_from_hal = (\<lambda>f. 0x34324241),
       gr_sideband = (\<lambda>h. zero_sideband) \<rparr>"

definition caches0 :: caches where
  "caches0 = \<lparr> next_info = 0, info_at = (\<lambda>i. describe gralloc0 0 0) \<rparr>"

definition display1 :: hwc_display where
  "display1 =
     \<lparr> hd_handle = 0, hd_virtual = False, hd_connector = None, hd_crtc = None, sf_modes = [],
       layer_idx = 2, hd_layers = [(1, hwc_layer0)], client_layer = hwc_layer0,
       output_layer = hwc_layer0, drm_hwc_layers = [], composition_planes = [], color_mode = -1,
       init_success = True, force_disconneted = False, validate_success = False,
       ctx = \<lparr> bStandardSwitchResolution = False, framebuffer_width = 1920,
         framebuffer_height = 1080, rel_xoffset = 0, rel_yoffset = 0, rel_xres = 1920,
         rel_yres = 1080, overscan_value = [] \<rparr>,
       ctx_vrefresh = 60, ctx_dclk = 0, static_screen_opt = False, static_screen_timer = False,
       force_gles = False, d_retire_fence = (-1, -1), hd_frame_no = 0, bVrrDisplay = False,
       bActiveModeChange = False, split_dummy = 0 \<rparr>"

lemma layers_ok_display1: "layers_ok display1"
  by (simp add: layers_ok_def display1_def)

text \<open>A new \<open>DrmHwcLayer\<close>, with the buffer id \<open>0\<close>.\<close>

definition fresh0 :: DrmHwcLayer where
  "fresh0 = layer0\<lparr> buf := buf0\<lparr> uBufferId := 0 \<rparr> \<rparr>"

lemma display1_frame:
  assumes "hd_layers d = [(1, set_validated_type t hwc_layer0)]" "client_layer d = hwc_layer0"
    and "ctx d = ctx display1"
  shows "\<exists>a b. InitDrmHwcLayer sdk0 formats0 layer_env0 gralloc0 fresh0 caches0 d = Some [a, b] \<and>
     uBufferId (buf a) = 0 \<and> uBufferId (buf b) = 0 \<and>
     display_frame a = \<lparr> left = 0, top = 0, right = 100, bottom = 100 \<rparr> \<and>
     display_frame b = \<lparr> left = 0, top = 0, right = 100, bottom = 100 \<rparr> \<and>
     source_crop a = \<lparr> fleft = 0, ftop = 0, fright = 100, fbottom = 100 \<rparr> \<and>
     source_crop b = \<lparr> fleft = 0, ftop = 0, fright = 100, fbottom = 100 \<rparr>"
  by (simp add: assms set_validated_type_def upd_cur_def InitDrmHwcLayer_def display1_def PopulateDrmLayer_def PopulateFB_def Let_def hwc_layer0_def
      PopulateNormalLayer_def place_layer_def SetDisplayFrame_def part_of_1 frame_scale_same layer_Init_def IsScale_def
      layer_state0_def SetTransform_def SetSourceCrop_def fill_nothing_def fb_start_def fb_fill_def
      SetBlend_def fresh0_def layer0_def buf0_def kRotate90_def kRotate270_def sdk0_def transform_bits_def)

lemma display1_layers: "hd_layers display1 = [(1, set_validated_type Invalid hwc_layer0)]"
  by (simp add: display1_def set_validated_type_def upd_cur_def hwc_layer0_def layer_state0_def)

lemma display1_overscan:
  assumes "display_frame a = \<lparr> left = 0, top = 0, right = 100, bottom = 100 \<rparr>" "uBufferId (buf a) = 0"
    and "source_crop a = \<lparr> fleft = 0, ftop = 0, fright = 100, fbottom = 100 \<rparr>"
  shows "\<exists>a'. ModifyDisplayFrameForOverscan (ctx display1) a = Some a' \<and> frame_ok a'"
  using assms
  by (simp add: ModifyDisplayFrameForOverscan_def display1_def scan_overscan_def margin_def
      margin_scale_def shrink_start_def shrink_size_def part_of_def IsScale_def Let_def frame_ok_def
      rga_state0_def split: option.split)

lemma validated_frame_is_shown_witness:
  "\<exists>err s' g' d'. ValidatePlanes sdk0 formats0 gralloc0 rga_env1 env0 0x3588 None fresh0 caches0
       (vop0, rga_state0) display1 = Some (err, (s', g'), d') \<and>
     (err = E_None \<longrightarrow> (\<exists>t \<in> {Device, Client}. layer_map d' 1 = Some (set_validated_type t hwc_layer0)))"
proof -
  obtain a b where ab: "InitDrmHwcLayer sdk0 formats0 layer_env0 gralloc0 fresh0 caches0 display1 = Some [a, b]"
    "uBufferId (buf a) = 0" "uBufferId (buf b) = 0"
    "display_frame a = \<lparr> left = 0, top = 0, right = 100, bottom = 100 \<rparr>"
    "display_frame b = \<lparr> left = 0, top = 0, right = 100, bottom = 100 \<rparr>"
    "source_crop a = \<lparr> fleft = 0, ftop = 0, fright = 100, fbottom = 100 \<rparr>"
    "source_crop b = \<lparr> fleft = 0, ftop = 0, fright = 100, fbottom = 100 \<rparr>"
    using display1_frame [OF display1_layers] by (auto simp: display1_def)
  obtain a' b' where a': "ModifyDisplayFrameForOverscan (ctx display1) a = Some a'" "frame_ok a'"
    and b': "ModifyDisplayFrameForOverscan (ctx display1) b = Some b'" "frame_ok b'"
    using display1_overscan ab by meson
  have R: "rg_layer rga_env1 = layer_env0" by (simp add: rga_env1_def rga_env0_def)
  have m: "ModifyHwcLayerDisplayFrame (rg_layer rga_env1) None False (ctx display1) [a, b] = Some [a', b']"
    using a' b' by (simp add: R ModifyHwcLayerDisplayFrame_def layer_env0_def)
  have l: "layer_map display1 1 = Some hwc_layer0" by (simp add: layer_map_def display1_def)
  have wall: "wall_ok sdk0 rga_env1 env0 display1 [a', b'] vop0 rga_state0"
    using reliable_rga_env1 by (simp add: wall_ok_def rga_state0_def queue0_def)
  have "hd_layers display1 \<noteq> []" by (simp add: display1_def)
  moreover have "\<not> bUseRga (buf fresh0)" by (simp add: fresh0_def layer0_def buf0_def)
  moreover have "\<forall>l \<in> set [a', b']. frame_ok l" using a' b' by simp
  moreover have "queue_ok (rg_queue rga_state0)" by (simp add: rga_state0_def queue_ok_queue0)
  moreover have "InitDrmHwcLayer sdk0 formats0 (rg_layer rga_env1) gralloc0 fresh0 caches0 display1 = Some [a, b]"
    using ab(1) R by simp
  ultimately obtain err s' g' d' where v: "ValidatePlanes sdk0 formats0 gralloc0 rga_env1 env0 0x3588 None fresh0 caches0
       (vop0, rga_state0) display1 = Some (err, (s', g'), d')"
    "if err = E_None then
       (\<forall>k l. layer_map display1 k = Some l \<longrightarrow> (\<exists>q \<in> set (drm_hwc_layers d'). \<not> bFbTarget q \<and>
          ucast (uId q) = k \<and> (reliable rga_env1 \<and> bMatch q \<longrightarrow> on_plane d' q) \<and>
          layer_map d' k = Some (set_validated_type (if bMatch q then Device else Client) l))) \<and>
       distinct (List.map cp_plane (composition_planes d')) \<and>
       (reliable rga_env1 \<longrightarrow>
        (\<forall>q \<in> set (drm_hwc_layers d'). \<not> bFbTarget q \<longrightarrow> bMatch q) \<or>
        (\<exists>q \<in> set (drm_hwc_layers d'). bFbTarget q \<and> bMatch q \<and> on_plane d' q))
     else err = BadConfig \<and> layer_map d' = layer_map display1"
    using validated_frame_is_shown [OF layers_ok_display1 _ _ m _ _ _ wall,
        where soc = "0x3588" and c = caches0] by blast
  have "\<exists>t \<in> {Device, Client}. layer_map d' 1 = Some (set_validated_type t hwc_layer0)" if "err = E_None"
  proof -
    from v(2) [unfolded that simp_thms if_True, THEN conjunct1, rule_format, OF l] obtain q :: DrmHwcLayer where
      "layer_map d' 1 = Some (set_validated_type (if bMatch q then Device else Client) hwc_layer0)" by blast
    then show ?thesis by (cases "bMatch q") auto
  qed
  with v(1) show ?thesis by blast
qed

end
