(* ===== verification/Hwc_Frame.thy ===== *)
theory Hwc_Frame
  imports Hwc_Display_Props Pipe_Claims
begin

text \<open>
  What the HWC2 calls on a display promise over a frame: the number of changed types, the fence of
  a frame and the cache of buffer slots (\<open>Hwc_Display\<close>, \<open>Hwc_Layer\<close>).
\<close>

lemma layers_are_a_map_witness:
  "(case CreateLayer hwc_layer0 display1 of (err, k, d') \<Rightarrow>
      err = E_None \<and> k = 2 \<and> layer_map d' 2 = Some (new_layer hwc_layer0 2) \<and>
      layer_map d' 1 = Some hwc_layer0 \<and>
      (case DestroyLayer 1 d' of (err', d'') \<Rightarrow> err' = E_None \<and> layer_map d'' 1 = None \<and> layer_map d'' 2 \<noteq> None))"
proof -
  have i: "0 < layer_idx display1" "layer_idx display1 + 1 \<noteq> 0" "layer_idx display1 = 2"
    by (simp_all add: display1_def)
  have k: "fst (snd (CreateLayer hwc_layer0 display1)) = 2" by (simp add: CreateLayer_def i(3))
  have l: "layer_map display1 1 = Some hwc_layer0" by (simp add: layer_map_def display1_def)
  obtain err d1 where c: "CreateLayer hwc_layer0 display1 = (err, 2, d1)"
    using k by (cases "CreateLayer hwc_layer0 display1") auto
  note m = layers_are_a_map [OF layers_ok_display1 i(1,2), of hwc_layer0 1 "SetLayerZOrder 3", unfolded c]
  have d1: "layers_ok d1" "layer_map d1 = (layer_map display1)(2 \<mapsto> new_layer hwc_layer0 2)" "0 < layer_idx d1"
    "err = E_None"
    using m i(3) by simp_all
  have "layer_idx d1 + 1 \<noteq> 0" using c by (auto simp: CreateLayer_def i(3))
  note m2 = layers_are_a_map [OF d1(1,3) this, of hwc_layer0 1 "SetLayerZOrder 3"]
  obtain e2 d2 where x: "DestroyLayer 1 d1 = (e2, d2)" by (cases "DestroyLayer 1 d1")
  have "e2 = E_None \<and> layer_map d2 = (layer_map d1)(1 := None)"
    using m2 l d1(2) by (simp add: x has_layer_map)
  with l d1 show ?thesis by (simp add: c x)
qed

lemma accept_settles_witness:
  "changed_layers display1 \<noteq> [] \<and> changed_layers (snd (AcceptDisplayChanges display1)) = []"
proof -
  have a: "accept_type_change hwc_layer0 = accept_type_change hwc_layer0" ..
  let ?d = "snd (AcceptDisplayChanges display1)"
  have "\<forall>k. rel_option (\<lambda>l l'.
        sf_type (mCurrentState l') = sf_type (mCurrentState l) \<and>
        validated_type (mCurrentState l') = validated_type (mCurrentState l) \<and>
        validated_type (mDrawingState l') = validated_type (mDrawingState l)) (layer_map ?d k) (layer_map ?d k)"
    by (intro allI option.rel_refl) simp
  moreover have "distinct (List.map fst (hd_layers ?d))"
    by (simp add: AcceptDisplayChanges_def display1_def each_layer_def)
  ultimately have "changed_layers ?d = []" using accept_settles [of display1 ?d 0] by blast
  moreover have "changed_layers display1 \<noteq> []"
    by (simp add: changed_layers_def display1_def type_changed_def hwc_layer0_def layer_state0_def)
  ultimately show ?thesis by simp
qed

section \<open>Counting the changes\<close>







section \<open>Fences\<close>

text \<open>
  What \<open>sync_merge\<close> and \<open>dup\<close> promise: a fence stands for the set of points it waits for.
\<close>

definition sync_ok :: "gralloc \<Rightarrow> (int \<Rightarrow> int \<Rightarrow> int) \<Rightarrow> (int \<Rightarrow> 'p set) \<Rightarrow> bool" where
  "sync_ok G sync_merge points \<longleftrightarrow>
     \<not> gr_fd_valid G (-1) \<and>
     (\<forall>a. gr_fd_valid G a \<longrightarrow>
        0 < gr_dup G a \<and> gr_fd_valid G (gr_dup G a) \<and> points (gr_dup G a) = points a) \<and>
     (\<forall>a b. gr_fd_valid G a \<longrightarrow> gr_fd_valid G b \<longrightarrow>
        0 < sync_merge a b \<and> gr_fd_valid G (sync_merge a b) \<and>
        points (sync_merge a b) = points a \<union> points b)"

text \<open>The fences of a frame: of the client layer and of every layer of type \<open>Device\<close>.\<close>

definition frame_fences :: "gralloc \<Rightarrow> hwc_display \<Rightarrow> int set" where
  "frame_fences G d =
     {f. gr_fd_valid G f \<and>
        (f = back_release_fence (client_layer d) \<or>
         (\<exists>(i, l) \<in> set (hd_layers d). validated_type (mCurrentState l) = Device \<and> f = back_release_fence l))}"

lemma merge_fold:
  assumes "sync_ok G m points"
    and "if A = {} then fd = -1 else 0 < fd \<and> gr_fd_valid G fd \<and> points fd = (\<Union>f \<in> A. points f)"
    and "A' = A \<union> {f. gr_fd_valid G f \<and> (\<exists>(i, l) \<in> set ls.
           validated_type (mCurrentState l) = Device \<and> f = back_release_fence l)}"
    and "fd' = fold (\<lambda>(i, l). merge_fence G m l) ls fd"
  shows "if A' = {} then fd' = -1 else 0 < fd' \<and> gr_fd_valid G fd' \<and> points fd' = (\<Union>f \<in> A'. points f)"
  using assms(2-)
proof (induction ls arbitrary: A fd)
  case Nil
  then show ?case by simp
next
  case (Cons x ls)
  obtain i l where x: "x = (i, l)" by (cases x)
  let ?rf = "back_release_fence l"
  let ?use = "validated_type (mCurrentState l) = Device \<and> gr_fd_valid G ?rf"
  let ?B = "if ?use then insert ?rf A else A"
  have step: "if ?B = {} then merge_fence G m l fd = -1 else
      0 < merge_fence G m l fd \<and> gr_fd_valid G (merge_fence G m l fd) \<and>
      points (merge_fence G m l fd) = (\<Union>f \<in> ?B. points f)"
    using assms(1) Cons.prems(1) by (auto simp: merge_fence_def sync_ok_def Let_def split: if_splits)
  have A': "A' = ?B \<union> {f. gr_fd_valid G f \<and> (\<exists>(i, l) \<in> set ls.
           validated_type (mCurrentState l) = Device \<and> f = back_release_fence l)}"
    unfolding Cons.prems(2) x by auto
  show ?case by (rule Cons.IH [OF step A']) (simp add: Cons.prems(3) x)
qed

text \<open>
  C33: The retire fence of a frame covers the frame.  \<open>AddFenceToRetireFence\<close> without a fence of the
  caller joins the fences of the client layer and of all \<open>Device\<close> layers into one that waits for
  exactly their points, or adds an invalid one if there is none; the fence added one frame before
  becomes the one handed out.  This rests on \<open>dup\<close> and \<open>sync_merge\<close> succeeding with a descriptor
  above \<open>0\<close>.
\<close>

theorem retire_fence_covers:
  assumes "sync_ok G sync_merge points"
  shows "let r = d_retire_fence (AddFenceToRetireFence G sync_merge (-1) d); F = frame_fences G d in
     fst r = snd (d_retire_fence d) \<and>
     (if F = {} then snd r = -1
      else gr_fd_valid G (snd r) \<and> points (snd r) = (\<Union>f \<in> F. points f))"
proof -
  let ?rf = "back_release_fence (client_layer d)"
  let ?A = "{f. gr_fd_valid G f \<and> f = ?rf}"
  let ?fd0 = "if gr_fd_valid G ?rf then gr_dup G ?rf else -1"
  let ?fd1 = "fold (\<lambda>(i, l). merge_fence G sync_merge l) (hd_layers d) ?fd0"
  have F: "frame_fences G d = ?A \<union> {f. gr_fd_valid G f \<and> (\<exists>(i, l) \<in> set (hd_layers d).
           validated_type (mCurrentState l) = Device \<and> f = back_release_fence l)}"
    by (auto simp: frame_fences_def)
  have "if ?A = {} then ?fd0 = -1 else 0 < ?fd0 \<and> gr_fd_valid G ?fd0 \<and> points ?fd0 = (\<Union>f \<in> ?A. points f)"
    using assms by (auto simp: sync_ok_def)
  from merge_fold [OF assms this F refl]
  show ?thesis
    using assms by (auto simp: AddFenceToRetireFence_def Let_def acquire_fence_of_def sync_ok_def)
qed

text \<open>Descriptors whose points are the bits of their number; a client layer and one \<open>Device\<close> layer.\<close>

definition gralloc_bits :: gralloc where
  "gralloc_bits = gralloc0\<lparr> gr_fd_valid := (\<lambda>fd. 0 < fd) \<rparr>"

lemma sync_ok_bits: "sync_ok gralloc_bits (\<lambda>a b. a OR b) (\<lambda>a. {n. bit a n})"
proof -
  have "0 < a OR b" if "0 < a" "0 < b" for a b :: int
  proof -
    have "a OR b \<noteq> 0" using that by (simp add: or_eq_0_iff)
    moreover have "0 \<le> a OR b" using that by simp
    ultimately show ?thesis by linarith
  qed
  then show ?thesis
    by (auto simp: sync_ok_def gralloc_bits_def gralloc0_def bit_simps)
qed

definition display_fences :: hwc_display where
  "display_fences = display1\<lparr>
     hd_layers := [(1, (set_validated_type Device hwc_layer0)\<lparr> release_fences := (-1, 4) \<rparr>)],
     client_layer := hwc_layer0\<lparr> release_fences := (-1, 1) \<rparr> \<rparr>"

lemma retire_fence_covers_witness:
  "{n. bit (snd (d_retire_fence (AddFenceToRetireFence gralloc_bits (\<lambda>a b. a OR b) (-1) display_fences))) n} =
   {n. bit (1::int) n} \<union> {n. bit (4::int) n}"
proof -
  have F: "frame_fences gralloc_bits display_fences = {1, 4}"
    by (auto simp: frame_fences_def gralloc_bits_def display_fences_def back_release_fence_def
        set_validated_type_def upd_cur_def)
  show ?thesis
    using retire_fence_covers [OF sync_ok_bits, of display_fences] unfolding F by (simp add: Let_def)
qed

section \<open>Slots\<close>

definition slot_of :: "int \<Rightarrow> int" where
  "slot_of code = RK_DECODING_CALCULATION code RK_BUFFER_SLOT_SHIFT"

definition uses_cache :: "int \<Rightarrow> bool" where
  "uses_cache code \<longleftrightarrow> RK_DECODING_CALCULATION code RK_BUFFER_CACHE_SHIFT = RK_BUFFER_USE_CACHE_FLAG"

text \<open>A frame of a layer: the call that announces the slot in its fence, and the call with the fence.\<close>

definition show_buffer ::
  "sdk \<Rightarrow> formats \<Rightarrow> gralloc \<Rightarrow> int \<Rightarrow> caches \<times> hwc_layer \<Rightarrow> int \<times> int \<times> nat \<times> int \<Rightarrow> caches \<times> hwc_layer" where
  "show_buffer K F G limit cl call =
     (case call of (t, code, h, fence) \<Rightarrow>
        SetLayerBuffer K F G limit t h fence (SetLayerBuffer K F G limit t h code cl))"

definition proper_call :: "int \<times> int \<times> nat \<times> int \<Rightarrow> bool" where
  "proper_call call \<longleftrightarrow> (case call of (t, code, h, fence) \<Rightarrow> code < -1 \<and> h \<noteq> 0 \<and> -1 \<le> fence)"

lemma slot_range: "0 \<le> slot_of code" "slot_of code < 256"
proof -
  have m: "(255::int) = mask 8" by (simp add: mask_eq_exp_minus_1)
  show "0 \<le> slot_of code" by (simp add: slot_of_def RK_DECODING_CALCULATION_def)
  have "slot_of code = take_bit 8 (drop_bit RK_BUFFER_SLOT_SHIFT (- code))"
    by (simp add: slot_of_def RK_DECODING_CALCULATION_def m take_bit_eq_mask)
  then show "slot_of code < 256" using take_bit_int_less_exp [of 8] by simp
qed

lemma slot_key_inject:
  "(word_of_int (slot_of a) :: u64) = word_of_int (slot_of b) \<longleftrightarrow> slot_of a = slot_of b"
  using slot_range [of a] slot_range [of b]
  by (simp add: word_of_int_eq_iff take_bit_int_eq_self)

lemma calculateFPS_keeps [simp]:
  "hl_info (calculateFPS t b l) = hl_info l" "bufferInfoMap (calculateFPS t b l) = bufferInfoMap l"
  "hl_buffer (calculateFPS t b l) = hl_buffer l" "mCurrentState (calculateFPS t b l) = mCurrentState l"
  by (simp_all add: calculateFPS_def Let_def)

lemma set_buffer_keeps [simp]:
  "hl_info (set_buffer h l) = hl_info l" "bufferInfoMap (set_buffer h l) = bufferInfoMap l"
  "hl_buffer (set_buffer h l) = h" "sf_type (mCurrentState (set_buffer h l)) = sf_type (mCurrentState l)"
  by (simp_all add: set_buffer_def upd_cur_def)

text \<open>A proper call of a layer that is not a stream goes through the slot it announces.\<close>

lemma show_buffer_slot:
  assumes "proper_call (t, code, h, fence)" "limit \<le> 0" "sf_type (mCurrentState l) \<noteq> Sideband"
    and r: "show_buffer K F G limit (c, l) (t, code, h, fence) = (c', l')"
  defines "key \<equiv> word_of_int (slot_of code) :: u64"
  shows "sf_type (mCurrentState l') = sf_type (mCurrentState l) \<and>
    (case (if uses_cache code then map_of (bufferInfoMap l) key else None) of
       Some i \<Rightarrow> c' = c \<and> bufferInfoMap l' = bufferInfoMap l \<and> hl_info l' = Some i \<and>
         hl_buffer l' = (if lc_buffer (info_at c i) \<noteq> 0 then lc_buffer (info_at c i) else h)
     | None \<Rightarrow>
         next_info c' = Suc (next_info c) \<and>
         info_at c' = (info_at c)(next_info c := describe G h (gi_buffer_id (gr_info G (used_handle G h)))) \<and>
         bufferInfoMap l' = cache_put key (next_info c) (bufferInfoMap l) \<and>
         hl_info l' = Some (next_info c) \<and> hl_buffer l' = used_handle G h)"
  using assms slot_range [of code]
  by (auto simp: show_buffer_def proper_call_def SetLayerBuffer_def need_cache_def Let_def
      CacheBufferInfoBySlot_def uses_cache_def slot_of_def hit_info_def miss_info_def new_info_def
      split: prod.splits option.splits if_splits)

definition slot_holds :: "u64 \<Rightarrow> nat \<Rightarrow> LayerInfoCache \<Rightarrow> caches \<times> hwc_layer \<Rightarrow> bool" where
  "slot_holds key i D cl \<longleftrightarrow>
     (case cl of (c, l) \<Rightarrow>
        sf_type (mCurrentState l) \<noteq> Sideband \<and> map_of (bufferInfoMap l) key = Some i \<and>
        i < next_info c \<and> info_at c i = D)"

lemma map_of_cache_put: "map_of (cache_put k i m) j = (if j = k then Some i else map_of m j)"
  by (simp add: cache_put_def map_of_filter_neq)

lemma slot_holds_other:
  assumes "slot_holds (word_of_int (slot_of code)) i D cl" "proper_call call" "limit \<le> 0"
    and "slot_of (fst (snd call)) \<noteq> slot_of code"
  shows "slot_holds (word_of_int (slot_of code)) i D (show_buffer K F G limit cl call)"
proof -
  obtain t code' h f where call: "call = (t, code', h, f)" by (cases call)
  obtain c l where cl: "cl = (c, l)" by (cases cl)
  obtain c' l' where r: "show_buffer K F G limit (c, l) (t, code', h, f) = (c', l')"
    by (cases "show_buffer K F G limit (c, l) (t, code', h, f)")
  have k: "(word_of_int (slot_of code') :: u64) \<noteq> word_of_int (slot_of code)"
    using assms(4) unfolding slot_key_inject call by simp
  have n: "sf_type (mCurrentState l) \<noteq> Sideband" using assms(1) by (simp add: cl slot_holds_def)
  from show_buffer_slot [OF assms(2) [unfolded call] assms(3) n r] assms(1) k
  show ?thesis
    by (cases "if uses_cache code' then map_of (bufferInfoMap l) (word_of_int (slot_of code')) else None")
      (auto simp: call cl r slot_holds_def map_of_cache_put)
qed

lemma slot_holds_run:
  assumes "slot_holds (word_of_int (slot_of code)) i D cl" "limit \<le> 0"
    and "\<forall>call \<in> set calls. proper_call call \<and> slot_of (fst (snd call)) \<noteq> slot_of code"
  shows "slot_holds (word_of_int (slot_of code)) i D (foldl (show_buffer K F G limit) cl calls)"
  using assms
proof (induction calls arbitrary: cl)
  case (Cons call calls)
  then have "slot_holds (word_of_int (slot_of code)) i D (show_buffer K F G limit cl call)"
    by (intro slot_holds_other) simp_all
  with Cons show ?case by simp
qed simp

text \<open>
  C34: The slot cache gives back what was put into a slot.  A buffer shown through a slot is described
  once; whatever buffers are shown through other slots, with or without the cache flag, the next
  frame that announces this slot with the flag gets the description of the first buffer, without
  asking the allocator, and its private handle if there is one.  (Without a limit on the size of
  cached buffers.)
\<close>

theorem slot_cache_round_trip:
  assumes "limit \<le> 0" "sf_type (mCurrentState l) \<noteq> Sideband"
    and "proper_call (t, code, h, fence)" "proper_call (t', code', h', fence')"
    and "\<forall>call \<in> set between. proper_call call \<and> slot_of (fst (snd call)) \<noteq> slot_of code"
    and "\<not> uses_cache code" "uses_cache code'" "slot_of code' = slot_of code"
    and "foldl (show_buffer K F G limit) (c, l) ((t, code, h, fence) # between @ [(t', code', h', fence')]) = (c', l')"
  shows "\<exists>i. hl_info l' = Some i \<and>
    info_at c' i = describe G h (gi_buffer_id (gr_info G (used_handle G h))) \<and>
    hl_buffer l' = (if CacheBufferHandle G h \<noteq> 0 then CacheBufferHandle G h else h')"
proof -
  let ?D = "describe G h (gi_buffer_id (gr_info G (used_handle G h)))"
  obtain c1 l1 where r1: "show_buffer K F G limit (c, l) (t, code, h, fence) = (c1, l1)"
    by (cases "show_buffer K F G limit (c, l) (t, code, h, fence)")
  from show_buffer_slot [OF assms(3,1,2) r1] assms(2,6)
  have "slot_holds (word_of_int (slot_of code)) (next_info c) ?D (c1, l1)"
    by (simp add: slot_holds_def map_of_cache_put)
  from slot_holds_run [OF this assms(1,5), of K F G]
  obtain c2 l2 where r2: "foldl (show_buffer K F G limit) (c1, l1) between = (c2, l2)"
    and h2: "slot_holds (word_of_int (slot_of code)) (next_info c) ?D (c2, l2)"
    by (cases "foldl (show_buffer K F G limit) (c1, l1) between") auto
  have r3: "show_buffer K F G limit (c2, l2) (t', code', h', fence') = (c', l')"
    using assms(9) by (simp add: r1 r2)
  have n2: "sf_type (mCurrentState l2) \<noteq> Sideband" using h2 by (simp add: slot_holds_def)
  have d: "lc_buffer ?D = CacheBufferHandle G h" by (simp add: describe_def Let_def)
  from show_buffer_slot [OF assms(4,1) n2 r3] h2 assms(7) show ?thesis
    unfolding assms(8) by (auto simp: slot_holds_def d)
qed

text \<open>Slot 1 is filled, slot 2 used in between, and slot 1 announced again with another handle.\<close>

lemma slot_cache_round_trip_witness:
  "case foldl (show_buffer sdk0 formats0 gralloc0 0) (caches0, hwc_layer0)
      [(0, -256, 7, -1), (1, -512, 8, -1), (2, -65792, 9, -1)] of
     (c', l') \<Rightarrow> \<exists>i. hl_info l' = Some i \<and> lc_buffer_id (info_at c' i) = 7"
proof -
  have code: "\<not> uses_cache (-256)" "uses_cache (-65792)" "slot_of (-65792) = slot_of (-256)"
    "slot_of (-512) \<noteq> slot_of (-256)"
    by (code_simp)+
  have l: "sf_type (mCurrentState hwc_layer0) \<noteq> Sideband"
    by (simp add: hwc_layer0_def layer_state0_def)
  obtain c' l' where r: "foldl (show_buffer sdk0 formats0 gralloc0 0) (caches0, hwc_layer0)
      ((0, -256, 7, -1) # [(1, -512, 8, -1)] @ [(2, -65792, 9, -1)]) = (c', l')"
    by (cases "foldl (show_buffer sdk0 formats0 gralloc0 0) (caches0, hwc_layer0)
      ((0, -256, 7, -1) # [(1, -512, 8, -1)] @ [(2, -65792, 9, -1)])")
  have b: "\<forall>call \<in> set [(1, -512, 8, -1)]. proper_call call \<and> slot_of (fst (snd call)) \<noteq> slot_of (-256)"
    using code(4) by (simp add: proper_call_def)
  have p: "proper_call (0, -256, 7, -1)" "proper_call (2, -65792, 9, -1)"
    by (simp_all add: proper_call_def)
  from slot_cache_round_trip [OF order.refl l p b code(1-3) r]
  obtain i where "hl_info l' = Some i" "info_at c' i = describe gralloc0 7 (gi_buffer_id (gr_info gralloc0 (used_handle gralloc0 7)))"
    by blast
  moreover have "lc_buffer_id (describe gralloc0 7 (gi_buffer_id (gr_info gralloc0 (used_handle gralloc0 7)))) = 7"
    by (simp add: describe_def Let_def used_handle_def NeedCacheBufferHandle_def gralloc0_def handle_info0_def)
  ultimately show ?thesis using r by simp
qed

end
