(* ===== verification/Fake_Edid.thy ===== *)
theory Fake_Edid
  imports Pipe_Claims Hwc_Debug
begin

unbundle bit_operations_syntax

text \<open>
  The display identification a virtual HDMI or DP sink gets (\<open>DrmConnector::MakeFakeEDID\<close> in
  \<open>drm/drmconnector.cpp\<close>), byte by byte, and a reader of the fields of an EDID block as the
  standard lays them out.  The numbers of the connector types and the bits of mode flags are constants
  of the kernel headers, the output formats and depths and the bits of possible displays
  of headers outside the repository.
\<close>

type_synonym u8 = "8 word"

record conn_sdk =
  ty_Unknown :: u32
  ty_VGA :: u32
  ty_DVII :: u32
  ty_DVID :: u32
  ty_DVIA :: u32
  ty_Composite :: u32
  ty_SVIDEO :: u32
  ty_LVDS :: u32
  ty_Component :: u32
  ty_9PinDIN :: u32
  ty_DisplayPort :: u32
  ty_HDMIA :: u32
  ty_HDMIB :: u32
  ty_TV :: u32
  ty_eDP :: u32
  ty_VIRTUAL :: u32
  ty_DSI :: u32
  ty_DPI :: u32
  ty_WRITEBACK :: u32
  FLAG_PHSYNC :: u32
  FLAG_PVSYNC :: u32
  FLAG_DBLSCAN :: u32
  FLAG_3D_MASK :: u32
  output_rgb :: int
  output_ycbcr444 :: int
  output_ycbcr422 :: int
  output_ycbcr420 :: int
  output_ycbcr_high_subsampling :: int
  Automatic :: int
  depth_24bit :: int
  depth_30bit :: int
  PRIMARY_BIT :: u32
  EXTERNAL_BIT :: u32

definition connector_type_names :: "conn_sdk \<Rightarrow> (u32 \<times> string) list" where
  "connector_type_names C =
     [(ty_Unknown C, ''unknown''), (ty_VGA C, ''VGA''), (ty_DVII C, ''DVI-I''), (ty_DVID C, ''DVI-D''),
      (ty_DVIA C, ''DVI-A''), (ty_Composite C, ''composite''), (ty_SVIDEO C, ''s-video''),
      (ty_LVDS C, ''LVDS''), (ty_Component C, ''component''), (ty_9PinDIN C, ''9-pin DIN''),
      (ty_DisplayPort C, ''DP''), (ty_HDMIA C, ''HDMI-A''), (ty_HDMIB C, ''HDMI-B''), (ty_TV C, ''TV''),
      (ty_eDP C, ''eDP''), (ty_VIRTUAL C, ''Virtual''), (ty_DSI C, ''DSI''), (ty_DPI C, ''DPI'')]"

definition connector_type_str :: "conn_sdk \<Rightarrow> u32 \<Rightarrow> string" where
  "connector_type_str C type =
     (case map_of (connector_type_names C) type of Some n \<Rightarrow> n | None \<Rightarrow> ''(invalid)'')"

section \<open>Writing the block\<close>

definition dummyEDID :: "u8 list" where
  "dummyEDID =
    [0x00, 0xff, 0xff, 0xff, 0xff, 0xff, 0xff, 0x00, 0x3a, 0xac, 0x00, 0x00, 0x00, 0x00, 0x00, 0x00,
     0xff, 0x22, 0x01, 0x04, 0x80, 0x00, 0x00, 0x78, 0x07, 0xee, 0x95, 0xa3, 0x54, 0x4c, 0x99, 0x26,
     0x0f, 0x50, 0x54, 0x00, 0x00, 0x00, 0x01, 0x01, 0x01, 0x01, 0x01, 0x01, 0x01, 0x01, 0x01, 0x01,
     0x01, 0x01, 0x01, 0x01, 0x01, 0x01, 0x02, 0x3a, 0x80, 0xa0, 0x70, 0x38, 0x1f, 0x40, 0x30, 0x20,
     0x35, 0x00, 0x63, 0xc8, 0x10, 0x00, 0x00, 0x02, 0x00, 0x00, 0x00, 0x00, 0x00, 0x00, 0x00, 0x00,
     0x00, 0x00, 0x00, 0x00, 0x00, 0x00, 0x00, 0x00, 0x00, 0x00, 0x00, 0x00, 0x00, 0x00, 0x00, 0x00,
     0x00, 0x00, 0x00, 0x00, 0x00, 0x00, 0x00, 0x00, 0x00, 0x00, 0x00, 0x00, 0x00, 0x00, 0x00, 0x00,
     0x00, 0x00, 0x00, 0x00, 0x00, 0x00, 0x00, 0x00, 0x00, 0x00, 0x00, 0x00, 0x00, 0x00, 0x00, 0x8e]"

text \<open>
  The mode that is described: four loops one after the other, each with an assignment that
  overrides the ones before.
\<close>

definition last_found :: "('a \<Rightarrow> bool) \<Rightarrow> 'a list \<Rightarrow> 'a \<Rightarrow> 'a" where
  "last_found P ms m = (case find P ms of Some m' \<Rightarrow> m' | None \<Rightarrow> m)"

definition edid_mode :: "sdk \<Rightarrow> DrmConnector \<Rightarrow> DrmMode" where
  "edid_mode K c =
     (let pref = (\<lambda>m. mode_type m AND DRM_MODE_TYPE_PREFERRED K \<noteq> 0);
          m1 = last_found pref (n_modes c) DrmMode_default;
          m2 = last_found (\<lambda>m. True) (n_modes c) m1;
          m3 = last_found pref (n_raw_modes c) m2
      in last_found (\<lambda>m. True) (n_raw_modes c) m3)"

text \<open>The detailed timing descriptor at \<open>0x36\<close>; the arithmetic wraps at 32 bits.\<close>

definition write_at :: "nat \<Rightarrow> 'a list \<Rightarrow> 'a list \<Rightarrow> 'a list" where
  "write_at i xs b = take i b @ xs @ drop (i + length xs) b"

definition dtd_bytes :: "DrmMode \<Rightarrow> u32 \<Rightarrow> u32 \<Rightarrow> u8 list" where
  "dtd_bytes m x_size y_size =
     (let h_act_pix = h_display m; h_blk_pix = h_total m - h_display m;
          v_act_pix = v_display m; v_blk_pix = v_total m - v_display m;
          h_syn_off = h_sync_start m - h_display m; H_syn_w = h_sync_end m - h_sync_start m;
          v_syn_off = v_sync_start m - v_display m; v_syn_w = v_sync_end m - v_sync_start m;
          clk = (ucast (clock m div 10) :: u16)
      in [ucast (clk AND 0xff), ucast (drop_bit 8 (clk AND 0xff00)),
          ucast (h_act_pix AND 0xff), ucast (h_blk_pix AND 0xff),
          ucast (drop_bit 4 (h_act_pix AND 0xf00)) OR ucast (drop_bit 8 (h_blk_pix AND 0xf00)),
          ucast (v_act_pix AND 0xff), ucast (v_blk_pix AND 0xff),
          ucast (drop_bit 4 (v_act_pix AND 0xf00)) OR ucast (drop_bit 8 (v_blk_pix AND 0xf00)),
          ucast (h_syn_off AND 0xff), ucast (H_syn_w AND 0xff),
          ucast (push_bit 4 (v_syn_off AND 0xf)) OR ucast (v_syn_w AND 0xf),
          ucast (drop_bit 2 (h_syn_off AND 0x300)) OR ucast (drop_bit 4 (H_syn_w AND 0x300)) OR
            ucast (drop_bit 2 (v_syn_off AND 0x30)) OR ucast (drop_bit 4 (v_syn_w AND 0x30)),
          ucast (x_size AND 0xff), ucast (y_size AND 0xff),
          ucast (drop_bit 4 (x_size AND 0xf00)) OR ucast (y_size AND 0xf00)])"

definition dtd_flags :: "conn_sdk \<Rightarrow> DrmMode \<Rightarrow> u8" where
  "dtd_flags C m =
     (let f0 = 0x18;
          f1 = (if interlaced m then f0 OR 0x80 else f0);
          f2 = (if mode_flags m AND FLAG_PHSYNC C \<noteq> 0 then f1 OR 0x2 else f1)
      in if mode_flags m AND FLAG_PVSYNC C \<noteq> 0 then f2 OR 0x4 else f2)"

text \<open>\<open>snprintf\<close> with size 13 keeps twelve characters; the rest of the 13 bytes is zero.\<close>

definition signed_digits :: "u32 \<Rightarrow> string" where
  "signed_digits w =
     (if sint w < 0 then CHR ''-'' # digits_of (nat (- sint w)) else digits_of (nat (sint w)))"

definition product_name :: "string \<Rightarrow> u32 \<Rightarrow> u8 list" where
  "product_name type_name type_id =
     (let t = take 12 (''Dummy-'' @ type_name @ ''-'' @ signed_digits type_id @ [CHR 0x0A])
      in List.map of_char t @ replicate (13 - length t) 0)"

text \<open>16-bit stores through a casted pointer, little endian.\<close>

definition le16 :: "u16 \<Rightarrow> u8 list" where
  "le16 w = [ucast w, ucast (drop_bit 8 w)]"

definition mfc_word :: u16 where
  "mfc_word = push_bit 10 4 OR push_bit 5 13 OR 25"

text \<open>\<open>std::swap\<close> exchanges the two bytes; what is read back is the word with its bytes exchanged.\<close>

definition mfc_swapped :: u16 where
  "mfc_swapped = push_bit 8 mfc_word OR drop_bit 8 mfc_word"

definition checksum :: "u8 list \<Rightarrow> u8" where
  "checksum b = 0x100 - sum_list (take 127 b)"

definition MakeFakeEDID ::
  "sdk \<Rightarrow> conn_sdk \<Rightarrow> u32 \<Rightarrow> u32 \<Rightarrow> u32 \<Rightarrow> u32 \<Rightarrow> DrmConnector \<Rightarrow> u8 list" where
  "MakeFakeEDID K C type type_id x_size y_size c =
     (let m = edid_mode K c;
          b1 = write_at 0x36 (dtd_bytes m x_size y_size) dummyEDID;
          b2 = b1[0x47 := dtd_flags C m];
          b3 = b2[0x4b := 0xfc];
          b4 = write_at 0x4d (product_name (connector_type_str C type) type_id) b3;
          b5 = write_at 0x08 (le16 mfc_swapped) b4;
          b6 = write_at 0x0a (le16 (mfc_swapped XOR ucast type_id)) b5;
          b7 = write_at 0x0c (le16 (ucast type_id) @ le16 mfc_swapped) b6
      in b7[127 := checksum b7])"

section \<open>Reading the block\<close>

text \<open>
  A detailed timing as EDID 1.4 lays it out: lower eight bits of each number in a byte of their
  own, upper bits shared in pairs; sizes in millimetres.
\<close>

record edid_timing =
  et_clock :: u32
  et_hactive :: u32
  et_hblank :: u32
  et_vactive :: u32
  et_vblank :: u32
  et_hfront :: u32
  et_hsync :: u32
  et_vfront :: u32
  et_vsync :: u32
  et_width :: u32
  et_height :: u32

definition read_low_high :: "u8 \<Rightarrow> u8 \<Rightarrow> u32" where
  "read_low_high lo hi = ucast lo OR push_bit 8 (ucast hi)"

definition read_timing :: "u8 list \<Rightarrow> edid_timing" where
  "read_timing d =
     \<lparr> et_clock = read_low_high (d ! 0) (d ! 1),
       et_hactive = read_low_high (d ! 2) (drop_bit 4 (d ! 4)),
       et_hblank = read_low_high (d ! 3) (d ! 4 AND 0xf),
       et_vactive = read_low_high (d ! 5) (drop_bit 4 (d ! 7)),
       et_vblank = read_low_high (d ! 6) (d ! 7 AND 0xf),
       et_hfront = read_low_high (d ! 8) (drop_bit 6 (d ! 11)),
       et_hsync = read_low_high (d ! 9) (drop_bit 4 (d ! 11) AND 3),
       et_vfront = ucast (drop_bit 4 (d ! 10)) OR push_bit 4 (ucast (drop_bit 2 (d ! 11) AND 3)),
       et_vsync = ucast (d ! 10 AND 0xf) OR push_bit 4 (ucast (d ! 11 AND 3)),
       et_width = read_low_high (d ! 12) (drop_bit 4 (d ! 14)),
       et_height = read_low_high (d ! 13) (d ! 14 AND 0xf) \<rparr>"

text \<open>What a mode says in the same terms, and when it fits the block.\<close>

definition timing_of :: "DrmMode \<Rightarrow> u32 \<Rightarrow> u32 \<Rightarrow> edid_timing" where
  "timing_of m w h =
     \<lparr> et_clock = clock m div 10, et_hactive = h_display m, et_hblank = h_total m - h_display m,
       et_vactive = v_display m, et_vblank = v_total m - v_display m,
       et_hfront = h_sync_start m - h_display m, et_hsync = h_sync_end m - h_sync_start m,
       et_vfront = v_sync_start m - v_display m, et_vsync = v_sync_end m - v_sync_start m,
       et_width = w, et_height = h \<rparr>"

definition fits_edid :: "edid_timing \<Rightarrow> bool" where
  "fits_edid t \<longleftrightarrow>
     et_clock t < 2 ^ 16 \<and> et_hactive t < 2 ^ 12 \<and> et_hblank t < 2 ^ 12 \<and> et_vactive t < 2 ^ 12 \<and>
     et_vblank t < 2 ^ 12 \<and> et_hfront t < 2 ^ 10 \<and> et_hsync t < 2 ^ 10 \<and> et_vfront t < 2 ^ 6 \<and>
     et_vsync t < 2 ^ 6 \<and> et_width t < 2 ^ 12"

section \<open>Bits\<close>



lemma below_bit: "(x :: u32) < 2 ^ k \<Longrightarrow> bit x n \<Longrightarrow> n < k"
  by (drule less_mask_eq) (metis bit_and_iff bit_mask_iff)

lemma masks32:
  "(0xff :: u32) = mask 8" "(0xf00 :: u32) = push_bit 8 (mask 4)" "(0x300 :: u32) = push_bit 8 (mask 2)"
  "(0x30 :: u32) = push_bit 4 (mask 2)" "(0xf :: u32) = mask 4"
  by (simp_all add: mask_eq_exp_minus_1 push_bit_eq_mult)

lemma masks8: "(0xf :: u8) = mask 4" "(3 :: u8) = mask 2"
  by (simp_all add: mask_eq_exp_minus_1)

lemma masks16: "(0xff :: u16) = mask 8" "(0xff00 :: u16) = push_bit 8 (mask 8)"
  by (simp_all add: mask_eq_exp_minus_1 push_bit_eq_mult)

lemmas edid_bits = read_low_high_def bit_simps masks32 masks8 masks16

definition nibbles :: "u32 \<Rightarrow> u32 \<Rightarrow> u8" where
  "nibbles x y = ucast (drop_bit 4 (x AND 0xf00)) OR ucast (drop_bit 8 (y AND 0xf00))"

definition size_high :: "u32 \<Rightarrow> u32 \<Rightarrow> u8" where
  "size_high x y = ucast (drop_bit 4 (x AND 0xf00)) OR ucast (y AND 0xf00)"

definition clock_bytes :: "u32 \<Rightarrow> u8 \<times> u8" where
  "clock_bytes c =
     (let clk = (ucast c :: u16) in (ucast (clk AND 0xff), ucast (drop_bit 8 (clk AND 0xff00))))"

lemmas edid_bytes_defs = nibbles_def size_high_def clock_bytes_def Let_def

lemma read_hi_nibble:
  fixes x y :: u32
  assumes "x < 2 ^ 12" 
  shows "read_low_high (ucast (x AND 0xff)) (drop_bit 4 (nibbles x y)) = x"
  by (rule bit_word_eqI) (auto simp: edid_bits edid_bytes_defs dest: below_bit [OF assms])

lemma read_lo_nibble:
  fixes x y :: u32
  assumes "y < 2 ^ 12" 
  shows "read_low_high (ucast (y AND 0xff)) (nibbles x y AND 0xf) = y"
  by (rule bit_word_eqI) (auto simp: edid_bits edid_bytes_defs dest: below_bit [OF assms])


lemma read_clock:
  fixes x :: u32
  assumes "x < 2 ^ 16"
  shows "read_low_high (fst (clock_bytes x)) (snd (clock_bytes x)) = x"
proof (rule bit_word_eqI)
  fix n assume "n < LENGTH(32)"
  then show "bit (read_low_high (fst (clock_bytes x)) (snd (clock_bytes x))) n
      = bit x n"
    by (cases "n < 8") (auto simp: edid_bits edid_bytes_defs dest: below_bit [OF assms])
qed


text \<open>The byte that holds the upper bits of the four sync numbers.\<close>

definition sync_high :: "u32 \<Rightarrow> u32 \<Rightarrow> u32 \<Rightarrow> u32 \<Rightarrow> u8" where
  "sync_high x y u v =
     ucast (drop_bit 2 (x AND 0x300)) OR ucast (drop_bit 4 (y AND 0x300)) OR
     ucast (drop_bit 2 (u AND 0x30)) OR ucast (drop_bit 4 (v AND 0x30))"

lemma bit_sync_high:
  "bit (sync_high x y u v) i \<longleftrightarrow>
     (if i < 2 then bit v (i + 4) else if i < 4 then bit u (i + 2) else if i < 6 then bit y (i + 4)
      else i < 8 \<and> bit x (i + 2))"
proof (cases "i < 8")
  case True
  then have "i \<in> {0, 1, 2, 3, 4, 5, 6, 7}" by auto
  then show ?thesis by (auto simp: sync_high_def edid_bits)
next
  case False
  then show ?thesis using bit_imp_le_length [of "sync_high x y u v" i] by auto
qed

lemma Suc_minus: "\<not> n < 8 \<Longrightarrow> Suc (Suc (n - 2)) = n" "\<not> n < 4 \<Longrightarrow> Suc (Suc (Suc (Suc (n - 4)))) = n"
  by auto

lemma read_front:
  assumes "x < 2 ^ 10"
  shows "read_low_high (ucast (x AND 0xff)) (drop_bit 6 (sync_high x y u v)) = x"
proof (rule bit_word_eqI)
  fix n assume "n < LENGTH(32)"
  then show "bit (read_low_high (ucast (x AND 0xff)) (drop_bit 6 (sync_high x y u v))) n = bit x n"
    by (cases "n < 8") (auto simp: edid_bits bit_sync_high Suc_minus dest: below_bit [OF assms])
qed

lemma read_sync:
  assumes "y < 2 ^ 10"
  shows "read_low_high (ucast (y AND 0xff)) (drop_bit 4 (sync_high x y u v) AND 3) = y"
proof (rule bit_word_eqI)
  fix n assume "n < LENGTH(32)"
  then show "bit (read_low_high (ucast (y AND 0xff)) (drop_bit 4 (sync_high x y u v) AND 3)) n = bit y n"
    by (cases "n < 8") (auto simp: edid_bits bit_sync_high Suc_minus dest: below_bit [OF assms])
qed

definition sync_low :: "u32 \<Rightarrow> u32 \<Rightarrow> u8" where
  "sync_low u v = ucast (push_bit 4 (u AND 0xf)) OR ucast (v AND 0xf)"

lemma bit_sync_low:
  "bit (sync_low u v) i \<longleftrightarrow> (if i < 4 then bit v i else i < 8 \<and> bit u (i - 4))"
proof (cases "i < 8")
  case True
  then have "i \<in> {0, 1, 2, 3, 4, 5, 6, 7}" by auto
  then show ?thesis by (auto simp: sync_low_def edid_bits)
next
  case False
  then show ?thesis using bit_imp_le_length [of "sync_low u v" i] by auto
qed

lemma read_vfront:
  assumes "u < 2 ^ 6"
  shows "ucast (drop_bit 4 (sync_low u v)) OR push_bit 4 (ucast (drop_bit 2 (sync_high x y u v) AND 3)) = u"
proof (rule bit_word_eqI)
  fix n assume "n < LENGTH(32)"
  then show "bit (ucast (drop_bit 4 (sync_low u v)) OR push_bit 4 (ucast (drop_bit 2 (sync_high x y u v) AND 3)) :: u32) n
     = bit u n"
    by (cases "n < 4") (auto simp: edid_bits bit_sync_high bit_sync_low Suc_minus dest: below_bit [OF assms])
qed

lemma read_vsync:
  assumes "v < 2 ^ 6"
  shows "ucast (sync_low u v AND 0xf) OR push_bit 4 (ucast (sync_high x y u v AND 3)) = v"
proof (rule bit_word_eqI)
  fix n assume "n < LENGTH(32)"
  then show "bit (ucast (sync_low u v AND 0xf) OR push_bit 4 (ucast (sync_high x y u v AND 3)) :: u32) n = bit v n"
    by (cases "n < 4") (auto simp: edid_bits bit_sync_high bit_sync_low Suc_minus dest: below_bit [OF assms])
qed

text \<open>The height keeps only its lower byte: its upper bits are shifted out of the byte they go to.\<close>

lemma read_width:
  fixes x y :: u32
  assumes "x < 2 ^ 12"
  shows "read_low_high (ucast (x AND 0xff)) (drop_bit 4 (size_high x y)) = x"
  by (rule bit_word_eqI) (auto simp: edid_bits edid_bytes_defs dest: below_bit [OF assms])

lemma read_height:
  fixes x y :: u32
  shows "read_low_high (ucast (y AND 0xff)) (size_high x y AND 0xf) = y AND 0xff"
  by (rule bit_word_eqI) (auto simp: edid_bits edid_bytes_defs)

section \<open>The block\<close>

lemma length_write_at [simp]: "i + length xs \<le> length b \<Longrightarrow> length (write_at i xs b) = length b"
  by (simp add: write_at_def)

lemma nth_write_at:
  "i + length xs \<le> length b \<Longrightarrow> j < length b \<Longrightarrow>
   write_at i xs b ! j = (if i \<le> j \<and> j < i + length xs then xs ! (j - i) else b ! j)"
  by (auto simp: write_at_def nth_append)

lemma length_product_name [simp]: "length (product_name t i) = 13"
  by (simp add: product_name_def Let_def)

lemma length_edid_parts [simp]:
  "length dummyEDID = 128" "length (dtd_bytes m x y) = 15" "length (le16 w) = 2"
  by (simp_all add: dummyEDID_def dtd_bytes_def le16_def Let_def)

lemma edid_length: "length (MakeFakeEDID K C type type_id x y c) = 128"
  by (simp add: MakeFakeEDID_def Let_def)

lemma edid_dtd: "take 15 (drop 0x36 (MakeFakeEDID K C type type_id x y c)) = dtd_bytes (edid_mode K c) x y"
  by (rule nth_equalityI) (simp_all add: edid_length MakeFakeEDID_def Let_def nth_write_at)

lemma edid_header:
  "take 8 (MakeFakeEDID K C type type_id x y c) = [0, 0xff, 0xff, 0xff, 0xff, 0xff, 0xff, 0]"
proof (rule nth_equalityI)
  fix i assume "i < length (take 8 (MakeFakeEDID K C type type_id x y c))"
  then have i: "i < 8" by (simp add: edid_length)
  then have "MakeFakeEDID K C type type_id x y c ! i = dummyEDID ! i"
    by (simp add: MakeFakeEDID_def Let_def nth_write_at)
  moreover have "i \<in> {0, 1, 2, 3, 4, 5, 6, 7}" using i by auto
  ultimately show "take 8 (MakeFakeEDID K C type type_id x y c) ! i = [0, 0xff, 0xff, 0xff, 0xff, 0xff, 0xff, 0] ! i"
    by (auto simp: dummyEDID_def)
qed (simp add: edid_length)

lemma edid_sum: "sum_list (MakeFakeEDID K C type type_id x y c) = 0"
proof -
  have "sum_list (b[127 := checksum b]) = 0" if "length b = 128" for b :: "u8 list"
  proof -
    have "b[127 := checksum b] = take 127 b @ [checksum b]"
      using that by (simp add: upd_conv_take_nth_drop)
    then show ?thesis by (simp add: checksum_def)
  qed
  then show ?thesis by (simp add: MakeFakeEDID_def Let_def)
qed

lemma dtd_bytes_parts:
  "dtd_bytes m x y =
     [fst (clock_bytes (clock m div 10)), snd (clock_bytes (clock m div 10)),
      ucast (h_display m AND 0xff), ucast ((h_total m - h_display m) AND 0xff),
      nibbles (h_display m) (h_total m - h_display m),
      ucast (v_display m AND 0xff), ucast ((v_total m - v_display m) AND 0xff),
      nibbles (v_display m) (v_total m - v_display m),
      ucast ((h_sync_start m - h_display m) AND 0xff), ucast ((h_sync_end m - h_sync_start m) AND 0xff),
      sync_low (v_sync_start m - v_display m) (v_sync_end m - v_sync_start m),
      sync_high (h_sync_start m - h_display m) (h_sync_end m - h_sync_start m)
        (v_sync_start m - v_display m) (v_sync_end m - v_sync_start m),
      ucast (x AND 0xff), ucast (y AND 0xff), size_high x y]"
  unfolding dtd_bytes_def edid_bytes_defs sync_low_def sync_high_def fst_conv snd_conv by (rule refl)

lemmas read_parts = read_clock read_hi_nibble read_lo_nibble read_front read_sync read_vfront read_vsync
  read_width read_height

lemma read_dtd:
  assumes "fits_edid (timing_of m x y)"
  shows "read_timing (dtd_bytes m x y) = (timing_of m x y)\<lparr> et_height := y AND 0xff \<rparr>"
  using assms unfolding dtd_bytes_parts
  by (simp add: read_timing_def timing_of_def fits_edid_def read_parts [simplified])

text \<open>
  C13: Whatever the modes of the connector, the faked block is a well-formed EDID block of 128 bytes:
  the fixed header, and a sum of all bytes that wraps to zero.  If moreover the timing of the mode it was
  made from fits the fields of the block (the clock in 16 bits, sizes and blanking in 12, and the sync
  fields in 10 and 6), a reader of the standard gets it back from the detailed timing; only of
  the height in millimetres it gets the lower byte, since the code does not shift the upper bits to
  where they belong.
\<close>

theorem fake_edid_round_trip:
  "let e = MakeFakeEDID K C type type_id x y c in
     length e = 128 \<and> take 8 e = [0, 0xff, 0xff, 0xff, 0xff, 0xff, 0xff, 0] \<and> sum_list e = 0 \<and>
     (fits_edid (timing_of (edid_mode K c) x y) \<longrightarrow>
        read_timing (take 15 (drop 0x36 e)) = (timing_of (edid_mode K c) x y)\<lparr> et_height := y AND 0xff \<rparr>)"
  using read_dtd by (simp add: edid_length edid_header edid_sum edid_dtd)

text \<open>1080p60 on a sink of 520 by 320 millimetres: the height reads as 64.\<close>

definition conn_sdk0 :: conn_sdk where
  "conn_sdk0 =
     \<lparr> ty_Unknown = 0, ty_VGA = 1, ty_DVII = 2, ty_DVID = 3, ty_DVIA = 4, ty_Composite = 5, ty_SVIDEO = 6,
       ty_LVDS = 7, ty_Component = 8, ty_9PinDIN = 9, ty_DisplayPort = 10, ty_HDMIA = 11, ty_HDMIB = 12,
       ty_TV = 13, ty_eDP = 14, ty_VIRTUAL = 15, ty_DSI = 16, ty_DPI = 17, ty_WRITEBACK = 18,
       FLAG_PHSYNC = 1, FLAG_PVSYNC = 4, FLAG_DBLSCAN = 32, FLAG_3D_MASK = 0x7c000,
       output_rgb = 0, output_ycbcr444 = 1, output_ycbcr422 = 2, output_ycbcr420 = 3,
       output_ycbcr_high_subsampling = 4, Automatic = 0, depth_24bit = 8, depth_30bit = 10,
       PRIMARY_BIT = 1, EXTERNAL_BIT = 2 \<rparr>"

definition hdmi_1080 :: DrmMode where
  "hdmi_1080 = mode_1080\<lparr> h_sync_start := 2008, h_sync_end := 2052, v_sync_start := 1084, v_sync_end := 1089 \<rparr>"

lemma fake_edid_round_trip_witness:
  "let c = (conn_dark 0)\<lparr> n_modes := [], n_raw_modes := [hdmi_1080] \<rparr>;
       e = MakeFakeEDID sdk0 conn_sdk0 11 1 520 320 c
   in sum_list e = 0 \<and>
     read_timing (take 15 (drop 0x36 e)) =
       \<lparr> et_clock = 14850, et_hactive = 1920, et_hblank = 280, et_vactive = 1080, et_vblank = 45,
         et_hfront = 88, et_hsync = 44, et_vfront = 4, et_vsync = 5, et_width = 520, et_height = 64 \<rparr>"
proof -
  let ?c = "(conn_dark 0)\<lparr> n_modes := [], n_raw_modes := [hdmi_1080] \<rparr>"
  have m: "edid_mode sdk0 ?c = hdmi_1080" by (simp add: edid_mode_def last_found_def)
  have t: "timing_of hdmi_1080 520 320 =
       \<lparr> et_clock = 14850, et_hactive = 1920, et_hblank = 280, et_vactive = 1080, et_vblank = 45,
         et_hfront = 88, et_hsync = 44, et_vfront = 4, et_vsync = 5, et_width = 520, et_height = 320 \<rparr>"
    by (simp add: timing_of_def hdmi_1080_def mode_1080_def)
  have f: "fits_edid (timing_of (edid_mode sdk0 ?c) 520 320)" by (simp add: m t fits_edid_def)
  show ?thesis using fake_edid_round_trip [of sdk0 conn_sdk0 11 1 520 320 ?c] f by (simp add: Let_def m t)
qed

end
