(* ===== verification/Connector_Modes.thy ===== *)
theory Connector_Modes
  imports Fake_Edid Layer_Info
begin

text \<open>
  What a connector knows of its modes and settings (\<open>drm/drmconnector.cpp\<close>): the probe, the list of
  refresh rates, the choice of the best mode from a system property, the base parameter or the
  kernel's preference, and the output settings.  The base parameter partition is read by a vendor
  library; its answer is an argument, \<open>None\<close> where it fails and leaves the record as it was.
\<close>

section \<open>State\<close>

record resolution =
  r_hdisplay :: u32
  r_vdisplay :: u32
  r_vrefresh :: int
  r_hsync_start :: u32
  r_hsync_end :: u32
  r_htotal :: u32
  r_vsync_start :: u32
  r_vsync_end :: u32
  r_vtotal :: u32
  r_flags :: u32
  r_clock :: u32

record disp_info =
  di_resolution :: resolution
  di_format :: int
  di_depthc :: int
  di_brightness :: u32
  di_contrast :: u32
  di_saturation :: u32
  di_hue :: u32
  di_fb_width :: u32
  di_fb_height :: u32
  di_fps :: u32

record sink = DrmConnector +
  s_type :: u32
  s_unique_name :: string
  s_vrr_modes :: "int list"
  s_timeline :: int
  s_base_ready :: bool
  s_base :: disp_info
  uBrightness :: u32
  uContrast :: u32
  uSaturation :: u32
  uHue :: u32
  uColorFormat :: int
  uColorDepth :: int
  s_crop_split :: bool
  s_split_primary :: bool
  s_fb :: "int \<times> int"
  s_src :: "int \<times> int \<times> int \<times> int"
  s_split_transform :: int

definition ResetSplitMode :: "sink \<Rightarrow> sink" where
  "ResetSplitMode c =
     c\<lparr> n_horizontal_split := False, s_split_primary := False, s_crop_split := False,
        s_fb := (0, 0), s_src := (0, 0, 0, 0) \<rparr>"

definition setHorizontalSplit :: "sink \<Rightarrow> sink" where
  "setHorizontalSplit c = c\<lparr> n_horizontal_split := True \<rparr>"

definition setCropSplitPrimary :: "sink \<Rightarrow> sink" where
  "setCropSplitPrimary c = c\<lparr> s_split_primary := True \<rparr>"

definition setCropSplit :: "int \<times> int \<Rightarrow> int \<times> int \<times> int \<times> int \<Rightarrow> int \<Rightarrow> sink \<Rightarrow> sink" where
  "setCropSplit fb src tf c =
     c\<lparr> s_crop_split := True, s_fb := fb, s_src := src, s_split_transform := tf \<rparr>"

definition hwc_state_change_and_plug :: "DrmConnector \<Rightarrow> bool \<times> DrmConnector" where
  "hwc_state_change_and_plug c = (if n_plug c then (True, c\<lparr> n_plug := False \<rparr>) else (False, c))"

definition update_hotplug_state :: "DrmConnector \<Rightarrow> DrmConnector" where
  "update_hotplug_state c = c\<lparr> n_hotplug_state := n_state c \<rparr>"

text \<open>The kernel's answer to either form of the query; \<open>None\<close> is a null pointer.\<close>

definition UpdateHotplugState :: "drmModeConnection option \<Rightarrow> DrmConnector \<Rightarrow> int \<times> DrmConnector" where
  "UpdateHotplugState answer c =
     (case answer of None \<Rightarrow> (-1, c) | Some st \<Rightarrow> (0, c\<lparr> n_hotplug_state := st \<rparr>))"

definition isExistMode :: "DrmMode \<Rightarrow> DrmConnector \<Rightarrow> bool" where
  "isExistMode m c \<longleftrightarrow> (\<exists>m' \<in> set (n_modes c). equal_no_flag_and_type m' m)"

section \<open>The probe\<close>

text \<open>The white list is read from a file when the device is opened; without one every mode passes.\<close>

definition mode_verify :: "DrmMode list \<Rightarrow> DrmMode \<Rightarrow> bool" where
  "mode_verify white m \<longleftrightarrow>
     white = [] \<or>
     (\<exists>w \<in> set white. h_display w = h_display m \<and> v_display w = v_display m \<and> h_total w = h_total m \<and>
        v_total w = v_total m \<and> clock w = clock m \<and> mode_flags w = mode_flags m \<and>
        h_sync_start w = h_sync_start m \<and> h_sync_end w = h_sync_end m \<and> h_skew w = h_skew m \<and>
        v_sync_start w = v_sync_start m \<and> v_sync_end w = v_sync_end m)"

text \<open>
  One pass over the modes of the kernel.  A mode is known when an old mode equals it and passes the
  white list of its connector; the loop over the old modes goes on past one that does not pass.  A
  mode that is not known gets the next id, unless the white list holds it back.  \<open>pref\<close> is the id
  of the first preferred mode among the new ones.
\<close>

definition checked_type :: "conn_sdk \<Rightarrow> u32 \<Rightarrow> bool" where
  "checked_type C type \<longleftrightarrow> type = ty_HDMIA C \<or> type = ty_DisplayPort C"

fun probe_modes ::
  "sdk \<Rightarrow> (DrmMode \<Rightarrow> bool) \<Rightarrow> DrmMode list \<Rightarrow> mode_info list \<Rightarrow> u32 \<times> u32 option \<Rightarrow>
   DrmMode list \<times> u32 \<times> u32 option"
where
  "probe_modes K ok old [] s = ([], s)"
| "probe_modes K ok old (i # is) (next, pref) =
     (case find (\<lambda>m. mode_eq_info m i \<and> ok m) old of
        Some m \<Rightarrow> (case probe_modes K ok old is (next, pref) of (ms, s) \<Rightarrow> (m # ms, s))
      | None \<Rightarrow>
          if \<not> ok (DrmMode_of K i) then probe_modes K ok old is (next, pref)
          else (let m = (DrmMode_of K i)\<lparr> mode_id := next + 1 \<rparr>;
                    pref' = (if pref = None \<and> is_preferred K m then Some (next + 1) else pref)
                in case probe_modes K ok old is (next + 1, pref') of (ms, s) \<Rightarrow> (m # ms, s)))"

text \<open>The raw modes: those of the list just made where they are equal, with new ids otherwise.\<close>

fun probe_raw :: "sdk \<Rightarrow> DrmMode list \<Rightarrow> mode_info list \<Rightarrow> u32 \<Rightarrow> DrmMode list \<times> u32" where
  "probe_raw K modes [] next = ([], next)"
| "probe_raw K modes (i # is) next =
     (case find (\<lambda>m. mode_eq_info m i) modes of
        Some m \<Rightarrow> (case probe_raw K modes is next of (ms, n) \<Rightarrow> (m # ms, n))
      | None \<Rightarrow> (case probe_raw K modes is (next + 1) of
          (ms, n) \<Rightarrow> ((DrmMode_of K i)\<lparr> mode_id := next + 1 \<rparr> # ms, n)))"

text \<open>
  \<open>for (fps = max; fps >= min; fps -= 10) { push; if (fps < 10) break; }\<close> on 64-bit words; the
  elements are \<open>int\<close>.
\<close>

function vrr_rates :: "u64 \<Rightarrow> u64 \<Rightarrow> int list" where
  "vrr_rates lo fps =
     (if fps < lo then []
      else sint (ucast fps :: u32) # (if fps < 10 then [] else vrr_rates lo (fps - 10)))"
  by pat_completeness auto
termination
proof (relation "measure (\<lambda>(lo, fps). unat fps)", goal_cases)
  case (2 lo fps)
  then have "10 \<le> fps" by simp
  then have "unat (fps - 10) = unat fps - 10" "10 \<le> unat fps" 
    by (simp_all add: unat_sub word_le_nat_alt)
  then show ?case by simp
qed simp

text \<open>\<open>limits\<close> are the refresh limits of the CRTC the connector is routed to, if it has the property.\<close>

definition UpdateVrrModes :: "(u64 \<times> u64) option \<Rightarrow> sink \<Rightarrow> sink" where
  "UpdateVrrModes limits c =
     (case limits of
        None \<Rightarrow> c
      | Some (lo, hi) \<Rightarrow>
          if length (n_modes c) \<noteq> 1 then c
          else if lo = 0 \<or> hi = 0 then c\<lparr> s_vrr_modes := [] \<rparr>
          else c\<lparr> s_vrr_modes := vrr_rates lo hi \<rparr>)"

definition vrr_limits :: "sdk \<Rightarrow> topo \<Rightarrow> pipe \<Rightarrow> nptr \<Rightarrow> (u64 \<times> u64) option" where
  "vrr_limits K T p n =
     (case routed p n of
        None \<Rightarrow> None
      | Some k \<Rightarrow>
          if prop_id (ci_variable_rr (ci T k)) = 0 then None
          else Some (snd (prop_value_of K (ci_min_rr (ci T k))), snd (prop_value_of K (ci_max_rr (ci T k)))))"

text \<open>The counter of ids belongs to the device; properties and HDR data are read again as well.\<close>

definition UpdateModes ::
  "sdk \<Rightarrow> conn_sdk \<Rightarrow> DrmMode list \<Rightarrow> (u64 \<times> u64) option \<Rightarrow>
   (drmModeConnection \<times> mode_info list) option \<Rightarrow> u32 \<times> sink \<Rightarrow> int \<times> u32 \<times> sink"
where
  "UpdateModes K C white limits answer nc =
     (case nc of (next, c) \<Rightarrow>
       (case answer of
          None \<Rightarrow> (- ENODEV K, next, c)
        | Some (st, infos) \<Rightarrow>
            let ok = (\<lambda>m. \<not> checked_type C (s_type c) \<or> mode_verify white m);
                (ms, next1, pref) = probe_modes K ok (n_modes c) infos (next, None);
                (raw, next2) = probe_raw K ms infos next1;
                preferred = (case pref of Some i \<Rightarrow> i
                   | None \<Rightarrow> (case ms of m # _ \<Rightarrow> mode_id m | [] \<Rightarrow> n_preferred c));
                c1 = c\<lparr> n_state := (if infos = [] then DRM_MODE_DISCONNECTED else st),
                        n_modes := ms, n_raw_modes := raw, n_preferred := preferred,
                        n_mode_ready := True \<rparr>
            in (0, next2, UpdateVrrModes limits c1)))"

section \<open>Scanning\<close>

text \<open>
  The conversions of \<open>sscanf\<close> the code uses.  The result lists the converted values up to the first
  directive that fails; \<open>%f\<close> is read as a decimal number, spelled infinities and hexadecimal
  fractions are left out.
\<close>

datatype directive = SDec | SHex | SFloat | SChar | SLit char

datatype scanned = VInt int | VRat rat | VChar char

definition hex_value :: "char \<Rightarrow> int option" where
  "hex_value c =
     (let n = (of_char c :: int) in
      if 48 \<le> n \<and> n \<le> 57 then Some (n - 48)
      else if 97 \<le> n \<and> n \<le> 102 then Some (n - 87)
      else if 65 \<le> n \<and> n \<le> 70 then Some (n - 55) else None)"

fun hex_digits :: "int \<Rightarrow> string \<Rightarrow> int \<times> string" where
  "hex_digits acc [] = (acc, [])"
| "hex_digits acc (c # cs) =
     (case hex_value c of Some v \<Rightarrow> hex_digits (16 * acc + v) cs | None \<Rightarrow> (acc, c # cs))"

definition scan_sign :: "string \<Rightarrow> bool \<times> string" where
  "scan_sign t =
     (case t of
        c # r \<Rightarrow> if c = CHR ''-'' then (True, r) else if c = CHR ''+'' then (False, r) else (False, t)
      | [] \<Rightarrow> (False, t))"

definition scan_hex :: "string \<Rightarrow> (int \<times> string) option" where
  "scan_hex s =
     (let t = dropWhile is_space s;
          (neg, u) = scan_sign t;
          w = (if take 2 u = ''0x'' \<or> take 2 u = ''0X'' then drop 2 u else u)
      in case w of
           [] \<Rightarrow> None
         | c # cs \<Rightarrow>
             if hex_value c = None then None
             else (case hex_digits 0 w of (v, r) \<Rightarrow> Some (if neg then - v else v, r)))"

definition scan_exponent :: "string \<Rightarrow> int \<times> string" where
  "scan_exponent s =
     (case s of
        c # r \<Rightarrow>
          if c = CHR ''e'' \<or> c = CHR ''E'' then
            (case r of
               [] \<Rightarrow> (0, s)
             | d # _ \<Rightarrow> if is_space d then (0, s)
                 else (case scan_int r of Some (v, r') \<Rightarrow> (v, r') | None \<Rightarrow> (0, s)))
          else (0, s)
      | [] \<Rightarrow> (0, s))"

definition scan_float :: "string \<Rightarrow> (rat \<times> string) option" where
  "scan_float s =
     (let t = dropWhile is_space s;
          (neg, u) = scan_sign t;
          whole = takeWhile is_digit u; r1 = dropWhile is_digit u;
          (frac, r2) = (case r1 of
             c # r \<Rightarrow> if c = CHR ''.'' then (takeWhile is_digit r, dropWhile is_digit r) else ([], r1)
           | [] \<Rightarrow> ([], r1))
      in if whole = [] \<and> frac = [] then None
         else (let (ex, r3) = scan_exponent r2;
                   v = of_int (digits_value 0 (whole @ frac)) / 10 ^ length frac;
                   w = (if 0 \<le> ex then v * 10 ^ nat ex else v / 10 ^ nat (- ex))
               in Some (if neg then - w else w, r3)))"

fun sscanf :: "directive list \<Rightarrow> string \<Rightarrow> scanned list" where
  "sscanf [] s = []"
| "sscanf (SDec # ds) s = (case scan_int s of Some (v, r) \<Rightarrow> VInt v # sscanf ds r | None \<Rightarrow> [])"
| "sscanf (SHex # ds) s = (case scan_hex s of Some (v, r) \<Rightarrow> VInt v # sscanf ds r | None \<Rightarrow> [])"
| "sscanf (SFloat # ds) s = (case scan_float s of Some (v, r) \<Rightarrow> VRat v # sscanf ds r | None \<Rightarrow> [])"
| "sscanf (SChar # ds) s = (case s of c # r \<Rightarrow> VChar c # sscanf ds r | [] \<Rightarrow> [])"
| "sscanf (SLit c # ds) s = (case s of d # r \<Rightarrow> if d = c then sscanf ds r else [] | [] \<Rightarrow> [])"

definition u32_of :: "scanned \<Rightarrow> u32" where
  "u32_of v = (case v of VInt i \<Rightarrow> word_of_int i | _ \<Rightarrow> 0)"

text \<open>\<open>"%dx%d@%f-%d-%d-%d-%d-%d-%d-%x-%d"\<close>, \<open>"%dx%d%c%d"\<close> and \<open>"%dx%d@%d"\<close>.\<close>

definition timing_format :: "directive list" where
  "timing_format =
     (let dash = SLit (CHR ''-'') in
      [SDec, SLit (CHR ''x''), SDec, SLit (CHR ''@''), SFloat, dash, SDec, dash, SDec, dash, SDec, dash,
       SDec, dash, SDec, dash, SDec, dash, SHex, dash, SDec])"

definition size_format :: "directive list" where
  "size_format = [SDec, SLit (CHR ''x''), SDec, SChar, SDec]"

definition fb_format :: "directive list" where
  "fb_format = [SDec, SLit (CHR ''x''), SDec, SLit (CHR ''@''), SDec]"

section \<open>The best mode\<close>

text \<open>
  The comparison with a refresh rate (\<open>DrmMode::equal\<close> with a \<open>float\<close>).  With no pixels the quotient
  is an infinity, which is too far from every rate, or NaN, for which the model is \<open>None\<close>.  The code
  converts both rates to \<open>uint32_t\<close> before it compares them as floats; for an infinity or a rate
  beyond the range that conversion is undefined in C++, and the model takes it to give some number,
  as the processors of the target do (it is only read where the rates are within 1 Hz).
\<close>

definition c_round :: "rat \<Rightarrow> int" where
  "c_round x = (if x < 0 then - \<lfloor>- x + 1 / 2\<rfloor> else \<lfloor>x + 1 / 2\<rfloor>)"

definition timing_refresh :: "sdk \<Rightarrow> conn_sdk \<Rightarrow> DrmMode \<Rightarrow> rat" where
  "timing_refresh K C m =
     (let r0 = of_nat (unat (clock m)) / of_nat (unat (v_total m * h_total m)) * 1000;
          r1 = (if mode_flags m AND DRM_MODE_FLAG_INTERLACE K \<noteq> 0 then r0 * 2 else r0);
          r2 = (if mode_flags m AND FLAG_DBLSCAN C \<noteq> 0 then r1 / 2 else r1)
      in if 1 < v_scan m then r2 / of_nat (unat (v_scan m)) else r2)"

definition equal_refresh ::
  "sdk \<Rightarrow> conn_sdk \<Rightarrow> DrmMode \<Rightarrow> u32 \<Rightarrow> u32 \<Rightarrow> rat \<Rightarrow> u32 \<Rightarrow> u32 \<Rightarrow> u32 \<Rightarrow> u32 \<Rightarrow> u32 \<Rightarrow> u32 \<Rightarrow> u32 \<Rightarrow> bool option"
where
  "equal_refresh K C m width height vrefresh hsync_start hsync_end htotal vsync_start vsync_end vtotal
      flags =
     (if v_total m * h_total m = 0 then (if clock m = 0 then None else Some False)
      else let r = timing_refresh K C m in
        if 1 < \<bar>r - vrefresh\<bar> then Some False
        else if h_display m = width \<and> v_display m = height \<and> hsync_start = h_sync_start m \<and>
           hsync_end = h_sync_end m \<and> vsync_start = v_sync_start m \<and> vsync_end = v_sync_end m \<and>
           htotal = h_total m \<and> vtotal = v_total m \<and> c_round (vrefresh * 100) = c_round (r * 100)
        then (let flags_temp = DRM_MODE_FLAG_SYNC_MASK K OR DRM_MODE_FLAG_INTERLACE K OR
                    DRM_MODE_FLAG_420_MASK
              in Some (flags = mode_flags m \<or> flags AND flags_temp = mode_flags m AND flags_temp))
        else Some False)"

fun find_undef :: "('a \<Rightarrow> bool option) \<Rightarrow> 'a list \<Rightarrow> 'a option option" where
  "find_undef P [] = Some None"
| "find_undef P (x # xs) =
     (case P x of None \<Rightarrow> None | Some True \<Rightarrow> Some (Some x) | Some False \<Rightarrow> find_undef P xs)"

text \<open>
  The mode a property names: eleven numbers with the clock, ten with the refresh rate, or a size
  with a rate.  The three forms are tried in this order on one list of modes.
\<close>

definition mode_by_clock :: "sdk \<Rightarrow> string \<Rightarrow> DrmMode list \<Rightarrow> DrmMode option" where
  "mode_by_clock K text ms =
     (let v = sscanf timing_format text; u = (\<lambda>i. u32_of (v ! i)) in
      if length v = 11 \<and> u 0 \<noteq> 0 \<and> u 1 \<noteq> 0
      then find (\<lambda>m. equal_timing K m (u 0) (u 1) (u 3) (u 4) (u 5) (u 6) (u 7) (u 8) (u 9) (u 10)) ms
      else None)"

definition mode_by_rate :: "sdk \<Rightarrow> conn_sdk \<Rightarrow> string \<Rightarrow> DrmMode list \<Rightarrow> DrmMode option option" where
  "mode_by_rate K C text ms =
     (let v = sscanf timing_format text; u = (\<lambda>i. u32_of (v ! i));
          f = (if length v < 3 then 0 else case v ! 2 of VRat r \<Rightarrow> r | _ \<Rightarrow> 0) in
      if length v = 10 \<and> u 0 \<noteq> 0 \<and> u 1 \<noteq> 0
      then find_undef (\<lambda>m. equal_refresh K C m (u 0) (u 1) f (u 3) (u 4) (u 5) (u 6) (u 7) (u 8) (u 9)) ms
      else Some None)"

definition mode_by_size :: "string \<Rightarrow> DrmMode list \<Rightarrow> DrmMode option" where
  "mode_by_size text ms =
     (let v = sscanf size_format text; u = (\<lambda>i. u32_of (v ! i)) in
      if length v = 4 \<and> u 0 \<noteq> 0 \<and> u 1 \<noteq> 0
      then find (\<lambda>m. equal_size m (u 0) (u 1) (u 3) (v ! 2 = VChar (CHR ''i''))) ms
      else None)"

definition mode_of_text :: "sdk \<Rightarrow> conn_sdk \<Rightarrow> string \<Rightarrow> DrmMode list \<Rightarrow> DrmMode option option" where
  "mode_of_text K C text ms =
     (case mode_by_clock K text ms of
        Some m \<Rightarrow> Some (Some m)
      | None \<Rightarrow> do {
          r \<leftarrow> mode_by_rate K C text ms;
          Some (case r of Some m \<Rightarrow> Some m | None \<Rightarrow> mode_by_size text ms) })"

text \<open>A property of this connector, or the one of all primary or all other displays.\<close>

definition sink_property :: "property_get \<Rightarrow> string \<Rightarrow> string \<Rightarrow> sink \<Rightarrow> int \<Rightarrow> string" where
  "sink_property pget stem dflt c display_id =
     (let v = pget (stem @ s_unique_name c) dflt in
      if v = dflt then pget (stem @ (if display_id = 0 then ''main'' else ''aux'')) dflt else v)"

definition refresh_base :: "int \<Rightarrow> disp_info option \<Rightarrow> sink \<Rightarrow> sink" where
  "refresh_base timeline answer c =
     (if timeline = s_timeline c then c
      else (let c1 = c\<lparr> s_timeline := timeline \<rparr>
            in case answer of Some b \<Rightarrow> c1\<lparr> s_base := b \<rparr> | None \<Rightarrow> c1))"

definition mode_of_base :: "sdk \<Rightarrow> resolution \<Rightarrow> DrmMode list \<Rightarrow> DrmMode option" where
  "mode_of_base K r ms =
     (if r_hdisplay r \<noteq> 0 \<and> r_vdisplay r \<noteq> 0
      then find (\<lambda>m. equal_timing K m (r_hdisplay r) (r_vdisplay r) (r_hsync_start r) (r_hsync_end r)
              (r_htotal r) (r_vsync_start r) (r_vsync_end r) (r_vtotal r) (r_flags r) (r_clock r)) ms
      else None)"

text \<open>Without a request: the kernel's preference, then any mode, of the shown modes and the raw ones.\<close>

definition fallback_mode :: "sdk \<Rightarrow> DrmMode list \<Rightarrow> DrmMode list \<Rightarrow> DrmMode" where
  "fallback_mode K ms raw =
     (case find (is_preferred K) ms of
        Some m \<Rightarrow> m
      | None \<Rightarrow> (case ms of
            m # _ \<Rightarrow> m
          | [] \<Rightarrow> (case find (is_preferred K) raw of
                Some m \<Rightarrow> m
              | None \<Rightarrow> (case raw of m # _ \<Rightarrow> m | [] \<Rightarrow> DrmMode_default))))"

definition GetBestDisplayMode ::
  "sdk \<Rightarrow> conn_sdk \<Rightarrow> property_get \<Rightarrow> disp_info option \<Rightarrow> int \<Rightarrow> int \<Rightarrow> sink \<Rightarrow> (int \<times> sink) option" where
  "GetBestDisplayMode K C pget answer display_id timeline c =
     (let text = sink_property pget ''persist.vendor.resolution.'' ''Unkonw'' c display_id in
      if text \<noteq> ''Unkonw'' then do {
        r \<leftarrow> mode_of_text K C text (n_modes c);
        Some (0, c\<lparr> n_best := (case r of Some m \<Rightarrow> m | None \<Rightarrow> fallback_mode K (n_modes c) (n_raw_modes c)) \<rparr>)
      }
      else (let c1 = (if s_base_ready c then refresh_base timeline answer c else c);
                r = (if s_base_ready c then mode_of_base K (di_resolution (s_base c1)) (n_modes c) else None)
            in Some (0, c1\<lparr> n_best := (case r of Some m \<Rightarrow> m
                 | None \<Rightarrow> fallback_mode K (n_modes c) (n_raw_modes c)) \<rparr>)))"

section \<open>What a probe keeps\<close>

text \<open>What the comparison of modes looks at, and the state of the list of modes.\<close>

definition mkey :: "DrmMode \<Rightarrow> DrmMode" where
  "mkey m = m\<lparr> mode_id := 0, vrefresh_field := 0, interlaced := False, mode_name := [] \<rparr>"

lemma mkey_eq: "mkey a = mkey b \<longleftrightarrow> mode_eq a b"
  by (cases a; cases b) (auto simp: mkey_def mode_eq_def)

lemma mkey_info: "mode_eq_info m i \<longleftrightarrow> mkey m = mkey (DrmMode_of K i)"
  by (simp add: mkey_eq mode_defs)

lemma mkey_id [simp]: "mkey (m\<lparr> mode_id := j \<rparr>) = mkey m"
  by (simp add: mkey_def)

lemma mode_verify_key: "mkey a = mkey b \<Longrightarrow> mode_verify white a = mode_verify white b"
  by (simp add: mkey_eq mode_eq_def mode_verify_def)

definition modes_ok :: "u32 \<Rightarrow> DrmMode list \<Rightarrow> bool" where
  "modes_ok next ms \<longleftrightarrow>
     (\<forall>m \<in> set ms. mode_id m \<le> next) \<and> distinct (List.map mode_id ms) \<and> distinct (List.map mkey ms)"

lemma unat_next: "unat (n :: u32) + Suc k < 2 ^ 32 \<Longrightarrow> unat (n + 1) = Suc (unat n)"
  by (simp add: unat_word_ariths unat_plus_simple)

text \<open>
  What one pass gives: the kernel's modes that pass, each either an old mode or one with an id above
  the old counter.
\<close>

definition new_id :: "u32 \<Rightarrow> u32 \<Rightarrow> DrmMode \<Rightarrow> bool" where
  "new_id lo hi m \<longleftrightarrow> lo < mode_id m \<and> mode_id m \<le> hi"

text \<open>A test that looks only at what the comparison looks at.\<close>

definition by_key :: "(DrmMode \<Rightarrow> bool) \<Rightarrow> bool" where
  "by_key ok \<longleftrightarrow> (\<forall>a b. mkey a = mkey b \<longrightarrow> ok a = ok b)"

lemma by_key_D: "by_key ok \<Longrightarrow> mkey a = mkey b \<Longrightarrow> ok a = ok b"
  unfolding by_key_def by blast

lemma find_mode:
  "find (\<lambda>m. mode_eq_info m i \<and> ok m) old = Some m \<Longrightarrow>
   m \<in> set old \<and> mkey m = mkey (DrmMode_of K i) \<and> ok m"
  unfolding mkey_info [of _ _ K] by (auto simp: find_Some_iff)

lemma probe_modes_spec:
  assumes "by_key ok"
  shows "probe_modes K ok old infos (next, pref) = (ms, next', pref') \<Longrightarrow>
     unat next + length infos < 2 ^ 32 \<Longrightarrow>
     List.map mkey ms = List.map (mkey \<circ> DrmMode_of K) (filter (ok \<circ> DrmMode_of K) infos) \<and>
     next \<le> next' \<and> unat next' \<le> unat next + length infos \<and>
     (\<forall>m \<in> set ms. m \<in> set old \<or> new_id next next' m \<and> mkey m \<notin> mkey ` set old) \<and>
     (pref' = pref \<or> (\<exists>m \<in> set ms. pref' = Some (mode_id m)))"
proof (induction infos arbitrary: "next" pref ms)
  case (Cons i infos)
  show ?case
  proof (cases "find (\<lambda>m. mode_eq_info m i \<and> ok m) old")
    case (Some m)
    obtain ms1 s where r: "probe_modes K ok old infos (next, pref) = (ms1, s)"
      by (cases "probe_modes K ok old infos (next, pref)")
    have "ms = m # ms1" "s = (next', pref')" using Cons.prems Some r by simp_all
    moreover have k: "m \<in> set old" "mkey m = mkey (DrmMode_of K i)" "ok (DrmMode_of K i)"
      using find_mode [OF Some, of K] by_key_D [OF assms, of m "DrmMode_of K i"] by simp_all
    moreover have "List.map mkey ms1 = List.map (mkey \<circ> DrmMode_of K) (filter (ok \<circ> DrmMode_of K) infos) \<and>
       next \<le> next' \<and> unat next' \<le> unat next + length infos \<and>
       (\<forall>m \<in> set ms1. m \<in> set old \<or> new_id next next' m \<and> mkey m \<notin> mkey ` set old) \<and>
       (pref' = pref \<or> (\<exists>m \<in> set ms1. pref' = Some (mode_id m)))"
      using Cons.IH [of "next" pref ms1] Cons.prems(2) r calculation(2) by (simp add: o_def)
    ultimately show ?thesis by (auto simp: o_def)
  next
    case None
    then have none: "ok (DrmMode_of K i) \<Longrightarrow> mkey (DrmMode_of K i) \<notin> mkey ` set old"
      by (force simp: find_None_iff mkey_info [of _ _ K] dest: by_key_D [OF assms])
    show ?thesis
    proof (cases "ok (DrmMode_of K i)")
      case False
      with Cons.IH [of "next" pref ms] Cons.prems None show ?thesis by auto
    next
      case True
      let ?m = "(DrmMode_of K i)\<lparr> mode_id := next + 1 \<rparr>"
      let ?p = "if pref = None \<and> is_preferred K ?m then Some (next + 1) else pref"
      obtain ms1 s where r: "probe_modes K ok old infos (next + 1, ?p) = (ms1, s)"
        by (cases "probe_modes K ok old infos (next + 1, ?p)")
      have e: "ms = ?m # ms1" "s = (next', pref')" using Cons.prems None True r by (simp_all add: Let_def)
      have n: "unat (next + 1) = Suc (unat next)" using Cons.prems(2) by (simp add: unat_next)
      have IH: "List.map mkey ms1 = List.map (mkey \<circ> DrmMode_of K) (filter (ok \<circ> DrmMode_of K) infos)"
        "next + 1 \<le> next'" "unat next' \<le> unat next + length (i # infos)"
        "\<forall>m \<in> set ms1. m \<in> set old \<or> new_id (next + 1) next' m \<and> mkey m \<notin> mkey ` set old"
        "pref' = ?p \<or> (\<exists>m \<in> set ms1. pref' = Some (mode_id m))"
        using Cons.IH [of "next + 1" ?p ms1] Cons.prems(2) r e n by (auto simp: o_def)
      have up: "next < next + 1" using n by (simp add: word_less_nat_alt)
      have "new_id next next' ?m" using up IH(2) by (simp add: new_id_def)
      moreover have "new_id next next' m" if "new_id (next + 1) next' m" for m
        using that up by (auto simp: new_id_def)
      moreover have "next \<le> next'" using up IH(2) by order
      ultimately show ?thesis using IH True none unfolding e(1) by (auto simp: o_def split: if_splits)
    qed
  qed
qed auto

text \<open>Ids are told apart when the modes are.\<close>

lemma probe_modes_ids:
  assumes "by_key ok" "distinct (List.map mode_id old)"
  shows "probe_modes K ok old infos (next, pref) = (ms, s) \<Longrightarrow>
     unat next + length infos < 2 ^ 32 \<Longrightarrow> \<forall>m \<in> set old. mode_id m \<le> next \<Longrightarrow>
     distinct (List.map mkey ms) \<Longrightarrow> distinct (List.map mode_id ms)"
proof (induction infos arbitrary: "next" pref ms s)
  case (Cons i infos)
  note spec = probe_modes_spec [OF assms(1)]
  show ?case
  proof (cases "find (\<lambda>m. mode_eq_info m i \<and> ok m) old")
    case (Some m)
    obtain ms1 n' p' where r: "probe_modes K ok old infos (next, pref) = (ms1, n', p')"
      by (cases "probe_modes K ok old infos (next, pref)") auto
    have e: "ms = m # ms1" using Cons.prems Some r by simp
    have d: "distinct (List.map mode_id ms1)" using Cons.IH [OF r] Cons.prems e by simp
    have m: "m \<in> set old" using find_mode [OF Some] by simp
    have "mode_id m \<noteq> mode_id m'" if m': "m' \<in> set ms1" for m'
    proof
      assume q: "mode_id m = mode_id m'"
      have "m' \<in> set old \<or> new_id next n' m'" using spec [OF r] Cons.prems(2) m' by auto
      moreover have "\<not> new_id next n' m'" using Cons.prems(3) m q by (auto simp: new_id_def)
      ultimately have "m' = m" using assms(2) m q by (auto simp: distinct_map inj_on_def)
      then show False using Cons.prems(4) m' e by auto
    qed
    with d e show ?thesis by auto
  next
    case None
    show ?thesis
    proof (cases "ok (DrmMode_of K i)")
      case False
      with Cons.IH [of "next" pref ms s] Cons.prems None show ?thesis by simp
    next
      case True
      let ?m = "(DrmMode_of K i)\<lparr> mode_id := next + 1 \<rparr>"
      let ?p = "if pref = None \<and> is_preferred K ?m then Some (next + 1) else pref"
      obtain ms1 n' p' where r: "probe_modes K ok old infos (next + 1, ?p) = (ms1, n', p')"
        by (cases "probe_modes K ok old infos (next + 1, ?p)") auto
      have e: "ms = ?m # ms1" using Cons.prems None True r by (simp add: Let_def)
      have n: "unat (next + 1) = Suc (unat next)" using Cons.prems(2) by (simp add: unat_next)
      have up: "next < next + 1" using n by (simp add: word_less_nat_alt)
      have old: "\<forall>m \<in> set old. mode_id m < next + 1" using Cons.prems(3) up by auto
      have d: "distinct (List.map mode_id ms1)"
        using Cons.IH [OF r] Cons.prems(2,4) old n e by (auto simp: less_imp_le)
      have "\<forall>m' \<in> set ms1. mode_id m' \<noteq> next + 1"
      proof
        fix m' assume m': "m' \<in> set ms1"
        have "m' \<in> set old \<or> new_id (next + 1) n' m'" using spec [OF r] Cons.prems(2) m' n by auto
        then show "mode_id m' \<noteq> next + 1" using old by (auto simp: new_id_def)
      qed
      then have "next + 1 \<notin> mode_id ` set ms1" by force
      with d e show ?thesis by simp
    qed
  qed
qed simp

lemma probe_modes_kept:
  assumes "distinct (List.map mkey old)" "m \<in> set old" "ok m" "mode_eq_info m i" "i \<in> set infos"
  shows "m \<in> set (fst (probe_modes K ok old infos s))"
  using assms(5)
proof (induction infos arbitrary: s)
  case (Cons j infos)
  obtain n p where s: "s = (n, p)" by (cases s)
  have pass: "m \<in> set (fst (probe_modes K ok old (j # infos) s))"
    if l: "\<And>s. m \<in> set (fst (probe_modes K ok old infos s))"
  proof (cases "find (\<lambda>m. mode_eq_info m j \<and> ok m) old")
    case None
    then show ?thesis using l unfolding s
      by (simp add: Let_def split_def)
  next
    case (Some m')
    then show ?thesis using l unfolding s by (simp add: split_def)
  qed
  show ?case
  proof (cases "i = j")
    case True
    have "find (\<lambda>m. mode_eq_info m j \<and> ok m) old = Some m'"
      if "find (\<lambda>m. mode_eq_info m j \<and> ok m) old = Some m'" for m' using that .
    moreover have "find (\<lambda>m. mode_eq_info m j \<and> ok m) old \<noteq> None"
      using assms(2-4) True by (auto simp: find_None_iff)
    ultimately obtain m' where f: "find (\<lambda>m. mode_eq_info m j \<and> ok m) old = Some m'" by blast
    have "mkey m' = mkey m" using find_mode [OF f, of undefined] assms(4) True
      by (auto simp: mkey_info [of _ _ undefined])
    then have "m' = m" using assms(1,2) find_mode [OF f] by (auto simp: distinct_map inj_on_def)
    then show ?thesis using f s by (simp split: prod.split)
  next
    case False
    then show ?thesis using Cons.IH Cons.prems by (intro pass) auto
  qed
qed simp

lemma probe_raw_spec:
  "List.map mkey (fst (probe_raw K ms infos n)) = List.map (mkey \<circ> DrmMode_of K) infos"
proof (induction infos arbitrary: n)
  case (Cons i infos)
  show ?case
  proof (cases "find (\<lambda>m. mode_eq_info m i) ms")
    case None
    then show ?thesis using Cons.IH [of "n + 1"] by (simp add: split_def)
  next
    case (Some m)
    then have "mkey m = mkey (DrmMode_of K i)" by (auto simp: find_Some_iff mkey_info [of _ _ K])
    with Some Cons.IH [of n] show ?thesis by (simp add: split_def)
  qed
qed simp

lemma probe_raw_next:
  "unat n + length infos < 2 ^ 32 \<Longrightarrow> n \<le> snd (probe_raw K ms infos n)"
proof (induction infos arbitrary: n)
  case (Cons i infos)
  have n: "unat (n + 1) = Suc (unat n)" using Cons.prems by (simp add: unat_next)
  have "n \<le> snd (probe_raw K ms infos n)" "n + 1 \<le> snd (probe_raw K ms infos (n + 1))"
    using Cons.IH Cons.prems n by simp_all
  moreover have "n \<le> n + 1" using n by (simp add: word_le_nat_alt)
  ultimately show ?case by (auto split: option.split prod.split)
qed simp

lemma by_key_checked: "by_key (\<lambda>m. \<not> checked_type C type \<or> mode_verify white m)"
  unfolding by_key_def using mode_verify_key by blast

lemma probe_modes_preferred:
  "probe_modes K ok old infos (next, None) = (ms, next', pref') \<Longrightarrow> by_key ok \<Longrightarrow>
   unat next + length infos < 2 ^ 32 \<Longrightarrow> ms \<noteq> [] \<Longrightarrow>
   (case pref' of Some i \<Rightarrow> i | None \<Rightarrow> (case ms of m # _ \<Rightarrow> mode_id m | [] \<Rightarrow> d)) \<in> mode_id ` set ms"
  using probe_modes_spec [of ok K old infos "next" None ms next' pref']
  by (cases ms) (auto split: option.split)

lemma UpdateVrrModes_keeps [simp]:
  "n_modes (UpdateVrrModes l c) = n_modes c" "n_raw_modes (UpdateVrrModes l c) = n_raw_modes c"
  "n_preferred (UpdateVrrModes l c) = n_preferred c" "n_mode_ready (UpdateVrrModes l c) = n_mode_ready c"
  by (simp_all add: UpdateVrrModes_def split: option.split)

text \<open>
  C10: A probe keeps the ids of modes.  When the kernel's modes differ, \<open>UpdateModes\<close> ends with exactly
  those of them that pass the white list of the connector, in the order of the kernel, and with all
  of them as raw modes; ids stay distinct and below the counter of the device, a mode that was known
  and is still offered keeps its entry and so its id, every other mode has a fresh id, and the
  preferred id is that of a mode of the list when there is one.
\<close>

theorem modes_probed:
  assumes "modes_ok next (n_modes c)" "distinct (List.map (mkey \<circ> DrmMode_of K) infos)"
    and "unat next + 2 * length infos < 2 ^ 32"
  shows "let ok = (\<lambda>m. \<not> checked_type C (s_type c) \<or> mode_verify white m) in
    (case UpdateModes K C white limits (Some (st, infos)) (next, c) of (ret, next', c') \<Rightarrow>
       ret = 0 \<and> n_mode_ready c' \<and> modes_ok next' (n_modes c') \<and>
       List.map mkey (n_modes c') = List.map (mkey \<circ> DrmMode_of K) (filter (ok \<circ> DrmMode_of K) infos) \<and>
       List.map mkey (n_raw_modes c') = List.map (mkey \<circ> DrmMode_of K) infos \<and>
       (\<forall>m \<in> set (n_modes c). ok m \<and> (\<exists>i \<in> set infos. mode_eq_info m i) \<longrightarrow> m \<in> set (n_modes c')) \<and>
       (\<forall>m \<in> set (n_modes c'). m \<in> set (n_modes c) \<or> next < mode_id m) \<and>
       (n_modes c' \<noteq> [] \<longrightarrow> n_preferred c' \<in> mode_id ` set (n_modes c')))"
proof -
  let ?ok = "\<lambda>m. \<not> checked_type C (s_type c) \<or> mode_verify white m"
  obtain ms n1 pref where p: "probe_modes K ?ok (n_modes c) infos (next, None) = (ms, n1, pref)"
    by (cases "probe_modes K ?ok (n_modes c) infos (next, None)") auto
  obtain raw n2 where r: "probe_raw K ms infos n1 = (raw, n2)" by (cases "probe_raw K ms infos n1")
  note spec = probe_modes_spec [OF by_key_checked p]
  have small: "unat next + length infos < 2 ^ 32" using assms(3) by simp
  have keys: "List.map mkey ms = List.map (mkey \<circ> DrmMode_of K) (filter (?ok \<circ> DrmMode_of K) infos)"
    and n1: "next \<le> n1" "unat n1 \<le> unat next + length infos"
    and new: "\<forall>m \<in> set ms. m \<in> set (n_modes c) \<or> new_id next n1 m \<and> mkey m \<notin> mkey ` set (n_modes c)"
    using spec small by simp_all
  have dk: "distinct (List.map mkey ms)" unfolding keys using assms(2) by (rule distinct_map_filter)
  have di: "distinct (List.map mode_id ms)"
    using probe_modes_ids [OF by_key_checked _ p small] assms(1) dk by (simp add: modes_ok_def)
  have n2: "n1 \<le> n2" using probe_raw_next [of n1 infos K ms] n1(2) assms(3) r by simp
  have below: "mode_id m \<le> n2" if "m \<in> set ms" for m
    using new that assms(1) n1 n2 by (fastforce simp: modes_ok_def new_id_def)
  have kept: "m \<in> set ms" if "m \<in> set (n_modes c)" "?ok m" "i \<in> set infos" "mode_eq_info m i" for m i
    using probe_modes_kept [of "n_modes c" m ?ok i infos K "(next, None)"] that assms(1) p
    by (simp add: modes_ok_def)
  have raw: "List.map mkey raw = List.map (mkey \<circ> DrmMode_of K) infos"
    using probe_raw_spec [of K ms infos n1] r by simp
  have pref: "ms \<noteq> [] \<Longrightarrow>
     (case pref of Some i \<Rightarrow> i | None \<Rightarrow> (case ms of m # _ \<Rightarrow> mode_id m | [] \<Rightarrow> n_preferred c)) \<in> mode_id ` set ms"
    by (rule probe_modes_preferred [OF p by_key_checked small])
  have u: "UpdateModes K C white limits (Some (st, infos)) (next, c) =
     (0, n2, UpdateVrrModes limits (c\<lparr> n_state := (if infos = [] then DRM_MODE_DISCONNECTED else st),
        n_modes := ms, n_raw_modes := raw,
        n_preferred := (case pref of Some i \<Rightarrow> i | None \<Rightarrow> (case ms of m # _ \<Rightarrow> mode_id m | [] \<Rightarrow> n_preferred c)),
        n_mode_ready := True \<rparr>))"
    by (simp only: UpdateModes_def Let_def prod.case option.case p r)
  show ?thesis unfolding u Let_def prod.case
    using keys raw dk di below kept new pref by (auto simp: modes_ok_def new_id_def)
qed

end
