(* ===== verification/Connector_Best.thy ===== *)
theory Connector_Best
  imports Connector_Modes
begin

text \<open>
  Which mode a request names (\<open>GetBestDisplayMode\<close>): the text of a mode in the form the settings
  write, and what the scanner makes of it.
\<close>

section \<open>Texts\<close>

definition hex_char :: "nat \<Rightarrow> char" where
  "hex_char d = (if d < 10 then char_of (48 + d) else char_of (87 + d))"

fun hex_of :: "nat \<Rightarrow> string" where
  "hex_of n = (if n < 16 then [hex_char n] else hex_of (n div 16) @ [hex_char (n mod 16)])"

declare hex_of.simps [simp del]

definition num :: "u32 \<Rightarrow> string" where
  "num w = digits_of (unat w)"

definition mode_text :: "DrmMode \<Rightarrow> nat \<Rightarrow> nat \<Rightarrow> string" where
  "mode_text m rate hundredths =
     num (h_display m) @ ''x'' @ num (v_display m) @ ''@'' @ digits_of rate @ ''.'' @ digits_of hundredths @
     ''-'' @ num (h_sync_start m) @ ''-'' @ num (h_sync_end m) @ ''-'' @ num (h_total m) @
     ''-'' @ num (v_sync_start m) @ ''-'' @ num (v_sync_end m) @ ''-'' @ num (v_total m) @
     ''-'' @ hex_of (unat (mode_flags m)) @ ''-'' @ num (clock m)"

section \<open>Scanning what was written\<close>

definition stops :: "(char \<Rightarrow> bool) \<Rightarrow> string \<Rightarrow> bool" where
  "stops P r \<longleftrightarrow> (case r of [] \<Rightarrow> True | c # _ \<Rightarrow> \<not> P c)"

lemma digits_value_stop: "stops is_digit r \<Longrightarrow> \<forall>c \<in> set ds. is_digit c \<Longrightarrow> digits_value a (ds @ r) = digits_value a ds"
  by (induction ds arbitrary: a) (auto simp: stops_def split: list.splits)

lemma dropWhile_stop: "stops P r \<Longrightarrow> \<forall>c \<in> set ds. P c \<Longrightarrow> dropWhile P (ds @ r) = r"
  by (induction ds) (auto simp: stops_def split: list.splits)

lemma takeWhile_stop: "stops P r \<Longrightarrow> \<forall>c \<in> set ds. P c \<Longrightarrow> takeWhile P (ds @ r) = ds"
  by (induction ds) (auto simp: stops_def split: list.splits)

lemma scan_sign_case:
  "(case t of CHR ''-'' # r \<Rightarrow> (True, r) | CHR ''+'' # r \<Rightarrow> (False, r) | _ \<Rightarrow> (False, t)) = scan_sign t"
proof (cases t)
  case (Cons c r)
  show ?thesis
  proof (cases "c = CHR ''-'' \<or> c = CHR ''+''")
    case True
    then show ?thesis by (auto simp: Cons scan_sign_def)
  next
    case False
    then show ?thesis by (cases c) (auto simp: Cons scan_sign_def split: bool.split)
  qed
qed (simp add: scan_sign_def)

lemma scan_int_sign:
  "scan_int s =
     (case scan_sign (dropWhile is_space s) of (neg, u) \<Rightarrow>
        (case u of [] \<Rightarrow> None
         | c # cs \<Rightarrow> if is_digit c
             then Some (if neg then - digits_value 0 u else digits_value 0 u, dropWhile is_digit u) else None))"
  by (simp only: scan_int_def Let_def scan_sign_case)

lemma scan_sign_digit: "is_digit c \<Longrightarrow> scan_sign (c # r) = (False, c # r)"
  using digit_no_space by (auto simp: scan_sign_def)

lemma scan_int_digits:
  assumes "stops is_digit r"
  shows "scan_int (digits_of n @ r) = Some (int n, r)"
proof -
  obtain c cs where c: "digits_of n = c # cs" "is_digit c" using digits_of_hd by blast
  have all: "\<forall>c \<in> set (digits_of n). is_digit c" using digits_of_digits by blast
  have "digits_value 0 (digits_of n @ r) = int n" "dropWhile is_digit (digits_of n @ r) = r"
    using digits_value_stop [OF assms all] dropWhile_stop [OF assms all] by (simp_all add: digits_value_digits_of)
  then show ?thesis
    using c digit_no_space [OF c(2)] by (simp add: scan_int_sign scan_sign_digit)
qed

lemma hex_value_char: "d < 16 \<Longrightarrow> hex_value (hex_char d) = Some (int d)"
  by (auto simp: hex_value_def hex_char_def Let_def of_char_int)

lemma hex_digits_append:
  "\<forall>c \<in> set ds. hex_value c \<noteq> None \<Longrightarrow> hex_digits a (ds @ r) = hex_digits (fst (hex_digits a ds)) r"
  by (induction ds arbitrary: a) (auto split: option.splits)

lemma hex_of_hex: "c \<in> set (hex_of n) \<Longrightarrow> hex_value c \<noteq> None"
proof (induction n rule: hex_of.induct)
  case (1 n)
  then show ?case by (subst (asm) hex_of.simps) (auto simp: hex_value_char split: if_splits)
qed

lemma hex_digits_hex_of: "fst (hex_digits 0 (hex_of n)) = int n"
proof (induction n rule: hex_of.induct)
  case (1 n)
  have dv: "fst (hex_digits a [hex_char d]) = 16 * a + int d" if "d < 16" for a d
    using that by (simp add: hex_value_char)
  show ?case
  proof (cases "n < 16")
    case True
    then show ?thesis by (subst hex_of.simps) (simp only: if_True dv)
  next
    case False
    then have "fst (hex_digits 0 (hex_of n)) = 16 * int (n div 16) + int (n mod 16)"
      using 1 hex_of_hex by (subst hex_of.simps) (simp add: hex_digits_append dv del: hex_digits.simps)
    then show ?thesis by presburger
  qed
qed

lemma hex_no_space: "hex_value c \<noteq> None \<Longrightarrow> \<not> is_space c \<and> c \<noteq> CHR ''-'' \<and> c \<noteq> CHR ''+'' \<and> c \<noteq> CHR ''x'' \<and> c \<noteq> CHR ''X''"
  by (auto simp: hex_value_def is_space_def Let_def of_char_int split: if_splits)

lemma hex_of_hd: "\<exists>c cs. hex_of n = c # cs \<and> hex_value c \<noteq> None"
proof (cases "hex_of n")
  case Nil
  then show ?thesis by (subst (asm) hex_of.simps) (simp split: if_splits)
next
  case (Cons c cs)
  then show ?thesis using hex_of_hex [of c n] by auto
qed

lemma scan_hex_hex_of: "scan_hex (hex_of n @ CHR ''-'' # r) = Some (int n, CHR ''-'' # r)"
proof -
  define u where "u = hex_of n @ CHR ''-'' # r"
  obtain c cs where c: "hex_of n = c # cs" "hex_value c \<noteq> None" using hex_of_hd by blast
  have cs: "\<forall>d \<in> set cs. hex_value d \<noteq> None" using hex_of_hex [of _ n] c(1) by auto
  have no0x: "take 2 u \<noteq> ''0x''" "take 2 u \<noteq> ''0X''"
    using c(1) cs hex_no_space unfolding u_def by (cases cs; auto)+
  obtain u' where u: "u = c # u'" using c(1) by (simp add: u_def)
  have front: "dropWhile is_space u = u" "scan_sign u = (False, u)"
    using hex_no_space [OF c(2)] unfolding u by (simp_all add: scan_sign_def)
  have "hex_value (CHR ''-'') = None" by (simp add: hex_value_def)
  then have "hex_digits 0 u = (int n, CHR ''-'' # r)"
    using hex_digits_append [of "hex_of n" 0 "CHR ''-'' # r"] hex_of_hex hex_digits_hex_of [of n]
    by (simp add: u_def)
  moreover have "(if take 2 u = ''0x'' \<or> take 2 u = ''0X'' then drop 2 u else u) = u" using no0x by simp
  then have "scan_hex u = (case hex_digits 0 u of (v, r) \<Rightarrow> Some (v, r))"
    using c(2) unfolding scan_hex_def Let_def front prod.case by (simp add: u)
  ultimately have "scan_hex u = Some (int n, CHR ''-'' # r)" by simp
  then show ?thesis by (simp add: u_def)
qed

lemma scan_float_digits: "\<exists>v. scan_float (digits_of a @ CHR ''.'' # digits_of b @ CHR ''-'' # r) = Some (v, CHR ''-'' # r)"
proof -
  obtain c cs where c: "digits_of a = c # cs" "is_digit c" using digits_of_hd by blast
  have all: "\<forall>c \<in> set (digits_of n). is_digit c" for n using digits_of_digits by blast
  have st: "stops is_digit (CHR ''.'' # t)" "stops is_digit (CHR ''-'' # t)" for t
    by (simp_all add: stops_def is_digit_def)
  note cut = takeWhile_stop [OF st(1) all, of a] dropWhile_stop [OF st(1) all, of a]
    takeWhile_stop [OF st(2) all, of b] dropWhile_stop [OF st(2) all, of b]
  have "digits_of a \<noteq> []" using c by simp
  then show ?thesis
    using c digit_no_space [OF c(2)] cut scan_sign_digit [OF c(2)]
    by (simp add: scan_float_def Let_def scan_exponent_def)
qed

lemma scan_num:
  "\<not> is_digit c \<Longrightarrow> scan_int (num w @ c # r) = Some (int (unat w), c # r)"
  "scan_int (num w) = Some (int (unat w), [])"
  using scan_int_digits [of "c # r" "unat w"] scan_int_digits [of "[]" "unat w"]
  by (simp_all add: num_def stops_def)

lemma sscanf_mode_text:
  "\<exists>v. sscanf timing_format (mode_text m a b) =
     [VInt (int (unat (h_display m))), VInt (int (unat (v_display m))), VRat v,
      VInt (int (unat (h_sync_start m))), VInt (int (unat (h_sync_end m))), VInt (int (unat (h_total m))),
      VInt (int (unat (v_sync_start m))), VInt (int (unat (v_sync_end m))), VInt (int (unat (v_total m))),
      VInt (int (unat (mode_flags m))), VInt (int (unat (clock m)))]"
proof -
  have d: "\<not> is_digit (CHR ''x'')" "\<not> is_digit (CHR ''@'')" "\<not> is_digit (CHR ''-'')" by (simp_all add: is_digit_def)
  let ?r = "num (h_sync_start m) @ ''-'' @ num (h_sync_end m) @ ''-'' @ num (h_total m) @
     ''-'' @ num (v_sync_start m) @ ''-'' @ num (v_sync_end m) @ ''-'' @ num (v_total m) @
     ''-'' @ hex_of (unat (mode_flags m)) @ ''-'' @ num (clock m)"
  obtain w where "scan_float (digits_of a @ CHR ''.'' # digits_of b @ CHR ''-'' # ?r) = Some (w, CHR ''-'' # ?r)"
    using scan_float_digits by blast
  then show ?thesis
    by (intro exI [of _ w]) (simp add: timing_format_def Let_def mode_text_def scan_num d scan_hex_hex_of)
qed

section \<open>The choice\<close>

definition timed_like :: "sdk \<Rightarrow> DrmMode \<Rightarrow> DrmMode \<Rightarrow> bool" where
  "timed_like K m m' \<longleftrightarrow>
     equal_timing K m' (h_display m) (v_display m) (h_sync_start m) (h_sync_end m) (h_total m)
       (v_sync_start m) (v_sync_end m) (v_total m) (mode_flags m) (clock m)"

lemma timed_like_refl: "timed_like K m m"
  by (simp add: timed_like_def equal_timing_def)

lemma mode_by_clock_text:
  assumes "m \<in> set ms" "h_display m \<noteq> 0" "v_display m \<noteq> 0"
  shows "\<exists>m'. mode_by_clock K (mode_text m a b) ms = Some m' \<and> m' \<in> set ms \<and> timed_like K m m'"
proof -
  obtain w where w: "sscanf timing_format (mode_text m a b) =
     [VInt (int (unat (h_display m))), VInt (int (unat (v_display m))), VRat w,
      VInt (int (unat (h_sync_start m))), VInt (int (unat (h_sync_end m))), VInt (int (unat (h_total m))),
      VInt (int (unat (v_sync_start m))), VInt (int (unat (v_sync_end m))), VInt (int (unat (v_total m))),
      VInt (int (unat (mode_flags m))), VInt (int (unat (clock m)))]"
    using sscanf_mode_text by blast
  have "mode_by_clock K (mode_text m a b) ms = find (timed_like K m) ms"
    using assms(2,3) by (simp add: mode_by_clock_def w u32_of_def timed_like_def [abs_def])
  moreover have "find (timed_like K m) ms \<noteq> None"
    using assms(1) timed_like_refl [of K m] by (auto simp: find_None_iff)
  ultimately show ?thesis by (auto simp: find_Some_iff)
qed

lemma find_undef_total:
  "\<forall>x \<in> set xs. P x \<noteq> None \<Longrightarrow> \<exists>r. find_undef P xs = Some r \<and> (\<forall>x. r = Some x \<longrightarrow> x \<in> set xs)"
  by (induction xs) (auto split: option.splits bool.splits)

lemma find_mem: "find P xs = Some x \<Longrightarrow> x \<in> set xs"
  by (auto simp: find_Some_iff)

lemma fallback_mem:
  "ms \<noteq> [] \<Longrightarrow> fallback_mode K ms raw \<in> set ms"
  "raw \<noteq> [] \<Longrightarrow> fallback_mode K [] raw \<in> set raw"
  by (auto simp: fallback_mode_def dest: find_mem split: option.split list.split)

lemma mode_of_text_total:
  assumes "\<forall>m \<in> set ms. v_total m * h_total m \<noteq> 0 \<or> clock m \<noteq> 0"
  shows "\<exists>r. mode_of_text K C text ms = Some r \<and> (\<forall>m. r = Some m \<longrightarrow> m \<in> set ms)"
proof -
  have "\<exists>r. mode_by_rate K C text ms = Some r \<and> (\<forall>m. r = Some m \<longrightarrow> m \<in> set ms)"
    unfolding mode_by_rate_def Let_def
    by (simp, intro impI find_undef_total) (use assms in \<open>auto simp: equal_refresh_def Let_def\<close>)
  moreover have "m \<in> set ms" if "mode_by_clock K text ms = Some m \<or> mode_by_size text ms = Some m" for m
    using that by (auto simp: mode_by_clock_def mode_by_size_def Let_def dest: find_mem split: if_splits)
  ultimately show ?thesis by (auto simp: mode_of_text_def split: option.split)
qed

lemma mode_text_known: "mode_text m a b \<noteq> ''Unkonw''"
  using digits_of_hd [of "unat (h_display m)"] by (auto simp: mode_text_def num_def is_digit_def)

text \<open>
  C8: \<open>GetBestDisplayMode\<close> always chooses, and from what is there: a mode the connector shows when
  it shows any, else one of its raw modes.  It honours the request: when the resolution property
  holds the text of a mode the connector shows, in the form with timings and clock, the mode chosen
  has that timing, whatever refresh rate the text carries.  The modes must not be without both
  pixels and a clock, where the code converts NaN to an integer; converting an infinity is taken to
  give some number (\<open>equal_refresh\<close>).
\<close>

theorem best_mode_chosen:
  assumes "\<forall>m \<in> set (n_modes c). v_total m * h_total m \<noteq> 0 \<or> clock m \<noteq> 0"
  shows "\<exists>c'. GetBestDisplayMode K C pget answer d t c = Some (0, c') \<and>
     n_modes c' = n_modes c \<and> n_raw_modes c' = n_raw_modes c \<and>
     (if n_modes c \<noteq> [] then n_best c' \<in> set (n_modes c)
      else if n_raw_modes c \<noteq> [] then n_best c' \<in> set (n_raw_modes c) else n_best c' = DrmMode_default) \<and>
     (\<forall>m \<in> set (n_modes c). \<forall>a b.
        sink_property pget ''persist.vendor.resolution.'' ''Unkonw'' c d = mode_text m a b \<and>
        h_display m \<noteq> 0 \<and> v_display m \<noteq> 0 \<longrightarrow> timed_like K m (n_best c'))"
proof -
  let ?text = "sink_property pget ''persist.vendor.resolution.'' ''Unkonw'' c d"
  let ?fb = "fallback_mode K (n_modes c) (n_raw_modes c)"
  have fb: "if n_modes c \<noteq> [] then ?fb \<in> set (n_modes c)
      else if n_raw_modes c \<noteq> [] then ?fb \<in> set (n_raw_modes c) else ?fb = DrmMode_default"
    using fallback_mem(1) [of "n_modes c" K "n_raw_modes c"] fallback_mem(2) [of "n_raw_modes c" K]
    by (auto simp: fallback_mode_def)
  show ?thesis
  proof (cases "?text = ''Unkonw''")
    case True
    have base: "m \<in> set (n_modes c)" if "mode_of_base K r (n_modes c) = Some m" for r m
      using that by (auto simp: mode_of_base_def dest: find_mem split: if_splits)
    have base0: "mode_of_base K r [] = None" for r by (simp add: mode_of_base_def)
    have kept: "n_modes (refresh_base t answer c) = n_modes c" "n_raw_modes (refresh_base t answer c) = n_raw_modes c"
      by (simp_all add: refresh_base_def Let_def split: option.split)
    have notext: "\<not> (\<exists>m a b. ?text = mode_text m a b)" unfolding True using mode_text_known by metis
    show ?thesis
      using fb base True notext by (auto simp: GetBestDisplayMode_def Let_def base0 kept split: option.split)
  next
    case False
    obtain r where r: "mode_of_text K C ?text (n_modes c) = Some r" "\<forall>m. r = Some m \<longrightarrow> m \<in> set (n_modes c)"
      using mode_of_text_total [OF assms] by blast
    have req: "timed_like K m (case r of Some m \<Rightarrow> m | None \<Rightarrow> ?fb)"
      if m: "m \<in> set (n_modes c)" "?text = mode_text m a b" "h_display m \<noteq> 0" "v_display m \<noteq> 0" for m a b
    proof -
      obtain m' where "mode_by_clock K ?text (n_modes c) = Some m'" "timed_like K m m'"
        using mode_by_clock_text [OF m(1,3,4)] m(2) by metis
      moreover from this have "r = Some m'" using r(1) by (simp add: mode_of_text_def)
      ultimately show ?thesis by simp
    qed
    let ?c = "c\<lparr> n_best := (case r of Some m \<Rightarrow> m | None \<Rightarrow> ?fb) \<rparr>"
    have "GetBestDisplayMode K C pget answer d t c = Some (0, ?c)"
      using False r(1) by (simp add: GetBestDisplayMode_def)
    then show ?thesis using fb r(2) req by (intro exI [of _ ?c]) (auto split: option.split)
  qed
qed

text \<open>A connector that shows two modes and is asked for the second.\<close>

definition sink0 :: sink where
  "sink0 = DrmConnector.extend (conn_dark 0)
     \<lparr> s_type = 11, s_unique_name = ''HDMI-A-1'', s_vrr_modes = [], s_timeline = 0, s_base_ready = False,
       s_base = \<lparr> di_resolution = \<lparr> r_hdisplay = 0, r_vdisplay = 0, r_vrefresh = 0, r_hsync_start = 0,
                    r_hsync_end = 0, r_htotal = 0, r_vsync_start = 0, r_vsync_end = 0, r_vtotal = 0,
                    r_flags = 0, r_clock = 0 \<rparr>,
                  di_format = 4, di_depthc = 0, di_brightness = 50, di_contrast = 50, di_saturation = 50,
                  di_hue = 50, di_fb_width = 0, di_fb_height = 0, di_fps = 0 \<rparr>,
       uBrightness = 50, uContrast = 50, uSaturation = 50, uHue = 50, uColorFormat = 4, uColorDepth = 0,
       s_crop_split = False, s_split_primary = False, s_fb = (0, 0), s_src = (0, 0, 0, 0),
       s_split_transform = 0 \<rparr>"

definition mode_720 :: DrmMode where
  "mode_720 = DrmMode_default\<lparr> mode_id := 2, clock := 74250, h_display := 1280, h_sync_start := 1390,
     h_sync_end := 1430, h_total := 1650, v_display := 720, v_sync_start := 725, v_sync_end := 730,
     v_total := 750, vrefresh_field := 60 \<rparr>"

lemma modes_probed_witness:
  "let K = sdk0; c = sink0\<lparr> n_modes := [hdmi_1080] \<rparr>; i1 = ToDrmModeModeInfo K hdmi_1080; i2 = ToDrmModeModeInfo K mode_720
   in case UpdateModes K conn_sdk0 [] None (Some (DRM_MODE_CONNECTED, [i2, i1])) (7, c) of (ret, next', c') \<Rightarrow>
     ret = 0 \<and> modes_ok next' (n_modes c') \<and> hdmi_1080 \<in> set (n_modes c') \<and> length (n_modes c') = 2"
proof -
  let ?i1 = "ToDrmModeModeInfo sdk0 hdmi_1080" and ?i2 = "ToDrmModeModeInfo sdk0 mode_720"
  let ?c = "sink0\<lparr> n_modes := [hdmi_1080] \<rparr>"
  have ok: "modes_ok 7 (n_modes ?c)" by (simp add: modes_ok_def hdmi_1080_def mode_1080_def)
  have d: "distinct (List.map (mkey \<circ> DrmMode_of sdk0) [?i2, ?i1])"
    by (simp add: mkey_eq mode_eq_def DrmMode_of_def ToDrmModeModeInfo_def hdmi_1080_def mode_1080_def mode_720_def
      DrmMode_default_def)
  have e: "mode_eq_info hdmi_1080 ?i1"
    by (simp add: mode_eq_info_def ToDrmModeModeInfo_def hdmi_1080_def mode_1080_def DrmMode_default_def)
  have n: "unat (7 :: u32) + 2 * length [?i2, ?i1] < 2 ^ 32" by simp
  have l: "length (filter P [?i2, ?i1]) = 2" if "\<And>x. P x" for P using that by simp
  note m = modes_probed [OF ok d n, of conn_sdk0 "[]" None DRM_MODE_CONNECTED]
  show ?thesis
    using m e unfolding Let_def
    by (auto simp: mode_verify_def dest: map_eq_imp_length_eq split: prod.splits)
qed

lemma best_mode_chosen_witness:
  "\<exists>c'. GetBestDisplayMode sdk0 conn_sdk0 (\<lambda>k d. mode_text mode_720 60 0) None 0 0
        (sink0\<lparr> n_modes := [hdmi_1080, mode_720] \<rparr>) = Some (0, c') \<and> h_display (n_best c') = 1280"
proof -
  let ?c = "sink0\<lparr> n_modes := [hdmi_1080, mode_720] \<rparr>" and ?p = "\<lambda>k d. mode_text mode_720 60 0"
  have a: "\<forall>m \<in> set (n_modes ?c). v_total m * h_total m \<noteq> 0 \<or> clock m \<noteq> 0"
    by (simp add: hdmi_1080_def mode_1080_def mode_720_def)
  have t: "sink_property ?p ''persist.vendor.resolution.'' ''Unkonw'' ?c 0 = mode_text mode_720 60 0"
    by (simp add: sink_property_def)
  have h: "h_display mode_720 \<noteq> 0" "v_display mode_720 \<noteq> 0" by (simp_all add: mode_720_def)
  obtain c' where c': "GetBestDisplayMode sdk0 conn_sdk0 ?p None 0 0 ?c = Some (0, c')" "timed_like sdk0 mode_720 (n_best c')"
    using best_mode_chosen [OF a, of sdk0 conn_sdk0 ?p None 0 0] t h by fastforce
  then have "h_display (n_best c') = 1280"
    by (auto simp: timed_like_def equal_timing_def mode_720_def split: if_splits)
  with c'(1) show ?thesis by blast
qed

end
