(* ===== verification/Device_Displays.thy ===== *)
theory Device_Displays
  imports Connector_Best
begin

text \<open>
  Which connector becomes which display (\<open>drm/drmdevice.cpp\<close>): what the configuration allows, the
  choice of the primary display, the numbering, the split of displays, and the mirrors the boot
  loader set up.  A connector's name in the configuration is cut to 49 characters by the code; no
  name of the table is that long.
\<close>

section \<open>Kinds of connectors\<close>

definition conn_internal :: "conn_sdk \<Rightarrow> u32 \<Rightarrow> DrmConnector \<Rightarrow> bool" where
  "conn_internal C type c \<longleftrightarrow>
     (if n_possible_displays c = 0
      then type \<in> {ty_LVDS C, ty_eDP C, ty_DSI C, ty_VIRTUAL C, ty_DPI C}
      else n_possible_displays c AND PRIMARY_BIT C \<noteq> 0)"

definition conn_external :: "conn_sdk \<Rightarrow> u32 \<Rightarrow> DrmConnector \<Rightarrow> bool" where
  "conn_external C type c \<longleftrightarrow>
     (if n_possible_displays c = 0
      then type \<in> {ty_HDMIA C, ty_DisplayPort C, ty_DVID C, ty_DVII C, ty_VGA C}
      else n_possible_displays c AND EXTERNAL_BIT C \<noteq> 0)"

definition conn_hotplug :: "conn_sdk \<Rightarrow> u32 \<Rightarrow> bool" where
  "conn_hotplug C type \<longleftrightarrow> type \<in> {ty_HDMIA C, ty_DisplayPort C, ty_DVID C, ty_DVII C, ty_VGA C}"

definition conn_valid_type :: "conn_sdk \<Rightarrow> u32 \<Rightarrow> DrmConnector \<Rightarrow> bool" where
  "conn_valid_type C type c \<longleftrightarrow>
     conn_internal C type c \<or> conn_external C type c \<or> type = ty_WRITEBACK C"

definition full_name :: "conn_sdk \<Rightarrow> topo \<Rightarrow> nptr \<Rightarrow> string" where
  "full_name C T n =
     connector_type_str C (ni_type (ni T n)) @ ''-'' @ signed_digits (ni_type_id (ni T n))"

section \<open>The configuration by properties\<close>

text \<open>
  The names of a property in their order, each over all connectors; every match takes the next
  priority.
\<close>

definition names_conn :: "conn_sdk \<Rightarrow> topo \<Rightarrow> string \<Rightarrow> nptr \<Rightarrow> bool" where
  "names_conn C T name n \<longleftrightarrow> connector_type_str C (ni_type (ni T n)) = name \<or> full_name C T n = name"

fun configure_name ::
  "conn_sdk \<Rightarrow> topo \<Rightarrow> (u32 \<Rightarrow> u32) \<Rightarrow> string \<Rightarrow> nptr list \<Rightarrow> int \<times> pipe \<Rightarrow> int \<times> pipe" where
  "configure_name C T f name [] ps = ps"
| "configure_name C T f name (n # ns) ps =
     configure_name C T f name ns
       (if names_conn C T name n
        then (fst ps + 1, upd_conn n (\<lambda>c. c\<lparr> n_priority := fst ps,
                n_possible_displays := f (n_possible_displays c) \<rparr>) (snd ps))
        else ps)"

definition configure_names :: "conn_sdk \<Rightarrow> topo \<Rightarrow> (u32 \<Rightarrow> u32) \<Rightarrow> string \<Rightarrow> pipe \<Rightarrow> pipe" where
  "configure_names C T f names s =
     (if names = [] then s
      else snd (fold (\<lambda>name. configure_name C T f name (dev_connectors T)) (getlines names) (1, s)))"

definition each_conn :: "topo \<Rightarrow> (nptr \<Rightarrow> DrmConnector \<Rightarrow> DrmConnector) \<Rightarrow> pipe \<Rightarrow> pipe" where
  "each_conn T f s = fold (\<lambda>n. upd_conn n (f n)) (dev_connectors T) s"

definition ConfigurePossibleDisplays :: "conn_sdk \<Rightarrow> topo \<Rightarrow> property_get \<Rightarrow> pipe \<Rightarrow> pipe" where
  "ConfigurePossibleDisplays C T pget s =
     (let primary_name = pget ''vendor.hwc.device.primary'' [];
          extend_name = pget ''vendor.hwc.device.extend'' [];
          dflt = (if primary_name = [] then PRIMARY_BIT C else 0) OR
                 (if extend_name = [] then EXTERNAL_BIT C else 0);
          s1 = each_conn T (\<lambda>n c. c\<lparr> n_possible_displays :=
                 dflt AND (if conn_internal C (ni_type (ni T n)) c then PRIMARY_BIT C else EXTERNAL_BIT C) \<rparr>) s;
          s2 = configure_names C T (\<lambda>_. PRIMARY_BIT C) primary_name s1
      in configure_names C T (\<lambda>p. p OR EXTERNAL_BIT C) extend_name s2)"

section \<open>The configuration by a file\<close>

datatype DrmDisplayMode = MODE_NORMAL | MODE_SPLICE | MODE_HORIZONTAL_SPLIT | MODE_OTHER int

record ConnectorInfoXml =
  xType :: string
  TypeId :: int
  SrcX :: int
  SrcY :: int
  SrcW :: int
  SrcH :: int
  DstX :: int
  DstY :: int
  DstW :: int
  DstH :: int
  xTransform :: int
  Primary :: int
  Extend :: int

text \<open>\<open>ConnectorInfo\<close> has ten entries, of which the first \<open>ConnectorCnt\<close> were read.\<close>

record DisplayModeXml =
  Enable :: bool
  Valid :: bool
  Mode :: DrmDisplayMode
  FbWidth :: int
  FbHeight :: int
  ConnectorCnt :: nat
  ConnectorInfo :: "ConnectorInfoXml list"

definition infos_read :: "DisplayModeXml \<Rightarrow> ConnectorInfoXml list" where
  "infos_read x = take (ConnectorCnt x) (ConnectorInfo x)"

text \<open>
  \<open>strncmp(conn_name, Type, strlen(conn_name))\<close>: the type of the entry need only start with the name.
  An \<open>int32_t\<close> is compared with an unsigned number.
\<close>

definition info_for :: "conn_sdk \<Rightarrow> topo \<Rightarrow> ConnectorInfoXml \<Rightarrow> nptr \<Rightarrow> bool" where
  "info_for C T i n \<longleftrightarrow>
     (let name = connector_type_str C (ni_type (ni T n)) in
      take (length name) (xType i) = name \<and> (word_of_int (TypeId i) :: u32) = ni_type_id (ni T n))"

definition configure_info :: "conn_sdk \<Rightarrow> topo \<Rightarrow> ConnectorInfoXml \<Rightarrow> pipe \<Rightarrow> pipe" where
  "configure_info C T i =
     each_conn T (\<lambda>n c.
       if \<not> info_for C T i n then c
       else if 0 < Primary i then c\<lparr> n_priority := Primary i, n_possible_displays := PRIMARY_BIT C \<rparr>
       else if 0 < Extend i then c\<lparr> n_priority := Extend i, n_possible_displays := EXTERNAL_BIT C \<rparr>
       else c)"

text \<open>The entries are gone through once for every connector, to the same effect each time.\<close>

definition ConfigurePossibleDisplaysFromXml ::
  "conn_sdk \<Rightarrow> topo \<Rightarrow> DisplayModeXml \<Rightarrow> pipe \<Rightarrow> pipe" where
  "ConfigurePossibleDisplaysFromXml C T x s =
     (if \<not> Enable x \<or> \<not> Valid x then s
      else (let s1 = each_conn T (\<lambda>n c. c\<lparr> n_possible_displays :=
                   if conn_internal C (ni_type (ni T n)) c then PRIMARY_BIT C else EXTERNAL_BIT C \<rparr>) s
            in fold (\<lambda>_. fold (configure_info C T) (infos_read x)) (dev_connectors T) s1))"

definition CheckEnvXmlChange :: "DisplayModeXml \<Rightarrow> DisplayModeXml \<Rightarrow> bool \<times> bool \<Rightarrow> bool \<times> bool" where
  "CheckEnvXmlChange old new change =
     (if Enable old \<noteq> Enable new \<or> Valid old \<noteq> Valid new then (True, True)
      else
        let ch1 = (fst change, snd change \<or> Mode old \<noteq> Mode new \<or> FbWidth old \<noteq> FbWidth new \<or>
                     FbHeight old \<noteq> FbHeight new \<or> ConnectorCnt old \<noteq> ConnectorCnt new)
        in if ConnectorCnt old = 0 \<and> ConnectorCnt new = 0 then ch1
           else fold (\<lambda>i (prim, split).
               let js = filter (\<lambda>j. xType j = xType i \<and> TypeId j = TypeId i) (ConnectorInfo old) in
               if js = [] then (True, True)
               else (prim \<or> (\<exists>j \<in> set js. Primary j \<noteq> Primary i \<or> Extend j \<noteq> Extend i),
                     split \<or> (\<exists>j \<in> set js. SrcX j \<noteq> SrcX i \<or> SrcY j \<noteq> SrcY i \<or> SrcW j \<noteq> SrcW i \<or>
                       DstX j \<noteq> DstX i \<or> DstY j \<noteq> DstY i \<or> DstW j \<noteq> DstW i \<or> DstH j \<noteq> DstH i \<or>
                       xTransform j \<noteq> xTransform i)))
             (ConnectorInfo new) ch1)"

section \<open>Split displays\<close>

text \<open>The split settings live in \<open>sink\<close>, here a store of its own.\<close>

definition set_split_primary :: "(sink \<Rightarrow> bool) \<Rightarrow> nptr list \<Rightarrow> (nptr \<Rightarrow> sink) \<Rightarrow> (nptr \<Rightarrow> sink) option" where
  "set_split_primary P ns cs =
     (case find (\<lambda>n. s_crop_split (cs n) \<and> P (cs n)) ns of
        None \<Rightarrow> None | Some n \<Rightarrow> Some (cs(n := setCropSplitPrimary (cs n))))"

definition split_info ::
  "conn_sdk \<Rightarrow> topo \<Rightarrow> DisplayModeXml \<Rightarrow> ConnectorInfoXml \<Rightarrow> (nptr \<Rightarrow> sink) \<Rightarrow> nptr \<Rightarrow> sink" where
  "split_info C T x i cs = (\<lambda>n.
     if n \<in> set (dev_connectors T) \<and> info_for C T i n then
       (case Mode x of
          MODE_SPLICE \<Rightarrow>
            setCropSplit (FbWidth x, FbHeight x) (SrcX i, SrcY i, SrcW i, SrcH i) (xTransform i) (cs n)
        | MODE_HORIZONTAL_SPLIT \<Rightarrow> setHorizontalSplit (cs n)
        | _ \<Rightarrow> cs n)
     else cs n)"

definition UpdateSplitInfoFromXml ::
  "conn_sdk \<Rightarrow> topo \<Rightarrow> DisplayModeXml \<Rightarrow> (nptr \<Rightarrow> sink) \<Rightarrow> int \<times> (nptr \<Rightarrow> sink)" where
  "UpdateSplitInfoFromXml C T x cs =
     (let reset = (\<lambda>n. if n \<in> set (dev_connectors T) then ResetSplitMode (cs n) else cs n) in
      if \<not> Enable x then (0, reset)
      else if \<not> Valid x then (-1, reset)
      else (let cs1 = (if Mode x = MODE_NORMAL then reset else fold (split_info C T x) (infos_read x) reset)
            in (0, case set_split_primary (\<lambda>c. n_display c = 0) (dev_connectors T) cs1 of
                     Some cs2 \<Rightarrow> cs2
                   | None \<Rightarrow> (case set_split_primary (\<lambda>c. True) (dev_connectors T) cs1 of
                                Some cs2 \<Rightarrow> cs2 | None \<Rightarrow> cs1))))"

definition GetSplitModeId :: "DrmConnector \<Rightarrow> int" where
  "GetSplitModeId c = n_display c + DRM_CONNECTOR_SPLIT_MODE_MASK"

section \<open>The primary display and the numbers\<close>

text \<open>The first candidate with the lowest priority number.\<close>

definition take_better :: "pipe \<Rightarrow> nptr \<Rightarrow> nptr option \<Rightarrow> nptr option" where
  "take_better s n p =
     (case p of None \<Rightarrow> Some n
      | Some q \<Rightarrow> if n_priority (conn s n) < n_priority (conn s q) then Some n else Some q)"

definition best_conn :: "(nptr \<Rightarrow> bool) \<Rightarrow> pipe \<Rightarrow> nptr list \<Rightarrow> nptr option" where
  "best_conn P s ns = fold (\<lambda>n p. if P n then take_better s n p else p) ns None"

definition may_be_primary :: "conn_sdk \<Rightarrow> pipe \<Rightarrow> nptr \<Rightarrow> bool" where
  "may_be_primary C s n \<longleftrightarrow> n_possible_displays (conn s n) AND PRIMARY_BIT C \<noteq> 0"

definition plugged :: "pipe \<Rightarrow> nptr \<Rightarrow> bool" where
  "plugged s n \<longleftrightarrow> n_state (conn s n) = DRM_MODE_CONNECTED"

text \<open>The four attempts; on RK3528 the first is the last HDMI connector.\<close>

definition first_attempt :: "conn_sdk \<Rightarrow> topo \<Rightarrow> pipe \<Rightarrow> nptr option" where
  "first_attempt C T s =
     (if isRK3528 (device_soc T)
      then find (\<lambda>n. ni_type (ni T n) = ty_HDMIA C) (rev (dev_connectors T))
      else best_conn (\<lambda>n. may_be_primary C s n \<and> \<not> conn_internal C (ni_type (ni T n)) (conn s n) \<and> plugged s n)
             s (dev_connectors T))"

definition choose_primary :: "conn_sdk \<Rightarrow> topo \<Rightarrow> pipe \<Rightarrow> (nptr \<times> pipe) option" where
  "choose_primary C T s =
     (case first_attempt C T s of
        Some n \<Rightarrow> Some (n, s)
      | None \<Rightarrow>
         (case best_conn (\<lambda>n. may_be_primary C s n \<and> plugged s n) s (dev_connectors T) of
            Some n \<Rightarrow> Some (n, s)
          | None \<Rightarrow>
             (case best_conn (may_be_primary C s) s (dev_connectors T) of
                Some n \<Rightarrow> Some (n, s)
              | None \<Rightarrow>
                 (case dev_connectors T of
                    [] \<Rightarrow> None
                  | n # _ \<Rightarrow> Some (n, upd_conn n (\<lambda>c. c\<lparr> n_possible_displays :=
                        n_possible_displays c OR PRIMARY_BIT C \<rparr>) s)))))"

definition set_display :: "nptr \<Rightarrow> int \<Rightarrow> pipe \<Rightarrow> pipe" where
  "set_display n d = upd_conn n (\<lambda>c. c\<lparr> n_display := d \<rparr>)"

fun number_others :: "nptr \<Rightarrow> nptr list \<Rightarrow> int \<Rightarrow> pipe \<Rightarrow> pipe" where
  "number_others p [] d s = s"
| "number_others p (n # ns) d s =
     (if n = p then number_others p ns d s else number_others p ns (d + 1) (set_display n d s))"

definition UpdatePrimaryInfo ::
  "conn_sdk \<Rightarrow> topo \<Rightarrow> property_get \<Rightarrow> DisplayModeXml \<Rightarrow> pipe \<Rightarrow> int \<times> pipe" where
  "UpdatePrimaryInfo C T pget x s0 =
     (let s = (if Enable x \<and> Valid x then ConfigurePossibleDisplaysFromXml C T x s0
               else ConfigurePossibleDisplays C T pget s0)
      in case choose_primary C T s of
           None \<Rightarrow> (-1, s)
         | Some (p, s1) \<Rightarrow> (0, number_others p (dev_connectors T) 1 (set_display p 0 s1)))"

text \<open>The same when the device is opened, from a first number on, with the list of displays.\<close>

definition init_displays ::
  "sdk \<Rightarrow> conn_sdk \<Rightarrow> topo \<Rightarrow> property_get \<Rightarrow> DisplayModeXml \<Rightarrow> int \<Rightarrow> pipe \<Rightarrow> int \<times> int list \<times> pipe" where
  "init_displays K C T pget x lo s0 =
     (let s = (if Enable x \<and> Valid x then ConfigurePossibleDisplaysFromXml C T x s0
               else ConfigurePossibleDisplays C T pget s0)
      in case choose_primary C T s of
           None \<Rightarrow> (- ENODEV K, [], s)
         | Some (p, s1) \<Rightarrow>
             (0, [lo..lo + int (length (filter (\<lambda>n. n \<noteq> p) (dev_connectors T)))],
              number_others p (dev_connectors T) (lo + 1) (set_display p lo s1)))"

section \<open>Mirrors of the boot loader\<close>

text \<open>Connectors with one CRTC: the first is the primary of a mirror, the others follow it.\<close>

fun insert_mirror :: "int \<Rightarrow> int \<Rightarrow> (int \<times> int \<times> int list) list \<Rightarrow> (int \<times> int \<times> int list) list" where
  "insert_mirror k d [] = [(k, d, [])]"
| "insert_mirror k d ((j, p, es) # m) =
     (if k = j then (j, p, es @ [d]) # m
      else if k < j then (k, d, []) # (j, p, es) # m
      else (j, p, es) # insert_mirror k d m)"

definition kernel_mirrors :: "topo \<Rightarrow> pipe \<Rightarrow> (int \<times> int \<times> int list) list" where
  "kernel_mirrors T s =
     fold (\<lambda>n m. if 0 < mKernelCrtcId (conn s n)
                 then insert_mirror (mKernelCrtcId (conn s n)) (n_display (conn s n)) m else m)
       (dev_connectors T) []"

text \<open>A display without a connector is a null pointer the code follows: \<open>None\<close>.\<close>

fun enable_mirrors :: "topo \<Rightarrow> int \<Rightarrow> int list \<Rightarrow> pipe \<Rightarrow> pipe option" where
  "enable_mirrors T p [] s = Some s"
| "enable_mirrors T p (e # es) s =
     (case (GetConnectorForDisplay T p s, GetConnectorForDisplay T e s) of
        (Some n, Some m) \<Rightarrow>
          (let d = n_display (conn s n);
               s1 = upd_conn n (enable_connector_mirror_mode d e) s
           in enable_mirrors T p es (upd_conn m (enable_connector_mirror_mode (n_display (conn s1 n)) e) s1))
      | _ \<Rightarrow> None)"

fun enable_all_mirrors :: "topo \<Rightarrow> (int \<times> int \<times> int list) list \<Rightarrow> pipe \<Rightarrow> pipe option" where
  "enable_all_mirrors T [] s = Some s"
| "enable_all_mirrors T ((k, p, es) # m) s =
     (if p = -1 \<or> es = [] then enable_all_mirrors T m s
      else Option.bind (enable_mirrors T p es s) (enable_all_mirrors T m))"

definition UpdateDrmInfoFromKernel :: "topo \<Rightarrow> pipe \<Rightarrow> pipe option" where
  "UpdateDrmInfoFromKernel T s = enable_all_mirrors T (kernel_mirrors T s) s"

section \<open>Lemmas\<close>

lemma best_conn_fold:
  "fold (\<lambda>n p. if P n then take_better s n p else p) ns a = r \<Longrightarrow>
   (a = None \<longrightarrow> (r = None) = (\<forall>n \<in> set ns. \<not> P n)) \<and>
   (\<forall>q. r = Some q \<longrightarrow> (a = Some q \<or> q \<in> set ns \<and> P q) \<and>
      (\<forall>n \<in> set ns. P n \<longrightarrow> n_priority (conn s q) \<le> n_priority (conn s n)) \<and>
      (\<forall>b. a = Some b \<longrightarrow> n_priority (conn s q) \<le> n_priority (conn s b))) \<and>
   (a \<noteq> None \<longrightarrow> r \<noteq> None)"
proof (induction ns arbitrary: a)
  case (Cons n ns)
  let ?a = "if P n then take_better s n a else a"
  have r: "fold (\<lambda>n p. if P n then take_better s n p else p) ns ?a = r" using Cons.prems by simp
  show ?case
  proof (cases "P n")
    case False
    then show ?thesis using Cons.IH [OF r] by auto
  next
    case True
    show ?thesis
    proof (cases a)
      case None
      then show ?thesis using Cons.IH [OF r] True by (auto simp: take_better_def)
    next
      case (Some b)
      show ?thesis
      proof (cases "n_priority (conn s n) < n_priority (conn s b)")
        case True2: True
        then show ?thesis using Cons.IH [OF r] True Some by (fastforce simp: take_better_def)
      next
        case False
        then show ?thesis using Cons.IH [OF r] True Some by (fastforce simp: take_better_def)
      qed
    qed
  qed
qed simp

lemma best_conn_None: "best_conn P s ns = None \<longleftrightarrow> (\<forall>n \<in> set ns. \<not> P n)"
  using best_conn_fold [of P s ns None] by (simp add: best_conn_def)

lemma best_conn_Some:
  "best_conn P s ns = Some q \<Longrightarrow>
   q \<in> set ns \<and> P q \<and> (\<forall>n \<in> set ns. P n \<longrightarrow> n_priority (conn s q) \<le> n_priority (conn s n))"
  using best_conn_fold [of P s ns None] by (simp add: best_conn_def)

text \<open>
  A connector that may be the primary counts as internal whatever its type, so the first attempt,
  which wants an external one, never succeeds.
\<close>

lemma first_attempt_None:
  assumes "\<not> (isRK3528 (device_soc T) \<and> (\<exists>n \<in> set (dev_connectors T). ni_type (ni T n) = ty_HDMIA C))"
  shows "first_attempt C T s = None"
proof -
  have "conn_internal C (ni_type (ni T n)) (conn s n)" if "may_be_primary C s n" for n
    using that by (auto simp: may_be_primary_def conn_internal_def)
  then show ?thesis using assms by (auto simp: first_attempt_def best_conn_None find_None_iff)
qed

lemma conn_upd [simp]: "conn (upd_conn n f s) m = (if m = n then f (conn s n) else conn s m)"
  by (simp add: upd_conn_def)

lemma number_others_display:
  "distinct ns \<Longrightarrow>
   List.map (\<lambda>n. n_display (conn (number_others p ns d s) n)) (filter (\<lambda>n. n \<noteq> p) ns) =
     [d..d + int (length (filter (\<lambda>n. n \<noteq> p) ns)) - 1] \<and>
   (\<forall>n. n \<notin> set ns \<or> n = p \<longrightarrow> conn (number_others p ns d s) n = conn s n) \<and>
   (\<forall>n. (conn (number_others p ns d s) n)\<lparr> n_display := 0 \<rparr> = (conn s n)\<lparr> n_display := 0 \<rparr>)"
proof (induction ns arbitrary: d s)
  case (Cons n ns)
  show ?case
  proof (cases "n = p")
    case True
    then show ?thesis using Cons.IH [of d s] Cons.prems by simp
  next
    case False
    have IH: "List.map (\<lambda>m. n_display (conn (number_others p ns (d + 1) (set_display n d s)) m)) (filter (\<lambda>n. n \<noteq> p) ns) =
        [d + 1..d + 1 + int (length (filter (\<lambda>n. n \<noteq> p) ns)) - 1]"
      using Cons.IH [of "d + 1" "set_display n d s"] Cons.prems by auto
    have rest: "\<forall>m. m \<notin> set ns \<or> m = p \<longrightarrow> conn (number_others p ns (d + 1) (set_display n d s)) m = conn (set_display n d s) m"
      "\<forall>m. (conn (number_others p ns (d + 1) (set_display n d s)) m)\<lparr> n_display := 0 \<rparr> = (conn (set_display n d s) m)\<lparr> n_display := 0 \<rparr>"
      using Cons.IH [of "d + 1" "set_display n d s"] Cons.prems by simp_all
    have "[d..d + int (length (filter (\<lambda>n. n \<noteq> p) (n # ns))) - 1] =
        d # [d + 1..d + 1 + int (length (filter (\<lambda>n. n \<noteq> p) ns)) - 1]"
      using False by (subst upto_rec1) (simp_all add: algebra_simps)
    then show ?thesis using False IH rest Cons.prems by (auto simp: set_display_def)
  qed
qed simp

lemma set_display_keeps:
  "(conn (set_display n d s) m)\<lparr> n_display := 0 \<rparr> = (conn s m)\<lparr> n_display := 0 \<rparr>"
  by (simp add: set_display_def)

lemma same_but_display:
  "(c :: DrmConnector)\<lparr> n_display := 0 \<rparr> = c'\<lparr> n_display := 0 \<rparr> \<Longrightarrow>
   n_possible_displays c = n_possible_displays c' \<and> n_priority c = n_priority c' \<and> n_state c = n_state c'"
  by (cases c; cases c') simp

definition best_primary :: "conn_sdk \<Rightarrow> topo \<Rightarrow> pipe \<Rightarrow> nptr \<Rightarrow> bool" where
  "best_primary C T s p \<longleftrightarrow>
     may_be_primary C s p \<and>
     (\<forall>n \<in> set (dev_connectors T). may_be_primary C s n \<and> plugged s n \<longrightarrow>
        plugged s p \<and> n_priority (conn s p) \<le> n_priority (conn s n)) \<and>
     ((\<forall>n \<in> set (dev_connectors T). may_be_primary C s n \<longrightarrow> \<not> plugged s n) \<longrightarrow>
        (\<forall>n \<in> set (dev_connectors T). may_be_primary C s n \<longrightarrow> n_priority (conn s p) \<le> n_priority (conn s n)))"

text \<open>On the RK3528 the last HDMI-A connector is taken, whatever its bits and its state.\<close>

definition hdmi_conns :: "conn_sdk \<Rightarrow> topo \<Rightarrow> nptr list" where
  "hdmi_conns C T = filter (\<lambda>n. ni_type (ni T n) = ty_HDMIA C) (dev_connectors T)"

lemma find_rev_last: "filter P xs \<noteq> [] \<Longrightarrow> find P (rev xs) = Some (last (filter P xs))"
  by (induction xs rule: rev_induct) auto

lemma choose_primary_best:
  assumes "dev_connectors T \<noteq> []" "\<not> (isRK3528 (device_soc T) \<and> hdmi_conns C T \<noteq> [])" "PRIMARY_BIT C \<noteq> 0"
  obtains p s1 where "choose_primary C T s = Some (p, s1)" "p \<in> set (dev_connectors T)" "best_primary C T s1 p"
proof -
  let ?ns = "dev_connectors T"
  have "\<not> (isRK3528 (device_soc T) \<and> (\<exists>n \<in> set (dev_connectors T). ni_type (ni T n) = ty_HDMIA C))"
    using assms(2) by (auto simp: hdmi_conns_def filter_empty_conv)
  note none = first_attempt_None [OF this, of s]
  show ?thesis
  proof (cases "best_conn (\<lambda>n. may_be_primary C s n \<and> plugged s n) s ?ns")
    case (Some p)
    have b: "p \<in> set ?ns" "may_be_primary C s p" "plugged s p"
      "\<forall>n \<in> set ?ns. may_be_primary C s n \<and> plugged s n \<longrightarrow> n_priority (conn s p) \<le> n_priority (conn s n)"
      using best_conn_Some [OF Some] by blast+
    show ?thesis
    proof (rule that)
      show "choose_primary C T s = Some (p, s)" by (simp add: choose_primary_def none Some)
      show "best_primary C T s p" using b by (auto simp: best_primary_def)
    qed (rule b(1))
  next
    case no1: None
    then have off: "\<forall>n \<in> set ?ns. may_be_primary C s n \<longrightarrow> \<not> plugged s n" by (simp add: best_conn_None)
    show ?thesis
    proof (cases "best_conn (may_be_primary C s) s ?ns")
      case (Some p)
      note b = best_conn_Some [OF Some]
      show ?thesis
      proof (rule that)
        show "choose_primary C T s = Some (p, s)" by (simp add: choose_primary_def none no1 Some)
        show "best_primary C T s p" using b off by (auto simp: best_primary_def)
        show "p \<in> set ?ns" using b by blast
      qed
    next
      case no2: None
      then have none2: "\<forall>n \<in> set ?ns. \<not> may_be_primary C s n" by (simp add: best_conn_None)
      obtain p ns where ns: "?ns = p # ns" using assms(1) by (cases ?ns) auto
      let ?s = "upd_conn p (\<lambda>c. c\<lparr> n_possible_displays := n_possible_displays c OR PRIMARY_BIT C \<rparr>) s"
      have p: "may_be_primary C ?s p"
        using assms(3) by (simp add: may_be_primary_def bit.conj_disj_distrib2)
      have others: "n = p" if "n \<in> set ?ns" "may_be_primary C ?s n" for n
        using that none2 by (auto simp: may_be_primary_def split: if_splits)
      show ?thesis
      proof (rule that)
        show "choose_primary C T s = Some (p, ?s)" unfolding choose_primary_def none option.case no1 no2 by (simp add: ns)
        show "best_primary C T ?s p" unfolding best_primary_def using p others by blast
        show "p \<in> set ?ns" by (simp add: ns)
      qed
    qed
  qed
qed

text \<open>The connector that is to be display \<open>0\<close>.\<close>

definition right_primary :: "conn_sdk \<Rightarrow> topo \<Rightarrow> pipe \<Rightarrow> nptr \<Rightarrow> bool" where
  "right_primary C T s p \<longleftrightarrow>
     (if isRK3528 (device_soc T) \<and> hdmi_conns C T \<noteq> [] then p = last (hdmi_conns C T) else best_primary C T s p)"

lemma choose_primary_right:
  assumes "dev_connectors T \<noteq> []" "PRIMARY_BIT C \<noteq> 0"
  obtains p s1 where "choose_primary C T s = Some (p, s1)" "p \<in> set (dev_connectors T)" "right_primary C T s1 p"
proof (cases "isRK3528 (device_soc T) \<and> hdmi_conns C T \<noteq> []")
  case True
  let ?p = "last (hdmi_conns C T)"
  have "first_attempt C T s = Some ?p"
    using True find_rev_last [of "\<lambda>n. ni_type (ni T n) = ty_HDMIA C" "dev_connectors T"]
    by (simp add: first_attempt_def hdmi_conns_def)
  then have "choose_primary C T s = Some (?p, s)" by (simp add: choose_primary_def)
  moreover have "?p \<in> set (hdmi_conns C T)" using True by simp
  then have "?p \<in> set (dev_connectors T)" by (simp add: hdmi_conns_def)
  ultimately show ?thesis using True that by (simp add: right_primary_def)
next
  case False
  obtain p s1 where "choose_primary C T s = Some (p, s1)" "p \<in> set (dev_connectors T)" "best_primary C T s1 p"
    by (rule choose_primary_best [OF assms(1) False assms(2)])
  moreover from this(3) have "right_primary C T s1 p" unfolding right_primary_def if_not_P [OF False] .
  ultimately show ?thesis using that by blast
qed

text \<open>
  C9: \<open>UpdatePrimaryInfo\<close> numbers the displays of a device that has connectors, no two the same, and
  with a primary bit that is not zero: it returns \<open>0\<close> and the connectors get the numbers from \<open>0\<close> on, each one
  its own, the others in their order after the primary.  On the RK3528 display \<open>0\<close> is the last HDMI-A
  connector, if there is one.  Otherwise display \<open>0\<close> goes to a connector that may be
  the primary; if one of those is plugged in, to a plugged one with the best priority among them, and
  if none is, to one with the best priority of all.
\<close>

theorem displays_numbered:
  assumes "distinct (dev_connectors T)" "dev_connectors T \<noteq> []" "PRIMARY_BIT C \<noteq> 0"
  shows "case UpdatePrimaryInfo C T pget x s of (ret, s') \<Rightarrow>
     ret = 0 \<and>
     (\<exists>p \<in> set (dev_connectors T).
        n_display (conn s' p) = 0 \<and> right_primary C T s' p \<and>
        List.map (\<lambda>n. n_display (conn s' n)) (filter (\<lambda>n. n \<noteq> p) (dev_connectors T)) =
          [1..int (length (dev_connectors T)) - 1])"
proof -
  let ?s = "if Enable x \<and> Valid x then ConfigurePossibleDisplaysFromXml C T x s else ConfigurePossibleDisplays C T pget s"
  let ?ns = "dev_connectors T"
  obtain p s1 where p: "choose_primary C T ?s = Some (p, s1)" "p \<in> set ?ns" "right_primary C T s1 p"
    by (rule choose_primary_right [OF assms(2,3)])
  define s2 where "s2 = set_display p 0 s1"
  define s' where "s' = number_others p ?ns 1 s2"
  have u: "UpdatePrimaryInfo C T pget x s = (0, s')"
    using p(1) by (simp add: UpdatePrimaryInfo_def s'_def s2_def)
  note n = number_others_display [OF assms(1), of p 1 s2, folded s'_def]
  have len: "1 + int (length (filter (\<lambda>n. n \<noteq> p) ?ns)) - 1 = int (length ?ns) - 1"
  proof -
    have "length (filter (\<lambda>n. n \<noteq> p) ?ns) = length ?ns - 1"
    proof -
      have "{n. n \<noteq> p} \<inter> set ?ns = set ?ns - {p}" by auto
      then show ?thesis using assms(1) p(2) by (simp add: distinct_length_filter distinct_card)
    qed
    moreover have "1 \<le> length ?ns" using assms(2) by (cases ?ns) simp_all
    ultimately show ?thesis by (simp add: of_nat_diff)
  qed
  have eq: "(conn s' m)\<lparr> n_display := 0 \<rparr> = (conn s1 m)\<lparr> n_display := 0 \<rparr>" for m
    using n set_display_keeps [of p 0 s1 m] by (simp add: s2_def)
  have same: "n_possible_displays (conn s' m) = n_possible_displays (conn s1 m)"
    "n_priority (conn s' m) = n_priority (conn s1 m)" "n_state (conn s' m) = n_state (conn s1 m)" for m
    using same_but_display [OF eq [of m]] by simp_all
  have "best_primary C T s' p \<longleftrightarrow> best_primary C T s1 p"
    by (simp add: best_primary_def may_be_primary_def plugged_def same)
  then have "right_primary C T s' p" using p(3) by (simp add: right_primary_def)
  moreover have "n_display (conn s' p) = 0" using n by (simp add: s2_def set_display_def)
  moreover have "List.map (\<lambda>n. n_display (conn s' n)) (filter (\<lambda>n. n \<noteq> p) ?ns) = [1..int (length ?ns) - 1]"
    using n len by simp
  ultimately show ?thesis unfolding u using p(2) by auto
qed

text \<open>Both connectors named in the property, the first one unplugged: the second becomes display 0.\<close>

definition xml_off :: DisplayModeXml where
  "xml_off = \<lparr> Enable = False, Valid = False, Mode = MODE_NORMAL, FbWidth = 0, FbHeight = 0,
     ConnectorCnt = 0, ConnectorInfo = [] \<rparr>"

definition s_half :: pipe where
  "s_half = upd_conn 0 (\<lambda>c. c\<lparr> n_state := DRM_MODE_DISCONNECTED \<rparr>) s_dark"

lemma displays_numbered_witness:
  "case UpdatePrimaryInfo conn_sdk0 T2 (\<lambda>k d. ''HDMI-A'') xml_off s_half of (ret, s') \<Rightarrow>
     ret = 0 \<and> n_display (conn s' 1) = 0 \<and> n_display (conn s' 0) = 1"
proof -
  have T: "distinct (dev_connectors T2)" "dev_connectors T2 \<noteq> []" "PRIMARY_BIT conn_sdk0 \<noteq> 0"
    by (simp_all add: T2_def conn_sdk0_def)
  note n = displays_numbered [OF T, of "\<lambda>k d. ''HDMI-A''" xml_off s_half]
  obtain s' where u: "UpdatePrimaryInfo conn_sdk0 T2 (\<lambda>k d. ''HDMI-A'') xml_off s_half = (0, s')"
    using n by (cases "UpdatePrimaryInfo conn_sdk0 T2 (\<lambda>k d. ''HDMI-A'') xml_off s_half") simp
  have "n_display (conn (snd (UpdatePrimaryInfo conn_sdk0 T2 (\<lambda>k d. ''HDMI-A'') xml_off s_half)) 1) = 0"
    by code_simp
  then have d1: "n_display (conn s' 1) = 0" by (simp add: u)
  have ns: "dev_connectors T2 = [0, 1]" by (simp add: T2_def)
  have "n_display (conn s' 0) = 1" using n u ns d1 by auto
  with d1 u show ?thesis by simp
qed

end
