(* ===== verification/Connector_Settings.thy ===== *)
theory Connector_Settings
  imports Connector_Best
begin

text \<open>
  The picture and output settings of a connector (\<open>drm/drmconnector.cpp\<close>): each comes from the
  property of this connector, the one shared by all primary or other displays, or the base parameter,
  and is committed when it differs from what was committed last.
\<close>

section \<open>Read from properties\<close>

definition UpdateOverscan :: "property_get \<Rightarrow> int \<Rightarrow> sink \<Rightarrow> string" where
  "UpdateOverscan pget display_id c =
     sink_property pget ''persist.vendor.overscan.'' ''Unkonw'' c display_id"

text \<open>A number that was not scanned stays zero.\<close>

definition scanned_or_zero :: "scanned list \<Rightarrow> nat \<Rightarrow> u32" where
  "scanned_or_zero vs i = (if i < length vs then u32_of (vs ! i) else 0)"

definition GetFramebufferInfo :: "property_get \<Rightarrow> int \<Rightarrow> sink \<Rightarrow> u32 \<times> u32 \<times> u32" where
  "GetFramebufferInfo pget display_id c =
     (let v = sink_property pget ''persist.vendor.framebuffer.'' ''Unkonw'' c display_id;
          n = sscanf fb_format v
      in if v = ''Unkonw'' then
           (if s_base_ready c
            then (di_fb_width (s_base c), di_fb_height (s_base c), di_fps (s_base c)) else (0, 0, 0))
         else (scanned_or_zero n 0, scanned_or_zero n 1, scanned_or_zero n 2))"

text \<open>
  \<open>stored\<close> is the answer of the vendor library.  The rate is converted to \<open>int\<close>: undefined for a mode
  without pixels and without a rate.
\<close>

definition resolution_of :: "DrmMode \<Rightarrow> int \<Rightarrow> resolution" where
  "resolution_of m rate =
     \<lparr> r_hdisplay = h_display m, r_vdisplay = v_display m, r_vrefresh = rate,
       r_hsync_start = h_sync_start m, r_hsync_end = h_sync_end m, r_htotal = h_total m,
       r_vsync_start = v_sync_start m, r_vsync_end = v_sync_end m, r_vtotal = v_total m,
       r_flags = mode_flags m, r_clock = clock m \<rparr>"

definition SetDisplayModeInfo :: "(disp_info \<Rightarrow> int) \<Rightarrow> sink \<Rightarrow> (int \<times> sink) option" where
  "SetDisplayModeInfo stored c =
     (if \<not> s_base_ready c then Some (0, c)
      else do {
        rate \<leftarrow> v_refresh (n_current c);
        let b = (s_base c)\<lparr> di_resolution := resolution_of (n_current c) (trunc_rat rate) \<rparr>;
        Some (stored b, c\<lparr> s_base := b \<rparr>)
      })"

section \<open>Brightness, contrast, saturation, hue\<close>

text \<open>The macro \<open>GET_BCSH_PROPERTY_VALUE\<close>: the value, when a property has one.\<close>

definition bcsh_property :: "property_get \<Rightarrow> string \<Rightarrow> sink \<Rightarrow> int \<Rightarrow> u32 option" where
  "bcsh_property pget kind c display_id =
     (let v = sink_property pget (''persist.vendor.'' @ kind @ ''.'') [] c display_id in
      if v = [] then None else Some (word_of_int (atoi v)))"

type_synonym bcsh = "u32 \<times> u32 \<times> u32 \<times> u32"

definition wanted_bcsh :: "property_get \<Rightarrow> disp_info option \<Rightarrow> int \<Rightarrow> int \<Rightarrow> sink \<Rightarrow> bcsh \<times> sink" where
  "wanted_bcsh pget answer display_id timeline c =
     (let get = (\<lambda>kind. bcsh_property pget kind c display_id);
          vs = [get ''brightness'', get ''contrast'', get ''saturation'', get ''hue''];
          val = (\<lambda>i. case vs ! i of Some v \<Rightarrow> v | None \<Rightarrow> 50)
      in if (\<forall>v \<in> set vs. v = None) \<and> s_base_ready c then
           (let c1 = refresh_base timeline answer c; b = s_base c1
            in ((di_brightness b, di_contrast b, di_saturation b, di_hue b), c1))
         else ((val 0, val 1, val 2, val 3), c))"

definition at_most_100 :: "u32 \<Rightarrow> u64" where
  "at_most_100 v = (if 100 < v then 100 else ucast v)"

definition bcsh_request :: "world \<Rightarrow> u32 \<Rightarrow> bcsh \<Rightarrow> bcsh \<Rightarrow> request \<times> pipe \<Rightarrow> request \<times> pipe" where
  "bcsh_request W conn_id props v ps =
     (case (props, v) of ((pb, pc, psat, ph), (b, co, sa, h)) \<Rightarrow>
        DRM_ATOMIC_ADD_PROP W conn_id ph (at_most_100 h)
          (DRM_ATOMIC_ADD_PROP W conn_id psat (at_most_100 sa)
            (DRM_ATOMIC_ADD_PROP W conn_id pc (at_most_100 co)
              (DRM_ATOMIC_ADD_PROP W conn_id pb (at_most_100 b) ps))))"

definition with_bcsh :: "bcsh \<Rightarrow> sink \<Rightarrow> sink" where
  "with_bcsh v c = (case v of (b, co, sa, h) \<Rightarrow>
     c\<lparr> uBrightness := b, uContrast := co, uSaturation := sa, uHue := h \<rparr>)"

definition UpdateBCSH ::
  "sdk \<Rightarrow> world \<Rightarrow> property_get \<Rightarrow> disp_info option \<Rightarrow> u32 \<Rightarrow> bcsh \<Rightarrow> int \<Rightarrow> int \<Rightarrow> sink \<times> pipe \<Rightarrow> int \<times> sink \<times> pipe"
where
  "UpdateBCSH K W pget answer conn_id props display_id timeline cs =
     (case cs of (c0, s) \<Rightarrow>
       (case wanted_bcsh pget answer display_id timeline c0 of (v, c) \<Rightarrow>
          if (uBrightness c, uContrast c, uSaturation c, uHue c) = v then (0, c, s)
          else (case atomic_alloc W s of (ok, s1) \<Rightarrow>
            if \<not> ok then (- ENOMEM K, c, s1)
            else (case atomic_commit W (bcsh_request W conn_id props v ([], s1)) of (ret, s2) \<Rightarrow>
              if ret < 0 then (ret, c, s2) else (0, with_bcsh v c, s2)))))"

section \<open>Format and depth of the output\<close>

definition ParseHdmiOutputFormat :: "conn_sdk \<Rightarrow> string \<Rightarrow> (int \<times> int) option" where
  "ParseHdmiOutputFormat C strprop =
     (if strprop = ''Auto'' then Some (output_ycbcr_high_subsampling C, Automatic C)
      else if strprop = ''RGB-8bit'' then Some (output_rgb C, depth_24bit C)
      else if strprop = ''RGB-10bit'' then Some (output_rgb C, depth_30bit C)
      else if strprop = ''YCBCR444-8bit'' then Some (output_ycbcr444 C, depth_24bit C)
      else if strprop = ''YCBCR444-10bit'' then Some (output_ycbcr444 C, depth_30bit C)
      else if strprop = ''YCBCR422-8bit'' then Some (output_ycbcr422 C, depth_24bit C)
      else if strprop = ''YCBCR422-10bit'' then Some (output_ycbcr422 C, depth_30bit C)
      else if strprop = ''YCBCR420-8bit'' then Some (output_ycbcr420 C, depth_24bit C)
      else if strprop = ''YCBCR420-10bit'' then Some (output_ycbcr420 C, depth_30bit C)
      else None)"

text \<open>What \<open>UpdateOutputFormat\<close> wants of a display.\<close>

definition wanted_output ::
  "conn_sdk \<Rightarrow> property_get \<Rightarrow> disp_info option \<Rightarrow> int \<Rightarrow> int \<Rightarrow> sink \<Rightarrow> (int \<times> int) \<times> sink" where
  "wanted_output C pget answer display_id timeline c =
     (let v = sink_property pget ''persist.vendor.color.'' [] c display_id in
      if v \<noteq> [] then
        ((case ParseHdmiOutputFormat C v of Some fd \<Rightarrow> fd | None \<Rightarrow> (output_rgb C, depth_24bit C)), c)
      else if s_base_ready c then
        (let c1 = refresh_base timeline answer c in ((di_format (s_base c1), di_depthc (s_base c1)), c1))
      else ((output_ycbcr_high_subsampling C, depth_24bit C), c))"

text \<open>A failed addition is only logged; a failed allocation returns \<open>false\<close>, which is success.\<close>

definition UpdateOutputFormat ::
  "sdk \<Rightarrow> conn_sdk \<Rightarrow> world \<Rightarrow> property_get \<Rightarrow> disp_info option \<Rightarrow> conn_info \<Rightarrow> int \<Rightarrow> int \<Rightarrow> sink \<times> pipe \<Rightarrow>
   int \<times> sink \<times> pipe"
where
  "UpdateOutputFormat K C W pget answer N display_id timeline cs =
     (case cs of (c0, s) \<Rightarrow>
        if \<not> (0 < ni_color_format_prop N \<or> 0 < ni_color_depth_prop N) then (0, c0, s)
        else (case wanted_output C pget answer display_id timeline c0 of ((f, d), c) \<Rightarrow>
          let need_format = f \<noteq> -1 \<and> uColorFormat c \<noteq> f; need_depth = d \<noteq> -1 \<and> uColorDepth c \<noteq> d in
          if \<not> need_format \<and> \<not> need_depth then (0, c, s)
          else (case atomic_alloc W s of (ok, s1) \<Rightarrow>
            if \<not> ok then (0, c, s1)
            else (let f1 = (if need_format then FilterColorFormatWithCaps K (DrmConnector.truncate c) f else f);
                      p1 = (if need_format
                            then snd (atomic_add W (ni_id N) (ni_color_format_prop N) (word_of_int f1) ([], s1))
                            else ([], s1));
                      p2 = (if need_depth
                            then snd (atomic_add W (ni_id N) (ni_color_depth_prop N) (word_of_int d) p1)
                            else p1)
                  in case atomic_commit W p2 of (ret, s2) \<Rightarrow>
                       if ret < 0 then (0, c, s2)
                       else (0, c\<lparr> uColorFormat := f1, uColorDepth := d \<rparr>, s2)))))"

text \<open>The form that adds to a request of the caller reads the base parameter without a timeline.\<close>

definition UpdateOutputFormat_request ::
  "sdk \<Rightarrow> conn_sdk \<Rightarrow> world \<Rightarrow> property_get \<Rightarrow> disp_info option \<Rightarrow> conn_info \<Rightarrow> sink \<times> request \<times> pipe \<Rightarrow>
   int \<times> sink \<times> request \<times> pipe"
where
  "UpdateOutputFormat_request K C W pget answer N cps =
     (case cps of (c, ps) \<Rightarrow>
        if \<not> (0 < ni_color_format_prop N \<or> 0 < ni_color_depth_prop N) then (0, c, ps)
        else (let v = sink_property pget ''persist.vendor.color.'' [] c (n_display c);
                  c1 = (if v = [] \<and> s_base_ready c
                        then (case answer of Some b \<Rightarrow> c\<lparr> s_base := b \<rparr> | None \<Rightarrow> c) else c);
                  (f, d) = (if v \<noteq> [] then
                       (case ParseHdmiOutputFormat C v of Some fd \<Rightarrow> fd
                        | None \<Rightarrow> (output_ycbcr_high_subsampling C, depth_24bit C))
                     else if s_base_ready c then (di_format (s_base c1), di_depthc (s_base c1))
                     else (output_ycbcr_high_subsampling C, depth_24bit C));
                  f1 = FilterColorFormatWithCaps K (DrmConnector.truncate c) f;
                  p1 = snd (atomic_add W (ni_id N) (ni_color_format_prop N) (word_of_int f1) ps);
                  p2 = snd (atomic_add W (ni_id N) (ni_color_depth_prop N) (word_of_int d) p1)
              in (0, c1\<lparr> uColorFormat := f1, uColorDepth := d \<rparr>, p2)))"

section \<open>Lemmas\<close>

lemma sink_property_cong:
  "s_unique_name c = s_unique_name c' \<Longrightarrow> sink_property pget stem d c i = sink_property pget stem d c' i"
  by (simp add: sink_property_def)

lemma refresh_base_keeps [simp]:
  "s_unique_name (refresh_base t a c) = s_unique_name c" "s_base_ready (refresh_base t a c) = s_base_ready c"
  "uBrightness (refresh_base t a c) = uBrightness c" "uContrast (refresh_base t a c) = uContrast c"
  "uSaturation (refresh_base t a c) = uSaturation c" "uHue (refresh_base t a c) = uHue c"
  "uColorFormat (refresh_base t a c) = uColorFormat c" "uColorDepth (refresh_base t a c) = uColorDepth c"
  by (simp_all add: refresh_base_def Let_def split: option.split)

lemma refresh_base_again: "refresh_base t a (refresh_base t a' c) = refresh_base t a' c"
  by (simp add: refresh_base_def Let_def split: option.split)

lemma at_most_100_bound: "at_most_100 v \<le> 100"
proof -
  have "unat (ucast v :: u64) = unat v"
    using unsigned_less [of v, where 'a = nat] by (simp add: unsigned_ucast_eq take_bit_nat_eq_self)
  then show ?thesis by (simp add: at_most_100_def word_le_nat_alt not_less)
qed

lemma with_bcsh_keeps [simp]:
  "s_unique_name (with_bcsh v c) = s_unique_name c" "s_base_ready (with_bcsh v c) = s_base_ready c"
  "refresh_base t a (with_bcsh v c) = with_bcsh v (refresh_base t a c)"
  "s_base (with_bcsh v c) = s_base c"
  by (simp_all add: with_bcsh_def refresh_base_def Let_def split: prod.split option.split)

lemma bcsh_property_cong:
  "s_unique_name c = s_unique_name c' \<Longrightarrow> bcsh_property pget k c d = bcsh_property pget k c' d"
  by (simp add: bcsh_property_def sink_property_def)

text \<open>Once committed the settings rest: the same call with the same properties wants them again.\<close>

lemma wanted_bcsh_again:
  assumes "wanted_bcsh pget a d t c0 = (v, c)"
  shows "wanted_bcsh pget a d t (with_bcsh w c) = (v, with_bcsh w c)"
proof -
  let ?get = "\<lambda>k c. bcsh_property pget k c d"
  let ?vs = "\<lambda>c. [?get ''brightness'' c, ?get ''contrast'' c, ?get ''saturation'' c, ?get ''hue'' c]"
  show ?thesis
  proof (cases "(\<forall>v \<in> set (?vs c0). v = None) \<and> s_base_ready c0")
    case True
    then have c: "c = refresh_base t a c0"
      "v = (di_brightness (s_base c), di_contrast (s_base c), di_saturation (s_base c), di_hue (s_base c))"
      using assms by (auto simp: wanted_bcsh_def Let_def)
    have n: "s_unique_name (with_bcsh w c) = s_unique_name c0" using c(1) by simp
    have p: "?vs (with_bcsh w c) = ?vs c0" by (simp add: bcsh_property_cong [OF n])
    have r: "refresh_base t a (with_bcsh w c) = with_bcsh w c" using c(1) by (simp add: refresh_base_again)
    show ?thesis unfolding wanted_bcsh_def Let_def p r using True c by simp
  next
    case False
    then have c: "c = c0" using assms by (simp add: wanted_bcsh_def Let_def split: if_splits)
    have n: "s_unique_name (with_bcsh w c0) = s_unique_name c0" by simp
    have p: "?vs (with_bcsh w c0) = ?vs c0" by (simp add: bcsh_property_cong [OF n])
    show ?thesis using assms False unfolding c wanted_bcsh_def Let_def p by auto
  qed
qed

lemma UpdateBCSH_cases:
  assumes "UpdateBCSH K W pget a i props d t (c0, s) = (0, c, s')" "ENOMEM K \<noteq> 0"
  obtains v c1 where "wanted_bcsh pget a d t c0 = (v, c1)"
    "c = with_bcsh v c1 \<or> c = c1 \<and> (uBrightness c, uContrast c, uSaturation c, uHue c) = v"
proof -
  obtain v c1 where w: "wanted_bcsh pget a d t c0 = (v, c1)" by (cases "wanted_bcsh pget a d t c0")
  obtain ok s1 where al: "atomic_alloc W s = (ok, s1)" by (cases "atomic_alloc W s")
  obtain r s2 where co: "atomic_commit W (bcsh_request W i props v ([], s1)) = (r, s2)"
    by (cases "atomic_commit W (bcsh_request W i props v ([], s1))")
  show ?thesis using that [OF w] assms by (auto simp: UpdateBCSH_def w al co split: if_splits)
qed

lemma shown_with_bcsh: "(uBrightness (with_bcsh v c), uContrast (with_bcsh v c), uSaturation (with_bcsh v c), uHue (with_bcsh v c)) = v"
  by (cases v) (simp add: with_bcsh_def)

lemma with_bcsh_same: "with_bcsh (uBrightness c, uContrast c, uSaturation c, uHue c) c = c"
  by (simp add: with_bcsh_def)

lemma add_prop_bound:
  "\<forall>e \<in> set (fst ps). snd (snd e) \<le> 100 \<Longrightarrow> v0 \<le> 100 \<Longrightarrow>
   \<forall>e \<in> set (fst (DRM_ATOMIC_ADD_PROP W ob p v0 ps)). snd (snd e) \<le> (100 :: u64)"
  by (cases ps) (auto simp: DRM_ATOMIC_ADD_PROP_def atomic_add_def)

lemma bcsh_request_bound: "\<forall>e \<in> set (fst (bcsh_request W i props v ([], s))). snd (snd e) \<le> 100"
  unfolding bcsh_request_def by (cases props; cases v; simp only: prod.case; intro add_prop_bound at_most_100_bound) simp

lemma bcsh_settles:
  assumes "UpdateBCSH K W pget a i props d t (c0, s) = (0, c, s')" "ENOMEM K \<noteq> 0"
  shows "UpdateBCSH K W pget a i props d t (c, s') = (0, c, s')"
proof -
  obtain v c1 where w: "wanted_bcsh pget a d t c0 = (v, c1)"
    and c: "c = with_bcsh v c1 \<or> c = c1 \<and> (uBrightness c, uContrast c, uSaturation c, uHue c) = v"
    by (rule UpdateBCSH_cases [OF assms])
  obtain x where x: "c = with_bcsh x c1" "(uBrightness c, uContrast c, uSaturation c, uHue c) = v"
    using c shown_with_bcsh [of v c1] with_bcsh_same [of c1] by metis
  have "wanted_bcsh pget a d t c = (v, c)" using wanted_bcsh_again [OF w, of x] x(1) by simp
  then show ?thesis using x(2) by (simp add: UpdateBCSH_def)
qed

text \<open>The text of a format and a depth, and what is read back from it.\<close>

definition format_text :: "conn_sdk \<Rightarrow> int \<times> int \<Rightarrow> string" where
  "format_text C fd =
     (case fd of (f, d) \<Rightarrow>
        if f = output_ycbcr_high_subsampling C then ''Auto''
        else (if f = output_rgb C then ''RGB'' else if f = output_ycbcr444 C then ''YCBCR444''
              else if f = output_ycbcr422 C then ''YCBCR422'' else ''YCBCR420'') @
             (if d = depth_24bit C then ''-8bit'' else ''-10bit''))"

lemma ParseHdmiOutputFormat_text:
  assumes "ParseHdmiOutputFormat C t = Some fd"
    and "distinct [output_rgb C, output_ycbcr444 C, output_ycbcr422 C, output_ycbcr420 C, output_ycbcr_high_subsampling C]"
    and "depth_24bit C \<noteq> depth_30bit C"
  shows "format_text C fd = t"
  using assms by (auto simp: ParseHdmiOutputFormat_def format_text_def split: if_splits)

end
