(* ===== verification/Hwc_Configs.thy ===== *)
theory Hwc_Configs
  imports Hwc_Frame Connector_Settings
begin

text \<open>
  The configurations of a display (\<open>drmhwctwo.cpp\<close>): which modes are offered to SurfaceFlinger, what
  their attributes are and how one becomes active.  The connector of the display is a \<open>sink\<close>; where
  the call goes on to the device, its part of the routing state is written there and read back.
  \<open>None\<close> is undefined behaviour: a conversion of an infinity or NaN, or a division by zero.
\<close>

section \<open>Modes that look alike\<close>

text \<open>Equality of two refresh rates as floats: an infinity equals itself, NaN does not.\<close>

definition same_refresh :: "DrmMode \<Rightarrow> DrmMode \<Rightarrow> bool" where
  "same_refresh a b \<longleftrightarrow>
     (case (v_refresh a, v_refresh b) of
        (Some r, Some q) \<Rightarrow> r = q
      | (None, None) \<Rightarrow> clock a \<noteq> 0 \<and> clock b \<noteq> 0
      | _ \<Rightarrow> False)"

definition similar_mode :: "DrmMode \<Rightarrow> DrmMode \<Rightarrow> bool" where
  "similar_mode a b \<longleftrightarrow> h_display a = h_display b \<and> v_display a = v_display b \<and> same_refresh a b"

definition is_interlaced :: "sdk \<Rightarrow> DrmMode \<Rightarrow> bool" where
  "is_interlaced K m \<longleftrightarrow> mode_flags m AND DRM_MODE_FLAG_INTERLACE K \<noteq> 0"

definition is_3d :: "conn_sdk \<Rightarrow> DrmMode \<Rightarrow> bool" where
  "is_3d C m \<longleftrightarrow> mode_flags m AND FLAG_3D_MASK C \<noteq> 0"

definition progressive_twin :: "sdk \<Rightarrow> DrmMode list \<Rightarrow> DrmMode \<Rightarrow> bool" where
  "progressive_twin K modes m \<longleftrightarrow>
     (\<exists>m' \<in> set modes. \<not> is_interlaced K m' \<and> h_display m' = h_display m \<and> v_display m' = v_display m)"

definition offer_mode :: "sdk \<Rightarrow> conn_sdk \<Rightarrow> DrmMode list \<Rightarrow> DrmMode \<Rightarrow> DrmMode list \<Rightarrow> DrmMode list" where
  "offer_mode K C modes m sel =
     (if is_3d C m then sel
      else if is_interlaced K m then (if progressive_twin K modes m then sel else sel @ [m])
      else if \<exists>m' \<in> set sel. similar_mode m' m then sel else sel @ [m])"

definition first_modes :: "sink \<Rightarrow> DrmMode list" where
  "first_modes c =
     (case find (\<lambda>m. mode_id m = n_preferred c) (n_modes c) of Some m \<Rightarrow> [m] | None \<Rightarrow> []) @
     (if mode_id (n_active c) \<noteq> n_preferred c then [n_active c] else [])"

definition sel_modes :: "sdk \<Rightarrow> conn_sdk \<Rightarrow> sink \<Rightarrow> DrmMode list" where
  "sel_modes K C c = fold (offer_mode K C (n_modes c)) (n_modes c) (first_modes c)"

section \<open>The sizes of the frame buffer\<close>


definition int_of :: "u32 \<Rightarrow> int" where
  "int_of w = sint w"

definition upd_ctx :: "(hwc2_drm_display \<Rightarrow> hwc2_drm_display) \<Rightarrow> hwc_display \<Rightarrow> hwc_display" where
  "upd_ctx f d = d\<lparr> ctx := f (ctx d) \<rparr>"










section \<open>The calls\<close>

definition has_rates :: "sink \<Rightarrow> hwc_display \<Rightarrow> bool" where
  "has_rates c d \<longleftrightarrow> bVrrDisplay d \<and> 1 < length (s_vrr_modes c)"



definition one_config :: "nat option \<Rightarrow> sink \<Rightarrow> hwc_display \<Rightarrow> nat \<times> u32 list" where
  "one_config want c d =
     (if has_rates c d
      then (length (s_vrr_modes c),
            if want = None then [] else List.map of_nat [0..<Suc (length (s_vrr_modes c))])
      else (1, if want = None then [] else [0]))"


text \<open>The client layer takes the size of the frame buffer, or the part a crop split shows.\<close>

definition fit_client :: "hwc_rect \<Rightarrow> hwc_frect \<Rightarrow> hwc_display \<Rightarrow> hwc_display" where
  "fit_client fr crop d =
     d\<lparr> client_layer := snd (SetLayerSourceCrop crop (snd (SetLayerDisplayFrame fr (client_layer d)))) \<rparr>"

definition fit_client_fb :: "sink \<Rightarrow> hwc_display \<Rightarrow> hwc_display" where
  "fit_client_fb c d =
     (let w = framebuffer_width (ctx d); h = framebuffer_height (ctx d);
          fr = \<lparr> left = 0, top = 0, right = w, bottom = h \<rparr>
      in if s_crop_split c then
           (case s_src c of (x, y, sw, sh) \<Rightarrow>
              fit_client fr \<lparr> fleft = of_int x, ftop = of_int y, fright = of_int (x + sw),
                                 fbottom = of_int (y + sh) \<rparr> d)
         else fit_client fr \<lparr> fleft = 0, ftop = 0, fright = of_int w, fbottom = of_int h \<rparr> d)"

definition GetActiveConfig :: "sink \<Rightarrow> hwc_display \<Rightarrow> hwc2_error \<times> u32 \<times> hwc_display" where
  "GetActiveConfig c d =
     (if bStandardSwitchResolution (ctx d) then
        (if mode_id (n_active c) = 0 then (BadConfig, 0, d)
         else (let b = n_best c;
                   w = (if n_horizontal_split c then h_display b div 2 else h_display b);
                   d1 = upd_ctx (\<lambda>x. x\<lparr> framebuffer_width := int_of w,
                                        framebuffer_height := int_of (v_display b) \<rparr>) d
               in (E_None, mode_id (n_active c), fit_client_fb c d1)))
      else (E_None, 0, fit_client_fb c d))"







text \<open>\<open>size() - 1\<close> is unsigned, so an empty list lets every number through: \<open>None\<close>.\<close>

definition UpdateRefreshRate ::
  "sdk \<Rightarrow> topo \<Rightarrow> world \<Rightarrow> u32 \<Rightarrow> sink \<Rightarrow> hwc_display \<Rightarrow> pipe \<Rightarrow> (hwc2_error \<times> pipe) option" where
  "UpdateRefreshRate K T W config c d s =
     (if \<not> bVrrDisplay d then Some (E_None, s)
      else if s_vrr_modes c = [] then None
      else if unat config \<le> length (s_vrr_modes c) - 1 then
        (case UpdateVrrRefreshRate K T W (hd_handle d) (s_vrr_modes c ! unat config) s of
           (ret, s1) \<Rightarrow> Some (if ret \<noteq> 0 then BadConfig else E_None, s1))
      else Some (BadConfig, s))"

text \<open>The connector of the display in the routing state, with the settings it has beside it.\<close>

definition sink_at :: "nptr \<Rightarrow> sink \<Rightarrow> pipe \<Rightarrow> sink" where
  "sink_at n c s = DrmConnector.extend (conn s n) (DrmConnector.more c)"

definition SetActiveConfig ::
  "sdk \<Rightarrow> topo \<Rightarrow> world \<Rightarrow> (disp_info \<Rightarrow> int) \<Rightarrow> nptr \<Rightarrow> u32 \<Rightarrow> sink \<times> hwc_display \<times> pipe \<Rightarrow>
   (hwc2_error \<times> sink \<times> hwc_display \<times> pipe) option"
where
  "SetActiveConfig K T W stored n config cd =
     (case cd of (c, d, s) \<Rightarrow>
        if bStandardSwitchResolution (ctx d) then
          (case find (\<lambda>m. mode_id m = config) (sf_modes d) of
             None \<Rightarrow> Some (BadConfig, c, d, s)
           | Some m \<Rightarrow> do {
               let s1 = upd_conn n (\<lambda>c. c\<lparr> n_best := m, n_current := m \<rparr>) s;
               let d1 = upd_ctx (\<lambda>x. x\<lparr> rel_xres := int_of (h_display m), rel_yres := int_of (v_display m) \<rparr>) d;
               let d2 = fit_client \<lparr> left = 0, top = 0, right = int_of (h_display m), bottom = int_of (v_display m) \<rparr>
                          \<lparr> fleft = 0, ftop = 0, fright = of_nat (unat (h_display m)),
                            fbottom = of_nat (unat (v_display m)) \<rparr> d1;
               (_, s2) \<leftarrow> UpdateDisplayMode K T W (hd_handle d) s1;
               (_, c2) \<leftarrow> SetDisplayModeInfo stored (sink_at n c s2);
               Some (E_None, c2, d2, s2)
             })
        else if s_crop_split c then Some (E_None, c, fit_client_fb c d, s)
        else if bVrrDisplay d then do {
          (err, s1) \<leftarrow> UpdateRefreshRate K T W config c d s;
          Some (if err \<noteq> E_None then (err, c, d, s1) else (E_None, c, fit_client_fb c d, s1))
        }
        else if config \<noteq> 0 then Some (BadConfig, c, d, s)
        else Some (E_None, c, fit_client_fb c d, s))"

text \<open>The name, cut to one character less than it has.\<close>

definition GetDisplayName :: "u32 \<Rightarrow> nat option \<Rightarrow> nat \<times> string" where
  "GetDisplayName conn_id room =
     (let name = ''display-'' @ digits_of (unat conn_id) in
      case room of
        None \<Rightarrow> (length name, [])
      | Some r \<Rightarrow> (min (length name - 1) r, take (min (length name - 1) r) name))"

lemma sink_at_simps [simp]:
  "s_base_ready (sink_at n c s) = s_base_ready c" "s_base (sink_at n c s) = s_base c"
  "n_current (sink_at n c s) = n_current (conn s n)"
  by (cases c; simp add: sink_at_def DrmConnector.defs)+

section \<open>What is offered\<close>

lemma fold_offer:
  "\<exists>ys. fold (offer_mode K C ms) xs acc = acc @ ys \<and> set ys \<subseteq> set xs \<and>
     (\<forall>m \<in> set xs. \<not> is_3d C m \<and> \<not> is_interlaced K m \<longrightarrow>
        (\<exists>m' \<in> set (acc @ ys). m' = m \<or> similar_mode m' m)) \<and>
     (\<forall>m \<in> set ys. \<not> is_3d C m \<and> (is_interlaced K m \<longrightarrow> \<not> progressive_twin K ms m)) \<and>
     (\<forall>i j. i < j \<and> j < length (acc @ ys) \<and> length acc \<le> j \<and> \<not> is_interlaced K ((acc @ ys) ! j) \<longrightarrow>
        \<not> similar_mode ((acc @ ys) ! i) ((acc @ ys) ! j))"
proof (induction xs arbitrary: acc)
  case (Cons x xs)
  show ?case
  proof (cases "offer_mode K C ms x acc = acc")
    case True
    obtain ys where ys: "fold (offer_mode K C ms) xs acc = acc @ ys" "set ys \<subseteq> set xs"
      "\<forall>m \<in> set xs. \<not> is_3d C m \<and> \<not> is_interlaced K m \<longrightarrow> (\<exists>m' \<in> set (acc @ ys). m' = m \<or> similar_mode m' m)"
      "\<forall>m \<in> set ys. \<not> is_3d C m \<and> (is_interlaced K m \<longrightarrow> \<not> progressive_twin K ms m)"
      "\<forall>i j. i < j \<and> j < length (acc @ ys) \<and> length acc \<le> j \<and> \<not> is_interlaced K ((acc @ ys) ! j) \<longrightarrow>
         \<not> similar_mode ((acc @ ys) ! i) ((acc @ ys) ! j)"
      using Cons.IH [of acc] by blast
    have "\<not> is_3d C x \<and> \<not> is_interlaced K x \<longrightarrow> (\<exists>m' \<in> set acc. similar_mode m' x)"
      using True by (auto simp: offer_mode_def split: if_splits)
    then have "\<forall>m \<in> set (x # xs). \<not> is_3d C m \<and> \<not> is_interlaced K m \<longrightarrow>
        (\<exists>m' \<in> set (acc @ ys). m' = m \<or> similar_mode m' m)"
      using ys(3) by auto
    then show ?thesis using ys True by (intro exI [of _ ys]) auto
  next
    case False
    then have o: "offer_mode K C ms x acc = acc @ [x]" "\<not> is_3d C x"
      "is_interlaced K x \<longrightarrow> \<not> progressive_twin K ms x"
      "\<not> is_interlaced K x \<longrightarrow> (\<forall>m' \<in> set acc. \<not> similar_mode m' x)"
      by (auto simp: offer_mode_def split: if_splits)
    obtain ys where ys: "fold (offer_mode K C ms) xs (acc @ [x]) = acc @ x # ys" "set ys \<subseteq> set xs"
      "\<forall>m \<in> set xs. \<not> is_3d C m \<and> \<not> is_interlaced K m \<longrightarrow>
         (\<exists>m' \<in> set (acc @ x # ys). m' = m \<or> similar_mode m' m)"
      "\<forall>m \<in> set ys. \<not> is_3d C m \<and> (is_interlaced K m \<longrightarrow> \<not> progressive_twin K ms m)"
      "\<forall>i j. i < j \<and> j < length (acc @ x # ys) \<and> Suc (length acc) \<le> j \<and> \<not> is_interlaced K ((acc @ x # ys) ! j) \<longrightarrow>
         \<not> similar_mode ((acc @ x # ys) ! i) ((acc @ x # ys) ! j)"
      using Cons.IH [of "acc @ [x]"] by auto
    have "\<not> similar_mode ((acc @ x # ys) ! i) ((acc @ x # ys) ! j)"
      if h: "i < j" "j < length (acc @ x # ys)" "length acc \<le> j" "\<not> is_interlaced K ((acc @ x # ys) ! j)" for i j
    proof (cases "j = length acc")
      case True
      then show ?thesis using h o(4) by (simp add: nth_append)
    next
      case False
      then show ?thesis using ys(5) h by simp
    qed
    then show ?thesis using ys o by (intro exI [of _ "x # ys"]) auto
  qed
qed auto

lemma first_modes_mem: "m \<in> set (first_modes c) \<Longrightarrow> m \<in> set (n_modes c) \<or> m = n_active c"
  by (auto simp: first_modes_def dest: find_mem find_mem [OF sym] split: option.splits if_splits)

lemma first_modes_active:
  assumes "n_preferred c \<in> mode_id ` set (n_modes c)"
  shows "mode_id (n_active c) \<in> mode_id ` set (first_modes c)"
proof (cases "mode_id (n_active c) = n_preferred c")
  case True
  have "find (\<lambda>m. mode_id m = n_preferred c) (n_modes c) \<noteq> None"
    using assms by (auto simp: find_None_iff)
  then obtain m where "find (\<lambda>m. mode_id m = n_preferred c) (n_modes c) = Some m" by blast
  moreover from this have "mode_id m = n_preferred c" by (auto simp: find_Some_iff)
  ultimately show ?thesis using True by (simp add: first_modes_def)
qed (simp add: first_modes_def)

text \<open>
  C11: The list of configurations thins out the modes without losing a picture.  Every mode of it is a
  mode of the connector or the active one, and the active one is there; each mode that is neither 3D
  nor interlaced is offered or has one of the same size and rate in the list; apart from the
  preferred and the active mode, no progressive mode repeats the size and rate of an earlier one, no
  3D mode is offered, and an interlaced one only if its size has no progressive mode.
\<close>

theorem configs_offered:
  assumes "n_preferred c \<in> mode_id ` set (n_modes c)"
  shows "let sel = sel_modes K C c; k = length (first_modes c) in
     set sel \<subseteq> insert (n_active c) (set (n_modes c)) \<and> mode_id (n_active c) \<in> mode_id ` set sel \<and>
     (\<forall>m \<in> set (n_modes c). \<not> is_3d C m \<and> \<not> is_interlaced K m \<longrightarrow>
        (\<exists>m' \<in> set sel. m' = m \<or> similar_mode m' m)) \<and>
     (\<forall>m \<in> set (drop k sel). \<not> is_3d C m \<and> (is_interlaced K m \<longrightarrow> \<not> progressive_twin K (n_modes c) m)) \<and>
     (\<forall>i j. i < j \<and> j < length sel \<and> k \<le> j \<and> \<not> is_interlaced K (sel ! j) \<longrightarrow>
        \<not> similar_mode (sel ! i) (sel ! j))"
proof -
  obtain ys where ys: "sel_modes K C c = first_modes c @ ys" "set ys \<subseteq> set (n_modes c)"
    "\<forall>m \<in> set (n_modes c). \<not> is_3d C m \<and> \<not> is_interlaced K m \<longrightarrow>
       (\<exists>m' \<in> set (first_modes c @ ys). m' = m \<or> similar_mode m' m)"
    "\<forall>m \<in> set ys. \<not> is_3d C m \<and> (is_interlaced K m \<longrightarrow> \<not> progressive_twin K (n_modes c) m)"
    "\<forall>i j. i < j \<and> j < length (first_modes c @ ys) \<and> length (first_modes c) \<le> j \<and>
       \<not> is_interlaced K ((first_modes c @ ys) ! j) \<longrightarrow>
       \<not> similar_mode ((first_modes c @ ys) ! i) ((first_modes c @ ys) ! j)"
    using fold_offer [of K C "n_modes c" "n_modes c" "first_modes c"] unfolding sel_modes_def by blast
  have "set (sel_modes K C c) \<subseteq> insert (n_active c) (set (n_modes c))"
    using ys(1,2) first_modes_mem by auto
  moreover have "mode_id (n_active c) \<in> mode_id ` set (sel_modes K C c)"
    using first_modes_active [OF assms] ys(1) by auto
  ultimately show ?thesis using ys by (simp add: Let_def)
qed

section \<open>What can be chosen\<close>


text \<open>On a display with several rates the list is one longer than reported, and its last is refused.\<close>

lemma rates_one_too_many:
  assumes "has_rates c d" "\<not> s_crop_split c" "\<not> bStandardSwitchResolution (ctx d)" "length (s_vrr_modes c) < 2 ^ 32"
  shows "length (snd (one_config (Some r) c d)) = Suc (fst (one_config (Some r) c d))"
    and "SetActiveConfig K T W stored k (last (snd (one_config (Some r) c d))) (c, d, s) = Some (BadConfig, c, d, s)"
proof -
  show "length (snd (one_config (Some r) c d)) = Suc (fst (one_config (Some r) c d))"
    using assms(1) by (simp add: one_config_def)
  have l: "last (snd (one_config (Some r) c d)) = of_nat (length (s_vrr_modes c))"
    using assms(1) by (simp add: one_config_def)
  have "unat (of_nat (length (s_vrr_modes c)) :: u32) = length (s_vrr_modes c)"
    using assms(4) by (simp add: unat_of_nat)
  moreover have "s_vrr_modes c \<noteq> []" "bVrrDisplay d" "\<not> length (s_vrr_modes c) \<le> length (s_vrr_modes c) - 1"
    using assms(1) by (auto simp: has_rates_def)
  ultimately show "SetActiveConfig K T W stored k (last (snd (one_config (Some r) c d))) (c, d, s) = Some (BadConfig, c, d, s)"
    unfolding l using assms(2,3) by (auto simp: SetActiveConfig_def UpdateRefreshRate_def)
qed

text \<open>1080p twice and 720p: the second 1080p mode is dropped.\<close>

definition sink_modes :: sink where
  "sink_modes = sink0\<lparr> n_modes := [hdmi_1080, mode_720, hdmi_1080\<lparr> mode_id := 3 \<rparr>], n_active := hdmi_1080 \<rparr>"

lemma sel_sink_modes: "sel_modes sdk0 conn_sdk0 sink_modes = [hdmi_1080, mode_720]"
  by (simp add: sel_modes_def first_modes_def sink_modes_def sink0_def DrmConnector.defs conn_dark_def hdmi_1080_def
      mode_1080_def mode_720_def DrmMode_default_def offer_mode_def is_3d_def is_interlaced_def similar_mode_def
      same_refresh_def v_refresh_def)

lemma sink_modes_preferred: "n_preferred sink_modes \<in> mode_id ` set (n_modes sink_modes)"
  by (simp add: sink_modes_def sink0_def DrmConnector.defs conn_dark_def hdmi_1080_def mode_1080_def)

lemma configs_offered_witness:
  "set [hdmi_1080, mode_720] \<subseteq> insert (n_active sink_modes) (set (n_modes sink_modes)) \<and>
   (\<exists>m' \<in> set [hdmi_1080, mode_720]. similar_mode m' (hdmi_1080\<lparr> mode_id := 3 \<rparr>))"
proof -
  note c = configs_offered [OF sink_modes_preferred, of sdk0 conn_sdk0, unfolded Let_def sel_sink_modes]
  have m: "hdmi_1080\<lparr> mode_id := 3 \<rparr> \<in> set (n_modes sink_modes)" by (simp add: sink_modes_def)
  have p: "\<not> is_3d conn_sdk0 (hdmi_1080\<lparr> mode_id := 3 \<rparr>)" "\<not> is_interlaced sdk0 (hdmi_1080\<lparr> mode_id := 3 \<rparr>)"
    by (simp_all add: is_3d_def is_interlaced_def hdmi_1080_def mode_1080_def DrmMode_default_def)
  have n: "hdmi_1080\<lparr> mode_id := 3 \<rparr> \<notin> set [hdmi_1080, mode_720]"
    by (simp add: hdmi_1080_def mode_1080_def mode_720_def DrmMode_default_def)
  have "\<exists>m' \<in> set [hdmi_1080, mode_720]. m' = hdmi_1080\<lparr> mode_id := 3 \<rparr> \<or> similar_mode m' (hdmi_1080\<lparr> mode_id := 3 \<rparr>)"
    using c m p by blast
  then show ?thesis using c n by blast
qed


end
