(* ===== verification/Frame_Composition.thy ===== *)
theory Frame_Composition
  imports Vop_Match_Props Pipe_Claims Layer_Info
begin

text \<open>
  One frame on its way to the compositor: \<open>DrmDisplayComposition\<close> and \<open>DrmCompositionPlane\<close>
  (\<open>rockchip/compositor/drmdisplaycomposition.cpp\<close>), and the release fences of its layers
  (\<open>ReleaseFence\<close> and \<open>SyncTimeline\<close> in \<open>rockchip/common/drmfence.cpp\<close>).

  A display has one software timeline.  \<open>tl_cnt\<close> is the number the HAL counts up for every fence it
  creates, \<open>tl_now\<close> the counter in the kernel: a fence with a value is signalled when the counter has
  reached it.  Whether the kernel creates a fence is a function of the timeline and the value, with
  the descriptor or a negative number as its answer; a fence that was created stays valid.
\<close>

section \<open>Fences\<close>

record timeline =
  tl_cnt :: int
  tl_now :: int

type_synonym timelines = "int \<Rightarrow> timeline"

type_synonym sync_kernel = "int \<Rightarrow> int \<Rightarrow> int"

record ReleaseFence =
  rf_fd :: int
  rf_line :: int
  rf_value :: int

definition IncTimeline :: "int \<Rightarrow> timelines \<Rightarrow> int \<times> timelines" where
  "IncTimeline d ts = (tl_cnt (ts d) + 1, ts(d := (ts d)\<lparr> tl_cnt := tl_cnt (ts d) + 1 \<rparr>))"

text \<open>\<open>NO_FENCE\<close> and a fence that could not be created are \<open>None\<close>.\<close>

definition ReleaseFence_new :: "sync_kernel \<Rightarrow> int \<Rightarrow> int \<Rightarrow> ReleaseFence option" where
  "ReleaseFence_new Y d v =
     (let fd = Y d v in if fd = -1 then None else Some \<lparr> rf_fd = fd, rf_line = d, rf_value = v \<rparr>)"

text \<open>\<open>sw_sync_timeline_inc\<close> moves the timeline on by one, whatever the value of the fence.\<close>

definition fence_signal :: "ReleaseFence \<Rightarrow> timelines \<Rightarrow> timelines" where
  "fence_signal f ts = ts(rf_line f := (ts (rf_line f))\<lparr> tl_now := tl_now (ts (rf_line f)) + 1 \<rparr>)"

definition signalled :: "timelines \<Rightarrow> ReleaseFence \<Rightarrow> bool" where
  "signalled ts f \<longleftrightarrow> rf_value f \<le> tl_now (ts (rf_line f))"

section \<open>The frame\<close>

text \<open>
  What a layer carries beside what the policy sees: \<open>fl_fb\<close> is the imported buffer, \<open>fl_metadata_hdr\<close>
  the colour primaries and the metadata for the sink, when the HDR parser found some.
\<close>

record hdr_meta =
  hm_type :: u32
  hm_eotf :: u16
  hm_metadata_type :: nat
  hm_fields :: "u16 list"

record frame_layer = DrmHwcLayer +
  fl_release :: "ReleaseFence option"
  fl_tunnel :: int
  fl_sideband2 :: bool
  fl_frame_mirror :: hwc_rect
  fl_fb :: "int option"
  fl_metadata_hdr :: "(u32 \<times> hdr_meta) option"

text \<open>
  \<open>fp_sources\<close> are indices into the layers of the composition.  The move constructor takes over the
  first of them and the \<open>zpos\<close> for a plane that shows a layer, and neither for one that is disabled.
\<close>

record frame_plane =
  fp_type :: cp_type
  fp_plane :: pptr
  fp_crtc :: "cptr option"
  fp_sources :: "nat list"
  fp_zpos :: int
  fp_mirror :: bool

datatype DrmCompositionType =
  DRM_COMPOSITION_TYPE_EMPTY | DRM_COMPOSITION_TYPE_FRAME | DRM_COMPOSITION_TYPE_DPMS | DRM_COMPOSITION_TYPE_MODESET

datatype DrmHdrType =
  DRM_HWC_SDR | DRM_HWC_DOLBY_VISION | DRM_HWC_HDR10 | DRM_HWC_HLG | DRM_HWC_HDR10_PLUS | DRM_HWC_METADATA_HDR

record frame_comp =
  dc_type :: DrmCompositionType
  dc_display :: int
  dc_frame_no :: nat
  dc_crtc :: "cptr option"
  dc_dpms :: u32
  dc_mode :: DrmMode
  dc_drop :: bool
  dc_hdr :: DrmHdrType
  dc_yuv10 :: bool
  dc_dataspace :: u32
  dc_geometry :: bool
  dc_sideband2 :: bool
  dc_tunnel :: int
  dc_layers :: "frame_layer list"
  dc_planes :: "frame_plane list"
  dc_update_assign :: bool
  dc_out_fence :: int
  dc_signal :: bool

text \<open>\<open>new DrmDisplayComposition()\<close> sets the members without an initialiser to zero.\<close>

definition composition_new :: frame_comp where
  "composition_new =
     \<lparr> dc_type = DRM_COMPOSITION_TYPE_EMPTY, dc_display = 0, dc_frame_no = 0, dc_crtc = None, dc_dpms = 0,
       dc_mode = DrmMode_default, dc_drop = False, dc_hdr = DRM_HWC_SDR, dc_yuv10 = False, dc_dataspace = 0,
       dc_geometry = False, dc_sideband2 = False, dc_tunnel = 0, dc_layers = [], dc_planes = [],
       dc_update_assign = False, dc_out_fence = -1, dc_signal = False \<rparr>"

definition composition_Init :: "cptr option \<Rightarrow> nat \<Rightarrow> int \<Rightarrow> frame_comp \<Rightarrow> int \<times> frame_comp" where
  "composition_Init k n display_id c =
     (0, c\<lparr> dc_crtc := k, dc_frame_no := n, dc_display := display_id, dc_hdr := DRM_HWC_SDR,
            dc_yuv10 := False, dc_sideband2 := False \<rparr>)"

definition validate_composition_type :: "DrmCompositionType \<Rightarrow> frame_comp \<Rightarrow> bool" where
  "validate_composition_type des c \<longleftrightarrow> dc_type c = DRM_COMPOSITION_TYPE_EMPTY \<or> dc_type c = des"

text \<open>The last layer with a tunnel decides.\<close>

definition note_sideband :: "frame_layer \<Rightarrow> frame_comp \<Rightarrow> frame_comp" where
  "note_sideband l c =
     (if bSidebandStreamLayer l \<and> 0 < fl_tunnel l
      then c\<lparr> dc_sideband2 := fl_sideband2 l, dc_tunnel := fl_tunnel l \<rparr> else c)"

definition SetLayers :: "sdk \<Rightarrow> frame_layer list \<Rightarrow> bool \<Rightarrow> frame_comp \<Rightarrow> int \<times> frame_comp" where
  "SetLayers K ls geometry_changed c =
     (if \<not> validate_composition_type DRM_COMPOSITION_TYPE_FRAME c then (- EINVAL K, c)
      else
       (let c1 = fold note_sideband ls
                   (c\<lparr> dc_geometry := geometry_changed, dc_tunnel := 0, dc_sideband2 := False \<rparr>)
        in (0, c1\<lparr> dc_layers := exchange_sort iDrmZpos ls, dc_type := DRM_COMPOSITION_TYPE_FRAME \<rparr>)))"

definition SetDpmsMode :: "sdk \<Rightarrow> u32 \<Rightarrow> frame_comp \<Rightarrow> int \<times> frame_comp" where
  "SetDpmsMode K dpms c =
     (if \<not> validate_composition_type DRM_COMPOSITION_TYPE_DPMS c then (- EINVAL K, c)
      else (0, c\<lparr> dc_dpms := dpms, dc_type := DRM_COMPOSITION_TYPE_DPMS \<rparr>))"

text \<open>\<open>on\<close> is \<open>DRM_MODE_DPMS_ON\<close>.\<close>

definition SetDisplayMode :: "sdk \<Rightarrow> u32 \<Rightarrow> DrmMode \<Rightarrow> frame_comp \<Rightarrow> int \<times> frame_comp" where
  "SetDisplayMode K on m c =
     (if \<not> validate_composition_type DRM_COMPOSITION_TYPE_MODESET c then (- EINVAL K, c)
      else (0, c\<lparr> dc_mode := m, dc_dpms := on, dc_type := DRM_COMPOSITION_TYPE_MODESET \<rparr>))"

definition SetDisplayHdrMode :: "DrmHdrType \<Rightarrow> u32 \<Rightarrow> frame_comp \<Rightarrow> frame_comp" where
  "SetDisplayHdrMode hdr ds c =
     c\<lparr> dc_hdr := hdr, dc_dataspace := ds,
        dc_yuv10 := (dc_yuv10 c \<or> (\<exists>l \<in> set (dc_layers c). bYuv10bit (buf l))) \<rparr>"

definition SetDropMode :: "bool \<Rightarrow> frame_comp \<Rightarrow> frame_comp" where
  "SetDropMode b c = c\<lparr> dc_drop := b \<rparr>"

definition AddPlaneDisable :: "pptr \<Rightarrow> frame_comp \<Rightarrow> frame_comp" where
  "AddPlaneDisable p c =
     c\<lparr> dc_planes := dc_planes c @
          [\<lparr> fp_type = kDisable, fp_plane = p, fp_crtc = dc_crtc c, fp_sources = [], fp_zpos = 0, fp_mirror = False \<rparr>] \<rparr>"

definition AddPlaneComposition :: "frame_plane \<Rightarrow> frame_comp \<Rightarrow> frame_comp" where
  "AddPlaneComposition p c =
     c\<lparr> dc_planes := dc_planes c @
          [if fp_type p = kLayer then p\<lparr> fp_sources := take 1 (fp_sources p) \<rparr>
           else p\<lparr> fp_sources := [], fp_zpos := 0 \<rparr>] \<rparr>"

text \<open>
  A plane of the policy: the source is an \<open>int\<close> converted to \<open>size_t\<close>.
\<close>

definition frame_plane_of :: "cptr option \<Rightarrow> comp_plane \<Rightarrow> frame_plane" where
  "frame_plane_of k e =
     \<lparr> fp_type = cp_type e, fp_plane = cp_plane e, fp_crtc = k,
       fp_sources = [nat (cp_source e mod 2 ^ 64)], fp_zpos = cp_zpos e, fp_mirror = False \<rparr>"

text \<open>
  The planes of the display that show nothing are disabled, and all planes of a group that is to
  migrate to another CRTC; a plane for which both hold is added twice.  \<open>delay_use_cnt\<close>, which the
  loop counts down, is read nowhere.
\<close>

definition disable_plane :: "PlaneGroup \<Rightarrow> gptr \<Rightarrow> nat \<Rightarrow> frame_comp \<Rightarrow> frame_comp" where
  "disable_plane g gp i c =
     (let c1 = (if \<not> b_use (planes g ! i) then AddPlaneDisable (gp, i) c else c)
      in if is_will_disable g then (AddPlaneDisable (gp, i) c1)\<lparr> dc_update_assign := True \<rparr> else c1)"

definition disable_group :: "u32 \<Rightarrow> u32 \<Rightarrow> gheap \<Rightarrow> gptr \<Rightarrow> frame_comp \<Rightarrow> frame_comp" where
  "disable_group soc msk gs gp c =
     (let g = gs gp in
      if gReserved g then c
      else if acquire_display msk (dc_display c) g \<or> isRK3566 soc
      then fold (disable_plane g gp) [0..<length (planes g)] c
      else c)"

text \<open>Without a CRTC the code follows a null pointer: \<open>None\<close>.\<close>

definition DisableUnusedPlanes :: "topo \<Rightarrow> gptr list \<Rightarrow> gheap \<Rightarrow> frame_comp \<Rightarrow> frame_comp option" where
  "DisableUnusedPlanes T all gs c =
     (if dc_type c \<noteq> DRM_COMPOSITION_TYPE_FRAME then Some c
      else (case dc_crtc c of
              None \<Rightarrow> None
            | Some k \<Rightarrow> Some (fold (disable_group (device_soc T) (crtc_mask T k) gs) all c)))"

section \<open>Release fences\<close>

text \<open>
  The layers some plane shows, each once.  The code keeps them in a hash set; here they are in the
  order in which the planes name them.
\<close>

definition comp_layers :: "frame_comp \<Rightarrow> nat list" where
  "comp_layers c = remdups (concat (List.map fp_sources (filter (\<lambda>p. fp_type p = kLayer) (dc_planes c))))"

definition upd_frame_layer :: "nat \<Rightarrow> (frame_layer \<Rightarrow> frame_layer) \<Rightarrow> frame_comp \<Rightarrow> frame_comp" where
  "upd_frame_layer i f c = c\<lparr> dc_layers := (dc_layers c)[i := f (dc_layers c ! i)] \<rparr>"

text \<open>
  The result, the timelines, the frame, and the fences put on buffers of the 2D engine, as pairs of
  the buffer and the fence.  A fence that cannot be created ends the loop; its value is used up.
\<close>

fun assign_fences ::
  "sync_kernel \<Rightarrow> nat list \<Rightarrow> timelines \<Rightarrow> frame_comp \<Rightarrow> (nat \<times> ReleaseFence) list \<Rightarrow>
   int \<times> timelines \<times> frame_comp \<times> (nat \<times> ReleaseFence) list"
where
  "assign_fences Y [] ts c bs = (0, ts, c, bs)"
| "assign_fences Y (i # is) ts c bs =
     (if fl_sideband2 (dc_layers c ! i) then assign_fences Y is ts c bs
      else (case IncTimeline (dc_display c) ts of (v, ts1) \<Rightarrow>
        (let f = ReleaseFence_new Y (dc_display c) v;
             c1 = upd_frame_layer i (\<lambda>l. l\<lparr> fl_release := f \<rparr>) c
         in case f of
              None \<Rightarrow> (-1, ts1, c1, bs)
            | Some f' \<Rightarrow>
                let b = buf (dc_layers c ! i)
                in assign_fences Y is ts1 c1
                     (case pRgaBuffer b of Some n \<Rightarrow> if bUseRga b then bs @ [(n, f')] else bs | None \<Rightarrow> bs))))"

text \<open>An index out of range is undefined: \<open>None\<close>.\<close>

definition sources_ok :: "frame_comp \<Rightarrow> bool" where
  "sources_ok c \<longleftrightarrow> (\<forall>i \<in> set (comp_layers c). i < length (dc_layers c))"

definition CreateAndAssignReleaseFences ::
  "sync_kernel \<Rightarrow> timelines \<Rightarrow> frame_comp \<Rightarrow> (int \<times> timelines \<times> frame_comp \<times> (nat \<times> ReleaseFence) list) option" where
  "CreateAndAssignReleaseFences Y ts c =
     (if \<not> sources_ok c then None
      else Some (assign_fences Y (comp_layers c) ts (c\<lparr> dc_signal := False \<rparr>) []))"

definition GetReleaseFence :: "u64 \<Rightarrow> frame_comp \<Rightarrow> ReleaseFence option option" where
  "GetReleaseFence layer_id c =
     (if \<not> sources_ok c then None
      else Some (case find (\<lambda>i. ucast (uId (dc_layers c ! i)) = layer_id) (comp_layers c) of
                   None \<Rightarrow> None | Some i \<Rightarrow> fl_release (dc_layers c ! i)))"

text \<open>Every valid fence of a layer that is shown moves the timeline on by one, once per frame.\<close>

definition comp_fences :: "frame_comp \<Rightarrow> ReleaseFence list" where
  "comp_fences c = List.map_filter (\<lambda>i. fl_release (dc_layers c ! i)) (comp_layers c)"

definition SignalCompositionDone :: "frame_comp \<Rightarrow> timelines \<Rightarrow> frame_comp \<times> timelines" where
  "SignalCompositionDone c ts =
     (if dc_signal c \<or> comp_layers c = [] then (c, ts)
      else (c\<lparr> dc_signal := True \<rparr>, fold fence_signal (comp_fences c) ts))"

text \<open>The destructor signals what was not signalled before.\<close>

definition destroy_frame :: "frame_comp \<Rightarrow> timelines \<Rightarrow> timelines" where
  "destroy_frame c ts = snd (SignalCompositionDone c ts)"

end
