(* ===== verification/Frame_Request.thy ===== *)
theory Frame_Request
  imports Frame_Composition
begin

unbundle bit_operations_syntax

text \<open>
  What the compositor asks of the kernel for one frame: the part of \<open>CollectCommitInfo\<close> of
  \<open>rockchip/compositor/drmdisplaycompositor.cpp\<close> that fills the atomic request, plane by plane, with
  \<open>CheckOverscan\<close> and \<open>CommitSidebandStream\<close>.  The write-back connector is off: neither branch for
  it does anything then.  \<open>PL\<close> gives the planes; what the CRTCs and connectors have beside the routing
  state is the record \<open>frame_env\<close>.  A \<open>NULL\<close> CRTC that is followed, and the colour range of a layer
  that has none, are \<open>None\<close>.
\<close>

record crtc_margins =
  b_can_overscan :: bool
  left_margin_property :: u32
  right_margin_property :: u32
  top_margin_property :: u32
  bottom_margin_property :: u32

record frame_env =
  fe_margins :: "cptr \<Rightarrow> crtc_margins"
  fe_unique_name :: "nptr \<Rightarrow> string"
  fe_pget :: property_get
  fe_drm_version :: u32

definition gIsDrmVerison6_1 :: "frame_env \<Rightarrow> bool" where
  "gIsDrmVerison6_1 V \<longleftrightarrow> fe_drm_version V = 4"

section \<open>Adding properties\<close>

text \<open>
  A chain \<open>add(\<dots>) < 0 || add(\<dots>) < 0\<close> stops at the first failure; with \<open>ret |=\<close> all are tried.  The
  result says whether one failed.
\<close>

fun add_until ::
  "world \<Rightarrow> u32 \<Rightarrow> (u32 \<times> u64) list \<Rightarrow> request \<times> pipe \<Rightarrow> bool \<times> request \<times> pipe" where
  "add_until W obj [] ps = (False, ps)"
| "add_until W obj ((prop, v) # xs) ps =
     (case atomic_add W obj prop v ps of (ok, ps1) \<Rightarrow> if ok then add_until W obj xs ps1 else (True, ps1))"

fun add_each ::
  "world \<Rightarrow> u32 \<Rightarrow> (u32 \<times> u64) list \<Rightarrow> request \<times> pipe \<Rightarrow> bool \<times> request \<times> pipe" where
  "add_each W obj [] ps = (False, ps)"
| "add_each W obj ((prop, v) # xs) ps =
     (case atomic_add W obj prop v ps of (ok, ps1) \<Rightarrow>
        case add_each W obj xs ps1 of (failed, ps2) \<Rightarrow> (\<not> ok \<or> failed, ps2))"

text \<open>Properties a plane may lack: only those with an id.\<close>

definition present :: "(u32 \<times> u64) list \<Rightarrow> (u32 \<times> u64) list" where
  "present = filter (\<lambda>(prop, v). prop \<noteq> 0)"

definition u64_of :: "int \<Rightarrow> u64" where
  "u64_of i = word_of_int i"

section \<open>Overscan\<close>

definition OVERSCAN_MIN_VALUE :: int where "OVERSCAN_MIN_VALUE = 80"
definition OVERSCAN_MAX_VALUE :: int where "OVERSCAN_MAX_VALUE = 100"

definition overscan_text :: "frame_env \<Rightarrow> int \<Rightarrow> string \<Rightarrow> string" where
  "overscan_text V display unique_name =
     (let v = fe_pget V (''persist.vendor.overscan.'' @ unique_name) [] in
      if v \<noteq> [] then v
      else fe_pget V (if display = 0 then ''persist.vendor.overscan.main'' else ''persist.vendor.overscan.aux'')
             ''overscan 100,100,100,100'')"

definition clip_margin :: "int list \<Rightarrow> nat \<Rightarrow> int" where
  "clip_margin ms i =
     (let m = (if i < length ms then ms ! i else 100);
          m1 = (if m < OVERSCAN_MIN_VALUE then OVERSCAN_MIN_VALUE else m)
      in if OVERSCAN_MAX_VALUE < m1 then OVERSCAN_MAX_VALUE else m1)"

text \<open>The text has the margins left, top, right, bottom.\<close>

definition margin_props :: "crtc_margins \<Rightarrow> int list \<Rightarrow> (u32 \<times> u64) list" where
  "margin_props m ms =
     [(left_margin_property m, u64_of (ms ! 0)), (right_margin_property m, u64_of (ms ! 2)),
      (top_margin_property m, u64_of (ms ! 1)), (bottom_margin_property m, u64_of (ms ! 3))]"

definition CheckOverscan ::
  "topo \<Rightarrow> world \<Rightarrow> frame_env \<Rightarrow> cptr \<Rightarrow> int \<Rightarrow> string \<Rightarrow> request \<times> pipe \<Rightarrow> int \<times> request \<times> pipe" where
  "CheckOverscan T W V k display unique_name ps =
     (let ms = List.map (clip_margin (scan_overscan (overscan_text V display unique_name))) [0, 1, 2, 3] in
      case add_until W (ci_id (ci T k)) (margin_props (fe_margins V k) ms) ps of (failed, ps1) \<Rightarrow>
        (if failed then 1 else 0, ps1))"

text \<open>
  The margins of one CRTC, for the mode of its connector: none for a display without a mode or with
  an interlaced one.  The caller leaves with a failure only in that second case, since the result of
  \<open>CheckOverscan\<close> is never negative.
\<close>

definition overscan_step ::
  "topo \<Rightarrow> world \<Rightarrow> frame_env \<Rightarrow> cptr \<Rightarrow> int \<Rightarrow> nptr \<Rightarrow> request \<times> pipe \<Rightarrow> bool \<times> int \<times> request \<times> pipe" where
  "overscan_step T W V k display n ps =
     (let m = n_current (conn (snd ps) n) in
      if mode_id m \<noteq> 0 \<and> \<not> interlaced m
      then (case CheckOverscan T W V k display (fe_unique_name V n) ps of (ret, ps1) \<Rightarrow> (ret < 0, ret, ps1))
      else (case add_until W (ci_id (ci T k)) (margin_props (fe_margins V k) [100, 100, 100, 100]) ps of
              (failed, ps1) \<Rightarrow> (failed, if failed then 1 else 0, ps1)))"

section \<open>A plane that shows a layer\<close>

definition plane_prop_id :: "DrmPlane \<Rightarrow> string \<Rightarrow> u32" where
  "plane_prop_id p m = prop_id (plane_prop p m)"

definition blend_value :: "sdk \<Rightarrow> DrmPlane \<Rightarrow> DrmHwcBlending \<Rightarrow> u64" where
  "blend_value K p b =
     (if plane_prop_id p ''blend_mode_property'' \<noteq> 0 then
        fst (GetEnumValueWithName K (plane_prop p ''blend_mode_property'')
               (case b of kPreMult \<Rightarrow> ''Pre-multiplied'' | kCoverage \<Rightarrow> ''Coverage'' | kNone \<Rightarrow> ''None''))
      else if plane_prop_id p ''blend_mode_property_vop1_kernel4_19'' \<noteq> 0 then (if b = kPreMult then 1 else 0)
      else 0)"

definition alpha_value :: "DrmHwcLayer \<Rightarrow> u64" where
  "alpha_value l = (if blending l = kPreMult then push_bit 8 (ucast (alpha l)) else 0xFFFF)"

definition v4l2_value :: "v4l2_colorspace \<Rightarrow> u64" where
  "v4l2_value c =
     (case c of V4L2_COLORSPACE_DEFAULT \<Rightarrow> 0 | V4L2_COLORSPACE_SMPTE170M \<Rightarrow> 1 | V4L2_COLORSPACE_REC709 \<Rightarrow> 3
      | V4L2_COLORSPACE_JPEG \<Rightarrow> 7 | V4L2_COLORSPACE_SRGB \<Rightarrow> 8 | V4L2_COLORSPACE_BT2020 \<Rightarrow> 10)"

definition color_encoding_value :: "drm_color_encoding \<Rightarrow> u64" where
  "color_encoding_value e =
     (case e of DRM_COLOR_YCBCR_BT601 \<Rightarrow> 0 | DRM_COLOR_YCBCR_BT709 \<Rightarrow> 1 | DRM_COLOR_YCBCR_BT2020 \<Rightarrow> 2)"

definition color_range_value :: "drm_color_range \<Rightarrow> u64" where
  "color_range_value r = (case r of DRM_COLOR_YCBCR_LIMITED_RANGE \<Rightarrow> 0 | DRM_COLOR_YCBCR_FULL_RANGE \<Rightarrow> 1)"

text \<open>The union: its first member and the encoding share their bytes, the range has bytes of its own.\<close>

definition colorspace_word :: "drm_colorspace \<Rightarrow> u64" where
  "colorspace_word c =
     (case c of colorspace_kernel_510 v \<Rightarrow> v4l2_value v | colorspace_kernel_6_1 e r \<Rightarrow> color_encoding_value e)"

definition colorspace_range :: "drm_colorspace \<Rightarrow> u64 option" where
  "colorspace_range c =
     (case c of colorspace_kernel_510 v \<Rightarrow> None | colorspace_kernel_6_1 e r \<Rightarrow> Some (color_range_value r))"

definition color_props :: "frame_env \<Rightarrow> DrmPlane \<Rightarrow> drm_colorspace \<Rightarrow> (u32 \<times> u64) list option" where
  "color_props V p c =
     (if gIsDrmVerison6_1 V then
        (if plane_prop_id p ''kernel6_1_color_range'' = 0
         then Some [(plane_prop_id p ''kernel6_1_color_encoding'', colorspace_word c)]
         else map_option (\<lambda>r. [(plane_prop_id p ''kernel6_1_color_encoding'', colorspace_word c),
                               (plane_prop_id p ''kernel6_1_color_range'', r)]) (colorspace_range c))
      else Some [(plane_prop_id p ''colorspace_property'', colorspace_word c)])"

text \<open>The source crop on an SoC that skips lines.\<close>

definition skip_lines :: "u32 \<Rightarrow> DrmHwcLayer \<Rightarrow> hwc_frect" where
  "skip_lines soc l =
     (let c = source_crop l; k = iSkipLine (buf l) in
      if (isRK3399 soc \<or> isRK3326 soc) \<and> 0 < k \<and> \<not> bUseRga (buf l)
      then (let h0 = trunc_rat (fbottom c - ftop c) sdiv k; h = h0 + h0 smod 2;
                t0 = trunc_rat (ftop c) sdiv k; t = t0 - t0 smod 2
            in c\<lparr> ftop := of_int t, fbottom := of_int (t + h) \<rparr>)
      else c)"

definition ALIGN_DOWN :: "int \<Rightarrow> int \<Rightarrow> int" where
  "ALIGN_DOWN v b = v AND NOT (b - 1)"

text \<open>\<open>(src_l, src_t, src_w, src_h)\<close>, with the alignment the formats need.\<close>

definition source_rect :: "u32 \<Rightarrow> DrmHwcLayer \<Rightarrow> int \<times> int \<times> int \<times> int" where
  "source_rect soc l =
     (let c = skip_lines soc l;
          x = trunc_rat (fleft c); y = trunc_rat (ftop c);
          w = trunc_rat (fright c - fleft c); h = trunc_rat (fbottom c - ftop c);
          (x1, y1, w1) = (if bYuv l
             then (ALIGN_DOWN x 2, ALIGN_DOWN y 2, if isRK3576 soc then ALIGN_DOWN w 2 else w)
             else (x, y, w));
          (x2, w2) = (if bYuv10bit (buf l) \<and> \<not> bAfbcd l
             then (ALIGN_DOWN x1 8, ALIGN_DOWN w1 (if isRK3576 soc then 2 else 4))
             else (x1, w1))
      in (x2, y1, w2, h))"

definition target_rect :: "bool \<Rightarrow> frame_layer \<Rightarrow> int \<times> int \<times> int \<times> int" where
  "target_rect mirror l =
     (let f = (if mirror then fl_frame_mirror l else display_frame l)
      in (left f, top f, right f - left f, bottom f - top f))"

text \<open>A coordinate in 16.16: the shift is one of 32 bits.\<close>

definition fixed16 :: "int \<Rightarrow> u64" where
  "fixed16 v = u64_of (sint (push_bit 16 (word_of_int v :: u32)))"

definition rect_props ::
  "topo \<Rightarrow> cptr \<Rightarrow> int \<times> int \<times> int \<times> int \<Rightarrow> int \<times> int \<times> int \<times> int \<Rightarrow> int \<Rightarrow> int \<Rightarrow> DrmPlane \<Rightarrow>
   (u32 \<times> u64) list" where
  "rect_props T k dst src zpos fb p =
     (case dst of (dl, dt, dw, dh) \<Rightarrow> case src of (sl, sy, sw, sh) \<Rightarrow>
       [(plane_prop_id p ''crtc_property'', ucast (ci_id (ci T k))),
        (plane_prop_id p ''fb_property'', u64_of fb),
        (plane_prop_id p ''crtc_x_property'', u64_of dl),
        (plane_prop_id p ''crtc_y_property'', u64_of dt),
        (plane_prop_id p ''crtc_w_property'', u64_of dw),
        (plane_prop_id p ''crtc_h_property'', u64_of dh),
        (plane_prop_id p ''src_x_property'', fixed16 sl),
        (plane_prop_id p ''src_y_property'', fixed16 sy),
        (plane_prop_id p ''src_w_property'', fixed16 sw),
        (plane_prop_id p ''src_h_property'', fixed16 sh),
        (plane_prop_id p ''zpos_property'', u64_of zpos)])"

text \<open>
  What follows, each only if the plane has the property.  \<open>rotation\<close> and \<open>color\<close> are the values for
  the rotation and the part for the colours.
\<close>

definition optional_props ::
  "sdk \<Rightarrow> frame_layer \<Rightarrow> u64 \<Rightarrow> (u32 \<times> u64) list \<Rightarrow> DrmPlane \<Rightarrow> (u32 \<times> u64) list" where
  "optional_props K l rotation color p =
     (let a = alpha_value (DrmHwcLayer.truncate l); b = blend_value K p (blending l) in
      present
       ([(plane_prop_id p ''rotation_property'', rotation),
         (plane_prop_id p ''alpha_property'', a),
         (plane_prop_id p ''alpha_property_vop1_kernel4_19'', drop_bit 8 a),
         (plane_prop_id p ''blend_mode_property'', b),
         (plane_prop_id p ''blend_mode_property_vop1_kernel4_19'', b)] @
        (if b_hdr2sdr p then [(plane_prop_id p ''eotf_property'', ucast (uEOTF (buf l)))] else []) @
        color @
        [(plane_prop_id p ''async_commit_property'', 0)]))"

text \<open>All of the first list are tried, of the second only up to a failure; whether the loop goes on.\<close>

definition put_plane ::
  "world \<Rightarrow> u32 \<Rightarrow> (u32 \<times> u64) list \<Rightarrow> (u32 \<times> u64) list \<Rightarrow> request \<times> pipe \<Rightarrow> bool \<times> request \<times> pipe" where
  "put_plane W obj base opt ps =
     (case add_each W obj base ps of (failed, ps1) \<Rightarrow>
        if failed then (False, ps1)
        else (case add_until W obj opt ps1 of (failed2, ps2) \<Rightarrow> (\<not> failed2, ps2)))"

section \<open>A plane with a sideband stream\<close>

text \<open>The result of the first call is overwritten.\<close>

definition CommitSidebandStream ::
  "sdk \<Rightarrow> world \<Rightarrow> DrmPlane \<Rightarrow> frame_layer \<Rightarrow> int \<Rightarrow> request \<times> pipe \<Rightarrow> int \<times> request \<times> pipe" where
  "CommitSidebandStream K W p l zpos ps =
     (let a = (if blending l = kPreMult then push_bit 8 (ucast (alpha l)) else 0xFFFF);
          b = blend_value K p (blending l);
          props = present
            ([(plane_prop_id p ''async_commit_property'', if bSidebandStreamLayer l then 1 else 0),
              (plane_prop_id p ''rotation_property'', ucast (transform l)),
              (plane_prop_id p ''alpha_property'', a),
              (plane_prop_id p ''alpha_property_vop1_kernel4_19'', ucast (alpha l)),
              (plane_prop_id p ''blend_mode_property'', b),
              (plane_prop_id p ''blend_mode_property_vop1_kernel4_19'', b)] @
             (if b_hdr2sdr p then [(plane_prop_id p ''eotf_property'', ucast (uEOTF (buf l)))] else []))
      in case add_each W (plane_id p) [(plane_prop_id p ''zpos_property'', u64_of zpos)] ps of
           (failed0, ps1) \<Rightarrow>
             (case add_until W (plane_id p) props ps1 of (failed, ps2) \<Rightarrow> (if failed then 1 else 0, ps2)))"

section \<open>The planes of a frame\<close>

text \<open>The state of the loop: the last result, the request, the layers, the window types switched off.\<close>

record collecting =
  co_ret :: int
  co_req :: "request \<times> pipe"
  co_layers :: "frame_layer list"
  co_disabled :: "u64 list"

definition truth :: "bool \<Rightarrow> int" where
  "truth b = (if b then 1 else 0)"

definition off_props :: "DrmPlane \<Rightarrow> (u32 \<times> u64) list" where
  "off_props p = [(plane_prop_id p ''crtc_property'', 0), (plane_prop_id p ''fb_property'', 0)]"

definition collect_off :: "world \<Rightarrow> bool \<Rightarrow> DrmPlane \<Rightarrow> collecting \<Rightarrow> collecting" where
  "collect_off W update_assign p s =
     (case add_until W (plane_id p) (off_props p) (co_req s) of (failed, ps1) \<Rightarrow>
       (let s1 = s\<lparr> co_ret := truth failed, co_req := ps1 \<rparr> in
        if failed then s1
        else (let s2 = (if update_assign then s1\<lparr> co_disabled := co_disabled s1 @ [win_type p] \<rparr> else s1)
              in if plane_prop_id p ''async_commit_property'' = 0 then s2
                 else (case add_until W (plane_id p) [(plane_prop_id p ''async_commit_property'', 0)] (co_req s2) of
                         (failed2, ps2) \<Rightarrow> s2\<lparr> co_ret := truth failed2, co_req := ps2 \<rparr>))))"

text \<open>One plane; the first component says whether the loop goes on.\<close>

definition collect_layer ::
  "sdk \<Rightarrow> topo \<Rightarrow> world \<Rightarrow> frame_env \<Rightarrow> frame_comp \<Rightarrow> frame_plane \<Rightarrow> DrmPlane \<Rightarrow> nat \<Rightarrow> collecting \<Rightarrow>
   (bool \<times> collecting) option" where
  "collect_layer K T W V c fp p i s0 =
     (let l = co_layers s0 ! i;
          l1 = l\<lparr> buf := (buf l)\<lparr> acquire_fence := -1 \<rparr> \<rparr>;
          s = s0\<lparr> co_layers := (co_layers s0)[i := l1] \<rparr>;
          zpos = (if 0xf < dc_display c then 1 else fp_zpos fp)
      in if fl_fb l = None \<and> \<not> bSidebandStreamLayer l then Some (False, s)
         else if bSidebandStreamLayer l then
           (if fl_sideband2 l then Some (True, s)
            else if fp_crtc fp = None then None
            else (case CommitSidebandStream K W p l zpos (co_req s) of
                    (ret, ps) \<Rightarrow> Some (True, s\<lparr> co_ret := ret, co_req := ps \<rparr>)))
         else if the (fl_fb l) < 0 then Some (True, collect_off W (dc_update_assign c) p s)
         else do {
           k \<leftarrow> fp_crtc fp;
           color \<leftarrow> color_props V p (uColorSpace (buf l));
           let src = source_rect (device_soc T) (DrmHwcLayer.truncate l);
           let base = rect_props T k (target_rect (fp_mirror fp) l) src zpos (the (fl_fb l)) p;
           let (go, ps) = put_plane W (plane_id p) base (optional_props K l (ucast (transform l)) color p) (co_req s);
           Some (go, s\<lparr> co_ret := truth (\<not> go), co_req := ps \<rparr>)
         })"

definition collect_plane ::
  "sdk \<Rightarrow> topo \<Rightarrow> world \<Rightarrow> frame_env \<Rightarrow> (pptr \<Rightarrow> DrmPlane) \<Rightarrow> frame_comp \<Rightarrow> frame_plane \<Rightarrow> collecting \<Rightarrow>
   (bool \<times> collecting) option" where
  "collect_plane K T W V PL c fp s =
     (let p = PL (fp_plane fp) in
      if fp_type fp = kDisable then Some (True, collect_off W (dc_update_assign c) p s)
      else (case fp_sources fp of
              [] \<Rightarrow> Some (True, s)
            | [i] \<Rightarrow> if length (co_layers s) \<le> i then Some (False, s) else collect_layer K T W V c fp p i s
            | _ \<Rightarrow> Some (True, s)))"

fun collect_planes ::
  "sdk \<Rightarrow> topo \<Rightarrow> world \<Rightarrow> frame_env \<Rightarrow> (pptr \<Rightarrow> DrmPlane) \<Rightarrow> frame_comp \<Rightarrow> frame_plane list \<Rightarrow> collecting \<Rightarrow>
   collecting option" where
  "collect_planes K T W V PL c [] s = Some s"
| "collect_planes K T W V PL c (fp # fps) s = do {
     (go, s1) \<leftarrow> collect_plane K T W V PL c fp s;
     (if go then collect_planes K T W V PL c fps s1 else Some s1)
   }"

text \<open>The overscan of the CRTC, and of the CRTC of the first plane of a mirror, if there is one.\<close>

definition collect_overscan ::
  "topo \<Rightarrow> world \<Rightarrow> frame_env \<Rightarrow> int \<Rightarrow> nptr \<Rightarrow> cptr \<Rightarrow> frame_comp \<Rightarrow> request \<times> pipe \<Rightarrow>
   (bool \<times> int \<times> request \<times> pipe) option" where
  "collect_overscan T W V display n k c ps =
     (case (if b_can_overscan (fe_margins V k) then overscan_step T W V k display n ps else (False, 0, ps)) of
        (stop, ret, ps1) \<Rightarrow>
          if stop then Some (True, ret, ps1)
          else (case find fp_mirror (dc_planes c) of
                  None \<Rightarrow> Some (False, ret, ps1)
                | Some fp \<Rightarrow>
                    (case fp_crtc fp of
                       None \<Rightarrow> None
                     | Some mk \<Rightarrow>
                         if \<not> b_can_overscan (fe_margins V mk) then Some (False, ret, ps1)
                         else (case GetConnectorForDisplay T (k_display (crtc (snd ps1) mk)) (snd ps1) of
                                 None \<Rightarrow> Some (False, ret, ps1)
                               | Some mn \<Rightarrow>
                                   Some (overscan_step T W V mk (k_display (crtc (snd ps1) mk)) mn ps1)))))"

text \<open>
  The whole of it for the connector and the CRTC of the display: the result, the request, the frame
  with its fences waited for, and the window types switched off.
\<close>

definition frame_request ::
  "sdk \<Rightarrow> topo \<Rightarrow> world \<Rightarrow> frame_env \<Rightarrow> (pptr \<Rightarrow> DrmPlane) \<Rightarrow> int \<Rightarrow> nptr \<Rightarrow> cptr \<Rightarrow> frame_comp \<Rightarrow> u64 list \<Rightarrow>
   request \<times> pipe \<Rightarrow> (int \<times> frame_comp \<times> u64 list \<times> request \<times> pipe) option" where
  "frame_request K T W V PL display n k c disabled ps = do {
     (stop, ret, ps1) \<leftarrow> collect_overscan T W V display n k c ps;
     (if stop then Some (ret, c, disabled, ps1)
      else do {
        s \<leftarrow> collect_planes K T W V PL c (dc_planes c)
               \<lparr> co_ret = ret, co_req = ps1, co_layers = dc_layers c, co_disabled = disabled \<rparr>;
        Some (co_ret s, c\<lparr> dc_layers := co_layers s \<rparr>, co_disabled s, co_req s)
      })
   }"

end
