(* ===== verification/Hdr_Switch.thy ===== *)
theory Hdr_Switch
  imports Frame_Request Connector_Settings
begin

unbundle bit_operations_syntax

text \<open>
  Switching a sink into and out of HDR: \<open>switch_hdmi_hdr_mode\<close> and its variant for metadata of the
  stream (\<open>drm/drmconnector.cpp\<close>), and \<open>CollectModeSetInfo\<close> of the compositor, which decides when.
  The sinks, with what the HDR code keeps in them, are a store beside the routing state.  Vivid HDR is
  off, as it is in the RK3588 build.  Blobs are created and destroyed at the time of the call.
\<close>

text \<open>\<open>memset\<close> to zero.\<close>

definition hdr_meta_zero :: hdr_meta where
  "hdr_meta_zero = \<lparr> hm_type = 0, hm_eotf = 0, hm_metadata_type = 0, hm_fields = replicate 12 0 \<rparr>"

text \<open>Constants of the kernel headers: the colorimetry values and the primaries of BT.2020.\<close>

record hdr_sdk =
  COLORIMETRY_DEFAULT :: u64
  COLORIMETRY_BT2020_RGB :: u64
  COLORIMETRY_BT2020_YCC :: u64
  COLOR_PRIM_BT2020 :: u32
  w_hdr_blob :: "nat \<Rightarrow> int \<times> u32"

record hdr_sink = sink +
  hs_metadata_prop :: u32
  hs_colorspace_prop :: u32
  hs_st2084 :: bool
  hs_hlg :: bool
  hs_blob :: u32
  hs_last :: hdr_meta
  hs_colorspace :: u64

definition drop_blob :: "hdr_sink \<Rightarrow> pipe \<Rightarrow> hdr_sink \<times> pipe" where
  "drop_blob c s = (c\<lparr> hs_blob := 0 \<rparr>, DestroyPropertyBlob (hs_blob c) s)"

text \<open>The blob id is written only on success.\<close>

definition hdr_blob_new :: "hdr_sdk \<Rightarrow> u32 \<Rightarrow> pipe \<Rightarrow> int \<times> u32 \<times> pipe" where
  "hdr_blob_new H old s = (case w_hdr_blob H (now s) of (ret, b) \<Rightarrow> (ret, if ret \<noteq> 0 then old else b, tick s))"

definition is_bt2020 :: "formats \<Rightarrow> u32 \<Rightarrow> bool" where
  "is_bt2020 F ds \<longleftrightarrow> ds AND HAL_DATASPACE_STANDARD_BT2020 F = HAL_DATASPACE_STANDARD_BT2020 F"

definition bt2020_colorspace :: "hdr_sdk \<Rightarrow> conn_sdk \<Rightarrow> u32 \<Rightarrow> hdr_sink \<Rightarrow> u64" where
  "bt2020_colorspace H C drm_version c =
     (if drm_version = 3 \<and> uColorFormat c \<noteq> output_rgb C then COLORIMETRY_BT2020_YCC H else COLORIMETRY_BT2020_RGB H)"

definition sink_eotf :: "formats \<Rightarrow> u32 \<Rightarrow> hdr_sink \<Rightarrow> u16" where
  "sink_eotf F ds c =
     (let tf = ds AND HAL_DATASPACE_TRANSFER_MASK F in
      if tf = HAL_DATASPACE_TRANSFER_ST2084 F \<and> hs_st2084 c then SMPTE_ST2084 F
      else if tf = HAL_DATASPACE_TRANSFER_HLG F \<and> hs_hlg c then HLG F
      else TRADITIONAL_GAMMA_SDR F)"

text \<open>The metadata blob and the colour space; failures are only logged.\<close>

definition request_metadata ::
  "hdr_sdk \<Rightarrow> world \<Rightarrow> conn_info \<Rightarrow> u64 \<Rightarrow> hdr_sink \<times> request \<times> pipe \<Rightarrow> hdr_sink \<times> request \<times> pipe" where
  "request_metadata H W N colorspace cps =
     (case cps of (c, ps) \<Rightarrow>
       (let (c1, p1) = (if hs_metadata_prop c \<noteq> 0
              then (case hdr_blob_new H (hs_blob c) (snd ps) of (_, b, s1) \<Rightarrow>
                      (c\<lparr> hs_blob := b \<rparr>, snd (atomic_add W (ni_id N) (hs_metadata_prop c) (ucast b) (fst ps, s1))))
              else (c, ps))
        in (c1, if hs_colorspace_prop c \<noteq> 0
                then snd (atomic_add W (ni_id N) (hs_colorspace_prop c) colorspace p1) else p1)))"

text \<open>The output format: chosen anew for SDR, kept and filtered, with the given depth, otherwise.\<close>

definition request_format ::
  "sdk \<Rightarrow> conn_sdk \<Rightarrow> world \<Rightarrow> property_get \<Rightarrow> disp_info option \<Rightarrow> conn_info \<Rightarrow> bool \<Rightarrow> int \<Rightarrow>
   hdr_sink \<times> request \<times> pipe \<Rightarrow> hdr_sink \<times> request \<times> pipe" where
  "request_format K C W pg answer N sdr depth cps =
     (case cps of (c, ps) \<Rightarrow>
        if sdr then
          (case UpdateOutputFormat_request K C W pg answer N (sink.truncate c, ps) of
             (_, c1, ps1) \<Rightarrow> (sink.extend c1 (sink.more c), ps1))
        else (let f = FilterColorFormatWithCaps K (DrmConnector.truncate c) (uColorFormat c);
                  p1 = snd (atomic_add W (ni_id N) (ni_color_format_prop N) (word_of_int f) ps)
              in (c\<lparr> uColorFormat := f \<rparr>,
                  snd (atomic_add W (ni_id N) (ni_color_depth_prop N) (word_of_int depth) p1))))"

definition switch_hdmi_hdr_mode ::
  "sdk \<Rightarrow> conn_sdk \<Rightarrow> formats \<Rightarrow> hdr_sdk \<Rightarrow> world \<Rightarrow> frame_env \<Rightarrow> disp_info option \<Rightarrow> conn_info \<Rightarrow> u32 \<Rightarrow> bool \<Rightarrow>
   hdr_sink \<times> request \<times> pipe \<Rightarrow> int \<times> hdr_sink \<times> request \<times> pipe" where
  "switch_hdmi_hdr_mode K C F H W V answer N ds is_10bit cps =
     (case cps of (c0, r, s0) \<Rightarrow>
      case drop_blob c0 s0 of (c, s) \<Rightarrow>
       (let eotf = sink_eotf F ds c;
            sdr = (eotf = TRADITIONAL_GAMMA_SDR F);
            colorspace = (if hs_colorspace_prop c \<noteq> 0 \<and> is_bt2020 F ds
                          then bt2020_colorspace H C (fe_drm_version V) c else COLORIMETRY_DEFAULT H);
            depth = (if sdr \<or> \<not> is_10bit then depth_24bit C else depth_30bit C);
            (c2, ps2) = request_format K C W (fe_pget V) answer N sdr depth
                          (request_metadata H W N colorspace (c, r, s))
        in (0, c2\<lparr> hs_last := hdr_meta_zero\<lparr> hm_eotf := eotf \<rparr>, hs_colorspace := colorspace,
                   uColorDepth := depth \<rparr>, ps2)))"

definition switch_hdmi_hdr_mode_by_medadata ::
  "sdk \<Rightarrow> conn_sdk \<Rightarrow> formats \<Rightarrow> hdr_sdk \<Rightarrow> world \<Rightarrow> frame_env \<Rightarrow> disp_info option \<Rightarrow> conn_info \<Rightarrow>
   u32 \<Rightarrow> hdr_meta \<Rightarrow> bool \<Rightarrow> hdr_sink \<times> request \<times> pipe \<Rightarrow> int \<times> hdr_sink \<times> request \<times> pipe" where
  "switch_hdmi_hdr_mode_by_medadata K C F H W V answer N color_prim md is_10bit cps =
     (case cps of (c0, r, s0) \<Rightarrow>
       (let colorspace = (if color_prim = COLOR_PRIM_BT2020 H
                          then bt2020_colorspace H C (fe_drm_version V) c0 else COLORIMETRY_DEFAULT H);
            depth = (if is_10bit then depth_30bit C else depth_24bit C)
        in if hs_colorspace c0 = colorspace \<and> uColorDepth c0 = depth \<and> hs_last c0 = md then (0, c0, r, s0)
           else (case drop_blob c0 s0 of (c, s) \<Rightarrow>
             (let sdr = (hwc_get_int_property (fe_pget V) (Some ''persist.sys.vivid.hdr_mode'') (Some ''2'') = 0 \<or>
                         hm_eotf md = TRADITIONAL_GAMMA_SDR F);
                  (c2, ps2) = request_format K C W (fe_pget V) answer N sdr depth
                                (request_metadata H W N colorspace (c, r, s))
              in (0, c2\<lparr> hs_last := md, hs_colorspace := colorspace, uColorDepth := depth \<rparr>, ps2)))))"

section \<open>When the compositor switches\<close>

record hdr_mode_set =
  hd_mode :: DrmHdrType
  hd_yuv10 :: bool
  hd_dataspace :: u32

text \<open>\<open>current_mode_set_\<close>, \<open>request_mode_set_\<close>, \<open>need_mode_set_\<close> and \<open>hdr_blob_id_\<close>, with the sinks.\<close>

record hdr_state =
  hr_cur :: hdr_mode_set
  hr_req :: hdr_mode_set
  hr_need :: bool
  hr_blob :: u32
  hr_sinks :: "nptr \<Rightarrow> hdr_sink"

record hdr_env =
  he_K :: sdk
  he_C :: conn_sdk
  he_F :: formats
  he_H :: hdr_sdk
  he_W :: world
  he_V :: frame_env
  he_T :: topo
  he_answer :: "nptr \<Rightarrow> disp_info option"
  he_ext_prop :: "cptr \<Rightarrow> u32"

definition on_sink ::
  "nptr \<Rightarrow> (hdr_sink \<times> request \<times> pipe \<Rightarrow> int \<times> hdr_sink \<times> request \<times> pipe) \<Rightarrow>
   hdr_state \<times> request \<times> pipe \<Rightarrow> int \<times> hdr_state \<times> request \<times> pipe" where
  "on_sink n f hps =
     (case hps of (h, r, s) \<Rightarrow>
      case f (hr_sinks h n, r, s) of (ret, c, ps) \<Rightarrow> (ret, h\<lparr> hr_sinks := (hr_sinks h)(n := c) \<rparr>, ps))"

text \<open>The sinks that mirror the display follow it.  A mirror without a connector is a null pointer.\<close>

fun switch_mirrors ::
  "hdr_env \<Rightarrow> (nptr \<Rightarrow> hdr_sink \<times> request \<times> pipe \<Rightarrow> int \<times> hdr_sink \<times> request \<times> pipe) \<Rightarrow> int list \<Rightarrow>
   hdr_state \<times> request \<times> pipe \<Rightarrow> (hdr_state \<times> request \<times> pipe) option" where
  "switch_mirrors E f [] hps = Some hps"
| "switch_mirrors E f (d # ds) hps =
     (case GetConnectorForDisplay (he_T E) d (snd (snd hps)) of
        None \<Rightarrow> None
      | Some m \<Rightarrow> switch_mirrors E f ds (snd (on_sink m (f m) hps)))"

definition switch_display ::
  "hdr_env \<Rightarrow> (nptr \<Rightarrow> hdr_sink \<times> request \<times> pipe \<Rightarrow> int \<times> hdr_sink \<times> request \<times> pipe) \<Rightarrow> nptr \<Rightarrow>
   hdr_state \<times> request \<times> pipe \<Rightarrow> (int \<times> hdr_state \<times> request \<times> pipe) option" where
  "switch_display E f n hps =
     (case on_sink n (f n) hps of (ret, hps1) \<Rightarrow>
        if ret \<noteq> 0 then Some (ret, hps1)
        else (let c = conn (snd (snd hps)) n in
              if is_connector_mirror_primary c
              then map_option (Pair 0) (switch_mirrors E f (connected_mirror_display_id_set c) hps1)
              else Some (0, hps1)))"

definition note_request :: "frame_comp \<Rightarrow> hdr_state \<Rightarrow> hdr_state" where
  "note_request c h =
     h\<lparr> hr_req := \<lparr> hd_mode = dc_hdr c, hd_yuv10 = dc_yuv10 c, hd_dataspace = dc_dataspace c \<rparr>, hr_need := True \<rparr>"

text \<open>Leaving the metadata mode removes its blob from the CRTC.\<close>

definition leave_metadata ::
  "hdr_env \<Rightarrow> cptr \<Rightarrow> hdr_state \<times> request \<times> pipe \<Rightarrow> hdr_state \<times> request \<times> pipe" where
  "leave_metadata E k hps =
     (case hps of (h, r, s) \<Rightarrow>
        if hd_mode (hr_cur h) \<noteq> DRM_HWC_METADATA_HDR then hps
        else (h\<lparr> hr_blob := 0 \<rparr>,
              snd (atomic_add (he_W E) (ci_id (ci (he_T E) k)) (he_ext_prop E k) 0
                     (r, DestroyPropertyBlob (hr_blob h) s))))"

definition plain_switch ::
  "hdr_env \<Rightarrow> frame_comp \<Rightarrow> nptr \<Rightarrow> cptr \<Rightarrow> hdr_state \<times> request \<times> pipe \<Rightarrow> (hdr_state \<times> request \<times> pipe) option" where
  "plain_switch E c n k hps =
     (case leave_metadata E k hps of (h, ps) \<Rightarrow>
        if dc_hdr c = hd_mode (hr_cur h) \<and> dc_yuv10 c = hd_yuv10 (hr_cur h) then Some (h, ps)
        else do {
          (ret, h1, ps1) \<leftarrow> switch_display E
             (\<lambda>m. switch_hdmi_hdr_mode (he_K E) (he_C E) (he_F E) (he_H E) (he_W E) (he_V E) (he_answer E m)
                    (ni (he_T E) m) (dc_dataspace c) (dc_yuv10 c)) n (h, ps);
          Some (if ret \<noteq> 0 then h1 else note_request c h1, ps1)
        })"

text \<open>One layer with metadata: the sink, then the blob of the CRTC.\<close>

definition metadata_switch ::
  "hdr_env \<Rightarrow> frame_comp \<Rightarrow> nptr \<Rightarrow> cptr \<Rightarrow> frame_layer \<Rightarrow> hdr_state \<times> request \<times> pipe \<Rightarrow>
   (hdr_state \<times> request \<times> pipe) option" where
  "metadata_switch E c n k l hps =
     (case fl_metadata_hdr l of
        None \<Rightarrow> Some hps
      | Some (prim, md) \<Rightarrow> do {
          (ret, h1, r1, s1) \<leftarrow> switch_display E
             (\<lambda>m. switch_hdmi_hdr_mode_by_medadata (he_K E) (he_C E) (he_F E) (he_H E) (he_W E) (he_V E)
                    (he_answer E m) (ni (he_T E) m) prim md (bYuv10bit (buf l))) n hps;
          let h2 = (if ret \<noteq> 0 then h1 else note_request c h1);
          let s2 = DestroyPropertyBlob (hr_blob h2) s1;
          let (_, b, s3) = hdr_blob_new (he_H E) 0 s2;
          let (ok, ps) = atomic_add (he_W E) (ci_id (ci (he_T E) k)) (he_ext_prop E k) (ucast b) (r1, s3);
          Some (let h3 = h2\<lparr> hr_blob := b \<rparr> in if ok then note_request c h3 else h3, ps)
        })"

fun metadata_switches ::
  "hdr_env \<Rightarrow> frame_comp \<Rightarrow> nptr \<Rightarrow> cptr \<Rightarrow> frame_layer list \<Rightarrow> hdr_state \<times> request \<times> pipe \<Rightarrow>
   (hdr_state \<times> request \<times> pipe) option" where
  "metadata_switches E c n k [] hps = Some hps"
| "metadata_switches E c n k (l # ls) hps = do {
     hps1 \<leftarrow> metadata_switch E c n k l hps;
     metadata_switches E c n k ls hps1
   }"

text \<open>What follows the look-up of the connector and the CRTC; the result is always \<open>0\<close>.\<close>

definition CollectModeSetInfo ::
  "hdr_env \<Rightarrow> int \<Rightarrow> frame_comp \<Rightarrow> hdr_state \<times> request \<times> pipe \<Rightarrow> (int \<times> hdr_state \<times> request \<times> pipe) option" where
  "CollectModeSetInfo E display c hps =
     (case GetConnectorForDisplay (he_T E) display (snd (snd hps)) of
        None \<Rightarrow> Some (- ENODEV (he_K E), hps)
      | Some n \<Rightarrow>
         (case GetCrtcForDisplay (he_T E) display (snd (snd hps)) of
            None \<Rightarrow> Some (- ENODEV (he_K E), hps)
          | Some k \<Rightarrow>
              map_option (Pair 0)
                (if dc_hdr c \<noteq> DRM_HWC_METADATA_HDR then plain_switch E c n k hps
                 else metadata_switches E c n k (dc_layers c) hps)))"

definition UpdateModeSetState :: "hdr_state \<Rightarrow> hdr_state" where
  "UpdateModeSetState h = (if \<not> hr_need h then h else h\<lparr> hr_cur := hr_req h, hr_need := False \<rparr>)"

end
