(* ===== verification/Compositor_Sideband.thy ===== *)
theory Compositor_Sideband
  imports Hdr_Switch
begin

unbundle bit_operations_syntax

text \<open>
  The state of \<open>DrmDisplayCompositor\<close> (\<open>include/drmdisplaycompositor.h\<close>) and its work on sideband
  streams: \<open>CollectVPInfo\<close>, which adds the buffers of a video producer to the request, and
  \<open>UpdateSidebandState\<close> after a commit; with the two operations on plane groups.  The video producer
  is the record \<open>producer\<close>, its answers functions of the time of the call; what the compositor tells
  it is the list \<open>cm_vp\<close>.  Write-back is off.
\<close>

section \<open>The state\<close>

record vp_buffer =
  vb_ptr :: nat
  vb_external_id :: u64
  vb_fb :: int
  vb_crop :: "int \<times> int \<times> int \<times> int"
  vb_handle :: nat

record producer =
  vp_valid :: bool
  vp_fps :: "int \<Rightarrow> rat"
  vp_connect :: "nat \<Rightarrow> int \<Rightarrow> int"
  vp_acquire :: "nat \<Rightarrow> int \<Rightarrow> vp_buffer option"

datatype vp_call =
    CreateConnection int int u32 u32
  | AcquireBuffer int int hwc_rect bool
  | SignalReleaseFence int int u64
  | DestoryConnection int int

record SidebandState =
  sb_enable :: bool
  sb_tunnel :: int
  sb_buffer :: "vp_buffer option"

text \<open>A frame with the frames that were dropped for it.\<close>

record pending =
  pd_comp :: frame_comp
  pd_useless :: "frame_comp list"

text \<open>The maps by display are sorted lists; \<open>cm_cnt\<close> maps every display to a number, at first zero.\<close>

record compositor =
  cm_initialized :: bool
  cm_active :: bool
  cm_clear :: bool
  cm_drop :: bool
  cm_display :: int
  cm_queue :: "frame_comp list"
  cm_cnt :: "int \<Rightarrow> u64"
  cm_pset :: "request option"
  cm_collect :: "(int \<times> pending) list"
  cm_live :: "(int \<times> pending) list"
  cm_frame_no :: nat
  cm_current :: SidebandState
  cm_drawing :: SidebandState
  cm_disabled :: "u64 list"
  cm_hdr :: hdr_state
  cm_lines :: timelines
  cm_vp :: "vp_call list"

record comp_env = hdr_env +
  ce_planes :: "pptr \<Rightarrow> DrmPlane"
  ce_producer :: producer
  ce_EPERM :: int
  ce_DPMS_ON :: u32

type_synonym cstate = "compositor \<times> pipe"

definition tell :: "vp_call \<Rightarrow> compositor \<Rightarrow> compositor" where
  "tell v s = s\<lparr> cm_vp := cm_vp s @ [v] \<rparr>"

definition IsSidebandMode :: "compositor \<Rightarrow> bool" where
  "IsSidebandMode s \<longleftrightarrow> sb_enable (cm_current s)"

section \<open>Buffers of the video producer\<close>

text \<open>The fence of the producer is awaited when the screen is faster than the stream.\<close>

definition sideband_waits :: "DrmConnector \<Rightarrow> rat \<Rightarrow> bool" where
  "sideband_waits c fps \<longleftrightarrow>
     (if n_state c \<noteq> DRM_MODE_CONNECTED then fps < 60
      else (case v_refresh (n_active c) of
              None \<Rightarrow> clock (n_active c) \<noteq> 0 \<or> fps < 60
            | Some r \<Rightarrow> fps < (if 0 < r then r else 60)))"

text \<open>The source rectangle of a buffer of the producer, or of a layer shown beside it.\<close>

definition vp_source :: "bool \<Rightarrow> hwc_frect \<Rightarrow> int \<times> int \<times> int \<times> int" where
  "vp_source yuv c =
     (let x = trunc_rat (fleft c); y = trunc_rat (ftop c);
          w = trunc_rat (fright c - fleft c); h = trunc_rat (fbottom c - ftop c)
      in if yuv then (ALIGN_DOWN x 2, ALIGN_DOWN y 2, ALIGN_DOWN w 2, ALIGN_DOWN h 2) else (x, y, w, h))"

definition vp_crop_of :: "vp_buffer \<Rightarrow> hwc_frect" where
  "vp_crop_of b = (case vb_crop b of (l, t, r, btm) \<Rightarrow>
     \<lparr> fleft = of_int l, ftop = of_int t, fright = of_int r, fbottom = of_int btm \<rparr>)"

text \<open>The state of the loop: the last result, the request, the compositor, the layers of the frame.\<close>

type_synonym vp_state = "int \<times> (request \<times> pipe) \<times> compositor \<times> frame_layer list"

definition vp_off :: "world \<Rightarrow> bool \<Rightarrow> DrmPlane \<Rightarrow> vp_state \<Rightarrow> vp_state" where
  "vp_off W update_assign p s =
     (case s of (ret, ps, cm, ls) \<Rightarrow>
        case add_until W (plane_id p) (off_props p) ps of (failed, ps1) \<Rightarrow>
          (truth failed, ps1,
           if \<not> failed \<and> update_assign then cm\<lparr> cm_disabled := cm_disabled cm @ [win_type p] \<rparr> else cm, ls))"

definition vp_put ::
  "comp_env \<Rightarrow> frame_comp \<Rightarrow> frame_plane \<Rightarrow> DrmPlane \<Rightarrow> frame_layer \<Rightarrow> int \<Rightarrow> hwc_frect \<Rightarrow> u64 \<Rightarrow> vp_state \<Rightarrow>
   (bool \<times> vp_state) option" where
  "vp_put E c fp p l fb crop rotation s =
     (case s of (ret, ps, cm, ls) \<Rightarrow>
        if fb < 0 then Some (True, vp_off (he_W E) (dc_update_assign c) p s)
        else do {
          k \<leftarrow> fp_crtc fp;
          color \<leftarrow> color_props (he_V E) p (uColorSpace (buf l));
          let zpos = (if 0xf < dc_display c then 1 else fp_zpos fp);
          let base = rect_props (he_T E) k (target_rect (fp_mirror fp) l) (vp_source (bYuv l) crop) zpos fb p;
          let (go, ps1) = put_plane (he_W E) (plane_id p) base (optional_props (he_K E) l rotation color p) ps;
          Some (go, truth (\<not> go), ps1, cm, ls)
        })"

text \<open>
  A sideband layer takes a buffer, if there is one; other layers are added only when SurfaceFlinger
  did not send a frame.  \<open>fresh\<close> says that it did.  A layer without a buffer is a null pointer.
\<close>

definition vp_layer ::
  "comp_env \<Rightarrow> bool \<Rightarrow> frame_comp \<Rightarrow> frame_plane \<Rightarrow> DrmPlane \<Rightarrow> nat \<Rightarrow> vp_state \<Rightarrow>
   (bool \<times> vp_state) option" where
  "vp_layer E fresh c fp p i s =
     (case s of (ret, ps, cm, ls) \<Rightarrow>
       (let l = ls ! i; d = cm_display cm; v = ce_producer E in
        if \<not> bSidebandStreamLayer l then
          (if fresh then Some (True, s)
           else (case fl_fb l of None \<Rightarrow> None
                 | Some fb \<Rightarrow> vp_put E c fp p l fb (source_crop l) (ucast (transform l)) s))
        else
         (let waits = (case GetConnectorForDisplay (he_T E) d (snd ps) of
                         None \<Rightarrow> vp_fps v (fl_tunnel l) < 60
                       | Some n \<Rightarrow> sideband_waits (conn (snd ps) n) (vp_fps v (fl_tunnel l)));
              ret1 = vp_connect v (now (snd ps)) (fl_tunnel l);
              cm1 = tell (AcquireBuffer d (fl_tunnel l) (display_frame l) waits)
                     (tell (CreateConnection d (fl_tunnel l) (eDataSpace l) (transform l)) cm)
          in case vp_acquire v (now (snd ps)) (fl_tunnel l) of
               None \<Rightarrow> Some (True, ret1, ps, cm1, ls)
             | Some b \<Rightarrow>
                 (let l1 = l\<lparr> sf_handle := vb_handle b \<rparr>;
                      cm2 = cm1\<lparr> cm_current := \<lparr> sb_enable = True, sb_tunnel = fl_tunnel l, sb_buffer = Some b \<rparr> \<rparr>
                  in vp_put E c fp p l1 (vb_fb b) (vp_crop_of b) (ucast (DRM_MODE_ROTATE_0 (he_K E)))
                       (ret1, ps, cm2, ls[i := l1])))))"

definition vp_plane ::
  "comp_env \<Rightarrow> bool \<Rightarrow> frame_comp \<Rightarrow> frame_plane \<Rightarrow> vp_state \<Rightarrow> (bool \<times> vp_state) option" where
  "vp_plane E fresh c fp s =
     (let p = ce_planes E (fp_plane fp) in
      if fp_type fp = kDisable then Some (True, vp_off (he_W E) (dc_update_assign c) p s)
      else (case fp_sources fp of
              [] \<Rightarrow> Some (True, s)
            | [i] \<Rightarrow> if length (dc_layers c) \<le> i then Some (False, s) else vp_layer E fresh c fp p i s
            | _ \<Rightarrow> Some (True, s)))"

fun vp_planes ::
  "comp_env \<Rightarrow> bool \<Rightarrow> frame_comp \<Rightarrow> frame_plane list \<Rightarrow> vp_state \<Rightarrow> vp_state option" where
  "vp_planes E fresh c [] s = Some s"
| "vp_planes E fresh c (fp # fps) s = do {
     (go, s1) \<leftarrow> vp_plane E fresh c fp s;
     (if go then vp_planes E fresh c fps s1 else Some s1)
   }"

definition put_layers :: "frame_layer list \<Rightarrow> int \<Rightarrow> (int \<times> pending) list \<Rightarrow> (int \<times> pending) list" where
  "put_layers ls d =
     List.map (\<lambda>(e, pd). (e, if e = d then pd\<lparr> pd_comp := (pd_comp pd)\<lparr> dc_layers := ls \<rparr> \<rparr> else pd))"

definition CollectVPInfo :: "comp_env \<Rightarrow> cstate \<Rightarrow> (int \<times> cstate) option" where
  "CollectVPInfo E ms =
     (case ms of (cm, s) \<Rightarrow>
        case (case cm_pset cm of Some r \<Rightarrow> (True, cm, r, s)
              | None \<Rightarrow> (case atomic_alloc (he_W E) s of (ok, s1) \<Rightarrow>
                           (ok, if ok then cm\<lparr> cm_pset := Some [] \<rparr> else cm, [], s1))) of
          (ok, cm1, r, s1) \<Rightarrow>
           (let d = cm_display cm1; fresh = (map_of (cm_collect cm1) d \<noteq> None) in
            if \<not> ok then Some (-1, cm1, s1)
            else (case (if fresh then map_of (cm_collect cm1) d else map_of (cm_live cm1) d) of
                None \<Rightarrow> Some (0, cm1, s1)
              | Some pd \<Rightarrow>
                  if GetConnectorForDisplay (he_T E) d s1 = None \<or> GetCrtcForDisplay (he_T E) d s1 = None
                  then Some (- ENODEV (he_K E), cm1, s1)
                  else do {
                    let c = pd_comp pd;
                    (ret, (r2, s2), cm2, ls) \<leftarrow> vp_planes E fresh c (dc_planes c) (0, (r, s1), cm1, dc_layers c);
                    let cm3 = (if fresh then cm2\<lparr> cm_collect := put_layers ls d (cm_collect cm2) \<rparr>
                               else cm2\<lparr> cm_live := put_layers ls d (cm_live cm2) \<rparr>);
                    Some (ret, cm3\<lparr> cm_pset := Some r2 \<rparr>, s2)
                  })))"

section \<open>After the commit\<close>

text \<open>
  Leaving a stream releases its last buffer and its connection; staying in one releases the buffer
  that was replaced.
\<close>

definition leave_stream :: "int \<Rightarrow> SidebandState \<Rightarrow> compositor \<Rightarrow> compositor" where
  "leave_stream d old s =
     tell (DestoryConnection d (sb_tunnel old))
       (case sb_buffer old of None \<Rightarrow> s
        | Some b \<Rightarrow> tell (SignalReleaseFence d (sb_tunnel old) (vb_external_id b)) s)"

definition UpdateSidebandState :: "comp_env \<Rightarrow> compositor \<Rightarrow> int \<times> compositor" where
  "UpdateSidebandState E s =
     (let cur = cm_current s; old = cm_drawing s; d = cm_display s in
      if \<not> vp_valid (ce_producer E) then (-1, s)
      else if sb_tunnel cur \<noteq> sb_tunnel old then
        (if 0 < sb_tunnel cur \<and> sb_tunnel old = 0 then (0, s\<lparr> cm_drawing := cur \<rparr>)
         else (0, (leave_stream d old s)\<lparr> cm_drawing := cur \<rparr>))
      else if 0 < sb_tunnel cur then
        (let s1 = (case sb_buffer old of None \<Rightarrow> s
                   | Some b \<Rightarrow> if map_option vb_ptr (sb_buffer cur) = Some (vb_ptr b) then s
                               else tell (SignalReleaseFence d (sb_tunnel old) (vb_external_id b)) s)
         in (0, s1\<lparr> cm_drawing := old\<lparr> sb_enable := sb_enable cur, sb_buffer := sb_buffer cur \<rparr> \<rparr>))
      else (0, s))"

text \<open>The groups whose planes the commit switched off complete their migration.\<close>

definition UpdateDrmPlaneAssignState :: "cstate \<Rightarrow> cstate" where
  "UpdateDrmPlaneAssignState ms =
     (case ms of (cm, s) \<Rightarrow>
        (cm\<lparr> cm_disabled := [] \<rparr>,
         s\<lparr> groups := List.map (\<lambda>g. fold (\<lambda>ty g. if g_win_type g = ty then complete_disable g else g)
                                     (cm_disabled cm) g) (groups s) \<rparr>))"

text \<open>On RK3566 the planes of groups that no CRTC has are switched off in every request.\<close>

definition CollectForceDisablePlane :: "comp_env \<Rightarrow> cstate \<Rightarrow> int \<times> cstate" where
  "CollectForceDisablePlane E ms =
     (case ms of (cm, s) \<Rightarrow>
        case cm_pset cm of
          None \<Rightarrow> (-1, ms)
        | Some r \<Rightarrow>
            if \<not> isRK3566 (device_soc (he_T E)) then (0, ms)
            else (case fold (\<lambda>p (failed, ps). case add_each (he_W E) (plane_id p) (off_props p) ps of
                                 (f, ps1) \<Rightarrow> (failed \<or> f, ps1))
                        (concat (List.map planes (filter (\<lambda>g. current_crtc g = 0) (groups s)))) (False, r, s) of
                    (failed, r1, s1) \<Rightarrow> (truth failed, cm\<lparr> cm_pset := Some r1 \<rparr>, s1)))"

end
