(* ===== verification/Compositor.thy ===== *)
theory Compositor
  imports Compositor_Sideband
begin

text \<open>
  The compositor thread of a display (\<open>rockchip/compositor/drmdisplaycompositor.cpp\<close>): its queue of
  frames, the collection of the frames of one round into a request, the commit, the fences it signals,
  and clearing.  A frame that goes out of scope is destroyed, which signals its fences if that was not
  done.  The lock is held where the code holds it, so an operation is one step; waiting for room in
  the queue is \<open>None\<close> of the result.  Write-back is off.
\<close>

section \<open>Frames and their fences\<close>

definition destroy_pending :: "pending \<Rightarrow> timelines \<Rightarrow> timelines" where
  "destroy_pending pd ts = fold destroy_frame (pd_useless pd) (destroy_frame (pd_comp pd) ts)"

definition on_lines :: "(timelines \<Rightarrow> timelines) \<Rightarrow> compositor \<Rightarrow> compositor" where
  "on_lines f s = s\<lparr> cm_lines := f (cm_lines s) \<rparr>"

section \<open>The queue\<close>

text \<open>Super resolution is off, so no frame has the layers for which three frames may be queued.\<close>

definition GetCompositeQueueMaxSize :: "frame_comp \<Rightarrow> compositor \<Rightarrow> u64 \<times> compositor" where
  "GetCompositeQueueMaxSize c s = (if dc_drop c then (10, s\<lparr> cm_drop := True \<rparr>) else (1, s))"

definition upd_cnt :: "int \<Rightarrow> (u64 \<Rightarrow> u64) \<Rightarrow> compositor \<Rightarrow> compositor" where
  "upd_cnt d f s = s\<lparr> cm_cnt := (cm_cnt s)(d := f (cm_cnt s d)) \<rparr>"

text \<open>
  The loop that waits for room in the queue, entered again whenever the thread is woken: \<open>None\<close> as the
  result is another wait.  Whether the display is active is not asked again.
\<close>

definition wait_for_room :: "frame_comp \<Rightarrow> compositor \<Rightarrow> int option \<times> compositor" where
  "wait_for_room c s =
     (case GetCompositeQueueMaxSize c s of (n, s1) \<Rightarrow>
        if n \<le> cm_cnt s1 (dc_display c) then (None, s1)
        else (Some 0, (upd_cnt (dc_display c) (\<lambda>k. k + 1) s1)\<lparr> cm_queue := cm_queue s1 @ [c], cm_clear := False \<rparr>))"

definition QueueComposition :: "comp_env \<Rightarrow> frame_comp \<Rightarrow> compositor \<Rightarrow> int option \<times> compositor" where
  "QueueComposition E c s =
     (let refuse = on_lines (destroy_frame c) in
      case dc_type c of
        DRM_COMPOSITION_TYPE_EMPTY \<Rightarrow> (Some 0, refuse s)
      | DRM_COMPOSITION_TYPE_DPMS \<Rightarrow> (Some 0, refuse (s\<lparr> cm_active := (dc_dpms c = ce_DPMS_ON E) \<rparr>))
      | _ \<Rightarrow>
          if dc_type c = DRM_COMPOSITION_TYPE_FRAME \<and> \<not> cm_active s then (Some (- ENODEV (he_K E)), refuse s)
          else if \<not> cm_initialized s then (Some (- ce_EPERM E), refuse s)
          else if \<not> cm_active s then (Some (- ENODEV (he_K E)), refuse s)
          else wait_for_room c (s\<lparr> cm_display := dc_display c \<rparr>))"

definition HaveQueuedComposites :: "compositor \<Rightarrow> bool" where
  "HaveQueuedComposites s \<longleftrightarrow> cm_queue s \<noteq> []"

section \<open>Collecting\<close>

text \<open>\<open>std::map::insert\<close>, which does not replace an entry.\<close>

fun map_insert :: "int \<Rightarrow> 'a \<Rightarrow> (int \<times> 'a) list \<Rightarrow> (int \<times> 'a) list" where
  "map_insert d x [] = [(d, x)]"
| "map_insert d x ((e, y) # m) =
     (if d < e then (d, x) # (e, y) # m else if d = e then (e, y) # m else (e, y) # map_insert d x m)"

definition CollectCommitInfo ::
  "comp_env \<Rightarrow> frame_comp \<Rightarrow> compositor \<Rightarrow> request \<times> pipe \<Rightarrow>
   (int \<times> frame_comp \<times> compositor \<times> request \<times> pipe) option" where
  "CollectCommitInfo E c cm ps =
     (let d = cm_display cm in
      case GetConnectorForDisplay (he_T E) d (snd ps) of
        None \<Rightarrow> Some (- ENODEV (he_K E), c, cm, ps)
      | Some n \<Rightarrow>
         (case GetCrtcForDisplay (he_T E) d (snd ps) of
            None \<Rightarrow> Some (- ENODEV (he_K E), c, cm, ps)
          | Some k \<Rightarrow> do {
              (ret, c1, dis, ps1) \<leftarrow> frame_request (he_K E) (he_T E) (he_W E) (he_V E) (ce_planes E) d n k c
                                        (cm_disabled cm) ps;
              Some (ret, c1,
                cm\<lparr> cm_frame_no := dc_frame_no c,
                    cm_current := \<lparr> sb_enable = dc_sideband2 c, sb_tunnel = dc_tunnel c, sb_buffer = None \<rparr>,
                    cm_disabled := dis \<rparr>, ps1)
            }))"

definition collected :: "pending \<Rightarrow> compositor \<Rightarrow> compositor" where
  "collected pd cm =
     (let d = dc_display (pd_comp pd) in
      if map_of (cm_collect cm) d \<noteq> None then on_lines (destroy_pending pd) cm
      else cm\<lparr> cm_collect := map_insert d pd (cm_collect cm) \<rparr>)"

definition CollectInfo :: "comp_env \<Rightarrow> pending \<Rightarrow> cstate \<Rightarrow> (int \<times> cstate) option" where
  "CollectInfo E pd ms =
     (case ms of (cm0, s0) \<Rightarrow>
        case (case cm_pset cm0 of Some r \<Rightarrow> (True, r, s0)
              | None \<Rightarrow> (case atomic_alloc (he_W E) s0 of (ok, s1) \<Rightarrow> (ok, [], s1))) of
          (ok, r, s1) \<Rightarrow>
            if \<not> ok then Some (-1, on_lines (destroy_pending pd) cm0, s1)
            else if cm_clear cm0 then Some (0, collected pd (cm0\<lparr> cm_pset := Some r \<rparr>), s1)
            else do {
              (ret, c1, cm1, r1, s2) \<leftarrow> CollectCommitInfo E (pd_comp pd) cm0 (r, s1);
              let pd1 = pd\<lparr> pd_comp := c1 \<rparr>;
              (if ret \<noteq> 0 then Some (ret, on_lines (destroy_pending pd1) (cm1\<lparr> cm_pset := None \<rparr>), s2)
               else do {
                 (ret2, h, r2, s3) \<leftarrow> CollectModeSetInfo (hdr_env.truncate E) (cm_display cm1) c1 (cm_hdr cm1, r1, s2);
                 let cm2 = cm1\<lparr> cm_hdr := h \<rparr>;
                 Some (if ret2 \<noteq> 0 then (ret2, on_lines (destroy_pending pd1) (cm2\<lparr> cm_pset := None \<rparr>), s3)
                       else (0, collected pd1 (cm2\<lparr> cm_pset := Some r2 \<rparr>), s3))
               })
            })"

text \<open>In sequence: the first frame of every display, the others stay queued.\<close>

fun by_sequence :: "comp_env \<Rightarrow> int list \<Rightarrow> frame_comp list \<Rightarrow> cstate \<Rightarrow> (frame_comp list \<times> cstate) option" where
  "by_sequence E exist [] ms = Some ([], ms)"
| "by_sequence E exist (c # cs) ms =
     (if dc_display c \<in> set exist then map_option (\<lambda>(q, ms1). (c # q, ms1)) (by_sequence E exist cs ms)
      else do {
        (ret, ms1) \<leftarrow> CollectInfo E \<lparr> pd_comp = c, pd_useless = [] \<rparr>
                         (upd_cnt (dc_display c) (\<lambda>k. k - 1) (fst ms), snd ms);
        by_sequence E (dc_display c # exist) cs ms1
      })"

definition CollectSFInfoBySequence :: "comp_env \<Rightarrow> cstate \<Rightarrow> cstate option" where
  "CollectSFInfoBySequence E ms =
     map_option (\<lambda>(q, cm, s). (cm\<lparr> cm_queue := q \<rparr>, s)) (by_sequence E [] (cm_queue (fst ms)) ms)"

text \<open>
  Dropping frames: of every display the newer of its first two frames is shown, with the other one as
  the frame dropped for it; what comes after the first drop is queued again.
\<close>

record sorting =
  so_latest :: "(int \<times> frame_comp) list"
  so_temp :: "frame_comp list"
  so_reserved :: "frame_comp list"
  so_dropped :: "int \<Rightarrow> nat"

fun map_put :: "int \<Rightarrow> 'a \<Rightarrow> (int \<times> 'a) list \<Rightarrow> (int \<times> 'a) list" where
  "map_put d x [] = [(d, x)]"
| "map_put d x ((e, y) # m) =
     (if d < e then (d, x) # (e, y) # m else if d = e then (d, x) # m else (e, y) # map_put d x m)"

definition sort_frame :: "frame_comp \<Rightarrow> sorting \<Rightarrow> sorting" where
  "sort_frame c s =
     (let d = dc_display c in
      if 1 \<le> so_dropped s d then s\<lparr> so_reserved := so_reserved s @ [c] \<rparr>
      else (case map_of (so_latest s) d of
              None \<Rightarrow> s\<lparr> so_latest := map_put d c (so_latest s) \<rparr>
            | Some l \<Rightarrow>
                (if dc_frame_no l < dc_frame_no c
                 then s\<lparr> so_temp := so_temp s @ [l], so_latest := map_put d c (so_latest s) \<rparr>
                 else s\<lparr> so_temp := so_temp s @ [c] \<rparr>)
                  \<lparr> so_dropped := (so_dropped s)(d := so_dropped s d + 1) \<rparr>))"

definition sort_queue :: "frame_comp list \<Rightarrow> sorting" where
  "sort_queue q =
     fold sort_frame q \<lparr> so_latest = [], so_temp = [], so_reserved = [], so_dropped = (\<lambda>d. 0) \<rparr>"

definition pending_of :: "sorting \<Rightarrow> int \<times> frame_comp \<Rightarrow> pending" where
  "pending_of so dl =
     \<lparr> pd_comp = snd dl, pd_useless = filter (\<lambda>c. dc_display c = fst dl) (so_temp so) \<rparr>"

fun collect_all :: "comp_env \<Rightarrow> pending list \<Rightarrow> cstate \<Rightarrow> cstate option" where
  "collect_all E [] ms = Some ms"
| "collect_all E (pd # pds) ms = do {
     (ret, ms1) \<leftarrow> CollectInfo E pd ms;
     collect_all E pds ms1
   }"

definition CollectSFInfoByDrop :: "comp_env \<Rightarrow> cstate \<Rightarrow> cstate option" where
  "CollectSFInfoByDrop E ms =
     (case ms of (cm, s) \<Rightarrow>
       (let so = sort_queue (cm_queue cm);
            cm1 = fold (\<lambda>c. upd_cnt (dc_display c) (\<lambda>k. k - 1)) (cm_queue cm) cm;
            cm2 = fold (\<lambda>c. upd_cnt (dc_display c) (\<lambda>k. k + 1)) (so_reserved so) cm1
        in collect_all E (List.map (pending_of so) (so_latest so)) (cm2\<lparr> cm_queue := so_reserved so \<rparr>, s)))"

definition CollectSFInfo :: "comp_env \<Rightarrow> cstate \<Rightarrow> cstate option" where
  "CollectSFInfo E ms =
     (if cm_queue (fst ms) = [] then Some ms
      else if cm_drop (fst ms) then CollectSFInfoByDrop E ms else CollectSFInfoBySequence E ms)"

section \<open>The commit\<close>

text \<open>The frames that were on screen are done; then those that were dropped; then the new ones are on screen.\<close>

definition finish_live :: "int \<Rightarrow> compositor \<Rightarrow> compositor" where
  "finish_live d cm =
     (case map_of (cm_live cm) d of
        None \<Rightarrow> cm
      | Some pd \<Rightarrow> on_lines (destroy_pending pd) (cm\<lparr> cm_live := filter (\<lambda>e. fst e \<noteq> d) (cm_live cm) \<rparr>))"

definition go_live :: "int \<times> pending \<Rightarrow> compositor \<Rightarrow> compositor" where
  "go_live e cm =
     (let pd = snd e; cm1 = on_lines (fold destroy_frame (pd_useless pd)) cm
      in cm1\<lparr> cm_live := map_insert (fst e) (pd\<lparr> pd_useless := [] \<rparr>) (cm_live cm1) \<rparr>)"

definition swap_frames :: "compositor \<Rightarrow> compositor" where
  "swap_frames cm =
     (let cm1 = fold (\<lambda>e. finish_live (fst e)) (cm_collect cm) cm;
          cm2 = fold go_live (cm_collect cm) cm1
      in cm2\<lparr> cm_collect := [] \<rparr>)"

definition Commit :: "comp_env \<Rightarrow> cstate \<Rightarrow> cstate" where
  "Commit E ms =
     (case ms of (cm, s) \<Rightarrow>
        if \<not> cm_active cm then (cm\<lparr> cm_pset := None \<rparr>, s)
        else (case cm_pset cm of
          None \<Rightarrow> (cm, s)
        | Some r \<Rightarrow>
            (case atomic_commit (he_W E) (r, s) of (ret, s1) \<Rightarrow>
               (let (cm1, s2) = (if ret \<noteq> 0 then (cm, s1)
                      else UpdateDrmPlaneAssignState
                             (snd (UpdateSidebandState E (cm\<lparr> cm_hdr := UpdateModeSetState (cm_hdr cm) \<rparr>)), s1))
                in (swap_frames (cm1\<lparr> cm_pset := None \<rparr>), s2)))))"

section \<open>Clearing\<close>

definition DisablePlanes :: "comp_env \<Rightarrow> frame_comp \<Rightarrow> pipe \<Rightarrow> int \<times> pipe" where
  "DisablePlanes E c s =
     (case atomic_alloc (he_W E) s of (ok, s1) \<Rightarrow>
        if \<not> ok then (- ENOMEM (he_K E), s1)
        else (case fold (\<lambda>fp (failed, ps). if failed then (failed, ps)
                           else add_until (he_W E) (plane_id (ce_planes E (fp_plane fp)))
                                  (off_props (ce_planes E (fp_plane fp))) ps)
                     (dc_planes c) (False, [], s1) of
          (failed, ps) \<Rightarrow> if failed then (1, snd ps) else atomic_commit (he_W E) ps))"

text \<open>
  \<open>SingalCompsition\<close>: the planes of the frame are switched off, and its fences are signalled, by the
  destructor when switching off fails.  Waiting for the acquire fences changes nothing that lasts.
\<close>

definition SingalCompsition :: "comp_env \<Rightarrow> pending \<Rightarrow> cstate \<Rightarrow> cstate" where
  "SingalCompsition E pd ms =
     (case ms of (cm, s) \<Rightarrow> (on_lines (destroy_pending pd) cm, snd (DisablePlanes E (pd_comp pd) s)))"

definition end_stream :: "SidebandState \<Rightarrow> int \<Rightarrow> compositor \<Rightarrow> compositor \<times> SidebandState" where
  "end_stream sb d cm =
     (if 0 < sb_tunnel sb
      then (tell (DestoryConnection d (sb_tunnel sb)) cm, \<lparr> sb_enable = False, sb_tunnel = 0, sb_buffer = None \<rparr>)
      else (cm, sb))"

definition release_buffer :: "SidebandState \<Rightarrow> int \<Rightarrow> compositor \<Rightarrow> compositor" where
  "release_buffer sb d cm =
     (case sb_buffer sb of None \<Rightarrow> cm
      | Some b \<Rightarrow> tell (SignalReleaseFence d (sb_tunnel sb) (vb_external_id b)) cm)"

definition clear_sideband :: "comp_env \<Rightarrow> compositor \<Rightarrow> compositor" where
  "clear_sideband E cm =
     (let d = cm_display cm in
      if \<not> vp_valid (ce_producer E) \<or> \<not> (sb_enable (cm_current cm) \<or> sb_enable (cm_drawing cm)) then cm
      else
       (let cm1 = release_buffer (cm_drawing cm) d cm;
            cm2 = (if sb_enable (cm_current cm) then release_buffer (cm_current cm) d cm1 else cm1);
            (cm3, cur) = end_stream (cm_current cm) d cm2;
            (cm4, old) = end_stream (cm_drawing cm) d cm3
        in cm4\<lparr> cm_current := cur, cm_drawing := old \<rparr>))"

definition ClearDisplay :: "comp_env \<Rightarrow> cstate \<Rightarrow> cstate" where
  "ClearDisplay E ms =
     (if \<not> cm_initialized (fst ms) then ms
      else
       (let (cm1, s1) = fold (\<lambda>e. SingalCompsition E (snd e)) (cm_live (fst ms)) ms;
            (cm2, s2) = fold (\<lambda>e. SingalCompsition E (snd e)) (cm_collect (fst ms)) (cm1\<lparr> cm_live := [] \<rparr>, s1);
            (cm3, s3) = fold (\<lambda>c. SingalCompsition E \<lparr> pd_comp = c, pd_useless = [] \<rparr>) (cm_queue (fst ms))
                          (cm2\<lparr> cm_collect := [] \<rparr>, s2)
        in ((clear_sideband E (cm3\<lparr> cm_queue := [], cm_cnt := (\<lambda>d. 0) \<rparr>))\<lparr> cm_clear := True \<rparr>, s3)))"

section \<open>One round of the thread\<close>

definition Composite :: "comp_env \<Rightarrow> cstate \<Rightarrow> cstate option" where
  "Composite E ms = do {
     ms1 \<leftarrow> CollectSFInfo E ms;
     ms2 \<leftarrow> (if IsSidebandMode (fst ms1) then map_option snd (CollectVPInfo E ms1) else Some ms1);
     let ms3 = (if isRK3566 (device_soc (he_T E)) then snd (CollectForceDisablePlane E ms2) else ms2);
     let ms4 = Commit E ms3;
     Some (if \<not> cm_active (fst ms4) then ClearDisplay E ms4 else ms4)
   }"

text \<open>
  The time of the next wake-up, in phase with the last commit; a period of \<open>0\<close> divides by zero.
\<close>

definition GetPhasedVSync :: "int \<Rightarrow> int \<Rightarrow> int \<Rightarrow> int option" where
  "GetPhasedVSync last_timestamp frame_ns current =
     (if last_timestamp < 0 then Some (current + frame_ns)
      else if frame_ns = 0 then None
      else Some (frame_ns * ((current - last_timestamp) sdiv frame_ns + 1) + last_timestamp))"

text \<open>The part of the period after which the next frame is made, in percent.\<close>

definition wait_percentage :: "property_get \<Rightarrow> compositor \<Rightarrow> rat" where
  "wait_percentage pg cm =
     (if \<not> IsSidebandMode cm then 1 / 10
      else (case scan_int (dropWhile is_space (pg ''vendor.hwc.siedeband_wait_vsync_percentage'' ''50'')) of
              Some (v, _) \<Rightarrow> if 0 \<le> v \<and> v \<le> 80 then of_int v / 100 else 1 / 2
            | None \<Rightarrow> 1 / 2))"

end
