(* ===== verification/Compositor_Fences.thy ===== *)
theory Compositor_Fences
  imports Compositor
begin

text \<open>
  The fences of the frames a compositor has: how many each frame still owes its timeline, and that no
  operation of the compositor loses one or signals one twice.  A fence that is due belongs to a frame
  that is queued, collected or on screen; a frame that goes out of scope pays what it owes.
\<close>

section \<open>Fences that are due\<close>

definition due :: "frame_comp \<Rightarrow> ReleaseFence list" where
  "due c = (if dc_signal c then [] else comp_fences c)"

definition on_line :: "int \<Rightarrow> ReleaseFence list \<Rightarrow> nat" where
  "on_line d fs = length (filter (\<lambda>f. rf_line f = d) fs)"

definition dues :: "frame_comp list \<Rightarrow> ReleaseFence list" where
  "dues cs = concat (List.map due cs)"

definition owed :: "int \<Rightarrow> frame_comp list \<Rightarrow> nat" where
  "owed d cs = on_line d (dues cs)"

text \<open>The frames dropped for another are older than it.\<close>

definition pending_frames :: "int \<times> pending \<Rightarrow> frame_comp list" where
  "pending_frames e = pd_useless (snd e) @ [pd_comp (snd e)]"

definition alive :: "compositor \<Rightarrow> frame_comp list" where
  "alive cm = concat (List.map pending_frames (cm_live cm)) @ concat (List.map pending_frames (cm_collect cm)) @ cm_queue cm"

text \<open>What the timeline counter of a display will be when every frame is gone.\<close>

definition balance :: "int \<Rightarrow> compositor \<Rightarrow> int" where
  "balance d cm = tl_now (cm_lines cm d) + int (owed d (alive cm))"

lemma on_line_append [simp]: "on_line d (fs @ gs) = on_line d fs + on_line d gs"
  by (simp add: on_line_def)

lemma dues_simps [simp]: "dues [] = []" "dues (c # cs) = due c @ dues cs" "dues (cs @ ds) = dues cs @ dues ds"
  by (simp_all add: dues_def)

lemma owed_simps [simp]:
  "owed d [] = 0" "owed d (c # cs) = on_line d (due c) + owed d cs" "owed d (cs @ ds) = owed d cs + owed d ds"
  by (simp_all add: owed_def) (simp add: on_line_def)

section \<open>Signalling\<close>

text \<open>The counters go from \<open>ts\<close> to \<open>ts'\<close> by one step for each of the fences.\<close>

definition paid :: "ReleaseFence list \<Rightarrow> timelines \<Rightarrow> timelines \<Rightarrow> bool" where
  "paid fs ts ts' \<longleftrightarrow>
     (\<forall>d. tl_cnt (ts' d) = tl_cnt (ts d) \<and> tl_now (ts' d) = tl_now (ts d) + int (on_line d fs))"

lemma paid_refl [simp]: "paid [] ts ts"
  by (simp add: paid_def on_line_def)

lemma paid_trans: "paid fs ts ts' \<Longrightarrow> paid gs ts' ts'' \<Longrightarrow> paid (fs @ gs) ts ts''"
  by (simp add: paid_def)

lemma fold_fence_signal_paid: "paid fs ts (fold fence_signal fs ts)"
proof (induction fs arbitrary: ts)
  case (Cons f fs)
  have "paid [f] ts (fence_signal f ts)"
    by (simp add: paid_def fence_signal_def on_line_def)
  from paid_trans [OF this Cons.IH] show ?case by simp
qed simp

lemma destroy_frame_due: "destroy_frame c ts = fold fence_signal (due c) ts"
  by (simp add: destroy_frame_def SignalCompositionDone_def due_def comp_fences_def map_filter_def)

lemma destroy_frame_paid: "paid (due c) ts (destroy_frame c ts)"
  by (simp add: destroy_frame_due fold_fence_signal_paid)

lemma destroy_frames_paid: "paid (dues cs) ts (fold destroy_frame cs ts)"
proof (induction cs arbitrary: ts)
  case (Cons c cs)
  from paid_trans [OF destroy_frame_paid Cons.IH] show ?case by simp
qed simp

lemma destroy_pending_paid: "paid (due (pd_comp pd) @ dues (pd_useless pd)) ts (destroy_pending pd ts)"
  unfolding destroy_pending_def by (rule paid_trans [OF destroy_frame_paid destroy_frames_paid])

lemma on_lines_simps [simp]:
  "cm_lines (on_lines f cm) = f (cm_lines cm)" "cm_queue (on_lines f cm) = cm_queue cm"
  "cm_collect (on_lines f cm) = cm_collect cm" "cm_live (on_lines f cm) = cm_live cm"
  "cm_display (on_lines f cm) = cm_display cm" "cm_cnt (on_lines f cm) = cm_cnt cm"
  "cm_pset (on_lines f cm) = cm_pset cm" "cm_clear (on_lines f cm) = cm_clear cm"
  "cm_active (on_lines f cm) = cm_active cm" "cm_initialized (on_lines f cm) = cm_initialized cm"
  "cm_drop (on_lines f cm) = cm_drop cm"
  by (simp_all add: on_lines_def)

section \<open>Requests leave the fences alone\<close>

text \<open>What filling a request may change of a frame: nothing its fences depend on.\<close>

definition same_frame :: "frame_comp \<Rightarrow> frame_comp \<Rightarrow> bool" where
  "same_frame c c' \<longleftrightarrow>
     (\<exists>ls. c' = c\<lparr> dc_layers := ls \<rparr> \<and> List.map fl_release ls = List.map fl_release (dc_layers c))"

text \<open>What filling a request may change of the routing: the time.\<close>

definition ticked :: "pipe \<Rightarrow> pipe \<Rightarrow> bool" where
  "ticked s s' \<longleftrightarrow> (\<exists>t. s' = s\<lparr> now := t \<rparr>)"

lemma ticked_refl [simp]: "ticked s s"
  unfolding ticked_def by (rule exI [of _ "now s"]) simp

lemma ticked_trans: "ticked s s' \<Longrightarrow> ticked s' s'' \<Longrightarrow> ticked s s''"
  by (auto simp: ticked_def)

lemma ticked_display:
  "ticked s s' \<Longrightarrow> GetConnectorForDisplay T d s' = GetConnectorForDisplay T d s"
  "ticked s s' \<Longrightarrow> GetCrtcForDisplay T d s' = GetCrtcForDisplay T d s"
  by (auto simp: ticked_def GetConnectorForDisplay_def GetCrtcForDisplay_def)

lemma ticked_tick [simp]: "ticked s (tick s)"
  unfolding ticked_def tick_def by blast

lemma ticked_destroy_blob [simp]: "ticked s (DestroyPropertyBlob b s)"
  by (simp add: DestroyPropertyBlob_def)

lemma ticked_add: "atomic_add W obj m v ps = (b, ps') \<Longrightarrow> ticked (snd ps) (snd ps')"
  by (cases ps) (auto simp: atomic_add_def split: if_splits)

lemma same_frame_refl [simp]: "same_frame c c"
  unfolding same_frame_def by (rule exI [of _ "dc_layers c"]) simp

lemma same_frame_trans: "same_frame a b \<Longrightarrow> same_frame b c \<Longrightarrow> same_frame a c"
  unfolding same_frame_def by (metis (no_types, lifting) frame_comp.surjective frame_comp.update_convs(14) frame_comp.select_convs(14))

lemma same_frame_fields:
  assumes "same_frame c c'"
  shows "dc_planes c' = dc_planes c" "dc_signal c' = dc_signal c" "dc_display c' = dc_display c"
    "dc_frame_no c' = dc_frame_no c" "dc_type c' = dc_type c" "comp_layers c' = comp_layers c"
    "length (dc_layers c') = length (dc_layers c)"
  using assms by (auto simp: same_frame_def comp_layers_def dest: map_eq_imp_length_eq)

lemma same_frame_sources: "same_frame c c' \<Longrightarrow> sources_ok c' = sources_ok c"
  by (simp add: sources_ok_def same_frame_fields)

lemma same_frame_due:
  assumes "same_frame c c'" "sources_ok c"
  shows "due c' = due c"
proof -
  have "fl_release (dc_layers c' ! i) = fl_release (dc_layers c ! i)" if "i \<in> set (comp_layers c)" for i
  proof -
    have "i < length (dc_layers c)" using that assms(2) by (simp add: sources_ok_def)
    moreover have "List.map fl_release (dc_layers c') = List.map fl_release (dc_layers c)"
      using assms(1) by (auto simp: same_frame_def)
    ultimately show ?thesis using same_frame_fields(7) [OF assms(1)] by (metis nth_map)
  qed
  then show ?thesis
    by (simp add: due_def comp_fences_def same_frame_fields [OF assms(1)] map_filter_def cong: filter_cong map_cong)
qed

lemma ticked_until:
  "add_until W obj xs ps = (b, ps') \<Longrightarrow> ticked (snd ps) (snd ps')"
proof (induction xs arbitrary: ps)
  case (Cons x xs)
  obtain m v where x: "x = (m, v)" by (cases x)
  obtain ok ps1 where a: "atomic_add W obj m v ps = (ok, ps1)" by (cases "atomic_add W obj m v ps")
  from Cons.prems have "ok \<and> add_until W obj xs ps1 = (b, ps') \<or> ps' = ps1"
    by (auto simp: x a split: if_splits)
  with Cons.IH ticked_add [OF a] show ?case by (blast intro: ticked_trans)
qed simp

lemma ticked_each:
  "add_each W obj xs ps = (b, ps') \<Longrightarrow> ticked (snd ps) (snd ps')"
proof (induction xs arbitrary: ps b)
  case (Cons x xs)
  obtain m v where x: "x = (m, v)" by (cases x)
  obtain ok ps1 where a: "atomic_add W obj m v ps = (ok, ps1)" by (cases "atomic_add W obj m v ps")
  from Cons.prems obtain b' where "add_each W obj xs ps1 = (b', ps')"
    by (auto simp: x a split: prod.splits)
  with Cons.IH ticked_add [OF a] show ?case by (blast intro: ticked_trans)
qed simp

section \<open>Filling a request\<close>

text \<open>A kernel that accepts every property; then a frame is collected without an error.\<close>

definition accepting :: "world \<Rightarrow> bool" where
  "accepting W \<longleftrightarrow> (\<forall>t. w_add W t) \<and> (\<forall>t. w_alloc W t)"

lemma accepting_add: "accepting W \<Longrightarrow> atomic_add W obj m v ps = (b, ps') \<Longrightarrow> b"
  by (cases ps) (auto simp: atomic_add_def accepting_def)

lemma accepting_until: "accepting W \<Longrightarrow> add_until W obj xs ps = (b, ps') \<Longrightarrow> \<not> b"
proof (induction xs arbitrary: ps)
  case (Cons x xs)
  obtain m v where x: "x = (m, v)" by (cases x)
  obtain ok ps1 where a: "atomic_add W obj m v ps = (ok, ps1)" by (cases "atomic_add W obj m v ps")
  from Cons.prems Cons.IH [of ps1] accepting_add [OF Cons.prems(1) a] show ?case by (simp add: x a)
qed simp

lemma accepting_each: "accepting W \<Longrightarrow> add_each W obj xs ps = (b, ps') \<Longrightarrow> \<not> b"
proof (induction xs arbitrary: ps b ps')
  case (Cons x xs)
  obtain m v where x: "x = (m, v)" by (cases x)
  obtain ok ps1 where a: "atomic_add W obj m v ps = (ok, ps1)" by (cases "atomic_add W obj m v ps")
  obtain b' ps2 where e: "add_each W obj xs ps1 = (b', ps2)" by (cases "add_each W obj xs ps1")
  from Cons.prems Cons.IH [OF Cons.prems(1) e] e accepting_add [OF Cons.prems(1) a] show ?case by (simp add: x a)
qed simp

definition fine :: "world \<Rightarrow> collecting \<Rightarrow> collecting \<Rightarrow> bool" where
  "fine W s s' \<longleftrightarrow>
     ticked (snd (co_req s)) (snd (co_req s')) \<and>
     List.map fl_release (co_layers s') = List.map fl_release (co_layers s) \<and>
     (accepting W \<and> co_ret s = 0 \<longrightarrow> co_ret s' = 0)"

lemma fine_refl [simp]: "fine W s s"
  by (simp add: fine_def)

lemma fine_trans: "fine W a b \<Longrightarrow> fine W b c \<Longrightarrow> fine W a c"
  by (auto simp: fine_def intro: ticked_trans)

lemma fine_collect_off: "fine W s (collect_off W u p s)"
proof -
  obtain f ps1 where a: "add_until W (plane_id p) (off_props p) (co_req s) = (f, ps1)"
    by (cases "add_until W (plane_id p) (off_props p) (co_req s)")
  obtain g ps2 where b: "add_until W (plane_id p) [(plane_prop_id p ''async_commit_property'', 0)] ps1 = (g, ps2)"
    by (cases "add_until W (plane_id p) [(plane_prop_id p ''async_commit_property'', 0)] ps1")
  show ?thesis
    using ticked_until [OF a] ticked_until [OF b] accepting_until [OF _ a] accepting_until [OF _ b]
    by (auto simp: fine_def collect_off_def Let_def a b truth_def simp del: add_until.simps intro: ticked_trans)
qed

lemma put_plane_ok:
  assumes "put_plane W obj base opt ps = (go, ps')"
  shows "ticked (snd ps) (snd ps')" and "accepting W \<Longrightarrow> go"
proof -
  obtain f ps1 where a: "add_each W obj base ps = (f, ps1)" by (cases "add_each W obj base ps")
  obtain g ps2 where b: "add_until W obj opt ps1 = (g, ps2)" by (cases "add_until W obj opt ps1")
  show "ticked (snd ps) (snd ps')"
    using assms ticked_each [OF a] ticked_until [OF b] by (auto simp: put_plane_def a b split: if_splits intro: ticked_trans)
  show "accepting W \<Longrightarrow> go"
    using assms accepting_each [OF _ a] accepting_until [OF _ b] by (auto simp: put_plane_def a b split: if_splits)
qed

lemma sideband_stream_ok:
  assumes "CommitSidebandStream K W p l z ps = (ret, ps')"
  shows "ticked (snd ps) (snd ps')" and "accepting W \<Longrightarrow> ret = 0"
proof -
  obtain b0 ps0 xs b where a: "add_each W (plane_id p) [(plane_prop_id p ''zpos_property'', u64_of z)] ps = (b0, ps0)"
    and b: "add_until W (plane_id p) xs ps0 = (b, ps')" and "ret = (if b then 1 else 0)"
    using assms unfolding CommitSidebandStream_def Let_def by (auto split: prod.splits simp del: add_each.simps)
  then show "ticked (snd ps) (snd ps')" and "accepting W \<Longrightarrow> ret = 0"
    using ticked_each [OF a] ticked_until [OF b] accepting_until [OF _ b] by (auto intro: ticked_trans)
qed

lemma fine_collect_layer:
  assumes "collect_layer K T W V c fp p i s = Some (go, s')"
  shows "fine W s s'"
proof -
  let ?l = "(co_layers s ! i)\<lparr> buf := (buf (co_layers s ! i))\<lparr> acquire_fence := -1 \<rparr> \<rparr>"
  let ?s = "s\<lparr> co_layers := (co_layers s)[i := ?l] \<rparr>"
  have "List.map fl_release ((co_layers s)[i := ?l]) = List.map fl_release (co_layers s)"
    by (simp add: map_update list_update_id) (metis list_update_beyond list_update_id map_update not_le nth_map length_map)
  then have 0: "fine W s ?s"
    by (simp add: fine_def)
  have "fine W ?s s'"
  proof -
    consider "s' = ?s"
      | z ret ps where "CommitSidebandStream K W p (co_layers s ! i) z (co_req ?s) = (ret, ps)"
          "s' = ?s\<lparr> co_ret := ret, co_req := ps \<rparr>"
      | "s' = collect_off W (dc_update_assign c) p ?s"
      | base opt go ps where "put_plane W (plane_id p) base opt (co_req ?s) = (go, ps)"
          "s' = ?s\<lparr> co_ret := truth (\<not> go), co_req := ps \<rparr>"
      using assms by (simp add: collect_layer_def Let_def split: if_splits prod.splits option.splits bind_splits) (metis+)?
    then show ?thesis
    proof cases
      case 2 then show ?thesis using sideband_stream_ok [OF 2(1)] by (auto simp: fine_def)
    next
      case 3 then show ?thesis by (simp add: fine_collect_off)
    next
      case 4 then show ?thesis using put_plane_ok [OF 4(1)] by (auto simp: fine_def truth_def)
    qed simp
  qed
  with 0 show ?thesis by (rule fine_trans)
qed

lemma fine_collect_plane:
  "collect_plane K T W V PL c fp s = Some (go, s') \<Longrightarrow> fine W s s'"
  by (auto simp: collect_plane_def Let_def fine_collect_off dest: fine_collect_layer
           split: if_splits list.splits)

lemma fine_collect_planes:
  "collect_planes K T W V PL c fps s = Some s' \<Longrightarrow> fine W s s'"
proof (induction fps arbitrary: s)
  case (Cons fp fps)
  from Cons.prems obtain go s1 where a: "collect_plane K T W V PL c fp s = Some (go, s1)"
    and b: "go \<and> collect_planes K T W V PL c fps s1 = Some s' \<or> s' = s1"
    by (auto split: bind_splits if_splits)
  from b Cons.IH fine_collect_plane [OF a] show ?case by (blast intro: fine_trans)
qed simp

lemma overscan_step_ok:
  assumes "overscan_step T W V k display n ps = (stop, ret, ps')"
  shows "ticked (snd ps) (snd ps')" and "accepting W \<Longrightarrow> \<not> stop \<and> ret = 0"
  using assms unfolding overscan_step_def CheckOverscan_def Let_def
  by (auto split: if_splits prod.splits dest: ticked_until accepting_until simp del: add_until.simps)

lemma collect_overscan_ok:
  assumes "collect_overscan T W V display n k c ps = Some (stop, ret, ps')"
  shows "ticked (snd ps) (snd ps')" and "accepting W \<Longrightarrow> \<not> stop \<and> ret = 0"
  using assms unfolding collect_overscan_def
  by (auto split: if_splits prod.splits option.splits dest: overscan_step_ok intro: ticked_trans)

lemma frame_request_ok:
  assumes "frame_request K T W V PL display n k c disabled ps = Some (ret, c', dis, ps')"
  shows "same_frame c c'" and "ticked (snd ps) (snd ps')" and "accepting W \<Longrightarrow> ret = 0"
proof -
  from assms obtain stop ret1 ps1 where o: "collect_overscan T W V display n k c ps = Some (stop, ret1, ps1)"
    and r: "stop \<and> ret = ret1 \<and> c' = c \<and> ps' = ps1 \<or>
      \<not> stop \<and> (\<exists>s. collect_planes K T W V PL c (dc_planes c)
          \<lparr> co_ret = ret1, co_req = ps1, co_layers = dc_layers c, co_disabled = disabled \<rparr> = Some s \<and>
          ret = co_ret s \<and> c' = c\<lparr> dc_layers := co_layers s \<rparr> \<and> ps' = co_req s)"
    by (auto simp: frame_request_def split: bind_splits if_splits)
  note q = collect_overscan_ok [OF o]
  have "same_frame c c' \<and> ticked (snd ps) (snd ps') \<and> (accepting W \<longrightarrow> ret = 0)"
    using r
  proof (elim disjE conjE exE)
    fix s assume "collect_planes K T W V PL c (dc_planes c)
      \<lparr> co_ret = ret1, co_req = ps1, co_layers = dc_layers c, co_disabled = disabled \<rparr> = Some s"
      and "ret = co_ret s" "c' = c\<lparr> dc_layers := co_layers s \<rparr>" "ps' = co_req s"
    with fine_collect_planes [OF this(1)] q show ?thesis
      by (auto simp: fine_def same_frame_def intro: ticked_trans)
  qed (use q in auto)
  then show "same_frame c c'" "ticked (snd ps) (snd ps')" "accepting W \<Longrightarrow> ret = 0" by auto
qed

text \<open>Switching the sinks: again only the time of the routing state moves.\<close>

lemma ticked_add_snd:
  assumes "ticked s (snd ps)"
  shows "ticked s (snd (snd (atomic_add W obj m v ps)))"
proof -
  obtain b ps' where "atomic_add W obj m v ps = (b, ps')" by (cases "atomic_add W obj m v ps")
  from ticked_trans [OF assms ticked_add [OF this]] this show ?thesis by simp
qed

lemma ticked_blob: "hdr_blob_new H b s = (r, b', s') \<Longrightarrow> ticked s s'"
  by (auto simp: hdr_blob_new_def split: prod.splits)

lemma ticked_drop_blob: "drop_blob c s = (c', s') \<Longrightarrow> ticked s s'"
  by (auto simp: drop_blob_def)

lemma ticked_request_metadata: "ticked (snd (snd cps)) (snd (snd (request_metadata H W N v cps)))"
  by (auto simp: request_metadata_def Let_def split: prod.splits if_splits intro!: ticked_add_snd)
    (auto simp: hdr_blob_new_def split: prod.splits)

lemma ticked_output_format:
  "ticked (snd ps) (snd (snd (snd (UpdateOutputFormat_request K C W pg a N (c, ps)))))"
  by (auto simp: UpdateOutputFormat_request_def Let_def intro!: ticked_add_snd split: prod.split)

lemma ticked_request_format: "ticked (snd (snd cps)) (snd (snd (request_format K C W pg a N sdr depth cps)))"
proof -
  obtain c ps where c: "cps = (c, ps)" by (cases cps)
  show ?thesis
    using ticked_output_format [of ps K C W pg a N "sink.truncate c"]
    by (auto simp: c request_format_def Let_def intro!: ticked_add_snd split: prod.split)
qed

lemma ticked_metadata_format:
  "request_format K C W pg a N sdr depth (request_metadata H W N v cps) = (c', ps') \<Longrightarrow>
   ticked (snd (snd cps)) (snd ps')"
  using ticked_trans [OF ticked_request_metadata ticked_request_format] by (metis snd_conv)

lemma ticked_switch_hdmi_hdr_mode:
  assumes "switch_hdmi_hdr_mode K C F H W V a N ds ten (c, ps) = (ret, c', ps')"
  shows "ticked (snd ps) (snd ps')" and "ret = 0"
  using assms unfolding switch_hdmi_hdr_mode_def
  by (auto simp: Let_def split: prod.splits
           dest!: ticked_drop_blob ticked_metadata_format intro: ticked_trans)

lemma ticked_switch_by_metadata:
  assumes "switch_hdmi_hdr_mode_by_medadata K C F H W V a N prim md ten (c, ps) = (ret, c', ps')"
  shows "ticked (snd ps) (snd ps')" and "ret = 0"
  using assms unfolding switch_hdmi_hdr_mode_by_medadata_def
  by (auto simp: Let_def split: prod.splits if_splits
           dest!: ticked_drop_blob ticked_metadata_format intro: ticked_trans)

definition ticked_fun :: "(nptr \<Rightarrow> hdr_sink \<times> request \<times> pipe \<Rightarrow> int \<times> hdr_sink \<times> request \<times> pipe) \<Rightarrow> bool" where
  "ticked_fun f \<longleftrightarrow> (\<forall>m c ps ret c' ps'. f m (c, ps) = (ret, c', ps') \<longrightarrow> ticked (snd ps) (snd ps'))"

lemma ticked_on_sink: "ticked_fun f \<Longrightarrow> on_sink m (f m) hps = (ret, hps') \<Longrightarrow> ticked (snd (snd hps)) (snd (snd hps'))"
  by (cases hps) (auto simp: on_sink_def ticked_fun_def split: prod.splits)

lemma ticked_switch_mirrors:
  "ticked_fun f \<Longrightarrow> switch_mirrors E f ds hps = Some hps' \<Longrightarrow> ticked (snd (snd hps)) (snd (snd hps'))"
proof (induction ds arbitrary: hps)
  case (Cons d ds)
  from Cons.prems obtain m where m: "switch_mirrors E f ds (snd (on_sink m (f m) hps)) = Some hps'"
    by (auto split: option.splits)
  obtain r hps1 where o: "on_sink m (f m) hps = (r, hps1)" by (cases "on_sink m (f m) hps")
  from ticked_on_sink [OF Cons.prems(1) o] Cons.IH [OF Cons.prems(1) m] o show ?case
    by (auto intro: ticked_trans)
qed simp

lemma ticked_switch_display:
  assumes f: "ticked_fun f" and s: "switch_display E f n hps = Some (ret, hps')"
  shows "ticked (snd (snd hps)) (snd (snd hps'))"
proof -
  obtain r hps1 where o: "on_sink n (f n) hps = (r, hps1)" by (cases "on_sink n (f n) hps")
  from s o have "hps' = hps1 \<or>
      switch_mirrors E f (connected_mirror_display_id_set (conn (snd (snd hps)) n)) hps1 = Some hps'"
    by (auto simp: switch_display_def Let_def split: if_splits)
  then show ?thesis
    using ticked_on_sink [OF f o] ticked_switch_mirrors [OF f] ticked_trans by blast
qed

lemma ticked_metadata_switch:
  assumes "metadata_switch E c n k l hps = Some hps'"
  shows "ticked (snd (snd hps)) (snd (snd hps'))"
proof (cases "fl_metadata_hdr l")
  case (Some a)
  obtain prim md where a: "a = (prim, md)" by (cases a)
  let ?f = "\<lambda>m. switch_hdmi_hdr_mode_by_medadata (he_K E) (he_C E) (he_F E) (he_H E) (he_W E) (he_V E)
              (he_answer E m) (ni (he_T E) m) prim md (bYuv10bit (buf l))"
  have f: "ticked_fun ?f"
    by (auto simp: ticked_fun_def dest: ticked_switch_by_metadata)
  from assms Some a obtain ret h1 r1 s1 where d: "switch_display E ?f n hps = Some (ret, h1, r1, s1)"
    by (auto simp: metadata_switch_def split: bind_splits)
  from ticked_switch_display [OF f d] have 1: "ticked (snd (snd hps)) s1" by simp
  have 2: "ticked s1 s3" if "hdr_blob_new (he_H E) 0 (DestroyPropertyBlob x s1) = (r, b, s3)" for x r b s3
    using ticked_blob [OF that] by (blast intro: ticked_trans ticked_destroy_blob)
  show ?thesis
    using assms Some a d 1
    by (auto simp: metadata_switch_def Let_def split: prod.splits if_splits
             dest!: ticked_add 2 intro: ticked_trans)
qed (use assms in \<open>auto simp: metadata_switch_def\<close>)

lemma CollectModeSetInfo_ok:
  assumes "CollectModeSetInfo E d c hps = Some (ret, hps')"
  shows "ticked (snd (snd hps)) (snd (snd hps'))"
    and "GetConnectorForDisplay (he_T E) d (snd (snd hps)) \<noteq> None \<Longrightarrow>
         GetCrtcForDisplay (he_T E) d (snd (snd hps)) \<noteq> None \<Longrightarrow> ret = 0"
proof -
  have m: "ticked (snd (snd hps)) (snd (snd hps'))" if "metadata_switches E c n k ls hps = Some hps'" for n k ls hps hps'
    using that
  proof (induction ls arbitrary: hps)
    case (Cons l ls)
    then show ?case by (auto split: bind_splits intro: ticked_metadata_switch ticked_trans)
  qed simp
  have l: "ticked (snd (snd hps)) (snd (snd (leave_metadata E k hps)))" for k
    by (auto simp: leave_metadata_def split: prod.splits intro!: ticked_add_snd)
  have p: "ticked (snd (snd hps)) (snd (snd hps'))" if "plain_switch E c n k hps = Some hps'" for n k hps'
  proof -
    obtain h ps where lm: "leave_metadata E k hps = (h, ps)" by (cases "leave_metadata E k hps")
    have f: "ticked_fun (\<lambda>m. switch_hdmi_hdr_mode (he_K E) (he_C E) (he_F E) (he_H E) (he_W E) (he_V E)
        (he_answer E m) (ni (he_T E) m) (dc_dataspace c) (dc_yuv10 c))"
      by (auto simp: ticked_fun_def dest: ticked_switch_hdmi_hdr_mode)
    have "ticked (snd ps) (snd (snd hps'))"
      using that unfolding plain_switch_def lm prod.case
      by (auto split: if_splits bind_splits dest!: ticked_switch_display [OF f])
    with l [of k] lm show ?thesis by (auto intro: ticked_trans)
  qed
  show "ticked (snd (snd hps)) (snd (snd hps'))"
    using assms by (auto simp: CollectModeSetInfo_def split: option.splits if_splits dest!: m p)
  show "GetConnectorForDisplay (he_T E) d (snd (snd hps)) \<noteq> None \<Longrightarrow>
         GetCrtcForDisplay (he_T E) d (snd (snd hps)) \<noteq> None \<Longrightarrow> ret = 0"
    using assms by (auto simp: CollectModeSetInfo_def split: option.splits if_splits)
qed

end
