(* ===== verification/Compositor_Balance.thy ===== *)
theory Compositor_Balance
  imports Compositor_Fences
begin

text \<open>
  Collecting, committing and clearing keep the books: the counter of a timeline and the fences its
  frames owe add up to the same number before and after, whatever fails on the way.
\<close>

section \<open>Maps by display\<close>

definition keyed :: "(int \<times> 'a) list \<Rightarrow> bool" where
  "keyed m \<longleftrightarrow> sorted_wrt (<) (List.map fst m)"

lemma keyed_Nil [simp]: "keyed []"
  by (simp add: keyed_def)

lemma set_map_insert: "set (List.map fst (map_insert d x m)) = insert d (set (List.map fst m))"
  by (induction d x m rule: map_insert.induct) auto

lemma keyed_map_insert: "keyed m \<Longrightarrow> keyed (map_insert d x m)"
proof (induction d x m rule: map_insert.induct)
  case (2 d x e y m)
  then show ?case
    using set_map_insert [of d x m] by (auto simp: keyed_def)
qed (simp add: keyed_def)

lemma mset_map_insert: "map_of m d = None \<Longrightarrow> mset (map_insert d x m) = add_mset (d, x) (mset m)"
  by (induction d x m rule: map_insert.induct) (auto split: if_splits)

lemma keyed_distinct: "keyed m \<Longrightarrow> distinct (List.map fst m)"
  by (auto simp: keyed_def strict_sorted_iff)

lemma keyed_filter: "keyed m \<Longrightarrow> keyed (filter P m)"
  unfolding keyed_def by (induction m) auto

lemma keyed_put_layers: "keyed m \<Longrightarrow> keyed (put_layers ls d m)"
  by (simp add: keyed_def put_layers_def case_prod_beta' o_def)

lemma on_line_concat: "on_line d (concat xss) = sum_list (List.map (on_line d) xss)"
  by (induction xss) (simp_all add: on_line_def)

lemma owed_sum: "owed d cs = sum_list (List.map (\<lambda>c. on_line d (due c)) cs)"
  by (induction cs) simp_all

lemma owed_frames: "owed d (concat (List.map pending_frames m)) = sum_list (List.map (\<lambda>e. owed d (pending_frames e)) m)"
  by (induction m) simp_all

lemma owed_frames_mset:
  "mset m = mset m' \<Longrightarrow> owed d (concat (List.map pending_frames m)) = owed d (concat (List.map pending_frames m'))"
  unfolding owed_frames by (simp flip: sum_mset_sum_list)

lemma owed_map_insert:
  "map_of m d = None \<Longrightarrow>
   owed e (concat (List.map pending_frames (map_insert d pd m))) =
   owed e (pending_frames (d, pd)) + owed e (concat (List.map pending_frames m))"
  using owed_frames_mset [of "map_insert d pd m" "(d, pd) # m"] by (simp add: mset_map_insert)

section \<open>What the compositor holds\<close>

definition presented :: "compositor \<Rightarrow> frame_comp list" where
  "presented cm = concat (List.map pending_frames (cm_live cm)) @ concat (List.map pending_frames (cm_collect cm))"

text \<open>The counter the timeline will have when all that was collected or is on screen is gone.\<close>

definition pledged :: "int \<Rightarrow> compositor \<Rightarrow> int" where
  "pledged d cm = tl_now (cm_lines cm d) + int (owed d (presented cm))"

lemma alive_presented: "alive cm = presented cm @ cm_queue cm"
  by (simp add: alive_def presented_def)

lemma balance_pledged: "balance d cm = pledged d cm + int (owed d (cm_queue cm))"
  by (simp add: balance_def pledged_def alive_presented)

text \<open>The maps have each key once, and the planes of every frame show layers it has.\<close>

definition tidy :: "compositor \<Rightarrow> bool" where
  "tidy cm \<longleftrightarrow> keyed (cm_collect cm) \<and> keyed (cm_live cm) \<and> (\<forall>c \<in> set (presented cm). sources_ok c)"

text \<open>The two compositors have the same frames, counters and switches.\<close>

definition same_frames :: "compositor \<Rightarrow> compositor \<Rightarrow> bool" where
  "same_frames cm k \<longleftrightarrow>
     cm_queue k = cm_queue cm \<and> cm_cnt k = cm_cnt cm \<and> cm_collect k = cm_collect cm \<and> cm_live k = cm_live cm \<and>
     cm_lines k = cm_lines cm \<and> cm_display k = cm_display cm \<and> cm_active k = cm_active cm \<and>
     cm_clear k = cm_clear cm \<and> cm_drop k = cm_drop cm \<and> cm_initialized k = cm_initialized cm"

lemma same_frames_refl [simp]: "same_frames cm cm"
  by (simp add: same_frames_def)

lemma same_frames_trans: "same_frames a b \<Longrightarrow> same_frames b c \<Longrightarrow> same_frames a c"
  by (simp add: same_frames_def)

lemma same_frames_presented: "same_frames cm k \<Longrightarrow> presented k = presented cm"
  by (simp add: same_frames_def presented_def)

lemma same_frames_books:
  assumes "same_frames cm k"
  shows "pledged d k = pledged d cm" "balance d k = balance d cm" "tidy k = tidy cm"
  using assms by (simp_all add: pledged_def balance_def alive_def presented_def tidy_def same_frames_def)

section \<open>Collecting one frame\<close>

text \<open>How collecting ends: the frame is kept, or it is destroyed.\<close>

definition collect_ends :: "pending \<Rightarrow> compositor \<Rightarrow> int \<Rightarrow> compositor \<Rightarrow> bool" where
  "collect_ends pd cm ret cm' \<longleftrightarrow>
     (\<exists>c k. same_frame (pd_comp pd) c \<and> same_frames cm k \<and>
        (if ret = 0 then cm' = collected (pd\<lparr> pd_comp := c \<rparr>) k \<and> cm_pset k \<noteq> None
         else cm' = on_lines (destroy_pending (pd\<lparr> pd_comp := c \<rparr>)) k))"

lemma collect_ends_destroyed:
  "same_frame (pd_comp pd) c \<Longrightarrow> same_frames cm k \<Longrightarrow> ret \<noteq> 0 \<Longrightarrow>
   collect_ends pd cm ret (on_lines (destroy_pending (pd\<lparr> pd_comp := c \<rparr>)) k)"
  unfolding collect_ends_def by auto

lemma collect_ends_kept:
  "same_frame (pd_comp pd) c \<Longrightarrow> same_frames cm k \<Longrightarrow> cm_pset k \<noteq> None \<Longrightarrow>
   collect_ends pd cm 0 (collected (pd\<lparr> pd_comp := c \<rparr>) k)"
  unfolding collect_ends_def by auto

lemma collect_endsE:
  assumes "collect_ends pd cm ret cm'"
  obtains c k where "same_frame (pd_comp pd) c" "same_frames cm k"
    "cm' = collected (pd\<lparr> pd_comp := c \<rparr>) k \<or> cm' = on_lines (destroy_pending (pd\<lparr> pd_comp := c \<rparr>)) k"
  using assms unfolding collect_ends_def by (cases "ret = 0") auto

lemma CollectCommitInfo_ok:
  assumes "CollectCommitInfo E c cm ps = Some (ret, c', cm', ps')"
  shows "same_frame c c'" "same_frames cm cm'" "ticked (snd ps) (snd ps')"
    and "accepting (he_W E) \<Longrightarrow> GetConnectorForDisplay (he_T E) (cm_display cm) (snd ps) \<noteq> None \<Longrightarrow>
         GetCrtcForDisplay (he_T E) (cm_display cm) (snd ps) \<noteq> None \<Longrightarrow> ret = 0"
  using assms
  by (auto simp: CollectCommitInfo_def Let_def same_frames_def split: option.splits bind_splits
           dest: frame_request_ok)

lemma ticked_alloc: "atomic_alloc W s = (ok, s') \<Longrightarrow> ticked s s'" "accepting W \<Longrightarrow> atomic_alloc W s = (ok, s') \<Longrightarrow> ok"
  by (auto simp: atomic_alloc_def accepting_def)

definition connected :: "comp_env \<Rightarrow> int \<Rightarrow> pipe \<Rightarrow> bool" where
  "connected E d s \<longleftrightarrow>
     accepting (he_W E) \<and> GetConnectorForDisplay (he_T E) d s \<noteq> None \<and> GetCrtcForDisplay (he_T E) d s \<noteq> None"

lemma connected_quiet: "ticked s s' \<Longrightarrow> connected E d s' = connected E d s"
  by (simp add: connected_def ticked_display)

lemma CollectInfo_ok:
  assumes "CollectInfo E pd (cm, s) = Some (ret, cm', s')"
  shows "collect_ends pd cm ret cm'" "ticked s s'" "connected E (cm_display cm) s \<Longrightarrow> ret = 0"
proof -
  obtain ok r s1 where a: "(case cm_pset cm of Some r \<Rightarrow> (True, r, s)
      | None \<Rightarrow> (case atomic_alloc (he_W E) s of (ok, s1) \<Rightarrow> (ok, [], s1))) = (ok, r, s1)"
    by (metis prod.collapse)
  have q: "ticked s s1" and o: "accepting (he_W E) \<Longrightarrow> ok"
    using a by (auto split: option.splits prod.splits dest: ticked_alloc)
  consider (none) "ret = -1" "cm' = on_lines (destroy_pending pd) cm" "s' = s1" "\<not> ok"
    | (clear) "ret = 0" "cm' = collected pd (cm\<lparr> cm_pset := Some r \<rparr>)" "s' = s1" "ok"
    | (request) ret1 c1 cm1 r1 s2 where "ok" "CollectCommitInfo E (pd_comp pd) cm (r, s1) = Some (ret1, c1, cm1, r1, s2)"
        "ret1 \<noteq> 0 \<and> ret = ret1 \<and> cm' = on_lines (destroy_pending (pd\<lparr> pd_comp := c1 \<rparr>)) (cm1\<lparr> cm_pset := None \<rparr>) \<and>
           s' = s2 \<or>
         ret1 = 0 \<and> (\<exists>ret2 h r2 s3. CollectModeSetInfo (hdr_env.truncate E) (cm_display cm1) c1 (cm_hdr cm1, r1, s2) =
             Some (ret2, h, r2, s3) \<and> ret = ret2 \<and> s' = s3 \<and>
             cm' = (if ret2 \<noteq> 0 then on_lines (destroy_pending (pd\<lparr> pd_comp := c1 \<rparr>)) (cm1\<lparr> cm_hdr := h, cm_pset := None \<rparr>)
                    else collected (pd\<lparr> pd_comp := c1 \<rparr>) (cm1\<lparr> cm_hdr := h, cm_pset := Some r2 \<rparr>)))"
    using assms unfolding CollectInfo_def prod.case a
    by (auto simp: Let_def split: if_splits bind_splits)
  note cases = this
  show "collect_ends pd cm ret cm'"
  proof (cases rule: cases)
    case none
    then show ?thesis using collect_ends_destroyed [of pd "pd_comp pd" cm cm ret] by simp
  next
    case clear
    then show ?thesis
      using collect_ends_kept [of pd "pd_comp pd" cm "cm\<lparr> cm_pset := Some r \<rparr>"] by (simp add: same_frames_def)
  next
    case request
    from CollectCommitInfo_ok(1,2) [OF request(2)]
    have c: "same_frame (pd_comp pd) c1" and m: "same_frames cm (cm1\<lparr> cm_hdr := h, cm_pset := p \<rparr>)"
      and m': "same_frames cm (cm1\<lparr> cm_pset := p \<rparr>)" for h p
      by (simp_all add: same_frames_def)
    from request(3) show ?thesis
    proof (elim disjE conjE exE)
      fix ret2 h r2
      assume "cm' = (if ret2 \<noteq> 0
         then on_lines (destroy_pending (pd\<lparr> pd_comp := c1 \<rparr>)) (cm1\<lparr> cm_hdr := h, cm_pset := None \<rparr>)
         else collected (pd\<lparr> pd_comp := c1 \<rparr>) (cm1\<lparr> cm_hdr := h, cm_pset := Some r2 \<rparr>))" and "ret = ret2"
      then show ?thesis
        using collect_ends_destroyed [OF c m] collect_ends_kept [OF c m] by simp
    qed (simp add: collect_ends_destroyed [OF c m'])
  qed
  show "ticked s s'"
  proof (cases rule: cases)
    case request
    from q CollectCommitInfo_ok(3) [OF request(2)] have "ticked s s2" by (auto intro: ticked_trans)
    with request(3) show ?thesis by (fastforce dest: CollectModeSetInfo_ok(1) intro: ticked_trans)
  qed (use q in simp_all)
  show "ret = 0" if "connected E (cm_display cm) s"
  proof (cases rule: cases)
    case none
    with o that show ?thesis by (simp add: connected_def)
  next
    case request
    have q2: "ticked s s2" using q CollectCommitInfo_ok(3) [OF request(2)] by (auto intro: ticked_trans)
    have "connected E (cm_display cm) s1" "connected E (cm_display cm) s2"
      using that connected_quiet q q2 by blast+
    moreover have "cm_display cm1 = cm_display cm"
      using CollectCommitInfo_ok(2) [OF request(2)] by (simp add: same_frames_def)
    moreover have "he_T (hdr_env.truncate E) = he_T E" by (simp add: hdr_env.truncate_def)
    ultimately show ?thesis
      using request(3) CollectCommitInfo_ok(4) [OF request(2)]
      by (auto simp: connected_def dest: CollectModeSetInfo_ok(2))
  qed simp
qed

section \<open>The books\<close>

text \<open>
  \<open>settles cs cm cm'\<close>: from \<open>cm\<close> and the frames \<open>cs\<close> to \<open>cm'\<close> no fence is lost, and none is
  signalled twice.
\<close>

definition settles :: "frame_comp list \<Rightarrow> compositor \<Rightarrow> compositor \<Rightarrow> bool" where
  "settles cs cm cm' \<longleftrightarrow>
     (\<forall>d. tl_cnt (cm_lines cm' d) = tl_cnt (cm_lines cm d) \<and> pledged d cm' = pledged d cm + int (owed d cs))"

lemma settles_refl [simp]: "settles [] cm cm"
  by (simp add: settles_def)

lemma settles_trans: "settles cs a b \<Longrightarrow> settles ds b c \<Longrightarrow> settles (cs @ ds) a c"
  by (simp add: settles_def)

lemma settles_same: "same_frames cm k \<Longrightarrow> settles cs k cm' = settles cs cm cm'"
  by (simp add: settles_def same_frames_books) (simp add: same_frames_def)

lemma settles_paid:
  assumes "paid fs (cm_lines cm) (cm_lines cm')" "\<And>d. owed d (presented cm) + owed d cs = owed d (presented cm') + on_line d fs"
  shows "settles cs cm cm'"
  unfolding settles_def pledged_def
proof (intro allI conjI)
  fix d
  from assms(1) have "tl_now (cm_lines cm' d) = tl_now (cm_lines cm d) + int (on_line d fs)"
    by (simp add: paid_def)
  moreover have "int (owed d (presented cm)) + int (owed d cs) = int (owed d (presented cm')) + int (on_line d fs)"
    using assms(2) [of d] by (metis of_nat_add)
  ultimately show "tl_now (cm_lines cm' d) + int (owed d (presented cm')) =
      tl_now (cm_lines cm d) + int (owed d (presented cm)) + int (owed d cs)" by simp
qed (use assms(1) in \<open>simp add: paid_def\<close>)

lemma collected_keeps:
  "cm_queue (collected pd cm) = cm_queue cm" "cm_cnt (collected pd cm) = cm_cnt cm"
  "cm_live (collected pd cm) = cm_live cm" "cm_pset (collected pd cm) = cm_pset cm"
  "cm_display (collected pd cm) = cm_display cm" "cm_active (collected pd cm) = cm_active cm"
  "cm_clear (collected pd cm) = cm_clear cm" "cm_drop (collected pd cm) = cm_drop cm"
  "cm_initialized (collected pd cm) = cm_initialized cm"
  by (simp_all add: collected_def Let_def)

lemma collected_settles: "settles (pending_frames (d, pd)) cm (collected pd cm)"
proof (cases "map_of (cm_collect cm) (dc_display (pd_comp pd))")
  case None
  then show ?thesis
    by (auto simp: settles_def pledged_def collected_def Let_def presented_def owed_map_insert pending_frames_def)
next
  case (Some a)
  then have c: "collected pd cm = on_lines (destroy_pending pd) cm" by (simp add: collected_def Let_def)
  show ?thesis unfolding c
    by (rule settles_paid [OF _ , of "due (pd_comp pd) @ dues (pd_useless pd)"])
      (simp_all add: destroy_pending_paid presented_def pending_frames_def owed_def)
qed

lemma destroyed_settles: "settles (pending_frames (d, pd)) cm (on_lines (destroy_pending pd) cm)"
  by (rule settles_paid [OF _ , of "due (pd_comp pd) @ dues (pd_useless pd)"])
    (simp_all add: destroy_pending_paid presented_def pending_frames_def owed_def)

lemma owed_same_frame:
  assumes "same_frame (pd_comp pd) c" "sources_ok (pd_comp pd)"
  shows "owed e (pending_frames (d, pd\<lparr> pd_comp := c \<rparr>)) = owed e (pending_frames (d, pd))"
  by (simp add: pending_frames_def same_frame_due [OF assms])

lemma CollectInfo_settles:
  assumes "CollectInfo E pd (cm, s) = Some (ret, cm', s')" "sources_ok (pd_comp pd)"
  shows "settles (pending_frames (d, pd)) cm cm'"
proof -
  from CollectInfo_ok(1) [OF assms(1)] obtain c k where c: "same_frame (pd_comp pd) c" and k: "same_frames cm k"
    and "cm' = collected (pd\<lparr> pd_comp := c \<rparr>) k \<or> cm' = on_lines (destroy_pending (pd\<lparr> pd_comp := c \<rparr>)) k"
    by (rule collect_endsE)
  then have "settles (pending_frames (d, pd\<lparr> pd_comp := c \<rparr>)) cm cm'"
    using collected_settles destroyed_settles settles_same [OF k] by blast
  then show ?thesis
    by (simp add: settles_def owed_same_frame [OF c assms(2)])
qed

lemma books_on_lines [simp]: "presented (on_lines f cm) = presented cm" "tidy (on_lines f cm) = tidy cm"
  by (simp_all add: tidy_def presented_def)

lemma sources_pending: "(\<forall>c \<in> set (pending_frames (d, pd)). sources_ok c) \<longleftrightarrow>
    sources_ok (pd_comp pd) \<and> (\<forall>c \<in> set (pd_useless pd). sources_ok c)"
  by (auto simp: pending_frames_def)

lemma set_map_insert_sub: "set (map_insert d x m) \<subseteq> insert (d, x) (set m)"
  by (induction d x m rule: map_insert.induct) auto

lemma tidy_collected:
  assumes "tidy cm" "\<forall>c \<in> set (pending_frames (d, pd)). sources_ok c"
  shows "tidy (collected pd cm)"
proof -
  have "\<forall>c \<in> set (pending_frames e). sources_ok c"
    if "e \<in> set (map_insert (dc_display (pd_comp pd)) pd (cm_collect cm))" for e
  proof -
    from that set_map_insert_sub have "e = (dc_display (pd_comp pd), pd) \<or> e \<in> set (cm_collect cm)" by fastforce
    then show ?thesis
      using assms by (auto simp: tidy_def presented_def pending_frames_def)
  qed
  with assms(1) show ?thesis
    by (auto simp: tidy_def collected_def Let_def presented_def keyed_map_insert)
qed

lemma CollectInfo_tidy:
  assumes "CollectInfo E pd (cm, s) = Some (ret, cm', s')" "\<forall>c \<in> set (pending_frames (d, pd)). sources_ok c" "tidy cm"
  shows "tidy cm'"
proof -
  from CollectInfo_ok(1) [OF assms(1)] obtain c k where c: "same_frame (pd_comp pd) c" and k: "same_frames cm k"
    and r: "cm' = collected (pd\<lparr> pd_comp := c \<rparr>) k \<or> cm' = on_lines (destroy_pending (pd\<lparr> pd_comp := c \<rparr>)) k"
    by (rule collect_endsE)
  have t: "tidy k" using same_frames_books(3) [OF k] assms(3) by simp
  have "\<forall>x \<in> set (pending_frames (d, pd\<lparr> pd_comp := c \<rparr>)). sources_ok x"
    using assms(2) same_frame_sources [OF c] by (auto simp: pending_frames_def)
  from tidy_collected [OF t this] r t show ?thesis by auto
qed

lemma CollectInfo_keeps:
  assumes "CollectInfo E pd (cm, s) = Some (ret, cm', s')"
  shows "cm_queue cm' = cm_queue cm" "cm_cnt cm' = cm_cnt cm" "cm_live cm' = cm_live cm"
    "cm_display cm' = cm_display cm" "cm_active cm' = cm_active cm" "cm_drop cm' = cm_drop cm"
    "cm_initialized cm' = cm_initialized cm" "cm_clear cm' = cm_clear cm"
proof -
  from CollectInfo_ok(1) [OF assms] obtain c k where k: "same_frames cm k"
    and "cm' = collected (pd\<lparr> pd_comp := c \<rparr>) k \<or> cm' = on_lines (destroy_pending (pd\<lparr> pd_comp := c \<rparr>)) k"
    by (rule collect_endsE)
  then show "cm_queue cm' = cm_queue cm" "cm_cnt cm' = cm_cnt cm" "cm_live cm' = cm_live cm"
    "cm_display cm' = cm_display cm" "cm_active cm' = cm_active cm" "cm_drop cm' = cm_drop cm"
    "cm_initialized cm' = cm_initialized cm" "cm_clear cm' = cm_clear cm"
    by (elim disjE; simp add: collected_keeps same_frames_def)+
qed

section \<open>Collecting the queue\<close>

lemma by_sequence_settles:
  "by_sequence E exist cs (cm, s) = Some (q, cm', s') \<Longrightarrow> (\<forall>c \<in> set cs. sources_ok c) \<Longrightarrow>
   (\<forall>d. tl_cnt (cm_lines cm' d) = tl_cnt (cm_lines cm d) \<and>
        pledged d cm' + int (owed d q) = pledged d cm + int (owed d cs)) \<and>
   set q \<subseteq> set cs \<and> (tidy cm \<longrightarrow> tidy cm')"
proof (induction cs arbitrary: exist cm s q)
  case (Cons c cs)
  show ?case
  proof (cases "dc_display c \<in> set exist")
    case True
    with Cons.prems obtain q' where "q = c # q'" "by_sequence E exist cs (cm, s) = Some (q', cm', s')"
      by (auto split: prod.splits)
    with Cons.IH [OF this(2)] Cons.prems(2) show ?thesis by auto
  next
    case False
    let ?cm = "upd_cnt (dc_display c) (\<lambda>k. k - 1) cm" and ?pd = "\<lparr> pd_comp = c, pd_useless = [] \<rparr>"
    from False Cons.prems(1) obtain ret cm1 s1 where i: "CollectInfo E ?pd (?cm, s) = Some (ret, cm1, s1)"
      and b: "by_sequence E (dc_display c # exist) cs (cm1, s1) = Some (q, cm', s')"
      by (auto split: bind_splits)
    have sh: "presented ?cm = presented cm" "cm_lines ?cm = cm_lines cm" "tidy ?cm = tidy cm"
      by (simp_all add: upd_cnt_def presented_def tidy_def)
    have p: "pending_frames (0, ?pd) = [c]" by (simp add: pending_frames_def)
    from CollectInfo_settles [OF i, of 0] Cons.prems(2) p
    have "settles [c] ?cm cm1" by simp
    moreover have "tidy cm \<longrightarrow> tidy cm1"
      using CollectInfo_tidy [OF i, of 0] Cons.prems(2) p sh by simp
    ultimately show ?thesis
      using Cons.IH [OF b] Cons.prems(2) sh by (auto simp: settles_def pledged_def)
  qed
qed simp

text \<open>The whole of the books: of what the compositor holds and of what is queued.\<close>

definition well :: "compositor \<Rightarrow> bool" where
  "well cm \<longleftrightarrow> tidy cm \<and> (\<forall>c \<in> set (cm_queue cm). sources_ok c)"

definition keeps_books :: "compositor \<Rightarrow> compositor \<Rightarrow> bool" where
  "keeps_books cm cm' \<longleftrightarrow>
     (well cm \<longrightarrow> well cm' \<and> (\<forall>d. tl_cnt (cm_lines cm' d) = tl_cnt (cm_lines cm d) \<and> balance d cm' = balance d cm))"

lemma keeps_books_refl [simp]: "keeps_books cm cm"
  by (simp add: keeps_books_def)

lemma keeps_books_trans: "keeps_books a b \<Longrightarrow> keeps_books b c \<Longrightarrow> keeps_books a c"
  by (simp add: keeps_books_def)

lemma keeps_books_same: "same_frames cm k \<Longrightarrow> keeps_books cm k"
  by (simp add: keeps_books_def well_def same_frames_books) (simp add: same_frames_def)

lemma sequence_keeps_books:
  assumes "CollectSFInfoBySequence E (cm, s) = Some (cm', s')"
  shows "keeps_books cm cm'"
proof -
  from assms obtain q k where b: "by_sequence E [] (cm_queue cm) (cm, s) = Some (q, k, s')"
    and c: "cm' = k\<lparr> cm_queue := q \<rparr>"
    by (auto simp: CollectSFInfoBySequence_def)
  have e: "presented cm' = presented k" "cm_lines cm' = cm_lines k" "tidy cm' = tidy k" "cm_queue cm' = q"
    by (simp_all add: c presented_def tidy_def)
  show ?thesis
    using by_sequence_settles [OF b] e
    by (auto simp: keeps_books_def well_def balance_pledged pledged_def)
qed

section \<open>Dropping frames\<close>

lemma map_put_new: "map_of m d = None \<Longrightarrow> map_put d x m = map_insert d x m"
  by (induction d x m rule: map_put.induct) (auto split: if_splits)

lemma map_put_old:
  "keyed m \<Longrightarrow> map_of m d = Some y \<Longrightarrow> \<exists>xs ys. m = xs @ (d, y) # ys \<and> map_put d x m = xs @ (d, x) # ys"
proof (induction d x m rule: map_put.induct)
  case (2 d x e z m)
  show ?case
  proof (cases "d = e")
    case True
    with "2.prems" show ?thesis by (intro exI [of _ "[]"] exI [of _ m]) simp
  next
    case False
    with "2.prems" have "map_of m d = Some y" and "keyed m" by (auto simp: keyed_def)
    moreover have "e < d"
      using "2.prems" \<open>map_of m d = Some y\<close> by (force simp: keyed_def dest: map_of_SomeD)
    ultimately obtain xs ys where m: "m = xs @ (d, y) # ys" and p: "map_put d x m = xs @ (d, x) # ys"
      using "2.IH" by auto
    have "map_put d x ((e, z) # m) = ((e, z) # xs) @ (d, x) # ys"
      using \<open>e < d\<close> p by simp
    moreover have "(e, z) # m = ((e, z) # xs) @ (d, y) # ys" by (simp add: m)
    ultimately have "(e, z) # m = ((e, z) # xs) @ (d, y) # ys \<and>
        map_put d x ((e, z) # m) = ((e, z) # xs) @ (d, x) # ys" by (rule conjI [rotated])
    then show ?thesis by blast
  qed
qed simp

text \<open>What sorting keeps: every frame is in one of the three lists, and the dropped ones have a newer one.\<close>

definition sorting_ok :: "frame_comp list \<Rightarrow> sorting \<Rightarrow> bool" where
  "sorting_ok q so \<longleftrightarrow>
     keyed (so_latest so) \<and> (\<forall>e \<in> set (so_latest so). dc_display (snd e) = fst e) \<and>
     (\<forall>c \<in> set (so_temp so). dc_display c \<in> set (List.map fst (so_latest so))) \<and>
     mset (List.map snd (so_latest so)) + mset (so_temp so) + mset (so_reserved so) = mset q"

lemma sorting_ok_step:
  assumes "sorting_ok q so"
  shows "sorting_ok (q @ [c]) (sort_frame c so)"
proof -
  let ?d = "dc_display c"
  consider (later) "1 \<le> so_dropped so ?d" | (new) "\<not> 1 \<le> so_dropped so ?d" "map_of (so_latest so) ?d = None"
    | (old) l where "\<not> 1 \<le> so_dropped so ?d" "map_of (so_latest so) ?d = Some l"
    by (cases "map_of (so_latest so) ?d") auto
  then show ?thesis
  proof cases
    case later
    then show ?thesis using assms by (simp add: sorting_ok_def sort_frame_def)
  next
    case new
    have s: "set (map_insert ?d c (so_latest so)) \<subseteq> insert (?d, c) (set (so_latest so))" by (rule set_map_insert_sub)
    have m: "mset (map_insert ?d c (so_latest so)) = add_mset (?d, c) (mset (so_latest so))"
      by (rule mset_map_insert [OF new(2)])
    have "set (List.map fst (map_insert ?d c (so_latest so))) = insert ?d (set (List.map fst (so_latest so)))"
      by (rule set_map_insert)
    moreover have "mset (List.map snd (map_insert ?d c (so_latest so))) = add_mset c (mset (List.map snd (so_latest so)))"
      using m by simp
    ultimately show ?thesis
      using assms s new by (auto simp: sorting_ok_def sort_frame_def Let_def map_put_new keyed_map_insert simp del: set_map)
  next
    case (old l)
    from assms have "keyed (so_latest so)" by (simp add: sorting_ok_def)
    from map_put_old [OF this old(2)] obtain xs ys where
      m: "so_latest so = xs @ (?d, l) # ys" "map_put ?d c (so_latest so) = xs @ (?d, c) # ys" by blast
    show ?thesis
      using assms old m by (auto simp: sorting_ok_def sort_frame_def Let_def keyed_def add.assoc)
  qed
qed

lemma sort_queue_ok: "sorting_ok q (sort_queue q)"
proof -
  have "sorting_ok (p @ q) (fold sort_frame q so)" if "sorting_ok p so" for p so
    using that
  proof (induction q arbitrary: p so)
    case (Cons c q)
    from Cons.IH [OF sorting_ok_step [OF Cons.prems]] show ?case by simp
  qed simp
  moreover have "sorting_ok [] \<lparr> so_latest = [], so_temp = [], so_reserved = [], so_dropped = (\<lambda>d. 0) \<rparr>"
    by (simp add: sorting_ok_def)
  ultimately show ?thesis
    unfolding sort_queue_def by (metis append_Nil)
qed

lemma owed_mset: "mset cs = mset ds \<Longrightarrow> owed d cs = owed d ds"
  unfolding owed_sum by (simp flip: sum_mset_sum_list)

lemma owed_by_display:
  assumes "distinct ks" "\<forall>c \<in> set cs. dc_display c \<in> set ks"
  shows "sum_list (List.map (\<lambda>k. owed d (filter (\<lambda>c. dc_display c = k) cs)) ks) = owed d cs"
  using assms(2)
proof (induction cs)
  case (Cons c cs)
  have "sum_list (List.map (\<lambda>k. owed d (filter (\<lambda>c. dc_display c = k) (c # cs))) ks) =
        sum_list (List.map (\<lambda>k. (if k = dc_display c then on_line d (due c) else 0) +
                        owed d (filter (\<lambda>c. dc_display c = k) cs)) ks)"
    by (intro arg_cong [where f = sum_list] map_cong) auto
  also have "\<dots> = on_line d (due c) + owed d cs"
    using Cons assms(1)
    by (simp add: sum_list_addf) (simp add: sum_list_distinct_conv_sum_set sum.delta)
  finally show ?case by simp
qed simp

lemma owed_pendings:
  assumes "sorting_ok q so"
  shows "owed d (concat (List.map (\<lambda>pd. pending_frames (0, pd)) (List.map (pending_of so) (so_latest so)))) +
         owed d (so_reserved so) = owed d q"
proof -
  let ?m = "so_latest so"
  from assms have k: "distinct (List.map fst ?m)" and t: "\<forall>c \<in> set (so_temp so). dc_display c \<in> set (List.map fst ?m)"
    and q: "mset (List.map snd ?m @ so_temp so @ so_reserved so) = mset q"
    by (auto simp: sorting_ok_def keyed_distinct add.assoc)
  have "owed d (concat (List.map (\<lambda>pd. pending_frames (0, pd)) (List.map (pending_of so) m))) =
        sum_list (List.map (\<lambda>k. owed d (filter (\<lambda>c. dc_display c = k) (so_temp so))) (List.map fst m)) +
        owed d (List.map snd m)" for m
    by (induction m) (auto simp: pending_frames_def pending_of_def)
  also have "sum_list (List.map (\<lambda>k. owed d (filter (\<lambda>c. dc_display c = k) (so_temp so))) (List.map fst ?m)) =
        owed d (so_temp so)"
    by (rule owed_by_display [OF k t])
  finally show ?thesis using owed_mset [OF q, of d] by simp
qed

lemma collect_all_settles:
  "collect_all E pds (cm, s) = Some (cm', s') \<Longrightarrow>
   (\<forall>c \<in> set (concat (List.map (\<lambda>pd. pending_frames (0, pd)) pds)). sources_ok c) \<Longrightarrow>
   settles (concat (List.map (\<lambda>pd. pending_frames (0, pd)) pds)) cm cm' \<and>
   (tidy cm \<longrightarrow> tidy cm') \<and> cm_queue cm' = cm_queue cm"
proof (induction pds arbitrary: cm s)
  case (Cons pd pds)
  from Cons.prems(1) obtain ret cm1 s1 where i: "CollectInfo E pd (cm, s) = Some (ret, cm1, s1)"
    and b: "collect_all E pds (cm1, s1) = Some (cm', s')"
    by (auto split: bind_splits)
  have p: "\<forall>c \<in> set (pending_frames (0, pd)). sources_ok c" using Cons.prems(2) by auto
  with CollectInfo_settles [OF i, of 0] have "settles (pending_frames (0, pd)) cm cm1"
    by (simp add: sources_pending)
  with Cons.IH [OF b] Cons.prems(2) CollectInfo_tidy [OF i p] CollectInfo_keeps(1) [OF i] show ?case
    by (auto intro: settles_trans)
qed simp

lemma upd_cnt_books [simp]:
  "presented (upd_cnt d f cm) = presented cm" "cm_lines (upd_cnt d f cm) = cm_lines cm" "tidy (upd_cnt d f cm) = tidy cm"
  "cm_queue (upd_cnt d f cm) = cm_queue cm" "cm_collect (upd_cnt d f cm) = cm_collect cm"
  "cm_live (upd_cnt d f cm) = cm_live cm" "cm_display (upd_cnt d f cm) = cm_display cm"
  "cm_pset (upd_cnt d f cm) = cm_pset cm" "cm_active (upd_cnt d f cm) = cm_active cm"
  by (simp_all add: upd_cnt_def presented_def tidy_def)

lemma drop_keeps_books:
  assumes "CollectSFInfoByDrop E (cm, s) = Some (cm', s')"
  shows "keeps_books cm cm'"
proof -
  let ?so = "sort_queue (cm_queue cm)"
  let ?pds = "List.map (pending_of ?so) (so_latest ?so)"
  have u: "presented (fold (\<lambda>c. upd_cnt (dc_display c) f) cs k) = presented k \<and>
      cm_lines (fold (\<lambda>c. upd_cnt (dc_display c) f) cs k) = cm_lines k \<and>
      tidy (fold (\<lambda>c. upd_cnt (dc_display c) f) cs k) = tidy k" for f cs k
    by (induction cs arbitrary: k) simp_all
  from assms obtain k where c: "collect_all E ?pds (k\<lparr> cm_queue := so_reserved ?so \<rparr>, s) = Some (cm', s')"
    and k: "presented k = presented cm" "cm_lines k = cm_lines cm" "tidy k = tidy cm"
    by (auto simp: CollectSFInfoByDrop_def Let_def u)
  have ok: "sorting_ok (cm_queue cm) ?so" by (rule sort_queue_ok)
  then have m: "mset (List.map snd (so_latest ?so) @ so_temp ?so @ so_reserved ?so) = mset (cm_queue cm)"
    by (simp add: sorting_ok_def add.assoc)
  have "set (concat (List.map (\<lambda>pd. pending_frames (0, pd)) ?pds)) \<subseteq> set (List.map snd (so_latest ?so)) \<union> set (so_temp ?so)"
    by (auto simp: pending_frames_def pending_of_def)
  with m have sub: "set (concat (List.map (\<lambda>pd. pending_frames (0, pd)) ?pds)) \<union> set (so_reserved ?so) \<subseteq> set (cm_queue cm)"
    by (metis (no_types, lifting) Un_assoc Un_mono set_append set_mset_mset subset_refl)
  have e: "tidy (k\<lparr> cm_queue := r \<rparr>) = tidy cm" "pledged d (k\<lparr> cm_queue := r \<rparr>) = pledged d cm" for r d
    using k by (simp_all add: tidy_def presented_def pledged_def)
  show ?thesis
    unfolding keeps_books_def
  proof (intro impI conjI allI)
    assume w: "well cm"
    with sub have "\<forall>c \<in> set (concat (List.map (\<lambda>pd. pending_frames (0, pd)) ?pds)). sources_ok c"
      by (auto simp: well_def)
    note r = collect_all_settles [OF c this]
    from r e w sub show "well cm'" by (auto simp: well_def)
    fix d
    from r k show "tl_cnt (cm_lines cm' d) = tl_cnt (cm_lines cm d)" by (simp add: settles_def)
    from r e owed_pendings [OF ok, of d] show "balance d cm' = balance d cm"
      by (simp add: settles_def balance_pledged)
  qed
qed

lemma CollectSFInfo_keeps_books: "CollectSFInfo E (cm, s) = Some (cm', s') \<Longrightarrow> keeps_books cm cm'"
  by (auto simp: CollectSFInfo_def drop_keeps_books sequence_keeps_books split: if_splits)

end
