(* ===== verification/Compositor_Rounds.thy ===== *)
theory Compositor_Rounds
  imports Compositor_Balance
begin

text \<open>
  The rest of a round and the property it has as a whole: sideband buffers, the commit, clearing the
  display, and the round of the thread keep the books of \<open>Compositor_Balance\<close>.
\<close>

section \<open>Sideband streams\<close>

definition vp_same :: "vp_state \<Rightarrow> vp_state \<Rightarrow> bool" where
  "vp_same a b \<longleftrightarrow>
     same_frames (fst (snd (snd a))) (fst (snd (snd b))) \<and>
     List.map fl_release (snd (snd (snd b))) = List.map fl_release (snd (snd (snd a))) \<and>
     ticked (snd (fst (snd a))) (snd (fst (snd b)))"

lemma vp_same_refl [simp]: "vp_same a a"
  by (simp add: vp_same_def)

lemma vp_same_trans: "vp_same a b \<Longrightarrow> vp_same b c \<Longrightarrow> vp_same a c"
  by (auto simp: vp_same_def intro: same_frames_trans ticked_trans)

lemma vp_same_off: "vp_same s (vp_off W u p s)"
  by (auto simp: vp_same_def vp_off_def same_frames_def split: prod.splits dest: ticked_until)

lemma vp_same_put: "vp_put E c fp p l fb crop rot s = Some (go, s') \<Longrightarrow> vp_same s s'"
  by (auto simp: vp_put_def Let_def vp_same_off split: prod.splits if_splits bind_splits)
    (auto simp: vp_same_def dest: put_plane_ok)

lemma map_release_update: "fl_release (f (ls ! i)) = fl_release (ls ! i) \<Longrightarrow>
    List.map fl_release (ls[i := f (ls ! i)]) = List.map fl_release ls"
  by (cases "i < length ls") (simp_all add: map_update list_update_same_conv list_update_beyond)

lemma vp_same_layer:
  assumes "vp_layer E fresh c fp p i s = Some (go, s')"
  shows "vp_same s s'"
proof -
  obtain ret ps cm ls where s: "s = (ret, ps, cm, ls)" by (cases s)
  from assms consider "s' = s" | fb l crop rot where "vp_put E c fp p l fb crop rot s = Some (go, s')"
    | r k where "s' = (r, ps, k, ls)" "same_frames cm k"
    | l fb crop rot r k h where "vp_put E c fp p l fb crop rot (r, ps, k, ls[i := (ls ! i)\<lparr> sf_handle := h \<rparr>]) = Some (go, s')"
        "same_frames cm k"
    by (fastforce simp: s vp_layer_def Let_def tell_def same_frames_def split: if_splits option.splits)
  then show ?thesis
  proof cases
    case 2 then show ?thesis by (rule vp_same_put)
  next
    case 3 then show ?thesis by (simp add: s vp_same_def)
  next
    case 4
    have "List.map fl_release (ls[i := (ls ! i)\<lparr> sf_handle := h \<rparr>]) = List.map fl_release ls"
      by (rule map_release_update) simp
    with 4 have "vp_same s (r, ps, k, ls[i := (ls ! i)\<lparr> sf_handle := h \<rparr>])"
      by (simp add: s vp_same_def)
    with vp_same_put [OF 4(1)] show ?thesis by (blast intro: vp_same_trans)
  qed simp
qed

lemma vp_same_planes: "vp_planes E fresh c fps s = Some s' \<Longrightarrow> vp_same s s'"
proof (induction fps arbitrary: s)
  case (Cons fp fps)
  from Cons.prems obtain go s1 where a: "vp_plane E fresh c fp s = Some (go, s1)"
    and b: "vp_planes E fresh c fps s1 = Some s' \<or> s' = s1"
    by (auto split: bind_splits if_splits)
  have "vp_same s s1"
    using a by (auto simp: vp_plane_def Let_def vp_same_off dest: vp_same_layer split: if_splits list.splits)
  with b Cons.IH show ?case by (blast intro: vp_same_trans)
qed simp

text \<open>New layers for the frame of a display, with the fences of the old ones.\<close>

lemma put_layers_frames:
  assumes "keyed m" "map_of m d = Some pd" "List.map fl_release ls = List.map fl_release (dc_layers (pd_comp pd))"
  shows "\<exists>xs ys. concat (List.map pending_frames m) = xs @ pd_comp pd # ys \<and>
           concat (List.map pending_frames (put_layers ls d m)) = xs @ (pd_comp pd)\<lparr> dc_layers := ls \<rparr> # ys"
proof -
  from assms(2) obtain xs ys where m: "m = xs @ (d, pd) # ys" by (meson map_of_SomeD split_list)
  with assms(1) have "d \<notin> fst ` set xs" "d \<notin> fst ` set ys"
    by (auto simp: keyed_def sorted_wrt_append)
  then have "put_layers ls d xs = xs" "put_layers ls d ys = ys"
    by (auto simp: put_layers_def rev_image_eqI intro!: map_idI)
  then have "put_layers ls d m = xs @ (d, pd\<lparr> pd_comp := (pd_comp pd)\<lparr> dc_layers := ls \<rparr> \<rparr>) # ys"
    by (simp add: m put_layers_def)
  then have "concat (List.map pending_frames m) =
        (concat (List.map pending_frames xs) @ pd_useless pd) @ pd_comp pd # concat (List.map pending_frames ys) \<and>
      concat (List.map pending_frames (put_layers ls d m)) =
        (concat (List.map pending_frames xs) @ pd_useless pd) @ (pd_comp pd)\<lparr> dc_layers := ls \<rparr> #
          concat (List.map pending_frames ys)"
    by (simp add: m pending_frames_def)
  then show ?thesis by blast
qed

lemma put_layers_books:
  assumes "keyed m" "map_of m d = Some pd" "List.map fl_release ls = List.map fl_release (dc_layers (pd_comp pd))"
    and s: "\<forall>c \<in> set (concat (List.map pending_frames m)). sources_ok c"
  shows "dues (concat (List.map pending_frames (put_layers ls d m))) = dues (concat (List.map pending_frames m))"
    and "\<forall>c \<in> set (concat (List.map pending_frames (put_layers ls d m))). sources_ok c"
proof -
  from put_layers_frames [OF assms(1-3)] obtain xs ys where
    m: "concat (List.map pending_frames m) = xs @ pd_comp pd # ys" and
    m': "concat (List.map pending_frames (put_layers ls d m)) = xs @ (pd_comp pd)\<lparr> dc_layers := ls \<rparr> # ys" by blast
  have f: "same_frame (pd_comp pd) ((pd_comp pd)\<lparr> dc_layers := ls \<rparr>)"
    using assms(3) by (auto simp: same_frame_def)
  show "dues (concat (List.map pending_frames (put_layers ls d m))) = dues (concat (List.map pending_frames m))"
    using s same_frame_due [OF f] unfolding m m' by simp
  show "\<forall>c \<in> set (concat (List.map pending_frames (put_layers ls d m))). sources_ok c"
    using s same_frame_sources [OF f] unfolding m m' by simp
qed

text \<open>The frame of the display has new layers, in the first map or in the second, or nothing has changed.\<close>

inductive relayered :: "compositor \<Rightarrow> compositor \<Rightarrow> bool" for cm where
  same: "same_frames cm k \<Longrightarrow> relayered cm k"
| collect: "same_frames cm k \<Longrightarrow> map_of (cm_collect cm) (cm_display cm) = Some pd \<Longrightarrow>
    List.map fl_release ls = List.map fl_release (dc_layers (pd_comp pd)) \<Longrightarrow>
    relayered cm (k\<lparr> cm_collect := put_layers ls (cm_display cm) (cm_collect cm) \<rparr>)"
| live: "same_frames cm k \<Longrightarrow> map_of (cm_live cm) (cm_display cm) = Some pd \<Longrightarrow>
    List.map fl_release ls = List.map fl_release (dc_layers (pd_comp pd)) \<Longrightarrow>
    relayered cm (k\<lparr> cm_live := put_layers ls (cm_display cm) (cm_live cm) \<rparr>)"

lemma CollectVPInfo_ok:
  assumes "CollectVPInfo E (cm, s) = Some (ret, cm', s')"
  shows "relayered cm cm'"
proof -
  let ?start = "case cm_pset cm of Some r \<Rightarrow> (True, cm, r, s)
      | None \<Rightarrow> (case atomic_alloc (he_W E) s of (ok, s1) \<Rightarrow>
                   (ok, if ok then cm\<lparr> cm_pset := Some [] \<rparr> else cm, [], s1))"
  obtain ok cm1 r s1 where a: "?start = (ok, cm1, r, s1)" by (cases ?start)
  then have k: "same_frames cm cm1"
    by (auto simp: same_frames_def split: option.splits prod.splits if_splits)
  let ?fresh = "map_of (cm_collect cm1) (cm_display cm1) \<noteq> None"
  from k have d: "cm_display cm1 = cm_display cm" "cm_collect cm1 = cm_collect cm" "cm_live cm1 = cm_live cm"
    by (simp_all add: same_frames_def)
  obtain x where x: "(if ?fresh then map_of (cm_collect cm1) (cm_display cm1) else map_of (cm_live cm1) (cm_display cm1)) = x"
    by simp
  note r = assms [unfolded CollectVPInfo_def prod.case a Let_def x]
  consider "cm' = cm1"
    | pd ret r2 s2 cm2 ls where "x = Some pd"
      "vp_planes E ?fresh (pd_comp pd) (dc_planes (pd_comp pd)) (0, (r, s1), cm1, dc_layers (pd_comp pd)) =
         Some (ret, (r2, s2), cm2, ls)"
      "cm' = (if ?fresh then cm2\<lparr> cm_collect := put_layers ls (cm_display cm1) (cm_collect cm2) \<rparr>
              else cm2\<lparr> cm_live := put_layers ls (cm_display cm1) (cm_live cm2) \<rparr>)\<lparr> cm_pset := Some r2 \<rparr>"
  proof (cases "ok \<and> x \<noteq> None \<and> GetConnectorForDisplay (he_T E) (cm_display cm1) s1 \<noteq> None \<and>
                GetCrtcForDisplay (he_T E) (cm_display cm1) s1 \<noteq> None")
    case False
    with r have "cm' = cm1" by (cases ok; cases x) (simp_all split: if_split_asm)
    with that(1) show ?thesis by blast
  next
    case True
    then obtain pd where "x = Some pd" by blast
    with r True have "Option.bind (vp_planes E ?fresh (pd_comp pd) (dc_planes (pd_comp pd)) (0, (r, s1), cm1, dc_layers (pd_comp pd)))
        (\<lambda>(ret, (r2, s2), cm2, ls).
           Some (ret, (if ?fresh then cm2\<lparr> cm_collect := put_layers ls (cm_display cm1) (cm_collect cm2) \<rparr>
              else cm2\<lparr> cm_live := put_layers ls (cm_display cm1) (cm_live cm2) \<rparr>)\<lparr> cm_pset := Some r2 \<rparr>, s2)) =
        Some (ret, cm', s')"
      by (simp only: not_True_eq_False if_False option.case simp_thms)
    with that(2) [OF \<open>x = Some pd\<close>] show ?thesis
      by (auto simp only: bind_eq_Some_conv split_paired_Ex prod.case option.inject prod.inject)
  qed
  then show ?thesis
  proof cases
    case 1
    with k show ?thesis by (simp add: relayered.same)
  next
    case 2
    from vp_same_planes [OF 2(2)] have v: "same_frames cm1 cm2"
      and ls: "List.map fl_release ls = List.map fl_release (dc_layers (pd_comp pd))"
      by (simp_all add: vp_same_def)
    have k2: "same_frames cm (cm2\<lparr> cm_pset := p \<rparr>)" for p
      using same_frames_trans [OF k v] by (simp add: same_frames_def)
    then have e: "cm_collect cm2 = cm_collect cm" "cm_live cm2 = cm_live cm" by (simp_all add: same_frames_def)
    show ?thesis
    proof (cases ?fresh)
      case True
      with 2(1) x d have "map_of (cm_collect cm) (cm_display cm) = Some pd" by simp
      moreover have "cm' = cm2\<lparr> cm_pset := Some r2, cm_collect := put_layers ls (cm_display cm) (cm_collect cm) \<rparr>"
        using True 2(3) by (simp add: d e)
      ultimately show ?thesis using relayered.collect [OF k2 _ ls] by simp
    next
      case False
      with 2(1) x d have "map_of (cm_live cm) (cm_display cm) = Some pd" by simp
      moreover have "cm' = cm2\<lparr> cm_pset := Some r2, cm_live := put_layers ls (cm_display cm) (cm_live cm) \<rparr>"
        using False 2(3) by (simp add: d e)
      ultimately show ?thesis using relayered.live [OF k2 _ ls] by simp
    qed
  qed
qed

lemma keeps_books_dues:
  assumes "cm_lines cm' = cm_lines cm" "well cm \<Longrightarrow> dues (alive cm') = dues (alive cm) \<and> well cm'"
  shows "keeps_books cm cm'"
  using assms by (simp add: keeps_books_def balance_def owed_def)

lemma relayered_keeps_books:
  assumes "relayered cm cm'"
  shows "keeps_books cm cm'"
  using assms
proof cases
  case same
  then show ?thesis by (rule keeps_books_same)
next
  case (collect k pd ls)
  show ?thesis
  proof (rule keeps_books_dues)
    assume w: "well cm"
    then have "keyed (cm_collect cm)" and "\<forall>c \<in> set (concat (List.map pending_frames (cm_collect cm))). sources_ok c"
      by (simp_all add: well_def tidy_def presented_def)
    from put_layers_books [OF this(1) collect(3,4) this(2)] w collect(1,2)
    show "dues (alive cm') = dues (alive cm) \<and> well cm'"
      by (simp add: alive_def well_def tidy_def presented_def keyed_put_layers same_frames_def ball_Un)
  qed (use collect in \<open>simp add: same_frames_def\<close>)
next
  case (live k pd ls)
  show ?thesis
  proof (rule keeps_books_dues)
    assume w: "well cm"
    then have "keyed (cm_live cm)" and "\<forall>c \<in> set (concat (List.map pending_frames (cm_live cm))). sources_ok c"
      by (simp_all add: well_def tidy_def presented_def)
    from put_layers_books [OF this(1) live(3,4) this(2)] w live(1,2)
    show "dues (alive cm') = dues (alive cm) \<and> well cm'"
      by (simp add: alive_def well_def tidy_def presented_def keyed_put_layers same_frames_def ball_Un)
  qed (use live in \<open>simp add: same_frames_def\<close>)
qed

section \<open>The commit\<close>

lemma tell_same [simp]: "same_frames cm (tell v cm)"
  by (simp add: tell_def same_frames_def)

lemma UpdateSidebandState_same: "same_frames cm (snd (UpdateSidebandState E cm))"
  by (auto simp: UpdateSidebandState_def leave_stream_def tell_def same_frames_def Let_def split: option.split)

lemma UpdateDrmPlaneAssignState_same: "same_frames cm (fst (UpdateDrmPlaneAssignState (cm, s)))"
  by (simp add: UpdateDrmPlaneAssignState_def same_frames_def)

lemma CollectForceDisablePlane_same: "same_frames cm (fst (snd (CollectForceDisablePlane E (cm, s))))"
  by (simp add: CollectForceDisablePlane_def same_frames_def split: option.split prod.split)

text \<open>Of the maps only the frames on screen take part while one set of frames replaces another.\<close>

definition live_frames :: "compositor \<Rightarrow> frame_comp list" where
  "live_frames cm = concat (List.map pending_frames (cm_live cm))"

definition live_pledge :: "int \<Rightarrow> compositor \<Rightarrow> int" where
  "live_pledge d cm = tl_now (cm_lines cm d) + int (owed d (live_frames cm))"

lemma keyed_split:
  assumes "keyed m" "map_of m d = Some x"
  obtains xs ys where "m = xs @ (d, x) # ys" "filter (\<lambda>e. fst e \<noteq> d) m = xs @ ys"
proof -
  from assms(2) obtain xs ys where m: "m = xs @ (d, x) # ys" by (meson map_of_SomeD split_list)
  with assms(1) have "d \<notin> fst ` set xs" "d \<notin> fst ` set ys"
    by (auto simp: keyed_def sorted_wrt_append)
  then have "filter (\<lambda>e. fst e \<noteq> d) xs = xs" "filter (\<lambda>e. fst e \<noteq> d) ys = ys"
    by (auto simp: filter_id_conv rev_image_eqI)
  with m that show ?thesis by simp
qed

lemma finish_live_books:
  assumes "keyed (cm_live cm)"
  shows "keyed (cm_live (finish_live d cm))" "live_pledge e (finish_live d cm) = live_pledge e cm"
    "tl_cnt (cm_lines (finish_live d cm) e) = tl_cnt (cm_lines cm e)"
    "cm_queue (finish_live d cm) = cm_queue cm" "cm_collect (finish_live d cm) = cm_collect cm"
    "cm_live (finish_live d cm) = filter (\<lambda>e. fst e \<noteq> d) (cm_live cm)"
proof -
  show l: "cm_live (finish_live d cm) = filter (\<lambda>e. fst e \<noteq> d) (cm_live cm)"
  proof (cases "map_of (cm_live cm) d")
    case None
    then have "filter (\<lambda>e. fst e \<noteq> d) (cm_live cm) = cm_live cm"
      by (auto simp: filter_id_conv map_of_eq_None_iff rev_image_eqI)
    with None show ?thesis by (simp add: finish_live_def)
  qed (simp add: finish_live_def)
  show "keyed (cm_live (finish_live d cm))" unfolding l by (rule keyed_filter [OF assms])
  show "cm_queue (finish_live d cm) = cm_queue cm" "cm_collect (finish_live d cm) = cm_collect cm"
    by (simp_all add: finish_live_def split: option.split)
  have "live_pledge e (finish_live d cm) = live_pledge e cm \<and>
    tl_cnt (cm_lines (finish_live d cm) e) = tl_cnt (cm_lines cm e)"
  proof (cases "map_of (cm_live cm) d")
    case (Some pd)
    obtain xs ys where x: "cm_live cm = xs @ (d, pd) # ys" "filter (\<lambda>e. fst e \<noteq> d) (cm_live cm) = xs @ ys"
      by (rule keyed_split [OF assms Some])
    from Some have f: "cm_lines (finish_live d cm) = destroy_pending pd (cm_lines cm)"
      by (simp add: finish_live_def)
    have "live_pledge e (finish_live d cm) = live_pledge e cm"
      using destroy_pending_paid [of pd "cm_lines cm"]
      by (simp add: live_pledge_def live_frames_def l f x(2)) (simp add: x(1) paid_def pending_frames_def owed_def)
    moreover have "tl_cnt (cm_lines (finish_live d cm) e) = tl_cnt (cm_lines cm e)"
      using destroy_pending_paid [of pd "cm_lines cm"] by (simp add: f paid_def)
    ultimately show ?thesis ..
  qed (simp_all add: finish_live_def)
  then show "live_pledge e (finish_live d cm) = live_pledge e cm"
    "tl_cnt (cm_lines (finish_live d cm) e) = tl_cnt (cm_lines cm e)" by simp_all
qed

lemma go_live_books:
  assumes "keyed (cm_live cm)" "map_of (cm_live cm) (fst e) = None"
  shows "live_pledge d (go_live e cm) = live_pledge d cm + int (owed d (pending_frames e))"
    "tl_cnt (cm_lines (go_live e cm) d) = tl_cnt (cm_lines cm d)"
    "keyed (cm_live (go_live e cm))" "cm_queue (go_live e cm) = cm_queue cm"
    "set (List.map fst (cm_live (go_live e cm))) = insert (fst e) (set (List.map fst (cm_live cm)))"
    "set (live_frames (go_live e cm)) \<subseteq> insert (pd_comp (snd e)) (set (live_frames cm))"
proof -
  have p: "paid (dues (pd_useless (snd e))) (cm_lines cm) (fold destroy_frame (pd_useless (snd e)) (cm_lines cm))"
    by (rule destroy_frames_paid)
  have f: "pending_frames (fst e, (snd e)\<lparr> pd_useless := [] \<rparr>) = [pd_comp (snd e)]" by (simp add: pending_frames_def)
  show "live_pledge d (go_live e cm) = live_pledge d cm + int (owed d (pending_frames e))"
    using p by (simp add: live_pledge_def live_frames_def go_live_def Let_def owed_map_insert [OF assms(2)] f)
      (simp add: paid_def pending_frames_def owed_def)
  show "tl_cnt (cm_lines (go_live e cm) d) = tl_cnt (cm_lines cm d)"
    using p by (simp add: go_live_def Let_def paid_def)
  show "keyed (cm_live (go_live e cm))" "cm_queue (go_live e cm) = cm_queue cm"
    by (simp_all add: go_live_def Let_def keyed_map_insert assms(1))
  show "set (List.map fst (cm_live (go_live e cm))) = insert (fst e) (set (List.map fst (cm_live cm)))"
    by (simp add: go_live_def Let_def del: set_map) (rule set_map_insert)
  have "cm_live (go_live e cm) = map_insert (fst e) ((snd e)\<lparr> pd_useless := [] \<rparr>) (cm_live cm)"
    by (simp add: go_live_def Let_def)
  with set_map_insert_sub [of "fst e" "(snd e)\<lparr> pd_useless := [] \<rparr>" "cm_live cm"]
  show "set (live_frames (go_live e cm)) \<subseteq> insert (pd_comp (snd e)) (set (live_frames cm))"
    using f by (fastforce simp: live_frames_def)
qed

lemma finish_all_books:
  assumes "keyed (cm_live cm)"
  shows "keyed (cm_live (fold (\<lambda>e. finish_live (fst e)) m cm)) \<and>
    (\<forall>d. live_pledge d (fold (\<lambda>e. finish_live (fst e)) m cm) = live_pledge d cm \<and>
         tl_cnt (cm_lines (fold (\<lambda>e. finish_live (fst e)) m cm) d) = tl_cnt (cm_lines cm d)) \<and>
    cm_queue (fold (\<lambda>e. finish_live (fst e)) m cm) = cm_queue cm \<and>
    cm_live (fold (\<lambda>e. finish_live (fst e)) m cm) = filter (\<lambda>e. fst e \<notin> set (List.map fst m)) (cm_live cm)"
  using assms
proof (induction m arbitrary: cm)
  case (Cons e m)
  note f = finish_live_books [OF Cons.prems]
  have "filter (\<lambda>a. fst a \<notin> set (List.map fst m)) (filter (\<lambda>a. fst a \<noteq> fst e) (cm_live cm)) =
      filter (\<lambda>a. fst a \<notin> set (List.map fst (e # m))) (cm_live cm)"
    by (auto intro: filter_cong)
  with Cons.IH [OF f(1), of "fst e"] f keyed_filter [OF Cons.prems] show ?case by simp
qed simp

lemma go_all_books:
  assumes "keyed (cm_live cm)" "distinct (List.map fst m)" "\<forall>e \<in> set m. map_of (cm_live cm) (fst e) = None"
  shows "keyed (cm_live (fold go_live m cm)) \<and>
    (\<forall>d. live_pledge d (fold go_live m cm) = live_pledge d cm + int (owed d (concat (List.map pending_frames m))) \<and>
         tl_cnt (cm_lines (fold go_live m cm) d) = tl_cnt (cm_lines cm d)) \<and>
    cm_queue (fold go_live m cm) = cm_queue cm \<and>
    set (live_frames (fold go_live m cm)) \<subseteq> set (live_frames cm) \<union> set (concat (List.map pending_frames m))"
  using assms
proof (induction m arbitrary: cm)
  case (Cons e m)
  from Cons.prems(3) have n: "map_of (cm_live cm) (fst e) = None" by simp
  note g = go_live_books [OF Cons.prems(1) n]
  have "\<forall>a \<in> set m. map_of (cm_live (go_live e cm)) (fst a) = None"
    using g(5) Cons.prems(2,3) by (auto simp: map_of_eq_None_iff rev_image_eqI)
  from Cons.IH [OF g(3) _ this] Cons.prems(2) g show ?case
    by (auto simp: pending_frames_def)
qed simp

lemma swap_frames_keeps_books: "keeps_books cm (swap_frames cm)"
proof -
  let ?c = "cm_collect cm"
  let ?a = "fold (\<lambda>e. finish_live (fst e)) ?c cm"
  let ?b = "fold go_live ?c ?a"
  have s: "swap_frames cm = ?b\<lparr> cm_collect := [] \<rparr>" by (simp add: swap_frames_def Let_def)
  show ?thesis
    unfolding keeps_books_def
  proof (intro impI)
    assume w: "well cm"
    then have k: "keyed (cm_live cm)" "keyed ?c" by (simp_all add: well_def tidy_def)
    note a = finish_all_books [OF k(1), of ?c]
    have ka: "keyed (cm_live ?a)" using a by blast
    have "\<forall>e \<in> set ?c. map_of (cm_live ?a) (fst e) = None"
      using a by (auto simp: map_of_eq_None_iff rev_image_eqI)
    note b0 = go_all_books [OF ka keyed_distinct [OF k(2)] this]
    have b: "keyed (cm_live ?b)"
      "\<And>d. live_pledge d ?b = live_pledge d ?a + int (owed d (concat (List.map pending_frames ?c)))"
      "\<And>d. tl_cnt (cm_lines ?b d) = tl_cnt (cm_lines ?a d)" "cm_queue ?b = cm_queue ?a"
      "set (live_frames ?b) \<subseteq> set (live_frames ?a) \<union> set (concat (List.map pending_frames ?c))"
      using b0 by blast+
    have "set (live_frames ?a) \<subseteq> set (live_frames cm)"
      using a by (auto simp: live_frames_def)
    with b(5) have "set (live_frames ?b) \<subseteq> set (presented cm)"
      unfolding presented_def live_frames_def [symmetric] by auto
    with w have src: "\<forall>c \<in> set (live_frames ?b). sources_ok c"
      unfolding well_def tidy_def by blast
    have p: "pledged d (swap_frames cm) = live_pledge d ?b" for d
      by (simp add: s pledged_def live_pledge_def live_frames_def presented_def)
    have p0: "pledged d cm = live_pledge d cm + int (owed d (concat (List.map pending_frames ?c)))" for d
      by (simp add: pledged_def live_pledge_def live_frames_def presented_def)
    show "well (swap_frames cm) \<and>
      (\<forall>d. tl_cnt (cm_lines (swap_frames cm) d) = tl_cnt (cm_lines cm d) \<and> balance d (swap_frames cm) = balance d cm)"
      using a b src w p p0
      by (simp add: balance_pledged) (simp add: s well_def tidy_def presented_def live_frames_def)
  qed
qed

text \<open>A commit replaces the frames on screen, even if the kernel refused it.\<close>

lemma Commit_cases:
  obtains "\<not> cm_active cm \<or> cm_pset cm = None" "fst (Commit E (cm, s)) = cm\<lparr> cm_pset := None \<rparr>"
  | k where "cm_active cm" "cm_pset cm \<noteq> None" "same_frames cm k" "cm_pset k = None"
      "fst (Commit E (cm, s)) = swap_frames k"
proof (cases "cm_active cm \<and> cm_pset cm \<noteq> None")
  case True
  then obtain r where r: "cm_pset cm = Some r" "cm_active cm" by blast
  obtain ret s1 where c: "atomic_commit (he_W E) (r, s) = (ret, s1)" by (cases "atomic_commit (he_W E) (r, s)")
  let ?k = "cm\<lparr> cm_hdr := UpdateModeSetState (cm_hdr cm) \<rparr>"
  obtain cm2 s2 where u: "UpdateDrmPlaneAssignState (snd (UpdateSidebandState E ?k), s1) = (cm2, s2)"
    by (cases "UpdateDrmPlaneAssignState (snd (UpdateSidebandState E ?k), s1)")
  have 1: "same_frames cm ?k" by (simp add: same_frames_def)
  have 2: "same_frames (snd (UpdateSidebandState E ?k)) cm2"
    using UpdateDrmPlaneAssignState_same [of "snd (UpdateSidebandState E ?k)" s1] by (simp add: u)
  from same_frames_trans [OF same_frames_trans [OF 1 UpdateSidebandState_same] 2]
  have f: "same_frames cm (cm\<lparr> cm_pset := None \<rparr>)" "same_frames cm (cm2\<lparr> cm_pset := None \<rparr>)"
    by (simp_all add: same_frames_def)
  have "fst (Commit E (cm, s)) = swap_frames (if ret \<noteq> 0 then cm\<lparr> cm_pset := None \<rparr> else cm2\<lparr> cm_pset := None \<rparr>)"
    using r by (simp add: Commit_def c u)
  with that(2) [of "if ret \<noteq> 0 then cm\<lparr> cm_pset := None \<rparr> else cm2\<lparr> cm_pset := None \<rparr>"] f r show thesis
    by simp
next
  case False
  then have "fst (Commit E (cm, s)) = cm\<lparr> cm_pset := None \<rparr>"
    by (auto simp: Commit_def)
  with that(1) False show thesis by blast
qed

lemma Commit_keeps_books: "keeps_books cm (fst (Commit E (cm, s)))"
proof (cases rule: Commit_cases [of cm E s])
  case 1
  have "same_frames cm (cm\<lparr> cm_pset := None \<rparr>)" by (simp add: same_frames_def)
  then show ?thesis unfolding 1(2) by (rule keeps_books_same)
next
  case (2 k)
  show ?thesis unfolding 2(5) by (rule keeps_books_trans [OF keeps_books_same [OF 2(3)] swap_frames_keeps_books])
qed

section \<open>Clearing\<close>

text \<open>Every frame is destroyed, in the order of the list.\<close>

lemma SingalCompsition_frames:
  "fst (SingalCompsition E pd (cm, s)) = on_lines (destroy_pending pd) cm"
  by (simp add: SingalCompsition_def)

lemma Singal_all:
  assumes "fold (\<lambda>x. SingalCompsition E (f x)) xs (cm, s) = (cm', s')"
  shows "\<exists>g. cm' = on_lines g cm \<and> (\<forall>ts. paid (concat (List.map (\<lambda>x. due (pd_comp (f x)) @ dues (pd_useless (f x))) xs)) ts (g ts))"
  using assms
proof (induction xs arbitrary: cm s)
  case Nil
  then show ?case by (intro exI [of _ "\<lambda>ts. ts"]) (simp add: on_lines_def)
next
  case (Cons x xs)
  obtain cm1 s1 where 1: "SingalCompsition E (f x) (cm, s) = (cm1, s1)" by (cases "SingalCompsition E (f x) (cm, s)")
  with SingalCompsition_frames [of E "f x" cm s] have c: "cm1 = on_lines (destroy_pending (f x)) cm" by simp
  from Cons.prems 1 have "fold (\<lambda>x. SingalCompsition E (f x)) xs (cm1, s1) = (cm', s')" by simp
  from Cons.IH [OF this] obtain g where g: "cm' = on_lines g cm1"
    "\<And>ts. paid (concat (List.map (\<lambda>x. due (pd_comp (f x)) @ dues (pd_useless (f x))) xs)) ts (g ts)" by blast
  have "cm' = on_lines (g \<circ> destroy_pending (f x)) cm" by (simp add: g(1) c on_lines_def)
  moreover have "paid (concat (List.map (\<lambda>x. due (pd_comp (f x)) @ dues (pd_useless (f x))) (x # xs))) ts
      ((g \<circ> destroy_pending (f x)) ts)" for ts
    using paid_trans [OF destroy_pending_paid g(2)] by simp
  ultimately show ?case by blast
qed

lemma clear_sideband_same: "same_frames cm (clear_sideband E cm)"
  by (auto simp: clear_sideband_def end_stream_def release_buffer_def tell_def same_frames_def Let_def
           split: prod.split option.split)

lemma on_line_pendings:
  "on_line d (concat (List.map (\<lambda>e. due (pd_comp (snd e)) @ dues (pd_useless (snd e))) m)) =
   owed d (concat (List.map pending_frames m))"
  by (induction m) (simp_all add: pending_frames_def on_line_concat owed_def)

text \<open>After clearing nothing is queued, collected or on screen, and every fence is signalled.\<close>

lemma ClearDisplay_result:
  assumes "cm_initialized cm" "ClearDisplay E (cm, s) = (cm', s')"
  shows "alive cm' = []" "cm_cnt cm' = (\<lambda>d. 0)" "cm_collect cm' = []" "cm_live cm' = []" "cm_queue cm' = []"
    "tl_cnt (cm_lines cm' d) = tl_cnt (cm_lines cm d)"
    "tl_now (cm_lines cm' d) = tl_now (cm_lines cm d) + int (owed d (alive cm))"
    "cm_pset cm' = cm_pset cm" "cm_clear cm'" "cm_display cm' = cm_display cm" "cm_active cm' = cm_active cm"
    "cm_initialized cm'"
proof -
  obtain cm1 s1 where 1: "fold (\<lambda>e. SingalCompsition E (snd e)) (cm_live cm) (cm, s) = (cm1, s1)"
    by (cases "fold (\<lambda>e. SingalCompsition E (snd e)) (cm_live cm) (cm, s)")
  obtain cm2 s2 where 2: "fold (\<lambda>e. SingalCompsition E (snd e)) (cm_collect cm) (cm1\<lparr> cm_live := [] \<rparr>, s1) = (cm2, s2)"
    by (cases "fold (\<lambda>e. SingalCompsition E (snd e)) (cm_collect cm) (cm1\<lparr> cm_live := [] \<rparr>, s1)")
  obtain cm3 s3 where 3: "fold (\<lambda>c. SingalCompsition E \<lparr> pd_comp = c, pd_useless = [] \<rparr>) (cm_queue cm)
      (cm2\<lparr> cm_collect := [] \<rparr>, s2) = (cm3, s3)"
    by (cases "fold (\<lambda>c. SingalCompsition E \<lparr> pd_comp = c, pd_useless = [] \<rparr>) (cm_queue cm) (cm2\<lparr> cm_collect := [] \<rparr>, s2)")
  from Singal_all [OF 1] obtain g1 where g1: "cm1 = on_lines g1 cm"
    "\<And>ts. paid (concat (List.map (\<lambda>e. due (pd_comp (snd e)) @ dues (pd_useless (snd e))) (cm_live cm))) ts (g1 ts)" by blast
  from Singal_all [OF 2] obtain g2 where g2: "cm2 = on_lines g2 (cm1\<lparr> cm_live := [] \<rparr>)"
    "\<And>ts. paid (concat (List.map (\<lambda>e. due (pd_comp (snd e)) @ dues (pd_useless (snd e))) (cm_collect cm))) ts (g2 ts)" by blast
  from Singal_all [OF 3] obtain g3 where g3: "cm3 = on_lines g3 (cm2\<lparr> cm_collect := [] \<rparr>)"
    "\<And>ts. paid (concat (List.map due (cm_queue cm))) ts (g3 ts)" by auto
  let ?k = "cm3\<lparr> cm_queue := [], cm_cnt := (\<lambda>d. 0) \<rparr>"
  have r: "cm' = (clear_sideband E ?k)\<lparr> cm_clear := True \<rparr>"
    using assms by (simp add: ClearDisplay_def 1 2 3)
  have k: "same_frames ?k (clear_sideband E ?k)" by (rule clear_sideband_same)
  have ps: "cm_pset (clear_sideband E ?k) = cm_pset ?k"
    by (auto simp: clear_sideband_def end_stream_def release_buffer_def tell_def Let_def
             split: prod.split option.split)
  have l: "cm_lines cm' = g3 (g2 (g1 (cm_lines cm)))"
    using k by (simp add: r g1(1) g2(1) g3(1) same_frames_def)
  have p: "paid (concat (List.map (\<lambda>e. due (pd_comp (snd e)) @ dues (pd_useless (snd e))) (cm_live cm)) @
      concat (List.map (\<lambda>e. due (pd_comp (snd e)) @ dues (pd_useless (snd e))) (cm_collect cm)) @
      concat (List.map due (cm_queue cm))) (cm_lines cm) (cm_lines cm')"
    unfolding l by (rule paid_trans [OF g1(2) paid_trans [OF g2(2) g3(2)]])
  show e: "cm_collect cm' = []" "cm_live cm' = []" "cm_queue cm' = []" "cm_cnt cm' = (\<lambda>d. 0)"
    using k by (simp_all add: r g1(1) g2(1) g3(1) same_frames_def)
  then show "alive cm' = []" by (simp add: alive_def)
  show "tl_cnt (cm_lines cm' d) = tl_cnt (cm_lines cm d)" using p by (simp add: paid_def)
  have "tl_now (cm_lines cm' d) = tl_now (cm_lines cm d) +
      int (on_line d (concat (List.map (\<lambda>e. due (pd_comp (snd e)) @ dues (pd_useless (snd e))) (cm_live cm))) +
           (on_line d (concat (List.map (\<lambda>e. due (pd_comp (snd e)) @ dues (pd_useless (snd e))) (cm_collect cm))) +
           on_line d (concat (List.map due (cm_queue cm)))))"
    using p unfolding paid_def on_line_append by blast
  also have "\<dots> = tl_now (cm_lines cm d) + int (owed d (alive cm))"
    unfolding on_line_pendings alive_def owed_simps by (simp add: owed_def dues_def)
  finally show "tl_now (cm_lines cm' d) = tl_now (cm_lines cm d) + int (owed d (alive cm))" .
  show "cm_pset cm' = cm_pset cm" "cm_clear cm'" "cm_display cm' = cm_display cm" "cm_active cm' = cm_active cm"
    "cm_initialized cm'"
    using k ps assms(1) by (simp_all add: r g1(1) g2(1) g3(1) same_frames_def)
qed

lemma ClearDisplay_keeps_books: "keeps_books cm (fst (ClearDisplay E (cm, s)))"
proof (cases "cm_initialized cm")
  case True
  obtain cm' s' where c: "ClearDisplay E (cm, s) = (cm', s')" by (cases "ClearDisplay E (cm, s)")
  show ?thesis
    using ClearDisplay_result [OF True c]
    by (simp add: c keeps_books_def balance_def well_def tidy_def presented_def)
qed (simp add: ClearDisplay_def)

section \<open>A round\<close>

lemma Composite_steps:
  assumes "Composite E (cm, s) = Some (cm', s')"
  obtains cm1 s1 cm2 s2 cm3 s3 where
    "CollectSFInfo E (cm, s) = Some (cm1, s1)"
    "cm2 = cm1 \<and> s2 = s1 \<or> (\<exists>ret. CollectVPInfo E (cm1, s1) = Some (ret, cm2, s2))"
    "same_frames cm2 cm3" "cm_pset cm2 = None \<longleftrightarrow> cm_pset cm3 = None"
    "cm' = fst (Commit E (cm3, s3)) \<and> cm_active (fst (Commit E (cm3, s3))) \<or>
     cm' = fst (ClearDisplay E (Commit E (cm3, s3))) \<and> \<not> cm_active (fst (Commit E (cm3, s3)))"
proof -
  from assms obtain cm1 s1 where 1: "CollectSFInfo E (cm, s) = Some (cm1, s1)"
    by (auto simp: Composite_def split: bind_splits)
  with assms obtain cm2 s2 where
    2: "(if IsSidebandMode cm1 then map_option snd (CollectVPInfo E (cm1, s1)) else Some (cm1, s1)) = Some (cm2, s2)"
    by (auto simp: Composite_def split: bind_splits)
  obtain cm3 s3 where
    3: "(if isRK3566 (device_soc (he_T E)) then snd (CollectForceDisablePlane E (cm2, s2)) else (cm2, s2)) = (cm3, s3)"
    by (cases "if isRK3566 (device_soc (he_T E)) then snd (CollectForceDisablePlane E (cm2, s2)) else (cm2, s2)")
  have f: "same_frames cm2 cm3"
    using 3 CollectForceDisablePlane_same [of cm2 E s2] by (auto split: if_splits)
  have p: "cm_pset cm2 = None \<longleftrightarrow> cm_pset cm3 = None"
    using 3 by (auto simp: CollectForceDisablePlane_def split: if_splits option.splits prod.splits)
  let ?m = "Commit E (cm3, s3)"
  have "(cm', s') = (if \<not> cm_active (fst ?m) then ClearDisplay E ?m else ?m)"
    using assms by (simp only: Composite_def 1 2 3 Option.bind.bind_lunit fst_conv Let_def option.inject)
  from arg_cong [OF this, of fst]
  have "cm' = fst ?m \<and> cm_active (fst ?m) \<or> cm' = fst (ClearDisplay E ?m) \<and> \<not> cm_active (fst ?m)"
    by (cases "cm_active (fst ?m)") simp_all
  note e = this
  have v: "cm2 = cm1 \<and> s2 = s1 \<or> (\<exists>ret. CollectVPInfo E (cm1, s1) = Some (ret, cm2, s2))"
    using 2 by (cases "IsSidebandMode cm1") auto
  show thesis by (rule that [OF 1 v f p e])
qed

lemma Composite_keeps_books:
  assumes "Composite E (cm, s) = Some (cm', s')"
  shows "keeps_books cm cm'"
proof (rule Composite_steps [OF assms])
  fix cm1 s1 cm2 s2 cm3 s3
  assume a: "CollectSFInfo E (cm, s) = Some (cm1, s1)"
    "cm2 = cm1 \<and> s2 = s1 \<or> (\<exists>ret. CollectVPInfo E (cm1, s1) = Some (ret, cm2, s2))" "same_frames cm2 cm3"
    "cm' = fst (Commit E (cm3, s3)) \<and> cm_active (fst (Commit E (cm3, s3))) \<or>
     cm' = fst (ClearDisplay E (Commit E (cm3, s3))) \<and> \<not> cm_active (fst (Commit E (cm3, s3)))"
  have 1: "keeps_books cm cm1" by (rule CollectSFInfo_keeps_books [OF a(1)])
  have 2: "keeps_books cm1 cm2" using a(2) by (auto intro: relayered_keeps_books CollectVPInfo_ok)
  have 3: "keeps_books cm2 (fst (Commit E (cm3, s3)))"
    by (rule keeps_books_trans [OF keeps_books_same [OF a(3)] Commit_keeps_books])
  have 4: "keeps_books (fst (Commit E (cm3, s3))) cm'"
    using a(4) ClearDisplay_keeps_books [of "fst (Commit E (cm3, s3))" E "snd (Commit E (cm3, s3))"] by auto
  show ?thesis by (rule keeps_books_trans [OF 1 keeps_books_trans [OF 2 keeps_books_trans [OF 3 4]]])
qed

end
