(* ===== verification/Compositor_Order.thy ===== *)
theory Compositor_Order
  imports Compositor_Rounds
begin

text \<open>
  The life of a frame as a step relation: its fences are made, it waits to be queued, the rounds of the
  thread collect it, show it and replace it.  The counter of a timeline never runs ahead of its frames,
  and as long as nothing fails fences are signalled in the order in which they were made.
\<close>

section \<open>Making the fences\<close>

lemma upd_frame_layer_fields [simp]:
  "dc_display (upd_frame_layer i f c) = dc_display c" "dc_planes (upd_frame_layer i f c) = dc_planes c"
  "dc_signal (upd_frame_layer i f c) = dc_signal c" "dc_type (upd_frame_layer i f c) = dc_type c"
  "dc_frame_no (upd_frame_layer i f c) = dc_frame_no c" "dc_drop (upd_frame_layer i f c) = dc_drop c"
  "length (dc_layers (upd_frame_layer i f c)) = length (dc_layers c)"
  by (simp_all add: upd_frame_layer_def)

text \<open>The fences of the layers \<open>is\<close>, and what making them does to the timeline.\<close>

definition layer_fences :: "frame_comp \<Rightarrow> nat list \<Rightarrow> ReleaseFence list" where
  "layer_fences c is = List.map_filter (\<lambda>i. fl_release (dc_layers c ! i)) is"

definition fences_made :: "frame_comp \<Rightarrow> timelines \<Rightarrow> int \<Rightarrow> timelines \<Rightarrow> ReleaseFence list \<Rightarrow> bool" where
  "fences_made c ts ret ts' fs \<longleftrightarrow>
     (let d = dc_display c; n = tl_cnt (ts d) in
      (\<forall>f \<in> set fs. rf_line f = d) \<and> List.map rf_value fs = [n + 1 .. n + int (length fs)] \<and>
      ts' = ts(d := (ts d)\<lparr> tl_cnt := n + int (length fs) + (if ret = 0 then 0 else 1) \<rparr>))"

lemma layer_fences_Nil [simp]: "layer_fences c [] = []"
  by (simp add: layer_fences_def map_filter_def)

lemma layer_fences_Cons [simp]:
  "layer_fences c (i # is) =
     (case fl_release (dc_layers c ! i) of None \<Rightarrow> layer_fences c is | Some f \<Rightarrow> f # layer_fences c is)"
  by (simp add: layer_fences_def map_filter_def split: option.split)

lemma assign_fences_frame:
  "assign_fences Y is ts c bs = (ret, ts', c', bs') \<Longrightarrow>
   dc_display c' = dc_display c \<and> dc_planes c' = dc_planes c \<and> dc_signal c' = dc_signal c \<and> dc_type c' = dc_type c \<and>
   dc_frame_no c' = dc_frame_no c \<and> dc_drop c' = dc_drop c \<and> length (dc_layers c') = length (dc_layers c) \<and>
   (\<forall>j. j \<notin> set is \<longrightarrow> dc_layers c' ! j = dc_layers c ! j)"
proof (induction "is" arbitrary: ts c bs)
  case (Cons i "is")
  let ?f = "ReleaseFence_new Y (dc_display c) (tl_cnt (ts (dc_display c)) + 1)"
  show ?case
  proof (cases "fl_sideband2 (dc_layers c ! i)")
    case True
    with Cons.prems Cons.IH show ?thesis by simp
  next
    case False
    note r = Cons.prems [simplified False if_False assign_fences.simps IncTimeline_def Let_def prod.case]
    show ?thesis
    proof (cases ?f)
      case None
      with r False show ?thesis by (auto simp: IncTimeline_def Let_def upd_frame_layer_def)
    next
      case (Some f)
      with r False obtain ts1 bs1 where
        "assign_fences Y is ts1 (upd_frame_layer i (\<lambda>l. l\<lparr> fl_release := Some f \<rparr>) c) bs1 = (ret, ts', c', bs')"
        by (auto simp: IncTimeline_def Let_def)
      from Cons.IH [OF this] show ?thesis by (auto simp: upd_frame_layer_def)
    qed
  qed
qed simp

lemma assign_fences_made:
  "assign_fences Y is ts c bs = (ret, ts', c', bs') \<Longrightarrow> distinct is \<Longrightarrow>
   \<forall>i \<in> set is. i < length (dc_layers c) \<and> fl_release (dc_layers c ! i) = None \<Longrightarrow>
   fences_made c ts ret ts' (layer_fences c' is) \<and> ((\<forall>v. Y (dc_display c) v \<noteq> -1) \<longrightarrow> ret = 0)"
proof (induction "is" arbitrary: ts c bs)
  case Nil
  then show ?case by (simp add: fences_made_def Let_def)
next
  case (Cons i "is")
  let ?d = "dc_display c"
  let ?n = "tl_cnt (ts ?d)"
  let ?f = "ReleaseFence_new Y ?d (?n + 1)"
  have i: "i < length (dc_layers c)" "fl_release (dc_layers c ! i) = None" "i \<notin> set is" "distinct is"
    using Cons.prems(2,3) by auto
  show ?case
  proof (cases "fl_sideband2 (dc_layers c ! i)")
    case True
    with Cons.prems(1) have a: "assign_fences Y is ts c bs = (ret, ts', c', bs')" by simp
    from assign_fences_frame [OF a] i have "fl_release (dc_layers c' ! i) = None" by auto
    with Cons.IH [OF a] Cons.prems(2,3) show ?thesis by simp
  next
    case False
    let ?ts = "ts(?d := (ts ?d)\<lparr> tl_cnt := ?n + 1 \<rparr>)"
    show ?thesis
    proof (cases ?f)
      case None
      with Cons.prems(1) False have r: "ret = -1" "ts' = ?ts" "c' = upd_frame_layer i (\<lambda>l. l\<lparr> fl_release := None \<rparr>) c"
        by (auto simp: IncTimeline_def Let_def)
      have "fl_release (dc_layers c' ! j) = None" if "j \<in> set (i # is)" for j
        using that Cons.prems(3) r(3) by (cases "j = i") (auto simp: upd_frame_layer_def)
      then have "layer_fences c' (i # is) = []"
        unfolding layer_fences_def map_filter_def by auto
      then show ?thesis
        using None r by (auto simp: fences_made_def Let_def ReleaseFence_new_def split: if_splits)
    next
      case (Some f)
      let ?c = "upd_frame_layer i (\<lambda>l. l\<lparr> fl_release := Some f \<rparr>) c"
      from Some Cons.prems(1) False obtain bs1 where a: "assign_fences Y is ?ts ?c bs1 = (ret, ts', c', bs')"
        by (auto simp: IncTimeline_def Let_def)
      have p: "\<forall>j \<in> set is. j < length (dc_layers ?c) \<and> fl_release (dc_layers ?c ! j) = None"
        using Cons.prems(3) i(3) by (auto simp: upd_frame_layer_def nth_list_update)
      from Some have f: "rf_line f = ?d" "rf_value f = ?n + 1"
        by (auto simp: ReleaseFence_new_def Let_def split: if_splits)
      have "fl_release (dc_layers c' ! i) = Some f"
        using assign_fences_frame [OF a] i by (simp add: upd_frame_layer_def)
      then have l: "layer_fences c' (i # is) = f # layer_fences c' is" by simp
      note ih = conjunct1 [OF Cons.IH [OF a i(4) p]]
      from conjunct2 [OF Cons.IH [OF a i(4) p]] have ok: "(\<forall>v. Y ?d v \<noteq> -1) \<longrightarrow> ret = 0" by simp
      let ?k = "int (length (layer_fences c' is))"
      from ih have v: "List.map rf_value (layer_fences c' is) = [?n + 1 + 1 .. ?n + 1 + ?k]"
        and d: "\<forall>g \<in> set (layer_fences c' is). rf_line g = ?d"
        by (simp_all add: fences_made_def Let_def)
      from ih have t: "ts' = ts(?d := (ts ?d)\<lparr> tl_cnt := ?n + 1 + ?k + (if ret = 0 then 0 else 1) \<rparr>)"
        by (auto simp: fences_made_def Let_def fun_eq_iff)
      have "[?n + 1 .. ?n + (1 + ?k)] = (?n + 1) # [?n + 1 + 1 .. ?n + 1 + ?k]"
        using upto_rec1 [of "?n + 1" "?n + (1 + ?k)"] by (simp add: add.assoc)
      then have "fences_made c ts ret ts' (f # layer_fences c' is)"
        using v d t f by (simp add: fences_made_def Let_def add.assoc)
      from conjI [OF this ok] show ?thesis unfolding l .
    qed
  qed
qed

lemma CreateAndAssignReleaseFences_made:
  assumes "CreateAndAssignReleaseFences Y ts c = Some (ret, ts', c', bs)" "\<forall>l \<in> set (dc_layers c). fl_release l = None"
  shows "fences_made c ts ret ts' (due c')" "sources_ok c'" "(\<forall>v. Y (dc_display c) v \<noteq> -1) \<longrightarrow> ret = 0"
    "dc_display c' = dc_display c" "dc_frame_no c' = dc_frame_no c" "dc_type c' = dc_type c" "dc_drop c' = dc_drop c"
proof -
  from assms(1) have s: "sources_ok c" and
    a: "assign_fences Y (comp_layers c) ts (c\<lparr> dc_signal := False \<rparr>) [] = (ret, ts', c', bs)"
    by (auto simp: CreateAndAssignReleaseFences_def split: if_splits)
  note f = assign_fences_frame [OF a]
  from f have cl: "comp_layers c' = comp_layers c" by (simp add: comp_layers_def)
  have "distinct (comp_layers c)" by (simp add: comp_layers_def)
  from assign_fences_made [OF a this] s assms(2) have m: "fences_made c ts ret ts' (layer_fences c' (comp_layers c))"
    and ok: "(\<forall>v. Y (dc_display c) v \<noteq> -1) \<longrightarrow> ret = 0"
    by (auto simp: sources_ok_def fences_made_def Let_def)
  have "due c' = layer_fences c' (comp_layers c)"
    using f by (simp add: due_def comp_fences_def layer_fences_def cl)
  with m show "fences_made c ts ret ts' (due c')" by simp
  show "sources_ok c'" using s f by (simp add: sources_ok_def cl)
  show "(\<forall>v. Y (dc_display c) v \<noteq> -1) \<longrightarrow> ret = 0" by (rule ok)
  show "dc_display c' = dc_display c" "dc_frame_no c' = dc_frame_no c" "dc_type c' = dc_type c" "dc_drop c' = dc_drop c"
    using f by simp_all
qed

section \<open>What happens to frames\<close>

text \<open>
  A state is the frames that have fences and are not queued yet, the compositor and the routing of
  displays, which changes freely.  A frame that is given up is destroyed; one that sets the power of the
  display or a mode has no planes.
\<close>

type_synonym frame_world = "frame_comp list \<times> cstate"

inductive comp_step :: "comp_env \<Rightarrow> sync_kernel \<Rightarrow> frame_world \<Rightarrow> frame_world \<Rightarrow> bool" for E Y where
  made: "CreateAndAssignReleaseFences Y (cm_lines cm) c = Some (ret, ts, c', bs) \<Longrightarrow>
    \<forall>l \<in> set (dc_layers c). fl_release l = None \<Longrightarrow>
    comp_step E Y (hs, cm, s) (hs @ [c'], cm\<lparr> cm_lines := ts \<rparr>, s)"
| bare: "dc_planes c = [] \<Longrightarrow> comp_step E Y (hs, cm, s) (hs @ [c], cm, s)"
| queued: "QueueComposition E c cm = (Some ret, cm') \<Longrightarrow> comp_step E Y (xs @ c # ys, cm, s) (xs @ ys, cm', s)"
| waiting: "QueueComposition E c cm = (None, cm') \<Longrightarrow> comp_step E Y (xs @ c # ys, cm, s) (xs @ c # ys, cm', s)"
| woken: "wait_for_room c cm = (Some ret, cm') \<Longrightarrow> comp_step E Y (xs @ c # ys, cm, s) (xs @ ys, cm', s)"
| asleep: "wait_for_room c cm = (None, cm') \<Longrightarrow> comp_step E Y (xs @ c # ys, cm, s) (xs @ c # ys, cm', s)"
| dropped: "comp_step E Y (xs @ c # ys, cm, s) (xs @ ys, on_lines (destroy_frame c) cm, s)"
| round: "Composite E (cm, s) = Some (cm', s') \<Longrightarrow> comp_step E Y (hs, cm, s) (hs, cm', s')"
| cleared: "ClearDisplay E (cm, s) = (cm', s') \<Longrightarrow> comp_step E Y (hs, cm, s) (hs, cm', s')"
| routing: "comp_step E Y (hs, cm, s) (hs, cm, s')"

text \<open>A compositor that has nothing, all of whose fences are signalled.\<close>

definition dormant :: "compositor \<Rightarrow> bool" where
  "dormant cm \<longleftrightarrow> cm_queue cm = [] \<and> cm_collect cm = [] \<and> cm_live cm = [] \<and>
     (\<forall>d. tl_now (cm_lines cm d) = tl_cnt (cm_lines cm d))"

text \<open>How queueing a frame ends: it waits, it is queued, or it is refused and destroyed.\<close>

inductive room_ends :: "frame_comp \<Rightarrow> compositor \<Rightarrow> int option \<Rightarrow> compositor \<Rightarrow> bool" for c cm where
  waits: "same_frames (cm\<lparr> cm_drop := b \<rparr>) k \<Longrightarrow> room_ends c cm None k"
| queues: "same_frames (cm\<lparr> cm_drop := b, cm_clear := False, cm_queue := cm_queue cm @ [c],
      cm_cnt := (cm_cnt cm)(dc_display c := cm_cnt cm (dc_display c) + 1) \<rparr>) k \<Longrightarrow>
    cm_cnt cm (dc_display c) < (if dc_drop c then 10 else 1) \<Longrightarrow> room_ends c cm (Some 0) k"

inductive queue_ends :: "frame_comp \<Rightarrow> compositor \<Rightarrow> int option \<Rightarrow> compositor \<Rightarrow> bool" for c cm where
  enters: "room_ends c (cm\<lparr> cm_display := dc_display c \<rparr>) r k \<Longrightarrow> cm_initialized cm \<Longrightarrow> cm_active cm \<Longrightarrow>
    queue_ends c cm r k"
| refuses: "same_frames (cm\<lparr> cm_active := b \<rparr>) k \<Longrightarrow>
    (dc_type c = DRM_COMPOSITION_TYPE_FRAME \<Longrightarrow> \<not> cm_active cm \<or> \<not> cm_initialized cm) \<Longrightarrow>
    queue_ends c cm (Some r) (on_lines (destroy_frame c) k)"

lemma wait_for_room_ends:
  assumes "wait_for_room c cm = (ret, cm')"
  shows "room_ends c cm ret cm'"
proof -
  obtain n s1 where g: "GetCompositeQueueMaxSize c cm = (n, s1)"
    by (cases "GetCompositeQueueMaxSize c cm")
  let ?b = "dc_drop c \<or> cm_drop cm"
  from g have s1: "s1 = cm\<lparr> cm_drop := ?b \<rparr>" and n: "n = (if dc_drop c then 10 else 1)"
    by (auto simp: GetCompositeQueueMaxSize_def split: if_splits)
  show ?thesis
  proof (cases "n \<le> cm_cnt s1 (dc_display c)")
    case True
    with assms g have "ret = None" "cm' = s1" by (simp_all add: wait_for_room_def)
    then show ?thesis using room_ends.waits [OF same_frames_refl] s1 by simp
  next
    case False
    with assms g have "ret = Some 0"
      "cm' = (upd_cnt (dc_display c) (\<lambda>k. k + 1) s1)\<lparr> cm_queue := cm_queue s1 @ [c], cm_clear := False \<rparr>"
      by (simp_all add: wait_for_room_def)
    then show ?thesis
      using False by (auto intro!: room_ends.queues [where b = ?b] simp: s1 n same_frames_def upd_cnt_def)
  qed
qed

lemma QueueComposition_ends:
  assumes "QueueComposition E c cm = (ret, cm')"
  shows "queue_ends c cm ret cm'"
proof -
  have keep: "same_frames (cm\<lparr> cm_active := cm_active cm \<rparr>) cm" by (simp add: same_frames_def)
  note refuse = queue_ends.refuses [OF keep]
  show ?thesis
  proof (cases "dc_type c \<in> {DRM_COMPOSITION_TYPE_EMPTY, DRM_COMPOSITION_TYPE_DPMS}")
    case True
    then have f: "dc_type c \<noteq> DRM_COMPOSITION_TYPE_FRAME" by auto
    from True assms consider "ret = Some 0" "cm' = on_lines (destroy_frame c) cm"
      | b where "ret = Some 0" "cm' = on_lines (destroy_frame c) (cm\<lparr> cm_active := b \<rparr>)"
      by (auto simp: QueueComposition_def Let_def)
    then show ?thesis
    proof cases
      case 1
      show ?thesis unfolding 1 by (rule refuse) (simp add: f)
    next
      case (2 b)
      show ?thesis unfolding 2 by (rule queue_ends.refuses [OF same_frames_refl]) (simp add: f)
    qed
  next
    case False
    then have t: "dc_type c = DRM_COMPOSITION_TYPE_FRAME \<or> dc_type c = DRM_COMPOSITION_TYPE_MODESET"
      by (cases "dc_type c") auto
    show ?thesis
    proof (cases "cm_initialized cm \<and> cm_active cm")
      case False
      with t assms obtain r where "ret = Some r" "cm' = on_lines (destroy_frame c) cm"
        by (auto simp: QueueComposition_def Let_def split: if_splits)
      then show ?thesis using refuse False by auto
    next
      case True
      with t assms have "wait_for_room c (cm\<lparr> cm_display := dc_display c \<rparr>) = (ret, cm')"
        by (auto simp: QueueComposition_def)
      with True show ?thesis by (simp add: queue_ends.enters wait_for_room_ends)
    qed
  qed
qed

section \<open>The account of the fences\<close>

lemma fences_made_count:
  assumes "fences_made c ts ret ts' fs"
  shows "on_line d fs = (if d = dc_display c then length fs else 0)"
    "tl_now (ts' d) = tl_now (ts d)"
    "tl_cnt (ts' d) = tl_cnt (ts d) + int (on_line d fs) + (if d = dc_display c \<and> ret \<noteq> 0 then 1 else 0)"
proof -
  from assms have "\<forall>f \<in> set fs. rf_line f = dc_display c"
    and t: "ts' = ts(dc_display c := (ts (dc_display c))\<lparr> tl_cnt := tl_cnt (ts (dc_display c)) + int (length fs) +
      (if ret = 0 then 0 else 1) \<rparr>)"
    by (simp_all add: fences_made_def Let_def)
  from this(1) show o: "on_line d fs = (if d = dc_display c then length fs else 0)"
    by (auto simp: on_line_def filter_id_conv filter_empty_conv)
  show "tl_now (ts' d) = tl_now (ts d)" by (simp add: t)
  show "tl_cnt (ts' d) = tl_cnt (ts d) + int (on_line d fs) + (if d = dc_display c \<and> ret \<noteq> 0 then 1 else 0)"
    unfolding o by (auto simp: t)
qed

text \<open>What is promised is promised by the counter of the HAL, and exactly so if no fence has failed.\<close>

definition accounted :: "sync_kernel \<Rightarrow> frame_world \<Rightarrow> bool" where
  "accounted Y w \<longleftrightarrow>
     (case w of (hs, cm, s) \<Rightarrow>
        well cm \<and> (\<forall>c \<in> set hs. sources_ok c) \<and>
        (\<forall>d. balance d cm + int (owed d hs) \<le> tl_cnt (cm_lines cm d) \<and>
             ((\<forall>v. Y d v \<noteq> -1) \<longrightarrow> balance d cm + int (owed d hs) = tl_cnt (cm_lines cm d))))"

lemma accounted_books:
  assumes "accounted Y (hs, cm, s)" "keeps_books cm cm'" "set hs' \<subseteq> set hs" "\<And>d. owed d hs' = owed d hs"
  shows "accounted Y (hs', cm', s')"
  using assms unfolding accounted_def keeps_books_def by auto

lemma destroyed_books: "well (on_lines (destroy_frame c) cm) = well cm"
  "balance d (on_lines (destroy_frame c) cm) = balance d cm + int (on_line d (due c))"
  "tl_cnt (cm_lines (on_lines (destroy_frame c) cm) d) = tl_cnt (cm_lines cm d)"
  using destroy_frame_paid [of c "cm_lines cm"]
  by (simp_all add: well_def balance_def alive_def paid_def)

lemma same_frames_display [simp]: "well (cm\<lparr> cm_display := d \<rparr>) = well cm" "balance e (cm\<lparr> cm_display := d \<rparr>) = balance e cm"
  by (simp_all add: well_def tidy_def presented_def balance_def alive_def)

lemma room_ends_books:
  assumes "room_ends c cm r k"
  shows "well k \<longleftrightarrow> well cm \<and> (r = None \<or> sources_ok c)" "cm_lines k = cm_lines cm"
    "balance d k = balance d cm + (if r = None then 0 else int (on_line d (due c)))"
proof -
  have "(well k \<longleftrightarrow> well cm \<and> (r = None \<or> sources_ok c)) \<and> cm_lines k = cm_lines cm \<and>
    balance d k = balance d cm + (if r = None then 0 else int (on_line d (due c)))"
    using assms by cases (auto simp: well_def tidy_def presented_def balance_def alive_def same_frames_def)
  then show "well k \<longleftrightarrow> well cm \<and> (r = None \<or> sources_ok c)" "cm_lines k = cm_lines cm"
    "balance d k = balance d cm + (if r = None then 0 else int (on_line d (due c)))" by simp_all
qed

text \<open>A frame that is held and goes, or waits.\<close>

lemma accounted_room:
  assumes "accounted Y (xs @ c # ys, cm, s)" "room_ends c (cm\<lparr> cm_display := e \<rparr>) r k"
  shows "accounted Y (if r = None then xs @ c # ys else xs @ ys, k, s)"
  using assms(1) room_ends_books [OF assms(2)] by (auto simp: accounted_def ac_simps)

lemma bare_frame: "dc_planes c = [] \<Longrightarrow> due c = [] \<and> sources_ok c"
  by (simp add: due_def comp_fences_def comp_layers_def sources_ok_def map_filter_def)

lemma accounted_step:
  assumes "comp_step E Y w w'" "accounted Y w"
  shows "accounted Y w'"
  using assms(1)
proof cases
  case (made cm c ret ts c' bs hs s)
  note m = CreateAndAssignReleaseFences_made [OF made(3,4)]
  note k = fences_made_count [OF m(1)]
  have "balance d (cm\<lparr> cm_lines := ts \<rparr>) = balance d cm" "well (cm\<lparr> cm_lines := ts \<rparr>) = well cm" for d
    using k(2) by (simp_all add: balance_def alive_def well_def tidy_def presented_def)
  note b = this
  from assms(2) have a: "well cm" "\<forall>c \<in> set hs. sources_ok c"
    "\<And>d. balance d cm + int (owed d hs) \<le> tl_cnt (cm_lines cm d)"
    "\<And>d. \<forall>v. Y d v \<noteq> -1 \<Longrightarrow> balance d cm + int (owed d hs) = tl_cnt (cm_lines cm d)"
    by (auto simp: made(1) accounted_def)
  have "balance d (cm\<lparr> cm_lines := ts \<rparr>) + int (owed d (hs @ [c'])) \<le> tl_cnt (ts d)" for d
    using a(3) [of d] k(3) [of d] b(1) [of d] by (cases "d = dc_display c \<and> ret \<noteq> 0") auto
  moreover have "balance d (cm\<lparr> cm_lines := ts \<rparr>) + int (owed d (hs @ [c'])) = tl_cnt (ts d)"
    if "\<forall>v. Y d v \<noteq> -1" for d
    using a(4) [OF that] k(3) [of d] b(1) [of d] m(3) that by auto
  ultimately show ?thesis
    using a(1,2) b(2) m(2) by (simp add: made(2) accounted_def)
next
  case (bare c hs cm s)
  with bare_frame [OF bare(3)] assms(2) show ?thesis by (simp add: accounted_def on_line_def)
next
  case (queued c cm ret cm' xs ys s)
  from QueueComposition_ends [OF queued(3)] show ?thesis
  proof cases
    case enters
    with accounted_room [OF assms(2) [unfolded queued(1)] this(1)] show ?thesis by (simp add: queued(2))
  next
    case (refuses b k)
    have "well k = well cm" "balance d k = balance d cm" "cm_lines k = cm_lines cm" for d
      using refuses(2) by (auto simp: well_def tidy_def presented_def balance_def alive_def same_frames_def)
    then show ?thesis
      using assms(2) destroyed_books [where c = c and cm = k]
      by (auto simp: queued(1,2) refuses(1) accounted_def ac_simps)
  qed
next
  case (waiting c cm cm' xs ys s)
  from QueueComposition_ends [OF waiting(3)] show ?thesis
  proof cases
    case enters
    with accounted_room [OF assms(2) [unfolded waiting(1)] this(1)] show ?thesis by (simp add: waiting(2))
  qed
next
  case (woken c cm ret cm' xs ys s)
  have "room_ends c (cm\<lparr> cm_display := cm_display cm \<rparr>) (Some ret) cm'"
    using wait_for_room_ends [OF woken(3)] by simp
  from accounted_room [OF assms(2) [unfolded woken(1)] this] show ?thesis by (simp add: woken(2))
next
  case (asleep c cm cm' xs ys s)
  have "room_ends c (cm\<lparr> cm_display := cm_display cm \<rparr>) None cm'"
    using wait_for_room_ends [OF asleep(3)] by simp
  from accounted_room [OF assms(2) [unfolded asleep(1)] this] show ?thesis by (simp add: asleep(2))
next
  case (dropped xs c ys cm s)
  then show ?thesis
    using assms(2) destroyed_books [where c = c and cm = cm] by (auto simp: accounted_def ac_simps)
next
  case (round cm s cm' s' hs)
  with assms(2) accounted_books [OF _ Composite_keeps_books] show ?thesis by blast
next
  case (cleared cm s cm' s' hs)
  with assms(2) accounted_books [OF _ ClearDisplay_keeps_books [of cm E s]] show ?thesis by auto
next
  case (routing hs cm s s')
  with assms(2) show ?thesis by (simp add: accounted_def)
qed

lemma accounted_run: "(comp_step E Y)\<^sup>*\<^sup>* w w' \<Longrightarrow> accounted Y w \<Longrightarrow> accounted Y w'"
  by (induction rule: rtranclp_induct) (auto intro: accounted_step)

lemma dormant_accounted: "dormant cm \<Longrightarrow> accounted Y ([], cm, s)"
  by (simp add: dormant_def accounted_def well_def tidy_def presented_def balance_def alive_def)

end
