(* ===== verification/Compositor_Fifo.thy ===== *)
theory Compositor_Fifo
  imports Compositor_Order
begin

text \<open>
  The order of the fences of one display when nothing fails: the frames the compositor has, from the
  one on screen to the last one queued, hold consecutive values, and the timeline is just before the
  first of them.
\<close>

section \<open>Frames that differ in their buffers\<close>

definition same_list :: "frame_comp list \<Rightarrow> frame_comp list \<Rightarrow> bool" where
  "same_list = list_all2 same_frame"

lemma same_list_refl [simp]: "same_list cs cs"
  by (simp add: same_list_def list_all2_refl)

lemma same_list_append: "same_list a b \<Longrightarrow> same_list c d \<Longrightarrow> same_list (a @ c) (b @ d)"
  by (simp add: same_list_def list_all2_appendI)

lemma same_list_Cons: "same_frame a b \<Longrightarrow> same_list c d \<Longrightarrow> same_list (a # c) (b # d)"
  by (simp add: same_list_def)

lemma same_list_trans: "same_list a b \<Longrightarrow> same_list b c \<Longrightarrow> same_list a c"
  unfolding same_list_def by (rule list_all2_trans [OF same_frame_trans])

lemma same_list_facts:
  assumes "same_list cs ds"
  shows "List.map dc_frame_no ds = List.map dc_frame_no cs"
    "(\<forall>c \<in> set ds. dc_display c = d) = (\<forall>c \<in> set cs. dc_display c = d)"
    "(\<forall>c \<in> set ds. sources_ok c) = (\<forall>c \<in> set cs. sources_ok c)"
    "\<forall>c \<in> set cs. sources_ok c \<Longrightarrow> dues ds = dues cs"
  using assms unfolding same_list_def
  by (induction rule: list_all2_induct) (auto simp: same_frame_fields same_frame_sources same_frame_due)

section \<open>One display\<close>

text \<open>
  All frames are of the display \<open>d\<close> and numbered upwards; at most one is on screen, and one at most is
  collected, with a request for it.
\<close>

definition screened :: "int \<Rightarrow> frame_comp \<Rightarrow> int \<times> pending" where
  "screened d c = (d, \<lparr> pd_comp = c, pd_useless = [] \<rparr>)"

definition staged :: "int \<Rightarrow> compositor \<Rightarrow> bool" where
  "staged d cm \<longleftrightarrow>
     cm_initialized cm \<and> (cm_live cm = [] \<or> (\<exists>c. cm_live cm = [screened d c])) \<and>
     (cm_collect cm = [] \<or> (\<exists>pd. cm_collect cm = [(d, pd)]) \<and> cm_pset cm \<noteq> None) \<and>
     (\<forall>c \<in> set (alive cm). dc_display c = d) \<and> (\<forall>c \<in> set (alive cm). sources_ok c) \<and>
     sorted_wrt (<) (List.map dc_frame_no (alive cm)) \<and> (cm_queue cm \<noteq> [] \<longrightarrow> cm_display cm = d)"

definition solo :: "int \<Rightarrow> compositor \<Rightarrow> bool" where
  "solo d cm \<longleftrightarrow> staged d cm \<and> cm_collect cm = []"

text \<open>The oldest frames go, and their fences are signalled.\<close>

definition fifo :: "compositor \<Rightarrow> compositor \<Rightarrow> bool" where
  "fifo cm cm' \<longleftrightarrow>
     (\<exists>fs. dues (alive cm) = fs @ dues (alive cm') \<and> paid fs (cm_lines cm) (cm_lines cm')) \<and>
     set (List.map dc_frame_no (alive cm')) \<subseteq> set (List.map dc_frame_no (alive cm))"

lemma fifoI:
  assumes "dues (alive cm) = fs @ dues (alive cm')" "paid fs (cm_lines cm) (cm_lines cm')"
    "set (List.map dc_frame_no (alive cm')) \<subseteq> set (List.map dc_frame_no (alive cm))"
  shows "fifo cm cm'"
  using assms unfolding fifo_def by blast

lemma fifo_trans: "fifo a b \<Longrightarrow> fifo b c \<Longrightarrow> fifo a c"
  unfolding fifo_def by (elim conjE exE) (intro conjI, metis append.assoc paid_trans, blast)

lemma alive_same: "same_frames cm k \<Longrightarrow> alive k = alive cm"
  by (simp add: alive_def same_frames_def)

lemma fifo_same:
  assumes "same_list (alive cm) (alive cm')" "\<forall>c \<in> set (alive cm). sources_ok c" "cm_lines cm' = cm_lines cm"
  shows "fifo cm cm'"
  by (rule fifoI [of _ "[]"]) (simp_all add: assms(3) same_list_facts(4) [OF assms(1,2)] same_list_facts(1) [OF assms(1)])

lemma staged_same: "same_frames cm k \<Longrightarrow> (cm_pset cm = None \<longleftrightarrow> cm_pset k = None) \<Longrightarrow> staged d k = staged d cm"
  using alive_same [of cm k] by (auto simp: staged_def same_frames_def)

text \<open>New layers for a frame, or a frame that is collected, change none of this.\<close>

lemma stagedI:
  assumes "staged d cm" "same_list (alive cm) (alive cm')" "cm_initialized cm'"
    "cm_live cm' = [] \<or> (\<exists>c. cm_live cm' = [screened d c])"
    "cm_collect cm' = [] \<or> (\<exists>pd. cm_collect cm' = [(d, pd)]) \<and> cm_pset cm' \<noteq> None"
    "cm_queue cm' \<noteq> [] \<Longrightarrow> cm_display cm' = d"
  shows "staged d cm'"
proof -
  from assms(1) have "\<forall>c \<in> set (alive cm). dc_display c = d" "\<forall>c \<in> set (alive cm). sources_ok c"
    "sorted_wrt (<) (List.map dc_frame_no (alive cm))"
    unfolding staged_def by blast+
  then have "\<forall>c \<in> set (alive cm'). dc_display c = d" "\<forall>c \<in> set (alive cm'). sources_ok c"
    "sorted_wrt (<) (List.map dc_frame_no (alive cm'))"
    using same_list_facts(1-3) [OF assms(2)] by simp_all
  with assms(3-6) show ?thesis unfolding staged_def by blast
qed

lemma staged_sources: "staged d cm \<Longrightarrow> \<forall>c \<in> set (alive cm). sources_ok c"
  unfolding staged_def by blast

lemma CollectVPInfo_pset:
  assumes "CollectVPInfo E (cm, s) = Some (ret, cm', s')" "cm_pset cm \<noteq> None"
  shows "cm_pset cm' \<noteq> None"
  using assms by (auto simp: CollectVPInfo_def Let_def split: if_splits option.splits bind_splits)

lemma put_layers_one: "put_layers ls d [(d, pd)] = [(d, pd\<lparr> pd_comp := (pd_comp pd)\<lparr> dc_layers := ls \<rparr> \<rparr>)]"
  by (simp add: put_layers_def)

lemma map_of_one: "map_of [(d, y)] e = Some x \<Longrightarrow> e = d \<and> y = x"
  by (simp split: if_split_asm)

lemma CollectVPInfo_staged:
  assumes r: "CollectVPInfo E (cm, s) = Some (ret, cm', s')" and st: "staged d cm"
  shows "staged d cm' \<and> fifo cm cm' \<and> cm_active cm' = cm_active cm"
  using CollectVPInfo_ok [OF r]
proof cases
  case same
  then have a: "same_list (alive cm) (alive cm')" by (simp add: alive_same)
  have e: "cm_initialized cm' = cm_initialized cm" "cm_live cm' = cm_live cm" "cm_collect cm' = cm_collect cm"
    "cm_queue cm' = cm_queue cm" "cm_display cm' = cm_display cm" "cm_lines cm' = cm_lines cm" "cm_active cm' = cm_active cm"
    using same by (simp_all add: same_frames_def)
  from st have "staged d cm'"
    using CollectVPInfo_pset [OF r] by (intro stagedI [OF st a]) (auto simp: e staged_def)
  with fifo_same [OF a staged_sources [OF st] e(6)] e(7) show ?thesis by simp
next
  case (collect k pd ls)
  from st collect(3) obtain y where y: "cm_collect cm = [(d, y)]" by (auto simp: staged_def)
  from map_of_one [OF collect(3) [unfolded y]] y have c: "cm_collect cm = [(d, pd)]" "cm_display cm = d" by simp_all
  let ?c = "(pd_comp pd)\<lparr> dc_layers := ls \<rparr>"
  have f: "same_frame (pd_comp pd) ?c"
    using collect(4) by (auto simp: same_frame_def)
  have e: "cm_initialized cm' = cm_initialized cm" "cm_live cm' = cm_live cm" "cm_collect cm' = [(d, pd\<lparr> pd_comp := ?c \<rparr>)]"
    "cm_queue cm' = cm_queue cm" "cm_display cm' = cm_display cm" "cm_lines cm' = cm_lines cm" "cm_active cm' = cm_active cm"
    using collect(1,2) c by (simp_all add: same_frames_def put_layers_one)
  have a: "same_list (alive cm) (alive cm')"
    by (simp add: alive_def e c pending_frames_def same_list_append same_list_Cons f)
  have "cm_pset cm \<noteq> None" using st c by (simp add: staged_def)
  from CollectVPInfo_pset [OF r this] have "staged d cm'"
    using st by (intro stagedI [OF st a]) (auto simp: e staged_def)
  with fifo_same [OF a staged_sources [OF st] e(6)] e(7) show ?thesis by simp
next
  case (live k pd ls)
  from st live(3) obtain x where "cm_live cm = [screened d x]" by (auto simp: staged_def)
  with live(3) have c: "cm_live cm = [(d, pd)]" "cm_display cm = d" "pd_useless pd = []"
    by (auto simp: screened_def split: if_splits)
  let ?c = "(pd_comp pd)\<lparr> dc_layers := ls \<rparr>"
  have f: "same_frame (pd_comp pd) ?c"
    using live(4) by (auto simp: same_frame_def)
  have e: "cm_initialized cm' = cm_initialized cm" "cm_live cm' = [(d, pd\<lparr> pd_comp := ?c \<rparr>)]" "cm_collect cm' = cm_collect cm"
    "cm_queue cm' = cm_queue cm" "cm_display cm' = cm_display cm" "cm_lines cm' = cm_lines cm" "cm_active cm' = cm_active cm"
    using live(1,2) c by (simp_all add: same_frames_def put_layers_one)
  have a: "same_list (alive cm) (alive cm')"
    by (simp add: alive_def e c pending_frames_def same_list_append same_list_Cons f)
  have "cm_live cm' = [screened d ?c]"
    using c(3) by (simp add: e screened_def)
  then have "staged d cm'"
    using st CollectVPInfo_pset [OF r] by (intro stagedI [OF st a]) (auto simp: e staged_def)
  with fifo_same [OF a staged_sources [OF st] e(6)] e(7) show ?thesis by simp
qed

section \<open>Collecting\<close>

lemma CollectInfo_fresh:
  assumes "CollectInfo E pd (cm, s) = Some (ret, cm', s')" "connected E (cm_display cm) s" "cm_collect cm = []"
  obtains c where "same_frame (pd_comp pd) c" "cm_collect cm' = [(dc_display c, pd\<lparr> pd_comp := c \<rparr>)]"
    "cm_pset cm' \<noteq> None" "cm_lines cm' = cm_lines cm"
proof -
  have "ret = 0" using CollectInfo_ok(3) [OF assms(1)] assms(2) by blast
  with CollectInfo_ok(1) [OF assms(1)] obtain c k where c: "same_frame (pd_comp pd) c" "same_frames cm k" "cm_pset k \<noteq> None"
    and r: "cm' = collected (pd\<lparr> pd_comp := c \<rparr>) k"
    by (auto simp: collect_ends_def)
  have "cm_collect k = []" using c(2) assms(3) by (simp add: same_frames_def)
  then have "cm_collect cm' = [(dc_display c, pd\<lparr> pd_comp := c \<rparr>)]" "cm_lines cm' = cm_lines k"
    by (simp_all add: r collected_def)
  moreover have "cm_pset cm' = cm_pset k" by (simp add: r collected_keeps)
  moreover have "cm_lines k = cm_lines cm" using c(2) by (simp add: same_frames_def)
  ultimately show thesis using that [of c] c(1,3) by simp
qed

lemma by_sequence_rest: "\<forall>c \<in> set cs. dc_display c \<in> set exist \<Longrightarrow> by_sequence E exist cs ms = Some (cs, ms)"
  by (induction cs) simp_all

text \<open>The frames the compositor has before and after collecting one of them, with those dropped for it.\<close>

lemma collected_staged:
  assumes so: "solo d cm" and q: "cm_queue cm = us @ c # cs"
    and i: "CollectInfo E \<lparr> pd_comp = c, pd_useless = us \<rparr> (k, s) = Some (ret, cm1, s1)"
    and e: "connected E d s" "cm_display k = cm_display cm" "cm_collect k = cm_collect cm" "cm_live k = cm_live cm"
      "cm_lines k = cm_lines cm" "cm_initialized k = cm_initialized cm" "cm_active k = cm_active cm"
    and r: "cm' = cm1\<lparr> cm_queue := cs \<rparr>"
  shows "staged d cm' \<and> fifo cm cm' \<and> cm_active cm' = cm_active cm"
proof -
  from so have st: "staged d cm" and cc: "cm_collect cm = []" by (simp_all add: solo_def)
  have d: "cm_display cm = d" and dc: "dc_display c = d"
    using st q by (auto simp: staged_def alive_def)
  have "connected E (cm_display k) s" "cm_collect k = []" using e d cc by simp_all
  from CollectInfo_fresh [OF i this] obtain c1 where c1: "same_frame c c1" "cm_pset cm1 \<noteq> None"
    "cm_collect cm1 = [(dc_display c1, \<lparr> pd_comp = c1, pd_useless = us \<rparr>)]" "cm_lines cm1 = cm_lines k"
    by (metis pending.select_convs(1) pending.update_convs(1))
  note kp = CollectInfo_keeps [OF i]
  have dc1: "dc_display c1 = d" using same_frame_fields(3) [OF c1(1)] dc by simp
  have l: "cm_live cm' = cm_live cm" "cm_collect cm' = [(d, \<lparr> pd_comp = c1, pd_useless = us \<rparr>)]" "cm_queue cm' = cs"
    "cm_lines cm' = cm_lines cm" "cm_initialized cm' = cm_initialized cm" "cm_display cm' = d" "cm_active cm' = cm_active cm"
    "cm_pset cm' = cm_pset cm1"
    using kp c1 dc1 e d by (simp_all add: r)
  have "alive cm = concat (List.map pending_frames (cm_live cm)) @ us @ c # cs"
    by (simp add: alive_def cc q)
  moreover have "alive cm' = concat (List.map pending_frames (cm_live cm)) @ us @ c1 # cs"
    by (simp add: alive_def l pending_frames_def)
  ultimately have a: "same_list (alive cm) (alive cm')"
    by (simp add: same_list_append same_list_Cons c1(1))
  have "staged d cm'"
    using st c1(2) by (intro stagedI [OF st a]) (auto simp: l staged_def)
  with fifo_same [OF a staged_sources [OF st] l(4)] l(7) show ?thesis by simp
qed

lemma sequence_staged:
  assumes "CollectSFInfoBySequence E (cm, s) = Some (cm', s')" "solo d cm" "connected E d s" "cm_queue cm \<noteq> []"
  shows "staged d cm' \<and> fifo cm cm' \<and> cm_active cm' = cm_active cm"
proof -
  from assms(4) obtain c cs where q: "cm_queue cm = c # cs" by (cases "cm_queue cm") auto
  have dd: "dc_display c = d" "\<forall>x \<in> set cs. dc_display x = d"
    using assms(2) q by (auto simp: solo_def staged_def alive_def)
  let ?k = "upd_cnt d (\<lambda>k. k - 1) cm"
  from assms(1) q dd(1) obtain ret cm1 s1 q' k' where
    i: "CollectInfo E \<lparr> pd_comp = c, pd_useless = [] \<rparr> (?k, s) = Some (ret, cm1, s1)" and
    b: "by_sequence E [d] cs (cm1, s1) = Some (q', k', s')" and r: "cm' = k'\<lparr> cm_queue := q' \<rparr>"
    by (auto simp: CollectSFInfoBySequence_def split: bind_splits)
  from b dd(2) have "q' = cs" "k' = cm1" by (simp_all add: by_sequence_rest)
  with r have r': "cm' = cm1\<lparr> cm_queue := cs \<rparr>" by simp
  show ?thesis
    by (rule collected_staged [OF assms(2) _ i assms(3) _ _ _ _ _ _ r']) (simp_all add: q upd_cnt_def)
qed

lemma sort_frames_later:
  "1 \<le> so_dropped so d \<Longrightarrow> \<forall>c \<in> set cs. dc_display c = d \<Longrightarrow>
   fold sort_frame cs so = so\<lparr> so_reserved := so_reserved so @ cs \<rparr>"
  by (induction cs arbitrary: so) (simp_all add: sort_frame_def)

lemma sort_queue_one: "sort_queue [c] = \<lparr> so_latest = [(dc_display c, c)], so_temp = [], so_reserved = [], so_dropped = (\<lambda>d. 0) \<rparr>"
  by (simp add: sort_queue_def sort_frame_def)

lemma sort_queue_two:
  assumes "\<forall>c \<in> set cs. dc_display c = d" "dc_display c1 = d" "dc_display c2 = d" "dc_frame_no c1 < dc_frame_no c2"
  shows "so_latest (sort_queue (c1 # c2 # cs)) = [(d, c2)]" "so_temp (sort_queue (c1 # c2 # cs)) = [c1]"
    "so_reserved (sort_queue (c1 # c2 # cs)) = cs"
proof -
  let ?so = "\<lparr> so_latest = [(d, c2)], so_temp = [c1], so_reserved = [], so_dropped = (\<lambda>e. 0)(d := 1) \<rparr>"
  have "sort_queue (c1 # c2 # cs) = fold sort_frame cs ?so"
    using assms(2-4) by (simp add: sort_queue_def sort_frame_def Let_def)
  also have "\<dots> = ?so\<lparr> so_reserved := cs \<rparr>"
    using sort_frames_later [of ?so d cs] assms(1) by simp
  finally have r: "sort_queue (c1 # c2 # cs) = ?so\<lparr> so_reserved := cs \<rparr>" .
  show "so_latest (sort_queue (c1 # c2 # cs)) = [(d, c2)]" "so_temp (sort_queue (c1 # c2 # cs)) = [c1]"
    "so_reserved (sort_queue (c1 # c2 # cs)) = cs" unfolding r by simp_all
qed

lemma fold_upd_cnt: "\<exists>n. fold (\<lambda>c. upd_cnt (dc_display c) f) cs k = k\<lparr> cm_cnt := n \<rparr>"
proof (induction cs arbitrary: k)
  case (Cons c cs)
  obtain n where "fold (\<lambda>c. upd_cnt (dc_display c) f) cs (upd_cnt (dc_display c) f k) = (upd_cnt (dc_display c) f k)\<lparr> cm_cnt := n \<rparr>"
    using Cons.IH by blast
  then have "fold (\<lambda>c. upd_cnt (dc_display c) f) (c # cs) k = (upd_cnt (dc_display c) f k)\<lparr> cm_cnt := n \<rparr>" by simp
  also have "\<dots> = k\<lparr> cm_cnt := n \<rparr>" by (simp add: upd_cnt_def)
  finally show ?case by blast
next
  case Nil
  have "fold (\<lambda>c. upd_cnt (dc_display c) f) [] k = k\<lparr> cm_cnt := cm_cnt k \<rparr>" by simp
  then show ?case by blast
qed

lemma drop_staged:
  assumes "CollectSFInfoByDrop E (cm, s) = Some (cm', s')" "solo d cm" "connected E d s" "cm_queue cm \<noteq> []"
  shows "staged d cm' \<and> fifo cm cm' \<and> cm_active cm' = cm_active cm"
proof -
  let ?so = "sort_queue (cm_queue cm)"
  obtain n where "fold (\<lambda>c. upd_cnt (dc_display c) (\<lambda>k. k - 1)) (cm_queue cm) cm = cm\<lparr> cm_cnt := n \<rparr>"
    using fold_upd_cnt by blast
  moreover obtain n' where "fold (\<lambda>c. upd_cnt (dc_display c) (\<lambda>k. k + 1)) (so_reserved ?so) (cm\<lparr> cm_cnt := n \<rparr>) =
      (cm\<lparr> cm_cnt := n \<rparr>)\<lparr> cm_cnt := n' \<rparr>"
    using fold_upd_cnt by blast
  ultimately have c: "collect_all E (List.map (pending_of ?so) (so_latest ?so))
      (cm\<lparr> cm_cnt := n', cm_queue := so_reserved ?so \<rparr>, s) = Some (cm', s')"
    using assms(1) by (simp add: CollectSFInfoByDrop_def Let_def)
  from assms(2) have dd: "\<forall>c \<in> set (cm_queue cm). dc_display c = d"
    and sorted: "sorted_wrt (<) (List.map dc_frame_no (cm_queue cm))"
    by (auto simp: solo_def staged_def alive_def sorted_wrt_append)
  have "\<exists>us c cs. cm_queue cm = us @ c # cs \<and> so_reserved ?so = cs \<and>
      List.map (pending_of ?so) (so_latest ?so) = [\<lparr> pd_comp = c, pd_useless = us \<rparr>]"
  proof (cases "cm_queue cm")
    case (Cons c1 q)
    show ?thesis
    proof (cases q)
      case Nil
      then show ?thesis using Cons by (auto simp: sort_queue_one pending_of_def)
    next
      case (Cons c2 cs)
      with \<open>cm_queue cm = c1 # q\<close> have q: "cm_queue cm = [c1] @ c2 # cs" by simp
      from sorted q have "dc_frame_no c1 < dc_frame_no c2" by simp
      with sort_queue_two [of cs d c1 c2] dd q
      have "so_latest ?so = [(d, c2)]" "so_temp ?so = [c1]" "so_reserved ?so = cs" "dc_display c1 = d" by auto
      with q show ?thesis by (intro exI [of _ "[c1]"] exI [of _ c2] exI [of _ cs]) (simp add: pending_of_def)
    qed
  qed (use assms(4) in simp)
  then obtain us x cs where q: "cm_queue cm = us @ x # cs" "so_reserved ?so = cs"
    "List.map (pending_of ?so) (so_latest ?so) = [\<lparr> pd_comp = x, pd_useless = us \<rparr>]"
    by (elim exE conjE) (rule that)
  from c obtain ret where i: "CollectInfo E \<lparr> pd_comp = x, pd_useless = us \<rparr>
      (cm\<lparr> cm_cnt := n', cm_queue := cs \<rparr>, s) = Some (ret, cm', s')"
    by (auto simp: q(2,3) split: bind_splits)
  have "cm_queue cm' = cs" using CollectInfo_keeps(1) [OF i] by simp
  then have r: "cm' = cm'\<lparr> cm_queue := cs \<rparr>" by simp
  show ?thesis
    by (rule collected_staged [OF assms(2) q(1) i assms(3) _ _ _ _ _ _ r]) simp_all
qed

lemma CollectSFInfo_staged:
  assumes "CollectSFInfo E (cm, s) = Some (cm', s')" "solo d cm" "connected E d s"
  shows "staged d cm' \<and> fifo cm cm' \<and> cm_active cm' = cm_active cm"
proof (cases "cm_queue cm = []")
  case True
  with assms have "cm' = cm" "staged d cm" by (simp_all add: CollectSFInfo_def solo_def)
  then show ?thesis using fifo_same [OF same_list_refl staged_sources] by blast
next
  case False
  with assms show ?thesis
    by (auto simp: CollectSFInfo_def dest: sequence_staged drop_staged split: if_splits)
qed

section \<open>Replacing the frames on screen\<close>

lemma destroy_screened: "destroy_pending (snd (screened d c)) = destroy_frame c"
  by (simp add: destroy_pending_def screened_def fun_eq_iff)

lemma finish_live_one:
  assumes "cm_live cm = [] \<or> (\<exists>c. cm_live cm = [screened d c])"
  shows "cm_live (finish_live d cm) = []" "paid (dues (live_frames cm)) (cm_lines cm) (cm_lines (finish_live d cm))"
    "same_frames (cm\<lparr> cm_live := [], cm_lines := cm_lines (finish_live d cm) \<rparr>) (finish_live d cm)"
  using assms destroy_frame_paid
  by (auto simp: finish_live_def live_frames_def screened_def pending_frames_def destroy_pending_def
           same_frames_def on_lines_def)

lemma swap_frames_one:
  assumes "cm_collect k = [(d, pd)]" "cm_live k = [] \<or> (\<exists>c. cm_live k = [screened d c])"
  shows "cm_live (swap_frames k) = [screened d (pd_comp pd)]" "cm_collect (swap_frames k) = []"
    "paid (dues (live_frames k) @ dues (pd_useless pd)) (cm_lines k) (cm_lines (swap_frames k))"
    "cm_queue (swap_frames k) = cm_queue k" "cm_initialized (swap_frames k) = cm_initialized k"
    "cm_display (swap_frames k) = cm_display k" "cm_active (swap_frames k) = cm_active k"
proof -
  note f = finish_live_one [OF assms(2)]
  have s: "swap_frames k = (go_live (d, pd) (finish_live d k))\<lparr> cm_collect := [] \<rparr>"
    by (simp add: swap_frames_def assms(1))
  show "cm_live (swap_frames k) = [screened d (pd_comp pd)]" "cm_collect (swap_frames k) = []"
    by (simp_all add: s go_live_def Let_def f(1) screened_def)
  show "paid (dues (live_frames k) @ dues (pd_useless pd)) (cm_lines k) (cm_lines (swap_frames k))"
    using paid_trans [OF f(2) destroy_frames_paid] by (simp add: s go_live_def Let_def)
  show "cm_queue (swap_frames k) = cm_queue k" "cm_initialized (swap_frames k) = cm_initialized k"
    "cm_display (swap_frames k) = cm_display k" "cm_active (swap_frames k) = cm_active k"
    using f(3) by (simp_all add: s go_live_def Let_def same_frames_def)
qed

lemma soloI:
  assumes "cm_initialized cm" "cm_live cm = [] \<or> (\<exists>c. cm_live cm = [screened d c])" "cm_collect cm = []"
    "\<And>c. c \<in> set (alive cm) \<Longrightarrow> dc_display c = d \<and> sources_ok c"
    "sorted_wrt (<) (List.map dc_frame_no (alive cm))" "cm_queue cm \<noteq> [] \<Longrightarrow> cm_display cm = d"
  shows "solo d cm"
  using assms unfolding solo_def staged_def by blast

lemma swap_frames_fifo:
  assumes st: "staged d cm" and k: "same_frames cm k"
  shows "solo d (swap_frames k) \<and> fifo cm (swap_frames k) \<and> cm_active (swap_frames k) = cm_active cm"
proof (cases "cm_collect cm")
  case Nil
  with k have s: "swap_frames k = k" by (simp add: swap_frames_def same_frames_def)
  have "staged d k" using Nil st alive_same [OF k] k by (simp add: staged_def same_frames_def)
  moreover have "fifo cm k"
    using alive_same [OF k] k by (intro fifo_same staged_sources [OF st]) (simp_all add: same_frames_def)
  ultimately show ?thesis using s Nil k by (simp add: solo_def same_frames_def)
next
  case (Cons e m)
  with st obtain pd where c: "cm_collect cm = [(d, pd)]" by (auto simp: staged_def)
  from k have e: "cm_collect k = cm_collect cm" "cm_live k = cm_live cm" "cm_queue k = cm_queue cm"
    "cm_lines k = cm_lines cm" "cm_display k = cm_display cm" "cm_initialized k = cm_initialized cm" "cm_active k = cm_active cm"
    by (simp_all add: same_frames_def)
  have "cm_live k = [] \<or> (\<exists>c. cm_live k = [screened d c])" using st e by (simp add: staged_def)
  note w = swap_frames_one [OF e(1) [unfolded c] this, unfolded e]
  have a: "alive cm = (live_frames cm @ pd_useless pd) @ pd_comp pd # cm_queue cm"
    by (simp add: alive_def live_frames_def c pending_frames_def)
  have a': "alive (swap_frames k) = pd_comp pd # cm_queue cm"
    by (simp add: alive_def w screened_def pending_frames_def)
  have lf: "live_frames k = live_frames cm" by (simp add: live_frames_def e)
  have "fifo cm (swap_frames k)"
    by (rule fifoI [of _ "dues (live_frames cm) @ dues (pd_useless pd)"])
      (use w(3) in \<open>simp_all add: a a' lf\<close>, blast)
  moreover have "sorted_wrt (<) (List.map dc_frame_no (alive (swap_frames k)))"
    using st unfolding staged_def a a' map_append sorted_wrt_append by blast
  then have "solo d (swap_frames k)"
    using st by (intro soloI) (auto simp: w staged_def a a')
  ultimately show ?thesis by (simp add: w)
qed

lemma Commit_fifo:
  assumes "staged d cm"
  shows "fifo cm (fst (Commit E (cm, s))) \<and> cm_initialized (fst (Commit E (cm, s))) \<and>
    (cm_active (fst (Commit E (cm, s))) \<longrightarrow> solo d (fst (Commit E (cm, s))))"
proof (cases rule: Commit_cases [of cm E s])
  case 1
  let ?k = "cm\<lparr> cm_pset := None \<rparr>"
  have k: "same_frames cm ?k" by (simp add: same_frames_def)
  have "fifo cm ?k" using alive_same [OF k] by (intro fifo_same staged_sources [OF assms]) simp_all
  moreover have "solo d ?k" if "cm_active cm"
  proof -
    from 1 that have "cm_pset cm = None" by simp
    with assms have "cm_collect cm = []" by (auto simp: staged_def)
    with assms alive_same [OF k] show ?thesis by (simp add: solo_def staged_def)
  qed
  ultimately show ?thesis using assms by (simp add: 1(2) staged_def)
next
  case (2 k)
  from swap_frames_fifo [OF assms 2(3)] show ?thesis unfolding 2(5) by (simp add: solo_def staged_def)
qed

lemma ClearDisplay_fifo:
  assumes "cm_initialized cm"
  shows "solo d (fst (ClearDisplay E (cm, s))) \<and> fifo cm (fst (ClearDisplay E (cm, s)))"
proof -
  obtain cm' s' where c: "ClearDisplay E (cm, s) = (cm', s')" by (cases "ClearDisplay E (cm, s)")
  note r = ClearDisplay_result [OF assms c]
  have "paid (dues (alive cm)) (cm_lines cm) (cm_lines cm')"
    using r(6,7) by (simp add: paid_def owed_def)
  then have "fifo cm cm'" by (intro fifoI) (simp_all add: r(1))
  moreover have "solo d cm'" using r by (intro soloI) simp_all
  ultimately show ?thesis by (simp add: c)
qed

text \<open>A round signals the fences of the oldest frames, and of no others.\<close>

lemma Composite_fifo:
  assumes r: "Composite E (cm, s) = Some (cm', s')" and so: "solo d cm" and "connected E d s"
  shows "solo d cm' \<and> fifo cm cm'"
proof (rule Composite_steps [OF r])
  fix cm1 s1 cm2 s2 cm3 s3
  assume a: "CollectSFInfo E (cm, s) = Some (cm1, s1)"
    "cm2 = cm1 \<and> s2 = s1 \<or> (\<exists>ret. CollectVPInfo E (cm1, s1) = Some (ret, cm2, s2))"
    "same_frames cm2 cm3" "cm_pset cm2 = None \<longleftrightarrow> cm_pset cm3 = None"
    "cm' = fst (Commit E (cm3, s3)) \<and> cm_active (fst (Commit E (cm3, s3))) \<or>
     cm' = fst (ClearDisplay E (Commit E (cm3, s3))) \<and> \<not> cm_active (fst (Commit E (cm3, s3)))"
  have 1: "staged d cm1" "fifo cm cm1" using CollectSFInfo_staged [OF a(1) so assms(3)] by simp_all
  have 2: "staged d cm2" "fifo cm1 cm2"
    using a(2) CollectVPInfo_staged [OF _ 1(1)] 1(1) fifo_same [OF same_list_refl staged_sources [OF 1(1)] refl] by auto
  have 3: "staged d cm3" using staged_same [OF a(3,4)] 2(1) by simp
  have 4: "fifo cm2 cm3"
    using a(3) alive_same [OF a(3)] by (intro fifo_same staged_sources [OF 2(1)]) (simp_all add: same_frames_def)
  obtain k t where k: "Commit E (cm3, s3) = (k, t)" by (cases "Commit E (cm3, s3)")
  from Commit_fifo [OF 3, of E s3] k
  have 5: "fifo cm3 k" "cm_initialized k" "cm_active k \<longrightarrow> solo d k" by simp_all
  have "solo d cm' \<and> fifo k cm'"
  proof (cases "cm_active k")
    case True
    with a(5) k have "cm' = k" by simp
    with True 5(3) have "solo d cm'" by simp
    moreover from this have "fifo cm' cm'"
      by (intro fifo_same same_list_refl) (simp_all add: solo_def staged_def)
    ultimately show ?thesis using \<open>cm' = k\<close> by simp
  next
    case False
    with a(5) k ClearDisplay_fifo [OF 5(2), of d E t] show ?thesis by simp
  qed
  with fifo_trans [OF fifo_trans [OF fifo_trans [OF 1(2) 2(2)] 4] 5(1)] show ?thesis
    by (blast intro: fifo_trans)
qed

end
