(* ===== verification/Compositor_Queue.thy ===== *)
theory Compositor_Queue
  imports Compositor_Order
begin

text \<open>
  The bound of the queue: the counters the waiting is decided by are the numbers of frames queued, and
  a display has more than one frame queued only while frames are dropped, and never more than ten.
\<close>

section \<open>Queue and counters\<close>

definition queued_for :: "int \<Rightarrow> frame_comp list \<Rightarrow> frame_comp list" where
  "queued_for d = filter (\<lambda>c. dc_display c = d)"

lemma queued_for_simps [simp]:
  "queued_for d [] = []" "queued_for d (c # cs) = (if dc_display c = d then c # queued_for d cs else queued_for d cs)"
  "queued_for d (cs @ ds) = queued_for d cs @ queued_for d ds"
  by (simp_all add: queued_for_def)

text \<open>Frames leave the queue from its front, and the counters follow.\<close>

definition drains :: "compositor \<Rightarrow> compositor \<Rightarrow> bool" where
  "drains cm cm' \<longleftrightarrow>
     (\<forall>d. suffix (queued_for d (cm_queue cm')) (queued_for d (cm_queue cm)) \<and>
          cm_cnt cm' d + of_nat (length (queued_for d (cm_queue cm))) =
          cm_cnt cm d + of_nat (length (queued_for d (cm_queue cm'))))"

lemma drains_same: "cm_queue cm' = cm_queue cm \<Longrightarrow> cm_cnt cm' = cm_cnt cm \<Longrightarrow> drains cm cm'"
  by (simp add: drains_def)

lemma drains_trans:
  assumes "drains a b" "drains b c"
  shows "drains a c"
  unfolding drains_def
proof (intro allI conjI)
  fix d
  show "suffix (queued_for d (cm_queue c)) (queued_for d (cm_queue a))"
    using assms unfolding drains_def by (blast intro: suffix_order.trans)
  from assms have "cm_cnt b d + of_nat (length (queued_for d (cm_queue a))) =
      cm_cnt a d + of_nat (length (queued_for d (cm_queue b)))"
    "cm_cnt c d + of_nat (length (queued_for d (cm_queue b))) =
      cm_cnt b d + of_nat (length (queued_for d (cm_queue c)))"
    unfolding drains_def by blast+
  then have "cm_cnt b d = cm_cnt a d + of_nat (length (queued_for d (cm_queue b))) - of_nat (length (queued_for d (cm_queue a)))"
    "cm_cnt c d = cm_cnt b d + of_nat (length (queued_for d (cm_queue c))) - of_nat (length (queued_for d (cm_queue b)))"
    by (simp_all add: eq_diff_eq)
  then show "cm_cnt c d + of_nat (length (queued_for d (cm_queue a))) =
      cm_cnt a d + of_nat (length (queued_for d (cm_queue c)))"
    by simp
qed

lemma by_sequence_drains:
  "by_sequence E exist cs (cm, s) = Some (q, cm', s') \<Longrightarrow>
   suffix (queued_for d q) (queued_for d cs) \<and>
   cm_cnt cm' d + of_nat (length (queued_for d cs)) = cm_cnt cm d + of_nat (length (queued_for d q)) \<and>
   (d \<in> set exist \<longrightarrow> queued_for d q = queued_for d cs)"
proof (induction cs arbitrary: exist cm s q)
  case (Cons c cs)
  show ?case
  proof (cases "dc_display c \<in> set exist")
    case True
    with Cons.prems obtain q' where q: "q = c # q'" "by_sequence E exist cs (cm, s) = Some (q', cm', s')"
      by (auto split: prod.splits)
    from Cons.IH [OF q(2)] True show ?thesis
      by (cases "dc_display c = d") (simp_all add: q(1) ac_simps)
  next
    case False
    let ?cm = "upd_cnt (dc_display c) (\<lambda>k. k - 1) cm"
    from False Cons.prems obtain ret cm1 s1 where
      i: "CollectInfo E \<lparr> pd_comp = c, pd_useless = [] \<rparr> (?cm, s) = Some (ret, cm1, s1)"
      and b: "by_sequence E (dc_display c # exist) cs (cm1, s1) = Some (q, cm', s')"
      by (auto split: bind_splits)
    have "cm_cnt cm1 = (cm_cnt cm)(dc_display c := cm_cnt cm (dc_display c) - 1)"
      using CollectInfo_keeps(2) [OF i] by (simp add: upd_cnt_def)
    with Cons.IH [OF b] False show ?thesis
      by (cases "dc_display c = d") (auto simp: suffix_Cons algebra_simps)
  qed
qed simp

lemma sequence_drains:
  assumes "CollectSFInfoBySequence E (cm, s) = Some (cm', s')"
  shows "drains cm cm'"
proof -
  from assms obtain q k where b: "by_sequence E [] (cm_queue cm) (cm, s) = Some (q, k, s')"
    and c: "cm' = k\<lparr> cm_queue := q \<rparr>"
    by (auto simp: CollectSFInfoBySequence_def)
  from by_sequence_drains [OF b] c show ?thesis by (simp add: drains_def)
qed

text \<open>What is queued again after frames were dropped is the end of what was queued.\<close>

lemma sort_frame_reserved:
  assumes "suffix (queued_for d (so_reserved so)) (queued_for d q)"
    "so_dropped so d = 0 \<Longrightarrow> queued_for d (so_reserved so) = []"
  shows "suffix (queued_for d (so_reserved (sort_frame c so))) (queued_for d (q @ [c]))"
    "so_dropped (sort_frame c so) d = 0 \<Longrightarrow> queued_for d (so_reserved (sort_frame c so)) = []"
  using assms by (auto simp: sort_frame_def Let_def split: option.splits if_splits)

lemma sort_queue_reserved: "suffix (queued_for d (so_reserved (sort_queue q))) (queued_for d q)"
proof -
  have "suffix (queued_for d (so_reserved (fold sort_frame q so))) (queued_for d (p @ q))"
    if "suffix (queued_for d (so_reserved so)) (queued_for d p)"
      "so_dropped so d = 0 \<Longrightarrow> queued_for d (so_reserved so) = []" for p so
    using that
  proof (induction q arbitrary: p so)
    case (Cons c q)
    from Cons.IH [OF sort_frame_reserved [OF Cons.prems]] show ?case by simp
  qed simp
  from this [of _ "[]"] show ?thesis unfolding sort_queue_def by simp
qed

lemma cnt_fold: "cm_cnt (fold (\<lambda>c. upd_cnt (dc_display c) (\<lambda>k. k - 1)) cs cm) d = cm_cnt cm d - of_nat (length (queued_for d cs))"
  "cm_cnt (fold (\<lambda>c. upd_cnt (dc_display c) (\<lambda>k. k + 1)) cs cm) d = cm_cnt cm d + of_nat (length (queued_for d cs))"
  by (induction cs arbitrary: cm) (simp_all add: upd_cnt_def)

lemma collect_all_keeps:
  "collect_all E pds (cm, s) = Some (cm', s') \<Longrightarrow> cm_queue cm' = cm_queue cm \<and> cm_cnt cm' = cm_cnt cm"
proof (induction pds arbitrary: cm s)
  case (Cons pd pds)
  from Cons.prems obtain ret cm1 s1 where i: "CollectInfo E pd (cm, s) = Some (ret, cm1, s1)"
    and b: "collect_all E pds (cm1, s1) = Some (cm', s')"
    by (auto split: bind_splits)
  from Cons.IH [OF b] CollectInfo_keeps(1,2) [OF i] show ?case by simp
qed simp

lemma drop_drains:
  assumes "CollectSFInfoByDrop E (cm, s) = Some (cm', s')"
  shows "drains cm cm'"
proof -
  let ?so = "sort_queue (cm_queue cm)"
  let ?a = "fold (\<lambda>c. upd_cnt (dc_display c) (\<lambda>k. k - 1)) (cm_queue cm) cm"
  let ?b = "fold (\<lambda>c. upd_cnt (dc_display c) (\<lambda>k. k + 1)) (so_reserved ?so) ?a"
  from assms have "collect_all E (List.map (pending_of ?so) (so_latest ?so)) (?b\<lparr> cm_queue := so_reserved ?so \<rparr>, s) = Some (cm', s')"
    by (simp add: CollectSFInfoByDrop_def Let_def)
  from collect_all_keeps [OF this] show ?thesis
    using sort_queue_reserved by (simp add: drains_def cnt_fold)
qed

lemma CollectSFInfo_drains: "CollectSFInfo E (cm, s) = Some (cm', s') \<Longrightarrow> drains cm cm'"
  by (auto simp: CollectSFInfo_def drop_drains sequence_drains drains_same split: if_splits)

section \<open>Rounds\<close>

lemma relayered_drains: "relayered cm cm' \<Longrightarrow> drains cm cm'"
  by (cases rule: relayered.cases) (auto simp: same_frames_def intro!: drains_same)

lemma swap_frames_drains: "drains cm (swap_frames cm)"
proof -
  have f: "cm_queue (fold (\<lambda>e. finish_live (fst e)) m k) = cm_queue k \<and> cm_cnt (fold (\<lambda>e. finish_live (fst e)) m k) = cm_cnt k"
    for m :: "(int \<times> pending) list" and k
    by (induction m arbitrary: k) (simp_all add: finish_live_def split: option.split)
  have g: "cm_queue (fold go_live m k) = cm_queue k \<and> cm_cnt (fold go_live m k) = cm_cnt k" for m k
    by (induction m arbitrary: k) (simp_all add: go_live_def Let_def)
  show ?thesis by (rule drains_same) (simp_all add: swap_frames_def f g)
qed

lemma same_frames_drains: "same_frames cm k \<Longrightarrow> drains cm k"
  by (rule drains_same) (simp_all add: same_frames_def)

lemma Commit_drains: "drains cm (fst (Commit E (cm, s)))"
proof (cases rule: Commit_cases [of cm E s])
  case 1
  show ?thesis unfolding 1(2) by (rule drains_same) simp_all
next
  case (2 k)
  show ?thesis unfolding 2(5) by (rule drains_trans [OF same_frames_drains [OF 2(3)] swap_frames_drains])
qed

text \<open>The counters of the frames that are queued, as the waiting needs them.\<close>

definition bounded :: "compositor \<Rightarrow> bool" where
  "bounded cm \<longleftrightarrow>
     (\<forall>d. cm_cnt cm d = of_nat (length (queued_for d (cm_queue cm))) \<and> length (queued_for d (cm_queue cm)) \<le> 10 \<and>
          (\<forall>c \<in> set (tl (queued_for d (cm_queue cm))). dc_drop c))"

lemma suffix_tl: "suffix xs ys \<Longrightarrow> set (tl xs) \<subseteq> set (tl ys)"
proof -
  assume "suffix xs ys"
  then obtain zs where "ys = zs @ xs" by (auto simp: suffix_def)
  then show ?thesis by (cases zs; cases xs) auto
qed

lemma bounded_drains:
  assumes "drains cm cm'" "bounded cm"
  shows "bounded cm'"
  unfolding bounded_def
proof (intro allI conjI)
  fix d
  from assms(1) have s: "suffix (queued_for d (cm_queue cm')) (queued_for d (cm_queue cm))"
    and c: "cm_cnt cm' d + of_nat (length (queued_for d (cm_queue cm))) =
      cm_cnt cm d + of_nat (length (queued_for d (cm_queue cm')))"
    unfolding drains_def by blast+
  from assms(2) have b: "cm_cnt cm d = of_nat (length (queued_for d (cm_queue cm)))"
    "length (queued_for d (cm_queue cm)) \<le> 10" "\<forall>c \<in> set (tl (queued_for d (cm_queue cm))). dc_drop c"
    unfolding bounded_def by blast+
  from c b(1) show "cm_cnt cm' d = of_nat (length (queued_for d (cm_queue cm')))" by simp
  from suffix_length_le [OF s] b(2) show "length (queued_for d (cm_queue cm')) \<le> 10" by simp
  from suffix_tl [OF s] b(3) show "\<forall>c \<in> set (tl (queued_for d (cm_queue cm'))). dc_drop c" by blast
qed

lemma ClearDisplay_bounded:
  assumes "bounded cm"
  shows "bounded (fst (ClearDisplay E (cm, s)))"
proof (cases "cm_initialized cm")
  case True
  obtain cm' s' where c: "ClearDisplay E (cm, s) = (cm', s')" by (cases "ClearDisplay E (cm, s)")
  from ClearDisplay_result [OF True c] show ?thesis by (simp add: c bounded_def)
qed (use assms in \<open>simp add: ClearDisplay_def\<close>)

lemma Composite_bounded:
  assumes "Composite E (cm, s) = Some (cm', s')" "bounded cm"
  shows "bounded cm'"
proof (rule Composite_steps [OF assms(1)])
  fix cm1 s1 cm2 s2 cm3 s3
  assume a: "CollectSFInfo E (cm, s) = Some (cm1, s1)"
    "cm2 = cm1 \<and> s2 = s1 \<or> (\<exists>ret. CollectVPInfo E (cm1, s1) = Some (ret, cm2, s2))" "same_frames cm2 cm3"
    "cm' = fst (Commit E (cm3, s3)) \<and> cm_active (fst (Commit E (cm3, s3))) \<or>
     cm' = fst (ClearDisplay E (Commit E (cm3, s3))) \<and> \<not> cm_active (fst (Commit E (cm3, s3)))"
  have 1: "drains cm cm1" by (rule CollectSFInfo_drains [OF a(1)])
  have 2: "drains cm1 cm2" using a(2) by (auto intro: relayered_drains CollectVPInfo_ok drains_same)
  have 3: "drains cm2 (fst (Commit E (cm3, s3)))"
    by (rule drains_trans [OF same_frames_drains [OF a(3)] Commit_drains])
  from bounded_drains [OF drains_trans [OF 1 drains_trans [OF 2 3]] assms(2)]
  have "bounded (fst (Commit E (cm3, s3)))" .
  with a(4) ClearDisplay_bounded [OF this, of E "snd (Commit E (cm3, s3))"] show ?thesis by auto
qed

section \<open>Queueing\<close>

lemma room_ends_bounded:
  assumes "room_ends c cm r k" "bounded cm"
  shows "bounded k"
  using assms(1)
proof cases
  case (waits b)
  then show ?thesis using assms(2) by (simp add: bounded_def same_frames_def)
next
  case (queues b)
  let ?d = "dc_display c" and ?q = "queued_for (dc_display c) (cm_queue cm)"
  from assms(2) have b: "cm_cnt cm ?d = of_nat (length ?q)" "length ?q \<le> 10" "\<forall>x \<in> set (tl ?q). dc_drop x"
    unfolding bounded_def by blast+
  have "length ?q < (if dc_drop c then 10 else 1)"
  proof -
    have "unat (of_nat (length ?q) :: u64) = length ?q" using b(2) by (simp add: unat_of_nat)
    with queues(3) b(1) show ?thesis by (simp add: word_less_nat_alt split: if_splits)
  qed
  then have "length (?q @ [c]) \<le> 10" "\<forall>x \<in> set (tl (?q @ [c])). dc_drop x"
    using b(3) by (cases ?q; auto split: if_splits)+
  with assms(2) b(1) queues(2) show ?thesis by (auto simp: bounded_def same_frames_def)
qed

lemma bounded_step:
  assumes "comp_step E Y w w'" "bounded (fst (snd w))"
  shows "bounded (fst (snd w'))"
proof -
  have same: "bounded (cm\<lparr> cm_display := e \<rparr>) = bounded cm" "bounded (cm\<lparr> cm_lines := ts \<rparr>) = bounded cm"
    "bounded (on_lines f cm) = bounded cm" "same_frames (cm\<lparr> cm_active := b \<rparr>) k \<Longrightarrow> bounded k = bounded cm" for cm e ts f b k
    by (simp_all add: bounded_def same_frames_def)
  have q: "bounded k" if "QueueComposition E c cm = (r, k)" "bounded cm" for c cm r k
    using QueueComposition_ends [OF that(1)]
    by cases (use that(2) same in \<open>auto dest: room_ends_bounded\<close>)
  have w: "bounded k" if "wait_for_room c cm = (r, k)" "bounded cm" for c cm r k
    using room_ends_bounded [OF wait_for_room_ends [OF that(1)] that(2)] .
  from assms show ?thesis
    by cases (auto simp: same dest: q w Composite_bounded, metis ClearDisplay_bounded fst_conv)
qed

lemma bounded_run: "(comp_step E Y)\<^sup>*\<^sup>* w w' \<Longrightarrow> bounded (fst (snd w)) \<Longrightarrow> bounded (fst (snd w'))"
  by (induction rule: rtranclp_induct) (auto intro: bounded_step)

end
