(* ===== verification/Compositor_Request.thy ===== *)
theory Compositor_Request
  imports Compositor_Fences
begin

text \<open>
  What the kernel reads in the request of a frame when it refuses no property: of every plane that
  shows a layer the framebuffer, the rectangles and the position of that layer, of every plane that is
  disabled no framebuffer and no CRTC.
\<close>

section \<open>Reading a request\<close>

text \<open>Of several values for a property of an object the last one counts.\<close>

definition last_value :: "request \<Rightarrow> u32 \<Rightarrow> u32 \<Rightarrow> u64 option" where
  "last_value R obj prop = map_of (rev (List.map (\<lambda>(a, m, v). ((a, m), v)) R)) (obj, prop)"

definition tagged :: "u32 \<Rightarrow> (u32 \<times> u64) list \<Rightarrow> request" where
  "tagged obj = List.map (\<lambda>(m, v). (obj, m, v))"

lemma last_value_simps [simp]:
  "last_value [] obj m = None"
  "last_value (R @ S) obj m = (case last_value S obj m of None \<Rightarrow> last_value R obj m | Some v \<Rightarrow> Some v)"
  by (auto simp: last_value_def map_add_def split: option.split)

lemma last_value_Cons:
  "last_value ((a, n, v) # R) obj m =
     (case last_value R obj m of None \<Rightarrow> if a = obj \<and> n = m then Some v else None | Some w \<Rightarrow> Some w)"
  by (auto simp: last_value_def map_add_def split: option.split)

lemma last_value_none: "\<forall>x \<in> set R. fst x \<noteq> obj \<or> fst (snd x) \<noteq> m \<Longrightarrow> last_value R obj m = None"
  by (induction R) (auto simp: last_value_Cons)

lemma tagged_append [simp]: "tagged obj (xs @ ys) = tagged obj xs @ tagged obj ys"
  by (simp add: tagged_def)

text \<open>A kernel that accepts everything gets everything.\<close>

lemma add_until_asks: "accepting W \<Longrightarrow> add_until W obj xs ps = (b, ps') \<Longrightarrow> fst ps' = fst ps @ tagged obj xs"
proof (induction xs arbitrary: ps)
  case (Cons x xs)
  obtain m v where x: "x = (m, v)" by (cases x)
  obtain ok ps1 where a: "atomic_add W obj m v ps = (ok, ps1)" by (cases "atomic_add W obj m v ps")
  from accepting_add [OF Cons.prems(1) a] a have ok: "ok" "fst ps1 = fst ps @ [(obj, m, v)]"
    by (cases ps; auto simp: atomic_add_def split: if_splits)+
  with Cons.prems Cons.IH [OF Cons.prems(1), of ps1] show ?case by (simp add: x a tagged_def)
qed (simp add: tagged_def)

lemma add_each_asks: "accepting W \<Longrightarrow> add_each W obj xs ps = (b, ps') \<Longrightarrow> fst ps' = fst ps @ tagged obj xs"
proof (induction xs arbitrary: ps b ps')
  case (Cons x xs)
  obtain m v where x: "x = (m, v)" by (cases x)
  obtain ok ps1 where a: "atomic_add W obj m v ps = (ok, ps1)" by (cases "atomic_add W obj m v ps")
  from accepting_add [OF Cons.prems(1) a] a have ok: "ok" "fst ps1 = fst ps @ [(obj, m, v)]"
    by (cases ps; auto simp: atomic_add_def split: if_splits)+
  obtain b1 ps2 where e: "add_each W obj xs ps1 = (b1, ps2)" by (cases "add_each W obj xs ps1")
  from Cons.prems(2) e have "ps' = ps2" by (simp add: x a)
  with Cons.IH [OF Cons.prems(1) e] ok show ?case by (simp add: x tagged_def)
qed (simp add: tagged_def)

lemma put_plane_asks:
  assumes "accepting W" "put_plane W obj base opt ps = (go, ps')"
  shows "fst ps' = fst ps @ tagged obj (base @ opt)"
proof -
  obtain f ps1 where a: "add_each W obj base ps = (f, ps1)" by (cases "add_each W obj base ps")
  obtain g ps2 where b: "add_until W obj opt ps1 = (g, ps2)" by (cases "add_until W obj opt ps1")
  have "\<not> f" by (rule accepting_each [OF assms(1) a])
  with assms(2) a b have "ps' = ps2" by (auto simp: put_plane_def split: if_splits)
  with add_each_asks [OF assms(1) a] add_until_asks [OF assms(1) b] show ?thesis by simp
qed

section \<open>What a plane is asked\<close>

definition off_asked :: "DrmPlane \<Rightarrow> (u32 \<times> u64) list" where
  "off_asked p = off_props p @ (if plane_prop_id p ''async_commit_property'' = 0 then []
                                else [(plane_prop_id p ''async_commit_property'', 0)])"

lemma collect_off_asks:
  assumes "accepting W"
  shows "fst (co_req (collect_off W u p s)) = fst (co_req s) @ tagged (plane_id p) (off_asked p)"
    "co_layers (collect_off W u p s) = co_layers s"
proof -
  obtain f ps1 where a: "add_until W (plane_id p) (off_props p) (co_req s) = (f, ps1)"
    by (cases "add_until W (plane_id p) (off_props p) (co_req s)")
  obtain g ps2 where b: "add_until W (plane_id p) [(plane_prop_id p ''async_commit_property'', 0)] ps1 = (g, ps2)"
    by (cases "add_until W (plane_id p) [(plane_prop_id p ''async_commit_property'', 0)] ps1")
  have "\<not> f" by (rule accepting_until [OF assms a])
  with add_until_asks [OF assms a] add_until_asks [OF assms b]
  show "fst (co_req (collect_off W u p s)) = fst (co_req s) @ tagged (plane_id p) (off_asked p)"
    by (simp add: collect_off_def a b Let_def off_asked_def del: add_until.simps) (simp add: tagged_def)
  show "co_layers (collect_off W u p s) = co_layers s"
    by (simp add: collect_off_def a b Let_def del: add_until.simps)
qed

text \<open>The layer without its acquire fence, which is waited for.\<close>

definition fenceless :: "frame_layer \<Rightarrow> frame_layer" where
  "fenceless l = l\<lparr> buf := (buf l)\<lparr> acquire_fence := -1 \<rparr> \<rparr>"

definition plane_zpos :: "frame_comp \<Rightarrow> frame_plane \<Rightarrow> int" where
  "plane_zpos c fp = (if 0xf < dc_display c then 1 else fp_zpos fp)"

definition plain_asked :: "sdk \<Rightarrow> topo \<Rightarrow> frame_env \<Rightarrow> frame_comp \<Rightarrow> frame_plane \<Rightarrow> DrmPlane \<Rightarrow> frame_layer \<Rightarrow> (u32 \<times> u64) list" where
  "plain_asked K T V c fp p l =
     rect_props T (the (fp_crtc fp)) (target_rect (fp_mirror fp) l)
       (source_rect (device_soc T) (DrmHwcLayer.truncate l)) (plane_zpos c fp) (the (fl_fb l)) p @
     optional_props K l (ucast (transform l)) (the (color_props V p (uColorSpace (buf l)))) p"

text \<open>A plane the loop does not stop at, and what it shows; a sideband layer has no framebuffer.\<close>

definition plain_layer :: "frame_env \<Rightarrow> DrmPlane \<Rightarrow> frame_plane \<Rightarrow> frame_layer \<Rightarrow> bool" where
  "plain_layer V p fp l \<longleftrightarrow>
     \<not> bSidebandStreamLayer l \<and> (\<exists>b. fl_fb l = Some b \<and> 0 \<le> b) \<and> fp_crtc fp \<noteq> None \<and>
     color_props V p (uColorSpace (buf l)) \<noteq> None"

definition showable :: "frame_env \<Rightarrow> (pptr \<Rightarrow> DrmPlane) \<Rightarrow> frame_layer list \<Rightarrow> frame_plane \<Rightarrow> bool" where
  "showable V PL ls fp \<longleftrightarrow>
     fp_type fp = kDisable \<or>
     (\<exists>i < length ls. fp_sources fp = [i] \<and>
        (plain_layer V (PL (fp_plane fp)) fp (ls ! i) \<or>
         bSidebandStreamLayer (ls ! i) \<and> (fl_sideband2 (ls ! i) \<or> fp_crtc fp \<noteq> None)))"

text \<open>What a plane adds to the request: all of it is for the plane itself.\<close>

definition adds :: "sdk \<Rightarrow> topo \<Rightarrow> frame_env \<Rightarrow> (pptr \<Rightarrow> DrmPlane) \<Rightarrow> frame_comp \<Rightarrow> frame_plane \<Rightarrow> request \<Rightarrow> bool" where
  "adds K T V PL c fp R \<longleftrightarrow>
     (\<forall>x \<in> set R. fst x = plane_id (PL (fp_plane fp))) \<and>
     (fp_type fp = kDisable \<longrightarrow> R = tagged (plane_id (PL (fp_plane fp))) (off_asked (PL (fp_plane fp)))) \<and>
     (\<forall>i. fp_type fp \<noteq> kDisable \<and> fp_sources fp = [i] \<and> plain_layer V (PL (fp_plane fp)) fp (dc_layers c ! i) \<longrightarrow>
          R = tagged (plane_id (PL (fp_plane fp))) (plain_asked K T V c fp (PL (fp_plane fp)) (dc_layers c ! i)))"

lemma truncate_buf: "DrmHwcLayer.truncate (l\<lparr> buf := b \<rparr>) = (DrmHwcLayer.truncate l)\<lparr> buf := b \<rparr>"
  by (cases l) (simp add: DrmHwcLayer.truncate_def)

lemma fenceless_rect: "source_rect soc (l\<lparr> buf := (buf l)\<lparr> acquire_fence := a \<rparr> \<rparr>) = source_rect soc l"
  "alpha_value (l\<lparr> buf := (buf l)\<lparr> acquire_fence := a \<rparr> \<rparr>) = alpha_value l"
  by (simp_all add: source_rect_def skip_lines_def alpha_value_def)

lemma buf_truncate: "buf (DrmHwcLayer.truncate l) = buf l"
  by (cases l) (simp add: DrmHwcLayer.truncate_def)

lemma fenceless_same:
  "plain_layer V p fp (fenceless l) = plain_layer V p fp l"
  "plain_asked K T V c fp p (fenceless l) = plain_asked K T V c fp p l"
  "bSidebandStreamLayer (fenceless l) = bSidebandStreamLayer l" "fl_sideband2 (fenceless l) = fl_sideband2 l"
  using fenceless_rect [where l = "DrmHwcLayer.truncate l" and a = "-1"]
  by (simp_all add: fenceless_def plain_layer_def plain_asked_def target_rect_def optional_props_def truncate_buf
    buf_truncate)

section \<open>The loop over the planes\<close>

text \<open>Going over the planes only waits for fences.\<close>

definition awaited :: "frame_layer list \<Rightarrow> frame_layer list \<Rightarrow> bool" where
  "awaited ls ls' \<longleftrightarrow> List.map fenceless ls' = List.map fenceless ls"

lemma awaited_trans: "awaited a b \<Longrightarrow> awaited b c \<Longrightarrow> awaited a c"
  by (simp add: awaited_def)

lemma awaited_nth:
  assumes "awaited ls ls'" "i < length ls"
  shows "fenceless (ls' ! i) = fenceless (ls ! i)" "length ls' = length ls"
  using assms unfolding awaited_def by (metis length_map nth_map)+

lemma awaited_layer:
  assumes "awaited ls ls'" "i < length ls"
  shows "plain_layer V p fp (ls' ! i) = plain_layer V p fp (ls ! i)"
    "plain_asked K T V c fp p (ls' ! i) = plain_asked K T V c fp p (ls ! i)"
    "bSidebandStreamLayer (ls' ! i) = bSidebandStreamLayer (ls ! i)" "fl_sideband2 (ls' ! i) = fl_sideband2 (ls ! i)"
  using awaited_nth(1) [OF assms] fenceless_same by metis+

lemma awaited_refl [simp]: "awaited ls ls"
  by (simp add: awaited_def)

lemma awaited_update: "awaited ls (ls[i := fenceless (ls ! i)])"
proof (cases "i < length ls")
  case True
  have "fenceless (fenceless (ls ! i)) = fenceless (ls ! i)" by (simp add: fenceless_def)
  with True show ?thesis by (simp add: awaited_def map_update list_update_same_conv)
qed (simp add: list_update_beyond)

lemma collect_plane_asks:
  assumes w: "accepting W" and sh: "showable V PL (dc_layers c) fp" and a: "awaited (dc_layers c) (co_layers s)"
    and r: "collect_plane K T W V PL c fp s = Some (go, s')"
  shows "go" "awaited (dc_layers c) (co_layers s')"
    "\<exists>R. fst (co_req s') = fst (co_req s) @ R \<and> adds K T V PL c fp R"
proof -
  let ?p = "PL (fp_plane fp)"
  have "go \<and> awaited (dc_layers c) (co_layers s') \<and>
    (\<exists>R. fst (co_req s') = fst (co_req s) @ R \<and> adds K T V PL c fp R)"
  proof (cases "fp_type fp = kDisable")
    case True
    with r have e: "go" "s' = collect_off W (dc_update_assign c) ?p s" by (simp_all add: collect_plane_def)
    have "adds K T V PL c fp (tagged (plane_id ?p) (off_asked ?p))"
      using True by (auto simp: adds_def tagged_def)
    with e collect_off_asks [OF w] a show ?thesis by auto
  next
    case False
    with sh obtain i where i: "i < length (dc_layers c)" "fp_sources fp = [i]"
      and l: "plain_layer V ?p fp (dc_layers c ! i) \<or>
        bSidebandStreamLayer (dc_layers c ! i) \<and> (fl_sideband2 (dc_layers c ! i) \<or> fp_crtc fp \<noteq> None)"
      unfolding showable_def by blast
    let ?l = "co_layers s ! i"
    let ?s = "s\<lparr> co_layers := (co_layers s)[i := fenceless ?l] \<rparr>"
    from awaited_nth(2) [OF a i(1)] have len: "length (co_layers s) = length (dc_layers c)" .
    from r False i len have cl: "collect_layer K T W V c fp ?p i s = Some (go, s')"
      by (simp add: collect_plane_def)
    have a1: "awaited (dc_layers c) (co_layers ?s)"
      using awaited_trans [OF a awaited_update] by simp
    note same = awaited_layer [OF a i(1)]
    show ?thesis
    proof (cases "bSidebandStreamLayer ?l")
      case True
      then have np: "\<not> plain_layer V ?p fp (dc_layers c ! i)" by (simp add: plain_layer_def same(3))
      have other: "adds K T V PL c fp R" if "\<forall>x \<in> set R. fst x = plane_id ?p" for R
        using that False i(2) np by (simp add: adds_def)
      show ?thesis
      proof (cases "fl_sideband2 ?l")
        case True
        with cl \<open>bSidebandStreamLayer ?l\<close> have "go" "s' = ?s"
          by (simp_all add: collect_layer_def Let_def fenceless_def)
        with a1 other [of "[]"] show ?thesis by simp
      next
        case False
        with l np True same have "fp_crtc fp \<noteq> None" by simp
        with False True cl obtain ret ps where sb: "CommitSidebandStream K W ?p ?l (plane_zpos c fp) (co_req ?s) = (ret, ps)"
          and e: "go" "s' = ?s\<lparr> co_ret := ret, co_req := ps \<rparr>"
          by (auto simp: collect_layer_def Let_def fenceless_def plane_zpos_def split: prod.splits)
        from sb obtain b0 ps0 xs b where z: "add_each W (plane_id ?p) [(plane_prop_id ?p ''zpos_property'', u64_of (plane_zpos c fp))] (co_req ?s) = (b0, ps0)"
          and u: "add_until W (plane_id ?p) xs ps0 = (b, ps)"
          unfolding CommitSidebandStream_def Let_def by (auto split: prod.splits simp del: add_each.simps)
        have "fst ps = fst (co_req s) @ tagged (plane_id ?p) ((plane_prop_id ?p ''zpos_property'', u64_of (plane_zpos c fp)) # xs)"
          using add_each_asks [OF w z] add_until_asks [OF w u] by (simp add: tagged_def)
        with e a1 other [of "tagged (plane_id ?p) ((plane_prop_id ?p ''zpos_property'', u64_of (plane_zpos c fp)) # xs)"]
        show ?thesis by (auto simp: tagged_def)
      qed
    next
      case nsb: False
      with l same(3) have pl: "plain_layer V ?p fp (dc_layers c ! i)" by simp
      then have pl': "plain_layer V ?p fp ?l" using same(1) by simp
      then obtain b k cp where b: "fl_fb ?l = Some b" "0 \<le> b" "fp_crtc fp = Some k"
        "color_props V ?p (uColorSpace (buf ?l)) = Some cp"
        unfolding plain_layer_def by auto
      from cl nsb b obtain ps where
        pp: "put_plane W (plane_id ?p)
          (rect_props T k (target_rect (fp_mirror fp) ?l) (source_rect (device_soc T) (DrmHwcLayer.truncate ?l)) (plane_zpos c fp) b ?p)
          (optional_props K ?l (ucast (transform ?l)) cp ?p) (co_req ?s) = (go, ps)"
        and e: "s' = ?s\<lparr> co_ret := truth (\<not> go), co_req := ps \<rparr>"
        by (auto simp: collect_layer_def Let_def fenceless_def plane_zpos_def split: prod.splits)
      have go: "go" by (rule put_plane_ok(2) [OF pp w])
      from put_plane_asks [OF w pp] have "fst ps = fst (co_req s) @ tagged (plane_id ?p) (plain_asked K T V c fp ?p ?l)"
        by (simp add: plain_asked_def b)
      moreover have "adds K T V PL c fp (tagged (plane_id ?p) (plain_asked K T V c fp ?p ?l))"
        using False i same(2) [where K = K and T = T and V = V and c = c and fp = fp and p = ?p]
        by (auto simp: adds_def tagged_def)
      ultimately show ?thesis using go e a1 by auto
    qed
  qed
  then show "go" "awaited (dc_layers c) (co_layers s')"
    "\<exists>R. fst (co_req s') = fst (co_req s) @ R \<and> adds K T V PL c fp R" by blast+
qed

text \<open>One part of the request per plane, in their order.\<close>

lemma collect_planes_asks:
  assumes "accepting W" "\<forall>fp \<in> set fps. showable V PL (dc_layers c) fp" "awaited (dc_layers c) (co_layers s)"
    "collect_planes K T W V PL c fps s = Some s'"
  shows "\<exists>Rs. fst (co_req s') = fst (co_req s) @ concat Rs \<and> list_all2 (adds K T V PL c) fps Rs"
  using assms(2-4)
proof (induction fps arbitrary: s)
  case (Cons fp fps)
  from Cons.prems(3) obtain go s1 where p: "collect_plane K T W V PL c fp s = Some (go, s1)"
    and q: "(if go then collect_planes K T W V PL c fps s1 else Some s1) = Some s'"
    by (auto split: bind_splits)
  have sh: "showable V PL (dc_layers c) fp" "\<forall>fp \<in> set fps. showable V PL (dc_layers c) fp" using Cons.prems(1) by simp_all
  note k = collect_plane_asks [OF assms(1) sh(1) Cons.prems(2) p]
  from k(3) obtain R where R: "fst (co_req s1) = fst (co_req s) @ R" "adds K T V PL c fp R" by blast
  from q k(1) have "collect_planes K T W V PL c fps s1 = Some s'" by simp
  from Cons.IH [OF sh(2) k(2) this] obtain Rs where
    Rs: "fst (co_req s') = fst (co_req s1) @ concat Rs" "list_all2 (adds K T V PL c) fps Rs" by blast
  show ?case by (rule exI [of _ "R # Rs"]) (simp add: R Rs)
qed (rule exI [of _ "[]"], simp)

section \<open>What the kernel reads\<close>

definition own_props :: "string list" where
  "own_props =
     [''crtc_property'', ''fb_property'', ''crtc_x_property'', ''crtc_y_property'', ''crtc_w_property'',
      ''crtc_h_property'', ''src_x_property'', ''src_y_property'', ''src_w_property'', ''src_h_property'',
      ''zpos_property'']"

definition more_props :: "string list" where
  "more_props =
     [''rotation_property'', ''alpha_property'', ''alpha_property_vop1_kernel4_19'', ''blend_mode_property'',
      ''blend_mode_property_vop1_kernel4_19'', ''eotf_property'', ''kernel6_1_color_encoding'',
      ''kernel6_1_color_range'', ''colorspace_property'', ''async_commit_property'']"

text \<open>Properties of a plane have different ids; those it lacks have the id \<open>0\<close>.\<close>

definition props_apart :: "DrmPlane \<Rightarrow> bool" where
  "props_apart p \<longleftrightarrow>
     distinct (List.map (plane_prop_id p) own_props) \<and>
     (\<forall>m \<in> set more_props. plane_prop_id p m \<noteq> 0 \<longrightarrow> plane_prop_id p m \<notin> plane_prop_id p ` set own_props)"

text \<open>Only planes that are disabled may come more than once.\<close>

definition once_each :: "(pptr \<Rightarrow> DrmPlane) \<Rightarrow> frame_plane list \<Rightarrow> bool" where
  "once_each PL = sorted_wrt (\<lambda>fp fq. plane_id (PL (fp_plane fp)) = plane_id (PL (fp_plane fq)) \<longrightarrow>
     fp_type fp = kDisable \<and> fp_type fq = kDisable)"

lemma color_props_names: "color_props V p cs = Some xs \<Longrightarrow> x \<in> set xs \<Longrightarrow> \<exists>m \<in> set more_props. fst x = plane_prop_id p m"
  by (auto simp: color_props_def more_props_def split: if_splits)

lemma optional_names:
  assumes "color_props V p cs = Some xs" "x \<in> set (optional_props K l r xs p)"
  shows "\<exists>m \<in> set more_props. fst x = plane_prop_id p m" "fst x \<noteq> 0"
proof -
  have present: "set (present ys) = {y \<in> set ys. fst y \<noteq> 0}" for ys by (auto simp: present_def)
  from assms(2) show "fst x \<noteq> 0" unfolding optional_props_def Let_def present by simp
  from assms(2) consider "x \<in> set xs" | "fst x \<in> plane_prop_id p ` set more_props"
    unfolding optional_props_def Let_def present by (auto simp: more_props_def split: if_splits)
  then show "\<exists>m \<in> set more_props. fst x = plane_prop_id p m"
    by cases (use color_props_names [OF assms(1)] in auto)
qed

lemma last_value_tagged:
  "distinct (List.map fst xs) \<Longrightarrow> (m, v) \<in> set xs \<Longrightarrow> last_value (tagged obj xs) obj m = Some v"
proof (induction xs)
  case (Cons x xs)
  show ?case
  proof (cases "(m, v) \<in> set xs")
    case True
    with Cons show ?thesis by (cases x) (simp add: tagged_def last_value_Cons)
  next
    case False
    with Cons.prems have x: "x = (m, v)" by simp
    with Cons.prems have "last_value (tagged obj xs) obj m = None"
      by (intro last_value_none) (auto simp: tagged_def rev_image_eqI)
    with x show ?thesis by (simp add: tagged_def last_value_Cons)
  qed
qed simp

text \<open>The property of the plane and its value for the layer.\<close>

definition plane_values :: "topo \<Rightarrow> frame_comp \<Rightarrow> frame_plane \<Rightarrow> frame_layer \<Rightarrow> (string \<times> u64) list" where
  "plane_values T c fp l =
     (let f = (if fp_mirror fp then fl_frame_mirror l else display_frame l);
          (x, y, w, h) = source_rect (device_soc T) (DrmHwcLayer.truncate l)
      in [(''crtc_property'', ucast (ci_id (ci T (the (fp_crtc fp))))),
          (''fb_property'', u64_of (the (fl_fb l))),
          (''crtc_x_property'', u64_of (left f)), (''crtc_y_property'', u64_of (top f)),
          (''crtc_w_property'', u64_of (right f - left f)), (''crtc_h_property'', u64_of (bottom f - top f)),
          (''src_x_property'', fixed16 x), (''src_y_property'', fixed16 y),
          (''src_w_property'', fixed16 w), (''src_h_property'', fixed16 h),
          (''zpos_property'', u64_of (plane_zpos c fp))])"

lemma rect_values:
  "rect_props T (the (fp_crtc fp)) (target_rect (fp_mirror fp) l)
     (source_rect (device_soc T) (DrmHwcLayer.truncate l)) (plane_zpos c fp) (the (fl_fb l)) p =
   List.map (\<lambda>(m, v). (plane_prop_id p m, v)) (plane_values T c fp l)"
  by (simp add: plane_values_def rect_props_def target_rect_def Let_def split: prod.split)

lemma value_names: "List.map fst (plane_values T c fp l) = own_props"
  by (simp add: plane_values_def own_props_def Let_def split: prod.split)

lemma plain_reads:
  assumes "plain_layer V p fp l" "props_apart p" "(m, v) \<in> set (plane_values T c fp l)"
  shows "last_value (tagged obj (plain_asked K T V c fp p l)) obj (plane_prop_id p m) = Some v"
proof -
  let ?base = "List.map (\<lambda>(m, v). (plane_prop_id p m, v)) (plane_values T c fp l)"
  let ?opt = "optional_props K l (ucast (transform l)) (the (color_props V p (uColorSpace (buf l)))) p"
  have e: "plain_asked K T V c fp p l = ?base @ ?opt" by (simp add: plain_asked_def rect_values)
  have m: "m \<in> set own_props" using imageI [OF assms(3), of fst] by (simp flip: value_names [of T c fp l])
  obtain cp where cp: "color_props V p (uColorSpace (buf l)) = Some cp" using assms(1) by (auto simp: plain_layer_def)
  have "last_value (tagged obj ?opt) obj (plane_prop_id p m) = None"
  proof (rule last_value_none, intro ballI)
    fix x assume "x \<in> set (tagged obj ?opt)"
    then obtain a w where x: "x = (obj, a, w)" "(a, w) \<in> set ?opt" by (auto simp: tagged_def)
    note o = optional_names [OF cp, of "(a, w)" K l "ucast (transform l)"]
    from o x(2) cp obtain n where "n \<in> set more_props" "a = plane_prop_id p n" "a \<noteq> 0"
      by auto
    with assms(2) m x show "fst x \<noteq> obj \<or> fst (snd x) \<noteq> plane_prop_id p m" by (auto simp: props_apart_def)
  qed
  moreover have "last_value (tagged obj ?base) obj (plane_prop_id p m) = Some v"
  proof (rule last_value_tagged)
    have "List.map fst ?base = List.map (plane_prop_id p) own_props"
      by (simp flip: value_names [of T c fp l] add: case_prod_beta comp_def)
    with assms(2) show "distinct (List.map fst ?base)" by (simp add: props_apart_def)
    from assms(3) show "(plane_prop_id p m, v) \<in> set ?base" by force
  qed
  ultimately show ?thesis by (simp add: e)
qed

lemma off_reads:
  assumes "props_apart p" "m = ''crtc_property'' \<or> m = ''fb_property''"
  shows "last_value (tagged obj (off_asked p)) obj (plane_prop_id p m) = Some 0"
proof -
  have "plane_prop_id p ''crtc_property'' \<noteq> plane_prop_id p ''fb_property''"
    using assms(1) by (simp add: props_apart_def own_props_def)
  with assms(2) show ?thesis
    by (auto simp: off_asked_def off_props_def tagged_def last_value_Cons)
qed

lemma adds_elsewhere:
  assumes "list_all2 (adds K T V PL c) fps Rs" "\<forall>fq \<in> set fps. plane_id (PL (fp_plane fq)) \<noteq> obj"
  shows "last_value (concat Rs) obj m = None"
proof (rule last_value_none)
  show "\<forall>x \<in> set (concat Rs). fst x \<noteq> obj \<or> fst (snd x) \<noteq> m"
    using assms by (induction rule: list_all2_induct) (auto simp: adds_def)
qed

lemma adds_off:
  assumes "list_all2 (adds K T V PL c) fps Rs" "props_apart p"
    "\<forall>fq \<in> set fps. plane_id (PL (fp_plane fq)) = plane_id p \<longrightarrow> fp_type fq = kDisable \<and> PL (fp_plane fq) = p"
    "m = ''crtc_property'' \<or> m = ''fb_property''"
  shows "last_value (concat Rs) (plane_id p) (plane_prop_id p m) \<in> {None, Some 0}"
  using assms(1,3)
proof (induction rule: list_all2_induct)
  case (Cons fq fps R Rs)
  have "last_value R (plane_id p) (plane_prop_id p m) \<in> {None, Some 0}"
  proof (cases "plane_id (PL (fp_plane fq)) = plane_id p")
    case True
    with Cons have "R = tagged (plane_id p) (off_asked p)" by (simp add: adds_def)
    with off_reads [OF assms(2,4)] show ?thesis by simp
  next
    case False
    with Cons(1) have "last_value R (plane_id p) (plane_prop_id p m) = None"
      by (intro last_value_none) (simp add: adds_def)
    then show ?thesis by simp
  qed
  with Cons show ?case by (auto split: option.split)
qed simp

lemma adds_reads:
  assumes "list_all2 (adds K T V PL c) fps Rs" "once_each PL fps" "fp \<in> set fps"
    "\<forall>fq \<in> set fps. props_apart (PL (fp_plane fq))" "inj_on (\<lambda>q. plane_id (PL q)) (fp_plane ` set fps)"
  shows "(fp_type fp = kDisable \<longrightarrow> (\<forall>m \<in> {''crtc_property'', ''fb_property''}.
            last_value (concat Rs) (plane_id (PL (fp_plane fp))) (plane_prop_id (PL (fp_plane fp)) m) = Some 0)) \<and>
         (\<forall>i mv. fp_type fp \<noteq> kDisable \<and> fp_sources fp = [i] \<and> plain_layer V (PL (fp_plane fp)) fp (dc_layers c ! i) \<and>
            mv \<in> set (plane_values T c fp (dc_layers c ! i)) \<longrightarrow>
            last_value (concat Rs) (plane_id (PL (fp_plane fp))) (plane_prop_id (PL (fp_plane fp)) (fst mv)) = Some (snd mv))"
  using assms
proof (induction rule: list_all2_induct)
  case (Cons fq fps R Rs)
  let ?p = "PL (fp_plane fp)"
  from Cons.prems(4) have inj: "inj_on (\<lambda>q. plane_id (PL q)) (fp_plane ` set fps)" by (rule inj_on_subset) auto
  show ?case
  proof (cases "fp \<in> set fps")
    case True
    with Cons.IH Cons.prems(1,3) inj show ?thesis by (auto simp: once_each_def)
  next
    case False
    with Cons.prems(2) have fq: "fq = fp" by simp
    with Cons.prems(3) have ap: "props_apart ?p" by simp
    have same: "PL (fp_plane fr) = ?p" if "fr \<in> set fps" "plane_id (PL (fp_plane fr)) = plane_id ?p" for fr
      using inj_onD [OF Cons.prems(4) that(2)] that(1) fq by simp
    show ?thesis
    proof (cases "fp_type fp = kDisable")
      case True
      with Cons(1) fq have R: "R = tagged (plane_id ?p) (off_asked ?p)" by (simp add: adds_def)
      have "\<forall>fr \<in> set fps. plane_id (PL (fp_plane fr)) = plane_id ?p \<longrightarrow> fp_type fr = kDisable \<and> PL (fp_plane fr) = ?p"
        using Cons.prems(1) fq same by (auto simp: once_each_def)
      note rest = adds_off [OF Cons(2) ap this]
      have "last_value (R @ concat Rs) (plane_id ?p) (plane_prop_id ?p m) = Some 0"
        if "m = ''crtc_property'' \<or> m = ''fb_property''" for m
        using rest [OF that] off_reads [OF ap that, of "plane_id ?p"] by (auto simp: R)
      with True show ?thesis by simp
    next
      case False
      then have "\<forall>fr \<in> set fps. plane_id (PL (fp_plane fr)) \<noteq> plane_id ?p"
        using Cons.prems(1) fq by (auto simp: once_each_def)
      note e = adds_elsewhere [OF Cons(2) this]
      show ?thesis
        using False Cons(1) fq plain_reads [OF _ ap] by (auto simp: e adds_def)
    qed
  qed
qed simp

lemma frame_request_parts:
  assumes "frame_request K T W V PL d n k c disabled ps = Some (ret, c', dis, ps')" "accepting W"
    "\<forall>fp \<in> set (dc_planes c). showable V PL (dc_layers c) fp"
  shows "\<exists>R Rs. fst ps' = R @ concat Rs \<and> list_all2 (adds K T V PL c) (dc_planes c) Rs"
proof -
  from assms(1) obtain stop ret1 ps1 where o: "collect_overscan T W V d n k c ps = Some (stop, ret1, ps1)"
    and r: "(if stop then Some (ret1, c, disabled, ps1)
        else Option.bind (collect_planes K T W V PL c (dc_planes c)
               \<lparr> co_ret = ret1, co_req = ps1, co_layers = dc_layers c, co_disabled = disabled \<rparr>)
             (\<lambda>s. Some (co_ret s, c\<lparr> dc_layers := co_layers s \<rparr>, co_disabled s, co_req s))) = Some (ret, c', dis, ps')"
    by (auto simp: frame_request_def split: bind_splits)
  have "\<not> stop" using collect_overscan_ok(2) [OF o assms(2)] by blast
  with r obtain s where s: "collect_planes K T W V PL c (dc_planes c)
      \<lparr> co_ret = ret1, co_req = ps1, co_layers = dc_layers c, co_disabled = disabled \<rparr> = Some s" "ps' = co_req s"
    by (auto split: bind_splits)
  from collect_planes_asks [OF assms(2,3) _ s(1)] s(2) show ?thesis by auto
qed

section \<open>The property\<close>

text \<open>
  C23: What is planned for a frame is what the kernel is asked.  Suppose the kernel refuses no property;
  every plane of the frame is to be disabled or shows one layer, which has a framebuffer and a colour
  space the plane can be given, or is a sideband stream, with a CRTC (\<open>showable\<close>); only planes to
  disable come more than once; planes have different object ids, and the properties of a plane have
  different ids.  If collecting the properties ends, it returns 0, and in the request the last values
  of every plane with a plain layer (framebuffer, no sideband) are: the CRTC and framebuffer of its
  entry, the rectangle on the screen (the mirror's for a mirror's plane), the source rectangle of the
  layer in 16.16, and the entry's position (1 for display numbers above 15); every plane to disable has no CRTC
  and no framebuffer, however often it was added.
\<close>

theorem frame_request_exact:
  assumes "frame_request K T W V PL d n k c disabled ps = Some (ret, c', dis, ps')" "accepting W"
    "\<forall>fp \<in> set (dc_planes c). showable V PL (dc_layers c) fp" "once_each PL (dc_planes c)"
    "\<forall>fp \<in> set (dc_planes c). props_apart (PL (fp_plane fp))"
    "inj_on (\<lambda>q. plane_id (PL q)) (fp_plane ` set (dc_planes c))"
  shows "ret = 0 \<and>
    (\<forall>fp \<in> set (dc_planes c). \<forall>value.
       value = (\<lambda>m. last_value (fst ps') (plane_id (PL (fp_plane fp))) (plane_prop_id (PL (fp_plane fp)) m)) \<longrightarrow>
       (fp_type fp = kDisable \<longrightarrow> value ''crtc_property'' = Some 0 \<and> value ''fb_property'' = Some 0) \<and>
       (\<forall>i l k b. fp_type fp \<noteq> kDisable \<and> fp_sources fp = [i] \<and> l = dc_layers c ! i \<and> fp_crtc fp = Some k \<and>
          \<not> bSidebandStreamLayer l \<and> fl_fb l = Some b \<and> 0 \<le> b \<longrightarrow>
          (let f = (if fp_mirror fp then fl_frame_mirror l else display_frame l);
               (x, y, w, h) = source_rect (device_soc T) (DrmHwcLayer.truncate l)
           in List.map value own_props =
              List.map Some [ucast (ci_id (ci T k)), u64_of b, u64_of (left f), u64_of (top f),
                 u64_of (right f - left f), u64_of (bottom f - top f), fixed16 x, fixed16 y, fixed16 w, fixed16 h,
                 u64_of (if 0xf < dc_display c then 1 else fp_zpos fp)])))"
proof (intro conjI ballI allI impI)
  show "ret = 0" by (rule frame_request_ok(3) [OF assms(1,2)])
  fix fp "value" assume fp: "fp \<in> set (dc_planes c)"
    and v: "value = (\<lambda>m. last_value (fst ps') (plane_id (PL (fp_plane fp))) (plane_prop_id (PL (fp_plane fp)) m))"
  obtain R Rs where R: "fst ps' = R @ concat Rs" "list_all2 (adds K T V PL c) (dc_planes c) Rs"
    using frame_request_parts [OF assms(1-3)] by blast
  note r = adds_reads [OF R(2) assms(4) fp assms(5,6)]
  show "value ''crtc_property'' = Some 0" "value ''fb_property'' = Some 0" if "fp_type fp = kDisable"
    using r that by (simp_all add: v R(1))
  fix i l k b
  assume a: "fp_type fp \<noteq> kDisable \<and> fp_sources fp = [i] \<and> l = dc_layers c ! i \<and> fp_crtc fp = Some k \<and>
    \<not> bSidebandStreamLayer l \<and> fl_fb l = Some b \<and> 0 \<le> b"
  with assms(3) fp have pl: "plain_layer V (PL (fp_plane fp)) fp l" by (auto simp: showable_def)
  have "value (fst mv) = Some (snd mv)" if "mv \<in> set (plane_values T c fp l)" for mv
  proof -
    have "last_value (concat Rs) (plane_id (PL (fp_plane fp))) (plane_prop_id (PL (fp_plane fp)) (fst mv)) = Some (snd mv)"
      using r a pl that by blast
    then show ?thesis by (simp add: v R(1))
  qed
  then have "List.map value (List.map fst (plane_values T c fp l)) = List.map Some (List.map snd (plane_values T c fp l))"
    by simp
  moreover from a have "fp_crtc fp = Some k" "fl_fb l = Some b" by blast+
  ultimately show "let f = (if fp_mirror fp then fl_frame_mirror l else display_frame l);
               (x, y, w, h) = source_rect (device_soc T) (DrmHwcLayer.truncate l)
           in List.map value own_props =
              List.map Some [ucast (ci_id (ci T k)), u64_of b, u64_of (left f), u64_of (top f),
                 u64_of (right f - left f), u64_of (bottom f - top f), fixed16 x, fixed16 y, fixed16 w, fixed16 h,
                 u64_of (if 0xf < dc_display c then 1 else fp_zpos fp)]"
    unfolding value_names by (simp add: plane_values_def plane_zpos_def Let_def split: prod.split)
qed

text \<open>A frame of one layer: it is on the first plane, the second plane is disabled twice.\<close>

definition plane_of :: "pptr \<Rightarrow> DrmPlane" where
  "plane_of q = plane0\<lparr> plane_id := (if snd q = 0 then 71 else 72),
     plane_props := List.map (\<lambda>(m, i). (m, DrmProperty_default\<lparr> prop_id := i \<rparr>))
       (zip own_props [1, 2, 3, 4, 5, 6, 7, 8, 9, 10, 11]) \<rparr>"

definition shown_layer :: frame_layer where
  "shown_layer = DrmHwcLayer.extend
     (layer0\<lparr> display_frame := \<lparr> left = 10, top = 20, right = 110, bottom = 220 \<rparr>,
              source_crop := \<lparr> fleft = 0, ftop = 0, fright = 100, fbottom = 200 \<rparr> \<rparr>)
     \<lparr> fl_release = None, fl_tunnel = 0, fl_sideband2 = False,
       fl_frame_mirror = \<lparr> left = 0, top = 0, right = 0, bottom = 0 \<rparr>, fl_fb = Some 5, fl_metadata_hdr = None \<rparr>"

definition one_layer_frame :: frame_comp where
  "one_layer_frame =
     AddPlaneDisable (0, 1) (AddPlaneDisable (0, 1)
       (AddPlaneComposition \<lparr> fp_type = kLayer, fp_plane = (0, 0), fp_crtc = Some 0, fp_sources = [0],
            fp_zpos = 3, fp_mirror = False \<rparr>
         (composition_new\<lparr> dc_type := DRM_COMPOSITION_TYPE_FRAME, dc_crtc := Some 0, dc_layers := [shown_layer] \<rparr>)))"

definition frame_env0 :: frame_env where
  "frame_env0 =
     \<lparr> fe_margins = (\<lambda>k. \<lparr> b_can_overscan = False, left_margin_property = 0, right_margin_property = 0,
                          top_margin_property = 0, bottom_margin_property = 0 \<rparr>),
       fe_unique_name = (\<lambda>n. []), fe_pget = (\<lambda>k d. d), fe_drm_version = 3 \<rparr>"

lemma plane_of_id:
  "plane_prop_id (plane_of q) m = (case map_of (zip own_props [1, 2, 3, 4, 5, 6, 7, 8, 9, 10, 11]) m of None \<Rightarrow> 0 | Some i \<Rightarrow> i)"
  by (simp add: plane_prop_id_def plane_prop_def plane_of_def map_of_map DrmProperty_default_def split: option.split)

lemma plane_of_ids: "List.map (plane_prop_id (plane_of q)) own_props = [1, 2, 3, 4, 5, 6, 7, 8, 9, 10, 11]"
  unfolding plane_of_id by code_simp

lemma plane_of_more: "\<forall>m \<in> set more_props. plane_prop_id (plane_of q) m = 0"
  unfolding plane_of_id by code_simp

lemma one_layer_frame_ok:
  "\<forall>fp \<in> set (dc_planes one_layer_frame). showable frame_env0 plane_of (dc_layers one_layer_frame) fp"
  "once_each plane_of (dc_planes one_layer_frame)"
  "\<forall>fp \<in> set (dc_planes one_layer_frame). props_apart (plane_of (fp_plane fp))"
  "inj_on (\<lambda>q. plane_id (plane_of q)) (fp_plane ` set (dc_planes one_layer_frame))"
proof -
  note d = one_layer_frame_def AddPlaneDisable_def AddPlaneComposition_def composition_new_def
  show "once_each plane_of (dc_planes one_layer_frame)"
    by (simp add: d once_each_def plane_of_def)
  show "\<forall>fp \<in> set (dc_planes one_layer_frame). props_apart (plane_of (fp_plane fp))"
    unfolding props_apart_def plane_of_ids by (simp add: plane_of_more)
  show "inj_on (\<lambda>q. plane_id (plane_of q)) (fp_plane ` set (dc_planes one_layer_frame))"
    by (simp add: d plane_of_def)
  show "\<forall>fp \<in> set (dc_planes one_layer_frame). showable frame_env0 plane_of (dc_layers one_layer_frame) fp"
    by (simp add: d showable_def plain_layer_def shown_layer_def DrmHwcLayer.extend_def layer0_def color_props_def
      gIsDrmVerison6_1_def frame_env0_def)
qed

lemma one_layer_frame_source: "source_rect (device_soc T2) (DrmHwcLayer.truncate (dc_layers one_layer_frame ! 0)) = (0, 0, 100, 200)"
  by code_simp

lemma one_layer_frame_returns: "frame_request sdk0 T2 W_yes frame_env0 plane_of 0 0 0 one_layer_frame [] ([], s_dark) \<noteq> None"
  by code_simp

lemma frame_request_exact_witness:
  "case frame_request sdk0 T2 W_yes frame_env0 plane_of 0 0 0 one_layer_frame [] ([], s_dark) of
     None \<Rightarrow> False
   | Some (ret, c', dis, R, s') \<Rightarrow> ret = 0 \<and>
       List.map (last_value R 71) [1, 2, 3, 4, 5, 6] = List.map Some [50, 5, 10, 20, 100, 200] \<and>
       last_value R 72 1 = Some 0 \<and> last_value R 72 2 = Some 0"
proof -
  obtain ret c' dis R s' where r: "frame_request sdk0 T2 W_yes frame_env0 plane_of 0 0 0 one_layer_frame [] ([], s_dark) =
      Some (ret, c', dis, R, s')"
    using one_layer_frame_returns by (metis option.exhaust surj_pair)
  have w: "accepting W_yes" by (simp add: accepting_def W_yes_def)
  note t = frame_request_exact [OF r w one_layer_frame_ok]
  have p: "dc_planes one_layer_frame =
    [\<lparr> fp_type = kLayer, fp_plane = (0, 0), fp_crtc = Some 0, fp_sources = [0], fp_zpos = 3, fp_mirror = False \<rparr>,
     \<lparr> fp_type = kDisable, fp_plane = (0, 1), fp_crtc = Some 0, fp_sources = [], fp_zpos = 0, fp_mirror = False \<rparr>,
     \<lparr> fp_type = kDisable, fp_plane = (0, 1), fp_crtc = Some 0, fp_sources = [], fp_zpos = 0, fp_mirror = False \<rparr>]"
    by (simp add: one_layer_frame_def AddPlaneDisable_def AddPlaneComposition_def composition_new_def)
  have l: "dc_layers one_layer_frame = [shown_layer]"
    by (simp add: one_layer_frame_def AddPlaneDisable_def AddPlaneComposition_def composition_new_def)
  have f: "\<not> bSidebandStreamLayer shown_layer" "fl_fb shown_layer = Some 5"
    "display_frame shown_layer = \<lparr> left = 10, top = 20, right = 110, bottom = 220 \<rparr>"
    by (simp_all add: shown_layer_def DrmHwcLayer.extend_def layer0_def)
  have id: "plane_id (plane_of (0, 0)) = 71" "plane_id (plane_of (0, Suc 0)) = 72" by (simp_all add: plane_of_def)
  have ids: "plane_prop_id (plane_of q) ''crtc_property'' = 1" "plane_prop_id (plane_of q) ''fb_property'' = 2"
    "plane_prop_id (plane_of q) ''crtc_x_property'' = 3" "plane_prop_id (plane_of q) ''crtc_y_property'' = 4"
    "plane_prop_id (plane_of q) ''crtc_w_property'' = 5" "plane_prop_id (plane_of q) ''crtc_h_property'' = 6" for q
    using plane_of_ids [of q] by (simp_all add: own_props_def)
  from t have "ret = 0" "last_value R 72 1 = Some 0" "last_value R 72 2 = Some 0"
    by (simp_all add: p id ids)
  moreover have "List.map (last_value R 71) [1, 2, 3, 4, 5, 6] = List.map Some [50, 5, 10, 20, 100, 200]"
    using conjunct2 [OF t, rule_format, of "hd (dc_planes one_layer_frame)", OF _ refl, THEN conjunct2, rule_format,
      of 0 shown_layer 0 5] one_layer_frame_source
    by (simp add: p l f id ids own_props_def u64_of_def T2_def Let_def split: prod.splits)
  ultimately show ?thesis by (simp add: r)
qed

end
