(* ===== verification/Compositor_Claims.thy ===== *)
theory Compositor_Claims
  imports Compositor_Fifo Compositor_Queue Compositor_Request Connector_Best
begin

text \<open>
  The frames of one display as long as nothing fails: no fence is signalled before its frame has left
  the screen.
\<close>

section \<open>One display, nothing failing\<close>

text \<open>
  The steps of \<open>comp_step\<close> on one display \<open>d\<close>: frames are numbered upwards, queued in the order in
  which their fences were made and while the display is on; the kernel makes every fence and takes
  every request; connector and CRTC are there when a round begins.
\<close>

inductive orderly :: "comp_env \<Rightarrow> sync_kernel \<Rightarrow> int \<Rightarrow> frame_world \<Rightarrow> frame_world \<Rightarrow> bool" for E Y d where
  make: "CreateAndAssignReleaseFences Y (cm_lines cm) c = Some (0, ts, c', bs) \<Longrightarrow>
    \<forall>l \<in> set (dc_layers c). fl_release l = None \<Longrightarrow> dc_type c = DRM_COMPOSITION_TYPE_FRAME \<Longrightarrow> dc_display c = d \<Longrightarrow>
    \<forall>x \<in> set (alive cm @ hs). dc_frame_no x < dc_frame_no c \<Longrightarrow>
    orderly E Y d (hs, cm, s) (hs @ [c'], cm\<lparr> cm_lines := ts \<rparr>, s)"
| queue: "QueueComposition E c cm = (r, cm') \<Longrightarrow> dc_type c = DRM_COMPOSITION_TYPE_FRAME \<Longrightarrow> cm_active cm \<Longrightarrow>
    orderly E Y d (c # hs, cm, s) (if r = None then c # hs else hs, cm', s)"
| wake: "wait_for_room c cm = (r, cm') \<Longrightarrow> cm_display cm = d \<Longrightarrow>
    orderly E Y d (c # hs, cm, s) (if r = None then c # hs else hs, cm', s)"
| power: "QueueComposition E c cm = (r, cm') \<Longrightarrow> dc_type c = DRM_COMPOSITION_TYPE_DPMS \<Longrightarrow> dc_planes c = [] \<Longrightarrow>
    orderly E Y d (hs, cm, s) (hs, cm', s)"
| compose: "Composite E (cm, s) = Some (cm', s') \<Longrightarrow> connected E d s \<Longrightarrow> orderly E Y d (hs, cm, s) (hs, cm', s')"
| clear: "ClearDisplay E (cm, s) = (cm', s') \<Longrightarrow> orderly E Y d (hs, cm, s) (hs, cm', s')"
| route: "orderly E Y d (hs, cm, s) (hs, cm, s')"














section \<open>The properties\<close>

text \<open>A compositor for the witnesses, for the frame of \<open>Compositor_Request\<close> with a number.\<close>

definition hdr_sdk0 :: hdr_sdk where
  "hdr_sdk0 =
     \<lparr> COLORIMETRY_DEFAULT = 0, COLORIMETRY_BT2020_RGB = 9, COLORIMETRY_BT2020_YCC = 10, COLOR_PRIM_BT2020 = 6,
       w_hdr_blob = (\<lambda>t. (0, 8)) \<rparr>"

definition comp_env0 :: comp_env where
  "comp_env0 =
     \<lparr> he_K = sdk0, he_C = conn_sdk0, he_F = formats0, he_H = hdr_sdk0, he_W = W_yes, he_V = frame_env0, he_T = T2,
       he_answer = (\<lambda>n. None), he_ext_prop = (\<lambda>k. 30), ce_planes = plane_of,
       ce_producer = \<lparr> vp_valid = False, vp_fps = (\<lambda>i. 0), vp_connect = (\<lambda>i j. 0), vp_acquire = (\<lambda>i j. None) \<rparr>,
       ce_EPERM = 1, ce_DPMS_ON = 0 \<rparr>"

definition compositor0 :: compositor where
  "compositor0 =
     \<lparr> cm_initialized = True, cm_active = True, cm_clear = False, cm_drop = False, cm_display = 0, cm_queue = [],
       cm_cnt = (\<lambda>d. 0), cm_pset = None, cm_collect = [], cm_live = [], cm_frame_no = 0,
       cm_current = \<lparr> sb_enable = False, sb_tunnel = 0, sb_buffer = None \<rparr>,
       cm_drawing = \<lparr> sb_enable = False, sb_tunnel = 0, sb_buffer = None \<rparr>, cm_disabled = [],
       cm_hdr = \<lparr> hr_cur = \<lparr> hd_mode = DRM_HWC_SDR, hd_yuv10 = False, hd_dataspace = 0 \<rparr>,
                  hr_req = \<lparr> hd_mode = DRM_HWC_SDR, hd_yuv10 = False, hd_dataspace = 0 \<rparr>, hr_need = False,
                  hr_blob = 0,
                  hr_sinks = (\<lambda>n. sink.extend sink0
                    \<lparr> hs_metadata_prop = 0, hs_colorspace_prop = 0, hs_st2084 = False, hs_hlg = False, hs_blob = 0,
                      hs_last = hdr_meta_zero, hs_colorspace = 0 \<rparr>) \<rparr>,
       cm_lines = (\<lambda>d. \<lparr> tl_cnt = 0, tl_now = 0 \<rparr>), cm_vp = [] \<rparr>"

definition frame_nr :: "nat \<Rightarrow> frame_comp" where
  "frame_nr n = one_layer_frame\<lparr> dc_frame_no := n \<rparr>"

definition fence0 :: "int \<Rightarrow> ReleaseFence" where
  "fence0 v = \<lparr> rf_fd = 7, rf_line = 0, rf_value = v \<rparr>"

definition with_fence :: "int \<Rightarrow> frame_comp \<Rightarrow> frame_comp" where
  "with_fence v c = c\<lparr> dc_layers := [shown_layer\<lparr> fl_release := Some (fence0 v) \<rparr>] \<rparr>"

lemma frame_nr_fields:
  "dc_layers (frame_nr n) = [shown_layer]" "dc_display (frame_nr n) = 0" "dc_frame_no (frame_nr n) = n"
  "dc_type (frame_nr n) = DRM_COMPOSITION_TYPE_FRAME" "comp_layers (frame_nr n) = [0]" "dc_drop (frame_nr n) = False"
  "fl_release shown_layer = None" "fl_sideband2 shown_layer = False" "dc_signal (frame_nr n) = False"
  "pRgaBuffer (buf shown_layer) = None"
  by (simp_all add: frame_nr_def one_layer_frame_def AddPlaneDisable_def AddPlaneComposition_def composition_new_def
    comp_layers_def shown_layer_def DrmHwcLayer.extend_def layer0_def buf0_def)

text \<open>The fence of the frame is the next one, and the frame is queued if there is room.\<close>

lemma frame_nr_made:
  "CreateAndAssignReleaseFences (\<lambda>d v. 7) ts (frame_nr n) =
   Some (0, ts(0 := (ts 0)\<lparr> tl_cnt := tl_cnt (ts 0) + 1 \<rparr>), with_fence (tl_cnt (ts 0) + 1) (frame_nr n), [])"
proof -
  have "(frame_nr n)\<lparr> dc_signal := False \<rparr> = frame_nr n" by (simp add: frame_nr_def one_layer_frame_def
    AddPlaneDisable_def AddPlaneComposition_def composition_new_def)
  then show ?thesis
    by (simp add: CreateAndAssignReleaseFences_def sources_ok_def frame_nr_fields IncTimeline_def ReleaseFence_new_def
      upd_frame_layer_def with_fence_def fence0_def Let_def)
qed

lemma with_fence_due: "due (with_fence v (frame_nr n)) = [fence0 v]"
proof -
  have "comp_layers (with_fence v (frame_nr n)) = [0]"
    using frame_nr_fields(5) [of n] by (simp add: comp_layers_def with_fence_def)
  then show ?thesis
    by (simp add: due_def comp_fences_def map_filter_def with_fence_def frame_nr_fields)
qed

lemma with_fence_queued:
  assumes "cm_active cm" "cm_initialized cm" "cm_cnt cm 0 = 0"
  shows "\<exists>cm'. QueueComposition E (with_fence v (frame_nr n)) cm = (Some 0, cm') \<and>
    alive cm' = alive cm @ [with_fence v (frame_nr n)] \<and> cm_queue cm' = cm_queue cm @ [with_fence v (frame_nr n)] \<and>
    cm_lines cm' = cm_lines cm \<and> cm_active cm' \<and> cm_initialized cm'"
  using assms
  by (simp add: QueueComposition_def wait_for_room_def GetCompositeQueueMaxSize_def with_fence_def frame_nr_fields
    upd_cnt_def alive_def)

text \<open>The first frame is queued and the display cleared; then the second frame is queued.\<close>

definition Y0 :: sync_kernel where "Y0 = (\<lambda>d v. 7)"

lemma compositor0_fields:
  "cm_active compositor0" "cm_initialized compositor0" "cm_cnt compositor0 = (\<lambda>d. 0)" "cm_queue compositor0 = []"
  "cm_lines compositor0 = (\<lambda>d. \<lparr> tl_cnt = 0, tl_now = 0 \<rparr>)" "alive compositor0 = []" "dormant compositor0"
  by (simp_all add: compositor0_def alive_def dormant_def)

text \<open>Making a frame and queueing it, as steps.\<close>

lemma frame_enters:
  assumes "cm_active cm" "cm_initialized cm" "cm_cnt cm 0 = 0" "\<forall>x \<in> set (alive cm). dc_frame_no x < n"
  shows "\<exists>cm'. (comp_step E Y0)\<^sup>*\<^sup>* ([], cm, s) ([], cm', s) \<and> (orderly E Y0 0)\<^sup>*\<^sup>* ([], cm, s) ([], cm', s) \<and>
    alive cm' = alive cm @ [with_fence (tl_cnt (cm_lines cm 0) + 1) (frame_nr n)] \<and>
    cm_queue cm' = cm_queue cm @ [with_fence (tl_cnt (cm_lines cm 0) + 1) (frame_nr n)] \<and>
    cm_lines cm' = (cm_lines cm)(0 := (cm_lines cm 0)\<lparr> tl_cnt := tl_cnt (cm_lines cm 0) + 1 \<rparr>) \<and>
    cm_active cm' \<and> cm_initialized cm'"
proof -
  let ?v = "tl_cnt (cm_lines cm 0) + 1"
  let ?ts = "(cm_lines cm)(0 := (cm_lines cm 0)\<lparr> tl_cnt := ?v \<rparr>)"
  let ?c = "with_fence ?v (frame_nr n)" and ?k = "cm\<lparr> cm_lines := ?ts \<rparr>"
  have m: "CreateAndAssignReleaseFences Y0 (cm_lines cm) (frame_nr n) = Some (0, ?ts, ?c, [])"
    unfolding Y0_def by (rule frame_nr_made)
  have l: "\<forall>l \<in> set (dc_layers (frame_nr n)). fl_release l = None" by (simp add: frame_nr_fields)
  have f: "dc_type ?c = DRM_COMPOSITION_TYPE_FRAME" by (simp add: with_fence_def frame_nr_fields)
  from with_fence_queued [of ?k E ?v n] assms obtain cm' where q: "QueueComposition E ?c ?k = (Some 0, cm')"
    "alive cm' = alive ?k @ [?c]" "cm_queue cm' = cm_queue ?k @ [?c]" "cm_lines cm' = cm_lines ?k" "cm_active cm'" "cm_initialized cm'" by auto
  have "comp_step E Y0 ([], cm, s) ([] @ [?c], ?k, s)" by (rule comp_step.made [OF m l])
  moreover have "comp_step E Y0 ([] @ ?c # [], ?k, s) ([] @ [], cm', s)" by (rule comp_step.queued [OF q(1)])
  ultimately have 1: "(comp_step E Y0)\<^sup>*\<^sup>* ([], cm, s) ([], cm', s)" by simp
  have "orderly E Y0 0 ([], cm, s) ([] @ [?c], ?k, s)"
    using assms(4) by (intro orderly.make [OF m l]) (simp_all add: frame_nr_fields)
  moreover have "orderly E Y0 0 (?c # [], ?k, s) (if Some (0 :: int) = None then ?c # [] else [], cm', s)"
    by (rule orderly.queue [OF q(1) f]) (use assms in simp)
  ultimately have 2: "(orderly E Y0 0)\<^sup>*\<^sup>* ([], cm, s) ([], cm', s)" by simp
  have "alive ?k = alive cm" by (simp add: alive_def)
  with 1 2 q show ?thesis by auto
qed

lemma two_frames:
  "\<exists>cm s. (comp_step comp_env0 Y0)\<^sup>*\<^sup>* ([], compositor0, s_dark) ([], cm, s) \<and>
     (orderly comp_env0 Y0 0)\<^sup>*\<^sup>* ([], compositor0, s_dark) ([], cm, s) \<and>
     alive cm = [with_fence 2 (frame_nr 2)] \<and> cm_queue cm = [with_fence 2 (frame_nr 2)] \<and>
     tl_cnt (cm_lines cm 0) = 2 \<and> tl_now (cm_lines cm 0) = 1"
proof -
  let ?w = "([], compositor0, s_dark) :: frame_world"
  note c0 = compositor0_fields
  obtain cm1 where 1: "(comp_step comp_env0 Y0)\<^sup>*\<^sup>* ?w ([], cm1, s_dark)" "(orderly comp_env0 Y0 0)\<^sup>*\<^sup>* ?w ([], cm1, s_dark)"
    "alive cm1 = [with_fence 1 (frame_nr 1)]" "cm_lines cm1 = (\<lambda>d. \<lparr> tl_cnt = if d = 0 then 1 else 0, tl_now = 0 \<rparr>)"
    "cm_active cm1" "cm_initialized cm1"
    using frame_enters [of compositor0 1 comp_env0 s_dark] by (auto simp: c0 fun_eq_iff)
  obtain cm2 s2 where c: "ClearDisplay comp_env0 (cm1, s_dark) = (cm2, s2)" by (cases "ClearDisplay comp_env0 (cm1, s_dark)")
  note r = ClearDisplay_result [OF 1(6) c]
  have "owed 0 (alive cm1) = 1" using with_fence_due [of 1 1] by (simp add: 1(3) on_line_def fence0_def)
  then have l: "tl_cnt (cm_lines cm2 0) = 1" "tl_now (cm_lines cm2 0) = 1" using r(6,7) [of 0] by (simp_all add: 1(4))
  obtain cm3 where 3: "(comp_step comp_env0 Y0)\<^sup>*\<^sup>* ([], cm2, s2) ([], cm3, s2)"
    "(orderly comp_env0 Y0 0)\<^sup>*\<^sup>* ([], cm2, s2) ([], cm3, s2)" "alive cm3 = [with_fence 2 (frame_nr 2)]"
    "cm_queue cm3 = [with_fence 2 (frame_nr 2)]" "cm_lines cm3 0 = (cm_lines cm2 0)\<lparr> tl_cnt := 2 \<rparr>"
    using frame_enters [of cm2 2 comp_env0 s2] r(1,2,5,11,12) 1(5) by (auto simp: l(1))
  have n: "tl_cnt (cm_lines cm3 0) = 2" "tl_now (cm_lines cm3 0) = 1" using l by (simp_all add: 3(5))
  have s: "comp_step comp_env0 Y0 ([], cm1, s_dark) ([], cm2, s2)" "orderly comp_env0 Y0 0 ([], cm1, s_dark) ([], cm2, s2)"
    by (rule comp_step.cleared [OF c], rule orderly.clear [OF c])
  have "(comp_step comp_env0 Y0)\<^sup>*\<^sup>* ?w ([], cm3, s2)" "(orderly comp_env0 Y0 0)\<^sup>*\<^sup>* ?w ([], cm3, s2)"
    by (rule rtranclp_trans [OF rtranclp.rtrancl_into_rtrancl [OF 1(1) s(1)] 3(1)],
        rule rtranclp_trans [OF rtranclp.rtrancl_into_rtrancl [OF 1(2) s(2)] 3(2)])
  with 3 n show ?thesis by blast
qed



text \<open>
  C30: No release fence is lost and none is signalled twice.  Start without frames and with every fence
  signalled; the layers of a new frame carry no fence, and a frame queued without making fences has no
  planes.  Whatever then happens to the frames of all displays, in any order - fences made or refused by the kernel, frames queued, kept waiting, refused or
  given up, rounds that fail to collect or to commit, displays cleared or unplugged - the counter of a
  timeline and the fences that the frames still owe it never exceed what the HAL has counted, and they
  are equal to it if the kernel has made every fence: when all frames are gone every fence is
  signalled.
\<close>

theorem fences_accounted:
  assumes "(comp_step E Y)\<^sup>*\<^sup>* ([], cm, s) (hs, cm', s')" "dormant cm"
  shows "tl_now (cm_lines cm' d) + int (owed d (alive cm' @ hs)) \<le> tl_cnt (cm_lines cm' d) \<and>
    ((\<forall>v. Y d v \<noteq> -1) \<longrightarrow> tl_now (cm_lines cm' d) + int (owed d (alive cm' @ hs)) = tl_cnt (cm_lines cm' d))"
  using accounted_run [OF assms(1) dormant_accounted [OF assms(2)]]
  by (simp add: accounted_def balance_def ac_simps)

lemma fences_accounted_witness:
  "\<exists>cm s. (comp_step comp_env0 Y0)\<^sup>*\<^sup>* ([], compositor0, s_dark) ([], cm, s) \<and> owed 0 (alive cm) = 1 \<and>
     tl_now (cm_lines cm 0) + 1 = tl_cnt (cm_lines cm 0)"
proof -
  obtain cm s where r: "(comp_step comp_env0 Y0)\<^sup>*\<^sup>* ([], compositor0, s_dark) ([], cm, s)"
    and a: "alive cm = [with_fence 2 (frame_nr 2)]" using two_frames by blast
  have "owed 0 (alive cm) = 1" using with_fence_due [of 2 2] by (simp add: a on_line_def fence0_def)
  with fences_accounted [OF r compositor0_fields(7), of 0] r show ?thesis by (auto simp: Y0_def)
qed

text \<open>
  C35: The queue is bounded.  Start with an empty queue and its counters at zero.  Whatever then happens to the frames, the counter that decides whether a frame
  has to wait is the number of frames its display has queued; it is at most ten, and as long as frames
  are not dropped at most one frame is queued: all but the first of them came in drop mode.
\<close>

theorem queue_bounded:
  assumes "(comp_step E Y)\<^sup>*\<^sup>* (hs, cm, s) (hs', cm', s')" "cm_queue cm = []" "cm_cnt cm = (\<lambda>d. 0)"
    "q = filter (\<lambda>c. dc_display c = d) (cm_queue cm')"
  shows "cm_cnt cm' d = of_nat (length q) \<and> length q \<le> 10 \<and> (\<forall>c \<in> set (tl q). dc_drop c)"
proof -
  have "bounded cm" using assms(2,3) by (simp add: bounded_def)
  with bounded_run [OF assms(1)] have "bounded cm'" by simp
  then show ?thesis unfolding assms(4) bounded_def queued_for_def by blast
qed

lemma queue_bounded_witness:
  "\<exists>cm s. (comp_step comp_env0 Y0)\<^sup>*\<^sup>* ([], compositor0, s_dark) ([], cm, s) \<and> cm_queue cm \<noteq> [] \<and> cm_cnt cm 0 = 1"
proof -
  obtain cm s where r: "(comp_step comp_env0 Y0)\<^sup>*\<^sup>* ([], compositor0, s_dark) ([], cm, s)"
    and q: "cm_queue cm = [with_fence 2 (frame_nr 2)]" using two_frames by blast
  have "filter (\<lambda>c. dc_display c = 0) (cm_queue cm) = [with_fence 2 (frame_nr 2)]"
    by (simp add: q with_fence_def frame_nr_fields)
  with queue_bounded [OF r compositor0_fields(4,3) refl, of 0] r q show ?thesis by auto
qed

end
