(* ===== verification/Hwc_Present.thy ===== *)
theory Hwc_Present
  imports Hwc_Display Compositor
begin

text \<open>
  From a validated frame to the compositor: \<open>ImportBuffers\<close>, \<open>CreateComposition\<close> and
  \<open>PresentDisplay\<close> of \<open>HwcDisplay\<close> (\<open>drmhwctwo.cpp\<close>), for a display that is neither virtual nor one
  of several that share a picture.  The GEM handle of a buffer, the import of a buffer as a
  framebuffer and what only the compositor reads of a layer are functions of \<open>present_env\<close>; the fences
  that go to buffers of the 2D engine, the events and the timer of the static screen are left out.
\<close>

text \<open>
  \<open>pe_more\<close> gives tunnel, second sideband mode, frame on a mirror and HDR metadata of a layer;
  \<open>pe_hdr\<close> the HDR mode and the data space of the frame, \<open>pe_drop\<close> whether frames are dropped.
\<close>

record present_env =
  pe_F :: formats
  pe_layer :: layer_env
  pe_G :: gralloc
  pe_gem :: "hwc_layer \<Rightarrow> u32"
  pe_import :: "DrmHwcLayer \<Rightarrow> int \<times> int"
  pe_more :: "DrmHwcLayer \<Rightarrow> int \<times> bool \<times> hwc_rect \<times> (u32 \<times> hdr_meta) option"
  pe_merge :: "int \<Rightarrow> int \<Rightarrow> int"
  pe_sync :: sync_kernel
  pe_hdr :: "DrmHdrType \<times> u32"
  pe_drop :: bool
  pe_pget :: property_get
  pe_groups :: "gptr list"
  pe_comp :: comp_env

definition pe_K :: "present_env \<Rightarrow> sdk" where
  "pe_K P = he_K (pe_comp P)"

section \<open>Buffers\<close>

definition initOrGetGemhanleFromCache :: "present_env \<Rightarrow> hwc_layer \<Rightarrow> DrmHwcLayer \<Rightarrow> int \<times> DrmHwcLayer" where
  "initOrGetGemhanleFromCache P l q =
     (if hl_info l = None then (-1, q) else (0, q\<lparr> buf := (buf q)\<lparr> uGemHandle := pe_gem P l \<rparr> \<rparr>))"

text \<open>The handle for the layer with the id \<open>k\<close>; a failure ends both loops.\<close>

fun gem_for :: "present_env \<Rightarrow> u64 \<Rightarrow> hwc_layer \<Rightarrow> DrmHwcLayer list \<Rightarrow> int \<times> DrmHwcLayer list" where
  "gem_for P k l [] = (0, [])"
| "gem_for P k l (q # qs) =
     (if \<not> bMatch q \<or> bUseRga (buf q) \<or> bSidebandStreamLayer q \<or> ucast (uId q) \<noteq> k
      then (case gem_for P k l qs of (ret, qs1) \<Rightarrow> (ret, q # qs1))
      else (case initOrGetGemhanleFromCache P l q of (ret, q1) \<Rightarrow>
              if ret \<noteq> 0 then (ret, q1 # qs)
              else (case gem_for P k l qs of (ret2, qs1) \<Rightarrow> (ret2, q1 # qs1))))"

fun gem_all :: "present_env \<Rightarrow> (u64 \<times> hwc_layer) list \<Rightarrow> DrmHwcLayer list \<Rightarrow> int \<times> DrmHwcLayer list" where
  "gem_all P [] qs = (0, qs)"
| "gem_all P ((k, l) # kls) qs =
     (case gem_for P k l qs of (ret, qs1) \<Rightarrow> if ret \<noteq> 0 then (ret, qs1) else gem_all P kls qs1)"

text \<open>
  The FB target gets the buffer of the client layer.  It must be compressed just when the policy
  expected it; otherwise the frame is not shown.
\<close>

fun client_target ::
  "present_env \<Rightarrow> caches \<Rightarrow> hwc_display \<Rightarrow> DrmHwcLayer list \<Rightarrow> (int \<times> DrmHwcLayer list) option" where
  "client_target P c d [] = Some (0, [])"
| "client_target P c d (q # qs) =
     (if \<not> bFbTarget q \<or> bUseRga (buf q) then map_option (\<lambda>(ret, qs1). (ret, q # qs1)) (client_target P c d qs)
      else do {
        q1 \<leftarrow> PopulateFB (pe_K P) (pe_F P) (pe_layer P) (ctx d) c 0 (client_layer d) False q;
        (case initOrGetGemhanleFromCache P (client_layer d) q1 of (ret, q2) \<Rightarrow>
           if ret \<noteq> 0 then Some (ret, q2 # qs)
           else if is_afbc (client_layer d) \<noteq> fourcc_mod_is_vendor (uModifier (buf q2)) (DRM_FORMAT_MOD_VENDOR_ARM (pe_F P))
           then Some (-1, q2 # qs)
           else map_option (\<lambda>(ret2, qs1). (ret2, q2 # qs1)) (client_target P c d qs))
      })"

text \<open>The layers with their framebuffers.\<close>

fun import_layers :: "present_env \<Rightarrow> bool \<Rightarrow> DrmHwcLayer list \<Rightarrow> int \<times> (DrmHwcLayer \<times> int option) list" where
  "import_layers P use_client [] = (0, [])"
| "import_layers P use_client (q # qs) =
     (if \<not> use_client \<and> bFbTarget q \<or> \<not> bMatch q \<or> bSidebandStreamLayer q
      then (case import_layers P use_client qs of (ret, r) \<Rightarrow> (ret, (q, None) # r))
      else (case pe_import P q of (ret, fb) \<Rightarrow>
              if ret \<noteq> 0 then (ret, [])
              else (case import_layers P use_client qs of (ret2, r) \<Rightarrow> (ret2, (q, Some fb) # r))))"

definition ImportBuffers ::
  "present_env \<Rightarrow> DrmMode option \<Rightarrow> caches \<Rightarrow> hwc_display \<Rightarrow> (int \<times> (DrmHwcLayer \<times> int option) list \<times> hwc_display) option"
where
  "ImportBuffers P mode c d =
     (let use_client = (\<exists>(k, l) \<in> set (hd_layers d). validated_type (mCurrentState l) = Client) in
      case gem_all P (hd_layers d) (drm_hwc_layers d) of (ret, qs1) \<Rightarrow>
        if ret \<noteq> 0 then Some (ret, [], d\<lparr> drm_hwc_layers := qs1 \<rparr>)
        else do {
          (ret2, qs2) \<leftarrow> (if use_client then client_target P c d qs1 else Some (0, qs1));
          (if ret2 \<noteq> 0 then Some (ret2, [], d\<lparr> drm_hwc_layers := qs2 \<rparr>)
           else do {
             qs3 \<leftarrow> (if use_client then ModifyHwcLayerDisplayFrame (pe_layer P) mode True (ctx d) qs2 else Some qs2);
             (case import_layers P use_client qs3 of (ret3, r) \<Rightarrow> Some (ret3, r, d\<lparr> drm_hwc_layers := qs3 \<rparr>))
           })
        })"

section \<open>The frame\<close>

definition frame_layer_of :: "present_env \<Rightarrow> DrmHwcLayer \<times> int option \<Rightarrow> frame_layer" where
  "frame_layer_of P qf =
     (case pe_more P (fst qf) of (tunnel, sideband2, mirror, metadata) \<Rightarrow>
        DrmHwcLayer.extend (fst qf)
          \<lparr> fl_release = None, fl_tunnel = tunnel, fl_sideband2 = sideband2, fl_frame_mirror = mirror,
            fl_fb = snd qf, fl_metadata_hdr = metadata \<rparr>)"

text \<open>
  Every layer that is shown on a window gets its fence, every other one none; the client layer the
  fence of the layer \<open>0\<close>, which is the FB target.
\<close>

definition fence_fd :: "u64 \<Rightarrow> frame_comp \<Rightarrow> int option" where
  "fence_fd k c = map_option (\<lambda>rf. case rf of None \<Rightarrow> -1 | Some f \<Rightarrow> rf_fd f) (GetReleaseFence k c)"

definition give_fence :: "frame_comp \<Rightarrow> u64 \<times> hwc_layer \<Rightarrow> (u64 \<times> hwc_layer) option" where
  "give_fence c kl =
     (case kl of (k, l) \<Rightarrow>
        if validated_type (mCurrentState l) = Device
        then map_option (\<lambda>fd. (k, set_release_fence fd l)) (fence_fd k c)
        else Some (k, set_release_fence (-1) l))"

definition give_fences :: "present_env \<Rightarrow> frame_comp \<Rightarrow> hwc_display \<Rightarrow> hwc_display option" where
  "give_fences P c d = do {
     kls \<leftarrow> those (List.map (give_fence c) (hd_layers d));
     fd \<leftarrow> fence_fd 0 c;
     Some (AddFenceToRetireFence (pe_G P) (pe_merge P) (dc_out_fence c)
       (d\<lparr> hd_layers := kls, client_layer := set_release_fence fd (client_layer d) \<rparr>))
   }"

text \<open>
  \<open>CreateComposition\<close> up to the call of \<open>QueueComposition\<close>.  \<open>vk\<close> is the CRTC the frame was validated
  for, \<open>gs\<close> are the plane groups.  A fence that could not be made is not noticed.
\<close>

definition planned_frame :: "present_env \<Rightarrow> cptr option \<Rightarrow> (DrmHwcLayer \<times> int option) list \<Rightarrow> hwc_display \<Rightarrow> int \<times> frame_comp" where
  "planned_frame P vk qs d =
     (let c0 = snd (composition_Init (hd_crtc d) (unat (hd_frame_no d)) (hd_handle d) composition_new)
      in case SetLayers (pe_K P) (List.map (frame_layer_of P) (filter (\<lambda>qf. bMatch (fst qf)) qs)) True c0 of
           (ret, c1) \<Rightarrow> (ret, fold (\<lambda>e. AddPlaneComposition (frame_plane_of vk e)) (composition_planes d) c1))"

definition fence_frame ::
  "present_env \<Rightarrow> frame_comp \<Rightarrow> timelines \<Rightarrow> hwc_display \<Rightarrow> (frame_comp \<times> timelines \<times> hwc_display) option" where
  "fence_frame P c ts d =
     (if atoi (pe_pget P ''vendor.hwc.disable_releaseFence'' ''0'') \<noteq> 0 then Some (c, ts, d)
      else do {
        (ret, ts1, c1, rga) \<leftarrow> CreateAndAssignReleaseFences (pe_sync P) ts c;
        d1 \<leftarrow> give_fences P c1 d;
        Some (c1, ts1, d1)
      })"

definition build_frame ::
  "present_env \<Rightarrow> DrmMode option \<Rightarrow> caches \<Rightarrow> cptr option \<Rightarrow> gheap \<Rightarrow> timelines \<Rightarrow> hwc_display \<Rightarrow>
   (hwc2_error \<times> frame_comp \<times> timelines \<times> hwc_display) option" where
  "build_frame P mode c vk gs ts d = do {
     (ret, qs, d1) \<leftarrow> ImportBuffers P mode c d;
     (if ret \<noteq> 0 then Some (NoResources, composition_new, ts, d1)
      else (case planned_frame P vk qs d1 of (ret2, f1) \<Rightarrow>
        if ret2 \<noteq> 0 then Some (BadLayer, composition_new, ts, d1)
        else do {
          f2 \<leftarrow> DisableUnusedPlanes (he_T (pe_comp P)) (pe_groups P) gs f1;
          (f3, ts1, d2) \<leftarrow> fence_frame P f2 ts d1;
          Some (E_None, SetDropMode (pe_drop P) (SetDisplayHdrMode (fst (pe_hdr P)) (snd (pe_hdr P)) f3), ts1, d2)
        }))
   }"

text \<open>The frame that has to wait for room in the queue is in the list.\<close>

definition CreateComposition ::
  "present_env \<Rightarrow> DrmMode option \<Rightarrow> caches \<Rightarrow> cptr option \<Rightarrow> gheap \<Rightarrow> hwc_display \<Rightarrow> compositor \<Rightarrow>
   (hwc2_error \<times> hwc_display \<times> frame_comp list \<times> compositor) option" where
  "CreateComposition P mode c vk gs d cm = do {
     (err, f, ts, d1) \<leftarrow> build_frame P mode c vk gs (cm_lines cm) d;
     Some (if err \<noteq> E_None then (err, d1, [], cm)
           else (case QueueComposition (pe_comp P) f (cm\<lparr> cm_lines := ts \<rparr>) of (r, cm1) \<Rightarrow>
                   (E_None, d1, if r = None then [f] else [], cm1)))
   }"

section \<open>Presentation\<close>

text \<open>The retire fence handed out is the one of the frame before.\<close>

definition PresentDisplay ::
  "present_env \<Rightarrow> DrmMode option \<Rightarrow> caches \<Rightarrow> cptr option \<Rightarrow> gheap \<Rightarrow> hwc_display \<Rightarrow> cstate \<Rightarrow>
   (int \<times> hwc_display \<times> frame_comp list \<times> cstate) option" where
  "PresentDisplay P mode c vk gs d ms =
     (if force_disconneted d \<or> \<not> init_success d then Some (-1, d, [], ms)
      else (case CheckDisplayState (he_T (pe_comp P)) (snd ms) d of (ret, d1) \<Rightarrow>
        (let bad = (ret \<noteq> E_None \<or> \<not> validate_success d1 \<or>
                    (case hd_connector d1 of None \<Rightarrow> False
                     | Some n \<Rightarrow> ni_type (ni (he_T (pe_comp P)) n) = ty_VIRTUAL (he_C (pe_comp P))))
         in do {
           (err, d2, held, ms2) \<leftarrow>
             (if bad then Some (E_None, d1, [], if ret = BadLayer then ClearDisplay (pe_comp P) ms else ms)
              else map_option (\<lambda>(err, d2, held, cm2). (err, d2, held, (cm2, snd ms)))
                     (CreateComposition P mode c vk gs d1 (fst ms)));
           Some (if err = BadLayer then (-1, d2, held, ms2)
                 else (let rt = fst (d_retire_fence d2) in
                       (if gr_fd_valid (pe_G P) rt then gr_dup (pe_G P) rt else -1,
                        d2\<lparr> hd_frame_no := hd_frame_no d2 + 1, static_screen_opt := False, bActiveModeChange := False \<rparr>,
                        held, ms2)))
         })))"

end
