(* ===== verification/Hwc_Present_Props.thy ===== *)
theory Hwc_Present_Props
  imports Hwc_Present Hwc_Display_Props Compositor_Order Compositor_Request Compositor_Claims
begin

text \<open>
  What \<open>CreateComposition\<close> hands to the compositor is what the validation decided: the windows show
  the layers they were assigned, what shows nothing is switched off, and every layer on a window gets
  a release fence of its own.
\<close>

section \<open>Planes and layers\<close>

lemma note_sideband_fields [simp]:
  "dc_layers (note_sideband l c) = dc_layers c" "dc_planes (note_sideband l c) = dc_planes c"
  "dc_type (note_sideband l c) = dc_type c" "dc_display (note_sideband l c) = dc_display c"
  "dc_crtc (note_sideband l c) = dc_crtc c" "dc_frame_no (note_sideband l c) = dc_frame_no c"
  "dc_signal (note_sideband l c) = dc_signal c" "dc_out_fence (note_sideband l c) = dc_out_fence c"
  by (simp_all add: note_sideband_def)

lemma note_sidebands_fields [simp]:
  "dc_layers (fold note_sideband ls c) = dc_layers c" "dc_planes (fold note_sideband ls c) = dc_planes c"
  "dc_type (fold note_sideband ls c) = dc_type c" "dc_display (fold note_sideband ls c) = dc_display c"
  "dc_crtc (fold note_sideband ls c) = dc_crtc c" "dc_frame_no (fold note_sideband ls c) = dc_frame_no c"
  "dc_signal (fold note_sideband ls c) = dc_signal c" "dc_out_fence (fold note_sideband ls c) = dc_out_fence c"
  by (induction ls arbitrary: c) simp_all

text \<open>Layers whose window positions are \<open>0\<close> to \<open>n - 1\<close> come to these places.\<close>

lemma sorted_in_place:
  assumes "mset (List.map iDrmZpos ls) = mset (List.map int [0..<length ls])" "i < length ls"
  shows "iDrmZpos (exchange_sort iDrmZpos ls ! i) = int i"
proof -
  let ?xs = "exchange_sort iDrmZpos ls"
  have "mset (List.map iDrmZpos ?xs) = mset (List.map int [0..<length ls])"
    using assms(1) by (metis mset_exchange_sort mset_map)
  moreover have "sorted (List.map int [0..<length ls])" by (simp add: sorted_map sorted_wrt_upt)
  ultimately have "List.map iDrmZpos ?xs = List.map int [0..<length ls]"
    using sorted_exchange_sort [of iDrmZpos ls] by (metis properties_for_sort)
  from arg_cong [OF this, of "\<lambda>xs. xs ! i"] assms(2) show ?thesis by simp
qed

lemma truncate_frame_layer [simp]: "DrmHwcLayer.truncate (frame_layer_of P qf) = fst qf"
  by (cases "fst qf") (simp add: frame_layer_of_def DrmHwcLayer.defs split: prod.split)

lemma frame_layer_zpos [simp]: "iDrmZpos (frame_layer_of P qf) = iDrmZpos (fst qf)" "uId (frame_layer_of P qf) = uId (fst qf)"
  "fl_release (frame_layer_of P qf) = None"
  by (simp_all add: frame_layer_of_def DrmHwcLayer.defs split: prod.split)

lemma add_planes:
  "dc_planes (fold (\<lambda>e. AddPlaneComposition (frame_plane_of vk e)) es c) =
     dc_planes c @ List.map (\<lambda>e. if cp_type e = kLayer then frame_plane_of vk e
                                  else (frame_plane_of vk e)\<lparr> fp_sources := [], fp_zpos := 0 \<rparr>) es"
  "dc_layers (fold (\<lambda>e. AddPlaneComposition (frame_plane_of vk e)) es c) = dc_layers c"
  "dc_type (fold (\<lambda>e. AddPlaneComposition (frame_plane_of vk e)) es c) = dc_type c"
  "dc_crtc (fold (\<lambda>e. AddPlaneComposition (frame_plane_of vk e)) es c) = dc_crtc c"
  "dc_display (fold (\<lambda>e. AddPlaneComposition (frame_plane_of vk e)) es c) = dc_display c"
  by (induction es arbitrary: c) (simp_all add: AddPlaneComposition_def frame_plane_of_def)

lemma planned_frame_fields:
  assumes "planned_frame P vk qs d = (ret, f)"
    "ls = List.map (frame_layer_of P) (filter (\<lambda>qf. bMatch (fst qf)) qs)"
  shows "ret = 0" "dc_layers f = exchange_sort iDrmZpos ls" "dc_type f = DRM_COMPOSITION_TYPE_FRAME"
    "dc_planes f = List.map (\<lambda>e. if cp_type e = kLayer then frame_plane_of vk e
                                  else (frame_plane_of vk e)\<lparr> fp_sources := [], fp_zpos := 0 \<rparr>) (composition_planes d)"
    "dc_crtc f = hd_crtc d" "dc_display f = hd_handle d"
  using assms
  by (auto simp: planned_frame_def SetLayers_def validate_composition_type_def composition_Init_def composition_new_def
           add_planes Let_def split: if_splits)

section \<open>Planes that show nothing\<close>

text \<open>Planes are only added, all of them to be disabled.\<close>

definition idles :: "frame_comp \<Rightarrow> pptr set \<Rightarrow> frame_comp \<Rightarrow> bool" where
  "idles c ps c' \<longleftrightarrow>
     (\<exists>xs. dc_planes c' = dc_planes c @ xs \<and> (\<forall>x \<in> set xs. fp_type x = kDisable) \<and> fp_plane ` set xs = ps) \<and>
     dc_layers c' = dc_layers c \<and> dc_display c' = dc_display c \<and> dc_crtc c' = dc_crtc c"

lemma idles_refl: "idles c {} c"
  by (simp add: idles_def)

lemma idles_trans:
  assumes "idles a ps b" "idles b qs c"
  shows "idles a (ps \<union> qs) c"
proof -
  from assms obtain xs ys where "dc_planes b = dc_planes a @ xs" "\<forall>x \<in> set xs. fp_type x = kDisable" "fp_plane ` set xs = ps"
    "dc_planes c = dc_planes b @ ys" "\<forall>x \<in> set ys. fp_type x = kDisable" "fp_plane ` set ys = qs"
    unfolding idles_def by blast
  then have "dc_planes c = dc_planes a @ (xs @ ys)" "\<forall>x \<in> set (xs @ ys). fp_type x = kDisable"
    "fp_plane ` set (xs @ ys) = ps \<union> qs" by auto
  with assms show ?thesis unfolding idles_def by metis
qed

lemma idles_add: "idles c {p} (AddPlaneDisable p c)"
  by (simp add: idles_def AddPlaneDisable_def)

lemma idles_assign: "idles c ps c' \<Longrightarrow> idles c ps (c'\<lparr> dc_update_assign := b \<rparr>)"
  by (simp add: idles_def)

lemma idles_plane:
  "idles c (if \<not> b_use (planes g ! i) \<or> is_will_disable g then {(gp, i)} else {}) (disable_plane g gp i c)"
  using idles_refl [of c] idles_add [of c "(gp, i)"] idles_trans [OF idles_add idles_add, of c "(gp, i)" "(gp, i)"]
  by (auto simp: disable_plane_def Let_def intro: idles_assign)

lemma idles_planes:
  "idles c {(gp, i) |i. i \<in> set is \<and> (\<not> b_use (planes g ! i) \<or> is_will_disable g)} (fold (disable_plane g gp) is c)"
proof (induction "is" arbitrary: c)
  case (Cons i "is")
  have "{(gp, j) |j. j \<in> set (i # is) \<and> (\<not> b_use (planes g ! j) \<or> is_will_disable g)} =
      (if \<not> b_use (planes g ! i) \<or> is_will_disable g then {(gp, i)} else {}) \<union>
      {(gp, j) |j. j \<in> set is \<and> (\<not> b_use (planes g ! j) \<or> is_will_disable g)}" by auto
  with idles_trans [OF idles_plane Cons.IH, of c g i gp] show ?case by simp
qed (simp add: idles_refl)

text \<open>The planes to switch off: of the groups of the display, those that show nothing or are to migrate.\<close>

definition spare_planes :: "u32 \<Rightarrow> u32 \<Rightarrow> int \<Rightarrow> gptr list \<Rightarrow> gheap \<Rightarrow> pptr set" where
  "spare_planes soc msk display all gs =
     {(gp, i). gp \<in> set all \<and> \<not> gReserved (gs gp) \<and> (acquire_display msk display (gs gp) \<or> isRK3566 soc) \<and>
        i < length (planes (gs gp)) \<and> (\<not> b_use (planes (gs gp) ! i) \<or> is_will_disable (gs gp))}"

lemma idles_group:
  "idles c (spare_planes soc msk (dc_display c) [gp] gs) (disable_group soc msk gs gp c)"
proof (cases "\<not> gReserved (gs gp) \<and> (acquire_display msk (dc_display c) (gs gp) \<or> isRK3566 soc)")
  case True
  have "spare_planes soc msk (dc_display c) [gp] gs =
      {(gp, i) |i. i \<in> set [0..<length (planes (gs gp))] \<and> (\<not> b_use (planes (gs gp) ! i) \<or> is_will_disable (gs gp))}"
    using True by (auto simp: spare_planes_def)
  with idles_planes [of c gp "[0..<length (planes (gs gp))]" "gs gp"] True show ?thesis
    by (simp add: disable_group_def Let_def)
next
  case False
  then have "spare_planes soc msk (dc_display c) [gp] gs = {}" by (auto simp: spare_planes_def)
  with idles_refl [of c] False show ?thesis by (auto simp: disable_group_def Let_def)
qed

lemma idles_groups:
  "idles c (spare_planes soc msk (dc_display c) all gs) (fold (disable_group soc msk gs) all c)"
proof (induction all arbitrary: c)
  case Nil
  then show ?case using idles_refl [of c] by (simp add: spare_planes_def)
next
  case (Cons gp all)
  let ?c = "disable_group soc msk gs gp c"
  have d: "dc_display ?c = dc_display c" using idles_group [of c soc msk gp gs] by (simp add: idles_def)
  have "spare_planes soc msk (dc_display c) (gp # all) gs =
      spare_planes soc msk (dc_display c) [gp] gs \<union> spare_planes soc msk (dc_display ?c) all gs"
    by (auto simp: spare_planes_def d)
  with idles_trans [OF idles_group Cons.IH, of c soc msk gp gs] show ?case by simp
qed

lemma DisableUnusedPlanes_idles:
  assumes "DisableUnusedPlanes T all gs c = Some c'" "dc_type c = DRM_COMPOSITION_TYPE_FRAME"
  obtains k where "dc_crtc c = Some k" "idles c (spare_planes (device_soc T) (crtc_mask T k) (dc_display c) all gs) c'"
  using assms idles_groups by (auto simp: DisableUnusedPlanes_def split: option.splits)

section \<open>Fences of the layers\<close>

lemma truncate_release [simp]: "DrmHwcLayer.truncate (l\<lparr> fl_release := f \<rparr>) = DrmHwcLayer.truncate l"
  by (cases l) (simp add: DrmHwcLayer.truncate_def)

lemma kept_upd_release:
  assumes "\<And>l f. g (l\<lparr> fl_release := f \<rparr>) = g l"
  shows "List.map g (dc_layers (upd_frame_layer i (\<lambda>l. l\<lparr> fl_release := f \<rparr>) c)) = List.map g (dc_layers c)"
  by (cases "i < length (dc_layers c)")
    (simp_all add: upd_frame_layer_def map_update list_update_same_conv list_update_beyond assms)

text \<open>The loop leaves the layers as they are but for the fences, and misses only second sideband layers.\<close>

lemma assign_fences_kept:
  assumes g: "\<And>l f. g (l\<lparr> fl_release := f \<rparr>) = g l"
  shows "assign_fences Y is ts c bs = (ret, ts', c', bs') \<Longrightarrow> List.map g (dc_layers c') = List.map g (dc_layers c)"
proof (induction "is" arbitrary: ts c bs)
  case (Cons i "is")
  show ?case
  proof (cases "fl_sideband2 (dc_layers c ! i)")
    case True
    with Cons.prems Cons.IH show ?thesis by simp
  next
    case False
    note r = Cons.prems [simplified False if_False assign_fences.simps IncTimeline_def Let_def prod.case]
    note keep = kept_upd_release [where g = g, OF g]
    let ?f = "ReleaseFence_new Y (dc_display c) (tl_cnt (ts (dc_display c)) + 1)"
    show ?thesis
    proof (cases ?f)
      case None
      with r False show ?thesis using keep [of i None c] by (auto simp: IncTimeline_def Let_def)
    next
      case (Some f)
      with r False obtain ts1 bs1 where
        "assign_fences Y is ts1 (upd_frame_layer i (\<lambda>l. l\<lparr> fl_release := Some f \<rparr>) c) bs1 = (ret, ts', c', bs')"
        by (auto simp: IncTimeline_def Let_def)
      from Cons.IH [OF this] show ?thesis by (simp add: keep)
    qed
  qed
qed simp

lemma assign_fences_each:
  "assign_fences Y is ts c bs = (0, ts', c', bs') \<Longrightarrow> distinct is \<Longrightarrow>
   \<forall>i \<in> set is. i < length (dc_layers c) \<and> fl_release (dc_layers c ! i) = None \<Longrightarrow>
   \<forall>i \<in> set is. fl_release (dc_layers c' ! i) = None \<longleftrightarrow> fl_sideband2 (dc_layers c ! i)"
proof (induction "is" arbitrary: ts c bs)
  case (Cons i "is")
  let ?f = "ReleaseFence_new Y (dc_display c) (tl_cnt (ts (dc_display c)) + 1)"
  have i: "i < length (dc_layers c)" "fl_release (dc_layers c ! i) = None" "i \<notin> set is" "distinct is"
    using Cons.prems(2,3) by auto
  show ?case
  proof (cases "fl_sideband2 (dc_layers c ! i)")
    case True
    with Cons.prems(1) have a: "assign_fences Y is ts c bs = (0, ts', c', bs')" by simp
    from assign_fences_frame [OF a] i have "fl_release (dc_layers c' ! i) = None" by auto
    with Cons.IH [OF a i(4)] Cons.prems(3) True show ?thesis by simp
  next
    case False
    from Cons.prems(1) False obtain f where f: "?f = Some f"
      by (cases ?f) (auto simp: IncTimeline_def Let_def)
    let ?c = "upd_frame_layer i (\<lambda>l. l\<lparr> fl_release := Some f \<rparr>) c"
    from f False Cons.prems(1) obtain ts1 bs1 where a: "assign_fences Y is ts1 ?c bs1 = (0, ts', c', bs')"
      by (auto simp: IncTimeline_def Let_def)
    have n: "dc_layers ?c ! j = dc_layers c ! j" if "j \<in> set is" for j
      using that i(3) by (cases "i = j") (simp_all add: upd_frame_layer_def)
    have p: "\<forall>j \<in> set is. j < length (dc_layers ?c) \<and> fl_release (dc_layers ?c ! j) = None"
      using Cons.prems(3) n by simp
    have "fl_release (dc_layers c' ! i) = Some f"
      using assign_fences_frame [OF a] i by (simp add: upd_frame_layer_def)
    with Cons.IH [OF a i(4) p] n False show ?thesis by simp
  qed
qed simp

text \<open>What the fences of a frame are, and what a layer is told.\<close>

lemma fences_of_frame:
  assumes "CreateAndAssignReleaseFences Y ts c = Some (ret, ts', c', bs)" "\<forall>l \<in> set (dc_layers c). fl_release l = None"
  shows "dc_planes c' = dc_planes c" "comp_layers c' = comp_layers c"
    "List.map DrmHwcLayer.truncate (dc_layers c') = List.map DrmHwcLayer.truncate (dc_layers c)"
    "List.map fl_sideband2 (dc_layers c') = List.map fl_sideband2 (dc_layers c)" "dc_signal c' = False"
    "ret = 0 \<Longrightarrow> \<forall>i \<in> set (comp_layers c). fl_release (dc_layers c' ! i) = None \<longleftrightarrow> fl_sideband2 (dc_layers c ! i)"
proof -
  from assms(1) have s: "sources_ok c"
    and a: "assign_fences Y (comp_layers c) ts (c\<lparr> dc_signal := False \<rparr>) [] = (ret, ts', c', bs)"
    by (auto simp: CreateAndAssignReleaseFences_def split: if_splits)
  from assign_fences_frame [OF a] show p: "dc_planes c' = dc_planes c" "comp_layers c' = comp_layers c"
    by (simp_all add: comp_layers_def)
  from assign_fences_kept [OF truncate_release a]
  show "List.map DrmHwcLayer.truncate (dc_layers c') = List.map DrmHwcLayer.truncate (dc_layers c)" by simp
  have "\<And>l f. fl_sideband2 (l\<lparr> fl_release := f \<rparr>) = fl_sideband2 l" by simp
  from assign_fences_kept [OF this a]
  show "List.map fl_sideband2 (dc_layers c') = List.map fl_sideband2 (dc_layers c)" by simp
  show "dc_signal c' = False" using assign_fences_frame [OF a] by simp
  show "ret = 0 \<Longrightarrow> \<forall>i \<in> set (comp_layers c). fl_release (dc_layers c' ! i) = None \<longleftrightarrow> fl_sideband2 (dc_layers c ! i)"
    using assign_fences_each [of Y "comp_layers c" ts "c\<lparr> dc_signal := False \<rparr>" "[]" ts' c' bs] a s assms(2)
    by (simp add: sources_ok_def comp_layers_def)
qed

lemma find_unique:
  "i \<in> set is \<Longrightarrow> P i \<Longrightarrow> (\<And>j. j \<in> set is \<Longrightarrow> P j \<Longrightarrow> j = i) \<Longrightarrow> find P is = Some i"
proof (induction "is")
  case (Cons a "is")
  show ?case
  proof (cases "P a")
    case True
    from Cons.prems(3) [OF _ True] have "a = i" by simp
    with True show ?thesis by simp
  next
    case False
    with Cons.prems(1,2) have "i \<in> set is" by auto
    from Cons.IH [OF this Cons.prems(2)] Cons.prems(3) False show ?thesis by simp
  qed
qed simp

lemma fence_fd_of:
  assumes "i \<in> set (comp_layers c)" "ucast (uId (dc_layers c ! i)) = k" "sources_ok c"
    "\<And>j. j \<in> set (comp_layers c) \<Longrightarrow> ucast (uId (dc_layers c ! j)) = k \<Longrightarrow> j = i"
  shows "fence_fd k c = Some (case fl_release (dc_layers c ! i) of None \<Rightarrow> -1 | Some f \<Rightarrow> rf_fd f)"
proof -
  have "find (\<lambda>i. ucast (uId (dc_layers c ! i)) = k) (comp_layers c) = Some i"
    using assms(1,2,4) by (intro find_unique)
  with assms(3) show ?thesis by (simp add: fence_fd_def GetReleaseFence_def)
qed

lemma fence_fd_none:
  assumes "\<And>j. j \<in> set (comp_layers c) \<Longrightarrow> ucast (uId (dc_layers c ! j)) \<noteq> k" "sources_ok c"
  shows "fence_fd k c = Some (-1)"
proof -
  have "find (\<lambda>i. ucast (uId (dc_layers c ! i)) = k) (comp_layers c) = None"
    unfolding find_None_iff using assms(1) by blast
  with assms(2) show ?thesis by (simp add: fence_fd_def GetReleaseFence_def)
qed

section \<open>The frame as a whole\<close>

text \<open>The layers that are handed over, and positions that are a permutation of their places.\<close>

definition matched_layers :: "hwc_display \<Rightarrow> DrmHwcLayer list" where
  "matched_layers d = filter bMatch (drm_hwc_layers d)"

definition places_ok :: "hwc_display \<Rightarrow> bool" where
  "places_ok d \<longleftrightarrow>
     (let qs = matched_layers d in
      mset (List.map iDrmZpos qs) = mset (List.map int [0..<length qs]) \<and> length qs < 2 ^ 64 \<and>
      (\<forall>e \<in> set (composition_planes d). cp_type e = kLayer \<and> cp_source e \<in> iDrmZpos ` set qs))"

lemma import_layers_fst: "import_layers P b qs = (0, r) \<Longrightarrow> List.map fst r = qs"
  by (induction qs arbitrary: r) (auto split: if_splits prod.splits)

lemma ImportBuffers_layers:
  assumes "ImportBuffers P mode c d = Some (0, qs, d1)"
  shows "List.map fst qs = drm_hwc_layers d1" "composition_planes d1 = composition_planes d" "hd_handle d1 = hd_handle d"
    "hd_crtc d1 = hd_crtc d" "hd_layers d1 = hd_layers d"
  using assms by (auto simp: ImportBuffers_def Let_def dest: import_layers_fst split: if_splits prod.splits bind_splits)

text \<open>The steps of \<open>build_frame\<close> when it succeeds.\<close>

lemma build_frame_steps:
  assumes "build_frame P mode c vk gs ts d = Some (E_None, f, ts', d')"
  obtains qs d1 f1 f2 f3 where "ImportBuffers P mode c d = Some (0, qs, d1)" "planned_frame P vk qs d1 = (0, f1)"
    "DisableUnusedPlanes (he_T (pe_comp P)) (pe_groups P) gs f1 = Some f2" "fence_frame P f2 ts d1 = Some (f3, ts', d')"
    "f = SetDropMode (pe_drop P) (SetDisplayHdrMode (fst (pe_hdr P)) (snd (pe_hdr P)) f3)"
  using assms by (auto simp: build_frame_def split: bind_splits if_splits prod.splits)

lemma fence_frame_keeps:
  assumes "fence_frame P c ts d = Some (c1, ts1, d1)" "\<forall>l \<in> set (dc_layers c). fl_release l = None"
  shows "dc_planes c1 = dc_planes c" "dc_display c1 = dc_display c" "drm_hwc_layers d1 = drm_hwc_layers d"
    "composition_planes d1 = composition_planes d" "hd_handle d1 = hd_handle d" "hd_crtc d1 = hd_crtc d"
    "List.map DrmHwcLayer.truncate (dc_layers c1) = List.map DrmHwcLayer.truncate (dc_layers c)"
  using assms fences_of_frame(1,3) [OF _ assms(2)] CreateAndAssignReleaseFences_made(4) [OF _ assms(2)]
  by (auto simp: fence_frame_def give_fences_def AddFenceToRetireFence_def Let_def split: if_splits bind_splits)

lemma hdr_drop_fields [simp]:
  "dc_planes (SetDropMode b (SetDisplayHdrMode h ds c)) = dc_planes c"
  "dc_layers (SetDropMode b (SetDisplayHdrMode h ds c)) = dc_layers c"
  "dc_display (SetDropMode b (SetDisplayHdrMode h ds c)) = dc_display c"
  "due (SetDropMode b (SetDisplayHdrMode h ds c)) = due c"
  by (simp_all add: SetDropMode_def SetDisplayHdrMode_def due_def comp_fences_def comp_layers_def)

lemma frame_fresh: "\<forall>l \<in> set (exchange_sort iDrmZpos (List.map (frame_layer_of P) xs)). fl_release l = None"
  by auto

lemma frame_sources:
  assumes "cp_source e \<in> iDrmZpos ` set qs" "mset (List.map iDrmZpos qs) = mset (List.map int [0..<length qs])"
    "length qs < 2 ^ 64" "List.map fst xs = qs"
  obtains i where "i < length qs" "fp_sources (frame_plane_of vk e) = [i]" "cp_source e = int i"
    "DrmHwcLayer.truncate (exchange_sort iDrmZpos (List.map (frame_layer_of P) xs) ! i) \<in> set qs"
    "iDrmZpos (DrmHwcLayer.truncate (exchange_sort iDrmZpos (List.map (frame_layer_of P) xs) ! i)) = int i"
proof -
  let ?ls = "List.map (frame_layer_of P) xs"
  have len: "length qs = length ?ls" using assms(4) by (metis length_map)
  have z: "List.map iDrmZpos ?ls = List.map iDrmZpos qs" using assms(4) by auto
  have "cp_source e \<in> set (List.map iDrmZpos qs)" using assms(1) by simp
  also have "set (List.map iDrmZpos qs) = set (List.map int [0..<length qs])" using assms(2) by (rule mset_eq_setD)
  finally obtain i where i: "i < length qs" "cp_source e = int i" by auto
  have "cp_source e mod 2 ^ 64 = int i" using i assms(3) by simp
  then have "fp_sources (frame_plane_of vk e) = [i]" by (simp add: frame_plane_of_def)
  moreover have "exchange_sort iDrmZpos ?ls ! i \<in> set (exchange_sort iDrmZpos ?ls)"
    by (rule nth_mem) (use i len in simp)
  then obtain x where "x \<in> set xs" "exchange_sort iDrmZpos ?ls ! i = frame_layer_of P x" by auto
  then have "DrmHwcLayer.truncate (exchange_sort iDrmZpos ?ls ! i) \<in> set qs"
    using assms(4) by (metis imageI list.set_map truncate_frame_layer)
  moreover have "iDrmZpos (exchange_sort iDrmZpos ?ls ! i) = int i"
    using assms(2) i(1) by (intro sorted_in_place) (simp_all only: z len length_map)
  then have "iDrmZpos (DrmHwcLayer.truncate (exchange_sort iDrmZpos ?ls ! i)) = int i"
    by (simp add: DrmHwcLayer.truncate_def)
  ultimately show thesis using i that by blast
qed

lemma matched_fst: "List.map fst qs = drm_hwc_layers d \<Longrightarrow> List.map fst (filter (\<lambda>qf. bMatch (fst qf)) qs) = matched_layers d"
proof -
  assume "List.map fst qs = drm_hwc_layers d"
  moreover have "List.map fst (filter (\<lambda>qf. bMatch (fst qf)) qs) = filter bMatch (List.map fst qs)"
    by (induction qs) auto
  ultimately show ?thesis by (simp add: matched_layers_def)
qed

text \<open>The frame before the fences are made, and after it.\<close>

lemma build_frame_planes:
  assumes "build_frame P mode c vk gs ts d = Some (E_None, f, ts', d')" "places_ok d'"
  obtains d1 f2 f3 xs k where "fence_frame P f2 ts d1 = Some (f3, ts', d')"
    "f = SetDropMode (pe_drop P) (SetDisplayHdrMode (fst (pe_hdr P)) (snd (pe_hdr P)) f3)"
    "List.map fst xs = matched_layers d'" "dc_layers f2 = exchange_sort iDrmZpos (List.map (frame_layer_of P) xs)"
    "hd_crtc d' = Some k" "dc_display f2 = hd_handle d'"
    "take (length (composition_planes d')) (dc_planes f2) = List.map (frame_plane_of vk) (composition_planes d')"
    "\<forall>x \<in> set (drop (length (composition_planes d')) (dc_planes f2)). fp_type x = kDisable"
    "fp_plane ` set (drop (length (composition_planes d')) (dc_planes f2)) =
       spare_planes (device_soc (he_T (pe_comp P))) (crtc_mask (he_T (pe_comp P)) k) (hd_handle d') (pe_groups P) gs"
proof -
  obtain qs d1 f1 f2 f3 where s: "ImportBuffers P mode c d = Some (0, qs, d1)" "planned_frame P vk qs d1 = (0, f1)"
    "DisableUnusedPlanes (he_T (pe_comp P)) (pe_groups P) gs f1 = Some f2" "fence_frame P f2 ts d1 = Some (f3, ts', d')"
    "f = SetDropMode (pe_drop P) (SetDisplayHdrMode (fst (pe_hdr P)) (snd (pe_hdr P)) f3)"
    using build_frame_steps [OF assms(1)] .
  let ?xs = "filter (\<lambda>qf. bMatch (fst qf)) qs"
  note pf = planned_frame_fields [OF s(2) refl]
  obtain k where k: "dc_crtc f1 = Some k"
    "idles f1 (spare_planes (device_soc (he_T (pe_comp P))) (crtc_mask (he_T (pe_comp P)) k) (dc_display f1) (pe_groups P) gs) f2"
    using DisableUnusedPlanes_idles [OF s(3) pf(3)] .
  then have l: "dc_layers f2 = exchange_sort iDrmZpos (List.map (frame_layer_of P) ?xs)" "dc_display f2 = hd_handle d1"
    by (simp_all add: idles_def pf)
  note ff = fence_frame_keeps [OF s(4) frame_fresh [of P ?xs, folded l(1)]]
  have x: "List.map fst ?xs = matched_layers d'"
    using matched_fst [of qs d1] ImportBuffers_layers(1) [OF s(1)] ff(3) by (simp add: matched_layers_def)
  have "\<forall>e \<in> set (composition_planes d'). cp_type e = kLayer" using assms(2) by (auto simp: places_ok_def Let_def)
  then have "dc_planes f1 = List.map (frame_plane_of vk) (composition_planes d')"
    by (simp add: pf(4) ff(4) cong: map_cong)
  with k(2) obtain ys where y: "dc_planes f2 = List.map (frame_plane_of vk) (composition_planes d') @ ys"
    "\<forall>x \<in> set ys. fp_type x = kDisable" "fp_plane ` set ys =
       spare_planes (device_soc (he_T (pe_comp P))) (crtc_mask (he_T (pe_comp P)) k) (hd_handle d') (pe_groups P) gs"
    by (auto simp: idles_def pf(6) ff(5))
  show thesis
    by (rule that [OF s(4,5) x l(1)]) (use k(1) l(2) y pf(5) ff in simp_all)
qed

text \<open>What a layer of the client is told, from the fences of the frame.\<close>

lemma those_mem:
  "those (List.map g xs) = Some ys \<Longrightarrow> y \<in> set ys \<Longrightarrow> \<exists>x \<in> set xs. g x = Some y"
  by (induction xs arbitrary: ys) (auto split: option.splits)

lemma give_fences_layer:
  assumes "give_fences P c d = Some d'" "(k, l) \<in> set (hd_layers d')"
  shows "validated_type (mCurrentState l) = Device \<Longrightarrow> fence_fd k c = Some (back_release_fence l)"
    "validated_type (mCurrentState l) \<noteq> Device \<Longrightarrow> back_release_fence l = -1"
proof -
  from assms(1) obtain kls where "those (List.map (give_fence c) (hd_layers d)) = Some kls" "hd_layers d' = kls"
    by (auto simp: give_fences_def AddFenceToRetireFence_def Let_def split: bind_splits)
  with assms(2) those_mem obtain x where "give_fence c x = Some (k, l)" by metis
  then show "validated_type (mCurrentState l) = Device \<Longrightarrow> fence_fd k c = Some (back_release_fence l)"
    "validated_type (mCurrentState l) \<noteq> Device \<Longrightarrow> back_release_fence l = -1"
    by (auto simp: give_fence_def set_release_fence_def back_release_fence_def split: prod.splits if_splits)
qed

lemma fence_frame_steps:
  assumes "fence_frame P c ts d = Some (c1, ts1, d1)" "\<forall>l \<in> set (dc_layers c). fl_release l = None"
    "atoi (pe_pget P ''vendor.hwc.disable_releaseFence'' ''0'') = 0" "\<forall>v. pe_sync P (dc_display c) v \<noteq> -1"
  shows "give_fences P c1 d = Some d1" "fences_made c ts 0 ts1 (due c1)" "sources_ok c1" "dc_signal c1 = False"
    "\<forall>i \<in> set (comp_layers c1). fl_release (dc_layers c1 ! i) = None \<longleftrightarrow> fl_sideband2 (dc_layers c1 ! i)"
proof -
  from assms(1,3) obtain ret rga where c: "CreateAndAssignReleaseFences (pe_sync P) ts c = Some (ret, ts1, c1, rga)"
    and g: "give_fences P c1 d = Some d1" by (auto simp: fence_frame_def split: bind_splits)
  note m = CreateAndAssignReleaseFences_made [OF c assms(2)] and f = fences_of_frame [OF c assms(2)]
  from m(3) assms(4) have r: "ret = 0" by simp
  from g m(1,2) f(5) r show "give_fences P c1 d = Some d1" "fences_made c ts 0 ts1 (due c1)" "sources_ok c1"
    "dc_signal c1 = False" by simp_all
  have "fl_sideband2 (dc_layers c1 ! i) = fl_sideband2 (dc_layers c ! i)" if "i \<in> set (comp_layers c1)" for i
  proof -
    from that m(2) have "i < length (dc_layers c1)" by (simp add: sources_ok_def)
    with arg_cong [OF f(4), of "\<lambda>xs. xs ! i"] arg_cong [OF f(4), of length] show ?thesis by simp
  qed
  with f(6) [OF r] show "\<forall>i \<in> set (comp_layers c1). fl_release (dc_layers c1 ! i) = None \<longleftrightarrow> fl_sideband2 (dc_layers c1 ! i)"
    by (simp add: f(2))
qed

lemma fence_in_due: "i \<in> set (comp_layers c) \<Longrightarrow> fl_release (dc_layers c ! i) = Some f \<Longrightarrow> \<not> dc_signal c \<Longrightarrow> f \<in> set (due c)"
  by (force simp: due_def comp_fences_def List.map_filter_def)

text \<open>
  C21: The plan of a validation reaches the compositor.  Suppose \<open>CreateComposition\<close> builds a frame
  (every buffer was imported), and the layers that were matched have the window positions \<open>0\<close> to
  \<open>n - 1\<close>, each once, with every entry of the composition showing a layer at one of them.  Then the planes
  of the frame are first the planes of these entries, in their order, each with its position on the
  window and with the one layer whose position the entry names as its source, unchanged but for what
  importing and fencing add; and then planes to disable: exactly those of the groups the CRTC has for
  this display (all groups on the RK3566), not reserved, that are not in use or whose group is about
  to migrate.
\<close>

theorem plan_reaches_frame:
  assumes "build_frame P mode c vk gs ts d = Some (E_None, f, ts', d')" "places_ok d'"
    "n = length (composition_planes d')"
  shows "\<exists>k. hd_crtc d' = Some k \<and>
    take n (dc_planes f) = List.map (frame_plane_of vk) (composition_planes d') \<and>
    (\<forall>e \<in> set (composition_planes d'). \<exists>i < length (dc_layers f).
       fp_sources (frame_plane_of vk e) = [i] \<and>
       DrmHwcLayer.truncate (dc_layers f ! i) \<in> set (matched_layers d') \<and>
       iDrmZpos (DrmHwcLayer.truncate (dc_layers f ! i)) = cp_source e) \<and>
    (\<forall>x \<in> set (drop n (dc_planes f)). fp_type x = kDisable) \<and>
    fp_plane ` set (drop n (dc_planes f)) =
      {(gp, i). gp \<in> set (pe_groups P) \<and> \<not> gReserved (gs gp) \<and>
         (acquire_display (crtc_mask (he_T (pe_comp P)) k) (hd_handle d') (gs gp) \<or>
          isRK3566 (device_soc (he_T (pe_comp P)))) \<and>
         i < length (planes (gs gp)) \<and> (\<not> b_use (planes (gs gp) ! i) \<or> is_will_disable (gs gp))}"
proof -
  obtain d1 f2 f3 xs k where b: "fence_frame P f2 ts d1 = Some (f3, ts', d')"
    "f = SetDropMode (pe_drop P) (SetDisplayHdrMode (fst (pe_hdr P)) (snd (pe_hdr P)) f3)"
    "List.map fst xs = matched_layers d'" "dc_layers f2 = exchange_sort iDrmZpos (List.map (frame_layer_of P) xs)"
    "hd_crtc d' = Some k" "dc_display f2 = hd_handle d'"
    "take (length (composition_planes d')) (dc_planes f2) = List.map (frame_plane_of vk) (composition_planes d')"
    "\<forall>x \<in> set (drop (length (composition_planes d')) (dc_planes f2)). fp_type x = kDisable"
    "fp_plane ` set (drop (length (composition_planes d')) (dc_planes f2)) =
       spare_planes (device_soc (he_T (pe_comp P))) (crtc_mask (he_T (pe_comp P)) k) (hd_handle d') (pe_groups P) gs"
    using build_frame_planes [OF assms(1,2)] .
  note ff = fence_frame_keeps [OF b(1) frame_fresh [of P xs, folded b(4)]]
  have p: "dc_planes f = dc_planes f2" using ff(1) by (simp add: b(2))
  have t: "List.map DrmHwcLayer.truncate (dc_layers f) = List.map DrmHwcLayer.truncate (dc_layers f2)"
    using ff(7) by (simp add: b(2))
  have len: "length (dc_layers f) = length (matched_layers d')"
    using arg_cong [OF t, of length] by (simp add: b(4) flip: b(3))
  have "\<exists>i < length (dc_layers f). fp_sources (frame_plane_of vk e) = [i] \<and>
       DrmHwcLayer.truncate (dc_layers f ! i) \<in> set (matched_layers d') \<and>
       iDrmZpos (DrmHwcLayer.truncate (dc_layers f ! i)) = cp_source e" if "e \<in> set (composition_planes d')" for e
  proof -
    have "cp_source e \<in> iDrmZpos ` set (matched_layers d')"
      "mset (List.map iDrmZpos (matched_layers d')) = mset (List.map int [0..<length (matched_layers d')])"
      "length (matched_layers d') < 2 ^ 64"
      using assms(2) that by (simp_all add: places_ok_def Let_def)
    from frame_sources [OF this b(3), of vk P] obtain i where i: "i < length (matched_layers d')"
      "fp_sources (frame_plane_of vk e) = [i]" "cp_source e = int i"
      "DrmHwcLayer.truncate (dc_layers f2 ! i) \<in> set (matched_layers d')"
      "iDrmZpos (DrmHwcLayer.truncate (dc_layers f2 ! i)) = int i"
      unfolding b(4) by blast
    have "DrmHwcLayer.truncate (dc_layers f ! i) = DrmHwcLayer.truncate (dc_layers f2 ! i)"
      using arg_cong [OF t, of "\<lambda>xs. xs ! i"] i(1) len arg_cong [OF t, of length] by simp
    with i len show ?thesis by auto
  qed
  with b(5,7-9) show ?thesis unfolding p assms(3) spare_planes_def by blast
qed

text \<open>A display with one layer on the first of two planes.\<close>

definition shown_hwc_layer :: hwc_layer where
  "shown_hwc_layer = hwc_layer0\<lparr> hl_info := Some 0, mCurrentState := layer_state0\<lparr> validated_type := Device \<rparr> \<rparr>"

definition shown_drm_layer :: DrmHwcLayer where
  "shown_drm_layer = layer0\<lparr> uId := 1, bMatch := True, iDrmZpos := 0 \<rparr>"

definition shown_display :: hwc_display where
  "shown_display =
     display1\<lparr> hd_crtc := Some 0, hd_layers := [(1, shown_hwc_layer)], drm_hwc_layers := [shown_drm_layer],
       composition_planes := [\<lparr> cp_type = kLayer, cp_plane = (0, 0), cp_source = 0, cp_zpos = 3 \<rparr>] \<rparr>"
definition present_env0 :: present_env where
  "present_env0 =
     \<lparr> pe_F = formats0, pe_layer = layer_env0, pe_G = gralloc0, pe_gem = (\<lambda>l. 9), pe_import = (\<lambda>q. (0, 5)),
       pe_more = (\<lambda>q. (0, False, \<lparr> left = 0, top = 0, right = 0, bottom = 0 \<rparr>, None)), pe_merge = (\<lambda>a b. a),
       pe_sync = (\<lambda>d v. 7), pe_hdr = (DRM_HWC_SDR, 0), pe_drop = False, pe_pget = (\<lambda>k d. d), pe_groups = [0],
       pe_comp = comp_env0 \<rparr>"

definition two_planes :: gheap where
  "two_planes gp =
     group0\<lparr> planes := [plane0\<lparr> b_use := True \<rparr>, plane0], current_crtc := 1, next_crtc := 1,
       next_possible_display := 0, possible_display := 0 \<rparr>"



lemma shown_fields [simp]:
  "validated_type (mCurrentState shown_hwc_layer) = Device" "hl_info shown_hwc_layer = Some 0"
  "hd_layers shown_display = [(1, shown_hwc_layer)]" "drm_hwc_layers shown_display = [shown_drm_layer]"
  "composition_planes shown_display = [\<lparr> cp_type = kLayer, cp_plane = (0, 0), cp_source = 0, cp_zpos = 3 \<rparr>]"
  "bMatch shown_drm_layer" "bUseRga (buf shown_drm_layer) = False" "bSidebandStreamLayer shown_drm_layer = False"
  "uId shown_drm_layer = 1" "iDrmZpos shown_drm_layer = 0" "bFbTarget shown_drm_layer = False"
  "hd_crtc shown_display = Some 0" "hd_handle shown_display = 0" "pRgaBuffer (buf shown_drm_layer) = None"
  by (simp_all add: shown_hwc_layer_def shown_display_def shown_drm_layer_def display1_def layer_state0_def layer0_def buf0_def)

definition shown_q :: DrmHwcLayer where
  "shown_q = shown_drm_layer\<lparr> buf := (buf shown_drm_layer)\<lparr> uGemHandle := 9 \<rparr> \<rparr>"

lemma shown_q_fields [simp]: "bMatch shown_q" "bFbTarget shown_q = False" "uId shown_q = 1" "iDrmZpos shown_q = 0"
  "bSidebandStreamLayer shown_q = False" "pRgaBuffer (buf shown_q) = None"
  by (simp_all add: shown_q_def)

lemma env0_fields [simp]: "pe_gem present_env0 = (\<lambda>l. 9)" "pe_import present_env0 = (\<lambda>q. (0, 5))"
  "pe_sync present_env0 = (\<lambda>d v. 7)" "atoi (pe_pget present_env0 ''vendor.hwc.disable_releaseFence'' ''0'') = 0"
  "pe_groups present_env0 = [0]" "pe_comp present_env0 = comp_env0" 
   apply (simp_all add: present_env0_def atoi_def)
done

lemma shown_display_import:
  "ImportBuffers present_env0 None caches0 shown_display =
   Some (0, [(shown_q, Some 5)], shown_display\<lparr> drm_hwc_layers := [shown_q] \<rparr>)"
  by (simp add: ImportBuffers_def initOrGetGemhanleFromCache_def flip: shown_q_def)


lemma shown_idle: "spare_planes (device_soc T2) (crtc_mask T2 0) 0 [0] two_planes = {(0, 1)}"
  by (auto simp: spare_planes_def acquire_display_def two_planes_def group0_def crtc_mask_def T2_def plane0_def is_will_disable_def less_Suc_eq)

lemma shown_build:
  obtains f ts' d' where
    "build_frame present_env0 None caches0 (Some 0) two_planes (\<lambda>d. \<lparr> tl_cnt = 0, tl_now = 0 \<rparr>) shown_display =
       Some (E_None, f, ts', d')"
    "drm_hwc_layers d' = [shown_q]" "composition_planes d' = composition_planes shown_display" "hd_handle d' = 0"
    "hd_crtc d' = Some 0" 
proof -
  let ?d1 = "shown_display\<lparr> drm_hwc_layers := [shown_q] \<rparr>"
  obtain f1 where f: "planned_frame present_env0 (Some 0) [(shown_q, Some 5)] ?d1 = (0, f1)"
    using planned_frame_fields(1) [OF surjective_pairing refl] by (metis surjective_pairing)
  note p = planned_frame_fields [OF f refl, simplified]
  have "\<exists>f2. DisableUnusedPlanes (he_T comp_env0) [0] two_planes f1 = Some f2"
    by (simp add: DisableUnusedPlanes_def p)
  then obtain f2 where f2: "DisableUnusedPlanes (he_T comp_env0) [0] two_planes f1 = Some f2" by blast
  obtain k where "idles f1 (spare_planes (device_soc (he_T comp_env0)) (crtc_mask (he_T comp_env0) k) (dc_display f1) [0] two_planes) f2"
    using DisableUnusedPlanes_idles [OF f2 p(3)] by blast
  then obtain xs where x: "dc_planes f2 = dc_planes f1 @ xs" "\<forall>x \<in> set xs. fp_type x = kDisable" "dc_layers f2 = dc_layers f1"
    by (auto simp: idles_def)
  have c: "comp_layers f2 = [0]"
    using x(2) by (simp add: comp_layers_def x(1) p frame_plane_of_def filter_empty_conv)
  have l: "length (dc_layers f2) = 1" by (simp add: x(3) p)
  
  have n: "sources_ok (f2\<lparr> dc_signal := b, dc_layers := ls \<rparr>)" if "length ls = 1" for ls b
    using that c by (simp add: sources_ok_def comp_layers_def)
  have m: "sources_ok (f2\<lparr> dc_signal := False \<rparr>)" "sources_ok f2" using l c by (simp_all add: sources_ok_def comp_layers_def)
  have "\<exists>r. fence_frame present_env0 f2 (\<lambda>d. \<lparr> tl_cnt = 0, tl_now = 0 \<rparr>) ?d1 = Some r"
    using c l n n [of "dc_layers f2"] m
    by (simp add: fence_frame_def CreateAndAssignReleaseFences_def ReleaseFence_new_def IncTimeline_def Let_def upd_frame_layer_def give_fences_def give_fence_def fence_fd_def GetReleaseFence_def)
  then obtain f3 ts' d' where r: "fence_frame present_env0 f2 (\<lambda>d. \<lparr> tl_cnt = 0, tl_now = 0 \<rparr>) ?d1 = Some (f3, ts', d')"
    by (metis surjective_pairing)
  have "\<forall>l \<in> set (dc_layers f2). fl_release l = None" by (simp add: x(3) p)
  note k = fence_frame_keeps [OF r this]
  show thesis
  proof (rule that)
    show "build_frame present_env0 None caches0 (Some 0) two_planes (\<lambda>d. \<lparr> tl_cnt = 0, tl_now = 0 \<rparr>) shown_display =
       Some (E_None, SetDropMode (pe_drop present_env0) (SetDisplayHdrMode (fst (pe_hdr present_env0)) (snd (pe_hdr present_env0)) f3), ts', d')"
      by (simp add: build_frame_def shown_display_import f f2 r)
  qed (use k(3-6) in simp_all)
qed

lemma shown_places: "drm_hwc_layers d' = [shown_q] \<Longrightarrow> composition_planes d' = composition_planes shown_display \<Longrightarrow> places_ok d'"
  by (simp add: places_ok_def matched_layers_def)

lemma plan_reaches_frame_witness:
  "\<exists>f ts' d'. build_frame present_env0 None caches0 (Some 0) two_planes (\<lambda>d. \<lparr> tl_cnt = 0, tl_now = 0 \<rparr>) shown_display =
       Some (E_None, f, ts', d') \<and>
     List.map fp_plane (take 1 (dc_planes f)) = [(0, 0)] \<and> fp_plane ` set (drop 1 (dc_planes f)) = {(0, 1)}"
proof -
  obtain f ts' d' where b: "build_frame present_env0 None caches0 (Some 0) two_planes (\<lambda>d. \<lparr> tl_cnt = 0, tl_now = 0 \<rparr>) shown_display =
       Some (E_None, f, ts', d')"
    and d: "drm_hwc_layers d' = [shown_q]" "composition_planes d' = composition_planes shown_display" "hd_handle d' = 0"
    "hd_crtc d' = Some 0" using shown_build .
  have t: "he_T comp_env0 = T2" by (simp add: comp_env0_def)
  from plan_reaches_frame [OF b shown_places [OF d(1,2)] refl] b show ?thesis
    using shown_idle by (simp add: d frame_plane_of_def t spare_planes_def)
qed

text \<open>
  C38: A layer is given the fence of its own window.  Suppose \<open>CreateComposition\<close> builds a frame, the
  matched layers have the window positions \<open>0\<close> to \<open>n - 1\<close>, each once, every entry of the composition
  shows a layer at one of them, the matched layers have distinct numbers, release fences are not disabled by the property
  \<open>vendor.hwc.disable_releaseFence\<close>, and the kernel makes every fence it is asked for.  Then the
  fences of the frame are the next points of the timeline of this display, in order and without a gap,
  and the timeline counts them.  A layer of the client that the device shows gets the file descriptor
  of the fence that was made for the place in the frame which carries its number, so not that of
  another layer, and \<open>-1\<close> when that place is a second sideband stream; a layer the device does not
  show, or that no window shows, gets \<open>-1\<close>.
\<close>

theorem fences_reach_layers:
  assumes b: "build_frame P mode c vk gs ts d = Some (E_None, f, ts', d')" "places_ok d'"
    and p: "atoi (pe_pget P ''vendor.hwc.disable_releaseFence'' ''0'') = 0" "\<forall>v. pe_sync P (hd_handle d') v \<noteq> -1"
    and u: "distinct (List.map (\<lambda>q. ucast (uId q) :: u64) (matched_layers d'))"
  shows "List.map rf_value (due f) = [tl_cnt (ts (hd_handle d')) + 1 .. tl_cnt (ts' (hd_handle d'))] \<and>
    (\<forall>rf \<in> set (due f). rf_line rf = hd_handle d') \<and>
    (\<forall>(k, l) \<in> set (hd_layers d').
       (\<forall>i \<in> set (comp_layers f). validated_type (mCurrentState l) = Device \<and> ucast (uId (dc_layers f ! i)) = k \<longrightarrow>
          (if fl_sideband2 (dc_layers f ! i) then back_release_fence l = -1
           else (\<exists>rf \<in> set (due f). fl_release (dc_layers f ! i) = Some rf \<and> back_release_fence l = rf_fd rf))) \<and>
       (validated_type (mCurrentState l) \<noteq> Device \<or> (\<forall>i \<in> set (comp_layers f). ucast (uId (dc_layers f ! i)) \<noteq> k) \<longrightarrow>
          back_release_fence l = -1))"
proof -
  obtain d1 f2 f3 xs k where s: "fence_frame P f2 ts d1 = Some (f3, ts', d')"
    "f = SetDropMode (pe_drop P) (SetDisplayHdrMode (fst (pe_hdr P)) (snd (pe_hdr P)) f3)"
    "List.map fst xs = matched_layers d'" "dc_layers f2 = exchange_sort iDrmZpos (List.map (frame_layer_of P) xs)"
    "dc_display f2 = hd_handle d'"
    using build_frame_planes [OF b] by metis
  note fresh = frame_fresh [of P xs, folded s(4)]
  note ff = fence_frame_keeps [OF s(1) fresh]
  have "\<forall>v. pe_sync P (dc_display f2) v \<noteq> -1" using p(2) s(5) by simp
  note st = fence_frame_steps [OF s(1) fresh p(1) this]
  have same: "due f = due f3" "dc_layers f = dc_layers f3" "comp_layers f = comp_layers f3"
    by (simp_all add: s(2) comp_layers_def)
  let ?id = "\<lambda>i. ucast (uId (dc_layers f3 ! i)) :: u64"
  have "List.map (\<lambda>q. ucast (uId q) :: u64) (dc_layers f3) =
      List.map (\<lambda>q. ucast (uId q) :: u64) (List.map DrmHwcLayer.truncate (dc_layers f3))"
    by (simp add: DrmHwcLayer.truncate_def)
  also have "\<dots> = List.map (\<lambda>q. ucast (uId q) :: u64) (List.map DrmHwcLayer.truncate (dc_layers f2))"
    by (simp only: ff(7))
  also have "mset \<dots> = mset (List.map (\<lambda>q. ucast (uId q) :: u64) (matched_layers d'))"
    by (simp add: s(4) mset_map multiset.map_comp o_def flip: s(3))
  finally have "distinct (List.map (\<lambda>q. ucast (uId q) :: u64) (dc_layers f3))"
    using u by (metis mset_eq_imp_distinct_iff)
  then have uniq: "j = i" if "i \<in> set (comp_layers f3)" "j \<in> set (comp_layers f3)" "?id j = ?id i" for i j
    using that st(3) by (auto simp: distinct_conv_nth sources_ok_def)
  have fd: "fence_fd (?id i) f3 = Some (case fl_release (dc_layers f3 ! i) of None \<Rightarrow> -1 | Some rf \<Rightarrow> rf_fd rf)"
    if "i \<in> set (comp_layers f3)" for i
    using fence_fd_of [OF that refl st(3)] uniq [OF that] by blast
  have "List.map rf_value (due f) = [tl_cnt (ts (hd_handle d')) + 1 .. tl_cnt (ts' (hd_handle d'))]"
    "\<forall>rf \<in> set (due f). rf_line rf = hd_handle d'"
    using st(2) by (simp_all add: fences_made_def Let_def same s(5))
  moreover have "(\<forall>i \<in> set (comp_layers f). validated_type (mCurrentState l) = Device \<and> ucast (uId (dc_layers f ! i)) = k \<longrightarrow>
          (if fl_sideband2 (dc_layers f ! i) then back_release_fence l = -1
           else (\<exists>rf \<in> set (due f). fl_release (dc_layers f ! i) = Some rf \<and> back_release_fence l = rf_fd rf))) \<and>
       (validated_type (mCurrentState l) \<noteq> Device \<or> (\<forall>i \<in> set (comp_layers f). ucast (uId (dc_layers f ! i)) \<noteq> k) \<longrightarrow>
          back_release_fence l = -1)" if kl: "(k, l) \<in> set (hd_layers d')" for k l
  proof (intro conjI ballI impI; (elim conjE)?)
    fix i assume i: "i \<in> set (comp_layers f)" "validated_type (mCurrentState l) = Device" "ucast (uId (dc_layers f ! i)) = k"
    have r: "(case fl_release (dc_layers f3 ! i) of None \<Rightarrow> -1 | Some rf \<Rightarrow> rf_fd rf) = back_release_fence l"
      using give_fences_layer(1) [OF st(1) kl i(2)] fd [of i] i(1,3) by (simp add: same)
    show "if fl_sideband2 (dc_layers f ! i) then back_release_fence l = -1
           else (\<exists>rf \<in> set (due f). fl_release (dc_layers f ! i) = Some rf \<and> back_release_fence l = rf_fd rf)"
      using r st(4,5) i(1) fence_in_due [of i f3] by (cases "fl_release (dc_layers f3 ! i)") (auto simp: same)
  next
    assume a: "validated_type (mCurrentState l) \<noteq> Device \<or> (\<forall>i \<in> set (comp_layers f). ucast (uId (dc_layers f ! i)) \<noteq> k)"
    show "back_release_fence l = -1"
    proof (cases "validated_type (mCurrentState l) = Device")
      case True
      with a have "\<And>j. j \<in> set (comp_layers f3) \<Longrightarrow> ?id j \<noteq> k" by (simp add: same)
      from fence_fd_none [OF this st(3)] give_fences_layer(1) [OF st(1) kl True] show ?thesis by simp
    qed (rule give_fences_layer(2) [OF st(1) kl])
  qed
  ultimately show ?thesis by blast
qed

lemma fences_reach_layers_witness:
  "\<exists>f ts' d'. build_frame present_env0 None caches0 (Some 0) two_planes (\<lambda>d. \<lparr> tl_cnt = 0, tl_now = 0 \<rparr>) shown_display =
       Some (E_None, f, ts', d') \<and>
     List.map rf_value (due f) = [1 .. tl_cnt (ts' 0)] \<and> (\<forall>rf \<in> set (due f). rf_line rf = 0)"
proof -
  obtain f ts' d' where b: "build_frame present_env0 None caches0 (Some 0) two_planes (\<lambda>d. \<lparr> tl_cnt = 0, tl_now = 0 \<rparr>) shown_display =
       Some (E_None, f, ts', d')"
    and d: "drm_hwc_layers d' = [shown_q]" "composition_planes d' = composition_planes shown_display" "hd_handle d' = 0"
    "hd_crtc d' = Some 0" using shown_build .
  have "matched_layers d' = [shown_q]" by (simp add: matched_layers_def d)
  with fences_reach_layers [OF b shown_places [OF d(1,2)]] b show ?thesis by (simp add: d)
qed

end
