(* ===== verification/Spec2Isabelle.thy ===== *)
theory Spec2Isabelle
  imports Hwc_Debug Drm_Property Drm_Mode Drm_Plane Plane_Group Vop_Combine Vop_Match_Props
    Vop_Contract Vop_Context_Props Layer_Props Buffer_Queue_Props Rga_Formats Vop_Rga_Policies Hwc_Planner_Props
    Pipe_Limits Hwc_Frame Device_Displays Hwc_Configs Compositor_Claims Hwc_Present_Props
begin

text \<open>
  The Rockchip hardware composer (HWC2 HAL) for RK3588: the composer calls of SurfaceFlinger, the
  assignment of layers to the windows of the display controller, and the routing of displays to it.

  \<^bold>\<open>The program.\<close>  SurfaceFlinger creates layers on a display and describes each of them
  (\<open>Hwc2Layer\<close> in \<open>drmhwctwo.cpp\<close> and \<open>include/drmhwctwo.h\<close>).  \<open>ValidateDisplay\<close> turns them into
  \<open>DrmHwcLayer\<close>s (\<open>common/drmlayer.cpp\<close>), and a planner (\<open>platform/common/platform.cpp\<close>) lets the
  policy of the SoC, \<open>Vop3588\<close> (\<open>platform/rk3588/drmvop3588.cpp\<close>), decide which of them go to
  windows and which are left to the GPU, whose result is one more layer, the FB target.  The policy
  reads planes and their capabilities (\<open>drm/drmplane.cpp\<close>), grouped by hardware channel
  (\<open>PlaneGroup\<close> in \<open>include/drmplane.h\<close>), kernel properties (\<open>drm/drmproperty.cpp\<close>), display modes
  (\<open>drm/drmmode.cpp\<close>) and system properties (\<open>utils/drmdebug.cpp\<close>); some of its policies have the
  2D engine prepare a layer in a buffer of the HAL's own queue (\<open>common/drmbufferqueue.cpp\<close>).  Below
  it, \<open>DrmDevice\<close> (\<open>drm/drmdevice.cpp\<close>) numbers the connectors as displays, reads their modes and
  settings (\<open>drm/drmconnector.cpp\<close>), binds a display to a CRTC and releases it, and assigns the plane
  groups to the CRTCs (\<open>platform/rk3588/drmhwc3588.cpp\<close>).

  \<^bold>\<open>Basics.\<close>
  \<^item> \<open>Prelude\<close>: lists, the exchange loop the code sorts with, ordered maps, the hint collections.
  \<^item> \<open>Float_Round\<close>: the rounding of \<open>float\<close> and \<open>double\<close>, with its error and what is exact.
  \<^item> \<open>Sdk\<close>: constants of headers outside the repository, as the record \<open>sdk\<close>.
  \<^item> \<open>Hwc_Debug\<close>, \<open>Drm_Property\<close>, \<open>Drm_Mode\<close>, \<open>Drm_Plane\<close>, \<open>Plane_Group\<close>: one theory per
    source file, records for the classes and a definition per method.  Lemmas: values and names
    that are looked up, the exact table of windows, the migration of a group between CRTCs with its
    invariant.

  \<^bold>\<open>Layers and the policy.\<close>
  \<^item> \<open>Drm_Layer\<close>, \<open>Vop_State\<close>: the layer, the store of layers, and the state of the policy.
  \<^item> \<open>Formats\<close>, \<open>Layer_Info\<close>, \<open>Layer_Props\<close>: what \<open>DrmHwcLayer::Init\<close> derives, the setters,
    overscan, which may leave the screen by a pixel, and the exchange of a layer's buffer, which can
    be undone.
  \<^item> \<open>Vop_Combine\<close>: \<open>CombineLayer\<close>, which groups layers that can share a hardware channel, and its
    equivalence with a greedy grouping; when it does not end.
  \<^item> \<open>Vop_Match\<close>, \<open>Vop_Match_Props\<close>: \<open>MatchPlane\<close>, \<open>MatchPlanes\<close>; safety and completeness of a match.
  \<^item> \<open>Vop_Lists\<close>, \<open>Vop_Policy\<close>, \<open>Vop_Contract\<close>: the policies, and the contract they all keep
    as the locale \<open>hwc_policy\<close> with an interpretation per policy.
  \<^item> \<open>Vop_Context\<close>, \<open>Vop_Context_Props\<close>: the contexts prepared per frame, what they count and reserve.
  \<^item> \<open>Rga_Formats\<close>: which formats the 2D engine takes (\<open>utils/rgautils.cpp\<close>).
  \<^item> \<open>Buffer_Queue\<close>, \<open>Buffer_Queue_Props\<close>: the HAL's own buffers and their queue; the locale
    \<open>frame_queue\<close> is the interface of its clients.
  \<^item> \<open>Vop_Rga\<close>, \<open>Vop_Rga_Props\<close>, \<open>Vop_Rga_Policies\<close>: the policies that let the 2D engine prepare
    one layer; \<open>blit_search\<close> is the interface of the loop over the layers and its step,
    \<open>blit_policy\<close> that of the common end and the policy it matches with.
  \<^item> \<open>Hwc_Planner\<close>, \<open>Hwc_Planner_Props\<close>: \<open>TryHwcPolicy\<close>, the ladder of all policies, and the
    planner; \<open>ladder_rung\<close> is the interface of one rung.  Whatever rung is reached, its result is
    sound, and failure comes only after the policy of the GPU.

  \<^bold>\<open>The composer calls.\<close>
  \<^item> \<open>Hwc_Layer\<close>: the layer object with its setters, the descriptions of its buffers and their
    caches (\<open>resources/resourcescache.cpp\<close>), and how it becomes a \<open>DrmHwcLayer\<close>.
  \<^item> \<open>Hwc_Display\<close>, \<open>Hwc_Display_Props\<close>: the display with its map of layers, \<open>ValidateDisplay\<close> down to
    the planner, \<open>AcceptDisplayChanges\<close>, and the fences.  The map refines an abstract map.
  \<^item> \<open>Hwc_Frame\<close>: one frame through validation and policy: what is reported as shown by the device
    has a window.
  \<^item> \<open>Hwc_Present\<close>, \<open>Hwc_Present_Props\<close>: \<open>ImportBuffers\<close>, \<open>CreateComposition\<close> and \<open>PresentDisplay\<close>; the
    plan of the policy is what the compositor gets, and every layer gets the fence of its own window.
  \<^item> \<open>Hwc_Configs\<close>: the configurations of a display; which are listed and which are accepted.

  \<^bold>\<open>Displays and their routing.\<close>
  \<^item> \<open>Fake_Edid\<close>, \<open>Connector_Modes\<close>, \<open>Connector_Best\<close>, \<open>Connector_Settings\<close>: a connector's modes, the
    choice of the best one, its settings, and the identification a virtual sink gets, which a
    reader of the standard's layout reads back.
  \<^item> \<open>Device_Displays\<close>: which connector becomes which display, and the mirrors of the boot loader.
  \<^item> \<open>Display_Pipe\<close>: CRTCs, encoders, connectors and the requests to the kernel, whose answers are
    functions of the time of the call.
  \<^item> \<open>Pipe_Release\<close>, \<open>Pipe_Bind\<close>, \<open>Pipe_Mode\<close>: \<open>BindDpyRes\<close>, \<open>ReleaseDpyRes\<close>, \<open>UpdateDisplayMode\<close>,
    \<open>SetPowerMode\<close>.
  \<^item> \<open>Pipe_Routing\<close>, \<open>Pipe_Refine\<close>: the abstract routing, a step relation between displays and
    CRTCs, and the proof that every operation is one of its steps, or tears a mirror: a bind may take
    the CRTC of a mirror's primary, and says when.
  \<^item> \<open>Pipe_Props\<close>, \<open>Pipe_Live\<close>, \<open>Pipe_Claims\<close>, \<open>Pipe_Limits\<close>: no CRTC serves two displays, a bind
    lights a display that can be lit, the limits of refresh rates.
  \<^item> \<open>Assign_Plane\<close>: the table that gives windows to displays, and its masks.  Its stage \<open>Hwc3588\<close> is
    the only one of the repository: on another SoC \<open>TryAssignPlane\<close> returns -1, in the code as here.

  \<^bold>\<open>The compositor.\<close>  A thread per display takes the frames \<open>PresentDisplay\<close> queues, fills one
  atomic request per round, commits it and signals the release fences of the frames it replaces
  (\<open>rockchip/compositor\<close>).
  \<^item> \<open>Frame_Composition\<close>: a frame, the planes it disables, and its fences on the software timeline.
  \<^item> \<open>Frame_Request\<close>: the properties of every plane in the request.  \<open>Hdr_Switch\<close>: switching sinks
    into and out of HDR.  \<open>Compositor_Sideband\<close>: the state of the compositor and video streams.
  \<^item> \<open>Compositor\<close>: the queue, collecting in sequence and with dropped frames, the commit, clearing.
  \<^item> \<open>Compositor_Fences\<close>, \<open>Compositor_Balance\<close>, \<open>Compositor_Rounds\<close>: filling a request leaves the
    fences alone, and every operation keeps the sum of the counter and of the fences that are due.
  \<^item> \<open>Compositor_Order\<close>, \<open>Compositor_Fifo\<close>, \<open>Compositor_Queue\<close>: the life of a frame as a step relation,
    the order in which fences are signalled, and the bound of the queue.
  \<^item> \<open>Compositor_Request\<close>: what the kernel is asked for the planes of a frame.  \<open>Compositor_Claims\<close>: the
    frames of one display while nothing fails; no fence is signalled before its frame has left.

  \<^bold>\<open>Conventions.\<close>  Machine integers that the code masks or shifts are words of their width; C
  \<open>int\<close> counters are integers; floats are exact rationals, except where display frames are
  scaled and shrunk for overscan: there every rounding is modelled.  The conversion of a floating-point number beyond the range of an integer type
  is not undefined in \<open>equal_refresh\<close>.  Layers, planes and kernel objects live in
  stores addressed by natural numbers, since several vectors alias them.  Constants of headers that
  are not in the repository are fields of \<open>sdk\<close>, \<open>conn_sdk\<close> and \<open>formats\<close>; the property service,
  gralloc, the 2D engine, libdrm and the base parameter library are arguments.  A loop that may not
  end is a partial function into \<open>option\<close>, where \<open>None\<close> is not returning; elsewhere \<open>None\<close> is
  undefined behaviour of C++, the use of a freed request or a conversion of NaN.  No fuel is used.
  \<open>std::sort\<close> is modelled as a stable sort.

  \<^bold>\<open>Not modelled.\<close>
  \<^item> Of the compositor: write-back and flattening, with the commit functions only they use.
  \<^item> Presenting on virtual, split and e-book displays; plug and power events above \<open>DrmDevice\<close>.
  \<^item> Binding a display that already has a CRTC is modelled, but the routing theorems leave it out.
  \<^item> Workers, timers and event listeners: threads around blocking system calls.
  \<^item> Gamma, CSC and 3D look-up blobs, the gralloc wrappers, the video tunnel and the metadata
    parser: they pass data to the kernel or to vendor libraries the repository does not contain.
  \<^item> Code under \<open>USE_LIBSR\<close>, \<open>USE_LIBSVEP_MEMC\<close>, \<open>USE_LIBPQ\<close>, \<open>USE_EBOOK\<close> and \<open>RK3528\<close>, which the
    default build leaves out.  The repository has no policy for another SoC than RK3588.
  \<^item> Logging, dumps, freeing of handles and GEM references, and the truncation of names in logs.
\<close>

end
